(* ===== verification/Prelude.thy ===== *)
theory Prelude
  imports
    Main
    "HOL-Library.AList"
    "HOL-Library.Char_ord"
    "HOL-Library.List_Lexorder"
    "HOL-Library.Product_Lexorder"
begin

text \<open>
  What every component of the development shares.

  \<^item> Exceptions are values of \<open>exn\<close>; the text of a message is kept only where the code
    stores it (an error message in a job), not where it only reaches a log.
  \<^item> An operation on a state of type \<open>'s\<close> is a function of type \<open>('s, 'a) op\<close>: it
    returns the exception or the result together with the state it leaves behind, so what
    was written before an exception stays written, as in the code.
  \<^item> A Python \<open>dict\<close> is an association list in insertion order: \<open>AList.update\<close> keeps the
    place of a key that is present and appends a new one, \<open>AList.delete\<close> removes it,
    \<open>map_of\<close> looks it up.
  \<^item> \<open>sorted\<close> is the library's stable \<open>sort_key\<close>; \<open>sorted(..., reverse=True)\<close> keeps the
    original order of equal keys too, which is \<open>sorted_rev\<close> below.
  \<^item> A \<open>datetime\<close> is an \<open>int\<close>, microseconds of UTC time; a float that is only compared,
    added or multiplied is a \<open>rat\<close> where it occurs.
\<close>

subsection \<open>Exceptions and operations\<close>

type_synonym time = int

datatype exn =
    ValueError
  | KeyError
  | TypeError
  | AttributeError
  | JSONDecodeError
  | OSError
  | IntegrityError
  | QueueFullError nat int
  | PreflightError
  | RenderUnavailableError
  | CancelPreemptedError string
  | EffectValidationError
  | RuntimeError
  | ZeroDivisionError
  | OverflowError
  | AssertionError
  | CommandBuildError
  | SessionLimitError
  | SessionNotFoundError
  | SessionExpiredError
  | InvalidTransitionError
  | HTTPError nat string

type_synonym ('s, 'a) op = "'s \<Rightarrow> (exn + 'a) \<times> 's"

named_theorems op_simps \<open>how the combinators of operations run\<close>

definition ret :: "'a \<Rightarrow> ('s, 'a) op" where
  "ret x = (\<lambda>s. (Inr x, s))"

definition throw :: "exn \<Rightarrow> ('s, 'a) op" where
  "throw e = (\<lambda>s. (Inl e, s))"

definition bind_op :: "('s, 'a) op \<Rightarrow> ('a \<Rightarrow> ('s, 'b) op) \<Rightarrow> ('s, 'b) op" where
  "bind_op m f = (\<lambda>s. case m s of (Inl e, s') \<Rightarrow> (Inl e, s') | (Inr x, s') \<Rightarrow> f x s')"

definition seq_op :: "('s, 'a) op \<Rightarrow> ('s, 'b) op \<Rightarrow> ('s, 'b) op" where
  "seq_op m n = bind_op m (\<lambda>_. n)"

definition catch_op :: "('s, 'a) op \<Rightarrow> (exn \<Rightarrow> ('s, 'a) op) \<Rightarrow> ('s, 'a) op" where
  "catch_op m h = (\<lambda>s. case m s of (Inl e, s') \<Rightarrow> h e s' | (Inr x, s') \<Rightarrow> (Inr x, s'))"

definition read_op :: "('s \<Rightarrow> 'a) \<Rightarrow> ('s, 'a) op" where
  "read_op f = (\<lambda>s. (Inr (f s), s))"

definition modify_op :: "('s \<Rightarrow> 's) \<Rightarrow> ('s, unit) op" where
  "modify_op f = (\<lambda>s. (Inr (), f s))"

definition when_op :: "bool \<Rightarrow> ('s, unit) op \<Rightarrow> ('s, unit) op" where
  "when_op b m = (if b then m else ret ())"

fun for_each :: "'b list \<Rightarrow> ('b \<Rightarrow> ('s, unit) op) \<Rightarrow> ('s, unit) op" where
  "for_each [] f = ret ()"
| "for_each (x # xs) f = seq_op (f x) (for_each xs f)"

lemma ret_run [simp, op_simps]: "ret x s = (Inr x, s)"
  by (simp add: ret_def)

lemma throw_run [simp, op_simps]: "throw e s = (Inl e, s)"
  by (simp add: throw_def)

lemma read_op_run [simp, op_simps]: "read_op f s = (Inr (f s), s)"
  by (simp add: read_op_def)

lemma modify_op_run [simp, op_simps]: "modify_op f s = (Inr (), f s)"
  by (simp add: modify_op_def)

lemma bind_op_run [op_simps]:
  "bind_op m f s = (case m s of (Inl e, s') \<Rightarrow> (Inl e, s') | (Inr x, s') \<Rightarrow> f x s')"
  by (simp add: bind_op_def)

lemma bind_op_Inr [simp]: "m s = (Inr x, s') \<Longrightarrow> bind_op m f s = f x s'"
  by (simp add: bind_op_def)

lemma bind_op_Inl [simp]: "m s = (Inl e, s') \<Longrightarrow> bind_op m f s = (Inl e, s')"
  by (simp add: bind_op_def)

lemma seq_op_run [op_simps]:
  "seq_op m n s = (case m s of (Inl e, s') \<Rightarrow> (Inl e, s') | (Inr _, s') \<Rightarrow> n s')"
  by (simp add: seq_op_def bind_op_def)

lemma seq_op_Inr [simp]: "m s = (Inr x, s') \<Longrightarrow> seq_op m n s = n s'"
  by (simp add: seq_op_run)

lemma seq_op_Inl [simp]: "m s = (Inl e, s') \<Longrightarrow> seq_op m n s = (Inl e, s')"
  by (simp add: seq_op_run)

lemma catch_op_run [op_simps]:
  "catch_op m h s = (case m s of (Inl e, s') \<Rightarrow> h e s' | (Inr x, s') \<Rightarrow> (Inr x, s'))"
  by (simp add: catch_op_def)

lemma catch_op_Inr [simp]: "m s = (Inr x, s') \<Longrightarrow> catch_op m h s = (Inr x, s')"
  by (simp add: catch_op_def)

lemma catch_op_Inl [simp]: "m s = (Inl e, s') \<Longrightarrow> catch_op m h s = h e s'"
  by (simp add: catch_op_def)

lemma when_op_run [simp, op_simps]: "when_op b m s = (if b then m s else (Inr (), s))"
  by (simp add: when_op_def)

subsection \<open>Dictionaries\<close>

type_synonym ('k, 'v) dict = "('k \<times> 'v) list"

abbreviation dict_values :: "('k, 'v) dict \<Rightarrow> 'v list" where
  "dict_values d \<equiv> map snd d"

abbreviation dict_keys :: "('k, 'v) dict \<Rightarrow> 'k list" where
  "dict_keys d \<equiv> map fst d"

lemma dict_in_values:
  "distinct (dict_keys d) \<Longrightarrow> v \<in> set (dict_values d) \<longleftrightarrow> (\<exists>k. map_of d k = Some v)"
  by (force simp: map_of_eq_Some_iff)

lemma dict_set_map_of: "map_of (AList.update k v d) = (map_of d)(k \<mapsto> v)"
  by (rule AList.update_conv')

lemma dict_set_get: "map_of (AList.update k v d) j = (if j = k then Some v else map_of d j)"
  by (simp add: dict_set_map_of)

lemma dict_pop_get: "map_of (AList.delete k d) j = (if j = k then None else map_of d j)"
  by (simp add: AList.delete_conv')

lemmas dict_simps = dict_set_get dict_pop_get

text \<open>Where every entry is stored under its own key, the values have distinct keys.\<close>

lemma dict_keyed_distinct:
  assumes "distinct (dict_keys d)" and "\<And>k v. (k, v) \<in> set d \<Longrightarrow> key v = k"
  shows "distinct (map key (dict_values d))"
proof -
  have keys: "map key (dict_values d) = dict_keys d"
    using assms(2) by (induction d) auto
  show ?thesis unfolding keys by (rule assms(1))
qed

lemma dict_set_mem: "(k', v') \<in> set (AList.update k v d) \<Longrightarrow> (k', v') = (k, v) \<or> (k', v') \<in> set d"
  by (induction d) (auto split: if_splits)

lemma dict_pop_mem: "(k', v') \<in> set (AList.delete k d) \<longleftrightarrow> (k', v') \<in> set d \<and> k' \<noteq> k"
  by (auto simp: AList.delete_eq)

text \<open>A property of every entry, and distinct keys, as an invariant of a dictionary.\<close>

definition dict_all :: "('k \<Rightarrow> 'v \<Rightarrow> bool) \<Rightarrow> ('k, 'v) dict \<Rightarrow> bool" where
  "dict_all P d \<longleftrightarrow> distinct (dict_keys d) \<and> (\<forall>(k, v) \<in> set d. P k v)"

lemma dict_all_empty [simp]: "dict_all P []"
  by (simp add: dict_all_def)

lemma dict_all_set: "dict_all P d \<Longrightarrow> P k v \<Longrightarrow> dict_all P (AList.update k v d)"
  by (auto simp: dict_all_def AList.distinct_update dest!: dict_set_mem)

lemma dict_all_pop: "dict_all P d \<Longrightarrow> dict_all P (AList.delete k d)"
  by (auto simp: dict_all_def AList.distinct_delete dict_pop_mem)

lemma dict_all_get: "dict_all P d \<Longrightarrow> map_of d k = Some v \<Longrightarrow> P k v"
  by (auto simp: dict_all_def dest!: map_of_SomeD)

lemma dict_all_keys: "dict_all P d \<Longrightarrow> distinct (dict_keys d)"
  by (simp add: dict_all_def)

lemma dict_all_values:
  assumes "dict_all P d" and "\<And>k v. P k v \<Longrightarrow> key v = k"
  shows "v \<in> set (dict_values d) \<longleftrightarrow> map_of d (key v) = Some v"
  using dict_in_values [OF dict_all_keys [OF assms(1)], of v] dict_all_get [OF assms(1)] assms(2)
  by metis

subsection \<open>Sorting and slicing\<close>

definition sorted_rev :: "('a \<Rightarrow> 'k::linorder) \<Rightarrow> 'a list \<Rightarrow> 'a list" where
  "sorted_rev f xs = rev (sort_key f (rev xs))"

lemma set_sorted_rev [simp]: "set (sorted_rev f xs) = set xs"
  by (simp add: sorted_rev_def)

lemma length_sorted_rev [simp]: "length (sorted_rev f xs) = length xs"
  by (simp add: sorted_rev_def)

lemma sorted_rev_descending: "sorted_wrt (\<ge>) (map f (sorted_rev f xs))"
  by (simp add: sorted_rev_def rev_map[symmetric] sorted_wrt_rev)

lemma sort_key_filter: "sort_key f (filter P xs) = filter P (sort_key f xs)"
  by (simp add: filter_sort)

text \<open>With distinct keys the sorted list is determined by its elements.\<close>

lemma sorted_unique:
  fixes f :: "'a \<Rightarrow> 'k::linorder"
  assumes "set xs = set ys" and "distinct xs" and "distinct ys"
    and "inj_on f (set xs)" and "sorted (map f xs)" and "sorted (map f ys)"
  shows "xs = ys"
proof (rule map_inj_on)
  show "map f xs = map f ys"
    using assms by (intro sorted_distinct_set_unique) (auto simp: distinct_map)
  show "inj_on f (set xs \<union> set ys)"
    using assms(1,4) by simp
qed

lemma sort_key_unique:
  fixes f :: "'a \<Rightarrow> 'k::linorder"
  assumes "set xs = set ys" and "distinct xs" and "distinct ys" and "inj_on f (set xs)"
  shows "sort_key f xs = sort_key f ys"
  by (rule sorted_unique [where f = f]) (use assms in auto)

text \<open>
  \<open>xs[i:j]\<close>: a negative bound counts from the end, and both bounds are cut to the length.
\<close>

definition slice_bound :: "int \<Rightarrow> nat \<Rightarrow> nat" where
  "slice_bound i n =
     (if i < 0 then nat (max 0 (int n + i)) else min (nat i) n)"

definition py_slice :: "int \<Rightarrow> int \<Rightarrow> 'a list \<Rightarrow> 'a list" where
  "py_slice i j xs =
     take (slice_bound j (length xs) - slice_bound i (length xs))
       (drop (slice_bound i (length xs)) xs)"

lemma py_slice_nonneg:
  "0 \<le> i \<Longrightarrow> 0 \<le> n \<Longrightarrow> py_slice i (i + n) xs = take (nat n) (drop (nat i) xs)"
proof (cases "nat i \<le> length xs")
  case True
  assume "0 \<le> i" "0 \<le> n"
  then show ?thesis using True
    by (cases "nat i + nat n \<le> length xs")
      (auto simp: py_slice_def slice_bound_def nat_add_distrib min_def)
next
  case False
  assume "0 \<le> i" "0 \<le> n"
  then show ?thesis using False by (simp add: py_slice_def slice_bound_def)
qed

subsection \<open>Optional values\<close>

text \<open>A value with a default (\<open>d.get(k, default)\<close>, \<open>x or default\<close>), and the truth of an optional string.\<close>

definition get_or :: "'a \<Rightarrow> 'a option \<Rightarrow> 'a" where
  "get_or d v = (case v of None \<Rightarrow> d | Some x \<Rightarrow> x)"

definition given :: "string option \<Rightarrow> bool" where
  "given v = (v \<noteq> None \<and> v \<noteq> Some [])"

subsection \<open>Text\<close>

text \<open>\<open>sep.join(xs)\<close>, and \<open>text.split(sep)\<close> for a separator of one character.\<close>

fun str_join :: "string \<Rightarrow> string list \<Rightarrow> string" where
  "str_join sep [] = []"
| "str_join sep [x] = x"
| "str_join sep (x # xs) = x @ sep @ str_join sep xs"

fun str_split :: "char \<Rightarrow> string \<Rightarrow> string list" where
  "str_split sep [] = [[]]"
| "str_split sep (c # cs) =
     (if c = sep then [] # str_split sep cs
      else case str_split sep cs of [] \<Rightarrow> [[c]] | w # ws \<Rightarrow> (c # w) # ws)"

lemma str_split_nonempty [simp]: "str_split sep s \<noteq> []"
  by (cases s) (auto split: list.splits)

lemma str_split_plain: "sep \<notin> set s \<Longrightarrow> str_split sep s = [s]"
  by (induction s) auto

lemma str_split_first: "sep \<notin> set s \<Longrightarrow> str_split sep (s @ sep # t) = s # str_split sep t"
  by (induction s) auto

lemma str_split_join:
  "xs \<noteq> [] \<Longrightarrow> (\<And>x. x \<in> set xs \<Longrightarrow> sep \<notin> set x) \<Longrightarrow> str_split sep (str_join [sep] xs) = xs"
proof (induction "[sep]" xs rule: str_join.induct)
  case (3 x y ys)
  then show ?case by (simp add: str_split_first)
qed (simp_all add: str_split_plain)

subsection \<open>Decimals\<close>

definition digit :: "nat \<Rightarrow> char" where
  "digit n = char_of (48 + n)"

fun dec :: "nat \<Rightarrow> string" where
  "dec n = (if n < 10 then [digit n] else dec (n div 10) @ [digit (n mod 10)])"

declare dec.simps [simp del]

definition py_str_int :: "int \<Rightarrow> string" where
  "py_str_int i = (if i < 0 then ''-'' @ dec (nat (- i)) else dec (nat i))"

definition undec :: "string \<Rightarrow> nat" where
  "undec s = foldl (\<lambda>a c. 10 * a + (of_char c - 48)) 0 s"

lemma of_char_digit: "d < 10 \<Longrightarrow> (of_char (digit d) :: nat) = 48 + d"
  by (simp add: digit_def)

lemma undec_snoc [simp]: "undec (s @ [c]) = 10 * undec s + (of_char c - 48)"
  by (simp add: undec_def)

lemma undec_dec: "undec (dec n) = n"
proof (induction n rule: dec.induct)
  case (1 n)
  show ?case
  proof (cases "n < 10")
    case True
    then show ?thesis by (simp add: dec.simps [of n] undec_def of_char_digit)
  next
    case False
    with 1 have "undec (dec (n div 10)) = n div 10" by simp
    with False show ?thesis by (simp add: dec.simps [of n] of_char_digit)
  qed
qed

lemma dec_chars: "c \<in> set (dec n) \<Longrightarrow> 48 \<le> (of_char c :: nat) \<and> (of_char c :: nat) \<le> 57"
proof (induction n rule: dec.induct)
  case (1 n)
  then show ?case
    by (cases "n < 10") (auto simp: dec.simps [of n] of_char_digit)
qed

lemma dec_inject [simp]: "dec a = dec b \<longleftrightarrow> a = b"
  by (metis undec_dec)

lemma dec_Cons: "\<exists>c cs. dec n = c # cs \<and> 48 \<le> (of_char c :: nat) \<and> (of_char c :: nat) \<le> 57"
proof -
  have "dec n \<noteq> []" by (simp add: dec.simps [of n])
  then show ?thesis using dec_chars [of "hd (dec n)" n] by (cases "dec n") auto
qed

text \<open>Reading a decimal with an optional sign.\<close>

definition read_int :: "string \<Rightarrow> int" where
  "read_int s = (case s of CHR ''-'' # t \<Rightarrow> - int (undec t) | _ \<Rightarrow> int (undec s))"

lemma read_py_str_int: "read_int (py_str_int i) = i"
proof (cases "i < 0")
  case True
  then show ?thesis by (simp add: py_str_int_def read_int_def undec_dec)
next
  case False
  obtain c cs where c: "dec (nat i) = c # cs" "48 \<le> (of_char c :: nat)" using dec_Cons by blast
  then have "c \<noteq> CHR ''-''" by auto
  then have "read_int (dec (nat i)) = int (undec (dec (nat i)))"
    unfolding c(1) by (auto simp: read_int_def split: char.splits bool.splits)
  then show ?thesis using False by (simp add: py_str_int_def undec_dec)
qed

lemma py_str_int_chars: "c \<in> set (py_str_int i) \<Longrightarrow> c = CHR ''-'' \<or> 48 \<le> (of_char c :: nat)"
  using dec_chars by (auto simp: py_str_int_def split: if_splits)

end
