(* ===== verification/Tables.thy ===== *)
theory Tables
  imports Prelude
begin

text \<open>
  The SQL statements the SQLite repositories issue, over a table as the list of its rows in
  insertion order. Each table has a \<open>PRIMARY KEY\<close> column, read by the argument \<open>key\<close>:
  \<open>INSERT\<close> raises \<open>IntegrityError\<close> on a key that is present, \<open>SELECT ... WHERE id = ?\<close>
  yields at most one row, \<open>UPDATE\<close> and \<open>DELETE\<close> touch the rows of one key. The lemmas
  read a table as a map from keys to rows.
\<close>

definition tbl_insert :: "('r \<Rightarrow> 'k) \<Rightarrow> 'r \<Rightarrow> 'r list \<Rightarrow> exn + 'r list" where
  "tbl_insert key r rows =
     (if key r \<in> set (map key rows) then Inl IntegrityError else Inr (rows @ [r]))"

definition tbl_get :: "('r \<Rightarrow> 'k) \<Rightarrow> 'k \<Rightarrow> 'r list \<Rightarrow> 'r option" where
  "tbl_get key k rows = List.find (\<lambda>r. key r = k) rows"

definition tbl_update :: "('r \<Rightarrow> 'k) \<Rightarrow> 'k \<Rightarrow> ('r \<Rightarrow> 'r) \<Rightarrow> 'r list \<Rightarrow> 'r list" where
  "tbl_update key k f rows = map (\<lambda>r. if key r = k then f r else r) rows"

definition tbl_delete :: "('r \<Rightarrow> 'k) \<Rightarrow> 'k \<Rightarrow> 'r list \<Rightarrow> 'r list" where
  "tbl_delete key k rows = filter (\<lambda>r. key r \<noteq> k) rows"

abbreviation tbl_keys :: "('r \<Rightarrow> 'k) \<Rightarrow> 'r list \<Rightarrow> bool" where
  "tbl_keys key rows \<equiv> distinct (map key rows)"

lemma tbl_get_Some: "tbl_get key k rows = Some r \<Longrightarrow> r \<in> set rows \<and> key r = k"
  by (auto simp: tbl_get_def find_Some_iff)

lemma tbl_get_None: "tbl_get key k rows = None \<longleftrightarrow> k \<notin> key ` set rows"
  by (auto simp: tbl_get_def find_None_iff)

lemma tbl_get_iff:
  assumes "tbl_keys key rows"
  shows "tbl_get key k rows = Some r \<longleftrightarrow> r \<in> set rows \<and> key r = k"
proof
  assume rk: "r \<in> set rows \<and> key r = k"
  then obtain q where q: "tbl_get key k rows = Some q"
    using tbl_get_None [of key k rows] by (cases "tbl_get key k rows") auto
  then have "q \<in> set rows" and "key q = key r"
    using tbl_get_Some rk by (fastforce, fastforce)
  with assms rk have "q = r"
    by (auto simp: distinct_map dest: inj_onD)
  with q show "tbl_get key k rows = Some r" by simp
qed (rule tbl_get_Some)

lemma tbl_insert_Inr:
  "tbl_insert key r rows = Inr rows' \<longleftrightarrow> tbl_get key (key r) rows = None \<and> rows' = rows @ [r]"
  by (auto simp: tbl_insert_def tbl_get_None)

lemma tbl_get_append:
  "tbl_get key k (rows @ [r]) =
     (case tbl_get key k rows of Some q \<Rightarrow> Some q
      | None \<Rightarrow> if key r = k then Some r else None)"
  by (induction rows) (auto simp: tbl_get_def)

lemma tbl_get_update:
  assumes "\<And>r. key (f r) = key r"
  shows "tbl_get key j (tbl_update key k f rows) =
     (if j = k then map_option f (tbl_get key k rows) else tbl_get key j rows)"
  using assms by (induction rows) (auto simp: tbl_get_def tbl_update_def)

lemma tbl_get_delete:
  "tbl_get key j (tbl_delete key k rows) = (if j = k then None else tbl_get key j rows)"
  by (induction rows) (auto simp: tbl_get_def tbl_delete_def)

lemma tbl_get_filter:
  assumes "tbl_keys key rows"
  shows "tbl_get key k (filter P rows) = Some r \<longleftrightarrow> tbl_get key k rows = Some r \<and> P r"
  using assms by (auto simp: tbl_get_iff distinct_map_filter)

lemma tbl_keys_append: "tbl_keys key (rows @ [r]) \<longleftrightarrow> tbl_keys key rows \<and> tbl_get key (key r) rows = None"
  by (auto simp: tbl_get_None)

lemma map_key_update: "(\<And>r. key (f r) = key r) \<Longrightarrow> map key (tbl_update key k f rows) = map key rows"
  by (simp add: tbl_update_def comp_def)

lemma tbl_keys_update: "(\<And>r. key (f r) = key r) \<Longrightarrow> tbl_keys key rows \<Longrightarrow> tbl_keys key (tbl_update key k f rows)"
  by (metis map_key_update)

lemma tbl_keys_delete: "tbl_keys key rows \<Longrightarrow> tbl_keys key (tbl_delete key k rows)"
  by (simp add: tbl_delete_def distinct_map_filter)

lemma set_tbl_update: "set (tbl_update key k f rows) =
    {r \<in> set rows. key r \<noteq> k} \<union> f ` {r \<in> set rows. key r = k}"
  by (auto simp: tbl_update_def)

lemma set_tbl_delete: "set (tbl_delete key k rows) = {r \<in> set rows. key r \<noteq> k}"
  by (auto simp: tbl_delete_def)

lemmas tbl_lookup_simps = tbl_get_append tbl_get_update tbl_get_delete

text \<open>The rows that satisfy a condition, as \<open>SELECT ... WHERE ... ORDER BY ...\<close> lists them.\<close>

definition tbl_select :: "('r \<Rightarrow> bool) \<Rightarrow> ('r \<Rightarrow> 'o::linorder) \<Rightarrow> 'r list \<Rightarrow> 'r list" where
  "tbl_select P ord rows = sort_key ord (filter P rows)"

lemma set_tbl_select [simp]: "set (tbl_select P ord rows) = {r \<in> set rows. P r}"
  by (auto simp: tbl_select_def)

lemma tbl_select_sorted [simp]: "sorted (map ord (tbl_select P ord rows))"
  by (simp add: tbl_select_def)

lemma tbl_select_keys: "tbl_keys key rows \<Longrightarrow> distinct (map key (tbl_select P ord rows))"
  by (auto simp: tbl_select_def distinct_map intro: inj_on_subset)

text \<open>
  \<open>LIMIT l OFFSET o\<close>: a negative limit is no limit, a negative offset is none.
\<close>

definition sql_limit :: "int \<Rightarrow> int \<Rightarrow> 'r list \<Rightarrow> 'r list" where
  "sql_limit l o' rows =
     (let rest = drop (nat o') rows in if l < 0 then rest else take (nat l) rest)"

lemma sql_limit_slice: "0 \<le> l \<Longrightarrow> 0 \<le> off \<Longrightarrow> sql_limit l off xs = py_slice off (off + l) xs"
  by (simp add: sql_limit_def py_slice_nonneg)

text \<open>Decoding every row of a result; the first row that does not decode raises.\<close>

fun decode_rows :: "('r \<Rightarrow> exn + 'a) \<Rightarrow> 'r list \<Rightarrow> exn + 'a list" where
  "decode_rows f [] = Inr []"
| "decode_rows f (r # rs) =
     (case f r of Inl e \<Rightarrow> Inl e
      | Inr x \<Rightarrow> (case decode_rows f rs of Inl e \<Rightarrow> Inl e | Inr xs \<Rightarrow> Inr (x # xs)))"

lemma decode_rows_all: "(\<And>r. r \<in> set rs \<Longrightarrow> f r = Inr (g r)) \<Longrightarrow> decode_rows f rs = Inr (map g rs)"
  by (induction rs) auto

end
