(* ===== verification/Render_Models.thy ===== *)
theory Render_Models
  imports Prelude Complex_Main
begin

text \<open>
  Render jobs and their life cycle, from \<open>src/stoat_ferret/render/models.py\<close>: the status
  enum with its table of transitions, the \<open>RenderJob\<close> data class and its methods. A method
  takes the reading of \<open>datetime.now\<close> as its argument \<open>now\<close>, and returns the
  \<open>ValueError\<close> or the updated job. Progress is a \<open>rat\<close>: the code only compares it and
  stores it.
\<close>

subsection \<open>Statuses and transitions\<close>

datatype render_status =
  R_QUEUED | R_RUNNING | R_COMPLETED | R_FAILED | R_CANCELLED | R_QC_FAILED

datatype output_format = MP4 | WEBM | MOV | MKV

datatype quality_preset = DRAFT | STANDARD | HIGH

fun rs_value :: "render_status \<Rightarrow> string" where
  "rs_value R_QUEUED = ''queued''"
| "rs_value R_RUNNING = ''running''"
| "rs_value R_COMPLETED = ''completed''"
| "rs_value R_FAILED = ''failed''"
| "rs_value R_CANCELLED = ''cancelled''"
| "rs_value R_QC_FAILED = ''qc_failed''"

fun of_value :: "output_format \<Rightarrow> string" where
  "of_value MP4 = ''mp4''"
| "of_value WEBM = ''webm''"
| "of_value MOV = ''mov''"
| "of_value MKV = ''mkv''"

fun qp_value :: "quality_preset \<Rightarrow> string" where
  "qp_value DRAFT = ''draft''"
| "qp_value STANDARD = ''standard''"
| "qp_value HIGH = ''high''"

text \<open>\<open>RenderStatus(v)\<close>: the member with that value, or \<open>ValueError\<close>.\<close>

definition enum_of_value :: "('e \<Rightarrow> string) \<Rightarrow> 'e list \<Rightarrow> string \<Rightarrow> exn + 'e" where
  "enum_of_value f ms v =
     (case List.find (\<lambda>m. f m = v) ms of None \<Rightarrow> Inl ValueError | Some m \<Rightarrow> Inr m)"

definition rs_of_value :: "string \<Rightarrow> exn + render_status" where
  "rs_of_value = enum_of_value rs_value
     [R_QUEUED, R_RUNNING, R_COMPLETED, R_FAILED, R_CANCELLED, R_QC_FAILED]"

definition of_of_value :: "string \<Rightarrow> exn + output_format" where
  "of_of_value = enum_of_value of_value [MP4, WEBM, MOV, MKV]"

definition qp_of_value :: "string \<Rightarrow> exn + quality_preset" where
  "qp_of_value = enum_of_value qp_value [DRAFT, STANDARD, HIGH]"

lemma rs_roundtrip [simp]: "rs_of_value (rs_value st) = Inr st"
  by (cases st) (simp_all add: rs_of_value_def enum_of_value_def)

lemma of_roundtrip [simp]: "of_of_value (of_value f) = Inr f"
  by (cases f) (simp_all add: of_of_value_def enum_of_value_def)

lemma qp_roundtrip [simp]: "qp_of_value (qp_value q) = Inr q"
  by (cases q) (simp_all add: qp_of_value_def enum_of_value_def)

lemma rs_value_eq [simp]: "rs_value a = rs_value b \<longleftrightarrow> a = b"
  by (metis Inr_inject rs_roundtrip)

text \<open>\<open>_VALID_TRANSITIONS\<close>, keyed by the status strings as in the code.\<close>

definition valid_transitions :: "(string, string list) dict" where
  "valid_transitions =
     [(''queued'', [''running'', ''cancelled'']),
      (''running'', [''completed'', ''failed'', ''cancelled'', ''qc_failed'']),
      (''failed'', [''queued'']),
      (''completed'', [''qc_failed'']),
      (''cancelled'', []),
      (''qc_failed'', [])]"

definition validate_render_transition :: "string \<Rightarrow> string \<Rightarrow> exn + unit" where
  "validate_render_transition current new =
     (let allowed = (case map_of valid_transitions current of None \<Rightarrow> [] | Some a \<Rightarrow> a)
      in if new \<in> set allowed then Inr () else Inl ValueError)"

text \<open>The life cycle as a step relation, one rule per arrow of the table.\<close>

inductive render_step :: "render_status \<Rightarrow> render_status \<Rightarrow> bool" where
  start: "render_step R_QUEUED R_RUNNING"
| cancel_queued: "render_step R_QUEUED R_CANCELLED"
| finish: "render_step R_RUNNING R_COMPLETED"
| break: "render_step R_RUNNING R_FAILED"
| cancel_running: "render_step R_RUNNING R_CANCELLED"
| qc_running: "render_step R_RUNNING R_QC_FAILED"
| requeue: "render_step R_FAILED R_QUEUED"
| qc_completed: "render_step R_COMPLETED R_QC_FAILED"

inductive_simps render_step_from [simp]:
  "render_step R_QUEUED b" "render_step R_RUNNING b" "render_step R_FAILED b"
  "render_step R_COMPLETED b" "render_step R_CANCELLED b" "render_step R_QC_FAILED b"

inductive_cases render_stepE: "render_step a b"

code_pred render_step .

text \<open>The call every method makes, on the values of the two members.\<close>

definition check_transition :: "render_status \<Rightarrow> render_status \<Rightarrow> exn + unit" where
  "check_transition a b = validate_render_transition (rs_value a) (rs_value b)"

lemma check_transition_step:
  "check_transition a b = (if render_step a b then Inr () else Inl ValueError)"
  by (cases a; cases b)
    (simp_all add: check_transition_def validate_render_transition_def valid_transitions_def)

definition terminal :: "render_status \<Rightarrow> bool" where
  "terminal st \<longleftrightarrow> st \<in> {R_COMPLETED, R_FAILED, R_CANCELLED, R_QC_FAILED}"

lemma terminal_simps [simp]:
  "\<not> terminal R_QUEUED" "\<not> terminal R_RUNNING" "terminal R_COMPLETED" "terminal R_FAILED"
  "terminal R_CANCELLED" "terminal R_QC_FAILED"
  by (simp_all add: terminal_def)

subsection \<open>Render jobs\<close>

record render_job =
  rj_id :: string
  rj_project_id :: string
  rj_status :: render_status
  rj_output_path :: string
  rj_output_format :: output_format
  rj_quality_preset :: quality_preset
  rj_render_plan :: string
  rj_progress :: rat
  rj_error_message :: "string option"
  rj_retry_count :: int
  rj_created_at :: time
  rj_updated_at :: time
  rj_completed_at :: "time option"
  rj_partial_file_detected :: bool
  rj_evidence_json :: "string option"

definition rj_create ::
  "string \<Rightarrow> time \<Rightarrow> string \<Rightarrow> string \<Rightarrow> output_format \<Rightarrow> quality_preset \<Rightarrow> string \<Rightarrow> render_job"
where
  "rj_create uuid now project_id output_path fmt preset plan =
     \<lparr>rj_id = uuid, rj_project_id = project_id, rj_status = R_QUEUED,
      rj_output_path = output_path, rj_output_format = fmt, rj_quality_preset = preset,
      rj_render_plan = plan, rj_progress = 0, rj_error_message = None, rj_retry_count = 0,
      rj_created_at = now, rj_updated_at = now, rj_completed_at = None,
      rj_partial_file_detected = False, rj_evidence_json = None\<rparr>"

definition rj_update_progress :: "time \<Rightarrow> rat \<Rightarrow> render_job \<Rightarrow> exn + render_job" where
  "rj_update_progress now p j =
     (if \<not> (0 \<le> p \<and> p \<le> 1) then Inl ValueError
      else Inr (j\<lparr>rj_progress := p, rj_updated_at := now\<rparr>))"

definition rj_complete :: "time \<Rightarrow> render_job \<Rightarrow> exn + render_job" where
  "rj_complete now j =
     (case check_transition (rj_status j) R_COMPLETED of
        Inl e \<Rightarrow> Inl e
      | Inr _ \<Rightarrow> Inr (j\<lparr>rj_status := R_COMPLETED, rj_progress := 1, rj_updated_at := now,
                      rj_completed_at := Some now\<rparr>))"

definition rj_fail :: "time \<Rightarrow> string \<Rightarrow> render_job \<Rightarrow> exn + render_job" where
  "rj_fail now msg j =
     (case check_transition (rj_status j) R_FAILED of
        Inl e \<Rightarrow> Inl e
      | Inr _ \<Rightarrow> Inr (j\<lparr>rj_status := R_FAILED, rj_error_message := Some msg,
                      rj_updated_at := now, rj_completed_at := Some now\<rparr>))"

definition rj_retry :: "time \<Rightarrow> render_job \<Rightarrow> exn + render_job" where
  "rj_retry now j =
     (case check_transition (rj_status j) R_QUEUED of
        Inl e \<Rightarrow> Inl e
      | Inr _ \<Rightarrow> Inr (j\<lparr>rj_status := R_QUEUED, rj_progress := 0, rj_error_message := None,
                      rj_retry_count := rj_retry_count j + 1, rj_updated_at := now,
                      rj_completed_at := None\<rparr>))"

definition rj_cancel :: "time \<Rightarrow> render_job \<Rightarrow> exn + render_job" where
  "rj_cancel now j =
     (case check_transition (rj_status j) R_CANCELLED of
        Inl e \<Rightarrow> Inl e
      | Inr _ \<Rightarrow> Inr (j\<lparr>rj_status := R_CANCELLED, rj_error_message := None,
                      rj_updated_at := now, rj_completed_at := Some now\<rparr>))"

lemmas rj_method_defs =
  rj_update_progress_def rj_complete_def rj_fail_def rj_retry_def rj_cancel_def

subsection \<open>Well-formed jobs\<close>

text \<open>
  What the fields owe each other: the progress is a fraction, a job has a completion time
  exactly in a terminal status, and a job that waits or runs carries no error.
\<close>

definition wf_job :: "render_job \<Rightarrow> bool" where
  "wf_job j \<longleftrightarrow> 0 \<le> rj_progress j \<and> rj_progress j \<le> 1 \<and> 0 \<le> rj_retry_count j
     \<and> (rj_completed_at j \<noteq> None \<longleftrightarrow> terminal (rj_status j))
     \<and> (rj_status j \<in> {R_QUEUED, R_RUNNING} \<longrightarrow> rj_error_message j = None)"

lemma wf_create [simp]: "wf_job (rj_create u now p out fmt preset plan)"
  by (simp add: wf_job_def rj_create_def)

text \<open>The methods of the class as one type of call, for statements about every method.\<close>

datatype job_call = CallProgress rat | CallComplete | CallFail string | CallRetry | CallCancel

fun run_call :: "time \<Rightarrow> job_call \<Rightarrow> render_job \<Rightarrow> exn + render_job" where
  "run_call now (CallProgress p) j = rj_update_progress now p j"
| "run_call now CallComplete j = rj_complete now j"
| "run_call now (CallFail msg) j = rj_fail now msg j"
| "run_call now CallRetry j = rj_retry now j"
| "run_call now CallCancel j = rj_cancel now j"

fun_cases job_call_progressE: "run_call now (CallProgress p) j = Inr j'"

lemma job_call_wf:
  assumes "wf_job j" and "run_call now c j = Inr j'"
  shows "wf_job j'"
  using assms by (cases c) (auto simp: rj_method_defs check_transition_step wf_job_def split: if_splits)

lemma job_call_status:
  assumes "run_call now c j = Inr j'"
  shows "rj_status j' = rj_status j \<or> render_step (rj_status j) (rj_status j')"
  using assms by (cases c) (auto simp: rj_method_defs check_transition_step split: if_splits)

lemma job_call_frame:
  assumes "run_call now c j = Inr j'"
  shows "rj_id j' = rj_id j \<and> rj_project_id j' = rj_project_id j
    \<and> rj_created_at j' = rj_created_at j \<and> rj_render_plan j' = rj_render_plan j"
  using assms by (cases c) (auto simp: rj_method_defs check_transition_step split: if_splits)

text \<open>A sequence of calls; a call that raises leaves the job as it is and the caller goes on.\<close>

fun job_calls :: "(time \<times> job_call) list \<Rightarrow> render_job \<Rightarrow> render_job" where
  "job_calls [] j = j"
| "job_calls ((now, c) # cs) j =
     job_calls cs (case run_call now c j of Inl _ \<Rightarrow> j | Inr j' \<Rightarrow> j')"

lemma job_calls_wf: "wf_job j \<Longrightarrow> wf_job (job_calls cs j)"
  by (induction cs j rule: job_calls.induct) (auto split: sum.splits dest: job_call_wf)

lemma job_calls_reach: "render_step\<^sup>*\<^sup>* (rj_status j) (rj_status (job_calls cs j))"
proof (induction cs j rule: job_calls.induct)
  case (2 now c cs j)
  then show ?case
    by (cases "run_call now c j")
      (auto dest!: job_call_status intro: converse_rtranclp_into_rtranclp)
qed simp

subsection \<open>How long a job can live\<close>

text \<open>
  A run of statuses is a list whose neighbours are steps. Only the retry arrow leads back
  to the queue, so the retries bound the length of a run.
\<close>

fun status_run :: "render_status list \<Rightarrow> bool" where
  "status_run (a # b # sts) \<longleftrightarrow> render_step a b \<and> status_run (b # sts)"
| "status_run _ \<longleftrightarrow> True"

fun retries :: "render_status list \<Rightarrow> nat" where
  "retries (a # b # sts) =
     (if a = R_FAILED \<and> b = R_QUEUED then 1 else 0) + retries (b # sts)"
| "retries _ = 0"

fun steps_left :: "render_status \<Rightarrow> nat" where
  "steps_left R_QUEUED = 3"
| "steps_left R_RUNNING = 2"
| "steps_left R_COMPLETED = 1"
| "steps_left R_FAILED = 1"
| "steps_left _ = 0"

lemma status_run_bound:
  "status_run (a # sts) \<Longrightarrow> length sts \<le> steps_left a + 3 * retries (a # sts)"
proof (induction sts arbitrary: a)
  case (Cons b sts)
  then have "length sts \<le> steps_left b + 3 * retries (b # sts)" and "render_step a b"
    by auto
  then show ?case
    by (auto elim!: render_stepE)
qed simp

text \<open>A new job for the witnesses.\<close>

definition demo_job :: "string \<Rightarrow> time \<Rightarrow> render_job" where
  "demo_job k t = rj_create k t ''p1'' ''/out/a.mp4'' MP4 STANDARD ''{}''"

lemma demo_job_sel [simp]:
  "rj_id (demo_job k t) = k" "rj_created_at (demo_job k t) = t"
  "rj_status (demo_job k t) = R_QUEUED" "wf_job (demo_job k t)"
  "\<not> rj_partial_file_detected (demo_job k t)"
  by (simp_all add: demo_job_def) (simp_all add: rj_create_def)

subsection \<open>Properties\<close>

text \<open>
  \<open>validate_render_transition\<close> accepts exactly the arrows of the life cycle, and refuses
  every pair in which a string is no status.
\<close>

theorem validate_render_transition_exact:
  "validate_render_transition current new = Inr () \<longleftrightarrow>
     (\<exists>a b. current = rs_value a \<and> new = rs_value b \<and> render_step a b)"
proof
  assume "validate_render_transition current new = Inr ()"
  then have "(current, new) \<in> (\<lambda>(a, b). (rs_value a, rs_value b)) `
      {(R_QUEUED, R_RUNNING), (R_QUEUED, R_CANCELLED), (R_RUNNING, R_COMPLETED),
       (R_RUNNING, R_FAILED), (R_RUNNING, R_CANCELLED), (R_RUNNING, R_QC_FAILED),
       (R_FAILED, R_QUEUED), (R_COMPLETED, R_QC_FAILED)}"
    by (auto simp: validate_render_transition_def valid_transitions_def split: if_splits)
  then show "\<exists>a b. current = rs_value a \<and> new = rs_value b \<and> render_step a b"
    by (auto simp del: rs_value.simps)
next
  assume "\<exists>a b. current = rs_value a \<and> new = rs_value b \<and> render_step a b"
  then show "validate_render_transition current new = Inr ()"
    using check_transition_step by (fastforce simp: check_transition_def)
qed

text \<open>
  Whatever methods are called on a new job, in any order and with any arguments, its
  fields stay consistent, its identity does not change, and its status moves along the life
  cycle; a call that raises changes nothing.
\<close>

theorem render_job_methods_sound:
  "wf_job (job_calls cs (rj_create u now p out fmt preset plan)) \<and>
   rj_id (job_calls cs (rj_create u now p out fmt preset plan)) = u \<and>
   render_step\<^sup>*\<^sup>* R_QUEUED (rj_status (job_calls cs (rj_create u now p out fmt preset plan)))"
proof -
  have "rj_id (job_calls cs j) = rj_id j" for j
    by (induction cs j rule: job_calls.induct) (auto split: sum.splits dest: job_call_frame)
  then show ?thesis
    using job_calls_reach [of "rj_create u now p out fmt preset plan" cs] job_calls_wf
    by (simp add: rj_create_def [of u] wf_job_def [of "rj_create u now p out fmt preset plan"])
      (metis rj_create_def wf_create)
qed

text \<open>
  A job that starts in the queue makes at most three transitions, and three more for
  each retry: only retrying keeps a job alive.
\<close>

theorem job_life_bounded:
  "status_run (R_QUEUED # sts) \<Longrightarrow> length sts \<le> 3 * (retries (R_QUEUED # sts) + 1)"
  using status_run_bound [of R_QUEUED sts] by simp

theorem job_life_bounded_witness:
  "status_run (R_QUEUED # [R_RUNNING, R_FAILED, R_QUEUED, R_RUNNING, R_COMPLETED, R_QC_FAILED]) \<and>
   length [R_RUNNING, R_FAILED, R_QUEUED, R_RUNNING, R_COMPLETED, R_QC_FAILED]
     \<le> 3 * (retries (R_QUEUED # [R_RUNNING, R_FAILED, R_QUEUED, R_RUNNING, R_COMPLETED, R_QC_FAILED]) + 1)"
proof -
  have "status_run (R_QUEUED # [R_RUNNING, R_FAILED, R_QUEUED, R_RUNNING, R_COMPLETED, R_QC_FAILED])"
    by simp
  from job_life_bounded [OF this] this show ?thesis by simp
qed

end
