(* ===== verification/Render_Repository.thy ===== *)
theory Render_Repository
  imports Tables Render_Models
begin

text \<open>
  The render job repositories, from \<open>src/stoat_ferret/render/render_repository.py\<close>. The
  \<open>AsyncRenderRepository\<close> protocol is the record of operations \<open>render_repo\<close>; its contract is
  the locale \<open>render_repository\<close>, against the abstract state "a map from ids to jobs". Both
  implementations are models of the code and both are interpreted: \<open>mem_repo\<close> is the dictionary
  of \<open>InMemoryRenderRepository\<close>, \<open>sql_repo\<close> the table of \<open>AsyncSQLiteRenderRepository\<close>.

  A row stores the values of the enums and the 0/1 flag as the code binds them; a date column
  holds the date itself, because \<open>isoformat\<close> of UTC dates is injective and orders as the dates do.
  An awaited repository call is one atomic step here: interleavings are the subject of the
  theories that need them.
\<close>

subsection \<open>The protocol\<close>

record 's render_repo =
  rr_create :: "render_job \<Rightarrow> ('s, render_job) op"
  rr_get :: "string \<Rightarrow> ('s, render_job option) op"
  rr_get_by_project :: "string \<Rightarrow> ('s, render_job list) op"
  rr_list_by_status :: "render_status \<Rightarrow> ('s, render_job list) op"
  rr_list_jobs :: "render_status option \<Rightarrow> int \<Rightarrow> int \<Rightarrow> ('s, render_job list \<times> nat) op"
  rr_update_status :: "time \<Rightarrow> string \<Rightarrow> render_status \<Rightarrow> string option \<Rightarrow> ('s, unit) op"
  rr_update_progress :: "time \<Rightarrow> string \<Rightarrow> rat \<Rightarrow> ('s, unit) op"
  rr_list_stale_running :: "time \<Rightarrow> ('s, render_job list) op"
  rr_update_partial_signal :: "string \<Rightarrow> bool \<Rightarrow> ('s, unit) op"
  rr_update_evidence :: "string \<Rightarrow> string \<Rightarrow> ('s, unit) op"
  rr_delete :: "string \<Rightarrow> ('s, bool) op"

subsection \<open>The in-memory implementation\<close>

type_synonym mem_jobs = "(string, render_job) dict"

definition mem_create :: "render_job \<Rightarrow> (mem_jobs, render_job) op" where
  "mem_create j d = (Inr j, AList.update (rj_id j) j d)"

definition mem_get :: "string \<Rightarrow> (mem_jobs, render_job option) op" where
  "mem_get k d = (Inr (map_of d k), d)"

definition mem_get_by_project :: "string \<Rightarrow> (mem_jobs, render_job list) op" where
  "mem_get_by_project p d =
     (Inr (sort_key rj_created_at (filter (\<lambda>j. rj_project_id j = p) (dict_values d))), d)"

definition mem_list_by_status :: "render_status \<Rightarrow> (mem_jobs, render_job list) op" where
  "mem_list_by_status st d =
     (Inr (sort_key rj_created_at (filter (\<lambda>j. rj_status j = st) (dict_values d))), d)"

definition mem_list_jobs ::
  "render_status option \<Rightarrow> int \<Rightarrow> int \<Rightarrow> (mem_jobs, render_job list \<times> nat) op" where
  "mem_list_jobs st limit offset d =
     (let all_jobs = sorted_rev rj_created_at (dict_values d);
          sel = (case st of None \<Rightarrow> all_jobs | Some v \<Rightarrow> filter (\<lambda>j. rj_status j = v) all_jobs)
      in (Inr (py_slice offset (offset + limit) sel, length sel), d))"

text \<open>The assignments of \<open>update_status\<close> after the transition has been validated.\<close>

definition mem_set_status ::
  "time \<Rightarrow> render_status \<Rightarrow> string option \<Rightarrow> render_job \<Rightarrow> render_job" where
  "mem_set_status now st em j =
     (let j1 =
        (if st = R_QUEUED then
           j\<lparr>rj_retry_count := rj_retry_count j + 1, rj_progress := 0,
             rj_error_message := None, rj_completed_at := None\<rparr>
         else if st = R_COMPLETED then j\<lparr>rj_progress := 1, rj_completed_at := Some now\<rparr>
         else if st \<in> {R_FAILED, R_QC_FAILED} then
           j\<lparr>rj_error_message := em, rj_completed_at := Some now\<rparr>
         else if st = R_CANCELLED then
           j\<lparr>rj_error_message := None, rj_completed_at := Some now\<rparr>
         else j\<lparr>rj_error_message := em\<rparr>)
      in j1\<lparr>rj_status := st, rj_updated_at := now\<rparr>)"

definition mem_update_status ::
  "time \<Rightarrow> string \<Rightarrow> render_status \<Rightarrow> string option \<Rightarrow> (mem_jobs, unit) op" where
  "mem_update_status now k st em d =
     (case map_of d k of
        None \<Rightarrow> (Inl ValueError, d)
      | Some j \<Rightarrow>
          (case check_transition (rj_status j) st of
             Inl e \<Rightarrow> (Inl e, d)
           | Inr _ \<Rightarrow> (Inr (), AList.update k (mem_set_status now st em j) d)))"

definition mem_update_progress :: "time \<Rightarrow> string \<Rightarrow> rat \<Rightarrow> (mem_jobs, unit) op" where
  "mem_update_progress now k p d =
     (if \<not> (0 \<le> p \<and> p \<le> 1) then (Inl ValueError, d)
      else case map_of d k of
             None \<Rightarrow> (Inl ValueError, d)
           | Some j \<Rightarrow> (Inr (), AList.update k (j\<lparr>rj_progress := p, rj_updated_at := now\<rparr>) d))"

definition mem_list_stale_running :: "time \<Rightarrow> (mem_jobs, render_job list) op" where
  "mem_list_stale_running older_than d =
     (Inr (filter (\<lambda>j. rj_status j = R_RUNNING \<and> rj_updated_at j < older_than)
             (dict_values d)), d)"

definition mem_update_partial_signal :: "string \<Rightarrow> bool \<Rightarrow> (mem_jobs, unit) op" where
  "mem_update_partial_signal k detected d =
     (case map_of d k of
        None \<Rightarrow> (Inl ValueError, d)
      | Some j \<Rightarrow> (Inr (), AList.update k (j\<lparr>rj_partial_file_detected := detected\<rparr>) d))"

definition mem_update_evidence :: "string \<Rightarrow> string \<Rightarrow> (mem_jobs, unit) op" where
  "mem_update_evidence k ev d =
     (case map_of d k of
        None \<Rightarrow> (Inl ValueError, d)
      | Some j \<Rightarrow> (Inr (), AList.update k (j\<lparr>rj_evidence_json := Some ev\<rparr>) d))"

definition mem_delete :: "string \<Rightarrow> (mem_jobs, bool) op" where
  "mem_delete k d =
     (if k \<in> set (dict_keys d) then (Inr True, AList.delete k d) else (Inr False, d))"

definition mem_repo :: "mem_jobs render_repo" where
  "mem_repo =
     \<lparr>rr_create = mem_create, rr_get = mem_get, rr_get_by_project = mem_get_by_project,
      rr_list_by_status = mem_list_by_status, rr_list_jobs = mem_list_jobs,
      rr_update_status = mem_update_status, rr_update_progress = mem_update_progress,
      rr_list_stale_running = mem_list_stale_running,
      rr_update_partial_signal = mem_update_partial_signal,
      rr_update_evidence = mem_update_evidence, rr_delete = mem_delete\<rparr>"

subsection \<open>The SQLite implementation\<close>

record render_row =
  rw_id :: string
  rw_project_id :: string
  rw_status :: string
  rw_output_path :: string
  rw_output_format :: string
  rw_quality_preset :: string
  rw_render_plan :: string
  rw_progress :: rat
  rw_error_message :: "string option"
  rw_retry_count :: int
  rw_created_at :: time
  rw_updated_at :: time
  rw_completed_at :: "time option"
  rw_partial_file_detected :: int
  rw_evidence_json :: "string option"

type_synonym sql_jobs = "render_row list"

text \<open>
  The row an \<open>INSERT\<close> makes: the statement names no \<open>partial_file_detected\<close> column, so that
  column takes its default 0.
\<close>

definition job_to_row :: "render_job \<Rightarrow> render_row" where
  "job_to_row j =
     \<lparr>rw_id = rj_id j, rw_project_id = rj_project_id j, rw_status = rs_value (rj_status j),
      rw_output_path = rj_output_path j, rw_output_format = of_value (rj_output_format j),
      rw_quality_preset = qp_value (rj_quality_preset j), rw_render_plan = rj_render_plan j,
      rw_progress = rj_progress j, rw_error_message = rj_error_message j,
      rw_retry_count = rj_retry_count j, rw_created_at = rj_created_at j,
      rw_updated_at = rj_updated_at j, rw_completed_at = rj_completed_at j,
      rw_partial_file_detected = 0, rw_evidence_json = rj_evidence_json j\<rparr>"

definition row_to_job :: "render_row \<Rightarrow> exn + render_job" where
  "row_to_job r =
     (case rs_of_value (rw_status r) of Inl e \<Rightarrow> Inl e | Inr st \<Rightarrow>
      (case of_of_value (rw_output_format r) of Inl e \<Rightarrow> Inl e | Inr fmt \<Rightarrow>
      (case qp_of_value (rw_quality_preset r) of Inl e \<Rightarrow> Inl e | Inr qp \<Rightarrow>
         Inr \<lparr>rj_id = rw_id r, rj_project_id = rw_project_id r, rj_status = st,
              rj_output_path = rw_output_path r, rj_output_format = fmt,
              rj_quality_preset = qp, rj_render_plan = rw_render_plan r,
              rj_progress = rw_progress r, rj_error_message = rw_error_message r,
              rj_retry_count = rw_retry_count r, rj_created_at = rw_created_at r,
              rj_updated_at = rw_updated_at r, rj_completed_at = rw_completed_at r,
              rj_partial_file_detected = (rw_partial_file_detected r \<noteq> 0),
              rj_evidence_json = rw_evidence_json r\<rparr>)))"

definition sql_create :: "render_job \<Rightarrow> (sql_jobs, render_job) op" where
  "sql_create j rows =
     (case tbl_insert rw_id (job_to_row j) rows of
        Inl e \<Rightarrow> (Inl e, rows) | Inr rows' \<Rightarrow> (Inr j, rows'))"

definition sql_get :: "string \<Rightarrow> (sql_jobs, render_job option) op" where
  "sql_get k rows =
     (case tbl_get rw_id k rows of
        None \<Rightarrow> (Inr None, rows)
      | Some r \<Rightarrow> (case row_to_job r of Inl e \<Rightarrow> (Inl e, rows) | Inr j \<Rightarrow> (Inr (Some j), rows)))"

definition sql_get_by_project :: "string \<Rightarrow> (sql_jobs, render_job list) op" where
  "sql_get_by_project p rows =
     (decode_rows row_to_job
        (tbl_select (\<lambda>r. rw_project_id r = p) (\<lambda>r. (rw_created_at r, rw_id r)) rows), rows)"

definition sql_list_by_status :: "render_status \<Rightarrow> (sql_jobs, render_job list) op" where
  "sql_list_by_status st rows =
     (decode_rows row_to_job
        (tbl_select (\<lambda>r. rw_status r = rs_value st) (\<lambda>r. (rw_created_at r, rw_id r)) rows), rows)"

text \<open>
  \<open>ORDER BY created_at DESC\<close> leaves the order of equal dates open; the model takes the rows
  of one date in insertion order. Statements about pages assume distinct dates.
\<close>

definition sql_list_jobs ::
  "render_status option \<Rightarrow> int \<Rightarrow> int \<Rightarrow> (sql_jobs, render_job list \<times> nat) op" where
  "sql_list_jobs st limit offset rows =
     (let sel = filter (\<lambda>r. case st of None \<Rightarrow> True | Some v \<Rightarrow> rw_status r = rs_value v) rows;
          total = length sel
      in case decode_rows row_to_job (sql_limit limit offset (sorted_rev rw_created_at sel)) of
           Inl e \<Rightarrow> (Inl e, rows) | Inr js \<Rightarrow> (Inr (js, total), rows))"

text \<open>The columns \<open>update_status\<close> computes from the job it has read, and its \<open>UPDATE\<close>.\<close>

definition sql_status_columns ::
  "time \<Rightarrow> render_status \<Rightarrow> string option \<Rightarrow> render_job \<Rightarrow> render_row \<Rightarrow> render_row" where
  "sql_status_columns now st em current r =
     (let completed_at =
            (if st \<in> {R_COMPLETED, R_FAILED, R_CANCELLED, R_QC_FAILED} then Some now else None);
          (progress, em', completed_at') =
            (if st = R_QUEUED then (0, None, None) else (rj_progress current, em, completed_at));
          progress' = (if st = R_COMPLETED then 1 else progress);
          retry_count =
            (if st = R_QUEUED \<and> rj_status current = R_FAILED then rj_retry_count current + 1
             else rj_retry_count current)
      in r\<lparr>rw_status := rs_value st, rw_error_message := em', rw_progress := progress',
           rw_retry_count := retry_count, rw_updated_at := now,
           rw_completed_at := completed_at'\<rparr>)"

definition sql_update_status ::
  "time \<Rightarrow> string \<Rightarrow> render_status \<Rightarrow> string option \<Rightarrow> (sql_jobs, unit) op" where
  "sql_update_status now k st em =
     bind_op (sql_get k) (\<lambda>current.
       case current of
         None \<Rightarrow> throw ValueError
       | Some j \<Rightarrow>
           (case check_transition (rj_status j) st of
              Inl e \<Rightarrow> throw e
            | Inr _ \<Rightarrow> modify_op (tbl_update rw_id k (sql_status_columns now st em j))))"

definition sql_update_progress :: "time \<Rightarrow> string \<Rightarrow> rat \<Rightarrow> (sql_jobs, unit) op" where
  "sql_update_progress now k p =
     (if \<not> (0 \<le> p \<and> p \<le> 1) then throw ValueError
      else bind_op (sql_get k) (\<lambda>current.
        case current of
          None \<Rightarrow> throw ValueError
        | Some _ \<Rightarrow>
            modify_op (tbl_update rw_id k (\<lambda>r. r\<lparr>rw_progress := p, rw_updated_at := now\<rparr>))))"

definition sql_update_partial_signal :: "string \<Rightarrow> bool \<Rightarrow> (sql_jobs, unit) op" where
  "sql_update_partial_signal k detected =
     bind_op (sql_get k) (\<lambda>current.
       case current of
         None \<Rightarrow> throw ValueError
       | Some _ \<Rightarrow> modify_op (tbl_update rw_id k
           (\<lambda>r. r\<lparr>rw_partial_file_detected := (if detected then 1 else 0)\<rparr>)))"

definition sql_update_evidence :: "string \<Rightarrow> string \<Rightarrow> (sql_jobs, unit) op" where
  "sql_update_evidence k ev =
     bind_op (sql_get k) (\<lambda>current.
       case current of
         None \<Rightarrow> throw ValueError
       | Some _ \<Rightarrow> modify_op (tbl_update rw_id k (\<lambda>r. r\<lparr>rw_evidence_json := Some ev\<rparr>)))"

definition sql_list_stale_running :: "time \<Rightarrow> (sql_jobs, render_job list) op" where
  "sql_list_stale_running older_than rows =
     (decode_rows row_to_job
        (filter (\<lambda>r. rw_status r = rs_value R_RUNNING \<and> rw_updated_at r < older_than) rows), rows)"

definition sql_delete :: "string \<Rightarrow> (sql_jobs, bool) op" where
  "sql_delete k rows =
     (let rows' = tbl_delete rw_id k rows in (Inr (length rows' < length rows), rows'))"

definition sql_repo :: "sql_jobs render_repo" where
  "sql_repo =
     \<lparr>rr_create = sql_create, rr_get = sql_get, rr_get_by_project = sql_get_by_project,
      rr_list_by_status = sql_list_by_status, rr_list_jobs = sql_list_jobs,
      rr_update_status = sql_update_status, rr_update_progress = sql_update_progress,
      rr_list_stale_running = sql_list_stale_running,
      rr_update_partial_signal = sql_update_partial_signal,
      rr_update_evidence = sql_update_evidence, rr_delete = sql_delete\<rparr>"

subsection \<open>The contract\<close>

text \<open>
  The abstract state is a map from ids to jobs. A listing names the jobs that satisfy a
  condition, each once; \<open>set_status_spec\<close> is what a status change does to a job. A caller
  keeps the discipline \<open>em_ok\<close>: it passes an error message only with a failing status, as
  every call in the code does.
\<close>

definition lists_jobs :: "(string \<Rightarrow> render_job option) \<Rightarrow> (render_job \<Rightarrow> bool) \<Rightarrow> render_job list \<Rightarrow> bool"
where
  "lists_jobs m P js \<longleftrightarrow>
     distinct (map rj_id js) \<and> (\<forall>j. j \<in> set js \<longleftrightarrow> m (rj_id j) = Some j \<and> P j)"

definition count_jobs :: "(string \<Rightarrow> render_job option) \<Rightarrow> (render_job \<Rightarrow> bool) \<Rightarrow> nat" where
  "count_jobs m P = card {k. \<exists>j. m k = Some j \<and> P j}"

definition em_ok :: "render_status \<Rightarrow> string option \<Rightarrow> bool" where
  "em_ok st em \<longleftrightarrow> (em \<noteq> None \<longrightarrow> st \<in> {R_FAILED, R_QC_FAILED})"

definition set_status_spec ::
  "time \<Rightarrow> render_status \<Rightarrow> string option \<Rightarrow> render_job \<Rightarrow> render_job" where
  "set_status_spec now st em j =
     j\<lparr>rj_status := st, rj_error_message := em, rj_updated_at := now,
       rj_progress := (if st = R_QUEUED then 0 else if st = R_COMPLETED then 1 else rj_progress j),
       rj_retry_count := (if st = R_QUEUED then rj_retry_count j + 1 else rj_retry_count j),
       rj_completed_at := (if terminal st then Some now else None)\<rparr>"

lemma set_status_spec_sel [simp]:
  "rj_id (set_status_spec now st em j) = rj_id j"
  "rj_project_id (set_status_spec now st em j) = rj_project_id j"
  "rj_created_at (set_status_spec now st em j) = rj_created_at j"
  "rj_status (set_status_spec now st em j) = st"
  "rj_updated_at (set_status_spec now st em j) = now"
  "rj_error_message (set_status_spec now st em j) = em"
  "rj_output_path (set_status_spec now st em j) = rj_output_path j"
  "rj_render_plan (set_status_spec now st em j) = rj_render_plan j"
  by (simp_all add: set_status_spec_def)

lemma wf_set_status:
  "wf_job j \<Longrightarrow> em_ok st em \<Longrightarrow> wf_job (set_status_spec now st em j)"
  by (cases st) (auto simp: wf_job_def set_status_spec_def em_ok_def)

lemma mem_set_status_spec:
  assumes "wf_job j" and "render_step (rj_status j) st" and "em_ok st em"
  shows "mem_set_status now st em j = set_status_spec now st em j"
  using assms
  by (cases j; cases st)
    (auto simp: mem_set_status_def set_status_spec_def em_ok_def wf_job_def elim: render_stepE)

locale render_repository =
  fixes R :: "'s render_repo"
    and invar :: "'s \<Rightarrow> bool"
    and jobs :: "'s \<Rightarrow> string \<Rightarrow> render_job option"
  assumes jobs_id: "invar s \<Longrightarrow> jobs s k = Some j \<Longrightarrow> rj_id j = k"
    and jobs_wf: "invar s \<Longrightarrow> jobs s k = Some j \<Longrightarrow> wf_job j"
    and get_law: "invar s \<Longrightarrow> rr_get R k s = (Inr (jobs s k), s)"
    and create_law: "invar s \<Longrightarrow> jobs s (rj_id j) = None \<Longrightarrow> wf_job j \<Longrightarrow>
      \<not> rj_partial_file_detected j \<Longrightarrow>
      \<exists>s'. rr_create R j s = (Inr j, s') \<and> invar s' \<and> jobs s' = (jobs s)(rj_id j \<mapsto> j)"
    and list_by_status_law: "invar s \<Longrightarrow> \<exists>js. rr_list_by_status R st s = (Inr js, s) \<and>
      sorted (map rj_created_at js) \<and> lists_jobs (jobs s) (\<lambda>j. rj_status j = st) js"
    and get_by_project_law: "invar s \<Longrightarrow> \<exists>js. rr_get_by_project R proj s = (Inr js, s) \<and>
      sorted (map rj_created_at js) \<and> lists_jobs (jobs s) (\<lambda>j. rj_project_id j = proj) js"
    and list_jobs_law: "invar s \<Longrightarrow> 0 \<le> limit \<Longrightarrow> 0 \<le> offset \<Longrightarrow>
      \<exists>js. rr_list_jobs R sel limit offset s =
             (Inr (take (nat limit) (drop (nat offset) js), length js), s) \<and>
        sorted_wrt (\<ge>) (map rj_created_at js) \<and>
        lists_jobs (jobs s) (\<lambda>j. case sel of None \<Rightarrow> True | Some v \<Rightarrow> rj_status j = v) js"
    and stale_law: "invar s \<Longrightarrow> \<exists>js. rr_list_stale_running R t s = (Inr js, s) \<and>
      lists_jobs (jobs s) (\<lambda>j. rj_status j = R_RUNNING \<and> rj_updated_at j < t) js"
    and update_status_missing: "invar s \<Longrightarrow> jobs s k = None \<Longrightarrow>
      rr_update_status R now k st em s = (Inl ValueError, s)"
    and update_status_invalid: "invar s \<Longrightarrow> jobs s k = Some j \<Longrightarrow>
      \<not> render_step (rj_status j) st \<Longrightarrow> rr_update_status R now k st em s = (Inl ValueError, s)"
    and update_status_law: "invar s \<Longrightarrow> jobs s k = Some j \<Longrightarrow> render_step (rj_status j) st \<Longrightarrow>
      em_ok st em \<Longrightarrow>
      \<exists>s'. rr_update_status R now k st em s = (Inr (), s') \<and> invar s' \<and>
           jobs s' = (jobs s)(k \<mapsto> set_status_spec now st em j)"
    and update_progress_bad: "invar s \<Longrightarrow> \<not> (0 \<le> p \<and> p \<le> 1) \<or> jobs s k = None \<Longrightarrow>
      rr_update_progress R now k p s = (Inl ValueError, s)"
    and update_progress_law: "invar s \<Longrightarrow> jobs s k = Some j \<Longrightarrow> 0 \<le> p \<Longrightarrow> p \<le> 1 \<Longrightarrow>
      \<exists>s'. rr_update_progress R now k p s = (Inr (), s') \<and> invar s' \<and>
           jobs s' = (jobs s)(k \<mapsto> j\<lparr>rj_progress := p, rj_updated_at := now\<rparr>)"
    and update_partial_missing: "invar s \<Longrightarrow> jobs s k = None \<Longrightarrow>
      rr_update_partial_signal R k b s = (Inl ValueError, s)"
    and update_partial_law: "invar s \<Longrightarrow> jobs s k = Some j \<Longrightarrow>
      \<exists>s'. rr_update_partial_signal R k b s = (Inr (), s') \<and> invar s' \<and>
           jobs s' = (jobs s)(k \<mapsto> j\<lparr>rj_partial_file_detected := b\<rparr>)"
    and update_evidence_missing: "invar s \<Longrightarrow> jobs s k = None \<Longrightarrow>
      rr_update_evidence R k ev s = (Inl ValueError, s)"
    and update_evidence_law: "invar s \<Longrightarrow> jobs s k = Some j \<Longrightarrow>
      \<exists>s'. rr_update_evidence R k ev s = (Inr (), s') \<and> invar s' \<and>
           jobs s' = (jobs s)(k \<mapsto> j\<lparr>rj_evidence_json := Some ev\<rparr>)"
    and delete_law: "invar s \<Longrightarrow>
      \<exists>s'. rr_delete R k s = (Inr (jobs s k \<noteq> None), s') \<and> invar s' \<and>
           jobs s' = (jobs s)(k := None)"

subsection \<open>The dictionary keeps the contract\<close>

definition mem_invar :: "mem_jobs \<Rightarrow> bool" where
  "mem_invar d \<longleftrightarrow> dict_all (\<lambda>k j. rj_id j = k \<and> wf_job j) d"

lemma mem_invar_lookup: "mem_invar d \<Longrightarrow> map_of d k = Some j \<Longrightarrow> rj_id j = k \<and> wf_job j"
  by (auto simp: mem_invar_def dest: dict_all_get)

lemma mem_invar_update:
  "mem_invar d \<Longrightarrow> rj_id j = k \<Longrightarrow> wf_job j \<Longrightarrow> mem_invar (AList.update k j d)"
  by (simp add: mem_invar_def dict_all_set)

lemma mem_invar_delete: "mem_invar d \<Longrightarrow> mem_invar (AList.delete k d)"
  by (simp add: mem_invar_def dict_all_pop)

lemma mem_values_ids: "mem_invar d \<Longrightarrow> distinct (map rj_id (dict_values d))"
  by (rule dict_keyed_distinct) (auto simp: mem_invar_def dict_all_def)

lemma mem_values: "mem_invar d \<Longrightarrow> j \<in> set (dict_values d) \<longleftrightarrow> map_of d (rj_id j) = Some j"
  unfolding mem_invar_def by (erule dict_all_values) simp

lemma lists_jobs_filter:
  assumes "distinct (map rj_id js)" and "\<And>j. j \<in> set js \<longleftrightarrow> m (rj_id j) = Some j"
  shows "lists_jobs m P (filter P js)"
  using assms by (auto simp: lists_jobs_def distinct_map intro: inj_on_subset)

lemma lists_jobs_reorder:
  assumes "lists_jobs m P js" and "set js' = set js" and "distinct js'"
  shows "lists_jobs m P js'"
  using assms by (auto simp: lists_jobs_def distinct_map)

lemma lists_jobs_sort: "lists_jobs m P js \<Longrightarrow> lists_jobs m P (sort_key f js)"
  using lists_jobs_reorder [of m P js "sort_key f js"] by (simp add: lists_jobs_def distinct_map)

lemma distinct_sorted_rev [simp]: "distinct (sorted_rev f xs) = distinct xs"
  by (simp add: sorted_rev_def)

lemma lists_jobs_sorted_rev: "lists_jobs m P js \<Longrightarrow> lists_jobs m P (sorted_rev f js)"
  using lists_jobs_reorder [of m P js "sorted_rev f js"] by (simp add: lists_jobs_def distinct_map)

lemma mem_lists: "mem_invar d \<Longrightarrow> lists_jobs (map_of d) P (filter P (dict_values d))"
  by (rule lists_jobs_filter [OF mem_values_ids mem_values])

lemma filter_sorted_rev: "filter P (sorted_rev f xs) = sorted_rev f (filter P xs)"
  by (simp add: sorted_rev_def rev_filter [symmetric] filter_sort)

lemma mem_repo_sel [simp]:
  "rr_create mem_repo = mem_create" "rr_get mem_repo = mem_get"
  "rr_get_by_project mem_repo = mem_get_by_project"
  "rr_list_by_status mem_repo = mem_list_by_status" "rr_list_jobs mem_repo = mem_list_jobs"
  "rr_update_status mem_repo = mem_update_status"
  "rr_update_progress mem_repo = mem_update_progress"
  "rr_list_stale_running mem_repo = mem_list_stale_running"
  "rr_update_partial_signal mem_repo = mem_update_partial_signal"
  "rr_update_evidence mem_repo = mem_update_evidence" "rr_delete mem_repo = mem_delete"
  by (simp_all add: mem_repo_def)

lemma wf_job_frame [simp]:
  "wf_job (j\<lparr>rj_partial_file_detected := b\<rparr>) = wf_job j"
  "wf_job (j\<lparr>rj_evidence_json := ev\<rparr>) = wf_job j"
  "0 \<le> p \<Longrightarrow> p \<le> 1 \<Longrightarrow> wf_job j \<Longrightarrow> wf_job (j\<lparr>rj_progress := p, rj_updated_at := now\<rparr>)"
  by (simp_all add: wf_job_def)

lemma mem_list_jobs_lists:
  assumes "mem_invar d" and "0 \<le> limit" and "0 \<le> offset"
  shows "\<exists>js. mem_list_jobs sel limit offset d =
            (Inr (take (nat limit) (drop (nat offset) js), length js), d) \<and>
          sorted_wrt (\<ge>) (map rj_created_at js) \<and>
          lists_jobs (map_of d) (\<lambda>j. case sel of None \<Rightarrow> True | Some v \<Rightarrow> rj_status j = v) js"
proof -
  let ?P = "\<lambda>j. case sel of None \<Rightarrow> True | Some v \<Rightarrow> rj_status j = v"
  let ?js = "sorted_rev rj_created_at (filter ?P (dict_values d))"
  have "(case sel of None \<Rightarrow> sorted_rev rj_created_at (dict_values d)
         | Some v \<Rightarrow> filter (\<lambda>j. rj_status j = v) (sorted_rev rj_created_at (dict_values d))) = ?js"
    by (cases sel) (simp_all add: filter_sorted_rev)
  then show ?thesis
    using assms sorted_rev_descending [of rj_created_at "filter ?P (dict_values d)"]
    by (intro exI [of _ ?js])
      (simp add: mem_list_jobs_def Let_def py_slice_nonneg lists_jobs_sorted_rev mem_lists)
qed

lemma mem_update_status_step:
  assumes "mem_invar d" and "map_of d k = Some j" and "render_step (rj_status j) st"
    and "em_ok st em"
  shows "\<exists>d'. mem_update_status now k st em d = (Inr (), d') \<and> mem_invar d' \<and>
          map_of d' = (map_of d)(k \<mapsto> set_status_spec now st em j)"
  using assms mem_invar_lookup [OF assms(1,2)]
  by (auto simp: mem_update_status_def check_transition_step mem_set_status_spec dict_set_map_of
      intro!: mem_invar_update wf_set_status)

interpretation mem: render_repository mem_repo mem_invar map_of
proof (unfold_locales, goal_cases)
  case (4 s j)
  then show ?case by (auto simp: mem_create_def dict_set_map_of intro: mem_invar_update)
next
  case (5 s st)
  then show ?case by (auto simp: mem_list_by_status_def intro!: lists_jobs_sort mem_lists)
next
  case (6 s proj)
  then show ?case by (auto simp: mem_get_by_project_def intro!: lists_jobs_sort mem_lists)
next
  case (7 s limit offset sel)
  then show ?case using mem_list_jobs_lists [OF 7] by simp
next
  case (11 s k j st em now)
  then show ?case using mem_update_status_step [OF 11] by simp
next
  case (18 s k)
  then show ?case
    by (auto simp: mem_delete_def AList.delete_conv' map_of_eq_None_iff mem_invar_delete fun_upd_idem)
qed (auto simp: mem_get_def mem_invar_lookup mem_list_stale_running_def mem_lists
      mem_update_status_def check_transition_step mem_update_progress_def
      mem_update_partial_signal_def mem_update_evidence_def dict_set_map_of
      intro!: mem_invar_update)

subsection \<open>The table keeps the contract\<close>

lemma enum_of_value_Inr: "enum_of_value f ms v = Inr m \<Longrightarrow> f m = v"
  by (auto simp: enum_of_value_def find_Some_iff split: option.splits)

lemma rs_of_value_Inr: "rs_of_value v = Inr st \<longleftrightarrow> v = rs_value st"
  using rs_roundtrip [of st] by (auto simp: rs_of_value_def dest: enum_of_value_Inr)

lemma row_to_job_iff:
  "row_to_job r = Inr j \<longleftrightarrow>
     rs_of_value (rw_status r) = Inr (rj_status j) \<and>
     of_of_value (rw_output_format r) = Inr (rj_output_format j) \<and>
     qp_of_value (rw_quality_preset r) = Inr (rj_quality_preset j) \<and>
     rw_id r = rj_id j \<and> rw_project_id r = rj_project_id j \<and>
     rw_output_path r = rj_output_path j \<and> rw_render_plan r = rj_render_plan j \<and>
     rw_progress r = rj_progress j \<and> rw_error_message r = rj_error_message j \<and>
     rw_retry_count r = rj_retry_count j \<and> rw_created_at r = rj_created_at j \<and>
     rw_updated_at r = rj_updated_at j \<and> rw_completed_at r = rj_completed_at j \<and>
     (rw_partial_file_detected r \<noteq> 0) = rj_partial_file_detected j \<and>
     rw_evidence_json r = rj_evidence_json j"
  by (cases j) (auto simp: row_to_job_def split: sum.splits)

lemma job_row_roundtrip:
  "row_to_job (job_to_row j) = Inr (j\<lparr>rj_partial_file_detected := False\<rparr>)"
  by (simp add: row_to_job_iff job_to_row_def)

text \<open>The job a row of a sound table decodes to.\<close>

definition row_job :: "render_row \<Rightarrow> render_job" where
  "row_job r = (case row_to_job r of Inr j \<Rightarrow> j)"

lemma job_to_row_id [simp]: "rw_id (job_to_row j) = rj_id j"
  by (simp add: job_to_row_def)

lemma job_to_row_decodes [simp]:
  assumes "\<not> rj_partial_file_detected j"
  shows "row_to_job (job_to_row j) = Inr j" and "row_job (job_to_row j) = j"
proof -
  have "j\<lparr>rj_partial_file_detected := False\<rparr> = j"
    using assms by (cases j) simp
  then show "row_to_job (job_to_row j) = Inr j" and "row_job (job_to_row j) = j"
    by (simp_all add: row_job_def job_row_roundtrip)
qed

definition sql_invar :: "sql_jobs \<Rightarrow> bool" where
  "sql_invar rows \<longleftrightarrow>
     tbl_keys rw_id rows \<and> (\<forall>r \<in> set rows. \<exists>j. row_to_job r = Inr j \<and> wf_job j)"

definition sql_map :: "sql_jobs \<Rightarrow> string \<Rightarrow> render_job option" where
  "sql_map rows k = map_option row_job (tbl_get rw_id k rows)"

lemma sql_row:
  assumes "sql_invar rows" and "r \<in> set rows"
  shows "row_to_job r = Inr (row_job r)" and "wf_job (row_job r)"
    and "rw_id r = rj_id (row_job r)" and "rw_status r = rs_value (rj_status (row_job r))"
    and "rw_created_at r = rj_created_at (row_job r)"
    and "rw_updated_at r = rj_updated_at (row_job r)"
    and "rw_project_id r = rj_project_id (row_job r)"
proof -
  obtain j where j: "row_to_job r = Inr j" "wf_job j"
    using assms by (auto simp: sql_invar_def)
  then have "row_job r = j" by (simp add: row_job_def)
  with j show "row_to_job r = Inr (row_job r)" and "wf_job (row_job r)"
    and "rw_id r = rj_id (row_job r)" and "rw_status r = rs_value (rj_status (row_job r))"
    and "rw_created_at r = rj_created_at (row_job r)"
    and "rw_updated_at r = rj_updated_at (row_job r)"
    and "rw_project_id r = rj_project_id (row_job r)"
    by (auto simp: row_to_job_iff rs_of_value_Inr)
qed

lemma sql_map_Some:
  assumes "sql_invar rows" and "sql_map rows k = Some j"
  obtains r where "r \<in> set rows" and "tbl_get rw_id k rows = Some r" and "row_job r = j"
    and "rw_id r = k"
  using assms by (auto simp: sql_map_def dest: tbl_get_Some)

lemma sql_map_id:
  assumes "sql_invar rows" and "sql_map rows k = Some j"
  shows "rj_id j = k \<and> wf_job j"
proof -
  obtain r where "r \<in> set rows" "row_job r = j" "rw_id r = k"
    using sql_map_Some [OF assms] .
  with sql_row(2,3) [OF assms(1)] show ?thesis by force
qed

lemma sql_get_run: "sql_invar rows \<Longrightarrow> sql_get k rows = (Inr (sql_map rows k), rows)"
  by (auto simp: sql_get_def sql_map_def sql_row(1) dest!: tbl_get_Some split: option.splits)

lemma sql_jobs_mem:
  assumes "sql_invar rows"
  shows "j \<in> row_job ` set rows \<longleftrightarrow> sql_map rows (rj_id j) = Some j"
proof
  assume "j \<in> row_job ` set rows"
  then obtain r where r: "r \<in> set rows" "j = row_job r" by blast
  with assms have "tbl_get rw_id (rj_id j) rows = Some r"
    by (simp add: tbl_get_iff sql_invar_def sql_row(3) [OF assms])
  with r show "sql_map rows (rj_id j) = Some j" by (simp add: sql_map_def)
next
  assume "sql_map rows (rj_id j) = Some j"
  then show "j \<in> row_job ` set rows"
    by (auto elim!: sql_map_Some [OF assms])
qed

text \<open>Any selection of rows decodes to the jobs it stands for.\<close>

lemma sql_select_lists:
  assumes inv: "sql_invar rows" and sel: "set rs = {r \<in> set rows. Q r}" and "distinct (map rw_id rs)"
    and QP: "\<And>r. r \<in> set rows \<Longrightarrow> Q r = P (row_job r)"
  shows "decode_rows row_to_job rs = Inr (map row_job rs) \<and> lists_jobs (sql_map rows) P (map row_job rs)"
proof
  have sub: "r \<in> set rows" if "r \<in> set rs" for r using sel that by simp
  show "decode_rows row_to_job rs = Inr (map row_job rs)"
    by (rule decode_rows_all) (simp add: sub sql_row(1) [OF inv])
  have ids: "map rj_id (map row_job rs) = map rw_id rs"
    by (simp add: sub sql_row(3) [OF inv])
  have "j \<in> set (map row_job rs) \<longleftrightarrow> j \<in> row_job ` set rows \<and> P j" for j
    using sel QP by auto
  then show "lists_jobs (sql_map rows) P (map row_job rs)"
    unfolding lists_jobs_def ids sql_jobs_mem [OF inv] using assms(3) by blast
qed

lemma map_created_row_job:
  assumes "sql_invar rows" and "set rs \<subseteq> set rows"
  shows "map rj_created_at (map row_job rs) = map rw_created_at rs"
  using assms by (induction rs) (auto simp: sql_row(5))

lemma sorted_map_fst: "sorted (map (\<lambda>r. (f r, g r)) rs) \<Longrightarrow> sorted (map f rs)"
  by (induction rs) (auto simp: less_eq_prod_def)

lemma sql_ordered_select:
  assumes inv: "sql_invar rows" and QP: "\<And>r. r \<in> set rows \<Longrightarrow> Q r = P (row_job r)"
  shows "\<exists>js. decode_rows row_to_job
            (tbl_select Q (\<lambda>r. (rw_created_at r, rw_id r)) rows) = Inr js \<and>
          sorted (map rj_created_at js) \<and> lists_jobs (sql_map rows) P js"
proof -
  let ?rs = "tbl_select Q (\<lambda>r. (rw_created_at r, rw_id r)) rows"
  have "sorted (map rw_created_at ?rs)"
    by (rule sorted_map_fst [OF tbl_select_sorted])
  then have "sorted (map rj_created_at (map row_job ?rs))"
    by (simp only: map_created_row_job [OF inv, of ?rs] set_tbl_select Collect_restrict)
  moreover have "distinct (map rw_id ?rs)"
    using inv by (simp add: sql_invar_def tbl_select_keys)
  then have "decode_rows row_to_job ?rs = Inr (map row_job ?rs)
      \<and> lists_jobs (sql_map rows) P (map row_job ?rs)"
    by (intro sql_select_lists [where Q = Q] inv QP) simp_all
  ultimately show ?thesis by blast
qed

text \<open>A write to the row of one key, seen through the map.\<close>

lemma sql_map_update:
  assumes inv: "sql_invar rows" and k: "sql_map rows k = Some j" and key: "\<And>r. rw_id (f r) = rw_id r"
    and f: "\<And>r. row_to_job r = Inr j \<Longrightarrow> row_to_job (f r) = Inr j'" and wf: "wf_job j'"
  shows "sql_invar (tbl_update rw_id k f rows) \<and> sql_map (tbl_update rw_id k f rows) = (sql_map rows)(k \<mapsto> j')"
proof -
  obtain r where r: "r \<in> set rows" "tbl_get rw_id k rows = Some r" "row_job r = j" "rw_id r = k"
    using sql_map_Some [OF inv k] .
  have fr: "row_to_job (f r) = Inr j'"
    using f sql_row(1) [OF inv r(1)] r(3) by simp
  have only: "q = r" if "q \<in> set rows" "rw_id q = k" for q
    using that r(2) inv tbl_get_iff [of rw_id rows k q] by (simp add: sql_invar_def)
  have "sql_invar (tbl_update rw_id k f rows)"
    using inv fr wf only by (auto simp: sql_invar_def set_tbl_update map_key_update key)
  moreover have "sql_map (tbl_update rw_id k f rows) = (sql_map rows)(k \<mapsto> j')"
    using r(2) fr by (auto simp: sql_map_def tbl_get_update key row_job_def)
  ultimately show ?thesis ..
qed

lemma sql_repo_sel [simp]:
  "rr_create sql_repo = sql_create" "rr_get sql_repo = sql_get"
  "rr_get_by_project sql_repo = sql_get_by_project"
  "rr_list_by_status sql_repo = sql_list_by_status" "rr_list_jobs sql_repo = sql_list_jobs"
  "rr_update_status sql_repo = sql_update_status"
  "rr_update_progress sql_repo = sql_update_progress"
  "rr_list_stale_running sql_repo = sql_list_stale_running"
  "rr_update_partial_signal sql_repo = sql_update_partial_signal"
  "rr_update_evidence sql_repo = sql_update_evidence" "rr_delete sql_repo = sql_delete"
  by (simp_all add: sql_repo_def)

lemma sql_create_step:
  assumes inv: "sql_invar rows" and fresh: "sql_map rows (rj_id j) = None" and "wf_job j"
    and "\<not> rj_partial_file_detected j"
  shows "\<exists>rows'. sql_create j rows = (Inr j, rows') \<and> sql_invar rows' \<and>
           sql_map rows' = (sql_map rows)(rj_id j \<mapsto> j)"
proof -
  note row = job_to_row_decodes [OF assms(4)]
  have none: "tbl_get rw_id (rj_id j) rows = None"
    using fresh by (simp add: sql_map_def)
  then have "sql_create j rows = (Inr j, rows @ [job_to_row j])"
    by (simp add: sql_create_def tbl_insert_def tbl_get_None row)
  moreover have "sql_invar (rows @ [job_to_row j])"
    using inv none row assms(3) by (auto simp: sql_invar_def tbl_get_None)
  moreover have "sql_map (rows @ [job_to_row j]) = (sql_map rows)(rj_id j \<mapsto> j)"
  proof
    fix k show "sql_map (rows @ [job_to_row j]) k = ((sql_map rows)(rj_id j \<mapsto> j)) k"
      using none row
      by (cases "tbl_get rw_id k rows") (auto simp: sql_map_def tbl_get_append row_job_def)
  qed
  ultimately show ?thesis by blast
qed

lemma sql_set_status_row:
  assumes "row_to_job r = Inr j" and "render_step (rj_status j) st" and "em_ok st em"
  shows "row_to_job (sql_status_columns now st em j r) = Inr (set_status_spec now st em j)"
  using assms
  by (cases st)
    (auto simp: row_to_job_iff sql_status_columns_def set_status_spec_def em_ok_def
      simp del: rs_value.simps elim: render_stepE)

lemma sql_status_columns_id [simp]: "rw_id (sql_status_columns now st em j r) = rw_id r"
  by (simp add: sql_status_columns_def Let_def split: prod.splits)

lemma sql_update_status_step:
  assumes inv: "sql_invar rows" and k: "sql_map rows k = Some j"
    and "render_step (rj_status j) st" and "em_ok st em"
  shows "\<exists>rows'. sql_update_status now k st em rows = (Inr (), rows') \<and> sql_invar rows' \<and>
           sql_map rows' = (sql_map rows)(k \<mapsto> set_status_spec now st em j)"
  using sql_map_update [OF inv k, of "sql_status_columns now st em j" "set_status_spec now st em j"]
    assms sql_map_id [OF inv k]
  by (simp add: sql_update_status_def bind_op_run sql_get_run check_transition_step
      sql_set_status_row wf_set_status)

lemma sql_list_jobs_lists:
  assumes inv: "sql_invar rows" and "0 \<le> limit" and "0 \<le> offset"
  shows "\<exists>js. sql_list_jobs sel limit offset rows =
            (Inr (take (nat limit) (drop (nat offset) js), length js), rows) \<and>
          sorted_wrt (\<ge>) (map rj_created_at js) \<and>
          lists_jobs (sql_map rows) (\<lambda>j. case sel of None \<Rightarrow> True | Some v \<Rightarrow> rj_status j = v) js"
proof -
  let ?Q = "\<lambda>r. case sel of None \<Rightarrow> True | Some v \<Rightarrow> rw_status r = rs_value v"
  let ?P = "\<lambda>j. case sel of None \<Rightarrow> True | Some v \<Rightarrow> rj_status j = v"
  let ?rs = "sorted_rev rw_created_at (filter ?Q rows)"
  let ?page = "take (nat limit) (drop (nat offset) ?rs)"
  have sub: "set ?rs \<subseteq> set rows" by auto
  have "distinct (map rw_id ?rs)"
    using inv by (auto simp: sql_invar_def distinct_map intro: inj_on_subset)
  then have lists: "lists_jobs (sql_map rows) ?P (map row_job ?rs)"
    by (intro conjunct2 [OF sql_select_lists [where Q = ?Q]] inv)
      (auto simp: sql_row(4) [OF inv] split: option.splits)
  have "set ?page \<subseteq> set rows"
    by (auto dest!: in_set_takeD in_set_dropD)
  then have "decode_rows row_to_job ?page = Inr (map row_job ?page)"
    by (intro decode_rows_all) (auto simp: sql_row(1) [OF inv])
  then have "sql_list_jobs sel limit offset rows =
      (Inr (take (nat limit) (drop (nat offset) (map row_job ?rs)), length (map row_job ?rs)), rows)"
    using assms(2) by (simp add: sql_list_jobs_def sql_limit_def Let_def drop_map take_map)
  moreover have "sorted_wrt (\<ge>) (map rj_created_at (map row_job ?rs))"
    by (simp only: map_created_row_job [OF inv sub] sorted_rev_descending)
  ultimately show ?thesis using lists by blast
qed

lemma sql_stale_lists:
  assumes inv: "sql_invar rows"
  shows "\<exists>js. sql_list_stale_running t rows = (Inr js, rows) \<and>
    lists_jobs (sql_map rows) (\<lambda>j. rj_status j = R_RUNNING \<and> rj_updated_at j < t) js"
proof -
  let ?Q = "\<lambda>r. rw_status r = rs_value R_RUNNING \<and> rw_updated_at r < t"
  have "distinct (map rw_id (filter ?Q rows))"
    using inv by (auto simp: sql_invar_def distinct_map intro: inj_on_subset)
  then have "decode_rows row_to_job (filter ?Q rows) = Inr (map row_job (filter ?Q rows)) \<and>
      lists_jobs (sql_map rows) (\<lambda>j. rj_status j = R_RUNNING \<and> rj_updated_at j < t)
        (map row_job (filter ?Q rows))"
    by (intro sql_select_lists [where Q = ?Q] inv)
      (auto simp: sql_row(4,6) [OF inv] simp del: rs_value.simps)
  then show ?thesis by (auto simp: sql_list_stale_running_def)
qed

lemma sql_delete_step:
  assumes inv: "sql_invar rows"
  shows "\<exists>rows'. sql_delete k rows = (Inr (sql_map rows k \<noteq> None), rows') \<and> sql_invar rows' \<and>
           sql_map rows' = (sql_map rows)(k := None)"
proof -
  have "length (tbl_delete rw_id k rows) < length rows \<longleftrightarrow> tbl_get rw_id k rows \<noteq> None"
  proof (cases "tbl_get rw_id k rows")
    case None
    then have "tbl_delete rw_id k rows = rows"
      by (auto simp: tbl_delete_def tbl_get_None intro!: filter_True)
    with None show ?thesis by simp
  next
    case (Some r)
    then show ?thesis
      using tbl_get_Some [OF Some] by (auto simp: tbl_delete_def intro: length_filter_less)
  qed
  then have "sql_delete k rows = (Inr (sql_map rows k \<noteq> None), tbl_delete rw_id k rows)"
    by (simp add: sql_delete_def Let_def sql_map_def)
  moreover have "sql_invar (tbl_delete rw_id k rows)"
    using inv by (simp add: sql_invar_def tbl_keys_delete set_tbl_delete)
  moreover have "sql_map (tbl_delete rw_id k rows) = (sql_map rows)(k := None)"
    by (rule ext) (simp add: sql_map_def tbl_get_delete)
  ultimately show ?thesis by blast
qed

interpretation sql: render_repository sql_repo sql_invar sql_map
proof (unfold_locales, goal_cases)
  case (4 s j)
  then show ?case using sql_create_step by simp
next
  case (5 s st)
  then show ?case
    using sql_ordered_select [of s "\<lambda>r. rw_status r = rs_value st" "\<lambda>j. rj_status j = st"]
    by (auto simp: sql_list_by_status_def sql_row(4))
next
  case (6 s proj)
  then show ?case
    using sql_ordered_select [of s "\<lambda>r. rw_project_id r = proj" "\<lambda>j. rj_project_id j = proj"]
    by (auto simp: sql_get_by_project_def sql_row(7))
next
  case (7 s limit offset sel)
  then show ?case using sql_list_jobs_lists [OF 7] by simp
next
  case (8 s t)
  then show ?case using sql_stale_lists [OF 8] by simp
next
  case (11 s k j st em now)
  then show ?case using sql_update_status_step [OF 11] by simp
next
  case (13 s k j p now)
  then show ?case
    using sql_map_update [OF 13(1,2), of "\<lambda>r. r\<lparr>rw_progress := p, rw_updated_at := now\<rparr>"
        "j\<lparr>rj_progress := p, rj_updated_at := now\<rparr>"] sql_map_id [OF 13(1,2)]
    by (simp add: sql_update_progress_def bind_op_run sql_get_run row_to_job_iff)
next
  case (15 s k j b)
  then show ?case
    using sql_map_update [OF 15, of "\<lambda>r. r\<lparr>rw_partial_file_detected := (if b then 1 else 0)\<rparr>"
        "j\<lparr>rj_partial_file_detected := b\<rparr>"] sql_map_id [OF 15]
    by (simp add: sql_update_partial_signal_def bind_op_run sql_get_run row_to_job_iff)
next
  case (17 s k j ev)
  then show ?case
    using sql_map_update [OF 17, of "\<lambda>r. r\<lparr>rw_evidence_json := Some ev\<rparr>"
        "j\<lparr>rj_evidence_json := Some ev\<rparr>"] sql_map_id [OF 17]
    by (simp add: sql_update_evidence_def bind_op_run sql_get_run row_to_job_iff)
next
  case (18 s k)
  then show ?case using sql_delete_step [OF 18] by simp
qed (auto simp: sql_map_id sql_get_run sql_update_status_def sql_update_progress_def
      sql_update_partial_signal_def sql_update_evidence_def bind_op_run check_transition_step)

end
