(* ===== verification/Render_Queue.thy ===== *)
theory Render_Queue
  imports Render_Repository
begin

text \<open>
  The persistent render queue, from \<open>src/stoat_ferret/render/queue.py\<close>. The queue keeps no jobs
  of its own: its depth and its running count are read off the repository, so every operation
  takes the repository \<open>R\<close> it was built with. The lemmas are proved once, against the contract
  \<open>render_repository\<close>; the properties are their instances for the two implementations.
  The Prometheus gauge and the log lines are left out.
\<close>

subsection \<open>The operations\<close>

definition rq_active_count :: "'s render_repo \<Rightarrow> ('s, nat) op" where
  "rq_active_count R = bind_op (rr_list_by_status R R_RUNNING) (\<lambda>running. ret (length running))"

definition rq_queue_depth :: "'s render_repo \<Rightarrow> ('s, nat) op" where
  "rq_queue_depth R = bind_op (rr_list_by_status R R_QUEUED) (\<lambda>queued. ret (length queued))"

definition rq_enqueue :: "'s render_repo \<Rightarrow> int \<Rightarrow> render_job \<Rightarrow> ('s, render_job) op" where
  "rq_enqueue R max_depth job =
     bind_op (rq_queue_depth R) (\<lambda>depth.
       if max_depth \<le> int depth then throw (QueueFullError depth max_depth)
       else rr_create R job)"

definition rq_dequeue :: "'s render_repo \<Rightarrow> int \<Rightarrow> time \<Rightarrow> ('s, render_job option) op" where
  "rq_dequeue R max_concurrent now =
     bind_op (rq_active_count R) (\<lambda>active.
       if max_concurrent \<le> int active then ret None
       else bind_op (rr_list_by_status R R_QUEUED) (\<lambda>queued_jobs.
         case queued_jobs of
           [] \<Rightarrow> ret None
         | job # _ \<Rightarrow>
             seq_op (rr_update_status R now (rj_id job) R_RUNNING None)
               (rr_get R (rj_id job))))"

definition recovery_message :: string where
  "recovery_message = ''Server restart: job interrupted without checkpoint''"

text \<open>
  The loop of \<open>recover\<close>; the \<open>i\<close>-th call of \<open>update_status\<close> reads the clock as \<open>clk i\<close>. The
  list returned holds the jobs as they were read, before the update.
\<close>

fun recover_loop ::
  "'s render_repo \<Rightarrow> (nat \<Rightarrow> time) \<Rightarrow> nat \<Rightarrow> render_job list \<Rightarrow> render_job list \<Rightarrow> ('s, render_job list) op"
where
  "recover_loop R clk i [] recovered = ret recovered"
| "recover_loop R clk i (job # running_jobs) recovered =
     seq_op (rr_update_status R (clk i) (rj_id job) R_FAILED (Some recovery_message))
       (recover_loop R clk (Suc i) running_jobs (recovered @ [job]))"

definition recovered_as :: "render_job option \<Rightarrow> render_job option \<Rightarrow> bool" where
  "recovered_as a b \<longleftrightarrow>
     (\<exists>j t. a = Some j \<and> b = Some (set_status_spec t R_FAILED (Some recovery_message) j))"

definition rq_recover :: "'s render_repo \<Rightarrow> (nat \<Rightarrow> time) \<Rightarrow> ('s, render_job list) op" where
  "rq_recover R clk =
     bind_op (rr_list_by_status R R_RUNNING) (\<lambda>running_jobs. recover_loop R clk 0 running_jobs [])"

subsection \<open>Counting jobs of a map\<close>

abbreviation in_status :: "render_status \<Rightarrow> render_job \<Rightarrow> bool" where
  "in_status st \<equiv> (\<lambda>j. rj_status j = st)"

definition keyed :: "(string \<Rightarrow> render_job option) \<Rightarrow> bool" where
  "keyed m \<longleftrightarrow> (\<forall>k j. m k = Some j \<longrightarrow> rj_id j = k)"

lemma lists_jobs_count:
  assumes "keyed m" and "lists_jobs m P js"
  shows "length js = count_jobs m P" and "finite {k. \<exists>j. m k = Some j \<and> P j}"
proof -
  have ids: "{k. \<exists>j. m k = Some j \<and> P j} = set (map rj_id js)"
    using assms unfolding lists_jobs_def keyed_def by force
  have "card (set (map rj_id js)) = length (map rj_id js)"
    using assms(2) by (intro distinct_card) (simp add: lists_jobs_def)
  then show "length js = count_jobs m P" by (simp only: count_jobs_def ids length_map)
  show "finite {k. \<exists>j. m k = Some j \<and> P j}" by (simp only: ids finite_set)
qed

lemma count_jobs_write:
  assumes "finite {k. \<exists>j. m k = Some j \<and> P j}"
  shows "count_jobs (m(k \<mapsto> j')) P =
     count_jobs m P - (if \<exists>j. m k = Some j \<and> P j then 1 else 0) + (if P j' then 1 else 0)"
proof -
  let ?S = "{k. \<exists>j. m k = Some j \<and> P j}"
  have "{i. \<exists>j. (m(k \<mapsto> j')) i = Some j \<and> P j} = (if P j' then insert k (?S - {k}) else ?S - {k})"
    by auto
  moreover have "card (?S - {k}) = card ?S - (if k \<in> ?S then 1 else 0)"
    using assms by (auto simp: card_Diff_singleton_if)
  moreover have "card (insert k (?S - {k})) = Suc (card (?S - {k}))"
    using assms by (intro card_insert_disjoint) auto
  ultimately show ?thesis by (simp add: count_jobs_def)
qed

lemma count_jobs_pos: "finite {k. \<exists>j. m k = Some j \<and> P j} \<Longrightarrow> m k = Some j \<Longrightarrow> P j \<Longrightarrow> 0 < count_jobs m P"
  by (auto simp: count_jobs_def card_gt_0_iff)

subsection \<open>The queue over any repository with the contract\<close>

context render_repository
begin

lemma jobs_keyed: "invar s \<Longrightarrow> keyed (jobs s)"
  by (auto simp: keyed_def jobs_id)

lemma jobs_finite:
  assumes "invar s"
  shows "finite {k. \<exists>j. jobs s k = Some j \<and> rj_status j = st}"
  using list_by_status_law [OF assms, of st] lists_jobs_count(2) [OF jobs_keyed [OF assms]] by blast

lemma queue_depth_run:
  "invar s \<Longrightarrow> rq_queue_depth R s = (Inr (count_jobs (jobs s) (in_status R_QUEUED)), s)"
  using list_by_status_law [of s R_QUEUED] lists_jobs_count(1) [OF jobs_keyed]
  by (fastforce simp: rq_queue_depth_def bind_op_run)

lemma active_count_run:
  "invar s \<Longrightarrow> rq_active_count R s = (Inr (count_jobs (jobs s) (in_status R_RUNNING)), s)"
  using list_by_status_law [of s R_RUNNING] lists_jobs_count(1) [OF jobs_keyed]
  by (fastforce simp: rq_active_count_def bind_op_run)

lemma enqueue_refused:
  assumes "invar s" and "max_depth \<le> int (count_jobs (jobs s) (in_status R_QUEUED))"
  shows "rq_enqueue R max_depth j s =
    (Inl (QueueFullError (count_jobs (jobs s) (in_status R_QUEUED)) max_depth), s)"
  using assms by (simp add: rq_enqueue_def bind_op_run queue_depth_run)

lemma enqueue_accepted:
  assumes inv: "invar s" and room: "int (count_jobs (jobs s) (in_status R_QUEUED)) < max_depth"
    and fresh: "jobs s (rj_id j) = None" and j: "wf_job j" "\<not> rj_partial_file_detected j" "rj_status j = R_QUEUED"
  shows "\<exists>s'. rq_enqueue R max_depth j s = (Inr j, s') \<and> invar s' \<and>
    jobs s' = (jobs s)(rj_id j \<mapsto> j) \<and>
    count_jobs (jobs s') (in_status R_QUEUED) = Suc (count_jobs (jobs s) (in_status R_QUEUED))"
  using create_law [OF inv fresh j(1,2)] room j(3) fresh
    count_jobs_write [OF jobs_finite [OF inv, of R_QUEUED], of "rj_id j" j]
  by (auto simp: rq_enqueue_def bind_op_run queue_depth_run [OF inv])

lemma dequeue_idle:
  assumes inv: "invar s"
    and "max_concurrent \<le> int (count_jobs (jobs s) (in_status R_RUNNING))
      \<or> count_jobs (jobs s) (in_status R_QUEUED) = 0"
  shows "rq_dequeue R max_concurrent now s = (Inr None, s)"
proof -
  obtain js where js: "rr_list_by_status R R_QUEUED s = (Inr js, s)"
      "lists_jobs (jobs s) (in_status R_QUEUED) js"
    using list_by_status_law [OF inv] by blast
  then have "length js = count_jobs (jobs s) (in_status R_QUEUED)"
    by (intro lists_jobs_count jobs_keyed inv)
  with assms js show ?thesis
    by (cases js) (auto simp: rq_dequeue_def bind_op_run active_count_run)
qed

lemma dequeue_takes_oldest:
  assumes inv: "invar s"
    and room: "int (count_jobs (jobs s) (in_status R_RUNNING)) < max_concurrent"
    and some: "0 < count_jobs (jobs s) (in_status R_QUEUED)"
  shows "\<exists>j s'. jobs s (rj_id j) = Some j \<and> rj_status j = R_QUEUED \<and>
    (\<forall>k i. jobs s k = Some i \<and> rj_status i = R_QUEUED \<longrightarrow> rj_created_at j \<le> rj_created_at i) \<and>
    rq_dequeue R max_concurrent now s = (Inr (Some (set_status_spec now R_RUNNING None j)), s') \<and>
    invar s' \<and> jobs s' = (jobs s)(rj_id j \<mapsto> set_status_spec now R_RUNNING None j)"
proof -
  obtain js where js: "rr_list_by_status R R_QUEUED s = (Inr js, s)"
      "sorted (map rj_created_at js)" "lists_jobs (jobs s) (in_status R_QUEUED) js"
    using list_by_status_law [OF inv] by blast
  have "length js = count_jobs (jobs s) (in_status R_QUEUED)"
    by (intro lists_jobs_count jobs_keyed inv js(3))
  with some obtain j rest where cons: "js = j # rest" by (cases js) auto
  have j: "jobs s (rj_id j) = Some j" "rj_status j = R_QUEUED"
    using js(3) cons by (auto simp: lists_jobs_def)
  have oldest: "rj_created_at j \<le> rj_created_at i"
    if "jobs s k = Some i" "rj_status i = R_QUEUED" for k i
  proof -
    have "i \<in> set js" using js(3) that jobs_id [OF inv that(1)] by (simp add: lists_jobs_def)
    with js(2) cons show ?thesis by auto
  qed
  obtain s' where s': "rr_update_status R now (rj_id j) R_RUNNING None s = (Inr (), s')" "invar s'"
      "jobs s' = (jobs s)(rj_id j \<mapsto> set_status_spec now R_RUNNING None j)"
    using update_status_law [OF inv j(1), of R_RUNNING None now] j(2) by (auto simp: em_ok_def)
  have "rq_dequeue R max_concurrent now s = (Inr (Some (set_status_spec now R_RUNNING None j)), s')"
    using room js(1) cons s'(1) get_law [OF s'(2), of "rj_id j"] s'(3)
    by (simp add: rq_dequeue_def bind_op_run active_count_run [OF inv])
  with j oldest s' show ?thesis by blast
qed

text \<open>The bound on running jobs: a dequeue never passes it.\<close>

lemma dequeue_bound:
  assumes inv: "invar s" and bound: "int (count_jobs (jobs s) (in_status R_RUNNING)) \<le> max_concurrent"
    and run: "rq_dequeue R max_concurrent now s = (res, s')"
  shows "invar s' \<and> int (count_jobs (jobs s') (in_status R_RUNNING)) \<le> max_concurrent"
proof (cases "max_concurrent \<le> int (count_jobs (jobs s) (in_status R_RUNNING))
      \<or> count_jobs (jobs s) (in_status R_QUEUED) = 0")
  case True
  with dequeue_idle [OF inv] run have "s' = s" by simp
  with inv bound show ?thesis by simp
next
  case False
  then obtain j t where j: "jobs s (rj_id j) = Some j" "rj_status j = R_QUEUED"
      "rq_dequeue R max_concurrent now s = (Inr (Some (set_status_spec now R_RUNNING None j)), t)"
      "invar t" "jobs t = (jobs s)(rj_id j \<mapsto> set_status_spec now R_RUNNING None j)"
    using dequeue_takes_oldest [OF inv, of max_concurrent now] by auto
  then have "count_jobs (jobs t) (in_status R_RUNNING) = Suc (count_jobs (jobs s) (in_status R_RUNNING))"
    using count_jobs_write [OF jobs_finite [OF inv, of R_RUNNING], of "rj_id j"] by simp
  with False j(3,4) run show ?thesis by simp
qed

lemma recover_loop_run:
  assumes "invar s" and "distinct (map rj_id js)"
    and "\<And>j. j \<in> set js \<Longrightarrow> jobs s (rj_id j) = Some j \<and> rj_status j = R_RUNNING"
  shows "\<exists>s'. recover_loop R clk i js acc s = (Inr (acc @ js), s') \<and> invar s' \<and>
    (\<forall>k \<in> rj_id ` set js. recovered_as (jobs s k) (jobs s' k)) \<and>
    (\<forall>k. k \<notin> rj_id ` set js \<longrightarrow> jobs s' k = jobs s k)"
  using assms
proof (induction js arbitrary: i acc s)
  case (Cons j js)
  have j: "jobs s (rj_id j) = Some j" "rj_status j = R_RUNNING"
    using Cons.prems(3) by auto
  obtain t where t: "rr_update_status R (clk i) (rj_id j) R_FAILED (Some recovery_message) s = (Inr (), t)"
      "invar t" "jobs t = (jobs s)(rj_id j \<mapsto> set_status_spec (clk i) R_FAILED (Some recovery_message) j)"
    using update_status_law [OF Cons.prems(1) j(1), of R_FAILED "Some recovery_message"] j(2)
    by (auto simp: em_ok_def)
  have rest: "jobs t (rj_id i) = Some i \<and> rj_status i = R_RUNNING" if "i \<in> set js" for i
  proof -
    have "rj_id i \<noteq> rj_id j" using Cons.prems(2) that by (simp add: image_iff) metis
    then show ?thesis using Cons.prems(3) [of i] that t(3) by simp
  qed
  obtain s' where s': "recover_loop R clk (Suc i) js (acc @ [j]) t = (Inr ((acc @ [j]) @ js), s')"
      "invar s'" and upd: "\<forall>k \<in> rj_id ` set js. recovered_as (jobs t k) (jobs s' k)"
      "\<forall>k. k \<notin> rj_id ` set js \<longrightarrow> jobs s' k = jobs t k"
    using Cons.IH [OF t(2) _ rest, of "Suc i" "acc @ [j]"] Cons.prems(2) by auto
  have "recovered_as (jobs s (rj_id j)) (jobs s' (rj_id j))"
    using upd(2) Cons.prems(2) j(1) t(3) by (auto simp: recovered_as_def)
  moreover have "jobs t k = jobs s k" if "k \<noteq> rj_id j" for k
    using t(3) that by simp
  ultimately have "\<forall>k \<in> rj_id ` set (j # js). recovered_as (jobs s k) (jobs s' k)"
      "\<forall>k. k \<notin> rj_id ` set (j # js) \<longrightarrow> jobs s' k = jobs s k"
    using upd Cons.prems(2) by auto (metis image_eqI)
  with s' t(1) show ?case by simp
qed auto

lemma recover_run:
  assumes inv: "invar s"
  shows "\<exists>js s'. rq_recover R clk s = (Inr js, s') \<and> invar s' \<and>
    lists_jobs (jobs s) (in_status R_RUNNING) js \<and>
    (\<forall>k. if (\<exists>j. jobs s k = Some j \<and> rj_status j = R_RUNNING)
         then recovered_as (jobs s k) (jobs s' k) else jobs s' k = jobs s k)"
proof -
  obtain js where js: "rr_list_by_status R R_RUNNING s = (Inr js, s)"
      "lists_jobs (jobs s) (in_status R_RUNNING) js"
    using list_by_status_law [OF inv] by blast
  then have ids: "k \<in> rj_id ` set js \<longleftrightarrow> (\<exists>j. jobs s k = Some j \<and> rj_status j = R_RUNNING)" for k
    using jobs_id [OF inv] unfolding lists_jobs_def by force
  obtain s' where s': "recover_loop R clk 0 js [] s = (Inr js, s')" "invar s'"
      "\<forall>k \<in> rj_id ` set js. recovered_as (jobs s k) (jobs s' k)"
      "\<forall>k. k \<notin> rj_id ` set js \<longrightarrow> jobs s' k = jobs s k"
    using recover_loop_run [OF inv, of js clk 0 "[]"] js(2) by (auto simp: lists_jobs_def)
  have "rq_recover R clk s = (Inr js, s')"
    using js(1) s'(1) by (simp add: rq_recover_def)
  with s'(2-4) js(2) show ?thesis by (metis ids)
qed

lemma recover_no_running:
  assumes "invar s" and "rq_recover R clk s = (res, s')"
  shows "invar s' \<and> count_jobs (jobs s') (in_status R_RUNNING) = 0"
proof -
  obtain js where s': "rq_recover R clk s = (Inr js, s')" "invar s'"
      and upd: "\<And>k. if (\<exists>j. jobs s k = Some j \<and> rj_status j = R_RUNNING)
         then recovered_as (jobs s k) (jobs s' k) else jobs s' k = jobs s k"
    using recover_run [OF assms(1), of clk] assms(2) by auto
  have "rj_status j \<noteq> R_RUNNING" if "jobs s' k = Some j" for k j
    using upd [of k] that by (auto simp: recovered_as_def split: if_splits)
  then have "{k. \<exists>j. jobs s' k = Some j \<and> rj_status j = R_RUNNING} = {}" by blast
  with s'(2) show ?thesis by (simp only: count_jobs_def card.empty)
qed

end

subsection \<open>Properties\<close>

lemma sql_map_Nil [simp]: "sql_map [] = Map.empty"
  by (rule ext) (simp add: sql_map_def tbl_get_def)

lemma count_jobs_empty [simp]: "count_jobs Map.empty P = 0"
  by (simp add: count_jobs_def)

lemma count_jobs_fresh:
  "m k = None \<Longrightarrow> finite {k. \<exists>j. m k = Some j \<and> P j} \<Longrightarrow>
   count_jobs (m(k \<mapsto> j)) P = count_jobs m P + (if P j then 1 else 0)"
  by (simp add: count_jobs_write)

text \<open>A table of one queued job, and one whose job is running, for the witnesses.\<close>

definition demo_rows :: sql_jobs where
  "demo_rows = [job_to_row (demo_job ''a'' 1)]"

definition running_rows :: sql_jobs where
  "running_rows = [job_to_row (set_status_spec 5 R_RUNNING None (demo_job ''a'' 1))]"

lemma demo_rows_facts:
  "sql_invar demo_rows" "sql_map demo_rows = Map.empty(''a'' \<mapsto> demo_job ''a'' 1)"
  "sql_invar running_rows"
  "sql_map running_rows = Map.empty(''a'' \<mapsto> set_status_spec 5 R_RUNNING None (demo_job ''a'' 1))"
  "rq_active_count sql_repo demo_rows = (Inr 0, demo_rows)"
  "sql_list_by_status R_QUEUED demo_rows = (Inr [demo_job ''a'' 1], demo_rows)"
proof -
  have p: "\<not> rj_partial_file_detected (set_status_spec 5 R_RUNNING None (demo_job ''a'' 1))"
    by (simp add: set_status_spec_def)
  show "sql_invar demo_rows" by (simp add: demo_rows_def sql_invar_def)
  show "sql_invar running_rows"
    by (simp add: running_rows_def sql_invar_def p wf_set_status em_ok_def)
  show "sql_map demo_rows = Map.empty(''a'' \<mapsto> demo_job ''a'' 1)"
    by (rule ext) (simp add: demo_rows_def sql_map_def tbl_get_def)
  show "sql_map running_rows = Map.empty(''a'' \<mapsto> set_status_spec 5 R_RUNNING None (demo_job ''a'' 1))"
    by (rule ext) (simp add: running_rows_def sql_map_def tbl_get_def p)
  show "rq_active_count sql_repo demo_rows = (Inr 0, demo_rows)"
    and "sql_list_by_status R_QUEUED demo_rows = (Inr [demo_job ''a'' 1], demo_rows)"
    by code_simp+
qed

text \<open>
  With a free slot and a non-empty queue, \<open>dequeue\<close> returns a queued job no younger
  than any other, moved to running at the time of the call, and changes no other job.
\<close>

theorem dequeue_is_fifo:
  assumes "sql_invar rows"
    and "int (count_jobs (sql_map rows) (in_status R_RUNNING)) < max_concurrent"
    and "0 < count_jobs (sql_map rows) (in_status R_QUEUED)"
  shows "\<exists>j rows'. sql_map rows (rj_id j) = Some j \<and> rj_status j = R_QUEUED \<and>
    (\<forall>k i. sql_map rows k = Some i \<and> rj_status i = R_QUEUED \<longrightarrow> rj_created_at j \<le> rj_created_at i) \<and>
    rq_dequeue sql_repo max_concurrent now rows
      = (Inr (Some (set_status_spec now R_RUNNING None j)), rows') \<and>
    sql_invar rows' \<and>
    sql_map rows' = (sql_map rows)(rj_id j \<mapsto> set_status_spec now R_RUNNING None j)"
  using assms by (rule sql.dequeue_takes_oldest)

theorem dequeue_is_fifo_witness:
  "\<exists>j rows'. rq_dequeue sql_repo 2 9 demo_rows = (Inr (Some j), rows') \<and>
     rj_id j = ''a'' \<and> rj_status j = R_RUNNING"
proof -
  have "int (count_jobs (sql_map demo_rows) (in_status R_RUNNING)) < 2"
    and "0 < count_jobs (sql_map demo_rows) (in_status R_QUEUED)"
    by (simp_all add: demo_rows_facts count_jobs_fresh)
  from dequeue_is_fifo [OF demo_rows_facts(1) this, of 9] show ?thesis
    by (auto simp: demo_rows_facts split: if_splits)
qed

text \<open>
  \<open>enqueue\<close> refuses a job exactly when the queue has reached its maximum depth: it then
  raises \<open>QueueFullError\<close> with that depth and stores nothing, and otherwise stores the new
  job, which makes the queue one longer.
\<close>

theorem enqueue_respects_depth:
  assumes "sql_invar rows" and "sql_map rows (rj_id j) = None" and "wf_job j"
    and "\<not> rj_partial_file_detected j" and "rj_status j = R_QUEUED"
  shows "if max_depth \<le> int (count_jobs (sql_map rows) (in_status R_QUEUED))
    then rq_enqueue sql_repo max_depth j rows
      = (Inl (QueueFullError (count_jobs (sql_map rows) (in_status R_QUEUED)) max_depth), rows)
    else \<exists>rows'. rq_enqueue sql_repo max_depth j rows = (Inr j, rows') \<and> sql_invar rows' \<and>
      sql_map rows' = (sql_map rows)(rj_id j \<mapsto> j) \<and>
      count_jobs (sql_map rows') (in_status R_QUEUED)
        = Suc (count_jobs (sql_map rows) (in_status R_QUEUED))"
proof (cases "max_depth \<le> int (count_jobs (sql_map rows) (in_status R_QUEUED))")
  case True
  then show ?thesis by (simp add: sql.enqueue_refused [OF assms(1)])
next
  case False
  then show ?thesis using sql.enqueue_accepted [OF assms(1) _ assms(2-5), of max_depth] by auto
qed

theorem enqueue_respects_depth_witness:
  "rq_enqueue sql_repo 1 (demo_job ''b'' 2) demo_rows = (Inl (QueueFullError 1 1), demo_rows)"
proof -
  have "sql_map demo_rows (rj_id (demo_job ''b'' 2)) = None"
    by (simp add: demo_rows_facts)
  from enqueue_respects_depth [OF demo_rows_facts(1) this, of 1] show ?thesis
    by (simp add: demo_rows_facts count_jobs_fresh)
qed

text \<open>
  Recovery after a restart never raises, leaves no job running, fails every job that was
  running with the restart message, and changes no other job.
\<close>

theorem queue_recover_fails_running:
  assumes "sql_invar rows"
  shows "\<exists>js rows'. rq_recover sql_repo clk rows = (Inr js, rows') \<and> sql_invar rows' \<and>
    count_jobs (sql_map rows') (in_status R_RUNNING) = 0 \<and>
    lists_jobs (sql_map rows) (in_status R_RUNNING) js \<and>
    (\<forall>k. if (\<exists>j. sql_map rows k = Some j \<and> rj_status j = R_RUNNING)
         then recovered_as (sql_map rows k) (sql_map rows' k) else sql_map rows' k = sql_map rows k)"
  using sql.recover_run [OF assms, of clk] sql.recover_no_running [OF assms] by metis

theorem queue_recover_fails_running_witness:
  "\<exists>js rows'. rq_recover sql_repo (\<lambda>_. 9) running_rows = (Inr js, rows') \<and>
     recovered_as (sql_map running_rows ''a'') (sql_map rows' ''a'')"
proof -
  have "\<exists>j. sql_map running_rows ''a'' = Some j \<and> rj_status j = R_RUNNING"
    by (simp add: demo_rows_facts)
  with queue_recover_fails_running [OF demo_rows_facts(3), of "\<lambda>_. 9"] show ?thesis by metis
qed

end
