(* ===== verification/Queue_Interleaving.thy ===== *)
theory Queue_Interleaving
  imports Render_Queue
begin

text \<open>
  The render queue under concurrency. Each \<open>await\<close> of \<open>enqueue\<close> and \<open>dequeue\<close> lets other tasks
  run, so both are split here at their repository calls; a task is a program counter, and any
  task whose next action is enabled may take it. \<open>dequeue\<close> holds \<open>_dequeue_lock\<close> from its first
  call to its last, \<open>enqueue\<close> takes no lock. Besides queue tasks, any other part of the system
  may create jobs and change their status. Some start jobs past the queue, as a submission in the
  noop mode does; \<open>q_direct\<close> counts those starts. Ids are fresh when a job is created, as \<open>uuid4\<close> makes them.
\<close>

datatype task =
    T_Idle
  | Enq_Start render_job
  | Enq_Check render_job nat
  | Deq_Wait
  | Deq_Count
  | Deq_List
  | Deq_Update string
  | Deq_Get string

record 's qsys =
  q_store :: 's
  q_lock :: "nat option"
  q_tasks :: "nat \<Rightarrow> task"
  q_direct :: nat

definition goto :: "nat \<Rightarrow> task \<Rightarrow> 's qsys \<Rightarrow> 's qsys" where
  "goto i t s = s\<lparr>q_tasks := (q_tasks s)(i := t)\<rparr>"

definition unlock :: "'s qsys \<Rightarrow> 's qsys" where
  "unlock s = s\<lparr>q_lock := None\<rparr>"

definition new_job :: "render_job \<Rightarrow> bool" where
  "new_job j \<longleftrightarrow> wf_job j \<and> rj_status j = R_QUEUED \<and> \<not> rj_partial_file_detected j"

inductive q_step :: "'s render_repo \<Rightarrow> int \<Rightarrow> int \<Rightarrow> 's qsys \<Rightarrow> 's qsys \<Rightarrow> bool"
  for R :: "'s render_repo" and max_concurrent max_depth :: int where
  enq_begin: "q_tasks s i = T_Idle \<Longrightarrow> new_job j \<Longrightarrow>
    q_step R max_concurrent max_depth s (goto i (Enq_Start j) s)"
| enq_depth: "q_tasks s i = Enq_Start j \<Longrightarrow> rq_queue_depth R (q_store s) = (Inr n, s') \<Longrightarrow>
    q_step R max_concurrent max_depth s (goto i (Enq_Check j n) (s\<lparr>q_store := s'\<rparr>))"
| enq_full: "q_tasks s i = Enq_Check j n \<Longrightarrow> max_depth \<le> int n \<Longrightarrow>
    q_step R max_concurrent max_depth s (goto i T_Idle s)"
| enq_create: "q_tasks s i = Enq_Check j n \<Longrightarrow> int n < max_depth \<Longrightarrow>
    rr_get R (rj_id j) (q_store s) = (Inr None, q_store s) \<Longrightarrow>
    rr_create R j (q_store s) = (res, s') \<Longrightarrow>
    q_step R max_concurrent max_depth s (goto i T_Idle (s\<lparr>q_store := s'\<rparr>))"
| deq_begin: "q_tasks s i = T_Idle \<Longrightarrow>
    q_step R max_concurrent max_depth s (goto i Deq_Wait s)"
| deq_lock: "q_tasks s i = Deq_Wait \<Longrightarrow> q_lock s = None \<Longrightarrow>
    q_step R max_concurrent max_depth s (goto i Deq_Count (s\<lparr>q_lock := Some i\<rparr>))"
| deq_busy: "q_tasks s i = Deq_Count \<Longrightarrow> rq_active_count R (q_store s) = (Inr n, s') \<Longrightarrow>
    max_concurrent \<le> int n \<Longrightarrow>
    q_step R max_concurrent max_depth s (goto i T_Idle (unlock (s\<lparr>q_store := s'\<rparr>)))"
| deq_room: "q_tasks s i = Deq_Count \<Longrightarrow> rq_active_count R (q_store s) = (Inr n, s') \<Longrightarrow>
    int n < max_concurrent \<Longrightarrow>
    q_step R max_concurrent max_depth s (goto i Deq_List (s\<lparr>q_store := s'\<rparr>))"
| deq_empty: "q_tasks s i = Deq_List \<Longrightarrow>
    rr_list_by_status R R_QUEUED (q_store s) = (Inr [], s') \<Longrightarrow>
    q_step R max_concurrent max_depth s (goto i T_Idle (unlock (s\<lparr>q_store := s'\<rparr>)))"
| deq_pick: "q_tasks s i = Deq_List \<Longrightarrow>
    rr_list_by_status R R_QUEUED (q_store s) = (Inr (j # js), s') \<Longrightarrow>
    q_step R max_concurrent max_depth s (goto i (Deq_Update (rj_id j)) (s\<lparr>q_store := s'\<rparr>))"
| deq_start: "q_tasks s i = Deq_Update k \<Longrightarrow>
    rr_update_status R now k R_RUNNING None (q_store s) = (Inr (), s') \<Longrightarrow>
    q_step R max_concurrent max_depth s (goto i (Deq_Get k) (s\<lparr>q_store := s'\<rparr>))"
| deq_lost: "q_tasks s i = Deq_Update k \<Longrightarrow>
    rr_update_status R now k R_RUNNING None (q_store s) = (Inl e, s') \<Longrightarrow>
    q_step R max_concurrent max_depth s (goto i T_Idle (unlock (s\<lparr>q_store := s'\<rparr>)))"
| deq_done: "q_tasks s i = Deq_Get k \<Longrightarrow> rr_get R k (q_store s) = (res', s') \<Longrightarrow>
    q_step R max_concurrent max_depth s (goto i T_Idle (unlock (s\<lparr>q_store := s'\<rparr>)))"
| outside: "st \<noteq> R_RUNNING \<Longrightarrow> em_ok st em \<Longrightarrow>
    rr_update_status R now k st em (q_store s) = (res'', s') \<Longrightarrow>
    q_step R max_concurrent max_depth s (s\<lparr>q_store := s'\<rparr>)"
| direct_create: "new_job j \<Longrightarrow> rr_get R (rj_id j) (q_store s) = (Inr None, q_store s) \<Longrightarrow>
    rr_create R j (q_store s) = (res, s') \<Longrightarrow>
    q_step R max_concurrent max_depth s (s\<lparr>q_store := s'\<rparr>)"
| direct_start: "rr_update_status R now k R_RUNNING None (q_store s) = (res'', s') \<Longrightarrow>
    q_step R max_concurrent max_depth s (s\<lparr>q_store := s', q_direct := q_direct s + (if isl res'' then 0 else 1)\<rparr>)"

definition q_start :: "'s \<Rightarrow> 's qsys" where
  "q_start s = \<lparr>q_store = s, q_lock = None, q_tasks = (\<lambda>_. T_Idle), q_direct = 0\<rparr>"

lemma qsys_sel [simp]:
  "q_store (goto i t s) = q_store s" "q_lock (goto i t s) = q_lock s"
  "q_tasks (goto i t s) = (q_tasks s)(i := t)"
  "q_store (unlock s) = q_store s" "q_lock (unlock s) = None" "q_tasks (unlock s) = q_tasks s"
  "q_direct (goto i t s) = q_direct s" "q_direct (unlock s) = q_direct s" "q_direct (q_start x) = 0"
  "q_store (q_start x) = x" "q_lock (q_start x) = None" "q_tasks (q_start x) = (\<lambda>_. T_Idle)"
  by (simp_all add: goto_def unlock_def q_start_def)

fun holds_lock :: "task \<Rightarrow> bool" where
  "holds_lock Deq_Count = True"
| "holds_lock Deq_List = True"
| "holds_lock (Deq_Update k) = True"
| "holds_lock (Deq_Get k) = True"
| "holds_lock _ = False"

text \<open>Between its count and its update a dequeue relies on a free slot.\<close>

fun needs_slot :: "task \<Rightarrow> bool" where
  "needs_slot Deq_List = True"
| "needs_slot (Deq_Update k) = True"
| "needs_slot _ = False"

fun task_ok :: "task \<Rightarrow> bool" where
  "task_ok (Enq_Start j) = new_job j"
| "task_ok (Enq_Check j n) = new_job j"
| "task_ok _ = True"

lemmas step_chain = converse_rtranclp_into_rtranclp [where r = "q_step R c d" for R c d]
lemmas step_last = r_into_rtranclp [where r = "q_step R c d" for R c d]

context render_repository
begin

definition q_inv :: "int \<Rightarrow> int \<Rightarrow> 's qsys \<Rightarrow> bool" where
  "q_inv max_concurrent base s \<longleftrightarrow>
     invar (q_store s) \<and> max_concurrent \<le> base
     \<and> int (count_jobs (jobs (q_store s)) (in_status R_RUNNING)) \<le> base + int (q_direct s)
     \<and> (\<forall>i. holds_lock (q_tasks s i) \<longrightarrow> q_lock s = Some i)
     \<and> (\<forall>i. needs_slot (q_tasks s i) \<longrightarrow>
           int (count_jobs (jobs (q_store s)) (in_status R_RUNNING)) < max_concurrent + int (q_direct s))
     \<and> (\<forall>i. task_ok (q_tasks s i))"

lemma q_invI:
  assumes "invar (q_store s)" and "max_concurrent \<le> base"
    and "int (count_jobs (jobs (q_store s)) (in_status R_RUNNING)) \<le> base + int (q_direct s)"
    and "\<And>i. holds_lock (q_tasks s i) \<Longrightarrow> q_lock s = Some i"
    and "\<And>i. needs_slot (q_tasks s i) \<Longrightarrow>
           int (count_jobs (jobs (q_store s)) (in_status R_RUNNING)) < max_concurrent + int (q_direct s)"
    and "\<And>i. task_ok (q_tasks s i)"
  shows "q_inv max_concurrent base s"
  using assms by (simp add: q_inv_def)

lemma needs_slot_lock: "needs_slot t \<Longrightarrow> holds_lock t"
  by (cases t) auto

text \<open>A status change away from running, or that fails, frees slots at most.\<close>

lemma outside_count:
  assumes inv: "invar s" and "st \<noteq> R_RUNNING" and "em_ok st em"
    and run: "rr_update_status R now k st em s = (res, s')"
  shows "invar s' \<and>
    count_jobs (jobs s') (in_status R_RUNNING) \<le> count_jobs (jobs s) (in_status R_RUNNING)"
proof (cases "jobs s k")
  case None
  with update_status_missing [OF inv None] run inv show ?thesis by simp
next
  case (Some j)
  show ?thesis
  proof (cases "render_step (rj_status j) st")
    case True
    with update_status_law [OF inv Some True assms(3), of now] run assms(2) show ?thesis
      using count_jobs_write [OF jobs_finite [OF inv, of R_RUNNING], of k] by auto
  next
    case False
    with update_status_invalid [OF inv Some False] run inv show ?thesis by simp
  qed
qed

lemma create_count:
  assumes inv: "invar s" and j: "new_job j" and "jobs s (rj_id j) = None"
    and run: "rr_create R j s = (res, s')"
  shows "invar s' \<and>
    count_jobs (jobs s') (in_status R_RUNNING) = count_jobs (jobs s) (in_status R_RUNNING)"
  using create_law [OF inv assms(3)] j run
    count_jobs_write [OF jobs_finite [OF inv, of R_RUNNING], of "rj_id j" j] assms(3)
  by (auto simp: new_job_def)

lemma start_count:
  assumes inv: "invar s" and run: "rr_update_status R now k R_RUNNING None s = (res, s')"
  shows "invar s' \<and> (\<forall>e. res = Inl e \<longrightarrow> s' = s) \<and>
    count_jobs (jobs s') (in_status R_RUNNING) \<le> Suc (count_jobs (jobs s) (in_status R_RUNNING))"
proof (cases "jobs s k")
  case None
  with update_status_missing [OF inv None] run inv show ?thesis by simp
next
  case (Some j)
  show ?thesis
  proof (cases "render_step (rj_status j) R_RUNNING")
    case True
    with update_status_law [OF inv Some True, of None now] run show ?thesis
      using count_jobs_write [OF jobs_finite [OF inv, of R_RUNNING], of k] by (auto simp: em_ok_def)
  next
    case False
    with update_status_invalid [OF inv Some False] run inv show ?thesis by simp
  qed
qed

lemma list_same: "invar s \<Longrightarrow> rr_list_by_status R st s = (r, s') \<Longrightarrow> s' = s"
  using list_by_status_law [of s st] by auto

lemma lock_unique:
  "q_inv m b s \<Longrightarrow> holds_lock (q_tasks s i) \<Longrightarrow> holds_lock (q_tasks s j) \<Longrightarrow> i = j"
  unfolding q_inv_def by (metis option.inject)

lemma unlock_inv:
  assumes "q_inv m b s" and "holds_lock (q_tasks s i)" and "s' = q_store s"
  shows "q_inv m b (goto i T_Idle (unlock (s\<lparr>q_store := s'\<rparr>)))"
proof (rule q_invI)
  fix j assume "holds_lock (q_tasks (goto i T_Idle (unlock (s\<lparr>q_store := s'\<rparr>))) j)"
  then show "q_lock (goto i T_Idle (unlock (s\<lparr>q_store := s'\<rparr>))) = Some j"
    using lock_unique [OF assms(1,2), of j] by (auto split: if_splits)
next
  fix j assume "needs_slot (q_tasks (goto i T_Idle (unlock (s\<lparr>q_store := s'\<rparr>))) j)"
  then show "int (count_jobs (jobs (q_store (goto i T_Idle (unlock (s\<lparr>q_store := s'\<rparr>))))) (in_status R_RUNNING)) <
      m + int (q_direct (goto i T_Idle (unlock (s\<lparr>q_store := s'\<rparr>))))"
    using assms(1,3) by (auto simp: q_inv_def split: if_splits)
qed (use assms(1,3) in \<open>auto simp: q_inv_def\<close>)

lemma q_step_inv:
  "q_step R max_concurrent max_depth s t \<Longrightarrow> q_inv max_concurrent base s \<Longrightarrow> q_inv max_concurrent base t"
proof (induction rule: q_step.induct)
  case (enq_depth s i j n s')
  moreover have "invar (q_store s)" using enq_depth.prems by (simp add: q_inv_def)
  ultimately show ?case
    by (auto simp: queue_depth_run q_inv_def) (metis task_ok.simps(1))+
next
  case (enq_create s i j n res s')
  have inv: "invar (q_store s)" and j: "new_job j"
    using enq_create.prems enq_create.hyps(1) unfolding q_inv_def by (simp, metis task_ok.simps(2))
  have "jobs (q_store s) (rj_id j) = None"
    using enq_create.hyps(3) get_law [OF inv] by simp
  from create_count [OF inv j this enq_create.hyps(4)] show ?case
    using enq_create.prems by (intro q_invI) (auto simp: q_inv_def split: if_splits)
next
  case (deq_start s i k now s')
  note here = deq_start.prems [unfolded q_inv_def] deq_start.hyps(1)
  have inv: "invar (q_store s)" using here by simp
  have slot: "int (count_jobs (jobs (q_store s)) (in_status R_RUNNING)) < max_concurrent + int (q_direct s)"
    using here by (metis needs_slot.simps(2))
  have lock_i: "q_lock s = Some i"
    using here by (metis holds_lock.simps(3))
  have lock_j: "j = i" if "holds_lock (q_tasks s j)" for j
    using here that lock_i by (metis option.inject)
  note lock = lock_i lock_j
  have "needs_slot (q_tasks s j) \<Longrightarrow> j = i" for j
    using lock(2) needs_slot_lock by blast
  then show ?case
    using start_count [OF inv deq_start.hyps(2)] slot lock deq_start.prems
    by (intro q_invI) (auto simp: q_inv_def split: if_splits)
next
  case (deq_lost s i k now e s')
  have inv: "invar (q_store s)" using deq_lost.prems by (simp add: q_inv_def)
  have "s' = q_store s" using start_count [OF inv deq_lost.hyps(2)] by blast
  with deq_lost show ?case by (intro unlock_inv) simp_all
next
  case (deq_busy s i n s')
  then show ?case
    by (intro unlock_inv) (auto simp: q_inv_def active_count_run)
next
  case (deq_empty s i s')
  then show ?case
    by (intro unlock_inv) (auto simp: q_inv_def dest: list_same)
next
  case (deq_done s i k res' s')
  then show ?case
    by (intro unlock_inv) (auto simp: q_inv_def get_law)
next
  case (deq_lock s i)
  then show ?case
    unfolding q_inv_def by (auto split: if_splits)
next
  case (deq_room s i n s')
  then have s': "s' = q_store s" "int (count_jobs (jobs (q_store s)) (in_status R_RUNNING)) < max_concurrent + int (q_direct s)"
    by (auto simp: q_inv_def active_count_run)
  from deq_room have "q_lock s = Some i" unfolding q_inv_def by (metis holds_lock.simps(1))
  with s' deq_room.prems show ?case
    by (intro q_invI) (auto simp: q_inv_def split: if_splits)
next
  case (deq_pick s i j js s')
  then have s': "s' = q_store s" by (auto simp: q_inv_def dest: list_same)
  from deq_pick have "q_lock s = Some i" unfolding q_inv_def by (metis holds_lock.simps(2))
  moreover from deq_pick have "int (count_jobs (jobs (q_store s)) (in_status R_RUNNING)) < max_concurrent + int (q_direct s)"
    unfolding q_inv_def by (metis needs_slot.simps(1))
  ultimately show ?case using s' deq_pick.prems
    by (intro q_invI) (auto simp: q_inv_def split: if_splits)
next
  case (outside st em now k s res'' s')
  have "invar (q_store s)" using outside.prems by (simp add: q_inv_def)
  from outside_count [OF this outside.hyps] outside.prems show ?case
    by (intro q_invI) (auto simp: q_inv_def intro: le_less_trans)
next
  case (direct_create j s res s')
  have inv: "invar (q_store s)" using direct_create.prems by (simp add: q_inv_def)
  have "jobs (q_store s) (rj_id j) = None" using direct_create.hyps(2) get_law [OF inv] by simp
  from create_count [OF inv direct_create.hyps(1) this direct_create.hyps(3)] show ?case
    using direct_create.prems by (intro q_invI) (auto simp: q_inv_def)
next
  case (direct_start now k s res'' s')
  let ?n = "count_jobs (jobs (q_store s)) (in_status R_RUNNING)" and ?n' = "count_jobs (jobs s') (in_status R_RUNNING)"
  have inv: "invar (q_store s)" using direct_start.prems by (simp add: q_inv_def)
  have n: "invar s'" "int ?n' \<le> int ?n + (if isl res'' then 0 else 1)"
    using start_count [OF inv direct_start.hyps] by (cases res''; auto)+
  with direct_start.prems show ?case
    by (intro q_invI) (fastforce simp: q_inv_def split: if_splits)+
qed (auto simp: q_inv_def split: if_splits)

lemma q_reach_inv:
  assumes "(q_step R max_concurrent max_depth)\<^sup>*\<^sup>* (q_start s) t" and "invar s"
  shows "q_inv max_concurrent (max max_concurrent (int (count_jobs (jobs s) (in_status R_RUNNING)))) t"
  using assms(1)
proof (induction rule: rtranclp_induct)
  case base
  show ?case using assms(2) by (simp add: q_inv_def)
next
  case (step t u)
  then show ?case using q_step_inv by blast
qed

end

subsection \<open>Properties\<close>

text \<open>
  C2. However enqueues, dequeues, and creations and status changes by others interleave, a queue over the SQLite
  repository never has more jobs running than \<open>max_concurrent\<close>, or than were running at the start if
  those are more, and the jobs others started past the queue: \<open>dequeue\<close> itself never overcommits.
\<close>

theorem dequeue_never_overcommits:
  assumes "(q_step sql_repo max_concurrent max_depth)\<^sup>*\<^sup>* (q_start rows) t" and "sql_invar rows"
  shows "int (count_jobs (sql_map (q_store t)) (in_status R_RUNNING)) \<le>
    max max_concurrent (int (count_jobs (sql_map rows) (in_status R_RUNNING))) + int (q_direct t)"
  using sql.q_reach_inv [OF assms] by (simp add: sql.q_inv_def)

theorem dequeue_never_overcommits_witness:
  "\<exists>t. (q_step sql_repo 1 1)\<^sup>*\<^sup>* (q_start demo_rows) t \<and> q_tasks t 0 = Deq_Update ''a''
     \<and> int (count_jobs (sql_map (q_store t)) (in_status R_RUNNING)) \<le> 1"
proof -
  let ?s1 = "goto 0 Deq_Wait (q_start demo_rows)"
  let ?s2 = "goto 0 Deq_Count (?s1\<lparr>q_lock := Some 0\<rparr>)"
  let ?s3 = "goto 0 Deq_List (?s2\<lparr>q_store := demo_rows\<rparr>)"
  let ?s4 = "goto 0 (Deq_Update (rj_id (demo_job ''a'' 1))) (?s3\<lparr>q_store := demo_rows\<rparr>)"
  have c1: "q_step sql_repo 1 1 (q_start demo_rows) ?s1"
    by (rule q_step.deq_begin) simp
  have c2: "q_step sql_repo 1 1 ?s1 ?s2"
    by (rule q_step.deq_lock) simp_all
  have c3: "q_step sql_repo 1 1 ?s2 ?s3"
    by (rule q_step.deq_room) (simp_all add: demo_rows_facts(5))
  have c4: "q_step sql_repo 1 1 ?s3 ?s4"
    by (rule q_step.deq_pick [where js = "[]"]) (simp_all add: demo_rows_facts(6))
  have reach: "(q_step sql_repo 1 1)\<^sup>*\<^sup>* (q_start demo_rows) ?s4"
    by (rule step_chain [OF c1 step_chain [OF c2 step_chain [OF c3 step_last [OF c4]]]])
  have "count_jobs (sql_map demo_rows) (in_status R_RUNNING) = 0"
    by (simp add: demo_rows_facts(2) count_jobs_fresh)
  with dequeue_never_overcommits [OF reach demo_rows_facts(1)] reach show ?thesis
    by (intro exI [of _ ?s4]) simp
qed

text \<open>
  \<open>enqueue\<close> takes no lock between reading the depth and inserting the job, so two
  concurrent enqueues can both pass the check: a queue of maximum depth 1 reaches depth 2.
\<close>

theorem enqueue_overshoots_depth:
  "\<exists>t. (q_step sql_repo 1 1)\<^sup>*\<^sup>* (q_start []) t
     \<and> count_jobs (sql_map (q_store t)) (in_status R_QUEUED) = 2"
proof -
  let ?a = "demo_job ''a'' 1" and ?b = "demo_job ''b'' 2"
  let ?s1 = "goto 0 (Enq_Start ?a) (q_start [])"
  let ?s2 = "goto 1 (Enq_Start ?b) ?s1"
  let ?s3 = "goto 0 (Enq_Check ?a 0) (?s2\<lparr>q_store := []\<rparr>)"
  let ?s4 = "goto 1 (Enq_Check ?b 0) (?s3\<lparr>q_store := []\<rparr>)"
  let ?s5 = "goto 0 T_Idle (?s4\<lparr>q_store := [job_to_row ?a]\<rparr>)"
  let ?s6 = "goto 1 T_Idle (?s5\<lparr>q_store := [job_to_row ?a, job_to_row ?b]\<rparr>)"
  have empty: "rq_queue_depth sql_repo [] = (Inr 0, [])"
    by code_simp
  have runs: "sql_get ''a'' [] = (Inr None, [])" "sql_create ?a [] = (Inr ?a, [job_to_row ?a])"
      "sql_get ''b'' [job_to_row ?a] = (Inr None, [job_to_row ?a])"
      "sql_create ?b [job_to_row ?a] = (Inr ?b, [job_to_row ?a, job_to_row ?b])"
    by code_simp+
  have c1: "q_step sql_repo 1 1 (q_start []) ?s1"
    by (rule q_step.enq_begin) (simp_all add: new_job_def)
  have c2: "q_step sql_repo 1 1 ?s1 ?s2"
    by (rule q_step.enq_begin) (simp_all add: new_job_def)
  have c3: "q_step sql_repo 1 1 ?s2 ?s3"
    by (rule q_step.enq_depth) (simp_all add: empty)
  have c4: "q_step sql_repo 1 1 ?s3 ?s4"
    by (rule q_step.enq_depth) (simp_all add: empty)
  have c5: "q_step sql_repo 1 1 ?s4 ?s5"
    by (rule q_step.enq_create [where j = ?a and n = 0 and res = "Inr ?a"]) (simp_all add: runs)
  have c6: "q_step sql_repo 1 1 ?s5 ?s6"
    by (rule q_step.enq_create [where j = ?b and n = 0 and res = "Inr ?b"]) (simp_all add: runs)
  have reach: "(q_step sql_repo 1 1)\<^sup>*\<^sup>* (q_start []) ?s6"
    by (rule step_chain [OF c1 step_chain [OF c2 step_chain [OF c3 step_chain [OF c4 step_chain [OF c5 step_last [OF c6]]]]]])
  have "sql_map [job_to_row ?a, job_to_row ?b] = Map.empty(''a'' \<mapsto> ?a, ''b'' \<mapsto> ?b)"
    by (rule ext) (simp add: sql_map_def tbl_get_def)
  then have "count_jobs (sql_map [job_to_row ?a, job_to_row ?b]) (in_status R_QUEUED) = 2"
    by (simp add: count_jobs_fresh)
  with reach show ?thesis by (intro exI [of _ ?s6]) simp
qed

end
