(* ===== verification/Repo_Equivalence.thy ===== *)
theory Repo_Equivalence
  imports Render_Repository
begin

text \<open>
  The tests run against \<open>InMemoryRenderRepository\<close>, the server against
  \<open>AsyncSQLiteRenderRepository\<close>. Both refine one abstract repository, a map from ids to jobs
  with a specification of every call's reply and effect, so on every sequence of admissible
  calls they answer alike. A call is admissible (\<open>call_ok\<close>) when it stays within what the
  code's callers do: fresh ids, an error message only with a failing status, pages with
  natural bounds, and listings of jobs whose creation dates differ (for equal dates the two
  implementations do order differently).
\<close>

datatype repo_call =
    CreateJob render_job
  | GetJob string
  | ListProject string
  | ListStatus render_status
  | ListPage "render_status option" int int
  | SetStatus time string render_status "string option"
  | SetProgress time string rat
  | ListStale time
  | SetPartial string bool
  | SetEvidence string string
  | DeleteJob string

datatype repo_reply =
    RUnit
  | RJob "render_job option"
  | RJobs "render_job list"
  | RPage "render_job list" nat
  | RSet "render_job set"
  | RBool bool

fun repo_run :: "'s render_repo \<Rightarrow> repo_call \<Rightarrow> ('s, repo_reply) op" where
  "repo_run R (CreateJob j) = bind_op (rr_create R j) (\<lambda>j'. ret (RJob (Some j')))"
| "repo_run R (GetJob k) = bind_op (rr_get R k) (\<lambda>j. ret (RJob j))"
| "repo_run R (ListProject p) = bind_op (rr_get_by_project R p) (\<lambda>js. ret (RJobs js))"
| "repo_run R (ListStatus st) = bind_op (rr_list_by_status R st) (\<lambda>js. ret (RJobs js))"
| "repo_run R (ListPage sel limit offset) =
     bind_op (rr_list_jobs R sel limit offset) (\<lambda>(js, n). ret (RPage js n))"
| "repo_run R (SetStatus now k st em) =
     bind_op (rr_update_status R now k st em) (\<lambda>_. ret RUnit)"
| "repo_run R (SetProgress now k p) = bind_op (rr_update_progress R now k p) (\<lambda>_. ret RUnit)"
| "repo_run R (ListStale t) = bind_op (rr_list_stale_running R t) (\<lambda>js. ret (RSet (set js)))"
| "repo_run R (SetPartial k b) = bind_op (rr_update_partial_signal R k b) (\<lambda>_. ret RUnit)"
| "repo_run R (SetEvidence k ev) = bind_op (rr_update_evidence R k ev) (\<lambda>_. ret RUnit)"
| "repo_run R (DeleteJob k) = bind_op (rr_delete R k) (\<lambda>b. ret (RBool b))"

subsection \<open>The abstract repository\<close>

type_synonym job_map = "string \<Rightarrow> render_job option"

definition spec_write :: "job_map \<Rightarrow> string \<Rightarrow> (render_job \<Rightarrow> render_job option) \<Rightarrow> job_map" where
  "spec_write m k f = (case Option.bind (m k) f of None \<Rightarrow> m | Some j \<Rightarrow> m(k \<mapsto> j))"

definition status_write ::
  "time \<Rightarrow> render_status \<Rightarrow> string option \<Rightarrow> render_job \<Rightarrow> render_job option" where
  "status_write now st em j =
     (if render_step (rj_status j) st then Some (set_status_spec now st em j) else None)"

definition progress_write :: "time \<Rightarrow> rat \<Rightarrow> render_job \<Rightarrow> render_job option" where
  "progress_write now p j =
     (if 0 \<le> p \<and> p \<le> 1 then Some (j\<lparr>rj_progress := p, rj_updated_at := now\<rparr>) else None)"

fun spec_next :: "job_map \<Rightarrow> repo_call \<Rightarrow> job_map" where
  "spec_next m (CreateJob j) = m(rj_id j \<mapsto> j)"
| "spec_next m (SetStatus now k st em) = spec_write m k (status_write now st em)"
| "spec_next m (SetProgress now k p) = spec_write m k (progress_write now p)"
| "spec_next m (SetPartial k b) = spec_write m k (\<lambda>j. Some (j\<lparr>rj_partial_file_detected := b\<rparr>))"
| "spec_next m (SetEvidence k ev) = spec_write m k (\<lambda>j. Some (j\<lparr>rj_evidence_json := Some ev\<rparr>))"
| "spec_next m (DeleteJob k) = m(k := None)"
| "spec_next m _ = m"

definition write_reply :: "job_map \<Rightarrow> string \<Rightarrow> (render_job \<Rightarrow> render_job option) \<Rightarrow> exn + repo_reply"
where
  "write_reply m k f = (if Option.bind (m k) f = None then Inl ValueError else Inr RUnit)"

fun reply_ok :: "job_map \<Rightarrow> repo_call \<Rightarrow> exn + repo_reply \<Rightarrow> bool" where
  "reply_ok m (CreateJob j) r \<longleftrightarrow> r = Inr (RJob (Some j))"
| "reply_ok m (GetJob k) r \<longleftrightarrow> r = Inr (RJob (m k))"
| "reply_ok m (ListProject p) r \<longleftrightarrow>
     (\<exists>js. r = Inr (RJobs js) \<and> sorted (map rj_created_at js) \<and>
           lists_jobs m (\<lambda>j. rj_project_id j = p) js)"
| "reply_ok m (ListStatus st) r \<longleftrightarrow>
     (\<exists>js. r = Inr (RJobs js) \<and> sorted (map rj_created_at js) \<and>
           lists_jobs m (\<lambda>j. rj_status j = st) js)"
| "reply_ok m (ListPage sel limit offset) r \<longleftrightarrow>
     (\<exists>js. r = Inr (RPage (take (nat limit) (drop (nat offset) js)) (length js)) \<and>
           sorted_wrt (\<ge>) (map rj_created_at js) \<and>
           lists_jobs m (\<lambda>j. case sel of None \<Rightarrow> True | Some v \<Rightarrow> rj_status j = v) js)"
| "reply_ok m (SetStatus now k st em) r \<longleftrightarrow> r = write_reply m k (status_write now st em)"
| "reply_ok m (SetProgress now k p) r \<longleftrightarrow> r = write_reply m k (progress_write now p)"
| "reply_ok m (ListStale t) r \<longleftrightarrow>
     r = Inr (RSet {j. m (rj_id j) = Some j \<and> rj_status j = R_RUNNING \<and> rj_updated_at j < t})"
| "reply_ok m (SetPartial k b) r \<longleftrightarrow> r = write_reply m k Some"
| "reply_ok m (SetEvidence k ev) r \<longleftrightarrow> r = write_reply m k Some"
| "reply_ok m (DeleteJob k) r \<longleftrightarrow> r = Inr (RBool (m k \<noteq> None))"

definition dates_differ :: "job_map \<Rightarrow> bool" where
  "dates_differ m \<longleftrightarrow> inj_on rj_created_at {j. m (rj_id j) = Some j}"

fun call_ok :: "job_map \<Rightarrow> repo_call \<Rightarrow> bool" where
  "call_ok m (CreateJob j) \<longleftrightarrow> m (rj_id j) = None \<and> wf_job j \<and> \<not> rj_partial_file_detected j"
| "call_ok m (SetStatus now k st em) \<longleftrightarrow> em_ok st em"
| "call_ok m (ListProject p) \<longleftrightarrow> dates_differ m"
| "call_ok m (ListStatus st) \<longleftrightarrow> dates_differ m"
| "call_ok m (ListPage sel limit offset) \<longleftrightarrow> dates_differ m \<and> 0 \<le> limit \<and> 0 \<le> offset"
| "call_ok m _ \<longleftrightarrow> True"

lemma lists_jobs_unique:
  assumes "dates_differ m" and "lists_jobs m P xs" and "lists_jobs m P ys"
    and "sorted (map rj_created_at xs)" and "sorted (map rj_created_at ys)"
  shows "xs = ys"
  using assms
  by (intro sorted_unique [where f = rj_created_at])
    (auto simp: lists_jobs_def dates_differ_def distinct_map intro: inj_on_subset)

lemma lists_jobs_unique_desc:
  assumes "dates_differ m" and "lists_jobs m P xs" and "lists_jobs m P ys"
    and "sorted_wrt (\<ge>) (map rj_created_at xs)" and "sorted_wrt (\<ge>) (map rj_created_at ys)"
  shows "xs = ys"
proof -
  have "rev xs = rev ys"
    using assms by (intro lists_jobs_unique [OF assms(1), of P])
      (simp_all add: lists_jobs_def rev_map [symmetric] sorted_wrt_rev flip: rev_map)
  then show ?thesis by simp
qed

lemma reply_unique:
  "call_ok m c \<Longrightarrow> reply_ok m c r \<Longrightarrow> reply_ok m c r' \<Longrightarrow> r = r'"
  by (cases c) (auto dest: lists_jobs_unique lists_jobs_unique_desc)

subsection \<open>Every repository with the contract refines it\<close>

context render_repository
begin

lemma repo_run_refines:
  assumes inv: "invar s" and ok: "call_ok (jobs s) c"
  shows "\<exists>r s'. repo_run R c s = (r, s') \<and> invar s' \<and>
           jobs s' = spec_next (jobs s) c \<and> reply_ok (jobs s) c r"
proof (cases c)
  case (CreateJob j)
  then show ?thesis using ok create_law [OF inv, of j] by (auto simp: bind_op_run)
next
  case (ListProject p)
  then show ?thesis using inv get_by_project_law [OF inv, of p] by (auto simp: bind_op_run)
next
  case (ListStatus st)
  then show ?thesis using inv list_by_status_law [OF inv, of st] by (auto simp: bind_op_run)
next
  case (ListPage sel limit offset)
  then show ?thesis
    using inv ok list_jobs_law [OF inv, of limit offset sel] by (auto simp: bind_op_run)
next
  case (SetStatus now k st em)
  then show ?thesis
    using inv ok update_status_missing [OF inv, of k now st em]
      update_status_invalid [OF inv, of k _ st now em] update_status_law [OF inv, of k _ st em now]
    by (cases "jobs s k")
      (force simp: bind_op_run spec_write_def status_write_def write_reply_def)+
next
  case (SetProgress now k p)
  then show ?thesis
    using inv update_progress_bad [OF inv, of p k now] update_progress_law [OF inv, of k _ p now]
    by (cases "jobs s k")
      (force simp: bind_op_run spec_write_def progress_write_def write_reply_def)+
next
  case (ListStale t)
  then show ?thesis using inv stale_law [OF inv, of t]
    by (force simp: bind_op_run lists_jobs_def)
next
  case (SetPartial k b)
  then show ?thesis
    using inv update_partial_missing [OF inv, of k b] update_partial_law [OF inv, of k _ b]
    by (cases "jobs s k") (force simp: bind_op_run spec_write_def write_reply_def)+
next
  case (SetEvidence k ev)
  then show ?thesis
    using inv update_evidence_missing [OF inv, of k ev] update_evidence_law [OF inv, of k _ ev]
    by (cases "jobs s k") (force simp: bind_op_run spec_write_def write_reply_def)+
next
  case (DeleteJob k)
  then show ?thesis using delete_law [OF inv, of k] by (auto simp: bind_op_run)
qed (use inv in \<open>auto simp: bind_op_run get_law\<close>)

end

subsection \<open>Two repositories side by side\<close>

fun run_calls :: "'s render_repo \<Rightarrow> repo_call list \<Rightarrow> 's \<Rightarrow> (exn + repo_reply) list \<times> 's" where
  "run_calls R [] s = ([], s)"
| "run_calls R (c # cs) s =
     (case repo_run R c s of (r, s') \<Rightarrow>
        (case run_calls R cs s' of (rs, s'') \<Rightarrow> (r # rs, s'')))"

fun calls_ok :: "job_map \<Rightarrow> repo_call list \<Rightarrow> bool" where
  "calls_ok m [] \<longleftrightarrow> True"
| "calls_ok m (c # cs) \<longleftrightarrow> call_ok m c \<and> calls_ok (spec_next m c) cs"

text \<open>
  C3. From equal abstract states, the in-memory and the SQLite repository give the same
  replies to every admissible sequence of calls, exceptions included, and end in equal
  abstract states.
\<close>

theorem repositories_agree:
  assumes "mem_invar d" and "sql_invar rows" and "map_of d = sql_map rows"
    and "calls_ok (map_of d) cs"
  shows "fst (run_calls mem_repo cs d) = fst (run_calls sql_repo cs rows) \<and>
         map_of (snd (run_calls mem_repo cs d)) = sql_map (snd (run_calls sql_repo cs rows))"
  using assms
proof (induction cs arbitrary: d rows)
  case (Cons c cs)
  have ok: "call_ok (map_of d) c" and oks: "calls_ok (spec_next (map_of d) c) cs"
    using Cons.prems(4) by simp_all
  obtain r d' where mem: "repo_run mem_repo c d = (r, d')" "mem_invar d'"
      "map_of d' = spec_next (map_of d) c" "reply_ok (map_of d) c r"
    using mem.repo_run_refines [OF Cons.prems(1) ok] by blast
  obtain r' rows' where sql: "repo_run sql_repo c rows = (r', rows')" "sql_invar rows'"
      "sql_map rows' = spec_next (map_of d) c" "reply_ok (map_of d) c r'"
    using sql.repo_run_refines [OF Cons.prems(2), of c] ok Cons.prems(3) by auto
  have "r = r'" by (rule reply_unique [OF ok mem(4) sql(4)])
  with Cons.IH [OF mem(2) sql(2)] mem(1,3) sql(1,3) oks show ?case
    by (auto split: prod.splits)
qed simp

definition demo_calls :: "repo_call list" where
  "demo_calls =
     [CreateJob (demo_job ''a'' 1), ListStatus R_QUEUED, SetStatus 5 ''a'' R_RUNNING None,
      SetProgress 6 ''a'' (1 / 2), SetStatus 7 ''a'' R_FAILED (Some ''boom''),
      SetStatus 8 ''a'' R_COMPLETED None, DeleteJob ''b'', GetJob ''a'']"

lemma dates_differ_one: "dates_differ (Map.empty(k \<mapsto> j))"
  by (auto simp: dates_differ_def inj_on_def split: if_splits)

theorem repositories_agree_witness:
  "fst (run_calls mem_repo demo_calls []) = fst (run_calls sql_repo demo_calls [])
   \<and> length (fst (run_calls mem_repo demo_calls [])) = 8"
proof -
  have start: "mem_invar []" "sql_invar []" "map_of [] = sql_map []"
    by (auto simp: mem_invar_def sql_invar_def sql_map_def tbl_get_def)
  have "calls_ok (map_of []) demo_calls"
    by (simp add: demo_calls_def demo_job_def em_ok_def dates_differ_one)
      (simp add: rj_create_def)
  from conjunct1 [OF repositories_agree [OF start this]]
  show ?thesis
    by (simp add: demo_calls_def split: prod.splits)
qed

text \<open>
  Outside that discipline the two differ: with equal creation dates the dictionary lists
  jobs in insertion order and the table in the order of their ids, so the queue's next job
  depends on the implementation.
\<close>

theorem listing_ties_differ:
  "fst (run_calls mem_repo
          [CreateJob (demo_job ''b'' 1), CreateJob (demo_job ''a'' 1), ListStatus R_QUEUED] [])
   \<noteq> fst (run_calls sql_repo
          [CreateJob (demo_job ''b'' 1), CreateJob (demo_job ''a'' 1), ListStatus R_QUEUED] [])"
  by code_simp

end
