(* ===== verification/Json.thy ===== *)
theory Json
  imports Prelude Complex_Main
begin

text \<open>
  JSON values and the accesses the code makes on them. A string that \<open>isoformat\<close> made of an
  aware time is kept as the time it denotes, \<open>JIso\<close>, one without zone as \<open>JIsoNaive\<close>; \<open>JStr\<close> is
  any other string. \<open>json.loads\<close> is an argument \<open>loads\<close> of what uses it, \<open>None\<close> when it raises
  \<open>JSONDecodeError\<close>, so that the results hold for any reading of the text.
\<close>

datatype json_value =
    JNull | JBool bool | JInt int | JNum rat | JStr string | JIso time | JIsoNaive time
  | JList "json_value list" | JObj "(string \<times> json_value) list"

text \<open>\<open>v.get(key, default)\<close> of a parsed value: only a dictionary has the method. \<open>None\<close> is \<open>JNull\<close>, so
  \<open>v.get(key)\<close> does not tell a missing key from a null.\<close>

fun json_get_or :: "string \<Rightarrow> json_value \<Rightarrow> json_value \<Rightarrow> exn + json_value" where
  "json_get_or k dflt (JObj d) = Inr (case map_of d k of None \<Rightarrow> dflt | Some v \<Rightarrow> v)"
| "json_get_or k dflt _ = Inl AttributeError"

abbreviation json_get :: "string \<Rightarrow> json_value \<Rightarrow> exn + json_value" where
  "json_get k v \<equiv> json_get_or k JNull v"

fun json_truthy :: "json_value \<Rightarrow> bool" where
  "json_truthy JNull = False"
| "json_truthy (JBool b) = b"
| "json_truthy (JInt i) = (i \<noteq> 0)"
| "json_truthy (JNum r) = (r \<noteq> 0)"
| "json_truthy (JStr s) = (s \<noteq> [])"
| "json_truthy (JList xs) = (xs \<noteq> [])"
| "json_truthy (JObj d) = (d \<noteq> [])"
| "json_truthy _ = True"

definition json_loads :: "(string \<Rightarrow> json_value option) \<Rightarrow> string \<Rightarrow> exn + json_value" where
  "json_loads loads t = (case loads t of None \<Rightarrow> Inl JSONDecodeError | Some v \<Rightarrow> Inr v)"

text \<open>Chaining fallible values, and Python's \<open>int()\<close>, which cuts towards zero.\<close>

definition sum_bind :: "'e + 'a \<Rightarrow> ('a \<Rightarrow> 'e + 'b) \<Rightarrow> 'e + 'b" where
  "sum_bind m f = (case m of Inl e \<Rightarrow> Inl e | Inr x \<Rightarrow> f x)"

lemma sum_bind_simps [simp]:
  "sum_bind (Inl e) f = Inl e" "sum_bind (Inr x) f = f x"
  by (simp_all add: sum_bind_def)

lemma sum_bind_Inr: "sum_bind m f = Inr y \<longleftrightarrow> (\<exists>x. m = Inr x \<and> f x = Inr y)"
  by (cases m) simp_all

definition py_int :: "rat \<Rightarrow> int" where
  "py_int r = (if 0 \<le> r then \<lfloor>r\<rfloor> else \<lceil>r\<rceil>)"

end
