(* ===== verification/Ws_Events.thy ===== *)
theory Ws_Events
  imports Json
begin

text \<open>
  WebSocket events, from \<open>src/stoat_ferret/api/websocket/events.py\<close>: the event types, the
  process-wide counter \<open>_BROADCAST_COUNTER\<close> as explicit state, the identifiers it makes and
  the schema \<open>build_event\<close> fills. A payload is a dictionary of the JSON values the callers put
  in it. The scope argument of \<open>_next_event_id\<close> is ignored by the code and left out.
\<close>

datatype event_type =
    HEALTH_STATUS | SCAN_STARTED | SCAN_COMPLETED | PROJECT_CREATED | HEARTBEAT
  | TIMELINE_UPDATED | LAYOUT_APPLIED | AUDIO_MIX_CHANGED | TRANSITION_APPLIED | JOB_PROGRESS
  | PREVIEW_GENERATING | PREVIEW_READY | PREVIEW_SEEKING | PREVIEW_ERROR | AI_ACTION
  | RENDER_PROGRESS | RENDER_STARTED | RENDER_COMPLETED | RENDER_FAILED | RENDER_CANCELLED
  | RENDER_QUEUED | RENDER_FRAME_AVAILABLE | RENDER_QUEUE_STATUS | PROXY_READY | PROXY_FAILED
  | VIDEO_DELETED | CLIP_DELETED | QC_STARTED | QC_CHECK_COMPLETED | QC_COMPLETED

fun et_value :: "event_type \<Rightarrow> string" where
  "et_value HEALTH_STATUS = ''health_status''"
| "et_value SCAN_STARTED = ''scan_started''"
| "et_value SCAN_COMPLETED = ''scan_completed''"
| "et_value PROJECT_CREATED = ''project_created''"
| "et_value HEARTBEAT = ''heartbeat''"
| "et_value TIMELINE_UPDATED = ''timeline_updated''"
| "et_value LAYOUT_APPLIED = ''layout_applied''"
| "et_value AUDIO_MIX_CHANGED = ''audio_mix_changed''"
| "et_value TRANSITION_APPLIED = ''transition_applied''"
| "et_value JOB_PROGRESS = ''job_progress''"
| "et_value PREVIEW_GENERATING = ''preview.generating''"
| "et_value PREVIEW_READY = ''preview.ready''"
| "et_value PREVIEW_SEEKING = ''preview.seeking''"
| "et_value PREVIEW_ERROR = ''preview.error''"
| "et_value AI_ACTION = ''ai_action''"
| "et_value RENDER_PROGRESS = ''render_progress''"
| "et_value RENDER_STARTED = ''render_started''"
| "et_value RENDER_COMPLETED = ''render_completed''"
| "et_value RENDER_FAILED = ''render_failed''"
| "et_value RENDER_CANCELLED = ''render_cancelled''"
| "et_value RENDER_QUEUED = ''render_queued''"
| "et_value RENDER_FRAME_AVAILABLE = ''render_frame_available''"
| "et_value RENDER_QUEUE_STATUS = ''render_queue_status''"
| "et_value PROXY_READY = ''proxy.ready''"
| "et_value PROXY_FAILED = ''proxy.failed''"
| "et_value VIDEO_DELETED = ''video_deleted''"
| "et_value CLIP_DELETED = ''clip_deleted''"
| "et_value QC_STARTED = ''qc.started''"
| "et_value QC_CHECK_COMPLETED = ''qc.check_completed''"
| "et_value QC_COMPLETED = ''qc.completed''"

type_synonym message = "(string, json_value) dict"

subsection \<open>Identifiers\<close>

definition zero_fill :: "nat \<Rightarrow> string \<Rightarrow> string" where
  "zero_fill w s = replicate (w - length s) (CHR ''0'') @ s"

definition event_id_of :: "nat \<Rightarrow> string" where
  "event_id_of n = ''event-'' @ zero_fill 5 (dec n)"

definition next_event_id :: "nat \<Rightarrow> string \<times> nat" where
  "next_event_id counter = (event_id_of counter, counter + 1)"

lemma undec_zeros: "undec (replicate k (CHR ''0'') @ s) = undec s"
  by (induction k) (simp_all add: undec_def)

lemma event_id_inj: "event_id_of m = event_id_of n \<longleftrightarrow> m = n"
proof
  assume "event_id_of m = event_id_of n"
  then have "undec (zero_fill 5 (dec m)) = undec (zero_fill 5 (dec n))"
    by (simp add: event_id_of_def)
  then show "m = n" by (simp add: zero_fill_def undec_zeros undec_dec)
qed simp

subsection \<open>Events\<close>

definition str_or_none :: "string \<Rightarrow> json_value" where
  "str_or_none s = (if s = [] then JNull else JStr s)"

text \<open>
  \<open>ctx_cid\<close> is the context variable \<open>get_correlation_id\<close> reads, \<open>now\<close> the clock.
\<close>

definition build_event ::
  "string \<Rightarrow> time \<Rightarrow> event_type \<Rightarrow> (string, json_value) dict option \<Rightarrow> string option \<Rightarrow> nat \<Rightarrow>
   message \<times> nat"
where
  "build_event ctx_cid now et payload correlation_id counter =
     (let cid = (case correlation_id of None \<Rightarrow> ctx_cid | Some c \<Rightarrow> c);
          (event_id, counter') = next_event_id counter
      in ([(''type'', JStr (et_value et)),
           (''payload'', JObj (case payload of None \<Rightarrow> [] | Some p \<Rightarrow> p)),
           (''correlation_id'', str_or_none cid),
           (''timestamp'', JIso now),
           (''event_id'', JStr event_id)],
          counter'))"

definition clear_event_counter :: "string \<Rightarrow> nat \<Rightarrow> nat" where
  "clear_event_counter job_id counter = counter"

definition reset_event_counters :: "nat \<Rightarrow> nat" where
  "reset_event_counters counter = 0"

definition msg_event_id :: "message \<Rightarrow> json_value option" where
  "msg_event_id m = map_of m ''event_id''"

lemma build_event_counter [simp]: "snd (build_event cid now et p c n) = Suc n"
  by (simp add: build_event_def next_event_id_def)

lemma build_event_sel [simp]:
  "msg_event_id (fst (build_event cid now et p c n)) = Some (JStr (event_id_of n))"
  "map_of (fst (build_event cid now et p c n)) ''timestamp'' = Some (JIso now)"
  "map_of (fst (build_event cid now et p c n)) ''type'' = Some (JStr (et_value et))"
  by (simp_all add: build_event_def next_event_id_def msg_event_id_def)

text \<open>The events of a sequence of requests, each with its reading of the clock.\<close>

fun build_events :: "string \<Rightarrow> (time \<times> event_type) list \<Rightarrow> nat \<Rightarrow> message list" where
  "build_events cid [] n = []"
| "build_events cid ((now, et) # rs) n =
     (let (e, n') = build_event cid now et None None n in e # build_events cid rs n')"

lemma build_events_ids:
  "map msg_event_id (build_events cid rs n) =
     map (\<lambda>i. Some (JStr (event_id_of i))) [n..<n + length rs]"
proof (induction cid rs n rule: build_events.induct)
  case (2 cid now et rs n)
  obtain e n' where e: "build_event cid now et None None n = (e, n')"
    by (cases "build_event cid now et None None n")
  moreover have "n' = Suc n" and "msg_event_id e = Some (JStr (event_id_of n))"
    using build_event_counter [of cid now et None None n]
      build_event_sel(1) [of cid now et None None n] e by simp_all
  moreover have "[n..<n + length ((now, et) # rs)] = n # [Suc n..<Suc n + length rs]"
    by (simp add: upt_conv_Cons del: upt_Suc)
  ultimately show ?case using 2 by (simp del: upt_Suc)
qed simp

lemma build_events_ids_distinct: "distinct (map msg_event_id (build_events cid rs n))"
  by (simp add: build_events_ids distinct_map inj_on_def event_id_inj)

text \<open>
  Event identifiers never repeat within a process: whatever types and times the callers ask
  for, a run of \<open>build_event\<close> calls makes pairwise different ids, and the number an id shows
  counts the events up without a gap, past 99999 as well.
\<close>

theorem event_ids_unique:
  "distinct (map msg_event_id (build_events cid rs n)) \<and>
   (\<exists>ids. map msg_event_id (build_events cid rs n) = map (\<lambda>i. Some (JStr i)) ids \<and>
          map (\<lambda>i. (take 6 i, undec (drop 6 i))) ids = map (Pair ''event-'') [n..<n + length rs])"
proof
  let ?ids = "map event_id_of [n..<n + length rs]"
  have "map msg_event_id (build_events cid rs n) = map (\<lambda>i. Some (JStr i)) ?ids"
    by (simp add: build_events_ids comp_def)
  moreover have "map (\<lambda>i. (take 6 i, undec (drop 6 i))) ?ids = map (Pair ''event-'') [n..<n + length rs]"
    by (simp add: event_id_of_def zero_fill_def undec_zeros undec_dec)
  ultimately show "\<exists>ids. map msg_event_id (build_events cid rs n) = map (\<lambda>i. Some (JStr i)) ids \<and>
      map (\<lambda>i. (take 6 i, undec (drop 6 i))) ids = map (Pair ''event-'') [n..<n + length rs]"
    by blast
qed (rule build_events_ids_distinct)

end
