(* ===== verification/Ws_Identity.thy ===== *)
theory Ws_Identity
  imports Ws_Events
begin

text \<open>
  The identities of WebSocket clients, from \<open>src/stoat_ferret/api/websocket/identity.py\<close>: the
  token check and \<open>InMemoryClientIdentityStore\<close> with its three operations. A call's
  \<open>now\<close> is the clock it reads. A token that is not a string is \<open>None\<close>; metadata is a JSON value,
  a \<open>dict\<close> when it is a \<open>JObj\<close>.
\<close>

definition is_valid_client_id :: "string option \<Rightarrow> bool" where
  "is_valid_client_id token =
     (case token of None \<Rightarrow> False
      | Some t \<Rightarrow> if length t \<noteq> 32 then False
                  else list_all (\<lambda>c. c \<in> set ''0123456789abcdef'') t)"

record id_entry =
  ie_client_id :: string
  ie_metadata :: json_value
  ie_created_at :: time
  ie_last_seen :: time

type_synonym id_store = "(string, id_entry) dict"

definition id_empty :: id_store where
  "id_empty = []"

fun is_dict :: "json_value \<Rightarrow> bool" where
  "is_dict (JObj _) = True"
| "is_dict _ = False"

definition id_write :: "time \<Rightarrow> string \<Rightarrow> json_value \<Rightarrow> id_store \<Rightarrow> id_store" where
  "id_write now client_id metadata store =
     (case map_of store client_id of
        Some entry \<Rightarrow>
          AList.update client_id (entry\<lparr>ie_metadata := metadata, ie_last_seen := now\<rparr>) store
      | None \<Rightarrow>
          AList.update client_id
            \<lparr>ie_client_id = client_id, ie_metadata = metadata,
             ie_created_at = now, ie_last_seen = now\<rparr> store)"

definition id_store_op :: "time \<Rightarrow> string \<Rightarrow> json_value option \<Rightarrow> (id_store, unit) op" where
  "id_store_op now client_id metadata =
     (if \<not> is_valid_client_id (Some client_id) then throw ValueError
      else if (case metadata of None \<Rightarrow> False | Some m \<Rightarrow> \<not> is_dict m) then throw TypeError
      else modify_op (id_write now client_id (case metadata of None \<Rightarrow> JObj [] | Some m \<Rightarrow> m)))"

definition id_retrieve :: "time \<Rightarrow> string \<Rightarrow> (id_store, id_entry option) op" where
  "id_retrieve now client_id =
     (if \<not> is_valid_client_id (Some client_id) then ret None
      else (\<lambda>store. case map_of store client_id of
          None \<Rightarrow> (Inr None, store)
        | Some entry \<Rightarrow>
            (let entry' = entry\<lparr>ie_last_seen := now\<rparr>
             in (Inr (Some entry'), AList.update client_id entry' store))))"

definition id_clear :: "string \<Rightarrow> (id_store, unit) op" where
  "id_clear client_id =
     (if \<not> is_valid_client_id (Some client_id) then ret ()
      else modify_op (AList.delete client_id))"

subsection \<open>What each operation does to the entries\<close>

lemmas id_defs = id_store_op_def id_retrieve_def id_clear_def id_write_def

lemma id_store_ok:
  "is_valid_client_id (Some c) \<Longrightarrow>
     id_store_op now c (Some (JObj md)) s = (Inr (), id_write now c (JObj md) s)"
  by (simp add: id_store_op_def)

lemma id_write_get:
  "map_of (id_write now c md s) k =
     (if k = c then Some (case map_of s c of
          Some e \<Rightarrow> e\<lparr>ie_metadata := md, ie_last_seen := now\<rparr>
        | None \<Rightarrow> \<lparr>ie_client_id = c, ie_metadata = md, ie_created_at = now, ie_last_seen = now\<rparr>)
      else map_of s k)"
  by (auto simp: id_write_def dict_simps split: option.splits)

lemma id_clear_get:
  "snd (id_clear c s) = s' \<Longrightarrow>
     map_of s' k = (if k = c \<and> is_valid_client_id (Some c) then None else map_of s k)"
  by (auto simp: id_clear_def dict_simps)

definition id_ok :: "time \<Rightarrow> id_store \<Rightarrow> bool" where
  "id_ok t = dict_all (\<lambda>k e. ie_client_id e = k \<and> is_valid_client_id (Some k) \<and>
     is_dict (ie_metadata e) \<and> ie_created_at e \<le> ie_last_seen e \<and> ie_last_seen e \<le> t)"

lemma id_ok_empty: "id_ok t id_empty"
  by (simp add: id_ok_def id_empty_def)

lemma dict_all_mono: "(\<And>k v. P k v \<Longrightarrow> Q k v) \<Longrightarrow> dict_all P d \<Longrightarrow> dict_all Q d"
  by (auto simp: dict_all_def)

lemma id_ok_later: "id_ok t s \<Longrightarrow> t \<le> t' \<Longrightarrow> id_ok t' s"
  unfolding id_ok_def by (erule dict_all_mono [rotated]) auto

lemma id_write_ok:
  assumes s: "id_ok now s" and c: "is_valid_client_id (Some c)" and md: "is_dict md"
  shows "id_ok now (id_write now c md s)"
proof (cases "map_of s c")
  case None
  with s c md show ?thesis unfolding id_ok_def id_write_def
    by (auto intro!: dict_all_set)
next
  case (Some e)
  with s have "ie_client_id e = c \<and> ie_created_at e \<le> now"
    unfolding id_ok_def by (fastforce dest: dict_all_get)
  with Some s c md show ?thesis unfolding id_ok_def id_write_def
    by (auto intro!: dict_all_set)
qed

subsection \<open>Sequences of calls\<close>

datatype id_call = Id_Store string "json_value option" | Id_Retrieve string | Id_Clear string

fun id_run :: "time \<Rightarrow> id_call \<Rightarrow> id_store \<Rightarrow> id_store" where
  "id_run now (Id_Store c m) s = snd (id_store_op now c m s)"
| "id_run now (Id_Retrieve c) s = snd (id_retrieve now c s)"
| "id_run now (Id_Clear c) s = snd (id_clear c s)"

fun id_calls :: "(time \<times> id_call) list \<Rightarrow> id_store \<Rightarrow> id_store" where
  "id_calls [] s = s"
| "id_calls ((now, c) # cs) s = id_calls cs (id_run now c s)"

lemma id_run_ok: "id_ok now s \<Longrightarrow> id_ok now (id_run now c s)"
proof (cases c)
  case (Id_Store k m)
  assume "id_ok now s"
  then show ?thesis using Id_Store
    by (cases m) (auto simp: id_store_op_def id_write_ok)
next
  case (Id_Retrieve k)
  assume s: "id_ok now s"
  show ?thesis
  proof (cases "map_of s k")
    case (Some e)
    with s have "ie_client_id e = k \<and> is_dict (ie_metadata e) \<and> ie_created_at e \<le> now \<and>
        is_valid_client_id (Some k)"
      unfolding id_ok_def by (fastforce dest: dict_all_get)
    with Some s Id_Retrieve show ?thesis
      by (auto simp: id_retrieve_def Let_def id_ok_def intro!: dict_all_set)
  qed (use s Id_Retrieve in \<open>simp add: id_retrieve_def\<close>)
next
  case (Id_Clear k)
  assume "id_ok now s"
  then show ?thesis using Id_Clear by (auto simp: id_clear_def id_ok_def dict_all_pop)
qed

text \<open>A client's entry keeps the time it was made until the client is cleared.\<close>

definition id_birth :: "id_store \<Rightarrow> string \<Rightarrow> time option" where
  "id_birth s k = map_option ie_created_at (map_of s k)"

lemma id_birth_run:
  assumes "id_birth s k = Some t" and "\<And>c. call = Id_Clear c \<Longrightarrow> c \<noteq> k"
  shows "id_birth (id_run now call s) k = Some t"
  using assms
  by (cases call)
     (auto simp: id_birth_def id_store_op_def id_retrieve_def id_clear_def id_write_get dict_simps
       Let_def split: option.splits if_splits)

lemma id_calls_ok:
  "sorted_wrt (\<le>) (t0 # map fst cs) \<Longrightarrow> id_ok t0 s \<Longrightarrow> id_ok (last (t0 # map fst cs)) (id_calls cs s)"
proof (induction cs arbitrary: t0 s)
  case (Cons x cs)
  obtain now c where x: "x = (now, c)" by (cases x)
  have "id_ok now (id_run now c s)"
    using Cons.prems x by (auto intro: id_run_ok id_ok_later)
  then show ?case using Cons.IH [of now] Cons.prems x by simp
qed simp

lemma id_birth_calls:
  "id_birth s k = Some t \<Longrightarrow> (\<forall>(now, c) \<in> set cs. c \<noteq> Id_Clear k) \<Longrightarrow>
     id_birth (id_calls cs s) k = Some t"
proof (induction cs arbitrary: s)
  case (Cons x cs)
  obtain now c where x: "x = (now, c)" by (cases x)
  have "id_birth (id_run now c s) k = Some t"
    using Cons.prems x by (auto intro!: id_birth_run)
  then show ?case using Cons x by simp
qed simp

text \<open>
  The identity store, driven by any calls at non-decreasing times from empty, holds only
  well-formed entries: keyed by their own valid token, with a dictionary of metadata, created no
  later than last seen, last seen no later than now. While a client is not cleared, its creation
  time is the one it had, however often it is stored or retrieved.
\<close>

theorem identity_store_sound:
  assumes "sorted_wrt (\<le>) (t0 # map fst (cs @ ds))"
    and "id_birth (id_calls cs id_empty) k = Some t" and "\<forall>(now, c) \<in> set ds. c \<noteq> Id_Clear k"
  shows "id_ok (last (t0 # map fst (cs @ ds))) (id_calls (cs @ ds) id_empty) \<and>
    id_birth (id_calls (cs @ ds) id_empty) k = Some t"
proof -
  have app: "id_calls (cs @ ds) s = id_calls ds (id_calls cs s)" for s
    by (induction cs arbitrary: s) auto
  show ?thesis
    using id_calls_ok [OF assms(1) id_ok_empty] id_birth_calls [OF assms(2,3)] app by simp
qed

definition demo_token :: string where
  "demo_token = replicate 32 (CHR ''a'')"

theorem identity_store_sound_witness:
  "id_birth (id_calls ([(3, Id_Store demo_token None)] @ [(9, Id_Retrieve demo_token)]) id_empty)
     demo_token = Some 3"
proof -
  have "id_birth (id_calls [(3, Id_Store demo_token None)] id_empty) demo_token = Some 3"
    by code_simp
  with identity_store_sound [of 0 "[(3, Id_Store demo_token None)]" "[(9, Id_Retrieve demo_token)]"
    demo_token 3] show ?thesis by simp
qed

end
