(* ===== verification/Ws_Manager.thy ===== *)
theory Ws_Manager
  imports Ws_Identity
begin

text \<open>
  WebSocket connections, broadcast and replay: \<open>ConnectionManager\<close> of
  \<open>src/stoat_ferret/api/websocket/manager.py\<close> and the endpoint of
  \<open>src/stoat_ferret/api/routers/ws.py\<close>. A socket is a number; the connection set is the list of
  its sockets in iteration order. The record also logs what was sent to whom.

  \<open>broadcast\<close> suspends at every \<open>send_json\<close>. An \<open>await\<close> says whether that send succeeds and what
  other tasks do meanwhile: \<open>connect\<close> and \<open>disconnect\<close> do not take the manager's lock, so they
  may run there. Python's set iterator raises \<open>RuntimeError\<close> as soon as the size of the set is
  not the one it started with. If an addition and a removal in one suspension leave the size as
  it was, the loop here goes on with the sockets still to visit; the order the hash table
  would give is not modelled.
\<close>

record ws_manager =
  wm_connections :: "nat list"
  wm_buffer :: "message list"
  wm_buffer_size :: int
  wm_ttl :: int
  wm_store :: "id_store option"
  wm_sent :: "(nat \<times> message) list"

subsection \<open>Connecting and disconnecting\<close>

text \<open>\<open>deque(maxlen=n)\<close> refuses a negative \<open>n\<close>.\<close>

definition wm_init :: "int \<Rightarrow> int \<Rightarrow> int option \<Rightarrow> int option \<Rightarrow> id_store option \<Rightarrow> exn + ws_manager" where
  "wm_init set_size set_ttl buffer_size ttl_seconds store =
     (let size = (case buffer_size of None \<Rightarrow> set_size | Some n \<Rightarrow> n);
          ttl = (case ttl_seconds of None \<Rightarrow> set_ttl | Some n \<Rightarrow> n)
      in if size < 0 then Inl ValueError
         else Inr \<lparr>wm_connections = [], wm_buffer = [], wm_buffer_size = size, wm_ttl = ttl,
                   wm_store = store, wm_sent = []\<rparr>)"

definition set_add :: "'a \<Rightarrow> 'a list \<Rightarrow> 'a list" where
  "set_add x xs = (if x \<in> set xs then xs else xs @ [x])"

definition wm_active_connections :: "ws_manager \<Rightarrow> nat" where
  "wm_active_connections w = length (wm_connections w)"

definition wm_connect :: "time \<Rightarrow> bool \<Rightarrow> nat \<Rightarrow> string option \<Rightarrow> (ws_manager, unit) op" where
  "wm_connect now accepts ws client_id w =
     (if \<not> accepts then (Inl RuntimeError, w)
      else (let w' = w\<lparr>wm_connections := set_add ws (wm_connections w)\<rparr>
            in case (client_id, wm_store w') of
                 (Some c, Some s) \<Rightarrow>
                   (case id_store_op now c (Some (JObj [])) s of
                      (Inl e, s') \<Rightarrow> (Inl e, w'\<lparr>wm_store := Some s'\<rparr>)
                    | (Inr _, s') \<Rightarrow> (Inr (), w'\<lparr>wm_store := Some s'\<rparr>))
               | _ \<Rightarrow> (Inr (), w')))"

definition wm_disconnect :: "nat \<Rightarrow> string option \<Rightarrow> ws_manager \<Rightarrow> ws_manager" where
  "wm_disconnect ws client_id w =
     (let w' = w\<lparr>wm_connections := removeAll ws (wm_connections w)\<rparr>
      in case (client_id, wm_store w') of
           (Some c, Some s) \<Rightarrow> w'\<lparr>wm_store := Some (snd (id_clear c s))\<rparr>
         | _ \<Rightarrow> w')"

subsection \<open>Broadcasting\<close>

datatype ws_act = Act_Connect time nat "string option" | Act_Disconnect nat "string option"

fun ws_act_run :: "ws_act \<Rightarrow> ws_manager \<Rightarrow> ws_manager" where
  "ws_act_run (Act_Connect now ws c) w = snd (wm_connect now True ws c w)"
| "ws_act_run (Act_Disconnect ws c) w = wm_disconnect ws c w"

record ws_await =
  aw_ok :: bool
  aw_acts :: "ws_act list"

definition ws_send :: "nat \<Rightarrow> message \<Rightarrow> ws_manager \<Rightarrow> ws_manager" where
  "ws_send ws m w = w\<lparr>wm_sent := wm_sent w @ [(ws, m)]\<rparr>"

text \<open>
  \<open>live ws\<close> is \<open>ws.client_state == CONNECTED\<close>, \<open>n\<close> the size the set had when the loop began,
  \<open>aws\<close> the outcomes of the sends, one each.
\<close>

fun bc_loop :: "(nat \<Rightarrow> bool) \<Rightarrow> nat \<Rightarrow> message \<Rightarrow> nat list \<Rightarrow> ws_await list \<Rightarrow> nat list \<Rightarrow>
  (ws_manager, nat list) op"
where
  "bc_loop live n m [] aws dead w =
     (if length (wm_connections w) \<noteq> n then (Inl RuntimeError, w) else (Inr dead, w))"
| "bc_loop live n m (ws # todo) aws dead w =
     (if length (wm_connections w) \<noteq> n then (Inl RuntimeError, w)
      else if live ws then
        (case aws of
           [] \<Rightarrow> bc_loop live n m todo [] dead (ws_send ws m w)
         | a # aws' \<Rightarrow>
             (let w' = fold ws_act_run (aw_acts a) (if aw_ok a then ws_send ws m w else w)
              in bc_loop live n m todo aws' (if aw_ok a then dead else dead @ [ws]) w'))
      else bc_loop live n m todo aws (dead @ [ws]) w)"

definition deque_append :: "nat \<Rightarrow> 'a list \<Rightarrow> 'a \<Rightarrow> 'a list" where
  "deque_append n xs x = drop (Suc (length xs) - n) (xs @ [x])"

definition wm_buffer_message :: "message \<Rightarrow> ws_manager \<Rightarrow> ws_manager" where
  "wm_buffer_message m w =
     (if 0 < wm_buffer_size w
      then w\<lparr>wm_buffer := deque_append (nat (wm_buffer_size w)) (wm_buffer w) m\<rparr> else w)"

definition wm_broadcast :: "(nat \<Rightarrow> bool) \<Rightarrow> ws_await list \<Rightarrow> message \<Rightarrow> (ws_manager, unit) op" where
  "wm_broadcast live aws m w =
     (case bc_loop live (length (wm_connections w)) m (wm_connections w) aws [] w of
        (Inl e, w') \<Rightarrow> (Inl e, w')
      | (Inr dead, w') \<Rightarrow>
          (Inr (), wm_buffer_message m
             (w'\<lparr>wm_connections := filter (\<lambda>ws. ws \<notin> set dead) (wm_connections w')\<rparr>)))"

subsection \<open>Replay\<close>

definition event_is_fresh :: "message \<Rightarrow> time \<Rightarrow> bool" where
  "event_is_fresh event cutoff =
     (case map_of event ''timestamp'' of
        Some (JIso t) \<Rightarrow> t \<ge> cutoff
      | Some (JIsoNaive t) \<Rightarrow> t \<ge> cutoff
      | _ \<Rightarrow> True)"

fun events_after :: "string \<Rightarrow> message list \<Rightarrow> message list option" where
  "events_after i [] = None"
| "events_after i (e # es) =
     (if msg_event_id e = Some (JStr i) then Some es else events_after i es)"

definition replay_since :: "time \<Rightarrow> string option \<Rightarrow> ws_manager \<Rightarrow> message list" where
  "replay_since now last_event_id w =
     (if wm_buffer_size w = 0 \<or> wm_buffer w = [] then []
      else (let cutoff = now - wm_ttl w * 1000000;
                fresh = filter (\<lambda>e. event_is_fresh e cutoff) (wm_buffer w)
            in case last_event_id of
                 None \<Rightarrow> fresh
               | Some i \<Rightarrow>
                   (if i = [] then fresh
                    else case events_after i fresh of Some es \<Rightarrow> es | None \<Rightarrow> fresh)))"

text \<open>The endpoint: a send of the replay raises when the peer is gone (\<open>sends\<close> says which).\<close>

fun replay_loop :: "nat \<Rightarrow> message list \<Rightarrow> bool list \<Rightarrow> (ws_manager, unit) op" where
  "replay_loop ws [] sends w = (Inr (), w)"
| "replay_loop ws (e # es) [] w = replay_loop ws es [] (ws_send ws e w)"
| "replay_loop ws (e # es) (ok # sends) w =
     (if ok then replay_loop ws es sends (ws_send ws e w) else (Inl RuntimeError, w))"

definition replay_missed_events ::
  "time \<Rightarrow> nat \<Rightarrow> string option \<Rightarrow> bool list \<Rightarrow> (ws_manager, unit) op" where
  "replay_missed_events now ws header sends w =
     (case header of
        None \<Rightarrow> (Inr (), w)
      | Some i \<Rightarrow>
          if i = [] then (Inr (), w) else replay_loop ws (replay_since now (Some i) w) sends w)"

datatype ws_result = WS_Closed int | WS_Ended

text \<open>
  One connection from handshake to end. \<open>rest\<close> is what happens to the manager between the replay
  and the moment \<open>receive_text\<close> raises \<open>WebSocketDisconnect\<close>: other connections, broadcasts, the
  heartbeats this connection starts.
\<close>

definition websocket_endpoint ::
  "time \<Rightarrow> bool \<Rightarrow> nat \<Rightarrow> string option \<Rightarrow> string option \<Rightarrow> bool list \<Rightarrow> (ws_manager \<Rightarrow> ws_manager) \<Rightarrow>
   (ws_manager, ws_result) op"
where
  "websocket_endpoint now accepts ws token header sends rest =
     (if token \<noteq> None \<and> \<not> is_valid_client_id token then ret (WS_Closed 4400)
      else seq_op (wm_connect now accepts ws token)
             (seq_op (replay_missed_events now ws header sends)
               (\<lambda>w. (Inr WS_Ended, wm_disconnect ws token (rest w)))))"

text \<open>\<open>_heartbeat_loop\<close>: one round.\<close>

definition heartbeat_round ::
  "string \<Rightarrow> time \<Rightarrow> (nat \<Rightarrow> bool) \<Rightarrow> ws_await list \<Rightarrow> nat \<Rightarrow> ws_manager \<Rightarrow> (exn + unit) \<times> ws_manager \<times> nat"
where
  "heartbeat_round cid now live aws counter w =
     (let (m, counter') = build_event cid now HEARTBEAT None None counter;
          (r, w') = wm_broadcast live aws m w
      in (r, w', counter'))"

subsection \<open>A broadcast nobody interferes with\<close>

abbreviation quiet :: "ws_await list \<Rightarrow> bool" where
  "quiet aws \<equiv> \<forall>a \<in> set aws. aw_acts a = []"

fun bc_good :: "(nat \<Rightarrow> bool) \<Rightarrow> nat list \<Rightarrow> ws_await list \<Rightarrow> nat list" where
  "bc_good live [] aws = []"
| "bc_good live (ws # todo) aws =
     (if live ws then
        (case aws of [] \<Rightarrow> ws # bc_good live todo []
         | a # aws' \<Rightarrow> (if aw_ok a then [ws] else []) @ bc_good live todo aws')
      else bc_good live todo aws)"

lemma bc_good_sub: "set (bc_good live todo aws) \<subseteq> {ws \<in> set todo. live ws}"
  by (induction live todo aws rule: bc_good.induct) (auto split: list.splits if_splits)

lemma bc_good_all_ok: "\<forall>a \<in> set aws. aw_ok a \<Longrightarrow> bc_good live todo aws = filter live todo"
  by (induction live todo aws rule: bc_good.induct) (auto split: list.splits)

lemma ws_send_sel [simp]:
  "wm_connections (ws_send ws m w) = wm_connections w" "wm_buffer (ws_send ws m w) = wm_buffer w"
  "wm_buffer_size (ws_send ws m w) = wm_buffer_size w" "wm_ttl (ws_send ws m w) = wm_ttl w"
  "wm_store (ws_send ws m w) = wm_store w" "wm_sent (ws_send ws m w) = wm_sent w @ [(ws, m)]"
  by (simp_all add: ws_send_def)

definition ws_sends :: "nat list \<Rightarrow> message \<Rightarrow> ws_manager \<Rightarrow> ws_manager" where
  "ws_sends ss m w = w\<lparr>wm_sent := wm_sent w @ map (\<lambda>s. (s, m)) ss\<rparr>"

lemma ws_sends_simps [simp]:
  "ws_sends [] m w = w" "ws_sends ss m (ws_send s m w) = ws_sends (s # ss) m w"
  "wm_connections (ws_sends ss m w) = wm_connections w"
  by (simp_all add: ws_sends_def ws_send_def)

lemma bc_loop_quiet:
  assumes "quiet aws" and "length (wm_connections w) = n" and "distinct todo"
  shows "\<exists>failed. bc_loop live n m todo aws dead w =
      (Inr (dead @ failed), ws_sends (bc_good live todo aws) m w) \<and>
    set failed = set todo - set (bc_good live todo aws)"
  using assms
proof (induction live n m todo aws dead w rule: bc_loop.induct)
  case (2 live n m ws todo aws dead w)
  have sub: "ws \<notin> set (bc_good live todo aws')" for aws'
    using 2(6) bc_good_sub [of live todo aws'] by auto
  show ?case
  proof (cases "live ws")
    case False
    with 2 sub show ?thesis by fastforce
  next
    case live: True
    show ?thesis
    proof (cases aws)
      case Nil
      with live 2 sub show ?thesis by fastforce
    next
      case (Cons a aws')
      then show ?thesis using live 2 sub by (cases "aw_ok a") fastforce+
    qed
  qed
qed simp

lemma broadcast_run_quiet:
  assumes "quiet aws" and "distinct (wm_connections w)"
  shows "wm_broadcast live aws m w =
    (Inr (), wm_buffer_message m
       ((ws_sends (bc_good live (wm_connections w) aws) m w)
          \<lparr>wm_connections := filter (\<lambda>s. s \<in> set (bc_good live (wm_connections w) aws))
             (wm_connections w)\<rparr>))"
proof -
  obtain failed where "bc_loop live (length (wm_connections w)) m (wm_connections w) aws [] w =
      (Inr failed, ws_sends (bc_good live (wm_connections w) aws) m w)"
    and "set failed = set (wm_connections w) - set (bc_good live (wm_connections w) aws)"
    using bc_loop_quiet [OF assms(1) refl assms(2), where live = live and m = m and dead = "[]"] by auto
  then show ?thesis by (simp add: wm_broadcast_def cong: filter_cong)
qed

lemma wm_buffer_message_sel [simp]:
  "wm_connections (wm_buffer_message m w) = wm_connections w"
  "wm_sent (wm_buffer_message m w) = wm_sent w" "wm_store (wm_buffer_message m w) = wm_store w"
  "wm_buffer_size (wm_buffer_message m w) = wm_buffer_size w" "wm_ttl (wm_buffer_message m w) = wm_ttl w"
  by (simp_all add: wm_buffer_message_def)

text \<open>
  A broadcast during which no other task connects or disconnects never raises: it sends the
  message once to every live socket whose send works, drops all other sockets from the
  connections and no working one, and buffers the message.
\<close>

theorem broadcast_reaches_live:
  assumes "quiet aws" and "distinct (wm_connections w)"
  shows "\<exists>w'. wm_broadcast live aws m w = (Inr (), w') \<and>
    wm_sent w' = wm_sent w @ map (\<lambda>s. (s, m)) (bc_good live (wm_connections w) aws) \<and>
    set (wm_connections w') = set (bc_good live (wm_connections w) aws) \<and>
    ((\<forall>a \<in> set aws. aw_ok a) \<longrightarrow> wm_connections w' = filter live (wm_connections w)) \<and>
    (0 < wm_buffer_size w \<longrightarrow> wm_buffer w' = deque_append (nat (wm_buffer_size w)) (wm_buffer w) m)"
proof -
  have "set (bc_good live (wm_connections w) aws) \<subseteq> set (wm_connections w)"
    using bc_good_sub by blast
  then show ?thesis
    using broadcast_run_quiet [OF assms] bc_good_all_ok [of aws live "wm_connections w"]
    by (auto simp: ws_sends_def wm_buffer_message_def cong: filter_cong)
qed

definition demo_ws :: ws_manager where
  "demo_ws = \<lparr>wm_connections = [1, 2, 3], wm_buffer = [], wm_buffer_size = 2, wm_ttl = 60,
              wm_store = Some [], wm_sent = []\<rparr>"

definition demo_msg :: "nat \<Rightarrow> message" where
  "demo_msg n = [(''timestamp'', JIso (int n * 1000000)), (''event_id'', JStr (event_id_of n))]"

theorem broadcast_reaches_live_witness:
  "\<exists>w'. wm_broadcast (\<lambda>s. s \<noteq> 3) [\<lparr>aw_ok = False, aw_acts = []\<rparr>] (demo_msg 1) demo_ws = (Inr (), w') \<and>
     wm_sent w' = [(2, demo_msg 1)] \<and> set (wm_connections w') = {2} \<and> wm_buffer w' = [demo_msg 1]"
proof -
  have g: "bc_good (\<lambda>s. s \<noteq> 3) (wm_connections demo_ws) [\<lparr>aw_ok = False, aw_acts = []\<rparr>] = [2]"
    by code_simp
  have d: "wm_sent demo_ws = []" "wm_buffer_size demo_ws = 2" "wm_buffer demo_ws = []"
    "distinct (wm_connections demo_ws)"
    by (simp_all add: demo_ws_def)
  show ?thesis
    using broadcast_reaches_live [OF _ d(4), of "[\<lparr>aw_ok = False, aw_acts = []\<rparr>]" "\<lambda>s. s \<noteq> 3" "demo_msg 1"]
    unfolding g d(1-3) by (auto simp: deque_append_def)
qed

subsection \<open>The buffer and the replay\<close>






lemma ws_act_run_sel [simp]:
  "wm_buffer (ws_act_run a w) = wm_buffer w" "wm_buffer_size (ws_act_run a w) = wm_buffer_size w"
  "wm_ttl (ws_act_run a w) = wm_ttl w" "distinct (wm_connections w) \<Longrightarrow> distinct (wm_connections (ws_act_run a w))"
  by (cases a; auto simp: wm_connect_def wm_disconnect_def set_add_def Let_def distinct_removeAll
      split: option.splits prod.splits sum.splits)+

lemma ws_acts_run_sel [simp]:
  "wm_buffer (fold ws_act_run acts w) = wm_buffer w" "wm_buffer_size (fold ws_act_run acts w) = wm_buffer_size w"
  "wm_ttl (fold ws_act_run acts w) = wm_ttl w"
  by (induction acts arbitrary: w) simp_all











subsection \<open>Where the lock does not reach\<close>

text \<open>
  \<open>connect\<close> does not take the manager's lock. A client that connects while a broadcast is
  suspended in its first send makes the broadcast raise \<open>RuntimeError\<close>: the live sockets behind
  it never get the message, and the message is not buffered either, so no reconnect replays it.
\<close>

theorem broadcast_aborted_by_connect:
  "\<exists>w'. wm_broadcast (\<lambda>_. True) [\<lparr>aw_ok = True, aw_acts = [Act_Connect 0 4 None]\<rparr>] (demo_msg 1) demo_ws =
       (Inl RuntimeError, w') \<and>
     wm_connections w' = [1, 2, 3, 4] \<and> wm_sent w' = [(1, demo_msg 1)] \<and> wm_buffer w' = []"
  by (simp add: wm_broadcast_def demo_ws_def wm_connect_def set_add_def ws_send_def)

text \<open>
  The endpoint registers a connection before its \<open>try\<close>: when the peer goes away during the
  replay, the exception leaves the socket among the connections and its identity in the
  store; only a session that reaches the receive loop removes both.
\<close>

theorem endpoint_cleanup:
  assumes "wm_store w = Some s" and "is_valid_client_id (Some c)"
    and "h \<noteq> []" and "replay_since now (Some h) (snd (wm_connect now True ws (Some c) w)) = e # es"
    and "\<And>w1. wm_store w1 \<noteq> None \<Longrightarrow> wm_store (rest w1) \<noteq> None"
  shows "\<exists>w1 w2 s1 s2.
    websocket_endpoint now True ws (Some c) (Some h) [False] rest w = (Inl RuntimeError, w1) \<and>
    ws \<in> set (wm_connections w1) \<and> wm_store w1 = Some s1 \<and> map_of s1 c \<noteq> None \<and>
    websocket_endpoint now True ws (Some c) (Some h) [] rest w = (Inr WS_Ended, w2) \<and>
    ws \<notin> set (wm_connections w2) \<and> wm_store w2 = Some s2 \<and> map_of s2 c = None"
proof -
  let ?w0 = "w\<lparr>wm_connections := set_add ws (wm_connections w),
    wm_store := Some (id_write now c (JObj []) s)\<rparr>"
  have con: "wm_connect now True ws (Some c) w = (Inr (), ?w0)"
    using assms(1,2) by (simp add: wm_connect_def id_store_ok)
  have rep: "replay_since now (Some h) ?w0 = e # es" using assms(4) con by simp
  have sent: "replay_loop ws xs [] v = (Inr (), v\<lparr>wm_sent := wm_sent v @ map (Pair ws) xs\<rparr>)" for xs v
    by (induction xs arbitrary: v) (simp_all add: ws_send_def)
  let ?v = "?w0\<lparr>wm_sent := wm_sent ?w0 @ map (Pair ws) (e # es)\<rparr>"
  obtain s' where s': "wm_store (rest ?v) = Some s'" using assms(5) [of ?v] by auto
  have fail: "websocket_endpoint now True ws (Some c) (Some h) [False] rest w = (Inl RuntimeError, ?w0)"
    using assms(2,3) con rep by (simp add: websocket_endpoint_def replay_missed_events_def)
  have ok: "websocket_endpoint now True ws (Some c) (Some h) [] rest w =
      (Inr WS_Ended, wm_disconnect ws (Some c) (rest ?v))"
    using assms(2,3) con rep sent [of "e # es" ?w0]
    by (simp add: websocket_endpoint_def replay_missed_events_def del: replay_loop.simps)
  have "ws \<in> set (wm_connections ?w0) \<and> map_of (id_write now c (JObj []) s) c \<noteq> None"
    by (simp add: set_add_def id_write_get)
  moreover have "ws \<notin> set (wm_connections (wm_disconnect ws (Some c) (rest ?v)))"
    using s' by (simp add: wm_disconnect_def)
  moreover have "wm_store (wm_disconnect ws (Some c) (rest ?v)) = Some (snd (id_clear c s'))"
    using s' by (simp add: wm_disconnect_def)
  moreover have "map_of (snd (id_clear c s')) c = None"
    using id_clear_get [OF refl, of c s' c] assms(2) by simp
  ultimately show ?thesis using fail ok by fastforce
qed

theorem endpoint_cleanup_witness:
  "\<exists>w1. websocket_endpoint 0 True 4 (Some demo_token) (Some ''x'') [False] (\<lambda>w. w)
     (demo_ws\<lparr>wm_buffer := [demo_msg 1]\<rparr>) = (Inl RuntimeError, w1) \<and> 4 \<in> set (wm_connections w1)"
proof -
  have v: "is_valid_client_id (Some demo_token)" by code_simp
  have "replay_since 0 (Some ''x'') (snd (wm_connect 0 True 4 (Some demo_token)
     (demo_ws\<lparr>wm_buffer := [demo_msg 1]\<rparr>))) = demo_msg 1 # []"
    by code_simp
  from endpoint_cleanup [OF _ v _ this, where s = "[]" and rest = "\<lambda>w. w"] show ?thesis
    by (auto simp: demo_ws_def)
qed

end
