(* ===== verification/Render_Checkpoints.thy ===== *)
theory Render_Checkpoints
  imports Render_Repository
begin

text \<open>
  Checkpoints of completed segments, from \<open>src/stoat_ferret/render/checkpoints.py\<close>, on the table
  \<open>render_checkpoints\<close> of \<open>db/schema.py\<close>: \<open>UNIQUE(job_id, segment_index)\<close>, a check that the index
  is not negative, and a foreign key into \<open>render_jobs\<close>, enforced because the application turns
  \<open>PRAGMA foreign_keys\<close> on. The table of jobs is an argument where a statement reads it.
\<close>

record checkpoint =
  ck_job_id :: string
  ck_segment :: int
  ck_completed_at :: time

definition ck_write :: "sql_jobs \<Rightarrow> time \<Rightarrow> string \<Rightarrow> int \<Rightarrow> (checkpoint list, unit) op" where
  "ck_write jobs now job_id segment cks =
     (if segment < 0 then (Inl ValueError, cks)
      else if job_id \<notin> set (map rw_id jobs)
        \<or> (job_id, segment) \<in> set (map (\<lambda>c. (ck_job_id c, ck_segment c)) cks)
        then (Inl IntegrityError, cks)
      else (Inr (), cks @ [\<lparr>ck_job_id = job_id, ck_segment = segment, ck_completed_at = now\<rparr>]))"

definition ck_completed_segments :: "string \<Rightarrow> checkpoint list \<Rightarrow> int list" where
  "ck_completed_segments job_id cks =
     map ck_segment (tbl_select (\<lambda>c. ck_job_id c = job_id) ck_segment cks)"

definition ck_next_segment :: "string \<Rightarrow> int \<Rightarrow> checkpoint list \<Rightarrow> int option" where
  "ck_next_segment job_id total_segments cks =
     List.find (\<lambda>i. i \<notin> set (ck_completed_segments job_id cks)) [0..total_segments - 1]"

text \<open>
  The scan of \<open>recover\<close>: a left join counts the checkpoints of each running job. Jobs created
  at the same time come in the order of their ids, the order in which the grouping reads them.
\<close>

definition ck_recover :: "sql_jobs \<Rightarrow> checkpoint list \<Rightarrow> (string \<times> nat) list" where
  "ck_recover jobs cks =
     map (\<lambda>r. (rw_id r, length (filter (\<lambda>c. ck_job_id c = rw_id r) cks)))
       (tbl_select (\<lambda>r. rw_status r = ''running'') (\<lambda>r. (rw_created_at r, rw_id r)) jobs)"

definition ck_cleanup_stale :: "string list \<Rightarrow> (checkpoint list, nat) op" where
  "ck_cleanup_stale job_ids cks =
     (if job_ids = [] then (Inr 0, cks)
      else (Inr (length (filter (\<lambda>c. ck_job_id c \<in> set job_ids) cks)),
            filter (\<lambda>c. ck_job_id c \<notin> set job_ids) cks))"

subsection \<open>The constraints as an invariant\<close>

definition ck_invar :: "checkpoint list \<Rightarrow> bool" where
  "ck_invar cks \<longleftrightarrow> distinct (map (\<lambda>c. (ck_job_id c, ck_segment c)) cks) \<and>
     (\<forall>c \<in> set cks. 0 \<le> ck_segment c)"

lemma ck_invar_Nil [simp]: "ck_invar []"
  by (simp add: ck_invar_def)

lemma ck_write_invar: "ck_invar cks \<Longrightarrow> ck_write jobs now k i cks = (r, cks') \<Longrightarrow> ck_invar cks'"
  by (auto simp: ck_invar_def ck_write_def split: if_splits)

lemma ck_cleanup_invar: "ck_invar cks \<Longrightarrow> ck_cleanup_stale ks cks = (r, cks') \<Longrightarrow> ck_invar cks'"
  by (auto simp: ck_invar_def ck_cleanup_stale_def distinct_map_filter split: if_splits)

lemma ck_completed_set: "set (ck_completed_segments k cks) = {i. \<exists>c \<in> set cks. ck_job_id c = k \<and> ck_segment c = i}"
  by (auto simp: ck_completed_segments_def)

lemma ck_completed_distinct:
  assumes "ck_invar cks"
  shows "distinct (ck_completed_segments k cks)"
proof -
  let ?cs = "filter (\<lambda>c. ck_job_id c = k) cks"
  have "distinct (map (\<lambda>c. (ck_job_id c, ck_segment c)) ?cs)"
    using assms by (simp add: ck_invar_def distinct_map_filter)
  then have "distinct ?cs \<and> inj_on ck_segment (set ?cs)"
    by (auto simp: distinct_map inj_on_def)
  then show ?thesis
    by (simp add: ck_completed_segments_def tbl_select_def distinct_map)
qed

lemma find_upto_least:
  "List.find P [0..t - 1] = Some i \<longleftrightarrow> 0 \<le> i \<and> i < t \<and> P i \<and> (\<forall>j. 0 \<le> j \<and> j < i \<longrightarrow> \<not> P j)"
  (is "?l = _ \<longleftrightarrow> ?r i")
proof -
  have sound: "?r i" if "?l = Some i" for i
  proof -
    from that obtain n where n: "n < length [0..t - 1]" "P ([0..t - 1] ! n)" "i = [0..t - 1] ! n"
        "\<forall>j < n. \<not> P ([0..t - 1] ! j)"
      by (auto simp: find_Some_iff)
    then have "i = int n" and "int n < t" by auto
    moreover have "\<not> P j" if "0 \<le> j" "j < i" for j
      using n(4) [rule_format, of "nat j"] that n(1) \<open>i = int n\<close> by auto
    ultimately show ?thesis using n by auto
  qed
  show ?thesis
  proof
    assume r: "?r i"
    then have "?l \<noteq> None" by (auto simp: find_None_iff)
    then obtain j where j: "?l = Some j" by auto
    have "i = j" using sound [OF j] r by (cases i j rule: linorder_cases) auto
    with j show "?l = Some i" by simp
  qed (rule sound)
qed

subsection \<open>Where to resume\<close>

text \<open>
  \<open>get_next_segment\<close> answers the least segment of the plan without a checkpoint, and nothing
  exactly when every segment has one; a checkpoint is accepted once per segment of an existing
  job and then listed, in order, without repetition.
\<close>

theorem checkpoint_next_is_least:
  assumes "ck_invar cks"
  shows "(ck_next_segment k total_segments cks = Some i \<longleftrightarrow>
      0 \<le> i \<and> i < total_segments \<and> i \<notin> set (ck_completed_segments k cks) \<and>
      (\<forall>j. 0 \<le> j \<and> j < i \<longrightarrow> j \<in> set (ck_completed_segments k cks))) \<and>
    (ck_next_segment k total_segments cks = None \<longleftrightarrow>
      (\<forall>j. 0 \<le> j \<and> j < total_segments \<longrightarrow> j \<in> set (ck_completed_segments k cks))) \<and>
    sorted (ck_completed_segments k cks) \<and> distinct (ck_completed_segments k cks) \<and>
    (k \<in> set (map rw_id jobs) \<and> 0 \<le> i \<and> i \<notin> set (ck_completed_segments k cks) \<longrightarrow>
      (\<exists>cks'. ck_write jobs now k i cks = (Inr (), cks') \<and> ck_invar cks' \<and>
        set (ck_completed_segments k cks') = insert i (set (ck_completed_segments k cks))))"
proof (intro conjI impI)
  assume new: "k \<in> set (map rw_id jobs) \<and> 0 \<le> i \<and> i \<notin> set (ck_completed_segments k cks)"
  then have w: "ck_write jobs now k i cks =
      (Inr (), cks @ [\<lparr>ck_job_id = k, ck_segment = i, ck_completed_at = now\<rparr>])"
    by (auto simp: ck_write_def ck_completed_set)
  with ck_write_invar [OF assms w] show "\<exists>cks'. ck_write jobs now k i cks = (Inr (), cks') \<and>
      ck_invar cks' \<and> set (ck_completed_segments k cks') = insert i (set (ck_completed_segments k cks))"
    by (auto simp: ck_completed_set)
next
  show "sorted (ck_completed_segments k cks)" by (simp add: ck_completed_segments_def)
qed (auto simp: ck_next_segment_def find_upto_least find_None_iff ck_completed_distinct [OF assms])

definition demo_cks :: "checkpoint list" where
  "demo_cks = [\<lparr>ck_job_id = ''a'', ck_segment = 2, ck_completed_at = 7\<rparr>]"

theorem checkpoint_next_is_least_witness: "ck_next_segment ''a'' 3 demo_cks = Some 0"
proof -
  have inv: "ck_invar demo_cks" by (simp add: demo_cks_def ck_invar_def)
  have "set (ck_completed_segments ''a'' demo_cks) = {2}"
    by (auto simp: ck_completed_set demo_cks_def)
  with checkpoint_next_is_least [OF inv, where k = "''a''" and total_segments = 3 and i = 0]
  show ?thesis by simp
qed

lemma card_initial:
  fixes S :: "int set"
  assumes "finite S" and "\<forall>i \<in> S. 0 \<le> i"
  shows "(\<forall>j. 0 \<le> j \<and> j < int (card S) \<longrightarrow> j \<in> S) \<longleftrightarrow> int (card S) \<notin> S \<and> (\<forall>i \<in> S. i < int (card S))"
proof -
  let ?I = "{0..<int (card S)}"
  have card: "card ?I = card S" by simp
  show ?thesis
  proof
    assume "\<forall>j. 0 \<le> j \<and> j < int (card S) \<longrightarrow> j \<in> S"
    then have "?I \<subseteq> S" by auto
    with card assms(1) have "?I = S" by (intro card_subset_eq) auto
    then show "int (card S) \<notin> S \<and> (\<forall>i \<in> S. i < int (card S))" by auto
  next
    assume "int (card S) \<notin> S \<and> (\<forall>i \<in> S. i < int (card S))"
    with assms(2) have "S \<subseteq> ?I" by auto
    then have "S = ?I" using card by (intro card_subset_eq) auto
    then have "?I \<subseteq> S" by (rule equalityD2)
    then show "\<forall>j. 0 \<le> j \<and> j < int (card S) \<longrightarrow> j \<in> S" by auto
  qed
qed

lemma ck_count:
  assumes "ck_invar cks"
  shows "length (filter (\<lambda>c. ck_job_id c = k) cks) = card (set (ck_completed_segments k cks))"
  using distinct_card [OF ck_completed_distinct [OF assms, of k]]
  by (simp add: ck_completed_segments_def tbl_select_def)

definition running_cks_rows :: sql_jobs where
  "running_cks_rows = [(job_to_row (demo_job ''a'' 1))\<lparr>rw_status := ''running''\<rparr>]"

text \<open>
  The resume point of \<open>recover\<close> is the number of a running job's checkpoints. It is the first
  segment without one exactly when the checkpoints have no gap; with a checkpoint for a later
  segment only, it skips a segment that was never rendered.
\<close>

theorem checkpoint_recover_resume:
  assumes "ck_invar cks" and "(k, n) \<in> set (ck_recover jobs cks)" and "int n < total_segments"
  shows "(\<exists>r \<in> set jobs. rw_id r = k \<and> rw_status r = ''running'') \<and>
    (ck_next_segment k total_segments cks = Some (int n) \<longleftrightarrow>
       (\<forall>i \<in> set (ck_completed_segments k cks). i < int n))"
proof
  let ?S = "set (ck_completed_segments k cks)"
  have n: "n = card ?S"
    using assms(2) ck_count [OF assms(1)] by (auto simp: ck_recover_def)
  have S: "finite ?S" "\<forall>i \<in> ?S. 0 \<le> i"
    using assms(1) by (auto simp: ck_completed_set ck_invar_def)
  have "int n \<notin> ?S \<and> (\<forall>i \<in> ?S. i < int n) \<longleftrightarrow> (\<forall>i \<in> ?S. i < int n)" by auto
  with card_initial [OF S] show "ck_next_segment k total_segments cks = Some (int n) \<longleftrightarrow> (\<forall>i \<in> ?S. i < int n)"
    using assms(3) by (auto simp: ck_next_segment_def find_upto_least n)
qed (use assms(2) in \<open>auto simp: ck_recover_def\<close>)

theorem checkpoint_recover_resume_witness:
  "\<exists>r \<in> set running_cks_rows. rw_id r = ''a'' \<and> rw_status r = ''running''"
proof -
  have inv: "ck_invar demo_cks" by (simp add: demo_cks_def ck_invar_def)
  have mem: "(''a'', 1) \<in> set (ck_recover running_cks_rows demo_cks)" by code_simp
  from checkpoint_recover_resume [OF inv mem, of 3] show ?thesis by simp
qed

end
