(* ===== verification/Render_Executor.thy ===== *)
theory Render_Executor
  imports Render_Models Json "HOL-Library.Sublist"
begin

text \<open>
  What \<open>RenderExecutor\<close> of \<open>src/stoat_ferret/render/executor.py\<close> keeps about its processes: the
  active ones, their temporary files, start times, durations and the evidence of each run. The
  FFmpeg process is outside: how a run ends is a \<open>proc_end\<close>, and what other tasks do to the
  executor while it runs is the argument \<open>during\<close>. Files are a dictionary from paths to sizes;
  \<open>locked\<close> tells the paths whose \<open>unlink\<close> raises \<open>OSError\<close>. Captured output is kept as bytes; the
  decoding with replacement characters, metrics and log lines are left out.
\<close>

record evidence =
  evd_command :: "string list"
  evd_exit_code :: "int option"
  evd_stderr_tail :: string
  evd_output_path :: string
  evd_output_size :: "nat option"
  evd_filter_script :: "string option"

record exec_state =
  ex_active :: "(string, int option) dict"  \<comment> \<open>the process of a job, by its return code\<close>
  ex_temp_files :: "(string, string list) dict"
  ex_start_times :: "(string, rat) dict"
  ex_durations :: "(string, int) dict"
  ex_evidence :: "(string, evidence) dict"
  ex_files :: "(string, nat) dict"

definition ex_init :: "(string, nat) dict \<Rightarrow> exec_state" where
  "ex_init files = \<lparr>ex_active = [], ex_temp_files = [], ex_start_times = [], ex_durations = [],
     ex_evidence = [], ex_files = files\<rparr>"

definition dict_get_or :: "'v \<Rightarrow> 'k \<Rightarrow> ('k, 'v) dict \<Rightarrow> 'v" where
  "dict_get_or dflt k d = (case map_of d k of None \<Rightarrow> dflt | Some v \<Rightarrow> v)"

definition ex_register_temp_file :: "string \<Rightarrow> string \<Rightarrow> exec_state \<Rightarrow> exec_state" where
  "ex_register_temp_file job_id path s =
     s\<lparr>ex_temp_files :=
        AList.update job_id (dict_get_or [] job_id (ex_temp_files s) @ [path]) (ex_temp_files s)\<rparr>"

subsection \<open>Temporary files\<close>

definition unlink_file :: "(string \<Rightarrow> bool) \<Rightarrow> string \<Rightarrow> (string, nat) dict \<Rightarrow> (string, nat) dict" where
  "unlink_file locked path files =
     (if map_of files path = None then files
      else if locked path then files
      else AList.delete path files)"

definition ex_cleanup_temp_files :: "(string \<Rightarrow> bool) \<Rightarrow> string \<Rightarrow> exec_state \<Rightarrow> exec_state" where
  "ex_cleanup_temp_files locked job_id s =
     s\<lparr>ex_temp_files := AList.delete job_id (ex_temp_files s),
       ex_files := fold (unlink_file locked) (dict_get_or [] job_id (ex_temp_files s)) (ex_files s)\<rparr>"

fun ex_cleanup_list :: "(string \<Rightarrow> bool) \<Rightarrow> string list \<Rightarrow> exec_state \<Rightarrow> exec_state" where
  "ex_cleanup_list locked [] s = s"
| "ex_cleanup_list locked (k # ks) s = ex_cleanup_list locked ks (ex_cleanup_temp_files locked k s)"

definition ex_cleanup_all_temp_files :: "(string \<Rightarrow> bool) \<Rightarrow> exec_state \<Rightarrow> string list \<times> exec_state" where
  "ex_cleanup_all_temp_files locked s =
     (dict_keys (ex_temp_files s), ex_cleanup_list locked (dict_keys (ex_temp_files s)) s)"

subsection \<open>Evidence\<close>

definition path_name :: "string \<Rightarrow> string" where
  "path_name p = rev (takeWhile (\<lambda>c. c \<noteq> CHR ''/'') (rev p))"

text \<open>\<open>Path.suffix\<close>: from the last dot of the name, unless that dot is its first or last character.\<close>

definition path_suffix :: "string \<Rightarrow> string" where
  "path_suffix p =
     (let name = path_name p;
          ext = rev (takeWhile (\<lambda>c. c \<noteq> CHR ''.'') (rev name))
      in if CHR ''.'' \<notin> set name \<or> ext = [] \<or> Suc (length ext) = length name then []
         else CHR ''.'' # ext)"

definition stderr_max_bytes :: nat where "stderr_max_bytes = 16 * 1024"

definition stderr_max_lines :: nat where "stderr_max_lines = 100"

definition last_n :: "nat \<Rightarrow> 'a list \<Rightarrow> 'a list" where
  "last_n n xs = drop (length xs - n) xs"

definition stderr_tail :: "string list \<Rightarrow> string" where
  "stderr_tail stderr_lines =
     (let raw = concat (last_n stderr_max_lines stderr_lines)
      in if length raw > stderr_max_bytes then last_n stderr_max_bytes raw else raw)"

definition ex_persist_evidence ::
  "render_job \<Rightarrow> string list \<Rightarrow> int option \<Rightarrow> string list \<Rightarrow> exec_state \<Rightarrow> exec_state"
where
  "ex_persist_evidence job command returncode stderr_lines s =
     s\<lparr>ex_evidence := AList.update (rj_id job)
        \<lparr>evd_command = command, evd_exit_code = returncode,
         evd_stderr_tail = stderr_tail stderr_lines,
         evd_output_path = rj_output_path job,
         evd_output_size =
           (if rj_output_path job = [] then None else map_of (ex_files s) (rj_output_path job)),
         evd_filter_script =
           List.find (\<lambda>p. path_suffix p \<in> {''.txt'', ''.filter''})
             (dict_get_or [] (rj_id job) (ex_temp_files s))\<rparr>
        (ex_evidence s)\<rparr>"

definition ex_pop_evidence :: "string \<Rightarrow> exec_state \<Rightarrow> evidence option \<times> exec_state" where
  "ex_pop_evidence job_id s =
     (map_of (ex_evidence s) job_id, s\<lparr>ex_evidence := AList.delete job_id (ex_evidence s)\<rparr>)"

subsection \<open>Running a job\<close>

text \<open>
  How a run ends: the process could not be started, exited with its standard error, was killed
  at the timeout (with the return code it then has), or reading it raised.
\<close>

datatype proc_end =
    Proc_No_Start
  | Proc_Exit int "string list"
  | Proc_Timeout "int option"
  | Proc_Raise exn

definition ex_begin :: "string \<Rightarrow> rat \<Rightarrow> int \<Rightarrow> proc_end \<Rightarrow> exec_state \<Rightarrow> exec_state" where
  "ex_begin job_id start total_us pend s =
     (let s1 = s\<lparr>ex_start_times := AList.update job_id start (ex_start_times s),
                 ex_durations := AList.update job_id total_us (ex_durations s)\<rparr>
      in if pend = Proc_No_Start then s1
         else s1\<lparr>ex_active := AList.update job_id None (ex_active s1)\<rparr>)"

text \<open>The \<open>finally\<close> block.\<close>

definition ex_finally :: "(string \<Rightarrow> bool) \<Rightarrow> string \<Rightarrow> exec_state \<Rightarrow> exec_state" where
  "ex_finally locked job_id s =
     ex_cleanup_temp_files locked job_id
       (s\<lparr>ex_active := AList.delete job_id (ex_active s),
          ex_start_times := AList.delete job_id (ex_start_times s),
          ex_durations := AList.delete job_id (ex_durations s)\<rparr>)"

definition ex_end ::
  "(string \<Rightarrow> bool) \<Rightarrow> render_job \<Rightarrow> string list \<Rightarrow> proc_end \<Rightarrow> (exec_state, bool) op"
where
  "ex_end locked job command pend s =
     (case pend of
        Proc_No_Start \<Rightarrow> (Inl OSError, s)
      | Proc_Exit rc stderr \<Rightarrow>
          (Inr (rc = 0),
           ex_persist_evidence job command (Some rc) stderr (ex_finally locked (rj_id job) s))
      | Proc_Timeout rc \<Rightarrow>
          (Inr False, ex_finally locked (rj_id job) (ex_persist_evidence job command rc [] s))
      | Proc_Raise e \<Rightarrow> (Inl e, ex_finally locked (rj_id job) s))"

definition ex_execute ::
  "(string \<Rightarrow> bool) \<Rightarrow> rat \<Rightarrow> render_job \<Rightarrow> string list \<Rightarrow> int \<Rightarrow> proc_end \<Rightarrow>
   (exec_state \<Rightarrow> exec_state) \<Rightarrow> (exec_state, bool) op"
where
  "ex_execute locked start job command total_us pend during s =
     (let s1 = ex_begin (rj_id job) start total_us pend s
      in ex_end locked job command pend (if pend = Proc_No_Start then s1 else during s1))"

subsection \<open>Cancelling\<close>

definition ex_forget :: "(string \<Rightarrow> bool) \<Rightarrow> string \<Rightarrow> exec_state \<Rightarrow> exec_state" where
  "ex_forget locked job_id s =
     ex_cleanup_temp_files locked job_id (s\<lparr>ex_active := AList.delete job_id (ex_active s)\<rparr>)"

definition ex_cancel :: "(string \<Rightarrow> bool) \<Rightarrow> string \<Rightarrow> exec_state \<Rightarrow> bool \<times> exec_state" where
  "ex_cancel locked job_id s =
     (if map_of (ex_active s) job_id = None then (False, s)
      else (True, ex_forget locked job_id s))"

definition ex_cancel_all :: "exec_state \<Rightarrow> string list" where
  "ex_cancel_all s = dict_keys (ex_active s)"

definition ex_kill_remaining :: "exec_state \<Rightarrow> string list" where
  "ex_kill_remaining s = map fst (filter (\<lambda>(k, rc). rc = None) (ex_active s))"

text \<open>The gauge \<open>_update_speed_ratio\<close> sets, when it sets one.\<close>

definition ex_speed_ratio :: "string \<Rightarrow> rat \<Rightarrow> rat \<Rightarrow> exec_state \<Rightarrow> rat option" where
  "ex_speed_ratio job_id progress now s =
     (case map_of (ex_start_times s) job_id of
        None \<Rightarrow> None
      | Some start_time \<Rightarrow>
          (let total_us = dict_get_or 0 job_id (ex_durations s); elapsed = now - start_time
           in if total_us \<le> 0 \<or> progress \<le> 0 then None
              else if elapsed \<le> 0 then None
              else Some (of_int total_us / 1000000 * progress / elapsed)))"

subsection \<open>Lemmas\<close>

lemma dict_get_or_pop: "dict_get_or d k (AList.delete j m) = (if k = j then d else dict_get_or d k m)"
  by (simp add: dict_get_or_def dict_simps)

lemma unlink_get:
  "map_of (unlink_file locked p fs) q = (if q = p \<and> \<not> locked p then None else map_of fs q)"
  by (auto simp: unlink_file_def dict_simps)

lemma unlink_all_get:
  "map_of (fold (unlink_file locked) ps fs) q =
     (if q \<in> set ps \<and> \<not> locked q then None else map_of fs q)"
  by (induction ps arbitrary: fs) (auto simp: unlink_get)

lemma cleanup_sel [simp]:
  "ex_active (ex_cleanup_temp_files locked k s) = ex_active s"
  "ex_evidence (ex_cleanup_temp_files locked k s) = ex_evidence s"
  "ex_start_times (ex_cleanup_temp_files locked k s) = ex_start_times s"
  "ex_durations (ex_cleanup_temp_files locked k s) = ex_durations s"
  "ex_temp_files (ex_cleanup_temp_files locked k s) = AList.delete k (ex_temp_files s)"
  "map_of (ex_files (ex_cleanup_temp_files locked k s)) q =
     (if q \<in> set (dict_get_or [] k (ex_temp_files s)) \<and> \<not> locked q then None else map_of (ex_files s) q)"
  by (simp_all add: ex_cleanup_temp_files_def unlink_all_get)

lemma finally_sel [simp]:
  "ex_active (ex_finally locked k s) = AList.delete k (ex_active s)"
  "ex_evidence (ex_finally locked k s) = ex_evidence s"
  "ex_start_times (ex_finally locked k s) = AList.delete k (ex_start_times s)"
  "ex_durations (ex_finally locked k s) = AList.delete k (ex_durations s)"
  "ex_temp_files (ex_finally locked k s) = AList.delete k (ex_temp_files s)"
  "map_of (ex_files (ex_finally locked k s)) q =
     (if q \<in> set (dict_get_or [] k (ex_temp_files s)) \<and> \<not> locked q then None else map_of (ex_files s) q)"
  by (simp_all add: ex_finally_def)

lemma persist_sel [simp]:
  "ex_active (ex_persist_evidence j c rc ls s) = ex_active s"
  "ex_temp_files (ex_persist_evidence j c rc ls s) = ex_temp_files s"
  "ex_start_times (ex_persist_evidence j c rc ls s) = ex_start_times s"
  "ex_durations (ex_persist_evidence j c rc ls s) = ex_durations s"
  "ex_files (ex_persist_evidence j c rc ls s) = ex_files s"
  by (simp_all add: ex_persist_evidence_def)

lemma length_last_n [simp]: "length (last_n n xs) = min n (length xs)"
  by (simp add: last_n_def)

lemma suffix_last_n: "suffix (last_n n xs) xs"
  by (simp add: last_n_def suffix_drop)

lemma suffix_concat: "suffix xs ys \<Longrightarrow> suffix (concat xs) (concat ys)"
  by (auto simp: suffix_def)

lemma stderr_tail_bound:
  "length (stderr_tail ls) \<le> 16384" "suffix (stderr_tail ls) (concat ls)"
proof -
  show "length (stderr_tail ls) \<le> 16384"
    by (auto simp: stderr_tail_def Let_def stderr_max_bytes_def)
  have "suffix (stderr_tail ls) (concat (last_n stderr_max_lines ls))"
    by (auto simp: stderr_tail_def Let_def suffix_last_n)
  then show "suffix (stderr_tail ls) (concat ls)"
    by (rule suffix_order.trans) (intro suffix_concat suffix_last_n)
qed

lemma stderr_tail_whole:
  "length ls \<le> 100 \<Longrightarrow> length (concat ls) \<le> 16384 \<Longrightarrow> stderr_tail ls = concat ls"
  by (simp add: stderr_tail_def stderr_max_lines_def stderr_max_bytes_def last_n_def)

subsection \<open>Properties\<close>

text \<open>
  However a started run ends, by exit, timeout or exception, and whatever other tasks did
  meanwhile, the executor forgets the process and its clocks, and deletes every temporary file
  registered by then that can be deleted; the entries of other jobs stay. A process that never
  started leaves its start time and its temporary files behind.
\<close>

theorem execute_cleans_up:
  "ex_execute locked start job command us pend during s = (r, s') \<Longrightarrow>
    (let k = rj_id job;
         s2 = during (ex_begin k start us pend s)
     in if pend = Proc_No_Start then
          r = Inl OSError \<and> map_of (ex_start_times s') k = Some start \<and> ex_temp_files s' = ex_temp_files s
        else
          map_of (ex_active s') k = None \<and> map_of (ex_start_times s') k = None \<and>
          map_of (ex_durations s') k = None \<and> map_of (ex_temp_files s') k = None \<and>
          (\<forall>p \<in> set (dict_get_or [] k (ex_temp_files s2)). \<not> locked p \<longrightarrow> map_of (ex_files s') p = None) \<and>
          (\<forall>j. j \<noteq> k \<longrightarrow> map_of (ex_active s') j = map_of (ex_active s2) j \<and>
             map_of (ex_temp_files s') j = map_of (ex_temp_files s2) j))"
  by (cases pend) (auto simp: ex_execute_def Let_def dict_simps ex_begin_def ex_end_def)

definition demo_exec :: exec_state where
  "demo_exec = (ex_init [(''/t/g.filter'', 9), (''/out/a.mp4'', 7)])
     \<lparr>ex_temp_files := [(''a'', [''/t/g.filter''])]\<rparr>"

theorem execute_cleans_up_witness:
  "map_of (ex_files (snd (ex_execute (\<lambda>_. False) 1 (demo_job ''a'' 1) [''ffmpeg''] 5
     (Proc_Exit 1 [''boom'']) id demo_exec))) ''/t/g.filter'' = None"
  using execute_cleans_up [of "\<lambda>_. False" 1 "demo_job ''a'' 1" "[''ffmpeg'']" 5
      "Proc_Exit 1 [''boom'']" id demo_exec, OF surjective_pairing]
  by (simp add: Let_def demo_exec_def ex_begin_def dict_get_or_def ex_init_def)

text \<open>
  The evidence of a run that exits is stored under the job with the exit code and at most
  the last 16 KiB of its standard error, all of it when it is short; popping it returns it once.
  It never names the filter script, because the temporary files are forgotten before it is
  built; the evidence of a run that timed out does.
\<close>

theorem execute_evidence:
  "\<exists>s1 ev s2. ex_execute locked start job command us (Proc_Exit rc stderr) during s = (Inr (rc = 0), s1) \<and>
     ex_pop_evidence (rj_id job) s1 = (Some ev, s2) \<and> fst (ex_pop_evidence (rj_id job) s2) = None \<and>
     evd_command ev = command \<and> evd_exit_code ev = Some rc \<and>
     length (evd_stderr_tail ev) \<le> 16384 \<and> suffix (evd_stderr_tail ev) (concat stderr) \<and>
     (length stderr \<le> 100 \<and> length (concat stderr) \<le> 16384 \<longrightarrow> evd_stderr_tail ev = concat stderr) \<and>
     evd_filter_script ev = None"
  using stderr_tail_bound [of stderr] stderr_tail_whole [of stderr]
  by (simp add: ex_execute_def ex_end_def Let_def ex_pop_evidence_def ex_persist_evidence_def dict_simps
      dict_get_or_pop)

theorem execute_evidence_witness:
  "\<exists>s1. ex_execute (\<lambda>_. False) 1 (demo_job ''a'' 1) [''ffmpeg''] 5 (Proc_Exit 1 [''boom'']) id demo_exec
       = (Inr False, s1) \<and>
     map_option evd_filter_script (fst (ex_pop_evidence ''a'' s1)) = Some None \<and>
   map_option evd_filter_script (fst (ex_pop_evidence ''a''
     (snd (ex_execute (\<lambda>_. False) 1 (demo_job ''a'' 1) [''ffmpeg''] 5 (Proc_Timeout None) id demo_exec))))
     = Some (Some ''/t/g.filter'')"
proof -
  have "map_option evd_filter_script (fst (ex_pop_evidence ''a''
     (snd (ex_execute (\<lambda>_. False) 1 (demo_job ''a'' 1) [''ffmpeg''] 5 (Proc_Timeout None) id demo_exec))))
     = Some (Some ''/t/g.filter'')" by code_simp
  with execute_evidence [of "\<lambda>_. False" 1 "demo_job ''a'' 1" "[''ffmpeg'']" 5 1 "[''boom'']" id demo_exec]
  show ?thesis by auto
qed

text \<open>
  \<open>cancel\<close> answers whether the job had an active process, and then forgets the process and
  deletes its temporary files; cancelling twice, or a job without a process, changes nothing.
\<close>

theorem cancel_idempotent:
  "ex_cancel locked k s = (b, s') \<Longrightarrow>
     b = (map_of (ex_active s) k \<noteq> None) \<and> ex_cancel locked k s' = (False, s') \<and>
     (\<not> b \<longrightarrow> s' = s) \<and> (b \<longrightarrow> map_of (ex_temp_files s') k = None) \<and>
     (\<forall>j. j \<noteq> k \<longrightarrow> map_of (ex_active s') j = map_of (ex_active s) j) \<and>
     k \<notin> set (ex_cancel_all s') \<and> set (ex_kill_remaining s') \<subseteq> set (ex_cancel_all s')"
  by (auto simp: dict_pop_mem ex_cancel_def ex_forget_def dict_simps ex_cancel_all_def ex_kill_remaining_def map_of_eq_None_iff
      split: if_splits)

theorem cancel_idempotent_witness:
  "\<exists>s'. ex_cancel (\<lambda>_. False) ''a'' (demo_exec\<lparr>ex_active := [(''a'', None)]\<rparr>) = (True, s') \<and>
     ex_cancel (\<lambda>_. False) ''a'' s' = (False, s')"
proof -
  obtain b s' where s': "ex_cancel (\<lambda>_. False) ''a'' (demo_exec\<lparr>ex_active := [(''a'', None)]\<rparr>) = (b, s')"
    by fastforce
  from cancel_idempotent [OF s'] s' show ?thesis by auto
qed

end
