(* ===== verification/Render_Service.thy ===== *)
theory Render_Service
  imports Render_Queue Render_Checkpoints Render_Executor Ws_Events
begin

text \<open>
  The render service, from \<open>src/stoat_ferret/render/service.py\<close>, over the SQLite repository, the
  checkpoint table and the executor. Its state adds the shutdown flag, the throttle clocks and
  the frame buffer; \<open>sv_events\<close> lists the events handed to the WebSocket manager, in order (their
  envelope is \<open>Ws_Events\<close>, their delivery \<open>Ws_Manager\<close>; here a broadcast does not fail). What lies
  outside \<open>src/stoat_ferret\<close> is an environment: the JSON reader, the Rust bindings, the file
  system, the QC service and the delivery profiles. \<open>clk i\<close> is the \<open>i\<close>-th reading of
  the wall clock an operation makes, \<open>mclk\<close> a reading of the monotonic clock, in seconds.
\<close>

type_synonym payload = "(string, json_value) dict"

record sv_env =
  en_loads :: "string \<Rightarrow> json_value option"
  en_rust :: bool
  en_check_settings :: "json_value list \<Rightarrow> exn option"
  en_estimate_eta :: "rat \<Rightarrow> rat \<Rightarrow> rat option"
  en_dumps :: "evidence \<Rightarrow> string"
  en_estimate_size :: "json_value \<Rightarrow> json_value \<Rightarrow> quality_preset \<Rightarrow> exn + int"
  en_dir_free :: "string \<Rightarrow> exn + int option"
  en_noop :: bool
  en_which_ffmpeg :: bool
  en_max_retries :: int
  en_max_depth :: int
  en_max_concurrent :: int
  en_locked :: "string \<Rightarrow> bool"
  en_qc :: "(string \<Rightarrow> string \<Rightarrow> json_value \<Rightarrow> (string, rat option) dict option \<Rightarrow> exn + string \<times> string) option"
  en_profiles :: "(json_value \<Rightarrow> exn + (rat option \<times> rat option) option) option"

record service =
  sv_jobs :: sql_jobs
  sv_cks :: "checkpoint list"
  sv_exec :: exec_state
  sv_events :: "(event_type \<times> payload) list"
  sv_shutting_down :: bool
  sv_last_time :: "(string \<times> event_type, rat) dict"
  sv_last_progress :: "(string, rat) dict"
  sv_frames :: "(string, string) dict"

definition sv_init :: "sql_jobs \<Rightarrow> checkpoint list \<Rightarrow> exec_state \<Rightarrow> service" where
  "sv_init jobs cks ex = \<lparr>sv_jobs = jobs, sv_cks = cks, sv_exec = ex, sv_events = [],
     sv_shutting_down = False, sv_last_time = [], sv_last_progress = [], sv_frames = []\<rparr>"

definition on_jobs :: "(sql_jobs, 'a) op \<Rightarrow> (service, 'a) op" where
  "on_jobs m s = (case m (sv_jobs s) of (r, jobs) \<Rightarrow> (r, s\<lparr>sv_jobs := jobs\<rparr>))"

definition pure_op :: "exn + 'a \<Rightarrow> ('s, 'a) op" where
  "pure_op r = (\<lambda>s. (r, s))"

definition initiate_shutdown :: "(service, unit) op" where
  "initiate_shutdown = modify_op (\<lambda>s. s\<lparr>sv_shutting_down := True\<rparr>)"

definition ffmpeg_available :: "sv_env \<Rightarrow> bool" where
  "ffmpeg_available en \<longleftrightarrow> en_noop en \<or> en_which_ffmpeg en"

subsection \<open>Broadcasts and throttling\<close>

definition emit :: "event_type \<Rightarrow> payload \<Rightarrow> service \<Rightarrow> service" where
  "emit et p s = s\<lparr>sv_events := sv_events s @ [(et, p)]\<rparr>"

definition job_payload ::
  "event_type \<Rightarrow> render_job \<Rightarrow> render_status option \<Rightarrow> string option \<Rightarrow> payload" where
  "job_payload et job target_status output_path =
     [(''job_id'', JStr (rj_id job)), (''project_id'', JStr (rj_project_id job)),
      (''status'', JStr (rs_value (case target_status of Some st \<Rightarrow> st | None \<Rightarrow> rj_status job)))]
     @ (if et = RENDER_COMPLETED
        then [(''output_path'', case output_path of None \<Rightarrow> JNull | Some p \<Rightarrow> JStr p)] else [])"

definition broadcast_event ::
  "event_type \<Rightarrow> render_job \<Rightarrow> render_status option \<Rightarrow> string option \<Rightarrow> (service, unit) op" where
  "broadcast_event et job target_status output_path =
     modify_op (emit et (job_payload et job target_status output_path))"

definition broadcast_queue_status :: "sv_env \<Rightarrow> (service, unit) op" where
  "broadcast_queue_status en =
     bind_op (on_jobs (rq_active_count sql_repo)) (\<lambda>active_count.
     bind_op (on_jobs (rq_queue_depth sql_repo)) (\<lambda>pending_count.
     modify_op (emit RENDER_QUEUE_STATUS
       [(''active_count'', JInt (int active_count)), (''pending_count'', JInt (int pending_count)),
        (''max_concurrent'', JInt (en_max_concurrent en)), (''max_queue_depth'', JInt (en_max_depth en))])))"

definition throttle_interval :: rat where "throttle_interval = 1 / 2"

definition throttle_progress_delta :: rat where "throttle_progress_delta = 5 / 100"

definition should_throttle :: "rat \<Rightarrow> string \<Rightarrow> event_type \<Rightarrow> service \<Rightarrow> bool \<times> service" where
  "should_throttle mclk job_id et s =
     (let key = (job_id, et); last = dict_get_or 0 key (sv_last_time s)
      in if mclk - last < throttle_interval then (True, s)
         else (False, s\<lparr>sv_last_time := AList.update key mclk (sv_last_time s)\<rparr>))"

text \<open>
  What a progress report carries besides the fraction: estimated time, speed, frame count, rate,
  encoder name and type, as JSON. The final progress is sent without asking the throttle.
\<close>

definition broadcast_throttled_progress ::
  "rat \<Rightarrow> string \<Rightarrow> rat \<Rightarrow> payload \<Rightarrow> service \<Rightarrow> service" where
  "broadcast_throttled_progress mclk job_id progress extra s =
     (let is_final = (1 \<le> progress);
          last_progress = dict_get_or 0 job_id (sv_last_progress s);
          progress_delta = progress - last_progress;
          send = (\<lambda>s. emit RENDER_PROGRESS
                   ([(''job_id'', JStr job_id), (''progress'', JNum progress)] @ extra)
                   (s\<lparr>sv_last_progress := AList.update job_id progress (sv_last_progress s),
                      sv_last_time := AList.update (job_id, RENDER_PROGRESS) mclk (sv_last_time s)\<rparr>))
      in if is_final then send s
         else case should_throttle mclk job_id RENDER_PROGRESS s of
                (True, s') \<Rightarrow> s'
              | (False, s') \<Rightarrow>
                  if progress_delta < throttle_progress_delta
                  then s'\<lparr>sv_last_time := AList.delete (job_id, RENDER_PROGRESS) (sv_last_time s')\<rparr>
                  else send s')"

text \<open>\<open>frame\<close> is the picture the background capture stores, if it succeeds.\<close>

definition broadcast_throttled_frame ::
  "rat \<Rightarrow> string \<Rightarrow> rat \<Rightarrow> string option \<Rightarrow> service \<Rightarrow> service" where
  "broadcast_throttled_frame mclk job_id progress frame s =
     (case should_throttle mclk job_id RENDER_FRAME_AVAILABLE s of
        (True, s') \<Rightarrow> s'
      | (False, s') \<Rightarrow>
          (let s'' = (case frame of None \<Rightarrow> s'
                      | Some f \<Rightarrow> s'\<lparr>sv_frames := AList.update job_id f (sv_frames s')\<rparr>)
           in emit RENDER_FRAME_AVAILABLE
                [(''job_id'', JStr job_id),
                 (''frame_url'', JStr (''/api/v1/render/'' @ job_id @ ''/frame_preview.jpg'')),
                 (''resolution'', JStr ''540p''), (''progress'', JNum progress)] s''))"

definition get_frame_bytes :: "string \<Rightarrow> service \<Rightarrow> string option" where
  "get_frame_bytes job_id s = map_of (sv_frames s) job_id"

definition clear_throttle_state :: "string \<Rightarrow> service \<Rightarrow> service" where
  "clear_throttle_state job_id s =
     s\<lparr>sv_last_time := filter (\<lambda>e. fst (fst e) \<noteq> job_id) (sv_last_time s),
       sv_last_progress := AList.delete job_id (sv_last_progress s),
       sv_frames := AList.delete job_id (sv_frames s)\<rparr>"

subsection \<open>Cleanup and failure\<close>

definition sv_cleanup :: "sv_env \<Rightarrow> string \<Rightarrow> service \<Rightarrow> service" where
  "sv_cleanup en job_id s =
     s\<lparr>sv_exec := ex_cleanup_temp_files (en_locked en) job_id (sv_exec s),
       sv_cks := snd (ck_cleanup_stale [job_id] (sv_cks s))\<rparr>"

definition handle_failure :: "sv_env \<Rightarrow> (nat \<Rightarrow> time) \<Rightarrow> render_job \<Rightarrow> string \<Rightarrow> (service, unit) op" where
  "handle_failure en clk job error_message =
     bind_op (on_jobs (sql_get (rj_id job))) (\<lambda>found.
       case found of
         None \<Rightarrow> ret ()
       | Some current \<Rightarrow>
           if rj_retry_count current < en_max_retries en then
             seq_op (on_jobs (sql_update_status (clk 0) (rj_id job) R_FAILED (Some error_message)))
                    (on_jobs (sql_update_status (clk 1) (rj_id job) R_QUEUED None))
           else
             seq_op (on_jobs (sql_update_status (clk 0) (rj_id job) R_FAILED (Some error_message)))
            (seq_op (broadcast_event RENDER_FAILED job (Some R_FAILED) None)
            (seq_op (broadcast_queue_status en)
                    (modify_op (\<lambda>s. sv_cleanup en (rj_id job) (clear_throttle_state (rj_id job) s))))))"

subsection \<open>Completion and QC\<close>

definition build_assertions_from_profile :: "rat option \<times> rat option \<Rightarrow> (string, rat option) dict" where
  "build_assertions_from_profile profile =
     [(''loudness_integrated'', fst profile), (''true_peak'', snd profile)]"

definition load_delivery_profile_assertions ::
  "sv_env \<Rightarrow> json_value \<Rightarrow> (string, rat option) dict option" where
  "load_delivery_profile_assertions en profile_id =
     (case en_profiles en of
        None \<Rightarrow> None
      | Some get_by_id \<Rightarrow>
          (case get_by_id profile_id of
             Inl e \<Rightarrow> None
           | Inr None \<Rightarrow> None
           | Inr (Some profile) \<Rightarrow> Some (build_assertions_from_profile profile)))"

text \<open>\<open>json.loads(render_plan).get("settings") or {}\<close> and the profile id in it, if any.\<close>

definition plan_profile_id :: "sv_env \<Rightarrow> string \<Rightarrow> json_value option" where
  "plan_profile_id en plan =
     (case sum_bind (json_loads (en_loads en) plan) (\<lambda>v.
           sum_bind (json_get ''settings'' v) (\<lambda>st.
             json_get ''delivery_profile_id'' (if json_truthy st then st else JObj []))) of
        Inl e \<Rightarrow> None
      | Inr i \<Rightarrow> if json_truthy i then Some i else None)"

fun comma_join :: "string list \<Rightarrow> string" where
  "comma_join [] = []"
| "comma_join [x] = x"
| "comma_join (x # y # xs) = x @ '', '' @ comma_join (y # xs)"

fun failed_ids :: "(string \<times> json_value) list \<Rightarrow> exn + string list" where
  "failed_ids [] = Inr []"
| "failed_ids ((cid, c) # cs) =
     sum_bind (json_get ''pass'' c) (\<lambda>p.
     sum_bind (failed_ids cs) (\<lambda>ids. Inr (if p = JBool False then cid # ids else ids)))"

definition qc_error_message :: "string list \<Rightarrow> string" where
  "qc_error_message ids =
     (if ids \<noteq> [] then ''QC failed: '' @ comma_join ids
      else ''QC failed: overall_verdict=fail with no individually-failing checks (assertions may be missing)'')"

fun json_items :: "json_value \<Rightarrow> exn + (string \<times> json_value) list" where
  "json_items (JObj d) = Inr d"
| "json_items _ = Inl AttributeError"

definition run_completion_qc :: "sv_env \<Rightarrow> time \<Rightarrow> render_job \<Rightarrow> (service, unit) op" where
  "run_completion_qc en now job =
     (case en_qc en of
        None \<Rightarrow> ret ()
      | Some run_checks \<Rightarrow>
          (case plan_profile_id en (rj_render_plan job) of
             None \<Rightarrow> ret ()
           | Some profile_id \<Rightarrow>
               catch_op
                 (bind_op (pure_op (run_checks (rj_output_path job) (rj_id job) profile_id
                                      (load_delivery_profile_assertions en profile_id)))
                   (\<lambda>(verdict, checks).
                      if verdict = ''pass'' then ret ()
                      else
                        bind_op (pure_op (sum_bind (json_loads (en_loads en) checks) (\<lambda>v.
                                            sum_bind (json_items v) failed_ids)))
                          (\<lambda>ids. on_jobs (sql_update_status now (rj_id job) R_QC_FAILED
                                            (Some (qc_error_message ids))))))
                 (\<lambda>_. ret ())))"

definition complete_job :: "sv_env \<Rightarrow> (nat \<Rightarrow> time) \<Rightarrow> render_job \<Rightarrow> (service, unit) op" where
  "complete_job en clk job =
     seq_op (on_jobs (sql_update_status (clk 0) (rj_id job) R_COMPLETED None))
    (seq_op (broadcast_event RENDER_COMPLETED job (Some R_COMPLETED) (Some (rj_output_path job)))
    (seq_op (broadcast_queue_status en)
    (seq_op (modify_op (clear_throttle_state (rj_id job)))
    (seq_op (run_completion_qc en (clk 1) job)
            (modify_op (sv_cleanup en (rj_id job)))))))"

subsection \<open>Submitting\<close>

definition settings_fields :: "json_value \<Rightarrow> exn + json_value list" where
  "settings_fields v =
     sum_bind (json_get_or ''output_format'' (JStr ''mp4'') v) (\<lambda>a.
     sum_bind (json_get_or ''width'' (JInt 1920) v) (\<lambda>b.
     sum_bind (json_get_or ''height'' (JInt 1080) v) (\<lambda>c.
     sum_bind (json_get_or ''codec'' (JStr ''libx264'') v) (\<lambda>d.
     sum_bind (json_get_or ''quality_preset'' (JStr ''standard'') v) (\<lambda>e.
     sum_bind (json_get_or ''fps'' (JNum 30) v) (\<lambda>f. Inr [a, b, c, d, e, f]))))))"

definition validate_settings :: "sv_env \<Rightarrow> string \<Rightarrow> exn + unit" where
  "validate_settings en plan =
     (if \<not> en_rust en then Inr ()
      else case sum_bind (json_loads (en_loads en) plan) (\<lambda>v.
                  sum_bind (json_get ''settings'' v) (\<lambda>st.
                    if st = JNull then Inr ()
                    else sum_bind (settings_fields st) (\<lambda>fs.
                           case en_check_settings en fs of None \<Rightarrow> Inr () | Some e \<Rightarrow> Inl e))) of
             Inr _ \<Rightarrow> Inr ()
           | Inl e \<Rightarrow> Inl (if e \<in> {JSONDecodeError, KeyError, ValueError, TypeError}
                        then PreflightError else e))"

definition check_disk_space :: "sv_env \<Rightarrow> string \<Rightarrow> string \<Rightarrow> quality_preset \<Rightarrow> exn + unit" where
  "check_disk_space en output_path plan preset =
     (if \<not> en_rust en then Inr ()
      else case sum_bind (json_loads (en_loads en) plan) (\<lambda>v.
                  sum_bind (json_get_or ''total_duration'' (JNum 0) v) (\<lambda>duration.
                  sum_bind (json_get_or ''settings'' (JObj []) v) (\<lambda>st.
                  sum_bind (json_get_or ''codec'' (JStr ''libx264'') st) (\<lambda>codec.
                  sum_bind (en_estimate_size en duration codec preset) (\<lambda>estimated.
                  sum_bind (en_dir_free en output_path) (\<lambda>free.
                    case free of None \<Rightarrow> Inr ()
                    | Some n \<Rightarrow> if n < estimated then Inl PreflightError else Inr ())))))) of
             Inr _ \<Rightarrow> Inr ()
           | Inl e \<Rightarrow> if e \<in> {JSONDecodeError, KeyError, OSError} then Inr () else Inl e)"

definition plan_complete :: "sv_env \<Rightarrow> string \<Rightarrow> exn + unit" where
  "plan_complete en plan =
     sum_bind (json_loads (en_loads en) plan) (\<lambda>v.
     sum_bind (json_get ''total_duration'' v) (\<lambda>d.
       if d = JNull then Inl PreflightError else Inr ()))"

definition announce_job :: "sv_env \<Rightarrow> render_job \<Rightarrow> (service, unit) op" where
  "announce_job en job =
     seq_op (broadcast_event RENDER_QUEUED job None None)
    (seq_op (broadcast_queue_status en)
            (broadcast_event RENDER_STARTED job None None))"

definition submit_job ::
  "sv_env \<Rightarrow> (nat \<Rightarrow> time) \<Rightarrow> string \<Rightarrow> string \<Rightarrow> string \<Rightarrow> output_format \<Rightarrow> quality_preset \<Rightarrow> string \<Rightarrow>
   (service, render_job) op"
where
  "submit_job en clk uuid project_id output_path fmt preset plan s =
     (if sv_shutting_down s then (Inl RenderUnavailableError, s)
      else if \<not> ffmpeg_available en then (Inl RenderUnavailableError, s)
      else
        seq_op (pure_op (validate_settings en plan))
       (seq_op (pure_op (check_disk_space en output_path plan preset))
       (bind_op (on_jobs (rq_queue_depth sql_repo)) (\<lambda>queue_depth.
          if en_max_depth en \<le> int queue_depth then throw PreflightError
          else
            seq_op (pure_op (plan_complete en plan))
              (let job = rj_create uuid (clk 0) project_id output_path fmt preset plan
               in if en_noop en then
                    seq_op (bind_op (on_jobs (sql_create job)) (\<lambda>_. ret ()))
                   (seq_op (announce_job en job)
                   (seq_op (on_jobs (sql_update_status (clk 1) (rj_id job) R_RUNNING None))
                   (seq_op (complete_job en (\<lambda>i. clk (i + 2)) job)
                           (bind_op (on_jobs (sql_get (rj_id job)))
                              (\<lambda>found. ret (case found of Some j \<Rightarrow> j | None \<Rightarrow> job))))))
                  else
                    bind_op (catch_op (on_jobs (rq_enqueue sql_repo (en_max_depth en) job))
                               (\<lambda>e. case e of QueueFullError _ _ \<Rightarrow> throw PreflightError | _ \<Rightarrow> throw e))
                      (\<lambda>job'. seq_op (announce_job en job') (ret job')))))) s)"

subsection \<open>Running\<close>

text \<open>\<open>int(plan.get("total_duration", 0.0) * 1000000)\<close>, 0 for anything that is no number.\<close>

definition extract_duration_us :: "sv_env \<Rightarrow> string \<Rightarrow> exn + int" where
  "extract_duration_us en plan =
     (case sum_bind (json_loads (en_loads en) plan) (json_get_or ''total_duration'' (JNum 0)) of
        Inl e \<Rightarrow> if e \<in> {JSONDecodeError, ValueError, TypeError} then Inr 0 else Inl e
      | Inr (JNum r) \<Rightarrow> Inr (py_int (r * 1000000))
      | Inr (JInt i) \<Rightarrow> Inr (i * 1000000)
      | Inr (JBool b) \<Rightarrow> Inr (if b then 1000000 else 0)
      | Inr _ \<Rightarrow> Inr 0)"

definition hardware_encoders :: "string list" where
  "hardware_encoders = [''h264_nvenc'', ''hevc_nvenc'', ''h264_qsv'', ''hevc_qsv'', ''h264_amf'',
     ''hevc_amf'', ''h264_videotoolbox'', ''hevc_videotoolbox'', ''av1_nvenc'', ''av1_qsv'', ''av1_amf'']"

text \<open>The codec is a string in every plan the schemas accept; \<open>str\<close> of other values is left out.\<close>

definition extract_encoder_name :: "sv_env \<Rightarrow> string \<Rightarrow> string option" where
  "extract_encoder_name en plan =
     (case sum_bind (json_loads (en_loads en) plan) (\<lambda>v.
             sum_bind (json_get_or ''settings'' (JObj []) v) (json_get ''codec'')) of
        Inr (JStr c) \<Rightarrow> Some c
      | _ \<Rightarrow> None)"

definition encoder_type :: "string option \<Rightarrow> string option" where
  "encoder_type encoder_name =
     map_option (\<lambda>c. if c \<in> set hardware_encoders then ''HW'' else ''SW'') encoder_name"

record report =
  rp_progress :: rat
  rp_elapsed :: rat
  rp_frame :: "int option"
  rp_fps :: "rat option"
  rp_now :: time
  rp_mclk :: rat
  rp_picture :: "string option"

definition json_opt :: "('a \<Rightarrow> json_value) \<Rightarrow> 'a option \<Rightarrow> json_value" where
  "json_opt f x = (case x of None \<Rightarrow> JNull | Some v \<Rightarrow> f v)"

definition progress_extra :: "sv_env \<Rightarrow> string \<Rightarrow> int \<Rightarrow> report \<Rightarrow> payload" where
  "progress_extra en plan total_us rp =
     (let total_s = (if 0 < total_us then of_int total_us / 1000000 else 0 :: rat);
          eta = (if en_rust en then en_estimate_eta en (rp_elapsed rp) (rp_progress rp) else None);
          speed = (if 0 < rp_elapsed rp \<and> 0 < total_s \<and> 0 < rp_progress rp
                   then Some (total_s * rp_progress rp / rp_elapsed rp) else None);
          encoder_name = extract_encoder_name en plan
      in [(''eta_seconds'', json_opt JNum eta), (''speed_ratio'', json_opt JNum speed),
          (''frame_count'', json_opt JInt (rp_frame rp)), (''fps'', json_opt JNum (rp_fps rp)),
          (''encoder_name'', json_opt JStr encoder_name),
          (''encoder_type'', json_opt JStr (encoder_type encoder_name))])"

definition progress_callback :: "sv_env \<Rightarrow> render_job \<Rightarrow> int \<Rightarrow> report \<Rightarrow> (service, unit) op" where
  "progress_callback en job total_us rp =
     seq_op (on_jobs (sql_update_progress (rp_now rp) (rj_id job) (rp_progress rp)))
       (modify_op (\<lambda>s. broadcast_throttled_frame (rp_mclk rp) (rj_id job) (rp_progress rp) (rp_picture rp)
          (broadcast_throttled_progress (rp_mclk rp) (rj_id job) (rp_progress rp)
             (progress_extra en (rj_render_plan job) total_us rp) s)))"

text \<open>
  One line of FFmpeg's output makes a list of reports; an exception skips the rest of the line.
  No line is parsed without the bindings or without a duration.
\<close>

fun report_line :: "sv_env \<Rightarrow> render_job \<Rightarrow> int \<Rightarrow> report list \<Rightarrow> (service, unit) op" where
  "report_line en job total_us [] = ret ()"
| "report_line en job total_us (rp # rps) =
     catch_op (seq_op (progress_callback en job total_us rp) (report_line en job total_us rps)) (\<lambda>_. ret ())"

fun report_lines :: "sv_env \<Rightarrow> render_job \<Rightarrow> int \<Rightarrow> report list list \<Rightarrow> service \<Rightarrow> service" where
  "report_lines en job total_us [] s = s"
| "report_lines en job total_us (l # ls) s =
     report_lines en job total_us ls
       (if en_rust en \<and> 0 < total_us then snd (report_line en job total_us l s) else s)"

definition on_exec :: "(exec_state, 'a) op \<Rightarrow> (service, 'a) op" where
  "on_exec m s = (case m (sv_exec s) of (r, ex) \<Rightarrow> (r, s\<lparr>sv_exec := ex\<rparr>))"

definition output_file_ok :: "string \<Rightarrow> service \<Rightarrow> bool" where
  "output_file_ok output_path s =
     (if output_path = [] then False
      else case map_of (ex_files (sv_exec s)) output_path of None \<Rightarrow> False | Some n \<Rightarrow> 0 < n)"

definition persist_evidence :: "sv_env \<Rightarrow> string \<Rightarrow> (service, unit) op" where
  "persist_evidence en job_id =
     bind_op (on_exec (\<lambda>ex. case ex_pop_evidence job_id ex of (ev, ex') \<Rightarrow> (Inr ev, ex'))) (\<lambda>ev.
       case ev of None \<Rightarrow> ret ()
       | Some e \<Rightarrow> catch_op (on_jobs (sql_update_evidence job_id (en_dumps en e))) (\<lambda>_. ret ()))"

definition finalize_success :: "sv_env \<Rightarrow> (nat \<Rightarrow> time) \<Rightarrow> render_job \<Rightarrow> (service, unit) op" where
  "finalize_success en clk job s =
     (if \<not> output_file_ok (rj_output_path job) s
      then handle_failure en clk job ''Output file missing or zero-byte after FFmpeg completion'' s
      else complete_job en clk job s)"

definition finalize_failure :: "sv_env \<Rightarrow> (nat \<Rightarrow> time) \<Rightarrow> render_job \<Rightarrow> (service, bool) op" where
  "finalize_failure en clk job =
     bind_op (on_jobs (sql_get (rj_id job))) (\<lambda>current.
       if (case current of Some c \<Rightarrow> rj_status c = R_CANCELLED | None \<Rightarrow> False) then ret True
       else seq_op (handle_failure en clk job ''FFmpeg process failed'') (ret False))"

text \<open>
  \<open>lines\<close> are the reports of the process and \<open>pend\<close> its end; \<open>during\<close> is what other tasks do
  to the service before the end.
\<close>

definition run_job ::
  "sv_env \<Rightarrow> (nat \<Rightarrow> time) \<Rightarrow> rat \<Rightarrow> report list list \<Rightarrow> proc_end \<Rightarrow> (service \<Rightarrow> service) \<Rightarrow>
   render_job \<Rightarrow> string list \<Rightarrow> (service, unit) op"
where
  "run_job en clk start ls pend during job command =
     bind_op (pure_op (extract_duration_us en (rj_render_plan job))) (\<lambda>total_us.
     bind_op (\<lambda>s.
         (let s1 = s\<lparr>sv_exec := ex_begin (rj_id job) start total_us pend (sv_exec s)\<rparr>
          in on_exec (ex_end (en_locked en) job command pend)
               (if pend = Proc_No_Start then s1 else during (report_lines en job total_us ls s1))))
       (\<lambda>success.
          seq_op (persist_evidence en (rj_id job))
            (if success then finalize_success en clk job
             else bind_op (finalize_failure en clk job) (\<lambda>_. ret ()))))"

subsection \<open>Cancelling and recovering\<close>

text \<open>
  \<open>mid\<close> is what other tasks do while \<open>executor.cancel\<close> waits for the process; a queued job is
  cancelled without that wait.
\<close>

definition cancel_done :: "sv_env \<Rightarrow> render_job \<Rightarrow> (service, bool) op" where
  "cancel_done en job =
     bind_op (read_op (\<lambda>s. rj_output_path job \<noteq> [] \<and> map_of (ex_files (sv_exec s)) (rj_output_path job) \<noteq> None))
       (\<lambda>partial.
          seq_op (on_jobs (sql_update_partial_signal (rj_id job) partial))
         (seq_op (broadcast_event RENDER_CANCELLED job (Some R_CANCELLED) None)
         (seq_op (broadcast_queue_status en)
         (seq_op (modify_op (clear_throttle_state (rj_id job))) (ret True)))))"

definition executor_cancel :: "sv_env \<Rightarrow> (service \<Rightarrow> service) \<Rightarrow> string \<Rightarrow> service \<Rightarrow> service" where
  "executor_cancel en mid job_id s =
     (let s' = mid s
      in if map_of (ex_active (sv_exec s)) job_id = None then s'
         else s'\<lparr>sv_exec := ex_forget (en_locked en) job_id (sv_exec s')\<rparr>)"

definition cancel_preempted :: "render_job \<Rightarrow> exn \<Rightarrow> (service, unit) op" where
  "cancel_preempted job e =
     (if e = ValueError then throw (CancelPreemptedError (rs_value (rj_status job))) else throw e)"

definition cancel_job ::
  "sv_env \<Rightarrow> (nat \<Rightarrow> time) \<Rightarrow> (service \<Rightarrow> service) \<Rightarrow> string \<Rightarrow> (service, bool) op" where
  "cancel_job en clk mid job_id =
     bind_op (on_jobs (sql_get job_id)) (\<lambda>found.
       case found of
         None \<Rightarrow> ret False
       | Some job \<Rightarrow>
           if rj_status job \<notin> {R_QUEUED, R_RUNNING} then ret False
           else if rj_status job = R_RUNNING then
             seq_op (modify_op (executor_cancel en mid job_id))
            (bind_op (on_jobs (sql_get job_id)) (\<lambda>again.
               let job' = (case again of Some j \<Rightarrow> j | None \<Rightarrow> job)
               in seq_op (catch_op (on_jobs (sql_update_status (clk 0) job_id R_CANCELLED None))
                           (cancel_preempted job'))
                         (cancel_done en job')))
           else
             seq_op (on_jobs (sql_update_status (clk 0) job_id R_CANCELLED None)) (cancel_done en job))"

definition sv_recover :: "(nat \<Rightarrow> time) \<Rightarrow> (service, (string \<times> nat) list) op" where
  "sv_recover clk =
     bind_op (on_jobs (rq_recover sql_repo clk)) (\<lambda>_.
       read_op (\<lambda>s. ck_recover (sv_jobs s) (sv_cks s)))"

end
