(* ===== verification/Service_Lemmas.thy ===== *)
theory Service_Lemmas
  imports Render_Service
begin

text \<open>
  How the operations of \<open>Render_Service\<close> run when nobody interferes: lifted repository calls,
  broadcasts, the failure and completion paths, QC, submission. The repository facts come from
  the interpretation \<open>sql\<close> of the contract.
\<close>

named_theorems sv_runs \<open>runs of service operations\<close>

abbreviation sv_ok :: "service \<Rightarrow> bool" where
  "sv_ok s \<equiv> sql_invar (sv_jobs s)"

abbreviation sv_map :: "service \<Rightarrow> string \<Rightarrow> render_job option" where
  "sv_map s \<equiv> sql_map (sv_jobs s)"

abbreviation sv_count :: "service \<Rightarrow> render_status \<Rightarrow> nat" where
  "sv_count s st \<equiv> count_jobs (sv_map s) (in_status st)"

subsection \<open>Lifted calls\<close>

lemma on_jobs_run: "m (sv_jobs s) = (r, J) \<Longrightarrow> on_jobs m s = (r, s\<lparr>sv_jobs := J\<rparr>)"
  by (simp add: on_jobs_def)

lemma on_jobs_same: "m (sv_jobs s) = (r, sv_jobs s) \<Longrightarrow> on_jobs m s = (r, s)"
  by (simp add: on_jobs_def)

lemma pure_op_run [simp]: "pure_op r s = (r, s)"
  by (simp add: pure_op_def)

lemma on_jobs_get [sv_runs]: "sv_ok s \<Longrightarrow> on_jobs (sql_get k) s = (Inr (sv_map s k), s)"
  using sql.get_law [of "sv_jobs s" k] by (simp add: on_jobs_same)

lemma on_jobs_update:
  assumes "sv_ok s" and "sv_map s k = Some j" and "render_step (rj_status j) st" and "em_ok st em"
  obtains J where "on_jobs (sql_update_status now k st em) s = (Inr (), s\<lparr>sv_jobs := J\<rparr>)"
    and "sql_invar J" and "sql_map J = (sv_map s)(k \<mapsto> set_status_spec now st em j)"
  using sql.update_status_law [OF assms, of now] by (auto simp: on_jobs_def)

lemma on_jobs_step:
  assumes "sv_ok s" and "sv_map s k = Some j" and "render_step (rj_status j) st" and "em_ok st em"
  shows "\<exists>J. on_jobs (sql_update_status now k st em) s = (Inr (), s\<lparr>sv_jobs := J\<rparr>) \<and>
    sql_invar J \<and> sql_map J = (sv_map s)(k \<mapsto> set_status_spec now st em j)"
  using on_jobs_update [OF assms, of now] by metis

lemma on_jobs_update_bad [sv_runs]:
  assumes "sv_ok s" and "\<forall>j. sv_map s k = Some j \<longrightarrow> \<not> render_step (rj_status j) st"
  shows "on_jobs (sql_update_status now k st em) s = (Inl ValueError, s)"
  using assms sql.update_status_missing [of "sv_jobs s" k now st em]
    sql.update_status_invalid [of "sv_jobs s" k _ st now em]
  by (cases "sv_map s k") (auto simp: on_jobs_same)

lemma update_status_ok:
  assumes "sv_ok s" and "em_ok st em"
  shows "sv_ok (snd (on_jobs (sql_update_status now k st em) s))"
proof (cases "\<exists>j. sv_map s k = Some j \<and> render_step (rj_status j) st")
  case True
  then obtain j where "sv_map s k = Some j" "render_step (rj_status j) st" by blast
  from on_jobs_update [OF assms(1) this assms(2), of now] show ?thesis
    by (metis snd_conv service.select_convs(1) service.surjective service.update_convs(1))
qed (use assms(1) in \<open>auto simp: sv_runs\<close>)

lemma emit_sel [simp]:
  "sv_jobs (emit et p s) = sv_jobs s" "sv_cks (emit et p s) = sv_cks s"
  "sv_exec (emit et p s) = sv_exec s" "sv_events (emit et p s) = sv_events s @ [(et, p)]"
  "sv_last_time (emit et p s) = sv_last_time s"
  "sv_last_progress (emit et p s) = sv_last_progress s" "sv_frames (emit et p s) = sv_frames s"
  "sv_shutting_down (emit et p s) = sv_shutting_down s"
  by (simp_all add: emit_def)

definition queue_status_payload :: "sv_env \<Rightarrow> service \<Rightarrow> payload" where
  "queue_status_payload en s =
     [(''active_count'', JInt (int (sv_count s R_RUNNING))),
      (''pending_count'', JInt (int (sv_count s R_QUEUED))),
      (''max_concurrent'', JInt (en_max_concurrent en)), (''max_queue_depth'', JInt (en_max_depth en))]"

lemma queue_status_run [sv_runs]:
  assumes "sv_ok s"
  shows "broadcast_queue_status en s = (Inr (), emit RENDER_QUEUE_STATUS (queue_status_payload en s) s)"
  using assms
  by (simp add: broadcast_queue_status_def bind_op_run on_jobs_same sql.active_count_run
      sql.queue_depth_run queue_status_payload_def)

lemma queue_depth_sv [sv_runs]:
  "sv_ok s \<Longrightarrow> on_jobs (rq_queue_depth sql_repo) s = (Inr (sv_count s R_QUEUED), s)"
  by (simp add: on_jobs_same sql.queue_depth_run)

lemma broadcast_event_run [simp]:
  "broadcast_event et job t out s = (Inr (), emit et (job_payload et job t out) s)"
  by (simp add: broadcast_event_def)

lemma cleanup_sel_sv [simp]:
  "sv_jobs (sv_cleanup en k s) = sv_jobs s" "sv_events (sv_cleanup en k s) = sv_events s"
  "sv_shutting_down (sv_cleanup en k s) = sv_shutting_down s"
  "sv_exec (sv_cleanup en k s) = ex_cleanup_temp_files (en_locked en) k (sv_exec s)"
  "sv_cks (sv_cleanup en k s) = filter (\<lambda>c. ck_job_id c \<noteq> k) (sv_cks s)"
  by (simp_all add: sv_cleanup_def ck_cleanup_stale_def)

lemma clear_sel [simp]:
  "sv_jobs (clear_throttle_state k s) = sv_jobs s" "sv_events (clear_throttle_state k s) = sv_events s"
  "sv_cks (clear_throttle_state k s) = sv_cks s" "sv_exec (clear_throttle_state k s) = sv_exec s"
  "sv_shutting_down (clear_throttle_state k s) = sv_shutting_down s"
  by (simp_all add: clear_throttle_state_def)

text \<open>What the service still holds about a job after it is over.\<close>

definition sv_forgot :: "string \<Rightarrow> service \<Rightarrow> bool" where
  "sv_forgot k s \<longleftrightarrow> (\<forall>et. (k, et) \<notin> set (map fst (sv_last_time s))) \<and>
     map_of (sv_last_progress s) k = None \<and> get_frame_bytes k s = None"

lemma sv_forgot_clear: "sv_forgot k (clear_throttle_state k s)"
  by (auto simp: sv_forgot_def clear_throttle_state_def get_frame_bytes_def dict_simps)

lemma sv_forgot_update [simp]:
  "sv_forgot k (s\<lparr>sv_jobs := J\<rparr>) = sv_forgot k s" "sv_forgot k (sv_cleanup en k s) = sv_forgot k s"
  by (simp_all add: sv_forgot_def get_frame_bytes_def sv_cleanup_def)

subsection \<open>Failure\<close>

lemma handle_failure_gone [sv_runs]:
  "sv_ok s \<Longrightarrow> sv_map s (rj_id job) = None \<Longrightarrow> handle_failure en clk job msg s = (Inr (), s)"
  by (simp add: handle_failure_def bind_op_run sv_runs)

lemma handle_failure_not_running:
  assumes "sv_ok s" and "sv_map s (rj_id job) = Some cur" and "rj_status cur \<noteq> R_RUNNING"
  shows "handle_failure en clk job msg s = (Inl ValueError, s)"
proof -
  have "\<not> render_step (rj_status cur) R_FAILED" using assms(3) by (auto elim: render_stepE)
  with assms show ?thesis
    by (simp add: handle_failure_def bind_op_run sv_runs seq_op_run)
qed

lemma handle_failure_retry:
  assumes ok: "sv_ok s" and cur: "sv_map s (rj_id job) = Some cur" "rj_status cur = R_RUNNING"
    and left: "rj_retry_count cur < en_max_retries en"
  shows "\<exists>J. handle_failure en clk job msg s = (Inr (), s\<lparr>sv_jobs := J\<rparr>) \<and> sql_invar J \<and>
    sql_map J = (sv_map s)(rj_id job \<mapsto>
      set_status_spec (clk 1) R_QUEUED None (set_status_spec (clk 0) R_FAILED (Some msg) cur))"
proof -
  obtain J where J: "on_jobs (sql_update_status (clk 0) (rj_id job) R_FAILED (Some msg)) s =
      (Inr (), s\<lparr>sv_jobs := J\<rparr>)" "sql_invar J"
      "sql_map J = (sv_map s)(rj_id job \<mapsto> set_status_spec (clk 0) R_FAILED (Some msg) cur)"
    using on_jobs_update [OF ok cur(1), of R_FAILED "Some msg"] cur(2) by (auto simp: em_ok_def)
  obtain J' where "on_jobs (sql_update_status (clk 1) (rj_id job) R_QUEUED None) (s\<lparr>sv_jobs := J\<rparr>) =
      (Inr (), s\<lparr>sv_jobs := J\<rparr>\<lparr>sv_jobs := J'\<rparr>)" "sql_invar J'"
      "sql_map J' = (sql_map J)(rj_id job \<mapsto>
         set_status_spec (clk 1) R_QUEUED None (set_status_spec (clk 0) R_FAILED (Some msg) cur))"
    by (rule on_jobs_update [where s = "s\<lparr>sv_jobs := J\<rparr>" and k = "rj_id job" and st = R_QUEUED
          and j = "set_status_spec (clk 0) R_FAILED (Some msg) cur" and em = None and now = "clk 1"])
      (use J(2,3) in \<open>simp_all add: em_ok_def\<close>)
  with J ok cur left show ?thesis
    by (auto simp: handle_failure_def bind_op_run sv_runs seq_op_run)
qed

lemma handle_failure_final:
  assumes ok: "sv_ok s" and cur: "sv_map s (rj_id job) = Some cur" "rj_status cur = R_RUNNING"
    and none: "\<not> rj_retry_count cur < en_max_retries en"
  shows "\<exists>s'. handle_failure en clk job msg s = (Inr (), s') \<and> sv_ok s' \<and>
    sv_map s' = (sv_map s)(rj_id job \<mapsto> set_status_spec (clk 0) R_FAILED (Some msg) cur) \<and>
    map fst (sv_events s') = map fst (sv_events s) @ [RENDER_FAILED, RENDER_QUEUE_STATUS] \<and>
    sv_cks s' = filter (\<lambda>c. ck_job_id c \<noteq> rj_id job) (sv_cks s) \<and>
    map_of (ex_temp_files (sv_exec s')) (rj_id job) = None \<and> sv_forgot (rj_id job) s'"
proof -
  obtain J where J: "on_jobs (sql_update_status (clk 0) (rj_id job) R_FAILED (Some msg)) s =
      (Inr (), s\<lparr>sv_jobs := J\<rparr>)" "sql_invar J"
      "sql_map J = (sv_map s)(rj_id job \<mapsto> set_status_spec (clk 0) R_FAILED (Some msg) cur)"
    using on_jobs_update [OF ok cur(1), of R_FAILED "Some msg"] cur(2) by (auto simp: em_ok_def)
  with ok cur none show ?thesis
    by (simp add: handle_failure_def bind_op_run sv_runs seq_op_run dict_simps sv_forgot_clear)
qed

subsection \<open>QC and completion\<close>

text \<open>The outcome of QC as a function: the message of a failed check, if QC ran and failed.\<close>

definition qc_failure :: "sv_env \<Rightarrow> render_job \<Rightarrow> string option" where
  "qc_failure en job =
     (case (en_qc en, plan_profile_id en (rj_render_plan job)) of
        (Some run_checks, Some pid) \<Rightarrow>
          (case run_checks (rj_output_path job) (rj_id job) pid (load_delivery_profile_assertions en pid) of
             Inr (verdict, checks) \<Rightarrow>
               (if verdict = ''pass'' then None
                else case sum_bind (json_loads (en_loads en) checks) (\<lambda>v. sum_bind (json_items v) failed_ids) of
                       Inr ids \<Rightarrow> Some (qc_error_message ids)
                     | Inl _ \<Rightarrow> None)
           | Inl _ \<Rightarrow> None)
      | _ \<Rightarrow> None)"

lemma run_completion_qc_run:
  "run_completion_qc en now job =
     (case qc_failure en job of None \<Rightarrow> ret ()
      | Some msg \<Rightarrow> catch_op (on_jobs (sql_update_status now (rj_id job) R_QC_FAILED (Some msg))) (\<lambda>_. ret ()))"
  by (rule ext)
    (simp add: run_completion_qc_def qc_failure_def catch_op_run bind_op_run
      split: option.splits sum.splits prod.splits)

lemma completion_qc:
  assumes ok: "sv_ok s" and cur: "sv_map s (rj_id job) = Some cur" "rj_status cur = R_COMPLETED"
  shows "\<exists>J. run_completion_qc en now job s = (Inr (), s\<lparr>sv_jobs := J\<rparr>) \<and> sql_invar J \<and>
    sql_map J = (sv_map s)(rj_id job \<mapsto>
      (case qc_failure en job of None \<Rightarrow> cur | Some msg \<Rightarrow> set_status_spec now R_QC_FAILED (Some msg) cur))"
proof (cases "qc_failure en job")
  case None
  then show ?thesis using ok cur
    by (intro exI [of _ "sv_jobs s"]) (simp add: run_completion_qc_run fun_upd_idem)
next
  case (Some msg)
  obtain J where "on_jobs (sql_update_status now (rj_id job) R_QC_FAILED (Some msg)) s =
      (Inr (), s\<lparr>sv_jobs := J\<rparr>)" "sql_invar J"
      "sql_map J = (sv_map s)(rj_id job \<mapsto> set_status_spec now R_QC_FAILED (Some msg) cur)"
    using on_jobs_update [OF ok cur(1), of R_QC_FAILED "Some msg"] cur(2) by (auto simp: em_ok_def)
  with Some show ?thesis by (auto simp: run_completion_qc_run)
qed

definition completed_as :: "sv_env \<Rightarrow> (nat \<Rightarrow> time) \<Rightarrow> render_job \<Rightarrow> render_job \<Rightarrow> render_job" where
  "completed_as en clk job cur =
     (let done = set_status_spec (clk 0) R_COMPLETED None cur
      in case qc_failure en job of None \<Rightarrow> done
         | Some msg \<Rightarrow> set_status_spec (clk 1) R_QC_FAILED (Some msg) done)"

lemma completed_as_status:
  "rj_status (completed_as en clk job cur) = (if qc_failure en job = None then R_COMPLETED else R_QC_FAILED)"
  "rj_id (completed_as en clk job cur) = rj_id cur"
  by (auto simp: completed_as_def Let_def split: option.splits)

lemma complete_job_run:
  assumes ok: "sv_ok s" and cur: "sv_map s (rj_id job) = Some cur" "rj_status cur = R_RUNNING"
  shows "\<exists>s'. complete_job en clk job s = (Inr (), s') \<and> sv_ok s' \<and>
    sv_map s' = (sv_map s)(rj_id job \<mapsto> completed_as en clk job cur) \<and>
    map fst (sv_events s') = map fst (sv_events s) @ [RENDER_COMPLETED, RENDER_QUEUE_STATUS] \<and>
    sv_cks s' = filter (\<lambda>c. ck_job_id c \<noteq> rj_id job) (sv_cks s) \<and>
    map_of (ex_temp_files (sv_exec s')) (rj_id job) = None \<and> sv_forgot (rj_id job) s'"
proof -
  let ?done = "set_status_spec (clk 0) R_COMPLETED None cur"
  obtain J where J: "on_jobs (sql_update_status (clk 0) (rj_id job) R_COMPLETED None) s =
      (Inr (), s\<lparr>sv_jobs := J\<rparr>)" "sql_invar J" "sql_map J = (sv_map s)(rj_id job \<mapsto> ?done)"
    using on_jobs_update [OF ok cur(1), of R_COMPLETED None] cur(2) by (auto simp: em_ok_def)
  let ?s1 = "emit RENDER_COMPLETED (job_payload RENDER_COMPLETED job (Some R_COMPLETED) (Some (rj_output_path job)))
    (s\<lparr>sv_jobs := J\<rparr>)"
  let ?s2 = "clear_throttle_state (rj_id job) (emit RENDER_QUEUE_STATUS (queue_status_payload en ?s1) ?s1)"
  obtain J' where J': "run_completion_qc en (clk 1) job ?s2 = (Inr (), ?s2\<lparr>sv_jobs := J'\<rparr>)" "sql_invar J'"
      "sql_map J' = (sql_map J)(rj_id job \<mapsto> completed_as en clk job cur)"
    using completion_qc [of ?s2 job ?done en "clk 1"] J(2,3)
    by (auto simp: completed_as_def Let_def)
  have "complete_job en clk job s = (Inr (), sv_cleanup en (rj_id job) (?s2\<lparr>sv_jobs := J'\<rparr>))"
    using J(1,2) J'(1) by (simp add: complete_job_def seq_op_run sv_runs)
  with J'(2,3) J(3) show ?thesis by (simp add: dict_simps sv_forgot_clear)
qed

end
