(* ===== verification/Service_Outcomes.thy ===== *)
theory Service_Outcomes
  imports Service_Lemmas
begin

text \<open>
  The properties of the render service: what a failure leads to and how often a job is tried,
  what submission stores or refuses, what cancelling does against a job that finishes
  meanwhile, and what recovery returns.
\<close>

text \<open>An environment for the witnesses: two retries, QC present but no profile in the plans.\<close>

definition demo_env :: sv_env where
  "demo_env = \<lparr>en_loads = (\<lambda>_. Some (JObj [(''total_duration'', JInt 2)])), en_rust = True,
     en_check_settings = (\<lambda>_. None), en_estimate_eta = (\<lambda>_ _. None), en_dumps = (\<lambda>_. ''{}''),
     en_estimate_size = (\<lambda>_ _ _. Inr 10), en_dir_free = (\<lambda>_. Inr (Some 100)),
     en_noop = False, en_which_ffmpeg = True, en_max_retries = 2, en_max_depth = 3,
     en_max_concurrent = 4, en_locked = (\<lambda>_. False), en_qc = None, en_profiles = None\<rparr>"

definition demo_sv :: service where
  "demo_sv = sv_init demo_rows demo_cks demo_exec"

definition running_sv :: service where
  "running_sv = sv_init running_rows demo_cks demo_exec"

lemma demo_sv_facts:
  "sv_ok demo_sv" "sv_map demo_sv = Map.empty(''a'' \<mapsto> demo_job ''a'' 1)"
  "sv_ok running_sv"
  "sv_map running_sv = Map.empty(''a'' \<mapsto> set_status_spec 5 R_RUNNING None (demo_job ''a'' 1))"
  by (simp_all add: demo_sv_def running_sv_def sv_init_def demo_rows_facts)

subsection \<open>Failure and retries\<close>

text \<open>
  C5. A failed attempt of a running job never raises. With retries left the job goes back to
  the queue with one more retry, its progress and error cleared, and no event is sent; without,
  it ends failed with the message, the failure and the queue status are broadcast, and its
  checkpoints, temporary files, throttle clocks and frame are gone. No other job changes.
\<close>

theorem failure_outcome:
  assumes "sv_ok s" and "sv_map s (rj_id job) = Some cur" and "rj_status cur = R_RUNNING"
  shows "\<exists>s' j'. handle_failure en clk job msg s = (Inr (), s') \<and> sv_ok s' \<and>
    sv_map s' = (sv_map s)(rj_id job \<mapsto> j') \<and>
    (if rj_retry_count cur < en_max_retries en then
       rj_status j' = R_QUEUED \<and> rj_retry_count j' = rj_retry_count cur + 1 \<and> rj_progress j' = 0 \<and>
       rj_error_message j' = None \<and> sv_events s' = sv_events s
     else
       rj_status j' = R_FAILED \<and> rj_error_message j' = Some msg \<and>
       rj_retry_count j' = rj_retry_count cur \<and>
       map fst (sv_events s') = map fst (sv_events s) @ [RENDER_FAILED, RENDER_QUEUE_STATUS] \<and>
       ck_completed_segments (rj_id job) (sv_cks s') = [] \<and>
       map_of (ex_temp_files (sv_exec s')) (rj_id job) = None \<and> sv_forgot (rj_id job) s')"
proof (cases "rj_retry_count cur < en_max_retries en")
  case True
  then show ?thesis using handle_failure_retry [OF assms True, of clk msg]
    by (fastforce simp: set_status_spec_def)
next
  case False
  have none: "ck_completed_segments k (filter (\<lambda>c. ck_job_id c \<noteq> k) cks) = []" for k cks
    using ck_completed_set [of k "filter (\<lambda>c. ck_job_id c \<noteq> k) cks"] by simp
  show ?thesis using handle_failure_final [OF assms False, of clk msg] False
    by (fastforce simp: set_status_spec_def none)
qed

theorem failure_outcome_witness:
  "\<exists>s' j'. handle_failure demo_env (\<lambda>_. 9) (demo_job ''a'' 1) ''boom'' running_sv = (Inr (), s') \<and>
     sv_map s' ''a'' = Some j' \<and> rj_status j' = R_QUEUED \<and> rj_retry_count j' = 1"
proof -
  have "sv_map running_sv (rj_id (demo_job ''a'' 1)) = Some (set_status_spec 5 R_RUNNING None (demo_job ''a'' 1))"
    by (simp add: demo_sv_facts)
  moreover have "rj_retry_count (set_status_spec 5 R_RUNNING None (demo_job ''a'' 1)) = 0"
    by code_simp
  ultimately show ?thesis
    using failure_outcome [OF demo_sv_facts(3), of "demo_job ''a'' 1" _ demo_env "\<lambda>_. 9" "''boom''"]
    by (fastforce simp: demo_env_def)
qed

text \<open>One attempt: the queue hands the job out, and it fails.\<close>

definition attempt :: "sv_env \<Rightarrow> (nat \<Rightarrow> time) \<Rightarrow> time \<Rightarrow> string \<Rightarrow> render_job \<Rightarrow> service \<Rightarrow> service" where
  "attempt en clk t msg job s =
     snd (seq_op (on_jobs (sql_update_status t (rj_id job) R_RUNNING None))
            (handle_failure en clk job msg) s)"

lemma attempt_queued:
  assumes ok: "sv_ok s" and cur: "sv_map s (rj_id job) = Some cur" "rj_status cur = R_QUEUED"
  shows "\<exists>j'. sv_ok (attempt en clk t msg job s) \<and>
    sv_map (attempt en clk t msg job s) = (sv_map s)(rj_id job \<mapsto> j') \<and>
    (if rj_retry_count cur < en_max_retries en
     then rj_status j' = R_QUEUED \<and> rj_retry_count j' = rj_retry_count cur + 1
     else rj_status j' = R_FAILED)"
proof -
  let ?run = "set_status_spec t R_RUNNING None cur"
  obtain J where J: "on_jobs (sql_update_status t (rj_id job) R_RUNNING None) s = (Inr (), s\<lparr>sv_jobs := J\<rparr>)"
      "sql_invar J" "sql_map J = (sv_map s)(rj_id job \<mapsto> ?run)"
    using on_jobs_update [OF ok cur(1), of R_RUNNING None] cur(2) by (auto simp: em_ok_def)
  have run: "sv_ok (s\<lparr>sv_jobs := J\<rparr>)" "sv_map (s\<lparr>sv_jobs := J\<rparr>) (rj_id job) = Some ?run"
    "rj_status ?run = R_RUNNING" "rj_retry_count ?run = rj_retry_count cur"
    using J(2,3) by (simp_all add: set_status_spec_def)
  show ?thesis
  proof (cases "rj_retry_count ?run < en_max_retries en")
    case True
    with handle_failure_retry [OF run(1-3) True, of clk msg] J(1,3) run(4) show ?thesis
      by (fastforce simp: attempt_def set_status_spec_def)
  next
    case False
    with handle_failure_final [OF run(1-3) False, of clk msg] J(1,3) run(4) show ?thesis
      by (fastforce simp: attempt_def)
  qed
qed

lemma attempt_failed:
  "sv_ok s \<Longrightarrow> sv_map s (rj_id job) = Some cur \<Longrightarrow> rj_status cur = R_FAILED \<Longrightarrow>
     attempt en clk t msg job s = s"
  by (simp add: attempt_def seq_op_run sv_runs)

text \<open>
  A job is tried at most one time more than the configured number of retries: through the
  first \<open>n \<le> max_retries\<close> failed attempts it returns to the queue having counted each, and any
  larger number of attempts leaves it failed for good.
\<close>

theorem attempts_bounded:
  assumes "sv_ok s" and "sv_map s (rj_id job) = Some cur" and "rj_status cur = R_QUEUED"
    and "rj_retry_count cur = 0" and "0 \<le> en_max_retries en"
  shows "\<exists>j. sv_ok ((attempt en clk t msg job ^^ n) s) \<and>
    sv_map ((attempt en clk t msg job ^^ n) s) (rj_id job) = Some j \<and>
    (if int n \<le> en_max_retries en then rj_status j = R_QUEUED \<and> rj_retry_count j = int n
     else rj_status j = R_FAILED)"
proof (induction n)
  case 0
  then show ?case using assms by simp
next
  case (Suc n)
  let ?s = "(attempt en clk t msg job ^^ n) s"
  from Suc obtain j where j: "sv_ok ?s" "sv_map ?s (rj_id job) = Some j"
      "if int n \<le> en_max_retries en then rj_status j = R_QUEUED \<and> rj_retry_count j = int n
       else rj_status j = R_FAILED"
    by blast
  show ?case
  proof (cases "int n \<le> en_max_retries en")
    case True
    with attempt_queued [OF j(1,2), of en clk t msg] j(3) show ?thesis
      by (fastforce split: if_splits)
  next
    case False
    with j have "attempt en clk t msg job ?s = ?s" by (auto intro: attempt_failed)
    with j False show ?thesis by auto
  qed
qed

theorem attempts_bounded_witness:
  "\<exists>j. sv_map ((attempt demo_env (\<lambda>_. 9) 8 ''boom'' (demo_job ''a'' 1) ^^ 3) demo_sv) ''a'' = Some j \<and>
     rj_status j = R_FAILED"
proof -
  have "sv_map demo_sv (rj_id (demo_job ''a'' 1)) = Some (demo_job ''a'' 1)"
    by (simp add: demo_sv_facts)
  moreover have "rj_retry_count (demo_job ''a'' 1) = 0" by code_simp
  ultimately show ?thesis
    using attempts_bounded [OF demo_sv_facts(1), where job = "demo_job ''a'' 1" and en = demo_env
        and clk = "\<lambda>_. 9" and t = 8 and msg = "''boom''" and n = 3] by (auto simp: demo_env_def)
qed

subsection \<open>Recovery\<close>

lemma no_running_rows:
  assumes "sql_invar J" and "count_jobs (sql_map J) (in_status R_RUNNING) = 0" and "r \<in> set J"
  shows "rw_status r \<noteq> ''running''"
proof
  assume run: "rw_status r = ''running''"
  note row = sql_row [OF assms(1,3)]
  have "rs_value (rj_status (row_job r)) = rs_value R_RUNNING" using row(4) run by simp
  then have st: "rj_status (row_job r) = R_RUNNING" by (simp only: rs_value_eq)
  have "sql_map J (rj_id (row_job r)) = Some (row_job r)"
    using sql_jobs_mem [OF assms(1)] assms(3) by blast
  then have "0 < count_jobs (sql_map J) (in_status R_RUNNING)"
    using count_jobs_pos [OF sql.jobs_finite [OF assms(1)]] st by blast
  with assms(2) show False by simp
qed

text \<open>
  The recovery of the service never finds a job to resume: it first fails every running job
  and only then scans for running jobs, so its list of resume points is always empty, whatever
  checkpoints there are.
\<close>

theorem service_recover_empty:
  assumes "sv_ok s"
  shows "\<exists>s'. sv_recover clk s = (Inr [], s') \<and> sv_ok s' \<and> sv_count s' R_RUNNING = 0 \<and>
    sv_cks s' = sv_cks s"
proof -
  obtain js J where J: "rq_recover sql_repo clk (sv_jobs s) = (Inr js, J)"
    using sql.recover_run [OF assms, of clk] by blast
  then have "sql_invar J" "count_jobs (sql_map J) (in_status R_RUNNING) = 0"
    using sql.recover_no_running [OF assms J] by simp_all
  moreover from this have "ck_recover J cks = []" for cks
    using no_running_rows by (force simp: ck_recover_def tbl_select_def filter_empty_conv)
  ultimately show ?thesis
    using J by (simp add: sv_recover_def bind_op_run on_jobs_run)
qed

theorem service_recover_empty_witness:
  "\<exists>s'. sv_recover (\<lambda>_. 9) running_sv = (Inr [], s') \<and>
     ck_recover (sv_jobs running_sv) (sv_cks running_sv) = [(''a'', 1)]"
proof -
  have "ck_recover (sv_jobs running_sv) (sv_cks running_sv) = [(''a'', 1)]" by code_simp
  with service_recover_empty [OF demo_sv_facts(3), of "\<lambda>_. 9"] show ?thesis by blast
qed

subsection \<open>Cancelling\<close>

lemma exec_update_sel [simp]:
  "sv_jobs (executor_cancel en mid k s) = sv_jobs (mid s)"
  "sv_events (executor_cancel en mid k s) = sv_events (mid s)"
  by (simp_all add: executor_cancel_def Let_def)

lemma cancel_done_run:
  assumes ok: "sv_ok s" and c: "sv_map s (rj_id job) = Some c"
  shows "\<exists>s' b. cancel_done en job s = (Inr True, s') \<and> sv_ok s' \<and>
    sv_map s' = (sv_map s)(rj_id job \<mapsto> c\<lparr>rj_partial_file_detected := b\<rparr>) \<and>
    map fst (sv_events s') = map fst (sv_events s) @ [RENDER_CANCELLED, RENDER_QUEUE_STATUS] \<and>
    sv_forgot (rj_id job) s'"
proof -
  let ?b = "rj_output_path job \<noteq> [] \<and> map_of (ex_files (sv_exec s)) (rj_output_path job) \<noteq> None"
  obtain J where J: "sql_update_partial_signal (rj_id job) ?b (sv_jobs s) = (Inr (), J)" "sql_invar J"
      "sql_map J = (sv_map s)(rj_id job \<mapsto> c\<lparr>rj_partial_file_detected := ?b\<rparr>)"
    using sql.update_partial_law [OF ok c, of ?b] by auto
  have "on_jobs (sql_update_partial_signal (rj_id job) ?b) s = (Inr (), s\<lparr>sv_jobs := J\<rparr>)"
    by (rule on_jobs_run [of "sql_update_partial_signal (rj_id job) ?b", OF J(1)])
  then have "cancel_done en job s = (Inr True, clear_throttle_state (rj_id job)
      (let s1 = emit RENDER_CANCELLED (job_payload RENDER_CANCELLED job (Some R_CANCELLED) None) (s\<lparr>sv_jobs := J\<rparr>)
       in emit RENDER_QUEUE_STATUS (queue_status_payload en s1) s1))"
    using J(2) by (simp add: cancel_done_def seq_op_run bind_op_run sv_runs Let_def)
  with J(2,3) show ?thesis by (auto simp: Let_def sv_forgot_clear)
qed

lemma cancel_update_run:
  assumes ok: "sv_ok s" and c: "sv_map s k = Some c" and st: "rj_status c \<in> {R_QUEUED, R_RUNNING}"
    and id: "rj_id job = k"
  shows "\<exists>s' b. seq_op (on_jobs (sql_update_status now k R_CANCELLED None)) (cancel_done en job) s = (Inr True, s') \<and>
    sv_ok s' \<and> sv_map s' = (sv_map s)(k \<mapsto>
      (set_status_spec now R_CANCELLED None c)\<lparr>rj_partial_file_detected := b\<rparr>) \<and>
    map fst (sv_events s') = map fst (sv_events s) @ [RENDER_CANCELLED, RENDER_QUEUE_STATUS] \<and>
    sv_forgot k s'"
proof -
  have "render_step (rj_status c) R_CANCELLED" using st by auto
  then obtain J where J: "on_jobs (sql_update_status now k R_CANCELLED None) s = (Inr (), s\<lparr>sv_jobs := J\<rparr>)"
      "sql_invar J" "sql_map J = (sv_map s)(k \<mapsto> set_status_spec now R_CANCELLED None c)"
    using on_jobs_update [OF ok c, of R_CANCELLED None now] by (auto simp: em_ok_def)
  with cancel_done_run [of "s\<lparr>sv_jobs := J\<rparr>" job _ en] id show ?thesis by fastforce
qed

text \<open>
  C4. Cancelling against a job that goes on meanwhile. An unknown or finished job: \<open>False\<close>, and
  nothing changes. A queued job is cancelled. A running job is cancelled if, once the process has
  been dealt with, it still waits or runs; if it reached a terminal status or was deleted,
  \<open>CancelPreemptedError\<close> is raised, its record stays as the other task left it, and no
  cancellation is broadcast. No other job is touched, and a terminal status is never overwritten.
\<close>

theorem cancel_outcome:
  assumes ok: "sv_ok s" and mid: "\<And>s. sv_ok s \<Longrightarrow> sv_ok (mid s)"
  shows "let s1 = (if \<exists>j. sv_map s k = Some j \<and> rj_status j = R_RUNNING then executor_cancel en mid k s else s)
    in if \<not> (\<exists>j. sv_map s k = Some j \<and> rj_status j \<in> {R_QUEUED, R_RUNNING}) then
         cancel_job en clk mid k s = (Inr False, s)
       else if \<exists>c. sv_map s1 k = Some c \<and> rj_status c \<in> {R_QUEUED, R_RUNNING} then
         \<exists>s' j'. cancel_job en clk mid k s = (Inr True, s') \<and> sv_ok s' \<and>
           sv_map s' = (sv_map s1)(k \<mapsto> j') \<and> rj_status j' = R_CANCELLED \<and>
           map fst (sv_events s') = map fst (sv_events s1) @ [RENDER_CANCELLED, RENDER_QUEUE_STATUS] \<and>
           sv_forgot k s'
       else
         \<exists>v. cancel_job en clk mid k s = (Inl (CancelPreemptedError v), s1) \<and>
           (\<forall>c. sv_map s1 k = Some c \<longrightarrow> v = rs_value (rj_status c))"
proof (cases "sv_map s k")
  case None
  then show ?thesis by (simp add: cancel_job_def bind_op_run sv_runs ok)
next
  case (Some j)
  have id: "rj_id j = k" by (rule sql.jobs_id [OF ok Some])
  show ?thesis
  proof (cases "rj_status j = R_RUNNING")
    case queued: False
    then show ?thesis
      using Some cancel_update_run [OF ok Some _ id, of "clk 0" en]
      by (cases "rj_status j = R_QUEUED") (fastforce simp: cancel_job_def bind_op_run sv_runs ok)+
  next
    case running: True
    let ?s1 = "executor_cancel en mid k s"
    have r: "\<exists>j. sv_map s k = Some j \<and> rj_status j = R_RUNNING"
      and rq: "\<exists>j. sv_map s k = Some j \<and> rj_status j \<in> {R_QUEUED, R_RUNNING}"
      using Some running by simp_all
    have ok1: "sv_ok ?s1" by (simp add: mid ok)
    let ?j1 = "case sv_map ?s1 k of Some i \<Rightarrow> i | None \<Rightarrow> j"
    have id1: "rj_id ?j1 = k" using id sql.jobs_id [OF ok1] by (auto split: option.splits)
    have run: "cancel_job en clk mid k s =
        seq_op (catch_op (on_jobs (sql_update_status (clk 0) k R_CANCELLED None))
(cancel_preempted ?j1)) (cancel_done en ?j1) ?s1"
      using Some running ok1 by (simp add: cancel_job_def bind_op_run seq_op_run sv_runs ok Let_def)
    show ?thesis
    proof (cases "\<exists>c. sv_map ?s1 k = Some c \<and> rj_status c \<in> {R_QUEUED, R_RUNNING}")
      case True
      then obtain c where c: "sv_map ?s1 k = Some c" "rj_status c \<in> {R_QUEUED, R_RUNNING}" by blast
      then have step: "render_step (rj_status c) R_CANCELLED" by auto
      obtain J where "on_jobs (sql_update_status (clk 0) k R_CANCELLED None) ?s1 =
          (Inr (), ?s1\<lparr>sv_jobs := J\<rparr>)"
        using on_jobs_step [OF ok1 c(1) step, of None "clk 0"] by (auto simp: em_ok_def)
      then have "cancel_job en clk mid k s =
          seq_op (on_jobs (sql_update_status (clk 0) k R_CANCELLED None)) (cancel_done en ?j1) ?s1"
        using run by (simp add: seq_op_run catch_op_run)
      moreover obtain s' b where "seq_op (on_jobs (sql_update_status (clk 0) k R_CANCELLED None))
          (cancel_done en ?j1) ?s1 = (Inr True, s')" "sv_ok s'" "sv_map s' = (sv_map ?s1)(k \<mapsto>
            (set_status_spec (clk 0) R_CANCELLED None c)\<lparr>rj_partial_file_detected := b\<rparr>)"
          "map fst (sv_events s') = map fst (sv_events ?s1) @ [RENDER_CANCELLED, RENDER_QUEUE_STATUS]"
          "sv_forgot k s'"
        using cancel_update_run [OF ok1 c id1, of "clk 0" en] by blast
      ultimately have "\<exists>s' j'. cancel_job en clk mid k s = (Inr True, s') \<and> sv_ok s' \<and>
           sv_map s' = (sv_map ?s1)(k \<mapsto> j') \<and> rj_status j' = R_CANCELLED \<and>
           map fst (sv_events s') = map fst (sv_events ?s1) @ [RENDER_CANCELLED, RENDER_QUEUE_STATUS] \<and>
           sv_forgot k s'"
        by (intro exI conjI) (assumption | simp)+
      then show ?thesis
        unfolding Let_def if_P [OF r] by (simp only: rq True not_True_eq_False if_False if_True)
    next
      case False
      then have "\<forall>c. sv_map ?s1 k = Some c \<longrightarrow> \<not> render_step (rj_status c) R_CANCELLED"
        by (auto elim: render_stepE)
      then have "on_jobs (sql_update_status (clk 0) k R_CANCELLED None) ?s1 = (Inl ValueError, ?s1)"
        by (rule on_jobs_update_bad [OF ok1])
      then have "cancel_job en clk mid k s = (Inl (CancelPreemptedError (rs_value (rj_status ?j1))), ?s1)"
        using run by (simp add: seq_op_run catch_op_run cancel_preempted_def)
      then have "\<exists>v. cancel_job en clk mid k s = (Inl (CancelPreemptedError v), ?s1) \<and>
           (\<forall>c. sv_map ?s1 k = Some c \<longrightarrow> v = rs_value (rj_status c))"
        by fastforce
      then show ?thesis
        unfolding Let_def if_P [OF r] by (simp only: rq False not_True_eq_False if_False)
    qed
  qed
qed

text \<open>The worker completes the job while the cancellation waits.\<close>

theorem cancel_outcome_witness:
  "\<exists>v s'. cancel_job demo_env (\<lambda>_. 9)
     (\<lambda>s. snd (on_jobs (sql_update_status 8 ''a'' R_COMPLETED None) s)) ''a'' running_sv
   = (Inl (CancelPreemptedError v), s')"
proof -
  let ?mid = "\<lambda>s. snd (on_jobs (sql_update_status 8 ''a'' R_COMPLETED None) s)"
  have mid: "sv_ok (?mid s)" if "sv_ok s" for s
    by (rule update_status_ok [OF that]) (simp add: em_ok_def)
  obtain c where c: "sv_map (?mid running_sv) ''a'' = Some c" "rj_status c = R_COMPLETED"
  proof -
    let ?j = "set_status_spec 5 R_RUNNING None (demo_job ''a'' 1)"
    have "sv_map running_sv ''a'' = Some ?j" by (simp add: demo_sv_facts)
    then obtain J where "on_jobs (sql_update_status 8 ''a'' R_COMPLETED None) running_sv =
        (Inr (), running_sv\<lparr>sv_jobs := J\<rparr>)" and
      "sql_map J = (sv_map running_sv)(''a'' \<mapsto> set_status_spec 8 R_COMPLETED None ?j)"
      using on_jobs_step [OF demo_sv_facts(3), of "''a''" ?j R_COMPLETED None 8] by (auto simp: em_ok_def)
    then show thesis by (intro that [of "set_status_spec 8 R_COMPLETED None ?j"]) simp_all
  qed
  have run: "\<exists>j. sv_map running_sv ''a'' = Some j \<and> rj_status j = R_RUNNING"
      "\<exists>j. sv_map running_sv ''a'' = Some j \<and> rj_status j \<in> {R_QUEUED, R_RUNNING}"
    by (simp_all add: demo_sv_facts)
  have over: "\<not> (\<exists>d. sv_map (executor_cancel demo_env ?mid ''a'' running_sv) ''a'' = Some d \<and>
      rj_status d \<in> {R_QUEUED, R_RUNNING})"
    using c by simp
  have "\<exists>v. cancel_job demo_env (\<lambda>_. 9) ?mid ''a'' running_sv =
      (Inl (CancelPreemptedError v), executor_cancel demo_env ?mid ''a'' running_sv)"
    using cancel_outcome [where k = "''a''" and en = demo_env and clk = "\<lambda>_. 9" and mid = ?mid,
      OF demo_sv_facts(3) mid]
    unfolding Let_def if_P [OF run(1)] if_not_P [OF over] by (simp only: run(2) not_True_eq_False if_False) blast
  then show ?thesis by blast
qed

end
