(* ===== verification/Render_Worker.thy ===== *)
theory Render_Worker
  imports Service_Outcomes
begin

text \<open>
  The worker loop of \<open>src/stoat_ferret/render/worker.py\<close>: one round takes a job off the queue,
  runs it through the service, and hands any exception to the failure path. How the FFmpeg
  command is built is an argument \<open>build\<close>, the command or the exception it raises;
  the routing of long filters to a file is modelled. \<open>text_of e\<close> is \<open>str(e)\<close>.
\<close>

definition windows_argv_limit :: nat where "windows_argv_limit = 32767"

definition command_overhead_chars :: nat where "command_overhead_chars = 500"

fun index_of :: "'a \<Rightarrow> 'a list \<Rightarrow> nat option" where
  "index_of x [] = None"
| "index_of x (y # ys) = (if x = y then Some 0 else map_option Suc (index_of x ys))"

fun route_flags :: "string \<Rightarrow> (string \<times> string) list \<Rightarrow> string list \<Rightarrow> (string list \<times> string) option" where
  "route_flags tmp [] command = None"
| "route_flags tmp ((flag, script_flag) # fs) command =
     (case index_of flag command of
        None \<Rightarrow> route_flags tmp fs command
      | Some idx \<Rightarrow>
          if idx + 1 < length command \<and>
             length (command ! (idx + 1)) \<ge> windows_argv_limit - command_overhead_chars
          then Some (take idx command @ [script_flag, tmp] @ drop (idx + 2) command, command ! (idx + 1))
          else route_flags tmp fs command)"

text \<open>\<open>tmp\<close> is the name of the temporary file; its size is that of the filter it holds.\<close>

definition maybe_route_filter_to_file ::
  "bool \<Rightarrow> string \<Rightarrow> string list \<Rightarrow> render_job \<Rightarrow> exec_state \<Rightarrow> string list \<times> exec_state" where
  "maybe_route_filter_to_file win32 tmp command job ex =
     (if \<not> win32 then (command, ex)
      else case route_flags tmp [(''-vf'', ''-filter_script''),
                                 (''-filter_complex'', ''-filter_complex_script'')] command of
             None \<Rightarrow> (command, ex)
           | Some (command', filter_text) \<Rightarrow>
               (command', ex_register_temp_file (rj_id job) tmp
                  (ex\<lparr>ex_files := AList.update tmp (length filter_text) (ex_files ex)\<rparr>)))"

record worker_env =
  we_win32 :: bool
  we_tmp :: string
  we_text_of :: "exn \<Rightarrow> string"

text \<open>The \<open>finally\<close> block unlinks the filter file unless the executor already did.\<close>

definition worker_run_job ::
  "worker_env \<Rightarrow> sv_env \<Rightarrow> (nat \<Rightarrow> time) \<Rightarrow> rat \<Rightarrow> exn + string list \<Rightarrow> report list list \<Rightarrow> proc_end \<Rightarrow>
   (service \<Rightarrow> service) \<Rightarrow> render_job \<Rightarrow> (service, unit) op"
where
  "worker_run_job we en clk start build ls pend during job =
     bind_op (pure_op build) (\<lambda>command.
     bind_op (on_exec (\<lambda>ex. case maybe_route_filter_to_file (we_win32 we) (we_tmp we) command job ex of
                              (c, ex') \<Rightarrow> (Inr c, ex'))) (\<lambda>command'.
     (\<lambda>s. case run_job en clk start ls pend during job command' s of
            (r, s') \<Rightarrow> (r, if command' = command then s'
                          else s'\<lparr>sv_exec := (sv_exec s')\<lparr>ex_files :=
                                 unlink_file (en_locked en) (we_tmp we) (ex_files (sv_exec s'))\<rparr>\<rparr>))))"

definition handle_job_error ::
  "worker_env \<Rightarrow> sv_env \<Rightarrow> (nat \<Rightarrow> time) \<Rightarrow> render_job \<Rightarrow> exn \<Rightarrow> (service, unit) op" where
  "handle_job_error we en clk job exc =
     catch_op (handle_failure en clk job (we_text_of we exc))
       (\<lambda>handler_exc.
          catch_op (on_jobs (sql_update_status (clk 2) (rj_id job) R_FAILED
                      (Some (''failure handler error: '' @ we_text_of we handler_exc))))
            (\<lambda>_. ret ()))"

text \<open>One round of the loop, and whether it found a job; an idle loop sleeps and asks again.\<close>

definition worker_round ::
  "worker_env \<Rightarrow> sv_env \<Rightarrow> (nat \<Rightarrow> time) \<Rightarrow> rat \<Rightarrow> (render_job \<Rightarrow> exn + string list) \<Rightarrow> report list list \<Rightarrow>
   proc_end \<Rightarrow> (service \<Rightarrow> service) \<Rightarrow> (service, bool) op"
where
  "worker_round we en clk start build ls pend during =
     bind_op (on_jobs (rq_dequeue sql_repo (en_max_concurrent en) (clk 0))) (\<lambda>found.
       case found of
         None \<Rightarrow> ret False
       | Some job \<Rightarrow>
           seq_op (catch_op (worker_run_job we en (\<lambda>i. clk (i + 1)) start (build job) ls pend during job)
                     (handle_job_error we en (\<lambda>i. clk (i + 4)) job))
                  (ret True))"

subsection \<open>A job stays running until it is settled\<close>

definition job_runs :: "string \<Rightarrow> int \<Rightarrow> service \<Rightarrow> bool" where
  "job_runs k r s \<longleftrightarrow> sv_ok s \<and> (\<exists>c. sv_map s k = Some c \<and> rj_status c = R_RUNNING \<and> rj_retry_count c = r)"

lemma job_runs_frame:
  "sv_jobs s' = sv_jobs s \<Longrightarrow> job_runs k r s' = job_runs k r s"
  by (simp add: job_runs_def)

lemma job_runs_exec [simp]: "job_runs k r (s\<lparr>sv_exec := ex\<rparr>) = job_runs k r s"
  by (simp add: job_runs_def)

lemma throttled_jobs [simp]:
  "sv_jobs (broadcast_throttled_progress t k p x s) = sv_jobs s"
  "sv_jobs (broadcast_throttled_frame t k p f s) = sv_jobs s"
  by (auto simp: broadcast_throttled_progress_def broadcast_throttled_frame_def should_throttle_def
      Let_def split: option.splits)

lemma callback_keeps: "job_runs (rj_id job) r s \<Longrightarrow> job_runs (rj_id job) r (snd (progress_callback en job us rp s))"
proof -
  assume run: "job_runs (rj_id job) r s"
  then obtain c where ok: "sv_ok s" and c: "sv_map s (rj_id job) = Some c" "rj_status c = R_RUNNING"
      "rj_retry_count c = r"
    by (auto simp: job_runs_def)
  show ?thesis
  proof (cases "0 \<le> rp_progress rp \<and> rp_progress rp \<le> 1")
    case True
    then obtain J where "sql_update_progress (rp_now rp) (rj_id job) (rp_progress rp) (sv_jobs s) = (Inr (), J)"
        "sql_invar J" "sql_map J = (sv_map s)(rj_id job \<mapsto>
          c\<lparr>rj_progress := rp_progress rp, rj_updated_at := rp_now rp\<rparr>)"
      using sql.update_progress_law [OF ok c(1), of "rp_progress rp" "rp_now rp"] by auto
    with c show ?thesis
      by (simp add: progress_callback_def seq_op_run on_jobs_run job_runs_def)
  next
    case False
    then have "sql_update_progress (rp_now rp) (rj_id job) (rp_progress rp) (sv_jobs s) = (Inl ValueError, sv_jobs s)"
      using sql.update_progress_bad [OF ok, of "rp_progress rp" "rj_id job" "rp_now rp"] by simp
    with run show ?thesis by (simp add: progress_callback_def seq_op_run on_jobs_same)
  qed
qed

lemma report_line_keeps:
  "job_runs (rj_id job) r s \<Longrightarrow> job_runs (rj_id job) r (snd (report_line en job us rps s))"
proof (induction rps arbitrary: s)
  case (Cons rp rps)
  have step: "job_runs (rj_id job) r (snd (progress_callback en job us rp s))"
    by (rule callback_keeps [OF Cons.prems])
  with Cons.IH [OF step] show ?case
    by (auto simp: catch_op_run seq_op_run split: prod.splits sum.splits)
qed simp

lemma report_lines_keeps:
  "job_runs (rj_id job) r s \<Longrightarrow> job_runs (rj_id job) r (report_lines en job us ls s)"
  by (induction ls arbitrary: s) (auto intro: report_line_keeps)

lemma persist_evidence_keeps:
  assumes "job_runs k r s"
  shows "\<exists>s'. persist_evidence en k s = (Inr (), s') \<and> job_runs k r s'"
proof -
  from assms obtain c where ok: "sv_ok s" and c: "sv_map s k = Some c" "rj_status c = R_RUNNING"
      "rj_retry_count c = r"
    by (auto simp: job_runs_def)
  obtain ev ex where pop: "ex_pop_evidence k (sv_exec s) = (ev, ex)" by fastforce
  show ?thesis
  proof (cases ev)
    case None
    with pop assms show ?thesis
      by (simp add: persist_evidence_def bind_op_run on_exec_def)
  next
    case (Some e)
    obtain J where "sql_update_evidence k (en_dumps en e) (sv_jobs s) = (Inr (), J)" "sql_invar J"
        "sql_map J = (sv_map s)(k \<mapsto> c\<lparr>rj_evidence_json := Some (en_dumps en e)\<rparr>)"
      using sql.update_evidence_law [OF ok c(1), of "en_dumps en e"] by auto
    with pop Some c show ?thesis
      by (simp add: persist_evidence_def bind_op_run on_exec_def catch_op_run on_jobs_def job_runs_def)
  qed
qed

text \<open>
  How a run settles a job: tried again if it has retries left, else failed; completed or failed
  by QC only after the process exited with 0.
\<close>

definition settled :: "sv_env \<Rightarrow> string \<Rightarrow> int \<Rightarrow> bool \<Rightarrow> service \<Rightarrow> bool" where
  "settled en k r good s \<longleftrightarrow> sv_ok s \<and> (\<exists>c. sv_map s k = Some c \<and>
     (case rj_status c of
        R_QUEUED \<Rightarrow> r < en_max_retries en \<and> rj_retry_count c = r + 1
      | R_FAILED \<Rightarrow> \<not> r < en_max_retries en \<and> rj_retry_count c = r
      | R_COMPLETED \<Rightarrow> good
      | R_QC_FAILED \<Rightarrow> good
      | _ \<Rightarrow> False))"

lemma failure_settles:
  assumes "job_runs (rj_id job) r s"
  shows "\<exists>s'. handle_failure en clk job msg s = (Inr (), s') \<and> settled en (rj_id job) r good s'"
proof -
  from assms obtain c where ok: "sv_ok s" and c: "sv_map s (rj_id job) = Some c" "rj_status c = R_RUNNING"
      and r: "rj_retry_count c = r"
    by (auto simp: job_runs_def)
  show ?thesis
  proof (cases "rj_retry_count c < en_max_retries en")
    case True
    with handle_failure_retry [OF ok c True, of clk msg] r show ?thesis
      by (fastforce simp: settled_def set_status_spec_def)
  next
    case False
    with handle_failure_final [OF ok c False, of clk msg] r show ?thesis
      by (fastforce simp: settled_def set_status_spec_def)
  qed
qed

lemma finalize_settles:
  assumes run: "job_runs (rj_id job) r s"
  shows "\<exists>s'. (if good then finalize_success en clk job
               else bind_op (finalize_failure en clk job) (\<lambda>_. ret ())) s = (Inr (), s') \<and>
    settled en (rj_id job) r good s'"
proof -
  from run obtain c where ok: "sv_ok s" and c: "sv_map s (rj_id job) = Some c" "rj_status c = R_RUNNING"
    by (auto simp: job_runs_def)
  show ?thesis
  proof (cases good)
    case True
    show ?thesis
    proof (cases "output_file_ok (rj_output_path job) s")
      case good_file: True
      with complete_job_run [OF ok c, of en clk] True show ?thesis
        by (auto simp: finalize_success_def settled_def completed_as_status split: if_splits)
    next
      case False
      with failure_settles [OF run, of en clk _ True] True show ?thesis
        by (simp add: finalize_success_def)
    qed
  next
    case False
    obtain s' where "handle_failure en clk job ''FFmpeg process failed'' s = (Inr (), s')"
        "settled en (rj_id job) r False s'"
      using failure_settles [OF run, of en clk _ False] by blast
    with False ok c show ?thesis
      by (simp add: finalize_failure_def bind_op_run seq_op_run sv_runs)
  qed
qed

text \<open>A run of the service either settles the job or raises with the job still running.\<close>

lemma run_job_settles:
  assumes run: "job_runs (rj_id job) r s"
    and during: "\<And>s. job_runs (rj_id job) r s \<Longrightarrow> job_runs (rj_id job) r (during s)"
    and res: "run_job en clk start ls pend during job command s = (res, s')"
  shows "case res of Inl _ \<Rightarrow> job_runs (rj_id job) r s'
    | Inr _ \<Rightarrow> settled en (rj_id job) r (\<exists>stderr. pend = Proc_Exit 0 stderr) s'"
proof (cases "extract_duration_us en (rj_render_plan job)")
  case (Inl e)
  with run res show ?thesis by (auto simp: run_job_def bind_op_run)
next
  case (Inr us)
  let ?s1 = "s\<lparr>sv_exec := ex_begin (rj_id job) start us pend (sv_exec s)\<rparr>"
  let ?s2 = "if pend = Proc_No_Start then ?s1 else during (report_lines en job us ls ?s1)"
  have run2: "job_runs (rj_id job) r ?s2"
    using run during report_lines_keeps by simp
  obtain success ex where fin: "ex_end (en_locked en) job command pend (sv_exec ?s2) = (success, ex)"
    by fastforce
  let ?s3 = "?s2\<lparr>sv_exec := ex\<rparr>"
  have run3: "job_runs (rj_id job) r ?s3" using run2 by simp
  show ?thesis
  proof (cases success)
    case (Inl e)
    with res fin Inr run3 show ?thesis
      by (auto simp: run_job_def bind_op_run on_exec_def Let_def split: if_splits)
  next
    case good: (Inr b)
    obtain s4 where s4: "persist_evidence en (rj_id job) ?s3 = (Inr (), s4)" "job_runs (rj_id job) r s4"
      using persist_evidence_keeps [OF run3] by blast
    obtain s5 where s5: "(if b then finalize_success en clk job
               else bind_op (finalize_failure en clk job) (\<lambda>_. ret ())) s4 = (Inr (), s5)"
        "settled en (rj_id job) r b s5"
      using finalize_settles [OF s4(2)] by blast
    have "b = (\<exists>stderr. pend = Proc_Exit 0 stderr)"
      using fin good by (cases pend) (auto simp: ex_end_def)
    moreover have "(res, s') = (Inr (), s5)"
      using res [symmetric] Inr fin good s4(1) s5(1)
      by (simp add: run_job_def bind_op_run seq_op_run on_exec_def Let_def split: if_splits)
    ultimately show ?thesis using s5(2) by simp
  qed
qed

subsection \<open>A round of the worker\<close>

lemma worker_run_settles:
  assumes run: "job_runs (rj_id job) r s"
    and during: "\<And>s. job_runs (rj_id job) r s \<Longrightarrow> job_runs (rj_id job) r (during s)"
    and res: "worker_run_job we en clk start build ls pend during job s = (res, s')"
  shows "case res of Inl _ \<Rightarrow> job_runs (rj_id job) r s'
    | Inr _ \<Rightarrow> settled en (rj_id job) r (\<exists>stderr. pend = Proc_Exit 0 stderr) s'"
proof (cases build)
  case (Inl e)
  with run res show ?thesis by (auto simp: worker_run_job_def bind_op_run)
next
  case (Inr command)
  obtain command' ex where route: "maybe_route_filter_to_file (we_win32 we) (we_tmp we) command job (sv_exec s) =
      (command', ex)"
    by fastforce
  obtain res' t where t: "run_job en clk start ls pend during job command' (s\<lparr>sv_exec := ex\<rparr>) = (res', t)"
    by fastforce
  have "job_runs (rj_id job) r (s\<lparr>sv_exec := ex\<rparr>)" using run by simp
  note out = run_job_settles [OF this during t]
  have "res = res'" and "s' = t \<or> (\<exists>ex'. s' = t\<lparr>sv_exec := ex'\<rparr>)"
    using res Inr route t by (auto simp: worker_run_job_def bind_op_run on_exec_def split: if_splits)
  with out show ?thesis by (auto simp: settled_def split: sum.splits)
qed

text \<open>
  C1. A round of the worker never raises and never leaves its job running. If nothing else changes
  the record meanwhile, the job it took is afterwards queued for a retry or failed, by its
  retries, or, only when FFmpeg exited with 0, completed or failed by QC. That holds however
  the command is built, the process ends, reports arrive, and exceptions are raised.
\<close>

theorem worker_round_settles:
  assumes ok: "sv_ok s" and room: "int (sv_count s R_RUNNING) < en_max_concurrent en"
    and some: "0 < sv_count s R_QUEUED"
    and during: "\<And>k r s. job_runs k r s \<Longrightarrow> job_runs k r (during s)"
  shows "\<exists>s' j. sv_map s (rj_id j) = Some j \<and> rj_status j = R_QUEUED \<and>
    worker_round we en clk start build ls pend during s = (Inr True, s') \<and>
    settled en (rj_id j) (rj_retry_count j) (\<exists>stderr. pend = Proc_Exit 0 stderr) s'"
proof -
  let ?good = "\<exists>stderr. pend = Proc_Exit 0 stderr"
  obtain j J where j: "sv_map s (rj_id j) = Some j" "rj_status j = R_QUEUED"
      and deq: "rq_dequeue sql_repo (en_max_concurrent en) (clk 0) (sv_jobs s) =
        (Inr (Some (set_status_spec (clk 0) R_RUNNING None j)), J)" "sql_invar J"
        "sql_map J = (sv_map s)(rj_id j \<mapsto> set_status_spec (clk 0) R_RUNNING None j)"
    using sql.dequeue_takes_oldest [OF ok room some, of "clk 0"] by auto
  let ?job = "set_status_spec (clk 0) R_RUNNING None j"
  have run: "job_runs (rj_id ?job) (rj_retry_count j) (s\<lparr>sv_jobs := J\<rparr>)"
    using deq(2,3) by (simp add: job_runs_def set_status_spec_def)
  obtain res t where t: "worker_run_job we en (\<lambda>i. clk (i + 1)) start (build ?job) ls pend during ?job
      (s\<lparr>sv_jobs := J\<rparr>) = (res, t)"
    by fastforce
  note out = worker_run_settles [OF run during t]
  have "\<exists>s'. catch_op (worker_run_job we en (\<lambda>i. clk (i + 1)) start (build ?job) ls pend during ?job)
      (handle_job_error we en (\<lambda>i. clk (i + 4)) ?job) (s\<lparr>sv_jobs := J\<rparr>) = (Inr (), s') \<and>
      settled en (rj_id ?job) (rj_retry_count j) ?good s'"
  proof (cases res)
    case (Inr u)
    with t out show ?thesis by (simp add: catch_op_run)
  next
    case (Inl e)
    with out have runs: "job_runs (rj_id ?job) (rj_retry_count j) t" by simp
    obtain s' where "handle_failure en (\<lambda>i. clk (i + 4)) ?job (we_text_of we e) t = (Inr (), s')"
        "settled en (rj_id ?job) (rj_retry_count j) ?good s'"
      using failure_settles [OF runs] by blast
    with t Inl show ?thesis by (simp add: catch_op_run handle_job_error_def)
  qed
  with deq(1) j show ?thesis
    by (fastforce simp: worker_round_def bind_op_run seq_op_run on_jobs_run)
qed

theorem worker_round_settles_witness:
  "\<exists>s'. worker_round \<lparr>we_win32 = False, we_tmp = ''t'', we_text_of = (\<lambda>_. ''boom'')\<rparr> demo_env (\<lambda>_. 9) 1
     (\<lambda>_. Inr [''ffmpeg'']) [] (Proc_Exit 1 []) id demo_sv = (Inr True, s') \<and>
     settled demo_env ''a'' 0 False s'"
proof -
  have c: "int (sv_count demo_sv R_RUNNING) < en_max_concurrent demo_env" "0 < sv_count demo_sv R_QUEUED"
    by (simp_all add: demo_sv_facts count_jobs_fresh) (simp_all add: demo_env_def)
  obtain s' j where "sv_map demo_sv (rj_id j) = Some j" and
    s': "worker_round \<lparr>we_win32 = False, we_tmp = ''t'', we_text_of = (\<lambda>_. ''boom'')\<rparr> demo_env (\<lambda>_. 9) 1
     (\<lambda>_. Inr [''ffmpeg'']) [] (Proc_Exit 1 []) id demo_sv = (Inr True, s')"
      "settled demo_env (rj_id j) (rj_retry_count j) (\<exists>stderr. Proc_Exit 1 [] = Proc_Exit 0 stderr) s'"
    using worker_round_settles [OF demo_sv_facts(1) c, of id
        "\<lparr>we_win32 = False, we_tmp = ''t'', we_text_of = (\<lambda>_. ''boom'')\<rparr>" "\<lambda>_. 9" 1
        "\<lambda>_. Inr [''ffmpeg'']" "[]" "Proc_Exit 1 []"] by auto
  moreover from this have "j = demo_job ''a'' 1" by (auto simp: demo_sv_facts split: if_splits)
  moreover have "rj_retry_count (demo_job ''a'' 1) = 0" by code_simp
  ultimately show ?thesis by auto
qed

end
