(* ===== verification/Service_Submit.thy ===== *)
theory Service_Submit
  imports Service_Outcomes
begin

text \<open>
  Submission of render jobs, in both modes, and the throttling of progress events.
\<close>

subsection \<open>Submitting\<close>

text \<open>The gate every submission passes, in the order of the checks.\<close>

definition submit_gate :: "sv_env \<Rightarrow> service \<Rightarrow> string \<Rightarrow> quality_preset \<Rightarrow> string \<Rightarrow> bool" where
  "submit_gate en s output_path preset plan \<longleftrightarrow>
     \<not> sv_shutting_down s \<and> ffmpeg_available en \<and> validate_settings en plan = Inr () \<and>
     check_disk_space en output_path plan preset = Inr () \<and>
     int (sv_count s R_QUEUED) < en_max_depth en \<and> plan_complete en plan = Inr ()"

lemma submit_refused:
  assumes "sv_ok s" and "\<not> submit_gate en s out preset plan"
  shows "\<exists>e. submit_job en clk u p out fmt preset plan s = (Inl e, s)"
  using assms
  by (cases "validate_settings en plan"; cases "check_disk_space en out plan preset";
      cases "plan_complete en plan")
     (auto simp: submit_job_def submit_gate_def seq_op_run bind_op_run sv_runs)

lemma announce_run:
  "sv_ok s \<Longrightarrow> \<exists>s'. announce_job en job s = (Inr (), s') \<and> sv_jobs s' = sv_jobs s \<and>
     map fst (sv_events s') = map fst (sv_events s) @ [RENDER_QUEUED, RENDER_QUEUE_STATUS, RENDER_STARTED]"
  by (simp add: announce_job_def seq_op_run sv_runs)

lemma create_sel [simp]:
  "rj_id (rj_create u now p out fmt preset plan) = u"
  "rj_status (rj_create u now p out fmt preset plan) = R_QUEUED"
  "\<not> rj_partial_file_detected (rj_create u now p out fmt preset plan)"
  by (simp_all add: rj_create_def)

lemma submit_real:
  assumes ok: "sv_ok s" and gate: "submit_gate en s out preset plan" and fresh: "sv_map s u = None"
    and real: "\<not> en_noop en"
  shows "\<exists>s'. submit_job en clk u p out fmt preset plan s = (Inr (rj_create u (clk 0) p out fmt preset plan), s') \<and>
    sv_ok s' \<and> sv_map s' = (sv_map s)(u \<mapsto> rj_create u (clk 0) p out fmt preset plan) \<and>
    map fst (sv_events s') = map fst (sv_events s) @ [RENDER_QUEUED, RENDER_QUEUE_STATUS, RENDER_STARTED]"
proof -
  let ?job = "rj_create u (clk 0) p out fmt preset plan"
  obtain J where J: "rq_enqueue sql_repo (en_max_depth en) ?job (sv_jobs s) = (Inr ?job, J)" "sql_invar J"
      "sql_map J = (sv_map s)(u \<mapsto> ?job)"
    using sql.enqueue_accepted [OF ok, of "en_max_depth en" ?job] gate fresh
    by (auto simp: submit_gate_def)
  obtain s' where s': "announce_job en ?job (s\<lparr>sv_jobs := J\<rparr>) = (Inr (), s')" "sv_jobs s' = J"
      "map fst (sv_events s') = map fst (sv_events s) @ [RENDER_QUEUED, RENDER_QUEUE_STATUS, RENDER_STARTED]"
    using announce_run [of "s\<lparr>sv_jobs := J\<rparr>" en ?job] J(2) by auto
  have "submit_job en clk u p out fmt preset plan s = (Inr ?job, s')"
    using gate real J(1) s'(1) ok
    by (simp add: submit_job_def submit_gate_def seq_op_run bind_op_run catch_op_run sv_runs on_jobs_run Let_def)
  with J(2,3) s'(2,3) show ?thesis by simp
qed

lemma submit_noop:
  assumes ok: "sv_ok s" and gate: "submit_gate en s out preset plan" and fresh: "sv_map s u = None"
    and noop: "en_noop en"
  shows "\<exists>s' j. submit_job en clk u p out fmt preset plan s = (Inr j, s') \<and>
    sv_ok s' \<and> sv_map s' = (sv_map s)(u \<mapsto> j) \<and>
    rj_status j = (if qc_failure en (rj_create u (clk 0) p out fmt preset plan) = None
                   then R_COMPLETED else R_QC_FAILED) \<and>
    map fst (sv_events s') = map fst (sv_events s) @
      [RENDER_QUEUED, RENDER_QUEUE_STATUS, RENDER_STARTED, RENDER_COMPLETED, RENDER_QUEUE_STATUS]"
proof -
  let ?job = "rj_create u (clk 0) p out fmt preset plan"
  obtain J where J: "sql_create ?job (sv_jobs s) = (Inr ?job, J)" "sql_invar J"
      "sql_map J = (sv_map s)(u \<mapsto> ?job)"
    using sql.create_law [OF ok, of ?job] fresh by auto
  obtain s1 where s1: "announce_job en ?job (s\<lparr>sv_jobs := J\<rparr>) = (Inr (), s1)" "sv_jobs s1 = J"
      "map fst (sv_events s1) = map fst (sv_events s) @ [RENDER_QUEUED, RENDER_QUEUE_STATUS, RENDER_STARTED]"
    using announce_run [of "s\<lparr>sv_jobs := J\<rparr>" en ?job] J(2) by auto
  let ?run = "set_status_spec (clk 1) R_RUNNING None ?job"
  have "sv_ok s1" "sv_map s1 u = Some ?job" using s1(2) J(2,3) by simp_all
  from on_jobs_step [OF this, of R_RUNNING None "clk 1"] obtain J' where J':
      "on_jobs (sql_update_status (clk 1) u R_RUNNING None) s1 = (Inr (), s1\<lparr>sv_jobs := J'\<rparr>)"
      "sql_invar J'" "sql_map J' = (sv_map s1)(u \<mapsto> ?run)"
    by (auto simp: em_ok_def)
  let ?done = "completed_as en (\<lambda>i. clk (i + 2)) ?job ?run"
  obtain s2 where s2: "complete_job en (\<lambda>i. clk (i + 2)) ?job (s1\<lparr>sv_jobs := J'\<rparr>) = (Inr (), s2)"
      "sv_ok s2" "sv_map s2 = (sql_map J')(u \<mapsto> ?done)"
      "map fst (sv_events s2) = map fst (sv_events s1) @ [RENDER_COMPLETED, RENDER_QUEUE_STATUS]"
    using complete_job_run [of "s1\<lparr>sv_jobs := J'\<rparr>" ?job ?run en "\<lambda>i. clk (i + 2)"] J'(2,3) by auto
  have "submit_job en clk u p out fmt preset plan s = (Inr ?done, s2)"
    using gate noop J(1) s1(1) J'(1) s2(1) s2(2,3) ok
    by (simp add: submit_job_def submit_gate_def seq_op_run bind_op_run sv_runs on_jobs_run Let_def)
  with s1(2,3) s2 J(3) J'(3) show ?thesis by (auto simp: completed_as_status)
qed

text \<open>
  C10. A submission is all or nothing. It is accepted exactly when the service is up, FFmpeg is
  there, the settings and the disk pass, the queue is below its depth and the plan has a
  duration; a refusal changes nothing at all. An accepted job is stored under its id and no
  other job is touched: queued in real mode, already completed or failed by QC in noop mode,
  with the matching events in order.
\<close>

theorem submit_all_or_nothing:
  assumes "sv_ok s" and "sv_map s u = None"
  shows "if \<not> submit_gate en s out preset plan
    then \<exists>e. submit_job en clk u p out fmt preset plan s = (Inl e, s)
    else \<exists>s' j. submit_job en clk u p out fmt preset plan s = (Inr j, s') \<and> sv_ok s' \<and>
      sv_map s' = (sv_map s)(u \<mapsto> j) \<and>
      (if en_noop en then rj_status j \<in> {R_COMPLETED, R_QC_FAILED} \<and>
         map fst (sv_events s') = map fst (sv_events s) @
           [RENDER_QUEUED, RENDER_QUEUE_STATUS, RENDER_STARTED, RENDER_COMPLETED, RENDER_QUEUE_STATUS]
       else j = rj_create u (clk 0) p out fmt preset plan \<and>
         map fst (sv_events s') = map fst (sv_events s) @ [RENDER_QUEUED, RENDER_QUEUE_STATUS, RENDER_STARTED])"
proof (cases "submit_gate en s out preset plan")
  case False
  with submit_refused [OF assms(1) False] show ?thesis by simp
next
  case gate: True
  show ?thesis
  proof (cases "en_noop en")
    case True
    obtain s' j where "submit_job en clk u p out fmt preset plan s = (Inr j, s')" "sv_ok s'"
        "sv_map s' = (sv_map s)(u \<mapsto> j)"
        "rj_status j = (if qc_failure en (rj_create u (clk 0) p out fmt preset plan) = None
                        then R_COMPLETED else R_QC_FAILED)"
        "map fst (sv_events s') = map fst (sv_events s) @
           [RENDER_QUEUED, RENDER_QUEUE_STATUS, RENDER_STARTED, RENDER_COMPLETED, RENDER_QUEUE_STATUS]"
      using submit_noop [OF assms(1) gate assms(2) True] by blast
    then show ?thesis using gate True by auto
  next
    case False
    then show ?thesis using gate submit_real [OF assms(1) gate assms(2) False] by simp
  qed
qed

theorem submit_all_or_nothing_witness:
  "\<exists>s' j. submit_job demo_env (\<lambda>_. 9) ''b'' ''p1'' ''/out/b.mp4'' MP4 DRAFT ''{}'' demo_sv = (Inr j, s') \<and>
     sv_map s' ''b'' = Some j"
proof -
  have "validate_settings demo_env ''{}'' = Inr () \<and> check_disk_space demo_env ''/out/b.mp4'' ''{}'' DRAFT = Inr () \<and>
      plan_complete demo_env ''{}'' = Inr () \<and> ffmpeg_available demo_env \<and> \<not> sv_shutting_down demo_sv \<and>
      en_max_depth demo_env = 3"
    by code_simp
  moreover have "sv_count demo_sv R_QUEUED = 1"
    by (simp add: demo_sv_facts count_jobs_fresh)
  ultimately have gate: "submit_gate demo_env demo_sv ''/out/b.mp4'' DRAFT ''{}''"
    by (simp add: submit_gate_def)
  have "sv_map demo_sv ''b'' = None" by (simp add: demo_sv_facts)
  from submit_all_or_nothing [OF demo_sv_facts(1) this, of demo_env "''/out/b.mp4''" DRAFT "''{}''"
      "\<lambda>_. 9" "''p1''" MP4] gate
  show ?thesis by (auto split: if_splits)
qed

text \<open>
  A plan whose settings are null passes the validation, which skips null settings, and then
  raises \<open>AttributeError\<close> out of the disk check instead of a \<open>PreflightError\<close>.
\<close>

theorem submit_null_settings:
  "let en = demo_env\<lparr>en_loads := (\<lambda>_. Some (JObj [(''total_duration'', JInt 2), (''settings'', JNull)]))\<rparr>
   in validate_settings en ''{}'' = Inr () \<and>
      submit_job en (\<lambda>_. 9) ''b'' ''p1'' ''/out/b.mp4'' MP4 DRAFT ''{}'' demo_sv = (Inl AttributeError, demo_sv)"
proof -
  let ?en = "demo_env\<lparr>en_loads := (\<lambda>_. Some (JObj [(''total_duration'', JInt 2), (''settings'', JNull)]))\<rparr>"
  have "validate_settings ?en ''{}'' = Inr ()"
    and "check_disk_space ?en ''/out/b.mp4'' ''{}'' DRAFT = Inl AttributeError"
    and "ffmpeg_available ?en" and "\<not> sv_shutting_down demo_sv"
    by code_simp+
  then show ?thesis by (simp add: submit_job_def Let_def)
qed

end
