(* ===== verification/Service_Throttle.thy ===== *)
theory Service_Throttle
  imports Service_Lemmas
begin

text \<open>
  The dual threshold of \<open>_broadcast_throttled_progress\<close>: how far apart the progress events of a
  job are, in time and in progress, and how many there can be. The two thresholds are taken as
  the exact fractions 1/2 and 5/100, and the differences as exact.
\<close>

fun progress_run :: "string \<Rightarrow> (rat \<times> rat \<times> payload) list \<Rightarrow> service \<Rightarrow> (rat \<times> rat) list" where
  "progress_run k [] s = []"
| "progress_run k ((t, p, x) # rs) s =
     (let s' = broadcast_throttled_progress t k p x s
      in (if sv_events s' \<noteq> sv_events s then [(t, p)] else []) @ progress_run k rs s')"

text \<open>
  The clock entry of a job is the time of its last event, or gone, and then half a second has
  passed since that event.
\<close>

definition throttle_inv :: "string \<Rightarrow> rat \<Rightarrow> rat \<Rightarrow> rat \<Rightarrow> service \<Rightarrow> bool" where
  "throttle_inv k tlast plast now s \<longleftrightarrow>
     dict_get_or 0 k (sv_last_progress s) = plast \<and>
     (map_of (sv_last_time s) (k, RENDER_PROGRESS) = Some tlast \<or>
      map_of (sv_last_time s) (k, RENDER_PROGRESS) = None \<and> tlast + 1 / 2 \<le> now)"

lemmas throttle_defs = broadcast_throttled_progress_def should_throttle_def throttle_interval_def
  throttle_progress_delta_def dict_get_or_def

lemma throttle_step:
  assumes inv: "throttle_inv k tlast plast now s" and "now \<le> t" and "p < 1" and "0 \<le> now"
  shows "let s' = broadcast_throttled_progress t k p x s
    in if sv_events s' = sv_events s then throttle_inv k tlast plast t s'
       else tlast + 1 / 2 \<le> t \<and> plast + 1 / 20 \<le> p \<and> throttle_inv k t p t s'"
  using assms
  by (cases "map_of (sv_last_time s) (k, RENDER_PROGRESS)")
    (auto simp: throttle_defs throttle_inv_def Let_def dict_simps split: option.splits)

lemma throttle_run:
  assumes "throttle_inv k tlast plast now s" and "0 \<le> now" and "plast < 1"
    and "sorted_wrt (\<le>) (now # map fst rs)" and "\<forall>(t, p, x) \<in> set rs. p < 1"
  shows "sorted_wrt (\<lambda>a b. fst a + 1 / 2 \<le> fst b \<and> snd a + 1 / 20 \<le> snd b) (progress_run k rs s) \<and>
    (\<forall>(t, p) \<in> set (progress_run k rs s). tlast + 1 / 2 \<le> t \<and> plast + 1 / 20 \<le> p) \<and>
    plast + of_nat (length (progress_run k rs s)) / 20 < 1"
  using assms
proof (induction rs arbitrary: s tlast plast now)
  case (Cons r rs)
  obtain t p x where r: "r = (t, p, x)" by (cases r)
  let ?s' = "broadcast_throttled_progress t k p x s"
  have t: "now \<le> t" "p < 1" "0 \<le> t" "sorted_wrt (\<le>) (t # map fst rs)"
    and rs: "\<forall>(t, p, x) \<in> set rs. p < 1"
    using Cons.prems r by auto
  note step = throttle_step [OF Cons.prems(1) t(1,2) Cons.prems(2), of x, unfolded Let_def]
  show ?case
  proof (cases "sv_events ?s' = sv_events s")
    case True
    with step have "throttle_inv k tlast plast t ?s'" by simp
    from Cons.IH [OF this t(3) Cons.prems(3) t(4) rs] True r show ?thesis by (simp add: Let_def)
  next
    case False
    with step have bounds: "tlast + 1 / 2 \<le> t" "plast + 1 / 20 \<le> p" and inv: "throttle_inv k t p t ?s'"
      by simp_all
    from Cons.IH [OF inv t(3,2,4) rs] bounds False r show ?thesis
      by (fastforce simp: Let_def field_simps)
  qed
qed simp

text \<open>
  Throttling. From the start of a job, with a monotonic clock, the events sent for its
  unfinished progress are at least half a second and at least five percent apart, so there are
  at most nineteen of them, however often FFmpeg reports; the final progress is always sent.
\<close>

theorem progress_events_spaced:
  assumes "sv_forgot k s" and "sorted_wrt (\<le>) (0 # map fst rs)" and "\<forall>(t, p, x) \<in> set rs. p < 1"
  shows "sorted_wrt (\<lambda>a b. fst a + 1 / 2 \<le> fst b \<and> snd a + 5 / 100 \<le> snd b) (progress_run k rs s) \<and>
    length (progress_run k rs s) \<le> 19 \<and>
    (\<forall>t p x s. 1 \<le> p \<longrightarrow> map fst (sv_events (broadcast_throttled_progress t k p x s)) =
       map fst (sv_events s) @ [RENDER_PROGRESS])"
proof -
  have "map_of (sv_last_time s) (k, RENDER_PROGRESS) = None"
    using assms(1) by (simp only: sv_forgot_def map_of_eq_None_iff set_map) blast
  then have inv: "throttle_inv k (- 1 / 2) 0 0 s"
    using assms(1) by (simp add: throttle_inv_def sv_forgot_def dict_get_or_def)
  have "of_nat (length (progress_run k rs s)) < (20 :: rat)"
    using throttle_run [OF inv _ _ assms(2,3)] by simp
  then have "length (progress_run k rs s) < 20"
    using of_nat_less_iff [of "length (progress_run k rs s)" 20, where 'a = rat] by simp
  then show ?thesis
    using throttle_run [OF inv _ _ assms(2,3)] by (simp add: broadcast_throttled_progress_def)
qed

theorem progress_events_spaced_witness:
  "length (progress_run ''a'' [(1, 1 / 10, []), (5 / 4, 3 / 10, []), (2, 1 / 2, [])]
     (sv_init [] [] (ex_init []))) \<le> 19 \<and>
   progress_run ''a'' [(1, 1 / 10, []), (5 / 4, 3 / 10, []), (2, 1 / 2, [])]
     (sv_init [] [] (ex_init [])) = [(1, 1 / 10), (2, 1 / 2)]"
proof -
  have "sv_forgot ''a'' (sv_init [] [] (ex_init []))"
    by (simp add: sv_forgot_def sv_init_def get_frame_bytes_def)
  moreover have "progress_run ''a'' [(1, 1 / 10, []), (5 / 4, 3 / 10, []), (2, 1 / 2, [])]
     (sv_init [] [] (ex_init [])) = [(1, 1 / 10), (2, 1 / 2)]"
    by code_simp
  ultimately show ?thesis
    using progress_events_spaced [of "''a''" "sv_init [] [] (ex_init [])"
        "[(1, 1 / 10, []), (5 / 4, 3 / 10, []), (2, 1 / 2, [])]"] by simp
qed

end
