(* ===== verification/Render_Sweeper.thy ===== *)
theory Render_Sweeper
  imports Render_Queue Ws_Events
begin

text \<open>
  The stale render sweeper, from \<open>src/stoat_ferret/render/sweeper.py\<close>: one pass of its loop over any
  repository \<open>R\<close>, with the events it broadcasts. \<open>wsok i\<close> tells whether the \<open>i\<close>-th broadcast
  succeeds; its failure is swallowed. \<open>clk i\<close> is the clock of the \<open>i\<close>-th write.
\<close>

type_synonym 's sweep = "'s \<times> (event_type \<times> string \<times> string) list"

definition sweeper_message :: "int \<Rightarrow> string" where
  "sweeper_message threshold =
     ''Render job terminated by stale-running sweeper: no activity for '' @ py_str_int threshold @ ''s''"

definition handle_stale_job ::
  "'s render_repo \<Rightarrow> int \<Rightarrow> time \<Rightarrow> bool \<Rightarrow> string \<Rightarrow> string \<Rightarrow> 's sweep \<Rightarrow> 's sweep" where
  "handle_stale_job R threshold now wsok job_id project_id st =
     (case st of (s, events) \<Rightarrow>
        (case rr_update_status R now job_id R_FAILED (Some (sweeper_message threshold)) s of
           (Inl _, s') \<Rightarrow> (s', events)
         | (Inr _, s') \<Rightarrow>
             (s', if wsok then events @ [(RENDER_FAILED, job_id, project_id)] else events)))"

fun sweep_jobs ::
  "'s render_repo \<Rightarrow> int \<Rightarrow> (nat \<Rightarrow> time) \<Rightarrow> (nat \<Rightarrow> bool) \<Rightarrow> nat \<Rightarrow> render_job list \<Rightarrow> 's sweep \<Rightarrow> 's sweep"
where
  "sweep_jobs R threshold clk wsok i [] st = st"
| "sweep_jobs R threshold clk wsok i (job # stale_jobs) st =
     sweep_jobs R threshold clk wsok (Suc i) stale_jobs
       (handle_stale_job R threshold (clk i) (wsok i) (rj_id job) (rj_project_id job) st)"

definition sweep_pass ::
  "'s render_repo \<Rightarrow> int \<Rightarrow> time \<Rightarrow> (nat \<Rightarrow> time) \<Rightarrow> (nat \<Rightarrow> bool) \<Rightarrow> 's sweep \<Rightarrow> 's sweep" where
  "sweep_pass R threshold now clk wsok st =
     (let older_than = now - threshold * 1000000
      in case st of (s, events) \<Rightarrow>
        (case rr_list_stale_running R older_than s of
           (Inl _, s') \<Rightarrow> (s', events)
         | (Inr stale_jobs, s') \<Rightarrow> sweep_jobs R threshold clk wsok 0 stale_jobs (s', events)))"

definition swept_as :: "int \<Rightarrow> render_job \<Rightarrow> render_job option \<Rightarrow> bool" where
  "swept_as threshold j b \<longleftrightarrow>
     (\<exists>t. b = Some (set_status_spec t R_FAILED (Some (sweeper_message threshold)) j))"

context render_repository
begin

text \<open>
  A job of the list that is no longer running when its turn comes is skipped, so the loop is
  proved from any state in which each listed job is as it was read or not running.
\<close>

lemma sweep_jobs_run:
  assumes "invar s" and "distinct (map rj_id js)"
    and "\<And>j. j \<in> set js \<Longrightarrow> jobs s (rj_id j) = Some j \<and> rj_status j = R_RUNNING"
  shows "\<exists>s' evs. sweep_jobs R th clk wsok i js (s, es) = (s', es @ evs) \<and> invar s' \<and>
    (\<forall>j \<in> set js. swept_as th j (jobs s' (rj_id j))) \<and>
    (\<forall>k. k \<notin> rj_id ` set js \<longrightarrow> jobs s' k = jobs s k) \<and>
    ((\<forall>n. wsok n) \<longrightarrow> evs = map (\<lambda>j. (RENDER_FAILED, rj_id j, rj_project_id j)) js)"
  using assms
proof (induction js arbitrary: i s es)
  case (Cons j js)
  have j: "jobs s (rj_id j) = Some j" "rj_status j = R_RUNNING" using Cons.prems(3) by auto
  obtain t where t: "rr_update_status R (clk i) (rj_id j) R_FAILED (Some (sweeper_message th)) s = (Inr (), t)"
      "invar t" "jobs t = (jobs s)(rj_id j \<mapsto> set_status_spec (clk i) R_FAILED (Some (sweeper_message th)) j)"
    using update_status_law [OF Cons.prems(1) j(1), of R_FAILED "Some (sweeper_message th)"] j(2)
    by (auto simp: em_ok_def)
  have other: "rj_id i' \<noteq> rj_id j" if "i' \<in> set js" for i'
    using Cons.prems(2) that by (metis distinct.simps(2) image_eqI list.set_map list.simps(9))
  have rest: "jobs t (rj_id i') = Some i' \<and> rj_status i' = R_RUNNING" if "i' \<in> set js" for i'
    using Cons.prems(3) [of i'] that t(3) other [OF that] by simp
  let ?es = "if wsok i then es @ [(RENDER_FAILED, rj_id j, rj_project_id j)] else es"
  obtain s' evs where s': "sweep_jobs R th clk wsok (Suc i) js (t, ?es) = (s', ?es @ evs)" "invar s'"
      "\<forall>j \<in> set js. swept_as th j (jobs s' (rj_id j))"
      "\<forall>k. k \<notin> rj_id ` set js \<longrightarrow> jobs s' k = jobs t k"
      "(\<forall>n. wsok n) \<longrightarrow> evs = map (\<lambda>j. (RENDER_FAILED, rj_id j, rj_project_id j)) js"
    using Cons.IH [OF t(2) _ rest, of "Suc i" ?es] Cons.prems(2) by auto
  have "rj_id j \<notin> rj_id ` set js" using Cons.prems(2) by simp
  then have "jobs s' (rj_id j) = Some (set_status_spec (clk i) R_FAILED (Some (sweeper_message th)) j)"
    using s'(4) t(3) by simp
  then have "swept_as th j (jobs s' (rj_id j))" by (auto simp: swept_as_def)
  moreover have "\<forall>k. k \<notin> rj_id ` set (j # js) \<longrightarrow> jobs s' k = jobs s k"
    using s'(4) t(3) by auto
  moreover have "sweep_jobs R th clk wsok i (j # js) (s, es) =
      (s', es @ (if wsok i then [(RENDER_FAILED, rj_id j, rj_project_id j)] else []) @ evs)"
    using s'(1) t(1) by (simp add: handle_stale_job_def)
  ultimately show ?case using s'(2,3,5) by (intro exI conjI) (assumption | simp)+
qed auto

lemma sweep_pass_run:
  assumes inv: "invar s"
  shows "\<exists>s' evs js. sweep_pass R th now clk wsok (s, es) = (s', es @ evs) \<and> invar s' \<and>
    lists_jobs (jobs s) (\<lambda>j. rj_status j = R_RUNNING \<and> rj_updated_at j < now - th * 1000000) js \<and>
    (\<forall>k. case jobs s k of
       Some j \<Rightarrow> if rj_status j = R_RUNNING \<and> rj_updated_at j < now - th * 1000000
                 then swept_as th j (jobs s' k) else jobs s' k = Some j
     | None \<Rightarrow> jobs s' k = None) \<and>
    ((\<forall>n. wsok n) \<longrightarrow> evs = map (\<lambda>j. (RENDER_FAILED, rj_id j, rj_project_id j)) js)"
proof -
  let ?P = "\<lambda>j. rj_status j = R_RUNNING \<and> rj_updated_at j < now - th * 1000000"
  obtain js where js: "rr_list_stale_running R (now - th * 1000000) s = (Inr js, s)" "lists_jobs (jobs s) ?P js"
    using stale_law [OF inv] by blast
  then have mem: "\<And>j. j \<in> set js \<Longrightarrow> jobs s (rj_id j) = Some j \<and> rj_status j = R_RUNNING"
    and dist: "distinct (map rj_id js)"
    by (auto simp: lists_jobs_def)
  obtain s' evs where s': "sweep_jobs R th clk wsok 0 js (s, es) = (s', es @ evs)" "invar s'"
      "\<forall>j \<in> set js. swept_as th j (jobs s' (rj_id j))"
      "\<forall>k. k \<notin> rj_id ` set js \<longrightarrow> jobs s' k = jobs s k"
      "(\<forall>n. wsok n) \<longrightarrow> evs = map (\<lambda>j. (RENDER_FAILED, rj_id j, rj_project_id j)) js"
    using sweep_jobs_run [OF inv dist mem, of th clk wsok 0 es] by blast
  have upd: "case jobs s k of
       Some j \<Rightarrow> if ?P j then swept_as th j (jobs s' k) else jobs s' k = Some j
     | None \<Rightarrow> jobs s' k = None" for k
  proof (cases "jobs s k")
    case None
    then have "k \<notin> rj_id ` set js" using mem by fastforce
    with None s'(4) show ?thesis by simp
  next
    case (Some j)
    have id: "rj_id j = k" by (rule jobs_id [OF inv Some])
    show ?thesis
    proof (cases "?P j")
      case True
      with js(2) Some id have "j \<in> set js" by (simp add: lists_jobs_def)
      with s'(3) Some True id show ?thesis by auto
    next
      case False
      have "k \<notin> rj_id ` set js"
      proof
        assume "k \<in> rj_id ` set js"
        then obtain i where "i \<in> set js" "rj_id i = k" by blast
        with js(2) have "jobs s k = Some i" "?P i" by (simp_all add: lists_jobs_def)
        with Some False show False by simp
      qed
      with s'(4) Some have "jobs s' k = Some j" by simp
      with Some False show ?thesis by (simp only: option.case if_False)
    qed
  qed
  have pass: "sweep_pass R th now clk wsok (s, es) = (s', es @ evs)"
    using js(1) s'(1) by (simp add: sweep_pass_def)
  show ?thesis
    by (intro exI conjI) (rule pass s'(2) js(2) allI upd s'(5))+
qed

end

text \<open>
  One pass of the sweeper fails exactly the running jobs not updated since the threshold, with
  its message, and changes no other job; it never raises, and when broadcasts work it announces
  each swept job once.
\<close>

theorem sweep_pass_fails_stale:
  assumes "sql_invar rows"
  shows "\<exists>rows' evs js. sweep_pass sql_repo th now clk wsok (rows, es) = (rows', es @ evs) \<and> sql_invar rows' \<and>
    lists_jobs (sql_map rows) (\<lambda>j. rj_status j = R_RUNNING \<and> rj_updated_at j < now - th * 1000000) js \<and>
    (\<forall>k. case sql_map rows k of
       Some j \<Rightarrow> if rj_status j = R_RUNNING \<and> rj_updated_at j < now - th * 1000000
                 then swept_as th j (sql_map rows' k) else sql_map rows' k = Some j
     | None \<Rightarrow> sql_map rows' k = None) \<and>
    ((\<forall>n. wsok n) \<longrightarrow> evs = map (\<lambda>j. (RENDER_FAILED, rj_id j, rj_project_id j)) js)"
  by (rule sql.sweep_pass_run [OF assms])

theorem sweep_pass_fails_stale_witness:
  "\<exists>rows' evs. sweep_pass sql_repo 60 90000000 (\<lambda>_. 90000000) (\<lambda>_. True) (running_rows, []) = (rows', evs) \<and>
     swept_as 60 (set_status_spec 5 R_RUNNING None (demo_job ''a'' 1)) (sql_map rows' ''a'')"
proof -
  obtain rows' evs where run: "sweep_pass sql_repo 60 90000000 (\<lambda>_. 90000000) (\<lambda>_. True) (running_rows, []) = (rows', evs)"
    and all: "\<forall>k. case sql_map running_rows k of
       Some j \<Rightarrow> if rj_status j = R_RUNNING \<and> rj_updated_at j < 90000000 - 60 * 1000000
                 then swept_as 60 j (sql_map rows' k) else sql_map rows' k = Some j
     | None \<Rightarrow> sql_map rows' k = None"
    using sweep_pass_fails_stale [OF demo_rows_facts(3), of 60 90000000 "\<lambda>_. 90000000" "\<lambda>_. True" "[]"]
    by auto
  from all [rule_format, of "''a''"] run show ?thesis by (auto simp: demo_rows_facts)
qed

end
