(* ===== verification/Job_Queue.thy ===== *)
theory Job_Queue
  imports Json
begin

text \<open>
  The generic job queues of \<open>src/stoat_ferret/jobs/queue.py\<close>, the asyncio queue with its worker and
  the in-memory one, and the terminal-state notifications of
  \<open>src/stoat_ferret/api/services/job_completion.py\<close>. What a handler returns or raises is an
  argument, and so is what other tasks do while it runs. An \<open>asyncio.Event\<close> is a number; the
  registry of waiters is a dictionary from job ids to the events waiting for the job.
\<close>

subsection \<open>Jobs and results\<close>

datatype job_status = J_PENDING | J_RUNNING | J_COMPLETED | J_FAILED | J_TIMEOUT | J_CANCELLED

fun js_value :: "job_status \<Rightarrow> string" where
  "js_value J_PENDING = ''pending''"
| "js_value J_RUNNING = ''running''"
| "js_value J_COMPLETED = ''completed''"
| "js_value J_FAILED = ''failed''"
| "js_value J_TIMEOUT = ''timeout''"
| "js_value J_CANCELLED = ''cancelled''"

definition terminal_statuses :: "job_status list" where
  "terminal_statuses = [J_COMPLETED, J_FAILED, J_TIMEOUT, J_CANCELLED]"

abbreviation jterminal :: "job_status \<Rightarrow> bool" where
  "jterminal st \<equiv> st \<in> set terminal_statuses"

definition terminal_status_values :: "string list" where
  "terminal_status_values = [''completed'', ''failed'', ''timeout'', ''cancelled'']"

lemma terminal_values: "js_value st \<in> set terminal_status_values \<longleftrightarrow> jterminal st"
  by (cases st) (simp_all add: terminal_status_values_def terminal_statuses_def)

datatype job_outcome = O_SUCCESS | O_FAILURE | O_TIMEOUT

record job_result =
  jr_job_id :: string
  jr_status :: job_status
  jr_result :: json_value
  jr_error :: "string option"
  jr_progress :: "rat option"

record job_snapshot =
  js_job_id :: string
  js_job_type :: string
  js_status :: job_status
  js_progress :: "rat option"
  js_submitted_at :: time

definition job_retention_us :: int where
  "job_retention_us = 300 * 1000000"

definition is_listed :: "time \<Rightarrow> job_status \<Rightarrow> time \<Rightarrow> bool" where
  "is_listed cutoff st submitted_at \<longleftrightarrow> \<not> jterminal st \<or> cutoff - submitted_at \<le> job_retention_us"

subsection \<open>Waiters\<close>

record waiters =
  wt_events :: "(string, nat list) dict"
  wt_set :: "nat list"  \<comment> \<open>events that have been set\<close>

definition notify_job_terminal :: "string \<Rightarrow> waiters \<Rightarrow> waiters" where
  "notify_job_terminal job_id w =
     (case map_of (wt_events w) job_id of
        None \<Rightarrow> w
      | Some events \<Rightarrow> w\<lparr>wt_events := AList.delete job_id (wt_events w), wt_set := wt_set w @ events\<rparr>)"

definition wait_register :: "string \<Rightarrow> nat \<Rightarrow> waiters \<Rightarrow> waiters" where
  "wait_register job_id event w =
     w\<lparr>wt_events := AList.update job_id
        ((case map_of (wt_events w) job_id of None \<Rightarrow> [] | Some es \<Rightarrow> es) @ [event]) (wt_events w)\<rparr>"

text \<open>The \<open>finally\<close> block of the wait.\<close>

definition wait_discard :: "string \<Rightarrow> nat \<Rightarrow> waiters \<Rightarrow> waiters" where
  "wait_discard job_id event w =
     (case map_of (wt_events w) job_id of
        None \<Rightarrow> w
      | Some es \<Rightarrow>
          (let es' = removeAll event es
           in if es' = [] then w\<lparr>wt_events := AList.delete job_id (wt_events w)\<rparr>
              else w\<lparr>wt_events := AList.update job_id es' (wt_events w)\<rparr>))"

subsection \<open>The asyncio queue\<close>

record aj_entry =
  aj_job_id :: string
  aj_job_type :: string
  aj_payload :: "(string, json_value) dict"
  aj_status :: job_status
  aj_result :: json_value
  aj_error :: "string option"
  aj_progress :: "rat option"
  aj_submitted_at :: time
  aj_cancel_event :: bool

record aj_queue =
  aq_queue :: "string list"
  aq_jobs :: "(string, aj_entry) dict"
  aq_handlers :: "(string, rat option) dict"  \<comment> \<open>registered types with their timeout\<close>
  aq_timeout :: rat
  aq_active :: "(string, int) dict"  \<comment> \<open>the gauge of active jobs per type\<close>
  aq_waiters :: waiters

definition aq_init :: "rat option \<Rightarrow> aj_queue" where
  "aq_init t = \<lparr>aq_queue = [], aq_jobs = [], aq_handlers = [],
     aq_timeout = (case t of Some x \<Rightarrow> x | None \<Rightarrow> 300), aq_active = [],
     aq_waiters = \<lparr>wt_events = [], wt_set = []\<rparr>\<rparr>"

definition aq_register_handler :: "string \<Rightarrow> rat option \<Rightarrow> aj_queue \<Rightarrow> aj_queue" where
  "aq_register_handler job_type tmo q = q\<lparr>aq_handlers := AList.update job_type tmo (aq_handlers q)\<rparr>"

definition gauge_add :: "string \<Rightarrow> int \<Rightarrow> (string, int) dict \<Rightarrow> (string, int) dict" where
  "gauge_add k d g = AList.update k ((case map_of g k of None \<Rightarrow> 0 | Some n \<Rightarrow> n) + d) g"

definition aq_set_progress :: "string \<Rightarrow> rat \<Rightarrow> aj_queue \<Rightarrow> aj_queue" where
  "aq_set_progress job_id v q =
     (case map_of (aq_jobs q) job_id of
        None \<Rightarrow> q
      | Some entry \<Rightarrow> q\<lparr>aq_jobs := AList.update job_id (entry\<lparr>aj_progress := Some v\<rparr>) (aq_jobs q)\<rparr>)"

definition aq_cancel :: "string \<Rightarrow> (aj_queue, unit) op" where
  "aq_cancel job_id q =
     (case map_of (aq_jobs q) job_id of
        None \<Rightarrow> (Inl KeyError, q)
      | Some entry \<Rightarrow>
          (Inr (), q\<lparr>aq_jobs := AList.update job_id (entry\<lparr>aj_cancel_event := True\<rparr>) (aq_jobs q)\<rparr>))"

definition aq_submit :: "string \<Rightarrow> time \<Rightarrow> string \<Rightarrow> (string, json_value) dict \<Rightarrow> aj_queue \<Rightarrow> aj_queue" where
  "aq_submit uuid now job_type payload q =
     q\<lparr>aq_jobs := AList.update uuid
          \<lparr>aj_job_id = uuid, aj_job_type = job_type, aj_payload = payload, aj_status = J_PENDING,
           aj_result = JNull, aj_error = None, aj_progress = None, aj_submitted_at = now,
           aj_cancel_event = False\<rparr> (aq_jobs q),
       aq_queue := aq_queue q @ [uuid],
       aq_active := gauge_add job_type 1 (aq_active q)\<rparr>"

definition aq_get_status :: "string \<Rightarrow> aj_queue \<Rightarrow> exn + job_status" where
  "aq_get_status job_id q =
     (case map_of (aq_jobs q) job_id of None \<Rightarrow> Inl KeyError | Some e \<Rightarrow> Inr (aj_status e))"

definition aj_to_result :: "aj_entry \<Rightarrow> job_result" where
  "aj_to_result e = \<lparr>jr_job_id = aj_job_id e, jr_status = aj_status e, jr_result = aj_result e,
     jr_error = aj_error e, jr_progress = aj_progress e\<rparr>"

definition aq_get_result :: "string \<Rightarrow> aj_queue \<Rightarrow> exn + job_result" where
  "aq_get_result job_id q =
     (case map_of (aq_jobs q) job_id of None \<Rightarrow> Inl KeyError | Some e \<Rightarrow> Inr (aj_to_result e))"

definition aq_list_jobs :: "time \<Rightarrow> aj_queue \<Rightarrow> job_snapshot list" where
  "aq_list_jobs cutoff q =
     map (\<lambda>e. \<lparr>js_job_id = aj_job_id e, js_job_type = aj_job_type e, js_status = aj_status e,
               js_progress = aj_progress e, js_submitted_at = aj_submitted_at e\<rparr>)
       (filter (\<lambda>e. is_listed cutoff (aj_status e) (aj_submitted_at e)) (dict_values (aq_jobs q)))"

subsection \<open>The worker\<close>

text \<open>
  How a handler ends: with a value, with an exception (its text), past its timeout, or because
  the worker itself is cancelled, which no \<open>except\<close> clause catches.
\<close>

datatype handler_end = H_Return json_value | H_Raise string | H_Timeout | H_Cancelled

definition aq_write :: "string \<Rightarrow> (aj_entry \<Rightarrow> aj_entry) \<Rightarrow> aj_queue \<Rightarrow> aj_queue" where
  "aq_write job_id f q =
     (case map_of (aq_jobs q) job_id of
        None \<Rightarrow> q | Some e \<Rightarrow> q\<lparr>aq_jobs := AList.update job_id (f e) (aq_jobs q)\<rparr>)"

text \<open>\<open>notify_job_terminal\<close> and the decrement of the gauge.\<close>

definition aq_done :: "string \<Rightarrow> string \<Rightarrow> aj_queue \<Rightarrow> aj_queue" where
  "aq_done job_id job_type q =
     q\<lparr>aq_waiters := notify_job_terminal job_id (aq_waiters q),
       aq_active := gauge_add job_type (- 1) (aq_active q)\<rparr>"

text \<open>
  The first half of a round, up to the handler: the job now running, if there is one to run.
\<close>

definition aq_take :: "aj_queue \<Rightarrow> string option \<times> aj_queue" where
  "aq_take q =
     (case aq_queue q of
        [] \<Rightarrow> (None, q)
      | job_id # rest \<Rightarrow>
          (let q1 = q\<lparr>aq_queue := rest\<rparr>
           in case map_of (aq_jobs q1) job_id of
                None \<Rightarrow> (None, q1)
              | Some entry \<Rightarrow>
                  if map_of (aq_handlers q1) (aj_job_type entry) = None then
                    (None, aq_done job_id (aj_job_type entry)
                       (aq_write job_id (\<lambda>e. e\<lparr>aj_status := J_FAILED,
                          aj_error := Some (''No handler registered for job type: '' @ aj_job_type entry)\<rparr>) q1))
                  else (Some job_id, aq_write job_id (\<lambda>e. e\<lparr>aj_status := J_RUNNING\<rparr>) q1)))"

definition aq_effective_timeout :: "string \<Rightarrow> aj_queue \<Rightarrow> rat" where
  "aq_effective_timeout job_type q =
     (case map_of (aq_handlers q) job_type of Some (Some t) \<Rightarrow> t | _ \<Rightarrow> aq_timeout q)"

text \<open>The second half, from the end of the handler on; \<open>tmo_text\<close> prints the timeout.\<close>

definition aq_ended :: "(rat \<Rightarrow> string) \<Rightarrow> aj_queue \<Rightarrow> handler_end \<Rightarrow> aj_entry \<Rightarrow> aj_entry" where
  "aq_ended tmo_text q h e =
     (case h of
        H_Return v \<Rightarrow>
          e\<lparr>aj_status := (if aj_cancel_event e then J_CANCELLED else J_COMPLETED), aj_result := v\<rparr>
      | H_Timeout \<Rightarrow>
          e\<lparr>aj_status := J_TIMEOUT, aj_error := Some (''Job timed out after '' @
             tmo_text (aq_effective_timeout (aj_job_type e) q) @ ''s'')\<rparr>
      | H_Raise msg \<Rightarrow> e\<lparr>aj_status := J_FAILED, aj_error := Some msg\<rparr>
      | H_Cancelled \<Rightarrow> e)"

definition aq_finish :: "(rat \<Rightarrow> string) \<Rightarrow> string \<Rightarrow> handler_end \<Rightarrow> aj_queue \<Rightarrow> aj_queue" where
  "aq_finish tmo_text job_id h q =
     (case map_of (aq_jobs q) job_id of
        None \<Rightarrow> q
      | Some entry \<Rightarrow> aq_done job_id (aj_job_type entry) (aq_write job_id (aq_ended tmo_text q h) q))"

subsection \<open>The in-memory queue\<close>

record mj_entry =
  mj_job_id :: string
  mj_job_type :: string
  mj_payload :: "(string, json_value) dict"
  mj_submitted_at :: time
  mj_result :: job_result

record mem_queue =
  mq_jobs :: "(string, mj_entry) dict"
  mq_outcomes :: "(string, job_outcome) dict"
  mq_default :: job_outcome
  mq_results :: "(string, json_value) dict"
  mq_handlers :: "(string, rat option) dict"
  mq_waiters :: waiters

definition mq_init :: mem_queue where
  "mq_init = \<lparr>mq_jobs = [], mq_outcomes = [], mq_default = O_SUCCESS, mq_results = [],
     mq_handlers = [], mq_waiters = \<lparr>wt_events = [], wt_set = []\<rparr>\<rparr>"

definition mq_register_handler :: "string \<Rightarrow> rat option \<Rightarrow> mem_queue \<Rightarrow> mem_queue" where
  "mq_register_handler job_type tmo q = q\<lparr>mq_handlers := AList.update job_type tmo (mq_handlers q)\<rparr>"

definition mq_configure_outcome ::
  "string \<Rightarrow> job_outcome \<Rightarrow> json_value \<Rightarrow> string option \<Rightarrow> mem_queue \<Rightarrow> mem_queue" where
  "mq_configure_outcome job_type out result error q =
     (let q1 = q\<lparr>mq_outcomes := AList.update job_type out (mq_outcomes q)\<rparr>;
          q2 = (if result \<noteq> JNull then q1\<lparr>mq_results := AList.update job_type result (mq_results q1)\<rparr> else q1)
      in case error of
           None \<Rightarrow> q2
         | Some e \<Rightarrow> q2\<lparr>mq_results := AList.update (job_type @ '':error'') (JStr e) (mq_results q2)\<rparr>)"

definition mq_set_default_outcome :: "job_outcome \<Rightarrow> mem_queue \<Rightarrow> mem_queue" where
  "mq_set_default_outcome out q = q\<lparr>mq_default := out\<rparr>"

definition mq_set_progress :: "string \<Rightarrow> rat \<Rightarrow> mem_queue \<Rightarrow> mem_queue" where
  "mq_set_progress job_id v q = q"

definition mq_cancel :: "string \<Rightarrow> mem_queue \<Rightarrow> mem_queue" where
  "mq_cancel job_id q = q"

definition job_ended :: "string \<Rightarrow> job_status \<Rightarrow> json_value \<Rightarrow> string option \<Rightarrow> job_result" where
  "job_ended job_id st result error =
     \<lparr>jr_job_id = job_id, jr_status = st, jr_result = result, jr_error = error, jr_progress = None\<rparr>"

text \<open>A configured error is a string wherever the configuration stored one.\<close>

definition mq_error_text :: "string \<Rightarrow> string \<Rightarrow> mem_queue \<Rightarrow> string" where
  "mq_error_text job_type dflt q =
     (case map_of (mq_results q) (job_type @ '':error'') of Some (JStr e) \<Rightarrow> e | _ \<Rightarrow> dflt)"

definition mq_outcome_result :: "string \<Rightarrow> string \<Rightarrow> mem_queue \<Rightarrow> job_result" where
  "mq_outcome_result job_id job_type q =
     (case (case map_of (mq_outcomes q) job_type of Some out \<Rightarrow> out | None \<Rightarrow> mq_default q) of
        O_SUCCESS \<Rightarrow> job_ended job_id J_COMPLETED
          (case map_of (mq_results q) job_type of Some v \<Rightarrow> v | None \<Rightarrow> JObj [(''status'', JStr ''ok'')]) None
      | O_FAILURE \<Rightarrow> job_ended job_id J_FAILED JNull
          (Some (mq_error_text job_type (''Job '' @ job_type @ '' failed'') q))
      | O_TIMEOUT \<Rightarrow> job_ended job_id J_TIMEOUT JNull
          (Some (mq_error_text job_type (''Job '' @ job_type @ '' timed out'') q)))"

text \<open>
  \<open>h\<close> is how the registered handler ends, when there is one; an exception that is no
  \<open>Exception\<close> leaves \<open>submit\<close> before anything is stored.
\<close>

definition mq_submit ::
  "string \<Rightarrow> time \<Rightarrow> string \<Rightarrow> (string, json_value) dict \<Rightarrow> handler_end \<Rightarrow> (mem_queue, string) op" where
  "mq_submit uuid now job_type payload h q =
     (let store = (\<lambda>res. (Inr uuid, q\<lparr>mq_jobs := AList.update uuid
             \<lparr>mj_job_id = uuid, mj_job_type = job_type, mj_payload = payload, mj_submitted_at = now,
              mj_result = res\<rparr> (mq_jobs q),
            mq_waiters := notify_job_terminal uuid (mq_waiters q)\<rparr>))
      in if map_of (mq_handlers q) job_type \<noteq> None then
           (case h of
              H_Return v \<Rightarrow> store (job_ended uuid J_COMPLETED v None)
            | H_Raise msg \<Rightarrow> store (job_ended uuid J_FAILED JNull (Some msg))
            | H_Timeout \<Rightarrow> store (job_ended uuid J_FAILED JNull (Some []))
            | H_Cancelled \<Rightarrow> (Inl RuntimeError, q))
         else store (mq_outcome_result uuid job_type q))"

definition mq_get_status :: "string \<Rightarrow> mem_queue \<Rightarrow> exn + job_status" where
  "mq_get_status job_id q =
     (case map_of (mq_jobs q) job_id of None \<Rightarrow> Inl KeyError | Some e \<Rightarrow> Inr (jr_status (mj_result e)))"

definition mq_get_result :: "string \<Rightarrow> mem_queue \<Rightarrow> exn + job_result" where
  "mq_get_result job_id q =
     (case map_of (mq_jobs q) job_id of None \<Rightarrow> Inl KeyError | Some e \<Rightarrow> Inr (mj_result e))"

definition mq_list_jobs :: "time \<Rightarrow> mem_queue \<Rightarrow> job_snapshot list" where
  "mq_list_jobs cutoff q =
     map (\<lambda>e. \<lparr>js_job_id = mj_job_id e, js_job_type = mj_job_type e, js_status = jr_status (mj_result e),
               js_progress = jr_progress (mj_result e), js_submitted_at = mj_submitted_at e\<rparr>)
       (filter (\<lambda>e. is_listed cutoff (jr_status (mj_result e)) (mj_submitted_at e)) (dict_values (mq_jobs q)))"

subsection \<open>Waiting for a job\<close>

text \<open>
  \<open>wait_for_job_terminal\<close> over any queue, in two steps: up to the wait, answering at once or
  registering \<open>event\<close>, and after it, by timeout or because the event was set.
\<close>

datatype 'a wait_start = W_Raise exn | W_Return 'a | W_Wait

definition wait_begin :: "(string \<Rightarrow> 's \<Rightarrow> exn + job_result) \<Rightarrow> string \<Rightarrow> 's \<Rightarrow> job_result wait_start" where
  "wait_begin get_result job_id s =
     (case get_result job_id s of
        Inl _ \<Rightarrow> W_Raise (HTTPError 404 ''NOT_FOUND'')
      | Inr result \<Rightarrow>
          if js_value (jr_status result) \<in> set terminal_status_values then W_Return result else W_Wait)"

definition wait_end :: "(string \<Rightarrow> 's \<Rightarrow> exn + job_result) \<Rightarrow> string \<Rightarrow> bool \<Rightarrow> 's \<Rightarrow> exn + job_result" where
  "wait_end get_result job_id timed_out s =
     (if timed_out then Inl (HTTPError 408 ''JOB_WAIT_TIMEOUT'') else get_result job_id s)"

end
