(* ===== verification/Job_Queue_Runs.thy ===== *)
theory Job_Queue_Runs
  imports Job_Queue
begin

text \<open>
  The asyncio queue as a transition system: clients submit, cancel, report progress and wait; one
  worker takes jobs off the queue and finishes them. Between two steps any task may run, so the
  steps are the pieces of code between two suspensions. The worker can be cancelled at either of its
  suspensions, as at shutdown, and then never returns. The invariant ties the queue, the
  statuses, the gauge and the registry of waiters together. The two queues meet the contract
  \<open>job_registry\<close>, on which waiting rests.
\<close>

subsection \<open>The contract of a registry of jobs\<close>

locale job_registry =
  fixes get_result :: "string \<Rightarrow> 's \<Rightarrow> exn + job_result"
    and get_status :: "string \<Rightarrow> 's \<Rightarrow> exn + job_status"
    and list_jobs :: "time \<Rightarrow> 's \<Rightarrow> job_snapshot list"
    and results :: "'s \<Rightarrow> string \<Rightarrow> job_result option"
    and ok :: "'s \<Rightarrow> bool"
  assumes result_law: "get_result k s = (case results s k of None \<Rightarrow> Inl KeyError | Some r \<Rightarrow> Inr r)"
    and status_law: "get_status k s = (case results s k of None \<Rightarrow> Inl KeyError | Some r \<Rightarrow> Inr (jr_status r))"
    and list_law: "ok s \<Longrightarrow> snap \<in> set (list_jobs cutoff s) \<Longrightarrow>
      \<exists>r. results s (js_job_id snap) = Some r \<and> js_status snap = jr_status r \<and> js_progress snap = jr_progress r \<and>
          (jterminal (jr_status r) \<longrightarrow> cutoff - js_submitted_at snap \<le> job_retention_us)"
    and list_active_law: "ok s \<Longrightarrow> results s k = Some r \<Longrightarrow> \<not> jterminal (jr_status r) \<Longrightarrow>
      k \<in> set (map js_job_id (list_jobs cutoff s))"
begin

lemma wait_begin_cases:
  "wait_begin get_result k s =
     (case results s k of
        None \<Rightarrow> W_Raise (HTTPError 404 ''NOT_FOUND'')
      | Some r \<Rightarrow> if jterminal (jr_status r) then W_Return r else W_Wait)"
  by (simp add: wait_begin_def result_law terminal_values split: option.splits)

lemma wait_woken: "results s k = Some r \<Longrightarrow> wait_end get_result k False s = Inr r"
  by (simp add: wait_end_def result_law)

lemma active_jobs_listed:
  "ok s \<Longrightarrow> wait_begin get_result k s = W_Wait \<Longrightarrow> k \<in> set (map js_job_id (list_jobs cutoff s))"
  by (auto simp: wait_begin_cases split: option.splits if_splits intro: list_active_law simp del: set_map)

end

definition aq_results :: "aj_queue \<Rightarrow> string \<Rightarrow> job_result option" where
  "aq_results q k = map_option aj_to_result (map_of (aq_jobs q) k)"

definition aq_keyed :: "aj_queue \<Rightarrow> bool" where
  "aq_keyed q = dict_all (\<lambda>k e. aj_job_id e = k) (aq_jobs q)"

definition mq_keyed :: "mem_queue \<Rightarrow> bool" where
  "mq_keyed q = dict_all (\<lambda>k e. mj_job_id e = k \<and> jterminal (jr_status (mj_result e))) (mq_jobs q)"

lemma aq_values: "aq_keyed q \<Longrightarrow> e \<in> set (dict_values (aq_jobs q)) \<longleftrightarrow> map_of (aq_jobs q) (aj_job_id e) = Some e"
  unfolding aq_keyed_def by (erule dict_all_values) simp

lemma mq_values: "mq_keyed q \<Longrightarrow> e \<in> set (dict_values (mq_jobs q)) \<longleftrightarrow> map_of (mq_jobs q) (mj_job_id e) = Some e"
  unfolding mq_keyed_def by (erule dict_all_values) simp

interpretation aq: job_registry aq_get_result aq_get_status aq_list_jobs aq_results aq_keyed
proof (unfold_locales, goal_cases)
  case (3 s snap cutoff)
  from 3(2) obtain e where e: "e \<in> set (dict_values (aq_jobs s))"
      "is_listed cutoff (aj_status e) (aj_submitted_at e)"
    and snap: "snap = \<lparr>js_job_id = aj_job_id e, js_job_type = aj_job_type e, js_status = aj_status e,
      js_progress = aj_progress e, js_submitted_at = aj_submitted_at e\<rparr>"
    unfolding aq_list_jobs_def by (auto simp del: set_map simp: set_map [of _ "filter _ _"])
  from e(1) have "map_of (aq_jobs s) (aj_job_id e) = Some e"
    unfolding aq_values [OF 3(1)] .
  with e(2) snap show ?case by (auto simp: aq_results_def is_listed_def aj_to_result_def)
next
  case (4 s k r cutoff)
  then obtain e where e: "map_of (aq_jobs s) k = Some e" "r = aj_to_result e"
    by (auto simp: aq_results_def)
  with 4(1) have "aj_job_id e = k" by (auto simp: aq_keyed_def dest: dict_all_get)
  with e 4 have "e \<in> set (dict_values (aq_jobs s))" by (simp add: aq_values del: set_map)
  with e 4 \<open>aj_job_id e = k\<close> show ?case
    by (force simp: aq_list_jobs_def is_listed_def aj_to_result_def)
qed (auto simp: aq_get_result_def aq_get_status_def aq_results_def aj_to_result_def split: option.splits)

interpretation mq: job_registry mq_get_result mq_get_status mq_list_jobs
  "\<lambda>q k. map_option mj_result (map_of (mq_jobs q) k)" mq_keyed
proof (unfold_locales, goal_cases)
  case (3 s snap cutoff)
  from 3(2) obtain e where e: "e \<in> set (dict_values (mq_jobs s))"
      "is_listed cutoff (jr_status (mj_result e)) (mj_submitted_at e)"
    and snap: "snap = \<lparr>js_job_id = mj_job_id e, js_job_type = mj_job_type e,
      js_status = jr_status (mj_result e), js_progress = jr_progress (mj_result e),
      js_submitted_at = mj_submitted_at e\<rparr>"
    unfolding mq_list_jobs_def by (auto simp del: set_map simp: set_map [of _ "filter _ _"])
  from e(1) have "map_of (mq_jobs s) (mj_job_id e) = Some e"
    unfolding mq_values [OF 3(1)] .
  with e(2) snap show ?case by (auto simp: is_listed_def)
next
  case (4 s k r cutoff)
  then show ?case by (auto simp: mq_keyed_def dest: dict_all_get)
qed (auto simp: mq_get_result_def mq_get_status_def split: option.splits)

subsection \<open>The queue as a transition system\<close>

definition aq_stat :: "aj_queue \<Rightarrow> string \<Rightarrow> job_status option" where
  "aq_stat q k = map_option aj_status (map_of (aq_jobs q) k)"

text \<open>\<open>sy_lost\<close> is the job a worker was cancelled in, which no \<open>except\<close> clause settles.\<close>

record jsys =
  sy_q :: aj_queue
  sy_running :: "string option"
  sy_stopped :: bool
  sy_lost :: "string option"
  sy_waiting :: "(nat \<times> string) list"

definition ev_fresh :: "nat \<Rightarrow> jsys \<Rightarrow> bool" where
  "ev_fresh ev s \<longleftrightarrow> ev \<notin> fst ` set (sy_waiting s) \<and> ev \<notin> set (wt_set (aq_waiters (sy_q s)))"

definition drop_wait :: "nat \<Rightarrow> string \<Rightarrow> jsys \<Rightarrow> jsys" where
  "drop_wait ev k s =
     s\<lparr>sy_q := (sy_q s)\<lparr>aq_waiters := wait_discard k ev (aq_waiters (sy_q s))\<rparr>,
       sy_waiting := filter (\<lambda>w. fst w \<noteq> ev) (sy_waiting s)\<rparr>"

inductive aq_step :: "(rat \<Rightarrow> string) \<Rightarrow> jsys \<Rightarrow> jsys \<Rightarrow> bool" for tt where
  submit: "map_of (aq_jobs (sy_q s)) u = None \<Longrightarrow>
    aq_step tt s (s\<lparr>sy_q := aq_submit u now ty payload (sy_q s)\<rparr>)"
| register: "aq_step tt s (s\<lparr>sy_q := aq_register_handler ty tmo (sy_q s)\<rparr>)"
| progress: "aq_step tt s (s\<lparr>sy_q := aq_set_progress k v (sy_q s)\<rparr>)"
| cancel: "aq_step tt s (s\<lparr>sy_q := snd (aq_cancel k (sy_q s))\<rparr>)"
| take: "sy_running s = None \<Longrightarrow> \<not> sy_stopped s \<Longrightarrow> aq_take (sy_q s) = (r, q') \<Longrightarrow>
    aq_step tt s (s\<lparr>sy_q := q', sy_running := r\<rparr>)"
| finish: "sy_running s = Some k \<Longrightarrow> h \<noteq> H_Cancelled \<Longrightarrow>
    aq_step tt s (s\<lparr>sy_q := aq_finish tt k h (sy_q s), sy_running := None\<rparr>)"
| stop_idle: "sy_running s = None \<Longrightarrow> aq_step tt s (s\<lparr>sy_stopped := True\<rparr>)"
| stop_busy: "sy_running s = Some k \<Longrightarrow>
    aq_step tt s (s\<lparr>sy_q := aq_finish tt k H_Cancelled (sy_q s), sy_running := None, sy_stopped := True, sy_lost := Some k\<rparr>)"
| wait: "wait_begin aq_get_result k (sy_q s) = W_Wait \<Longrightarrow> ev_fresh ev s \<Longrightarrow>
    aq_step tt s (s\<lparr>sy_q := (sy_q s)\<lparr>aq_waiters := wait_register k ev (aq_waiters (sy_q s))\<rparr>,
                    sy_waiting := sy_waiting s @ [(ev, k)]\<rparr>)"
| wake: "(ev, k) \<in> set (sy_waiting s) \<Longrightarrow> ev \<in> set (wt_set (aq_waiters (sy_q s))) \<Longrightarrow>
    aq_step tt s (drop_wait ev k s)"
| time_out: "(ev, k) \<in> set (sy_waiting s) \<Longrightarrow> aq_step tt s (drop_wait ev k s)"

inductive_cases aq_stepE: "aq_step tt s s'"

definition sys_init :: "rat option \<Rightarrow> jsys" where
  "sys_init t = \<lparr>sy_q = aq_init t, sy_running = None, sy_stopped = False, sy_lost = None, sy_waiting = []\<rparr>"

subsection \<open>What each operation does to the statuses\<close>

lemma aq_write_view [simp]:
  "aq_queue (aq_write k f q) = aq_queue q" "aq_waiters (aq_write k f q) = aq_waiters q"
  "aq_active (aq_write k f q) = aq_active q" "aq_handlers (aq_write k f q) = aq_handlers q"
  "map_of (aq_jobs (aq_write k f q)) j =
     (if j = k then map_option f (map_of (aq_jobs q) k) else map_of (aq_jobs q) j)"
  by (auto simp: aq_write_def dict_simps split: option.splits)

lemma aq_done_view [simp]:
  "aq_queue (aq_done k ty q) = aq_queue q" "aq_jobs (aq_done k ty q) = aq_jobs q"
  "aq_waiters (aq_done k ty q) = notify_job_terminal k (aq_waiters q)"
  "aq_active (aq_done k ty q) = gauge_add ty (- 1) (aq_active q)"
  by (simp_all add: aq_done_def)

lemma aq_write_keyed: "aq_keyed q \<Longrightarrow> (\<And>e. aj_job_id (f e) = aj_job_id e) \<Longrightarrow> aq_keyed (aq_write k f q)"
  by (auto simp: aq_write_def aq_keyed_def split: option.splits intro!: dict_all_set dest: dict_all_get)

lemma progress_write: "aq_set_progress k v q = aq_write k (\<lambda>e. e\<lparr>aj_progress := Some v\<rparr>) q"
  by (simp add: aq_set_progress_def aq_write_def)

lemma cancel_write: "snd (aq_cancel k q) = aq_write k (\<lambda>e. e\<lparr>aj_cancel_event := True\<rparr>) q"
  by (simp add: aq_cancel_def aq_write_def split: option.splits)

text \<open>Counting the values of a dictionary that satisfy a condition.\<close>

definition dict_count :: "('v \<Rightarrow> bool) \<Rightarrow> ('k, 'v) dict \<Rightarrow> int" where
  "dict_count P d = int (length (filter P (dict_values d)))"

lemma dict_count_set:
  "distinct (dict_keys d) \<Longrightarrow> dict_count P (AList.update k v d) =
     dict_count P d - (case map_of d k of Some w \<Rightarrow> if P w then 1 else 0 | None \<Rightarrow> 0) + (if P v then 1 else 0)"
proof (induction d)
  case (Cons x d)
  show ?case
  proof (cases "fst x = k")
    case True
    with Cons.prems have "map_of d k = None" by (auto simp: map_of_eq_None_iff)
    with True show ?thesis by (cases x) (simp add: dict_count_def)
  next
    case False
    with Cons show ?thesis by (cases x) (simp add: dict_count_def)
  qed
qed (simp add: dict_count_def)

definition active_of :: "string \<Rightarrow> aj_entry \<Rightarrow> bool" where
  "active_of ty e \<longleftrightarrow> aj_job_type e = ty \<and> \<not> jterminal (aj_status e)"

definition gauge_get :: "string \<Rightarrow> aj_queue \<Rightarrow> int" where
  "gauge_get ty q = (case map_of (aq_active q) ty of None \<Rightarrow> 0 | Some n \<Rightarrow> n)"

lemma gauge_add_get:
  "(case map_of (gauge_add k d g) ty of None \<Rightarrow> 0 | Some n \<Rightarrow> n) =
     (case map_of g ty of None \<Rightarrow> 0 | Some n \<Rightarrow> n) + (if ty = k then d else (0 :: int))"
  by (simp add: gauge_add_def dict_simps)

lemma count_write:
  assumes "aq_keyed q" and "map_of (aq_jobs q) k = Some e"
  shows "dict_count P (aq_jobs (aq_write k f q)) =
    dict_count P (aq_jobs q) - (if P e then 1 else 0) + (if P (f e) then 1 else 0)"
  using assms dict_count_set [of "aq_jobs q" P k "f e"]
  by (simp add: aq_write_def aq_keyed_def dict_all_keys)

lemma count_write_same:
  assumes "aq_keyed q" and "\<And>e. P (f e) = P e"
  shows "dict_count P (aq_jobs (aq_write k f q)) = dict_count P (aq_jobs q)"
  using count_write [OF assms(1), of k _ P f] assms(2)
  by (cases "map_of (aq_jobs q) k") (auto simp: aq_write_def)

subsection \<open>The invariant\<close>

definition queue_inv :: "jsys \<Rightarrow> bool" where
  "queue_inv s \<longleftrightarrow> distinct (aq_queue (sy_q s)) \<and>
     (\<forall>k. k \<in> set (aq_queue (sy_q s)) \<longleftrightarrow> aq_stat (sy_q s) k = Some J_PENDING) \<and>
     (\<forall>k. aq_stat (sy_q s) k = Some J_RUNNING \<longleftrightarrow> sy_running s = Some k \<or> sy_lost s = Some k) \<and>
     (if sy_stopped s then sy_running s = None else sy_lost s = None)"

definition wait_inv :: "jsys \<Rightarrow> bool" where
  "wait_inv s \<longleftrightarrow> distinct (map fst (sy_waiting s)) \<and>
     (\<forall>k es. map_of (wt_events (aq_waiters (sy_q s))) k = Some es \<longrightarrow>
        (\<exists>st. aq_stat (sy_q s) k = Some st \<and> \<not> jterminal st)) \<and>
     (\<forall>(ev, k) \<in> set (sy_waiting s).
        (\<exists>es. map_of (wt_events (aq_waiters (sy_q s))) k = Some es \<and> ev \<in> set es) \<or>
        ev \<in> set (wt_set (aq_waiters (sy_q s))) \<and> ((\<exists>st. aq_stat (sy_q s) k = Some st \<and> jterminal st) \<or> sy_lost s = Some k))"

text \<open>The type of the job the worker was cancelled in: the gauge no longer counts it.\<close>

definition lost_of :: "string \<Rightarrow> jsys \<Rightarrow> int" where
  "lost_of ty s = (if Option.bind (sy_lost s) (\<lambda>k. map_option aj_job_type (map_of (aq_jobs (sy_q s)) k)) = Some ty then 1 else 0)"

definition gauge_inv :: "jsys \<Rightarrow> bool" where
  "gauge_inv s \<longleftrightarrow> (\<forall>ty. gauge_get ty (sy_q s) = dict_count (active_of ty) (aq_jobs (sy_q s)) - lost_of ty s)"

definition sys_inv :: "jsys \<Rightarrow> bool" where
  "sys_inv s \<longleftrightarrow> aq_keyed (sy_q s) \<and> queue_inv s \<and> wait_inv s \<and> gauge_inv s"

lemmas sys_inv_defs = sys_inv_def queue_inv_def wait_inv_def gauge_inv_def

lemma sys_inv_init: "sys_inv (sys_init t)"
  by (simp add: sys_inv_defs sys_init_def aq_init_def aq_keyed_def aq_stat_def gauge_get_def dict_count_def lost_of_def)

text \<open>A write that keeps type and status keeps everything.\<close>

lemma write_same_inv:
  assumes inv: "sys_inv s" and f: "\<And>e. aj_job_id (f e) = aj_job_id e" "\<And>e. aj_job_type (f e) = aj_job_type e"
    "\<And>e. aj_status (f e) = aj_status e"
  shows "sys_inv (s\<lparr>sy_q := aq_write k f (sy_q s)\<rparr>)"
proof -
  have stat: "aq_stat (aq_write k f (sy_q s)) j = aq_stat (sy_q s) j" for j
    by (cases "map_of (aq_jobs (sy_q s)) k") (auto simp: aq_stat_def f)
  have "active_of ty (f e) = active_of ty e" for ty e by (simp add: active_of_def f)
  moreover have "lost_of ty (s\<lparr>sy_q := aq_write k f (sy_q s)\<rparr>) = lost_of ty s" for ty
    by (cases "sy_lost s") (auto simp: lost_of_def f option.map_comp comp_def)
  ultimately show ?thesis using inv aq_write_keyed [of "sy_q s" f k] count_write_same [of "sy_q s"]
    by (simp add: sys_inv_defs stat f gauge_get_def)
qed

text \<open>Making a job terminal and telling its waiters.\<close>

lemma notify_get:
  "map_of (wt_events (notify_job_terminal k w)) j = (if j = k then None else map_of (wt_events w) j)"
  "set (wt_set (notify_job_terminal k w)) =
     set (wt_set w) \<union> (case map_of (wt_events w) k of None \<Rightarrow> {} | Some es \<Rightarrow> set es)"
  by (auto simp: notify_job_terminal_def dict_simps split: option.splits)

lemma stat_write:
  "aq_stat (aq_write k f q) j =
     (if j = k then map_option (aj_status \<circ> f) (map_of (aq_jobs q) k) else aq_stat q j)"
  by (simp add: aq_stat_def option.map_comp)

lemma stat_done [simp]: "aq_stat (aq_done k ty q) = aq_stat q"
  by (rule ext) (simp add: aq_stat_def)

lemma stat_frame [simp]:
  "aq_stat (q\<lparr>aq_queue := x\<rparr>) = aq_stat q" "aq_stat (q\<lparr>aq_waiters := w\<rparr>) = aq_stat q"
  "aq_stat (q\<lparr>aq_handlers := hs\<rparr>) = aq_stat q"
  "aq_keyed (q\<lparr>aq_queue := x\<rparr>) = aq_keyed q" "aq_keyed (q\<lparr>aq_waiters := w\<rparr>) = aq_keyed q"
  "aq_keyed (q\<lparr>aq_handlers := hs\<rparr>) = aq_keyed q" "aq_keyed (aq_done k ty q) = aq_keyed q"
  "gauge_get ty (q\<lparr>aq_queue := x\<rparr>) = gauge_get ty q" "gauge_get ty (q\<lparr>aq_waiters := w\<rparr>) = gauge_get ty q"
  "gauge_get ty (q\<lparr>aq_handlers := hs\<rparr>) = gauge_get ty q" "gauge_get ty (aq_write k f q) = gauge_get ty q"
  by (auto simp: aq_stat_def aq_keyed_def gauge_get_def)

lemma done_keeps:
  assumes q: "aq_keyed (sy_q s)" and w: "wait_inv s" and g: "gauge_inv s"
    and k: "map_of (aq_jobs (sy_q s)) k = Some e" "\<not> jterminal (aj_status e)"
    and f: "\<And>e. aj_job_id (f e) = aj_job_id e" "\<And>e. aj_job_type (f e) = aj_job_type e"
      "jterminal (aj_status (f e))" and live: "sy_lost s = None"
  shows "aq_keyed (aq_done k (aj_job_type e) (aq_write k f (sy_q s)))"
    and "wait_inv (s\<lparr>sy_q := aq_done k (aj_job_type e) (aq_write k f (sy_q s)), sy_running := r\<rparr>)"
    and "gauge_inv (s\<lparr>sy_q := aq_done k (aj_job_type e) (aq_write k f (sy_q s)), sy_running := r\<rparr>)"
proof -
  show "aq_keyed (aq_done k (aj_job_type e) (aq_write k f (sy_q s)))"
    using aq_write_keyed [OF q, of f k] f(1) by simp
  show "wait_inv (s\<lparr>sy_q := aq_done k (aj_job_type e) (aq_write k f (sy_q s)), sy_running := r\<rparr>)"
    using w k(1) f(3) by (fastforce simp: wait_inv_def notify_get stat_write)
  have act: "active_of ty e = (ty = aj_job_type e)" "\<not> active_of ty (f e)" for ty
    using k(2) f(3) by (auto simp: active_of_def)
  have "gauge_get ty (aq_done k (aj_job_type e) (aq_write k f (sy_q s))) =
      gauge_get ty (sy_q s) + (if ty = aj_job_type e then - 1 else 0)" for ty
    by (simp add: gauge_get_def gauge_add_get)
  then show "gauge_inv (s\<lparr>sy_q := aq_done k (aj_job_type e) (aq_write k f (sy_q s)), sy_running := r\<rparr>)"
    using g live count_write [OF q k(1), of "active_of _" f] by (simp add: gauge_inv_def act lost_of_def)
qed

lemma submit_keeps:
  assumes inv: "sys_inv s" and u: "map_of (aq_jobs (sy_q s)) u = None"
  shows "sys_inv (s\<lparr>sy_q := aq_submit u now ty payload (sy_q s)\<rparr>)"
proof -
  let ?q' = "aq_submit u now ty payload (sy_q s)"
  have stat: "aq_stat ?q' k = (if k = u then Some J_PENDING else aq_stat (sy_q s) k)" for k
    by (simp add: aq_stat_def aq_submit_def dict_simps)
  have none: "aq_stat (sy_q s) u = None" using u by (simp add: aq_stat_def)
  have keyed: "aq_keyed (sy_q s)" using inv by (simp add: sys_inv_def)
  then have "aq_keyed ?q'" by (auto simp: aq_keyed_def aq_submit_def intro: dict_all_set)
  moreover have "queue_inv (s\<lparr>sy_q := ?q'\<rparr>)"
  proof -
    have "u \<notin> set (aq_queue (sy_q s))" "sy_running s \<noteq> Some u" "sy_lost s \<noteq> Some u"
      using inv none unfolding sys_inv_def queue_inv_def by (metis option.distinct(1))+
    then show ?thesis using inv none
      by (auto simp: sys_inv_def queue_inv_def stat) (simp_all add: aq_submit_def)
  qed
  moreover have "wait_inv (s\<lparr>sy_q := ?q'\<rparr>)"
  proof -
    have "aq_waiters ?q' = aq_waiters (sy_q s)" by (simp add: aq_submit_def)
    then show ?thesis using inv none
      by (fastforce simp: sys_inv_def wait_inv_def stat terminal_statuses_def)
  qed
  moreover have lost: "lost_of ty (s\<lparr>sy_q := ?q'\<rparr>) = lost_of ty s" for ty
  proof -
    have "sy_lost s \<noteq> Some u" using inv none unfolding sys_inv_def queue_inv_def by (metis option.distinct(1))
    then show ?thesis by (cases "sy_lost s") (auto simp: lost_of_def aq_submit_def dict_simps)
  qed
  moreover have "gauge_inv (s\<lparr>sy_q := ?q'\<rparr>)"
    using inv keyed u lost
    by (auto simp: sys_inv_def gauge_inv_def gauge_get_def aq_submit_def gauge_add_get dict_count_set
        aq_keyed_def dict_all_keys active_of_def terminal_statuses_def)
  ultimately show ?thesis by (simp add: sys_inv_def)
qed

lemma queue_head:
  assumes "queue_inv s" and "aq_queue (sy_q s) = k # rest"
  obtains e where "map_of (aq_jobs (sy_q s)) k = Some e" and "aj_status e = J_PENDING"
    and "k \<notin> set rest" and "sy_running s \<noteq> Some k" and "sy_lost s \<noteq> Some k"
proof -
  have "aq_stat (sy_q s) k = Some J_PENDING"
    using assms unfolding queue_inv_def by (metis list.set_intros(1))
  moreover from this have "sy_running s \<noteq> Some k" "sy_lost s \<noteq> Some k"
    using assms(1) unfolding queue_inv_def by (metis job_status.distinct(1) option.inject)+
  moreover have "k \<notin> set rest" using assms by (simp add: queue_inv_def)
  ultimately show thesis using that by (auto simp: aq_stat_def)
qed

lemma take_keeps:
  assumes inv: "sys_inv s" and idle: "sy_running s = None" and live: "\<not> sy_stopped s" and tk: "aq_take (sy_q s) = (r, q')"
  shows "sys_inv (s\<lparr>sy_q := q', sy_running := r\<rparr>)"
proof (cases "aq_queue (sy_q s)")
  case Nil
  with tk idle inv show ?thesis by (auto simp: aq_take_def sys_inv_defs lost_of_def)
next
  case (Cons k rest)
  have qi: "queue_inv s" using inv by (simp add: sys_inv_def)
  have none: "sy_lost s = None" using qi live by (simp add: queue_inv_def)
  obtain e where e: "map_of (aq_jobs (sy_q s)) k = Some e" "aj_status e = J_PENDING" "k \<notin> set rest"
    by (rule queue_head [OF qi Cons])
  let ?s1 = "s\<lparr>sy_q := (sy_q s)\<lparr>aq_queue := rest\<rparr>\<rparr>"
  have s1: "aq_keyed (sy_q ?s1)" "wait_inv ?s1" "gauge_inv ?s1" "map_of (aq_jobs (sy_q ?s1)) k = Some e"
    using inv e none by (simp_all add: sys_inv_defs lost_of_def)
  have pend: "j \<in> set rest \<longleftrightarrow> aq_stat (sy_q s) j = Some J_PENDING \<and> j \<noteq> k" for j
    using qi Cons by (auto simp: queue_inv_def)
  have dist: "distinct rest" and norun: "aq_stat (sy_q s) j \<noteq> Some J_RUNNING" for j
    using qi Cons idle none by (auto simp: queue_inv_def)
  show ?thesis
  proof (cases "map_of (aq_handlers (sy_q s)) (aj_job_type e)")
    case None
    let ?f = "\<lambda>e'. e'\<lparr>aj_status := J_FAILED,
      aj_error := Some (''No handler registered for job type: '' @ aj_job_type e)\<rparr>"
    have q': "r = None" "q' = aq_done k (aj_job_type e) (aq_write k ?f (sy_q ?s1))"
      using tk Cons e None by (simp_all add: aq_take_def Let_def)
    have "\<not> jterminal (aj_status e)" using e(2) by (simp add: terminal_statuses_def)
    note keeps = done_keeps(1) [OF s1 this, where f = ?f]
      done_keeps(2,3) [OF s1 this, where f = ?f and r = None]
    have l1: "sy_lost ?s1 = None" using none by simp
    have "queue_inv (?s1\<lparr>sy_q := q', sy_running := None\<rparr>)"
      using pend dist norun e none live by (auto simp: queue_inv_def q'(2) stat_write)
    with keeps q' l1 show ?thesis by (simp add: sys_inv_def terminal_statuses_def)
  next
    case (Some t)
    let ?f = "\<lambda>e'. e'\<lparr>aj_status := J_RUNNING\<rparr>"
    have q': "r = Some k" "q' = aq_write k ?f (sy_q ?s1)"
      using tk Cons e Some by (simp_all add: aq_take_def Let_def)
    have "queue_inv (?s1\<lparr>sy_q := q', sy_running := r\<rparr>)"
      using pend dist norun e none live by (auto simp: queue_inv_def q' stat_write)
    moreover have "wait_inv (?s1\<lparr>sy_q := q', sy_running := r\<rparr>)"
    proof -
      have st: "aq_stat (sy_q s) k = Some J_PENDING" using e by (simp add: aq_stat_def)
      show ?thesis using s1(2) e st
        by (fastforce simp: wait_inv_def q' stat_write terminal_statuses_def)
    qed
    moreover have "gauge_inv (?s1\<lparr>sy_q := q', sy_running := r\<rparr>)"
      using s1(1,3) e count_write [OF s1(1,4), of "active_of _" ?f]
      by (simp add: gauge_inv_def q' active_of_def terminal_statuses_def none lost_of_def)
    moreover have "aq_keyed q'" using aq_write_keyed [OF s1(1), of ?f k] q' by simp
    ultimately show ?thesis by (simp add: sys_inv_def)
  qed
qed

lemma ended_frame:
  "aj_job_id (aq_ended tt q h e) = aj_job_id e" "aj_job_type (aq_ended tt q h e) = aj_job_type e"
  by (simp_all add: aq_ended_def split: handler_end.splits)

lemma ended_terminal:
  assumes "h \<noteq> H_Cancelled"
  shows "jterminal (aj_status (aq_ended tt q h e))" "aj_status (aq_ended tt q h e) \<noteq> J_PENDING"
    "aj_status (aq_ended tt q h e) \<noteq> J_RUNNING"
  using assms by (simp_all add: aq_ended_def terminal_statuses_def split: handler_end.splits)

lemma finish_keeps:
  assumes inv: "sys_inv s" and run: "sy_running s = Some k" and h: "h \<noteq> H_Cancelled"
  shows "sys_inv (s\<lparr>sy_q := aq_finish tt k h (sy_q s), sy_running := None\<rparr>)"
proof -
  have "aq_stat (sy_q s) k = Some J_RUNNING" using inv run by (simp add: sys_inv_def queue_inv_def)
  have none: "sy_lost s = None" and live: "\<not> sy_stopped s" using inv run by (auto simp: sys_inv_def queue_inv_def split: if_splits)
  from \<open>aq_stat (sy_q s) k = Some J_RUNNING\<close> obtain e where e: "map_of (aq_jobs (sy_q s)) k = Some e" "aj_status e = J_RUNNING"
    by (auto simp: aq_stat_def)
  let ?f = "aq_ended tt (sy_q s) h"
  have fin: "aq_finish tt k h (sy_q s) = aq_done k (aj_job_type e) (aq_write k ?f (sy_q s))"
    by (simp add: aq_finish_def e)
  have "\<not> jterminal (aj_status e)" using e(2) by (simp add: terminal_statuses_def)
  note keeps = done_keeps(1) [OF _ _ _ e(1) this, where f = ?f]
    done_keeps(2,3) [OF _ _ _ e(1) this, where f = ?f and r = None]
  have "queue_inv (s\<lparr>sy_q := aq_finish tt k h (sy_q s), sy_running := None\<rparr>)"
  proof -
    have st: "aq_stat (sy_q s) k \<noteq> Some J_PENDING" using e by (simp add: aq_stat_def)
    from ended_terminal [OF h] inv run e st none live show ?thesis
      by (auto simp: sys_inv_def queue_inv_def fin stat_write)
  qed
  with keeps inv none ended_frame ended_terminal [OF h] show ?thesis by (simp add: sys_inv_def fin)
qed

lemma stop_keeps:
  assumes inv: "sys_inv s" and run: "sy_running s = Some k"
  shows "sys_inv (s\<lparr>sy_q := aq_finish tt k H_Cancelled (sy_q s), sy_running := None, sy_stopped := True, sy_lost := Some k\<rparr>)"
    (is "sys_inv ?t")
proof -
  have "aq_stat (sy_q s) k = Some J_RUNNING" using inv run by (simp add: sys_inv_def queue_inv_def)
  then obtain e where e: "map_of (aq_jobs (sy_q s)) k = Some e" "aj_status e = J_RUNNING" by (auto simp: aq_stat_def)
  have none: "sy_lost s = None" using inv run by (auto simp: sys_inv_def queue_inv_def split: if_splits)
  let ?f = "aq_ended tt (sy_q s) H_Cancelled"
  have f: "?f x = x" for x by (simp add: aq_ended_def)
  have fin: "aq_finish tt k H_Cancelled (sy_q s) = aq_done k (aj_job_type e) (aq_write k ?f (sy_q s))"
    by (simp add: aq_finish_def e)
  have stat: "aq_stat (aq_finish tt k H_Cancelled (sy_q s)) j = aq_stat (sy_q s) j" for j
    by (auto simp: fin stat_write f aq_stat_def option.map_comp comp_def)
  have "aq_keyed (sy_q ?t)" using inv by (simp add: fin sys_inv_def aq_write_keyed f)
  moreover have "queue_inv ?t"
  proof -
    have "aq_queue (sy_q ?t) = aq_queue (sy_q s)" by (simp add: fin)
    then show ?thesis using inv run none by (simp add: sys_inv_def queue_inv_def stat)
  qed
  moreover have "wait_inv ?t"
  proof -
    have w: "aq_waiters (sy_q ?t) = notify_job_terminal k (aq_waiters (sy_q s))" by (simp add: fin)
    show ?thesis using inv none w by (fastforce simp: wait_inv_def sys_inv_def stat notify_get)
  qed
  moreover have "gauge_inv ?t"
  proof -
    have "gauge_get ty (sy_q ?t) = gauge_get ty (sy_q s) - (if ty = aj_job_type e then 1 else 0)" for ty
      by (simp add: fin gauge_get_def gauge_add_get)
    moreover have "dict_count P (aq_jobs (sy_q ?t)) = dict_count P (aq_jobs (sy_q s))" for P
      using inv by (simp add: fin count_write_same f sys_inv_def)
    moreover have "lost_of ty ?t = (if ty = aj_job_type e then 1 else 0)" for ty by (auto simp: lost_of_def fin e f)
    moreover have "lost_of ty s = 0" for ty by (simp add: lost_of_def none)
    ultimately show ?thesis using inv by (simp add: sys_inv_def gauge_inv_def)
  qed
  ultimately show ?thesis by (simp add: sys_inv_def)
qed

lemma discard_get:
  "map_of (wt_events (wait_discard k ev w)) j =
     (if j = k then (case map_of (wt_events w) k of None \<Rightarrow> None
        | Some es \<Rightarrow> if removeAll ev es = [] then None else Some (removeAll ev es))
      else map_of (wt_events w) j)"
  "wt_set (wait_discard k ev w) = wt_set w"
  by (auto simp: wait_discard_def Let_def dict_simps split: option.splits)

lemma drop_keeps:
  assumes inv: "sys_inv s" and mem: "(ev, k) \<in> set (sy_waiting s)"
  shows "sys_inv (drop_wait ev k s)"
proof -
  have w: "wait_inv s" using inv by (simp add: sys_inv_def)
  have "wait_inv (drop_wait ev k s)"
    unfolding wait_inv_def
  proof (intro conjI allI impI ballI, goal_cases)
    case 1
    then show ?case using w by (simp add: wait_inv_def drop_wait_def distinct_map_filter)
  next
    case (2 j es)
    then show ?case using w
      by (auto simp: wait_inv_def drop_wait_def discard_get split: if_splits option.splits)
  next
    case (3 x)
    obtain ev' j where x0: "x = (ev', j)" by (cases x)
    with 3 have x: "x = (ev', j)" "(ev', j) \<in> set (sy_waiting s)" "ev' \<noteq> ev"
      by (simp_all add: drop_wait_def)
    then consider es where "map_of (wt_events (aq_waiters (sy_q s))) j = Some es" "ev' \<in> set es"
      | "ev' \<in> set (wt_set (aq_waiters (sy_q s)))" "(\<exists>st. aq_stat (sy_q s) j = Some st \<and> jterminal st) \<or> sy_lost s = Some j"
      using w by (fastforce simp: wait_inv_def)
    then show ?case
    proof cases
      case 1
      then have "ev' \<in> set (removeAll ev es)" using x(3) by simp
      then have "removeAll ev es \<noteq> []" by force
      with 1 x show ?thesis by (auto simp: drop_wait_def discard_get)
    qed (use x in \<open>simp add: drop_wait_def discard_get\<close>)
  qed
  with inv show ?thesis by (simp add: sys_inv_defs drop_wait_def lost_of_def)
qed

lemma wait_keeps:
  assumes inv: "sys_inv s" and wb: "wait_begin aq_get_result k (sy_q s) = W_Wait" and ev: "ev_fresh ev s"
  shows "sys_inv (s\<lparr>sy_q := (sy_q s)\<lparr>aq_waiters := wait_register k ev (aq_waiters (sy_q s))\<rparr>,
    sy_waiting := sy_waiting s @ [(ev, k)]\<rparr>)"
proof -
  have k: "\<exists>st. aq_stat (sy_q s) k = Some st \<and> \<not> jterminal st"
    using wb by (auto simp: aq.wait_begin_cases aq_results_def aq_stat_def aj_to_result_def
        split: option.splits if_splits)
  have reg: "map_of (wt_events (wait_register k ev w)) j =
      (if j = k then Some ((case map_of (wt_events w) k of None \<Rightarrow> [] | Some es \<Rightarrow> es) @ [ev])
       else map_of (wt_events w) j)" "wt_set (wait_register k ev w) = wt_set w" for w j
    by (simp_all add: wait_register_def dict_simps)
  have "wait_inv (s\<lparr>sy_q := (sy_q s)\<lparr>aq_waiters := wait_register k ev (aq_waiters (sy_q s))\<rparr>,
      sy_waiting := sy_waiting s @ [(ev, k)]\<rparr>)"
    using inv k ev by (fastforce simp: sys_inv_def wait_inv_def ev_fresh_def reg)
  with inv show ?thesis by (simp add: sys_inv_defs lost_of_def)
qed

lemma aq_step_inv: "aq_step tt s s' \<Longrightarrow> sys_inv s \<Longrightarrow> sys_inv s'"
proof (induction rule: aq_step.induct)
  case (register s ty tmo)
  then show ?case by (simp add: sys_inv_defs aq_register_handler_def lost_of_def)
next
  case (progress s k v)
  then show ?case using write_same_inv [of s "\<lambda>e. e\<lparr>aj_progress := Some v\<rparr>" k] by (simp add: progress_write)
next
  case (cancel s k)
  then show ?case using write_same_inv [of s "\<lambda>e. e\<lparr>aj_cancel_event := True\<rparr>" k] by (simp add: cancel_write)
next
  case (stop_idle s)
  then show ?case by (simp add: sys_inv_defs lost_of_def split: if_splits)
qed (auto intro: submit_keeps take_keeps finish_keeps stop_keeps wait_keeps drop_keeps)

lemma reachable_inv: "(aq_step tt)\<^sup>*\<^sup>* (sys_init t) s \<Longrightarrow> sys_inv s"
  by (induction rule: rtranclp_induct) (auto intro: sys_inv_init aq_step_inv)

subsection \<open>Properties\<close>

lemma stat_keeps_terminal:
  assumes "aq_step tt s s'" and "sys_inv s" and "aq_stat (sy_q s) k = Some st" and "jterminal st"
  shows "aq_stat (sy_q s') k = Some st"
  using assms
proof (induction rule: aq_step.induct)
  case (submit s u now ty payload)
  then show ?case by (auto simp: aq_stat_def aq_submit_def dict_simps)
next
  case (register s ty tmo)
  then show ?case by (simp add: aq_register_handler_def)
next
  case (progress s j v)
  then show ?case by (auto simp: progress_write stat_write aq_stat_def)
next
  case (cancel s j)
  then show ?case by (auto simp: cancel_write stat_write aq_stat_def)
next
  case (take s r q')
  show ?case
  proof (cases "aq_queue (sy_q s)")
    case Nil
    with take show ?thesis by (auto simp: aq_take_def)
  next
    case (Cons h rest)
    have qi: "queue_inv s" using take.prems by (simp add: sys_inv_def)
    obtain e where e: "map_of (aq_jobs (sy_q s)) h = Some e" "aj_status e = J_PENDING"
      using queue_head [OF qi Cons] by metis
    then have "h \<noteq> k" using take.prems by (auto simp: aq_stat_def terminal_statuses_def)
    with take Cons e show ?thesis
      by (auto simp: aq_take_def Let_def stat_write split: if_splits)
  qed
next
  case (finish s j h)
  have "aq_stat (sy_q s) j = Some J_RUNNING"
    using finish.hyps finish.prems by (simp add: sys_inv_def queue_inv_def)
  then have "j \<noteq> k" using finish.prems by (auto simp: terminal_statuses_def)
  with finish.prems show ?case by (auto simp: aq_finish_def stat_write split: option.splits)
next
  case (stop_busy s j)
  have "aq_stat (sy_q s) j = Some J_RUNNING"
    using stop_busy.hyps stop_busy.prems by (simp add: sys_inv_def queue_inv_def)
  then have "j \<noteq> k" using stop_busy.prems by (auto simp: terminal_statuses_def)
  with stop_busy.prems show ?case by (auto simp: aq_finish_def stat_write split: option.splits)
qed (auto simp: drop_wait_def)

text \<open>
  C12. In every reachable state of the asyncio queue the jobs waiting in the queue are exactly the
  pending ones, each once. While the worker lives, at most one job runs, the one it holds, and the gauge of
  active jobs counts, per type, the jobs in no terminal state. A worker that was cancelled takes no job any more;
  if it was cancelled inside a handler, exactly that job is left running, and the gauge counts every unfinished job
  but that one.
\<close>

theorem job_queue_consistent:
  assumes "(aq_step tt)\<^sup>*\<^sup>* (sys_init t) s"
  shows "distinct (aq_queue (sy_q s)) \<and>
    (\<forall>k. k \<in> set (aq_queue (sy_q s)) \<longleftrightarrow> aq_stat (sy_q s) k = Some J_PENDING) \<and>
    (\<forall>k. aq_stat (sy_q s) k = Some J_RUNNING \<longleftrightarrow> (if sy_stopped s then sy_lost s else sy_running s) = Some k) \<and>
    (if sy_stopped s then sy_running s = None else sy_lost s = None) \<and>
    (\<forall>ty. gauge_get ty (sy_q s) =
       int (length (filter (\<lambda>e. aj_job_type e = ty \<and> \<not> jterminal (aj_status e)) (dict_values (aq_jobs (sy_q s))))) -
       (if \<exists>k e. sy_lost s = Some k \<and> map_of (aq_jobs (sy_q s)) k = Some e \<and> aj_job_type e = ty then 1 else 0))"
proof -
  have inv: "sys_inv s" by (rule reachable_inv [OF assms])
  have "lost_of ty s = (if \<exists>k e. sy_lost s = Some k \<and> map_of (aq_jobs (sy_q s)) k = Some e \<and> aj_job_type e = ty then 1 else 0)" for ty
    by (auto simp: lost_of_def Option.bind_eq_Some_conv)
  then show ?thesis using inv
    by (auto simp: sys_inv_def queue_inv_def gauge_inv_def dict_count_def active_of_def [abs_def] split: if_splits)
qed

definition one_job :: jsys where
  "one_job = (sys_init None)\<lparr>sy_q := aq_submit ''j'' 5 ''scan'' [] (aq_init None)\<rparr>"

lemma one_job_reachable: "(aq_step tt)\<^sup>*\<^sup>* (sys_init None) one_job"
proof -
  have "aq_step tt (sys_init None) ((sys_init None)\<lparr>sy_q := aq_submit ''j'' 5 ''scan'' [] (sy_q (sys_init None))\<rparr>)"
    by (rule aq_step.submit) (simp add: sys_init_def aq_init_def)
  then show ?thesis by (simp add: one_job_def sys_init_def)
qed

theorem job_queue_consistent_witness:
  "gauge_get ''scan'' (sy_q one_job) = 1 \<and> aq_stat (sy_q one_job) ''j'' = Some J_PENDING"
proof -
  note c = job_queue_consistent [OF one_job_reachable]
  have jobs: "aq_jobs (sy_q one_job) =
      [(''j'', \<lparr>aj_job_id = ''j'', aj_job_type = ''scan'', aj_payload = [], aj_status = J_PENDING,
        aj_result = JNull, aj_error = None, aj_progress = None, aj_submitted_at = 5, aj_cancel_event = False\<rparr>)]"
    by (simp add: one_job_def aq_submit_def aq_init_def)
  have "sy_lost one_job = None" by (simp add: one_job_def sys_init_def)
  then have "gauge_get ''scan'' (sy_q one_job) = int (length (filter
      (\<lambda>e. aj_job_type e = ''scan'' \<and> \<not> jterminal (aj_status e)) (dict_values (aq_jobs (sy_q one_job)))))"
    using c by simp
  moreover have "''j'' \<in> set (aq_queue (sy_q one_job))" by code_simp
  then have "aq_stat (sy_q one_job) ''j'' = Some J_PENDING" using c by blast
  ultimately show ?thesis by (simp add: jobs terminal_statuses_def)
qed

text \<open>
  C11. No wake-up is lost. In every reachable state a waiter of an unfinished job is registered for it, so that its end
  will wake it, and a waiter of a finished job has its event set and finds the job terminal when it fetches the result
  again. The one exception is the job inside whose handler the worker was cancelled, as at shutdown: whoever
  waited for it then has been woken and finds it still running.
\<close>

theorem no_lost_wakeup:
  assumes "(aq_step tt)\<^sup>*\<^sup>* (sys_init t) s" and "(ev, k) \<in> set (sy_waiting s)"
  shows "\<exists>st. aq_stat (sy_q s) k = Some st \<and>
      (if jterminal st then ev \<in> set (wt_set (aq_waiters (sy_q s))) \<and>
         (\<exists>r. wait_end aq_get_result k False (sy_q s) = Inr r \<and> jr_status r = st)
       else (\<exists>es. map_of (wt_events (aq_waiters (sy_q s))) k = Some es \<and> ev \<in> set es) \<or>
         sy_stopped s \<and> sy_lost s = Some k \<and> st = J_RUNNING \<and> ev \<in> set (wt_set (aq_waiters (sy_q s))))"
proof -
  have inv: "sys_inv s" by (rule reachable_inv [OF assms(1)])
  then have w: "wait_inv s" by (simp add: sys_inv_def)
  then consider es where "map_of (wt_events (aq_waiters (sy_q s))) k = Some es" "ev \<in> set es"
    | "ev \<in> set (wt_set (aq_waiters (sy_q s)))" "\<exists>st. aq_stat (sy_q s) k = Some st \<and> jterminal st"
    | "ev \<in> set (wt_set (aq_waiters (sy_q s)))" "sy_lost s = Some k"
    using assms(2) by (fastforce simp: wait_inv_def)
  then show ?thesis
  proof cases
    case 1
    with w obtain st where "aq_stat (sy_q s) k = Some st" "\<not> jterminal st"
      by (auto simp: wait_inv_def)
    with 1 show ?thesis by auto
  next
    case 2
    then obtain e where "map_of (aq_jobs (sy_q s)) k = Some e" "jterminal (aj_status e)"
      by (auto simp: aq_stat_def)
    moreover from this have "wait_end aq_get_result k False (sy_q s) = Inr (aj_to_result e)"
      by (intro aq.wait_woken) (simp add: aq_results_def)
    ultimately show ?thesis using 2(1) by (auto simp: aq_stat_def aj_to_result_def)
  next
    case 3
    then have "aq_stat (sy_q s) k = Some J_RUNNING" "sy_stopped s"
      using inv by (auto simp: sys_inv_def queue_inv_def split: if_splits)
    with 3 show ?thesis by (simp add: terminal_statuses_def)
  qed
qed

definition one_waiter :: jsys where
  "one_waiter = one_job\<lparr>sy_q := (sy_q one_job)\<lparr>aq_waiters := wait_register ''j'' 7 (aq_waiters (sy_q one_job))\<rparr>,
     sy_waiting := sy_waiting one_job @ [(7, ''j'')]\<rparr>"

lemma one_waiter_reachable: "(aq_step tt)\<^sup>*\<^sup>* (sys_init None) one_waiter"
proof -
  have "wait_begin aq_get_result ''j'' (sy_q one_job) = W_Wait" and "ev_fresh 7 one_job" by code_simp+
  then have "aq_step tt one_job one_waiter" unfolding one_waiter_def by (rule aq_step.wait)
  with one_job_reachable show ?thesis by (rule rtranclp.rtrancl_into_rtrancl)
qed

theorem no_lost_wakeup_witness:
  "\<exists>es. map_of (wt_events (aq_waiters (sy_q one_waiter))) ''j'' = Some es \<and> 7 \<in> set es"
proof -
  have "(7, ''j'') \<in> set (sy_waiting one_waiter)" and "aq_stat (sy_q one_waiter) ''j'' = Some J_PENDING"
    by code_simp+
  moreover have "sy_lost one_waiter = None" by (simp add: one_waiter_def one_job_def sys_init_def)
  ultimately show ?thesis using no_lost_wakeup [OF one_waiter_reachable, of 7 "''j''"]
    by (auto simp: terminal_statuses_def)
qed

text \<open>
  A terminal status is final: no later step of clients or worker changes it.
\<close>

theorem terminal_status_final:
  assumes "(aq_step tt)\<^sup>*\<^sup>* (sys_init t) s" and "(aq_step tt)\<^sup>*\<^sup>* s s'"
    and "aq_stat (sy_q s) k = Some st" and "jterminal st"
  shows "aq_stat (sy_q s') k = Some st"
  using assms(2,3)
proof (induction rule: rtranclp_induct)
  case (step s1 s2)
  have "sys_inv s1" using assms(1) step.hyps(1) by (intro reachable_inv) (rule rtranclp_trans)
  then show ?case
    by (rule stat_keeps_terminal [OF step.hyps(2) _ step.IH [OF step.prems] assms(4)])
qed

text \<open>The job has no handler, so the worker fails it.\<close>

definition no_handler_run :: jsys where
  "no_handler_run = one_job\<lparr>sy_q := snd (aq_take (sy_q one_job)), sy_running := None\<rparr>"

theorem terminal_status_final_witness:
  "aq_stat (sy_q (no_handler_run\<lparr>sy_q := snd (aq_cancel ''j'' (sy_q no_handler_run))\<rparr>)) ''j'' = Some J_FAILED"
proof -
  have idle: "sy_running one_job = None" and none: "fst (aq_take (sy_q one_job)) = None" by code_simp+
  have "aq_take (sy_q one_job) = (None, snd (aq_take (sy_q one_job)))"
    using none by (simp add: prod_eq_iff)
  moreover have "\<not> sy_stopped one_job" by (simp add: one_job_def sys_init_def)
  ultimately have "aq_step (\<lambda>_. []) one_job no_handler_run"
    unfolding no_handler_run_def by (rule aq_step.take [OF idle, rotated])
  then have r: "(aq_step (\<lambda>_. []))\<^sup>*\<^sup>* (sys_init None) no_handler_run"
    using one_job_reachable by (rule rtranclp.rtrancl_into_rtrancl [rotated])
  have "aq_step (\<lambda>_. []) no_handler_run (no_handler_run\<lparr>sy_q := snd (aq_cancel ''j'' (sy_q no_handler_run))\<rparr>)"
    by (rule aq_step.cancel)
  then have s: "(aq_step (\<lambda>_. []))\<^sup>*\<^sup>* no_handler_run
      (no_handler_run\<lparr>sy_q := snd (aq_cancel ''j'' (sy_q no_handler_run))\<rparr>)"
    by (rule r_into_rtranclp)
  have "aq_stat (sy_q no_handler_run) ''j'' = Some J_FAILED" by code_simp
  from terminal_status_final [OF r s this] show ?thesis by (simp add: terminal_statuses_def)
qed

text \<open>
  When the worker is cancelled inside a handler, no \<open>except\<close> clause runs but the \<open>finally\<close>
  does: the waiters are woken although the job is still running, and what they fetch is not a
  terminal result; the job stays running and the gauge no longer counts it.
\<close>

theorem shutdown_wakes_unfinished:
  "let q = snd (aq_take (aq_submit ''j'' 5 ''scan'' [] (aq_register_handler ''scan'' None (aq_init None))));
       q' = aq_finish tt ''j'' H_Cancelled (q\<lparr>aq_waiters := wait_register ''j'' 7 (aq_waiters q)\<rparr>)
   in 7 \<in> set (wt_set (aq_waiters q')) \<and> gauge_get ''scan'' q' = 0 \<and>
      (\<exists>r. wait_end aq_get_result ''j'' False q' = Inr r \<and> jr_status r = J_RUNNING)"
  by (simp add: aq_take_def aq_submit_def aq_register_handler_def aq_init_def aq_finish_def aq_ended_def
      aq_write_def aq_done_def notify_job_terminal_def wait_register_def gauge_get_def gauge_add_def
      wait_end_def aq_get_result_def aj_to_result_def Let_def)

text \<open>
  The in-memory queue settles a job inside \<open>submit\<close>: unless the caller itself is cancelled, the
  job is stored with a terminal status, so waiting for it returns at once, and its status and
  result agree; the configured outcome decides when no handler is registered.
\<close>

theorem mem_queue_settles:
  assumes "mq_keyed q" and "h \<noteq> H_Cancelled"
  shows "\<exists>q' r. mq_submit u now ty payload h q = (Inr u, q') \<and> mq_keyed q' \<and>
    wait_begin mq_get_result u q' = W_Return r \<and> mq_get_status u q' = Inr (jr_status r) \<and>
    jterminal (jr_status r) \<and>
    (map_of (mq_handlers q) ty = None \<longrightarrow> jr_status r =
       (case (case map_of (mq_outcomes q) ty of Some out \<Rightarrow> out | None \<Rightarrow> mq_default q) of
          O_SUCCESS \<Rightarrow> J_COMPLETED | O_FAILURE \<Rightarrow> J_FAILED | O_TIMEOUT \<Rightarrow> J_TIMEOUT))"
proof -
  define res where "res = (if map_of (mq_handlers q) ty \<noteq> None then
      (case h of H_Return v \<Rightarrow> job_ended u J_COMPLETED v None
       | H_Raise msg \<Rightarrow> job_ended u J_FAILED JNull (Some msg)
       | _ \<Rightarrow> job_ended u J_FAILED JNull (Some []))
    else mq_outcome_result u ty q)"
  define q' where "q' = q\<lparr>mq_jobs := AList.update u \<lparr>mj_job_id = u, mj_job_type = ty, mj_payload = payload,
      mj_submitted_at = now, mj_result = res\<rparr> (mq_jobs q), mq_waiters := notify_job_terminal u (mq_waiters q)\<rparr>"
  have run: "mq_submit u now ty payload h q = (Inr u, q')"
    using assms(2) by (auto simp: mq_submit_def Let_def q'_def res_def split: handler_end.splits)
  have fin: "jterminal (jr_status res)"
    by (auto simp: res_def job_ended_def mq_outcome_result_def terminal_statuses_def
        split: handler_end.splits job_outcome.splits option.splits)
  have "map_option mj_result (map_of (mq_jobs q') u) = Some res" by (simp add: q'_def dict_simps)
  then have "wait_begin mq_get_result u q' = W_Return res" "mq_get_status u q' = Inr (jr_status res)"
    using fin by (auto simp: mq.wait_begin_cases mq.status_law split: option.splits)
  moreover have "mq_keyed q'"
    using assms(1) fin by (auto simp: mq_keyed_def q'_def intro: dict_all_set)
  moreover have "map_of (mq_handlers q) ty = None \<longrightarrow> jr_status res =
       (case (case map_of (mq_outcomes q) ty of Some out \<Rightarrow> out | None \<Rightarrow> mq_default q) of
          O_SUCCESS \<Rightarrow> J_COMPLETED | O_FAILURE \<Rightarrow> J_FAILED | O_TIMEOUT \<Rightarrow> J_TIMEOUT)"
    by (auto simp: res_def job_ended_def mq_outcome_result_def split: job_outcome.splits)
  ultimately show ?thesis
    using run fin by (intro exI [of _ q'] exI [of _ res] conjI) assumption+
qed

theorem mem_queue_settles_witness:
  "\<exists>q' r. mq_submit ''j'' 5 ''scan'' [] H_Timeout (mq_set_default_outcome O_TIMEOUT mq_init) = (Inr ''j'', q') \<and>
     wait_begin mq_get_result ''j'' q' = W_Return r \<and> jr_status r = J_TIMEOUT"
proof -
  have "mq_keyed (mq_set_default_outcome O_TIMEOUT mq_init)"
    by (simp add: mq_keyed_def mq_set_default_outcome_def mq_init_def)
  from mem_queue_settles [OF this, of H_Timeout "''j''" 5 "''scan''" "[]"] show ?thesis
    by (auto simp: mq_set_default_outcome_def mq_init_def)
qed

end
