(* ===== verification/Version_Store.thy ===== *)
theory Version_Store
  imports Tables
begin

text \<open>
  Versions of a project's timeline, from \<open>src/stoat_ferret/db/version_repository.py\<close>: the table
  \<open>project_versions\<close> of \<open>db/schema.py\<close> (\<open>id INTEGER PRIMARY KEY\<close>, \<open>UNIQUE(project_id, version_number)\<close>,
  a foreign key into \<open>projects\<close>) and the dictionary of the in-memory repository. SHA-256 is an
  argument \<open>sha256_hex\<close>; the results hold for any function. The ids of existing projects are the
  argument \<open>projects\<close>, fixed while versions are written. Both stores meet one contract, against the
  history of each project, oldest version first.
\<close>

subsection \<open>Records and the protocol\<close>

record version_record =
  vr_id :: nat
  vr_project_id :: string
  vr_number :: int
  vr_json :: string
  vr_checksum :: string
  vr_created_at :: time

definition compute_checksum :: "(string \<Rightarrow> string) \<Rightarrow> string \<Rightarrow> string" where
  "compute_checksum sha256_hex timeline_json = sha256_hex timeline_json"

record 's version_repo =
  ve_save :: "time \<Rightarrow> string \<Rightarrow> string \<Rightarrow> ('s, version_record) op"
  ve_list :: "string \<Rightarrow> ('s, version_record list) op"
  ve_get :: "string \<Rightarrow> int \<Rightarrow> ('s, version_record option) op"
  ve_restore :: "time \<Rightarrow> string \<Rightarrow> int \<Rightarrow> ('s, version_record) op"
  ve_delete_old :: "string \<Rightarrow> int \<Rightarrow> ('s, int) op"

text \<open>\<open>restore\<close> reads the same in both classes: check the checksum, then save the old data anew.\<close>

definition restore_from ::
  "(string \<Rightarrow> string) \<Rightarrow> (string \<Rightarrow> int \<Rightarrow> ('s, version_record option) op) \<Rightarrow>
   (string \<Rightarrow> string \<Rightarrow> ('s, version_record) op) \<Rightarrow> string \<Rightarrow> int \<Rightarrow> ('s, version_record) op" where
  "restore_from sha get_version save p n =
     bind_op (get_version p n) (\<lambda>source. case source of
         None \<Rightarrow> throw ValueError
       | Some v \<Rightarrow>
           if compute_checksum sha (vr_json v) \<noteq> vr_checksum v then throw ValueError
           else save p (vr_json v))"

subsection \<open>SQLite\<close>

type_synonym sql_versions = "version_record list"

definition of_project :: "string \<Rightarrow> version_record \<Rightarrow> bool" where
  "of_project p r \<longleftrightarrow> vr_project_id r = p"

definition next_rowid :: "sql_versions \<Rightarrow> nat" where
  "next_rowid rows = (if rows = [] then 1 else Max (set (map vr_id rows)) + 1)"

definition sqv_next_number :: "string \<Rightarrow> sql_versions \<Rightarrow> int" where
  "sqv_next_number p rows =
     (let numbers = map vr_number (filter (of_project p) rows)
      in if numbers = [] then 1 else Max (set numbers) + 1)"

definition sqv_insert ::
  "(string \<Rightarrow> string) \<Rightarrow> string set \<Rightarrow> time \<Rightarrow> string \<Rightarrow> int \<Rightarrow> string \<Rightarrow> (sql_versions, version_record) op"
where
  "sqv_insert sha projects now p n j = (\<lambda>rows.
     if p \<notin> projects \<or> (\<exists>q \<in> set rows. vr_project_id q = p \<and> vr_number q = n)
     then (Inl IntegrityError, rows)
     else let r = \<lparr>vr_id = next_rowid rows, vr_project_id = p, vr_number = n, vr_json = j,
                   vr_checksum = compute_checksum sha j, vr_created_at = now\<rparr>
          in (Inr r, rows @ [r]))"

definition sqv_save ::
  "(string \<Rightarrow> string) \<Rightarrow> string set \<Rightarrow> time \<Rightarrow> string \<Rightarrow> string \<Rightarrow> (sql_versions, version_record) op" where
  "sqv_save sha projects now p j =
     bind_op (read_op (sqv_next_number p)) (\<lambda>n. sqv_insert sha projects now p n j)"

definition sqv_list :: "string \<Rightarrow> (sql_versions, version_record list) op" where
  "sqv_list p = read_op (\<lambda>rows. sorted_rev vr_number (filter (of_project p) rows))"

definition sqv_get :: "string \<Rightarrow> int \<Rightarrow> (sql_versions, version_record option) op" where
  "sqv_get p n = read_op (List.find (\<lambda>r. vr_project_id r = p \<and> vr_number r = n))"

definition sqv_restore ::
  "(string \<Rightarrow> string) \<Rightarrow> string set \<Rightarrow> time \<Rightarrow> string \<Rightarrow> int \<Rightarrow> (sql_versions, version_record) op" where
  "sqv_restore sha projects now = restore_from sha sqv_get (sqv_save sha projects now)"

definition sqv_delete_old :: "string \<Rightarrow> int \<Rightarrow> (sql_versions, int) op" where
  "sqv_delete_old p keep_count = (\<lambda>rows.
     let kept = map vr_number (sql_limit keep_count 0 (sorted_rev vr_number (filter (of_project p) rows)));
         rows' = filter (\<lambda>r. \<not> (vr_project_id r = p \<and> vr_number r \<notin> set kept)) rows
     in (Inr (int (length rows) - int (length rows')), rows'))"

definition sqv_repo :: "(string \<Rightarrow> string) \<Rightarrow> string set \<Rightarrow> sql_versions version_repo" where
  "sqv_repo sha projects =
     \<lparr>ve_save = sqv_save sha projects, ve_list = sqv_list, ve_get = sqv_get,
      ve_restore = sqv_restore sha projects, ve_delete_old = sqv_delete_old\<rparr>"

subsection \<open>In memory\<close>

record mem_versions =
  mv_versions :: "(string, version_record list) dict"
  mv_next_id :: nat

definition mv_init :: mem_versions where
  "mv_init = \<lparr>mv_versions = [], mv_next_id = 1\<rparr>"

definition mv_of :: "string \<Rightarrow> mem_versions \<Rightarrow> version_record list" where
  "mv_of p s = (case map_of (mv_versions s) p of None \<Rightarrow> [] | Some vs \<Rightarrow> vs)"

definition mv_save ::
  "(string \<Rightarrow> string) \<Rightarrow> time \<Rightarrow> string \<Rightarrow> string \<Rightarrow> (mem_versions, version_record) op" where
  "mv_save sha now p j = (\<lambda>s.
     let vs = mv_of p s;
         n = (if vs = [] then 1 else Max (set (map vr_number vs)) + 1);
         r = \<lparr>vr_id = mv_next_id s, vr_project_id = p, vr_number = n, vr_json = j,
              vr_checksum = compute_checksum sha j, vr_created_at = now\<rparr>
     in (Inr r, s\<lparr>mv_versions := AList.update p (vs @ [r]) (mv_versions s), mv_next_id := mv_next_id s + 1\<rparr>))"

definition mv_list :: "string \<Rightarrow> (mem_versions, version_record list) op" where
  "mv_list p = read_op (\<lambda>s. sorted_rev vr_number (mv_of p s))"

definition mv_get :: "string \<Rightarrow> int \<Rightarrow> (mem_versions, version_record option) op" where
  "mv_get p n = read_op (\<lambda>s. List.find (\<lambda>v. vr_number v = n) (mv_of p s))"

definition mv_restore ::
  "(string \<Rightarrow> string) \<Rightarrow> time \<Rightarrow> string \<Rightarrow> int \<Rightarrow> (mem_versions, version_record) op" where
  "mv_restore sha now = restore_from sha mv_get (mv_save sha now)"

definition mv_delete_old :: "string \<Rightarrow> int \<Rightarrow> (mem_versions, int) op" where
  "mv_delete_old p keep_count = (\<lambda>s.
     let vs = mv_of p s
     in if int (length vs) \<le> keep_count then (Inr 0, s)
        else let kept = py_slice 0 keep_count (sorted_rev vr_number vs)
             in (Inr (int (length vs) - int (length kept)),
                 s\<lparr>mv_versions := AList.update p kept (mv_versions s)\<rparr>))"

definition mv_repo :: "(string \<Rightarrow> string) \<Rightarrow> mem_versions version_repo" where
  "mv_repo sha =
     \<lparr>ve_save = mv_save sha, ve_list = mv_list, ve_get = mv_get, ve_restore = mv_restore sha,
      ve_delete_old = mv_delete_old\<rparr>"

end
