(* ===== verification/Version_History.thy ===== *)
theory Version_History
  imports Version_Store
begin

text \<open>
  The contract of the version stores. The abstract store keeps for each project its versions, oldest
  first, and the next row id; \<open>version_store\<close> says how each operation acts on it, and both classes
  are interpreted. Pruning keeps at least one version, as \<open>version_retention_count\<close> (\<open>ge=1\<close> in
  \<open>api/settings.py\<close>) does.
\<close>

subsection \<open>The abstract history\<close>

record history =
  hs_versions :: "string \<Rightarrow> version_record list"
  hs_next_id :: nat

definition hs_empty :: history where
  "hs_empty = \<lparr>hs_versions = (\<lambda>_. []), hs_next_id = 1\<rparr>"

definition next_number :: "version_record list \<Rightarrow> int" where
  "next_number vs = (if vs = [] then 1 else vr_number (last vs) + 1)"

definition hs_record :: "(string \<Rightarrow> string) \<Rightarrow> time \<Rightarrow> string \<Rightarrow> string \<Rightarrow> history \<Rightarrow> version_record" where
  "hs_record sha now p j h =
     \<lparr>vr_id = hs_next_id h, vr_project_id = p, vr_number = next_number (hs_versions h p), vr_json = j,
      vr_checksum = compute_checksum sha j, vr_created_at = now\<rparr>"

definition hs_add :: "version_record \<Rightarrow> history \<Rightarrow> history" where
  "hs_add r h = h\<lparr>hs_versions := (hs_versions h)(vr_project_id r := hs_versions h (vr_project_id r) @ [r]),
                 hs_next_id := hs_next_id h + 1\<rparr>"

definition hs_find :: "string \<Rightarrow> int \<Rightarrow> history \<Rightarrow> version_record option" where
  "hs_find p n h = List.find (\<lambda>r. vr_number r = n) (hs_versions h p)"

definition hs_prune :: "string \<Rightarrow> nat \<Rightarrow> history \<Rightarrow> history" where
  "hs_prune p k h =
     h\<lparr>hs_versions := (hs_versions h)(p := drop (length (hs_versions h p) - k) (hs_versions h p))\<rparr>"

definition version_ok :: "(string \<Rightarrow> string) \<Rightarrow> string \<Rightarrow> version_record \<Rightarrow> bool" where
  "version_ok sha p r \<longleftrightarrow>
     vr_project_id r = p \<and> 1 \<le> vr_number r \<and> vr_checksum r = compute_checksum sha (vr_json r)"

definition history_ok :: "(string \<Rightarrow> string) \<Rightarrow> history \<Rightarrow> bool" where
  "history_ok sha h \<longleftrightarrow>
     (\<forall>p. sorted_wrt (<) (map vr_number (hs_versions h p)) \<and> (\<forall>r \<in> set (hs_versions h p). version_ok sha p r))"

lemma history_okD:
  assumes "history_ok sha h"
  shows "sorted_wrt (<) (map vr_number (hs_versions h p))"
    and "r \<in> set (hs_versions h p) \<Longrightarrow> version_ok sha p r"
  using assms by (auto simp: history_ok_def)

lemma strict_sorted_last:
  "sorted_wrt (<) (map f vs) \<Longrightarrow> r \<in> set vs \<Longrightarrow> f r \<le> (f (last vs) :: int)"
  by (induction vs rule: rev_induct) (auto simp: sorted_wrt_append less_imp_le)

lemma next_number_fresh:
  "sorted_wrt (<) (map vr_number vs) \<Longrightarrow> r \<in> set vs \<Longrightarrow> vr_number r < next_number vs"
  by (auto simp: next_number_def dest: strict_sorted_last)

lemma next_number_Max:
  assumes "sorted_wrt (<) (map vr_number vs)"
  shows "(if vs = [] then 1 else Max (set (map vr_number vs)) + 1) = next_number vs"
proof (cases "vs = []")
  case False
  then have "Max (vr_number ` set vs) = vr_number (last vs)"
    using assms by (intro Max_eqI) (auto dest: strict_sorted_last)
  then show ?thesis using False by (simp add: next_number_def)
qed (simp add: next_number_def)

lemma history_ok_add:
  assumes ok: "history_ok sha h"
  shows "history_ok sha (hs_add (hs_record sha now p j h) h)"
proof -
  have srt: "sorted_wrt (<) (map vr_number (hs_versions h q))" for q using ok by (rule history_okD)
  have nx: "1 \<le> next_number (hs_versions h p)"
    using history_okD(2) [OF ok, of "last (hs_versions h p)" p]
    by (auto simp: next_number_def version_ok_def)
  have "sorted_wrt (<) (map vr_number (hs_versions h p @ [hs_record sha now p j h]))"
    using srt [of p] next_number_fresh [OF srt, of _ p]
    by (auto simp: sorted_wrt_append hs_record_def)
  then show ?thesis
    using ok nx by (auto simp: history_ok_def hs_add_def hs_record_def version_ok_def)
qed

lemma history_ok_prune: "history_ok sha h \<Longrightarrow> history_ok sha (hs_prune p k h)"
  by (auto simp: history_ok_def hs_prune_def drop_map [symmetric] dest: in_set_dropD)

lemma hs_find_iff:
  assumes "history_ok sha h"
  shows "hs_find p n h = Some r \<longleftrightarrow> r \<in> set (hs_versions h p) \<and> vr_number r = n"
proof -
  have "distinct (map vr_number (hs_versions h p))"
    using assms by (simp add: history_ok_def strict_sorted_iff)
  then show ?thesis
    using tbl_get_iff [of vr_number "hs_versions h p" n r] by (simp add: hs_find_def tbl_get_def)
qed

lemma hs_find_add:
  assumes "history_ok sha h" and "hs_find p n h = Some v"
  shows "hs_find p n (hs_add (hs_record sha now q j h) h) = Some v"
  using assms(2) hs_find_iff [OF assms(1)] hs_find_iff [OF history_ok_add [OF assms(1)], of p n now q j v]
  by (auto simp: hs_add_def hs_record_def)

subsection \<open>The contract\<close>

locale version_store =
  fixes repo :: "'s version_repo" and hist :: "'s \<Rightarrow> history" and ok :: "'s \<Rightarrow> bool"
    and sha :: "string \<Rightarrow> string" and projects :: "string set"
  assumes hist_law: "ok s \<Longrightarrow> history_ok sha (hist s)"
    and save_law: "ok s \<Longrightarrow> p \<in> projects \<Longrightarrow>
      \<exists>s'. ve_save repo now p j s = (Inr (hs_record sha now p j (hist s)), s') \<and> ok s' \<and>
           hist s' = hs_add (hs_record sha now p j (hist s)) (hist s)"
    and list_law: "ok s \<Longrightarrow> ve_list repo p s = (Inr (rev (hs_versions (hist s) p)), s)"
    and get_law: "ok s \<Longrightarrow> ve_get repo p n s = (Inr (hs_find p n (hist s)), s)"
    and restore_law: "ve_restore repo now = restore_from sha (ve_get repo) (ve_save repo now)"
    and delete_law: "ok s \<Longrightarrow> 1 \<le> k \<Longrightarrow>
      \<exists>s'. ve_delete_old repo p k s = (Inr (int (length (hs_versions (hist s) p) - nat k)), s') \<and> ok s' \<and>
           hist s' = hs_prune p (nat k) (hist s)"
begin

lemma restore_missing:
  "ok s \<Longrightarrow> hs_find p n (hist s) = None \<Longrightarrow> ve_restore repo now p n s = (Inl ValueError, s)"
  by (simp add: restore_law restore_from_def get_law bind_op_run)

lemma restore_found:
  assumes ok: "ok s" and p: "p \<in> projects" and v: "hs_find p n (hist s) = Some v"
  shows "\<exists>s'. ve_restore repo now p n s = (Inr (hs_record sha now p (vr_json v) (hist s)), s') \<and> ok s' \<and>
              hist s' = hs_add (hs_record sha now p (vr_json v) (hist s)) (hist s)"
proof -
  have "version_ok sha p v"
    using v history_okD(2) [OF hist_law [OF ok]] by (auto simp: hs_find_iff [OF hist_law [OF ok]])
  then have "ve_restore repo now p n s = ve_save repo now p (vr_json v) s"
    by (simp add: restore_law restore_from_def get_law [OF ok] bind_op_run v version_ok_def)
  then show ?thesis using save_law [OF ok p] by metis
qed

text \<open>A restored version is listed first with the old data, the old one stays, nothing else changes.\<close>

lemma restore_roundtrip:
  assumes ok: "ok s" and p: "p \<in> projects" and v: "hs_find p n (hist s) = Some v"
  shows "\<exists>r s'. ve_restore repo now p n s = (Inr r, s') \<and> ok s' \<and> vr_json r = vr_json v \<and>
           vr_number r = next_number (hs_versions (hist s) p) \<and>
           ve_get repo p (vr_number r) s' = (Inr (Some r), s') \<and>
           ve_get repo p n s' = (Inr (Some v), s') \<and>
           ve_list repo p s' = (Inr (r # rev (hs_versions (hist s) p)), s') \<and>
           (\<forall>q. q \<noteq> p \<longrightarrow> hs_versions (hist s') q = hs_versions (hist s) q)"
proof -
  let ?r = "hs_record sha now p (vr_json v) (hist s)"
  obtain s' where s': "ve_restore repo now p n s = (Inr ?r, s')" "ok s'" "hist s' = hs_add ?r (hist s)"
    using restore_found [OF assms] by blast
  have h': "history_ok sha (hs_add ?r (hist s))" using hist_law [OF ok] by (rule history_ok_add)
  have "hs_find p (vr_number ?r) (hs_add ?r (hist s)) = Some ?r"
    by (simp add: hs_find_iff [OF h']) (simp add: hs_add_def hs_record_def)
  then show ?thesis
    using s' hs_find_add [OF hist_law [OF ok] v]
    by (intro exI [of _ ?r] exI [of _ s'])
      (simp add: get_law list_law, simp add: hs_add_def hs_record_def)
qed

end

subsection \<open>The SQLite table meets it\<close>

definition sqv_hist :: "sql_versions \<Rightarrow> history" where
  "sqv_hist rows = \<lparr>hs_versions = (\<lambda>p. filter (of_project p) rows), hs_next_id = next_rowid rows\<rparr>"

definition sqv_ok :: "(string \<Rightarrow> string) \<Rightarrow> sql_versions \<Rightarrow> bool" where
  "sqv_ok sha rows \<longleftrightarrow> sorted_wrt (<) (map vr_id rows) \<and> history_ok sha (sqv_hist rows)"

lemma next_rowid_greater: "r \<in> set rows \<Longrightarrow> vr_id r < next_rowid rows"
  by (auto simp: next_rowid_def less_Suc_eq_le)

lemma next_rowid_last:
  assumes "sorted_wrt (<) (map vr_id rows)" and "rows \<noteq> []"
  shows "next_rowid rows = vr_id (last rows) + 1"
proof -
  have "vr_id r \<le> vr_id (last rows)" if "r \<in> set rows" for r
    using assms(1) that by (induction rows rule: rev_induct) (auto simp: sorted_wrt_append less_imp_le)
  then have "Max (vr_id ` set rows) = vr_id (last rows)"
    using assms(2) by (intro Max_eqI) auto
  then show ?thesis using assms(2) by (simp add: next_rowid_def)
qed

lemma sorted_rev_distinct:
  fixes f :: "'a \<Rightarrow> 'k::linorder"
  assumes "distinct (map f xs)"
  shows "sorted_rev f xs = rev (sort_key f xs)"
proof -
  have "sort_key f (rev xs) = sort_key f xs"
    using assms by (intro sort_key_unique) (auto simp: distinct_map)
  then show ?thesis by (simp add: sorted_rev_def)
qed

lemma sorted_rev_strict:
  fixes f :: "'a \<Rightarrow> 'k::linorder"
  shows "sorted_wrt (<) (map f xs) \<Longrightarrow> sorted_rev f xs = rev xs"
  by (subst sorted_rev_distinct) (auto simp: strict_sorted_iff sort_key_id_if_sorted)

lemma take_rev_drop: "take k (rev xs) = rev (drop (length xs - k) xs)"
  by (simp add: take_rev)

lemma sqv_save_law:
  assumes ok: "sqv_ok sha rows" and p: "p \<in> projects"
  shows "\<exists>rows'. sqv_save sha projects now p j rows = (Inr (hs_record sha now p j (sqv_hist rows)), rows') \<and>
            sqv_ok sha rows' \<and> sqv_hist rows' = hs_add (hs_record sha now p j (sqv_hist rows)) (sqv_hist rows)"
proof -
  let ?vs = "filter (of_project p) rows"
  let ?r = "hs_record sha now p j (sqv_hist rows)"
  have h: "history_ok sha (sqv_hist rows)" using ok by (simp add: sqv_ok_def)
  have srt: "sorted_wrt (<) (map vr_number ?vs)"
    using history_okD(1) [OF h, of p] by (simp add: sqv_hist_def)
  have num: "sqv_next_number p rows = next_number ?vs"
    using next_number_Max [OF srt] by (simp add: sqv_next_number_def Let_def)
  have fresh: "\<not> (\<exists>q \<in> set rows. vr_project_id q = p \<and> vr_number q = next_number ?vs)"
    using next_number_fresh [OF srt] by (force simp: of_project_def)
  have run: "sqv_save sha projects now p j rows = (Inr ?r, rows @ [?r])"
    using p fresh by (simp add: sqv_save_def bind_op_run sqv_insert_def num hs_record_def sqv_hist_def Let_def)
  have id: "vr_id ?r = next_rowid rows" by (simp add: hs_record_def sqv_hist_def)
  have ids: "sorted_wrt (<) (map vr_id (rows @ [?r]))"
    using ok next_rowid_greater by (auto simp: sqv_ok_def sorted_wrt_append id)
  have abs: "sqv_hist (rows @ [?r]) = hs_add ?r (sqv_hist rows)"
    using next_rowid_last [OF ids]
    by (auto simp: sqv_hist_def hs_add_def hs_record_def of_project_def fun_eq_iff)
  show ?thesis
    using run ids abs history_ok_add [OF h, of now p j] by (auto simp: sqv_ok_def)
qed

lemma sqv_prune_rows:
  assumes srt: "sorted_wrt (<) (map vr_number (filter (of_project p) rows))" and k: "1 \<le> k"
  defines "old \<equiv> take (length (filter (of_project p) rows) - nat k) (filter (of_project p) rows)"
  defines "new \<equiv> drop (length (filter (of_project p) rows) - nat k) (filter (of_project p) rows)"
  shows "sqv_delete_old p k rows =
      (Inr (int (length old)), filter (\<lambda>r. \<not> (vr_project_id r = p \<and> vr_number r \<notin> vr_number ` set new)) rows)"
    and "filter (of_project p) (filter (\<lambda>r. \<not> (vr_project_id r = p \<and> vr_number r \<notin> vr_number ` set new)) rows) = new"
proof -
  let ?vs = "filter (of_project p) rows"
  let ?P = "\<lambda>r. \<not> (vr_project_id r = p \<and> vr_number r \<notin> vr_number ` set new)"
  have parts: "?vs = old @ new" by (simp add: old_def new_def)
  have kept: "sql_limit k 0 (sorted_rev vr_number ?vs) = rev new"
    using k by (simp add: sql_limit_def sorted_rev_strict [OF srt] take_rev new_def)
  have disj: "vr_number ` set old \<inter> vr_number ` set new = {}"
    using srt unfolding parts by (fastforce simp: sorted_wrt_append)
  have "filter ?P ?vs = filter ?P old @ filter ?P new" unfolding parts by simp
  moreover have "set old \<subseteq> set ?vs" "set new \<subseteq> set ?vs" unfolding parts by auto
  then have "filter ?P old = []" "filter ?P new = new"
    using disj by (auto simp: filter_empty_conv filter_id_conv of_project_def)
  ultimately have vs: "filter ?P ?vs = new" by simp
  then have mine: "filter (of_project p) (filter ?P rows) = new"
    by (simp add: conj_commute)
  show "filter (of_project p) (filter ?P rows) = new" by (rule mine)
  have rest: "filter (\<lambda>r. \<not> of_project p r) (filter ?P rows) = filter (\<lambda>r. \<not> of_project p r) rows"
    by (auto simp: of_project_def intro: filter_cong)
  have "length rows = length ?vs + length (filter (\<lambda>r. \<not> of_project p r) rows)"
    by (simp add: sum_length_filter_compl)
  then have "length rows = length old + length new + length (filter (\<lambda>r. \<not> of_project p r) rows)"
    unfolding parts by simp
  moreover have "length (filter ?P rows) = length new + length (filter (\<lambda>r. \<not> of_project p r) rows)"
    using sum_length_filter_compl [of "of_project p" "filter ?P rows", symmetric] unfolding mine rest .
  ultimately have "int (length rows) - int (length (filter ?P rows)) = int (length old)"
    by linarith
  then show "sqv_delete_old p k rows = (Inr (int (length old)), filter ?P rows)"
    by (simp add: sqv_delete_old_def Let_def kept)
qed

lemma sqv_delete_law:
  assumes ok: "sqv_ok sha rows" and k: "1 \<le> k"
  shows "\<exists>rows'. sqv_delete_old p k rows =
              (Inr (int (length (hs_versions (sqv_hist rows) p) - nat k)), rows') \<and>
            sqv_ok sha rows' \<and> sqv_hist rows' = hs_prune p (nat k) (sqv_hist rows)"
proof -
  let ?vs = "filter (of_project p) rows"
  define new where "new = drop (length ?vs - nat k) ?vs"
  define P where "P = (\<lambda>r::version_record. \<not> (vr_project_id r = p \<and> vr_number r \<notin> vr_number ` set new))"
  have h: "history_ok sha (sqv_hist rows)" and ids: "sorted_wrt (<) (map vr_id rows)"
    using ok by (auto simp: sqv_ok_def)
  have srt: "sorted_wrt (<) (map vr_number ?vs)"
    using history_okD(1) [OF h, of p] by (simp add: sqv_hist_def)
  note run = sqv_prune_rows [OF srt k, folded new_def P_def]
  have ids': "sorted_wrt (<) (map vr_id (filter P rows))"
    using ids by (simp add: sorted_wrt_map sorted_wrt_filter)
  have nx: "next_rowid (filter P rows) = next_rowid rows"
  proof (cases rows rule: rev_cases)
    case (snoc rs r)
    have "P r"
    proof (cases "of_project p r")
      case True
      then have "r \<in> set new" using k by (auto simp: new_def snoc drop_append Suc_diff_le nat_le_iff)
      then show ?thesis by (simp add: P_def)
    qed (simp add: P_def of_project_def)
    then show ?thesis
      using next_rowid_last [OF ids] next_rowid_last [OF ids'] by (simp add: snoc)
  qed simp
  have other: "filter (of_project q) (filter P rows) = filter (of_project q) rows" if "q \<noteq> p" for q
    using that by (auto simp: P_def of_project_def intro: filter_cong)
  have abs: "sqv_hist (filter P rows) = hs_prune p (nat k) (sqv_hist rows)"
    using run(2) nx other by (auto simp: sqv_hist_def hs_prune_def new_def fun_eq_iff simp del: filter_filter)
  have "sqv_ok sha (filter P rows)"
    using ids' history_ok_prune [OF h] by (simp add: sqv_ok_def abs)
  then show ?thesis using run(1) abs by (auto simp: sqv_hist_def)
qed

interpretation sqv: version_store "sqv_repo sha projects" sqv_hist "sqv_ok sha" sha projects
  for sha projects
proof (unfold_locales, goal_cases)
  case (1 s) then show ?case by (simp add: sqv_ok_def)
next
  case (2 s p now j) then show ?case using sqv_save_law by (simp add: sqv_repo_def)
next
  case (3 s p)
  then have "sorted_wrt (<) (map vr_number (filter (of_project p) s))"
    using history_okD(1) [of sha "sqv_hist s" p] by (simp add: sqv_ok_def sqv_hist_def)
  then show ?case by (simp add: sqv_repo_def sqv_list_def sqv_hist_def sorted_rev_strict)
next
  case (4 s p n)
  have "List.find (\<lambda>r. vr_project_id r = p \<and> vr_number r = n) s = hs_find p n (sqv_hist s)"
    by (induction s) (auto simp: hs_find_def sqv_hist_def of_project_def)
  then show ?case by (simp add: sqv_repo_def sqv_get_def)
next
  case 5 show ?case by (rule ext) (simp add: sqv_repo_def sqv_restore_def)
next
  case (6 s k p) then show ?case using sqv_delete_law by (simp add: sqv_repo_def)
qed

subsection \<open>The dictionary meets it\<close>

definition mv_hist :: "mem_versions \<Rightarrow> history" where
  "mv_hist s = \<lparr>hs_versions = (\<lambda>p. sort_key vr_number (mv_of p s)), hs_next_id = mv_next_id s\<rparr>"

definition mv_ok :: "(string \<Rightarrow> string) \<Rightarrow> mem_versions \<Rightarrow> bool" where
  "mv_ok sha s \<longleftrightarrow> history_ok sha (mv_hist s)"

lemma sort_key_snoc:
  fixes f :: "'a \<Rightarrow> 'k::linorder"
  assumes "\<And>x. x \<in> set xs \<Longrightarrow> f x < f r" and "distinct (map f xs)"
  shows "sort_key f (xs @ [r]) = sort_key f xs @ [r]"
proof -
  have "inj_on f (set (xs @ [r]))"
    using assms by (fastforce simp: distinct_map inj_on_def)
  then show ?thesis
    using assms by (intro sorted_unique [of _ _ f])
      (auto simp: sorted_append distinct_map less_imp_le)
qed

lemma mv_of_update: "mv_of q (s\<lparr>mv_versions := AList.update p vs (mv_versions s), mv_next_id := i\<rparr>)
    = (if q = p then vs else mv_of q s)"
  by (simp add: mv_of_def dict_simps)

lemma sorted_map_strict:
  fixes f :: "'a \<Rightarrow> 'k::linorder"
  shows "sorted_wrt (<) (map f (sort_key f xs)) \<Longrightarrow> distinct (map f xs)"
  by (metis distinct_map distinct_sort set_sort strict_sorted_iff)

lemma mv_save_law:
  assumes ok: "mv_ok sha s"
  shows "\<exists>s'. mv_save sha now p j s = (Inr (hs_record sha now p j (mv_hist s)), s') \<and> mv_ok sha s' \<and>
            mv_hist s' = hs_add (hs_record sha now p j (mv_hist s)) (mv_hist s)"
proof -
  let ?vs = "mv_of p s" and ?ss = "sort_key vr_number (mv_of p s)"
  let ?r = "hs_record sha now p j (mv_hist s)"
  have h: "history_ok sha (mv_hist s)" using ok by (simp add: mv_ok_def)
  have srt: "sorted_wrt (<) (map vr_number ?ss)"
    using history_okD(1) [OF h, of p] by (simp add: mv_hist_def)
  have empty: "?ss = [] \<longleftrightarrow> ?vs = []" by (metis set_empty set_sort)
  have nums: "set (map vr_number ?ss) = set (map vr_number ?vs)" by simp
  have num: "(if ?vs = [] then 1 else Max (set (map vr_number ?vs)) + 1) = next_number ?ss"
    using next_number_Max [OF srt] by (simp only: empty nums)
  have r: "vr_number ?r = next_number ?ss" by (simp add: hs_record_def mv_hist_def)
  have snoc: "sort_key vr_number (?vs @ [?r]) = ?ss @ [?r]"
  proof (rule sort_key_snoc)
    show "vr_number v < vr_number ?r" if "v \<in> set ?vs" for v
      using next_number_fresh [OF srt, of v] that by (simp add: r)
    show "distinct (map vr_number ?vs)" using srt by (rule sorted_map_strict)
  qed
  let ?s' = "s\<lparr>mv_versions := AList.update p (?vs @ [?r]) (mv_versions s), mv_next_id := mv_next_id s + 1\<rparr>"
  have "mv_save sha now p j s = (Inr ?r, ?s')"
    by (simp only: mv_save_def Let_def num) (simp add: hs_record_def mv_hist_def)
  moreover have "mv_hist ?s' = hs_add ?r (mv_hist s)"
    using snoc by (auto simp: mv_hist_def hs_add_def mv_of_update fun_eq_iff hs_record_def)
  ultimately show ?thesis using history_ok_add [OF h, of now p j] by (auto simp: mv_ok_def)
qed

lemma mv_delete_law:
  assumes ok: "mv_ok sha s" and k: "1 \<le> k"
  shows "\<exists>s'. mv_delete_old p k s = (Inr (int (length (hs_versions (mv_hist s) p) - nat k)), s') \<and>
            mv_ok sha s' \<and> mv_hist s' = hs_prune p (nat k) (mv_hist s)"
proof -
  let ?vs = "mv_of p s" and ?ss = "sort_key vr_number (mv_of p s)"
  have h: "history_ok sha (mv_hist s)" using ok by (simp add: mv_ok_def)
  have srt: "sorted_wrt (<) (map vr_number ?ss)"
    using history_okD(1) [OF h, of p] by (simp add: mv_hist_def)
  have desc: "sorted_rev vr_number ?vs = rev ?ss"
    using srt by (intro sorted_rev_distinct) (rule sorted_map_strict)
  show ?thesis
  proof (cases "int (length ?vs) \<le> k")
    case True
    then have "hs_prune p (nat k) (mv_hist s) = mv_hist s"
      by (auto simp: hs_prune_def mv_hist_def fun_eq_iff)
    then show ?thesis using True ok by (simp add: mv_delete_old_def mv_hist_def)
  next
    case False
    let ?new = "drop (length ?vs - nat k) ?ss"
    have kept: "py_slice 0 k (rev ?ss) = rev ?new"
      using py_slice_nonneg [of 0 k "rev ?ss"] k by (simp add: take_rev)
    let ?s' = "s\<lparr>mv_versions := AList.update p (rev ?new) (mv_versions s)\<rparr>"
    have run: "mv_delete_old p k s = (Inr (int (length ?vs - nat k)), ?s')"
      using False k by (simp add: mv_delete_old_def Let_def desc kept)
    have "sorted_wrt (<) (map vr_number ?new)" using srt by (simp add: drop_map [symmetric] sorted_wrt_drop)
    then have "sort_key vr_number (rev ?new) = ?new"
      by (intro sorted_unique [of _ _ vr_number]) (auto simp: strict_sorted_iff distinct_map)
    then have "mv_hist ?s' = hs_prune p (nat k) (mv_hist s)"
      using mv_of_update [where s = s and p = p and vs = "rev ?new" and i = "mv_next_id s"]
      by (auto simp: mv_hist_def hs_prune_def fun_eq_iff)
    then show ?thesis using run history_ok_prune [OF h] by (auto simp: mv_ok_def mv_hist_def)
  qed
qed

interpretation mv: version_store "mv_repo sha" mv_hist "mv_ok sha" sha UNIV for sha
proof (unfold_locales, goal_cases)
  case (1 s) then show ?case by (simp add: mv_ok_def)
next
  case (2 s p now j) then show ?case using mv_save_law by (simp add: mv_repo_def)
next
  case (3 s p)
  then have "distinct (map vr_number (mv_of p s))"
    using history_okD(1) [of sha "mv_hist s" p] by (simp add: mv_ok_def mv_hist_def sorted_map_strict)
  then show ?case by (simp add: mv_repo_def mv_list_def mv_hist_def sorted_rev_distinct)
next
  case (4 s p n)
  then have h: "history_ok sha (mv_hist s)" by (simp add: mv_ok_def)
  then have "distinct (map vr_number (mv_of p s))"
    using history_okD(1) [OF h, of p] by (simp add: mv_hist_def sorted_map_strict)
  then have "List.find (\<lambda>v. vr_number v = n) (mv_of p s) = Some r \<longleftrightarrow> hs_find p n (mv_hist s) = Some r" for r
    using tbl_get_iff [of vr_number "mv_of p s" n r] hs_find_iff [OF h, of p n r]
    by (simp add: tbl_get_def mv_hist_def)
  then show ?case by (simp add: mv_repo_def mv_get_def) (metis not_Some_eq)
next
  case 5 show ?case by (rule ext) (simp add: mv_repo_def mv_restore_def)
next
  case (6 s k p) then show ?case using mv_delete_law by (simp add: mv_repo_def)
qed

end
