(* ===== verification/Version_Runs.thy ===== *)
theory Version_Runs
  imports Version_History
begin

text \<open>
  Sequences of calls on a version store: both stores refine the abstract history, so they answer
  alike, and a version that can be read can be restored. A call is admissible when the project
  exists and pruning keeps at least one version.
\<close>

datatype version_call =
    SaveVersion time string string
  | ListVersions string
  | GetVersion string int
  | RestoreVersion time string int
  | PruneVersions string int

datatype version_reply =
    VRecord version_record
  | VList "version_record list"
  | VFound "version_record option"
  | VCount int

fun version_run :: "'s version_repo \<Rightarrow> version_call \<Rightarrow> ('s, version_reply) op" where
  "version_run R (SaveVersion now p j) = bind_op (ve_save R now p j) (\<lambda>r. ret (VRecord r))"
| "version_run R (ListVersions p) = bind_op (ve_list R p) (\<lambda>rs. ret (VList rs))"
| "version_run R (GetVersion p n) = bind_op (ve_get R p n) (\<lambda>r. ret (VFound r))"
| "version_run R (RestoreVersion now p n) = bind_op (ve_restore R now p n) (\<lambda>r. ret (VRecord r))"
| "version_run R (PruneVersions p k) = bind_op (ve_delete_old R p k) (\<lambda>i. ret (VCount i))"

fun version_runs :: "'s version_repo \<Rightarrow> version_call list \<Rightarrow> 's \<Rightarrow> (exn + version_reply) list \<times> 's" where
  "version_runs R [] s = ([], s)"
| "version_runs R (c # cs) s =
     (let (r, s') = version_run R c s; (rs, s'') = version_runs R cs s' in (r # rs, s''))"

definition hs_save :: "(string \<Rightarrow> string) \<Rightarrow> time \<Rightarrow> string \<Rightarrow> string \<Rightarrow> (history, version_reply) op" where
  "hs_save sha now p j = (\<lambda>h. let r = hs_record sha now p j h in (Inr (VRecord r), hs_add r h))"

fun hs_call :: "(string \<Rightarrow> string) \<Rightarrow> version_call \<Rightarrow> (history, version_reply) op" where
  "hs_call sha (SaveVersion now p j) h = hs_save sha now p j h"
| "hs_call sha (ListVersions p) h = (Inr (VList (rev (hs_versions h p))), h)"
| "hs_call sha (GetVersion p n) h = (Inr (VFound (hs_find p n h)), h)"
| "hs_call sha (RestoreVersion now p n) h =
     (case hs_find p n h of None \<Rightarrow> (Inl ValueError, h) | Some v \<Rightarrow> hs_save sha now p (vr_json v) h)"
| "hs_call sha (PruneVersions p k) h =
     (Inr (VCount (int (length (hs_versions h p) - nat k))), hs_prune p (nat k) h)"

fun hs_calls :: "(string \<Rightarrow> string) \<Rightarrow> version_call list \<Rightarrow> history \<Rightarrow> (exn + version_reply) list \<times> history" where
  "hs_calls sha [] h = ([], h)"
| "hs_calls sha (c # cs) h =
     (let (r, h') = hs_call sha c h; (rs, h'') = hs_calls sha cs h' in (r # rs, h''))"

fun version_call_ok :: "string set \<Rightarrow> version_call \<Rightarrow> bool" where
  "version_call_ok projects (SaveVersion now p j) \<longleftrightarrow> p \<in> projects"
| "version_call_ok projects (RestoreVersion now p n) \<longleftrightarrow> p \<in> projects"
| "version_call_ok projects (PruneVersions p k) \<longleftrightarrow> 1 \<le> k"
| "version_call_ok projects _ \<longleftrightarrow> True"

context version_store
begin

lemma run_refines:
  assumes ok: "ok s" and c: "version_call_ok projects c"
  shows "\<exists>s'. version_run repo c s = (fst (hs_call sha c (hist s)), s') \<and> ok s' \<and>
              hist s' = snd (hs_call sha c (hist s))"
proof (cases c)
  case (SaveVersion now p j)
  then obtain s' where "ve_save repo now p j s = (Inr (hs_record sha now p j (hist s)), s')" "ok s'"
    "hist s' = hs_add (hs_record sha now p j (hist s)) (hist s)"
    using save_law [OF ok, of p now j] c by auto
  then show ?thesis using SaveVersion by (auto simp: hs_save_def Let_def)
next
  case (RestoreVersion now p n)
  show ?thesis
  proof (cases "hs_find p n (hist s)")
    case None
    then show ?thesis using RestoreVersion ok by (simp add: restore_missing)
  next
    case (Some v)
    then obtain s' where "ve_restore repo now p n s = (Inr (hs_record sha now p (vr_json v) (hist s)), s')"
      "ok s'" "hist s' = hs_add (hs_record sha now p (vr_json v) (hist s)) (hist s)"
      using restore_found [OF ok _ Some, of now] c RestoreVersion by auto
    then show ?thesis using RestoreVersion Some by (auto simp: hs_save_def Let_def)
  qed
next
  case (PruneVersions p k)
  then obtain s' where
    "ve_delete_old repo p k s = (Inr (int (length (hs_versions (hist s) p) - nat k)), s')" "ok s'"
    "hist s' = hs_prune p (nat k) (hist s)"
    using delete_law [OF ok, of k p] c by auto
  then show ?thesis using PruneVersions by auto
qed (use ok in \<open>auto simp: list_law get_law\<close>)

lemma runs_refine:
  assumes "ok s" and "\<forall>c \<in> set cs. version_call_ok projects c"
  shows "\<exists>s'. version_runs repo cs s = (fst (hs_calls sha cs (hist s)), s') \<and> ok s' \<and>
              hist s' = snd (hs_calls sha cs (hist s))"
  using assms
proof (induction cs arbitrary: s)
  case (Cons c cs)
  from run_refines [OF Cons.prems(1)] Cons.prems(2) obtain s1 where s1:
    "version_run repo c s = (fst (hs_call sha c (hist s)), s1)" "ok s1" "hist s1 = snd (hs_call sha c (hist s))"
    by (metis list.set_intros(1))
  moreover from Cons.IH [OF s1(2)] Cons.prems(2) obtain s2 where
    "version_runs repo cs s1 = (fst (hs_calls sha cs (hist s1)), s2)" "ok s2"
    "hist s2 = snd (hs_calls sha cs (hist s1))"
    by auto
  ultimately show ?case by (auto simp: Let_def split_def)
qed simp

end

lemma sqv_start: "sqv_ok sha []" "sqv_hist [] = hs_empty"
  by (auto simp: sqv_ok_def history_ok_def sqv_hist_def hs_empty_def next_rowid_def)

lemma mv_start: "mv_ok sha mv_init" "mv_hist mv_init = hs_empty"
  by (auto simp: mv_ok_def history_ok_def mv_hist_def hs_empty_def mv_init_def mv_of_def)

definition demo_calls :: "version_call list" where
  "demo_calls = [SaveVersion 1 ''p'' ''a'', SaveVersion 2 ''p'' ''b'', RestoreVersion 3 ''p'' 1,
     PruneVersions ''p'' 2, GetVersion ''p'' 1, RestoreVersion 4 ''p'' 1]"

lemma demo_calls_ok: "\<forall>c \<in> set demo_calls. version_call_ok {''p''} c"
  by (simp add: demo_calls_def)

text \<open>
  C16. Started from corresponding states, the SQLite and the in-memory version repository give the same replies on every
  sequence of admissible calls, those of the abstract history, and end in corresponding states: numbers
  count up from one above the newest version, listings are newest first, restoring appends a copy of the
  old data, and pruning keeps the newest versions. A call is admissible when a version is saved or restored
  for a project that exists, and pruning keeps at least one version; otherwise they differ.
\<close>

theorem version_stores_refine:
  assumes "\<forall>c \<in> set cs. version_call_ok projects c"
    and rows: "sqv_ok sha rows" "sqv_hist rows = h" and m: "mv_ok sha m" "mv_hist m = h"
    and h': "hs_calls sha cs h = (replies, h')"
  shows "\<exists>rows' m'. version_runs (sqv_repo sha projects) cs rows = (replies, rows') \<and>
     version_runs (mv_repo sha) cs m = (replies, m') \<and>
     sqv_ok sha rows' \<and> sqv_hist rows' = h' \<and> mv_ok sha m' \<and> mv_hist m' = h'"
proof -
  have all: "\<forall>c \<in> set cs. version_call_ok UNIV c"
    using assms(1) by (auto elim!: version_call_ok.elims)
  show ?thesis
    using sqv.runs_refine [OF rows(1) assms(1)] mv.runs_refine [OF m(1) all] unfolding rows(2) m(2) h' by auto
qed

theorem version_stores_refine_witness:
  "\<exists>rows' m'. version_runs (sqv_repo id {''p''}) demo_calls [] = (fst (hs_calls id demo_calls hs_empty), rows') \<and>
     version_runs (mv_repo id) demo_calls mv_init = (fst (hs_calls id demo_calls hs_empty), m') \<and>
     sqv_hist rows' = mv_hist m'"
proof -
  obtain replies h' where h': "hs_calls id demo_calls hs_empty = (replies, h')"
    by (cases "hs_calls id demo_calls hs_empty")
  show ?thesis
    using version_stores_refine [OF demo_calls_ok sqv_start(1) sqv_start(2) mv_start(1) mv_start(2) h'] unfolding h' by auto
qed

text \<open>
  Whatever was called before, a version that can be read can be restored: the store answers with
  a new version of the same data, numbered one above the newest and listed first; the old version
  can still be read, and the versions of other projects are untouched.
\<close>

theorem restore_version_roundtrip:
  assumes calls: "\<forall>c \<in> set cs. version_call_ok projects c"
    and rows: "rows = snd (version_runs (sqv_repo sha projects) cs [])"
    and p: "p \<in> projects" and v: "sqv_get p n rows = (Inr (Some v), rows)"
  shows "\<exists>r rows'. sqv_restore sha projects now p n rows = (Inr r, rows') \<and> vr_json r = vr_json v \<and>
           (\<forall>q \<in> set rows. vr_project_id q = p \<longrightarrow> vr_number q < vr_number r) \<and>
           sqv_get p (vr_number r) rows' = (Inr (Some r), rows') \<and>
           sqv_get p n rows' = (Inr (Some v), rows') \<and>
           (\<exists>old. sqv_list p rows = (Inr old, rows) \<and> sqv_list p rows' = (Inr (r # old), rows')) \<and>
           (\<forall>q. q \<noteq> p \<longrightarrow> filter (of_project q) rows' = filter (of_project q) rows)"
proof -
  have ok: "sqv_ok sha rows" using sqv.runs_refine [OF sqv_start(1) calls, of sha] rows by auto
  have find: "hs_find p n (sqv_hist rows) = Some v"
    using sqv.get_law [OF ok, of projects p n] v by (simp add: sqv_repo_def)
  from sqv.restore_roundtrip [OF ok p find, of now] obtain r rows' where r:
    "sqv_restore sha projects now p n rows = (Inr r, rows')" "vr_json r = vr_json v"
    "vr_number r = next_number (hs_versions (sqv_hist rows) p)"
    "sqv_get p (vr_number r) rows' = (Inr (Some r), rows')" "sqv_get p n rows' = (Inr (Some v), rows')"
    "sqv_list p rows' = (Inr (r # rev (hs_versions (sqv_hist rows) p)), rows')"
    "\<forall>q. q \<noteq> p \<longrightarrow> hs_versions (sqv_hist rows') q = hs_versions (sqv_hist rows) q"
    by (auto simp: sqv_repo_def)
  have "sqv_list p rows = (Inr (rev (hs_versions (sqv_hist rows) p)), rows)"
    using sqv.list_law [OF ok, of projects p] by (simp add: sqv_repo_def)
  moreover have "\<forall>q \<in> set rows. vr_project_id q = p \<longrightarrow> vr_number q < vr_number r"
    using next_number_fresh [OF history_okD(1) [OF sqv.hist_law [OF ok]], of _ p] r(3)
    by (simp add: sqv_hist_def of_project_def)
  ultimately show ?thesis using r by (auto simp: sqv_hist_def)
qed

theorem restore_version_roundtrip_witness:
  "\<exists>r rows'. sqv_restore id {''p''} 9 ''p'' 1
      (snd (version_runs (sqv_repo id {''p''}) [SaveVersion 1 ''p'' ''a'', SaveVersion 2 ''p'' ''b''] []))
        = (Inr r, rows') \<and> vr_json r = ''a''"
proof -
  let ?cs = "[SaveVersion 1 ''p'' ''a'', SaveVersion 2 ''p'' ''b'']"
  let ?v = "\<lparr>vr_id = 1, vr_project_id = ''p'', vr_number = 1, vr_json = ''a'', vr_checksum = ''a'', vr_created_at = 1\<rparr>"
  let ?rows = "snd (version_runs (sqv_repo id {''p''}) ?cs [])"
  have "sqv_get ''p'' 1 ?rows = (Inr (Some ?v), ?rows)"
    by (simp add: sqv_repo_def sqv_save_def sqv_insert_def sqv_next_number_def sqv_get_def of_project_def
        next_rowid_def compute_checksum_def bind_op_run Let_def)
  from restore_version_roundtrip [OF _ refl _ this, of 9] show ?thesis by fastforce
qed

text \<open>A negative count, which the settings exclude, is no limit to SQLite and a slice bound to Python; and only SQLite
  refuses a version of a project that does not exist.\<close>

lemma prune_negative_differs:
  "fst (sqv_delete_old ''p'' (-1) (snd (sqv_save id {''p''} 1 ''p'' ''a'' []))) = Inr 0 \<and>
   fst (mv_delete_old ''p'' (-1) (snd (mv_save id 1 ''p'' ''a'' mv_init))) = Inr 1"
  by (simp add: sqv_save_def sqv_insert_def sqv_next_number_def of_project_def next_rowid_def bind_op_run
      sqv_delete_old_def sql_limit_def sorted_rev_def mv_delete_old_def mv_save_def mv_init_def mv_of_def
      py_slice_def slice_bound_def Let_def)

lemma unknown_project_differs:
  "fst (sqv_save id {} 1 ''p'' ''a'' []) = Inl IntegrityError" "\<exists>r. fst (mv_save id 1 ''p'' ''a'' mv_init) = Inr r"
  by (simp_all add: sqv_save_def sqv_insert_def bind_op_run mv_save_def Let_def)

end
