(* ===== verification/Media_Models.thy ===== *)
theory Media_Models
  imports Json
begin

text \<open>
  The media records of \<open>src/stoat_ferret/db/models.py\<close> the renderer reads, and Python numbers. A number that
  comes from JSON is an int or a float (\<open>py_num\<close>), because \<open>str\<close> shows them differently; a float is the
  rational it denotes. How \<open>str\<close> shows a float is an argument where it is used.
\<close>

subsection \<open>Numbers\<close>

datatype py_num = NInt int | NFloat rat

fun num_val :: "py_num \<Rightarrow> rat" where
  "num_val (NInt i) = of_int i"
| "num_val (NFloat r) = r"

fun num_sub :: "py_num \<Rightarrow> py_num \<Rightarrow> py_num" where
  "num_sub (NInt a) (NInt b) = NInt (a - b)"
| "num_sub a b = NFloat (num_val a - num_val b)"

fun num_str :: "(rat \<Rightarrow> string) \<Rightarrow> py_num \<Rightarrow> string" where
  "num_str float_str (NInt i) = py_str_int i"
| "num_str float_str (NFloat r) = float_str r"

lemma num_val_sub [simp]: "num_val (num_sub a b) = num_val a - num_val b"
  by (cases a; cases b) simp_all

text \<open>True division of two numbers.\<close>

definition py_div :: "rat \<Rightarrow> rat \<Rightarrow> exn + rat" where
  "py_div a b = (if b = 0 then Inl ZeroDivisionError else Inr (a / b))"

subsection \<open>Clips and videos\<close>

text \<open>An entry of \<open>clip.effects\<close>, by the keys its readers ask for.\<close>

record effect_data =
  ed_effect_type :: string
  ed_parameters :: json_value
  ed_filter_string :: string
  ed_window :: "(rat \<times> rat) option"

record clip =
  cl_id :: string
  cl_project_id :: string
  cl_source_video_id :: "string option"
  cl_in_point :: int
  cl_out_point :: int
  cl_timeline_position :: int
  cl_created_at :: time
  cl_updated_at :: time
  cl_clip_type :: string
  cl_generator_params :: "(string, string) dict option"
  cl_effects :: "effect_data list option"
  cl_track_id :: "string option"
  cl_timeline_start :: "rat option"
  cl_timeline_end :: "rat option"
  cl_source_asset_id :: "string option"

record video =
  vd_id :: string
  vd_path :: string
  vd_filename :: string
  vd_duration_frames :: int
  vd_rate_numerator :: int
  vd_rate_denominator :: int
  vd_width :: int
  vd_height :: int
  vd_video_codec :: string
  vd_file_size :: int
  vd_created_at :: time
  vd_updated_at :: time
  vd_audio_codec :: "string option"
  vd_thumbnail_path :: "string option"
  vd_subtitle_count :: int
  vd_data_count :: int
  vd_subtitle_streams :: "(string, json_value) dict list"

definition frame_rate :: "video \<Rightarrow> exn + rat" where
  "frame_rate v = py_div (of_int (vd_rate_numerator v)) (of_int (vd_rate_denominator v))"

text \<open>\<open>duration_seconds\<close>.\<close>

definition duration_seconds :: "video \<Rightarrow> exn + rat" where
  "duration_seconds v = sum_bind (frame_rate v) (py_div (of_int (vd_duration_frames v)))"

subsection \<open>Projects and tracks\<close>

record project =
  pj_id :: string
  pj_name :: string
  pj_output_width :: int
  pj_output_height :: int
  pj_output_fps :: int
  pj_created_at :: time
  pj_updated_at :: time
  pj_transitions :: "(string, json_value) dict list option"
  pj_audio_mix :: "json_value option"
  pj_sample_rate :: int
  pj_bit_depth :: int

record track =
  tk_id :: string
  tk_project_id :: string
  tk_track_type :: string
  tk_label :: string
  tk_z_index :: int
  tk_muted :: bool
  tk_locked :: bool
  tk_kind :: "string option"
  tk_volume_envelope :: "string option"
  tk_weight :: rat

end
