(* ===== verification/Render_Command.thy ===== *)
theory Render_Command
  imports Media_Models Render_Models
begin

text \<open>
  How \<open>src/stoat_ferret/render/worker.py\<close> builds the FFmpeg command line of a job. The builders append
  to one argument list; here each returns what it appends. The Rust translator of the video graph,
  the constructors of its values, the repositories and the effect registry are fields of an
  environment. The JSON plan is read as the record its readers expect, an absent key being \<open>None\<close>;
  values of another type, which \<open>RenderSettings\<close> refuses at submission, are not modelled.
\<close>

subsection \<open>What the builder reads\<close>

datatype render_effect = FxNone | FxCustom string | FxWindowed string rat rat bool

record clip_with_effects =
  cw_input_index :: nat
  cw_duration :: rat
  cw_framerate :: py_num
  cw_source_path :: string
  cw_effects :: "render_effect list"
  cw_transition :: "(string \<times> py_num) option"

record effect_def =
  df_stream_kind :: string
  df_timeline_t_capable :: bool
  df_build_fn :: "json_value \<Rightarrow> exn + string"

record asset =
  as_file_path :: string
  as_deleted :: bool

record transition =
  tr_clip_a_id :: string
  tr_type :: string
  tr_duration :: py_num

record soft_subtitle =
  ss_asset_id :: string
  ss_language :: string
  ss_is_default :: bool

record plan_settings =
  ps_codec :: "string option"
  ps_fps :: "py_num option"
  ps_width :: "py_num option"
  ps_height :: "py_num option"
  ps_quality_preset :: "string option"
  ps_filter_graph :: "string option"
  ps_transitions :: "transition list"
  ps_soft_subtitles :: "soft_subtitle list"

record segment =
  sg_timeline_start :: "py_num option"
  sg_timeline_end :: "py_num option"

record render_plan =
  pl_settings :: "plan_settings option"
  pl_total_duration :: "py_num option"
  pl_segments :: "segment list"

record tts_input =
  ti_audio_path :: string
  ti_start_s :: rat
  ti_weight :: rat

record command_env =
  ce_loads :: "string \<Rightarrow> render_plan option"
  ce_float_str :: "rat \<Rightarrow> string"
  ce_clips :: "string \<Rightarrow> clip list"
  ce_videos :: "string \<Rightarrow> video option"
  ce_assets :: "(string \<Rightarrow> asset option) option"
  ce_registry :: "(string \<Rightarrow> effect_def option) option"
  ce_transition_error :: "string \<Rightarrow> py_num \<Rightarrow> exn option"
  ce_window_error :: "rat \<Rightarrow> rat \<Rightarrow> exn option"
  ce_clip_error :: "clip_with_effects \<Rightarrow> exn option"
  ce_translate :: "clip_with_effects list \<Rightarrow> py_num \<Rightarrow> exn + (string \<times> string list)"

abbreviation plan_codec :: "plan_settings \<Rightarrow> string" where
  "plan_codec st \<equiv> get_or ''libx264'' (ps_codec st)"

abbreviation plan_fps :: "plan_settings \<Rightarrow> py_num" where
  "plan_fps st \<equiv> get_or (NFloat 30) (ps_fps st)"

abbreviation num_text :: "command_env \<Rightarrow> py_num \<Rightarrow> string" where
  "num_text en \<equiv> num_str (ce_float_str en)"

definition raise_if :: "exn option \<Rightarrow> exn + unit" where
  "raise_if e = (case e of None \<Rightarrow> Inr () | Some x \<Rightarrow> Inl x)"

definition quality_crf :: "(string, string) dict" where
  "quality_crf = [(''draft'', ''28''), (''standard'', ''23''), (''high'', ''18'')]"

subsection \<open>Languages of subtitles\<close>

definition bcp47_table :: "(string, string) dict" where
  "bcp47_table = [(''en'', ''eng''), (''es'', ''spa''), (''fr'', ''fra''), (''de'', ''deu''), (''it'', ''ita''),
     (''ja'', ''jpn''), (''zh'', ''zho''), (''pt'', ''por''), (''ru'', ''rus''), (''ar'', ''ara'')]"

text \<open>\<open>str.lower\<close> on the letters a tag can have.\<close>

definition lower_char :: "char \<Rightarrow> char" where
  "lower_char c = (if 65 \<le> (of_char c :: nat) \<and> (of_char c :: nat) \<le> 90 then char_of ((of_char c :: nat) + 32) else c)"

definition lower :: "string \<Rightarrow> string" where
  "lower s = map lower_char s"

definition base_tag :: "string \<Rightarrow> string" where
  "base_tag language = lower (hd (str_split (CHR ''-'') language))"

definition validate_language :: "string \<Rightarrow> exn + string" where
  "validate_language v = (if map_of bcp47_table (base_tag v) = None then Inl ValueError else Inr v)"

definition bcp47_to_iso639 :: "string \<Rightarrow> exn + string" where
  "bcp47_to_iso639 language =
     (case map_of bcp47_table (base_tag language) of None \<Rightarrow> Inl KeyError | Some code \<Rightarrow> Inr code)"

fun validate_render_settings :: "soft_subtitle list \<Rightarrow> exn + soft_subtitle list" where
  "validate_render_settings [] = Inr []"
| "validate_render_settings (sp # sps) =
     sum_bind (validate_language (ss_language sp)) (\<lambda>_.
     sum_bind (validate_render_settings sps) (\<lambda>rest. Inr (sp # rest)))"

fun subtitle_stream_flags :: "nat \<Rightarrow> soft_subtitle list \<Rightarrow> exn + string list" where
  "subtitle_stream_flags idx [] = Inr []"
| "subtitle_stream_flags idx (sp # sps) =
     sum_bind (bcp47_to_iso639 (ss_language sp)) (\<lambda>iso639.
     sum_bind (subtitle_stream_flags (idx + 1) sps) (\<lambda>rest.
       Inr ([''-metadata:s:s:'' @ dec idx, ''language='' @ iso639] @
            (if ss_is_default sp then [''-disposition:s:'' @ dec idx, ''default''] else []) @ rest)))"

definition soft_subtitle_output_flags :: "output_format \<Rightarrow> soft_subtitle list \<Rightarrow> exn + string list" where
  "soft_subtitle_output_flags fmt sps =
     (let name = lower (of_value fmt) in
      sum_bind (if name = ''mp4'' then Inr [''-c:s'', ''mov_text'']
                else if name = ''mkv'' \<or> name = ''matroska'' then Inr [''-c:s'', ''srt'']
                else Inl ValueError) (\<lambda>codec.
      sum_bind (subtitle_stream_flags 0 sps) (\<lambda>flags. Inr (codec @ flags))))"

subsection \<open>Sources and effects of a clip\<close>

definition resolve_subtitle_asset_path :: "command_env \<Rightarrow> soft_subtitle \<Rightarrow> exn + string" where
  "resolve_subtitle_asset_path en sp =
     (case ce_assets en of
        None \<Rightarrow> Inl CommandBuildError
      | Some get_by_id \<Rightarrow> (case get_by_id (ss_asset_id sp) of
            None \<Rightarrow> Inl CommandBuildError
          | Some a \<Rightarrow> if as_deleted a then Inl CommandBuildError else Inr (as_file_path a)))"

definition build_generator_source :: "(string, string) dict \<Rightarrow> exn + string" where
  "build_generator_source params =
     (if given (map_of params ''lavfi_string'') then Inr (get_or [] (map_of params ''lavfi_string''))
      else Inl CommandBuildError)"

text \<open>\<open>str(None)\<close> is \<open>None\<close>, the id an image clip without an asset is looked up by.\<close>

definition resolve_image :: "command_env \<Rightarrow> clip \<Rightarrow> exn + string" where
  "resolve_image en c =
     (case ce_assets en of
        None \<Rightarrow> Inl CommandBuildError
      | Some get_by_id \<Rightarrow> (case get_by_id (get_or ''None'' (cl_source_asset_id c)) of
            None \<Rightarrow> Inl CommandBuildError
          | Some a \<Rightarrow> if as_deleted a then Inl CommandBuildError else Inr (as_file_path a)))"

definition resolve_file :: "command_env \<Rightarrow> clip \<Rightarrow> exn + (string \<times> string option \<times> py_num)" where
  "resolve_file en c =
     (case cl_source_video_id c of
        None \<Rightarrow> Inl CommandBuildError
      | Some k \<Rightarrow> (case ce_videos en k of
            None \<Rightarrow> Inl CommandBuildError
          | Some v \<Rightarrow>
              if vd_path v = [] then Inl CommandBuildError
              else sum_bind (frame_rate v) (\<lambda>rate. Inr (vd_path v, vd_audio_codec v, NFloat rate))))"

definition resolve_clip_source :: "command_env \<Rightarrow> clip \<Rightarrow> py_num \<Rightarrow> exn + (string \<times> string option \<times> py_num)" where
  "resolve_clip_source en c fps =
     (if cl_clip_type c = ''image'' then sum_bind (resolve_image en c) (\<lambda>path. Inr (path, None, fps))
      else if cl_clip_type c = ''generator''
        then sum_bind (build_generator_source (get_or [] (cl_generator_params c))) (\<lambda>src. Inr (src, None, fps))
      else resolve_file en c)"

text \<open>One entry of \<open>clip.effects\<close>: it adds a video effect or an audio filter chain.\<close>

definition clip_render_effect ::
  "command_env \<Rightarrow> (string \<Rightarrow> effect_def option) \<Rightarrow> effect_data \<Rightarrow>
   exn + (render_effect list \<times> string list)" where
  "clip_render_effect en registry ed =
     (case registry (ed_effect_type ed) of
        None \<Rightarrow> Inl CommandBuildError
      | Some defn \<Rightarrow>
          sum_bind (df_build_fn defn (ed_parameters ed)) (\<lambda>filter_str.
            if df_stream_kind defn = ''a'' then Inr ([], [filter_str])
            else case ed_window ed of
              None \<Rightarrow> Inr ([FxCustom filter_str], [])
            | Some (start_s, end_s) \<Rightarrow>
                sum_bind (raise_if (ce_window_error en start_s end_s)) (\<lambda>_.
                  Inr ([FxWindowed filter_str start_s end_s (df_timeline_t_capable defn)], []))))"

fun render_effects_of ::
  "command_env \<Rightarrow> (string \<Rightarrow> effect_def option) \<Rightarrow> effect_data list \<Rightarrow> exn + (render_effect list \<times> string list)"
where
  "render_effects_of en registry [] = Inr ([], [])"
| "render_effects_of en registry (ed # eds) =
     sum_bind (clip_render_effect en registry ed) (\<lambda>(fx, au).
     sum_bind (render_effects_of en registry eds) (\<lambda>(fxs, aus). Inr (fx @ fxs, au @ aus)))"

definition build_clip_render_effects :: "command_env \<Rightarrow> clip \<Rightarrow> exn + (render_effect list \<times> string list)" where
  "build_clip_render_effects en c =
     sum_bind (case ce_registry en of
                 None \<Rightarrow> Inr ([], [])
               | Some registry \<Rightarrow> render_effects_of en registry (get_or [] (cl_effects c))) (\<lambda>(fxs, aus).
       Inr (if fxs = [] then [FxNone] else fxs, aus))"

subsection \<open>Audio from speech cues\<close>

fun tts_parts :: "nat \<Rightarrow> nat \<Rightarrow> tts_input list \<Rightarrow> string list" where
  "tts_parts base i [] = []"
| "tts_parts base i (inp # inps) =
     (let delay_ms = py_str_int (py_int (ti_start_s inp * 1000))
      in (''['' @ dec (base + i) @ '':a]adelay='' @ delay_ms @ ''|'' @ delay_ms @
          '',aformat=channel_layouts=stereo[tts'' @ dec i @ '']'')
         # tts_parts base (i + 1) inps)"

definition tts_labels :: "nat \<Rightarrow> string list" where
  "tts_labels n = map (\<lambda>i. ''[tts'' @ dec i @ '']'') [0..<n]"

definition build_tts_audio_filter :: "command_env \<Rightarrow> tts_input list \<Rightarrow> nat \<Rightarrow> string \<times> string" where
  "build_tts_audio_filter en inps base =
     (let parts = tts_parts base 0 inps; labels = tts_labels (length inps)
      in if length labels = 1 then (hd parts, hd labels)
         else (str_join '';'' parts @ '';'' @ concat labels @ ''amix=inputs='' @ dec (length labels) @ '':weights='' @
               str_join '' '' (map (\<lambda>inp. ce_float_str en (ti_weight inp)) inps) @
               '':duration=longest[tts_mix]'', ''[tts_mix]''))"

text \<open>Synthesis before a render, by the fields of a cue it reads; \<open>tc_asset\<close> is \<open>generated_asset_id\<close>.\<close>

record tts_cue =
  tc_id :: string
  tc_status :: string
  tc_asset :: string
  tc_start_s :: rat

text \<open>
  \<open>synth k\<close> is what dispatching the synthesis of cue \<open>k\<close> raises, if anything; \<open>finishes k\<close> tells
  whether its task, if there is one, is done within the 15 seconds.
\<close>

fun dispatch_and_wait_for_cues :: "(string \<Rightarrow> exn option) \<Rightarrow> (string \<Rightarrow> bool) \<Rightarrow> tts_cue list \<Rightarrow> exn + unit" where
  "dispatch_and_wait_for_cues synth finishes [] = Inr ()"
| "dispatch_and_wait_for_cues synth finishes (cue # cues) =
     (if tc_status cue = ''failed'' then Inl CommandBuildError
      else if tc_status cue = ''pending'' \<or> tc_status cue = ''synthesising''
        then sum_bind (if tc_status cue = ''pending'' then raise_if (synth (tc_id cue)) else Inr ()) (\<lambda>_.
             if \<not> finishes (tc_id cue) then Inl CommandBuildError
             else dispatch_and_wait_for_cues synth finishes cues)
      else dispatch_and_wait_for_cues synth finishes cues)"

fun build_tts_audio_inputs :: "tts_cue list \<Rightarrow> exn + tts_input list" where
  "build_tts_audio_inputs [] = Inr []"
| "build_tts_audio_inputs (cue # cues) =
     (if tc_status cue = ''failed'' then Inl CommandBuildError
      else if tc_status cue \<noteq> ''ready'' then Inl CommandBuildError
      else sum_bind (build_tts_audio_inputs cues) (\<lambda>rest.
             Inr (\<lparr>ti_audio_path = tc_asset cue, ti_start_s = tc_start_s cue, ti_weight = 1\<rparr> # rest)))"

definition run_tts_preflight ::
  "(string \<Rightarrow> exn option) \<Rightarrow> (string \<Rightarrow> bool) \<Rightarrow> tts_cue list \<Rightarrow> tts_cue list \<Rightarrow> exn + tts_input list" where
  "run_tts_preflight synth finishes cues refetched =
     (if cues = [] then Inr []
      else sum_bind (dispatch_and_wait_for_cues synth finishes cues) (\<lambda>_. build_tts_audio_inputs refetched))"

subsection \<open>Inputs of several clips\<close>

record clip_inputs =
  ci_cwe :: "clip_with_effects list"
  ci_durations :: "rat list"
  ci_audio_codec :: "string option"
  ci_audio_input :: nat
  ci_in_points :: "rat list"
  ci_audio_indices :: "nat list"
  ci_transitions :: "py_num option list"
  ci_audio_filters :: "string list list"

definition ci_empty :: clip_inputs where
  "ci_empty = \<lparr>ci_cwe = [], ci_durations = [], ci_audio_codec = None, ci_audio_input = 0, ci_in_points = [],
     ci_audio_indices = [], ci_transitions = [], ci_audio_filters = []\<rparr>"

text \<open>The transition saved for a clip: the last one of its id, as the dict comprehension keeps it.\<close>

definition transition_lookup :: "transition list \<Rightarrow> string \<Rightarrow> transition option" where
  "transition_lookup ts k = List.find (\<lambda>t. tr_clip_a_id t = k) (rev ts)"

definition clip_duration :: "clip \<Rightarrow> py_num \<Rightarrow> py_num \<Rightarrow> exn + rat" where
  "clip_duration c fps framerate =
     (if cl_clip_type c = ''image'' then Inr (get_or 0 (cl_timeline_end c) - get_or 0 (cl_timeline_start c))
      else if cl_clip_type c = ''generator'' then py_div (of_int (cl_out_point c - cl_in_point c)) (num_val fps)
      else py_div (of_int (cl_out_point c - cl_in_point c)) (num_val framerate))"

definition is_file :: "clip \<Rightarrow> bool" where
  "is_file c \<longleftrightarrow> cl_clip_type c \<noteq> ''image'' \<and> cl_clip_type c \<noteq> ''generator''"

text \<open>\<open>if source_audio_codec_mc is None and clip_audio_codec\<close>, and the list of inputs with audio.\<close>

definition note_audio :: "nat \<Rightarrow> clip \<Rightarrow> string option \<Rightarrow> clip_inputs \<Rightarrow> clip_inputs" where
  "note_audio i c codec ci =
     (if \<not> is_file c then ci
      else let ci' = (if ci_audio_codec ci = None \<and> given codec
                      then ci\<lparr>ci_audio_codec := codec, ci_audio_input := i\<rparr> else ci)
           in if codec \<noteq> None then ci'\<lparr>ci_audio_indices := ci_audio_indices ci' @ [i]\<rparr> else ci')"

definition clip_in_seconds :: "clip \<Rightarrow> py_num \<Rightarrow> exn + rat" where
  "clip_in_seconds c framerate =
     (if cl_clip_type c = ''file'' then py_div (of_int (cl_in_point c)) (num_val framerate) else Inr 0)"

definition add_clip_input ::
  "command_env \<Rightarrow> plan_settings \<Rightarrow> py_num \<Rightarrow> nat \<Rightarrow> clip \<Rightarrow> clip_inputs \<Rightarrow> exn + clip_inputs" where
  "add_clip_input en st fps i c ci =
     sum_bind (resolve_clip_source en c fps) (\<lambda>(path, codec, framerate).
     sum_bind (clip_duration c fps framerate) (\<lambda>dur.
     if dur \<le> 0 then Inl CommandBuildError
     else sum_bind (clip_in_seconds c framerate) (\<lambda>in_secs.
          sum_bind (build_clip_render_effects en c) (\<lambda>(fxs, audio).
          let tr = transition_lookup (ps_transitions st) (cl_id c);
              outgoing = map_option (\<lambda>t. (tr_type t, tr_duration t)) tr;
              cwe = \<lparr>cw_input_index = i, cw_duration = dur, cw_framerate = framerate, cw_source_path = path,
                     cw_effects = fxs, cw_transition = outgoing\<rparr>;
              ci' = note_audio i c codec ci
          in sum_bind (case outgoing of None \<Rightarrow> Inr ()
                       | Some (ty, d) \<Rightarrow> raise_if (ce_transition_error en ty d)) (\<lambda>_.
             sum_bind (raise_if (ce_clip_error en cwe)) (\<lambda>_.
               Inr (ci'\<lparr>ci_cwe := ci_cwe ci' @ [cwe], ci_durations := ci_durations ci' @ [dur],
                        ci_in_points := ci_in_points ci' @ [in_secs],
                        ci_transitions := ci_transitions ci' @ [map_option tr_duration tr],
                        ci_audio_filters := ci_audio_filters ci' @ [audio]\<rparr>)))))))"

fun clip_input_loop ::
  "command_env \<Rightarrow> plan_settings \<Rightarrow> py_num \<Rightarrow> nat \<Rightarrow> clip list \<Rightarrow> clip_inputs \<Rightarrow> exn + clip_inputs" where
  "clip_input_loop en st fps i [] ci = Inr ci"
| "clip_input_loop en st fps i (c # cs) ci =
     sum_bind (add_clip_input en st fps i c ci) (clip_input_loop en st fps (i + 1) cs)"

definition build_clip_input_list ::
  "command_env \<Rightarrow> plan_settings \<Rightarrow> py_num \<Rightarrow> clip list \<Rightarrow> exn + clip_inputs" where
  "build_clip_input_list en st fps clips = clip_input_loop en st fps 0 clips ci_empty"

subsection \<open>The audio of several clips\<close>

text \<open>
  \<open>outgoing_transition\<close> has no getter in the binding (\<open>_core.pyi\<close>), so the fall-back of
  \<open>_get_transition_duration\<close> finds nothing on the object and answers one second.
\<close>

definition get_transition_duration :: "nat \<Rightarrow> py_num option list \<Rightarrow> py_num" where
  "get_transition_duration k durations =
     (if k - 1 < length durations
      then (case durations ! (k - 1) of Some d \<Rightarrow> d | None \<Rightarrow> NFloat 1)
      else NFloat 1)"

text \<open>The filters an input needs before it can be mixed, and the label it then has.\<close>

definition audio_source :: "command_env \<Rightarrow> clip_inputs \<Rightarrow> nat \<Rightarrow> string list \<times> string" where
  "audio_source en ci i =
     (if i \<in> set (ci_audio_indices ci)
      then let clip_filters = (if i < length (ci_audio_filters ci) then ci_audio_filters ci ! i else [])
           in if clip_filters \<noteq> []
              then ([''['' @ dec i @ '':a]'' @ str_join '','' clip_filters @ ''[a'' @ dec i @ ''_eff]''],
                    ''[a'' @ dec i @ ''_eff]'')
              else ([], ''['' @ dec i @ '':a]'')
      else ([''anullsrc=r=48000:cl=stereo:d='' @ ce_float_str en (ci_durations ci ! i) @
             ''[a'' @ dec i @ ''_silent]''],
            ''[a'' @ dec i @ ''_silent]''))"

definition whole_text :: "command_env \<Rightarrow> py_num \<Rightarrow> string" where
  "whole_text en t =
     (if num_val t = of_int (py_int (num_val t)) then py_str_int (py_int (num_val t)) else num_text en t)"

definition crossfade_out :: "nat \<Rightarrow> nat \<Rightarrow> string" where
  "crossfade_out n k = (if k < n - 1 then ''[xa'' @ dec (k - 1) @ '']'' else ''[aout]'')"

text \<open>The loop over \<open>k\<close>: \<open>current\<close> is the label of what is mixed so far, the list what is still to come.\<close>

fun crossfade_nodes :: "command_env \<Rightarrow> clip_inputs \<Rightarrow> nat \<Rightarrow> nat \<Rightarrow> string \<Rightarrow> string list \<Rightarrow> string list" where
  "crossfade_nodes en ci n k current [] = []"
| "crossfade_nodes en ci n k current (label # labels) =
     (current @ label @ ''acrossfade=d='' @ whole_text en (get_transition_duration k (ci_transitions ci)) @
      crossfade_out n k)
     # crossfade_nodes en ci n (k + 1) (crossfade_out n k) labels"

definition build_audio_acrossfade_chain :: "command_env \<Rightarrow> clip_inputs \<Rightarrow> string option" where
  "build_audio_acrossfade_chain en ci =
     (if ci_audio_indices ci = [] then None
      else let n = length (ci_durations ci);
               sources = map (audio_source en ci) [0..<n];
               labels = map snd sources
           in Some (str_join '';'' (concat (map fst sources) @ crossfade_nodes en ci n 1 (hd labels) (tl labels))))"

definition source_mix :: "nat \<Rightarrow> string \<Rightarrow> string" where
  "source_mix input tts_label =
     ''['' @ dec input @ '':a]aformat=channel_layouts=stereo,aresample=48000[src_norm];[src_norm]'' @ tts_label @
     ''amix=inputs=2:duration=longest[aout]''"

definition assemble_multi_tts_filter ::
  "command_env \<Rightarrow> tts_input list \<Rightarrow> nat \<Rightarrow> string \<Rightarrow> clip_inputs \<Rightarrow> string list" where
  "assemble_multi_tts_filter en tts tts_base graph ci =
     (if tts \<noteq> []
      then let (seg, label) = build_tts_audio_filter en tts tts_base;
               combined = graph @ '';'' @ seg
           in if ci_audio_codec ci \<noteq> None
              then [''-filter_complex'', combined @ '';'' @ source_mix (ci_audio_input ci) label,
                    ''-map'', ''[final]'', ''-map'', ''[aout]'']
              else [''-filter_complex'', combined, ''-map'', ''[final]'', ''-map'', label]
      else case build_audio_acrossfade_chain en ci of
             Some chain \<Rightarrow> [''-filter_complex'', graph @ '';'' @ chain, ''-map'', ''[final]'', ''-map'', ''[aout]'']
           | None \<Rightarrow> [''-filter_complex'', graph, ''-map'', ''[final]'', ''-an''])"

subsection \<open>A command for several clips\<close>

definition mc_input_args :: "command_env \<Rightarrow> clip \<Rightarrow> string \<Rightarrow> rat \<Rightarrow> rat \<Rightarrow> string list" where
  "mc_input_args en c path dur in_secs =
     (if cl_clip_type c = ''image'' then [''-loop'', ''1'', ''-t'', ce_float_str en dur, ''-i'', path]
      else if cl_clip_type c = ''generator'' then [''-f'', ''lavfi'', ''-t'', ce_float_str en dur, ''-i'', path]
      else if 0 < in_secs then [''-ss'', ce_float_str en in_secs, ''-t'', ce_float_str en dur, ''-i'', path]
      else [''-i'', path])"

fun build_mc_clip_input_args ::
  "command_env \<Rightarrow> clip list \<Rightarrow> string list \<Rightarrow> rat list \<Rightarrow> rat list \<Rightarrow> exn + string list" where
  "build_mc_clip_input_args en [] [] [] [] = Inr []"
| "build_mc_clip_input_args en (c # cs) (p # ps) (d # ds) (t # ts) =
     sum_bind (build_mc_clip_input_args en cs ps ds ts) (\<lambda>rest. Inr (mc_input_args en c p d t @ rest))"
| "build_mc_clip_input_args en _ _ _ _ = Inl ValueError"

definition tts_input_args :: "tts_input list \<Rightarrow> string list" where
  "tts_input_args tts = concat (map (\<lambda>inp. [''-i'', ti_audio_path inp]) tts)"

definition meta_args :: "string option \<Rightarrow> string list" where
  "meta_args ffmetadata = (if given ffmetadata then [''-i'', get_or [] ffmetadata] else [])"

fun subtitle_input_args :: "command_env \<Rightarrow> soft_subtitle list \<Rightarrow> exn + string list" where
  "subtitle_input_args en [] = Inr []"
| "subtitle_input_args en (sp # sps) =
     sum_bind (resolve_subtitle_asset_path en sp) (\<lambda>path.
     sum_bind (subtitle_input_args en sps) (\<lambda>rest. Inr ([''-i'', path] @ rest)))"

definition subtitle_maps :: "nat \<Rightarrow> nat \<Rightarrow> string list" where
  "subtitle_maps base n = concat (map (\<lambda>idx. [''-map'', dec (base + idx) @ '':s'']) [0..<n])"

definition encoder_args :: "command_env \<Rightarrow> plan_settings \<Rightarrow> string list" where
  "encoder_args en st =
     (let codec = plan_codec st; crf = map_of quality_crf (get_or ''standard'' (ps_quality_preset st))
      in [''-c:v'', codec] @
         (if (codec = ''libx264'' \<or> codec = ''libx265'') \<and> crf \<noteq> None then [''-crf'', the crf] else []) @
         [''-r'', num_text en (plan_fps st)] @ [''-progress'', ''pipe:1''])"

text \<open>The flags that end a command: subtitle codecs only when there are subtitles, then the output.\<close>

definition output_args :: "render_job \<Rightarrow> soft_subtitle list \<Rightarrow> exn + string list" where
  "output_args job subs =
     sum_bind (if subs \<noteq> [] then soft_subtitle_output_flags (rj_output_format job) subs else Inr [])
       (\<lambda>flags. Inr (flags @ [rj_output_path job]))"

definition build_multi_clip_command ::
  "command_env \<Rightarrow> render_job \<Rightarrow> plan_settings \<Rightarrow> soft_subtitle list \<Rightarrow> string option \<Rightarrow> tts_input list \<Rightarrow>
   clip list \<Rightarrow> exn + string list" where
  "build_multi_clip_command en job st subs ffmetadata tts clips =
     sum_bind (build_clip_input_list en st (plan_fps st) clips) (\<lambda>ci.
     sum_bind (ce_translate en (ci_cwe ci) (plan_fps st)) (\<lambda>(graph, paths).
     sum_bind (build_mc_clip_input_args en clips paths (ci_durations ci) (ci_in_points ci)) (\<lambda>clip_args.
     let after_meta = length paths + (if given ffmetadata then 1 else 0)
     in sum_bind (subtitle_input_args en subs) (\<lambda>sub_args.
        sum_bind (output_args job subs) (\<lambda>out_args.
          Inr ([''ffmpeg''] @ clip_args @ meta_args ffmetadata @ tts_input_args tts @ sub_args @
               assemble_multi_tts_filter en tts after_meta graph ci @
               subtitle_maps (after_meta + length tts) (length subs) @
               encoder_args en st @
               (if given ffmetadata
                then [''-map_chapters'', dec (length paths), ''-map_metadata'', dec (length paths)] else []) @
               out_args))))))"

subsection \<open>A command for one clip\<close>

definition build_sc_cmd_init :: "clip \<Rightarrow> string \<Rightarrow> string list" where
  "build_sc_cmd_init c path =
     (if cl_clip_type c = ''image'' then [''ffmpeg'', ''-loop'', ''1'', ''-i'', path]
      else if cl_clip_type c = ''generator'' then [''ffmpeg'', ''-f'', ''lavfi'', ''-i'', path]
      else [''ffmpeg'', ''-i'', path])"

text \<open>Audio and label of the speech cues, mixed with the source's audio when it has one.\<close>

definition sc_tts_mix :: "command_env \<Rightarrow> string option \<Rightarrow> tts_input list \<Rightarrow> nat \<Rightarrow> string \<times> string" where
  "sc_tts_mix en codec tts tts_base =
     (let (seg, label) = build_tts_audio_filter en tts tts_base
      in if codec \<noteq> None then (seg @ '';'' @ source_mix 0 label, ''[aout]'') else (seg, label))"

definition assemble_sc_filter_translator ::
  "command_env \<Rightarrow> clip \<Rightarrow> string option \<Rightarrow> tts_input list \<Rightarrow> nat \<Rightarrow> py_num \<Rightarrow> py_num \<Rightarrow> string \<Rightarrow> exn + string list"
where
  "assemble_sc_filter_translator en c codec tts tts_base seg_duration fps path =
     sum_bind (build_clip_render_effects en c) (\<lambda>(fxs, audio).
     let cwe = \<lparr>cw_input_index = 0, cw_duration = num_val seg_duration, cw_framerate = fps,
                cw_source_path = path, cw_effects = fxs, cw_transition = None\<rparr>
     in sum_bind (raise_if (ce_clip_error en cwe)) (\<lambda>_.
        sum_bind (ce_translate en [cwe] fps) (\<lambda>(graph, _).
        if tts \<noteq> []
        then let (seg, label) = sc_tts_mix en codec tts tts_base
             in Inr [''-filter_complex'', graph @ '';'' @ seg, ''-map'', ''[final]'', ''-map'', label]
        else if audio \<noteq> []
        then if \<not> given codec then Inl CommandBuildError
             else Inr [''-filter_complex'', graph @ '';'' @ ''[0:a]'' @ str_join '','' audio @ ''[aout]'',
                       ''-map'', ''[final]'', ''-map'', ''[aout]'']
        else Inr [''-filter_complex'', graph, ''-map'', ''[final]'', ''-an''])))"

definition sc_scale :: "command_env \<Rightarrow> py_num \<Rightarrow> py_num \<Rightarrow> string" where
  "sc_scale en width height = ''scale='' @ num_text en width @ '':'' @ num_text en height"

definition assemble_sc_filter_tts_only ::
  "command_env \<Rightarrow> string option \<Rightarrow> tts_input list \<Rightarrow> nat \<Rightarrow> string option \<Rightarrow> py_num \<Rightarrow> py_num \<Rightarrow> string list" where
  "assemble_sc_filter_tts_only en codec tts tts_base filter_graph width height =
     (let (seg, label) = sc_tts_mix en codec tts tts_base
      in if given filter_graph
         then [''-filter_complex'', ''[0:v]'' @ get_or [] filter_graph @ ''[vout];'' @ seg,
               ''-map'', ''[vout]'', ''-map'', label]
         else if num_val width \<noteq> 0 \<and> num_val height \<noteq> 0
         then [''-filter_complex'', ''[0:v]'' @ sc_scale en width height @ ''[vout];'' @ seg,
               ''-map'', ''[vout]'', ''-map'', label]
         else [''-filter_complex'', seg, ''-map'', ''0:v'', ''-map'', label])"

definition assemble_sc_filter_legacy :: "command_env \<Rightarrow> string option \<Rightarrow> py_num \<Rightarrow> py_num \<Rightarrow> string list" where
  "assemble_sc_filter_legacy en filter_graph width height =
     (if given filter_graph then [''-vf'', get_or [] filter_graph]
      else if num_val width \<noteq> 0 \<and> num_val height \<noteq> 0 then [''-vf'', sc_scale en width height]
      else [])"

definition resolve_segment :: "segment list \<Rightarrow> py_num \<Rightarrow> exn + segment" where
  "resolve_segment segments total_duration =
     (if segments \<noteq> [] then Inr (hd segments)
      else if num_val total_duration \<le> 0 then Inl ValueError
      else Inr \<lparr>sg_timeline_start = Some (NFloat 0), sg_timeline_end = Some total_duration\<rparr>)"

definition sc_subtitle_stream_maps ::
  "nat \<Rightarrow> tts_input list \<Rightarrow> bool \<Rightarrow> string option \<Rightarrow> string option \<Rightarrow> string list" where
  "sc_subtitle_stream_maps n tts use_translator codec ffmetadata =
     (if tts = [] \<and> \<not> use_translator
      then [''-map'', ''0:v''] @ (if codec \<noteq> None then [''-map'', ''0:a''] else []) else []) @
     subtitle_maps (1 + (if given ffmetadata then 1 else 0) + length tts) n"

definition assemble_sc_filter ::
  "command_env \<Rightarrow> plan_settings \<Rightarrow> clip \<Rightarrow> bool \<Rightarrow> string option \<Rightarrow> tts_input list \<Rightarrow> nat \<Rightarrow> py_num \<Rightarrow> string \<Rightarrow>
   exn + string list" where
  "assemble_sc_filter en st c use_translator codec tts tts_base seg_duration path =
     (let width = get_or (NInt 1920) (ps_width st); height = get_or (NInt 1080) (ps_height st)
      in if use_translator
         then assemble_sc_filter_translator en c codec tts tts_base seg_duration (plan_fps st) path
         else if tts \<noteq> []
         then Inr (assemble_sc_filter_tts_only en codec tts tts_base (ps_filter_graph st) width height)
         else Inr (assemble_sc_filter_legacy en (ps_filter_graph st) width height))"

definition uses_translator :: "clip \<Rightarrow> bool" where
  "uses_translator c \<longleftrightarrow> cl_clip_type c = ''image'' \<or> cl_clip_type c = ''generator'' \<or> get_or [] (cl_effects c) \<noteq> []"

definition build_single_clip_command ::
  "command_env \<Rightarrow> render_job \<Rightarrow> plan_settings \<Rightarrow> soft_subtitle list \<Rightarrow> string option \<Rightarrow> tts_input list \<Rightarrow>
   clip list \<Rightarrow> segment list \<Rightarrow> py_num \<Rightarrow> exn + string list" where
  "build_single_clip_command en job st subs ffmetadata tts clips segments total_duration =
     (let c = hd clips
      in sum_bind (resolve_clip_source en c (plan_fps st)) (\<lambda>(path, codec, source_fps).
         sum_bind (resolve_segment segments total_duration) (\<lambda>sg.
         let start = get_or (NFloat 0) (sg_timeline_start sg);
             seg_duration = num_sub (get_or total_duration (sg_timeline_end sg)) start
         in sum_bind (subtitle_input_args en subs) (\<lambda>sub_args.
            sum_bind (py_div (of_int (cl_in_point c)) (num_val source_fps)) (\<lambda>in_secs.
            sum_bind (assemble_sc_filter en st c (uses_translator c) codec tts
                        (if tts \<noteq> [] then 1 + (if given ffmetadata then 1 else 0) else 0) seg_duration path)
              (\<lambda>filter_args.
            sum_bind (output_args job subs) (\<lambda>out_args.
              Inr (build_sc_cmd_init c path @ meta_args ffmetadata @ tts_input_args tts @ sub_args @
                   [''-ss'', ce_float_str en (in_secs + num_val start), ''-t'', num_text en seg_duration] @
                   filter_args @
                   (if subs \<noteq> []
                    then sc_subtitle_stream_maps (length subs) tts (uses_translator c) codec ffmetadata else []) @
                   encoder_args en st @
                   (if given ffmetadata then [''-map_chapters'', ''1'', ''-map_metadata'', ''1''] else []) @
                   out_args))))))))"

subsection \<open>The command of a job\<close>

definition build_command_for_job ::
  "command_env \<Rightarrow> render_job \<Rightarrow> string option \<Rightarrow> tts_input list \<Rightarrow> exn + string list" where
  "build_command_for_job en job ffmetadata tts =
     (if rj_output_path job = [] then Inl ValueError
      else case ce_loads en (rj_render_plan job) of
        None \<Rightarrow> Inl ValueError
      | Some plan \<Rightarrow> (case (pl_settings plan, pl_total_duration plan) of
          (Some st, Some total_duration) \<Rightarrow>
            sum_bind (validate_render_settings (ps_soft_subtitles st)) (\<lambda>subs.
            let clips = ce_clips en (rj_project_id job)
            in if clips = [] then Inl CommandBuildError
               else if 1 < length clips
               then build_multi_clip_command en job st subs ffmetadata tts clips
               else build_single_clip_command en job st subs ffmetadata tts clips (pl_segments plan)
                      total_duration)
        | _ \<Rightarrow> Inl ValueError))"

end
