(* ===== verification/Command_Streams.thy ===== *)
theory Command_Streams
  imports Render_Command
begin

text \<open>
  What the built command lines say to FFmpeg. A command is read back as FFmpeg reads this part of its
  grammar: options with one value each, except \<open>-an\<close>, then the output file. Inputs are numbered by
  their \<open>-i\<close> options, and every index the command uses must name the input it is meant for.
\<close>

subsection \<open>Reading a command line\<close>

fun argv_options :: "string list \<Rightarrow> (string \<times> string) list" where
  "argv_options [] = []"
| "argv_options [x] = []"
| "argv_options (f # v # rest) =
     (if f = ''-an'' then (f, []) # argv_options (v # rest) else (f, v) # argv_options rest)"

definition option_values :: "string \<Rightarrow> string list \<Rightarrow> string list" where
  "option_values flag cmd = map snd (filter (\<lambda>(f, v). f = flag) (argv_options (tl cmd)))"

abbreviation command_inputs :: "string list \<Rightarrow> string list" where
  "command_inputs cmd \<equiv> option_values ''-i'' cmd"

text \<open>\<open>reads_as xs os\<close>: at any place of a command, \<open>xs\<close> is read as the options \<open>os\<close>.\<close>

definition reads_as :: "string list \<Rightarrow> (string \<times> string) list \<Rightarrow> bool" where
  "reads_as xs os \<longleftrightarrow> (\<forall>rest. rest \<noteq> [] \<longrightarrow> argv_options (xs @ rest) = os @ argv_options rest)"

named_theorems reads \<open>what the parts of a command are read as\<close>

lemma reads_nil [reads]: "reads_as [] []"
  by (simp add: reads_as_def)

lemma reads_append: "reads_as xs os \<Longrightarrow> reads_as ys ps \<Longrightarrow> reads_as (xs @ ys) (os @ ps)"
  by (simp add: reads_as_def)

lemma reads_pair: "f \<noteq> ''-an'' \<Longrightarrow> reads_as xs os \<Longrightarrow> reads_as (f # v # xs) ((f, v) # os)"
  by (simp add: reads_as_def)

lemma reads_an: "reads_as [''-an''] [(''-an'', [])]"
  by (auto simp: reads_as_def neq_Nil_conv)

lemma reads_an_end: "reads_as xs os \<Longrightarrow> reads_as (xs @ [''-an'']) (os @ [(''-an'', [])])"
  by (rule reads_append [OF _ reads_an])

lemma reads_concat:
  "(\<And>x. x \<in> set xs \<Longrightarrow> reads_as (f x) (g x)) \<Longrightarrow> reads_as (concat (map f xs)) (concat (map g xs))"
  by (induction xs) (auto intro: reads_append reads_nil)

lemma reads_output: "reads_as xs os \<Longrightarrow> argv_options (xs @ [out]) = os"
  by (simp add: reads_as_def)

lemma reads_meta: "reads_as (meta_args m) (if given m then [(''-i'', get_or [] m)] else [])"
  by (simp add: meta_args_def reads_pair reads_nil)

lemma concat_singletons: "concat (map (\<lambda>x. [f x]) xs) = map f xs"
  by (induction xs) auto

lemma reads_tts: "reads_as (tts_input_args tts) (map (\<lambda>inp. (''-i'', ti_audio_path inp)) tts)"
  using reads_concat [of tts "\<lambda>inp. [''-i'', ti_audio_path inp]" "\<lambda>inp. [(''-i'', ti_audio_path inp)]"]
  by (simp add: tts_input_args_def concat_singletons reads_pair reads_nil)

lemma reads_subtitle_maps:
  "reads_as (subtitle_maps base n) (map (\<lambda>j. (''-map'', dec (base + j) @ '':s'')) [0..<n])"
  using reads_concat [of "[0..<n]" "\<lambda>j. [''-map'', dec (base + j) @ '':s'']"
      "\<lambda>j. [(''-map'', dec (base + j) @ '':s'')]"]
  by (simp add: subtitle_maps_def concat_singletons reads_pair reads_nil)

lemma subtitle_inputs_read:
  assumes "subtitle_input_args en subs = Inr xs"
  shows "\<exists>paths. list_all2 (\<lambda>sp p. resolve_subtitle_asset_path en sp = Inr p) subs paths \<and>
           reads_as xs (map (\<lambda>p. (''-i'', p)) paths)"
  using assms
proof (induction subs arbitrary: xs)
  case (Cons sp subs)
  then obtain p rest where p: "resolve_subtitle_asset_path en sp = Inr p"
    and rest: "subtitle_input_args en subs = Inr rest" and xs: "xs = [''-i'', p] @ rest"
    by (auto simp: sum_bind_Inr)
  from Cons.IH [OF rest] obtain paths where
    "list_all2 (\<lambda>sp p. resolve_subtitle_asset_path en sp = Inr p) subs paths"
    "reads_as rest (map (\<lambda>p. (''-i'', p)) paths)" by blast
  with p xs show ?case by (intro exI [of _ "p # paths"]) (simp add: reads_pair)
qed (simp add: reads_nil)

text \<open>The flags whose values name streams; the others do not matter here.\<close>

definition stream_flags :: "string set" where
  "stream_flags = {''-i'', ''-map'', ''-map_chapters'', ''-map_metadata'', ''-filter_complex'', ''-an''}"

definition stream_part :: "(string \<times> string) list \<Rightarrow> (string \<times> string) list" where
  "stream_part os = filter (\<lambda>(f, v). f \<in> stream_flags) os"

abbreviation no_streams :: "(string \<times> string) list \<Rightarrow> bool" where
  "no_streams os \<equiv> stream_part os = []"

lemma stream_part_simps [simp]:
  "stream_part [] = []"
  "stream_part ((f, v) # os) = (if f \<in> stream_flags then (f, v) # stream_part os else stream_part os)"
  "stream_part (os @ ps) = stream_part os @ stream_part ps"
  by (auto simp: stream_part_def)

lemma stream_part_pairs:
  "flag \<in> stream_flags \<Longrightarrow> stream_part (map (\<lambda>x. (flag, f x)) xs) = map (\<lambda>x. (flag, f x)) xs"
  by (induction xs) auto

lemma option_values_stream:
  assumes "flag \<in> stream_flags" and "argv_options (tl cmd) = os"
  shows "option_values flag cmd = map snd (filter (\<lambda>(f, v). f = flag) (stream_part os))"
proof -
  have "filter (\<lambda>(f, v). f = flag) (stream_part os) = filter (\<lambda>(f, v). f = flag) os"
    using assms(1) by (auto simp: stream_part_def intro!: filter_cong)
  then show ?thesis using assms(2) by (simp add: option_values_def)
qed

lemma encoder_read: "\<exists>os. reads_as (encoder_args en st) os \<and> no_streams os"
proof -
  have "reads_as ([''-c:v'', c] @ (if b then [''-crf'', q] else []) @ [''-r'', r] @ [''-progress'', ''pipe:1''])
     ([(''-c:v'', c)] @ (if b then [(''-crf'', q)] else []) @ [(''-r'', r)] @ [(''-progress'', ''pipe:1'')])" for b c q r
    by (intro reads_append) (auto simp: reads_pair reads_nil)
  then show ?thesis
    unfolding encoder_args_def Let_def by (intro exI conjI, assumption) (simp add: stream_flags_def)
qed

lemma subtitle_flags_read: "subtitle_stream_flags idx subs = Inr xs \<Longrightarrow> \<exists>os. reads_as xs os \<and> no_streams os"
proof (induction idx subs arbitrary: xs rule: subtitle_stream_flags.induct)
  case (2 idx sp sps)
  from "2.prems" obtain code rest where rest: "subtitle_stream_flags (idx + 1) sps = Inr rest"
    and xs: "xs = [''-metadata:s:s:'' @ dec idx, ''language='' @ code] @
        (if ss_is_default sp then [''-disposition:s:'' @ dec idx, ''default''] else []) @ rest"
    and code: "bcp47_to_iso639 (ss_language sp) = Inr code"
    by (auto simp: sum_bind_Inr)
  from "2.IH" [OF rest] obtain os where os: "reads_as rest os" "no_streams os" by blast
  let ?os = "[(''-metadata:s:s:'' @ dec idx, ''language='' @ code)] @
        (if ss_is_default sp then [(''-disposition:s:'' @ dec idx, ''default'')] else []) @ os"
  have "reads_as xs ?os" unfolding xs by (intro reads_append) (auto simp: reads_pair reads_nil os)
  moreover have "no_streams ?os" using os by (simp add: stream_flags_def)
  ultimately show ?case by blast
qed (auto intro: reads_nil)

lemma output_read:
  assumes "output_args job subs = Inr xs"
  shows "\<exists>flags os. xs = flags @ [rj_output_path job] \<and> reads_as flags os \<and> no_streams os"
proof (cases "subs = []")
  case True
  then show ?thesis using assms by (intro exI [of _ "[]"]) (simp add: output_args_def reads_nil)
next
  case False
  then obtain codec flags where c: "(if lower (of_value (rj_output_format job)) = ''mp4'' then Inr [''-c:s'', ''mov_text'']
      else if lower (of_value (rj_output_format job)) = ''mkv'' \<or> lower (of_value (rj_output_format job)) = ''matroska''
        then Inr [''-c:s'', ''srt''] else Inl ValueError) = Inr codec"
    and f: "subtitle_stream_flags 0 subs = Inr flags" and xs: "xs = (codec @ flags) @ [rj_output_path job]"
    using assms by (auto simp: output_args_def soft_subtitle_output_flags_def Let_def sum_bind_Inr)
  from c obtain name where codec: "codec = [''-c:s'', name]"
    by (auto split: if_splits)
  then have "\<exists>os. reads_as codec os \<and> no_streams os"
    by (intro exI [of _ "[(''-c:s'', name)]"]) (simp add: reads_pair reads_nil stream_flags_def)
  moreover have "\<exists>os. reads_as flags os \<and> no_streams os" by (rule subtitle_flags_read [OF f])
  ultimately show ?thesis using xs reads_append by (metis append_Nil stream_part_simps(3))
qed

subsection \<open>The inputs of several clips\<close>

lemma add_clip_input_Inr:
  assumes "add_clip_input en st fps i c ci = Inr ci'"
  obtains path codec rate dur in_secs fxs audio where
    "resolve_clip_source en c fps = Inr (path, codec, rate)" "clip_duration c fps rate = Inr dur" "0 < dur"
    "clip_in_seconds c rate = Inr in_secs" "build_clip_render_effects en c = Inr (fxs, audio)"
    "ci' = (let tr = transition_lookup (ps_transitions st) (cl_id c);
                cj = note_audio i c codec ci
            in cj\<lparr>ci_cwe := ci_cwe cj @ [\<lparr>cw_input_index = i, cw_duration = dur, cw_framerate = rate,
                      cw_source_path = path, cw_effects = fxs,
                      cw_transition = map_option (\<lambda>t. (tr_type t, tr_duration t)) tr\<rparr>],
                   ci_durations := ci_durations cj @ [dur], ci_in_points := ci_in_points cj @ [in_secs],
                   ci_transitions := ci_transitions cj @ [map_option tr_duration tr],
                   ci_audio_filters := ci_audio_filters cj @ [audio]\<rparr>)"
  using assms unfolding add_clip_input_def
  by (auto simp: sum_bind_Inr Let_def split: if_splits prod.splits)

lemma note_audio_frame [simp]:
  "ci_cwe (note_audio i c codec ci) = ci_cwe ci" "ci_durations (note_audio i c codec ci) = ci_durations ci"
  "ci_in_points (note_audio i c codec ci) = ci_in_points ci"
  "ci_transitions (note_audio i c codec ci) = ci_transitions ci"
  "ci_audio_filters (note_audio i c codec ci) = ci_audio_filters ci"
  by (auto simp: note_audio_def Let_def)

definition clip_source_is :: "command_env \<Rightarrow> py_num \<Rightarrow> clip \<Rightarrow> string \<Rightarrow> bool" where
  "clip_source_is en fps c p \<longleftrightarrow> (\<exists>codec rate. resolve_clip_source en c fps = Inr (p, codec, rate))"

lemma clip_input_loop_paths:
  assumes "clip_input_loop en st fps i cs ci = Inr ci'"
  shows "\<exists>paths. list_all2 (clip_source_is en fps) cs paths \<and>
           map cw_source_path (ci_cwe ci') = map cw_source_path (ci_cwe ci) @ paths"
  using assms
proof (induction cs arbitrary: i ci)
  case (Cons c cs)
  then obtain cj where cj: "add_clip_input en st fps i c ci = Inr cj"
    and loop: "clip_input_loop en st fps (i + 1) cs cj = Inr ci'"
    by (auto simp: sum_bind_Inr)
  from Cons.IH [OF loop] obtain paths where paths: "list_all2 (clip_source_is en fps) cs paths"
    "map cw_source_path (ci_cwe ci') = map cw_source_path (ci_cwe cj) @ paths" by blast
  from cj obtain p codec rate dur where "resolve_clip_source en c fps = Inr (p, codec, rate)"
    and "map cw_source_path (ci_cwe cj) = map cw_source_path (ci_cwe ci) @ [p]"
    by (rule add_clip_input_Inr) (auto simp: Let_def)
  moreover from this(1) have "clip_source_is en fps c p" by (auto simp: clip_source_is_def)
  ultimately show ?case using paths by (intro exI [of _ "p # paths"]) auto
qed simp

lemma mc_input_args_read:
  "\<exists>os. reads_as (mc_input_args en c p d t) os \<and> stream_part os = [(''-i'', p)]"
proof -
  have "reads_as [''-loop'', ''1'', ''-t'', x, ''-i'', p] [(''-loop'', ''1''), (''-t'', x), (''-i'', p)]"
    "reads_as [''-f'', ''lavfi'', ''-t'', x, ''-i'', p] [(''-f'', ''lavfi''), (''-t'', x), (''-i'', p)]"
    "reads_as [''-ss'', y, ''-t'', x, ''-i'', p] [(''-ss'', y), (''-t'', x), (''-i'', p)]"
    "reads_as [''-i'', p] [(''-i'', p)]" for x y
    by (simp_all add: reads_pair reads_nil)
  then show ?thesis
    unfolding mc_input_args_def
    by (cases "cl_clip_type c = ''image''"; cases "cl_clip_type c = ''generator''"; cases "0 < t")
      (auto simp: stream_flags_def intro!: exI)
qed

lemma mc_clip_inputs_read:
  assumes "build_mc_clip_input_args en cs ps ds ts = Inr xs"
  shows "length ps = length cs \<and> (\<exists>os. reads_as xs os \<and> stream_part os = map (\<lambda>p. (''-i'', p)) ps)"
  using assms
proof (induction en cs ps ds ts arbitrary: xs rule: build_mc_clip_input_args.induct)
  case (2 en c cs p ps d ds t ts)
  then obtain rest where rest: "build_mc_clip_input_args en cs ps ds ts = Inr rest"
    and xs: "xs = mc_input_args en c p d t @ rest"
    by (auto simp: sum_bind_Inr)
  from "2.IH" [OF rest] obtain os where os: "length ps = length cs" "reads_as rest os"
    "stream_part os = map (\<lambda>p. (''-i'', p)) ps" by blast
  obtain oc where "reads_as (mc_input_args en c p d t) oc" "stream_part oc = [(''-i'', p)]"
    using mc_input_args_read by blast
  with os xs show ?case by (intro conjI exI [of _ "oc @ os"]) (auto intro: reads_append)
qed (auto simp: reads_nil intro: exI [of _ "[]"])

subsection \<open>Filters and maps\<close>

text \<open>The filter part of a command: a graph, maps, and perhaps \<open>-an\<close>; it holds the speech filters when there are any.\<close>

definition filter_flags :: "string set" where
  "filter_flags = {''-filter_complex'', ''-map'', ''-an''}"

definition filter_part ::
  "command_env \<Rightarrow> tts_input list \<Rightarrow> nat \<Rightarrow> (string \<times> string) list \<Rightarrow> bool" where
  "filter_part en tts base os \<longleftrightarrow> (\<forall>(f, v) \<in> set (stream_part os). f \<in> filter_flags) \<and>
     (tts \<noteq> [] \<longrightarrow> (\<exists>pre post. map snd (filter (\<lambda>(f, v). f = ''-filter_complex'') (stream_part os)) =
                          [pre @ fst (build_tts_audio_filter en tts base) @ post]))"

lemma reads_graph1: "reads_as [''-filter_complex'', g, ''-map'', a, ''-an'']
     [(''-filter_complex'', g), (''-map'', a), (''-an'', [])]"
  by (intro reads_pair reads_an) simp_all

lemma reads_graph2: "reads_as [''-filter_complex'', g, ''-map'', a, ''-map'', b]
     [(''-filter_complex'', g), (''-map'', a), (''-map'', b)]"
  by (simp add: reads_pair reads_nil)

lemma filter_part_speech:
  assumes "g = pre @ fst (build_tts_audio_filter en tts base) @ post"
  shows "filter_part en tts base [(''-filter_complex'', g), (''-map'', a), (''-map'', b)]"
proof -
  have "\<exists>pre post. [g] = [pre @ fst (build_tts_audio_filter en tts base) @ post]" using assms by blast
  then show ?thesis by (simp add: filter_part_def stream_flags_def filter_flags_def)
qed

lemma multi_filter_read:
  "\<exists>os. reads_as (assemble_multi_tts_filter en tts base graph ci) os \<and> filter_part en tts base os \<and>
     ((''-an'', []) \<in> set (stream_part os) \<longleftrightarrow> tts = [] \<and> ci_audio_indices ci = [])"
proof (cases "tts = []")
  case True
  show ?thesis
  proof (cases "ci_audio_indices ci = []")
    case none: True
    then show ?thesis using True reads_graph1 [of graph "''[final]''"]
      by (intro exI [of _ "[(''-filter_complex'', graph), (''-map'', ''[final]''), (''-an'', [])]"])
        (simp add: assemble_multi_tts_filter_def build_audio_acrossfade_chain_def filter_part_def
          stream_flags_def filter_flags_def)
  next
    case False
    then obtain chain where chain: "build_audio_acrossfade_chain en ci = Some chain"
      by (auto simp: build_audio_acrossfade_chain_def Let_def)
    then show ?thesis using True False reads_graph2
      by (intro exI [of _ "[(''-filter_complex'', graph @ '';'' @ chain), (''-map'', ''[final]''), (''-map'', ''[aout]'')]"])
        (simp add: assemble_multi_tts_filter_def filter_part_def stream_flags_def filter_flags_def)
  qed
next
  case False
  obtain seg label where seg: "build_tts_audio_filter en tts base = (seg, label)" by fastforce
  define post where "post = (if ci_audio_codec ci = None then [] else '';'' @ source_mix (ci_audio_input ci) label)"
  define out where "out = (if ci_audio_codec ci = None then label else ''[aout]'')"
  let ?os = "[(''-filter_complex'', (graph @ '';'') @ seg @ post), (''-map'', ''[final]''), (''-map'', out)]"
  have "assemble_multi_tts_filter en tts base graph ci =
      [''-filter_complex'', (graph @ '';'') @ seg @ post, ''-map'', ''[final]'', ''-map'', out]"
    using False seg by (simp add: assemble_multi_tts_filter_def post_def out_def)
  moreover have "filter_part en tts base ?os"
    by (rule filter_part_speech [of _ "graph @ '';''" _ _ _ post]) (simp add: seg)
  moreover have "(''-an'', []) \<notin> set (stream_part ?os)" by (simp add: stream_flags_def)
  ultimately show ?thesis using False reads_graph2 by metis
qed

lemma single_filter_read:
  assumes "assemble_sc_filter en st c tr codec tts base dur path = Inr xs"
  shows "\<exists>os. reads_as xs os \<and> (tts \<noteq> [] \<longrightarrow> filter_part en tts base os) \<and>
     (\<forall>(f, v) \<in> set (stream_part os). f \<in> filter_flags) \<and>
     ((''-an'', []) \<in> set (stream_part os) \<longleftrightarrow>
        tts = [] \<and> tr \<and> (\<exists>fxs. build_clip_render_effects en c = Inr (fxs, [])))"
proof (cases tr)
  case True
  from assms True obtain fxs audio graph ps where fx: "build_clip_render_effects en c = Inr (fxs, audio)"
    and xs: "(if tts \<noteq> [] then let (seg, label) = sc_tts_mix en codec tts base
             in Inr [''-filter_complex'', graph @ '';'' @ seg, ''-map'', ''[final]'', ''-map'', label]
        else if audio \<noteq> []
        then if \<not> given codec then Inl CommandBuildError
             else Inr [''-filter_complex'', graph @ '';'' @ ''[0:a]'' @ str_join '','' audio @ ''[aout]'',
                       ''-map'', ''[final]'', ''-map'', ''[aout]'']
        else Inr [''-filter_complex'', graph, ''-map'', ''[final]'', ''-an'']) = Inr xs"
    by (auto simp: assemble_sc_filter_def assemble_sc_filter_translator_def sum_bind_Inr Let_def
        split: prod.splits)
  show ?thesis
  proof (cases "tts = []")
    case none: True
    show ?thesis
    proof (cases "audio = []")
      case True
      then have "xs = [''-filter_complex'', graph, ''-map'', ''[final]'', ''-an'']" using xs none by simp
      then show ?thesis using reads_graph1 [of graph "''[final]''"] fx True \<open>tr\<close> none
        by (intro exI [of _ "[(''-filter_complex'', graph), (''-map'', ''[final]''), (''-an'', [])]"])
          (simp add: stream_flags_def filter_flags_def)
    next
      case False
      then obtain g where "xs = [''-filter_complex'', g, ''-map'', ''[final]'', ''-map'', ''[aout]'']"
        using xs none by (auto split: if_splits)
      then show ?thesis using reads_graph2 [of g "''[final]''"] fx False none
        by (intro exI [of _ "[(''-filter_complex'', g), (''-map'', ''[final]''), (''-map'', ''[aout]'')]"])
          (simp add: stream_flags_def filter_flags_def)
    qed
  next
    case False
    then obtain post label where "xs = [''-filter_complex'',
        (graph @ '';'') @ fst (build_tts_audio_filter en tts base) @ post, ''-map'', ''[final]'', ''-map'', label]"
      using xs by (cases "build_tts_audio_filter en tts base") (auto simp: sc_tts_mix_def split: if_splits)
    then show ?thesis using False reads_graph2
      by (intro exI [of _ "[(''-filter_complex'', (graph @ '';'') @ fst (build_tts_audio_filter en tts base) @ post),
            (''-map'', ''[final]''), (''-map'', label)]"])
        (auto simp: stream_flags_def filter_flags_def intro!: filter_part_speech [of _ "graph @ '';''" _ _ _ post])
  qed
next
  case False
  show ?thesis
  proof (cases "tts = []")
    case True
    then have "xs = [] \<or> (\<exists>g. xs = [''-vf'', g])"
      using assms False by (auto simp: assemble_sc_filter_def assemble_sc_filter_legacy_def Let_def split: if_splits)
    then show ?thesis
    proof
      assume "xs = []"
      then show ?thesis using True False by (intro exI [of _ "[]"]) (simp add: reads_nil)
    next
      assume "\<exists>g. xs = [''-vf'', g]"
      then obtain g where "xs = [''-vf'', g]" ..
      then show ?thesis using True False
        by (intro exI [of _ "[(''-vf'', g)]"]) (simp add: reads_nil reads_pair stream_flags_def)
    qed
  next
    case True: False
    obtain post label where mix: "sc_tts_mix en codec tts base =
        (fst (build_tts_audio_filter en tts base) @ post, label)"
      by (cases "build_tts_audio_filter en tts base"; cases codec) (auto simp: sc_tts_mix_def)
    have "\<exists>pre v. xs = [''-filter_complex'', pre @ fst (build_tts_audio_filter en tts base) @ post,
        ''-map'', v, ''-map'', label]"
      using assms False True
      by (auto simp: assemble_sc_filter_def assemble_sc_filter_tts_only_def mix Let_def
          intro: exI [of _ "[]"] exI [of _ "''[0:v]'' @ x @ ''[vout];''" for x])
    then obtain pre v where "xs = [''-filter_complex'', pre @ fst (build_tts_audio_filter en tts base) @ post,
        ''-map'', v, ''-map'', label]" by blast
    then show ?thesis using True False reads_graph2
      by (intro exI [of _ "[(''-filter_complex'', pre @ fst (build_tts_audio_filter en tts base) @ post),
            (''-map'', v), (''-map'', label)]"])
        (auto simp: stream_flags_def filter_flags_def intro!: filter_part_speech [of _ pre _ _ _ post])
  qed
qed

subsection \<open>Whole commands\<close>

definition meta_list :: "string option \<Rightarrow> string list" where
  "meta_list ffmetadata = (if given ffmetadata then [get_or [] ffmetadata] else [])"

definition chapter_args :: "string option \<Rightarrow> nat \<Rightarrow> string list" where
  "chapter_args ffmetadata k = (if given ffmetadata then [''-map_chapters'', dec k, ''-map_metadata'', dec k] else [])"

lemma dec_1: "dec (Suc 0) = ''1''"
  by code_simp

lemma chapter_args_1:
  "(if given m then [''-map_chapters'', ''1'', ''-map_metadata'', ''1''] else []) = chapter_args m 1"
  by (simp add: chapter_args_def dec_1)

lemma command_stream_part:
  assumes cmd: "cmd = [''ffmpeg''] @ A @ meta_args ffmetadata @ tts_input_args tts @ S @ X @ F @ M @
      subtitle_maps base n @ E @ chapter_args ffmetadata k @ G @ [out]"
    and A: "reads_as A oa" "stream_part oa = map (\<lambda>p. (''-i'', p)) paths"
    and S: "reads_as S (map (\<lambda>p. (''-i'', p)) sub_paths)"
    and X: "reads_as X ox" "no_streams ox" and F: "reads_as F fs" and M: "reads_as M om" "stream_part om = om"
    and E: "reads_as E oe" "no_streams oe" and G: "reads_as G og" "no_streams og"
  shows "stream_part (argv_options (tl cmd)) =
      map (\<lambda>p. (''-i'', p)) (paths @ meta_list ffmetadata @ map ti_audio_path tts @ sub_paths) @
      stream_part fs @ om @ map (\<lambda>j. (''-map'', dec (base + j) @ '':s'')) [0..<n] @
      (if given ffmetadata then [(''-map_chapters'', dec k), (''-map_metadata'', dec k)] else [])"
proof -
  let ?meta = "if given ffmetadata then [(''-i'', get_or [] ffmetadata)] else []"
  let ?chap = "if given ffmetadata then [(''-map_chapters'', dec k), (''-map_metadata'', dec k)] else []"
  let ?maps = "map (\<lambda>j. (''-map'', dec (base + j) @ '':s'')) [0..<n]"
  have C: "reads_as (chapter_args ffmetadata k) ?chap"
    by (simp add: chapter_args_def reads_pair reads_nil)
  have "reads_as (A @ meta_args ffmetadata @ tts_input_args tts @ S @ X @ F @ M @ subtitle_maps base n @ E @
      chapter_args ffmetadata k @ G)
     (oa @ ?meta @ map (\<lambda>inp. (''-i'', ti_audio_path inp)) tts @ map (\<lambda>p. (''-i'', p)) sub_paths @ ox @ fs @ om @
      ?maps @ oe @ ?chap @ og)"
    by (intro reads_append A S X F M E G C reads_meta reads_tts reads_subtitle_maps)
  from reads_output [OF this, of out]
  have "argv_options (tl cmd) = oa @ ?meta @ map (\<lambda>inp. (''-i'', ti_audio_path inp)) tts @
      map (\<lambda>p. (''-i'', p)) sub_paths @ ox @ fs @ om @ ?maps @ oe @ ?chap @ og"
    by (simp add: cmd)
  moreover have "stream_part ?maps = ?maps" "stream_part (map (\<lambda>p. (''-i'', p)) sub_paths) = map (\<lambda>p. (''-i'', p)) sub_paths"
    "stream_part (map (\<lambda>inp. (''-i'', ti_audio_path inp)) tts) = map (\<lambda>inp. (''-i'', ti_audio_path inp)) tts"
    by (simp_all add: stream_part_pairs stream_flags_def)
  ultimately show ?thesis
    using A(2) X(2) M(2) E(2) G(2) by (simp add: meta_list_def stream_flags_def comp_def)
qed

text \<open>
  The inputs of a command and what refers to them: the clips, then the chapter file, the speech and
  the subtitles; subtitle maps, chapter flags and the speech filters use their numbers.
\<close>

definition streams_match ::
  "command_env \<Rightarrow> py_num \<Rightarrow> render_job \<Rightarrow> soft_subtitle list \<Rightarrow> string option \<Rightarrow> tts_input list \<Rightarrow> clip list \<Rightarrow>
   string list \<Rightarrow> bool" where
  "streams_match en fps job subs ffmetadata tts clips cmd \<longleftrightarrow>
     (\<exists>paths sub_paths maps pre post.
        list_all2 (clip_source_is en fps) clips paths \<and>
        list_all2 (\<lambda>sp p. resolve_subtitle_asset_path en sp = Inr p) subs sub_paths \<and>
        command_inputs cmd = paths @ meta_list ffmetadata @ map ti_audio_path tts @ sub_paths \<and>
        option_values ''-map'' cmd = maps @
          map (\<lambda>j. dec (length paths + length (meta_list ffmetadata) + length tts + j) @ '':s'')
            [0..<length subs] \<and>
        option_values ''-map_chapters'' cmd = map (\<lambda>_. dec (length paths)) (meta_list ffmetadata) \<and>
        option_values ''-map_metadata'' cmd = map (\<lambda>_. dec (length paths)) (meta_list ffmetadata) \<and>
        (tts \<noteq> [] \<longrightarrow> option_values ''-filter_complex'' cmd =
           [pre @ fst (build_tts_audio_filter en tts (length paths + length (meta_list ffmetadata))) @ post]) \<and>
        last cmd = rj_output_path job)"

lemma filter_flag_pairs:
  "filter (\<lambda>(f, v). f = flag) (map (\<lambda>x. (g, h x)) xs) = (if g = flag then map (\<lambda>x. (g, h x)) xs else [])"
  by (induction xs) auto

lemma filter_flags_none:
  "\<forall>(f, v) \<in> set (stream_part os). f \<in> filter_flags \<Longrightarrow> flag \<notin> filter_flags \<Longrightarrow>
   filter (\<lambda>(f, v). f = flag) (stream_part os) = []"
  by (auto simp: filter_empty_conv)

text \<open>What both builders produce; \<open>mute\<close> tells whether the audio is switched off.\<close>

definition command_parts ::
  "command_env \<Rightarrow> py_num \<Rightarrow> render_job \<Rightarrow> soft_subtitle list \<Rightarrow> string option \<Rightarrow> tts_input list \<Rightarrow> clip list \<Rightarrow>
   string list \<Rightarrow> bool \<Rightarrow> string list \<Rightarrow> string list \<Rightarrow> (string \<times> string) list \<Rightarrow> string list \<Rightarrow> bool" where
  "command_parts en fps job subs ffmetadata tts clips cmd mute paths sub_paths fs mv \<longleftrightarrow>
     stream_part (argv_options (tl cmd)) =
       map (\<lambda>p. (''-i'', p)) (paths @ meta_list ffmetadata @ map ti_audio_path tts @ sub_paths) @
       stream_part fs @ map (\<lambda>v. (''-map'', v)) mv @
       map (\<lambda>j. (''-map'', dec (length paths + length (meta_list ffmetadata) + length tts + j) @ '':s''))
         [0..<length subs] @
       (if given ffmetadata
        then [(''-map_chapters'', dec (length paths)), (''-map_metadata'', dec (length paths))] else []) \<and>
     list_all2 (clip_source_is en fps) clips paths \<and>
     list_all2 (\<lambda>sp p. resolve_subtitle_asset_path en sp = Inr p) subs sub_paths \<and>
     (\<forall>(f, v) \<in> set (stream_part fs). f \<in> filter_flags) \<and>
     (tts \<noteq> [] \<longrightarrow> filter_part en tts (length paths + length (meta_list ffmetadata)) fs) \<and>
     last cmd = rj_output_path job \<and>
     ((''-an'', []) \<in> set (stream_part fs) \<longleftrightarrow> mute)"

definition mutes :: "string list \<Rightarrow> bool" where
  "mutes cmd \<longleftrightarrow> (''-an'', []) \<in> set (argv_options (tl cmd))"

lemma command_parts_mute:
  assumes "command_parts en fps job subs ffmetadata tts clips cmd mute paths sub_paths fs mv"
  shows "mutes cmd \<longleftrightarrow> mute"
proof -
  have "(''-an'', []) \<in> set (stream_part os) \<longleftrightarrow> (''-an'', []) \<in> set os" for os
    by (auto simp: stream_part_def stream_flags_def)
  then have "mutes cmd \<longleftrightarrow> (''-an'', []) \<in> set (stream_part (argv_options (tl cmd)))"
    by (simp add: mutes_def)
  also have "\<dots> \<longleftrightarrow> (''-an'', []) \<in> set (stream_part fs)"
    using assms unfolding command_parts_def by (elim conjE) auto
  finally show ?thesis using assms by (simp add: command_parts_def)
qed

lemma command_parts_match:
  assumes cp: "command_parts en fps job subs ffmetadata tts clips cmd mute paths sub_paths fs mv"
  shows "streams_match en fps job subs ffmetadata tts clips cmd"
proof -
  note parts = cp [unfolded command_parts_def, THEN conjunct1]
  have fs: "\<forall>(f, v) \<in> set (stream_part fs). f \<in> filter_flags"
    and rest: "list_all2 (clip_source_is en fps) clips paths"
      "list_all2 (\<lambda>sp p. resolve_subtitle_asset_path en sp = Inr p) subs sub_paths"
      "tts \<noteq> [] \<longrightarrow> filter_part en tts (length paths + length (meta_list ffmetadata)) fs"
      "last cmd = rj_output_path job"
    using cp unfolding command_parts_def by blast+
  have val: "option_values flag cmd = map snd (filter (\<lambda>(f, v). f = flag) (stream_part (argv_options (tl cmd))))"
    if "flag \<in> stream_flags" for flag
    by (rule option_values_stream [OF that refl])
  have sf: "''-i'' \<in> stream_flags" "''-map'' \<in> stream_flags" "''-map_chapters'' \<in> stream_flags"
    "''-map_metadata'' \<in> stream_flags" "''-filter_complex'' \<in> stream_flags"
    by (simp_all add: stream_flags_def)
  have none: "filter (\<lambda>(f, v). f = flag) (stream_part fs) = []"
    if "flag \<in> {''-i'', ''-map_chapters'', ''-map_metadata''}" for flag
    using that by (intro filter_flags_none [OF fs]) (auto simp: filter_flags_def)
  note rd = parts filter_append map_append filter_flag_pairs
  have "command_inputs cmd = paths @ meta_list ffmetadata @ map ti_audio_path tts @ sub_paths"
    unfolding val [OF sf(1)] rd by (simp add: none comp_def)
  moreover have "option_values ''-map'' cmd = (map snd (filter (\<lambda>(f, v). f = ''-map'') (stream_part fs)) @ mv) @
      map (\<lambda>j. dec (length paths + length (meta_list ffmetadata) + length tts + j) @ '':s'') [0..<length subs]"
    unfolding val [OF sf(2)] rd by (simp add: comp_def)
  moreover have "option_values ''-map_chapters'' cmd = map (\<lambda>_. dec (length paths)) (meta_list ffmetadata)"
    unfolding val [OF sf(3)] rd by (simp add: none meta_list_def)
  moreover have "option_values ''-map_metadata'' cmd = map (\<lambda>_. dec (length paths)) (meta_list ffmetadata)"
    unfolding val [OF sf(4)] rd by (simp add: none meta_list_def)
  moreover have "option_values ''-filter_complex'' cmd =
      map snd (filter (\<lambda>(f, v). f = ''-filter_complex'') (stream_part fs))"
    unfolding val [OF sf(5)] rd by simp
  ultimately show ?thesis
    using rest unfolding streams_match_def filter_part_def by metis
qed

lemma multi_command_parts:
  assumes cmd: "build_multi_clip_command en job st subs ffmetadata tts clips = Inr cmd"
    and law: "\<And>cwes fps graph paths. ce_translate en cwes fps = Inr (graph, paths) \<Longrightarrow> paths = map cw_source_path cwes"
  shows "\<exists>ci paths sub_paths fs mv. build_clip_input_list en st (plan_fps st) clips = Inr ci \<and>
    command_parts en (plan_fps st) job subs ffmetadata tts clips cmd (tts = [] \<and> ci_audio_indices ci = [])
      paths sub_paths fs mv"
proof -
  from cmd obtain ci graph paths A S G where ci: "build_clip_input_list en st (plan_fps st) clips = Inr ci"
    and tr: "ce_translate en (ci_cwe ci) (plan_fps st) = Inr (graph, paths)"
    and A: "build_mc_clip_input_args en clips paths (ci_durations ci) (ci_in_points ci) = Inr A"
    and S: "subtitle_input_args en subs = Inr S" and G: "output_args job subs = Inr G"
    and eq: "cmd = [''ffmpeg''] @ A @ meta_args ffmetadata @ tts_input_args tts @ S @
       assemble_multi_tts_filter en tts (length paths + (if given ffmetadata then 1 else 0)) graph ci @
       subtitle_maps (length paths + (if given ffmetadata then 1 else 0) + length tts) (length subs) @
       encoder_args en st @ chapter_args ffmetadata (length paths) @ G"
    by (auto simp: build_multi_clip_command_def chapter_args_def sum_bind_Inr Let_def split: prod.splits)
  let ?base = "length paths + length (meta_list ffmetadata)"
  have base: "length paths + (if given ffmetadata then 1 else 0) = ?base" by (simp add: meta_list_def)
  have clips: "list_all2 (clip_source_is en (plan_fps st)) clips paths"
    using clip_input_loop_paths [OF ci [unfolded build_clip_input_list_def]] law [OF tr]
    by (auto simp: ci_empty_def)
  obtain oa where oa: "reads_as A oa" "stream_part oa = map (\<lambda>p. (''-i'', p)) paths"
    using mc_clip_inputs_read [OF A] by blast
  obtain sub_paths where sub: "list_all2 (\<lambda>sp p. resolve_subtitle_asset_path en sp = Inr p) subs sub_paths"
    "reads_as S (map (\<lambda>p. (''-i'', p)) sub_paths)"
    using subtitle_inputs_read [OF S] by blast
  obtain fs where fs: "reads_as (assemble_multi_tts_filter en tts ?base graph ci) fs" "filter_part en tts ?base fs"
    and mute: "(''-an'', []) \<in> set (stream_part fs) \<longleftrightarrow> tts = [] \<and> ci_audio_indices ci = []"
    using multi_filter_read by blast
  obtain oe where oe: "reads_as (encoder_args en st) oe" "no_streams oe" using encoder_read by blast
  obtain flags og where og: "G = flags @ [rj_output_path job]" "reads_as flags og" "no_streams og"
    using output_read [OF G] by blast
  have layout: "cmd = [''ffmpeg''] @ A @ meta_args ffmetadata @ tts_input_args tts @ S @ [] @
      assemble_multi_tts_filter en tts ?base graph ci @ [] @ subtitle_maps (?base + length tts) (length subs) @
      encoder_args en st @ chapter_args ffmetadata (length paths) @ flags @ [rj_output_path job]"
    using eq og(1) by (simp add: base)
  from command_stream_part [OF layout oa sub(2) reads_nil _ fs(1) reads_nil _ oe og(2,3)]
  have "command_parts en (plan_fps st) job subs ffmetadata tts clips cmd (tts = [] \<and> ci_audio_indices ci = [])
      paths sub_paths fs []"
    using fs(2) clips sub(1) layout mute unfolding command_parts_def
    by (intro conjI) (auto simp: filter_part_def)
  with ci show ?thesis by blast
qed

lemma single_command_parts:
  assumes cmd: "build_single_clip_command en job st subs ffmetadata tts [c] segments total_dur = Inr cmd"
  shows "\<exists>paths sub_paths fs mv. command_parts en (plan_fps st) job subs ffmetadata tts [c] cmd
    (tts = [] \<and> uses_translator c \<and> (\<exists>fxs. build_clip_render_effects en c = Inr (fxs, [])))
    paths sub_paths fs mv"
proof -
  from cmd obtain path codec rate x y dur S F G where src: "resolve_clip_source en c (plan_fps st) = Inr (path, codec, rate)"
    and S: "subtitle_input_args en subs = Inr S" and G: "output_args job subs = Inr G"
    and F: "assemble_sc_filter en st c (uses_translator c) codec tts
              (if tts \<noteq> [] then 1 + (if given ffmetadata then 1 else 0) else 0) dur path = Inr F"
    and eq: "cmd = build_sc_cmd_init c path @ meta_args ffmetadata @ tts_input_args tts @ S @
       [''-ss'', x, ''-t'', y] @ F @
       (if subs \<noteq> [] then sc_subtitle_stream_maps (length subs) tts (uses_translator c) codec ffmetadata else []) @
       encoder_args en st @ chapter_args ffmetadata 1 @ G"
    unfolding build_single_clip_command_def Let_def chapter_args_1 by (auto simp: sum_bind_Inr split: prod.splits)
  let ?base = "1 + length (meta_list ffmetadata)"
  define A where "A = tl (build_sc_cmd_init c path)"
  have init: "build_sc_cmd_init c path = [''ffmpeg''] @ A" by (simp add: A_def build_sc_cmd_init_def)
  have "reads_as A ((if cl_clip_type c = ''image'' then [(''-loop'', ''1'')]
      else if cl_clip_type c = ''generator'' then [(''-f'', ''lavfi'')] else []) @ [(''-i'', path)])" (is "reads_as A ?oa")
    by (simp add: A_def build_sc_cmd_init_def reads_pair reads_nil)
  moreover have "stream_part ?oa = map (\<lambda>p. (''-i'', p)) [path]" by (simp add: stream_flags_def)
  ultimately obtain oa where oa: "reads_as A oa" "stream_part oa = map (\<lambda>p. (''-i'', p)) [path]" by blast
  define mv where "mv = (if subs \<noteq> [] \<and> tts = [] \<and> \<not> uses_translator c
      then [''0:v''] @ (if codec \<noteq> None then [''0:a''] else []) else [])"
  define M where "M = concat (map (\<lambda>v. [''-map'', v]) mv)"
  have M: "reads_as M (map (\<lambda>v. (''-map'', v)) mv)"
    by (auto simp: M_def mv_def intro!: reads_pair reads_nil)
  have maps: "(if subs \<noteq> [] then sc_subtitle_stream_maps (length subs) tts (uses_translator c) codec ffmetadata else [])
      = M @ subtitle_maps (?base + length tts) (length subs)"
    by (auto simp: sc_subtitle_stream_maps_def M_def mv_def meta_list_def subtitle_maps_def)
  obtain sub_paths where sub: "list_all2 (\<lambda>sp p. resolve_subtitle_asset_path en sp = Inr p) subs sub_paths"
    "reads_as S (map (\<lambda>p. (''-i'', p)) sub_paths)"
    using subtitle_inputs_read [OF S] by blast
  from single_filter_read [OF F] obtain fs where fs: "reads_as F fs" "\<forall>(f, v) \<in> set (stream_part fs). f \<in> filter_flags"
    and sp: "tts \<noteq> [] \<longrightarrow> filter_part en tts (if tts \<noteq> [] then 1 + (if given ffmetadata then 1 else 0) else 0) fs"
    and mute: "(''-an'', []) \<in> set (stream_part fs) \<longleftrightarrow>
        tts = [] \<and> uses_translator c \<and> (\<exists>fxs. build_clip_render_effects en c = Inr (fxs, []))"
    by blast
  have speech: "filter_part en tts ?base fs" if "tts \<noteq> []"
    using sp that by (simp add: meta_list_def split: if_splits)
  obtain oe where oe: "reads_as (encoder_args en st) oe" "no_streams oe" using encoder_read by blast
  obtain flags og where og: "G = flags @ [rj_output_path job]" "reads_as flags og" "no_streams og"
    using output_read [OF G] by blast
  have X: "reads_as [''-ss'', x, ''-t'', y] [(''-ss'', x), (''-t'', y)]" "no_streams [(''-ss'', x), (''-t'', y)]"
    by (simp_all add: reads_pair reads_nil stream_flags_def)
  have layout: "cmd = [''ffmpeg''] @ A @ meta_args ffmetadata @ tts_input_args tts @ S @ [''-ss'', x, ''-t'', y] @
      F @ M @ subtitle_maps (?base + length tts) (length subs) @ encoder_args en st @
      chapter_args ffmetadata 1 @ flags @ [rj_output_path job]"
    unfolding eq init maps og(1) by simp
  have om: "stream_part (map (\<lambda>v. (''-map'', v)) mv) = map (\<lambda>v. (''-map'', v)) mv"
    by (simp add: stream_part_pairs stream_flags_def)
  from command_stream_part [OF layout oa sub(2) X fs(1) M om oe og(2,3)]
  have "command_parts en (plan_fps st) job subs ffmetadata tts [c] cmd
      (tts = [] \<and> uses_translator c \<and> (\<exists>fxs. build_clip_render_effects en c = Inr (fxs, [])))
      [path] sub_paths fs mv"
    using fs(2) sub(1) layout speech src mute unfolding command_parts_def
    by (intro conjI) (auto simp: clip_source_is_def)
  then show ?thesis by blast
qed

lemma validate_render_settings_same: "validate_render_settings sps = Inr subs \<Longrightarrow> subs = sps"
  by (induction sps arbitrary: subs) (auto simp: sum_bind_Inr)

lemma build_command_cases:
  assumes "build_command_for_job en job ffmetadata tts = Inr cmd"
  shows "\<exists>plan st total_dur. ce_loads en (rj_render_plan job) = Some plan \<and> pl_settings plan = Some st \<and>
     rj_output_path job \<noteq> [] \<and> pl_total_duration plan = Some total_dur \<and>
     (1 < length (ce_clips en (rj_project_id job)) \<and>
        build_multi_clip_command en job st (ps_soft_subtitles st) ffmetadata tts
          (ce_clips en (rj_project_id job)) = Inr cmd \<or>
      (\<exists>c. ce_clips en (rj_project_id job) = [c] \<and>
        build_single_clip_command en job st (ps_soft_subtitles st) ffmetadata tts [c] (pl_segments plan)
          total_dur = Inr cmd))"
proof -
  obtain plan st total_dur subs where p: "ce_loads en (rj_render_plan job) = Some plan" "pl_settings plan = Some st"
      "rj_output_path job \<noteq> []" "pl_total_duration plan = Some total_dur"
    and v: "validate_render_settings (ps_soft_subtitles st) = Inr subs"
    and c: "(let clips = ce_clips en (rj_project_id job) in if clips = [] then Inl CommandBuildError
       else if 1 < length clips then build_multi_clip_command en job st subs ffmetadata tts clips
       else build_single_clip_command en job st subs ffmetadata tts clips (pl_segments plan) total_dur) = Inr cmd"
    using assms by (auto simp: build_command_for_job_def sum_bind_Inr split: if_splits option.splits)
  have "ce_clips en (rj_project_id job) \<noteq> []" using c by (auto simp: Let_def split: if_splits)
  then have "1 < length (ce_clips en (rj_project_id job)) \<or> (\<exists>c. ce_clips en (rj_project_id job) = [c])"
    by (cases "ce_clips en (rj_project_id job)") (auto simp: neq_Nil_conv)
  then show ?thesis using p c validate_render_settings_same [OF v] by (auto simp: Let_def split: if_splits)
qed

end
