(* ===== verification/Command_Audio.thy ===== *)
theory Command_Audio
  imports Command_Streams "HOL-Library.Multiset" "HOL-Library.Sublist"
begin

text \<open>
  The properties of the command builder: the numbering of inputs, when a command is silent, and the
  audio graph of several clips, a linear pipeline from the clips to \<open>[aout]\<close>.
\<close>

subsection \<open>What the input loop collects\<close>

definition has_audio :: "command_env \<Rightarrow> py_num \<Rightarrow> clip \<Rightarrow> bool" where
  "has_audio en fps c \<longleftrightarrow> (\<exists>path codec rate. resolve_clip_source en c fps = Inr (path, Some codec, rate))"

lemma resolve_audio_is_file:
  "resolve_clip_source en c fps = Inr (path, Some codec, rate) \<Longrightarrow> is_file c"
  by (auto simp: resolve_clip_source_def is_file_def sum_bind_Inr)

lemma note_audio_indices:
  assumes "resolve_clip_source en c fps = Inr (path, codec, rate)"
  shows "ci_audio_indices (note_audio i c codec ci) =
     ci_audio_indices ci @ (if has_audio en fps c then [i] else [])"
  using assms resolve_audio_is_file [of en c fps path _ rate]
  by (cases codec) (auto simp: note_audio_def has_audio_def Let_def)

definition ci_shape :: "nat \<Rightarrow> clip_inputs \<Rightarrow> bool" where
  "ci_shape n ci \<longleftrightarrow> length (ci_cwe ci) = n \<and> length (ci_durations ci) = n \<and> length (ci_audio_filters ci) = n \<and>
     length (ci_in_points ci) = n \<and>
     ci_transitions ci = map (\<lambda>w. map_option snd (cw_transition w)) (ci_cwe ci)"

lemma add_clip_shape: "add_clip_input en st fps i c ci = Inr ci' \<Longrightarrow> ci_shape n ci \<Longrightarrow> ci_shape (Suc n) ci'"
  by (erule add_clip_input_Inr) (auto simp: ci_shape_def Let_def option.map_comp comp_def)

lemma add_clip_indices: "add_clip_input en st fps i c ci = Inr ci' \<Longrightarrow>
    ci_audio_indices ci' = ci_audio_indices ci @ (if has_audio en fps c then [i] else [])"
  by (erule add_clip_input_Inr) (auto simp: Let_def note_audio_indices)

lemma indices_Cons:
  "{i + j | j. j < length (c # cs) \<and> P ((c # cs) ! j)} =
     (if P c then {i} else {}) \<union> {i + 1 + j | j. j < length cs \<and> P (cs ! j)}" (is "?L = ?R")
proof -
  have "?L = (\<lambda>j. i + j) ` {j. j < Suc (length cs) \<and> P ((c # cs) ! j)}" by auto
  also have "{j. j < Suc (length cs) \<and> P ((c # cs) ! j)} =
      (if P c then {0} else {}) \<union> Suc ` {j. j < length cs \<and> P (cs ! j)}"
    by (auto simp: less_Suc_eq_0_disj)
  also have "(\<lambda>j. i + j) ` \<dots> = ?R" by (auto simp: image_Un image_image)
  finally show ?thesis .
qed

lemma clip_input_loop_shape:
  assumes "clip_input_loop en st fps i cs ci = Inr ci'" and "ci_shape n ci"
  shows "ci_shape (n + length cs) ci' \<and>
    set (ci_audio_indices ci') = set (ci_audio_indices ci) \<union> {i + j | j. j < length cs \<and> has_audio en fps (cs ! j)}"
  using assms
proof (induction cs arbitrary: i ci n)
  case (Cons c cs)
  then obtain cj where cj: "add_clip_input en st fps i c ci = Inr cj"
    and loop: "clip_input_loop en st fps (i + 1) cs cj = Inr ci'"
    by (auto simp: sum_bind_Inr)
  have split: "{i + j | j. j < length (c # cs) \<and> has_audio en fps ((c # cs) ! j)} =
      (if has_audio en fps c then {i} else {}) \<union> {i + 1 + j | j. j < length cs \<and> has_audio en fps (cs ! j)}"
    by (rule indices_Cons)
  have ih: "ci_shape (Suc n + length cs) ci'"
    "set (ci_audio_indices ci') = set (ci_audio_indices cj) \<union> {i + 1 + j | j. j < length cs \<and> has_audio en fps (cs ! j)}"
    using Cons.IH [OF loop add_clip_shape [OF cj Cons.prems(2)]] by blast+
  show ?case
  proof
    show "ci_shape (n + length (c # cs)) ci'" using ih(1) by simp
    show "set (ci_audio_indices ci') = set (ci_audio_indices ci) \<union>
        {i + j | j. j < length (c # cs) \<and> has_audio en fps ((c # cs) ! j)}"
      unfolding split ih(2) add_clip_indices [OF cj] by auto
  qed
qed simp

lemma clip_inputs_shape:
  assumes "build_clip_input_list en st fps clips = Inr ci"
  shows "ci_shape (length clips) ci"
    and "set (ci_audio_indices ci) = {j. j < length clips \<and> has_audio en fps (clips ! j)}"
  using clip_input_loop_shape [OF assms [unfolded build_clip_input_list_def], of 0]
  by (simp_all add: ci_empty_def ci_shape_def)

subsection \<open>The properties of whole commands\<close>

definition demo_job :: render_job where
  "demo_job = \<lparr>rj_id = ''j'', rj_project_id = ''p'', rj_status = R_RUNNING, rj_output_path = ''out.mp4'',
     rj_output_format = MP4, rj_quality_preset = STANDARD, rj_render_plan = ''plan'', rj_progress = 0,
     rj_error_message = None, rj_retry_count = 0, rj_created_at = 0, rj_updated_at = 0,
     rj_completed_at = None, rj_partial_file_detected = False, rj_evidence_json = None\<rparr>"

definition demo_clip :: "string \<Rightarrow> int \<Rightarrow> effect_data list \<Rightarrow> clip" where
  "demo_clip k inp effects = \<lparr>cl_id = k, cl_project_id = ''p'', cl_source_video_id = Some ''v'', cl_in_point = inp,
     cl_out_point = 60, cl_timeline_position = 0, cl_created_at = 0, cl_updated_at = 0, cl_clip_type = ''file'',
     cl_generator_params = None, cl_effects = Some effects, cl_track_id = None, cl_timeline_start = None,
     cl_timeline_end = None, cl_source_asset_id = None\<rparr>"

definition demo_blur :: effect_data where
  "demo_blur = \<lparr>ed_effect_type = ''blur'', ed_parameters = JNull, ed_filter_string = [], ed_window = None\<rparr>"

definition demo_video :: video where
  "demo_video = \<lparr>vd_id = ''v'', vd_path = ''v.mp4'', vd_filename = ''v.mp4'', vd_duration_frames = 300, vd_rate_numerator = 30,
     vd_rate_denominator = 1, vd_width = 640, vd_height = 360, vd_video_codec = ''h264'', vd_file_size = 1, vd_created_at = 0,
     vd_updated_at = 0, vd_audio_codec = Some ''aac'', vd_thumbnail_path = None, vd_subtitle_count = 0, vd_data_count = 0,
     vd_subtitle_streams = []\<rparr>"

declare demo_video_def [simp]

definition demo_settings :: plan_settings where
  "demo_settings = \<lparr>ps_codec = None, ps_fps = None, ps_width = None, ps_height = None, ps_quality_preset = None,
     ps_filter_graph = None, ps_transitions = [],
     ps_soft_subtitles = [\<lparr>ss_asset_id = ''s'', ss_language = ''de-CH'', ss_is_default = True\<rparr>]\<rparr>"

definition demo_command_env :: "clip list \<Rightarrow> command_env" where
  "demo_command_env clips = \<lparr>
     ce_loads = (\<lambda>_. Some \<lparr>pl_settings = Some demo_settings, pl_total_duration = Some (NInt 2), pl_segments = []\<rparr>),
     ce_float_str = (\<lambda>_. ''1.0''), ce_clips = (\<lambda>_. clips),
     ce_videos = (\<lambda>_. Some demo_video),
     ce_assets = Some (\<lambda>_. Some \<lparr>as_file_path = ''s.srt'', as_deleted = False\<rparr>),
     ce_registry = Some (\<lambda>_. Some \<lparr>df_stream_kind = ''v'', df_timeline_t_capable = False,
                         df_build_fn = (\<lambda>_. Inr ''gblur'')\<rparr>),
     ce_transition_error = (\<lambda>_ _. None), ce_window_error = (\<lambda>_ _. None), ce_clip_error = (\<lambda>_. None),
     ce_translate = (\<lambda>cs _. Inr (''graph'', map cw_source_path cs))\<rparr>"

text \<open>
  C15. Whenever a command is built, its inputs are the sources of the clips in order, then the chapter
  file, the speech files and the subtitle files, and everything that refers to them uses the right
  number: each subtitle map, the chapter and metadata flags, and the filters that delay the speech.
  The output path comes last. This rests on the translator listing the sources of its clips in order.
\<close>

theorem command_streams_match:
  assumes cmd: "build_command_for_job en job ffmetadata tts = Inr cmd"
    and translate_lists_sources:
      "\<And>cwes fps graph paths. ce_translate en cwes fps = Inr (graph, paths) \<Longrightarrow> paths = map cw_source_path cwes"
  shows "\<exists>plan st. ce_loads en (rj_render_plan job) = Some plan \<and> pl_settings plan = Some st \<and>
    streams_match en (plan_fps st) job (ps_soft_subtitles st) ffmetadata tts (ce_clips en (rj_project_id job)) cmd"
proof -
  from build_command_cases [OF cmd] obtain plan st total_dur where
    p: "ce_loads en (rj_render_plan job) = Some plan" "pl_settings plan = Some st" and
    c: "build_multi_clip_command en job st (ps_soft_subtitles st) ffmetadata tts
          (ce_clips en (rj_project_id job)) = Inr cmd \<or>
      (\<exists>c. ce_clips en (rj_project_id job) = [c] \<and>
        build_single_clip_command en job st (ps_soft_subtitles st) ffmetadata tts [c] (pl_segments plan)
          total_dur = Inr cmd)"
    by blast
  from c have "streams_match en (plan_fps st) job (ps_soft_subtitles st) ffmetadata tts
      (ce_clips en (rj_project_id job)) cmd"
  proof
    assume "build_multi_clip_command en job st (ps_soft_subtitles st) ffmetadata tts
      (ce_clips en (rj_project_id job)) = Inr cmd"
    from multi_command_parts [OF this] translate_lists_sources show ?thesis
      using command_parts_match by blast
  next
    assume "\<exists>c. ce_clips en (rj_project_id job) = [c] \<and>
        build_single_clip_command en job st (ps_soft_subtitles st) ffmetadata tts [c] (pl_segments plan)
          total_dur = Inr cmd"
    then show ?thesis using single_command_parts command_parts_match by metis
  qed
  with p show ?thesis by blast
qed

lemma demo_build: "\<not> isl (build_command_for_job
    (demo_command_env [demo_clip ''a'' 0 [], demo_clip ''b'' 30 [demo_blur]])
    demo_job (Some ''m'') [\<lparr>ti_audio_path = ''t'', ti_start_s = 1, ti_weight = 1\<rparr>])"
  by code_simp

theorem command_streams_match_witness:
  "\<exists>cmd. streams_match (demo_command_env [demo_clip ''a'' 0 [], demo_clip ''b'' 30 [demo_blur]]) (NFloat 30) demo_job
     (ps_soft_subtitles demo_settings) (Some ''m'') [\<lparr>ti_audio_path = ''t'', ti_start_s = 1, ti_weight = 1\<rparr>]
     [demo_clip ''a'' 0 [], demo_clip ''b'' 30 [demo_blur]] cmd"
proof -
  let ?en = "demo_command_env [demo_clip ''a'' 0 [], demo_clip ''b'' 30 [demo_blur]]"
  obtain cmd where "build_command_for_job ?en demo_job (Some ''m'')
      [\<lparr>ti_audio_path = ''t'', ti_start_s = 1, ti_weight = 1\<rparr>] = Inr cmd"
    using demo_build by (auto simp: isl_def) (metis sumE)
  from command_streams_match [OF this] show ?thesis
    by (auto simp: demo_command_env_def demo_settings_def get_or_def)
qed

text \<open>
  Exactly when a command switches the audio off: never with speech; with several clips when none
  has an audio track; with one clip when it goes through the translator and has no audio effect,
  whether or not its source has audio.
\<close>

theorem command_mutes_iff:
  assumes cmd: "build_command_for_job en job ffmetadata tts = Inr cmd"
    and translate_lists_sources:
      "\<And>cwes fps graph paths. ce_translate en cwes fps = Inr (graph, paths) \<Longrightarrow> paths = map cw_source_path cwes"
  shows "\<exists>plan st. ce_loads en (rj_render_plan job) = Some plan \<and> pl_settings plan = Some st \<and>
    (mutes cmd \<longleftrightarrow> tts = [] \<and>
       (if 1 < length (ce_clips en (rj_project_id job))
        then \<forall>c \<in> set (ce_clips en (rj_project_id job)). \<not> has_audio en (plan_fps st) c
        else \<exists>c fxs. ce_clips en (rj_project_id job) = [c] \<and> uses_translator c \<and>
               build_clip_render_effects en c = Inr (fxs, [])))"
proof -
  let ?clips = "ce_clips en (rj_project_id job)"
  from build_command_cases [OF cmd] obtain plan st total_dur where
    p: "ce_loads en (rj_render_plan job) = Some plan" "pl_settings plan = Some st" and
    c: "1 < length ?clips \<and> build_multi_clip_command en job st (ps_soft_subtitles st) ffmetadata tts ?clips = Inr cmd \<or>
      (\<exists>c. ?clips = [c] \<and> build_single_clip_command en job st (ps_soft_subtitles st) ffmetadata tts [c]
          (pl_segments plan) total_dur = Inr cmd)"
    by blast
  from c show ?thesis
  proof
    assume m: "1 < length ?clips \<and> build_multi_clip_command en job st (ps_soft_subtitles st) ffmetadata tts ?clips = Inr cmd"
    from multi_command_parts [OF conjunct2 [OF m]] translate_lists_sources obtain ci where
      ci: "build_clip_input_list en st (plan_fps st) ?clips = Inr ci" and
      mute: "mutes cmd \<longleftrightarrow> tts = [] \<and> ci_audio_indices ci = []"
      using command_parts_mute by blast
    have "ci_audio_indices ci = [] \<longleftrightarrow> (\<forall>c \<in> set ?clips. \<not> has_audio en (plan_fps st) c)"
      unfolding set_empty [symmetric] clip_inputs_shape(2) [OF ci] by (auto simp: all_set_conv_all_nth)
    with m mute p show ?thesis by auto
  next
    assume "\<exists>c. ?clips = [c] \<and> build_single_clip_command en job st (ps_soft_subtitles st) ffmetadata tts [c]
          (pl_segments plan) total_dur = Inr cmd"
    then obtain c where c: "?clips = [c]" "build_single_clip_command en job st (ps_soft_subtitles st) ffmetadata tts [c]
          (pl_segments plan) total_dur = Inr cmd" by blast
    from single_command_parts [OF c(2)] have
      "mutes cmd \<longleftrightarrow> tts = [] \<and> uses_translator c \<and> (\<exists>fxs. build_clip_render_effects en c = Inr (fxs, []))"
      using command_parts_mute by blast
    with c(1) p show ?thesis by auto
  qed
qed

lemma demo_single: "\<not> isl (build_command_for_job (demo_command_env [demo_clip ''a'' 0 [demo_blur]]) demo_job None [])"
  by code_simp

theorem command_mutes_iff_witness:
  "\<exists>cmd. build_command_for_job (demo_command_env [demo_clip ''a'' 0 [demo_blur]]) demo_job None [] = Inr cmd \<and>
     mutes cmd \<and> has_audio (demo_command_env [demo_clip ''a'' 0 [demo_blur]]) (NFloat 30) (demo_clip ''a'' 0 [demo_blur])"
proof -
  let ?c = "demo_clip ''a'' 0 [demo_blur]"
  let ?en = "demo_command_env [?c]"
  obtain cmd where cmd: "build_command_for_job ?en demo_job None [] = Inr cmd"
    using demo_single by (auto simp: isl_def) (metis sumE)
  have fx: "build_clip_render_effects ?en ?c = Inr ([FxCustom ''gblur''], [])"
    by (simp add: build_clip_render_effects_def demo_command_env_def demo_clip_def demo_blur_def get_or_def
        clip_render_effect_def)
  have tr: "uses_translator ?c" by (simp add: uses_translator_def demo_clip_def get_or_def)
  have "has_audio ?en (NFloat 30) ?c"
    by (simp add: has_audio_def resolve_clip_source_def resolve_file_def demo_clip_def demo_command_env_def
        frame_rate_def py_div_def)
  moreover have "mutes cmd"
    using command_mutes_iff [OF cmd] fx tr by (auto simp: demo_command_env_def)
  ultimately show ?thesis using cmd by blast
qed

subsection \<open>The audio graph of several clips\<close>

text \<open>A node of a filter graph: the labels it reads, its filter, the label it writes.\<close>

type_synonym graph_node = "string list \<times> string \<times> string"

fun node_text :: "graph_node \<Rightarrow> string" where
  "node_text (ins, body, out) = concat ins @ body @ out"

abbreviation node_ins :: "graph_node \<Rightarrow> string list" where "node_ins nd \<equiv> fst nd"
abbreviation node_out :: "graph_node \<Rightarrow> string" where "node_out nd \<equiv> snd (snd nd)"

definition stream_label :: "nat \<Rightarrow> string" where
  "stream_label i = ''['' @ dec i @ '':a]''"

text \<open>
  A pipeline: every label is written once, every audio stream of a clip and every label but the last
  is read exactly once and only after it was written, and the last label is \<open>[aout]\<close>.
\<close>

definition audio_pipeline :: "string list \<Rightarrow> graph_node list \<Rightarrow> bool" where
  "audio_pipeline streams nodes \<longleftrightarrow>
     (let outs = map node_out nodes in
      nodes \<noteq> [] \<and> distinct outs \<and> last outs = ''[aout]'' \<and>
      mset (concat (map node_ins nodes)) = mset streams + mset (butlast outs) \<and>
      (\<forall>m < length nodes. \<forall>l \<in> set (node_ins (nodes ! m)). l \<in> set streams \<or> l \<in> set (take m outs)))"

definition source_nodes :: "command_env \<Rightarrow> clip_inputs \<Rightarrow> nat \<Rightarrow> graph_node list" where
  "source_nodes en ci i =
     (if i \<in> set (ci_audio_indices ci)
      then if i < length (ci_audio_filters ci) \<and> ci_audio_filters ci ! i \<noteq> []
           then [([stream_label i], str_join '','' (ci_audio_filters ci ! i), ''[a'' @ dec i @ ''_eff]'')]
           else []
      else [([], ''anullsrc=r=48000:cl=stereo:d='' @ ce_float_str en (ci_durations ci ! i), ''[a'' @ dec i @ ''_silent]'')])"

lemma audio_source_nodes:
  "fst (audio_source en ci i) = map node_text (source_nodes en ci i)"
  "source_nodes en ci i \<noteq> [] \<Longrightarrow> map node_out (source_nodes en ci i) = [snd (audio_source en ci i)]"
  "source_nodes en ci i = [] \<Longrightarrow> snd (audio_source en ci i) = stream_label i \<and> i \<in> set (ci_audio_indices ci)"
  by (auto simp: audio_source_def source_nodes_def stream_label_def Let_def split: if_splits)

lemma source_node_ins:
  "concat (map node_ins (source_nodes en ci i)) =
     (if i \<in> set (ci_audio_indices ci) \<and> source_nodes en ci i \<noteq> [] then [stream_label i] else [])"
  by (auto simp: source_nodes_def)

abbreviation source_label :: "command_env \<Rightarrow> clip_inputs \<Rightarrow> nat \<Rightarrow> string" where
  "source_label en ci i \<equiv> snd (audio_source en ci i)"

lemma source_label_forms:
  "source_label en ci i = ''['' @ dec i @ '':a]'' \<or> source_label en ci i = ''[a'' @ dec i @ ''_eff]'' \<or>
   source_label en ci i = ''[a'' @ dec i @ ''_silent]''"
  by (auto simp: audio_source_def Let_def)

lemma eff_not_silent: "dec i @ ''_eff]'' \<noteq> dec j @ ''_silent]''"
proof
  assume "dec i @ ''_eff]'' = dec j @ ''_silent]''"
  then have "CHR ''l'' \<in> set (dec i @ ''_eff]'')" by simp
  then have "CHR ''l'' \<in> set (dec i)" by simp
  from dec_chars [OF this] show False by simp
qed

lemma plain_not_a: "dec i @ '':a]'' \<noteq> CHR ''a'' # s"
  using dec_Cons [of i] by auto

lemma label_forms_inj:
  assumes "s = ''['' @ dec i @ '':a]'' \<or> s = ''[a'' @ dec i @ ''_eff]'' \<or> s = ''[a'' @ dec i @ ''_silent]''"
    and "s = ''['' @ dec j @ '':a]'' \<or> s = ''[a'' @ dec j @ ''_eff]'' \<or> s = ''[a'' @ dec j @ ''_silent]''"
  shows "i = j"
  using assms eff_not_silent [of i j] eff_not_silent [of j i] plain_not_a [of i] plain_not_a [of j]
    plain_not_a [of i, symmetric] plain_not_a [of j, symmetric]
  by auto

lemma source_label_inj: "source_label en ci i = source_label en ci j \<Longrightarrow> i = j"
  using label_forms_inj source_label_forms by metis

lemma source_label_not_fade:
  "source_label en ci i \<noteq> ''[xa'' @ dec k @ '']''" "source_label en ci i \<noteq> ''[aout]''"
  using source_label_forms [of en ci i] dec_Cons [of i] by auto

definition fade_body :: "command_env \<Rightarrow> clip_inputs \<Rightarrow> nat \<Rightarrow> string" where
  "fade_body en ci k = ''acrossfade=d='' @ whole_text en (get_transition_duration k (ci_transitions ci))"

fun fade_nodes :: "command_env \<Rightarrow> clip_inputs \<Rightarrow> nat \<Rightarrow> nat \<Rightarrow> string \<Rightarrow> string list \<Rightarrow> graph_node list" where
  "fade_nodes en ci n k current [] = []"
| "fade_nodes en ci n k current (label # labels) =
     ([current, label], fade_body en ci k, crossfade_out n k) #
     fade_nodes en ci n (k + 1) (crossfade_out n k) labels"

lemma crossfade_nodes_text:
  "crossfade_nodes en ci n k current labels = map node_text (fade_nodes en ci n k current labels)"
  by (induction labels arbitrary: k current) (simp_all add: fade_body_def)

lemma fade_outs: "map node_out (fade_nodes en ci n k current labels) = map (crossfade_out n) [k..<k + length labels]"
proof (induction labels arbitrary: k current)
  case (Cons l ls)
  then show ?case by (simp add: upt_conv_Cons del: upt_Suc)
qed simp

lemma fade_ins:
  "labels \<noteq> [] \<Longrightarrow> mset (concat (map node_ins (fade_nodes en ci n k current labels))) =
     {#current#} + mset labels + mset (butlast (map node_out (fade_nodes en ci n k current labels)))"
proof (induction labels arbitrary: k current)
  case (Cons l ls)
  show ?case
  proof (cases "ls = []")
    case False
    then have "fade_nodes en ci n (k + 1) (crossfade_out n k) ls \<noteq> []" by (cases ls) auto
    with Cons.IH [OF False, of "k + 1" "crossfade_out n k"] show ?thesis by simp
  qed simp
qed simp

lemma fade_nth:
  "m < length labels \<Longrightarrow> fade_nodes en ci n k current labels ! m =
     ([if m = 0 then current else crossfade_out n (k + m - 1), labels ! m], fade_body en ci (k + m), crossfade_out n (k + m))"
proof (induction labels arbitrary: k current m)
  case (Cons l ls)
  then show ?case by (cases m) auto
qed simp

lemma fade_at:
  assumes "Suc m < n"
  shows "fade_nodes en ci n 1 (source_label en ci 0) (map (source_label en ci) [1..<n]) ! m =
     ([if m = 0 then source_label en ci 0 else crossfade_out n m, source_label en ci (Suc m)],
      fade_body en ci (Suc m), crossfade_out n (Suc m))"
  using fade_nth [of m "map (source_label en ci) [1..<n]" en ci n 1 "source_label en ci 0"] assms
  by (auto simp: less_diff_conv)

lemma fade_length [simp]: "length (fade_nodes en ci n k current labels) = length labels"
  by (induction labels arbitrary: k current) auto

lemma crossfade_out_inj: "inj_on (crossfade_out n) {1..<n}"
proof (rule inj_onI)
  fix a b assume a: "a \<in> {1..<n}" and b: "b \<in> {1..<n}" and eq: "crossfade_out n a = crossfade_out n b"
  have out: "crossfade_out n k = ''[aout]'' \<longleftrightarrow> \<not> k < n - 1" for k
    by (simp add: crossfade_out_def)
  show "a = b"
  proof (cases "a < n - 1")
    case True
    then have "b < n - 1" using out eq by metis
    then have "a - 1 = b - 1" using True eq by (simp add: crossfade_out_def)
    then show ?thesis using a b by auto
  next
    case False
    then have "\<not> b < n - 1" using out eq by metis
    then show ?thesis using False a b by auto
  qed
qed

definition chain_nodes :: "command_env \<Rightarrow> clip_inputs \<Rightarrow> nat \<Rightarrow> graph_node list" where
  "chain_nodes en ci n = concat (map (source_nodes en ci) [0..<n]) @
     fade_nodes en ci n 1 (source_label en ci 0) (map (source_label en ci) [1..<n])"

lemma chain_text:
  assumes "ci_audio_indices ci \<noteq> []" and "length (ci_durations ci) = n" and "1 \<le> n"
  shows "build_audio_acrossfade_chain en ci = Some (str_join '';'' (map node_text (chain_nodes en ci n)))"
proof -
  have split: "[0..<n] = 0 # [1..<n]" using assms(3) by (simp add: upt_conv_Cons)
  show ?thesis
    unfolding build_audio_acrossfade_chain_def chain_nodes_def
    by (simp add: assms Let_def split crossfade_nodes_text audio_source_nodes(1) map_concat comp_def)
qed

text \<open>The nodes that prepare the sources: what they write and read.\<close>

lemma sources_out: "map node_out (concat (map (source_nodes en ci) is)) =
     map (source_label en ci) (filter (\<lambda>i. source_nodes en ci i \<noteq> []) is)"
  by (induction "is") (auto simp: audio_source_nodes(2))

lemma sources_in: "concat (map node_ins (concat (map (source_nodes en ci) is))) =
     map stream_label (filter (\<lambda>i. i \<in> set (ci_audio_indices ci) \<and> source_nodes en ci i \<noteq> []) is)"
proof (induction "is")
  case (Cons i "is")
  then show ?case using source_node_ins [of en ci i] by simp
qed simp

lemma labels_mset: "mset (map (source_label en ci) is) =
     mset (map (source_label en ci) (filter (\<lambda>i. source_nodes en ci i \<noteq> []) is)) +
     mset (map stream_label (filter (\<lambda>i. source_nodes en ci i = []) is))"
  by (induction "is") (auto simp: audio_source_nodes(3))

lemma streams_mset: "mset (map stream_label (filter (\<lambda>i. i \<in> set (ci_audio_indices ci)) is)) =
     mset (map stream_label (filter (\<lambda>i. i \<in> set (ci_audio_indices ci) \<and> source_nodes en ci i \<noteq> []) is)) +
     mset (map stream_label (filter (\<lambda>i. source_nodes en ci i = []) is))"
  by (induction "is") (auto simp: audio_source_nodes(3))

lemma source_ready:
  assumes "i < n"
  shows "source_label en ci i \<in> set (map stream_label (filter (\<lambda>i. i \<in> set (ci_audio_indices ci)) [0..<n])) \<or>
    source_label en ci i \<in> set (map node_out (concat (map (source_nodes en ci) [0..<n])))"
  using assms audio_source_nodes(3) [of en ci i] by (cases "source_nodes en ci i = []") (auto simp: sources_out)

lemma chain_pipeline:
  assumes n: "2 \<le> n"
  shows "audio_pipeline (map stream_label (filter (\<lambda>i. i \<in> set (ci_audio_indices ci)) [0..<n])) (chain_nodes en ci n)"
proof -
  let ?S = "concat (map (source_nodes en ci) [0..<n])"
  let ?F = "fade_nodes en ci n 1 (source_label en ci 0) (map (source_label en ci) [1..<n])"
  let ?streams = "map stream_label (filter (\<lambda>i. i \<in> set (ci_audio_indices ci)) [0..<n])"
  have N: "chain_nodes en ci n = ?S @ ?F" by (simp add: chain_nodes_def)
  have outF: "map node_out ?F = map (crossfade_out n) [1..<n]" using n by (simp only: fade_outs) simp
  have outs: "map node_out (chain_nodes en ci n) = map node_out ?S @ map (crossfade_out n) [1..<n]"
    unfolding N map_append outF ..
  have n1: "[1..<n] = [1..<n - 1] @ [n - 1]" using n upt_Suc_append [of 1 "n - 1"] by simp
  have last: "last (map node_out (chain_nodes en ci n)) = ''[aout]''"
    unfolding outs n1 by (simp add: crossfade_out_def)
  have dS: "distinct (map node_out ?S)"
    unfolding sources_out using source_label_inj by (auto simp: distinct_map intro!: inj_onI)
  have dF: "distinct (map (crossfade_out n) [1..<n])"
    using crossfade_out_inj by (simp add: distinct_map)
  have "set (map node_out ?S) \<inter> set (map (crossfade_out n) [1..<n]) = {}"
    unfolding sources_out using source_label_not_fade by (auto simp: crossfade_out_def split: if_splits)
  then have dist: "distinct (map node_out (chain_nodes en ci n))"
    using dS dF unfolding outs distinct_append by blast
  have labels: "map (source_label en ci) [1..<n] \<noteq> []" using n by simp
  have all: "{#source_label en ci 0#} + mset (map (source_label en ci) [1..<n]) = mset (map (source_label en ci) [0..<n])"
    using n by (simp add: upt_conv_Cons)
  have insF: "mset (concat (map node_ins ?F)) =
      mset (map (source_label en ci) [0..<n]) + mset (butlast (map (crossfade_out n) [1..<n]))"
    unfolding fade_ins [OF labels] outF all ..
  have "mset (concat (map node_ins (chain_nodes en ci n))) =
      mset ?streams + mset (butlast (map node_out (chain_nodes en ci n)))"
  proof -
    have "mset (concat (map node_ins (chain_nodes en ci n))) =
        mset (concat (map node_ins ?S)) + mset (concat (map node_ins ?F))"
      unfolding N by simp
    also have "\<dots> = mset ?streams + mset (map node_out ?S) + mset (butlast (map (crossfade_out n) [1..<n]))"
      unfolding insF sources_in sources_out labels_mset [of en ci "[0..<n]"] streams_mset [of ci "[0..<n]" en]
      by (simp only: ac_simps)
    also have "\<dots> = mset ?streams + mset (butlast (map node_out (chain_nodes en ci n)))"
      unfolding outs using n by (simp add: butlast_append)
    finally show ?thesis .
  qed
  moreover have "\<forall>m < length (chain_nodes en ci n). \<forall>l \<in> set (node_ins (chain_nodes en ci n ! m)).
      l \<in> set ?streams \<or> l \<in> set (take m (map node_out (chain_nodes en ci n)))"
  proof (intro allI impI ballI)
    fix m l assume m: "m < length (chain_nodes en ci n)" and l: "l \<in> set (node_ins (chain_nodes en ci n ! m))"
    show "l \<in> set ?streams \<or> l \<in> set (take m (map node_out (chain_nodes en ci n)))"
    proof (cases "m < length ?S")
      case True
      then have "chain_nodes en ci n ! m = ?S ! m" by (simp add: N nth_append)
      then have "chain_nodes en ci n ! m \<in> set ?S" using nth_mem [OF True] by (simp only:)
      with l have "l \<in> set (concat (map node_ins ?S))" by auto
      then show ?thesis unfolding sources_in by auto
    next
      case False
      define q where "q = m - length ?S"
      have q: "q < n - 1" "m = length ?S + q" using False m by (auto simp: q_def N)
      have "chain_nodes en ci n ! m = ?F ! q" unfolding N q(2) by (simp add: nth_append)
      also have "\<dots> = ([if q = 0 then source_label en ci 0 else crossfade_out n (1 + q - 1),
            map (source_label en ci) [1..<n] ! q], fade_body en ci (1 + q), crossfade_out n (1 + q))"
        by (rule fade_nth) (use q in simp)
      finally have "l = source_label en ci 0 \<or> l = source_label en ci (1 + q) \<or> q \<noteq> 0 \<and> l = crossfade_out n q"
        using l q(1) by (auto split: if_splits)
      moreover have "set (map node_out ?S) \<subseteq> set (take m (map node_out (chain_nodes en ci n)))"
        unfolding outs q(2) by auto
      moreover have "crossfade_out n q \<in> set (take m (map node_out (chain_nodes en ci n)))" if "q \<noteq> 0"
        unfolding outs q(2) using q(1) that by (auto simp: take_map take_upt)
      ultimately show ?thesis
        using source_ready [of 0 n en ci] source_ready [of "1 + q" n en ci] q(1) n by fastforce
    qed
  qed
  ultimately show ?thesis
    using dist last n by (auto simp: audio_pipeline_def Let_def N simp flip: length_0_conv)
qed

text \<open>
  C18. The audio graph of several clips, one of them with audio, is a pipeline: it reads every audio
  stream of a clip exactly once and every intermediate label exactly once after it was written, and
  ends in \<open>[aout]\<close>. It joins the clips in order with one crossfade per boundary, each as long as the
  transition handed to the video translator for that boundary, or one second, as the translator uses
  without one.
\<close>

theorem audio_chain_is_pipeline:
  assumes ci: "build_clip_input_list en st fps clips = Inr ci" and n: "2 \<le> length clips"
    and audio: "\<exists>c \<in> set clips. has_audio en fps c"
  shows "\<exists>nodes fades.
     build_audio_acrossfade_chain en ci = Some (str_join '';'' (map node_text nodes)) \<and>
     audio_pipeline (map stream_label (filter (\<lambda>i. has_audio en fps (clips ! i)) [0..<length clips])) nodes \<and>
     suffix fades nodes \<and> length fades = length clips - 1 \<and>
     (\<forall>k. 1 \<le> k \<and> k < length clips \<longrightarrow>
        (\<exists>current out. fades ! (k - 1) =
           ([current, source_label en ci k],
            ''acrossfade=d='' @ whole_text en (case cw_transition (ci_cwe ci ! (k - 1)) of None \<Rightarrow> NFloat 1 | Some (_, d) \<Rightarrow> d),
            out) \<and>
           current = (if k = 1 then source_label en ci 0 else node_out (fades ! (k - 2)))))"
proof -
  let ?n = "length clips"
  let ?F = "fade_nodes en ci ?n 1 (source_label en ci 0) (map (source_label en ci) [1..<?n])"
  note shape = clip_inputs_shape [OF ci]
  have idx: "set (ci_audio_indices ci) = {j. j < ?n \<and> has_audio en fps (clips ! j)}" by (rule shape(2))
  obtain j where "j < ?n" "has_audio en fps (clips ! j)" using audio by (metis in_set_conv_nth)
  then have "j \<in> set (ci_audio_indices ci)" unfolding idx by simp
  then have ne: "ci_audio_indices ci \<noteq> []" by auto
  have streams: "filter (\<lambda>i. i \<in> set (ci_audio_indices ci)) [0..<?n] = filter (\<lambda>i. has_audio en fps (clips ! i)) [0..<?n]"
    by (rule filter_cong) (auto simp: idx)
  have chain: "build_audio_acrossfade_chain en ci = Some (str_join '';'' (map node_text (chain_nodes en ci ?n)))"
    using shape(1) n by (intro chain_text [OF ne]) (auto simp: ci_shape_def)
  have pipe: "audio_pipeline (map stream_label (filter (\<lambda>i. has_audio en fps (clips ! i)) [0..<?n])) (chain_nodes en ci ?n)"
    using chain_pipeline [OF n, of ci en] unfolding streams .
  have fade: "\<exists>current out. ?F ! (k - 1) =
           ([current, source_label en ci k],
            ''acrossfade=d='' @ whole_text en (case cw_transition (ci_cwe ci ! (k - 1)) of None \<Rightarrow> NFloat 1 | Some (_, d) \<Rightarrow> d),
            out) \<and>
           current = (if k = 1 then source_label en ci 0 else node_out (?F ! (k - 2)))"
    if k: "1 \<le> k \<and> k < ?n" for k
  proof -
    have dur: "get_transition_duration k (ci_transitions ci) =
        (case cw_transition (ci_cwe ci ! (k - 1)) of None \<Rightarrow> NFloat 1 | Some (_, d) \<Rightarrow> d)"
    proof -
      have "k - 1 < length (ci_cwe ci)" using shape(1) k by (auto simp: ci_shape_def)
      moreover have "ci_transitions ci = map (\<lambda>w. map_option snd (cw_transition w)) (ci_cwe ci)"
        using shape(1) by (simp add: ci_shape_def)
      ultimately show ?thesis
        by (cases "cw_transition (ci_cwe ci ! (k - 1))") (simp_all add: get_transition_duration_def split_beta)
    qed
    obtain m where m: "k = Suc m" "Suc m < ?n" using k by (cases k) auto
    have this_node: "?F ! (k - 1) = ([if k = 1 then source_label en ci 0 else crossfade_out ?n (k - 1), source_label en ci k],
        fade_body en ci k, crossfade_out ?n k)"
      using fade_at [OF m(2), of en ci] m(1) by simp
    have prev: "node_out (?F ! (k - 2)) = crossfade_out ?n (k - 1)" if k1: "k \<noteq> 1"
    proof -
      obtain q where "m = Suc q" using k1 m(1) by (cases m) auto
      then show ?thesis using fade_at [of q ?n en ci] m by simp
    qed
    show ?thesis using this_node prev by (auto simp: fade_body_def dur)
  qed
  show ?thesis
    using chain pipe fade
    by (intro exI [of _ "chain_nodes en ci ?n"] exI [of _ ?F] conjI) (auto simp: chain_nodes_def suffix_def)
qed

lemma demo_inputs: "\<not> isl (build_clip_input_list (demo_command_env []) demo_settings (NFloat 30)
    [demo_clip ''a'' 0 [], demo_clip ''b'' 30 [demo_blur]])"
  by code_simp

theorem audio_chain_is_pipeline_witness:
  "\<exists>ci nodes. build_clip_input_list (demo_command_env []) demo_settings (NFloat 30)
      [demo_clip ''a'' 0 [], demo_clip ''b'' 30 [demo_blur]] = Inr ci \<and>
    audio_pipeline [stream_label 0, stream_label 1] nodes"
proof -
  let ?clips = "[demo_clip ''a'' 0 [], demo_clip ''b'' 30 [demo_blur]]"
  obtain ci where ci: "build_clip_input_list (demo_command_env []) demo_settings (NFloat 30) ?clips = Inr ci"
    using demo_inputs by (auto simp: isl_def) (metis sumE)
  have audio: "has_audio (demo_command_env []) (NFloat 30) (demo_clip k i fx)" for k i fx
    by (simp add: has_audio_def resolve_clip_source_def resolve_file_def demo_clip_def demo_command_env_def
        frame_rate_def py_div_def)
  have two: "2 \<le> length ?clips" and some: "\<exists>c \<in> set ?clips. has_audio (demo_command_env []) (NFloat 30) c"
    using audio by auto
  have all: "filter (\<lambda>i. has_audio (demo_command_env []) (NFloat 30) (?clips ! i)) [0..<length ?clips] = [0, 1]"
    using audio by (simp add: upt_rec)
  from audio_chain_is_pipeline [OF ci two some] obtain nodes where
    "audio_pipeline (map stream_label (filter (\<lambda>i. has_audio (demo_command_env []) (NFloat 30) (?clips ! i))
       [0..<length ?clips])) nodes"
    by blast
  with ci show ?thesis unfolding all by auto
qed

text \<open>With several clips the out point of a file clip is used only when its in point is not at the start.\<close>

lemma clip_from_start_not_cut:
  "is_file c \<Longrightarrow> mc_input_args en c path duration 0 = [''-i'', path] \<and>
     (0 < in_secs \<longrightarrow> mc_input_args en c path duration in_secs =
        [''-ss'', ce_float_str en in_secs, ''-t'', ce_float_str en duration, ''-i'', path])"
  by (simp add: mc_input_args_def is_file_def)

end
