(* ===== verification/Markers.thy ===== *)
theory Markers
  imports Tables Complex_Main
begin

text \<open>
  Timeline markers: the repositories of \<open>src/stoat_ferret/db/markers_repository.py\<close> and the requests of
  \<open>src/stoat_ferret/api/routers/markers.py\<close> on them. Section markers become the chapters of a render,
  so they must not overlap. Both repositories meet the contract \<open>marker_store\<close>; the requests are proved
  against it. The projects that exist are an argument; a request runs as one step.
\<close>

subsection \<open>Markers and the protocol\<close>

record marker =
  mk_id :: string
  mk_project_id :: string
  mk_start_time :: rat
  mk_end_time :: "rat option"
  mk_name :: "string option"
  mk_region_type :: string
  mk_created_at :: string

record 's marker_repo =
  mr_add :: "marker \<Rightarrow> ('s, marker) op"
  mr_list_by_project :: "string \<Rightarrow> string option \<Rightarrow> ('s, marker list) op"
  mr_get :: "string \<Rightarrow> ('s, marker option) op"
  mr_update :: "marker \<Rightarrow> ('s, marker option) op"
  mr_delete :: "string \<Rightarrow> ('s, bool) op"
  mr_check_overlap :: "string \<Rightarrow> rat \<Rightarrow> rat \<Rightarrow> string option \<Rightarrow> ('s, bool) op"

abbreviation is_section :: "marker \<Rightarrow> bool" where
  "is_section k \<equiv> mk_region_type k = ''section''"

text \<open>The overlap test of one marker; a missing end never overlaps, as \<open>NULL > ?\<close> is not true.\<close>

definition overlaps :: "string \<Rightarrow> rat \<Rightarrow> rat \<Rightarrow> string option \<Rightarrow> marker \<Rightarrow> bool" where
  "overlaps p a b exclude k \<longleftrightarrow> mk_project_id k = p \<and> is_section k \<and> exclude \<noteq> Some (mk_id k) \<and>
     mk_start_time k < b \<and> (case mk_end_time k of None \<Rightarrow> False | Some e \<Rightarrow> a < e)"

definition in_listing :: "string \<Rightarrow> string option \<Rightarrow> marker \<Rightarrow> bool" where
  "in_listing p region k \<longleftrightarrow> mk_project_id k = p \<and> (region = None \<or> region = Some (mk_region_type k))"

subsection \<open>SQLite\<close>

type_synonym sql_markers = "marker list"

definition sqk_add :: "string set \<Rightarrow> marker \<Rightarrow> (sql_markers, marker) op" where
  "sqk_add projects k = (\<lambda>rows.
     if mk_project_id k \<notin> projects then (Inl IntegrityError, rows)
     else case tbl_insert mk_id k rows of Inl e \<Rightarrow> (Inl e, rows) | Inr rows' \<Rightarrow> (Inr k, rows'))"

definition sqk_list_by_project :: "string \<Rightarrow> string option \<Rightarrow> (sql_markers, marker list) op" where
  "sqk_list_by_project p region = read_op (tbl_select (in_listing p region) mk_start_time)"

definition sqk_get :: "string \<Rightarrow> (sql_markers, marker option) op" where
  "sqk_get k = read_op (tbl_get mk_id k)"

definition sqk_update :: "marker \<Rightarrow> (sql_markers, marker option) op" where
  "sqk_update k = (\<lambda>rows.
     (Inr (if tbl_get mk_id (mk_id k) rows = None then None else Some k),
      tbl_update mk_id (mk_id k)
        (\<lambda>r. r\<lparr>mk_start_time := mk_start_time k, mk_end_time := mk_end_time k, mk_name := mk_name k\<rparr>) rows))"

definition sqk_delete :: "string \<Rightarrow> (sql_markers, bool) op" where
  "sqk_delete k = (\<lambda>rows. (Inr (tbl_get mk_id k rows \<noteq> None), tbl_delete mk_id k rows))"

definition sqk_check_overlap :: "string \<Rightarrow> rat \<Rightarrow> rat \<Rightarrow> string option \<Rightarrow> (sql_markers, bool) op" where
  "sqk_check_overlap p a b exclude = read_op (\<lambda>rows. list_ex (overlaps p a b exclude) rows)"

definition sqk_repo :: "string set \<Rightarrow> sql_markers marker_repo" where
  "sqk_repo projects = \<lparr>mr_add = sqk_add projects, mr_list_by_project = sqk_list_by_project, mr_get = sqk_get,
     mr_update = sqk_update, mr_delete = sqk_delete, mr_check_overlap = sqk_check_overlap\<rparr>"

subsection \<open>In memory\<close>

type_synonym mem_markers = "(string, marker) dict"

definition mmk_add :: "marker \<Rightarrow> (mem_markers, marker) op" where
  "mmk_add k = (\<lambda>d. (Inr k, AList.update (mk_id k) k d))"

definition mmk_list_by_project :: "string \<Rightarrow> string option \<Rightarrow> (mem_markers, marker list) op" where
  "mmk_list_by_project p region =
     read_op (\<lambda>d. sort_key mk_start_time (filter (in_listing p region) (dict_values d)))"

definition mmk_get :: "string \<Rightarrow> (mem_markers, marker option) op" where
  "mmk_get k = read_op (\<lambda>d. map_of d k)"

definition mmk_update :: "marker \<Rightarrow> (mem_markers, marker option) op" where
  "mmk_update k = (\<lambda>d. if map_of d (mk_id k) = None then (Inr None, d)
                       else (Inr (Some k), AList.update (mk_id k) k d))"

definition mmk_delete :: "string \<Rightarrow> (mem_markers, bool) op" where
  "mmk_delete k = (\<lambda>d. if map_of d k = None then (Inr False, d) else (Inr True, AList.delete k d))"

definition mmk_check_overlap :: "string \<Rightarrow> rat \<Rightarrow> rat \<Rightarrow> string option \<Rightarrow> (mem_markers, bool) op" where
  "mmk_check_overlap p a b exclude = read_op (\<lambda>d. list_ex (overlaps p a b exclude) (dict_values d))"

text \<open>Only the dictionary has this one; the table's rows go with their project.\<close>

definition mmk_delete_by_project :: "string \<Rightarrow> (mem_markers, unit) op" where
  "mmk_delete_by_project p = modify_op (filter (\<lambda>(_, k). mk_project_id k \<noteq> p))"

definition mmk_repo :: "mem_markers marker_repo" where
  "mmk_repo = \<lparr>mr_add = mmk_add, mr_list_by_project = mmk_list_by_project, mr_get = mmk_get,
     mr_update = mmk_update, mr_delete = mmk_delete, mr_check_overlap = mmk_check_overlap\<rparr>"

subsection \<open>Requests\<close>

record marker_create =
  mc_start_time :: rat
  mc_end_time :: "rat option"
  mc_name :: "string option"
  mc_region_type :: string

record marker_patch =
  mp_start_time :: "rat option"
  mp_end_time :: "rat option"
  mp_name :: "string option"

definition end_missing :: "rat option \<Rightarrow> rat \<Rightarrow> bool" where
  "end_missing e start = (case e of None \<Rightarrow> True | Some t \<Rightarrow> t \<le> start)"

definition marker_404 :: exn where "marker_404 = HTTPError 404 ''Marker not found''"

definition marker_422 :: "string \<Rightarrow> exn" where "marker_422 detail = HTTPError 422 detail"

text \<open>\<open>new_id\<close> is the id \<open>uuid4\<close> makes, \<open>now\<close> the creation date as stored.\<close>

definition create_marker ::
  "'s marker_repo \<Rightarrow> string set \<Rightarrow> string \<Rightarrow> string \<Rightarrow> string \<Rightarrow> marker_create \<Rightarrow> ('s, marker) op" where
  "create_marker R projects new_id now pid body =
     (let store = mr_add R \<lparr>mk_id = new_id, mk_project_id = pid, mk_start_time = mc_start_time body,
                    mk_end_time = mc_end_time body, mk_name = mc_name body,
                    mk_region_type = mc_region_type body, mk_created_at = now\<rparr>
      in if pid \<notin> projects then throw (HTTPError 404 ''Project not found'')
         else if mc_region_type body = ''section''
         then if end_missing (mc_end_time body) (mc_start_time body)
              then throw (marker_422 ''Section markers require end_time > start_time'')
              else bind_op (mr_check_overlap R pid (mc_start_time body) (the (mc_end_time body)) None) (\<lambda>overlap.
                     if overlap then throw (marker_422 ''Section markers must not overlap'') else store)
         else store)"

definition list_markers :: "'s marker_repo \<Rightarrow> string set \<Rightarrow> string \<Rightarrow> ('s, marker list) op" where
  "list_markers R projects pid =
     (if pid \<notin> projects then throw (HTTPError 404 ''Project not found'') else mr_list_by_project R pid None)"

definition or_else :: "'a option \<Rightarrow> 'a option \<Rightarrow> 'a option" where
  "or_else v w = (if v \<noteq> None then v else w)"

definition patch_marker :: "marker_patch \<Rightarrow> marker \<Rightarrow> marker" where
  "patch_marker body k = k\<lparr>mk_start_time := the (or_else (mp_start_time body) (Some (mk_start_time k))),
     mk_end_time := or_else (mp_end_time body) (mk_end_time k), mk_name := or_else (mp_name body) (mk_name k)\<rparr>"

definition store_update :: "'s marker_repo \<Rightarrow> marker \<Rightarrow> ('s, marker) op" where
  "store_update R k = bind_op (mr_update R k) (\<lambda>result. case result of None \<Rightarrow> throw marker_404 | Some r \<Rightarrow> ret r)"

definition update_marker :: "'s marker_repo \<Rightarrow> string \<Rightarrow> string \<Rightarrow> marker_patch \<Rightarrow> ('s, marker) op" where
  "update_marker R pid mid body =
     bind_op (mr_get R mid) (\<lambda>found. case found of
         None \<Rightarrow> throw marker_404
       | Some existing \<Rightarrow>
           if mk_project_id existing \<noteq> pid then throw marker_404
           else let k = patch_marker body existing
                in if is_section existing
                   then if end_missing (mk_end_time k) (mk_start_time k)
                        then throw (marker_422 ''Section markers require end_time > start_time'')
                        else if mp_start_time body \<noteq> None \<or> mp_end_time body \<noteq> None
                        then bind_op (mr_check_overlap R pid (mk_start_time k) (the (mk_end_time k)) (Some mid))
                               (\<lambda>overlap. if overlap then throw (marker_422 ''Section markers must not overlap'')
                                         else store_update R k)
                        else store_update R k
                   else store_update R k)"

definition delete_marker :: "'s marker_repo \<Rightarrow> string \<Rightarrow> string \<Rightarrow> ('s, unit) op" where
  "delete_marker R pid mid =
     bind_op (mr_get R mid) (\<lambda>found. case found of
         None \<Rightarrow> throw marker_404
       | Some existing \<Rightarrow>
           if mk_project_id existing \<noteq> pid then throw marker_404
           else bind_op (mr_delete R mid) (\<lambda>deleted. if deleted then ret () else throw marker_404))"

end
