(* ===== verification/Marker_Requests.thy ===== *)
theory Marker_Requests
  imports Markers
begin

text \<open>
  The requests on markers keep the sections of a project apart, over any repository that meets the
  contract \<open>marker_store\<close>: a map from ids to markers. Both repositories are interpreted.
\<close>

subsection \<open>Sections that are apart\<close>

definition section_wf :: "marker \<Rightarrow> bool" where
  "section_wf x \<longleftrightarrow> (\<exists>e. mk_end_time x = Some e \<and> mk_start_time x < e)"

definition ends_before :: "marker \<Rightarrow> marker \<Rightarrow> bool" where
  "ends_before x y \<longleftrightarrow> (\<exists>e. mk_end_time x = Some e \<and> e \<le> mk_start_time y)"

definition sections_ok :: "(string \<Rightarrow> marker option) \<Rightarrow> bool" where
  "sections_ok f \<longleftrightarrow> (\<forall>i x. f i = Some x \<longrightarrow> is_section x \<longrightarrow> section_wf x) \<and>
     (\<forall>i j x y. f i = Some x \<longrightarrow> f j = Some y \<longrightarrow> i \<noteq> j \<longrightarrow> is_section x \<longrightarrow> is_section y \<longrightarrow>
        mk_project_id x = mk_project_id y \<longrightarrow> ends_before x y \<or> ends_before y x)"

lemma sections_okI:
  assumes "\<And>i x. f i = Some x \<Longrightarrow> is_section x \<Longrightarrow> section_wf x"
    and "\<And>i j x y. f i = Some x \<Longrightarrow> f j = Some y \<Longrightarrow> i \<noteq> j \<Longrightarrow> is_section x \<Longrightarrow> is_section y \<Longrightarrow>
      mk_project_id x = mk_project_id y \<Longrightarrow> ends_before x y \<or> ends_before y x"
  shows "sections_ok f"
  using assms by (simp add: sections_ok_def)

lemma sections_ok_wf: "sections_ok f \<Longrightarrow> f i = Some x \<Longrightarrow> is_section x \<Longrightarrow> section_wf x"
  by (simp add: sections_ok_def)

lemma sections_ok_apart: "sections_ok f \<Longrightarrow> f i = Some x \<Longrightarrow> f j = Some y \<Longrightarrow> i \<noteq> j \<Longrightarrow> is_section x \<Longrightarrow>
    is_section y \<Longrightarrow> mk_project_id x = mk_project_id y \<Longrightarrow> ends_before x y \<or> ends_before y x"
  by (simp add: sections_ok_def)

lemma sections_ok_upd:
  assumes ok: "sections_ok f" and k: "is_section k \<Longrightarrow> mk_end_time k = Some e \<and> mk_start_time k < e"
    and free: "\<And>j y. is_section k \<Longrightarrow> f j = Some y \<Longrightarrow> j \<noteq> i \<Longrightarrow>
        \<not> overlaps (mk_project_id k) (mk_start_time k) e None y"
  shows "sections_ok (f(i \<mapsto> k))"
proof -
  have apart: "ends_before y k \<or> ends_before k y"
    if "is_section k" "f j = Some y" "j \<noteq> i" "is_section y" "mk_project_id y = mk_project_id k" for j y
  proof -
    have "section_wf y" using sections_ok_wf [OF ok that(2,4)] .
    then obtain t where t: "mk_end_time y = Some t" "mk_start_time y < t" by (auto simp: section_wf_def)
    have "\<not> (mk_start_time y < e \<and> mk_start_time k < t)" using free [OF that(1-3)] that(4,5) t by (simp add: overlaps_def)
    then show ?thesis using t k [OF that(1)] by (auto simp: ends_before_def)
  qed
  have wf: "section_wf k" if "is_section k" using k [OF that] by (auto simp: section_wf_def)
  show ?thesis
  proof (rule sections_okI)
    show "section_wf x" if "(f(i \<mapsto> k)) a = Some x" "is_section x" for a x
      using that wf sections_ok_wf [OF ok, of a x] by (cases "a = i") auto
    show "ends_before x y \<or> ends_before y x"
      if "(f(i \<mapsto> k)) a = Some x" "(f(i \<mapsto> k)) b = Some y" "a \<noteq> b" "is_section x" "is_section y"
        "mk_project_id x = mk_project_id y" for a b x y
    proof (cases "a = i \<or> b = i")
      case True
      then show ?thesis using that apart [of b y] apart [of a x] by auto
    next
      case False
      then show ?thesis using that sections_ok_apart [OF ok, of a x b y] by simp
    qed
  qed
qed

lemma sections_ok_del: "sections_ok f \<Longrightarrow> sections_ok (f(i := None))"
  by (rule sections_okI) (auto split: if_splits dest: sections_ok_wf sections_ok_apart)

lemma overlaps_exclude: "mk_id y \<noteq> i \<Longrightarrow> overlaps p a b (Some i) y = overlaps p a b None y"
  by (auto simp: overlaps_def)

text \<open>A sorted listing of such sections has each ending before the next begins.\<close>

lemma sections_listed:
  assumes ok: "sections_ok f" and srt: "sorted (map mk_start_time ks)" and dist: "distinct (map mk_id ks)"
    and ks: "\<And>x. x \<in> set ks \<Longrightarrow> f (mk_id x) = Some x \<and> mk_project_id x = p \<and> is_section x"
  shows "sorted_wrt ends_before ks"
proof -
  have "ends_before (ks ! a) (ks ! b)" if ab: "a < b" "b < length ks" for a b
  proof -
    let ?x = "ks ! a" and ?y = "ks ! b"
    have mem: "?x \<in> set ks" "?y \<in> set ks" using ab by auto
    have "mk_id ?x \<noteq> mk_id ?y" using dist ab by (auto simp: distinct_conv_nth)
    then have apart: "ends_before ?x ?y \<or> ends_before ?y ?x"
      using sections_ok_apart [OF ok, of "mk_id ?x" ?x "mk_id ?y" ?y] ks [OF mem(1)] ks [OF mem(2)] by simp
    have "section_wf ?y" using sections_ok_wf [OF ok, of "mk_id ?y" ?y] ks [OF mem(2)] by simp
    moreover have "mk_start_time ?x \<le> mk_start_time ?y" using srt ab by (auto simp: sorted_iff_nth_mono)
    ultimately show ?thesis using apart by (auto simp: ends_before_def section_wf_def)
  qed
  then show ?thesis by (simp add: sorted_wrt_iff_nth_less)
qed

subsection \<open>The contract\<close>

definition same_owner :: "marker \<Rightarrow> marker \<Rightarrow> bool" where
  "same_owner a b \<longleftrightarrow> mk_id a = mk_id b \<and> mk_project_id a = mk_project_id b \<and>
     mk_region_type a = mk_region_type b \<and> mk_created_at a = mk_created_at b"

definition new_marker :: "string \<Rightarrow> string \<Rightarrow> string \<Rightarrow> marker_create \<Rightarrow> marker" where
  "new_marker new_id now pid body = \<lparr>mk_id = new_id, mk_project_id = pid, mk_start_time = mc_start_time body,
     mk_end_time = mc_end_time body, mk_name = mc_name body, mk_region_type = mc_region_type body, mk_created_at = now\<rparr>"

locale marker_store =
  fixes R :: "'s marker_repo" and m :: "'s \<Rightarrow> string \<Rightarrow> marker option" and ok :: "'s \<Rightarrow> bool"
    and projects :: "string set"
  assumes keyed: "ok s \<Longrightarrow> m s k = Some x \<Longrightarrow> mk_id x = k"
    and add_law: "ok s \<Longrightarrow> m s (mk_id new) = None \<Longrightarrow> mk_project_id new \<in> projects \<Longrightarrow>
      \<exists>s'. mr_add R new s = (Inr new, s') \<and> ok s' \<and> m s' = (m s)(mk_id new \<mapsto> new)"
    and get_law: "ok s \<Longrightarrow> mr_get R k s = (Inr (m s k), s)"
    and update_law: "ok s \<Longrightarrow> m s (mk_id new) = Some old \<Longrightarrow> same_owner old new \<Longrightarrow>
      \<exists>s'. mr_update R new s = (Inr (Some new), s') \<and> ok s' \<and> m s' = (m s)(mk_id new \<mapsto> new)"
    and delete_law: "ok s \<Longrightarrow>
      \<exists>s'. mr_delete R k s = (Inr (m s k \<noteq> None), s') \<and> ok s' \<and> m s' = (m s)(k := None)"
    and overlap_law: "ok s \<Longrightarrow>
      mr_check_overlap R p a b ex s = (Inr (\<exists>k x. m s k = Some x \<and> overlaps p a b ex x), s)"
    and list_law: "ok s \<Longrightarrow> \<exists>ks. mr_list_by_project R p region s = (Inr ks, s) \<and>
      sorted (map mk_start_time ks) \<and> distinct (map mk_id ks) \<and>
      (\<forall>x. x \<in> set ks \<longleftrightarrow> m s (mk_id x) = Some x \<and> in_listing p region x)"
begin

definition good :: "'s \<Rightarrow> bool" where "good s \<longleftrightarrow> ok s \<and> sections_ok (m s)"

text \<open>The requests, with what the repository answers filled in.\<close>

definition taken :: "'s \<Rightarrow> string \<Rightarrow> rat \<Rightarrow> rat \<Rightarrow> string option \<Rightarrow> bool" where
  "taken s p a b ex \<longleftrightarrow> (\<exists>k x. m s k = Some x \<and> overlaps p a b ex x)"

lemma not_taken: "\<not> taken s p a b ex \<Longrightarrow> m s k = Some x \<Longrightarrow> \<not> overlaps p a b ex x"
  by (auto simp: taken_def)

lemma check_overlap_run: "ok s \<Longrightarrow> mr_check_overlap R p a b ex s = (Inr (taken s p a b ex), s)"
  by (simp add: taken_def overlap_law)

lemma create_marker_run:
  assumes ok: "ok s"
  shows "create_marker R projects new_id now pid body s =
     (if pid \<notin> projects then (Inl (HTTPError 404 ''Project not found''), s)
      else if mc_region_type body = ''section'' \<and> end_missing (mc_end_time body) (mc_start_time body)
        then (Inl (marker_422 ''Section markers require end_time > start_time''), s)
      else if mc_region_type body = ''section'' \<and> taken s pid (mc_start_time body) (the (mc_end_time body)) None
        then (Inl (marker_422 ''Section markers must not overlap''), s)
      else mr_add R (new_marker new_id now pid body) s)"
  by (simp add: create_marker_def new_marker_def Let_def bind_op_run check_overlap_run [OF ok])

lemma update_marker_run:
  assumes ok: "ok s"
  shows "update_marker R pid mid body s =
     (case m s mid of None \<Rightarrow> (Inl marker_404, s)
      | Some old \<Rightarrow>
          if mk_project_id old \<noteq> pid then (Inl marker_404, s)
          else let k = patch_marker body old
          in if is_section old \<and> end_missing (mk_end_time k) (mk_start_time k)
             then (Inl (marker_422 ''Section markers require end_time > start_time''), s)
             else if is_section old \<and> (mp_start_time body \<noteq> None \<or> mp_end_time body \<noteq> None) \<and>
                     taken s pid (mk_start_time k) (the (mk_end_time k)) (Some mid)
             then (Inl (marker_422 ''Section markers must not overlap''), s)
             else store_update R k s)"
proof (cases "m s mid")
  case None
  then show ?thesis by (simp add: update_marker_def bind_op_run get_law [OF ok])
next
  case (Some old)
  show ?thesis
    by (simp add: update_marker_def bind_op_run get_law [OF ok] Some Let_def check_overlap_run [OF ok])
qed

lemma create_good:
  assumes g: "good s" and fresh: "m s new_id = None"
  shows "good (snd (create_marker R projects new_id now pid body s))"
proof -
  let ?k = "new_marker new_id now pid body"
  have ok: "ok s" and so: "sections_ok (m s)" using g by (auto simp: good_def)
  show ?thesis
  proof (cases "pid \<in> projects \<and> \<not> (mc_region_type body = ''section'' \<and> end_missing (mc_end_time body) (mc_start_time body)) \<and>
      \<not> (mc_region_type body = ''section'' \<and> taken s pid (mc_start_time body) (the (mc_end_time body)) None)")
    case False
    then show ?thesis using g by (auto simp: create_marker_run [OF ok])
  next
    case True
    then have run: "create_marker R projects new_id now pid body s = mr_add R ?k s"
      unfolding create_marker_run [OF ok] by (simp only: simp_thms if_False)
    obtain s' where s': "mr_add R ?k s = (Inr ?k, s')" "ok s'" "m s' = (m s)(new_id \<mapsto> ?k)"
      using add_law [OF ok, of ?k] fresh True by (auto simp: new_marker_def)
    have "sections_ok ((m s)(new_id \<mapsto> ?k))"
    proof (rule sections_ok_upd [OF so, where e = "the (mc_end_time body)"])
      show "mk_end_time ?k = Some (the (mc_end_time body)) \<and> mk_start_time ?k < the (mc_end_time body)"
        if "is_section ?k"
        using True that by (auto simp: end_missing_def new_marker_def split: option.splits)
      show "\<not> overlaps (mk_project_id ?k) (mk_start_time ?k) (the (mc_end_time body)) None y"
        if "is_section ?k" "m s j = Some y" for j y
        using True that not_taken by (auto simp: new_marker_def)
    qed
    then show ?thesis using run s' by (simp add: good_def)
  qed
qed

lemma store_good:
  assumes g: "good s" and old: "m s (mk_id k) = Some old" "same_owner old k"
    and sec: "is_section k \<Longrightarrow> mk_end_time k = Some e \<and> mk_start_time k < e"
    and free: "\<And>j y. is_section k \<Longrightarrow> m s j = Some y \<Longrightarrow> j \<noteq> mk_id k \<Longrightarrow>
        \<not> overlaps (mk_project_id k) (mk_start_time k) e None y"
  shows "good (snd (store_update R k s))"
proof -
  have ok: "ok s" and so: "sections_ok (m s)" using g by (auto simp: good_def)
  obtain s' where s': "mr_update R k s = (Inr (Some k), s')" "ok s'" "m s' = (m s)(mk_id k \<mapsto> k)"
    using update_law [OF ok old] by blast
  have "sections_ok ((m s)(mk_id k \<mapsto> k))" by (rule sections_ok_upd [OF so sec free])
  then show ?thesis using s' by (simp add: store_update_def good_def bind_op_run)
qed

lemma patch_same_owner: "same_owner k (patch_marker body k)"
  by (simp add: same_owner_def patch_marker_def)

text \<open>A patched section is free of the others: it was checked, or its times are the old ones.\<close>

lemma patched_free:
  assumes g: "good s" and old: "m s mid = Some old" "is_section old" and e: "mk_end_time (patch_marker body old) = Some e"
    and clear: "\<not> ((mp_start_time body \<noteq> None \<or> mp_end_time body \<noteq> None) \<and>
        taken s (mk_project_id old) (mk_start_time (patch_marker body old)) e (Some mid))"
    and y: "m s j = Some y" "j \<noteq> mid"
  shows "\<not> overlaps (mk_project_id old) (mk_start_time (patch_marker body old)) e None y"
proof
  let ?k = "patch_marker body old"
  assume ov: "overlaps (mk_project_id old) (mk_start_time ?k) e None y"
  have ok: "ok s" and so: "sections_ok (m s)" using g by (auto simp: good_def)
  have "mk_id y \<noteq> mid" using keyed [OF ok y(1)] y(2) by simp
  then have "overlaps (mk_project_id old) (mk_start_time ?k) e (Some mid) y" using ov by (simp add: overlaps_exclude)
  then have "mp_start_time body = None" "mp_end_time body = None" using clear not_taken y(1) by auto
  then have same: "mk_start_time ?k = mk_start_time old" "mk_end_time old = Some e"
    using e by (auto simp: patch_marker_def or_else_def)
  obtain t where t: "is_section y" "mk_project_id y = mk_project_id old" "mk_start_time y < e"
      "mk_end_time y = Some t" "mk_start_time old < t"
    using ov by (auto simp: overlaps_def same split: option.splits)
  have "ends_before y old \<or> ends_before old y"
    using sections_ok_apart [OF so y(1) old(1)] old(2) y(2) t(1,2) by simp
  then show False using t same by (auto simp: ends_before_def)
qed

lemma update_good:
  assumes g: "good s"
  shows "good (snd (update_marker R pid mid body s))"
proof (cases "m s mid")
  case None
  then show ?thesis using g update_marker_run by (simp add: good_def)
next
  case (Some old)
  have ok: "ok s" using g by (simp add: good_def)
  let ?k = "patch_marker body old"
  have k: "mk_id ?k = mid" "mk_project_id ?k = mk_project_id old" "mk_region_type ?k = mk_region_type old"
    using keyed [OF ok Some] by (simp_all add: patch_marker_def)
  let ?late = "is_section old \<and> end_missing (mk_end_time ?k) (mk_start_time ?k)"
  let ?clash = "is_section old \<and> (mp_start_time body \<noteq> None \<or> mp_end_time body \<noteq> None) \<and>
      taken s pid (mk_start_time ?k) (the (mk_end_time ?k)) (Some mid)"
  show ?thesis
  proof (cases "mk_project_id old \<noteq> pid \<or> ?late \<or> ?clash")
    case True
    then have "snd (update_marker R pid mid body s) = s"
      unfolding update_marker_run [OF ok] Some option.case Let_def by (auto)
    then show ?thesis using g by simp
  next
    case False
    then have run: "update_marker R pid mid body s = store_update R ?k s"
      unfolding update_marker_run [OF ok] Some option.case Let_def by (simp only: simp_thms if_False de_Morgan_disj)
    have e: "mk_end_time ?k = Some (the (mk_end_time ?k)) \<and> mk_start_time ?k < the (mk_end_time ?k)"
      if "is_section ?k"
      using False that k(3) by (auto simp: end_missing_def split: option.splits)
    have free: "\<not> overlaps (mk_project_id ?k) (mk_start_time ?k) (the (mk_end_time ?k)) None y"
      if "is_section ?k" "m s j = Some y" "j \<noteq> mk_id ?k" for j y
      unfolding k(2)
      by (rule patched_free [OF g Some _ conjunct1 [OF e [OF that(1)]] _ that(2)])
        (use False that k in auto)
    have "m s (mk_id ?k) = Some old" using Some k(1) by simp
    from store_good [OF g this patch_same_owner e free] run show ?thesis by simp
  qed
qed

lemma delete_good: "good s \<Longrightarrow> good (snd (delete_marker R pid mid s))"
proof -
  assume g: "good s"
  then have ok: "ok s" and so: "sections_ok (m s)" by (auto simp: good_def)
  obtain s' where "mr_delete R mid s = (Inr (m s mid \<noteq> None), s')" "ok s'" "m s' = (m s)(mid := None)"
    using delete_law [OF ok] by blast
  then show ?thesis
    using g sections_ok_del [OF so, of mid]
    by (cases "m s mid") (auto simp: delete_marker_def bind_op_run get_law [OF ok] good_def)
qed

lemma sections_listing:
  assumes g: "good s"
  shows "\<exists>ks. mr_list_by_project R p (Some ''section'') s = (Inr ks, s) \<and> sorted_wrt ends_before ks \<and>
     (\<forall>x. x \<in> set ks \<longleftrightarrow> m s (mk_id x) = Some x \<and> mk_project_id x = p \<and> is_section x) \<and>
     (\<forall>x \<in> set ks. section_wf x)"
proof -
  have ok: "ok s" and so: "sections_ok (m s)" using g by (auto simp: good_def)
  obtain ks where ks: "mr_list_by_project R p (Some ''section'') s = (Inr ks, s)" "sorted (map mk_start_time ks)"
    "distinct (map mk_id ks)" "\<forall>x. x \<in> set ks \<longleftrightarrow> m s (mk_id x) = Some x \<and> in_listing p (Some ''section'') x"
    using list_law [OF ok] by blast
  have mem: "x \<in> set ks \<longleftrightarrow> m s (mk_id x) = Some x \<and> mk_project_id x = p \<and> is_section x" for x
    unfolding spec [OF ks(4), of x] in_listing_def by auto
  have "sorted_wrt ends_before ks"
    by (rule sections_listed [OF so ks(2,3)]) (simp add: mem)
  moreover have "\<forall>x \<in> set ks. section_wf x" using sections_ok_wf [OF so] mem by blast
  ultimately show ?thesis using ks(1) mem by blast
qed

end

subsection \<open>Both repositories meet it\<close>

lemma sorted_listing:
  assumes "\<And>x. x \<in> set xs \<longleftrightarrow> f (mk_id x) = Some x" and "distinct (map mk_id xs)"
  shows "\<exists>ks. sort_key mk_start_time (filter P xs) = ks \<and> sorted (map mk_start_time ks) \<and> distinct (map mk_id ks) \<and>
     (\<forall>x. x \<in> set ks \<longleftrightarrow> f (mk_id x) = Some x \<and> P x)"
  using assms by (intro exI [of _ "sort_key mk_start_time (filter P xs)"]) (auto simp: distinct_map intro: inj_on_subset)

interpretation sqk: marker_store "sqk_repo projects" "\<lambda>rows k. tbl_get mk_id k rows" "tbl_keys mk_id" projects
  for projects
proof (unfold_locales, goal_cases)
  case (1 s k x) then show ?case by (auto dest: tbl_get_Some)
next
  case (2 s new)
  then have "tbl_insert mk_id new s = Inr (s @ [new])" by (simp add: tbl_insert_Inr)
  moreover have "(\<lambda>k. tbl_get mk_id k (s @ [new])) = (\<lambda>k. tbl_get mk_id k s)(mk_id new \<mapsto> new)"
    using 2(2) by (auto simp: tbl_get_append fun_eq_iff split: option.split)
  moreover have "tbl_keys mk_id (s @ [new])" using 2(1,2) unfolding tbl_keys_append by simp
  ultimately show ?case using 2(3) by (simp add: sqk_repo_def sqk_add_def)
next
  case (3 s k) then show ?case by (simp add: sqk_repo_def sqk_get_def)
next
  case (4 s new old)
  let ?f = "\<lambda>r. r\<lparr>mk_start_time := mk_start_time new, mk_end_time := mk_end_time new, mk_name := mk_name new\<rparr>"
  have key: "\<And>r. mk_id (?f r) = mk_id r" by simp
  have "?f old = new" using 4(3) by (cases old; cases new) (simp add: same_owner_def)
  then show ?case
    using 4 tbl_keys_update [of mk_id ?f, OF key]
    by (auto simp: sqk_repo_def sqk_update_def fun_eq_iff tbl_get_update [of mk_id ?f, OF key])
next
  case (5 s k)
  then show ?case by (auto simp: sqk_repo_def sqk_delete_def tbl_get_delete fun_eq_iff intro: tbl_keys_delete)
next
  case (6 s p a b ex)
  then show ?case
    by (auto simp: sqk_repo_def sqk_check_overlap_def list_ex_iff tbl_get_iff)
next
  case (7 s p region)
  then show ?case
    using sorted_listing [of s "\<lambda>k. tbl_get mk_id k s" "in_listing p region"]
    by (simp add: sqk_repo_def sqk_list_by_project_def tbl_select_def tbl_get_iff)
qed

definition mmk_ok :: "mem_markers \<Rightarrow> bool" where
  "mmk_ok = dict_all (\<lambda>k x. mk_id x = k)"

interpretation mmk: marker_store mmk_repo map_of mmk_ok projects for projects
proof (unfold_locales, goal_cases)
  case (1 s k x) then show ?case by (auto simp: mmk_ok_def dest: dict_all_get)
next
  case (2 s new)
  then show ?case by (auto simp: mmk_repo_def mmk_add_def mmk_ok_def dict_set_map_of intro: dict_all_set)
next
  case (3 s k) then show ?case by (simp add: mmk_repo_def mmk_get_def)
next
  case (4 s new old)
  then show ?case by (auto simp: mmk_repo_def mmk_update_def mmk_ok_def dict_set_map_of intro: dict_all_set)
next
  case (5 s k)
  then show ?case
    by (auto simp: mmk_repo_def mmk_delete_def mmk_ok_def dict_pop_get fun_eq_iff intro: dict_all_pop)
next
  case (6 s p a b ex)
  have "x \<in> set (dict_values s) \<longleftrightarrow> (\<exists>k. map_of s k = Some x)" for x
    using 6 by (intro dict_in_values) (auto simp: mmk_ok_def dest: dict_all_keys)
  then have "list_ex (overlaps p a b ex) (dict_values s) \<longleftrightarrow> (\<exists>k x. map_of s k = Some x \<and> overlaps p a b ex x)"
    unfolding list_ex_iff by metis
  then show ?case by (simp add: mmk_repo_def mmk_check_overlap_def)
next
  case (7 s p region)
  have keyed: "x \<in> set (dict_values s) \<longleftrightarrow> map_of s (mk_id x) = Some x" for x
    using 7 by (intro dict_all_values) (auto simp: mmk_ok_def)
  have "distinct (map mk_id (dict_values s))"
    using 7 by (intro dict_keyed_distinct) (auto simp: mmk_ok_def dict_all_def)
  from sorted_listing [of "dict_values s" "map_of s", OF keyed this] show ?case
    by (simp add: mmk_repo_def mmk_list_by_project_def)
qed

subsection \<open>Any sequence of requests\<close>

datatype marker_request =
    CreateMarker string string string marker_create
  | PatchMarker string string marker_patch
  | DeleteMarker string string

fun serve_marker :: "'s marker_repo \<Rightarrow> string set \<Rightarrow> marker_request \<Rightarrow> 's \<Rightarrow> 's" where
  "serve_marker R projects (CreateMarker new_id now pid body) s = snd (create_marker R projects new_id now pid body s)"
| "serve_marker R projects (PatchMarker pid mid body) s = snd (update_marker R pid mid body s)"
| "serve_marker R projects (DeleteMarker pid mid) s = snd (delete_marker R pid mid s)"

fun id_is_new :: "'s marker_repo \<Rightarrow> marker_request \<Rightarrow> 's \<Rightarrow> bool" where
  "id_is_new R (CreateMarker new_id now pid body) s \<longleftrightarrow> fst (mr_get R new_id s) = Inr None"
| "id_is_new R _ s \<longleftrightarrow> True"

inductive marker_states :: "'s marker_repo \<Rightarrow> string set \<Rightarrow> 's \<Rightarrow> 's \<Rightarrow> bool"
  for R :: "'s marker_repo" and projects :: "string set" and s0 :: 's where
  Start: "marker_states R projects s0 s0"
| Request: "marker_states R projects s0 s \<Longrightarrow> id_is_new R q s \<Longrightarrow>
    marker_states R projects s0 (serve_marker R projects q s)"

context marker_store
begin

lemma states_good: "marker_states R projects s0 s \<Longrightarrow> good s0 \<Longrightarrow> good s"
proof (induction rule: marker_states.induct)
  case (Request s q)
  then have ok: "ok s" by (simp add: good_def)
  show ?case
  proof (cases q)
    case (CreateMarker new_id now pid body)
    then show ?thesis using Request create_good get_law [OF ok] by simp
  qed (use Request update_good delete_good in auto)
qed

end

lemma sqk_start: "sqk.good []" and mmk_start: "mmk.good []"
  unfolding sqk.good_def mmk.good_def by (auto simp: sections_ok_def mmk_ok_def tbl_get_def)

text \<open>
  C17. After any sequence of create, patch and delete requests, with fresh ids, the sections of a
  project listed by either repository all have an end after their start, and each ends before the
  next one starts.
\<close>

theorem sections_never_overlap:
  assumes "marker_states (sqk_repo projects) projects [] rows" and "marker_states mmk_repo projects [] d"
  shows "\<exists>ks js. sqk_list_by_project p (Some ''section'') rows = (Inr ks, rows) \<and>
     mmk_list_by_project p (Some ''section'') d = (Inr js, d) \<and>
     sorted_wrt ends_before ks \<and> sorted_wrt ends_before js \<and>
     (\<forall>x \<in> set ks \<union> set js. section_wf x)"
proof -
  from sqk.sections_listing [OF sqk.states_good [OF assms(1) sqk_start], where p = p] obtain ks where
    "sqk_list_by_project p (Some ''section'') rows = (Inr ks, rows)" "sorted_wrt ends_before ks"
    "\<forall>x \<in> set ks. section_wf x"
    by (auto simp: sqk_repo_def)
  moreover from mmk.sections_listing [OF mmk.states_good [OF assms(2) mmk_start], where p = p] obtain js where
    "mmk_list_by_project p (Some ''section'') d = (Inr js, d)" "sorted_wrt ends_before js"
    "\<forall>x \<in> set js. section_wf x"
    by (auto simp: mmk_repo_def)
  ultimately show ?thesis by blast
qed

definition demo_section :: "rat \<Rightarrow> rat \<Rightarrow> marker_create" where
  "demo_section a b = \<lparr>mc_start_time = a, mc_end_time = Some b, mc_name = Some ''n'', mc_region_type = ''section''\<rparr>"

definition demo_rows :: sql_markers where
  "demo_rows = serve_marker (sqk_repo {''p''}) {''p''} (CreateMarker ''b'' ''t'' ''p'' (demo_section 0 1))
     (serve_marker (sqk_repo {''p''}) {''p''} (CreateMarker ''a'' ''t'' ''p'' (demo_section 1 2)) [])"

lemma demo_rows_reached: "marker_states (sqk_repo {''p''}) {''p''} [] demo_rows"
  unfolding demo_rows_def
  by (intro marker_states.intros)
    (simp_all add: sqk_repo_def sqk_get_def tbl_get_def create_marker_def demo_section_def end_missing_def
      bind_op_run sqk_check_overlap_def sqk_add_def tbl_insert_def Let_def)

theorem sections_never_overlap_witness:
  "\<exists>ks. sqk_list_by_project ''p'' (Some ''section'') demo_rows = (Inr ks, demo_rows) \<and> sorted_wrt ends_before ks"
  using sections_never_overlap [OF demo_rows_reached marker_states.Start] by blast

text \<open>Two creations that interleave between check and insertion are both accepted and overlap.\<close>

lemma markers_check_then_act:
  "sqk_check_overlap ''p'' 0 2 None [] = (Inr False, []) \<and>
   sqk_check_overlap ''p'' 1 3 None [] = (Inr False, []) \<and>
   \<not> sections_ok ((\<lambda>k. None)(''a'' \<mapsto> new_marker ''a'' ''t'' ''p'' (demo_section 0 2),
       ''b'' \<mapsto> new_marker ''b'' ''t'' ''p'' (demo_section 1 3)))"
proof -
  let ?a = "new_marker ''a'' ''t'' ''p'' (demo_section 0 2)" and ?b = "new_marker ''b'' ''t'' ''p'' (demo_section 1 3)"
  let ?f = "(\<lambda>k. None)(''a'' \<mapsto> ?a, ''b'' \<mapsto> ?b)"
  have f: "?f ''a'' = Some ?a" "?f ''b'' = Some ?b" "is_section ?a" "is_section ?b"
    "mk_project_id ?a = mk_project_id ?b" "\<not> (ends_before ?a ?b \<or> ends_before ?b ?a)"
    by (simp_all add: new_marker_def demo_section_def ends_before_def)
  have "\<not> sections_ok ?f" using sections_ok_apart [OF _ f(1,2) _ f(3-5)] f(6) by blast
  then show ?thesis by (simp add: sqk_check_overlap_def)
qed

end
