(* ===== verification/Ffmetadata.thy ===== *)
theory Ffmetadata
  imports Marker_Requests Json
begin

text \<open>
  The chapter file of a render: \<open>generate_ffmetadata\<close> of \<open>src/stoat_ferret/render/service.py\<close>, from the
  sections of a project, and the title \<open>_extract_metadata_title\<close> of \<open>render/worker.py\<close> finds in the plan.
  The file is read back line by line: what is written can be recovered as long as titles and names
  have no line break, and the chapters it holds are ordered and disjoint.
\<close>

subsection \<open>Writing\<close>

abbreviation newline :: char where "newline \<equiv> CHR 0x0A"

definition millis :: "rat \<Rightarrow> int" where
  "millis t = py_int (t * 1000)"

definition chapter_lines :: "marker \<Rightarrow> string list" where
  "chapter_lines k =
     (case mk_end_time k of
        None \<Rightarrow> []
      | Some end_time \<Rightarrow>
          if end_time \<le> mk_start_time k then []
          else [[], ''[CHAPTER]'', ''TIMEBASE=1/1000'', ''START='' @ py_str_int (millis (mk_start_time k)),
                ''END='' @ py_str_int (millis end_time), ''title='' @ get_or [] (mk_name k)])"

definition generate_ffmetadata :: "marker list \<Rightarrow> string option \<Rightarrow> string" where
  "generate_ffmetadata markers metadata_title =
     str_join [newline] (['';FFMETADATA1''] @
       (if given metadata_title then [''title='' @ get_or [] metadata_title] else []) @
       concat (map chapter_lines markers))"

text \<open>\<open>py_str v\<close> is \<open>str(v)\<close>; both failures, of the parser and of \<open>get\<close>, are caught.\<close>

definition extract_metadata_title ::
  "(string \<Rightarrow> json_value option) \<Rightarrow> (json_value \<Rightarrow> string) \<Rightarrow> string \<Rightarrow> string option" where
  "extract_metadata_title loads py_str plan =
     (case sum_bind (json_loads loads plan) (\<lambda>v.
           sum_bind (json_get_or ''settings'' (JObj []) v) (json_get ''metadata_title'')) of
        Inl e \<Rightarrow> None
      | Inr title \<Rightarrow> if title = JNull then None else Some (py_str title))"

subsection \<open>Reading back\<close>

fun read_chapters :: "string list \<Rightarrow> (int \<times> int \<times> string) list" where
  "read_chapters (blank # header # timebase # start # end_time # title # rest) =
     (read_int (drop 6 start), read_int (drop 4 end_time), drop 6 title) # read_chapters rest"
| "read_chapters _ = []"

definition read_ffmetadata :: "string \<Rightarrow> string option \<times> (int \<times> int \<times> string) list" where
  "read_ffmetadata text =
     (case str_split newline text of
        magic # line # rest \<Rightarrow>
          if take 6 line = ''title='' then (Some (drop 6 line), read_chapters rest)
          else (None, read_chapters (line # rest))
      | _ \<Rightarrow> (None, []))"

definition chapter_of :: "marker \<Rightarrow> int \<times> int \<times> string" where
  "chapter_of k = (millis (mk_start_time k), millis (the (mk_end_time k)), get_or [] (mk_name k))"

lemma read_chapters_written:
  "read_chapters (concat (map chapter_lines ks)) = map chapter_of (filter section_wf ks)"
proof (induction ks)
  case (Cons k ks)
  then show ?case
    by (auto simp: chapter_lines_def section_wf_def chapter_of_def read_py_str_int split: option.splits)
qed simp

lemma first_chapter_line:
  "concat (map chapter_lines ks) = line # rest \<Longrightarrow> line = []"
proof (induction ks)
  case (Cons k ks)
  then show ?case by (auto simp: chapter_lines_def split: option.splits if_splits)
qed simp

lemma newline_not_decimal: "newline \<notin> set (py_str_int i)"
  using py_str_int_chars [of newline i] by auto

lemma chapter_lines_plain:
  "newline \<notin> set (get_or [] (mk_name k)) \<Longrightarrow> l \<in> set (chapter_lines k) \<Longrightarrow> newline \<notin> set l"
  by (auto simp: chapter_lines_def newline_not_decimal split: option.splits if_splits)

text \<open>
  C19. The chapter file determines what it was written from: read line by line, it gives back the title
  and, for every marker with an end after its start, the chapter with its bounds in milliseconds and
  its name, provided neither title nor names contain a line break.
\<close>

theorem ffmetadata_roundtrip:
  assumes title: "newline \<notin> set (get_or [] title)"
    and names: "\<forall>k \<in> set markers. newline \<notin> set (get_or [] (mk_name k))"
  shows "read_ffmetadata (generate_ffmetadata markers title) =
     (if given title then title else None, map chapter_of (filter section_wf markers))"
proof -
  let ?head = "if given title then [''title='' @ get_or [] title] else []"
  let ?chapters = "concat (map chapter_lines markers)"
  have "newline \<notin> set l" if l: "l \<in> set (['';FFMETADATA1''] @ ?head @ ?chapters)" for l
    using l title names chapter_lines_plain by (auto split: if_splits)
  then have split: "str_split newline (generate_ffmetadata markers title) = ['';FFMETADATA1''] @ ?head @ ?chapters"
    unfolding generate_ffmetadata_def by (intro str_split_join) auto
  show ?thesis
  proof (cases "given title")
    case True
    then show ?thesis
      using read_chapters_written [of markers]
      by (auto simp: read_ffmetadata_def split given_def get_or_def)
  next
    case False
    show ?thesis
    proof (cases ?chapters)
      case Nil
      moreover from this have "map chapter_of (filter section_wf markers) = []"
        using read_chapters_written [of markers] by (metis read_chapters.simps(2))
      ultimately show ?thesis using False unfolding read_ffmetadata_def split Nil by simp
    next
      case (Cons line rest)
      then have "line = []" by (rule first_chapter_line)
      then show ?thesis
        using False read_chapters_written [of markers] Cons unfolding read_ffmetadata_def split Cons by simp
    qed
  qed
qed

definition demo_marker :: "string \<Rightarrow> marker" where
  "demo_marker name = new_marker ''m'' ''t'' ''p'' \<lparr>mc_start_time = 0, mc_end_time = Some (3/2), mc_name = Some name,
     mc_region_type = ''section''\<rparr>"

lemma demo_marker_section: "section_wf (demo_marker name)"
  by (auto simp: demo_marker_def new_marker_def section_wf_def intro!: exI [of _ "3/2"])

theorem ffmetadata_roundtrip_witness:
  "read_ffmetadata (generate_ffmetadata [demo_marker ''Intro''] (Some ''Film'')) = (Some ''Film'', [(0, 1500, ''Intro'')])"
  using ffmetadata_roundtrip [of "Some ''Film''" "[demo_marker ''Intro'']"] demo_marker_section [of "''Intro''"]
  by (simp add: get_or_def given_def demo_marker_def new_marker_def chapter_of_def millis_def py_int_def)

text \<open>
  Nothing escapes a line break: the name of one section can add a second chapter to the file.
\<close>

lemma chapter_injection:
  "length (snd (read_ffmetadata (generate_ffmetadata [demo_marker
     (str_join [newline] [''a'', [], ''[CHAPTER]'', ''TIMEBASE=1/1000'', ''START=0'', ''END=9'', ''title=b''])] None))) = 2"
  by code_simp

subsection \<open>The chapters of a project\<close>

lemma millis_mono: "a \<le> b \<Longrightarrow> millis a \<le> millis b"
proof -
  assume ab: "a \<le> b"
  consider "0 \<le> a" | "b < 0" | "a < 0" "0 \<le> b" by linarith
  then show ?thesis
  proof cases
    case 1 then show ?thesis using ab by (simp add: millis_def py_int_def floor_mono)
  next
    case 2 then show ?thesis using ab by (simp add: millis_def py_int_def ceiling_mono mult_less_0_iff)
  next
    case 3
    then have "\<lceil>a * 1000\<rceil> \<le> 0" by (simp add: ceiling_le_zero mult_le_0_iff)
    also have "0 \<le> \<lfloor>b * 1000\<rfloor>" using 3 by simp
    finally show ?thesis using 3 by (simp add: millis_def py_int_def)
  qed
qed

text \<open>
  After any sequence of marker requests, the chapters written for a project are all its sections
  in order, none skipped, each closing at or before the millisecond at which the next one opens.
\<close>

theorem chapters_are_disjoint:
  assumes reach: "marker_states (sqk_repo projects) projects [] rows"
    and listed: "sqk_list_by_project p (Some ''section'') rows = (Inr ks, rows)"
    and plain: "newline \<notin> set (get_or [] title)" "\<forall>k \<in> set ks. newline \<notin> set (get_or [] (mk_name k))"
  shows "let chapters = snd (read_ffmetadata (generate_ffmetadata ks title)) in
     chapters = map chapter_of ks \<and>
     (\<forall>(start, finish, name) \<in> set chapters. start \<le> finish) \<and>
     sorted_wrt (\<lambda>(_, finish, _) (start, _, _). finish \<le> start) chapters"
proof -
  from sqk.sections_listing [OF sqk.states_good [OF reach sqk_start], where p = p]
  have srt: "sorted_wrt ends_before ks" and wf: "\<forall>k \<in> set ks. section_wf k"
    using listed by (auto simp: sqk_repo_def)
  have "filter section_wf ks = ks" using wf by simp
  then have ch: "snd (read_ffmetadata (generate_ffmetadata ks title)) = map chapter_of ks"
    using ffmetadata_roundtrip [OF plain] by simp
  have "\<forall>(start, finish, name) \<in> set (map chapter_of ks). start \<le> finish"
    using wf by (auto simp: chapter_of_def section_wf_def intro!: millis_mono)
  moreover have "sorted_wrt (\<lambda>(_, finish, _) (start, _, _). finish \<le> start) (map chapter_of ks)"
    unfolding sorted_wrt_map using srt
    by (rule sorted_wrt_mono_rel [rotated]) (auto simp: chapter_of_def ends_before_def intro!: millis_mono)
  ultimately show ?thesis unfolding Let_def ch by blast
qed

lemma demo_listing: "sqk_list_by_project ''p'' (Some ''section'') demo_rows =
    (Inr [new_marker ''b'' ''t'' ''p'' (demo_section 0 1), new_marker ''a'' ''t'' ''p'' (demo_section 1 2)], demo_rows)"
  by (simp add: demo_rows_def sqk_repo_def sqk_list_by_project_def tbl_select_def create_marker_def demo_section_def
      end_missing_def bind_op_run sqk_check_overlap_def sqk_add_def tbl_insert_def new_marker_def in_listing_def
      overlaps_def Let_def)

theorem chapters_are_disjoint_witness:
  "snd (read_ffmetadata (generate_ffmetadata
      [new_marker ''b'' ''t'' ''p'' (demo_section 0 1), new_marker ''a'' ''t'' ''p'' (demo_section 1 2)] None)) =
     map chapter_of [new_marker ''b'' ''t'' ''p'' (demo_section 0 1), new_marker ''a'' ''t'' ''p'' (demo_section 1 2)]"
proof -
  have plain: "newline \<notin> set (get_or [] None)"
    "\<forall>k \<in> set [new_marker ''b'' ''t'' ''p'' (demo_section 0 1), new_marker ''a'' ''t'' ''p'' (demo_section 1 2)].
       newline \<notin> set (get_or [] (mk_name k))"
    by (simp_all add: get_or_def new_marker_def demo_section_def)
  show ?thesis using chapters_are_disjoint [OF demo_rows_reached demo_listing plain] by (simp add: Let_def)
qed

end
