(* ===== verification/Batch_Store.thy ===== *)
theory Batch_Store
  imports Tables Complex_Main
begin

text \<open>
  Batch render jobs: the records and the two repositories of \<open>src/stoat_ferret/db/batch_repository.py\<close>.
  \<open>update_status\<close> and \<open>update_progress\<close> first read the job and then write; SQLite awaits both, so the
  writes are operations of their own here, for the interleavings of the next theory. Both repositories
  meet the contract \<open>batch_store\<close>: a map from job ids to jobs.
\<close>

subsection \<open>Records and transitions\<close>

record batch_job =
  bj_id :: nat
  bj_batch_id :: string
  bj_job_id :: string
  bj_project_id :: string
  bj_output_path :: string
  bj_quality :: string
  bj_status :: string
  bj_progress :: rat
  bj_error :: "string option"
  bj_created_at :: time
  bj_updated_at :: time

definition batch_transitions :: "(string, string list) dict" where
  "batch_transitions =
     [(''queued'', [''running'', ''cancelled'']), (''running'', [''completed'', ''failed'', ''cancelled''])]"

definition validate_status_transition :: "string \<Rightarrow> string \<Rightarrow> exn + unit" where
  "validate_status_transition current new =
     (if new \<in> set (get_or [] (map_of batch_transitions current)) then Inr () else Inl ValueError)"

definition batch_terminal :: "string list" where
  "batch_terminal = [''completed'', ''failed'', ''cancelled'']"

lemma transition_iff: "validate_status_transition a b = Inr () \<longleftrightarrow>
    (a = ''queued'' \<and> (b = ''running'' \<or> b = ''cancelled'')) \<or>
    (a = ''running'' \<and> (b = ''completed'' \<or> b = ''failed'' \<or> b = ''cancelled''))"
  by (auto simp: validate_status_transition_def batch_transitions_def get_or_def)

lemma terminal_has_no_transition:
  "a \<in> set batch_terminal \<Longrightarrow> validate_status_transition a b = Inl ValueError"
  by (auto simp: validate_status_transition_def batch_transitions_def get_or_def batch_terminal_def)

record 's batch_repo =
  br_create :: "time \<Rightarrow> string \<Rightarrow> string \<Rightarrow> string \<Rightarrow> string \<Rightarrow> string \<Rightarrow> ('s, batch_job) op"
  br_get_by_batch_id :: "string \<Rightarrow> ('s, batch_job list) op"
  br_get_by_job_id :: "string \<Rightarrow> ('s, batch_job option) op"
  br_set_status :: "time \<Rightarrow> string \<Rightarrow> string \<Rightarrow> string option \<Rightarrow> ('s, unit) op"
  br_set_progress :: "time \<Rightarrow> string \<Rightarrow> rat \<Rightarrow> ('s, unit) op"

text \<open>The two updates of either repository: the job must exist, its transition be allowed.\<close>

definition br_update_status :: "'s batch_repo \<Rightarrow> time \<Rightarrow> string \<Rightarrow> string \<Rightarrow> string option \<Rightarrow> ('s, unit) op" where
  "br_update_status R now job_id status err =
     bind_op (br_get_by_job_id R job_id) (\<lambda>found. case found of
         None \<Rightarrow> throw ValueError
       | Some current \<Rightarrow> (case validate_status_transition (bj_status current) status of
             Inl e \<Rightarrow> throw e
           | Inr _ \<Rightarrow> br_set_status R now job_id status err))"

definition br_update_progress :: "'s batch_repo \<Rightarrow> time \<Rightarrow> string \<Rightarrow> rat \<Rightarrow> ('s, unit) op" where
  "br_update_progress R now job_id progress =
     bind_op (br_get_by_job_id R job_id) (\<lambda>found. case found of
         None \<Rightarrow> throw ValueError
       | Some current \<Rightarrow> br_set_progress R now job_id progress)"

definition new_batch_job ::
  "nat \<Rightarrow> time \<Rightarrow> string \<Rightarrow> string \<Rightarrow> string \<Rightarrow> string \<Rightarrow> string \<Rightarrow> batch_job" where
  "new_batch_job i now batch_id job_id project_id output_path quality =
     \<lparr>bj_id = i, bj_batch_id = batch_id, bj_job_id = job_id, bj_project_id = project_id,
      bj_output_path = output_path, bj_quality = quality, bj_status = ''queued'', bj_progress = 0,
      bj_error = None, bj_created_at = now, bj_updated_at = now\<rparr>"

definition with_status :: "time \<Rightarrow> string \<Rightarrow> string option \<Rightarrow> batch_job \<Rightarrow> batch_job" where
  "with_status now status err j = j\<lparr>bj_status := status, bj_error := err, bj_updated_at := now\<rparr>"

definition with_progress :: "time \<Rightarrow> rat \<Rightarrow> batch_job \<Rightarrow> batch_job" where
  "with_progress now progress j = j\<lparr>bj_progress := progress, bj_updated_at := now\<rparr>"

lemma with_sel [simp]:
  "bj_job_id (with_status now st err j) = bj_job_id j" "bj_id (with_status now st err j) = bj_id j"
  "bj_batch_id (with_status now st err j) = bj_batch_id j" "bj_status (with_status now st err j) = st"
  "bj_progress (with_status now st err j) = bj_progress j"
  "bj_job_id (with_progress now x j) = bj_job_id j" "bj_id (with_progress now x j) = bj_id j"
  "bj_batch_id (with_progress now x j) = bj_batch_id j" "bj_status (with_progress now x j) = bj_status j"
  "bj_progress (with_progress now x j) = x"
  by (simp_all add: with_status_def with_progress_def)

subsection \<open>SQLite\<close>

type_synonym sql_batch = "batch_job list"

definition sqb_create ::
  "time \<Rightarrow> string \<Rightarrow> string \<Rightarrow> string \<Rightarrow> string \<Rightarrow> string \<Rightarrow> (sql_batch, batch_job) op" where
  "sqb_create now batch_id job_id project_id output_path quality = (\<lambda>rows.
     let i = (if rows = [] then 1 else Max (set (map bj_id rows)) + 1);
         j = new_batch_job i now batch_id job_id project_id output_path quality
     in case tbl_insert bj_job_id j rows of Inl e \<Rightarrow> (Inl e, rows) | Inr rows' \<Rightarrow> (Inr j, rows'))"

definition sqb_get_by_batch_id :: "string \<Rightarrow> (sql_batch, batch_job list) op" where
  "sqb_get_by_batch_id batch_id = read_op (tbl_select (\<lambda>j. bj_batch_id j = batch_id) bj_id)"

definition sqb_get_by_job_id :: "string \<Rightarrow> (sql_batch, batch_job option) op" where
  "sqb_get_by_job_id job_id = read_op (tbl_get bj_job_id job_id)"

definition sqb_set_status :: "time \<Rightarrow> string \<Rightarrow> string \<Rightarrow> string option \<Rightarrow> (sql_batch, unit) op" where
  "sqb_set_status now job_id status err = modify_op (tbl_update bj_job_id job_id (with_status now status err))"

definition sqb_set_progress :: "time \<Rightarrow> string \<Rightarrow> rat \<Rightarrow> (sql_batch, unit) op" where
  "sqb_set_progress now job_id progress = modify_op (tbl_update bj_job_id job_id (with_progress now progress))"

definition sqb_repo :: "sql_batch batch_repo" where
  "sqb_repo = \<lparr>br_create = sqb_create, br_get_by_batch_id = sqb_get_by_batch_id,
     br_get_by_job_id = sqb_get_by_job_id, br_set_status = sqb_set_status, br_set_progress = sqb_set_progress\<rparr>"

subsection \<open>In memory\<close>

record mem_batch =
  mb_jobs :: "(string, batch_job) dict"
  mb_next_id :: nat

definition mb_init :: mem_batch where
  "mb_init = \<lparr>mb_jobs = [], mb_next_id = 1\<rparr>"

definition mmb_create ::
  "time \<Rightarrow> string \<Rightarrow> string \<Rightarrow> string \<Rightarrow> string \<Rightarrow> string \<Rightarrow> (mem_batch, batch_job) op" where
  "mmb_create now batch_id job_id project_id output_path quality = (\<lambda>s.
     let j = new_batch_job (mb_next_id s) now batch_id job_id project_id output_path quality
     in (Inr j, s\<lparr>mb_jobs := AList.update job_id j (mb_jobs s), mb_next_id := mb_next_id s + 1\<rparr>))"

definition mmb_get_by_batch_id :: "string \<Rightarrow> (mem_batch, batch_job list) op" where
  "mmb_get_by_batch_id batch_id =
     read_op (\<lambda>s. sort_key bj_id (filter (\<lambda>j. bj_batch_id j = batch_id) (dict_values (mb_jobs s))))"

definition mmb_get_by_job_id :: "string \<Rightarrow> (mem_batch, batch_job option) op" where
  "mmb_get_by_job_id job_id = read_op (\<lambda>s. map_of (mb_jobs s) job_id)"

definition mmb_modify :: "string \<Rightarrow> (batch_job \<Rightarrow> batch_job) \<Rightarrow> (mem_batch, unit) op" where
  "mmb_modify job_id f = (\<lambda>s. case map_of (mb_jobs s) job_id of
       None \<Rightarrow> (Inr (), s)
     | Some j \<Rightarrow> (Inr (), s\<lparr>mb_jobs := AList.update job_id (f j) (mb_jobs s)\<rparr>))"

definition mmb_set_status :: "time \<Rightarrow> string \<Rightarrow> string \<Rightarrow> string option \<Rightarrow> (mem_batch, unit) op" where
  "mmb_set_status now job_id status err = mmb_modify job_id (with_status now status err)"

definition mmb_set_progress :: "time \<Rightarrow> string \<Rightarrow> rat \<Rightarrow> (mem_batch, unit) op" where
  "mmb_set_progress now job_id progress = mmb_modify job_id (with_progress now progress)"

definition mmb_repo :: "mem_batch batch_repo" where
  "mmb_repo = \<lparr>br_create = mmb_create, br_get_by_batch_id = mmb_get_by_batch_id,
     br_get_by_job_id = mmb_get_by_job_id, br_set_status = mmb_set_status, br_set_progress = mmb_set_progress\<rparr>"

subsection \<open>The contract\<close>

locale batch_store =
  fixes R :: "'s batch_repo" and m :: "'s \<Rightarrow> string \<Rightarrow> batch_job option" and ok :: "'s \<Rightarrow> bool"
  assumes keyed: "ok s \<Longrightarrow> m s k = Some j \<Longrightarrow> bj_job_id j = k"
    and create_law: "ok s \<Longrightarrow> m s k = None \<Longrightarrow>
      \<exists>i s'. br_create R now b k p out q s = (Inr (new_batch_job i now b k p out q), s') \<and> ok s' \<and>
             m s' = (m s)(k \<mapsto> new_batch_job i now b k p out q)"
    and get_law: "ok s \<Longrightarrow> br_get_by_job_id R k s = (Inr (m s k), s)"
    and set_status_law: "ok s \<Longrightarrow> m s k = Some j \<Longrightarrow>
      \<exists>s'. br_set_status R now k st err s = (Inr (), s') \<and> ok s' \<and> m s' = (m s)(k \<mapsto> with_status now st err j)"
    and set_progress_law: "ok s \<Longrightarrow> m s k = Some j \<Longrightarrow>
      \<exists>s'. br_set_progress R now k x s = (Inr (), s') \<and> ok s' \<and> m s' = (m s)(k \<mapsto> with_progress now x j)"
    and batch_law: "ok s \<Longrightarrow> \<exists>js. br_get_by_batch_id R b s = (Inr js, s) \<and> distinct (map bj_job_id js) \<and>
      sorted (map bj_id js) \<and> (\<forall>j. j \<in> set js \<longleftrightarrow> m s (bj_job_id j) = Some j \<and> bj_batch_id j = b)"

lemma batch_listing:
  assumes "tbl_keys bj_job_id js"
  shows "let l = sort_key bj_id (filter (\<lambda>j. bj_batch_id j = b) js) in
    distinct (map bj_job_id l) \<and> sorted (map bj_id l) \<and> (\<forall>j. j \<in> set l \<longleftrightarrow> j \<in> set js \<and> bj_batch_id j = b)"
  using assms by (auto simp: Let_def distinct_map intro: inj_on_subset)

interpretation sqb: batch_store sqb_repo "\<lambda>rows k. tbl_get bj_job_id k rows" "tbl_keys bj_job_id"
proof (unfold_locales, goal_cases)
  case (1 s k j) then show ?case by (simp add: tbl_get_iff)
next
  case (2 s k now b p out q)
  let ?j = "new_batch_job (if s = [] then 1 else Max (set (map bj_id s)) + 1) now b k p out q"
  have key: "bj_job_id ?j = k" by (simp add: new_batch_job_def)
  have "br_create sqb_repo now b k p out q s = (Inr ?j, s @ [?j])"
    using 2 key by (simp add: sqb_repo_def sqb_create_def tbl_insert_def tbl_get_None Let_def)
  moreover have "tbl_keys bj_job_id (s @ [?j])" using 2 key unfolding tbl_keys_append by simp
  moreover have "(\<lambda>k'. tbl_get bj_job_id k' (s @ [?j])) = (\<lambda>k'. tbl_get bj_job_id k' s)(k \<mapsto> ?j)"
    using 2 key by (auto simp: tbl_get_append split: option.splits)
  ultimately show ?case by blast
next
  case (3 s k) then show ?case by (simp add: sqb_repo_def sqb_get_by_job_id_def)
next
  case (4 s k j now st err)
  then show ?case
    by (auto simp: sqb_repo_def sqb_set_status_def tbl_get_update tbl_keys_update map_key_update)
next
  case (5 s k j now x)
  then show ?case
    by (auto simp: sqb_repo_def sqb_set_progress_def tbl_get_update tbl_keys_update map_key_update)
next
  case (6 s b)
  then show ?case
    using batch_listing [of s b] by (simp add: sqb_repo_def sqb_get_by_batch_id_def tbl_select_def tbl_get_iff)
qed

definition mb_ok :: "mem_batch \<Rightarrow> bool" where
  "mb_ok s = dict_all (\<lambda>k j. bj_job_id j = k) (mb_jobs s)"

lemma mb_ok_update: "mb_ok s \<Longrightarrow> bj_job_id j = k \<Longrightarrow> mb_ok (s\<lparr>mb_jobs := AList.update k j (mb_jobs s), mb_next_id := n\<rparr>)"
  "mb_ok s \<Longrightarrow> bj_job_id j = k \<Longrightarrow> mb_ok (s\<lparr>mb_jobs := AList.update k j (mb_jobs s)\<rparr>)"
  by (auto simp: mb_ok_def intro: dict_all_set)

lemma mb_ok_key: "mb_ok s \<Longrightarrow> map_of (mb_jobs s) k = Some j \<Longrightarrow> bj_job_id j = k"
  by (auto simp: mb_ok_def dest: dict_all_get)

interpretation mmb: batch_store mmb_repo "\<lambda>s. map_of (mb_jobs s)" mb_ok
proof (unfold_locales, goal_cases)
  case (1 s k j) then show ?case by (rule mb_ok_key)
next
  case (2 s k now b p out q)
  then show ?case
    by (auto simp: mmb_repo_def mmb_create_def Let_def dict_set_map_of new_batch_job_def intro: mb_ok_update)
next
  case (3 s k) then show ?case by (simp add: mmb_repo_def mmb_get_by_job_id_def)
next
  case (4 s k j now st err)
  then show ?case
    by (auto simp: mmb_repo_def mmb_set_status_def mmb_modify_def dict_set_map_of mb_ok_key intro: mb_ok_update)
next
  case (5 s k j now x)
  then show ?case
    by (auto simp: mmb_repo_def mmb_set_progress_def mmb_modify_def dict_set_map_of mb_ok_key intro: mb_ok_update)
next
  case (6 s b)
  have keyed: "x \<in> set (dict_values (mb_jobs s)) \<longleftrightarrow> map_of (mb_jobs s) (bj_job_id x) = Some x" for x
    using 6 by (intro dict_all_values) (auto simp: mb_ok_def)
  have "distinct (map bj_job_id (dict_values (mb_jobs s)))"
    using 6 by (intro dict_keyed_distinct) (auto simp: mb_ok_def dict_all_def)
  from batch_listing [OF this, of b] show ?case
    unfolding Let_def keyed by (simp add: mmb_repo_def mmb_get_by_batch_id_def)
qed

lemma sqb_empty: "tbl_keys bj_job_id []" and mmb_empty: "mb_ok mb_init"
  by (simp_all add: mb_ok_def mb_init_def)

context batch_store
begin

lemma update_status_run:
  assumes ok: "ok s"
  shows "br_update_status R now k st err s =
     (case m s k of None \<Rightarrow> (Inl ValueError, s)
      | Some j \<Rightarrow> if validate_status_transition (bj_status j) st = Inr ()
                  then br_set_status R now k st err s else (Inl ValueError, s))"
  by (simp add: br_update_status_def bind_op_run get_law [OF ok] validate_status_transition_def
      split: option.splits)

text \<open>Run alone, \<open>update_status\<close> never changes a job that is finished.\<close>

lemma update_status_terminal:
  assumes ok: "ok s" and j: "m s k = Some j" "bj_status j \<in> set batch_terminal"
  shows "br_update_status R now k st err s = (Inl ValueError, s)"
  by (simp add: update_status_run [OF ok] j terminal_has_no_transition)

end

end
