(* ===== verification/Batch_Runs.thy ===== *)
theory Batch_Runs
  imports Batch_Store
begin

text \<open>
  The tasks of a batch and the requests that cancel them, from \<open>src/stoat_ferret/api/routers/batch.py\<close>.
  A task is a program counter in \<open>_run_batch_job\<close>, a cancellation one in \<open>cancel_batch_job\<close>. Each
  repository call is one atomic action, and after each any other task or request may run; an update is
  two calls, a read and a write. \<open>Task.cancel()\<close> marks a task, and its next step is the
  \<open>CancelledError\<close> at the \<open>await\<close> where it stands. The registry of tasks is the tasks that have not
  ended, as the \<open>finally\<close> of \<open>_run_batch_job\<close> removes a task when it ends.
\<close>

subsection \<open>Tasks\<close>

datatype batch_update = To_Running | To_Completed | To_Failed string | To_Cancelled

fun update_status_of :: "batch_update \<Rightarrow> string" where
  "update_status_of To_Running = ''running''"
| "update_status_of To_Completed = ''completed''"
| "update_status_of (To_Failed e) = ''failed''"
| "update_status_of To_Cancelled = ''cancelled''"

fun update_error_of :: "batch_update \<Rightarrow> string option" where
  "update_error_of (To_Failed e) = Some e"
| "update_error_of _ = None"

datatype batch_task =
    BT_Acquire
  | BT_Check
  | BT_Read batch_update
  | BT_Write batch_update
  | BT_Started
  | BT_Handler
  | BT_Progress
  | BT_Progress_Write
  | BT_Rescue
  | BT_Done
  | BT_Killed

fun ended :: "batch_task \<Rightarrow> bool" where
  "ended BT_Done = True"
| "ended BT_Killed = True"
| "ended _ = False"

text \<open>Where the semaphore is held.\<close>

fun holds :: "batch_task \<Rightarrow> bool" where
  "holds BT_Acquire = False"
| "holds BT_Done = False"
| "holds BT_Killed = False"
| "holds _ = True"

text \<open>What follows a finished update, and one that raises \<open>ValueError\<close>, whose text is \<open>err_text\<close>.\<close>

fun after_update :: "batch_update \<Rightarrow> batch_task" where
  "after_update To_Running = BT_Started"
| "after_update To_Completed = BT_Progress"
| "after_update (To_Failed e) = BT_Done"
| "after_update To_Cancelled = BT_Killed"

fun after_error :: "string \<Rightarrow> batch_update \<Rightarrow> batch_task" where
  "after_error err_text To_Completed = BT_Read (To_Failed err_text)"
| "after_error err_text To_Cancelled = BT_Killed"
| "after_error err_text _ = BT_Done"

text \<open>
  One action of the task of job \<open>k\<close>, with the permits of the semaphore; \<open>None\<close> when it has to wait.
  \<open>outcome\<close> is what the handler does: \<open>None\<close> when it returns, or the text of what it raises.
\<close>

definition task_read ::
  "'s batch_repo \<Rightarrow> string \<Rightarrow> string \<Rightarrow> batch_update \<Rightarrow> 's \<Rightarrow> batch_task \<times> 's" where
  "task_read R err_text k u s =
     (case br_get_by_job_id R k s of
        (Inr (Some j), s') \<Rightarrow>
          (if validate_status_transition (bj_status j) (update_status_of u) = Inr ()
           then BT_Write u else after_error err_text u, s')
      | (_, s') \<Rightarrow> (after_error err_text u, s'))"

fun task_step ::
  "'s batch_repo \<Rightarrow> bool \<Rightarrow> time \<Rightarrow> string \<Rightarrow> string option \<Rightarrow> string \<Rightarrow> batch_task \<Rightarrow> nat \<times> 's \<Rightarrow>
   (batch_task \<times> nat \<times> 's) option" where
  "task_step R has_handler now err_text outcome k BT_Acquire (permits, s) =
     (if 0 < permits then Some (BT_Check, permits - 1, s) else None)"
| "task_step R has_handler now err_text outcome k BT_Check (permits, s) =
     (case br_get_by_job_id R k s of
        (Inr (Some j), s') \<Rightarrow> if bj_status j \<noteq> ''queued'' then Some (BT_Done, permits + 1, s')
                             else Some (BT_Read To_Running, permits, s')
      | (_, s') \<Rightarrow> Some (BT_Done, permits + 1, s'))"
| "task_step R has_handler now err_text outcome k (BT_Read u) (permits, s) =
     (let (t, s') = task_read R err_text k u s in Some (t, permits + (if ended t then 1 else 0), s'))"
| "task_step R has_handler now err_text outcome k (BT_Write u) (permits, s) =
     (let s' = snd (br_set_status R now k (update_status_of u) (update_error_of u) s); t = after_update u
      in Some (t, permits + (if ended t then 1 else 0), s'))"
| "task_step R has_handler now err_text outcome k BT_Started (permits, s) =
     Some (if has_handler then BT_Handler else BT_Read To_Completed, permits, s)"
| "task_step R has_handler now err_text outcome k BT_Handler (permits, s) =
     Some (case outcome of None \<Rightarrow> BT_Read To_Completed | Some e \<Rightarrow> BT_Read (To_Failed e), permits, s)"
| "task_step R has_handler now err_text outcome k BT_Progress (permits, s) =
     (case br_get_by_job_id R k s of
        (Inr (Some j), s') \<Rightarrow> Some (BT_Progress_Write, permits, s')
      | (_, s') \<Rightarrow> Some (BT_Read (To_Failed err_text), permits, s'))"
| "task_step R has_handler now err_text outcome k BT_Progress_Write (permits, s) =
     Some (BT_Done, permits + 1, snd (br_set_progress R now k 1 s))"
| "task_step R has_handler now err_text outcome k BT_Rescue (permits, s) =
     (case br_get_by_job_id R k s of
        (Inr (Some j), s') \<Rightarrow> if bj_status j = ''running'' then Some (BT_Read To_Cancelled, permits, s')
                             else Some (BT_Killed, permits + 1, s')
      | (_, s') \<Rightarrow> Some (BT_Killed, permits + 1, s'))"
| "task_step R has_handler now err_text outcome k BT_Done _ = None"
| "task_step R has_handler now err_text outcome k BT_Killed _ = None"

text \<open>Only the \<open>awaits\<close> of the inner \<open>try\<close> are covered by its \<open>except CancelledError\<close>.\<close>

fun in_try :: "batch_task \<Rightarrow> bool" where
  "in_try (BT_Read To_Completed) = True"
| "in_try (BT_Write To_Completed) = True"
| "in_try BT_Handler = True"
| "in_try BT_Progress = True"
| "in_try BT_Progress_Write = True"
| "in_try _ = False"

definition task_cancelled :: "batch_task \<Rightarrow> nat \<Rightarrow> batch_task \<times> nat" where
  "task_cancelled t permits =
     (if in_try t then (BT_Rescue, permits) else (BT_Killed, permits + (if holds t then 1 else 0)))"

subsection \<open>Cancellations\<close>

datatype batch_cancel =
    BC_Idle
  | BC_Get
  | BC_Seen batch_job
  | BC_Read bool
  | BC_Write bool
  | BC_Signal
  | BC_Await
  | BC_Final
  | BC_Reply "exn + batch_job"

text \<open>
  \<open>running\<close> tells whether the task of the job is in the registry and not done. A step gives the next
  counter, the state, and whether it cancels the task. The text of a 404 tells a batch id from an
  unknown one.
\<close>

definition batch_404 :: "bool \<Rightarrow> exn" where
  "batch_404 is_batch =
     HTTPError 404 (if is_batch then ''Expected a render job ID. Got a batch ID'' else ''Job not found'')"

definition batch_409 :: exn where
  "batch_409 = HTTPError 409 ''JOB_ALREADY_TERMINAL''"

fun cancel_step ::
  "'s batch_repo \<Rightarrow> time \<Rightarrow> string \<Rightarrow> bool \<Rightarrow> batch_cancel \<Rightarrow> 's \<Rightarrow> (batch_cancel \<times> 's \<times> bool) option" where
  "cancel_step R now k running BC_Idle s = Some (BC_Get, s, False)"
| "cancel_step R now k running BC_Get s =
     (case br_get_by_job_id R k s of
        (Inr (Some j), s') \<Rightarrow> Some (BC_Seen j, s', False)
      | (Inr None, s') \<Rightarrow> (case br_get_by_batch_id R k s' of
            (Inr js, s'') \<Rightarrow> Some (BC_Reply (Inl (batch_404 (js \<noteq> []))), s'', False)
          | (Inl e, s'') \<Rightarrow> Some (BC_Reply (Inl e), s'', False))
      | (Inl e, s') \<Rightarrow> Some (BC_Reply (Inl e), s', False))"
| "cancel_step R now k running (BC_Seen j) s =
     (if bj_status j \<in> set batch_terminal then Some (BC_Reply (Inl batch_409), s, False)
      else if bj_status j = ''queued'' then Some (BC_Read True, s, False)
      else if running then Some (BC_Await, s, True)
      else Some (BC_Read False, s, False))"
| "cancel_step R now k running (BC_Read queued) s =
     (case br_get_by_job_id R k s of
        (Inr (Some j), s') \<Rightarrow>
          Some (if validate_status_transition (bj_status j) ''cancelled'' = Inr ()
                then BC_Write queued else BC_Reply (Inl ValueError), s', False)
      | (_, s') \<Rightarrow> Some (BC_Reply (Inl ValueError), s', False))"
| "cancel_step R now k running (BC_Write queued) s =
     Some (if queued then BC_Signal else BC_Final, snd (br_set_status R now k ''cancelled'' None s), False)"
| "cancel_step R now k running BC_Signal s = Some (BC_Final, s, running)"
| "cancel_step R now k running BC_Await s = (if running then None else Some (BC_Final, s, False))"
| "cancel_step R now k running BC_Final s =
     (case br_get_by_job_id R k s of
        (Inr (Some j), s') \<Rightarrow> Some (BC_Reply (Inr j), s', False)
      | (_, s') \<Rightarrow> Some (BC_Reply (Inl (batch_404 False)), s', False))"
| "cancel_step R now k running (BC_Reply r) s = None"

subsection \<open>The system of one batch\<close>

record 's batch_sys =
  bs_store :: 's
  bs_permits :: nat
  bs_tasks :: "(string, batch_task) dict"
  bs_marked :: "string set"
  bs_cancels :: "nat \<Rightarrow> string \<times> batch_cancel"

definition task_running :: "'s batch_sys \<Rightarrow> string \<Rightarrow> bool" where
  "task_running s k \<longleftrightarrow> (case map_of (bs_tasks s) k of None \<Rightarrow> False | Some t \<Rightarrow> \<not> ended t)"

definition set_task :: "string \<Rightarrow> batch_task \<Rightarrow> nat \<Rightarrow> 's \<Rightarrow> 's batch_sys \<Rightarrow> 's batch_sys" where
  "set_task k t permits store s =
     s\<lparr>bs_store := store, bs_permits := permits, bs_tasks := AList.update k t (bs_tasks s),
       bs_marked := bs_marked s - (if ended t then {k} else {})\<rparr>"

inductive batch_work :: "'s batch_repo \<Rightarrow> bool \<Rightarrow> 's batch_sys \<Rightarrow> 's batch_sys \<Rightarrow> bool"
  for R :: "'s batch_repo" and has_handler :: bool where
  task: "map_of (bs_tasks s) k = Some t \<Longrightarrow> k \<notin> bs_marked s \<Longrightarrow>
    task_step R has_handler now err_text outcome k t (bs_permits s, bs_store s) = Some (t', permits, store) \<Longrightarrow>
    batch_work R has_handler s (set_task k t' permits store s)"
| cancelled: "map_of (bs_tasks s) k = Some t \<Longrightarrow> k \<in> bs_marked s \<Longrightarrow> \<not> ended t \<Longrightarrow>
    task_cancelled t (bs_permits s) = (t', permits) \<Longrightarrow>
    batch_work R has_handler s ((set_task k t' permits (bs_store s) s)\<lparr>bs_marked := bs_marked s - {k}\<rparr>)"

inductive batch_request :: "'s batch_repo \<Rightarrow> 's batch_sys \<Rightarrow> 's batch_sys \<Rightarrow> bool"
  for R :: "'s batch_repo" where
  request: "bs_cancels s i = (j, BC_Idle) \<Longrightarrow> batch_request R s (s\<lparr>bs_cancels := (bs_cancels s)(i := (k, BC_Get))\<rparr>)"
| cancel: "bs_cancels s i = (k, c) \<Longrightarrow> c \<noteq> BC_Idle \<Longrightarrow>
    cancel_step R now k (task_running s k) c (bs_store s) = Some (c', store, mark) \<Longrightarrow>
    batch_request R s (s\<lparr>bs_store := store, bs_cancels := (bs_cancels s)(i := (k, c')),
       bs_marked := (if mark then insert k (bs_marked s) else bs_marked s)\<rparr>)"

definition batch_step :: "'s batch_repo \<Rightarrow> bool \<Rightarrow> 's batch_sys \<Rightarrow> 's batch_sys \<Rightarrow> bool" where
  "batch_step R has_handler s s' \<longleftrightarrow> batch_work R has_handler s s' \<or> batch_request R s s'"

text \<open>
  Submission: one record per configuration, then one task each, sharing one semaphore. The ids are
  those \<open>uuid4\<close> makes, a configuration its project, output path and quality.
\<close>

fun create_batch_jobs ::
  "'s batch_repo \<Rightarrow> time \<Rightarrow> string \<Rightarrow> (string \<times> string \<times> string \<times> string) list \<Rightarrow> ('s, batch_job list) op" where
  "create_batch_jobs R now batch_id [] = ret []"
| "create_batch_jobs R now batch_id ((job_id, project_id, output_path, quality) # jobs) =
     bind_op (br_create R now batch_id job_id project_id output_path quality) (\<lambda>record.
     bind_op (create_batch_jobs R now batch_id jobs) (\<lambda>records. ret (record # records)))"

definition batch_tasks :: "nat \<Rightarrow> batch_job list \<Rightarrow> 's \<Rightarrow> 's batch_sys" where
  "batch_tasks parallel_limit records s =
     \<lparr>bs_store = s, bs_permits = parallel_limit, bs_tasks = map (\<lambda>j. (bj_job_id j, BT_Acquire)) records,
      bs_marked = {}, bs_cancels = (\<lambda>_. ([], BC_Idle))\<rparr>"

definition submit_batch ::
  "'s batch_repo \<Rightarrow> nat \<Rightarrow> time \<Rightarrow> string \<Rightarrow> (string \<times> string \<times> string \<times> string) list \<Rightarrow> ('s, batch_job list) op" where
  "submit_batch R max_jobs now batch_id jobs =
     (if max_jobs < length jobs then throw (HTTPError 422 ''BATCH_JOB_LIMIT_EXCEEDED'')
      else create_batch_jobs R now batch_id jobs)"

end
