(* ===== verification/Batch_Safety.thy ===== *)
theory Batch_Safety
  imports Batch_Runs
begin

text \<open>
  What holds in every state a batch can reach: the semaphore bounds the jobs at work, each task and
  the status of its job fit together, every task ends, and then its job is finished unless the task
  was cancelled at a moment the code does not cover.
\<close>

subsection \<open>The semaphore\<close>

definition held :: "(string, batch_task) dict \<Rightarrow> nat" where
  "held ts = length (filter (\<lambda>(k, t). holds t) ts)"

lemma held_update:
  "distinct (dict_keys ts) \<Longrightarrow> map_of ts k = Some t \<Longrightarrow>
   held (AList.update k t' ts) + of_bool (holds t) = held ts + of_bool (holds t')"
proof (induction ts)
  case (Cons a ts)
  obtain k' u where a: "a = (k', u)" by (cases a)
  show ?case
  proof (cases "k' = k")
    case True
    then show ?thesis using Cons.prems a by (auto simp: held_def)
  next
    case False
    then show ?thesis using Cons a by (auto simp: held_def)
  qed
qed simp

lemma ended_not_holds: "ended t \<Longrightarrow> \<not> holds t"
  by (cases t) auto

lemma holds_unless_ended: "\<not> ended t \<Longrightarrow> t \<noteq> BT_Acquire \<Longrightarrow> holds t"
  by (cases t) auto

lemma task_read_not_acquire: "fst (task_read R err_text k u s) \<noteq> BT_Acquire"
  by (cases u) (auto simp: task_read_def split: prod.splits sum.splits option.splits)

lemma task_step_permits:
  assumes "task_step R h now e out k t (p, s) = Some (t', p', s')"
  shows "p' + of_bool (holds t') = p + of_bool (holds t)"
proof (cases t)
  case (BT_Read u)
  have "fst (task_read R e k u s) \<noteq> BT_Acquire" by (rule task_read_not_acquire)
  then show ?thesis
    using assms BT_Read ended_not_holds holds_unless_ended by (auto simp: split_beta Let_def split: if_splits)
next
  case (BT_Write u)
  then show ?thesis using assms by (cases u) (auto simp: Let_def)
qed (use assms in \<open>auto split: prod.splits sum.splits option.splits if_splits\<close>)

lemma task_cancelled_permits:
  assumes "task_cancelled t p = (t', p')"
  shows "p' + of_bool (holds t') = p + of_bool (holds t)"
proof (cases "in_try t")
  case True
  then have "holds t" by (cases t rule: in_try.cases) auto
  then show ?thesis using assms True by (auto simp: task_cancelled_def)
qed (use assms in \<open>auto simp: task_cancelled_def\<close>)

definition permits_ok :: "nat \<Rightarrow> 's batch_sys \<Rightarrow> bool" where
  "permits_ok limit s \<longleftrightarrow> distinct (dict_keys (bs_tasks s)) \<and> bs_permits s + held (bs_tasks s) = limit"

lemma set_task_permits:
  assumes "permits_ok limit s" "map_of (bs_tasks s) k = Some t"
    and "p' + of_bool (holds t') = bs_permits s + of_bool (holds t)"
  shows "permits_ok limit (set_task k t' p' store s)"
  using assms held_update [of "bs_tasks s" k t t']
  by (auto simp: permits_ok_def set_task_def AList.distinct_update)

lemma permits_marked [simp]: "permits_ok limit (s\<lparr>bs_marked := ms\<rparr>) = permits_ok limit s"
  by (simp add: permits_ok_def)

lemma work_permits: "batch_work R h s s' \<Longrightarrow> permits_ok limit s \<Longrightarrow> permits_ok limit s'"
  by (induction rule: batch_work.induct)
    (auto intro: set_task_permits dest: task_step_permits task_cancelled_permits)

lemma request_permits: "batch_request R s s' \<Longrightarrow> permits_ok limit s \<Longrightarrow> permits_ok limit s'"
  by (induction rule: batch_request.induct) (auto simp: permits_ok_def)

lemma step_permits: "(batch_step R h)\<^sup>*\<^sup>* s s' \<Longrightarrow> permits_ok limit s \<Longrightarrow> permits_ok limit s'"
  by (induction rule: rtranclp_induct) (auto simp: batch_step_def intro: work_permits request_permits)

subsection \<open>Every task ends\<close>

fun task_rank :: "batch_task \<Rightarrow> nat" where
  "task_rank BT_Acquire = 13"
| "task_rank BT_Check = 12"
| "task_rank (BT_Read To_Running) = 11"
| "task_rank (BT_Write To_Running) = 10"
| "task_rank BT_Started = 9"
| "task_rank BT_Handler = 8"
| "task_rank (BT_Read To_Completed) = 7"
| "task_rank (BT_Write To_Completed) = 6"
| "task_rank BT_Progress = 5"
| "task_rank BT_Progress_Write = 4"
| "task_rank BT_Rescue = 3"
| "task_rank (BT_Read u) = 2"
| "task_rank (BT_Write u) = 1"
| "task_rank BT_Done = 0"
| "task_rank BT_Killed = 0"

definition work_left :: "'s batch_sys \<Rightarrow> nat" where
  "work_left s = sum_list (map (task_rank \<circ> snd) (bs_tasks s))"

lemma rank_zero: "task_rank t = 0 \<longleftrightarrow> ended t"
  by (cases t rule: task_rank.cases) auto

lemma task_step_rank:
  assumes "task_step R h now e out k t (p, s) = Some (t', p', s')"
  shows "task_rank t' < task_rank t"
proof (cases t)
  case (BT_Read u)
  then show ?thesis using assms
    by (cases u) (auto simp: task_read_def split: prod.splits sum.splits option.splits if_splits)
next
  case (BT_Write u)
  then show ?thesis using assms by (cases u) (auto simp: Let_def)
qed (use assms in \<open>auto split: prod.splits sum.splits option.splits if_splits\<close>)

lemma task_cancelled_rank: "task_cancelled t p = (t', p') \<Longrightarrow> \<not> ended t \<Longrightarrow> task_rank t' < task_rank t"
  by (cases t rule: in_try.cases) (auto simp: task_cancelled_def split: if_splits intro: gr0I simp: rank_zero)

lemma rank_update:
  "map_of ts k = Some t \<Longrightarrow>
   sum_list (map (task_rank \<circ> snd) (AList.update k t' ts)) + task_rank t =
   sum_list (map (task_rank \<circ> snd) ts) + task_rank t'"
  by (induction ts) auto

lemma work_decreases: "batch_work R h s s' \<Longrightarrow> work_left s' < work_left s"
proof (induction rule: batch_work.induct)
  case (task s k t now err_text outcome t' permits store)
  then show ?case using rank_update [of "bs_tasks s" k t t'] task_step_rank
    by (fastforce simp: work_left_def set_task_def)
next
  case (cancelled s k t t' permits)
  then show ?case using rank_update [of "bs_tasks s" k t t'] task_cancelled_rank
    by (fastforce simp: work_left_def set_task_def)
qed

lemma request_keeps_work: "batch_request R s s' \<Longrightarrow> work_left s' = work_left s"
  by (induction rule: batch_request.induct) (auto simp: work_left_def)

text \<open>Only a task at the semaphore waits, and then another one holds it.\<close>

lemma task_can_step: "\<not> ended t \<Longrightarrow> t \<noteq> BT_Acquire \<or> 0 < p \<Longrightarrow>
    \<exists>r. task_step R h now e out k t (p, s) = Some r"
proof (cases t)
  case (BT_Read u)
  then show ?thesis by (simp add: split_beta Let_def)
qed (auto simp: Let_def split: prod.splits sum.splits option.splits)

lemma work_possible:
  assumes ok: "permits_ok limit s" and limit: "0 < limit" and k: "map_of (bs_tasks s) k = Some t" "\<not> ended t"
  shows "\<exists>s'. batch_work R h s s'"
proof -
  have move: "\<exists>s'. batch_work R h s s'"
    if j: "map_of (bs_tasks s) j = Some u" and u: "\<not> ended u" "u \<noteq> BT_Acquire \<or> 0 < bs_permits s" for j u
  proof (cases "j \<in> bs_marked s")
    case True
    obtain u' p' where "task_cancelled u (bs_permits s) = (u', p')" by force
    from batch_work.cancelled [OF j True u(1) this] show ?thesis by blast
  next
    case False
    obtain u' p' st where "task_step R h 0 [] None j u (bs_permits s, bs_store s) = Some (u', p', st)"
      using task_can_step [OF u] by (metis prod_cases3)
    from batch_work.task [OF j False this] show ?thesis by blast
  qed
  show ?thesis
  proof (cases "t \<noteq> BT_Acquire \<or> 0 < bs_permits s")
    case True
    then show ?thesis using move [OF k] by blast
  next
    case False
    then have "held (bs_tasks s) \<noteq> 0" using ok limit by (simp add: permits_ok_def)
    then obtain j u where ju: "(j, u) \<in> set (bs_tasks s)" "holds u"
      by (fastforce simp: held_def filter_empty_conv)
    then have "map_of (bs_tasks s) j = Some u" using ok by (simp add: permits_ok_def)
    moreover have "\<not> ended u" "u \<noteq> BT_Acquire" using ju ended_not_holds by auto
    ultimately show ?thesis using move by blast
  qed
qed

subsection \<open>Tasks and statuses fit together\<close>

fun status_fits :: "batch_task \<Rightarrow> string \<Rightarrow> bool" where
  "status_fits BT_Acquire st \<longleftrightarrow> st = ''queued'' \<or> st = ''cancelled''"
| "status_fits BT_Check st \<longleftrightarrow> st = ''queued'' \<or> st = ''cancelled''"
| "status_fits (BT_Read To_Running) st \<longleftrightarrow> st = ''queued'' \<or> st = ''cancelled''"
| "status_fits (BT_Write To_Running) st \<longleftrightarrow> st = ''queued'' \<or> st = ''cancelled''"
| "status_fits (BT_Read u) st \<longleftrightarrow> st = ''running'' \<or> st = ''cancelled''"
| "status_fits (BT_Write u) st \<longleftrightarrow> st = ''running'' \<or> st = ''cancelled''"
| "status_fits BT_Started st \<longleftrightarrow> st = ''running'' \<or> st = ''cancelled''"
| "status_fits BT_Handler st \<longleftrightarrow> st = ''running'' \<or> st = ''cancelled''"
| "status_fits BT_Progress st \<longleftrightarrow> st = ''completed'' \<or> st = ''cancelled''"
| "status_fits BT_Progress_Write st \<longleftrightarrow> st = ''completed'' \<or> st = ''cancelled''"
| "status_fits BT_Rescue st \<longleftrightarrow> st = ''running'' \<or> st = ''completed'' \<or> st = ''cancelled''"
| "status_fits BT_Done st \<longleftrightarrow> st \<in> set batch_terminal"
| "status_fits BT_Killed st \<longleftrightarrow> st = ''running'' \<or> st \<in> set batch_terminal"

lemma fits_cancelled [simp]: "status_fits t ''cancelled''"
  by (cases t rule: task_rank.cases) (auto simp: batch_terminal_def)

lemma fits_after_update: "status_fits (BT_Write u) st \<Longrightarrow> status_fits (after_update u) (update_status_of u)"
  by (cases u) (auto simp: batch_terminal_def)

lemma fits_read:
  "status_fits (BT_Read u) st \<Longrightarrow>
   status_fits (if validate_status_transition st (update_status_of u) = Inr () then BT_Write u else after_error e u) st"
  by (cases u) (auto simp: transition_iff batch_terminal_def)

lemma fits_task_cancelled:
  "status_fits t st \<Longrightarrow> st \<noteq> ''queued'' \<Longrightarrow> task_cancelled t p = (t', p') \<Longrightarrow> status_fits t' st"
  by (cases t rule: task_rank.cases) (auto simp: task_cancelled_def batch_terminal_def)

text \<open>A job that has left the queue does not return to it.\<close>

definition left_queue :: "batch_job option \<Rightarrow> bool" where
  "left_queue o' \<longleftrightarrow> (\<exists>j. o' = Some j \<and> bj_status j \<noteq> ''queued'')"

fun cancel_fits :: "batch_cancel \<Rightarrow> batch_job option \<Rightarrow> bool" where
  "cancel_fits (BC_Seen j) o' \<longleftrightarrow> o' \<noteq> None \<and> (bj_status j \<noteq> ''queued'' \<longrightarrow> left_queue o')"
| "cancel_fits (BC_Read q) o' \<longleftrightarrow> o' \<noteq> None"
| "cancel_fits (BC_Write q) o' \<longleftrightarrow> o' \<noteq> None"
| "cancel_fits BC_Signal o' \<longleftrightarrow> left_queue o'"
| "cancel_fits _ o' \<longleftrightarrow> True"

definition advances :: "(string \<Rightarrow> batch_job option) \<Rightarrow> (string \<Rightarrow> batch_job option) \<Rightarrow> bool" where
  "advances f g \<longleftrightarrow> (\<forall>k. (f k \<noteq> None \<longrightarrow> g k \<noteq> None) \<and> (left_queue (f k) \<longrightarrow> left_queue (g k)))"

lemma advances_refl [simp]: "advances f f"
  by (simp add: advances_def)

lemma cancel_fits_advances: "cancel_fits c (f k) \<Longrightarrow> advances f g \<Longrightarrow> cancel_fits c (g k)"
  by (cases c) (auto simp: advances_def)

lemma advances_status: "f k = Some j \<Longrightarrow> st \<noteq> ''queued'' \<Longrightarrow> advances f (f(k \<mapsto> with_status now st err j))"
  by (auto simp: advances_def left_queue_def)

lemma advances_progress: "f k = Some j \<Longrightarrow> advances f (f(k \<mapsto> with_progress now x j))"
  by (auto simp: advances_def left_queue_def)

lemma update_not_queued [simp]: "update_status_of u \<noteq> ''queued''"
  by (cases u) auto

context batch_store
begin

definition fits :: "'s batch_sys \<Rightarrow> bool" where
  "fits s \<longleftrightarrow> ok (bs_store s) \<and>
     (\<forall>k t. map_of (bs_tasks s) k = Some t \<longrightarrow>
        (\<exists>j. m (bs_store s) k = Some j \<and> status_fits t (bj_status j))) \<and>
     (\<forall>k \<in> bs_marked s. left_queue (m (bs_store s) k)) \<and>
     (\<forall>i k c. bs_cancels s i = (k, c) \<longrightarrow> cancel_fits c (m (bs_store s) k))"

lemma fitsD:
  assumes "fits s"
  shows "ok (bs_store s)"
    and "map_of (bs_tasks s) k = Some t \<Longrightarrow> \<exists>j. m (bs_store s) k = Some j \<and> status_fits t (bj_status j)"
    and "k \<in> bs_marked s \<Longrightarrow> left_queue (m (bs_store s) k)"
    and "bs_cancels s i = (k, c) \<Longrightarrow> cancel_fits c (m (bs_store s) k)"
  using assms by (auto simp: fits_def)

text \<open>One action of a task changes its own job only, and leaves it fitting.\<close>

lemma task_step_store:
  assumes step: "task_step R h now e out k t (p, s) = Some (t', p', s')"
    and ok: "ok s" and j: "m s k = Some j" and fit: "status_fits t (bj_status j)"
  shows "ok s' \<and> (\<exists>j'. m s' = (m s)(k \<mapsto> j') \<and> status_fits t' (bj_status j') \<and>
           (bj_status j \<noteq> ''queued'' \<longrightarrow> bj_status j' \<noteq> ''queued''))"
proof -
  have same: "(m s)(k \<mapsto> j) = m s" using j by auto
  have stay: ?thesis if "s' = s" "status_fits t' (bj_status j)"
    using that ok j same by (intro conjI exI [of _ j]) auto
  note get = get_law [OF ok, of k, unfolded j]
  show ?thesis
  proof (cases t)
    case BT_Acquire
    then show ?thesis using step fit by (intro stay) (auto split: if_splits)
  next
    case BT_Check
    then show ?thesis using step fit get by (intro stay) (auto simp: batch_terminal_def split: if_splits)
  next
    case (BT_Read u)
    have r: "task_read R e k u s = (if validate_status_transition (bj_status j) (update_status_of u) = Inr ()
           then BT_Write u else after_error e u, s)"
      by (simp add: task_read_def get)
    show ?thesis
      using step BT_Read fit fits_read [of u "bj_status j" e] by (intro stay) (auto simp: r Let_def)
  next
    case (BT_Write u)
    obtain s'' where s'': "br_set_status R now k (update_status_of u) (update_error_of u) s = (Inr (), s'')" "ok s''"
      "m s'' = (m s)(k \<mapsto> with_status now (update_status_of u) (update_error_of u) j)"
      using set_status_law [OF ok j] by blast
    then show ?thesis using step BT_Write fits_after_update [of u] fit by (auto simp: Let_def)
  next
    case BT_Started
    then show ?thesis using step fit by (intro stay) (auto split: if_splits)
  next
    case BT_Handler
    then show ?thesis using step fit by (intro stay) (auto split: option.splits)
  next
    case BT_Progress
    then show ?thesis using step fit get by (intro stay) auto
  next
    case BT_Progress_Write
    obtain s'' where "br_set_progress R now k 1 s = (Inr (), s'')" "ok s''" "m s'' = (m s)(k \<mapsto> with_progress now 1 j)"
      using set_progress_law [OF ok j] by blast
    then show ?thesis using step BT_Progress_Write fit by (auto simp: batch_terminal_def)
  next
    case BT_Rescue
    then show ?thesis using step fit get by (intro stay) (auto simp: batch_terminal_def split: if_splits)
  qed (use step in auto)
qed

lemma fits_advance:
  assumes f: "fits s" and ok: "ok store" and adv: "advances (m (bs_store s)) (m store)"
    and tasks: "\<And>k t. map_of (bs_tasks s') k = Some t \<Longrightarrow> \<exists>j. m store k = Some j \<and> status_fits t (bj_status j)"
    and s': "bs_store s' = store"
    and marks: "\<And>k. k \<in> bs_marked s' \<Longrightarrow> k \<in> bs_marked s \<or> left_queue (m store k)"
    and cancels: "\<And>i k c. bs_cancels s' i = (k, c) \<Longrightarrow> bs_cancels s i = (k, c) \<or> cancel_fits c (m store k)"
  shows "fits s'"
  unfolding fits_def s'
proof (intro conjI allI impI ballI)
  show "left_queue (m store k)" if "k \<in> bs_marked s'" for k
    using marks [OF that] fitsD(3) [OF f, of k] adv by (auto simp: advances_def)
  show "cancel_fits c (m store k)" if "bs_cancels s' i = (k, c)" for i k c
    using cancels [OF that] fitsD(4) [OF f, of i k c] adv cancel_fits_advances [where f = "m (bs_store s)"] by blast
qed (use ok tasks in auto)

lemma work_fits:
  assumes "batch_work R h s s'" and f: "fits s"
  shows "fits s'"
  using assms(1)
proof cases
  case (task k t now e out t' p store)
  obtain j where j: "m (bs_store s) k = Some j" "status_fits t (bj_status j)"
    using fitsD(2) [OF f task(2)] by blast
  obtain j' where ok: "ok store" and j': "m store = (m (bs_store s))(k \<mapsto> j')" "status_fits t' (bj_status j')"
      "bj_status j \<noteq> ''queued'' \<longrightarrow> bj_status j' \<noteq> ''queued''"
    using task_step_store [OF task(4) fitsD(1) [OF f] j] by blast
  have adv: "advances (m (bs_store s)) (m store)"
    using j(1) j'(1,3) by (auto simp: advances_def left_queue_def)
  show ?thesis
  proof (rule fits_advance [OF f ok adv])
    show "\<exists>i. m store q = Some i \<and> status_fits u (bj_status i)" if "map_of (bs_tasks s') q = Some u" for q u
      using that fitsD(2) [OF f, of q u] j' task(1) by (auto simp: set_task_def dict_set_get split: if_splits)
  qed (use task(1) in \<open>auto simp: set_task_def split: if_splits\<close>)
next
  case (cancelled k t t' p)
  obtain j where j: "m (bs_store s) k = Some j" "status_fits t (bj_status j)"
    using fitsD(2) [OF f cancelled(2)] by blast
  have "bj_status j \<noteq> ''queued''" using fitsD(3) [OF f cancelled(3)] j(1) by (auto simp: left_queue_def)
  then have t': "status_fits t' (bj_status j)" using fits_task_cancelled [OF j(2) _ cancelled(5)] by simp
  show ?thesis
  proof (rule fits_advance [OF f fitsD(1) [OF f] advances_refl])
    show "\<exists>i. m (bs_store s) q = Some i \<and> status_fits u (bj_status i)" if "map_of (bs_tasks s') q = Some u" for q u
      using that fitsD(2) [OF f, of q u] t' j(1) cancelled(1)
      by (auto simp: set_task_def dict_set_get split: if_splits)
  qed (use cancelled(1) in \<open>auto simp: set_task_def split: if_splits\<close>)
qed

text \<open>One action of a cancellation.\<close>

lemma cancel_step_store:
  assumes step: "cancel_step R now k running c s = Some (c', s', mark)"
    and ok: "ok s" and fit: "cancel_fits c (m s k)"
  shows "ok s' \<and> cancel_fits c' (m s' k) \<and> (mark \<longrightarrow> left_queue (m s' k)) \<and>
     (s' = s \<or> (\<exists>j. m s k = Some j \<and> m s' = (m s)(k \<mapsto> with_status now ''cancelled'' None j)))"
proof (cases c)
  case (BC_Write q)
  then obtain j where j: "m s k = Some j" using fit by auto
  obtain s'' where "br_set_status R now k ''cancelled'' None s = (Inr (), s'')" "ok s''"
    "m s'' = (m s)(k \<mapsto> with_status now ''cancelled'' None j)"
    using set_status_law [OF ok j] by blast
  then show ?thesis using step BC_Write j by (auto simp: left_queue_def)
next
  case BC_Get
  obtain js where "\<And>b. br_get_by_batch_id R b s = (Inr (js b), s)" using batch_law [OF ok] by metis
  then show ?thesis
    using step BC_Get ok get_law [OF ok, of k] by (auto simp: left_queue_def split: option.splits)
qed (use step ok fit get_law [OF ok, of k] in
      \<open>auto simp: left_queue_def batch_terminal_def split: if_splits option.splits\<close>)

lemma request_fits:
  assumes "batch_request R s s'" and f: "fits s"
  shows "fits s'"
  using assms(1)
proof cases
  case (request i j k)
  show ?thesis
  proof (rule fits_advance [OF f fitsD(1) [OF f] advances_refl])
    show "\<exists>j. m (bs_store s) q = Some j \<and> status_fits t (bj_status j)" if "map_of (bs_tasks s') q = Some t" for q t
      using that fitsD(2) [OF f, of q t] request(1) by auto
  qed (use request(1) in \<open>auto split: if_splits\<close>)
next
  case (cancel i k c now c' store mark)
  from cancel_step_store [OF cancel(4) fitsD(1) [OF f] fitsD(4) [OF f cancel(2)]] have
    ok: "ok store" and c': "cancel_fits c' (m store k)" and mk: "mark \<longrightarrow> left_queue (m store k)" and
    chg: "store = bs_store s \<or> (\<exists>j. m (bs_store s) k = Some j \<and>
        m store = (m (bs_store s))(k \<mapsto> with_status now ''cancelled'' None j))" by blast+
  have adv: "advances (m (bs_store s)) (m store)" using chg by (auto intro: advances_status)
  show ?thesis
  proof (rule fits_advance [OF f ok adv])
    show "\<exists>j. m store q = Some j \<and> status_fits t (bj_status j)" if "map_of (bs_tasks s') q = Some t" for q t
      using that fitsD(2) [OF f, of q t] chg cancel(1) by auto
  qed (use cancel(1) c' mk in \<open>auto split: if_splits\<close>)
qed

lemma step_fits: "(batch_step R h)\<^sup>*\<^sup>* s s' \<Longrightarrow> fits s \<Longrightarrow> fits s'"
  by (induction rule: rtranclp_induct) (auto simp: batch_step_def intro: work_fits request_fits)

text \<open>The start: the records of a submission are stored as queued, one task each.\<close>

lemma create_batch_jobs_run:
  assumes "ok s" "distinct (map fst jobs)" "\<And>job. job \<in> set jobs \<Longrightarrow> m s (fst job) = None"
  shows "\<exists>records s'. create_batch_jobs R now b jobs s = (Inr records, s') \<and> ok s' \<and>
     map bj_job_id records = map fst jobs \<and>
     (\<forall>k. k \<notin> fst ` set jobs \<longrightarrow> m s' k = m s k) \<and>
     (\<forall>j \<in> set records. m s' (bj_job_id j) = Some j \<and> bj_status j = ''queued'' \<and> bj_batch_id j = b)"
  using assms
proof (induction jobs arbitrary: s)
  case Nil
  then show ?case by simp
next
  case (Cons job jobs)
  obtain k p out q where job: "job = (k, p, out, q)" by (cases job)
  then have "m s k = None" using Cons.prems(3) [of job] by simp
  from create_law [OF Cons.prems(1) this, of now b p out q] obtain i s1 where
    s1: "br_create R now b k p out q s = (Inr (new_batch_job i now b k p out q), s1)" "ok s1"
      "m s1 = (m s)(k \<mapsto> new_batch_job i now b k p out q)" by blast
  have fresh: "m s1 (fst job') = None" if "job' \<in> set jobs" for job'
    using Cons.prems(2,3) that s1(3) job by auto
  obtain records s2 where s2: "create_batch_jobs R now b jobs s1 = (Inr records, s2)" "ok s2"
    "map bj_job_id records = map fst jobs" "\<forall>k. k \<notin> fst ` set jobs \<longrightarrow> m s2 k = m s1 k"
    "\<forall>j \<in> set records. m s2 (bj_job_id j) = Some j \<and> bj_status j = ''queued'' \<and> bj_batch_id j = b"
    using Cons.IH [OF s1(2) _ fresh] Cons.prems(2) by auto
  have "m s2 k = m s1 k" using s2(4) Cons.prems(2) job by auto
  then have "m s2 k = Some (new_batch_job i now b k p out q)" using s1(3) by simp
  then show ?case
    using s1(1) s1(3) s2 job by (auto simp: bind_op_run new_batch_job_def)
qed

lemma batch_start_fits:
  assumes "ok s" "distinct (map fst jobs)" "\<And>job. job \<in> set jobs \<Longrightarrow> m s (fst job) = None"
    and "submit_batch R max_jobs now b jobs s = (Inr records, s')"
  shows "fits (batch_tasks limit records s') \<and> permits_ok limit (batch_tasks limit records s')"
proof -
  from create_batch_jobs_run [OF assms(1-3), of now b] assms(4)
  have r: "ok s'" "map bj_job_id records = map fst jobs"
    "\<forall>j \<in> set records. m s' (bj_job_id j) = Some j \<and> bj_status j = ''queued''"
    by (auto simp: submit_batch_def split: if_splits)
  have "\<exists>j. m s' k = Some j \<and> status_fits t (bj_status j)"
    if "map_of (map (\<lambda>j. (bj_job_id j, BT_Acquire)) records) k = Some t" for k t
    using map_of_SomeD [OF that] r(3) by auto
  moreover have "distinct (map bj_job_id records)" using r(2) assms(2) by simp
  ultimately show ?thesis
    using r(1) by (auto simp: fits_def batch_tasks_def permits_ok_def held_def comp_def filter_empty_conv)
qed

end

end
