(* ===== verification/Batch_Properties.thy ===== *)
theory Batch_Properties
  imports Batch_Safety
begin

text \<open>
  The properties of a batch over the SQLite repository, schedules that drive it through a given
  interleaving, and the progress \<open>get_batch_progress\<close> reports.
\<close>

subsection \<open>Schedules\<close>

datatype batch_action =
    Run_Task string "string option"
  | Ask_Cancel nat string
  | Run_Cancel nat

fun act :: "'s batch_repo \<Rightarrow> bool \<Rightarrow> batch_action \<Rightarrow> 's batch_sys \<Rightarrow> 's batch_sys option" where
  "act R h (Run_Task k out) s =
     (case map_of (bs_tasks s) k of
        None \<Rightarrow> None
      | Some t \<Rightarrow>
          if k \<in> bs_marked s
          then if ended t then None
               else let (t', permits) = task_cancelled t (bs_permits s)
                    in Some ((set_task k t' permits (bs_store s) s)\<lparr>bs_marked := bs_marked s - {k}\<rparr>)
          else map_option (\<lambda>(t', permits, store). set_task k t' permits store s)
                 (task_step R h 0 ''invalid transition'' out k t (bs_permits s, bs_store s)))"
| "act R h (Ask_Cancel i k) s =
     (if snd (bs_cancels s i) = BC_Idle then Some (s\<lparr>bs_cancels := (bs_cancels s)(i := (k, BC_Get))\<rparr>) else None)"
| "act R h (Run_Cancel i) s =
     (let (k, c) = bs_cancels s i
      in if c = BC_Idle then None
         else map_option (\<lambda>(c', store, mark).
                s\<lparr>bs_store := store, bs_cancels := (bs_cancels s)(i := (k, c')),
                  bs_marked := (if mark then insert k (bs_marked s) else bs_marked s)\<rparr>)
              (cancel_step R 0 k (task_running s k) c (bs_store s)))"

lemma act_step: "act R h a s = Some s' \<Longrightarrow> batch_step R h s s'"
proof (cases a)
  case (Run_Task k out)
  moreover assume "act R h a s = Some s'"
  ultimately show ?thesis
    by (auto simp: batch_step_def split: option.splits if_splits prod.splits
        intro: batch_work.task batch_work.cancelled)
next
  case (Ask_Cancel i k)
  moreover assume "act R h a s = Some s'"
  moreover obtain j c where "bs_cancels s i = (j, c)" by force
  ultimately show ?thesis
    by (auto simp: batch_step_def split: if_splits intro: batch_request.request)
next
  case (Run_Cancel i)
  assume act: "act R h a s = Some s'"
  obtain k c where kc: "bs_cancels s i = (k, c)" by force
  obtain c' store mark where "c \<noteq> BC_Idle"
    "cancel_step R 0 k (task_running s k) c (bs_store s) = Some (c', store, mark)"
    "s' = s\<lparr>bs_store := store, bs_cancels := (bs_cancels s)(i := (k, c')),
              bs_marked := (if mark then insert k (bs_marked s) else bs_marked s)\<rparr>"
    using act Run_Cancel kc by (auto split: if_splits)
  then show ?thesis using batch_request.cancel [OF kc] by (auto simp: batch_step_def)
qed

fun acts :: "'s batch_repo \<Rightarrow> bool \<Rightarrow> batch_action list \<Rightarrow> 's batch_sys \<Rightarrow> 's batch_sys option" where
  "acts R h [] s = Some s"
| "acts R h (a # as) s = Option.bind (act R h a s) (acts R h as)"

lemma acts_steps: "acts R h as s = Some s' \<Longrightarrow> (batch_step R h)\<^sup>*\<^sup>* s s'"
  by (induction as arbitrary: s) (auto simp: bind_eq_Some_conv intro: converse_rtranclp_into_rtranclp act_step)

subsection \<open>The limit, and the end of a batch\<close>

definition batch_reaches ::
  "nat \<Rightarrow> string \<Rightarrow> (string \<times> string \<times> string \<times> string) list \<Rightarrow> sql_batch \<Rightarrow> bool \<Rightarrow> sql_batch batch_sys \<Rightarrow> bool" where
  "batch_reaches limit b jobs rows h s \<longleftrightarrow>
     tbl_keys bj_job_id rows \<and> distinct (map fst jobs) \<and> (\<forall>job \<in> set jobs. tbl_get bj_job_id (fst job) rows = None) \<and>
     (\<exists>max_jobs now records rows'. submit_batch sqb_repo max_jobs now b jobs rows = (Inr records, rows') \<and>
        (batch_step sqb_repo h)\<^sup>*\<^sup>* (batch_tasks limit records rows') s)"

lemma batch_reaches_inv: "batch_reaches limit b jobs rows h s \<Longrightarrow> sqb.fits s \<and> permits_ok limit s"
  unfolding batch_reaches_def using sqb.batch_start_fits sqb.step_fits step_permits by blast

text \<open>
  C33. However the tasks of a batch and the cancellations of its jobs interleave, at most
  \<open>batch_parallel_limit\<close> jobs are between the acquisition of the semaphore and its release, in
  particular at most that many handlers run at once; and a permit is never lost.
\<close>

theorem batch_limit_respected:
  assumes "batch_reaches limit b jobs rows h s"
  shows "length (filter (\<lambda>(k, t). t = BT_Handler) (bs_tasks s)) \<le> held (bs_tasks s) \<and>
         bs_permits s + held (bs_tasks s) = limit"
proof -
  have "length (filter (\<lambda>(k, t). t = BT_Handler) ts) \<le> held ts" for ts
    by (induction ts) (auto simp: held_def)
  then show ?thesis using batch_reaches_inv [OF assms] by (simp add: permits_ok_def)
qed

text \<open>Two jobs, one permit: the first runs, the second waits, the first is done, the second runs.\<close>

definition demo_batch :: "(string \<times> string \<times> string \<times> string) list" where
  "demo_batch = [(''a'', ''p'', ''a.mp4'', ''draft''), (''b'', ''p'', ''b.mp4'', ''draft'')]"

definition demo_submitted :: "sql_batch batch_sys" where
  "demo_submitted = (case submit_batch sqb_repo 9 0 ''x'' demo_batch [] of
     (Inr records, rows) \<Rightarrow> batch_tasks 1 records rows | (Inl e, rows) \<Rightarrow> batch_tasks 1 [] rows)"

lemma demo_submit: "submit_batch sqb_repo 9 0 ''x'' demo_batch [] =
    (Inr (snd (submit_batch sqb_repo 9 0 ''x'' demo_batch [])), snd (submit_batch sqb_repo 9 0 ''x'' demo_batch []))"
  by code_simp

lemma demo_reaches: "acts sqb_repo h as demo_submitted = Some s \<Longrightarrow> batch_reaches 1 ''x'' demo_batch [] h s"
  unfolding batch_reaches_def
proof (intro conjI exI)
  assume "acts sqb_repo h as demo_submitted = Some s"
  moreover have "demo_submitted = batch_tasks 1 (snd (submit_batch sqb_repo 9 0 ''x'' demo_batch []))
      (snd (submit_batch sqb_repo 9 0 ''x'' demo_batch []))"
    unfolding demo_submitted_def by (subst demo_submit) simp
  ultimately show "(batch_step sqb_repo h)\<^sup>*\<^sup>* (batch_tasks 1 (snd (submit_batch sqb_repo 9 0 ''x'' demo_batch []))
      (snd (submit_batch sqb_repo 9 0 ''x'' demo_batch []))) s"
    using acts_steps by metis
qed (rule demo_submit | simp add: demo_batch_def tbl_get_def)+

definition through_handler :: "string \<Rightarrow> batch_action list" where
  "through_handler k = replicate 5 (Run_Task k None)"

lemma demo_one_handler:
  "map_option (\<lambda>s. (bs_permits s, bs_tasks s)) (acts sqb_repo True (through_handler ''a'') demo_submitted) =
     Some (0, [(''a'', BT_Handler), (''b'', BT_Acquire)])"
  by code_simp

theorem batch_limit_respected_witness:
  "\<exists>s. acts sqb_repo True (through_handler ''a'') demo_submitted = Some s \<and>
     length (filter (\<lambda>(k, t). t = BT_Handler) (bs_tasks s)) = 1 \<and> bs_permits s + held (bs_tasks s) = 1"
proof -
  obtain s where s: "acts sqb_repo True (through_handler ''a'') demo_submitted = Some s"
    "bs_tasks s = [(''a'', BT_Handler), (''b'', BT_Acquire)]"
    using demo_one_handler by auto
  show ?thesis using batch_limit_respected [OF demo_reaches [OF s(1)]] s by auto
qed

text \<open>
  C32. Every task comes to an end, by at most thirteen actions, whatever the cancellations do: each
  action brings its task nearer to the end, no request sets one back, and as long as a task has not
  ended some task can act. When all have ended, every job is completed, failed or cancelled, except
  that a job whose task was cancelled may be left running.
\<close>

theorem batch_settles:
  assumes reach: "batch_reaches limit b jobs rows h s" and limit: "0 < limit"
  shows "work_left s \<le> 13 * length jobs \<and>
     (\<forall>s'. batch_work sqb_repo h s s' \<longrightarrow> work_left s' < work_left s) \<and>
     (\<forall>s'. batch_request sqb_repo s s' \<longrightarrow> work_left s' = work_left s) \<and>
     ((\<nexists>s'. batch_work sqb_repo h s s') \<longrightarrow>
        (\<forall>(k, t) \<in> set (bs_tasks s). ended t \<and> (\<exists>j. tbl_get bj_job_id k (bs_store s) = Some j \<and>
           (bj_status j \<in> set batch_terminal \<or> t = BT_Killed \<and> bj_status j = ''running''))))"
proof (intro conjI allI impI)
  obtain max_jobs now records rows' where
    keys: "tbl_keys bj_job_id rows" "distinct (map fst jobs)" "\<forall>job \<in> set jobs. tbl_get bj_job_id (fst job) rows = None" and
    sub: "submit_batch sqb_repo max_jobs now b jobs rows = (Inr records, rows')" and
    run: "(batch_step sqb_repo h)\<^sup>*\<^sup>* (batch_tasks limit records rows') s"
    using reach unfolding batch_reaches_def by blast
  have "length records = length jobs"
    using sqb.create_batch_jobs_run [OF keys(1,2), of now b] keys(3) sub
    by (auto simp: submit_batch_def split: if_splits dest: map_eq_imp_length_eq)
  then have "work_left (batch_tasks limit records rows') = 13 * length jobs"
    by (simp add: work_left_def batch_tasks_def comp_def sum_list_triv)
  moreover from run have "work_left s \<le> work_left (batch_tasks limit records rows')"
    by (induction rule: rtranclp_induct) (auto simp: batch_step_def dest!: work_decreases request_keeps_work)
  ultimately show "work_left s \<le> 13 * length jobs" by simp
next
  assume stuck: "\<nexists>s'. batch_work sqb_repo h s s'"
  have inv: "sqb.fits s" "permits_ok limit s" using batch_reaches_inv [OF reach] by auto
  show "\<forall>(k, t) \<in> set (bs_tasks s). ended t \<and> (\<exists>j. tbl_get bj_job_id k (bs_store s) = Some j \<and>
      (bj_status j \<in> set batch_terminal \<or> t = BT_Killed \<and> bj_status j = ''running''))"
  proof (intro ballI, clarify)
    fix k t assume "(k, t) \<in> set (bs_tasks s)"
    then have kt: "map_of (bs_tasks s) k = Some t" using inv(2) by (simp add: permits_ok_def)
    have "ended t" using work_possible [OF inv(2) limit kt] stuck by blast
    moreover obtain j where "tbl_get bj_job_id k (bs_store s) = Some j" "status_fits t (bj_status j)"
      using sqb.fitsD(2) [OF inv(1) kt] by blast
    ultimately show "ended t \<and> (\<exists>j. tbl_get bj_job_id k (bs_store s) = Some j \<and>
        (bj_status j \<in> set batch_terminal \<or> t = BT_Killed \<and> bj_status j = ''running''))"
      by (cases t) auto
  qed
qed (auto dest: work_decreases request_keeps_work)

definition whole_batch :: "batch_action list" where
  "whole_batch = concat (map (\<lambda>k. replicate 10 (Run_Task k None)) [''a'', ''b''])"

lemma demo_whole_batch:
  "map_option (\<lambda>s. (bs_tasks s, map bj_status (bs_store s), map bj_progress (bs_store s)))
     (acts sqb_repo True whole_batch demo_submitted) =
   Some ([(''a'', BT_Done), (''b'', BT_Done)], [''completed'', ''completed''], [1, 1])"
  by code_simp

theorem batch_settles_witness:
  "\<exists>s. acts sqb_repo True whole_batch demo_submitted = Some s \<and> work_left s \<le> 26 \<and>
     (\<nexists>s'. batch_work sqb_repo True s s')"
proof -
  obtain s where s: "acts sqb_repo True whole_batch demo_submitted = Some s"
    "bs_tasks s = [(''a'', BT_Done), (''b'', BT_Done)]"
    using demo_whole_batch by auto
  have "work_left s = 0" by (simp add: work_left_def s(2))
  moreover have "work_left s \<le> 13 * length demo_batch \<and>
      (\<forall>s'. batch_work sqb_repo True s s' \<longrightarrow> work_left s' < work_left s)"
    using batch_settles [OF demo_reaches [OF s(1)] zero_less_one] by blast
  ultimately show ?thesis using s(1) by (auto simp: demo_batch_def)
qed

text \<open>
  A job can be left running for good: the cancellation arrives while the task is still in the
  call that made it running, which is outside the \<open>try\<close>; the task dies, the request answers
  \<open>running\<close>, and nothing is left that would finish the job.
\<close>

theorem cancel_can_strand_job:
  "\<exists>s j. batch_reaches 1 ''x'' demo_batch [] True s \<and>
     map_of (bs_tasks s) ''a'' = Some BT_Killed \<and> tbl_get bj_job_id ''a'' (bs_store s) = Some j \<and>
     bj_status j = ''running'' \<and> bs_cancels s 0 = (''a'', BC_Reply (Inr j))"
proof -
  let ?as = "replicate 4 (Run_Task ''a'' None) @ [Ask_Cancel 0 ''a'', Run_Cancel 0, Run_Cancel 0, Run_Task ''a'' None,
      Run_Cancel 0, Run_Cancel 0]"
  have "map_option (\<lambda>s. (map_of (bs_tasks s) ''a'', map_option bj_status (tbl_get bj_job_id ''a'' (bs_store s)),
      bs_cancels s 0 = (''a'', BC_Reply (Inr (the (tbl_get bj_job_id ''a'' (bs_store s)))))))
      (acts sqb_repo True ?as demo_submitted) = Some (Some BT_Killed, Some ''running'', True)"
    by code_simp
  then obtain s where s: "acts sqb_repo True ?as demo_submitted = Some s"
    "map_of (bs_tasks s) ''a'' = Some BT_Killed"
    "map_option bj_status (tbl_get bj_job_id ''a'' (bs_store s)) = Some ''running''"
    "bs_cancels s 0 = (''a'', BC_Reply (Inr (the (tbl_get bj_job_id ''a'' (bs_store s)))))"
    by (auto simp del: map_option_eq_Some)
  then show ?thesis using demo_reaches [OF s(1)] by (auto simp: map_option_eq_Some)
qed

text \<open>
  The read and the write of an update are two calls, so a finished status can be overwritten: the
  cancellation of a queued job and the completion of it both pass their check, and the job that was
  cancelled ends completed, with no progress.
\<close>

lemma cancelled_overwritten:
  "map_option (\<lambda>s. (map_of (bs_tasks s) ''a'', map (\<lambda>j. (bj_status j, bj_progress j)) (take 1 (bs_store s))))
     (acts sqb_repo False ([Ask_Cancel 0 ''a'', Run_Cancel 0] @ replicate 6 (Run_Task ''a'' None) @
        replicate 3 (Run_Cancel 0)) demo_submitted) =
     Some (Some (BT_Write To_Completed), [(''cancelled'', 0)]) \<and>
   map_option (\<lambda>s. (map_of (bs_tasks s) ''a'', map (\<lambda>j. (bj_status j, bj_progress j)) (take 1 (bs_store s))))
     (acts sqb_repo False ([Ask_Cancel 0 ''a'', Run_Cancel 0] @ replicate 6 (Run_Task ''a'' None) @
        replicate 3 (Run_Cancel 0) @ [Run_Task ''a'' None, Run_Cancel 0, Run_Task ''a'' None, Run_Task ''a'' None])
      demo_submitted) = Some (Some BT_Killed, [(''completed'', 0)])"
  by code_simp

subsection \<open>Progress\<close>

text \<open>The aggregation of the Rust core, \<open>rust/stoat_ferret_core/src/batch.rs\<close>, and the endpoint.\<close>

datatype core_status = Pending | InProgress rat | Completed | Failed

fun core_progress :: "core_status \<Rightarrow> rat" where
  "core_progress Pending = 0"
| "core_progress (InProgress p) = (if p < 0 then 0 else if 1 < p then 1 else p)"
| "core_progress Completed = 1"
| "core_progress Failed = 0"

record batch_progress =
  bp_total :: nat
  bp_completed :: nat
  bp_failed :: nat
  bp_overall :: rat

definition calculate_batch_progress :: "core_status list \<Rightarrow> batch_progress" where
  "calculate_batch_progress jobs =
     (if jobs = [] then \<lparr>bp_total = 0, bp_completed = 0, bp_failed = 0, bp_overall = 0\<rparr>
      else \<lparr>bp_total = length jobs, bp_completed = length (filter (\<lambda>j. j = Completed) jobs),
            bp_failed = length (filter (\<lambda>j. j = Failed) jobs),
            bp_overall = sum_list (map core_progress jobs) / of_nat (length jobs)\<rparr>)"

definition to_rust_status :: "batch_job \<Rightarrow> core_status" where
  "to_rust_status j =
     (if bj_status j = ''running'' then InProgress (bj_progress j)
      else if bj_status j = ''completed'' then Completed
      else if bj_status j = ''failed'' then Failed
      else Pending)"

definition get_batch_progress :: "'s batch_repo \<Rightarrow> string \<Rightarrow> ('s, batch_progress \<times> batch_job list) op" where
  "get_batch_progress R batch_id =
     bind_op (br_get_by_batch_id R batch_id) (\<lambda>jobs.
       if jobs = [] then throw (HTTPError 404 ''NOT_FOUND'')
       else ret (calculate_batch_progress (map to_rust_status jobs), jobs))"

lemma core_progress_bounds: "0 \<le> core_progress c" "core_progress c \<le> 1"
  by (cases c; simp)+

lemma sum_progress_bounds:
  "0 \<le> sum_list (map core_progress cs)" "sum_list (map core_progress cs) \<le> of_nat (length cs)"
proof (induction cs)
  case (Cons c cs)
  { case 1 then show ?case using Cons core_progress_bounds(1) [of c] by simp }
  { case 2 then show ?case using Cons core_progress_bounds(2) [of c] by simp }
qed simp_all

lemma sum_progress_full:
  "sum_list (map core_progress cs) = of_nat (length cs) \<longleftrightarrow> (\<forall>c \<in> set cs. core_progress c = 1)"
proof (induction cs)
  case (Cons c cs)
  show ?case
    using Cons core_progress_bounds(2) [of c] sum_progress_bounds(2) [of cs] by auto
qed simp

lemma done_or_failed: "length (filter (\<lambda>j. j = Completed) cs) + length (filter (\<lambda>j. j = Failed) cs) \<le> length cs"
  by (induction cs) auto

text \<open>
  The progress of a batch is its mean, between 0 and 1; it is 1 exactly when every job is
  completed, or running at full progress, so a batch with a failed or cancelled job never gets
  there; the completed and failed jobs are counted, the cancelled ones count as pending.
\<close>

theorem batch_progress_exact:
  assumes run: "get_batch_progress sqb_repo b rows = (Inr (p, jobs), rows)"
  shows "jobs \<noteq> [] \<and> set jobs = {j \<in> set rows. bj_batch_id j = b} \<and>
     bp_total p = length jobs \<and>
     bp_completed p = length (filter (\<lambda>j. bj_status j = ''completed'') jobs) \<and>
     bp_failed p = length (filter (\<lambda>j. bj_status j = ''failed'') jobs) \<and>
     bp_completed p + bp_failed p \<le> bp_total p \<and> 0 \<le> bp_overall p \<and> bp_overall p \<le> 1 \<and>
     (bp_overall p = 1 \<longleftrightarrow> (\<forall>j \<in> set jobs. bj_status j = ''completed'' \<or> bj_status j = ''running'' \<and> 1 \<le> bj_progress j))"
proof -
  let ?cs = "map to_rust_status jobs"
  have j: "jobs = tbl_select (\<lambda>j. bj_batch_id j = b) bj_id rows" "jobs \<noteq> []" "p = calculate_batch_progress ?cs"
    using run by (auto simp: get_batch_progress_def bind_op_run sqb_repo_def sqb_get_by_batch_id_def split: if_splits)
  have full: "core_progress (to_rust_status j) = 1 \<longleftrightarrow>
      bj_status j = ''completed'' \<or> bj_status j = ''running'' \<and> 1 \<le> bj_progress j" for j
    by (auto simp: to_rust_status_def)
  have counts: "to_rust_status j = Completed \<longleftrightarrow> bj_status j = ''completed''"
    "to_rust_status j = Failed \<longleftrightarrow> bj_status j = ''failed''" for j
    by (auto simp: to_rust_status_def)
  have pos: "(0::rat) < of_nat (length jobs)" using j(2) by simp
  have "bp_overall p = sum_list (map core_progress ?cs) / of_nat (length ?cs)"
    using j by (simp add: calculate_batch_progress_def)
  then have "0 \<le> bp_overall p" "bp_overall p \<le> 1"
    "bp_overall p = 1 \<longleftrightarrow> sum_list (map core_progress ?cs) = of_nat (length ?cs)"
    using sum_progress_bounds [of ?cs] pos
    by (simp_all only: length_map divide_nonneg_pos divide_le_eq_1_pos divide_eq_1_iff) auto
  then show ?thesis
    using j done_or_failed [of ?cs] sum_progress_full [of ?cs]
    by (auto simp: calculate_batch_progress_def filter_map comp_def counts full)
qed

theorem batch_progress_exact_witness:
  "get_batch_progress sqb_repo ''x'' [with_status 1 ''completed'' None (new_batch_job 1 0 ''x'' ''a'' ''p'' ''o'' ''draft''),
      with_status 1 ''cancelled'' None (new_batch_job 2 0 ''x'' ''b'' ''p'' ''o'' ''draft'')] =
     (Inr (\<lparr>bp_total = 2, bp_completed = 1, bp_failed = 0, bp_overall = 1 / 2\<rparr>,
       [with_status 1 ''completed'' None (new_batch_job 1 0 ''x'' ''a'' ''p'' ''o'' ''draft''),
        with_status 1 ''cancelled'' None (new_batch_job 2 0 ''x'' ''b'' ''p'' ''o'' ''draft'')]),
      [with_status 1 ''completed'' None (new_batch_job 1 0 ''x'' ''a'' ''p'' ''o'' ''draft''),
        with_status 1 ''cancelled'' None (new_batch_job 2 0 ''x'' ''b'' ''p'' ''o'' ''draft'')]) \<and>
   (0::rat) \<le> 1 / 2"
proof -
  let ?rows = "[with_status 1 ''completed'' None (new_batch_job 1 0 ''x'' ''a'' ''p'' ''o'' ''draft''),
      with_status 1 ''cancelled'' None (new_batch_job 2 0 ''x'' ''b'' ''p'' ''o'' ''draft'')]"
  have run: "get_batch_progress sqb_repo ''x'' ?rows =
      (Inr (\<lparr>bp_total = 2, bp_completed = 1, bp_failed = 0, bp_overall = 1 / 2\<rparr>, ?rows), ?rows)"
    by (simp add: get_batch_progress_def bind_op_run sqb_repo_def sqb_get_by_batch_id_def tbl_select_def
        new_batch_job_def with_status_def to_rust_status_def calculate_batch_progress_def)
  show ?thesis using batch_progress_exact [OF run] run by simp
qed

end
