(* ===== verification/Preview_Cache.thy ===== *)
theory Preview_Cache
  imports Tables Complex_Main "HOL-Library.While_Combinator" "HOL-Library.Multiset"
begin

text \<open>
  The cache of preview sessions, \<open>src/stoat_ferret/preview/cache.py\<close>: metadata per session with a limit
  on the bytes, eviction of the least recently accessed session and of expired ones. Every method
  holds the lock and awaits nothing else meanwhile, so it is one step; \<open>register\<close> measures the
  directory just before it takes the lock. The session directories are
  part of the state, with their sizes; removing one succeeds. The loop that evicts is
  \<open>while_option\<close>, \<open>None\<close> if it does not end.
\<close>

subsection \<open>State and operations\<close>

record cache_entry =
  ce_session_id :: string
  ce_size_bytes :: nat
  ce_last_accessed :: time
  ce_expires_at :: time

record preview_cache =
  pc_entries :: "(string, cache_entry) dict"
  pc_max_bytes :: int
  pc_session_ttl :: time
  pc_hits :: nat
  pc_misses :: nat
  pc_dirs :: "(string, nat) dict"

definition entries_bytes :: "cache_entry list \<Rightarrow> nat" where
  "entries_bytes es = sum_list (map ce_size_bytes es)"

definition used_bytes :: "preview_cache \<Rightarrow> nat" where
  "used_bytes s = entries_bytes (dict_values (pc_entries s))"

definition calculate_dir_size :: "string \<Rightarrow> preview_cache \<Rightarrow> nat" where
  "calculate_dir_size d s = get_or 0 (map_of (pc_dirs s) d)"

definition remove_entry :: "cache_entry \<Rightarrow> preview_cache \<Rightarrow> preview_cache" where
  "remove_entry e s = s\<lparr>pc_entries := AList.delete (ce_session_id e) (pc_entries s),
     pc_dirs := AList.delete (ce_session_id e) (pc_dirs s)\<rparr>"

definition evict_expired :: "time \<Rightarrow> preview_cache \<Rightarrow> preview_cache" where
  "evict_expired now s =
     fold remove_entry (filter (\<lambda>e. ce_expires_at e \<le> now) (dict_values (pc_entries s))) s"

text \<open>\<open>min\<close> picks the first of the entries accessed longest ago, as \<open>arg_min_list\<close> does.\<close>

definition too_full :: "nat \<Rightarrow> preview_cache \<Rightarrow> bool" where
  "too_full needed s \<longleftrightarrow> pc_entries s \<noteq> [] \<and> pc_max_bytes s < int (used_bytes s + needed)"

definition evict_oldest :: "preview_cache \<Rightarrow> preview_cache" where
  "evict_oldest s = remove_entry (arg_min_list ce_last_accessed (dict_values (pc_entries s))) s"

definition evict_lru :: "nat \<Rightarrow> preview_cache \<Rightarrow> preview_cache option" where
  "evict_lru needed = while_option (too_full needed) evict_oldest"

definition new_entry :: "string \<Rightarrow> nat \<Rightarrow> time \<Rightarrow> time \<Rightarrow> cache_entry" where
  "new_entry k bytes now expires_at =
     \<lparr>ce_session_id = k, ce_size_bytes = bytes, ce_last_accessed = now, ce_expires_at = expires_at\<rparr>"

definition cache_register :: "time \<Rightarrow> string \<Rightarrow> time \<Rightarrow> preview_cache \<Rightarrow> preview_cache option" where
  "cache_register now k expires_at s =
     (let bytes = calculate_dir_size k s
      in map_option (\<lambda>s'. s'\<lparr>pc_entries := AList.update k (new_entry k bytes now expires_at) (pc_entries s')\<rparr>)
           (evict_lru bytes (evict_expired now s)))"

definition cache_touch :: "time \<Rightarrow> string \<Rightarrow> preview_cache \<Rightarrow> preview_cache" where
  "cache_touch now k s =
     (case map_of (pc_entries s) k of
        None \<Rightarrow> s\<lparr>pc_misses := pc_misses s + 1\<rparr>
      | Some e \<Rightarrow>
          let s' = s\<lparr>pc_hits := pc_hits s + 1\<rparr>
          in if ce_expires_at e \<le> now then remove_entry e s'
             else s'\<lparr>pc_entries := AList.update k
                    (e\<lparr>ce_last_accessed := now, ce_size_bytes := calculate_dir_size k s\<rparr>) (pc_entries s)\<rparr>)"

definition cache_remove :: "string \<Rightarrow> preview_cache \<Rightarrow> preview_cache" where
  "cache_remove k s = s\<lparr>pc_entries := AList.delete k (pc_entries s)\<rparr>"

text \<open>\<open>round2\<close> is \<open>round(_, 2)\<close> on a float.\<close>

definition cache_status :: "(rat \<Rightarrow> rat) \<Rightarrow> preview_cache \<Rightarrow> nat \<times> int \<times> rat \<times> string list" where
  "cache_status round2 s =
     (let pct = (if 0 < pc_max_bytes s then of_nat (used_bytes s) / of_int (pc_max_bytes s) * 100 else 0)
      in (used_bytes s, pc_max_bytes s, round2 pct, dict_keys (pc_entries s)))"

definition clear_all :: "preview_cache \<Rightarrow> (nat \<times> nat) \<times> preview_cache" where
  "clear_all s =
     ((length (pc_entries s), used_bytes s),
      s\<lparr>pc_entries := [], pc_dirs := fold (\<lambda>e. AList.delete (ce_session_id e)) (dict_values (pc_entries s)) (pc_dirs s)\<rparr>)"

definition rebuild_from_disk :: "time \<Rightarrow> preview_cache \<Rightarrow> preview_cache" where
  "rebuild_from_disk now s =
     s\<lparr>pc_entries := map (\<lambda>k. (k, new_entry k (calculate_dir_size k s) now (now + pc_session_ttl s)))
        (sort (dict_keys (pc_dirs s)))\<rparr>"

subsection \<open>Well-formed caches\<close>

definition cache_ok :: "preview_cache \<Rightarrow> bool" where
  "cache_ok s \<longleftrightarrow> dict_all (\<lambda>k e. ce_session_id e = k) (pc_entries s) \<and> distinct (dict_keys (pc_dirs s))"

lemma cache_sel [simp]:
  "pc_entries (remove_entry e s) = AList.delete (ce_session_id e) (pc_entries s)"
  "pc_dirs (remove_entry e s) = AList.delete (ce_session_id e) (pc_dirs s)"
  "pc_max_bytes (remove_entry e s) = pc_max_bytes s"
  "pc_session_ttl (remove_entry e s) = pc_session_ttl s"
  by (simp_all add: remove_entry_def)

lemma ok_remove [simp]: "cache_ok s \<Longrightarrow> cache_ok (remove_entry e s)"
  by (auto simp: cache_ok_def AList.distinct_delete intro: dict_all_pop)

lemma ok_evict_oldest: "cache_ok s \<Longrightarrow> cache_ok (evict_oldest s)"
  by (simp add: evict_oldest_def)

lemma ok_fold_remove: "cache_ok s \<Longrightarrow> cache_ok (fold remove_entry es s)"
  by (induction es arbitrary: s) auto

lemma ok_evict_expired: "cache_ok s \<Longrightarrow> cache_ok (evict_expired now s)"
  by (simp add: evict_expired_def ok_fold_remove)

lemma entries_ids: "cache_ok s \<Longrightarrow> distinct (map ce_session_id (dict_values (pc_entries s)))"
  by (rule dict_keyed_distinct) (auto simp: cache_ok_def dict_all_def)

lemma entry_key: "cache_ok s \<Longrightarrow> map_of (pc_entries s) k = Some e \<Longrightarrow> ce_session_id e = k"
  by (auto simp: cache_ok_def dest: dict_all_get)

lemma ok_set: "cache_ok s \<Longrightarrow> ce_session_id e = k \<Longrightarrow> cache_ok (s\<lparr>pc_entries := AList.update k e (pc_entries s)\<rparr>)"
  by (auto simp: cache_ok_def intro: dict_all_set)

text \<open>Removing an entry by its id, seen as a list of entries.\<close>

lemma values_remove:
  assumes "cache_ok s"
  shows "dict_values (AList.delete k (pc_entries s)) = filter (\<lambda>e. ce_session_id e \<noteq> k) (dict_values (pc_entries s))"
proof -
  have "map snd (AList.delete k d) = filter (\<lambda>e. ce_session_id e \<noteq> k) (map snd d)"
    if "\<forall>(k, e) \<in> set d. ce_session_id e = k" for d :: "(string, cache_entry) dict"
    using that by (induction d) (auto simp: AList.delete_eq)
  then show ?thesis using assms by (auto simp: cache_ok_def dict_all_def)
qed

lemma values_fold_remove:
  "cache_ok s \<Longrightarrow> dict_values (pc_entries (fold remove_entry es s)) =
     filter (\<lambda>e. ce_session_id e \<notin> ce_session_id ` set es) (dict_values (pc_entries s))"
proof (induction es arbitrary: s)
  case (Cons e es)
  then show ?case using values_remove [OF Cons.prems, of "ce_session_id e"] by (auto intro: filter_cong)
qed simp

lemma values_evict_expired:
  assumes "cache_ok s"
  shows "dict_values (pc_entries (evict_expired now s)) = filter (\<lambda>e. now < ce_expires_at e) (dict_values (pc_entries s))"
proof -
  have "inj_on ce_session_id (set (dict_values (pc_entries s)))"
    using entries_ids [OF assms] distinct_map by blast
  then show ?thesis
    unfolding evict_expired_def values_fold_remove [OF assms]
    by (intro filter_cong) (auto simp: inj_on_def not_le)
qed

subsection \<open>Least recently used\<close>

text \<open>The reference: of the entries by age, drop the oldest while the rest does not fit.\<close>

fun lru_kept :: "int \<Rightarrow> nat \<Rightarrow> cache_entry list \<Rightarrow> cache_entry list" where
  "lru_kept limit needed [] = []"
| "lru_kept limit needed (e # es) =
     (if limit < int (entries_bytes (e # es) + needed) then lru_kept limit needed es else e # es)"

definition by_age :: "preview_cache \<Rightarrow> cache_entry list" where
  "by_age s = sort_key ce_last_accessed (dict_values (pc_entries s))"

lemma oldest_first: "xs \<noteq> [] \<Longrightarrow> arg_min_list f xs = hd (sort_key f xs)"
proof (induction xs rule: induct_list012)
  case (3 x y zs)
  then have "sort_key f (y # zs) \<noteq> []" by (metis length_sort length_0_conv list.distinct(1))
  then obtain b bs where b: "sort_key f (y # zs) = b # bs" by (metis list.exhaust)
  then have "arg_min_list f (y # zs) = b" using 3 by simp
  then have "arg_min_list f (x # y # zs) = (if f x \<le> f b then x else b)" by (simp add: Let_def)
  moreover have "sort_key f (x # y # zs) = insort_key f x (b # bs)" using b by simp
  ultimately show ?case by simp
qed simp_all

lemma used_by_age: "used_bytes s = entries_bytes (by_age s)"
proof -
  have "mset (by_age s) = mset (dict_values (pc_entries s))" by (simp add: by_age_def)
  then have "mset (map ce_size_bytes (by_age s)) = mset (map ce_size_bytes (dict_values (pc_entries s)))"
    unfolding mset_map by simp
  then show ?thesis unfolding used_bytes_def entries_bytes_def by (metis sum_mset_sum_list)
qed

lemma by_age_empty: "by_age s = [] \<longleftrightarrow> pc_entries s = []"
  by (metis by_age_def length_0_conv length_map length_sort)

lemma tl_by_age:
  assumes ok: "cache_ok s" and ne: "pc_entries s \<noteq> []"
  shows "by_age (evict_oldest s) = tl (by_age s)"
proof -
  obtain e es where e: "by_age s = e # es" using by_age_empty ne by (metis list.exhaust)
  have old: "arg_min_list ce_last_accessed (dict_values (pc_entries s)) = e"
    using oldest_first [of "dict_values (pc_entries s)" ce_last_accessed] ne e by (simp add: by_age_def)
  have "distinct (map ce_session_id (by_age s))"
    using entries_ids [OF ok] unfolding by_age_def distinct_map by (simp add: distinct_map)
  then have "ce_session_id e \<notin> ce_session_id ` set es" using e by simp
  then have "filter (\<lambda>x. ce_session_id x \<noteq> ce_session_id e) es = es" by (induction es) auto
  then have "filter (\<lambda>x. ce_session_id x \<noteq> ce_session_id e) (by_age s) = es" unfolding e by simp
  then show ?thesis
    using e by (simp add: evict_oldest_def by_age_def old values_remove [OF ok] sort_key_filter)
qed

lemma evict_oldest_shorter:
  assumes "cache_ok s" "pc_entries s \<noteq> []"
  shows "length (pc_entries (evict_oldest s)) < length (pc_entries s)"
proof -
  have "length (by_age (evict_oldest s)) < length (by_age s)"
    using tl_by_age [OF assms] by_age_empty [of s] assms(2) by simp
  then show ?thesis by (simp add: by_age_def)
qed

lemma evict_lru_returns: "cache_ok s \<Longrightarrow> \<exists>s'. evict_lru needed s = Some s'"
  unfolding evict_lru_def
  by (rule measure_while_option_Some [where P = cache_ok and f = "\<lambda>s. length (pc_entries s)"])
    (auto simp: too_full_def ok_evict_oldest evict_oldest_shorter)

lemma evict_lru_kept:
  assumes ok: "cache_ok s" and run: "evict_lru needed s = Some s'"
  shows "by_age s' = lru_kept (pc_max_bytes s) needed (by_age s) \<and> cache_ok s' \<and>
         pc_max_bytes s' = pc_max_bytes s \<and> pc_session_ttl s' = pc_session_ttl s"
proof -
  let ?P = "\<lambda>t. cache_ok t \<and> pc_max_bytes t = pc_max_bytes s \<and> pc_session_ttl t = pc_session_ttl s \<and>
      lru_kept (pc_max_bytes s) needed (by_age t) = lru_kept (pc_max_bytes s) needed (by_age s)"
  have "?P s'"
  proof (rule while_option_rule [where P = ?P, OF _ run [unfolded evict_lru_def]])
    fix t assume t: "?P t" and full: "too_full needed t"
    obtain e es where e: "by_age t = e # es" using full by_age_empty by (metis too_full_def list.exhaust)
    have "lru_kept (pc_max_bytes s) needed (by_age t) = lru_kept (pc_max_bytes s) needed es"
      using full t by (simp add: too_full_def used_by_age e)
    moreover have "by_age (evict_oldest t) = es"
      using tl_by_age [of t] t full e by (simp add: too_full_def)
    ultimately show "?P (evict_oldest t)"
      using t by (simp add: ok_evict_oldest evict_oldest_def)
  qed (use ok in simp)
  have stop: "\<not> too_full needed s'" using run while_option_stop by (metis evict_lru_def)
  have "lru_kept (pc_max_bytes s') needed (by_age s') = by_age s'"
  proof (cases "by_age s'")
    case (Cons e es)
    then have "pc_entries s' \<noteq> []" using by_age_empty by force
    then show ?thesis using stop Cons by (simp add: too_full_def used_by_age)
  qed simp
  with \<open>?P s'\<close> show ?thesis by metis
qed

lemma entries_bytes_filter: "entries_bytes (filter P es) \<le> entries_bytes es"
  by (induction es) (auto simp: entries_bytes_def)

lemma lru_kept_fits:
  "lru_kept limit needed es = [] \<or> int (entries_bytes (lru_kept limit needed es) + needed) \<le> limit"
  by (induction es) auto

text \<open>No more is dropped than has to be.\<close>

lemma lru_kept_least:
  "\<exists>n. lru_kept limit needed es = drop n es \<and> n \<le> length es \<and>
     (\<forall>i < n. limit < int (entries_bytes (drop i es) + needed))"
proof (induction es)
  case (Cons e es)
  show ?case
  proof (cases "limit < int (entries_bytes (e # es) + needed)")
    case True
    obtain n where n: "lru_kept limit needed es = drop n es" "n \<le> length es"
      "\<forall>i < n. limit < int (entries_bytes (drop i es) + needed)" using Cons.IH by blast
    have "limit < int (entries_bytes (drop i (e # es)) + needed)" if "i < Suc n" for i
      using that n(3) True by (cases i) auto
    then show ?thesis using n(1,2) True by (intro exI [of _ "Suc n"]) simp
  next
    case False
    then show ?thesis by (intro exI [of _ 0]) simp
  qed
qed simp

lemma ids_filter_update:
  assumes "cache_ok s" "ce_session_id e = k"
  shows "set (dict_values (AList.update k e (pc_entries s))) =
      insert e {x \<in> set (dict_values (pc_entries s)). ce_session_id x \<noteq> k}"
proof -
  let ?s = "s\<lparr>pc_entries := AList.update k e (pc_entries s)\<rparr>"
  have "x \<in> set (dict_values (pc_entries ?s)) \<longleftrightarrow> map_of (pc_entries ?s) (ce_session_id x) = Some x" for x
    using ok_set [OF assms] by (intro dict_all_values) (auto simp: cache_ok_def)
  moreover have "x \<in> set (dict_values (pc_entries s)) \<longleftrightarrow> map_of (pc_entries s) (ce_session_id x) = Some x" for x
    using assms(1) by (intro dict_all_values) (auto simp: cache_ok_def)
  ultimately show ?thesis using assms(2) by (auto simp: dict_set_map_of simp del: set_map split: if_splits)
qed

lemma bytes_update:
  assumes "cache_ok s" "ce_session_id e = k"
  shows "entries_bytes (dict_values (AList.update k e (pc_entries s))) \<le>
      ce_size_bytes e + entries_bytes (dict_values (pc_entries s))"
proof -
  have "entries_bytes (map snd (AList.update k e d)) \<le> ce_size_bytes e + entries_bytes (map snd d)" for d
    by (induction d) (auto simp: entries_bytes_def)
  then show ?thesis by simp
qed

text \<open>
  C34. Registering a session always returns: the loop that evicts ends. It first drops every expired
  session, then of the others as many of those accessed longest ago as needed, and no more, for the
  new session to fit; then the cache is within its limit, or it holds the new session alone.
\<close>

theorem cache_register_outcome:
  assumes ok: "cache_ok s"
  shows "let bytes = calculate_dir_size k s;
             fresh = filter (\<lambda>e. now < ce_expires_at e) (by_age s);
             entry = new_entry k bytes now expires_at
         in \<exists>s' n. cache_register now k expires_at s = Some s' \<and> cache_ok s' \<and>
           (\<forall>i < n. pc_max_bytes s < int (entries_bytes (drop i fresh) + bytes)) \<and>
           set (dict_values (pc_entries s')) = insert entry {e \<in> set (drop n fresh). ce_session_id e \<noteq> k} \<and>
           (int (used_bytes s') \<le> pc_max_bytes s \<or> dict_values (pc_entries s') = [entry])"
proof -
  let ?bytes = "calculate_dir_size k s"
  let ?entry = "new_entry k ?bytes now expires_at"
  let ?s1 = "evict_expired now s"
  let ?fresh = "filter (\<lambda>e. now < ce_expires_at e) (by_age s)"
  have key: "ce_session_id ?entry = k" "ce_size_bytes ?entry = ?bytes" by (simp_all add: new_entry_def)
  have ok1: "cache_ok ?s1" by (rule ok_evict_expired [OF ok])
  have "pc_max_bytes (fold remove_entry es t) = pc_max_bytes t" for es t
    by (induction es arbitrary: t) auto
  then have max1: "pc_max_bytes ?s1 = pc_max_bytes s" by (simp add: evict_expired_def)
  have fresh: "by_age ?s1 = ?fresh"
    by (simp add: by_age_def values_evict_expired [OF ok] sort_key_filter)
  obtain s2 where s2: "evict_lru ?bytes ?s1 = Some s2" using evict_lru_returns [OF ok1] by blast
  from evict_lru_kept [OF ok1 s2] have
    kept: "by_age s2 = lru_kept (pc_max_bytes s) ?bytes ?fresh" and ok2: "cache_ok s2"
    by (simp_all add: max1 fresh)
  obtain n where n: "by_age s2 = drop n ?fresh" "\<forall>i < n. pc_max_bytes s < int (entries_bytes (drop i ?fresh) + ?bytes)"
    using lru_kept_least kept by metis
  let ?s' = "s2\<lparr>pc_entries := AList.update k ?entry (pc_entries s2)\<rparr>"
  have run: "cache_register now k expires_at s = Some ?s'"
    by (simp add: cache_register_def Let_def s2)
  have "set (dict_values (pc_entries s2)) = set (drop n ?fresh)"
    unfolding n(1) [symmetric] by (simp add: by_age_def)
  then have vals: "set (dict_values (pc_entries ?s')) = insert ?entry {e \<in> set (drop n ?fresh). ce_session_id e \<noteq> k}"
    using ids_filter_update [OF ok2 key(1)] by simp
  have "int (used_bytes ?s') \<le> pc_max_bytes s \<or> dict_values (pc_entries ?s') = [?entry]"
  proof (cases "by_age s2")
    case Nil
    then show ?thesis using by_age_empty [of s2] by simp
  next
    case (Cons e es)
    then have "int (used_bytes s2 + ?bytes) \<le> pc_max_bytes s"
      using lru_kept_fits [of "pc_max_bytes s" ?bytes ?fresh] kept by (simp add: used_by_age)
    moreover have "used_bytes ?s' \<le> ?bytes + used_bytes s2"
      using bytes_update [OF ok2 key(1)] key(2) by (simp add: used_bytes_def)
    ultimately show ?thesis by linarith
  qed
  then show ?thesis unfolding Let_def
    by (intro exI [of _ ?s'] exI [of _ n] conjI run ok_set [OF ok2 key(1)] n(2) vals)
qed

definition demo_cache :: preview_cache where
  "demo_cache = \<lparr>pc_entries = [(''a'', new_entry ''a'' 4 20 90), (''b'', new_entry ''b'' 4 10 90)],
     pc_max_bytes = 10, pc_session_ttl = 60, pc_hits = 0, pc_misses = 0,
     pc_dirs = [(''a'', 4), (''b'', 4), (''c'', 5)]\<rparr>"

lemma demo_cache_ok: "cache_ok demo_cache"
  by (simp add: demo_cache_def cache_ok_def dict_all_def new_entry_def)

text \<open>Of the two sessions, \<open>b\<close> was accessed longer ago: it has to go for \<open>c\<close> to fit.\<close>

lemma evict_lru_step:
  "too_full needed s \<Longrightarrow> evict_lru needed s = evict_lru needed (evict_oldest s)"
  "\<not> too_full needed s \<Longrightarrow> evict_lru needed s = Some s"
  unfolding evict_lru_def by (subst while_option_unfold, simp)+

lemma demo_eviction:
  assumes "too_full needed demo_cache" "\<not> too_full needed (evict_oldest demo_cache)"
  shows "evict_lru needed (evict_expired 30 demo_cache) = Some (evict_oldest demo_cache)"
proof -
  have "evict_expired 30 demo_cache = demo_cache" by code_simp
  then show ?thesis using assms by (simp add: evict_lru_step)
qed

lemma demo_full: "too_full 5 demo_cache \<and> \<not> too_full 5 (evict_oldest demo_cache) \<and>
    too_full 4 demo_cache \<and> \<not> too_full 4 (evict_oldest demo_cache)"
  by code_simp

lemma demo_sizes: "calculate_dir_size ''c'' demo_cache = 5 \<and> calculate_dir_size ''b'' demo_cache = 4"
  by code_simp

lemma demo_register: "map_option (\<lambda>s. (dict_keys (pc_entries s), dict_keys (pc_dirs s))) (cache_register 30 ''c'' 99 demo_cache) =
    Some ([''a'', ''c''], [''a'', ''c''])"
  by (simp add: cache_register_def demo_sizes demo_eviction demo_full Let_def)
    (simp add: demo_cache_def evict_oldest_def remove_entry_def new_entry_def)

theorem cache_register_outcome_witness:
  "\<exists>s'. cache_register 30 ''c'' 99 demo_cache = Some s' \<and> cache_ok s' \<and> new_entry ''c'' 5 30 99 \<in> set (dict_values (pc_entries s'))"
  using cache_register_outcome [OF demo_cache_ok, of "''c''" 30 99] unfolding Let_def
  by (auto simp: demo_cache_def calculate_dir_size_def get_or_def)

text \<open>
  Registering a session again counts its own entry among the others: it can be the one to go, and
  then its directory is deleted although the session is registered, with the size it had.
\<close>

lemma register_again_deletes_dir:
  "map_option (\<lambda>s. (map_of (pc_entries s) ''b'', map_of (pc_dirs s) ''b'')) (cache_register 30 ''b'' 99 demo_cache) =
     Some (Some (new_entry ''b'' 4 30 99), None)"
  by (simp add: cache_register_def demo_sizes demo_eviction demo_full Let_def)
    (simp add: demo_cache_def evict_oldest_def remove_entry_def new_entry_def)

text \<open>Touching an expired session counts as a hit although the session is removed.\<close>

lemma touch_expired_is_hit:
  assumes "map_of (pc_entries s) k = Some e" and "ce_expires_at e \<le> now"
  shows "pc_hits (cache_touch now k s) = pc_hits s + 1 \<and> (cache_ok s \<longrightarrow> map_of (pc_entries (cache_touch now k s)) k = None)"
  using assms by (auto simp: cache_touch_def Let_def remove_entry_def dict_pop_get entry_key)

end
