(* ===== verification/Preview_Store.thy ===== *)
theory Preview_Store
  imports Tables
begin

text \<open>
  Preview sessions: \<open>PreviewStatus\<close>, its transitions and \<open>PreviewSession\<close> of \<open>src/stoat_ferret/db/models.py\<close>,
  and the two repositories of \<open>db/preview_repository.py\<close>, which meet one contract: a map from ids to
  sessions whose statuses change along the table only.
\<close>

subsection \<open>Statuses and sessions\<close>

datatype preview_status = P_INITIALIZING | P_GENERATING | P_READY | P_SEEKING | P_ERROR | P_EXPIRED

fun ps_value :: "preview_status \<Rightarrow> string" where
  "ps_value P_INITIALIZING = ''initializing''"
| "ps_value P_GENERATING = ''generating''"
| "ps_value P_READY = ''ready''"
| "ps_value P_SEEKING = ''seeking''"
| "ps_value P_ERROR = ''error''"
| "ps_value P_EXPIRED = ''expired''"

definition preview_transitions :: "(string, string list) dict" where
  "preview_transitions =
     [(''initializing'', [''generating'', ''error'', ''expired'']),
      (''generating'', [''ready'', ''error'', ''expired'']),
      (''ready'', [''seeking'', ''error'', ''expired'']),
      (''seeking'', [''ready'', ''error'', ''expired'']),
      (''error'', [''expired'']),
      (''expired'', [])]"

definition validate_preview_transition :: "string \<Rightarrow> string \<Rightarrow> exn + unit" where
  "validate_preview_transition current new =
     (if new \<in> set (get_or [] (map_of preview_transitions current)) then Inr () else Inl ValueError)"

definition may_become :: "preview_status \<Rightarrow> preview_status \<Rightarrow> bool" where
  "may_become a b \<longleftrightarrow> validate_preview_transition (ps_value a) (ps_value b) = Inr ()"

lemma may_become_simps [simp]:
  "may_become P_INITIALIZING b \<longleftrightarrow> b \<in> {P_GENERATING, P_ERROR, P_EXPIRED}"
  "may_become P_GENERATING b \<longleftrightarrow> b \<in> {P_READY, P_ERROR, P_EXPIRED}"
  "may_become P_READY b \<longleftrightarrow> b \<in> {P_SEEKING, P_ERROR, P_EXPIRED}"
  "may_become P_SEEKING b \<longleftrightarrow> b \<in> {P_READY, P_ERROR, P_EXPIRED}"
  "may_become P_ERROR b \<longleftrightarrow> b = P_EXPIRED"
  "\<not> may_become P_EXPIRED b"
  by (cases b; simp add: may_become_def validate_preview_transition_def preview_transitions_def get_or_def)+

lemma validate_preview_iff:
  "validate_preview_transition (ps_value a) (ps_value b) = (if may_become a b then Inr () else Inl ValueError)"
  by (simp add: may_become_def validate_preview_transition_def)

datatype preview_quality = PQ_LOW | PQ_MEDIUM | PQ_HIGH

record preview_session =
  pw_id :: string
  pw_project_id :: string
  pw_status :: preview_status
  pw_quality :: preview_quality
  pw_created_at :: time
  pw_updated_at :: time
  pw_expires_at :: time
  pw_manifest_path :: "string option"
  pw_segment_count :: int
  pw_error_message :: "string option"

record 's preview_repo =
  pr_add :: "preview_session \<Rightarrow> ('s, preview_session) op"
  pr_get :: "string \<Rightarrow> ('s, preview_session option) op"
  pr_list_by_project :: "string \<Rightarrow> ('s, preview_session list) op"
  pr_update :: "preview_session \<Rightarrow> ('s, unit) op"
  pr_delete :: "string \<Rightarrow> ('s, bool) op"
  pr_get_expired :: "time \<Rightarrow> ('s, preview_session list) op"
  pr_count :: "('s, nat) op"

text \<open>What \<open>update\<close> checks first, in both repositories.\<close>

definition update_allowed :: "preview_session option \<Rightarrow> preview_session \<Rightarrow> bool" where
  "update_allowed current new \<longleftrightarrow>
     (case current of None \<Rightarrow> False
      | Some c \<Rightarrow> pw_status c = pw_status new \<or>
                  validate_preview_transition (ps_value (pw_status c)) (ps_value (pw_status new)) = Inr ())"

subsection \<open>SQLite\<close>

type_synonym sql_previews = "preview_session list"

definition sqp_add :: "string set \<Rightarrow> preview_session \<Rightarrow> (sql_previews, preview_session) op" where
  "sqp_add projects w = (\<lambda>rows.
     case (if pw_project_id w \<in> projects then tbl_insert pw_id w rows else Inl IntegrityError) of
       Inl e \<Rightarrow> (Inl ValueError, rows)
     | Inr rows' \<Rightarrow> (Inr w, rows'))"

definition sqp_get :: "string \<Rightarrow> (sql_previews, preview_session option) op" where
  "sqp_get k = read_op (tbl_get pw_id k)"

definition sqp_list_by_project :: "string \<Rightarrow> (sql_previews, preview_session list) op" where
  "sqp_list_by_project p = read_op (tbl_select (\<lambda>w. pw_project_id w = p) pw_created_at)"

definition sqp_columns :: "preview_session \<Rightarrow> preview_session \<Rightarrow> preview_session" where
  "sqp_columns w r = r\<lparr>pw_status := pw_status w, pw_manifest_path := pw_manifest_path w,
     pw_segment_count := pw_segment_count w, pw_updated_at := pw_updated_at w,
     pw_expires_at := pw_expires_at w, pw_error_message := pw_error_message w\<rparr>"

definition sqp_update :: "preview_session \<Rightarrow> (sql_previews, unit) op" where
  "sqp_update w = (\<lambda>rows.
     if update_allowed (tbl_get pw_id (pw_id w) rows) w
     then (Inr (), tbl_update pw_id (pw_id w) (sqp_columns w) rows)
     else (Inl ValueError, rows))"

definition sqp_delete :: "string \<Rightarrow> (sql_previews, bool) op" where
  "sqp_delete k = (\<lambda>rows. (Inr (tbl_get pw_id k rows \<noteq> None), tbl_delete pw_id k rows))"

definition sqp_get_expired :: "time \<Rightarrow> (sql_previews, preview_session list) op" where
  "sqp_get_expired now = read_op (tbl_select (\<lambda>w. pw_expires_at w < now) pw_expires_at)"

definition sqp_count :: "(sql_previews, nat) op" where
  "sqp_count = read_op length"

definition sqp_repo :: "string set \<Rightarrow> sql_previews preview_repo" where
  "sqp_repo projects = \<lparr>pr_add = sqp_add projects, pr_get = sqp_get, pr_list_by_project = sqp_list_by_project,
     pr_update = sqp_update, pr_delete = sqp_delete, pr_get_expired = sqp_get_expired, pr_count = sqp_count\<rparr>"

subsection \<open>In memory\<close>

type_synonym mem_previews = "(string, preview_session) dict"

definition mmp_add :: "preview_session \<Rightarrow> (mem_previews, preview_session) op" where
  "mmp_add w = (\<lambda>d. if map_of d (pw_id w) \<noteq> None then (Inl ValueError, d)
                    else (Inr w, AList.update (pw_id w) w d))"

definition mmp_get :: "string \<Rightarrow> (mem_previews, preview_session option) op" where
  "mmp_get k = read_op (\<lambda>d. map_of d k)"

definition mmp_list_by_project :: "string \<Rightarrow> (mem_previews, preview_session list) op" where
  "mmp_list_by_project p =
     read_op (\<lambda>d. sort_key pw_created_at (filter (\<lambda>w. pw_project_id w = p) (dict_values d)))"

definition mmp_update :: "preview_session \<Rightarrow> (mem_previews, unit) op" where
  "mmp_update w = (\<lambda>d. if update_allowed (map_of d (pw_id w)) w then (Inr (), AList.update (pw_id w) w d)
                       else (Inl ValueError, d))"

definition mmp_delete :: "string \<Rightarrow> (mem_previews, bool) op" where
  "mmp_delete k = (\<lambda>d. if map_of d k \<noteq> None then (Inr True, AList.delete k d) else (Inr False, d))"

definition mmp_get_expired :: "time \<Rightarrow> (mem_previews, preview_session list) op" where
  "mmp_get_expired now =
     read_op (\<lambda>d. sort_key pw_expires_at (filter (\<lambda>w. pw_expires_at w < now) (dict_values d)))"

definition mmp_count :: "(mem_previews, nat) op" where
  "mmp_count = read_op length"

definition mmp_repo :: "mem_previews preview_repo" where
  "mmp_repo = \<lparr>pr_add = mmp_add, pr_get = mmp_get, pr_list_by_project = mmp_list_by_project,
     pr_update = mmp_update, pr_delete = mmp_delete, pr_get_expired = mmp_get_expired, pr_count = mmp_count\<rparr>"

subsection \<open>The contract\<close>

text \<open>A session keeps its project, quality and creation date; \<open>same_preview\<close> is what callers rely on.\<close>

definition same_preview :: "preview_session \<Rightarrow> preview_session \<Rightarrow> bool" where
  "same_preview a b \<longleftrightarrow> pw_id a = pw_id b \<and> pw_project_id a = pw_project_id b \<and>
     pw_quality a = pw_quality b \<and> pw_created_at a = pw_created_at b"

locale preview_store =
  fixes R :: "'s preview_repo" and m :: "'s \<Rightarrow> string \<Rightarrow> preview_session option" and ok :: "'s \<Rightarrow> bool"
    and projects :: "string set"
  assumes keyed: "ok s \<Longrightarrow> m s k = Some w \<Longrightarrow> pw_id w = k"
    and finite_law: "ok s \<Longrightarrow> finite (dom (m s))"
    and add_law: "ok s \<Longrightarrow> m s (pw_id new) = None \<Longrightarrow> pw_project_id new \<in> projects \<Longrightarrow>
      \<exists>s'. pr_add R new s = (Inr new, s') \<and> ok s' \<and> m s' = (m s)(pw_id new \<mapsto> new)"
    and get_law: "ok s \<Longrightarrow> pr_get R k s = (Inr (m s k), s)"
    and update_law: "ok s \<Longrightarrow> m s (pw_id new) = Some old \<Longrightarrow> same_preview old new \<Longrightarrow>
      pw_status old = pw_status new \<or> may_become (pw_status old) (pw_status new) \<Longrightarrow>
      \<exists>s'. pr_update R new s = (Inr (), s') \<and> ok s' \<and> m s' = (m s)(pw_id new \<mapsto> new)"
    and delete_law: "ok s \<Longrightarrow> \<exists>s'. pr_delete R k s = (Inr (m s k \<noteq> None), s') \<and> ok s' \<and> m s' = (m s)(k := None)"
    and expired_law: "ok s \<Longrightarrow> \<exists>ws. pr_get_expired R now s = (Inr ws, s) \<and> distinct (map pw_id ws) \<and>
      sorted (map pw_expires_at ws) \<and> (\<forall>w. w \<in> set ws \<longleftrightarrow> m s (pw_id w) = Some w \<and> pw_expires_at w < now)"
    and count_law: "ok s \<Longrightarrow> pr_count R s = (Inr (card (dom (m s))), s)"

lemma preview_listing:
  assumes "tbl_keys pw_id ws"
  shows "let l = sort_key pw_expires_at (filter P ws) in
    distinct (map pw_id l) \<and> sorted (map pw_expires_at l) \<and> (\<forall>w. w \<in> set l \<longleftrightarrow> w \<in> set ws \<and> P w)"
  using assms by (auto simp: Let_def distinct_map intro: inj_on_subset)

lemma columns_same: "same_preview r w \<Longrightarrow> sqp_columns w r = w"
  by (cases r; cases w) (simp add: same_preview_def sqp_columns_def)

lemma columns_id [simp]: "pw_id (sqp_columns w r) = pw_id r"
  by (simp add: sqp_columns_def)

lemma dom_tbl_get: "dom (\<lambda>k. tbl_get key k rows) = key ` set rows"
  using tbl_get_None [of key _ rows] by (auto simp: dom_def)

interpretation sqp: preview_store "sqp_repo projects" "\<lambda>rows k. tbl_get pw_id k rows" "tbl_keys pw_id" projects for projects
proof (unfold_locales, goal_cases)
  case (1 s k w) then show ?case by (simp add: tbl_get_iff)
next
  case (2 s) then show ?case by (simp add: dom_tbl_get)
next
  case (3 s new)
  have "pr_add (sqp_repo projects) new s = (Inr new, s @ [new])"
    using 3 by (simp add: sqp_repo_def sqp_add_def tbl_insert_def tbl_get_None)
  moreover have "tbl_keys pw_id (s @ [new])" using 3 unfolding tbl_keys_append by simp
  moreover have "(\<lambda>k. tbl_get pw_id k (s @ [new])) = (\<lambda>k. tbl_get pw_id k s)(pw_id new \<mapsto> new)"
    using 3 by (auto simp: tbl_get_append split: option.splits)
  ultimately show ?case by blast
next
  case (4 s k) then show ?case by (simp add: sqp_repo_def sqp_get_def)
next
  case (5 s new old)
  then show ?case
    by (auto simp: sqp_repo_def sqp_update_def update_allowed_def validate_preview_iff tbl_get_update
        tbl_keys_update map_key_update columns_same)
next
  case (6 s k)
  then show ?case by (auto simp: sqp_repo_def sqp_delete_def tbl_get_delete fun_eq_iff intro: tbl_keys_delete)
next
  case (7 s now)
  then show ?case
    using preview_listing [of s "\<lambda>w. pw_expires_at w < now"]
    by (simp add: sqp_repo_def sqp_get_expired_def tbl_select_def tbl_get_iff)
next
  case (8 s)
  then show ?case using distinct_card [of "map pw_id s"] by (simp add: sqp_repo_def sqp_count_def dom_tbl_get)
qed

definition mmp_ok :: "mem_previews \<Rightarrow> bool" where
  "mmp_ok = dict_all (\<lambda>k w. pw_id w = k)"

interpretation mmp: preview_store mmp_repo map_of mmp_ok projects for projects
proof (unfold_locales, goal_cases)
  case (1 s k w) then show ?case by (auto simp: mmp_ok_def dest: dict_all_get)
next
  case (2 s) show ?case by (rule finite_dom_map_of)
next
  case (3 s new)
  then show ?case by (auto simp: mmp_repo_def mmp_add_def mmp_ok_def dict_set_map_of intro: dict_all_set)
next
  case (4 s k) then show ?case by (simp add: mmp_repo_def mmp_get_def)
next
  case (5 s new old)
  then show ?case
    by (auto simp: mmp_repo_def mmp_update_def update_allowed_def validate_preview_iff mmp_ok_def dict_set_map_of
        intro: dict_all_set)
next
  case (6 s k)
  then show ?case
    by (auto simp: mmp_repo_def mmp_delete_def mmp_ok_def dict_pop_get fun_eq_iff intro: dict_all_pop)
next
  case (7 s now)
  have keyed: "w \<in> set (dict_values s) \<longleftrightarrow> map_of s (pw_id w) = Some w" for w
    using 7 by (intro dict_all_values) (auto simp: mmp_ok_def)
  have "distinct (map pw_id (dict_values s))"
    using 7 by (intro dict_keyed_distinct) (auto simp: mmp_ok_def dict_all_def)
  from preview_listing [OF this, of "\<lambda>w. pw_expires_at w < now"] show ?case
    unfolding Let_def keyed by (simp add: mmp_repo_def mmp_get_expired_def)
next
  case (8 s)
  have "card (set (dict_keys s)) = length s"
    using 8 by (metis distinct_card length_map mmp_ok_def dict_all_keys)
  then show ?case by (simp add: mmp_repo_def mmp_count_def dom_map_of_conv_image_fst)
qed

text \<open>Both stores refuse a status change the table does not have, whatever the session carries.\<close>

lemma update_refused:
  assumes "tbl_get pw_id (pw_id w) rows = Some old" "pw_status old \<noteq> pw_status w" "\<not> may_become (pw_status old) (pw_status w)"
  shows "sqp_update w rows = (Inl ValueError, rows)"
  using assms by (simp add: sqp_update_def update_allowed_def validate_preview_iff)

end
