(* ===== verification/Preview_Manager.thy ===== *)
theory Preview_Manager
  imports Preview_Store
begin

text \<open>
  The life of preview sessions, \<open>src/stoat_ferret/preview/manager.py\<close>. A method of \<open>PreviewManager\<close> is
  one step, and so is the end of a generation task; a task that is cancelled is awaited, which leaves
  only its \<open>finally\<close>. The generator is outside: how a generation ends is an argument. Kept besides the
  repository: the generation tasks, each with its cancel event, the per-session locks, the directories
  of segments, the gauge of active sessions, and the events broadcast.
\<close>

subsection \<open>State\<close>

datatype preview_event =
    PREVIEW_GENERATING string
  | PREVIEW_READY string
  | PREVIEW_SEEKING string
  | PREVIEW_ERROR string string

record 's preview_sys =
  vm_store :: 's
  vm_tasks :: "string set"
  vm_locks :: "string set"
  vm_dirs :: "string set"
  vm_active :: int
  vm_events :: "preview_event list"

record preview_env =
  ve_max_sessions :: int
  ve_ttl :: time
  ve_confined :: "string \<Rightarrow> bool"

definition on_store :: "('s, 'a) op \<Rightarrow> ('s preview_sys, 'a) op" where
  "on_store f = (\<lambda>s. case f (vm_store s) of (r, store) \<Rightarrow> (r, s\<lparr>vm_store := store\<rparr>))"

lemma on_store_run [op_simps]:
  "on_store f s = (case f (vm_store s) of (r, store) \<Rightarrow> (r, s\<lparr>vm_store := store\<rparr>))"
  by (simp add: on_store_def)

definition announce :: "preview_event \<Rightarrow> ('s preview_sys, unit) op" where
  "announce e = modify_op (\<lambda>s. s\<lparr>vm_events := vm_events s @ [e]\<rparr>)"

subsection \<open>Operations\<close>

definition pm_transition ::
  "'s preview_repo \<Rightarrow> time \<Rightarrow> preview_session \<Rightarrow> preview_status \<Rightarrow> ('s preview_sys, preview_session) op" where
  "pm_transition R now w st =
     (case validate_preview_transition (ps_value (pw_status w)) (ps_value st) of
        Inl e \<Rightarrow> throw InvalidTransitionError
      | Inr _ \<Rightarrow> let w' = w\<lparr>pw_status := st, pw_updated_at := now\<rparr>
                in seq_op (on_store (pr_update R w')) (ret w'))"

text \<open>Cancelling the task of a session, and what its \<open>finally\<close> takes away.\<close>

definition cancel_generation :: "string \<Rightarrow> ('s preview_sys, unit) op" where
  "cancel_generation k = modify_op (\<lambda>s. s\<lparr>vm_tasks := vm_tasks s - {k}\<rparr>)"

definition remove_session_dir :: "preview_env \<Rightarrow> string \<Rightarrow> ('s preview_sys, unit) op" where
  "remove_session_dir en k =
     (if ve_confined en k then modify_op (\<lambda>s. s\<lparr>vm_dirs := vm_dirs s - {k}\<rparr>) else throw ValueError)"

definition suppress_invalid :: "('s, 'a) op \<Rightarrow> ('s, unit) op" where
  "suppress_invalid f =
     catch_op (seq_op f (ret ())) (\<lambda>e. if e = InvalidTransitionError then ret () else throw e)"

definition cleanup_session :: "'s preview_repo \<Rightarrow> preview_env \<Rightarrow> time \<Rightarrow> preview_session \<Rightarrow> ('s preview_sys, unit) op" where
  "cleanup_session R en now w =
     seq_op (modify_op (\<lambda>s. s\<lparr>vm_active := vm_active s - 1\<rparr>))
     (seq_op (cancel_generation (pw_id w))
     (seq_op (remove_session_dir en (pw_id w))
     (seq_op (if pw_status w \<noteq> P_EXPIRED then suppress_invalid (pm_transition R now w P_EXPIRED) else ret ())
     (modify_op (\<lambda>s. s\<lparr>vm_locks := vm_locks s - {pw_id w}\<rparr>)))))"

definition check_expired :: "'s preview_repo \<Rightarrow> preview_env \<Rightarrow> time \<Rightarrow> preview_session \<Rightarrow> ('s preview_sys, unit) op" where
  "check_expired R en now w =
     (if pw_expires_at w \<le> now then seq_op (cleanup_session R en now w) (throw SessionExpiredError) else ret ())"

definition fetch_session :: "'s preview_repo \<Rightarrow> string \<Rightarrow> ('s preview_sys, preview_session) op" where
  "fetch_session R k =
     bind_op (on_store (pr_get R k)) (\<lambda>found. case found of None \<Rightarrow> throw SessionNotFoundError | Some w \<Rightarrow> ret w)"

definition start_generation :: "string \<Rightarrow> ('s preview_sys, unit) op" where
  "start_generation k = modify_op (\<lambda>s. s\<lparr>vm_tasks := insert k (vm_tasks s)\<rparr>)"

definition new_preview :: "string \<Rightarrow> string \<Rightarrow> preview_quality \<Rightarrow> time \<Rightarrow> time \<Rightarrow> preview_session" where
  "new_preview k project_id quality now ttl =
     \<lparr>pw_id = k, pw_project_id = project_id, pw_status = P_INITIALIZING, pw_quality = quality, pw_created_at = now,
      pw_updated_at = now, pw_expires_at = now + ttl, pw_manifest_path = None, pw_segment_count = 0,
      pw_error_message = None\<rparr>"

definition pm_start ::
  "'s preview_repo \<Rightarrow> preview_env \<Rightarrow> time \<Rightarrow> string \<Rightarrow> string \<Rightarrow> preview_quality \<Rightarrow> ('s preview_sys, preview_session) op"
where
  "pm_start R en now k project_id quality =
     bind_op (on_store (pr_count R)) (\<lambda>count.
       if ve_max_sessions en \<le> int count then throw SessionLimitError
       else let w = new_preview k project_id quality now (ve_ttl en)
            in seq_op (on_store (pr_add R w))
               (seq_op (modify_op (\<lambda>s. s\<lparr>vm_active := vm_active s + 1\<rparr>))
               (bind_op (pm_transition R now w P_GENERATING) (\<lambda>w'.
                  seq_op (announce (PREVIEW_GENERATING k))
                  (seq_op (start_generation k) (ret w'))))))"

text \<open>
  The end of the task of session \<open>k\<close>, after \<open>start\<close> or after \<open>seek\<close>, which read the same here:
  \<open>Inr manifest\<close> when \<open>generate\<close> returned, \<open>Inl (error, dir_left)\<close> when it raised, with or without
  having removed its directory.
\<close>

definition generation_failed :: "'s preview_repo \<Rightarrow> time \<Rightarrow> string \<Rightarrow> string \<Rightarrow> ('s preview_sys, unit) op" where
  "generation_failed R now k err =
     bind_op (on_store (pr_get R k)) (\<lambda>found. case found of
         None \<Rightarrow> ret ()
       | Some w \<Rightarrow>
           seq_op (suppress_invalid (pm_transition R now (w\<lparr>pw_error_message := Some (take 500 err)\<rparr>) P_ERROR))
             (announce (PREVIEW_ERROR k (take 500 err))))"

definition run_generation ::
  "'s preview_repo \<Rightarrow> time \<Rightarrow> (exn \<Rightarrow> string) \<Rightarrow> string \<Rightarrow> (string \<times> bool) + string \<Rightarrow>
   ('s preview_sys, unit) op" where
  "run_generation R now exn_text k outcome =
     seq_op (case outcome of
         Inl (err, dir_left) \<Rightarrow>
           seq_op (modify_op (\<lambda>s. s\<lparr>vm_dirs := (if dir_left then insert k else (\<lambda>d. d - {k})) (vm_dirs s)\<rparr>))
             (generation_failed R now k err)
       | Inr manifest \<Rightarrow>
           seq_op (modify_op (\<lambda>s. s\<lparr>vm_dirs := insert k (vm_dirs s)\<rparr>))
           (catch_op
             (bind_op (on_store (pr_get R k)) (\<lambda>found. case found of
                 None \<Rightarrow> ret ()
               | Some w \<Rightarrow>
                   seq_op (pm_transition R now (w\<lparr>pw_manifest_path := Some manifest\<rparr>) P_READY)
                     (announce (PREVIEW_READY k))))
             (\<lambda>e. generation_failed R now k (exn_text e))))
     (cancel_generation k)"

definition pm_seek :: "'s preview_repo \<Rightarrow> preview_env \<Rightarrow> time \<Rightarrow> string \<Rightarrow> ('s preview_sys, preview_session) op" where
  "pm_seek R en now k =
     seq_op (modify_op (\<lambda>s. s\<lparr>vm_locks := insert k (vm_locks s)\<rparr>))
     (bind_op (fetch_session R k) (\<lambda>w0.
      seq_op (check_expired R en now w0)
     (seq_op (cancel_generation k)
     (bind_op (fetch_session R k) (\<lambda>w1.
      seq_op (remove_session_dir en k)
     (bind_op (if pw_status w1 = P_GENERATING then pm_transition R now w1 P_READY else ret w1) (\<lambda>w2.
      bind_op (pm_transition R now w2 P_SEEKING) (\<lambda>w3.
      seq_op (announce (PREVIEW_SEEKING k))
     (bind_op (fetch_session R k) (\<lambda>w4.
      seq_op (start_generation k) (ret w4)))))))))))"

definition drop_session ::
  "'s preview_repo \<Rightarrow> preview_env \<Rightarrow> time \<Rightarrow> preview_session \<Rightarrow> ('s preview_sys, unit) op" where
  "drop_session R en now w =
     seq_op (cleanup_session R en now w) (seq_op (on_store (pr_delete R (pw_id w))) (ret ()))"

definition pm_stop :: "'s preview_repo \<Rightarrow> preview_env \<Rightarrow> time \<Rightarrow> string \<Rightarrow> ('s preview_sys, unit) op" where
  "pm_stop R en now k =
     bind_op (fetch_session R k) (drop_session R en now)"

definition pm_get_status :: "'s preview_repo \<Rightarrow> preview_env \<Rightarrow> time \<Rightarrow> string \<Rightarrow> ('s preview_sys, preview_session) op" where
  "pm_get_status R en now k =
     bind_op (fetch_session R k) (\<lambda>w. seq_op (check_expired R en now w) (ret w))"

definition pm_cancel_all :: "('s preview_sys, nat) op" where
  "pm_cancel_all = (\<lambda>s. (Inr (card (vm_tasks s)), s\<lparr>vm_tasks := {}, vm_dirs := {}, vm_locks := {}\<rparr>))"

definition pm_cleanup_expired :: "'s preview_repo \<Rightarrow> preview_env \<Rightarrow> time \<Rightarrow> ('s preview_sys, nat) op" where
  "pm_cleanup_expired R en now =
     bind_op (on_store (pr_get_expired R now)) (\<lambda>expired.
       seq_op (for_each expired (drop_session R en now)) (ret (length expired)))"

end
