(* ===== verification/Preview_Lifecycle.thy ===== *)
theory Preview_Lifecycle
  imports Preview_Manager
begin

text \<open>
  What holds of preview sessions under every sequence of calls and generations, over any repository
  that meets the contract.
\<close>

lemma same_preview_fields [simp]:
  "same_preview w (w\<lparr>pw_status := st\<rparr>)" "same_preview w (w\<lparr>pw_status := st, pw_updated_at := t\<rparr>)"
  "same_preview w (w\<lparr>pw_status := st, pw_updated_at := t, pw_manifest_path := p\<rparr>)"
  "same_preview w (w\<lparr>pw_status := st, pw_updated_at := t, pw_error_message := e\<rparr>)"
  "same_preview w w"
  by (simp_all add: same_preview_def)

fun working :: "preview_status \<Rightarrow> bool" where
  "working P_GENERATING = True"
| "working P_SEEKING = True"
| "working _ = False"

text \<open>
  How a session and what is kept about it go together. Of the sessions \<open>orphans\<close>, which were stored when the manager was made
  or when \<open>cancel_all\<close> took every generation and directory away, less is known.
\<close>

definition session_fits :: "string set \<Rightarrow> 's preview_sys \<Rightarrow> string \<Rightarrow> preview_session \<Rightarrow> bool" where
  "session_fits orphans s k w \<longleftrightarrow> (k \<in> vm_tasks s \<longrightarrow> working (pw_status w)) \<and>
     (pw_status w = P_READY \<longrightarrow> pw_manifest_path w \<noteq> None) \<and>
     (k \<notin> orphans \<longrightarrow> pw_status w \<noteq> P_INITIALIZING \<and> (pw_status w = P_GENERATING \<longrightarrow> k \<in> vm_tasks s) \<and>
        (pw_status w = P_READY \<longrightarrow> k \<in> vm_dirs s))"

text \<open>A state in which nothing is kept about a session but its record, in the repository.\<close>

definition without :: "'s preview_sys \<Rightarrow> string \<Rightarrow> 's \<Rightarrow> 's preview_sys" where
  "without s k store = s\<lparr>vm_store := store, vm_tasks := vm_tasks s - {k}, vm_locks := vm_locks s - {k},
     vm_dirs := vm_dirs s - {k}, vm_active := vm_active s - 1\<rparr>"

lemma without_sel [simp]:
  "vm_store (without s k store) = store" "vm_tasks (without s k store) = vm_tasks s - {k}"
  "vm_dirs (without s k store) = vm_dirs s - {k}" "vm_locks (without s k store) = vm_locks s - {k}"
  "vm_active (without s k store) = vm_active s - 1" "vm_events (without s k store) = vm_events s"
  by (simp_all add: without_def)

lemma without_fold:
  "s\<lparr>vm_active := vm_active s - 1, vm_tasks := vm_tasks s - {k}, vm_dirs := vm_dirs s - {k},
     vm_locks := vm_locks s - {k}\<rparr> = without s k (vm_store s)"
  "s\<lparr>vm_active := vm_active s - 1, vm_tasks := vm_tasks s - {k}, vm_dirs := vm_dirs s - {k}, vm_store := store,
     vm_locks := vm_locks s - {k}\<rparr> = without s k store"
  "(without s k store)\<lparr>vm_store := store'\<rparr> = without s k store'"
  by (cases s; simp add: without_def)+

context preview_store
begin

definition pinv :: "preview_env \<Rightarrow> nat \<Rightarrow> string set \<Rightarrow> 's preview_sys \<Rightarrow> bool" where
  "pinv en n orphans s \<longleftrightarrow> ok (vm_store s) \<and> int (card (dom (m (vm_store s)))) \<le> max (int n) (ve_max_sessions en) \<and>
     vm_tasks s \<subseteq> dom (m (vm_store s)) \<and>
     (\<forall>k w. m (vm_store s) k = Some w \<longrightarrow> ve_confined en k \<and> session_fits orphans s k w)"

lemma pinvD:
  assumes "pinv en n orphans s"
  shows "ok (vm_store s)" "int (card (dom (m (vm_store s)))) \<le> max (int n) (ve_max_sessions en)"
    "vm_tasks s \<subseteq> dom (m (vm_store s))"
    "m (vm_store s) k = Some w \<Longrightarrow> ve_confined en k" "m (vm_store s) k = Some w \<Longrightarrow> session_fits orphans s k w"
  using assms by (auto simp: pinv_def)

text \<open>The operations, with what the repository answers filled in.\<close>

lemma transition_run:
  assumes "ok (vm_store s)" "m (vm_store s) (pw_id w) = Some old" "same_preview old w" "pw_status old = pw_status w"
  shows "\<not> may_become (pw_status w) st \<Longrightarrow> pm_transition R now w st s = (Inl InvalidTransitionError, s)"
    and "may_become (pw_status w) st \<Longrightarrow> \<exists>store. pm_transition R now w st s =
      (Inr (w\<lparr>pw_status := st, pw_updated_at := now\<rparr>), s\<lparr>vm_store := store\<rparr>) \<and> ok store \<and>
      m store = (m (vm_store s))(pw_id w \<mapsto> w\<lparr>pw_status := st, pw_updated_at := now\<rparr>)"
proof -
  show "\<not> may_become (pw_status w) st \<Longrightarrow> pm_transition R now w st s = (Inl InvalidTransitionError, s)"
    by (simp add: pm_transition_def validate_preview_iff)
next
  assume may: "may_become (pw_status w) st"
  let ?w = "w\<lparr>pw_status := st, pw_updated_at := now\<rparr>"
  have "same_preview old ?w" using assms(3) by (simp add: same_preview_def)
  then obtain store where "pr_update R ?w (vm_store s) = (Inr (), store)" "ok store"
    "m store = (m (vm_store s))(pw_id ?w \<mapsto> ?w)"
    using update_law [OF assms(1), of ?w old] assms(2,4) may by auto
  then show "\<exists>store. pm_transition R now w st s = (Inr ?w, s\<lparr>vm_store := store\<rparr>) \<and> ok store \<and>
      m store = (m (vm_store s))(pw_id w \<mapsto> ?w)"
    using may by (auto simp: pm_transition_def validate_preview_iff op_simps Let_def)
qed

lemma fetch_run:
  assumes "ok (vm_store s)"
  shows "fetch_session R k s =
    (case m (vm_store s) k of None \<Rightarrow> (Inl SessionNotFoundError, s) | Some w \<Rightarrow> (Inr w, s))"
  by (simp add: fetch_session_def bind_op_run on_store_run get_law [OF assms] split: option.splits)

definition expired_now :: "time \<Rightarrow> preview_session \<Rightarrow> preview_session" where
  "expired_now now w = (if pw_status w = P_EXPIRED then w else w\<lparr>pw_status := P_EXPIRED, pw_updated_at := now\<rparr>)"

lemma expired_now_sel [simp]: "pw_status (expired_now now w) = P_EXPIRED" "pw_id (expired_now now w) = pw_id w"
  "pw_expires_at (expired_now now w) = pw_expires_at w"
  by (simp_all add: expired_now_def)

lemma cleanup_run:
  assumes ok: "ok (vm_store s)" and w: "m (vm_store s) k = Some w" and conf: "ve_confined en k"
  shows "\<exists>store. cleanup_session R en now w s = (Inr (), without s k store) \<and> ok store \<and>
      m store = (m (vm_store s))(k \<mapsto> expired_now now w)"
proof -
  have id: "pw_id w = k" by (rule keyed [OF ok w])
  let ?s = "s\<lparr>vm_active := vm_active s - 1, vm_tasks := vm_tasks s - {k}, vm_dirs := vm_dirs s - {k}\<rparr>"
  have same: "(m (vm_store s))(k \<mapsto> w) = m (vm_store s)" using w by auto
  have start: "cleanup_session R en now w s =
      seq_op (if pw_status w \<noteq> P_EXPIRED then suppress_invalid (pm_transition R now w P_EXPIRED) else ret ())
        (modify_op (\<lambda>s. s\<lparr>vm_locks := vm_locks s - {pw_id w}\<rparr>)) ?s"
    using conf id by (simp add: cleanup_session_def op_simps cancel_generation_def remove_session_dir_def)
  show ?thesis
  proof (cases "pw_status w = P_EXPIRED")
    case True
    then have "cleanup_session R en now w s = (Inr (), without s k (vm_store s))"
      unfolding start by (simp add: id without_fold seq_op_run)
    then show ?thesis using ok same True by (intro exI [of _ "vm_store s"]) (simp add: expired_now_def)
  next
    case False
    then have "may_become (pw_status w) P_EXPIRED" by (cases "pw_status w") auto
    then obtain store where st: "pm_transition R now w P_EXPIRED ?s =
        (Inr (w\<lparr>pw_status := P_EXPIRED, pw_updated_at := now\<rparr>), ?s\<lparr>vm_store := store\<rparr>)" "ok store"
      "m store = (m (vm_store s))(k \<mapsto> w\<lparr>pw_status := P_EXPIRED, pw_updated_at := now\<rparr>)"
      using transition_run(2) [of ?s w w P_EXPIRED now] ok w id by auto
    then have "cleanup_session R en now w s = (Inr (), without s k store)"
      unfolding start using False by (simp add: id without_fold seq_op_run suppress_invalid_def catch_op_run)
    then show ?thesis using st False by (intro exI [of _ store]) (simp add: expired_now_def)
  qed
qed

lemma delete_run:
  assumes "ok (vm_store s)"
  shows "\<exists>store. seq_op (on_store (pr_delete R k)) (ret ()) s = (Inr (), s\<lparr>vm_store := store\<rparr>) \<and> ok store \<and>
      m store = (m (vm_store s))(k := None)"
  using delete_law [OF assms, of k] by (auto simp: op_simps on_store_run)

lemma cleanup_delete_run:
  assumes ok: "ok (vm_store s)" and w: "m (vm_store s) k = Some w" and conf: "ve_confined en k"
  shows "\<exists>store. drop_session R en now w s = (Inr (), without s k store) \<and> ok store \<and> m store = (m (vm_store s))(k := None)"
proof -
  obtain store where s1: "cleanup_session R en now w s = (Inr (), without s k store)" "ok store"
      "m store = (m (vm_store s))(k \<mapsto> expired_now now w)"
    using cleanup_run [OF assms] by blast
  obtain store' where "seq_op (on_store (pr_delete R k)) (ret ()) (without s k store) =
      (Inr (), (without s k store)\<lparr>vm_store := store'\<rparr>)" "ok store'" "m store' = (m store)(k := None)"
    using delete_run [of "without s k store" k] s1(2) by auto
  then show ?thesis using s1 keyed [OF ok w]
    by (intro exI [of _ store']) (simp add: drop_session_def seq_op_run without_fold)
qed

lemma without_inv:
  assumes inv: "pinv en n orphans s" and "ok store" "m store = (m (vm_store s))(k := None)"
  shows "pinv en n orphans (without s k store)"
proof -
  have "card (dom (m store)) \<le> card (dom (m (vm_store s)))"
    using finite_law [OF pinvD(1) [OF inv]] assms(3) by (simp add: card_Diff1_le)
  then have "int (card (dom (m store))) \<le> max (int n) (ve_max_sessions en)" using pinvD(2) [OF inv] by linarith
  moreover have "session_fits orphans (without s k store) q w" if "m store q = Some w" for q w
    using that assms(3) pinvD(5) [OF inv, of q w] by (auto simp: session_fits_def split: if_splits)
  moreover have "vm_tasks s - {k} \<subseteq> dom (m store)"
    using pinvD(3) [OF inv] assms(3) by (auto simp: dom_def split: if_splits)
  ultimately show ?thesis using assms pinvD(4) [OF inv] by (auto simp: pinv_def split: if_splits)
qed

text \<open>A session changed in place, and the sets of its tasks and directories with it.\<close>

lemma change_inv:
  assumes inv: "pinv en n orphans s" and w: "m (vm_store s) k = Some w"
    and s': "ok (vm_store s')" "m (vm_store s') = (m (vm_store s))(k \<mapsto> w')" "session_fits orphans s' k w'"
    and sets: "vm_tasks s' - {k} = vm_tasks s - {k}" "vm_dirs s' - {k} = vm_dirs s - {k}"
  shows "pinv en n orphans s'"
proof -
  have dom: "dom (m (vm_store s')) = dom (m (vm_store s))" using w s'(2) by auto
  have mem: "q \<in> vm_tasks s' \<longleftrightarrow> q \<in> vm_tasks s" "q \<in> vm_dirs s' \<longleftrightarrow> q \<in> vm_dirs s" if "q \<noteq> k" for q
    using sets that by blast+
  have "session_fits orphans s' q v" if "m (vm_store s') q = Some v" for q v
    using that s'(2,3) pinvD(5) [OF inv, of q v] mem [of q] by (cases "q = k") (auto simp: session_fits_def)
  moreover have "vm_tasks s' \<subseteq> dom (m (vm_store s'))"
    unfolding dom
  proof
    fix q assume "q \<in> vm_tasks s'"
    then show "q \<in> dom (m (vm_store s))" using mem(1) [of q] pinvD(3) [OF inv] w by (cases "q = k") auto
  qed
  moreover have "ve_confined en q" if "m (vm_store s') q = Some v" for q v
    using that dom pinvD(4) [OF inv] by (metis domD domI)
  ultimately show ?thesis using s'(1) pinvD(2) [OF inv] dom by (simp add: pinv_def)
qed

lemma stop_inv:
  assumes inv: "pinv en n orphans s"
  shows "pinv en n orphans (snd (pm_stop R en now k s))"
proof (cases "m (vm_store s) k")
  case None
  then show ?thesis using inv by (simp add: pm_stop_def bind_op_run fetch_run [OF pinvD(1) [OF inv]])
next
  case (Some w)
  from cleanup_delete_run [OF pinvD(1) [OF inv] Some pinvD(4) [OF inv Some], of now] obtain store where
    r: "drop_session R en now w s = (Inr (), without s k store)"
    "ok store" "m store = (m (vm_store s))(k := None)" by blast
  then show ?thesis using Some without_inv [OF inv r(2,3)]
    by (simp add: pm_stop_def bind_op_run fetch_run [OF pinvD(1) [OF inv]])
qed

lemma cleanup_inv:
  assumes inv: "pinv en n orphans s" and w: "m (vm_store s) k = Some w"
  shows "pinv en n orphans (snd (cleanup_session R en now w s))"
proof -
  from cleanup_run [OF pinvD(1) [OF inv] w pinvD(4) [OF inv w], of now] obtain store where
    r: "cleanup_session R en now w s = (Inr (), without s k store)" "ok store"
      "m store = (m (vm_store s))(k \<mapsto> expired_now now w)" by blast
  have "pinv en n orphans (without s k store)"
    by (rule change_inv [OF inv w _ _ _]) (use r in \<open>auto simp: session_fits_def\<close>)
  then show ?thesis by (simp add: r(1))
qed

lemma check_expired_run:
  "check_expired R en now w s = (if pw_expires_at w \<le> now
     then (case cleanup_session R en now w s of (Inl e, s') \<Rightarrow> (Inl e, s') | (Inr _, s') \<Rightarrow> (Inl SessionExpiredError, s'))
     else (Inr (), s))"
  by (simp add: check_expired_def seq_op_run split: prod.splits sum.splits)

lemma get_status_inv:
  assumes inv: "pinv en n orphans s"
  shows "pinv en n orphans (snd (pm_get_status R en now k s))"
proof (cases "m (vm_store s) k")
  case None
  then show ?thesis using inv by (simp add: pm_get_status_def bind_op_run fetch_run [OF pinvD(1) [OF inv]])
next
  case (Some w)
  then show ?thesis using inv cleanup_inv [OF inv Some, of now]
    by (auto simp: pm_get_status_def bind_op_run fetch_run [OF pinvD(1) [OF inv]] seq_op_run check_expired_run
        split: prod.splits sum.splits)
qed

lemma start_inv:
  assumes inv: "pinv en n orphans s" and new: "m (vm_store s) k = None" "p \<in> projects" "ve_confined en k"
  shows "pinv en n orphans (snd (pm_start R en now k p quality s))"
proof (cases "ve_max_sessions en \<le> int (card (dom (m (vm_store s))))")
  case True
  then show ?thesis using inv
    by (simp add: pm_start_def bind_op_run on_store_run count_law [OF pinvD(1) [OF inv]])
next
  case False
  note ok = pinvD(1) [OF inv]
  let ?w = "new_preview k p quality now (ve_ttl en)"
  let ?w' = "?w\<lparr>pw_status := P_GENERATING, pw_updated_at := now\<rparr>"
  have w: "pw_id ?w = k" "pw_project_id ?w = p" "pw_status ?w = P_INITIALIZING" by (simp_all add: new_preview_def)
  obtain s1 where s1: "pr_add R ?w (vm_store s) = (Inr ?w, s1)" "ok s1" "m s1 = (m (vm_store s))(k \<mapsto> ?w)"
    using add_law [OF ok, of ?w] new w by auto
  let ?s1 = "s\<lparr>vm_store := s1, vm_active := vm_active s + 1\<rparr>"
  obtain s2 where s2: "pm_transition R now ?w P_GENERATING ?s1 = (Inr ?w', ?s1\<lparr>vm_store := s2\<rparr>)" "ok s2"
    "m s2 = (m s1)(k \<mapsto> ?w')"
    using transition_run(2) [of ?s1 ?w ?w P_GENERATING now] s1(2,3) w by auto
  have run: "snd (pm_start R en now k p quality s) = ?s1\<lparr>vm_store := s2,
      vm_events := vm_events s @ [PREVIEW_GENERATING k], vm_tasks := insert k (vm_tasks s)\<rparr>"
    using False s1(1) s2(1)
    by (simp add: pm_start_def bind_op_run on_store_run count_law [OF ok] seq_op_run Let_def announce_def
        start_generation_def)
  have m2: "m s2 = (m (vm_store s))(k \<mapsto> ?w')" using s1(3) s2(3) by simp
  have "card (dom (m s2)) = Suc (card (dom (m (vm_store s))))"
    unfolding m2 using finite_law [OF ok] new(1) by (simp add: domIff)
  then have "int (card (dom (m s2))) \<le> max (int n) (ve_max_sessions en)" using False by simp
  moreover have "insert k (vm_tasks s) \<subseteq> dom (m s2)" using pinvD(3) [OF inv] m2 by auto
  moreover have "ve_confined en q \<and> session_fits orphans (snd (pm_start R en now k p quality s)) q v" if "m s2 q = Some v" for q v
    using that m2 new(3) pinvD(4,5) [OF inv, of q v] unfolding run
    by (cases "q = k") (auto simp: session_fits_def)
  ultimately show ?thesis using s2(2) unfolding pinv_def run by simp
qed

lemma failed_inv:
  assumes ok: "ok (vm_store s)" and w: "m (vm_store s) k = Some w" and st: "working (pw_status w)"
    and rest: "pinv en n orphans s0" "m (vm_store s0) k \<noteq> None" "m (vm_store s) = (m (vm_store s0))(k \<mapsto> w)"
      "vm_tasks s - {k} = vm_tasks s0 - {k}" "vm_dirs s - {k} = vm_dirs s0 - {k}"
  shows "pinv en n orphans (snd (seq_op (generation_failed R now k err) (cancel_generation k) s))"
proof -
  have id: "pw_id w = k" by (rule keyed [OF ok w])
  let ?w = "w\<lparr>pw_error_message := Some (take 500 err)\<rparr>"
  have "may_become (pw_status ?w) P_ERROR" using st by (cases "pw_status w") auto
  then obtain store where t: "pm_transition R now ?w P_ERROR s =
      (Inr (?w\<lparr>pw_status := P_ERROR, pw_updated_at := now\<rparr>), s\<lparr>vm_store := store\<rparr>)" "ok store"
    "m store = (m (vm_store s))(k \<mapsto> ?w\<lparr>pw_status := P_ERROR, pw_updated_at := now\<rparr>)"
    using transition_run(2) [of s ?w w P_ERROR now] ok w id by (auto simp: same_preview_def)
  have run: "snd (seq_op (generation_failed R now k err) (cancel_generation k) s) =
      s\<lparr>vm_store := store, vm_events := vm_events s @ [PREVIEW_ERROR k (take 500 err)], vm_tasks := vm_tasks s - {k}\<rparr>"
    using t(1) by (simp add: generation_failed_def seq_op_run bind_op_run on_store_run get_law [OF ok] w
        suppress_invalid_def catch_op_run announce_def cancel_generation_def)
  obtain w0 where w0: "m (vm_store s0) k = Some w0" using rest(2) by blast
  let ?s' = "s\<lparr>vm_store := store, vm_events := vm_events s @ [PREVIEW_ERROR k (take 500 err)], vm_tasks := vm_tasks s - {k}\<rparr>"
  show ?thesis
    unfolding run
  proof (rule change_inv [OF rest(1) w0])
    show "m (vm_store ?s') = (m (vm_store s0))(k \<mapsto> ?w\<lparr>pw_status := P_ERROR, pw_updated_at := now\<rparr>)"
      using t(3) rest(3) by simp
    show "vm_tasks ?s' - {k} = vm_tasks s0 - {k}" using rest(4) by simp
  qed (use t(2) rest(5) in \<open>simp_all add: session_fits_def\<close>)
qed

text \<open>The end of a generation that is running.\<close>

lemma generation_inv:
  assumes inv: "pinv en n orphans s" and task: "k \<in> vm_tasks s"
  shows "pinv en n orphans (snd (run_generation R now exn_text k outcome s))"
proof -
  note ok = pinvD(1) [OF inv]
  obtain w where w: "m (vm_store s) k = Some w" using pinvD(3) [OF inv] task by blast
  have st: "working (pw_status w)" using pinvD(5) [OF inv w] task by (simp add: session_fits_def)
  have id: "pw_id w = k" by (rule keyed [OF ok w])
  have same: "(m (vm_store s))(k \<mapsto> w) = m (vm_store s)" using w by auto
  show ?thesis
  proof (cases outcome)
    case (Inl a)
    obtain err dir_left where a: "a = (err, dir_left)" by (cases a)
    let ?s = "s\<lparr>vm_dirs := (if dir_left then insert k else (\<lambda>d. d - {k})) (vm_dirs s)\<rparr>"
    have "run_generation R now exn_text k outcome s = seq_op (generation_failed R now k err) (cancel_generation k) ?s"
      by (simp add: run_generation_def Inl a seq_op_run)
    then show ?thesis using failed_inv [of ?s k w en n orphans s now err] ok w st inv same by auto
  next
    case (Inr manifest)
    let ?s = "s\<lparr>vm_dirs := insert k (vm_dirs s)\<rparr>"
    let ?w = "w\<lparr>pw_manifest_path := Some manifest\<rparr>"
    have "may_become (pw_status ?w) P_READY" using st by (cases "pw_status w") auto
    then obtain store where t: "pm_transition R now ?w P_READY ?s =
        (Inr (?w\<lparr>pw_status := P_READY, pw_updated_at := now\<rparr>), ?s\<lparr>vm_store := store\<rparr>)" "ok store"
      "m store = (m (vm_store s))(k \<mapsto> ?w\<lparr>pw_status := P_READY, pw_updated_at := now\<rparr>)"
      using transition_run(2) [of ?s ?w w P_READY now] ok w id by (auto simp: same_preview_def)
    have run: "snd (run_generation R now exn_text k outcome s) =
        ?s\<lparr>vm_store := store, vm_events := vm_events s @ [PREVIEW_READY k], vm_tasks := vm_tasks s - {k}\<rparr>"
      using t(1) by (simp add: run_generation_def Inr seq_op_run catch_op_run bind_op_run on_store_run get_law [OF ok] w
          announce_def cancel_generation_def)
    show ?thesis
      unfolding run
      by (rule change_inv [OF inv w, where w' = "?w\<lparr>pw_status := P_READY, pw_updated_at := now\<rparr>"])
        (use t(2,3) in \<open>simp_all add: session_fits_def\<close>)
  qed
qed

text \<open>Seeking, as far as the second look at the session.\<close>

lemma seek_start_run:
  assumes ok: "ok (vm_store s)" and w: "m (vm_store s) k = Some w" and conf: "ve_confined en k" and live: "now < pw_expires_at w"
  shows "pm_seek R en now k s =
     bind_op (if pw_status w = P_GENERATING then pm_transition R now w P_READY else ret w) (\<lambda>w2.
      bind_op (pm_transition R now w2 P_SEEKING) (\<lambda>w3.
      seq_op (announce (PREVIEW_SEEKING k))
     (bind_op (fetch_session R k) (\<lambda>w4.
      seq_op (start_generation k) (ret w4)))))
     (s\<lparr>vm_locks := insert k (vm_locks s), vm_tasks := vm_tasks s - {k}, vm_dirs := vm_dirs s - {k}\<rparr>)"
  using ok w conf live
  by (simp add: pm_seek_def op_simps fetch_run check_expired_run cancel_generation_def remove_session_dir_def)

lemma seek_refused_run:
  assumes ok: "ok (vm_store s)" and w: "m (vm_store s) k = Some w" and conf: "ve_confined en k" and live: "now < pw_expires_at w"
    and st: "pw_status w \<noteq> P_GENERATING" "pw_status w \<noteq> P_READY"
  shows "pm_seek R en now k s = (Inl InvalidTransitionError,
     s\<lparr>vm_locks := insert k (vm_locks s), vm_tasks := vm_tasks s - {k}, vm_dirs := vm_dirs s - {k}\<rparr>)"
proof -
  let ?s = "s\<lparr>vm_locks := insert k (vm_locks s), vm_tasks := vm_tasks s - {k}, vm_dirs := vm_dirs s - {k}\<rparr>"
  have "\<not> may_become (pw_status w) P_SEEKING" using st by (cases "pw_status w") auto
  then have "pm_transition R now w P_SEEKING ?s = (Inl InvalidTransitionError, ?s)"
    using transition_run(1) [of ?s w w P_SEEKING now] ok w keyed [OF ok w] by simp
  then show ?thesis unfolding seek_start_run [OF assms(1-4)] using st by (simp add: bind_op_run)
qed

lemma seek_run:
  assumes ok: "ok (vm_store s)" and w: "m (vm_store s) k = Some w" and conf: "ve_confined en k" and live: "now < pw_expires_at w"
    and st: "pw_status w = P_GENERATING \<or> pw_status w = P_READY"
  shows "\<exists>store. pm_seek R en now k s = (Inr (w\<lparr>pw_status := P_SEEKING, pw_updated_at := now\<rparr>),
     s\<lparr>vm_locks := insert k (vm_locks s), vm_dirs := vm_dirs s - {k}, vm_store := store,
       vm_events := vm_events s @ [PREVIEW_SEEKING k], vm_tasks := insert k (vm_tasks s)\<rparr>) \<and> ok store \<and>
     m store = (m (vm_store s))(k \<mapsto> w\<lparr>pw_status := P_SEEKING, pw_updated_at := now\<rparr>)"
proof -
  have id: "pw_id w = k" by (rule keyed [OF ok w])
  let ?s = "s\<lparr>vm_locks := insert k (vm_locks s), vm_tasks := vm_tasks s - {k}, vm_dirs := vm_dirs s - {k}\<rparr>"
  have same: "(m (vm_store s))(k \<mapsto> w) = m (vm_store s)" using w by auto
  obtain w2 store1 where r1: "(if pw_status w = P_GENERATING then pm_transition R now w P_READY else ret w) ?s =
      (Inr w2, ?s\<lparr>vm_store := store1\<rparr>)" and ok1: "ok store1" and m1: "m store1 = (m (vm_store s))(k \<mapsto> w2)"
    and w2: "pw_status w2 = P_READY" "pw_id w2 = k"
      "w2\<lparr>pw_status := P_SEEKING, pw_updated_at := now\<rparr> = w\<lparr>pw_status := P_SEEKING, pw_updated_at := now\<rparr>"
  proof (cases "pw_status w = P_GENERATING")
    case True
    then obtain store1 where "pm_transition R now w P_READY ?s =
        (Inr (w\<lparr>pw_status := P_READY, pw_updated_at := now\<rparr>), ?s\<lparr>vm_store := store1\<rparr>)" "ok store1"
      "m store1 = (m (vm_store s))(k \<mapsto> w\<lparr>pw_status := P_READY, pw_updated_at := now\<rparr>)"
      using transition_run(2) [of ?s w w P_READY now] ok w id by auto
    with that [of "w\<lparr>pw_status := P_READY, pw_updated_at := now\<rparr>" store1] show ?thesis using True id by simp
  next
    case False
    with that [of w "vm_store s"] show ?thesis using st ok id same by simp
  qed
  let ?w = "w\<lparr>pw_status := P_SEEKING, pw_updated_at := now\<rparr>"
  have may: "may_become (pw_status w2) P_SEEKING" using w2(1) by simp
  obtain store2 where r2: "pm_transition R now w2 P_SEEKING (?s\<lparr>vm_store := store1\<rparr>) =
      (Inr ?w, ?s\<lparr>vm_store := store2\<rparr>)" "ok store2" "m store2 = (m store1)(k \<mapsto> ?w)"
    using transition_run(2) [of "?s\<lparr>vm_store := store1\<rparr>" w2 w2 P_SEEKING now] ok1 m1 w2 may by auto
  let ?s3 = "?s\<lparr>vm_store := store2, vm_events := vm_events s @ [PREVIEW_SEEKING k]\<rparr>"
  have f: "fetch_session R k ?s3 = (Inr ?w, ?s3)" using fetch_run [of ?s3 k] r2(2,3) by simp
  have "pm_seek R en now k s = (Inr ?w, ?s3\<lparr>vm_tasks := insert k (vm_tasks s)\<rparr>)"
    unfolding seek_start_run [OF assms(1-4)]
    using r1 r2(1) f by (simp add: bind_op_run seq_op_run announce_def start_generation_def)
  moreover have "?s3\<lparr>vm_tasks := insert k (vm_tasks s)\<rparr> = s\<lparr>vm_locks := insert k (vm_locks s), vm_dirs := vm_dirs s - {k},
      vm_store := store2, vm_events := vm_events s @ [PREVIEW_SEEKING k], vm_tasks := insert k (vm_tasks s)\<rparr>"
    by (cases s) simp
  ultimately show ?thesis using r2(2,3) m1 by (intro exI [of _ store2]) simp
qed

lemma pinv_locks [simp]: "pinv en n orphans (s\<lparr>vm_locks := ls\<rparr>) = pinv en n orphans s"
  by (simp add: pinv_def session_fits_def)

lemma seek_inv:
  assumes inv: "pinv en n orphans s"
  shows "pinv en n orphans (snd (pm_seek R en now k s))"
proof (cases "m (vm_store s) k")
  case None
  then show ?thesis using inv pinvD(1) [OF inv] by (simp add: pm_seek_def op_simps fetch_run)
next
  case (Some w)
  note ok = pinvD(1) [OF inv] and conf = pinvD(4) [OF inv Some]
  consider (expired) "pw_expires_at w \<le> now"
    | (refused) "now < pw_expires_at w" "pw_status w \<noteq> P_GENERATING" "pw_status w \<noteq> P_READY"
    | (seeks) "now < pw_expires_at w" "pw_status w = P_GENERATING \<or> pw_status w = P_READY" by force
  then show ?thesis
  proof cases
    case expired
    let ?s = "s\<lparr>vm_locks := insert k (vm_locks s)\<rparr>"
    have "pinv en n orphans (snd (cleanup_session R en now w ?s))" using cleanup_inv [of en n orphans ?s k w now] inv Some by simp
    moreover have "snd (pm_seek R en now k s) = snd (cleanup_session R en now w ?s)"
      using expired ok Some by (simp add: pm_seek_def op_simps fetch_run check_expired_run split: prod.splits sum.splits)
    ultimately show ?thesis by simp
  next
    case refused
    let ?s = "s\<lparr>vm_locks := insert k (vm_locks s), vm_tasks := vm_tasks s - {k}, vm_dirs := vm_dirs s - {k}\<rparr>"
    have same: "(m (vm_store s))(k \<mapsto> w) = m (vm_store s)" using Some by auto
    have "pinv en n orphans ?s"
      by (rule change_inv [OF inv Some, where w' = w])
        (use ok same refused pinvD(5) [OF inv Some] in \<open>simp_all add: session_fits_def\<close>)
    then show ?thesis using seek_refused_run [OF ok Some conf refused] by simp
  next
    case seeks
    let ?w = "w\<lparr>pw_status := P_SEEKING, pw_updated_at := now\<rparr>"
    from seek_run [OF ok Some conf seeks] obtain store where
      r: "pm_seek R en now k s = (Inr ?w, s\<lparr>vm_locks := insert k (vm_locks s), vm_dirs := vm_dirs s - {k}, vm_store := store,
       vm_events := vm_events s @ [PREVIEW_SEEKING k], vm_tasks := insert k (vm_tasks s)\<rparr>)" "ok store"
      "m store = (m (vm_store s))(k \<mapsto> ?w)" by blast
    have "pinv en n orphans (s\<lparr>vm_locks := insert k (vm_locks s), vm_dirs := vm_dirs s - {k}, vm_store := store,
       vm_events := vm_events s @ [PREVIEW_SEEKING k], vm_tasks := insert k (vm_tasks s)\<rparr>)"
      by (rule change_inv [OF inv Some, where w' = ?w]) (use r(2,3) in \<open>simp_all add: session_fits_def\<close>)
    then show ?thesis by (simp add: r(1))
  qed
qed

text \<open>Cleaning up: the expired sessions go, one after the other.\<close>

lemma cleanup_loop_run:
  assumes "pinv en n orphans s" "distinct (map pw_id ws)" "\<And>w. w \<in> set ws \<Longrightarrow> m (vm_store s) (pw_id w) = Some w"
  shows "\<exists>s'. for_each ws (drop_session R en now) s =
      (Inr (), s') \<and> pinv en n orphans s' \<and> m (vm_store s') = (\<lambda>k. if k \<in> pw_id ` set ws then None else m (vm_store s) k) \<and>
      vm_tasks s' = vm_tasks s - pw_id ` set ws \<and> vm_dirs s' = vm_dirs s - pw_id ` set ws \<and>
      vm_active s' = vm_active s - int (length ws)"
  using assms
proof (induction ws arbitrary: s)
  case Nil
  then show ?case by simp
next
  case (Cons w ws)
  have w: "m (vm_store s) (pw_id w) = Some w" using Cons.prems(3) [of w] by simp
  obtain store where c: "drop_session R en now w s =
      (Inr (), without s (pw_id w) store)" "ok store" "m store = (m (vm_store s))(pw_id w := None)"
    using cleanup_delete_run [OF pinvD(1) [OF Cons.prems(1)] w pinvD(4) [OF Cons.prems(1) w]] by blast
  have inv: "pinv en n orphans (without s (pw_id w) store)" by (rule without_inv [OF Cons.prems(1) c(2,3)])
  have rest: "m (vm_store (without s (pw_id w) store)) (pw_id v) = Some v" if "v \<in> set ws" for v
  proof -
    have "pw_id v \<noteq> pw_id w" using that Cons.prems(2) by (metis distinct.simps(2) image_eqI image_set list.simps(9))
    then show ?thesis using that Cons.prems(3) c(3) by simp
  qed
  have "distinct (map pw_id ws)" using Cons.prems(2) by simp
  from Cons.IH [OF inv this rest] obtain s' where
    "for_each ws (drop_session R en now) (without s (pw_id w) store) = (Inr (), s')" "pinv en n orphans s'"
    "m (vm_store s') = (\<lambda>k. if k \<in> pw_id ` set ws then None else m (vm_store (without s (pw_id w) store)) k)"
    "vm_tasks s' = vm_tasks (without s (pw_id w) store) - pw_id ` set ws"
    "vm_dirs s' = vm_dirs (without s (pw_id w) store) - pw_id ` set ws"
    "vm_active s' = vm_active (without s (pw_id w) store) - int (length ws)" by blast
  then show ?case using c by (auto simp: fun_eq_iff seq_op_run)
qed

lemma cleanup_expired_run:
  assumes inv: "pinv en n orphans s"
  shows "\<exists>s'. pm_cleanup_expired R en now s =
      (Inr (card {k. \<exists>w. m (vm_store s) k = Some w \<and> pw_expires_at w < now}), s') \<and> pinv en n orphans s' \<and>
      (\<forall>k. m (vm_store s') k = (case m (vm_store s) k of None \<Rightarrow> None
         | Some w \<Rightarrow> if pw_expires_at w < now then None else Some w)) \<and>
      (\<forall>k w. m (vm_store s') k = Some w \<longrightarrow>
         (k \<in> vm_tasks s' \<longleftrightarrow> k \<in> vm_tasks s) \<and> (k \<in> vm_dirs s' \<longleftrightarrow> k \<in> vm_dirs s))"
proof -
  note ok = pinvD(1) [OF inv]
  obtain ws where ws: "pr_get_expired R now (vm_store s) = (Inr ws, vm_store s)" "distinct (map pw_id ws)"
    "\<forall>w. w \<in> set ws \<longleftrightarrow> m (vm_store s) (pw_id w) = Some w \<and> pw_expires_at w < now"
    using expired_law [OF ok] by blast
  have ids: "pw_id ` set ws = {k. \<exists>w. m (vm_store s) k = Some w \<and> pw_expires_at w < now}"
    using ws(3) keyed [OF ok] by force
  then have len: "length ws = card {k. \<exists>w. m (vm_store s) k = Some w \<and> pw_expires_at w < now}"
    using distinct_card [OF ws(2)] by simp
  obtain s' where s': "for_each ws (drop_session R en now) s = (Inr (), s')" "pinv en n orphans s'"
    "m (vm_store s') = (\<lambda>k. if k \<in> pw_id ` set ws then None else m (vm_store s) k)"
    "vm_tasks s' = vm_tasks s - pw_id ` set ws" "vm_dirs s' = vm_dirs s - pw_id ` set ws"
    using cleanup_loop_run [OF inv ws(2)] ws(3) by blast
  have "pm_cleanup_expired R en now s = (Inr (length ws), s')"
    by (simp add: pm_cleanup_expired_def bind_op_run on_store_run ws(1) seq_op_run s'(1))
  then show ?thesis using s' unfolding len ids by (intro exI [of _ s']) (auto split: option.splits if_splits)
qed

end

end
