(* ===== verification/Preview_Sessions.thy ===== *)
theory Preview_Sessions
  imports Preview_Lifecycle
begin

text \<open>
  The properties of preview sessions, over the SQLite repository: what holds after any sequence of
  calls and generations, what cleaning up does, and how sessions are lost.
\<close>

subsection \<open>Any sequence of calls\<close>

datatype preview_call =
    StartPreview time string string preview_quality
  | EndGeneration time string "(string \<times> bool) + string"
  | SeekPreview time string
  | StopPreview time string
  | StatusPreview time string
  | CleanupPreviews time
  | CancelAllPreviews

fun serve_preview :: "'s preview_repo \<Rightarrow> preview_env \<Rightarrow> (exn \<Rightarrow> string) \<Rightarrow> preview_call \<Rightarrow> 's preview_sys \<Rightarrow> 's preview_sys"
where
  "serve_preview R en exn_text (StartPreview now k p q) s = snd (pm_start R en now k p q s)"
| "serve_preview R en exn_text (EndGeneration now k outcome) s = snd (run_generation R now exn_text k outcome s)"
| "serve_preview R en exn_text (SeekPreview now k) s = snd (pm_seek R en now k s)"
| "serve_preview R en exn_text (StopPreview now k) s = snd (pm_stop R en now k s)"
| "serve_preview R en exn_text (StatusPreview now k) s = snd (pm_get_status R en now k s)"
| "serve_preview R en exn_text (CleanupPreviews now) s = snd (pm_cleanup_expired R en now s)"
| "serve_preview R en exn_text CancelAllPreviews s = snd (pm_cancel_all s)"

text \<open>New ids are fresh and stay inside the output directory; a generation ends once, while it runs.\<close>

fun preview_call_ok :: "'s preview_repo \<Rightarrow> preview_env \<Rightarrow> string set \<Rightarrow> preview_call \<Rightarrow> 's preview_sys \<Rightarrow> bool" where
  "preview_call_ok R en projects (StartPreview now k p q) s \<longleftrightarrow>
     p \<in> projects \<and> ve_confined en k \<and> fst (pr_get R k (vm_store s)) = Inr None"
| "preview_call_ok R en projects (EndGeneration now k outcome) s \<longleftrightarrow> k \<in> vm_tasks s"
| "preview_call_ok R en projects _ s \<longleftrightarrow> True"

text \<open>
  The states that are reached, with the sessions that were stored when the manager was made or when \<open>cancel_all\<close> was
  last called.
\<close>

definition preview_start :: "'s \<Rightarrow> 's preview_sys" where
  "preview_start store = \<lparr>vm_store = store, vm_tasks = {}, vm_locks = {}, vm_dirs = {}, vm_active = 0, vm_events = []\<rparr>"

inductive preview_states ::
  "preview_env \<Rightarrow> string set \<Rightarrow> sql_previews \<Rightarrow> string set \<Rightarrow> sql_previews preview_sys \<Rightarrow> bool"
  for en :: preview_env and projects :: "string set" and rows :: sql_previews where
  Start: "preview_states en projects rows (pw_id ` set rows) (preview_start rows)"
| Call: "preview_states en projects rows orphans s \<Longrightarrow> c \<noteq> CancelAllPreviews \<Longrightarrow>
    preview_call_ok (sqp_repo projects) en projects c s \<Longrightarrow>
    preview_states en projects rows orphans (serve_preview (sqp_repo projects) en exn_text c s)"
| CancelAll: "preview_states en projects rows orphans s \<Longrightarrow>
    preview_states en projects rows (pw_id ` set (vm_store s)) (serve_preview (sqp_repo projects) en exn_text CancelAllPreviews s)"

text \<open>The sessions an earlier process may have left.\<close>

definition rows_left :: "preview_env \<Rightarrow> sql_previews \<Rightarrow> bool" where
  "rows_left en rows \<longleftrightarrow> tbl_keys pw_id rows \<and>
     list_all (\<lambda>w. ve_confined en (pw_id w) \<and> (pw_status w = P_READY \<longrightarrow> pw_manifest_path w \<noteq> None)) rows"

context preview_store
begin

lemma call_inv:
  assumes "pinv en n orphans s" "preview_call_ok R en projects c s" "c \<noteq> CancelAllPreviews"
  shows "pinv en n orphans (serve_preview R en exn_text c s)"
proof (cases c)
  case (StartPreview now k p q)
  then show ?thesis using start_inv [OF assms(1)] assms(2) get_law [OF pinvD(1) [OF assms(1)]] by simp
next
  case (EndGeneration now k outcome)
  then show ?thesis using generation_inv [OF assms(1)] assms(2) by simp
next
  case (CleanupPreviews now)
  obtain i s' where "pm_cleanup_expired R en now s = (Inr i, s')" "pinv en n orphans s'"
    using cleanup_expired_run [OF assms(1), of now] by blast
  then show ?thesis using CleanupPreviews by simp
qed (use assms(1,3) seek_inv stop_inv get_status_inv in auto)

lemma cancel_all_inv: "pinv en n orphans s \<Longrightarrow> pinv en n (dom (m (vm_store s))) (snd (pm_cancel_all s))"
  by (auto simp: pinv_def pm_cancel_all_def session_fits_def)

end

lemma start_pinv:
  assumes "rows_left en rows" shows "sqp.pinv en (length rows) (pw_id ` set rows) (preview_start rows)"
proof -
  have keys: "distinct (map pw_id rows)" using assms by (simp add: rows_left_def)
  have "card (dom (\<lambda>k. tbl_get pw_id k rows)) = length rows" using distinct_card [OF keys] by (simp add: dom_tbl_get)
  with assms show ?thesis
    by (auto simp: sqp.pinv_def preview_start_def rows_left_def session_fits_def list_all_iff dest!: tbl_get_Some)
qed

lemma states_inv:
  "preview_states en projects rows orphans s \<Longrightarrow> rows_left en rows \<Longrightarrow> sqp.pinv en (length rows) orphans s"
proof (induction rule: preview_states.induct)
  case Start
  then show ?case by (rule start_pinv)
next
  case (Call orphans s c exn_text)
  then show ?case using sqp.call_inv [of en "length rows" orphans s projects c exn_text] by simp
next
  case (CancelAll orphans s exn_text)
  then show ?case using sqp.cancel_all_inv [of en "length rows" orphans s] by (simp add: dom_tbl_get)
qed


definition demo_preview_env :: preview_env where
  "demo_preview_env = \<lparr>ve_max_sessions = 1, ve_ttl = 60, ve_confined = (\<lambda>_. True)\<rparr>"

definition demo_previews :: "preview_call list \<Rightarrow> sql_previews preview_sys" where
  "demo_previews cs = fold (serve_preview (sqp_repo {''p''}) demo_preview_env (\<lambda>_. ''error'')) cs (preview_start [])"

lemma demo_previews_snoc:
  "preview_states demo_preview_env {''p''} [] {} (demo_previews cs) \<Longrightarrow>
   preview_call_ok (sqp_repo {''p''}) demo_preview_env {''p''} c (demo_previews cs) \<Longrightarrow> c \<noteq> CancelAllPreviews \<Longrightarrow>
   preview_states demo_preview_env {''p''} [] {} (demo_previews (cs @ [c]))"
  by (auto simp: demo_previews_def intro: preview_states.Call)

abbreviation first_preview :: "preview_call list" where
  "first_preview \<equiv> [StartPreview 0 ''a'' ''p'' PQ_LOW, EndGeneration 5 ''a'' (Inr ''a/manifest.m3u8'')]"

lemma demo_left: "rows_left demo_preview_env []"
  by (simp add: rows_left_def)

lemma demo_first_started: "''a'' \<in> vm_tasks (demo_previews [StartPreview 0 ''a'' ''p'' PQ_LOW])"
  by code_simp

lemma demo_reached: "preview_states demo_preview_env {''p''} [] {} (demo_previews first_preview)"
proof -
  have "preview_states demo_preview_env {''p''} [] {} (demo_previews [])"
    using preview_states.Start [of demo_preview_env "{''p''}" "[]"] by (simp add: demo_previews_def)
  from demo_previews_snoc [OF this, of "StartPreview 0 ''a'' ''p'' PQ_LOW"] have
    "preview_states demo_preview_env {''p''} [] {} (demo_previews [StartPreview 0 ''a'' ''p'' PQ_LOW])"
    by (simp add: demo_preview_env_def demo_previews_def preview_start_def sqp_repo_def sqp_get_def tbl_get_def)
  from demo_previews_snoc [OF this, of "EndGeneration 5 ''a'' (Inr ''a/manifest.m3u8'')"] demo_first_started
  show ?thesis by simp
qed



text \<open>
  Cleaning up removes exactly the sessions that have expired, with their generations and
  directories, and answers how many; every other session stays as it is, and so do its generation
  and its directory.
\<close>

theorem cleanup_expired_exact:
  assumes reach: "preview_states en projects rows orphans s" and left: "rows_left en rows"
  shows "\<exists>s'. pm_cleanup_expired (sqp_repo projects) en now s =
       (Inr (card {k. \<exists>w. tbl_get pw_id k (vm_store s) = Some w \<and> pw_expires_at w < now}), s') \<and>
     (\<forall>k. tbl_get pw_id k (vm_store s') = (case tbl_get pw_id k (vm_store s) of None \<Rightarrow> None
        | Some w \<Rightarrow> if pw_expires_at w < now then None else Some w)) \<and>
     (\<forall>k. tbl_get pw_id k (vm_store s') = None \<longrightarrow> k \<notin> vm_tasks s') \<and>
     (\<forall>k w. tbl_get pw_id k (vm_store s') = Some w \<longrightarrow>
        (k \<in> vm_tasks s' \<longleftrightarrow> k \<in> vm_tasks s) \<and> (k \<in> vm_dirs s' \<longleftrightarrow> k \<in> vm_dirs s))"
proof -
  obtain s' where s': "pm_cleanup_expired (sqp_repo projects) en now s =
       (Inr (card {k. \<exists>w. tbl_get pw_id k (vm_store s) = Some w \<and> pw_expires_at w < now}), s')" "sqp.pinv en (length rows) orphans s'"
     "\<forall>k. tbl_get pw_id k (vm_store s') = (case tbl_get pw_id k (vm_store s) of None \<Rightarrow> None
        | Some w \<Rightarrow> if pw_expires_at w < now then None else Some w)"
     "\<forall>k w. tbl_get pw_id k (vm_store s') = Some w \<longrightarrow>
        (k \<in> vm_tasks s' \<longleftrightarrow> k \<in> vm_tasks s) \<and> (k \<in> vm_dirs s' \<longleftrightarrow> k \<in> vm_dirs s)"
    using sqp.cleanup_expired_run [OF states_inv [OF reach left], of projects now] by blast
  moreover have "\<forall>k. tbl_get pw_id k (vm_store s') = None \<longrightarrow> k \<notin> vm_tasks s'"
    using sqp.pinvD(3) [OF s'(2)] by auto
  ultimately show ?thesis by blast
qed

theorem cleanup_expired_exact_witness:
  "\<exists>s'. pm_cleanup_expired (sqp_repo {''p''}) demo_preview_env 61 (demo_previews first_preview) =
     (Inr (card {k. \<exists>w. tbl_get pw_id k (vm_store (demo_previews first_preview)) = Some w \<and> pw_expires_at w < 61}), s')"
  using cleanup_expired_exact [OF demo_reached demo_left, of 61] by blast

text \<open>
  Seeking while an earlier seek is still generating fails, and spoils the session: its generation
  is cancelled and its segments are deleted, but it stays \<open>seeking\<close>, with nothing left to make it
  ready, so every later seek fails too, until it is stopped or expires.
\<close>

theorem seek_during_seek_strands:
  assumes reach: "preview_states en projects rows orphans s" and left: "rows_left en rows"
    and w: "tbl_get pw_id k (vm_store s) = Some w" "pw_status w = P_SEEKING" "now < pw_expires_at w"
  shows "\<exists>s'. pm_seek (sqp_repo projects) en now k s = (Inl InvalidTransitionError, s') \<and>
     tbl_get pw_id k (vm_store s') = Some w \<and> k \<notin> vm_tasks s' \<and> k \<notin> vm_dirs s' \<and>
     (\<forall>later < pw_expires_at w. fst (pm_seek (sqp_repo projects) en later k s') = Inl InvalidTransitionError)"
proof -
  have inv: "sqp.pinv en (length rows) orphans s" by (rule states_inv [OF reach left])
  have conf: "ve_confined en k" by (rule sqp.pinvD(4) [OF inv w(1)])
  have run: "pm_seek (sqp_repo projects) en t k u = (Inl InvalidTransitionError,
      u\<lparr>vm_locks := insert k (vm_locks u), vm_tasks := vm_tasks u - {k}, vm_dirs := vm_dirs u - {k}\<rparr>)"
    if "tbl_keys pw_id (vm_store u)" "tbl_get pw_id k (vm_store u) = Some w" "t < pw_expires_at w" for t u
    using sqp.seek_refused_run [OF that(1,2) conf that(3)] w(2) by simp
  show ?thesis using run [OF sqp.pinvD(1) [OF inv] w(1,3)] run sqp.pinvD(1) [OF inv] w(1) by auto
qed

abbreviation sought_preview :: "preview_call list" where
  "sought_preview \<equiv> first_preview @ [SeekPreview 6 ''a'']"

lemma demo_sought: "map (\<lambda>w. (pw_id w, pw_status w, pw_expires_at w)) (vm_store (demo_previews sought_preview)) =
    [(''a'', P_SEEKING, 60)]"
  by code_simp

theorem seek_during_seek_strands_witness:
  "\<exists>s'. pm_seek (sqp_repo {''p''}) demo_preview_env 7 ''a'' (demo_previews sought_preview) = (Inl InvalidTransitionError, s') \<and>
     ''a'' \<notin> vm_tasks s'"
proof -
  have reach: "preview_states demo_preview_env {''p''} [] {} (demo_previews sought_preview)"
    by (rule demo_previews_snoc [OF demo_reached]) simp_all
  obtain w where w: "vm_store (demo_previews sought_preview) = [w]" "pw_id w = ''a''" "pw_status w = P_SEEKING"
    "pw_expires_at w = 60"
    using demo_sought by auto
  have "tbl_get pw_id ''a'' (vm_store (demo_previews sought_preview)) = Some w" unfolding w(1) by (simp add: w(2) tbl_get_def)
  from seek_during_seek_strands [OF reach demo_left this w(3), of 7] w(4) show ?thesis by auto
qed

text \<open>
  \<open>cancel_all\<close> leaves the session of a generation it cancels in the repository, as generating: nothing makes it ready any
  more, and it counts for the limit until it is stopped or cleaned up.
\<close>

lemma cancel_all_strands:
  "let s = demo_previews [StartPreview 0 ''a'' ''p'' PQ_LOW, CancelAllPreviews] in
     map pw_status (vm_store s) = [P_GENERATING] \<and> vm_tasks s = {} \<and>
     fst (pm_start (sqp_repo {''p''}) demo_preview_env 1 ''b'' ''p'' PQ_LOW s) = Inl SessionLimitError"
  by code_simp

text \<open>
  An expired session that is looked at stays in the repository, where it counts for the limit, and
  takes one off the gauge of active sessions each time: here the gauge falls below zero.
\<close>

lemma expired_session_stays:
  "let s = demo_previews (first_preview @ [StatusPreview 60 ''a'', StatusPreview 61 ''a'']) in
     map pw_status (vm_store s) = [P_EXPIRED] \<and> vm_active s = -1 \<and>
     fst (pm_start (sqp_repo {''p''}) demo_preview_env 62 ''b'' ''p'' PQ_LOW s) = Inl SessionLimitError"
  by code_simp

end
