(* ===== verification/Media_Store.thy ===== *)
theory Media_Store
  imports Media_Models Tables Ws_Events "HOL-Library.Option_ord"
begin

text \<open>
  What a project consists of: the repositories of projects (\<open>src/stoat_ferret/db/project_repository.py\<close>), clips
  (\<open>clip_repository.py\<close>), tracks (\<open>timeline_repository.py\<close>) and videos (\<open>async_repository.py\<close>), in SQLite and in
  memory. The SQLite repositories share one connection, so their operations work on one state, and the
  foreign keys of the schema hold between its tables: a clip or a track needs its project and goes with
  it, a video that a clip names cannot be deleted, and neither can a project or a track that a ducking pair or a speech
  cue names; of these two tables, which \<open>Audio_Mixing\<close> and \<open>Tts_Cues\<close> model, the state here has
  only the ids their rows name. The events the requests broadcast are logged in
  the state as well. \<open>media_store\<close> is what the requests rely on.
\<close>

subsection \<open>Repositories\<close>

record 's project_repo =
  pjr_add :: "project \<Rightarrow> ('s, project) op"
  pjr_get :: "string \<Rightarrow> ('s, project option) op"
  pjr_list :: "int \<Rightarrow> int \<Rightarrow> ('s, project list) op"
  pjr_update :: "project \<Rightarrow> ('s, project) op"
  pjr_delete :: "string \<Rightarrow> ('s, bool) op"
  pjr_count :: "('s, nat) op"

record 's clip_repo =
  clr_add :: "clip \<Rightarrow> ('s, clip) op"
  clr_get :: "string \<Rightarrow> ('s, clip option) op"
  clr_list_by_project :: "string \<Rightarrow> ('s, clip list) op"
  clr_update :: "clip \<Rightarrow> ('s, clip) op"
  clr_delete :: "string \<Rightarrow> ('s, bool) op"
  clr_split_atomic :: "clip \<Rightarrow> clip \<Rightarrow> string \<Rightarrow> ('s, clip \<times> clip) op"

record 's timeline_repo =
  tlr_create_track :: "track \<Rightarrow> ('s, track) op"
  tlr_get_track :: "string \<Rightarrow> ('s, track option) op"
  tlr_get_tracks_by_project :: "string \<Rightarrow> ('s, track list) op"
  tlr_update_track :: "track \<Rightarrow> ('s, track) op"
  tlr_delete_track :: "string \<Rightarrow> ('s, bool) op"
  tlr_get_clips_by_track :: "string \<Rightarrow> ('s, clip list) op"
  tlr_count_tracks :: "string \<Rightarrow> ('s, nat) op"
  tlr_count_clips :: "string \<Rightarrow> ('s, nat) op"

record 's video_repo =
  vdr_add :: "video \<Rightarrow> ('s, video) op"
  vdr_get :: "string \<Rightarrow> ('s, video option) op"
  vdr_get_by_path :: "string \<Rightarrow> ('s, video option) op"
  vdr_list_videos :: "int \<Rightarrow> int \<Rightarrow> ('s, video list) op"
  vdr_update :: "video \<Rightarrow> ('s, video) op"
  vdr_count :: "('s, nat) op"
  vdr_delete :: "string \<Rightarrow> ('s, bool) op"

record 's media_repos =
  mx_projects :: "'s project_repo"
  mx_clips :: "'s clip_repo"
  mx_timeline :: "'s timeline_repo"
  mx_videos :: "'s video_repo"
  mx_broadcast :: "event_type \<Rightarrow> message \<Rightarrow> ('s, unit) op"

subsection \<open>SQLite\<close>

record media_db =
  md_projects :: "project list"
  md_clips :: "clip list"
  md_tracks :: "track list"
  md_videos :: "video list"
  md_refs :: "(string \<times> string list) list"
  md_log :: "(event_type \<times> message) list"

text \<open>\<open>md_refs\<close>: the project and the tracks named by each row of \<open>ducking_pair\<close> and \<open>tts_cue\<close>.\<close>

text \<open>An insertion that a constraint refuses is a \<open>ValueError\<close> of the repository.\<close>

definition sqd_insert :: "(media_db \<Rightarrow> exn + media_db) \<Rightarrow> 'a \<Rightarrow> (media_db, 'a) op" where
  "sqd_insert ins x = (\<lambda>s. case ins s of Inl e \<Rightarrow> (Inl ValueError, s) | Inr s' \<Rightarrow> (Inr x, s'))"

definition sqd_project_add :: "project \<Rightarrow> (media_db, project) op" where
  "sqd_project_add p = sqd_insert (\<lambda>s. sum_bind (tbl_insert pj_id p (md_projects s)) (\<lambda>rows. Inr (s\<lparr>md_projects := rows\<rparr>))) p"

definition sqd_project_get :: "string \<Rightarrow> (media_db, project option) op" where
  "sqd_project_get k = read_op (\<lambda>s. tbl_get pj_id k (md_projects s))"

definition sqd_list_projects :: "int \<Rightarrow> int \<Rightarrow> (media_db, project list) op" where
  "sqd_list_projects lmt off = read_op (\<lambda>s. sql_limit lmt off (sorted_rev pj_created_at (md_projects s)))"

definition sqd_project_columns :: "project \<Rightarrow> project \<Rightarrow> project" where
  "sqd_project_columns p r = p\<lparr>pj_id := pj_id r, pj_created_at := pj_created_at r\<rparr>"

text \<open>An update returns its argument, or raises when it has touched no row.\<close>

definition sqd_project_update :: "project \<Rightarrow> (media_db, project) op" where
  "sqd_project_update p = (\<lambda>s. if tbl_get pj_id (pj_id p) (md_projects s) = None then (Inl ValueError, s)
     else (Inr p, s\<lparr>md_projects := tbl_update pj_id (pj_id p) (sqd_project_columns p) (md_projects s)\<rparr>))"

text \<open>The deletion takes the clips and tracks of the project with it, and fails if a pair or a cue names what would go; the
  \<open>IntegrityError\<close> is not handled.\<close>

definition project_named :: "string \<Rightarrow> media_db \<Rightarrow> bool" where
  "project_named k s \<longleftrightarrow> list_ex (\<lambda>(p, ts). p = k \<or>
     list_ex (\<lambda>t. case tbl_get tk_id t (md_tracks s) of None \<Rightarrow> False | Some x \<Rightarrow> tk_project_id x = k) ts) (md_refs s)"

definition sqd_project_delete :: "string \<Rightarrow> (media_db, bool) op" where
  "sqd_project_delete k = (\<lambda>s. if tbl_get pj_id k (md_projects s) = None then (Inr False, s)
     else if project_named k s then (Inl IntegrityError, s)
     else (Inr True, s\<lparr>md_projects := tbl_delete pj_id k (md_projects s),
       md_clips := filter (\<lambda>c. cl_project_id c \<noteq> k) (md_clips s),
       md_tracks := filter (\<lambda>t. tk_project_id t \<noteq> k) (md_tracks s)\<rparr>))"

definition sqd_project_count :: "(media_db, nat) op" where
  "sqd_project_count = read_op (\<lambda>s. length (md_projects s))"

definition sqd_project_repo :: "media_db project_repo" where
  "sqd_project_repo = \<lparr>pjr_add = sqd_project_add, pjr_get = sqd_project_get, pjr_list = sqd_list_projects,
     pjr_update = sqd_project_update, pjr_delete = sqd_project_delete, pjr_count = sqd_project_count\<rparr>"

text \<open>Clips: a row needs its project and, when it names a video, that video.\<close>

definition sqd_insert_clip :: "clip \<Rightarrow> media_db \<Rightarrow> exn + media_db" where
  "sqd_insert_clip c s = (if tbl_get pj_id (cl_project_id c) (md_projects s) = None then Inl IntegrityError
     else if (case cl_source_video_id c of None \<Rightarrow> False | Some v \<Rightarrow> tbl_get vd_id v (md_videos s) = None) then Inl IntegrityError
     else sum_bind (tbl_insert cl_id c (md_clips s)) (\<lambda>rows. Inr (s\<lparr>md_clips := rows\<rparr>)))"

definition sqd_clip_add :: "clip \<Rightarrow> (media_db, clip) op" where
  "sqd_clip_add c = sqd_insert (sqd_insert_clip c) c"

definition sqd_clip_get :: "string \<Rightarrow> (media_db, clip option) op" where
  "sqd_clip_get k = read_op (\<lambda>s. tbl_get cl_id k (md_clips s))"

definition sqd_clips_by_project :: "string \<Rightarrow> (media_db, clip list) op" where
  "sqd_clips_by_project p = read_op (\<lambda>s. tbl_select (\<lambda>c. cl_project_id c = p) cl_timeline_position (md_clips s))"

definition sqd_clip_columns :: "clip \<Rightarrow> clip \<Rightarrow> clip" where
  "sqd_clip_columns c r = r\<lparr>cl_in_point := cl_in_point c, cl_out_point := cl_out_point c,
     cl_timeline_position := cl_timeline_position c, cl_effects := cl_effects c, cl_updated_at := cl_updated_at c,
     cl_track_id := cl_track_id c, cl_timeline_start := cl_timeline_start c, cl_timeline_end := cl_timeline_end c\<rparr>"

definition sqd_clip_update :: "clip \<Rightarrow> (media_db, clip) op" where
  "sqd_clip_update c = (\<lambda>s. if tbl_get cl_id (cl_id c) (md_clips s) = None then (Inl ValueError, s)
     else (Inr c, s\<lparr>md_clips := tbl_update cl_id (cl_id c) (sqd_clip_columns c) (md_clips s)\<rparr>))"

definition sqd_clip_delete :: "string \<Rightarrow> (media_db, bool) op" where
  "sqd_clip_delete k = (\<lambda>s. (Inr (tbl_get cl_id k (md_clips s) \<noteq> None), s\<lparr>md_clips := tbl_delete cl_id k (md_clips s)\<rparr>))"

text \<open>Both insertions and the deletion are one transaction; an insertion that fails rolls it back.\<close>

definition sqd_split_atomic :: "clip \<Rightarrow> clip \<Rightarrow> string \<Rightarrow> (media_db, clip \<times> clip) op" where
  "sqd_split_atomic a b original_id =
     sqd_insert (\<lambda>s. sum_bind (sqd_insert_clip a s) (\<lambda>s. sum_bind (sqd_insert_clip b s) (\<lambda>s.
       Inr (s\<lparr>md_clips := tbl_delete cl_id original_id (md_clips s)\<rparr>)))) (a, b)"

definition sqd_clip_repo :: "media_db clip_repo" where
  "sqd_clip_repo = \<lparr>clr_add = sqd_clip_add, clr_get = sqd_clip_get, clr_list_by_project = sqd_clips_by_project,
     clr_update = sqd_clip_update, clr_delete = sqd_clip_delete, clr_split_atomic = sqd_split_atomic\<rparr>"

text \<open>Tracks: a row is read back with \<open>weight or 1.0\<close>.\<close>

definition row_to_track :: "track \<Rightarrow> track" where
  "row_to_track t = t\<lparr>tk_weight := (if tk_weight t = 0 then 1 else tk_weight t)\<rparr>"

definition sqd_create_track :: "track \<Rightarrow> (media_db, track) op" where
  "sqd_create_track t = sqd_insert (\<lambda>s. if tbl_get pj_id (tk_project_id t) (md_projects s) = None then Inl IntegrityError
     else sum_bind (tbl_insert tk_id t (md_tracks s)) (\<lambda>rows. Inr (s\<lparr>md_tracks := rows\<rparr>))) t"

definition sqd_get_track :: "string \<Rightarrow> (media_db, track option) op" where
  "sqd_get_track k = read_op (\<lambda>s. map_option row_to_track (tbl_get tk_id k (md_tracks s)))"

definition sqd_tracks_by_project :: "string \<Rightarrow> (media_db, track list) op" where
  "sqd_tracks_by_project p = read_op (\<lambda>s. map row_to_track (tbl_select (\<lambda>t. tk_project_id t = p) tk_z_index (md_tracks s)))"

definition sqd_update_track :: "track \<Rightarrow> (media_db, track) op" where
  "sqd_update_track t = (\<lambda>s. if tbl_get tk_id (tk_id t) (md_tracks s) = None then (Inl ValueError, s)
     else (Inr t, s\<lparr>md_tracks := tbl_update tk_id (tk_id t) (\<lambda>r. r\<lparr>tk_label := tk_label t, tk_muted := tk_muted t,
       tk_locked := tk_locked t, tk_kind := tk_kind t, tk_volume_envelope := tk_volume_envelope t,
       tk_weight := tk_weight t\<rparr>) (md_tracks s)\<rparr>))"

definition sqd_delete_track :: "string \<Rightarrow> (media_db, bool) op" where
  "sqd_delete_track k = (\<lambda>s. if tbl_get tk_id k (md_tracks s) = None then (Inr False, s)
     else if list_ex (\<lambda>(p, ts). k \<in> set ts) (md_refs s) then (Inl IntegrityError, s)
     else (Inr True, s\<lparr>md_tracks := tbl_delete tk_id k (md_tracks s)\<rparr>))"

text \<open>\<open>NULL\<close> sorts first; the asset of a clip is not read.\<close>

definition sqd_clips_by_track :: "string \<Rightarrow> (media_db, clip list) op" where
  "sqd_clips_by_track k = read_op (\<lambda>s. map (\<lambda>c. c\<lparr>cl_source_asset_id := None\<rparr>)
     (tbl_select (\<lambda>c. cl_track_id c = Some k) cl_timeline_start (md_clips s)))"

definition sqd_count_tracks :: "string \<Rightarrow> (media_db, nat) op" where
  "sqd_count_tracks p = read_op (\<lambda>s. length (filter (\<lambda>t. tk_project_id t = p) (md_tracks s)))"

definition sqd_count_clips :: "string \<Rightarrow> (media_db, nat) op" where
  "sqd_count_clips p = read_op (\<lambda>s. length (filter (\<lambda>c. cl_project_id c = p) (md_clips s)))"

definition sqd_timeline_repo :: "media_db timeline_repo" where
  "sqd_timeline_repo = \<lparr>tlr_create_track = sqd_create_track, tlr_get_track = sqd_get_track,
     tlr_get_tracks_by_project = sqd_tracks_by_project, tlr_update_track = sqd_update_track,
     tlr_delete_track = sqd_delete_track, tlr_get_clips_by_track = sqd_clips_by_track,
     tlr_count_tracks = sqd_count_tracks, tlr_count_clips = sqd_count_clips\<rparr>"

text \<open>Videos: the path is unique as well. An update or a deletion that a constraint refuses raises
  \<open>IntegrityError\<close>, which the repository lets pass.\<close>

definition path_taken :: "video \<Rightarrow> media_db \<Rightarrow> bool" where
  "path_taken v s \<longleftrightarrow> list_ex (\<lambda>r. vd_path r = vd_path v \<and> vd_id r \<noteq> vd_id v) (md_videos s)"

definition sqd_video_add :: "video \<Rightarrow> (media_db, video) op" where
  "sqd_video_add v = sqd_insert (\<lambda>s. if path_taken v s then Inl IntegrityError
     else sum_bind (tbl_insert vd_id v (md_videos s)) (\<lambda>rows. Inr (s\<lparr>md_videos := rows\<rparr>))) v"

definition sqd_video_get :: "string \<Rightarrow> (media_db, video option) op" where
  "sqd_video_get k = read_op (\<lambda>s. tbl_get vd_id k (md_videos s))"

definition sqd_video_by_path :: "string \<Rightarrow> (media_db, video option) op" where
  "sqd_video_by_path p = read_op (\<lambda>s. tbl_get vd_path p (md_videos s))"

definition sqd_list_videos :: "int \<Rightarrow> int \<Rightarrow> (media_db, video list) op" where
  "sqd_list_videos lmt off = read_op (\<lambda>s. sql_limit lmt off (sorted_rev vd_created_at (md_videos s)))"

definition sqd_video_update :: "video \<Rightarrow> (media_db, video) op" where
  "sqd_video_update v = (\<lambda>s. if tbl_get vd_id (vd_id v) (md_videos s) = None then (Inl ValueError, s)
     else if path_taken v s then (Inl IntegrityError, s)
     else (Inr v, s\<lparr>md_videos := tbl_update vd_id (vd_id v) (\<lambda>r. v\<lparr>vd_id := vd_id r, vd_created_at := vd_created_at r\<rparr>) (md_videos s)\<rparr>))"

definition sqd_video_count :: "(media_db, nat) op" where
  "sqd_video_count = read_op (\<lambda>s. length (md_videos s))"

definition sqd_video_delete :: "string \<Rightarrow> (media_db, bool) op" where
  "sqd_video_delete k = (\<lambda>s. if tbl_get vd_id k (md_videos s) = None then (Inr False, s)
     else if list_ex (\<lambda>c. cl_source_video_id c = Some k) (md_clips s) then (Inl IntegrityError, s)
     else (Inr True, s\<lparr>md_videos := tbl_delete vd_id k (md_videos s)\<rparr>))"

definition sqd_video_repo :: "media_db video_repo" where
  "sqd_video_repo = \<lparr>vdr_add = sqd_video_add, vdr_get = sqd_video_get, vdr_get_by_path = sqd_video_by_path,
     vdr_list_videos = sqd_list_videos, vdr_update = sqd_video_update, vdr_count = sqd_video_count,
     vdr_delete = sqd_video_delete\<rparr>"

definition sqd_broadcast :: "event_type \<Rightarrow> message \<Rightarrow> (media_db, unit) op" where
  "sqd_broadcast e payload = modify_op (\<lambda>s. s\<lparr>md_log := md_log s @ [(e, payload)]\<rparr>)"

definition sqd_repos :: "media_db media_repos" where
  "sqd_repos = \<lparr>mx_projects = sqd_project_repo, mx_clips = sqd_clip_repo, mx_timeline = sqd_timeline_repo,
     mx_videos = sqd_video_repo, mx_broadcast = sqd_broadcast\<rparr>"

subsection \<open>In memory\<close>

text \<open>The timeline repository has clips of its own, which only \<open>seed\<close> fills. The videos have an index by path.\<close>

record mem_media =
  mm_projects :: "(string, project) dict"
  mm_clips :: "(string, clip) dict"
  mm_tracks :: "(string, track) dict"
  mm_timeline_clips :: "(string, clip) dict"
  mm_videos :: "(string, video) dict"
  mm_by_path :: "(string, string) dict"
  mm_log :: "(event_type \<times> message) list"

definition mmd_project_add :: "project \<Rightarrow> (mem_media, project) op" where
  "mmd_project_add p = (\<lambda>s. if map_of (mm_projects s) (pj_id p) \<noteq> None then (Inl ValueError, s)
     else (Inr p, s\<lparr>mm_projects := AList.update (pj_id p) p (mm_projects s)\<rparr>))"

definition mmd_project_get :: "string \<Rightarrow> (mem_media, project option) op" where
  "mmd_project_get k = read_op (\<lambda>s. map_of (mm_projects s) k)"

definition mmd_list_projects :: "int \<Rightarrow> int \<Rightarrow> (mem_media, project list) op" where
  "mmd_list_projects lmt off = read_op (\<lambda>s. py_slice off (off + lmt) (sorted_rev pj_created_at (dict_values (mm_projects s))))"

definition mmd_project_update :: "project \<Rightarrow> (mem_media, project) op" where
  "mmd_project_update p = (\<lambda>s. if map_of (mm_projects s) (pj_id p) = None then (Inl ValueError, s)
     else (Inr p, s\<lparr>mm_projects := AList.update (pj_id p) p (mm_projects s)\<rparr>))"

definition mmd_project_delete :: "string \<Rightarrow> (mem_media, bool) op" where
  "mmd_project_delete k = (\<lambda>s. if map_of (mm_projects s) k = None then (Inr False, s)
     else (Inr True, s\<lparr>mm_projects := AList.delete k (mm_projects s)\<rparr>))"

definition mmd_project_count :: "(mem_media, nat) op" where
  "mmd_project_count = read_op (\<lambda>s. length (mm_projects s))"

definition mmd_project_repo :: "mem_media project_repo" where
  "mmd_project_repo = \<lparr>pjr_add = mmd_project_add, pjr_get = mmd_project_get, pjr_list = mmd_list_projects,
     pjr_update = mmd_project_update, pjr_delete = mmd_project_delete, pjr_count = mmd_project_count\<rparr>"

definition mmd_clip_add :: "clip \<Rightarrow> (mem_media, clip) op" where
  "mmd_clip_add c = (\<lambda>s. if map_of (mm_clips s) (cl_id c) \<noteq> None then (Inl ValueError, s)
     else (Inr c, s\<lparr>mm_clips := AList.update (cl_id c) c (mm_clips s)\<rparr>))"

definition mmd_clip_get :: "string \<Rightarrow> (mem_media, clip option) op" where
  "mmd_clip_get k = read_op (\<lambda>s. map_of (mm_clips s) k)"

definition mmd_clips_by_project :: "string \<Rightarrow> (mem_media, clip list) op" where
  "mmd_clips_by_project p = read_op (\<lambda>s. sort_key cl_timeline_position (filter (\<lambda>c. cl_project_id c = p) (dict_values (mm_clips s))))"

definition mmd_clip_update :: "clip \<Rightarrow> (mem_media, clip) op" where
  "mmd_clip_update c = (\<lambda>s. if map_of (mm_clips s) (cl_id c) = None then (Inl ValueError, s)
     else (Inr c, s\<lparr>mm_clips := AList.update (cl_id c) c (mm_clips s)\<rparr>))"

definition mmd_clip_delete :: "string \<Rightarrow> (mem_media, bool) op" where
  "mmd_clip_delete k = (\<lambda>s. if map_of (mm_clips s) k = None then (Inr False, s)
     else (Inr True, s\<lparr>mm_clips := AList.delete k (mm_clips s)\<rparr>))"

text \<open>Neither new id is checked, and a missing original is a \<open>KeyError\<close> after both are stored.\<close>

definition mmd_split_atomic :: "clip \<Rightarrow> clip \<Rightarrow> string \<Rightarrow> (mem_media, clip \<times> clip) op" where
  "mmd_split_atomic a b original_id = (\<lambda>s. let d = AList.update (cl_id b) b (AList.update (cl_id a) a (mm_clips s)) in
     if map_of d original_id = None then (Inl KeyError, s\<lparr>mm_clips := d\<rparr>)
     else (Inr (a, b), s\<lparr>mm_clips := AList.delete original_id d\<rparr>))"

definition mmd_clip_repo :: "mem_media clip_repo" where
  "mmd_clip_repo = \<lparr>clr_add = mmd_clip_add, clr_get = mmd_clip_get, clr_list_by_project = mmd_clips_by_project,
     clr_update = mmd_clip_update, clr_delete = mmd_clip_delete, clr_split_atomic = mmd_split_atomic\<rparr>"

definition mmd_create_track :: "track \<Rightarrow> (mem_media, track) op" where
  "mmd_create_track t = (\<lambda>s. if map_of (mm_tracks s) (tk_id t) \<noteq> None then (Inl ValueError, s)
     else (Inr t, s\<lparr>mm_tracks := AList.update (tk_id t) t (mm_tracks s)\<rparr>))"

definition mmd_get_track :: "string \<Rightarrow> (mem_media, track option) op" where
  "mmd_get_track k = read_op (\<lambda>s. map_of (mm_tracks s) k)"

definition mmd_tracks_by_project :: "string \<Rightarrow> (mem_media, track list) op" where
  "mmd_tracks_by_project p = read_op (\<lambda>s. sort_key tk_z_index (filter (\<lambda>t. tk_project_id t = p) (dict_values (mm_tracks s))))"

definition mmd_update_track :: "track \<Rightarrow> (mem_media, track) op" where
  "mmd_update_track t = (\<lambda>s. if map_of (mm_tracks s) (tk_id t) = None then (Inl ValueError, s)
     else (Inr t, s\<lparr>mm_tracks := AList.update (tk_id t) t (mm_tracks s)\<rparr>))"

definition mmd_delete_track :: "string \<Rightarrow> (mem_media, bool) op" where
  "mmd_delete_track k = (\<lambda>s. if map_of (mm_tracks s) k = None then (Inr False, s)
     else (Inr True, s\<lparr>mm_tracks := AList.delete k (mm_tracks s)\<rparr>))"

definition mmd_clips_by_track :: "string \<Rightarrow> (mem_media, clip list) op" where
  "mmd_clips_by_track k = read_op (\<lambda>s. sort_key (\<lambda>c. get_or 0 (cl_timeline_start c))
     (filter (\<lambda>c. cl_track_id c = Some k) (dict_values (mm_timeline_clips s))))"

definition mmd_count_tracks :: "string \<Rightarrow> (mem_media, nat) op" where
  "mmd_count_tracks p = read_op (\<lambda>s. length (filter (\<lambda>t. tk_project_id t = p) (dict_values (mm_tracks s))))"

definition mmd_count_clips :: "string \<Rightarrow> (mem_media, nat) op" where
  "mmd_count_clips p = read_op (\<lambda>s. length (filter (\<lambda>c. cl_project_id c = p) (dict_values (mm_timeline_clips s))))"

definition mmd_timeline_repo :: "mem_media timeline_repo" where
  "mmd_timeline_repo = \<lparr>tlr_create_track = mmd_create_track, tlr_get_track = mmd_get_track,
     tlr_get_tracks_by_project = mmd_tracks_by_project, tlr_update_track = mmd_update_track,
     tlr_delete_track = mmd_delete_track, tlr_get_clips_by_track = mmd_clips_by_track,
     tlr_count_tracks = mmd_count_tracks, tlr_count_clips = mmd_count_clips\<rparr>"

definition mmd_video_add :: "video \<Rightarrow> (mem_media, video) op" where
  "mmd_video_add v = (\<lambda>s. if map_of (mm_videos s) (vd_id v) \<noteq> None then (Inl ValueError, s)
     else if map_of (mm_by_path s) (vd_path v) \<noteq> None then (Inl ValueError, s)
     else (Inr v, s\<lparr>mm_videos := AList.update (vd_id v) v (mm_videos s),
       mm_by_path := AList.update (vd_path v) (vd_id v) (mm_by_path s)\<rparr>))"

definition mmd_video_get :: "string \<Rightarrow> (mem_media, video option) op" where
  "mmd_video_get k = read_op (\<lambda>s. map_of (mm_videos s) k)"

definition mmd_video_by_path :: "string \<Rightarrow> (mem_media, video option) op" where
  "mmd_video_by_path p = read_op (\<lambda>s. Option.bind (map_of (mm_by_path s) p) (map_of (mm_videos s)))"

definition mmd_list_videos :: "int \<Rightarrow> int \<Rightarrow> (mem_media, video list) op" where
  "mmd_list_videos lmt off = read_op (\<lambda>s. py_slice off (off + lmt) (sorted_rev vd_created_at (dict_values (mm_videos s))))"

text \<open>\<open>del self._by_path[path]\<close> raises \<open>KeyError\<close> for a path that is not in the index.\<close>

definition mmd_video_update :: "video \<Rightarrow> (mem_media, video) op" where
  "mmd_video_update v = (\<lambda>s. case map_of (mm_videos s) (vd_id v) of
     None \<Rightarrow> (Inl ValueError, s)
   | Some r \<Rightarrow>
       if vd_path r = vd_path v then (Inr v, s\<lparr>mm_videos := AList.update (vd_id v) v (mm_videos s)\<rparr>)
       else if map_of (mm_by_path s) (vd_path r) = None then (Inl KeyError, s)
       else (Inr v, s\<lparr>mm_videos := AList.update (vd_id v) v (mm_videos s),
         mm_by_path := AList.update (vd_path v) (vd_id v) (AList.delete (vd_path r) (mm_by_path s))\<rparr>))"

definition mmd_video_count :: "(mem_media, nat) op" where
  "mmd_video_count = read_op (\<lambda>s. length (mm_videos s))"

definition mmd_video_delete :: "string \<Rightarrow> (mem_media, bool) op" where
  "mmd_video_delete k = (\<lambda>s. case map_of (mm_videos s) k of
     None \<Rightarrow> (Inr False, s)
   | Some r \<Rightarrow> if map_of (mm_by_path s) (vd_path r) = None then (Inl KeyError, s)
       else (Inr True, s\<lparr>mm_videos := AList.delete k (mm_videos s), mm_by_path := AList.delete (vd_path r) (mm_by_path s)\<rparr>))"

definition mmd_video_repo :: "mem_media video_repo" where
  "mmd_video_repo = \<lparr>vdr_add = mmd_video_add, vdr_get = mmd_video_get, vdr_get_by_path = mmd_video_by_path,
     vdr_list_videos = mmd_list_videos, vdr_update = mmd_video_update, vdr_count = mmd_video_count,
     vdr_delete = mmd_video_delete\<rparr>"

definition mmd_broadcast :: "event_type \<Rightarrow> message \<Rightarrow> (mem_media, unit) op" where
  "mmd_broadcast e payload = modify_op (\<lambda>s. s\<lparr>mm_log := mm_log s @ [(e, payload)]\<rparr>)"

definition mmd_repos :: "mem_media media_repos" where
  "mmd_repos = \<lparr>mx_projects = mmd_project_repo, mx_clips = mmd_clip_repo, mx_timeline = mmd_timeline_repo,
     mx_videos = mmd_video_repo, mx_broadcast = mmd_broadcast\<rparr>"

end
