(* ===== verification/Media_Contract.thy ===== *)
theory Media_Contract
  imports Media_Store
begin

text \<open>
  The contract of the repositories of \<open>Media_Store\<close>: each state stands for four maps, from ids to projects,
  clips, tracks and videos (\<open>media_view\<close>), and an operation changes the one entry it names. Both families
  of repositories meet it. Pairs and cues that name a project or a track, \<open>mv_refs\<close>, keep it from being deleted;
  in memory there are none.
\<close>

subsection \<open>The contract\<close>

record media_view =
  mv_projects :: "string \<Rightarrow> project option"
  mv_clips :: "string \<Rightarrow> clip option"
  mv_tracks :: "string \<Rightarrow> track option"
  mv_videos :: "string \<Rightarrow> video option"
  mv_refs :: "(string \<times> string list) list"

definition project_pinned :: "media_view \<Rightarrow> string \<Rightarrow> bool" where
  "project_pinned w k \<longleftrightarrow> mv_projects w k \<noteq> None \<and> (\<exists>(p, ts) \<in> set (mv_refs w). p = k \<or>
     (\<exists>t \<in> set ts. \<exists>x. mv_tracks w t = Some x \<and> tk_project_id x = k))"

definition track_pinned :: "media_view \<Rightarrow> string \<Rightarrow> bool" where
  "track_pinned w k \<longleftrightarrow> mv_tracks w k \<noteq> None \<and> (\<exists>(p, ts) \<in> set (mv_refs w). k \<in> set ts)"

text \<open>What an update of a clip may not change: the columns SQLite does not write.\<close>

definition same_clip :: "clip \<Rightarrow> clip \<Rightarrow> bool" where
  "same_clip a b \<longleftrightarrow> cl_id a = cl_id b \<and> cl_project_id a = cl_project_id b \<and>
     cl_source_video_id a = cl_source_video_id b \<and> cl_clip_type a = cl_clip_type b \<and>
     cl_generator_params a = cl_generator_params b \<and> cl_source_asset_id a = cl_source_asset_id b \<and>
     cl_created_at a = cl_created_at b"

text \<open>A clip whose project and video exist.\<close>

definition clip_anchored :: "media_view \<Rightarrow> clip \<Rightarrow> bool" where
  "clip_anchored w c \<longleftrightarrow> mv_projects w (cl_project_id c) \<noteq> None \<and>
     (case cl_source_video_id c of None \<Rightarrow> True | Some v \<Rightarrow> mv_videos w v \<noteq> None)"

locale media_store =
  fixes R :: "'s media_repos" and view :: "'s \<Rightarrow> media_view" and ok :: "'s \<Rightarrow> bool" and stored :: "track \<Rightarrow> track"
  assumes project_key: "ok s \<Longrightarrow> mv_projects (view s) k = Some p \<Longrightarrow> pj_id p = k"
    and clip_key: "ok s \<Longrightarrow> mv_clips (view s) k = Some c \<Longrightarrow> cl_id c = k"
    and track_key: "ok s \<Longrightarrow> mv_tracks (view s) k = Some t \<Longrightarrow> tk_id t = k"
    and stored_track: "tk_id (stored u) = tk_id u" "tk_project_id (stored u) = tk_project_id u"
    and project_get: "ok s \<Longrightarrow> pjr_get (mx_projects R) k s = (Inr (mv_projects (view s) k), s)"
    and project_update: "ok s \<Longrightarrow> mv_projects (view s) (pj_id p) = Some q \<Longrightarrow> pj_created_at q = pj_created_at p \<Longrightarrow>
      \<exists>s'. pjr_update (mx_projects R) p s = (Inr p, s') \<and> ok s' \<and>
        view s' = (view s)\<lparr>mv_projects := (mv_projects (view s))(pj_id p \<mapsto> p)\<rparr>"
    and project_add: "ok s \<Longrightarrow> mv_projects (view s) (pj_id p) = None \<Longrightarrow> \<exists>s'. pjr_add (mx_projects R) p s = (Inr p, s') \<and> ok s' \<and>
        view s' = (view s)\<lparr>mv_projects := (mv_projects (view s))(pj_id p \<mapsto> p)\<rparr>"
    and project_kept: "ok s \<Longrightarrow> project_pinned (view s) k \<Longrightarrow> pjr_delete (mx_projects R) k s = (Inl IntegrityError, s)"
    and project_delete: "ok s \<Longrightarrow> \<not> project_pinned (view s) k \<Longrightarrow> \<exists>s'. pjr_delete (mx_projects R) k s = (Inr (mv_projects (view s) k \<noteq> None), s') \<and> ok s' \<and>
        mv_projects (view s') = (mv_projects (view s))(k := None) \<and> mv_clips (view s') \<subseteq>\<^sub>m mv_clips (view s) \<and>
        mv_tracks (view s') \<subseteq>\<^sub>m mv_tracks (view s) \<and> mv_videos (view s') = mv_videos (view s) \<and> mv_refs (view s') = mv_refs (view s)"
    and clip_get: "ok s \<Longrightarrow> clr_get (mx_clips R) k s = (Inr (mv_clips (view s) k), s)"
    and clip_list: "ok s \<Longrightarrow> \<exists>cs. clr_list_by_project (mx_clips R) pid s = (Inr cs, s) \<and>
        sorted (map cl_timeline_position cs) \<and> distinct (map cl_id cs) \<and>
        (\<forall>c. c \<in> set cs \<longleftrightarrow> mv_clips (view s) (cl_id c) = Some c \<and> cl_project_id c = pid)"
    and clip_add: "ok s \<Longrightarrow> mv_clips (view s) (cl_id c) = None \<Longrightarrow> clip_anchored (view s) c \<Longrightarrow>
      \<exists>s'. clr_add (mx_clips R) c s = (Inr c, s') \<and> ok s' \<and>
        view s' = (view s)\<lparr>mv_clips := (mv_clips (view s))(cl_id c \<mapsto> c)\<rparr>"
    and clip_update: "ok s \<Longrightarrow> mv_clips (view s) (cl_id c) = Some b \<Longrightarrow> same_clip b c \<Longrightarrow>
      \<exists>s'. clr_update (mx_clips R) c s = (Inr c, s') \<and> ok s' \<and>
        view s' = (view s)\<lparr>mv_clips := (mv_clips (view s))(cl_id c \<mapsto> c)\<rparr>"
    and clip_delete: "ok s \<Longrightarrow> \<exists>s'. clr_delete (mx_clips R) k s = (Inr (mv_clips (view s) k \<noteq> None), s') \<and> ok s' \<and>
        view s' = (view s)\<lparr>mv_clips := (mv_clips (view s))(k := None)\<rparr>"
    and clip_split: "ok s \<Longrightarrow> mv_clips (view s) k \<noteq> None \<Longrightarrow> mv_clips (view s) (cl_id a) = None \<Longrightarrow>
        mv_clips (view s) (cl_id b) = None \<Longrightarrow> cl_id a \<noteq> cl_id b \<Longrightarrow> clip_anchored (view s) a \<Longrightarrow> clip_anchored (view s) b \<Longrightarrow>
      \<exists>s'. clr_split_atomic (mx_clips R) a b k s = (Inr (a, b), s') \<and> ok s' \<and>
        view s' = (view s)\<lparr>mv_clips := (mv_clips (view s))(cl_id a \<mapsto> a, cl_id b \<mapsto> b, k := None)\<rparr>"
    and track_get: "ok s \<Longrightarrow> tlr_get_track (mx_timeline R) k s = (Inr (mv_tracks (view s) k), s)"
    and track_list: "ok s \<Longrightarrow> \<exists>ts. tlr_get_tracks_by_project (mx_timeline R) pid s = (Inr ts, s) \<and>
        sorted (map tk_z_index ts) \<and> distinct (map tk_id ts) \<and>
        (\<forall>t. t \<in> set ts \<longleftrightarrow> mv_tracks (view s) (tk_id t) = Some t \<and> tk_project_id t = pid)"
    and track_create: "ok s \<Longrightarrow> mv_tracks (view s) (tk_id t) = None \<Longrightarrow> mv_projects (view s) (tk_project_id t) \<noteq> None \<Longrightarrow>
      \<exists>s'. tlr_create_track (mx_timeline R) t s = (Inr t, s') \<and> ok s' \<and>
        view s' = (view s)\<lparr>mv_tracks := (mv_tracks (view s))(tk_id t \<mapsto> stored t)\<rparr>"
    and track_kept: "ok s \<Longrightarrow> track_pinned (view s) k \<Longrightarrow> tlr_delete_track (mx_timeline R) k s = (Inl IntegrityError, s)"
    and track_delete: "ok s \<Longrightarrow> \<not> track_pinned (view s) k \<Longrightarrow> \<exists>s'. tlr_delete_track (mx_timeline R) k s = (Inr (mv_tracks (view s) k \<noteq> None), s') \<and> ok s' \<and>
        view s' = (view s)\<lparr>mv_tracks := (mv_tracks (view s))(k := None)\<rparr>"
    and video_get: "ok s \<Longrightarrow> vdr_get (mx_videos R) k s = (Inr (mv_videos (view s) k), s)"
    and broadcast: "ok s \<Longrightarrow> \<exists>s'. mx_broadcast R e m s = (Inr (), s') \<and> ok s' \<and> view s' = view s"

subsection \<open>SQLite\<close>

definition sqd_view :: "media_db \<Rightarrow> media_view" where
  "sqd_view s = \<lparr>mv_projects = (\<lambda>k. tbl_get pj_id k (md_projects s)), mv_clips = (\<lambda>k. tbl_get cl_id k (md_clips s)),
     mv_tracks = (\<lambda>k. map_option row_to_track (tbl_get tk_id k (md_tracks s))),
     mv_videos = (\<lambda>k. tbl_get vd_id k (md_videos s)), mv_refs = md_refs s\<rparr>"

definition sqd_ok :: "media_db \<Rightarrow> bool" where
  "sqd_ok s \<longleftrightarrow> tbl_keys pj_id (md_projects s) \<and> tbl_keys cl_id (md_clips s) \<and> tbl_keys tk_id (md_tracks s) \<and>
     tbl_keys vd_id (md_videos s)"

lemmas sqd_defs = sqd_repos_def sqd_project_repo_def sqd_clip_repo_def sqd_timeline_repo_def sqd_video_repo_def

lemma row_to_track_simps [simp]: "tk_id (row_to_track t) = tk_id t" "tk_project_id (row_to_track t) = tk_project_id t"
  "tk_z_index (row_to_track t) = tk_z_index t"
  by (simp_all add: row_to_track_def)

lemma clip_columns_same: "same_clip b c \<Longrightarrow> sqd_clip_columns c b = c"
  by (cases b; cases c) (simp add: same_clip_def sqd_clip_columns_def)

lemma clip_columns_id [simp]: "cl_id (sqd_clip_columns c r) = cl_id r"
  by (simp add: sqd_clip_columns_def)

lemma project_columns_same: "pj_id q = pj_id p \<Longrightarrow> pj_created_at q = pj_created_at p \<Longrightarrow> sqd_project_columns p q = p"
  by (simp add: sqd_project_columns_def)

lemma project_columns_id [simp]: "pj_id (sqd_project_columns p r) = pj_id r"
  by (simp add: sqd_project_columns_def)

lemma tbl_get_appended: "tbl_get key (key r) rows = None \<Longrightarrow> (\<lambda>k. tbl_get key k (rows @ [r])) = (\<lambda>k. tbl_get key k rows)(key r \<mapsto> r)"
  by (auto simp: tbl_get_append fun_eq_iff split: option.splits)

lemma tbl_get_updated:
  assumes "tbl_get key j rows = Some q" "f q = r" "\<And>x. key (f x) = key x"
  shows "(\<lambda>k. tbl_get key k (tbl_update key j f rows)) = (\<lambda>k. tbl_get key k rows)(j \<mapsto> r)"
  using assms by (auto simp: tbl_get_update fun_eq_iff)

lemma tbl_get_deleted: "(\<lambda>k. tbl_get key k (tbl_delete key j rows)) = (\<lambda>k. tbl_get key k rows)(j := None)"
  by (auto simp: tbl_get_delete fun_eq_iff)

lemma sqd_insert_clip_ok:
  "tbl_get cl_id (cl_id c) (md_clips s) = None \<Longrightarrow> clip_anchored (sqd_view s) c \<Longrightarrow>
   sqd_insert_clip c s = Inr (s\<lparr>md_clips := md_clips s @ [c]\<rparr>)"
  by (auto simp: sqd_insert_clip_def clip_anchored_def sqd_view_def tbl_insert_def tbl_get_None split: option.splits)

lemma sqd_pinned:
  "project_pinned (sqd_view s) k \<longleftrightarrow> tbl_get pj_id k (md_projects s) \<noteq> None \<and> project_named k s"
  "track_pinned (sqd_view s) k \<longleftrightarrow> tbl_get tk_id k (md_tracks s) \<noteq> None \<and> list_ex (\<lambda>(p, ts). k \<in> set ts) (md_refs s)"
proof -
  have "(\<exists>x. mv_tracks (sqd_view s) t = Some x \<and> tk_project_id x = k) \<longleftrightarrow>
      (case tbl_get tk_id t (md_tracks s) of None \<Rightarrow> False | Some x \<Rightarrow> tk_project_id x = k)" for t
    by (cases "tbl_get tk_id t (md_tracks s)") (auto simp: sqd_view_def)
  then show "project_pinned (sqd_view s) k \<longleftrightarrow> tbl_get pj_id k (md_projects s) \<noteq> None \<and> project_named k s"
    unfolding project_pinned_def project_named_def list_ex_iff by (simp add: sqd_view_def)
  show "track_pinned (sqd_view s) k \<longleftrightarrow> tbl_get tk_id k (md_tracks s) \<noteq> None \<and> list_ex (\<lambda>(p, ts). k \<in> set ts) (md_refs s)"
    by (simp add: track_pinned_def sqd_view_def list_ex_iff)
qed

interpretation sqd: media_store sqd_repos sqd_view sqd_ok row_to_track
proof (unfold_locales, goal_cases)
  case (1 s k p) then show ?case by (simp add: sqd_view_def sqd_ok_def tbl_get_iff)
next
  case (2 s k c) then show ?case by (simp add: sqd_view_def sqd_ok_def tbl_get_iff)
next
  case (3 s k t) then show ?case by (auto simp: sqd_view_def sqd_ok_def tbl_get_iff)
next
  case (4 t) show ?case by simp
next
  case (5 t) show ?case by simp
next
  case (6 s k) show ?case by (simp add: sqd_defs sqd_project_get_def sqd_view_def)
next
  case (7 s p q)
  then have q: "tbl_get pj_id (pj_id p) (md_projects s) = Some q" "pj_id q = pj_id p"
    by (auto simp: sqd_view_def dest: tbl_get_Some)
  show ?case
    using 7 q tbl_get_updated [OF q(1), of "sqd_project_columns p" p] project_columns_same [OF q(2)]
    by (simp add: sqd_defs sqd_project_update_def sqd_view_def sqd_ok_def tbl_keys_update map_key_update)
next
  case (8 s p)
  then have fresh: "tbl_get pj_id (pj_id p) (md_projects s) = None" by (simp add: sqd_view_def)
  then show ?case
    using 8 tbl_get_appended [OF fresh]
    by (simp add: sqd_defs sqd_project_add_def sqd_insert_def tbl_insert_def tbl_get_None sqd_view_def sqd_ok_def)
next
  case (9 s k) then show ?case by (simp add: sqd_defs sqd_project_delete_def sqd_pinned)
next
  case (10 s k)
  then have keys: "tbl_keys cl_id (md_clips s)" "tbl_keys tk_id (md_tracks s)" by (simp_all add: sqd_ok_def)
  have "(\<lambda>j. tbl_get cl_id j (filter P (md_clips s))) \<subseteq>\<^sub>m (\<lambda>j. tbl_get cl_id j (md_clips s))" for P
    using tbl_get_filter [OF keys(1)] by (auto simp: map_le_def)
  moreover have "(\<lambda>j. map_option row_to_track (tbl_get tk_id j (filter P (md_tracks s)))) \<subseteq>\<^sub>m
      (\<lambda>j. map_option row_to_track (tbl_get tk_id j (md_tracks s)))" for P
    using tbl_get_filter [OF keys(2)] by (auto simp: map_le_def)
  moreover have "tbl_get pj_id k (md_projects s) = None \<or> \<not> project_named k s" using 10(2) unfolding sqd_pinned by blast
  ultimately show ?case
    using 10(1) by (auto simp: sqd_defs sqd_project_delete_def sqd_view_def sqd_ok_def tbl_get_deleted tbl_keys_delete
        distinct_map_filter fun_upd_idem)
next
  case (11 s k) show ?case by (simp add: sqd_defs sqd_clip_get_def sqd_view_def)
next
  case (12 s p)
  then show ?case
    by (auto simp: sqd_defs sqd_clips_by_project_def sqd_view_def sqd_ok_def tbl_get_iff intro: tbl_select_keys)
next
  case (13 s c)
  then have fresh: "tbl_get cl_id (cl_id c) (md_clips s) = None" by (simp add: sqd_view_def)
  show ?case
    using 13 sqd_insert_clip_ok [OF fresh] tbl_get_appended [OF fresh] fresh
    by (simp add: sqd_defs sqd_clip_add_def sqd_insert_def sqd_ok_def tbl_get_None) (simp add: sqd_view_def)
next
  case (14 s c b)
  then have b: "tbl_get cl_id (cl_id c) (md_clips s) = Some b" by (simp add: sqd_view_def)
  show ?case
    using 14 b tbl_get_updated [OF b, of "sqd_clip_columns c" c] clip_columns_same
    by (simp add: sqd_defs sqd_clip_update_def sqd_view_def sqd_ok_def tbl_keys_update map_key_update)
next
  case (15 s k)
  then show ?case
    by (simp add: sqd_defs sqd_clip_delete_def sqd_view_def sqd_ok_def tbl_get_deleted tbl_keys_delete)
next
  case (16 s k a b)
  let ?s1 = "s\<lparr>md_clips := md_clips s @ [a]\<rparr>" and ?cs = "md_clips s @ [a] @ [b]"
  have fresh: "tbl_get cl_id (cl_id a) (md_clips s) = None" "tbl_get cl_id (cl_id b) (md_clips ?s1) = None"
    using 16 by (simp_all add: sqd_view_def tbl_get_append)
  have "clip_anchored (sqd_view ?s1) b" using 16(7)
    by (cases "cl_source_video_id b") (simp_all add: clip_anchored_def sqd_view_def)
  from sqd_insert_clip_ok [OF fresh(1) 16(6)] sqd_insert_clip_ok [OF fresh(2) this]
  have run: "clr_split_atomic (mx_clips sqd_repos) a b k s = (Inr (a, b), s\<lparr>md_clips := tbl_delete cl_id k ?cs\<rparr>)"
    by (simp add: sqd_defs sqd_split_atomic_def sqd_insert_def)
  have keys: "tbl_keys cl_id ?cs" using 16(1) fresh by (auto simp: sqd_ok_def tbl_get_None)
  have "(\<lambda>j. tbl_get cl_id j (tbl_delete cl_id k ?cs)) =
      (\<lambda>j. tbl_get cl_id j (md_clips s))(cl_id a \<mapsto> a, cl_id b \<mapsto> b, k := None)"
    using tbl_get_appended [OF fresh(1)] tbl_get_appended [OF fresh(2)] by (simp add: tbl_get_deleted)
  with run show ?case using 16(1) tbl_keys_delete [OF keys, of k] by (auto simp: sqd_ok_def sqd_view_def)
next
  case (17 s k) show ?case by (simp add: sqd_defs sqd_get_track_def sqd_view_def)
next
  case (18 s pid)
  let ?ts = "tbl_select (\<lambda>t. tk_project_id t = pid) tk_z_index (md_tracks s)"
  have "distinct (map tk_id ?ts)" using 18 by (intro tbl_select_keys) (simp add: sqd_ok_def)
  moreover have "t \<in> row_to_track ` set ?ts \<longleftrightarrow> mv_tracks (sqd_view s) (tk_id t) = Some t \<and> tk_project_id t = pid" for t
    using 18 by (auto simp: sqd_view_def sqd_ok_def tbl_get_iff)
  ultimately show ?case
    by (simp add: sqd_defs sqd_tracks_by_project_def comp_def)
next
  case (19 s t)
  then have fresh: "tbl_get tk_id (tk_id t) (md_tracks s) = None" by (simp add: sqd_view_def)
  then have "tlr_create_track (mx_timeline sqd_repos) t s = (Inr t, s\<lparr>md_tracks := md_tracks s @ [t]\<rparr>)"
    using 19(3) by (simp add: sqd_defs sqd_create_track_def sqd_insert_def tbl_insert_def tbl_get_None sqd_view_def)
  moreover have "(\<lambda>k. map_option row_to_track (tbl_get tk_id k (md_tracks s @ [t]))) =
      (\<lambda>k. map_option row_to_track (tbl_get tk_id k (md_tracks s)))(tk_id t \<mapsto> row_to_track t)"
    using fun_cong [OF tbl_get_appended [OF fresh]] by (simp add: fun_eq_iff)
  moreover have "tbl_keys tk_id (md_tracks s @ [t])" using 19(1) fresh by (auto simp: sqd_ok_def tbl_get_None)
  ultimately show ?case using 19(1) by (simp add: sqd_ok_def sqd_view_def)
next
  case (20 s k) then show ?case by (simp add: sqd_defs sqd_delete_track_def sqd_pinned)
next
  case (21 s k)
  have "tbl_get tk_id k (md_tracks s) = None \<or> \<not> list_ex (\<lambda>(p, ts). k \<in> set ts) (md_refs s)"
    using 21(2) unfolding sqd_pinned by blast
  then show ?case using 21(1)
    by (auto simp: sqd_defs sqd_delete_track_def sqd_view_def sqd_ok_def tbl_get_delete tbl_keys_delete fun_eq_iff)
next
  case (22 s k) show ?case by (simp add: sqd_defs sqd_video_get_def sqd_view_def)
next
  case (23 s e m) then show ?case by (simp add: sqd_defs sqd_broadcast_def sqd_view_def sqd_ok_def)
qed

subsection \<open>In memory\<close>

definition mmd_view :: "mem_media \<Rightarrow> media_view" where
  "mmd_view s = \<lparr>mv_projects = map_of (mm_projects s), mv_clips = map_of (mm_clips s),
     mv_tracks = map_of (mm_tracks s), mv_videos = map_of (mm_videos s), mv_refs = []\<rparr>"

definition mmd_ok :: "mem_media \<Rightarrow> bool" where
  "mmd_ok s \<longleftrightarrow> dict_all (\<lambda>k p. pj_id p = k) (mm_projects s) \<and> dict_all (\<lambda>k c. cl_id c = k) (mm_clips s) \<and>
     dict_all (\<lambda>k t. tk_id t = k) (mm_tracks s) \<and> dict_all (\<lambda>k v. vd_id v = k) (mm_videos s)"

lemmas mmd_defs = mmd_repos_def mmd_project_repo_def mmd_clip_repo_def mmd_timeline_repo_def mmd_video_repo_def

lemma dict_listing:
  assumes "dict_all (\<lambda>k x. key x = k) d"
  shows "let xs = sort_key f (filter P (dict_values d)) in sorted (map f xs) \<and> distinct (map key xs) \<and>
     (\<forall>x. x \<in> set xs \<longleftrightarrow> map_of d (key x) = Some x \<and> P x)"
proof -
  have "distinct (map key (dict_values d))"
    using assms by (intro dict_keyed_distinct) (auto simp: dict_all_def)
  then have "distinct (map key (tbl_select P f (dict_values d)))" by (rule tbl_select_keys)
  moreover have "x \<in> set (dict_values d) \<longleftrightarrow> map_of d (key x) = Some x" for x
    using assms by (intro dict_all_values) auto
  ultimately show ?thesis by (simp add: Let_def tbl_select_def)
qed

interpretation mmd: media_store mmd_repos mmd_view mmd_ok "\<lambda>t. t"
proof (unfold_locales, goal_cases)
  case (1 s k p) then show ?case by (auto simp: mmd_view_def mmd_ok_def dest: dict_all_get)
next
  case (2 s k c) then show ?case by (auto simp: mmd_view_def mmd_ok_def dest: dict_all_get)
next
  case (3 s k t) then show ?case by (auto simp: mmd_view_def mmd_ok_def dest: dict_all_get)
next
  case (4 t) show ?case by simp
next
  case (5 t) show ?case by simp
next
  case (6 s k) show ?case by (simp add: mmd_defs mmd_project_get_def mmd_view_def)
next
  case (7 s p q)
  then show ?case by (simp add: mmd_defs mmd_project_update_def mmd_view_def mmd_ok_def dict_set_map_of dict_all_set)
next
  case (8 s p)
  then show ?case by (simp add: mmd_defs mmd_project_add_def mmd_view_def mmd_ok_def dict_set_map_of dict_all_set)
next
  case (9 s k) then show ?case by (simp add: project_pinned_def mmd_view_def)
next
  case (10 s k)
  then show ?case
    by (auto simp: mmd_defs mmd_project_delete_def mmd_view_def mmd_ok_def AList.delete_conv' fun_upd_idem_iff intro: dict_all_pop)
next
  case (11 s k) show ?case by (simp add: mmd_defs mmd_clip_get_def mmd_view_def)
next
  case (12 s pid)
  then show ?case
    using dict_listing [of cl_id "mm_clips s" cl_timeline_position "\<lambda>c. cl_project_id c = pid"]
    by (simp add: mmd_defs mmd_clips_by_project_def mmd_view_def mmd_ok_def Let_def)
next
  case (13 s c)
  then show ?case by (simp add: mmd_defs mmd_clip_add_def mmd_view_def mmd_ok_def dict_set_map_of dict_all_set)
next
  case (14 s c b)
  then show ?case by (simp add: mmd_defs mmd_clip_update_def mmd_view_def mmd_ok_def dict_set_map_of dict_all_set)
next
  case (15 s k)
  then show ?case
    by (auto simp: mmd_defs mmd_clip_delete_def mmd_view_def mmd_ok_def AList.delete_conv' fun_upd_idem_iff intro: dict_all_pop)
next
  case (16 s k a b)
  then show ?case
    by (auto simp: mmd_defs mmd_split_atomic_def mmd_view_def mmd_ok_def Let_def dict_set_map_of AList.delete_conv'
        intro!: dict_all_pop dict_all_set)
next
  case (17 s k) show ?case by (simp add: mmd_defs mmd_get_track_def mmd_view_def)
next
  case (18 s pid)
  then show ?case
    using dict_listing [of tk_id "mm_tracks s" tk_z_index "\<lambda>t. tk_project_id t = pid"]
    by (simp add: mmd_defs mmd_tracks_by_project_def mmd_view_def mmd_ok_def Let_def)
next
  case (19 s t)
  then show ?case by (simp add: mmd_defs mmd_create_track_def mmd_view_def mmd_ok_def dict_set_map_of dict_all_set)
next
  case (20 s k) then show ?case by (simp add: track_pinned_def mmd_view_def)
next
  case (21 s k)
  then show ?case
    by (auto simp: mmd_defs mmd_delete_track_def mmd_view_def mmd_ok_def AList.delete_conv' fun_upd_idem_iff intro: dict_all_pop)
next
  case (22 s k) show ?case by (simp add: mmd_defs mmd_video_get_def mmd_view_def)
next
  case (23 s e m) then show ?case by (simp add: mmd_defs mmd_broadcast_def mmd_view_def mmd_ok_def)
qed

end
