(* ===== verification/Json_Schema.thy ===== *)
theory Json_Schema
  imports Json
begin

text \<open>
  The part of JSON Schema (draft 7) the effect definitions use. A schema is the list of its keywords in
  the order of the source; descriptions carry no constraint and are left out. \<open>conforms\<close> is what
  the keywords mean: a number is an int or a float but no boolean, an integer is a number without
  fractional part (a float too, as draft 7 says), \<open>required\<close> and \<open>properties\<close> speak only of objects.
  The validator itself is a package: where the code calls it, its answer is an argument, and that it
  reports no error exactly on conforming values is a named hypothesis, \<open>draft7\<close>.

  Parameters come from the text of a request, so every string in them is a \<open>JStr\<close>.
\<close>

subsection \<open>Schemas and what conforms to them\<close>

datatype json_type = T_OBJECT | T_ARRAY | T_STRING | T_NUMBER | T_INTEGER | T_BOOLEAN

datatype schema = Schema "schema_key list"
and schema_key =
    SType json_type
  | SMinimum rat | SMaximum rat | SExclusiveMinimum rat | SExclusiveMaximum rat
  | SEnum "string list" | SDefault json_value
  | SItems schema | SMinItems nat
  | SProperties "(string \<times> schema) list" | SRequired "string list" | SNoAdditional
  | SAnyOf "schema list"

fun has_type :: "json_type \<Rightarrow> json_value \<Rightarrow> bool" where
  "has_type T_OBJECT (JObj d) = True"
| "has_type T_ARRAY (JList xs) = True"
| "has_type T_STRING (JStr s) = True"
| "has_type T_BOOLEAN (JBool b) = True"
| "has_type T_NUMBER (JInt i) = True"
| "has_type T_NUMBER (JNum r) = True"
| "has_type T_INTEGER (JInt i) = True"
| "has_type T_INTEGER (JNum r) = (r = of_int \<lfloor>r\<rfloor>)"
| "has_type _ _ = False"

fun on_number :: "(rat \<Rightarrow> bool) \<Rightarrow> json_value \<Rightarrow> bool" where
  "on_number P (JInt i) = P (of_int i)"
| "on_number P (JNum r) = P r"
| "on_number P _ = True"

fun on_items :: "(json_value list \<Rightarrow> bool) \<Rightarrow> json_value \<Rightarrow> bool" where
  "on_items P (JList xs) = P xs"
| "on_items P _ = True"

fun on_object :: "((string, json_value) dict \<Rightarrow> bool) \<Rightarrow> json_value \<Rightarrow> bool" where
  "on_object P (JObj d) = P d"
| "on_object P _ = True"

fun declared :: "schema_key list \<Rightarrow> string list" where
  "declared [] = []"
| "declared (SProperties ps # ks) = map fst ps @ declared ks"
| "declared (_ # ks) = declared ks"

primrec conforms :: "schema \<Rightarrow> json_value \<Rightarrow> bool"
and meets :: "schema_key \<Rightarrow> string list \<Rightarrow> json_value \<Rightarrow> bool" where
  "conforms (Schema ks) v = list_all (\<lambda>m. m (declared ks) v) (map meets ks)"
| "meets (SType t) ns v = has_type t v"
| "meets (SMinimum m) ns v = on_number (\<lambda>r. m \<le> r) v"
| "meets (SMaximum m) ns v = on_number (\<lambda>r. r \<le> m) v"
| "meets (SExclusiveMinimum m) ns v = on_number (\<lambda>r. m < r) v"
| "meets (SExclusiveMaximum m) ns v = on_number (\<lambda>r. r < m) v"
| "meets (SEnum xs) ns v = (\<exists>s \<in> set xs. v = JStr s)"
| "meets (SDefault d) ns v = True"
| "meets (SItems s) ns v = on_items (list_all (conforms s)) v"
| "meets (SMinItems n) ns v = on_items (\<lambda>xs. n \<le> length xs) v"
| "meets (SProperties ps) ns v = on_object (\<lambda>d. list_all (\<lambda>(k, c).
     case map_of d k of None \<Rightarrow> True | Some w \<Rightarrow> c w) (map (map_prod id conforms) ps)) v"
| "meets (SRequired ks) ns v = on_object (\<lambda>d. list_all (\<lambda>k. map_of d k \<noteq> None) ks) v"
| "meets SNoAdditional ns v = on_object (\<lambda>d. list_all (\<lambda>(k, w). k \<in> set ns) d) v"
| "meets (SAnyOf ss) ns v = list_ex (\<lambda>c. c v) (map conforms ss)"

text \<open>Objects come from dictionaries, which have each key once.\<close>

fun keys_once :: "json_value \<Rightarrow> bool" where
  "keys_once (JObj d) = (distinct (map fst d) \<and> list_all (\<lambda>p. keys_once (snd p)) d)"
| "keys_once (JList xs) = list_all keys_once xs"
| "keys_once _ = True"

text \<open>A package that validates: the errors of a value, each with its path and its message.\<close>

type_synonym 'e validator = "schema \<Rightarrow> json_value \<Rightarrow> 'e list"

definition draft7 :: "'e validator \<Rightarrow> bool" where
  "draft7 iter_errors \<longleftrightarrow> (\<forall>s v. iter_errors s v = [] \<longleftrightarrow> conforms s v)"

subsection \<open>Reading conforming values\<close>

named_theorems schema_simps \<open>what a schema says of a dictionary, key by key\<close>

lemma has_type_eq [schema_simps]:
  "has_type T_OBJECT v \<longleftrightarrow> (\<exists>d. v = JObj d)"
  "has_type T_ARRAY v \<longleftrightarrow> (\<exists>xs. v = JList xs)"
  "has_type T_STRING v \<longleftrightarrow> (\<exists>s. v = JStr s)"
  "has_type T_BOOLEAN v \<longleftrightarrow> (\<exists>b. v = JBool b)"
  by (cases v; simp)+

definition number_of :: "json_value \<Rightarrow> rat \<Rightarrow> bool" where
  "number_of v r \<longleftrightarrow> v = JNum r \<or> (\<exists>i. v = JInt i \<and> r = of_int i)"

lemma has_type_number [schema_simps]: "has_type T_NUMBER v \<longleftrightarrow> (\<exists>r. number_of v r)"
  by (cases v) (auto simp: number_of_def)

lemma has_type_integer: "has_type T_INTEGER v \<longleftrightarrow> (\<exists>i. number_of v (of_int i))"
  by (cases v) (auto simp: number_of_def)

lemma on_number_of [simp]: "number_of v r \<Longrightarrow> on_number P v \<longleftrightarrow> P r"
  by (auto simp: number_of_def)

lemma on_items_JList [simp]: "on_items P (JList xs) \<longleftrightarrow> P xs"
  by simp

text \<open>A declared property is absent or conforms.\<close>

definition prop_ok :: "(string, json_value) dict \<Rightarrow> string \<Rightarrow> schema \<Rightarrow> bool" where
  "prop_ok d k s \<longleftrightarrow> (case map_of d k of None \<Rightarrow> True | Some w \<Rightarrow> conforms s w)"

lemma meets_properties [schema_simps]:
  "meets (SProperties ps) ns (JObj d) \<longleftrightarrow> list_all (\<lambda>(k, s). prop_ok d k s) ps"
  by (simp add: prop_ok_def list_all_iff case_prod_unfold split: option.split)

lemma meets_items [schema_simps]:
  "meets (SItems s) ns (JList xs) \<longleftrightarrow> list_all (conforms s) xs"
  by simp

lemma conforms_all [schema_simps]:
  "conforms (Schema ks) v \<longleftrightarrow> list_all (\<lambda>k. meets k (declared ks) v) ks"
  by (simp add: list_all_iff)

lemma meets_object [schema_simps]:
  "meets (SRequired ks) ns (JObj d) \<longleftrightarrow> list_all (\<lambda>k. map_of d k \<noteq> None) ks"
  "meets SNoAdditional ns (JObj d) \<longleftrightarrow> list_all (\<lambda>(k, w). k \<in> set ns) d"
  by simp_all

text \<open>The parts of a schema are unfolded by these rules, one level at a time.\<close>

declare conforms.simps [simp del] meets.simps(8, 10, 11, 12) [simp del]

end
