(* ===== verification/Filter_Text.thy ===== *)
theory Filter_Text
  imports Json_Schema
begin

text \<open>
  What the effect builders share: how Python's \<open>float\<close>, \<open>int\<close> and \<open>str\<close> convert a JSON value, how an
  argument of the Rust core is extracted from a Python object (a \<open>TypeError\<close> for the wrong type, an
  \<open>OverflowError\<close> for an integer out of range; an integer type does not take a float), and the
  text of filters, chains and graphs (\<open>src/rust/stoat_ferret_core/src/ffmpeg/filter.rs\<close>).

  A float is the rational it denotes. An integer becomes the float of its value, without rounding, and
  an \<open>OverflowError\<close> from \<open>2^1024 - 2^970\<close> on, where rounding leaves the doubles. What the text of a float is beyond a fixed number of decimals,
  how \<open>float\<close> and \<open>parse::<f64>\<close> read a string, and \<open>10^x\<close> are fields of the environment \<open>effect_env\<close>; so are the value of
  the global counter the core numbers its labels from, the directory of the bundled tables, and
  whether FFmpeg has the filter \<open>rubberband\<close>.
\<close>

subsection \<open>The environment\<close>

record effect_env =
  ee_show_f64 :: "rat \<Rightarrow> string"
  ee_show_f32 :: "rat \<Rightarrow> string"
  ee_debug_f64 :: "rat \<Rightarrow> string"
  ee_parse :: "string \<Rightarrow> rat option"
  ee_parse_f64 :: "string \<Rightarrow> rat option"
  ee_parse_int :: "string \<Rightarrow> int option"
  ee_str :: "json_value \<Rightarrow> string"
  ee_exp10 :: "rat \<Rightarrow> rat"
  ee_label_counter :: nat
  ee_lut_dir :: string
  ee_rubberband :: bool

type_synonym params = "(string, json_value) dict"

subsection \<open>Python's conversions and PyO3's\<close>

definition dict_get :: "string \<Rightarrow> json_value \<Rightarrow> params \<Rightarrow> json_value" where
  "dict_get k dflt ps = (case map_of ps k of None \<Rightarrow> dflt | Some v \<Rightarrow> v)"

text \<open>\<open>if k in parameters: ... f(parameters[k])\<close>.\<close>

definition if_given :: "string \<Rightarrow> (json_value \<Rightarrow> exn + 'a) \<Rightarrow> params \<Rightarrow> exn + 'a option" where
  "if_given k f ps = (case map_of ps k of None \<Rightarrow> Inr None | Some v \<Rightarrow> sum_bind (f v) (\<lambda>x. Inr (Some x)))"

definition fits_double :: "int \<Rightarrow> bool" where
  "fits_double i \<longleftrightarrow> \<bar>i\<bar> < 2 ^ 1024 - 2 ^ 970"

lemma fits_double_small [simp]: "\<bar>i\<bar> \<le> 2 ^ 64 \<Longrightarrow> fits_double i"
  by (simp add: fits_double_def)

definition int_to_float :: "int \<Rightarrow> exn + rat" where
  "int_to_float i = (if fits_double i then Inr (of_int i) else Inl OverflowError)"

lemma int_to_float_fits [simp]: "fits_double i \<Longrightarrow> int_to_float i = Inr (of_int i)"
  by (simp add: int_to_float_def)

fun py_float :: "effect_env \<Rightarrow> json_value \<Rightarrow> exn + rat" where
  "py_float E (JInt i) = int_to_float i"
| "py_float E (JNum r) = Inr r"
| "py_float E (JBool b) = Inr (if b then 1 else 0)"
| "py_float E (JStr s) = (case ee_parse E s of None \<Rightarrow> Inl ValueError | Some r \<Rightarrow> Inr r)"
| "py_float E _ = Inl TypeError"

fun py_int_of :: "effect_env \<Rightarrow> json_value \<Rightarrow> exn + int" where
  "py_int_of E (JInt i) = Inr i"
| "py_int_of E (JNum r) = Inr (py_int r)"
| "py_int_of E (JBool b) = Inr (if b then 1 else 0)"
| "py_int_of E (JStr s) = (case ee_parse_int E s of None \<Rightarrow> Inl ValueError | Some i \<Rightarrow> Inr i)"
| "py_int_of E _ = Inl TypeError"

fun py_str :: "effect_env \<Rightarrow> json_value \<Rightarrow> string" where
  "py_str E (JStr s) = s"
| "py_str E v = ee_str E v"

fun ext_f64 :: "json_value \<Rightarrow> exn + rat" where
  "ext_f64 (JInt i) = int_to_float i"
| "ext_f64 (JNum r) = Inr r"
| "ext_f64 (JBool b) = Inr (if b then 1 else 0)"
| "ext_f64 _ = Inl TypeError"

fun ext_str :: "json_value \<Rightarrow> exn + string" where
  "ext_str (JStr s) = Inr s"
| "ext_str _ = Inl TypeError"

fun ext_bool :: "json_value \<Rightarrow> exn + bool" where
  "ext_bool (JBool b) = Inr b"
| "ext_bool _ = Inl TypeError"

definition unsigned :: "nat \<Rightarrow> int \<Rightarrow> exn + nat" where
  "unsigned w i = (if 0 \<le> i \<and> i < 2 ^ w then Inr (nat i) else Inl OverflowError)"

definition signed_int :: "nat \<Rightarrow> int \<Rightarrow> exn + int" where
  "signed_int w i = (if - (2 ^ (w - 1)) \<le> i \<and> i < 2 ^ (w - 1) then Inr i else Inl OverflowError)"

fun ext_unsigned :: "nat \<Rightarrow> json_value \<Rightarrow> exn + nat" where
  "ext_unsigned w (JInt i) = unsigned w i"
| "ext_unsigned w (JBool b) = Inr (if b then 1 else 0)"
| "ext_unsigned w _ = Inl TypeError"

fun map_ok :: "('a \<Rightarrow> exn + 'b) \<Rightarrow> 'a list \<Rightarrow> exn + 'b list" where
  "map_ok f [] = Inr []"
| "map_ok f (x # xs) = sum_bind (f x) (\<lambda>y. sum_bind (map_ok f xs) (\<lambda>ys. Inr (y # ys)))"

fun ext_list :: "(json_value \<Rightarrow> exn + 'a) \<Rightarrow> json_value \<Rightarrow> exn + 'a list" where
  "ext_list f (JList xs) = map_ok f xs"
| "ext_list f _ = Inl TypeError"

fun ext_dict :: "(json_value \<Rightarrow> exn + 'a) \<Rightarrow> json_value \<Rightarrow> exn + (string, 'a) dict" where
  "ext_dict f (JObj d) = map_ok (\<lambda>(k, v). sum_bind (f v) (\<lambda>x. Inr (k, x))) d"
| "ext_dict f _ = Inl TypeError"

text \<open>A Python loop over a JSON value: over the items of a list, the characters of a string, the keys
  of an object.\<close>

fun py_iter :: "json_value \<Rightarrow> exn + json_value list" where
  "py_iter (JList xs) = Inr xs"
| "py_iter (JStr s) = Inr (map (\<lambda>c. JStr [c]) s)"
| "py_iter (JObj d) = Inr (map (\<lambda>(k, v). JStr k) d)"
| "py_iter _ = Inl TypeError"

text \<open>\<open>v[key]\<close>.\<close>

fun py_item :: "string \<Rightarrow> json_value \<Rightarrow> exn + json_value" where
  "py_item k (JObj d) = (case map_of d k of None \<Rightarrow> Inl KeyError | Some v \<Rightarrow> Inr v)"
| "py_item k _ = Inl TypeError"

definition require :: "bool \<Rightarrow> exn + unit" where
  "require b = (if b then Inr () else Inl ValueError)"

subsection \<open>The text of numbers\<close>

definition round_away :: "rat \<Rightarrow> int" where
  "round_away r = (if 0 \<le> r then \<lfloor>r + 1 / 2\<rfloor> else \<lceil>r - 1 / 2\<rceil>)"

definition round_even :: "rat \<Rightarrow> int" where
  "round_even r = (let k = \<lfloor>r\<rfloor>; d = r - of_int k in
     if d < 1 / 2 \<or> (d = 1 / 2 \<and> even k) then k else k + 1)"

text \<open>\<open>{value:.n}\<close>.\<close>

definition show_fixed :: "nat \<Rightarrow> rat \<Rightarrow> string" where
  "show_fixed n r = (let k = nat (round_even (\<bar>r\<bar> * 10 ^ n)); f = dec (k mod 10 ^ n) in
     (if r < 0 then ''-'' else []) @ dec (k div 10 ^ n) @ ''.'' @ replicate (n - length f) CHR ''0'' @ f)"

definition trim_end :: "char \<Rightarrow> string \<Rightarrow> string" where
  "trim_end c s = rev (dropWhile (\<lambda>x. x = c) (rev s))"

definition trim_decimal :: "string \<Rightarrow> string" where
  "trim_decimal s = trim_end CHR ''.'' (trim_end CHR ''0'' s)"

definition format_value :: "rat \<Rightarrow> string" where
  "format_value r = (if \<bar>r - of_int (round_away r)\<bar> < 1 / 10 ^ 9 then py_str_int (round_away r)
     else trim_decimal (show_fixed 10 r))"

subsection \<open>Filters, chains and graphs\<close>

record ffilter =
  ff_name :: string
  ff_params :: "(string \<times> string) list"

definition ffilter_new :: "string \<Rightarrow> (string \<times> string) list \<Rightarrow> ffilter" where
  "ffilter_new n ps = \<lparr>ff_name = n, ff_params = ps\<rparr>"

definition filter_str :: "ffilter \<Rightarrow> string" where
  "filter_str f = ff_name f @ (if ff_params f = [] then []
     else ''='' @ str_join '':'' (map (\<lambda>(k, v). k @ ''='' @ v) (ff_params f)))"

abbreviation filter_text :: "string \<Rightarrow> (string \<times> string) list \<Rightarrow> string" where
  "filter_text n ps \<equiv> filter_str (ffilter_new n ps)"

record filter_chain =
  fc_inputs :: "string list"
  fc_filters :: "ffilter list"
  fc_outputs :: "string list"

definition chain_str :: "filter_chain \<Rightarrow> string" where
  "chain_str c = concat (map (\<lambda>l. ''['' @ l @ '']'') (fc_inputs c)) @ str_join '','' (map filter_str (fc_filters c)) @
     concat (map (\<lambda>l. ''['' @ l @ '']'') (fc_outputs c))"

definition plain_chain :: "ffilter list \<Rightarrow> string" where
  "plain_chain fs = chain_str \<lparr>fc_inputs = [], fc_filters = fs, fc_outputs = []\<rparr>"

definition graph_str :: "filter_chain list \<Rightarrow> string" where
  "graph_str cs = str_join '';'' (map chain_str cs)"

text \<open>A label of the \<open>g\<close>-th generator the process makes.\<close>

definition auto_label :: "nat \<Rightarrow> nat \<Rightarrow> string" where
  "auto_label g i = ''_auto_'' @ dec g @ ''_'' @ dec i"

definition compose_chain :: "nat \<Rightarrow> string \<Rightarrow> ffilter list \<Rightarrow> filter_chain" where
  "compose_chain g inp fs = \<lparr>fc_inputs = [inp], fc_filters = fs, fc_outputs = [auto_label g 0]\<rparr>"

definition compose_branch :: "nat \<Rightarrow> string \<Rightarrow> nat \<Rightarrow> filter_chain" where
  "compose_branch g inp n = \<lparr>fc_inputs = [inp],
     fc_filters = [ffilter_new ''asplit'' [(''outputs'', dec n)]],
     fc_outputs = map (auto_label g) [0..<n]\<rparr>"

definition compose_merge :: "nat \<Rightarrow> string list \<Rightarrow> ffilter \<Rightarrow> filter_chain" where
  "compose_merge g inps f = \<lparr>fc_inputs = inps, fc_filters = [f], fc_outputs = [auto_label g 0]\<rparr>"

subsection \<open>When a computation succeeds\<close>

definition succeeds :: "exn + 'a \<Rightarrow> bool" where
  "succeeds m \<longleftrightarrow> (\<exists>x. m = Inr x)"

lemma succeeds_simps [simp]:
  "succeeds (Inr x)" "\<not> succeeds (Inl e)"
  "succeeds (require b) \<longleftrightarrow> b"
  by (simp_all add: succeeds_def require_def)

lemma succeeds_bind: "succeeds (sum_bind m f) \<longleftrightarrow> (\<exists>x. m = Inr x \<and> succeeds (f x))"
  by (cases m) (auto simp: succeeds_def)

lemma require_Inr [simp]: "require True = Inr ()"
  by (simp add: require_def)

lemma map_ok_Inr: "(\<And>x. x \<in> set xs \<Longrightarrow> f x = Inr (g x)) \<Longrightarrow> map_ok f xs = Inr (map g xs)"
  by (induction xs) simp_all

lemma map_ok_succeeds: "(\<And>x. x \<in> set xs \<Longrightarrow> succeeds (f x)) \<Longrightarrow> succeeds (map_ok f xs)"
  by (induction xs) (fastforce simp: succeeds_bind succeeds_def)+

lemma map_ok_set: "map_ok f xs = Inr ys \<Longrightarrow> y \<in> set ys \<Longrightarrow> \<exists>x \<in> set xs. f x = Inr y"
  by (induction xs arbitrary: ys) (auto simp: sum_bind_Inr)

lemma map_ok_length: "map_ok f xs = Inr ys \<Longrightarrow> length ys = length xs"
  by (induction xs arbitrary: ys) (auto simp: sum_bind_Inr)

end
