(* ===== verification/Project_Requests.thy ===== *)
theory Project_Requests
  imports Media_Contract Filter_Text
begin

text \<open>
  The requests on projects and their clips, \<open>src/stoat_ferret/api/routers/projects.py\<close>, over the repositories of a
  \<open>media_repos\<close>; the cross-field checks of \<open>api/schemas/clip.py\<close>; and the check of a file clip by the Rust core
  (\<open>src/rust/stoat_ferret_core/src/clip/validation.rs\<close>). A request runs alone. New ids and the time are
  arguments; an \<open>HTTPException\<close> is kept with its status and its code.
\<close>

subsection \<open>What every request begins with\<close>

definition get_project :: "'s media_repos \<Rightarrow> string \<Rightarrow> ('s, project) op" where
  "get_project R pid = bind_op (pjr_get (mx_projects R) pid) (\<lambda>p. case p of
     None \<Rightarrow> throw (HTTPError 404 ''NOT_FOUND'') | Some p \<Rightarrow> ret p)"

definition get_clip :: "'s media_repos \<Rightarrow> string \<Rightarrow> string \<Rightarrow> ('s, clip) op" where
  "get_clip R pid cid = bind_op (clr_get (mx_clips R) cid) (\<lambda>c. case c of
     None \<Rightarrow> throw (HTTPError 404 ''NOT_FOUND'')
   | Some c \<Rightarrow> if cl_project_id c \<noteq> pid then throw (HTTPError 404 ''NOT_FOUND'') else ret c)"

subsection \<open>Projects\<close>

record project_create =
  pc_name :: string
  pc_output_width :: int
  pc_output_height :: int
  pc_output_fps :: int
  pc_sample_rate :: int
  pc_bit_depth :: int

record project_patch =
  pp_name :: "string option"
  pp_output_width :: "int option"
  pp_output_height :: "int option"
  pp_output_fps :: "int option"
  pp_sample_rate :: "int option"
  pp_bit_depth :: "int option"

definition list_projects :: "'s media_repos \<Rightarrow> int \<Rightarrow> int \<Rightarrow> ('s, project list \<times> nat) op" where
  "list_projects R lmt off = bind_op (pjr_list (mx_projects R) lmt off) (\<lambda>ps.
     bind_op (pjr_count (mx_projects R)) (\<lambda>total. ret (ps, total)))"

definition create_project :: "'s media_repos \<Rightarrow> string \<Rightarrow> time \<Rightarrow> project_create \<Rightarrow> ('s, project) op" where
  "create_project R new_id now body = (let p = \<lparr>pj_id = new_id, pj_name = pc_name body,
       pj_output_width = pc_output_width body, pj_output_height = pc_output_height body, pj_output_fps = pc_output_fps body,
       pj_created_at = now, pj_updated_at = now, pj_transitions = None, pj_audio_mix = None,
       pj_sample_rate = pc_sample_rate body, pj_bit_depth = pc_bit_depth body\<rparr> in
     seq_op (pjr_add (mx_projects R) p)
       (seq_op (mx_broadcast R PROJECT_CREATED [(''project_id'', JStr new_id), (''name'', JStr (pc_name body))]) (ret p)))"

definition patch_project :: "project_patch \<Rightarrow> time \<Rightarrow> project \<Rightarrow> project" where
  "patch_project body now p = p\<lparr>pj_name := get_or (pj_name p) (pp_name body),
     pj_output_width := get_or (pj_output_width p) (pp_output_width body),
     pj_output_height := get_or (pj_output_height p) (pp_output_height body),
     pj_output_fps := get_or (pj_output_fps p) (pp_output_fps body),
     pj_sample_rate := get_or (pj_sample_rate p) (pp_sample_rate body),
     pj_bit_depth := get_or (pj_bit_depth p) (pp_bit_depth body), pj_updated_at := now\<rparr>"

definition update_project :: "'s media_repos \<Rightarrow> string \<Rightarrow> time \<Rightarrow> project_patch \<Rightarrow> ('s, project) op" where
  "update_project R pid now body = bind_op (get_project R pid) (\<lambda>p. let p = patch_project body now p in
     seq_op (pjr_update (mx_projects R) p) (ret p))"

definition delete_project :: "'s media_repos \<Rightarrow> string \<Rightarrow> ('s, unit) op" where
  "delete_project R pid = bind_op (pjr_delete (mx_projects R) pid) (\<lambda>deleted.
     if deleted then ret () else throw (HTTPError 404 ''NOT_FOUND''))"

subsection \<open>Clips\<close>

record clip_create =
  cc_clip_type :: string
  cc_source_video_id :: "string option"
  cc_source_asset_id :: "string option"
  cc_generator_params :: "(string, string) dict option"
  cc_in_point :: int
  cc_out_point :: int
  cc_timeline_position :: int
  cc_timeline_start :: "rat option"
  cc_timeline_end :: "rat option"

text \<open>The fields alone (\<open>Literal\<close>, \<open>ge=0\<close>), then together.\<close>

definition clip_create_fields :: "clip_create \<Rightarrow> bool" where
  "clip_create_fields b \<longleftrightarrow> cc_clip_type b \<in> {''file'', ''generator'', ''image''} \<and> 0 \<le> cc_in_point b \<and> 0 \<le> cc_out_point b \<and>
     0 \<le> cc_timeline_position b"

definition validate_file_clip :: "clip_create \<Rightarrow> exn + unit" where
  "validate_file_clip b = (if cc_source_video_id b = None then Inl ValueError
     else if cc_generator_params b \<noteq> None then Inl ValueError
     else if cc_source_asset_id b \<noteq> None then Inl ValueError else Inr ())"

definition validate_generator_clip :: "clip_create \<Rightarrow> exn + unit" where
  "validate_generator_clip b = (if cc_generator_params b = None then Inl ValueError
     else if cc_source_video_id b \<noteq> None then Inl ValueError
     else if cc_source_asset_id b \<noteq> None then Inl ValueError else Inr ())"

definition validate_image_clip :: "clip_create \<Rightarrow> exn + unit" where
  "validate_image_clip b = (if cc_source_asset_id b = None then Inl ValueError
     else if cc_source_video_id b \<noteq> None then Inl ValueError
     else (case cc_timeline_end b of None \<Rightarrow> Inl ValueError
       | Some e \<Rightarrow> if e \<le> get_or 0 (cc_timeline_start b) then Inl ValueError else Inr ()))"

definition validate_clip_type_fields :: "clip_create \<Rightarrow> exn + unit" where
  "validate_clip_type_fields b =
     (if cc_clip_type b = ''file'' then validate_file_clip b
      else if cc_clip_type b = ''generator'' then validate_generator_clip b
      else if cc_clip_type b = ''image'' then validate_image_clip b
      else Inr ())"

text \<open>The fields in error, in the order they are found. A frame is an unsigned integer of the core.\<close>

definition validate_clip :: "string \<Rightarrow> nat \<Rightarrow> nat \<Rightarrow> nat option \<Rightarrow> string list" where
  "validate_clip source_path in_point out_point source_duration =
     (if source_path = [] then [''source_path''] else []) @
     (if out_point \<le> in_point then [''out_point''] else []) @
     (case source_duration of None \<Rightarrow> [] | Some d \<Rightarrow>
       (if d \<le> in_point then [''in_point''] else []) @ (if d < out_point then [''out_point''] else []))"

definition clip_validate :: "clip \<Rightarrow> string \<Rightarrow> int option \<Rightarrow> exn + string option" where
  "clip_validate c source_path source_duration_frames =
     (if cl_clip_type c = ''generator'' then Inr None
      else sum_bind (unsigned 64 (cl_in_point c)) (\<lambda>in_pos.
        sum_bind (unsigned 64 (cl_out_point c)) (\<lambda>out_pos.
        sum_bind (case source_duration_frames of None \<Rightarrow> Inr None
            | Some d \<Rightarrow> sum_bind (unsigned 64 d) (\<lambda>d. Inr (Some d))) (\<lambda>source_dur.
        Inr (case validate_clip source_path in_pos out_pos source_dur of [] \<Rightarrow> None | f # _ \<Rightarrow> Some f)))))"

text \<open>The part of a request that looks the video of a clip up and validates the clip against it.\<close>

definition check_source :: "'s media_repos \<Rightarrow> clip \<Rightarrow> ('s, unit) op" where
  "check_source R c = bind_op (case cl_source_video_id c of None \<Rightarrow> ret None | Some v \<Rightarrow> vdr_get (mx_videos R) v) (\<lambda>video.
     case video of None \<Rightarrow> throw (HTTPError 404 ''NOT_FOUND'')
     | Some v \<Rightarrow> (case clip_validate c (vd_path v) (Some (vd_duration_frames v)) of
         Inl e \<Rightarrow> throw e
       | Inr (Some field) \<Rightarrow> throw (HTTPError 400 ''VALIDATION_ERROR'')
       | Inr None \<Rightarrow> ret ()))"

definition new_clip :: "string \<Rightarrow> time \<Rightarrow> string \<Rightarrow> clip_create \<Rightarrow> clip" where
  "new_clip new_id now pid b = \<lparr>cl_id = new_id, cl_project_id = pid, cl_source_video_id = None,
     cl_in_point = cc_in_point b, cl_out_point = cc_out_point b, cl_timeline_position = cc_timeline_position b,
     cl_created_at = now, cl_updated_at = now, cl_clip_type = ''file'', cl_generator_params = None, cl_effects = None,
     cl_track_id = None, cl_timeline_start = None, cl_timeline_end = None, cl_source_asset_id = None\<rparr>"

text \<open>\<open>assets\<close> is the asset repository: the kind of an asset and whether it is deleted.\<close>

definition add_clip ::
  "'s media_repos \<Rightarrow> (string \<Rightarrow> (string \<times> bool) option) \<Rightarrow> string \<Rightarrow> time \<Rightarrow> string \<Rightarrow> clip_create \<Rightarrow> ('s, clip) op" where
  "add_clip R assets new_id now pid b = seq_op (get_project R pid) (let c = new_clip new_id now pid b in
     if cc_clip_type b = ''generator'' then
       clr_add (mx_clips R) (c\<lparr>cl_clip_type := ''generator'', cl_generator_params := cc_generator_params b\<rparr>)
     else if cc_clip_type b = ''image'' then
       (case Option.bind (cc_source_asset_id b) assets of
          None \<Rightarrow> throw (HTTPError 404 ''ASSET_NOT_FOUND'')
        | Some (kind, deleted) \<Rightarrow>
            if deleted then throw (HTTPError 404 ''ASSET_NOT_FOUND'')
            else if kind \<noteq> ''image'' then throw (HTTPError 422 ''ASSET_KIND_MISMATCH'')
            else clr_add (mx_clips R) (c\<lparr>cl_clip_type := ''image'', cl_source_asset_id := cc_source_asset_id b,
              cl_timeline_start := cc_timeline_start b, cl_timeline_end := cc_timeline_end b\<rparr>))
     else (let c = c\<lparr>cl_source_video_id := cc_source_video_id b\<rparr> in
       seq_op (check_source R c) (clr_add (mx_clips R) c)))"

definition list_clips :: "'s media_repos \<Rightarrow> string \<Rightarrow> ('s, clip list) op" where
  "list_clips R pid = seq_op (get_project R pid) (clr_list_by_project (mx_clips R) pid)"

record clip_patch =
  cu_in_point :: "int option"
  cu_out_point :: "int option"
  cu_timeline_position :: "int option"

definition patch_clip :: "clip_patch \<Rightarrow> time \<Rightarrow> clip \<Rightarrow> clip" where
  "patch_clip b now c = c\<lparr>cl_in_point := get_or (cl_in_point c) (cu_in_point b),
     cl_out_point := get_or (cl_out_point c) (cu_out_point b),
     cl_timeline_position := get_or (cl_timeline_position c) (cu_timeline_position b), cl_updated_at := now\<rparr>"

definition update_clip :: "'s media_repos \<Rightarrow> time \<Rightarrow> string \<Rightarrow> string \<Rightarrow> clip_patch \<Rightarrow> ('s, clip) op" where
  "update_clip R now pid cid b = seq_op (get_project R pid) (bind_op (get_clip R pid cid) (\<lambda>c. let c = patch_clip b now c in
     seq_op (if cl_clip_type c \<noteq> ''generator'' then check_source R c else ret ())
       (seq_op (clr_update (mx_clips R) c) (ret c))))"

text \<open>The halves of a clip: \<open>t\<close> is the time of the cut on the timeline.\<close>

definition split_half :: "string \<Rightarrow> time \<Rightarrow> clip \<Rightarrow> clip" where
  "split_half new_id now c = c\<lparr>cl_id := new_id, cl_created_at := now, cl_updated_at := now, cl_effects := Some [],
     cl_track_id := None, cl_source_asset_id := None\<rparr>"

definition split_first :: "string \<Rightarrow> time \<Rightarrow> int \<Rightarrow> rat option \<Rightarrow> clip \<Rightarrow> clip" where
  "split_first new_id now frame t c = (split_half new_id now c)\<lparr>cl_out_point := frame, cl_timeline_end := t\<rparr>"

definition split_second :: "string \<Rightarrow> time \<Rightarrow> int \<Rightarrow> rat option \<Rightarrow> clip \<Rightarrow> clip" where
  "split_second new_id now frame t c = (split_half new_id now c)\<lparr>cl_in_point := frame,
     cl_timeline_position := cl_timeline_position c + (frame - cl_in_point c), cl_timeline_start := t\<rparr>"

definition split_clip ::
  "'s media_repos \<Rightarrow> string \<Rightarrow> string \<Rightarrow> time \<Rightarrow> string \<Rightarrow> string \<Rightarrow> int \<Rightarrow> ('s, clip \<times> clip) op" where
  "split_clip R id_a id_b now pid cid frame = bind_op (get_clip R pid cid) (\<lambda>c.
     if frame \<le> cl_in_point c \<or> cl_out_point c \<le> frame then throw (HTTPError 422 ''invalid_split_frame'')
     else bind_op (pjr_get (mx_projects R) pid) (\<lambda>project. case project of
       None \<Rightarrow> throw AssertionError
     | Some p \<Rightarrow> (case (case cl_timeline_start c of None \<Rightarrow> Inr None
           | Some start \<Rightarrow> sum_bind (py_div (of_int (frame - cl_in_point c)) (of_int (pj_output_fps p)))
               (\<lambda>t. Inr (Some (start + t)))) of
         Inl e \<Rightarrow> throw e
       | Inr t \<Rightarrow> clr_split_atomic (mx_clips R) (split_first id_a now frame t c) (split_second id_b now frame t c) cid)))"

definition delete_clip :: "'s media_repos \<Rightarrow> string \<Rightarrow> string \<Rightarrow> ('s, unit) op" where
  "delete_clip R pid cid = seq_op (get_clip R pid cid) (seq_op (clr_delete (mx_clips R) cid)
     (mx_broadcast R CLIP_DELETED [(''clip_id'', JStr cid), (''project_id'', JStr pid)]))"

end
