(* ===== verification/Composition.thy ===== *)
theory Composition
  imports Media_Models
begin

text \<open>
  Where clips lie once transitions overlap them: \<open>src/rust/stoat_ferret_core/src/compose/timeline.rs\<close>. A float is
  the rational it denotes.
\<close>

subsection \<open>Positions\<close>

record composition_clip =
  co_input_index :: nat
  co_timeline_start :: rat
  co_timeline_end :: rat
  co_track_index :: nat
  co_z_index :: int

definition co_duration :: "composition_clip \<Rightarrow> rat" where
  "co_duration c = co_timeline_end c - co_timeline_start c"

record transition_spec =
  ts_transition_type :: string
  ts_duration :: rat
  ts_offset :: rat

definition clamp_transition_duration :: "rat \<Rightarrow> rat \<Rightarrow> rat \<Rightarrow> rat" where
  "clamp_transition_duration d a b = max (min (min d a) b) 0"

text \<open>The loop: the clip placed last, the clips still to come, and the transitions before each of them.\<close>

fun place_clips :: "composition_clip \<Rightarrow> composition_clip list \<Rightarrow> transition_spec list \<Rightarrow> composition_clip list" where
  "place_clips prev [] ts = []"
| "place_clips prev (c # cs) ts = (let
       overlap = (case ts of [] \<Rightarrow> 0 | t # _ \<Rightarrow> clamp_transition_duration (ts_duration t) (co_duration prev) (co_duration c));
       start = co_timeline_end prev - overlap;
       placed = c\<lparr>co_timeline_start := start, co_timeline_end := start + co_duration c\<rparr> in
     placed # place_clips placed cs (tl ts))"

fun calculate_composition_positions :: "composition_clip list \<Rightarrow> transition_spec list \<Rightarrow> composition_clip list" where
  "calculate_composition_positions [] ts = []"
| "calculate_composition_positions (c # cs) ts = (let
       first = c\<lparr>co_timeline_end := co_timeline_start c + co_duration c\<rparr> in first # place_clips first cs ts)"

definition calculate_timeline_duration :: "composition_clip list \<Rightarrow> transition_spec list \<Rightarrow> rat" where
  "calculate_timeline_duration cs ts = (if cs = [] then 0
     else (let ps = calculate_composition_positions cs ts in co_timeline_end (last ps) - co_timeline_start (hd ps)))"

subsection \<open>The documented duration\<close>

text \<open>The overlap of each pair, by the durations of its clips.\<close>

fun overlaps_of :: "rat list \<Rightarrow> rat list \<Rightarrow> rat list" where
  "overlaps_of (a # b # ds) (t # ts) = clamp_transition_duration t a b # overlaps_of (b # ds) ts"
| "overlaps_of _ _ = []"

lemma place_clips_durations: "map co_duration (place_clips p cs ts) = map co_duration cs"
  by (induction p cs ts rule: place_clips.induct) (simp_all add: Let_def co_duration_def)

lemma place_clips_end:
  "co_timeline_end (last (p # place_clips p cs ts)) =
     co_timeline_end p + sum_list (map co_duration cs) - sum_list (overlaps_of (map co_duration (p # cs)) (map ts_duration ts))"
proof (induction p cs ts rule: place_clips.induct)
  case (1 p ts)
  then show ?case by (cases ts) simp_all
next
  case (2 p c cs ts)
  define overlap where "overlap = (case ts of [] \<Rightarrow> 0 | t # _ \<Rightarrow> clamp_transition_duration (ts_duration t) (co_duration p) (co_duration c))"
  define q where "q = c\<lparr>co_timeline_start := co_timeline_end p - overlap, co_timeline_end := co_timeline_end p - overlap + co_duration c\<rparr>"
  have q: "co_duration q = co_duration c" "co_timeline_end q = co_timeline_end p - overlap + co_duration c"
    by (simp_all add: q_def co_duration_def)
  have "place_clips p (c # cs) ts = q # place_clips q cs (tl ts)" by (simp add: Let_def q_def overlap_def)
  moreover have "co_timeline_end (last (q # place_clips q cs (tl ts))) = co_timeline_end q + sum_list (map co_duration cs) -
      sum_list (overlaps_of (map co_duration (q # cs)) (map ts_duration (tl ts)))"
    using 2 [OF refl refl refl] by (simp add: q_def overlap_def)
  ultimately show ?case using q by (cases ts) (simp_all add: overlap_def)
qed

text \<open>
  C23. Composing clips keeps their order and their durations, and the duration of the composition is the sum
  of the durations less the overlaps of the transitions, each clamped to its two clips.
\<close>

theorem composition_duration_exact:
  assumes "cs \<noteq> []"
  shows "map co_input_index (calculate_composition_positions cs ts) = map co_input_index cs \<and>
    map co_duration (calculate_composition_positions cs ts) = map co_duration cs \<and>
    calculate_timeline_duration cs ts =
      sum_list (map co_duration cs) - sum_list (overlaps_of (map co_duration cs) (map ts_duration ts))"
proof -
  obtain c ds where cs: "cs = c # ds" using assms by (cases cs) auto
  define first where "first = c\<lparr>co_timeline_end := co_timeline_start c + co_duration c\<rparr>"
  have f: "co_duration first = co_duration c" "co_timeline_end first = co_timeline_start c + co_duration c"
    "co_timeline_start first = co_timeline_start c" "co_input_index first = co_input_index c"
    by (simp_all add: first_def co_duration_def)
  have run: "calculate_composition_positions cs ts = first # place_clips first ds ts" by (simp add: cs Let_def first_def)
  have idx: "map co_input_index (place_clips p ds ts) = map co_input_index ds" for p ds and ts :: "transition_spec list"
    by (induction p ds ts rule: place_clips.induct) (simp_all add: Let_def)
  show ?thesis
    using place_clips_end [of first ds ts] place_clips_durations [of first ds ts] idx [of first ds ts] f
    by (simp add: run calculate_timeline_duration_def) (simp add: cs)
qed

theorem composition_duration_exact_witness:
  "calculate_timeline_duration [\<lparr>co_input_index = 0, co_timeline_start = 0, co_timeline_end = 5, co_track_index = 0, co_z_index = 0\<rparr>,
     \<lparr>co_input_index = 1, co_timeline_start = 5, co_timeline_end = 7, co_track_index = 0, co_z_index = 0\<rparr>]
     [\<lparr>ts_transition_type = ''fade'', ts_duration = 3, ts_offset = 0\<rparr>] = 5"
  by (subst composition_duration_exact [THEN conjunct2, THEN conjunct2])
    (simp_all add: co_duration_def clamp_transition_duration_def)

end
