(* ===== verification/Effect_Audio.thy ===== *)
theory Effect_Audio
  imports Filter_Text
begin

text \<open>
  The build functions of the audio effects of \<open>src/stoat_ferret/effects/definitions.py\<close>, each with the
  builder of the Rust core it calls: the checks of the constructor and of the setters, in the order the
  function makes the calls, and the text of the filter. A check that fails is a \<open>ValueError\<close>.
\<close>

subsection \<open>Tempo chains\<close>

definition epsilon :: rat where
  "epsilon = 1 / 2 ^ 52"

function tempo_halves :: "rat \<Rightarrow> rat list \<Rightarrow> rat list \<times> rat" where
  "tempo_halves r vs = (if 2 < r then tempo_halves (r / 2) (vs @ [2]) else (vs, r))"
  by auto

termination
proof (relation "measure (\<lambda>(r, vs). nat \<lceil>r\<rceil>)")
  fix r :: rat and vs :: "rat list"
  assume r: "2 < r"
  have "r / 2 \<le> r - 1" using r by simp
  then have "\<lceil>r / 2\<rceil> \<le> \<lceil>r - 1\<rceil>" by (rule ceiling_mono)
  also have "\<lceil>r - 1\<rceil> = \<lceil>r\<rceil> - 1" by simp
  finally have "\<lceil>r / 2\<rceil> < \<lceil>r\<rceil>" by simp
  moreover have "0 < \<lceil>r\<rceil>" using r by (simp add: less_ceiling_iff)
  ultimately show "((r / 2, vs @ [2]), r, vs) \<in> measure (\<lambda>(r, vs). nat \<lceil>r\<rceil>)" by simp
qed simp

text \<open>The other loop doubles. On a factor that is not positive it would not end; the constructors
  have refused those.\<close>

function tempo_doubles :: "rat \<Rightarrow> rat list \<Rightarrow> rat list \<times> rat" where
  "tempo_doubles r vs = (if 0 < r \<and> r < 1 / 2 then tempo_doubles (r / (1 / 2)) (vs @ [1 / 2]) else (vs, r))"
  by auto

termination
proof (relation "measure (\<lambda>(r, vs). nat \<lceil>1 / r\<rceil>)")
  fix r :: rat and vs :: "rat list"
  assume r: "0 < r \<and> r < 1 / 2"
  then have "1 / (r / (1 / 2)) \<le> 1 / r - 1" by (simp add: field_simps)
  then have "\<lceil>1 / (r / (1 / 2))\<rceil> \<le> \<lceil>1 / r - 1\<rceil>" by (rule ceiling_mono)
  also have "\<lceil>1 / r - 1\<rceil> = \<lceil>1 / r\<rceil> - 1" by simp
  finally have "\<lceil>1 / (r / (1 / 2))\<rceil> < \<lceil>1 / r\<rceil>" by simp
  moreover have "0 < \<lceil>1 / r\<rceil>" using r by (simp add: less_ceiling_iff)
  ultimately show "((r / (1 / 2), vs @ [1 / 2]), r, vs) \<in> measure (\<lambda>(r, vs). nat \<lceil>1 / r\<rceil>)" by simp
qed simp

declare tempo_halves.simps [simp del] tempo_doubles.simps [simp del]

definition atempo_chain :: "rat \<Rightarrow> rat list" where
  "atempo_chain speed =
     (if \<bar>speed - 1\<bar> < epsilon then []
      else if 1 / 2 \<le> speed \<and> speed \<le> 2 then [speed]
      else let (vs, rest) = (if 2 < speed then tempo_halves speed [] else tempo_doubles speed [])
        in if epsilon < \<bar>rest - 1\<bar> then vs @ [rest] else vs)"

subsection \<open>Mixing, volume, fades, ducking\<close>

definition build_audio_mix :: "effect_env \<Rightarrow> params \<Rightarrow> exn + string" where
  "build_audio_mix E ps =
     sum_bind (ext_unsigned 64 (dict_get ''inputs'' (JInt 2) ps)) (\<lambda>n.
     sum_bind (require (2 \<le> n \<and> n \<le> 32)) (\<lambda>_.
     sum_bind (if_given ''duration_mode'' (\<lambda>v. sum_bind (ext_str v) (\<lambda>m.
        sum_bind (require (m \<in> {''longest'', ''shortest'', ''first''})) (\<lambda>_. Inr m))) ps) (\<lambda>mode.
     sum_bind (if_given ''weights'' (ext_list ext_f64) ps) (\<lambda>ws.
     sum_bind (if_given ''normalize'' ext_bool ps) (\<lambda>nrm.
     Inr (filter_text ''amix'' ([(''inputs'', dec n)] @
       (case mode of None \<Rightarrow> [] | Some m \<Rightarrow> [(''duration'', m)]) @
       (case ws of None \<Rightarrow> [] | Some w \<Rightarrow> [(''weights'', str_join '' '' (map format_value w))]) @
       (case nrm of None \<Rightarrow> [] | Some b \<Rightarrow> [(''normalize'', if b then ''1'' else ''0'')]))))))))"

definition volume_new :: "rat \<Rightarrow> exn + string" where
  "volume_new v = sum_bind (require (0 \<le> v \<and> v \<le> 10)) (\<lambda>_. Inr (format_value v))"

definition ends_with :: "string \<Rightarrow> string \<Rightarrow> bool" where
  "ends_with s t \<longleftrightarrow> length t \<le> length s \<and> drop (length s - length t) s = t"

definition volume_from_db :: "effect_env \<Rightarrow> string \<Rightarrow> exn + string" where
  "volume_from_db E s = sum_bind (require (ends_with s ''dB'' \<and> ee_parse_f64 E (take (length s - 2) s) \<noteq> None)) (\<lambda>_. Inr s)"

definition build_volume :: "effect_env \<Rightarrow> params \<Rightarrow> exn + string" where
  "build_volume E ps = (let v = dict_get ''volume'' (JNum 1) ps in
     sum_bind (case v of JStr s \<Rightarrow> if ends_with s ''dB'' then volume_from_db E s else sum_bind (py_float E v) volume_new
        | _ \<Rightarrow> sum_bind (py_float E v) volume_new) (\<lambda>t.
     sum_bind (if_given ''precision'' (\<lambda>p. sum_bind (ext_str p) (\<lambda>m.
        sum_bind (require (m \<in> {''fixed'', ''float'', ''double''})) (\<lambda>_. Inr m))) ps) (\<lambda>prec.
     Inr (filter_text ''volume'' ([(''volume'', t)] @
       (case prec of None \<Rightarrow> [] | Some m \<Rightarrow> [(''precision'', m)]))))))"

definition fade_curves :: "string list" where
  "fade_curves = [''tri'', ''qsin'', ''hsin'', ''esin'', ''log'', ''ipar'', ''qua'', ''cub'', ''squ'', ''cbr'', ''par'']"

definition ext_curve :: "json_value \<Rightarrow> exn + string" where
  "ext_curve v = sum_bind (ext_str v) (\<lambda>c. sum_bind (require (c \<in> set fade_curves)) (\<lambda>_. Inr c))"

definition fade_new :: "json_value \<Rightarrow> json_value \<Rightarrow> exn + string \<times> rat" where
  "fade_new t d = sum_bind (ext_str t) (\<lambda>ft. sum_bind (ext_f64 d) (\<lambda>dur.
     sum_bind (require (ft \<in> {''in'', ''out''})) (\<lambda>_. sum_bind (require (0 < dur)) (\<lambda>_. Inr (ft, dur)))))"

definition build_audio_fade :: "effect_env \<Rightarrow> params \<Rightarrow> exn + string" where
  "build_audio_fade E ps =
     sum_bind (fade_new (dict_get ''fade_type'' (JStr ''in'') ps) (dict_get ''duration'' (JNum 1) ps)) (\<lambda>(ft, dur).
     sum_bind (if_given ''start_time'' ext_f64 ps) (\<lambda>st.
     sum_bind (if_given ''curve'' ext_curve ps) (\<lambda>c.
     Inr (filter_text ''afade'' ([(''t'', ft), (''d'', format_value dur)] @
       (case st of None \<Rightarrow> [] | Some x \<Rightarrow> [(''st'', format_value x)]) @
       (case c of None \<Rightarrow> [] | Some x \<Rightarrow> [(''curve'', x)]))))))"

definition build_acrossfade :: "effect_env \<Rightarrow> params \<Rightarrow> exn + string" where
  "build_acrossfade E ps =
     sum_bind (ext_f64 (dict_get ''duration'' (JNum 1) ps)) (\<lambda>d.
     sum_bind (require (0 < d \<and> d \<le> 60)) (\<lambda>_.
     sum_bind (if_given ''curve1'' ext_curve ps) (\<lambda>c1.
     sum_bind (if_given ''curve2'' ext_curve ps) (\<lambda>c2.
     sum_bind (if_given ''overlap'' ext_bool ps) (\<lambda>ov.
     Inr (filter_text ''acrossfade'' ([(''d'', format_value d)] @
       (case c1 of None \<Rightarrow> [] | Some x \<Rightarrow> [(''c1'', x)]) @
       (case c2 of None \<Rightarrow> [] | Some x \<Rightarrow> [(''c2'', x)]) @
       (case ov of None \<Rightarrow> [] | Some b \<Rightarrow> [(''o'', if b then ''1'' else ''0'')]))))))))"

text \<open>A setter that refuses what is out of its range.\<close>

definition ranged :: "(json_value \<Rightarrow> exn + rat) \<Rightarrow> rat \<Rightarrow> rat \<Rightarrow> json_value \<Rightarrow> exn + rat" where
  "ranged conv lo hi v = sum_bind (conv v) (\<lambda>r. sum_bind (require (lo \<le> r \<and> r \<le> hi)) (\<lambda>_. Inr r))"

definition ducking_graph :: "nat \<Rightarrow> rat \<Rightarrow> rat \<Rightarrow> rat \<Rightarrow> rat \<Rightarrow> filter_chain list" where
  "ducking_graph g thr ratio att rel = (let b = compose_branch g ''0:a'' 2;
     m = compose_merge (g + 1) (fc_outputs b) (ffilter_new ''sidechaincompress'' [(''threshold'', format_value thr),
       (''ratio'', format_value ratio), (''attack'', format_value att), (''release'', format_value rel)])
     in [b, m, compose_chain (g + 2) (auto_label (g + 1) 0) [ffilter_new ''anull'' []]])"

definition build_audio_ducking :: "effect_env \<Rightarrow> params \<Rightarrow> exn + string" where
  "build_audio_ducking E ps =
     sum_bind (if_given ''threshold'' (ranged ext_f64 (97563 / 100000000) 1) ps) (\<lambda>thr.
     sum_bind (if_given ''ratio'' (ranged ext_f64 1 20) ps) (\<lambda>ratio.
     sum_bind (if_given ''attack'' (ranged ext_f64 (1 / 100) 2000) ps) (\<lambda>att.
     sum_bind (if_given ''release'' (ranged ext_f64 (1 / 100) 9000) ps) (\<lambda>rel.
     Inr (graph_str (ducking_graph (ee_label_counter E) (get_or (1 / 8) thr) (get_or 2 ratio)
       (get_or 20 att) (get_or 250 rel)))))))"

subsection \<open>Voice repair\<close>

definition build_noise_reduction :: "effect_env \<Rightarrow> params \<Rightarrow> exn + string" where
  "build_noise_reduction E ps = (let mode = dict_get ''mode'' (JStr ''broadband'') ps in
     sum_bind (ext_str mode) (\<lambda>m.
     sum_bind (require (m \<in> {''broadband'', ''adeclick''})) (\<lambda>_.
     sum_bind (if m = ''broadband'' then if_given ''strength'' (ranged (py_float E) 0 1) ps else Inr None) (\<lambda>strength.
     sum_bind (if m = ''adeclick'' then if_given ''threshold'' (ranged (py_float E) 0 1) ps else Inr None) (\<lambda>_.
     Inr (if m = ''broadband''
          then filter_text ''afftdn'' [(''nr'', py_str_int (round_away (get_or (1 / 2) strength * 97)))]
          else filter_text ''adeclick'' []))))))"

definition build_deesser :: "effect_env \<Rightarrow> params \<Rightarrow> exn + string" where
  "build_deesser E ps =
     sum_bind (ranged (py_float E) 1000 16000 (dict_get ''frequency'' (JNum 6000) ps)) (\<lambda>f.
     sum_bind (if_given ''mode'' (\<lambda>v. sum_bind (ext_str v) (\<lambda>m.
        sum_bind (require (m \<in> {''wide'', ''split''})) (\<lambda>_. Inr m))) ps) (\<lambda>mode.
     Inr (filter_text ''deesser'' [(''f'', show_fixed 6 (f / 22050)),
       (''s'', if mode = Some ''split'' then ''i'' else ''o'')])))"

definition build_deplosive :: "effect_env \<Rightarrow> params \<Rightarrow> exn + string" where
  "build_deplosive E ps =
     sum_bind (if_given ''cutoff'' (ranged (py_float E) 10 200) ps) (\<lambda>c.
     sum_bind (if_given ''threshold'' (ranged (py_float E) 0 1) ps) (\<lambda>t.
     sum_bind (if_given ''ratio'' (ranged (py_float E) 1 20) ps) (\<lambda>r.
     Inr (plain_chain [ffilter_new ''highpass'' [(''f'', dec (nat \<lfloor>get_or 60 c\<rfloor>))],
       ffilter_new ''acompressor'' [(''threshold'', ee_show_f64 E (get_or (1 / 10) t)),
         (''ratio'', ee_show_f64 E (get_or 4 r)), (''attack'', ''5''), (''release'', ''50'')]]))))"

definition stretch_chain :: "rat \<Rightarrow> string" where
  "stretch_chain f = (case atempo_chain f of [] \<Rightarrow> plain_chain [ffilter_new ''atempo=1'' []]
     | vs \<Rightarrow> plain_chain (map (\<lambda>v. ffilter_new (''atempo='' @ format_value v) []) vs))"

definition build_time_stretch :: "effect_env \<Rightarrow> params \<Rightarrow> exn + string" where
  "build_time_stretch E ps =
     sum_bind (py_float E (dict_get ''factor'' (JNum 1) ps)) (\<lambda>f.
     (let mode = py_str E (dict_get ''mode'' (JStr ''atempo'') ps) in
     sum_bind (require (0 < f \<and> f \<le> 4)) (\<lambda>_.
     sum_bind (require (mode \<in> {''rubberband'', ''atempo'', ''auto''})) (\<lambda>_.
     Inr (if mode = ''rubberband'' \<or> (mode = ''auto'' \<and> ee_rubberband E)
          then plain_chain [ffilter_new ''rubberband'' [(''tempo'', format_value f), (''pitch'', ''1.0'')]]
          else stretch_chain f)))))"

subsection \<open>Mastering\<close>

definition build_mastering_limiter :: "effect_env \<Rightarrow> params \<Rightarrow> exn + string" where
  "build_mastering_limiter E ps =
     sum_bind (py_float E (dict_get ''ceiling_dbtp'' (JNum (-1)) ps)) (\<lambda>c.
     sum_bind (require (c \<le> 0)) (\<lambda>_.
     Inr (filter_text ''alimiter'' [(''limit'', show_fixed 6 (ee_exp10 E (c / 20))), (''level'', ''disabled'')])))"

definition build_loudness_normalize :: "effect_env \<Rightarrow> params \<Rightarrow> exn + string" where
  "build_loudness_normalize E ps =
     sum_bind (py_float E (dict_get ''delivery_profile_target_lufs'' (dict_get ''target_lufs'' (JNum (-16)) ps) ps)) (\<lambda>lufs.
     sum_bind (py_float E (dict_get ''ceiling_dbtp'' (JNum (-1)) ps)) (\<lambda>ceil.
     sum_bind (py_float E (dict_get ''lra'' (JNum 11) ps)) (\<lambda>lra.
     sum_bind (require (ceil \<le> 0)) (\<lambda>_.
     (let start = [(''I'', ee_show_f64 E lufs), (''TP'', ee_show_f64 E ceil), (''LRA'', ee_show_f64 E lra)] in
     if list_all (\<lambda>k. map_of ps k \<noteq> None) [''measured_i'', ''measured_lra'', ''measured_tp'', ''offset'']
     then
       sum_bind (py_float E (dict_get ''measured_i'' JNull ps)) (\<lambda>mi.
       sum_bind (py_float E (dict_get ''measured_lra'' JNull ps)) (\<lambda>ml.
       sum_bind (py_float E (dict_get ''measured_tp'' JNull ps)) (\<lambda>mt.
       sum_bind (py_float E (dict_get ''offset'' JNull ps)) (\<lambda>off.
       Inr (filter_text ''loudnorm'' (start @ [(''measured_I'', ee_show_f64 E mi), (''measured_TP'', ee_show_f64 E mt),
         (''measured_LRA'', ee_show_f64 E ml), (''offset'', ee_show_f64 E off),
         (''linear'', ''true''), (''print_format'', ''summary'')]))))))
     else Inr (filter_text ''loudnorm'' (start @ [(''print_format'', ''json'')])))))))"

text \<open>A band is a dictionary of floats; a key that is missing is a \<open>ValueError\<close>.\<close>

definition band_key :: "string \<Rightarrow> (string, rat) dict \<Rightarrow> exn + rat" where
  "band_key k b = (case map_of b k of None \<Rightarrow> Inl ValueError | Some r \<Rightarrow> Inr r)"

definition eq_band :: "(string, rat) dict \<Rightarrow> exn + rat \<times> rat \<times> rat" where
  "eq_band b = sum_bind (band_key ''frequency'' b) (\<lambda>f. sum_bind (band_key ''gain'' b) (\<lambda>g.
     sum_bind (band_key ''width'' b) (\<lambda>w. Inr (f, g, w))))"

definition eq_band_ok :: "rat \<times> rat \<times> rat \<Rightarrow> bool" where
  "eq_band_ok = (\<lambda>(f, g, w). 20 \<le> f \<and> f \<le> 20000 \<and> - 24 \<le> g \<and> g \<le> 24 \<and> 0 < w)"

definition build_parametric_eq :: "effect_env \<Rightarrow> params \<Rightarrow> exn + string" where
  "build_parametric_eq E ps =
     sum_bind (ext_list (ext_dict ext_f64) (dict_get ''bands'' (JList []) ps)) (\<lambda>ds.
     sum_bind (map_ok eq_band ds) (\<lambda>bs.
     sum_bind (require (bs \<noteq> [] \<and> list_all eq_band_ok bs)) (\<lambda>_.
     Inr (filter_text (''anequalizer='' @ str_join ''|'' (map (\<lambda>(i, f, g, w).
       ''c'' @ dec i @ '' f='' @ ee_show_f64 E f @ '' w='' @ ee_show_f64 E w @ '' g='' @ ee_show_f64 E g @ '' t=1'')
       (enumerate 0 bs))) []))))"

definition comp_band :: "(string, rat) dict \<Rightarrow> exn + rat \<times> rat \<times> rat \<times> rat" where
  "comp_band b = sum_bind (band_key ''threshold'' b) (\<lambda>t. sum_bind (band_key ''ratio'' b) (\<lambda>r.
     sum_bind (band_key ''attack'' b) (\<lambda>a. sum_bind (band_key ''release'' b) (\<lambda>l. Inr (t, r, a, l)))))"

definition compressor_graph :: "effect_env \<Rightarrow> (rat \<times> rat \<times> rat \<times> rat) list \<Rightarrow> filter_chain list" where
  "compressor_graph E bs = (let g = ee_label_counter E; n = length bs; b = compose_branch g ''0:a'' n;
     cs = map (\<lambda>(i, t, r, a, l). compose_chain (g + 1 + i) (auto_label g i)
       [ffilter_new ''acompressor'' [(''threshold'', show_fixed 9 (ee_exp10 E (t / 20))),
         (''ratio'', ee_show_f64 E r), (''attack'', ee_show_f64 E a), (''release'', ee_show_f64 E l)]]) (enumerate 0 bs)
     in b # cs @ [compose_merge (g + 1 + n) (concat (map fc_outputs cs)) (ffilter_new ''amix'' [(''inputs'', dec n)])])"

text \<open>With a single band \<open>compose_branch\<close> refuses and the core panics, which Python sees as an
  exception of its own.\<close>

definition build_multiband_compressor :: "effect_env \<Rightarrow> params \<Rightarrow> exn + string" where
  "build_multiband_compressor E ps =
     sum_bind (ext_list (ext_dict ext_f64) (dict_get ''bands'' (JList []) ps)) (\<lambda>ds.
     sum_bind (map_ok comp_band ds) (\<lambda>bs.
     sum_bind (require (bs \<noteq> [] \<and> list_all (\<lambda>(t, r, a, l). t < 0 \<and> 1 < r) bs)) (\<lambda>_.
     if length bs < 2 then Inl RuntimeError else Inr (graph_str (compressor_graph E bs)))))"

subsection \<open>Space\<close>

text \<open>The core's \<open>Automation\<close> is an object of its own: no JSON value is one.\<close>

definition ext_automation :: "json_value \<Rightarrow> exn + unit" where
  "ext_automation v = Inl TypeError"

definition clamp :: "rat \<Rightarrow> rat \<Rightarrow> rat \<Rightarrow> rat" where
  "clamp lo hi r = (if r < lo then lo else if hi < r then hi else r)"

definition build_pan :: "effect_env \<Rightarrow> params \<Rightarrow> exn + string" where
  "build_pan E ps =
     sum_bind (py_float E (dict_get ''position'' (JNum 0) ps)) (\<lambda>r.
     sum_bind (if_given ''automation'' ext_automation ps) (\<lambda>_.
     (let p = clamp (-1) 1 r in
     Inr (filter_text (''pan=stereo|c0='' @ trim_decimal (show_fixed 4 (max (1 - p) 0)) @ ''*c0|c1='' @
       trim_decimal (show_fixed 4 (max (1 + p) 0)) @ ''*c1'') []))))"

definition build_convolution_reverb :: "effect_env \<Rightarrow> params \<Rightarrow> exn + string" where
  "build_convolution_reverb E ps = (let ir_name = py_str E (dict_get ''ir_name'' (JStr ''hall_small'') ps) in
     sum_bind (py_float E (dict_get ''mix'' (JNum (1 / 2)) ps)) (\<lambda>m.
     Inr (filter_text ''afir'' [(''dry'', ''1''), (''wet'', ee_show_f32 E (clamp 0 1 m))])))"

end
