(* ===== verification/Effect_Video.thy ===== *)
theory Effect_Video
  imports Effect_Audio
begin

text \<open>
  The build functions of the video effects of \<open>src/stoat_ferret/effects/definitions.py\<close>, with the builders
  of the Rust core they call: overlays, fades and transitions, speed, geometry, colour, generators.
\<close>

subsection \<open>Values inside a filter\<close>

definition escape_drawtext :: "string \<Rightarrow> string" where
  "escape_drawtext s = concat (map (\<lambda>c.
     if c = CHR 0x5C then [CHR 0x5C, CHR 0x5C]
     else if c = CHR 0x27 then [CHR 0x27, CHR 0x5C, CHR 0x27, CHR 0x27]
     else if c \<in> {CHR '':'', CHR ''['', CHR '']'', CHR '';''} then [CHR 0x5C, c]
     else if c = CHR 0x0A then [CHR 0x5C, CHR ''n'']
     else if c = CHR 0x0D then [CHR 0x5C, CHR ''r'']
     else if c = CHR ''%'' then ''%%''
     else [c]) s)"

definition is_lower :: "char \<Rightarrow> bool" where
  "is_lower c \<longleftrightarrow> CHR ''a'' \<le> c \<and> c \<le> CHR ''z''"

definition is_upper :: "char \<Rightarrow> bool" where
  "is_upper c \<longleftrightarrow> CHR ''A'' \<le> c \<and> c \<le> CHR ''Z''"

definition is_alpha :: "char \<Rightarrow> bool" where
  "is_alpha c \<longleftrightarrow> is_lower c \<or> is_upper c"

definition is_decimal :: "char \<Rightarrow> bool" where
  "is_decimal c \<longleftrightarrow> CHR ''0'' \<le> c \<and> c \<le> CHR ''9''"

definition is_hex :: "char \<Rightarrow> bool" where
  "is_hex c \<longleftrightarrow> is_decimal c \<or> (CHR ''a'' \<le> c \<and> c \<le> CHR ''f'') \<or> (CHR ''A'' \<le> c \<and> c \<le> CHR ''F'')"

definition is_space :: "char \<Rightarrow> bool" where
  "is_space c \<longleftrightarrow> c \<in> {CHR '' '', CHR 0x09, CHR 0x0A, CHR 0x0B, CHR 0x0C, CHR 0x0D}"

definition to_lower :: "string \<Rightarrow> string" where
  "to_lower s = map (\<lambda>c. if is_upper c then char_of ((of_char c :: nat) + 32) else c) s"

definition to_upper :: "string \<Rightarrow> string" where
  "to_upper s = map (\<lambda>c. if is_lower c then char_of ((of_char c :: nat) - 32) else c) s"

definition trim :: "string \<Rightarrow> string" where
  "trim s = rev (dropWhile is_space (rev (dropWhile is_space s)))"

definition replace_char :: "char \<Rightarrow> string \<Rightarrow> string \<Rightarrow> string" where
  "replace_char a b s = concat (map (\<lambda>c. if c = a then b else [c]) s)"

definition quoted :: "string \<Rightarrow> string" where
  "quoted s = CHR 0x27 # s @ [CHR 0x27]"

text \<open>\<open>emit_filter_value\<close>, by the kind of the value.\<close>

definition emit_expression :: "string \<Rightarrow> exn + string" where
  "emit_expression s = sum_bind (require (CHR 0x27 \<notin> set s)) (\<lambda>_. Inr (quoted s))"

definition drive_letter :: "string \<Rightarrow> bool" where
  "drive_letter s = (case s of a # b # _ \<Rightarrow> is_alpha a \<and> b = CHR '':'' | _ \<Rightarrow> False)"

definition emit_path :: "string \<Rightarrow> exn + string" where
  "emit_path s =
     sum_bind (require (CHR 0x27 \<notin> set s)) (\<lambda>_.
     sum_bind (require (CHR '':'' \<notin> set (if drive_letter s then take 1 s @ drop 2 s else s))) (\<lambda>_.
     sum_bind (require (CHR '','' \<notin> set s)) (\<lambda>_.
     sum_bind (require (CHR '';'' \<notin> set s)) (\<lambda>_.
     if take 2 s = [CHR 0x5C, CHR 0x5C] \<or> take 2 s = ''//'' then Inr (quoted (replace_char CHR 0x5C ''/'' s))
     else if drive_letter s then Inr (quoted (take 1 s @ [CHR 0x5C, CHR '':''] @ replace_char CHR 0x5C ''/'' (drop 2 s)))
     else sum_bind (require (CHR 0x5C \<notin> set s)) (\<lambda>_. Inr (quoted s))))))"

definition split_spaces :: "string \<Rightarrow> string list" where
  "split_spaces s = filter (\<lambda>w. w \<noteq> []) (str_split CHR '' '' (map (\<lambda>c. if is_space c then CHR '' '' else c) s))"

definition knee_point :: "effect_env \<Rightarrow> string \<Rightarrow> (rat \<times> rat) option" where
  "knee_point E w = (let x = takeWhile (\<lambda>c. c \<noteq> CHR ''/'') w; rest = dropWhile (\<lambda>c. c \<noteq> CHR ''/'') w in
     if rest = [] then None
     else case (ee_parse_f64 E x, ee_parse_f64 E (tl rest)) of (Some a, Some b) \<Rightarrow> Some (a, b) | _ \<Rightarrow> None)"

fun knees_ok :: "effect_env \<Rightarrow> (rat \<times> rat) option \<Rightarrow> string list \<Rightarrow> bool" where
  "knees_ok E prev [] = True"
| "knees_ok E prev (w # ws) = (case knee_point E w of None \<Rightarrow> False
     | Some (x, y) \<Rightarrow> 0 \<le> x \<and> x \<le> 1 \<and> 0 \<le> y \<and> y \<le> 1 \<and>
         (case prev of None \<Rightarrow> True | Some (px, py) \<Rightarrow> px < x \<and> py \<le> y) \<and> knees_ok E (Some (x, y)) ws)"

definition emit_knees :: "effect_env \<Rightarrow> string \<Rightarrow> exn + string" where
  "emit_knees E s = sum_bind (require (knees_ok E None (split_spaces s) \<and> split_spaces s \<noteq> [])) (\<lambda>_. Inr (quoted s))"

definition parse_color_to_hex :: "string \<Rightarrow> exn + string" where
  "parse_color_to_hex c =
     (let hex = (if take 1 c = ''#'' then Some (drop 1 c)
                 else if take 2 c = ''0x'' \<or> take 2 c = ''0X'' then Some (drop 2 c) else None) in
      case hex of
        Some h \<Rightarrow> sum_bind (require (length h = 6 \<and> list_all is_hex h)) (\<lambda>_. Inr (''0x'' @ to_upper h))
      | None \<Rightarrow> sum_bind (require (trim c \<noteq> [] \<and> list_all is_alpha (trim c))) (\<lambda>_. Inr (to_lower (trim c))))"

subsection \<open>Text, fades, transitions\<close>

definition text_position :: "string \<Rightarrow> nat \<Rightarrow> exn + string \<times> string" where
  "text_position p m = (let s = dec m in
     if p = ''center'' then Inr (''(w-text_w)/2'', ''(h-text_h)/2'')
     else if p = ''bottom_center'' then Inr (''(w-text_w)/2'', ''h-text_h-'' @ s)
     else if p = ''top_left'' then Inr (s, s)
     else if p = ''top_right'' then Inr (''w-text_w-'' @ s, s)
     else if p = ''bottom_left'' then Inr (s, ''h-text_h-'' @ s)
     else if p = ''bottom_right'' then Inr (''w-text_w-'' @ s, ''h-text_h-'' @ s)
     else if p = ''absolute'' then Inr (''0'', ''0'')
     else Inl ValueError)"

definition build_text_overlay :: "effect_env \<Rightarrow> params \<Rightarrow> exn + string" where
  "build_text_overlay E ps =
     sum_bind (ext_str (dict_get ''text'' (JStr []) ps)) (\<lambda>t.
     sum_bind (if_given ''fontsize'' (ext_unsigned 32) ps) (\<lambda>sz.
     sum_bind (if_given ''fontcolor'' ext_str ps) (\<lambda>col.
     sum_bind (if_given ''position'' (\<lambda>p. sum_bind (ext_str p) (\<lambda>pos.
        sum_bind (ext_unsigned 32 (dict_get ''margin'' (JInt 10) ps)) (text_position pos))) ps) (\<lambda>xy.
     sum_bind (if_given ''font'' ext_str ps) (\<lambda>font.
     Inr (filter_text ''drawtext'' ([(''text'', escape_drawtext t)] @
       (case font of None \<Rightarrow> [] | Some f \<Rightarrow> [(''font'', f)]) @
       [(''fontsize'', dec (get_or 16 sz)), (''fontcolor'', get_or ''black'' col)] @
       (case xy of None \<Rightarrow> [] | Some (x, y) \<Rightarrow> [(''x'', x), (''y'', y)]))))))))"

definition build_video_fade :: "effect_env \<Rightarrow> params \<Rightarrow> exn + string" where
  "build_video_fade E ps =
     sum_bind (fade_new (dict_get ''fade_type'' (JStr ''in'') ps) (dict_get ''duration'' (JNum 1) ps)) (\<lambda>(ft, dur).
     sum_bind (if_given ''start_time'' ext_f64 ps) (\<lambda>st.
     sum_bind (if_given ''color'' ext_str ps) (\<lambda>c.
     sum_bind (if_given ''alpha'' ext_bool ps) (\<lambda>al.
     Inr (filter_text ''fade'' ([(''t'', ft), (''d'', format_value dur)] @
       (case st of None \<Rightarrow> [] | Some x \<Rightarrow> [(''st'', format_value x)]) @
       (case c of None \<Rightarrow> [] | Some x \<Rightarrow> [(''c'', x)]) @
       (if al = Some True then [(''alpha'', ''1'')] else [])))))))"

definition transition_names :: "string list" where
  "transition_names =
    [''fade'', ''fadeblack'', ''fadewhite'', ''fadegrays'', ''fadefast'', ''fadeslow'',
     ''wipeleft'', ''wiperight'', ''wipeup'', ''wipedown'', ''wipetl'', ''wipetr'', ''wipebl'', ''wipebr'',
     ''slideleft'', ''slideright'', ''slideup'', ''slidedown'',
     ''smoothleft'', ''smoothright'', ''smoothup'', ''smoothdown'',
     ''circlecrop'', ''rectcrop'', ''circleopen'', ''circleclose'', ''radial'',
     ''vertopen'', ''vertclose'', ''horzopen'', ''horzclose'',
     ''dissolve'', ''pixelize'', ''distance'', ''hblur'',
     ''diagtl'', ''diagtr'', ''diagbl'', ''diagbr'',
     ''hlslice'', ''hrslice'', ''vuslice'', ''vdslice'',
     ''squeezeh'', ''squeezev'', ''zoomin'',
     ''hlwind'', ''hrwind'', ''vuwind'', ''vdwind'',
     ''coverleft'', ''coverright'', ''coverup'', ''coverdown'',
     ''revealleft'', ''revealright'', ''revealup'', ''revealdown'', ''custom'']"

definition build_xfade :: "effect_env \<Rightarrow> params \<Rightarrow> exn + string" where
  "build_xfade E ps =
     sum_bind (ext_str (dict_get ''transition'' (JStr ''fade'') ps)) (\<lambda>t.
     sum_bind (require (t \<in> set transition_names)) (\<lambda>_.
     sum_bind (ext_f64 (dict_get ''duration'' (JNum 1) ps)) (\<lambda>d.
     sum_bind (ext_f64 (dict_get ''offset'' (JNum 0) ps)) (\<lambda>off.
     sum_bind (require (0 \<le> d \<and> d \<le> 60)) (\<lambda>_.
     Inr (filter_text ''xfade'' [(''transition'', t), (''duration'', format_value d), (''offset'', format_value off)]))))))"

subsection \<open>Speed and time\<close>

definition build_speed_control :: "effect_env \<Rightarrow> params \<Rightarrow> exn + string" where
  "build_speed_control E ps =
     sum_bind (ext_f64 (dict_get ''factor'' (JNum 2) ps)) (\<lambda>f.
     sum_bind (require (1 / 4 \<le> f \<and> f \<le> 4)) (\<lambda>_.
     Inr (str_join ''; '' (filter_text (''setpts='' @ format_value (1 / f) @ ''*PTS'') [] #
       (if json_truthy (dict_get ''drop_audio'' (JBool False) ps) then []
        else map (\<lambda>v. filter_text (''atempo='' @ format_value v) []) (atempo_chain f))))))"

definition speed_segment :: "effect_env \<Rightarrow> json_value \<Rightarrow> exn + nat \<times> nat \<times> rat" where
  "speed_segment E v =
     sum_bind (sum_bind (py_item ''start_frame'' v) (py_int_of E)) (\<lambda>a.
     sum_bind (sum_bind (py_item ''end_frame'' v) (py_int_of E)) (\<lambda>b.
     sum_bind (sum_bind (py_item ''speed_factor'' v) (py_float E)) (\<lambda>f.
     sum_bind (unsigned 64 a) (\<lambda>a'. sum_bind (unsigned 64 b) (\<lambda>b'.
     sum_bind (require (0 < f \<and> f \<le> 100)) (\<lambda>_. Inr (a', b', f)))))))"

definition variable_speed_graph :: "(nat \<times> nat \<times> rat) list \<Rightarrow> string" where
  "variable_speed_graph segs = (let n = length segs in
     str_join '';'' (
       map (\<lambda>(i, a, b, f). ''[0:v]trim=start_frame='' @ dec a @ '':end_frame='' @ dec b @ '',setpts='' @
         format_value (1 / f) @ ''*(PTS-STARTPTS)[vseg'' @ dec i @ '']'') (enumerate 0 segs) @
       map (\<lambda>(i, a, b, f). ''[0:a]atrim=start_frame='' @ dec a @ '':end_frame='' @ dec b @
         '',asetpts=NB_CONSUMED_SAMPLES/SR/TB'' @ concat (map (\<lambda>v. '',atempo='' @ format_value v) (atempo_chain f)) @
         ''[aseg'' @ dec i @ '']'') (enumerate 0 segs) @
       [concat (map (\<lambda>i. ''[vseg'' @ dec i @ '']'') [0..<n]) @ ''concat=n='' @ dec n @ '':v=1:a=0[vout]'',
        concat (map (\<lambda>i. ''[aseg'' @ dec i @ '']'') [0..<n]) @ ''concat=n='' @ dec n @ '':v=0:a=1[aout]'']))"

definition build_variable_speed :: "effect_env \<Rightarrow> params \<Rightarrow> exn + string" where
  "build_variable_speed E ps =
     sum_bind (py_iter (dict_get ''segments'' (JList []) ps)) (\<lambda>vs.
     sum_bind (map_ok (speed_segment E) vs) (\<lambda>segs.
     sum_bind (require (segs \<noteq> [])) (\<lambda>_. Inr (variable_speed_graph segs))))"

definition build_framerate_convert :: "effect_env \<Rightarrow> params \<Rightarrow> exn + string" where
  "build_framerate_convert E ps =
     sum_bind (py_float E (dict_get ''target_fps'' (JNum 30) ps)) (\<lambda>fps.
     (let mode = py_str E (dict_get ''mode'' (JStr ''duplicate'') ps) in
     sum_bind (require (mode \<in> {''blend'', ''optical_flow'', ''duplicate''})) (\<lambda>_.
     sum_bind (require (0 < fps)) (\<lambda>_.
     Inr (filter_text (
       if mode = ''blend'' then ''minterpolate=fps='' @ format_value fps @ '':mi_mode=blend''
       else if mode = ''optical_flow'' then ''minterpolate=fps='' @ format_value fps @ '':mi_mode=mci''
       else ''framerate=fps='' @ format_value fps) [])))))"

definition build_freeze_frame :: "effect_env \<Rightarrow> params \<Rightarrow> exn + string" where
  "build_freeze_frame E ps =
     sum_bind (py_int_of E (dict_get ''frame_number'' (JInt 0) ps)) (\<lambda>n.
     sum_bind (py_float E (dict_get ''duration_s'' (JNum 1) ps)) (\<lambda>d.
     sum_bind (unsigned 64 n) (\<lambda>_.
     sum_bind (require (0 < d)) (\<lambda>_.
     Inr (filter_text (''tpad=stop_mode=clone:stop_duration='' @ format_value d) [])))))"

definition build_reverse :: "effect_env \<Rightarrow> params \<Rightarrow> exn + string" where
  "build_reverse E ps = Inr (filter_text ''reverse'' [])"

end
