(* ===== verification/Timeline_Requests.thy ===== *)
theory Timeline_Requests
  imports Project_Requests Composition Effect_Video
begin

text \<open>
  The requests on the timeline of a project, \<open>src/stoat_ferret/api/routers/timeline.py\<close>, over the repositories of a
  \<open>media_repos\<close>. A request runs alone; new ids and the time are arguments, and so is the text of the
  composition graph of the Rust core, which is only sent back.
\<close>

subsection \<open>The answer to a timeline request\<close>

record timeline_response =
  tp_project_id :: string
  tp_tracks :: "(track \<times> clip list) list"
  tp_duration :: rat

fun group_clips :: "clip list \<Rightarrow> (string, clip list) dict \<Rightarrow> (string, clip list) dict" where
  "group_clips [] d = d"
| "group_clips (c # cs) d = group_clips cs (case cl_track_id c of None \<Rightarrow> d
     | Some t \<Rightarrow> AList.update t (get_or [] (map_of d t) @ [c]) d)"

definition get_clips_by_track :: "'s media_repos \<Rightarrow> string \<Rightarrow> ('s, (string, clip list) dict) op" where
  "get_clips_by_track R pid = bind_op (clr_list_by_project (mx_clips R) pid) (\<lambda>cs.
     ret (map (\<lambda>(t, cs). (t, sort_key (\<lambda>c. get_or 0 (cl_timeline_start c)) cs)) (group_clips cs [])))"

definition track_clips :: "(string, clip list) dict \<Rightarrow> track \<Rightarrow> clip list" where
  "track_clips d t = get_or [] (map_of d (tk_id t))"

definition max_end :: "clip list \<Rightarrow> rat" where
  "max_end cs = foldl (\<lambda>m c. case cl_timeline_end c of None \<Rightarrow> m | Some e \<Rightarrow> if m < e then e else m) 0 cs"

definition build_timeline_response :: "string \<Rightarrow> track list \<Rightarrow> (string, clip list) dict \<Rightarrow> timeline_response" where
  "build_timeline_response pid tracks d = \<lparr>tp_project_id = pid, tp_tracks = map (\<lambda>t. (t, track_clips d t)) tracks,
     tp_duration = max_end (concat (map (track_clips d) tracks))\<rparr>"

subsection \<open>Tracks\<close>

record track_create =
  tc_track_type :: string
  tc_label :: string
  tc_z_index :: "int option"
  tc_muted :: bool
  tc_locked :: bool
  tc_kind :: "string option"
  tc_volume_envelope :: "string option"
  tc_weight :: rat

definition new_track :: "string \<Rightarrow> string \<Rightarrow> nat \<Rightarrow> track_create \<Rightarrow> track" where
  "new_track new_id pid i td = \<lparr>tk_id = new_id, tk_project_id = pid, tk_track_type = tc_track_type td, tk_label = tc_label td,
     tk_z_index = get_or (int i) (tc_z_index td), tk_muted = tc_muted td, tk_locked = tc_locked td, tk_kind = tc_kind td,
     tk_volume_envelope = tc_volume_envelope td, tk_weight = tc_weight td\<rparr>"

text \<open>The loop that creates tracks, from the \<open>i\<close>-th on; \<open>ids\<close> are the new ids.\<close>

fun create_tracks :: "'s media_repos \<Rightarrow> string \<Rightarrow> (nat \<Rightarrow> string) \<Rightarrow> nat \<Rightarrow> track_create list \<Rightarrow> ('s, track list) op" where
  "create_tracks R pid ids i [] = ret []"
| "create_tracks R pid ids i (td # tds) = (let t = new_track (ids i) pid i td in
     seq_op (tlr_create_track (mx_timeline R) t)
       (bind_op (create_tracks R pid ids (Suc i) tds) (\<lambda>ts. ret (t # ts))))"

definition delete_tracks :: "'s media_repos \<Rightarrow> track list \<Rightarrow> ('s, unit) op" where
  "delete_tracks R ts = for_each ts (\<lambda>t. seq_op (tlr_delete_track (mx_timeline R) (tk_id t)) (ret ()))"

definition put_timeline :: "'s media_repos \<Rightarrow> (nat \<Rightarrow> string) \<Rightarrow> string \<Rightarrow> track_create list \<Rightarrow> ('s, timeline_response) op" where
  "put_timeline R ids pid tracks_data = seq_op (get_project R pid)
     (bind_op (tlr_get_tracks_by_project (mx_timeline R) pid) (\<lambda>existing.
       seq_op (delete_tracks R existing)
         (bind_op (create_tracks R pid ids 0 tracks_data) (\<lambda>new_tracks.
           bind_op (get_clips_by_track R pid) (\<lambda>d.
             seq_op (mx_broadcast R TIMELINE_UPDATED [(''project_id'', JStr pid)])
               (ret (build_timeline_response pid new_tracks d)))))))"

definition get_timeline :: "'s media_repos \<Rightarrow> string \<Rightarrow> ('s, timeline_response) op" where
  "get_timeline R pid = seq_op (get_project R pid)
     (bind_op (tlr_get_tracks_by_project (mx_timeline R) pid) (\<lambda>tracks.
       bind_op (get_clips_by_track R pid) (\<lambda>d. ret (build_timeline_response pid tracks d))))"

subsection \<open>Clips on tracks\<close>

definition get_project_track :: "'s media_repos \<Rightarrow> string \<Rightarrow> string \<Rightarrow> ('s, track) op" where
  "get_project_track R pid tid = bind_op (tlr_get_track (mx_timeline R) tid) (\<lambda>t. case t of
     None \<Rightarrow> throw (HTTPError 404 ''TRACK_NOT_FOUND'')
   | Some t \<Rightarrow> if tk_project_id t \<noteq> pid then throw (HTTPError 404 ''TRACK_NOT_FOUND'') else ret t)"

definition timeline_updated :: "'s media_repos \<Rightarrow> string \<Rightarrow> string \<Rightarrow> ('s, unit) op" where
  "timeline_updated R pid cid = mx_broadcast R TIMELINE_UPDATED [(''project_id'', JStr pid), (''clip_id'', JStr cid)]"

definition add_timeline_clip ::
  "'s media_repos \<Rightarrow> time \<Rightarrow> string \<Rightarrow> string \<Rightarrow> string \<Rightarrow> rat \<Rightarrow> rat \<Rightarrow> ('s, clip) op" where
  "add_timeline_clip R now pid cid tid start end = seq_op (get_project R pid) (seq_op (get_project_track R pid tid)
     (bind_op (get_clip R pid cid) (\<lambda>c.
       if cl_track_id c \<noteq> None then throw (HTTPError 409 ''CLIP_ALREADY_PLACED'')
       else if end \<le> start then throw (HTTPError 422 ''INVALID_POSITION'')
       else (let c = c\<lparr>cl_track_id := Some tid, cl_timeline_start := Some start, cl_timeline_end := Some end, cl_updated_at := now\<rparr> in
         seq_op (clr_update (mx_clips R) c) (seq_op (timeline_updated R pid cid) (ret c))))))"

record timeline_clip_patch =
  tu_timeline_start :: "rat option"
  tu_timeline_end :: "rat option"
  tu_track_id :: "string option"

definition given_or :: "'a option \<Rightarrow> 'a option \<Rightarrow> 'a option" where
  "given_or new old = (case new of None \<Rightarrow> old | Some x \<Rightarrow> Some x)"

definition inverted :: "clip \<Rightarrow> bool" where
  "inverted c \<longleftrightarrow> (case (cl_timeline_start c, cl_timeline_end c) of (Some a, Some b) \<Rightarrow> b \<le> a | _ \<Rightarrow> False)"

definition update_timeline_clip ::
  "'s media_repos \<Rightarrow> time \<Rightarrow> string \<Rightarrow> string \<Rightarrow> timeline_clip_patch \<Rightarrow> ('s, clip) op" where
  "update_timeline_clip R now pid cid b = seq_op (get_project R pid) (bind_op (get_clip R pid cid) (\<lambda>c.
     seq_op (case tu_track_id b of None \<Rightarrow> ret () | Some tid \<Rightarrow> seq_op (get_project_track R pid tid) (ret ()))
       (let c = c\<lparr>cl_track_id := given_or (tu_track_id b) (cl_track_id c),
            cl_timeline_start := given_or (tu_timeline_start b) (cl_timeline_start c),
            cl_timeline_end := given_or (tu_timeline_end b) (cl_timeline_end c)\<rparr> in
         if inverted c then throw (HTTPError 422 ''INVALID_POSITION'')
         else (let c = c\<lparr>cl_updated_at := now\<rparr> in
           seq_op (clr_update (mx_clips R) c) (seq_op (timeline_updated R pid cid) (ret c))))))"

definition remove_timeline_clip :: "'s media_repos \<Rightarrow> time \<Rightarrow> string \<Rightarrow> string \<Rightarrow> ('s, unit) op" where
  "remove_timeline_clip R now pid cid = seq_op (get_project R pid) (bind_op (get_clip R pid cid) (\<lambda>c.
     seq_op (clr_update (mx_clips R) (c\<lparr>cl_track_id := None, cl_timeline_start := None, cl_timeline_end := None,
         cl_updated_at := now\<rparr>))
       (timeline_updated R pid cid)))"

subsection \<open>Transitions\<close>

definition transition_type :: "string \<Rightarrow> exn + string" where
  "transition_type s = (if s \<in> set transition_names then Inr s else Inl ValueError)"

type_synonym composition_graph = "composition_clip list \<Rightarrow> transition_spec list \<Rightarrow> int \<Rightarrow> int \<Rightarrow> exn + string"

record transition_create =
  tn_clip_a_id :: string
  tn_clip_b_id :: string
  tn_transition_type :: string
  tn_duration :: rat

record transition_response =
  tq_id :: string
  tq_filter_string :: string
  tq_timeline_offset :: rat
  tq_clips :: "composition_clip list"

text \<open>The spans of two clips on one track, the earlier one first; \<open>None\<close> when they do not meet.\<close>

definition adjacent_spans :: "clip \<Rightarrow> clip \<Rightarrow> ((rat \<times> rat) \<times> (rat \<times> rat)) option" where
  "adjacent_spans a b = (if cl_track_id a = None \<or> cl_track_id b = None \<or> cl_track_id a \<noteq> cl_track_id b then None
     else (case (cl_timeline_start a, cl_timeline_end a, cl_timeline_start b, cl_timeline_end b) of
       (Some as, Some ae, Some bs, Some be) \<Rightarrow>
         (let (x, y) = (if bs < as then ((bs, be), (as, ae)) else ((as, ae), (bs, be))) in
           if snd x \<noteq> fst y then None else Some (x, y))
     | _ \<Rightarrow> None))"

definition composition_clip :: "nat \<Rightarrow> rat \<times> rat \<Rightarrow> composition_clip" where
  "composition_clip i sp = \<lparr>co_input_index = i, co_timeline_start = fst sp, co_timeline_end = snd sp,
     co_track_index = 0, co_z_index = 0\<rparr>"

definition append_transition :: "(string, json_value) dict \<Rightarrow> time \<Rightarrow> project \<Rightarrow> project" where
  "append_transition t now p = p\<lparr>pj_transitions := Some (get_or [] (pj_transitions p) @ [t]), pj_updated_at := now\<rparr>"

definition add_transition ::
  "'s media_repos \<Rightarrow> composition_graph \<Rightarrow> string \<Rightarrow> time \<Rightarrow> string \<Rightarrow> transition_create \<Rightarrow> ('s, transition_response) op" where
  "add_transition R graph new_id now pid b = bind_op (get_project R pid) (\<lambda>p.
     bind_op (get_clip R pid (tn_clip_a_id b)) (\<lambda>ca. bind_op (get_clip R pid (tn_clip_b_id b)) (\<lambda>cb.
     case adjacent_spans ca cb of None \<Rightarrow> throw (HTTPError 422 ''CLIPS_NOT_ADJACENT'')
     | Some (x, y) \<Rightarrow> (case transition_type (tn_transition_type b) of Inl e \<Rightarrow> throw e
       | Inr t \<Rightarrow> (let
           spec = \<lparr>ts_transition_type = t, ts_duration = tn_duration b, ts_offset = 0\<rparr>;
           adjusted = calculate_composition_positions [composition_clip 0 x, composition_clip 1 y] [spec];
           offset = co_timeline_start (adjusted ! 1) - fst y in
         case graph adjusted [spec] (pj_output_width p) (pj_output_height p) of Inl e \<Rightarrow> throw e
         | Inr text \<Rightarrow>
             seq_op (pjr_update (mx_projects R) (append_transition [(''id'', JStr new_id), (''clip_a_id'', JStr (tn_clip_a_id b)),
               (''clip_b_id'', JStr (tn_clip_b_id b)), (''transition_type'', JStr (tn_transition_type b)),
               (''duration'', JNum (tn_duration b))] now p))
             (seq_op (mx_broadcast R TRANSITION_APPLIED [(''project_id'', JStr pid), (''transition_id'', JStr new_id)])
             (ret \<lparr>tq_id = new_id, tq_filter_string = text, tq_timeline_offset = offset, tq_clips = adjusted\<rparr>)))))))"

text \<open>The clips and transitions the duration is computed from, once a transition is gone.\<close>

definition placed_clips :: "clip list \<Rightarrow> composition_clip list" where
  "placed_clips cs = concat (map (\<lambda>(i, c). case (cl_timeline_start c, cl_timeline_end c) of
     (Some a, Some b) \<Rightarrow> [composition_clip i (a, b)] | _ \<Rightarrow> []) (zip [0..<length cs] cs))"

definition stored_transition :: "(string, json_value) dict \<Rightarrow> exn + transition_spec" where
  "stored_transition t = sum_bind (py_item ''transition_type'' (JObj t)) (\<lambda>ty. sum_bind (ext_str ty) (\<lambda>ty.
     sum_bind (transition_type ty) (\<lambda>ty.
     sum_bind (py_item ''duration'' (JObj t)) (\<lambda>d. sum_bind (ext_f64 d) (\<lambda>d.
     Inr \<lparr>ts_transition_type = ty, ts_duration = d, ts_offset = 0\<rparr>)))))"

definition has_id :: "string \<Rightarrow> (string, json_value) dict \<Rightarrow> bool" where
  "has_id k t \<longleftrightarrow> map_of t ''id'' = Some (JStr k)"

definition delete_transition :: "'s media_repos \<Rightarrow> time \<Rightarrow> string \<Rightarrow> string \<Rightarrow> ('s, timeline_response) op" where
  "delete_transition R now pid transition_id = bind_op (get_project R pid) (\<lambda>p. case pj_transitions p of
     None \<Rightarrow> throw (HTTPError 404 ''NOT_FOUND'')
   | Some ts \<Rightarrow> (let kept = filter (\<lambda>t. \<not> has_id transition_id t) ts in
       if length kept = length ts then throw (HTTPError 404 ''NOT_FOUND'')
       else seq_op (pjr_update (mx_projects R) (p\<lparr>pj_transitions := Some kept, pj_updated_at := now\<rparr>))
         (bind_op (tlr_get_tracks_by_project (mx_timeline R) pid) (\<lambda>tracks.
         bind_op (get_clips_by_track R pid) (\<lambda>d.
         case map_ok stored_transition kept of Inl e \<Rightarrow> throw e
         | Inr specs \<Rightarrow> (let
             cs = concat (map (\<lambda>t. placed_clips (track_clips d t)) tracks);
             duration = (if cs \<noteq> [] then calculate_timeline_duration cs specs else 0) in
           seq_op (mx_broadcast R TRANSITION_APPLIED [(''project_id'', JStr pid), (''transition_id'', JStr transition_id)])
             (ret \<lparr>tp_project_id = pid, tp_tracks = map (\<lambda>t. (t, track_clips d t)) tracks, tp_duration = duration\<rparr>)))))))"

end
