(* ===== verification/Effect_Colour.thy ===== *)
theory Effect_Colour
  imports Effect_Video
begin

text \<open>
  The build functions of the remaining video effects of \<open>src/stoat_ferret/effects/definitions.py\<close>, with
  the builders of the Rust core they call: looks, keys and colour, geometry, generators, subtitles.
\<close>

subsection \<open>Looks\<close>

definition build_blur :: "effect_env \<Rightarrow> params \<Rightarrow> exn + string" where
  "build_blur E ps =
     sum_bind (py_float E (dict_get ''sigma'' (JNum 2) ps)) (\<lambda>sigma.
     (let bt = py_str E (dict_get ''blur_type'' (JStr ''gaussian'') ps) in
     sum_bind (require (0 < sigma)) (\<lambda>_.
     sum_bind (require (bt \<in> {''gaussian'', ''directional''})) (\<lambda>_.
     sum_bind (if_given ''automation'' ext_automation ps) (\<lambda>_.
     Inr (if bt = ''directional'' then filter_text ''dblur'' [(''radius'', py_str_int (round_away sigma))]
          else filter_text ''gblur'' [(''sigma'', ee_show_f32 E sigma)]))))))"

definition build_sharpen :: "effect_env \<Rightarrow> params \<Rightarrow> exn + string" where
  "build_sharpen E ps =
     sum_bind (py_float E (dict_get ''amount'' (JNum 1) ps)) (\<lambda>a.
     sum_bind (require (0 < a)) (\<lambda>_.
     Inr (filter_text ''unsharp'' [(''luma_msize_x'', ''5''), (''luma_msize_y'', ''5''), (''luma_amount'', ee_show_f32 E a)])))"

definition build_opacity :: "effect_env \<Rightarrow> params \<Rightarrow> exn + string" where
  "build_opacity E ps =
     sum_bind (ranged (py_float E) 0 1 (dict_get ''opacity'' (JNum 1) ps)) (\<lambda>op.
     sum_bind (if_given ''automation'' ext_automation ps) (\<lambda>_.
     Inr (filter_text ''format=rgba,colorchannelmixer'' [(''aa'', ee_show_f32 E op)])))"

definition build_scale :: "effect_env \<Rightarrow> params \<Rightarrow> exn + string" where
  "build_scale E ps =
     sum_bind (py_float E (dict_get ''scale'' (JNum 1) ps)) (\<lambda>sc.
     sum_bind (require (0 < sc)) (\<lambda>_.
     sum_bind (if_given ''automation'' ext_automation ps) (\<lambda>_.
     Inr (filter_text ''scale'' [(''w'', ''trunc(iw*'' @ ee_show_f32 E sc @ ''/2)*2''),
       (''h'', ''trunc(ih*'' @ ee_show_f32 E sc @ ''/2)*2'')]))))"

text \<open>The two keyers differ only in the name of the filter and the default colour.\<close>

definition key_builder :: "string \<Rightarrow> string \<Rightarrow> effect_env \<Rightarrow> params \<Rightarrow> exn + string" where
  "key_builder nm dflt E ps = (let c = py_str E (dict_get ''color'' (JStr dflt) ps); sv = dict_get ''similarity'' JNull ps in
     sum_bind (if sv = JNull then Inr (1 / 10) else py_float E sv) (\<lambda>s.
     sum_bind (parse_color_to_hex c) (\<lambda>hex.
     sum_bind (require (0 \<le> s \<and> s \<le> 1)) (\<lambda>_.
     Inr (filter_text nm [(''color'', hex), (''similarity'', ee_show_f32 E s)])))))"

definition build_chroma_key :: "effect_env \<Rightarrow> params \<Rightarrow> exn + string" where
  "build_chroma_key = key_builder ''chromakey'' ''#00FF00''"

definition build_color_key :: "effect_env \<Rightarrow> params \<Rightarrow> exn + string" where
  "build_color_key = key_builder ''colorkey'' ''#FFFFFF''"

definition escape_filter_option_path :: "string \<Rightarrow> exn + string" where
  "escape_filter_option_path p =
     sum_bind (require (CHR 0x27 \<notin> set p)) (\<lambda>_.
     (let n = replace_char CHR 0x5C ''/'' p in
     Inr (quoted (if drive_letter n then take 1 n @ [CHR 0x5C, CHR '':''] @ drop 2 n else n))))"

definition lut_presets :: "string list" where
  "lut_presets = [''calming_teal'', ''warm_fade'', ''identity'']"

definition resolve_lut_path :: "effect_env \<Rightarrow> string \<Rightarrow> string" where
  "resolve_lut_path E p = ee_lut_dir E @ ''/'' @ p @ ''.cube''"

definition build_color_lut :: "effect_env \<Rightarrow> params \<Rightarrow> exn + string" where
  "build_color_lut E ps = (let p = py_str E (dict_get ''preset'' (JStr ''identity'') ps) in
     sum_bind (require (p \<in> set lut_presets)) (\<lambda>_.
     sum_bind (escape_filter_option_path (resolve_lut_path E p)) (\<lambda>e. Inr (''lut3d=file='' @ e))))"

definition build_lens_distort :: "effect_env \<Rightarrow> params \<Rightarrow> exn + string" where
  "build_lens_distort E ps =
     sum_bind (py_float E (dict_get ''k1'' (JNum 0) ps)) (\<lambda>k1.
     sum_bind (py_float E (dict_get ''k2'' (JNum 0) ps)) (\<lambda>k2.
     sum_bind (require (- 1 \<le> k1 \<and> k1 \<le> 1)) (\<lambda>_. sum_bind (require (- 1 \<le> k2 \<and> k2 \<le> 1)) (\<lambda>_.
     Inr (filter_text ''lenscorrection'' [(''k1'', ee_show_f64 E k1), (''k2'', ee_show_f64 E k2)])))))"

definition shift_keys :: "(string \<times> int \<times> string) list" where
  "shift_keys = [(''rx'', 5, ''rh''), (''ry'', 0, ''rv''), (''gx'', 0, ''gh''), (''gy'', 0, ''gv''),
     (''bx'', -5, ''bh''), (''by'', 0, ''bv'')]"

definition build_chromatic_aberration :: "effect_env \<Rightarrow> params \<Rightarrow> exn + string" where
  "build_chromatic_aberration E ps =
     sum_bind (map_ok (\<lambda>(k, d, _). py_int_of E (dict_get k (JInt d) ps)) shift_keys) (\<lambda>is.
     sum_bind (map_ok (signed_int 32) is) (\<lambda>is.
     sum_bind (require (list_all (\<lambda>i. - 255 \<le> i \<and> i \<le> 255) is)) (\<lambda>_.
     Inr (filter_text ''rgbashift'' (zip (map (\<lambda>(_, _, opt). opt) shift_keys) (map py_str_int is))))))"

subsection \<open>Generators\<close>

text \<open>\<open>int(x) if x is not None else None\<close>, taken as an \<open>Option<u32>\<close>.\<close>

definition opt_u32 :: "effect_env \<Rightarrow> json_value \<Rightarrow> exn + int option" where
  "opt_u32 E v = (if v = JNull then Inr None else sum_bind (py_int_of E v) (\<lambda>i. Inr (Some i)))"

definition u32_or :: "nat \<Rightarrow> int option \<Rightarrow> exn + nat" where
  "u32_or d w = (case w of None \<Rightarrow> Inr d | Some i \<Rightarrow> unsigned 32 i)"

definition build_gradient_generator :: "effect_env \<Rightarrow> params \<Rightarrow> exn + string" where
  "build_gradient_generator E ps =
     (let c1 = py_str E (dict_get ''color1'' (JStr ''black'') ps); c2 = py_str E (dict_get ''color2'' (JStr ''white'') ps) in
     sum_bind (py_float E (dict_get ''duration'' (JNum 5) ps)) (\<lambda>d.
     sum_bind (opt_u32 E (dict_get ''width'' JNull ps)) (\<lambda>w.
     sum_bind (opt_u32 E (dict_get ''height'' JNull ps)) (\<lambda>h.
     sum_bind (u32_or 1920 w) (\<lambda>w. sum_bind (u32_or 1080 h) (\<lambda>h.
     sum_bind (parse_color_to_hex c1) (\<lambda>x1. sum_bind (parse_color_to_hex c2) (\<lambda>x2.
     sum_bind (require (0 < d)) (\<lambda>_. sum_bind (require (w \<noteq> 0)) (\<lambda>_. sum_bind (require (h \<noteq> 0)) (\<lambda>_.
     Inr (filter_text (''gradients=s='' @ dec w @ ''x'' @ dec h @ '':c0='' @ x1 @ '':c1='' @ x2 @ '':d='' @ ee_show_f64 E d) []))))))))))))"

definition build_noise_generator :: "effect_env \<Rightarrow> params \<Rightarrow> exn + string" where
  "build_noise_generator E ps =
     sum_bind (py_float E (dict_get ''duration'' (JNum 5) ps)) (\<lambda>d.
     sum_bind (opt_u32 E (dict_get ''width'' JNull ps)) (\<lambda>w.
     sum_bind (opt_u32 E (dict_get ''height'' JNull ps)) (\<lambda>h.
     sum_bind (u32_or 1920 w) (\<lambda>w. sum_bind (u32_or 1080 h) (\<lambda>h.
     sum_bind (require (0 < d)) (\<lambda>_. sum_bind (require (w \<noteq> 0)) (\<lambda>_. sum_bind (require (h \<noteq> 0)) (\<lambda>_.
     Inr (filter_text (''cellauto=s='' @ dec w @ ''x'' @ dec h) [])))))))))"

subsection \<open>Expressions and curves\<close>

definition word_char :: "char \<Rightarrow> bool" where
  "word_char c \<longleftrightarrow> is_alpha c \<or> is_decimal c \<or> c = CHR ''_''"

text \<open>The regular expression \<open>\bn\b\<close>: an \<open>n\<close> with no word character on either side.\<close>

fun bare_n_after :: "bool \<Rightarrow> string \<Rightarrow> bool" where
  "bare_n_after prev [] = False"
| "bare_n_after prev (c # cs) =
     ((c = CHR ''n'' \<and> \<not> prev \<and> (case cs of [] \<Rightarrow> True | d # _ \<Rightarrow> \<not> word_char d)) \<or> bare_n_after (word_char c) cs)"

definition zoompan_expr_ok :: "string \<Rightarrow> bool" where
  "zoompan_expr_ok e \<longleftrightarrow> CHR 0x27 \<notin> set e \<and> trim e \<noteq> [] \<and> \<not> bare_n_after False e"

definition build_zoompan :: "effect_env \<Rightarrow> params \<Rightarrow> exn + string" where
  "build_zoompan E ps =
     (let z = py_str E (dict_get ''z_expr'' (JStr ''1.5'') ps);
          x = py_str E (dict_get ''x_expr'' (JStr ''iw/2-(iw/zoom/2)'') ps);
          y = py_str E (dict_get ''y_expr'' (JStr ''ih/2-(ih/zoom/2)'') ps) in
     sum_bind (py_int_of E (dict_get ''d'' (JInt 125) ps)) (\<lambda>d.
     sum_bind (py_int_of E (dict_get ''width'' (JInt 1920) ps)) (\<lambda>w.
     sum_bind (py_int_of E (dict_get ''height'' (JInt 1080) ps)) (\<lambda>h.
     sum_bind (py_int_of E (dict_get ''fps'' (JInt 30) ps)) (\<lambda>fps.
     sum_bind (map_ok (signed_int 64) [d, w, h, fps]) (\<lambda>_.
     sum_bind (require (list_all zoompan_expr_ok [z, x, y])) (\<lambda>_.
     sum_bind (require (0 < w \<and> 0 < h \<and> 0 < fps \<and> 0 < d)) (\<lambda>_.
     sum_bind (emit_expression z) (\<lambda>z. sum_bind (emit_expression x) (\<lambda>x. sum_bind (emit_expression y) (\<lambda>y.
     Inr (filter_text (''zoompan=z='' @ z @ '':x='' @ x @ '':y='' @ y @ '':d='' @ py_str_int d @ '':s='' @ py_str_int w @
       ''x'' @ py_str_int h @ '',fps='' @ py_str_int fps @ '',settb=1/'' @ py_str_int fps) []))))))))))))"

definition curve_presets :: "string list" where
  "curve_presets = [''none'', ''color_negative'', ''cross_process'', ''darker'', ''increase_contrast'', ''lighter'',
     ''linear_contrast'', ''medium_contrast'', ''negative'', ''strong_contrast'', ''vintage'']"

definition opt_py_str :: "effect_env \<Rightarrow> json_value \<Rightarrow> string option" where
  "opt_py_str E v = (if v = JNull then None else Some (py_str E v))"

definition build_curves :: "effect_env \<Rightarrow> params \<Rightarrow> exn + string" where
  "build_curves E ps =
     (let preset = opt_py_str E (dict_get ''preset'' JNull ps);
          given = [(k, s). k \<leftarrow> [''master'', ''red'', ''green'', ''blue'', ''all''],
                     s \<leftarrow> (case opt_py_str E (dict_get k JNull ps) of None \<Rightarrow> [] | Some s \<Rightarrow> [s])] in
     case preset of
       Some p \<Rightarrow> sum_bind (require (given = [] \<and> p \<in> set curve_presets)) (\<lambda>_. Inr (filter_text (''curves=preset='' @ p) []))
     | None \<Rightarrow> sum_bind (require (given \<noteq> [])) (\<lambda>_.
         sum_bind (map_ok (\<lambda>(k, s). sum_bind (emit_knees E s) (\<lambda>q. Inr (k, q))) given) (\<lambda>kvs.
         Inr (filter_text ''curves'' kvs))))"

definition vignette_bases :: "(string \<times> string \<times> string) list" where
  "vignette_bases = [(''centre'', ''w/2'', ''h/2''), (''top_left'', ''0'', ''0''), (''top_right'', ''w'', ''0''),
     (''bottom_left'', ''0'', ''h''), (''bottom_right'', ''w'', ''h'')]"

definition with_offset :: "string \<Rightarrow> int \<Rightarrow> string" where
  "with_offset base off = (if off = 0 then base else if 0 < off then base @ ''+'' @ py_str_int off else base @ py_str_int off)"

text \<open>\<open>std::f64::consts::FRAC_PI_2\<close>, the float nearest to half of pi.\<close>

definition frac_pi_2 :: rat where
  "frac_pi_2 = 884279719003555 / 562949953421312"

definition build_vignette :: "effect_env \<Rightarrow> params \<Rightarrow> exn + string" where
  "build_vignette E ps =
     (let pos = py_str E (dict_get ''position'' (JStr ''centre'') ps) in
     sum_bind (py_int_of E (dict_get ''x_offset'' (JInt 0) ps)) (\<lambda>xo.
     sum_bind (py_int_of E (dict_get ''y_offset'' (JInt 0) ps)) (\<lambda>yo.
     sum_bind (py_float E (dict_get ''angle'' (JNum (628 / 1000)) ps)) (\<lambda>a.
     (let mode = py_str E (dict_get ''mode'' (JStr ''forward'') ps); ev = py_str E (dict_get ''eval_mode'' (JStr ''init'') ps) in
     sum_bind (signed_int 32 xo) (\<lambda>xo. sum_bind (signed_int 32 yo) (\<lambda>yo.
     case map_of vignette_bases pos of
       None \<Rightarrow> Inl ValueError
     | Some (bx, by) \<Rightarrow>
         sum_bind (require (0 \<le> a \<and> a \<le> frac_pi_2)) (\<lambda>_.
         sum_bind (require (mode \<in> {''forward'', ''backward''})) (\<lambda>_.
         sum_bind (require (ev \<in> {''init'', ''frame''})) (\<lambda>_.
         Inr (filter_text (''vignette=angle='' @ ee_show_f64 E a @ '':x0='' @ with_offset bx xo @ '':y0='' @ with_offset by yo @
           '':mode='' @ mode @ '':eval='' @ ev) [])))))))))))"

definition build_hue_rotation :: "effect_env \<Rightarrow> params \<Rightarrow> exn + string" where
  "build_hue_rotation E ps = (let h = py_str E (dict_get ''h_expr'' (JStr ''2*PI*t/3'') ps) in
     sum_bind (require (trim h \<noteq> [])) (\<lambda>_. sum_bind (emit_expression h) (\<lambda>q. Inr (filter_text (''hue=H='' @ q) []))))"

subsection \<open>Subtitles and cropping\<close>

text \<open>\<open>parameters.get(key) or None\<close>, taken as an optional argument of the core.\<close>

definition or_none :: "(json_value \<Rightarrow> exn + 'a) \<Rightarrow> json_value \<Rightarrow> exn + 'a option" where
  "or_none f v = (if json_truthy v then sum_bind (f v) (\<lambda>x. Inr (Some x)) else Inr None)"

definition script_entry :: "effect_env \<Rightarrow> json_value \<Rightarrow> exn + rat \<times> rat \<times> string" where
  "script_entry E v =
     sum_bind (sum_bind (py_item ''start_s'' v) (py_float E)) (\<lambda>a.
     sum_bind (sum_bind (py_item ''end_s'' v) (py_float E)) (\<lambda>b.
     sum_bind (py_item ''text'' v) (\<lambda>t.
     sum_bind (require (a < b)) (\<lambda>_. Inr (a, b, py_str E t)))))"

definition script_position :: "string \<Rightarrow> string \<times> string" where
  "script_position p = (if p = ''top'' then (''(w-text_w)/2'', ''10'')
     else if p = ''center'' then (''(w-text_w)/2'', ''(h-text_h)/2'')
     else (''(w-text_w)/2'', ''h-text_h-10''))"

definition build_subtitle_script :: "effect_env \<Rightarrow> params \<Rightarrow> exn + string" where
  "build_subtitle_script E ps =
     sum_bind (py_iter (dict_get ''entries'' (JList []) ps)) (\<lambda>vs.
     sum_bind (map_ok (script_entry E) vs) (\<lambda>es.
     (let pos = py_str E (dict_get ''position'' (JStr ''bottom'') ps); col = py_str E (dict_get ''font_color'' (JStr ''white'') ps) in
     sum_bind (py_int_of E (dict_get ''font_size'' (JInt 24) ps)) (\<lambda>size.
     sum_bind (unsigned 32 size) (\<lambda>size.
     sum_bind (or_none ext_str (dict_get ''font_file'' JNull ps)) (\<lambda>file.
     sum_bind (require (pos \<in> {''bottom'', ''top'', ''center''})) (\<lambda>_.
     sum_bind (require (set col \<inter> {CHR '':'', CHR 0x27, CHR '','', CHR '';'', CHR 0x5C} = {})) (\<lambda>_.
     sum_bind (require (es \<noteq> [])) (\<lambda>_.
     sum_bind (case file of None \<Rightarrow> Inr [] | Some p \<Rightarrow> sum_bind (emit_path p) (\<lambda>q. Inr (''fontfile='' @ q @ '':''))) (\<lambda>font.
     (let (x, y) = script_position pos in
     Inr (str_join '','' (map (\<lambda>(a, b, t). ''drawtext='' @ font @ ''fontsize='' @ dec size @ '':fontcolor='' @ quoted col @
       '':text='' @ quoted (escape_drawtext t) @ '':x='' @ x @ '':y='' @ y @
       '':enable='' @ quoted (''between(t,'' @ ee_debug_f64 E a @ '','' @ ee_debug_f64 E b @ '')'')) es)))))))))))))"

definition style_pair :: "string \<times> string \<Rightarrow> exn + string" where
  "style_pair = (\<lambda>(k, v).
     sum_bind (require (set k \<inter> {CHR 0x27, CHR '','', CHR ''='', CHR '':''} = {})) (\<lambda>_.
     sum_bind (require (CHR 0x27 \<notin> set v)) (\<lambda>_. Inr (k @ ''='' @ replace_char CHR '','' [CHR 0x5C, CHR '',''] v))))"

definition build_burned_subtitle :: "effect_env \<Rightarrow> params \<Rightarrow> exn + string" where
  "build_burned_subtitle E ps =
     sum_bind (or_none ext_str (dict_get ''source_path'' JNull ps)) (\<lambda>src.
     sum_bind (or_none ext_str (dict_get ''inline_text'' JNull ps)) (\<lambda>inl.
     sum_bind (or_none (ext_dict ext_str) (dict_get ''force_style'' JNull ps)) (\<lambda>style.
     case (src, inl) of
       (None, None) \<Rightarrow> Inl ValueError
     | _ \<Rightarrow> (let path = (case src of Some p \<Rightarrow> p | None \<Rightarrow> get_or [] inl) in
         sum_bind (emit_path path) (\<lambda>q.
         if ends_with (to_lower path) ''.ass'' then Inr (''ass=filename='' @ q)
         else case style of
             None \<Rightarrow> Inr (''subtitles=filename='' @ q)
           | Some d \<Rightarrow> sum_bind (map_ok style_pair d) (\<lambda>pairs.
               Inr (''subtitles=filename='' @ q @ '':force_style='' @ quoted (str_join '','' (sort pairs)))))))))"

definition build_crop :: "effect_env \<Rightarrow> params \<Rightarrow> exn + string" where
  "build_crop E ps =
     sum_bind (require (py_str E (dict_get ''aspect_policy'' (JStr ''clamp'') ps) = ''clamp'')) (\<lambda>_.
     sum_bind (py_int_of E (dict_get ''width'' (JInt 1) ps)) (\<lambda>w.
     sum_bind (py_int_of E (dict_get ''height'' (JInt 1) ps)) (\<lambda>h.
     sum_bind (py_int_of E (dict_get ''x'' (JInt 0) ps)) (\<lambda>x.
     sum_bind (py_int_of E (dict_get ''y'' (JInt 0) ps)) (\<lambda>y.
     sum_bind (map_ok (unsigned 32) [w, h, x, y]) (\<lambda>ns.
     sum_bind (require (w \<noteq> 0 \<and> h \<noteq> 0)) (\<lambda>_.
     Inr (''crop='' @ str_join '':'' (map dec ns)))))))))"

end
