(* ===== verification/Effect_Definitions.thy ===== *)
theory Effect_Definitions
  imports Effect_Colour
begin

text \<open>
  The built-in effects of \<open>src/stoat_ferret/effects/definitions.py\<close> and the registry that holds them: for
  each effect its parameter schema and its build function, and the attributes the validation and the
  render read. The prose of a definition (descriptions, hints, summaries) and the preview of its default
  filter carry no behaviour and are left out.
\<close>

subsection \<open>Definitions\<close>

record effect_definition =
  ef_name :: string
  ef_parameter_schema :: schema
  ef_build_fn :: "effect_env \<Rightarrow> params \<Rightarrow> exn + string"
  ef_automatable :: "string set"
  ef_automation_filter_template :: "string option"
  ef_stream_kind :: string
  ef_timeline_t_capable :: bool
  ef_requires_path_escape :: bool
  ef_value_kind_per_option :: "(string, string) dict"

definition effect_definition :: "string \<Rightarrow> schema \<Rightarrow> (effect_env \<Rightarrow> params \<Rightarrow> exn + string) \<Rightarrow> effect_definition" where
  "effect_definition nm sch f = \<lparr>ef_name = nm, ef_parameter_schema = sch, ef_build_fn = f, ef_automatable = {},
     ef_automation_filter_template = None, ef_stream_kind = [], ef_timeline_t_capable = False,
     ef_requires_path_escape = False, ef_value_kind_per_option = []\<rparr>"

definition TEXT_OVERLAY :: effect_definition where
  "TEXT_OVERLAY = (effect_definition ''Text Overlay''
    (Schema [SType T_OBJECT,
       SProperties [
         (''text'', Schema [SType T_STRING]),
         (''fontsize'', Schema [SType T_INTEGER, SMinimum 8, SMaximum 256, SDefault (JInt 48)]),
         (''fontcolor'', Schema [SType T_STRING, SDefault (JStr ''white'')]),
         (''position'', Schema [SType T_STRING, SEnum [''center'', ''bottom_center'', ''top_left'', ''top_right'',
             ''bottom_left'', ''bottom_right''], SDefault (JStr ''bottom_center'')]),
         (''margin'', Schema [SType T_INTEGER, SDefault (JInt 10)]),
         (''font'', Schema [SType T_STRING])],
       SRequired [''text'']])
    build_text_overlay)"

definition SPEED_CONTROL :: effect_definition where
  "SPEED_CONTROL = (effect_definition ''Speed Control''
    (Schema [SType T_OBJECT,
       SProperties [
         (''factor'', Schema [SType T_NUMBER, SMinimum (1 / 4), SMaximum 4, SDefault (JNum 2)]),
         (''drop_audio'', Schema [SType T_BOOLEAN, SDefault (JBool False)])],
       SRequired [''factor'']])
    build_speed_control)"

definition AUDIO_MIX :: effect_definition where
  "AUDIO_MIX = (effect_definition ''Audio Mix''
    (Schema [SType T_OBJECT,
       SProperties [
         (''inputs'', Schema [SType T_INTEGER, SMinimum 2, SMaximum 32, SDefault (JInt 2)]),
         (''duration_mode'', Schema [SType T_STRING, SEnum [''longest'', ''shortest'', ''first''],
             SDefault (JStr ''longest'')]),
         (''weights'', Schema [SType T_ARRAY, SItems (Schema [SType T_NUMBER])]),
         (''normalize'', Schema [SType T_BOOLEAN, SDefault (JBool True)])],
       SRequired [''inputs'']])
    build_audio_mix)\<lparr>ef_stream_kind := ''a''\<rparr>"

definition VOLUME :: effect_definition where
  "VOLUME = (effect_definition ''Volume''
    (Schema [SType T_OBJECT,
       SProperties [
         (''volume'', Schema [SType T_NUMBER, SMinimum 0, SMaximum 10, SDefault (JNum 1)]),
         (''precision'', Schema [SType T_STRING, SEnum [''fixed'', ''float'', ''double''],
             SDefault (JStr ''float'')])],
       SRequired [''volume'']])
    build_volume)\<lparr>ef_automatable := {''volume''},
        ef_automation_filter_template := Some (''volume='' @ [CHR 0x27] @ ''{expr}'' @ [CHR 0x27] @ '':eval=frame''),
        ef_stream_kind := ''a''\<rparr>"

definition AUDIO_FADE :: effect_definition where
  "AUDIO_FADE = (effect_definition ''Audio Fade''
    (Schema [SType T_OBJECT,
       SProperties [
         (''fade_type'', Schema [SType T_STRING, SEnum [''in'', ''out'']]),
         (''duration'', Schema [SType T_NUMBER, SMinimum (1 / 100), SDefault (JNum 1)]),
         (''start_time'', Schema [SType T_NUMBER, SMinimum 0, SDefault (JNum 0)]),
         (''curve'', Schema [SType T_STRING, SEnum [''tri'', ''qsin'', ''hsin'', ''esin'', ''log'', ''ipar'',
             ''qua'', ''cub'', ''squ'', ''cbr'', ''par''], SDefault (JStr ''tri'')])],
       SRequired [''fade_type'', ''duration'']])
    build_audio_fade)\<lparr>ef_stream_kind := ''a''\<rparr>"

definition AUDIO_DUCKING :: effect_definition where
  "AUDIO_DUCKING = (effect_definition ''Audio Ducking''
    (Schema [SType T_OBJECT,
       SProperties [
         (''threshold'', Schema [SType T_NUMBER, SMinimum (97563 / 100000000), SMaximum 1, SDefault (JNum (1 / 8))]),
         (''ratio'', Schema [SType T_NUMBER, SMinimum 1, SMaximum 20, SDefault (JNum 2)]),
         (''attack'', Schema [SType T_NUMBER, SMinimum (1 / 100), SMaximum 2000, SDefault (JNum 20)]),
         (''release'', Schema [SType T_NUMBER, SMinimum (1 / 100), SMaximum 9000, SDefault (JNum 250)])]])
    build_audio_ducking)\<lparr>ef_stream_kind := ''a''\<rparr>"

definition VIDEO_FADE :: effect_definition where
  "VIDEO_FADE = (effect_definition ''Video Fade''
    (Schema [SType T_OBJECT,
       SProperties [
         (''fade_type'', Schema [SType T_STRING, SEnum [''in'', ''out'']]),
         (''duration'', Schema [SType T_NUMBER, SMinimum (1 / 100), SDefault (JNum 1)]),
         (''start_time'', Schema [SType T_NUMBER, SMinimum 0, SDefault (JNum 0)]),
         (''color'', Schema [SType T_STRING, SDefault (JStr ''black'')]),
         (''alpha'', Schema [SType T_BOOLEAN, SDefault (JBool False)])],
       SRequired [''fade_type'', ''duration'']])
    build_video_fade)"

definition XFADE :: effect_definition where
  "XFADE = (effect_definition ''Crossfade (Video)''
    (Schema [SType T_OBJECT,
       SProperties [
         (''transition'', Schema [SType T_STRING, SDefault (JStr ''fade'')]),
         (''duration'', Schema [SType T_NUMBER, SMinimum 0, SMaximum 60, SDefault (JNum 1)]),
         (''offset'', Schema [SType T_NUMBER, SMinimum 0, SDefault (JNum 0)])],
       SRequired [''transition'', ''duration'', ''offset'']])
    build_xfade)"

definition ACROSSFADE :: effect_definition where
  "ACROSSFADE = (effect_definition ''Crossfade (Audio)''
    (Schema [SType T_OBJECT,
       SProperties [
         (''duration'', Schema [SType T_NUMBER, SMinimum (1 / 100), SMaximum 60, SDefault (JNum 1)]),
         (''curve1'', Schema [SType T_STRING, SEnum [''tri'', ''qsin'', ''hsin'', ''esin'', ''log'', ''ipar'',
             ''qua'', ''cub'', ''squ'', ''cbr'', ''par''], SDefault (JStr ''tri'')]),
         (''curve2'', Schema [SType T_STRING, SEnum [''tri'', ''qsin'', ''hsin'', ''esin'', ''log'', ''ipar'',
             ''qua'', ''cub'', ''squ'', ''cbr'', ''par''], SDefault (JStr ''tri'')]),
         (''overlap'', Schema [SType T_BOOLEAN, SDefault (JBool True)])],
       SRequired [''duration'']])
    build_acrossfade)"

definition NOISE_REDUCTION :: effect_definition where
  "NOISE_REDUCTION = (effect_definition ''Noise Reduction''
    (Schema [SType T_OBJECT,
       SProperties [
         (''mode'', Schema [SType T_STRING, SEnum [''broadband'', ''adeclick''], SDefault (JStr ''broadband'')]),
         (''strength'', Schema [SType T_NUMBER, SMinimum 0, SMaximum 1, SDefault (JNum (1 / 2))]),
         (''threshold'', Schema [SType T_NUMBER, SMinimum 0, SMaximum 1, SDefault (JNum (1 / 2))])],
       SRequired [],
       SNoAdditional])
    build_noise_reduction)\<lparr>ef_stream_kind := ''a''\<rparr>"

definition DEESSER :: effect_definition where
  "DEESSER = (effect_definition ''De-esser''
    (Schema [SType T_OBJECT,
       SProperties [
         (''frequency'', Schema [SType T_NUMBER, SMinimum 1000, SMaximum 16000, SDefault (JNum 6000)]),
         (''mode'', Schema [SType T_STRING, SEnum [''wide'', ''split''], SDefault (JStr ''wide'')])],
       SRequired [],
       SNoAdditional])
    build_deesser)\<lparr>ef_stream_kind := ''a''\<rparr>"

definition DEPLOSIVE :: effect_definition where
  "DEPLOSIVE = (effect_definition ''De-plosive''
    (Schema [SType T_OBJECT,
       SProperties [
         (''cutoff'', Schema [SType T_NUMBER, SMinimum 10, SMaximum 200, SDefault (JNum 60)]),
         (''threshold'', Schema [SType T_NUMBER, SMinimum 0, SMaximum 1, SDefault (JNum (1 / 10))]),
         (''ratio'', Schema [SType T_NUMBER, SMinimum 1, SMaximum 20, SDefault (JNum 4)])],
       SRequired [],
       SNoAdditional])
    build_deplosive)\<lparr>ef_stream_kind := ''a''\<rparr>"

definition TIME_STRETCH :: effect_definition where
  "TIME_STRETCH = (effect_definition ''Time Stretch''
    (Schema [SType T_OBJECT,
       SProperties [
         (''factor'', Schema [SType T_NUMBER, SMinimum (1 / 100), SMaximum 4, SDefault (JNum 1)]),
         (''mode'', Schema [SType T_STRING, SEnum [''atempo'', ''rubberband'', ''auto''],
             SDefault (JStr ''atempo'')])],
       SRequired [''factor''],
       SNoAdditional])
    build_time_stretch)\<lparr>ef_stream_kind := ''a''\<rparr>"

definition MASTERING_LIMITER :: effect_definition where
  "MASTERING_LIMITER = (effect_definition ''Mastering Limiter''
    (Schema [SType T_OBJECT,
       SProperties [
         (''ceiling_dbtp'', Schema [SType T_NUMBER, SMaximum 0, SDefault (JNum (-1))])],
       SRequired [''ceiling_dbtp''],
       SNoAdditional])
    build_mastering_limiter)\<lparr>ef_stream_kind := ''a''\<rparr>"

definition LOUDNESS_NORMALIZE :: effect_definition where
  "LOUDNESS_NORMALIZE = (effect_definition ''Loudness Normalize''
    (Schema [SType T_OBJECT,
       SProperties [
         (''target_lufs'', Schema [SType T_NUMBER, SMaximum 0, SDefault (JNum (-16))]),
         (''ceiling_dbtp'', Schema [SType T_NUMBER, SMaximum 0, SDefault (JNum (-1))]),
         (''lra'', Schema [SType T_NUMBER, SMinimum 1, SMaximum 50, SDefault (JNum 11)])],
       SRequired [],
       SNoAdditional])
    build_loudness_normalize)\<lparr>ef_stream_kind := ''a''\<rparr>"

definition PARAMETRIC_EQ :: effect_definition where
  "PARAMETRIC_EQ = (effect_definition ''Parametric EQ''
    (Schema [SType T_OBJECT,
       SProperties [
         (''bands'', Schema [SType T_ARRAY, SMinItems 1, SItems (Schema [SType T_OBJECT,
                 SRequired [''frequency'', ''gain'', ''width''],
                 SProperties [
                   (''frequency'', Schema [SType T_NUMBER, SMinimum 20, SMaximum 20000]),
                   (''gain'', Schema [SType T_NUMBER, SMinimum (-24), SMaximum 24]),
                   (''width'', Schema [SType T_NUMBER, SExclusiveMinimum 0])],
                 SNoAdditional])])],
       SRequired [''bands'']])
    build_parametric_eq)\<lparr>ef_stream_kind := ''a''\<rparr>"

definition MULTIBAND_COMPRESSOR :: effect_definition where
  "MULTIBAND_COMPRESSOR = (effect_definition ''Multiband Compressor''
    (Schema [SType T_OBJECT,
       SProperties [
         (''bands'', Schema [SType T_ARRAY, SMinItems 2, SItems (Schema [SType T_OBJECT,
                 SRequired [''threshold'', ''ratio'', ''attack'', ''release''],
                 SProperties [
                   (''threshold'', Schema [SType T_NUMBER, SExclusiveMaximum 0]),
                   (''ratio'', Schema [SType T_NUMBER, SExclusiveMinimum 1]),
                   (''attack'', Schema [SType T_NUMBER, SExclusiveMinimum 0]),
                   (''release'', Schema [SType T_NUMBER, SExclusiveMinimum 0])],
                 SNoAdditional])])],
       SRequired [''bands'']])
    build_multiband_compressor)\<lparr>ef_stream_kind := ''a''\<rparr>"

definition PAN :: effect_definition where
  "PAN = (effect_definition ''pan''
    (Schema [SType T_OBJECT,
       SProperties [
         (''position'', Schema [SType T_NUMBER, SMinimum (-1), SMaximum 1])],
       SRequired [''position'']])
    build_pan)\<lparr>ef_automatable := {''position''},
        ef_automation_filter_template := Some (''aeval=exprs=max(0'' @ [CHR 0x5C] @ '',1-({expr}))*val(0)|max(0'' @ [CHR 0x5C] @ '',1+({expr}))*val(1)''), ef_stream_kind := ''a''\<rparr>"

definition CONVOLUTION_REVERB :: effect_definition where
  "CONVOLUTION_REVERB = (effect_definition ''convolution_reverb''
    (Schema [SType T_OBJECT,
       SProperties [
         (''ir_name'', Schema [SType T_STRING, SEnum [''hall_small'', ''room_medium'', ''plate'']]),
         (''mix'', Schema [SType T_NUMBER, SMinimum 0, SMaximum 1])],
       SRequired [''ir_name'', ''mix'']])
    build_convolution_reverb)\<lparr>ef_stream_kind := ''a''\<rparr>"

definition REVERSE :: effect_definition where
  "REVERSE = (effect_definition ''Reverse''
    (Schema [SType T_OBJECT,
       SProperties [],
       SRequired [],
       SNoAdditional])
    build_reverse)"

definition VARIABLE_SPEED :: effect_definition where
  "VARIABLE_SPEED = (effect_definition ''Variable Speed''
    (Schema [SType T_OBJECT,
       SProperties [
         (''segments'', Schema [SType T_ARRAY, SMinItems 1, SItems (Schema [SType T_OBJECT,
                 SRequired [''start_frame'', ''end_frame'', ''speed_factor''],
                 SProperties [
                   (''start_frame'', Schema [SType T_INTEGER, SMinimum 0]),
                   (''end_frame'', Schema [SType T_INTEGER, SMinimum 1]),
                   (''speed_factor'', Schema [SType T_NUMBER, SExclusiveMinimum 0, SMaximum 100])],
                 SNoAdditional])])],
       SRequired [''segments'']])
    build_variable_speed)"

definition FRAMERATE_CONVERT :: effect_definition where
  "FRAMERATE_CONVERT = (effect_definition ''Framerate Convert''
    (Schema [SType T_OBJECT,
       SProperties [
         (''target_fps'', Schema [SType T_NUMBER, SMinimum (1 / 100), SDefault (JNum 30)]),
         (''mode'', Schema [SType T_STRING, SEnum [''duplicate'', ''blend'', ''optical_flow''],
             SDefault (JStr ''duplicate'')])],
       SRequired [''target_fps'', ''mode''],
       SNoAdditional])
    build_framerate_convert)"

definition FREEZE_FRAME :: effect_definition where
  "FREEZE_FRAME = (effect_definition ''Freeze Frame''
    (Schema [SType T_OBJECT,
       SProperties [
         (''frame_number'', Schema [SType T_INTEGER, SMinimum 0]),
         (''duration_s'', Schema [SType T_NUMBER, SMinimum (1 / 100), SDefault (JNum 1)])],
       SRequired [''frame_number'', ''duration_s''],
       SNoAdditional])
    build_freeze_frame)"

definition BLUR :: effect_definition where
  "BLUR = (effect_definition ''Blur''
    (Schema [SType T_OBJECT,
       SProperties [
         (''sigma'', Schema [SType T_NUMBER, SMinimum (1 / 100), SDefault (JNum 2)]),
         (''blur_type'', Schema [SType T_STRING, SEnum [''gaussian'', ''directional''],
             SDefault (JStr ''gaussian'')])],
       SRequired [''sigma''],
       SNoAdditional])
    build_blur)\<lparr>ef_automatable := {''sigma''},
        ef_automation_filter_template := Some (''gblur=sigma='' @ [CHR 0x27] @ ''{expr}'' @ [CHR 0x27] @ '':eval=frame''), ef_value_kind_per_option := [(''sigma'', ''numeric'')]\<rparr>"

definition SHARPEN :: effect_definition where
  "SHARPEN = (effect_definition ''Sharpen''
    (Schema [SType T_OBJECT,
       SProperties [
         (''amount'', Schema [SType T_NUMBER, SMinimum (1 / 100), SDefault (JNum 1)])],
       SRequired [''amount''],
       SNoAdditional])
    build_sharpen)"

definition OPACITY_EFFECT :: effect_definition where
  "OPACITY_EFFECT = (effect_definition ''Opacity''
    (Schema [SType T_OBJECT,
       SProperties [
         (''opacity'', Schema [SType T_NUMBER, SMinimum 0, SMaximum 1, SDefault (JNum 1)])],
       SRequired [''opacity''],
       SNoAdditional])
    build_opacity)\<lparr>ef_automatable := {''opacity''},
        ef_automation_filter_template := Some (''format=rgba,geq=r='' @ [CHR 0x27] @ ''r(X,Y)'' @ [CHR 0x27] @ '':g='' @ [CHR 0x27] @ ''g(X,Y)'' @ [CHR 0x27] @ '':b='' @ [CHR 0x27] @ ''b(X,Y)'' @ [CHR 0x27] @ '':a='' @ [CHR 0x27] @ ''{expr_T}'' @ [CHR 0x27]), ef_value_kind_per_option := [(''opacity'', ''numeric'')]\<rparr>"

definition SCALE_EFFECT :: effect_definition where
  "SCALE_EFFECT = (effect_definition ''Scale''
    (Schema [SType T_OBJECT,
       SProperties [
         (''scale'', Schema [SType T_NUMBER, SMinimum 0, SDefault (JNum 1)])],
       SRequired [''scale''],
       SNoAdditional])
    build_scale)\<lparr>ef_automatable := {''scale''},
        ef_automation_filter_template := Some (''scale=trunc(iw*('' @ [CHR 0x27] @ ''{expr}'' @ [CHR 0x27] @ '')/2)*2:trunc(ih*('' @ [CHR 0x27] @ ''{expr}'' @ [CHR 0x27] @ '')/2)*2:eval=frame''), ef_value_kind_per_option := [(''scale'', ''numeric'')]\<rparr>"

definition CHROMA_KEY_EFFECT :: effect_definition where
  "CHROMA_KEY_EFFECT = (effect_definition ''Chroma Key''
    (Schema [SType T_OBJECT,
       SProperties [
         (''color'', Schema [SType T_STRING, SDefault (JStr ''#00FF00'')]),
         (''similarity'', Schema [SType T_NUMBER, SMinimum 0, SMaximum 1, SDefault (JNum (1 / 10))])],
       SRequired [''color''],
       SNoAdditional])
    build_chroma_key)"

definition COLOR_KEY_EFFECT :: effect_definition where
  "COLOR_KEY_EFFECT = (effect_definition ''Color Key''
    (Schema [SType T_OBJECT,
       SProperties [
         (''color'', Schema [SType T_STRING, SDefault (JStr ''#FFFFFF'')]),
         (''similarity'', Schema [SType T_NUMBER, SMinimum 0, SMaximum 1, SDefault (JNum (1 / 10))])],
       SRequired [''color''],
       SNoAdditional])
    build_color_key)"

definition COLOR_LUT :: effect_definition where
  "COLOR_LUT = (effect_definition ''Color LUT''
    (Schema [SType T_OBJECT,
       SProperties [
         (''preset'', Schema [SType T_STRING, SEnum [''calming_teal'', ''warm_fade'', ''identity'']])],
       SRequired [''preset''],
       SNoAdditional])
    build_color_lut)"

definition LENS_DISTORT_EFFECT :: effect_definition where
  "LENS_DISTORT_EFFECT = (effect_definition ''Lens Distort''
    (Schema [SType T_OBJECT,
       SProperties [
         (''k1'', Schema [SType T_NUMBER, SMinimum (-1), SMaximum 1, SDefault (JNum 0)]),
         (''k2'', Schema [SType T_NUMBER, SMinimum (-1), SMaximum 1, SDefault (JNum 0)])],
       SRequired [''k1'', ''k2''],
       SNoAdditional])
    build_lens_distort)"

definition CHROMATIC_ABERRATION_EFFECT :: effect_definition where
  "CHROMATIC_ABERRATION_EFFECT = (effect_definition ''Chromatic Aberration''
    (Schema [SType T_OBJECT,
       SProperties [
         (''rx'', Schema [SType T_INTEGER, SMinimum (-255), SMaximum 255, SDefault (JInt 5)]),
         (''ry'', Schema [SType T_INTEGER, SMinimum (-255), SMaximum 255, SDefault (JInt 0)]),
         (''gx'', Schema [SType T_INTEGER, SMinimum (-255), SMaximum 255, SDefault (JInt 0)]),
         (''gy'', Schema [SType T_INTEGER, SMinimum (-255), SMaximum 255, SDefault (JInt 0)]),
         (''bx'', Schema [SType T_INTEGER, SMinimum (-255), SMaximum 255, SDefault (JInt (-5))]),
         (''by'', Schema [SType T_INTEGER, SMinimum (-255), SMaximum 255, SDefault (JInt 0)])],
       SRequired [],
       SNoAdditional])
    build_chromatic_aberration)"

definition GRADIENT_GENERATOR :: effect_definition where
  "GRADIENT_GENERATOR = (effect_definition ''Gradient Generator''
    (Schema [SType T_OBJECT,
       SProperties [
         (''color1'', Schema [SType T_STRING, SDefault (JStr ''black'')]),
         (''color2'', Schema [SType T_STRING, SDefault (JStr ''white'')]),
         (''duration'', Schema [SType T_NUMBER, SMinimum (1 / 100), SDefault (JNum 5)]),
         (''width'', Schema [SType T_INTEGER, SMinimum 1, SDefault (JInt 1920)]),
         (''height'', Schema [SType T_INTEGER, SMinimum 1, SDefault (JInt 1080)])],
       SRequired [''color1'', ''color2'', ''duration''],
       SNoAdditional])
    build_gradient_generator)"

definition NOISE_GENERATOR :: effect_definition where
  "NOISE_GENERATOR = (effect_definition ''Noise Generator''
    (Schema [SType T_OBJECT,
       SProperties [
         (''duration'', Schema [SType T_NUMBER, SMinimum (1 / 100), SDefault (JNum 5)]),
         (''width'', Schema [SType T_INTEGER, SMinimum 1, SDefault (JInt 1920)]),
         (''height'', Schema [SType T_INTEGER, SMinimum 1, SDefault (JInt 1080)])],
       SRequired [''duration''],
       SNoAdditional])
    build_noise_generator)"

definition ZOOMPAN :: effect_definition where
  "ZOOMPAN = (effect_definition ''Zoom Pan''
    (Schema [SType T_OBJECT,
       SProperties [
         (''z_expr'', Schema [SType T_STRING, SDefault (JStr ''1.5'')]),
         (''x_expr'', Schema [SType T_STRING, SDefault (JStr ''iw/2-(iw/zoom/2)'')]),
         (''y_expr'', Schema [SType T_STRING, SDefault (JStr ''ih/2-(ih/zoom/2)'')]),
         (''d'', Schema [SType T_INTEGER, SMinimum 1, SDefault (JInt 125)]),
         (''width'', Schema [SType T_INTEGER, SMinimum 1, SDefault (JInt 1920)]),
         (''height'', Schema [SType T_INTEGER, SMinimum 1, SDefault (JInt 1080)]),
         (''fps'', Schema [SType T_INTEGER, SMinimum 1, SDefault (JInt 30)])],
       SRequired [''z_expr'', ''x_expr'', ''y_expr'', ''d'', ''width'', ''height'', ''fps''],
       SNoAdditional])
    build_zoompan)\<lparr>ef_stream_kind := ''video'', ef_timeline_t_capable := False,
        ef_requires_path_escape := False\<rparr>"

definition CURVES :: effect_definition where
  "CURVES = (effect_definition ''Curves''
    (Schema [SType T_OBJECT,
       SProperties [
         (''preset'', Schema [SType T_STRING, SEnum [''none'', ''color_negative'', ''cross_process'', ''darker'',
             ''increase_contrast'', ''lighter'', ''linear_contrast'', ''medium_contrast'', ''negative'',
             ''strong_contrast'', ''vintage'']]),
         (''master'', Schema [SType T_STRING]),
         (''red'', Schema [SType T_STRING]),
         (''green'', Schema [SType T_STRING]),
         (''blue'', Schema [SType T_STRING]),
         (''all'', Schema [SType T_STRING])],
       SRequired [],
       SNoAdditional])
    build_curves)\<lparr>ef_stream_kind := ''video'', ef_timeline_t_capable := True,
        ef_requires_path_escape := False, ef_value_kind_per_option := [(''preset'', ''enum_literal''), (''master'',
        ''knee_string''), (''red'', ''knee_string''), (''green'', ''knee_string''), (''blue'', ''knee_string''),
        (''all'', ''knee_string'')]\<rparr>"

definition VIGNETTE :: effect_definition where
  "VIGNETTE = (effect_definition ''Vignette''
    (Schema [SType T_OBJECT,
       SProperties [
         (''position'', Schema [SType T_STRING, SEnum [''centre'', ''top_left'', ''top_right'', ''bottom_left'',
             ''bottom_right'']]),
         (''x_offset'', Schema [SType T_INTEGER]),
         (''y_offset'', Schema [SType T_INTEGER]),
         (''angle'', Schema [SType T_NUMBER]),
         (''mode'', Schema [SType T_STRING, SEnum [''forward'', ''backward'']]),
         (''eval_mode'', Schema [SType T_STRING, SEnum [''init'', ''frame'']])],
       SRequired [''position''],
       SNoAdditional])
    build_vignette)\<lparr>ef_stream_kind := ''video'', ef_timeline_t_capable := True,
        ef_requires_path_escape := False, ef_value_kind_per_option := [(''position'', ''enum_literal''),
        (''x_offset'', ''numeric''), (''y_offset'', ''numeric''), (''angle'', ''numeric''), (''mode'',
        ''enum_literal''), (''eval_mode'', ''enum_literal'')]\<rparr>"

definition HUE_ROTATION :: effect_definition where
  "HUE_ROTATION = (effect_definition ''Hue Rotation''
    (Schema [SType T_OBJECT,
       SProperties [
         (''h_expr'', Schema [SType T_STRING])],
       SRequired [''h_expr''],
       SNoAdditional])
    build_hue_rotation)\<lparr>ef_stream_kind := ''video'', ef_timeline_t_capable := True,
        ef_requires_path_escape := False, ef_value_kind_per_option := [(''h_expr'', ''expression'')]\<rparr>"

definition SUBTITLE_SCRIPT :: effect_definition where
  "SUBTITLE_SCRIPT = (effect_definition ''Subtitle Script''
    (Schema [SType T_OBJECT,
       SProperties [
         (''entries'', Schema [SType T_ARRAY, SItems (Schema [SType T_OBJECT,
                 SProperties [
                   (''start_s'', Schema [SType T_NUMBER]),
                   (''end_s'', Schema [SType T_NUMBER]),
                   (''text'', Schema [SType T_STRING])],
                 SRequired [''start_s'', ''end_s'', ''text''],
                 SNoAdditional]), SMinItems 1]),
         (''position'', Schema [SType T_STRING, SEnum [''bottom'', ''top'', ''center''], SDefault (JStr ''bottom'')]),
         (''font_size'', Schema [SType T_INTEGER, SMinimum 6, SMaximum 256, SDefault (JInt 24)]),
         (''font_color'', Schema [SType T_STRING, SDefault (JStr ''white'')]),
         (''font_file'', Schema [SType T_STRING])],
       SRequired [''entries''],
       SNoAdditional])
    build_subtitle_script)\<lparr>ef_stream_kind := ''video'', ef_timeline_t_capable := False,
        ef_requires_path_escape := True, ef_value_kind_per_option := [(''font_file'', ''path'')]\<rparr>"

definition BURNED_SUBTITLE_BUILDER :: effect_definition where
  "BURNED_SUBTITLE_BUILDER = (effect_definition ''Burned Subtitle''
    (Schema [SType T_OBJECT,
       SProperties [
         (''source_path'', Schema [SType T_STRING]),
         (''inline_text'', Schema [SType T_STRING]),
         (''force_style'', Schema [SType T_OBJECT])],
       SAnyOf [Schema [SRequired [''source_path'']], Schema [SRequired [''inline_text'']]]])
    build_burned_subtitle)\<lparr>ef_stream_kind := ''video'', ef_timeline_t_capable := False,
        ef_requires_path_escape := True, ef_value_kind_per_option := [(''source_path'', ''path''), (''inline_text'',
        ''path'')]\<rparr>"

definition CROP_EFFECT :: effect_definition where
  "CROP_EFFECT = (effect_definition ''Crop''
    (Schema [SType T_OBJECT,
       SProperties [
         (''width'', Schema [SType T_INTEGER, SMinimum 1]),
         (''height'', Schema [SType T_INTEGER, SMinimum 1]),
         (''x'', Schema [SType T_INTEGER, SMinimum 0, SDefault (JInt 0)]),
         (''y'', Schema [SType T_INTEGER, SMinimum 0, SDefault (JInt 0)]),
         (''aspect_policy'', Schema [SType T_STRING, SEnum [''clamp''], SDefault (JStr ''clamp'')])],
       SRequired [''width'', ''height''],
       SNoAdditional])
    build_crop)"

subsection \<open>The registry\<close>

type_synonym effect_registry = "(string, effect_definition) dict"

definition register_effect :: "string \<Rightarrow> effect_definition \<Rightarrow> effect_registry \<Rightarrow> effect_registry" where
  "register_effect t d r = AList.update t d r"

definition built_in :: "(string \<times> effect_definition) list" where
  "built_in =
    [(''text_overlay'', TEXT_OVERLAY),
     (''speed_control'', SPEED_CONTROL),
     (''audio_mix'', AUDIO_MIX),
     (''volume'', VOLUME),
     (''audio_fade'', AUDIO_FADE),
     (''audio_ducking'', AUDIO_DUCKING),
     (''video_fade'', VIDEO_FADE),
     (''xfade'', XFADE),
     (''acrossfade'', ACROSSFADE),
     (''noise_reduction'', NOISE_REDUCTION),
     (''deesser'', DEESSER),
     (''deplosive'', DEPLOSIVE),
     (''time_stretch'', TIME_STRETCH),
     (''mastering_limiter'', MASTERING_LIMITER),
     (''loudness_normalize'', LOUDNESS_NORMALIZE),
     (''parametric_eq'', PARAMETRIC_EQ),
     (''multiband_compressor'', MULTIBAND_COMPRESSOR),
     (''pan'', PAN),
     (''convolution_reverb'', CONVOLUTION_REVERB),
     (''reverse'', REVERSE),
     (''variable_speed'', VARIABLE_SPEED),
     (''framerate_convert'', FRAMERATE_CONVERT),
     (''freeze_frame'', FREEZE_FRAME),
     (''blur'', BLUR),
     (''sharpen'', SHARPEN),
     (''opacity'', OPACITY_EFFECT),
     (''scale'', SCALE_EFFECT),
     (''chroma_key'', CHROMA_KEY_EFFECT),
     (''color_key'', COLOR_KEY_EFFECT),
     (''color_lut'', COLOR_LUT),
     (''lens_distort'', LENS_DISTORT_EFFECT),
     (''gradient_generator'', GRADIENT_GENERATOR),
     (''noise_generator'', NOISE_GENERATOR),
     (''chromatic_aberration'', CHROMATIC_ABERRATION_EFFECT),
     (''zoompan'', ZOOMPAN),
     (''curves'', CURVES),
     (''vignette'', VIGNETTE),
     (''hue_rotation'', HUE_ROTATION),
     (''subtitle_script'', SUBTITLE_SCRIPT),
     (''burned_subtitle'', BURNED_SUBTITLE_BUILDER),
     (''crop'', CROP_EFFECT)]"

definition create_default_registry :: effect_registry where
  "create_default_registry = fold (\<lambda>(t, d). register_effect t d) built_in []"

text \<open>The attributes of each definition, and the registry as the list of what was registered.\<close>

lemma effect_definition_simps [simp]:
  "ef_name (effect_definition nm sch f) = nm"
  "ef_parameter_schema (effect_definition nm sch f) = sch"
  "ef_build_fn (effect_definition nm sch f) = f"
  "ef_automatable (effect_definition nm sch f) = {}"
  "ef_automation_filter_template (effect_definition nm sch f) = None"
  by (simp_all add: effect_definition_def)

lemmas effect_constants =
  TEXT_OVERLAY_def SPEED_CONTROL_def AUDIO_MIX_def VOLUME_def
  AUDIO_FADE_def AUDIO_DUCKING_def VIDEO_FADE_def XFADE_def
  ACROSSFADE_def NOISE_REDUCTION_def DEESSER_def DEPLOSIVE_def
  TIME_STRETCH_def MASTERING_LIMITER_def LOUDNESS_NORMALIZE_def PARAMETRIC_EQ_def
  MULTIBAND_COMPRESSOR_def PAN_def CONVOLUTION_REVERB_def REVERSE_def
  VARIABLE_SPEED_def FRAMERATE_CONVERT_def FREEZE_FRAME_def BLUR_def
  SHARPEN_def OPACITY_EFFECT_def SCALE_EFFECT_def CHROMA_KEY_EFFECT_def
  COLOR_KEY_EFFECT_def COLOR_LUT_def LENS_DISTORT_EFFECT_def CHROMATIC_ABERRATION_EFFECT_def
  GRADIENT_GENERATOR_def NOISE_GENERATOR_def ZOOMPAN_def CURVES_def
  VIGNETTE_def HUE_ROTATION_def SUBTITLE_SCRIPT_def BURNED_SUBTITLE_BUILDER_def
  CROP_EFFECT_def

lemma fold_register:
  "distinct (map fst (r @ xs)) \<Longrightarrow> fold (\<lambda>(t, d). register_effect t d) xs r = r @ xs"
proof (induction xs arbitrary: r)
  case (Cons x xs)
  obtain t d where x: "x = (t, d)" by (cases x)
  have "t \<notin> fst ` set r" using Cons.prems x by auto
  then have "register_effect t d r = r @ [x]" unfolding register_effect_def x by (induction r) auto
  with Cons x show ?case by simp
qed simp

lemma built_in_distinct: "distinct (map fst built_in)"
  by (simp add: built_in_def)

lemma default_registry: "create_default_registry = built_in"
  unfolding create_default_registry_def using fold_register [of "[]" built_in] built_in_distinct by simp

end
