(* ===== verification/Automation.thy ===== *)
theory Automation
  imports Filter_Text
begin

text \<open>
  Automation envelopes. The expressions of the Rust core (\<open>ffmpeg/expression.rs\<close>) with their text, and
  the compiler of keyframes into one (\<open>ffmpeg/automation.rs\<close>). FFmpeg evaluates such an expression
  for every frame at its time \<open>t\<close>; \<open>eval_expr\<close> is that evaluation for the operators the compiler emits, and
  \<open>curve_value\<close> the reference: the value of the envelope at a time, segment by segment.
\<close>

subsection \<open>Expressions\<close>

datatype binary_op = OpAdd | OpSub | OpMul | OpDiv | OpPow

datatype expr =
    EConst rat
  | EVarT
  | EBinary binary_op expr expr
  | ELt expr expr
  | EIf expr expr expr

fun op_text :: "binary_op \<Rightarrow> string" where
  "op_text OpAdd = ''+''"
| "op_text OpSub = ''-''"
| "op_text OpMul = ''*''"
| "op_text OpDiv = ''/''"
| "op_text OpPow = ''^''"

fun precedence :: "binary_op \<Rightarrow> nat" where
  "precedence OpAdd = 1"
| "precedence OpSub = 1"
| "precedence OpMul = 2"
| "precedence OpDiv = 2"
| "precedence OpPow = 3"

definition needs_parens :: "expr \<Rightarrow> binary_op \<Rightarrow> bool" where
  "needs_parens e parent = (case e of EBinary child _ _ \<Rightarrow> precedence child < precedence parent | _ \<Rightarrow> False)"

fun show_expr :: "effect_env \<Rightarrow> expr \<Rightarrow> string" where
  "show_expr E (EConst r) = (if r = of_int \<lfloor>r\<rfloor> then py_str_int \<lfloor>r\<rfloor> else ee_show_f64 E r)"
| "show_expr E EVarT = ''t''"
| "show_expr E (EBinary f a b) =
     (if needs_parens a f then ''('' @ show_expr E a @ '')'' else show_expr E a) @ op_text f @
     (if needs_parens b f then ''('' @ show_expr E b @ '')'' else show_expr E b)"
| "show_expr E (ELt a b) = ''lt('' @ show_expr E a @ '','' @ show_expr E b @ '')''"
| "show_expr E (EIf c a b) = ''if('' @ show_expr E c @ '','' @ show_expr E a @ '','' @ show_expr E b @ '')''"

text \<open>The value at time \<open>t\<close>. A power is used with the constants 2 and 3 only.\<close>

fun apply_op :: "binary_op \<Rightarrow> rat \<Rightarrow> rat \<Rightarrow> rat" where
  "apply_op OpAdd a b = a + b"
| "apply_op OpSub a b = a - b"
| "apply_op OpMul a b = a * b"
| "apply_op OpDiv a b = a / b"
| "apply_op OpPow a b = a ^ nat \<lfloor>b\<rfloor>"

fun eval_expr :: "expr \<Rightarrow> rat \<Rightarrow> rat" where
  "eval_expr (EConst r) t = r"
| "eval_expr EVarT t = t"
| "eval_expr (EBinary f a b) t = apply_op f (eval_expr a t) (eval_expr b t)"
| "eval_expr (ELt a b) t = (if eval_expr a t < eval_expr b t then 1 else 0)"
| "eval_expr (EIf c a b) t = (if eval_expr c t \<noteq> 0 then eval_expr a t else eval_expr b t)"

subsection \<open>Envelopes and their compilation\<close>

record keyframe =
  kf_t :: rat
  kf_value :: rat
  kf_curve :: string

record envelope =
  en_default :: rat
  en_keyframes :: "keyframe list"

definition segment_u :: "keyframe \<Rightarrow> keyframe \<Rightarrow> expr" where
  "segment_u k0 k1 = EBinary OpDiv (EBinary OpSub EVarT (EConst (kf_t k0))) (EConst (kf_t k1 - kf_t k0))"

definition blend :: "keyframe \<Rightarrow> keyframe \<Rightarrow> expr \<Rightarrow> expr" where
  "blend k0 k1 s = EBinary OpAdd (EConst (kf_value k0)) (EBinary OpMul (EConst (kf_value k1 - kf_value k0)) s)"

definition build_segment :: "keyframe \<Rightarrow> keyframe \<Rightarrow> exn + expr" where
  "build_segment k0 k1 = (let u = segment_u k0 k1; sq = EBinary OpPow u (EConst 2); cu = EBinary OpPow u (EConst 3) in
     if kf_curve k0 = ''Hold'' then Inr (EConst (kf_value k0))
     else if kf_curve k0 = ''Linear'' then Inr (blend k0 k1 u)
     else if kf_curve k0 = ''Exponential'' then Inr (blend k0 k1 sq)
     else if kf_curve k0 = ''EaseInOut'' then
       Inr (blend k0 k1 (EBinary OpSub (EBinary OpMul (EConst 3) sq) (EBinary OpMul (EConst 2) cu)))
     else Inl ValueError)"

text \<open>The loop builds the nest from the last segment to the first; \<open>compile_tail\<close> is what it has after
  the keyframes from \<open>k0\<close> on.\<close>

fun compile_tail :: "keyframe \<Rightarrow> keyframe list \<Rightarrow> exn + expr" where
  "compile_tail k0 [] = Inr (EConst (kf_value k0))"
| "compile_tail k0 (k1 # ks) = sum_bind (compile_tail k1 ks) (\<lambda>rest.
     sum_bind (build_segment k0 k1) (\<lambda>seg. Inr (EIf (ELt EVarT (EConst (kf_t k1))) seg rest)))"

definition increasing :: "rat list \<Rightarrow> bool" where
  "increasing ts \<longleftrightarrow> sorted_wrt (<) ts"

definition compile_automation :: "envelope \<Rightarrow> exn + expr" where
  "compile_automation a = (case en_keyframes a of
     [] \<Rightarrow> Inr (EConst (en_default a))
   | [k] \<Rightarrow> Inr (EConst (kf_value k))
   | k # ks \<Rightarrow> sum_bind (require (increasing (map kf_t (k # ks)))) (\<lambda>_.
       sum_bind (compile_tail k ks) (\<lambda>rest.
       Inr (EIf (ELt EVarT (EConst (kf_t k))) (EConst (kf_value k)) rest))))"

subsection \<open>The value of an envelope\<close>

text \<open>How far a curve has come from one keyframe to the next after the fraction \<open>u\<close> of the time.\<close>

definition eased :: "string \<Rightarrow> rat \<Rightarrow> rat" where
  "eased c u = (if c = ''Hold'' then 0 else if c = ''Linear'' then u else if c = ''Exponential'' then u * u
     else u * u * (3 - 2 * u))"

fun value_after :: "keyframe \<Rightarrow> keyframe list \<Rightarrow> rat \<Rightarrow> rat" where
  "value_after k0 [] t = kf_value k0"
| "value_after k0 (k1 # ks) t = (if t < kf_t k1
     then kf_value k0 + (kf_value k1 - kf_value k0) * eased (kf_curve k0) ((t - kf_t k0) / (kf_t k1 - kf_t k0))
     else value_after k1 ks t)"

fun curve_value :: "envelope \<Rightarrow> rat \<Rightarrow> rat" where
  "curve_value a t = (case en_keyframes a of [] \<Rightarrow> en_default a
     | k # ks \<Rightarrow> if t < kf_t k then kf_value k else value_after k ks t)"

lemma eval_segment [simp]:
  "eval_expr (segment_u k0 k1) t = (t - kf_t k0) / (kf_t k1 - kf_t k0)"
  "eval_expr (blend k0 k1 s) t = kf_value k0 + (kf_value k1 - kf_value k0) * eval_expr s t"
  by (simp_all add: segment_u_def blend_def)

lemma eased_simps:
  "eased ''Hold'' u = 0" "eased ''Linear'' u = u" "eased ''Exponential'' u = u ^ 2"
  "eased ''EaseInOut'' u = 3 * u ^ 2 - 2 * u ^ 3"
  by (simp_all add: eased_def power2_eq_square power3_eq_cube algebra_simps)

lemma build_segment_value:
  "build_segment k0 k1 = Inr e \<Longrightarrow>
   eval_expr e t = kf_value k0 + (kf_value k1 - kf_value k0) * eased (kf_curve k0) ((t - kf_t k0) / (kf_t k1 - kf_t k0))"
  by (auto simp: build_segment_def Let_def eased_simps simp del: power_divide split: if_splits)

lemma compile_tail_value: "compile_tail k0 ks = Inr e \<Longrightarrow> eval_expr e t = value_after k0 ks t"
proof (induction k0 ks arbitrary: e rule: compile_tail.induct)
  case (2 k0 k1 ks)
  from 2(2) obtain rest seg where *: "compile_tail k1 ks = Inr rest" "build_segment k0 k1 = Inr seg"
    "e = EIf (ELt EVarT (EConst (kf_t k1))) seg rest"
    by (auto simp: sum_bind_Inr)
  show ?case unfolding *(3) using 2(1) [OF *(1)] build_segment_value [OF *(2), of t] by simp
qed simp

lemma value_after_bounds:
  assumes "increasing (map kf_t (k0 # ks))" and "kf_t k0 \<le> t"
    and "\<And>k. k \<in> set (k0 # ks) \<Longrightarrow> lo \<le> kf_value k \<and> kf_value k \<le> hi"
  shows "lo \<le> value_after k0 ks t \<and> value_after k0 ks t \<le> hi"
  using assms
proof (induction k0 ks t rule: value_after.induct)
  case (2 k0 k1 ks t)
  show ?case
  proof (cases "t < kf_t k1")
    case True
    define u where "u = (t - kf_t k0) / (kf_t k1 - kf_t k0)"
    have ks: "kf_t k0 < kf_t k1" using 2(2) by (simp add: increasing_def)
    have u: "0 \<le> u" "u \<le> 1" using True 2(3) ks by (simp_all add: u_def field_simps)
    have uu: "0 \<le> u * u" "u * u \<le> 1" using u by (simp_all add: mult_le_one)
    have "u * u * (3 - 2 * u) = 1 - (1 - u) * (1 - u) * (1 + 2 * u)" by (simp add: algebra_simps)
    moreover have "0 \<le> (1 - u) * (1 - u) * (1 + 2 * u)" using u by simp
    ultimately have "u * u * (3 - 2 * u) \<le> 1" by simp
    moreover have "0 \<le> u * u * (3 - 2 * u)" using u by simp
    ultimately have s: "0 \<le> eased (kf_curve k0) u" "eased (kf_curve k0) u \<le> 1"
      using u uu by (simp_all add: eased_def)
    define w where "w = eased (kf_curve k0) u"
    have v: "lo \<le> kf_value k0" "kf_value k0 \<le> hi" "lo \<le> kf_value k1" "kf_value k1 \<le> hi"
      using 2(4) [of k0] 2(4) [of k1] by simp_all
    have w: "kf_value k0 + (kf_value k1 - kf_value k0) * w = (1 - w) * kf_value k0 + w * kf_value k1"
      by (simp add: algebra_simps)
    have lo: "(1 - w) * lo + w * lo \<le> (1 - w) * kf_value k0 + w * kf_value k1"
      using s v by (intro add_mono mult_left_mono) (simp_all add: w_def)
    have hi: "(1 - w) * kf_value k0 + w * kf_value k1 \<le> (1 - w) * hi + w * hi"
      using s v by (intro add_mono mult_left_mono) (simp_all add: w_def)
    show ?thesis using True lo hi by (simp add: u_def [symmetric] w_def [symmetric] w) (simp add: algebra_simps)
  next
    case False
    with 2 show ?thesis by (simp add: increasing_def)
  qed
qed simp

end
