(* ===== verification/Effect_Registry.thy ===== *)
theory Effect_Registry
  imports Effect_Definitions Automation
begin

text \<open>
  \<open>src/stoat_ferret/effects/registry.py\<close>: looking effects up, validating the parameters of a request, and
  the filter of a parameter under automation; with \<open>AutomationEnvelope\<close> of \<open>api/schemas/effect.py\<close>.
  The packages \<open>jsonschema\<close> and \<open>pydantic\<close> are arguments (\<open>packages\<close>): the errors of a value against a
  schema, and the fields of an envelope once its own check has passed. An error is its path; messages
  are not kept.
\<close>

subsection \<open>Packages and errors\<close>

datatype path_part = PKey string | PIndex nat

record packages =
  pk_iter_errors :: "path_part list validator"
  pk_envelope :: "json_value \<Rightarrow> path_part list list + envelope"

fun part_str :: "path_part \<Rightarrow> string" where
  "part_str (PKey k) = k"
| "part_str (PIndex i) = dec i"

definition path_str :: "path_part list \<Rightarrow> string" where
  "path_str p = str_join ''.'' (map part_str p)"

type_synonym effect_errors = "string list"

definition validate_scalar_parameters :: "packages \<Rightarrow> effect_definition \<Rightarrow> params \<Rightarrow> effect_errors" where
  "validate_scalar_parameters P d ps = map path_str (pk_iter_errors P (ef_parameter_schema d) (JObj ps))"

subsection \<open>Envelopes\<close>

text \<open>Python's \<open>==\<close> and \<open><=\<close> between JSON values: numbers and booleans compare by value, strings and lists
  lexicographically, anything else is a \<open>TypeError\<close>.\<close>

fun py_number :: "json_value \<Rightarrow> rat option" where
  "py_number (JInt i) = Some (of_int i)"
| "py_number (JNum r) = Some r"
| "py_number (JBool b) = Some (if b then 1 else 0)"
| "py_number _ = None"

fun py_eq :: "json_value \<Rightarrow> json_value \<Rightarrow> bool" where
  "py_eq (JList xs) (JList ys) = list_all2 py_eq xs ys"
| "py_eq (JObj d) (JObj e) = (set (map fst d) = set (map fst e) \<and>
     list_all (\<lambda>(k, v). case map_of e k of None \<Rightarrow> False | Some w \<Rightarrow> py_eq v w) d)"
| "py_eq v w = (case (py_number v, py_number w) of (Some a, Some b) \<Rightarrow> a = b | _ \<Rightarrow> v = w)"

fun py_le :: "json_value \<Rightarrow> json_value \<Rightarrow> exn + bool"
and py_list_le :: "json_value list \<Rightarrow> json_value list \<Rightarrow> exn + bool" where
  "py_le (JStr a) (JStr b) = Inr (a \<le> b)"
| "py_le (JList xs) (JList ys) = py_list_le xs ys"
| "py_le v w = (case (py_number v, py_number w) of (Some a, Some b) \<Rightarrow> Inr (a \<le> b) | _ \<Rightarrow> Inl TypeError)"
| "py_list_le [] ys = Inr True"
| "py_list_le (x # xs) [] = Inr False"
| "py_list_le (x # xs) (y # ys) = (if py_eq x y then py_list_le xs ys else py_le x y)"

text \<open>\<open>len(kfs)\<close>, \<open>kfs[i]\<close> and the \<open>t\<close> of an element: the items of a list, the characters of a string;
  an object has no item under a number, and only an object has a \<open>"t"\<close>.\<close>

fun keyframe_time :: "json_value \<Rightarrow> exn + json_value" where
  "keyframe_time (JObj d) = (case map_of d ''t'' of None \<Rightarrow> Inl KeyError | Some v \<Rightarrow> Inr v)"
| "keyframe_time _ = Inl AttributeError"

fun times_increase :: "json_value list \<Rightarrow> exn + unit" where
  "times_increase (a # b # ks) = sum_bind (keyframe_time a) (\<lambda>s. sum_bind (keyframe_time b) (\<lambda>t.
     sum_bind (py_le t s) (\<lambda>le. if le then Inl ValueError else times_increase (b # ks))))"
| "times_increase _ = Inr ()"

definition validate_keyframes :: "json_value \<Rightarrow> exn + unit" where
  "validate_keyframes v = (case v of
     JObj d \<Rightarrow> (case map_of d ''keyframes'' of None \<Rightarrow> Inr ()
       | Some kfs \<Rightarrow> if \<not> json_truthy kfs then Inl ValueError
           else (case kfs of JList xs \<Rightarrow> times_increase xs
             | JStr s \<Rightarrow> if length s < 2 then Inr () else Inl AttributeError
             | JObj e \<Rightarrow> if length e < 2 then Inr () else Inl KeyError
             | _ \<Rightarrow> Inl TypeError))
   | _ \<Rightarrow> Inr ())"

text \<open>\<open>model_validate\<close> turns a \<open>ValueError\<close> of the check into a validation error of the whole value; any
  other exception passes through it.\<close>

definition envelope_validate :: "packages \<Rightarrow> json_value \<Rightarrow> exn + (path_part list list + envelope)" where
  "envelope_validate P v = (case validate_keyframes v of
     Inl ValueError \<Rightarrow> Inr (Inl [[]]) | Inl e \<Rightarrow> Inl e | Inr _ \<Rightarrow> Inr (pk_envelope P v))"

definition curve_name_map :: "(string, string) dict" where
  "curve_name_map = [(''hold'', ''Hold''), (''linear'', ''Linear''), (''exponential'', ''Exponential''),
     (''ease_in_out'', ''EaseInOut'')]"

definition rust_keyframe :: "keyframe \<Rightarrow> exn + keyframe" where
  "rust_keyframe k = (case map_of curve_name_map (kf_curve k) of None \<Rightarrow> Inl KeyError
     | Some c \<Rightarrow> Inr (k\<lparr>kf_curve := c\<rparr>))"

definition build_rust_keyframes :: "effect_env \<Rightarrow> envelope \<Rightarrow> exn + string" where
  "build_rust_keyframes E a = sum_bind (map_ok rust_keyframe (en_keyframes a)) (\<lambda>ks.
     sum_bind (compile_automation (a\<lparr>en_keyframes := ks\<rparr>)) (\<lambda>e. Inr (show_expr E e)))"

definition process_automation_parameter ::
  "effect_env \<Rightarrow> packages \<Rightarrow> effect_definition \<Rightarrow> string \<Rightarrow> json_value \<Rightarrow> exn + effect_errors \<times> (string \<times> rat) option" where
  "process_automation_parameter E P d nm v =
     sum_bind (envelope_validate P v) (\<lambda>res. case res of
       Inl errs \<Rightarrow> Inr (map path_str errs, None)
     | Inr a \<Rightarrow>
         if nm \<notin> ef_automatable d then Inr ([nm], None)
         else (case build_rust_keyframes E a of
             Inl ValueError \<Rightarrow> Inr ([nm], None)
           | Inl e \<Rightarrow> Inl e
           | Inr compiled \<Rightarrow> Inr ([], Some (compiled, en_default a))))"

subsection \<open>The registry's methods\<close>

definition get_effect :: "string \<Rightarrow> effect_registry \<Rightarrow> effect_definition option" where
  "get_effect t r = map_of r t"

definition list_effect_types :: "effect_registry \<Rightarrow> (string \<times> effect_definition) list" where
  "list_effect_types r = r"

definition validate_effect :: "packages \<Rightarrow> string \<Rightarrow> params \<Rightarrow> effect_registry \<Rightarrow> exn + effect_errors" where
  "validate_effect P t ps r = (case get_effect t r of None \<Rightarrow> Inl KeyError
     | Some d \<Rightarrow> Inr (validate_scalar_parameters P d ps))"

definition is_envelope :: "json_value \<Rightarrow> bool" where
  "is_envelope v = (case v of JObj d \<Rightarrow> map_of d ''keyframes'' \<noteq> None | _ \<Rightarrow> False)"

record split_params =
  sp_errors :: effect_errors
  sp_compiled :: "string option"
  sp_scalars :: params

fun split_parameters ::
  "effect_env \<Rightarrow> packages \<Rightarrow> effect_definition \<Rightarrow> params \<Rightarrow> split_params \<Rightarrow> exn + split_params" where
  "split_parameters E P d [] acc = Inr acc"
| "split_parameters E P d ((nm, v) # ps) acc =
     (if is_envelope v then
        sum_bind (process_automation_parameter E P d nm v) (\<lambda>(errs, res).
          split_parameters E P d ps (case res of
              None \<Rightarrow> acc\<lparr>sp_errors := sp_errors acc @ errs\<rparr>
            | Some (compiled, dflt) \<Rightarrow> acc\<lparr>sp_errors := sp_errors acc @ errs, sp_compiled := Some compiled,
                sp_scalars := AList.update nm (JNum dflt) (sp_scalars acc)\<rparr>))
      else split_parameters E P d ps (acc\<lparr>sp_scalars := AList.update nm v (sp_scalars acc)\<rparr>))"

definition validate_with_automation ::
  "effect_env \<Rightarrow> packages \<Rightarrow> string \<Rightarrow> params \<Rightarrow> effect_registry \<Rightarrow> exn + effect_errors \<times> string option" where
  "validate_with_automation E P t ps r = (case get_effect t r of None \<Rightarrow> Inl KeyError
     | Some d \<Rightarrow> sum_bind (split_parameters E P d ps \<lparr>sp_errors = [], sp_compiled = None, sp_scalars = []\<rparr>) (\<lambda>acc.
         Inr (if sp_errors acc = [] then validate_scalar_parameters P d (sp_scalars acc) else sp_errors acc,
           sp_compiled acc)))"

text \<open>\<open>str.replace\<close>, and \<open>re.sub(r"\bt\b", "T", ...)\<close>.\<close>

function replace_all :: "string \<Rightarrow> string \<Rightarrow> string \<Rightarrow> string" where
  "replace_all pat by s = (if s = [] then []
     else if pat \<noteq> [] \<and> take (length pat) s = pat then by @ replace_all pat by (drop (length pat) s)
     else hd s # replace_all pat by (tl s))"
  by auto

termination
  by (relation "measure (\<lambda>(pat, by, s). length s)") (auto simp: neq_Nil_conv)

declare replace_all.simps [simp del]

fun contains :: "string \<Rightarrow> string \<Rightarrow> bool" where
  "contains pat [] = (pat = [])"
| "contains pat (c # cs) = (take (length pat) (c # cs) = pat \<or> contains pat cs)"

fun upper_bare_t :: "bool \<Rightarrow> string \<Rightarrow> string" where
  "upper_bare_t prev [] = []"
| "upper_bare_t prev (c # cs) =
     (if c = CHR ''t'' \<and> \<not> prev \<and> (case cs of [] \<Rightarrow> True | d # _ \<Rightarrow> \<not> word_char d) then CHR ''T'' else c) #
     upper_bare_t (word_char c) cs"

definition build_automation_filter_string :: "string \<Rightarrow> string \<Rightarrow> effect_registry \<Rightarrow> exn + string" where
  "build_automation_filter_string t compiled r = (case get_effect t r of
     None \<Rightarrow> Inl ValueError
   | Some d \<Rightarrow> (case ef_automation_filter_template d of
       None \<Rightarrow> Inl ValueError
     | Some template \<Rightarrow> (let escaped = replace_char CHR '','' [CHR 0x5C, CHR '',''] compiled in
         Inr (if contains ''{expr_T}'' template then replace_all ''{expr_T}'' (upper_bare_t False escaped) template
              else replace_all ''{expr}'' escaped template))))"

end
