(* ===== verification/Effect_Requests.thy ===== *)
theory Effect_Requests
  imports Project_Requests Effect_Registry
begin

text \<open>
  The requests on effects, \<open>src/stoat_ferret/api/routers/effects.py\<close>: previews of a filter, and the effects and
  transitions stored on the clips of a project. A request runs alone. \<open>E\<close> and \<open>P\<close> are the environment of
  the builders and the validation packages, \<open>r\<close> the registry.
\<close>

subsection \<open>Helpers\<close>

definition resolve_effect :: "effect_registry \<Rightarrow> string \<Rightarrow> exn + effect_definition" where
  "resolve_effect r t = (case get_effect t r of None \<Rightarrow> Inl (HTTPError 400 ''EFFECT_NOT_FOUND'') | Some d \<Rightarrow> Inr d)"

definition validate_params :: "effect_env \<Rightarrow> packages \<Rightarrow> effect_registry \<Rightarrow> string \<Rightarrow> params \<Rightarrow> exn + string option" where
  "validate_params E P r t ps = sum_bind (validate_with_automation E P t ps r) (\<lambda>(errs, compiled).
     if errs \<noteq> [] then Inl (HTTPError 400 ''INVALID_EFFECT_PARAMS'') else Inr compiled)"

definition flatten_value :: "json_value \<Rightarrow> json_value" where
  "flatten_value v = (case v of
     JObj d \<Rightarrow> if map_of d ''keyframes'' \<noteq> None then get_or (JNum 0) (map_of d ''default'') else v
   | _ \<Rightarrow> v)"

definition flatten_automation :: "params \<Rightarrow> params" where
  "flatten_automation ps = map (\<lambda>(nm, v). (nm, flatten_value v)) ps"

definition build_filter ::
  "effect_env \<Rightarrow> effect_registry \<Rightarrow> effect_definition \<Rightarrow> string \<Rightarrow> params \<Rightarrow> string option \<Rightarrow> bool \<Rightarrow> exn + string" where
  "build_filter E r d t ps compiled force_scalar = (case (if force_scalar then None else compiled) of
     Some c \<Rightarrow> build_automation_filter_string t c r
   | None \<Rightarrow> (case ef_build_fn d E (flatten_automation ps) of
       Inl e \<Rightarrow> Inl (HTTPError 400 ''INVALID_EFFECT_PARAMS'') | Inr s \<Rightarrow> Inr s))"

text \<open>Validation and the filter of a stored effect, as three requests do it.\<close>

definition effect_filter ::
  "effect_env \<Rightarrow> packages \<Rightarrow> effect_registry \<Rightarrow> effect_definition \<Rightarrow> string \<Rightarrow> params \<Rightarrow> exn + string option \<times> string" where
  "effect_filter E P r d t ps = sum_bind (validate_params E P r t ps) (\<lambda>compiled.
     sum_bind (build_filter E r d t ps compiled False) (\<lambda>f. Inr (compiled, f)))"

definition lift_op :: "exn + 'a \<Rightarrow> ('s, 'a) op" where
  "lift_op m = (case m of Inl e \<Rightarrow> throw e | Inr x \<Rightarrow> ret x)"

lemma lift_op_simps [simp]: "lift_op (Inl e) s = (Inl e, s)" "lift_op (Inr x) s = (Inr x, s)"
  by (simp_all add: lift_op_def)

subsection \<open>Previews\<close>

definition preview_effect :: "effect_env \<Rightarrow> packages \<Rightarrow> effect_registry \<Rightarrow> string \<Rightarrow> params \<Rightarrow> exn + string" where
  "preview_effect E P r t ps = sum_bind (resolve_effect r t) (\<lambda>d.
     sum_bind (effect_filter E P r d t ps) (\<lambda>(compiled, f). Inr f))"

text \<open>\<open>is_file\<close> and \<open>generate\<close> stand for the file system and the thumbnail service, which runs FFmpeg.\<close>

definition preview_effect_thumbnail ::
  "effect_env \<Rightarrow> packages \<Rightarrow> effect_registry \<Rightarrow> (string \<Rightarrow> bool) \<Rightarrow> (string \<Rightarrow> string \<Rightarrow> string option) \<Rightarrow>
   string \<Rightarrow> string \<Rightarrow> params \<Rightarrow> exn + string" where
  "preview_effect_thumbnail E P r is_file generate t video_path ps = sum_bind (resolve_effect r t) (\<lambda>d.
     if \<not> is_file video_path then Inl (HTTPError 400 ''VIDEO_NOT_FOUND'')
     else sum_bind (validate_params E P r t ps) (\<lambda>compiled.
       sum_bind (build_filter E r d t ps compiled True) (\<lambda>f.
       case generate video_path f of None \<Rightarrow> Inl (HTTPError 500 ''THUMBNAIL_GENERATION_FAILED'') | Some out \<Rightarrow> Inr out)))"

subsection \<open>The effects of a clip\<close>

record effect_response =
  er_effect_type :: string
  er_parameters :: params
  er_filter_string :: string
  er_filter_preview :: "string option"

definition get_clip_effects :: "'s media_repos \<Rightarrow> string \<Rightarrow> string \<Rightarrow> ('s, effect_data list) op" where
  "get_clip_effects R pid cid = bind_op (get_clip R pid cid) (\<lambda>c. ret (get_or [] (cl_effects c)))"

text \<open>The guards of the two effects that buffer or pick frames of the clip.\<close>

definition reverse_guard :: "rat \<Rightarrow> project \<Rightarrow> clip \<Rightarrow> exn + unit" where
  "reverse_guard max_s p c = sum_bind (py_div (of_int (cl_out_point c - cl_in_point c)) (of_int (pj_output_fps p))) (\<lambda>clip_s.
     if max_s < clip_s then Inl (HTTPError 422 ''clip_too_long'') else Inr ())"

definition freeze_guard :: "effect_env \<Rightarrow> params \<Rightarrow> clip \<Rightarrow> exn + unit" where
  "freeze_guard E ps c = sum_bind (py_int_of E (dict_get ''frame_number'' (JInt 0) ps)) (\<lambda>n.
     if cl_out_point c - cl_in_point c \<le> n then Inl (HTTPError 422 ''frame_number_out_of_range'') else Inr ())"

definition clip_guards :: "effect_env \<Rightarrow> rat \<Rightarrow> project \<Rightarrow> clip \<Rightarrow> string \<Rightarrow> params \<Rightarrow> exn + unit" where
  "clip_guards E max_s p c t ps = sum_bind (if t = ''reverse'' then reverse_guard max_s p c else Inr ()) (\<lambda>_.
     if t = ''freeze_frame'' then freeze_guard E ps c else Inr ())"

definition window_clause :: "effect_env \<Rightarrow> rat \<times> rat \<Rightarrow> string" where
  "window_clause E w = '':enable='' @ [CHR 0x27] @ ''between(t,'' @ py_str E (JNum (fst w)) @ '','' @ py_str E (JNum (snd w)) @
     '')'' @ [CHR 0x27]"

definition gate_window :: "effect_env \<Rightarrow> (rat \<times> rat) option \<Rightarrow> string \<Rightarrow> exn + string" where
  "gate_window E window f = (case window of None \<Rightarrow> Inr f
   | Some w \<Rightarrow> if contains ''enable='' f then Inl (HTTPError 422 ''window_conflicts_with_builtin_enable'')
       else Inr (f @ window_clause E w))"

definition set_effects :: "effect_data list \<Rightarrow> time \<Rightarrow> clip \<Rightarrow> clip" where
  "set_effects es now c = c\<lparr>cl_effects := Some es, cl_updated_at := now\<rparr>"

record effect_apply =
  ea_effect_type :: string
  ea_parameters :: params
  ea_window :: "(rat \<times> rat) option"

definition apply_effect_to_clip ::
  "'s media_repos \<Rightarrow> effect_env \<Rightarrow> packages \<Rightarrow> effect_registry \<Rightarrow> rat \<Rightarrow> time \<Rightarrow> string \<Rightarrow> string \<Rightarrow> effect_apply \<Rightarrow>
   ('s, effect_response) op" where
  "apply_effect_to_clip R E P r max_s now pid cid b = bind_op (get_project R pid) (\<lambda>p. bind_op (get_clip R pid cid) (\<lambda>c.
     let t = ea_effect_type b; ps = ea_parameters b in
     bind_op (lift_op (sum_bind (resolve_effect r t) (\<lambda>d. sum_bind (clip_guards E max_s p c t ps) (\<lambda>_.
         sum_bind (effect_filter E P r d t ps) (\<lambda>(compiled, f).
         sum_bind (gate_window E (ea_window b) f) (\<lambda>g. Inr (compiled, g))))))) (\<lambda>(compiled, f).
       seq_op (clr_update (mx_clips R) (set_effects (get_or [] (cl_effects c) @ [\<lparr>ed_effect_type = t, ed_parameters = JObj ps,
           ed_filter_string = f, ed_window = ea_window b\<rparr>]) now c))
         (ret \<lparr>er_effect_type = t, er_parameters = ps, er_filter_string = f,
           er_filter_preview = (if ea_window b \<noteq> None then Some f else compiled)\<rparr>))))"

text \<open>A Python index into a list: the requests refuse a negative one.\<close>

definition effect_at :: "effect_data list \<Rightarrow> int \<Rightarrow> effect_data option" where
  "effect_at es i = (if i < 0 \<or> int (length es) \<le> i then None else Some (es ! nat i))"

definition update_clip_effect ::
  "'s media_repos \<Rightarrow> effect_env \<Rightarrow> packages \<Rightarrow> effect_registry \<Rightarrow> time \<Rightarrow> string \<Rightarrow> string \<Rightarrow> int \<Rightarrow> params \<Rightarrow>
   ('s, effect_response) op" where
  "update_clip_effect R E P r now pid cid i ps = seq_op (get_project R pid) (bind_op (get_clip R pid cid) (\<lambda>c.
     let es = get_or [] (cl_effects c) in
     case effect_at es i of None \<Rightarrow> throw (HTTPError 404 ''NOT_FOUND'')
     | Some entry \<Rightarrow> (let t = ed_effect_type entry in
         bind_op (lift_op (sum_bind (resolve_effect r t) (\<lambda>d. effect_filter E P r d t ps))) (\<lambda>(compiled, f).
           seq_op (clr_update (mx_clips R) (set_effects (es[nat i := \<lparr>ed_effect_type = t, ed_parameters = JObj ps,
               ed_filter_string = f, ed_window = None\<rparr>]) now c))
             (ret \<lparr>er_effect_type = t, er_parameters = ps, er_filter_string = f, er_filter_preview = compiled\<rparr>)))))"

definition delete_clip_effect ::
  "'s media_repos \<Rightarrow> time \<Rightarrow> string \<Rightarrow> string \<Rightarrow> int \<Rightarrow> ('s, int \<times> string) op" where
  "delete_clip_effect R now pid cid i = seq_op (get_project R pid) (bind_op (get_clip R pid cid) (\<lambda>c.
     let es = get_or [] (cl_effects c) in
     case effect_at es i of None \<Rightarrow> throw (HTTPError 404 ''NOT_FOUND'')
     | Some removed \<Rightarrow>
         seq_op (clr_update (mx_clips R) (set_effects (take (nat i) es @ drop (Suc (nat i)) es) now c))
           (ret (i, ed_effect_type removed))))"

subsection \<open>Transitions between clips\<close>

record transition_request =
  tx_source_clip_id :: string
  tx_target_clip_id :: string
  tx_transition_type :: string
  tx_parameters :: params

definition clip_index :: "clip list \<Rightarrow> string \<Rightarrow> nat option" where
  "clip_index cs = map_of (rev (zip (map cl_id cs) [0..<length cs]))"

definition check_adjacent :: "clip list \<Rightarrow> string \<Rightarrow> string \<Rightarrow> exn + unit" where
  "check_adjacent cs source target =
     (if cs = [] then Inl (HTTPError 400 ''EMPTY_TIMELINE'')
      else (case clip_index cs source of None \<Rightarrow> Inl (HTTPError 404 ''NOT_FOUND'')
        | Some i \<Rightarrow> (case clip_index cs target of None \<Rightarrow> Inl (HTTPError 404 ''NOT_FOUND'')
          | Some j \<Rightarrow> if j \<noteq> i + 1 then Inl (HTTPError 400 ''NOT_ADJACENT'') else Inr ())))"

definition transition_filter :: "effect_env \<Rightarrow> packages \<Rightarrow> effect_registry \<Rightarrow> string \<Rightarrow> params \<Rightarrow> exn + string" where
  "transition_filter E P r t ps = sum_bind (resolve_effect r t) (\<lambda>d.
     sum_bind (validate_effect P t ps r) (\<lambda>errs.
     if errs \<noteq> [] then Inl (HTTPError 400 ''INVALID_EFFECT_PARAMS'')
     else (case ef_build_fn d E ps of Inl e \<Rightarrow> Inl (HTTPError 400 ''INVALID_EFFECT_PARAMS'') | Inr f \<Rightarrow> Inr f)))"

definition apply_transition ::
  "'s media_repos \<Rightarrow> effect_env \<Rightarrow> packages \<Rightarrow> effect_registry \<Rightarrow> string \<Rightarrow> time \<Rightarrow> string \<Rightarrow> transition_request \<Rightarrow>
   ('s, string \<times> string) op" where
  "apply_transition R E P r new_id now pid b = bind_op (get_project R pid) (\<lambda>p.
     if tx_source_clip_id b = tx_target_clip_id b then throw (HTTPError 400 ''SAME_CLIP'')
     else bind_op (clr_list_by_project (mx_clips R) pid) (\<lambda>cs.
       bind_op (lift_op (sum_bind (check_adjacent cs (tx_source_clip_id b) (tx_target_clip_id b)) (\<lambda>_.
           transition_filter E P r (tx_transition_type b) (tx_parameters b)))) (\<lambda>f.
         seq_op (pjr_update (mx_projects R) (p\<lparr>pj_transitions := Some (get_or [] (pj_transitions p) @
             [[(''id'', JStr new_id), (''source_clip_id'', JStr (tx_source_clip_id b)),
               (''target_clip_id'', JStr (tx_target_clip_id b)), (''transition_type'', JStr (tx_transition_type b)),
               (''parameters'', JObj (tx_parameters b)), (''filter_string'', JStr f)]]), pj_updated_at := now\<rparr>))
           (ret (new_id, f)))))"

end
