(* ===== verification/Media_Runs.thy ===== *)
theory Media_Runs
  imports Timeline_Requests Effect_Requests
begin

text \<open>
  How the requests of \<open>Project_Requests\<close>, \<open>Timeline_Requests\<close> and \<open>Effect_Requests\<close> run over repositories that meet
  \<open>media_store\<close>: one rule for each call of a repository, in the style of weakest preconditions. \<open>Q\<close> is what is to
  hold of the result and the state a request ends with.
\<close>

named_theorems wp \<open>what has to hold for a postcondition to hold of an operation\<close>
named_theorems wp_change \<open>the same for the calls that change the state\<close>

definition post :: "('r \<times> 's \<Rightarrow> bool) \<Rightarrow> 'r \<times> 's \<Rightarrow> bool" where
  "post Q p = Q p"

lemma wp_ret [wp]: "post Q (Inr x, s) \<Longrightarrow> post Q (ret x s)"
  by simp

lemma wp_throw [wp]: "post Q (Inl e, s) \<Longrightarrow> post Q (throw e s)"
  by simp

lemma wp_bind_ret [wp]: "post Q (f x s) \<Longrightarrow> post Q (bind_op (ret x) f s)"
  by (simp add: bind_op_run)

lemma wp_seq_ret [wp]: "post Q (m s) \<Longrightarrow> post Q (seq_op (ret x) m s)"
  by (simp add: seq_op_run)

lemma wp_seq_throw [wp]: "post Q (Inl e, s) \<Longrightarrow> post Q (seq_op (throw e) m s)"
  by (simp add: seq_op_run)

lemma wp_lift [wp]: "(\<And>e. m = Inl e \<Longrightarrow> post Q (Inl e, s)) \<Longrightarrow> (\<And>x. m = Inr x \<Longrightarrow> post Q (f x s)) \<Longrightarrow> post Q (bind_op (lift_op m) f s)"
  by (cases m) (simp_all add: bind_op_run)

lemma wp_if [wp]: "(b \<Longrightarrow> post Q (m s)) \<Longrightarrow> (\<not> b \<Longrightarrow> post Q (n s)) \<Longrightarrow> post Q ((if b then m else n) s)"
  by simp

lemma wp_option [wp]: "(v = None \<Longrightarrow> post Q (m s)) \<Longrightarrow> (\<And>x. v = Some x \<Longrightarrow> post Q (f x s)) \<Longrightarrow> post Q ((case v of None \<Rightarrow> m | Some x \<Rightarrow> f x) s)"
  by (cases v) simp_all

lemma wp_sum [wp]: "(\<And>e. v = Inl e \<Longrightarrow> post Q (g e s)) \<Longrightarrow> (\<And>x. v = Inr x \<Longrightarrow> post Q (f x s)) \<Longrightarrow> post Q ((case v of Inl e \<Rightarrow> g e | Inr x \<Rightarrow> f x) s)"
  by (cases v) simp_all

lemma wp_pair [wp]: "(\<And>x y. v = (x, y) \<Longrightarrow> post Q (f x y s)) \<Longrightarrow> post Q ((case v of (x, y) \<Rightarrow> f x y) s)"
  by (cases v) simp

lemma wp_seq_option [wp]: "(v = None \<Longrightarrow> post Q (m s)) \<Longrightarrow> (\<And>x. v = Some x \<Longrightarrow> post Q (seq_op (f x) m s)) \<Longrightarrow>
    post Q (seq_op (case v of None \<Rightarrow> ret y | Some x \<Rightarrow> f x) m s)"
  by (cases v) (simp_all add: seq_op_run)

lemma wp_seq_if [wp]: "(b \<Longrightarrow> post Q (seq_op m n s)) \<Longrightarrow> (\<not> b \<Longrightarrow> post Q (n s)) \<Longrightarrow> post Q (seq_op (if b then m else ret y) n s)"
  by (simp add: seq_op_run)

lemma wp_seq_seq [wp]: "post Q (seq_op a (seq_op b m) s) \<Longrightarrow> post Q (seq_op (seq_op a b) m s)"
  by (auto simp: seq_op_run split: prod.splits sum.splits)

lemma wp_let [wp]: "(\<And>x. x = v \<Longrightarrow> post Q (f x s)) \<Longrightarrow> post Q ((let x = v in f x) s)"
  by simp

text \<open>A file clip passes the check of its source when it lies within its video.\<close>

definition in_source :: "media_view \<Rightarrow> clip \<Rightarrow> bool" where
  "in_source w c \<longleftrightarrow> (\<exists>v x. cl_source_video_id c = Some v \<and> mv_videos w v = Some x \<and>
     0 \<le> cl_in_point c \<and> cl_in_point c < cl_out_point c \<and> cl_out_point c \<le> vd_duration_frames x)"

lemma clip_validate_ok:
  "clip_validate c path (Some d) = Inr None \<Longrightarrow> cl_clip_type c \<noteq> ''generator'' \<Longrightarrow>
   0 \<le> cl_in_point c \<and> cl_in_point c < cl_out_point c \<and> cl_out_point c \<le> d"
  by (auto simp: clip_validate_def sum_bind_Inr unsigned_def validate_clip_def split: if_splits list.splits)

lemma group_clips_mem:
  "map_of (group_clips cs d) t = Some xs \<Longrightarrow> c \<in> set xs \<Longrightarrow>
   (c \<in> set cs \<and> cl_track_id c = Some t) \<or> (\<exists>ys. map_of d t = Some ys \<and> c \<in> set ys)"
proof (induction cs d rule: group_clips.induct)
  case (1 d)
  then show ?case by simp
next
  case (2 b cs d)
  then show ?case by (cases "cl_track_id b") (fastforce simp: dict_set_get get_or_def split: if_splits option.splits)+
qed

context media_store begin

lemma wp_get_project [wp]:
  "ok s \<Longrightarrow> (mv_projects (view s) pid = None \<Longrightarrow> post Q (Inl (HTTPError 404 ''NOT_FOUND''), s)) \<Longrightarrow>
   (\<And>p. mv_projects (view s) pid = Some p \<Longrightarrow> pj_id p = pid \<Longrightarrow> post Q (f p s)) \<Longrightarrow> post Q (bind_op (get_project R pid) f s)"
  by (auto simp: get_project_def bind_op_run project_get project_key split: option.splits)

lemma wp_seq_get_project [wp]:
  "ok s \<Longrightarrow> (mv_projects (view s) pid = None \<Longrightarrow> post Q (Inl (HTTPError 404 ''NOT_FOUND''), s)) \<Longrightarrow>
   (\<And>p. mv_projects (view s) pid = Some p \<Longrightarrow> pj_id p = pid \<Longrightarrow> post Q (m s)) \<Longrightarrow> post Q (seq_op (get_project R pid) m s)"
  unfolding seq_op_def by (rule wp_get_project)

lemma wp_get_clip [wp]:
  "ok s \<Longrightarrow> post Q (Inl (HTTPError 404 ''NOT_FOUND''), s) \<Longrightarrow>
   (\<And>c. mv_clips (view s) cid = Some c \<Longrightarrow> cl_id c = cid \<Longrightarrow> cl_project_id c = pid \<Longrightarrow> post Q (f c s)) \<Longrightarrow>
   post Q (bind_op (get_clip R pid cid) f s)"
  by (auto simp: get_clip_def bind_op_run clip_get clip_key split: option.splits)

lemma wp_seq_get_clip [wp]:
  "ok s \<Longrightarrow> post Q (Inl (HTTPError 404 ''NOT_FOUND''), s) \<Longrightarrow>
   (\<And>c. mv_clips (view s) cid = Some c \<Longrightarrow> cl_id c = cid \<Longrightarrow> cl_project_id c = pid \<Longrightarrow> post Q (m s)) \<Longrightarrow>
   post Q (seq_op (get_clip R pid cid) m s)"
  unfolding seq_op_def by (rule wp_get_clip)

lemma wp_find_project [wp]:
  "ok s \<Longrightarrow> post Q (f (mv_projects (view s) pid) s) \<Longrightarrow> post Q (bind_op (pjr_get (mx_projects R) pid) f s)"
  by (simp add: project_get)

lemma wp_project_update [wp_change]:
  "ok s \<Longrightarrow> mv_projects (view s) (pj_id p) = Some q \<Longrightarrow> pj_created_at q = pj_created_at p \<Longrightarrow>
   (\<And>s'. ok s' \<Longrightarrow> view s' = (view s)\<lparr>mv_projects := (mv_projects (view s))(pj_id p \<mapsto> p)\<rparr> \<Longrightarrow> post Q (m s')) \<Longrightarrow>
   post Q (seq_op (pjr_update (mx_projects R) p) m s)"
  using project_update [of s p q] by auto

lemma wp_project_add [wp_change]:
  "ok s \<Longrightarrow> mv_projects (view s) (pj_id p) = None \<Longrightarrow>
   (\<And>s'. ok s' \<Longrightarrow> view s' = (view s)\<lparr>mv_projects := (mv_projects (view s))(pj_id p \<mapsto> p)\<rparr> \<Longrightarrow> post Q (m s')) \<Longrightarrow>
   post Q (seq_op (pjr_add (mx_projects R) p) m s)"
  using project_add [of s p] by auto

lemma wp_project_delete [wp_change]:
  "ok s \<Longrightarrow> post Q (Inl IntegrityError, s) \<Longrightarrow> (\<And>s'. ok s' \<Longrightarrow> mv_projects (view s') = (mv_projects (view s))(k := None) \<Longrightarrow>
     mv_clips (view s') \<subseteq>\<^sub>m mv_clips (view s) \<Longrightarrow> mv_tracks (view s') \<subseteq>\<^sub>m mv_tracks (view s) \<Longrightarrow>
     mv_videos (view s') = mv_videos (view s) \<Longrightarrow> post Q (f (mv_projects (view s) k \<noteq> None) s')) \<Longrightarrow>
   post Q (bind_op (pjr_delete (mx_projects R) k) f s)"
  using project_delete [of s k] project_kept [of s k] by (cases "project_pinned (view s) k") auto

lemma wp_clip_update [wp_change]:
  "ok s \<Longrightarrow> mv_clips (view s) (cl_id c) = Some b \<Longrightarrow> same_clip b c \<Longrightarrow>
   (\<And>s'. ok s' \<Longrightarrow> view s' = (view s)\<lparr>mv_clips := (mv_clips (view s))(cl_id c \<mapsto> c)\<rparr> \<Longrightarrow> post Q (m s')) \<Longrightarrow>
   post Q (seq_op (clr_update (mx_clips R) c) m s)"
  using clip_update [of s c b] by auto

lemma wp_clip_add [wp_change]:
  "ok s \<Longrightarrow> mv_clips (view s) (cl_id c) = None \<Longrightarrow> clip_anchored (view s) c \<Longrightarrow>
   (\<And>s'. ok s' \<Longrightarrow> view s' = (view s)\<lparr>mv_clips := (mv_clips (view s))(cl_id c \<mapsto> c)\<rparr> \<Longrightarrow> post Q (Inr c, s')) \<Longrightarrow>
   post Q (clr_add (mx_clips R) c s)"
  using clip_add [of s c] by auto

lemma wp_clip_delete [wp_change]:
  "ok s \<Longrightarrow> (\<And>s'. ok s' \<Longrightarrow> view s' = (view s)\<lparr>mv_clips := (mv_clips (view s))(k := None)\<rparr> \<Longrightarrow> post Q (m s')) \<Longrightarrow>
   post Q (seq_op (clr_delete (mx_clips R) k) m s)"
  using clip_delete [of s k] by auto

lemma wp_clip_split [wp_change]:
  "ok s \<Longrightarrow> mv_clips (view s) k = Some c \<Longrightarrow> mv_clips (view s) (cl_id a) = None \<Longrightarrow> mv_clips (view s) (cl_id b) = None \<Longrightarrow>
   cl_id a \<noteq> cl_id b \<Longrightarrow> clip_anchored (view s) a \<Longrightarrow> clip_anchored (view s) b \<Longrightarrow>
   (\<And>s'. ok s' \<Longrightarrow> view s' = (view s)\<lparr>mv_clips := (mv_clips (view s))(cl_id a \<mapsto> a, cl_id b \<mapsto> b, k := None)\<rparr> \<Longrightarrow>
     post Q (Inr (a, b), s')) \<Longrightarrow>
   post Q (clr_split_atomic (mx_clips R) a b k s)"
  using clip_split [of s k a b] by auto

lemma wp_clip_list [wp]:
  "ok s \<Longrightarrow> (\<And>cs. sorted (map cl_timeline_position cs) \<Longrightarrow> distinct (map cl_id cs) \<Longrightarrow>
     (\<And>c. c \<in> set cs \<longleftrightarrow> mv_clips (view s) (cl_id c) = Some c \<and> cl_project_id c = pid) \<Longrightarrow> post Q (f cs s)) \<Longrightarrow>
   post Q (bind_op (clr_list_by_project (mx_clips R) pid) f s)"
  using clip_list [of s pid] by auto

lemma wp_get_track [wp]:
  "ok s \<Longrightarrow> post Q (Inl (HTTPError 404 ''TRACK_NOT_FOUND''), s) \<Longrightarrow>
   (\<And>t. mv_tracks (view s) tid = Some t \<Longrightarrow> tk_id t = tid \<Longrightarrow> tk_project_id t = pid \<Longrightarrow> post Q (m s)) \<Longrightarrow>
   post Q (seq_op (get_project_track R pid tid) m s)"
  by (auto simp: get_project_track_def seq_op_run bind_op_run track_get track_key split: option.splits)

lemma wp_track_list [wp]:
  "ok s \<Longrightarrow> (\<And>ts. sorted (map tk_z_index ts) \<Longrightarrow> distinct (map tk_id ts) \<Longrightarrow>
     (\<And>t. t \<in> set ts \<longleftrightarrow> mv_tracks (view s) (tk_id t) = Some t \<and> tk_project_id t = pid) \<Longrightarrow> post Q (f ts s)) \<Longrightarrow>
   post Q (bind_op (tlr_get_tracks_by_project (mx_timeline R) pid) f s)"
  using track_list [of s pid] by auto

lemma wp_broadcast [wp_change]:
  "ok s \<Longrightarrow> (\<And>s'. ok s' \<Longrightarrow> view s' = view s \<Longrightarrow> post Q (m s')) \<Longrightarrow> post Q (seq_op (mx_broadcast R e msg) m s)"
  using broadcast [of s e msg] by auto

lemma wp_last_broadcast [wp_change]:
  "ok s \<Longrightarrow> (\<And>s'. ok s' \<Longrightarrow> view s' = view s \<Longrightarrow> post Q (Inr (), s')) \<Longrightarrow> post Q (mx_broadcast R e msg s)"
  using broadcast [of s e msg] by auto

lemma wp_timeline_updated [wp_change]:
  "ok s \<Longrightarrow> (\<And>s'. ok s' \<Longrightarrow> view s' = view s \<Longrightarrow> post Q (m s')) \<Longrightarrow> post Q (seq_op (timeline_updated R pid cid) m s)"
  unfolding timeline_updated_def by (rule wp_broadcast)

lemma wp_check_source [wp]:
  assumes "ok s" "\<And>e. post Q (Inl e, s)"
    and "(cl_clip_type c \<noteq> ''generator'' \<Longrightarrow> in_source (view s) c) \<Longrightarrow> (\<exists>v. cl_source_video_id c = Some v \<and> mv_videos (view s) v \<noteq> None) \<Longrightarrow> post Q (m s)"
  shows "post Q (seq_op (check_source R c) m s)"
proof (cases "cl_source_video_id c")
  case None
  then show ?thesis using assms by (simp add: check_source_def seq_op_run bind_op_run)
next
  case (Some v)
  show ?thesis
  proof (cases "mv_videos (view s) v")
    case None
    then show ?thesis using assms Some by (simp add: check_source_def seq_op_run bind_op_run video_get)
  next
    case (Some x)
    with assms \<open>cl_source_video_id c = Some v\<close> show ?thesis
      using clip_validate_ok [of c "vd_path x" "vd_duration_frames x"]
      by (auto simp: check_source_def seq_op_run bind_op_run video_get in_source_def split: sum.splits option.splits)
  qed
qed

lemma wp_clips_by_track [wp]:
  assumes "ok s" "\<And>d. (\<And>t cs c. map_of d t = Some cs \<Longrightarrow> c \<in> set cs \<Longrightarrow>
      mv_clips (view s) (cl_id c) = Some c \<and> cl_project_id c = pid \<and> cl_track_id c = Some t) \<Longrightarrow> post Q (f d s)"
  shows "post Q (bind_op (get_clips_by_track R pid) f s)"
proof -
  obtain cs where cs: "clr_list_by_project (mx_clips R) pid s = (Inr cs, s)"
    "\<And>c. c \<in> set cs \<longleftrightarrow> mv_clips (view s) (cl_id c) = Some c \<and> cl_project_id c = pid"
    using clip_list [OF assms(1), of pid] by blast
  let ?d = "map (\<lambda>(t, cs). (t, sort_key (\<lambda>c. get_or 0 (cl_timeline_start c)) cs)) (group_clips cs [])"
  have "mv_clips (view s) (cl_id c) = Some c \<and> cl_project_id c = pid \<and> cl_track_id c = Some t"
    if d: "map_of ?d t = Some xs" and c: "c \<in> set xs" for t xs c
  proof -
    from d obtain ys where "map_of (group_clips cs []) t = Some ys" "set xs = set ys" by (auto simp: map_of_map)
    with c have "c \<in> set cs \<and> cl_track_id c = Some t" using group_clips_mem [of cs "[]" t ys c] by simp
    with cs(2) show ?thesis by blast
  qed
  from assms(2) [OF this] show ?thesis by (simp add: get_clips_by_track_def bind_op_run cs(1))
qed

text \<open>The loops of \<open>put_timeline\<close>.\<close>

text \<open>A track that is named by a pair or a cue stops the loop; those before it are gone.\<close>

lemma wp_delete_tracks [wp_change]:
  "ok s \<Longrightarrow> (\<And>s' T. ok s' \<Longrightarrow> view s' = (view s)\<lparr>mv_tracks := T\<rparr> \<Longrightarrow> T \<subseteq>\<^sub>m mv_tracks (view s) \<Longrightarrow> post Q (Inl IntegrityError, s')) \<Longrightarrow>
   (\<And>s'. ok s' \<Longrightarrow> view s' = (view s)\<lparr>mv_tracks := (mv_tracks (view s)) |` (- tk_id ` set ts)\<rparr> \<Longrightarrow> post Q (m s')) \<Longrightarrow>
   post Q (seq_op (delete_tracks R ts) m s)"
proof (induction ts arbitrary: s)
  case Nil
  then show ?case by (simp add: delete_tracks_def seq_op_run)
next
  case (Cons t ts)
  show ?case
  proof (cases "track_pinned (view s) (tk_id t)")
    case True
    have "view s = (view s)\<lparr>mv_tracks := mv_tracks (view s)\<rparr>" by simp
    from Cons.prems(2) [OF Cons.prems(1) this map_le_refl] track_kept [OF Cons.prems(1) True]
    show ?thesis by (simp add: delete_tracks_def seq_op_run)
  next
    case False
    from track_delete [OF Cons.prems(1) False] obtain s1 where
      s1: "tlr_delete_track (mx_timeline R) (tk_id t) s = (Inr (mv_tracks (view s) (tk_id t) \<noteq> None), s1)" "ok s1"
        "view s1 = (view s)\<lparr>mv_tracks := (mv_tracks (view s))(tk_id t := None)\<rparr>" by blast
    have "post Q (seq_op (delete_tracks R ts) m s1)"
    proof (rule Cons.IH [OF s1(2)])
      fix s' T assume s': "ok s'" "view s' = (view s1)\<lparr>mv_tracks := T\<rparr>" "T \<subseteq>\<^sub>m mv_tracks (view s1)"
      have "(mv_tracks (view s))(tk_id t := None) \<subseteq>\<^sub>m mv_tracks (view s)" by (simp add: map_le_def)
      then have "T \<subseteq>\<^sub>m mv_tracks (view s)" using s'(3) s1(3) by (auto intro: map_le_trans)
      then show "post Q (Inl IntegrityError, s')" using Cons.prems(2) [of s' T] s'(1,2) s1(3) by simp
    next
      fix s' assume "ok s'" "view s' = (view s1)\<lparr>mv_tracks := mv_tracks (view s1) |` (- tk_id ` set ts)\<rparr>"
      moreover have "(mv_tracks (view s))(tk_id t := None) |` (- tk_id ` set ts) = mv_tracks (view s) |` (- tk_id ` set (t # ts))"
        by (auto simp: restrict_map_def fun_eq_iff)
      ultimately show "post Q (m s')" using Cons.prems(3) s1(3) by simp
    qed
    then show ?thesis using s1(1) by (simp add: delete_tracks_def seq_op_run)
  qed
qed

lemma wp_create_tracks [wp_change]:
  "ok s \<Longrightarrow> mv_projects (view s) pid \<noteq> None \<Longrightarrow> (\<And>j. i \<le> j \<Longrightarrow> j < i + length tds \<Longrightarrow> mv_tracks (view s) (ids j) = None) \<Longrightarrow>
   inj_on ids {i..<i + length tds} \<Longrightarrow>
   (\<And>s' T. ok s' \<Longrightarrow> view s' = (view s)\<lparr>mv_tracks := T\<rparr> \<Longrightarrow>
     (\<And>k. k \<notin> ids ` {i..<i + length tds} \<Longrightarrow> T k = mv_tracks (view s) k) \<Longrightarrow>
     (\<And>j. j < length tds \<Longrightarrow> T (ids (i + j)) = Some (stored (new_track (ids (i + j)) pid (i + j) (tds ! j)))) \<Longrightarrow>
     post Q (f (map (\<lambda>j. new_track (ids (i + j)) pid (i + j) (tds ! j)) [0..<length tds]) s')) \<Longrightarrow>
   post Q (bind_op (create_tracks R pid ids i tds) f s)"
proof (induction tds arbitrary: s i f)
  case Nil
  have "view s = (view s)\<lparr>mv_tracks := mv_tracks (view s)\<rparr>" by simp
  from Nil(5) [OF Nil(1) this] show ?case by (simp add: bind_op_run)
next
  case (Cons td tds)
  let ?t = "new_track (ids i) pid i td"
  have t: "tk_id ?t = ids i" "tk_project_id ?t = pid" by (simp_all add: new_track_def)
  from Cons.prems(3) [of i] have "mv_tracks (view s) (tk_id ?t) = None" by (simp add: t)
  from track_create [OF Cons.prems(1) this] Cons.prems(2) obtain s1 where
    s1: "tlr_create_track (mx_timeline R) ?t s = (Inr ?t, s1)" "ok s1"
      "view s1 = (view s)\<lparr>mv_tracks := (mv_tracks (view s))(ids i \<mapsto> stored ?t)\<rparr>" by (auto simp: t)
  have ne: "ids j \<noteq> ids i" if "Suc i \<le> j" "j < i + length (td # tds)" for j
    using inj_onD [OF Cons.prems(4), of j i] that by auto
  have "post Q (bind_op (create_tracks R pid ids (Suc i) tds) (\<lambda>ts. f (?t # ts)) s1)"
  proof (rule Cons.IH)
    show "ok s1" by (rule s1)
    show "mv_projects (view s1) pid \<noteq> None" using Cons.prems(2) s1(3) by simp
    show "inj_on ids {Suc i..<Suc i + length tds}" by (rule inj_on_subset [OF Cons.prems(4)]) auto
    show "mv_tracks (view s1) (ids j) = None" if "Suc i \<le> j" "j < Suc i + length tds" for j
      using that Cons.prems(3) [of j] ne [of j] s1(3) by simp
  next
    fix s' T
    assume s': "ok s'" "view s' = (view s1)\<lparr>mv_tracks := T\<rparr>"
      and out: "\<And>k. k \<notin> ids ` {Suc i..<Suc i + length tds} \<Longrightarrow> T k = mv_tracks (view s1) k"
      and ins: "\<And>j. j < length tds \<Longrightarrow> T (ids (Suc i + j)) = Some (stored (new_track (ids (Suc i + j)) pid (Suc i + j) (tds ! j)))"
    have map: "map (\<lambda>j. new_track (ids (i + j)) pid (i + j) ((td # tds) ! j)) [0..<length (td # tds)] =
        ?t # map (\<lambda>j. new_track (ids (Suc i + j)) pid (Suc i + j) (tds ! j)) [0..<length tds]"
      by (simp add: upt_conv_Cons map_Suc_upt [symmetric] comp_def del: upt_Suc)
    have "ids i \<notin> ids ` {Suc i..<Suc i + length tds}" using ne by fastforce
    from out [OF this] s1(3) have first: "T (ids i) = Some (stored ?t)" by simp
    show "post Q (f (?t # map (\<lambda>j. new_track (ids (Suc i + j)) pid (Suc i + j) (tds ! j)) [0..<length tds]) s')"
      unfolding map [symmetric]
    proof (rule Cons.prems(5) [OF s'(1)])
      show "view s' = (view s)\<lparr>mv_tracks := T\<rparr>" using s'(2) s1(3) by simp
      show "T k = mv_tracks (view s) k" if "k \<notin> ids ` {i..<i + length (td # tds)}" for k
      proof -
        have "k \<noteq> ids i" "k \<notin> ids ` {Suc i..<Suc i + length tds}" using that by auto
        with out s1(3) show ?thesis by simp
      qed
      show "T (ids (i + j)) = Some (stored (new_track (ids (i + j)) pid (i + j) ((td # tds) ! j)))"
        if "j < length (td # tds)" for j
        using that first ins [of "j - 1"] by (cases j) simp_all
    qed
  qed
  then show ?case using s1(1) by (simp add: bind_op_run seq_op_run Let_def split: prod.splits sum.splits)
qed

end

end
