(* ===== verification/Media_Invariants.thy ===== *)
theory Media_Invariants
  imports Media_Runs
begin

text \<open>
  What every sequence of requests keeps true of the clips of a project, whatever the requests answer: file
  clips lie within their videos. The step relation has one rule per request; an id that is new is one no
  row has.
\<close>

subsection \<open>Sequences of requests\<close>

inductive media_step :: "'s media_repos \<Rightarrow> ('s \<Rightarrow> media_view) \<Rightarrow> 's \<Rightarrow> 's \<Rightarrow> bool"
  for R :: "'s media_repos" and view :: "'s \<Rightarrow> media_view" where
  create_project: "mv_projects (view s) new_id = None \<Longrightarrow> media_step R view s (snd (create_project R new_id now pb s))"
| update_project: "media_step R view s (snd (update_project R pid now pp s))"
| delete_project: "media_step R view s (snd (delete_project R pid s))"
| add_clip: "mv_clips (view s) new_id = None \<Longrightarrow> clip_create_fields cb \<Longrightarrow> validate_clip_type_fields cb = Inr () \<Longrightarrow>
    media_step R view s (snd (add_clip R assets new_id now pid cb s))"
| update_clip: "media_step R view s (snd (update_clip R now pid cid cp s))"
| split_clip: "mv_clips (view s) id_a = None \<Longrightarrow> mv_clips (view s) id_b = None \<Longrightarrow> id_a \<noteq> id_b \<Longrightarrow>
    media_step R view s (snd (split_clip R id_a id_b now pid cid frame s))"
| delete_clip: "media_step R view s (snd (delete_clip R pid cid s))"
| put_timeline: "(\<And>j. mv_tracks (view s) (ids j) = None) \<Longrightarrow> inj ids \<Longrightarrow> media_step R view s (snd (put_timeline R ids pid tds s))"
| add_timeline_clip: "media_step R view s (snd (add_timeline_clip R now pid cid tid start end s))"
| update_timeline_clip: "media_step R view s (snd (update_timeline_clip R now pid cid tp s))"
| remove_timeline_clip: "media_step R view s (snd (remove_timeline_clip R now pid cid s))"
| add_transition: "media_step R view s (snd (add_transition R graph new_id now pid tn s))"
| delete_transition: "media_step R view s (snd (delete_transition R now pid tid s))"
| apply_effect: "media_step R view s (snd (apply_effect_to_clip R E P r max_s now pid cid ea s))"
| update_effect: "media_step R view s (snd (update_clip_effect R E P r now pid cid i ps s))"
| delete_effect: "media_step R view s (snd (delete_clip_effect R now pid cid i s))"
| apply_transition: "media_step R view s (snd (apply_transition R E P r new_id now pid tx s))"

abbreviation media_run :: "'s media_repos \<Rightarrow> ('s \<Rightarrow> media_view) \<Rightarrow> 's \<Rightarrow> 's \<Rightarrow> bool" where
  "media_run R view \<equiv> (media_step R view)\<^sup>*\<^sup>*"

text \<open>A file clip lies within its video; a generator or an image has none.\<close>

definition clip_sound :: "media_view \<Rightarrow> clip \<Rightarrow> bool" where
  "clip_sound w c \<longleftrightarrow> (if cl_clip_type c = ''file'' then in_source w c else cl_source_video_id c = None)"

definition sources_ok :: "media_view \<Rightarrow> bool" where
  "sources_ok w \<longleftrightarrow> (\<forall>k c. mv_clips w k = Some c \<longrightarrow> clip_sound w c)"

lemma clip_sound_cong: "mv_videos w' = mv_videos w \<Longrightarrow> clip_sound w' c = clip_sound w c"
  by (simp add: clip_sound_def in_source_def)

lemma sources_okD: "sources_ok w \<Longrightarrow> mv_clips w k = Some c \<Longrightarrow> clip_sound w c"
  by (simp add: sources_ok_def)

lemma sources_ok_upd:
  "sources_ok w \<Longrightarrow> clip_sound w c \<Longrightarrow> sources_ok (w\<lparr>mv_clips := (mv_clips w)(k \<mapsto> c)\<rparr>)"
  by (auto simp: sources_ok_def clip_sound_cong [of "w\<lparr>mv_clips := _\<rparr>" w])

text \<open>The frames and the source of a clip, which most updates keep.\<close>

definition same_frames :: "clip \<Rightarrow> clip \<Rightarrow> bool" where
  "same_frames b c \<longleftrightarrow> cl_clip_type b = cl_clip_type c \<and> cl_source_video_id b = cl_source_video_id c \<and>
     cl_in_point b = cl_in_point c \<and> cl_out_point b = cl_out_point c"

lemma sources_ok_same: "sources_ok w \<Longrightarrow> mv_clips w k = Some b \<Longrightarrow> same_frames b c \<Longrightarrow> sources_ok (w\<lparr>mv_clips := (mv_clips w)(k \<mapsto> c)\<rparr>)"
  by (rule sources_ok_upd) (auto simp: same_frames_def clip_sound_def in_source_def dest: sources_okD)

lemma sources_ok_keep: "sources_ok w \<Longrightarrow> mv_clips w' \<subseteq>\<^sub>m mv_clips w \<Longrightarrow> mv_videos w' = mv_videos w \<Longrightarrow> sources_ok w'"
  using clip_sound_cong [of w' w] by (force simp: sources_ok_def map_le_def dom_def)

lemma postI: "Q p \<Longrightarrow> post Q p"
  by (simp add: post_def)

context media_store begin

definition good :: "'s \<Rightarrow> bool" where
  "good s \<longleftrightarrow> ok s \<and> sources_ok (view s)"

abbreviation keeps_good :: "'r \<times> 's \<Rightarrow> bool" where
  "keeps_good \<equiv> post (\<lambda>p. good (snd p))"

lemma good_post [wp]: "good s \<Longrightarrow> keeps_good (x, s)"
  by (simp add: post_def)

lemma goodD: "good s \<Longrightarrow> ok s"
  by (simp add: good_def)

lemma good_view: "good s \<Longrightarrow> ok s' \<Longrightarrow> mv_clips (view s') \<subseteq>\<^sub>m mv_clips (view s) \<Longrightarrow> mv_videos (view s') = mv_videos (view s) \<Longrightarrow> good s'"
  unfolding good_def using sources_ok_keep [of "view s" "view s'"] by blast

lemma good_same:
  "good s \<Longrightarrow> ok s' \<Longrightarrow> mv_clips (view s) k = Some b \<Longrightarrow> same_frames b c \<Longrightarrow>
   view s' = (view s)\<lparr>mv_clips := (mv_clips (view s))(k \<mapsto> c)\<rparr> \<Longrightarrow> good s'"
  unfolding good_def using sources_ok_same [of "view s" k b c] by simp

text \<open>The calls that change the state, on good states.\<close>

named_theorems keeps \<open>calls that keep the state good\<close>

lemma keeps_update [keeps]:
  assumes "good s" "mv_clips (view s) (cl_id c) = Some b" "same_clip b c" "same_frames b c"
    and "\<And>s'. good s' \<Longrightarrow> keeps_good (m s')"
  shows "keeps_good (seq_op (clr_update (mx_clips R) c) m s)"
  by (rule wp_clip_update [OF goodD [OF assms(1)] assms(2,3)]) (rule assms(5), erule good_same [OF assms(1) _ assms(2,4)])

lemma keeps_project [keeps]:
  assumes "good s" "mv_projects (view s) (pj_id p) = Some q" "pj_created_at q = pj_created_at p"
    and "\<And>s'. good s' \<Longrightarrow> keeps_good (m s')"
  shows "keeps_good (seq_op (pjr_update (mx_projects R) p) m s)"
  by (rule wp_project_update [OF goodD [OF assms(1)] assms(2,3)]) (rule assms(4), erule good_view [OF assms(1)], simp_all)

lemma keeps_broadcast [keeps]:
  assumes "good s" "\<And>s'. good s' \<Longrightarrow> keeps_good (m s')"
  shows "keeps_good (seq_op (mx_broadcast R e msg) m s)"
  by (rule wp_broadcast [OF goodD [OF assms(1)]]) (rule assms(2), erule good_view [OF assms(1)], simp_all)

lemma keeps_last_broadcast [keeps]:
  assumes "good s"
  shows "keeps_good (mx_broadcast R e msg s)"
  by (rule wp_last_broadcast [OF goodD [OF assms]]) (rule good_post, erule good_view [OF assms], simp_all)

lemma keeps_timeline_updated [keeps]:
  assumes "good s" "\<And>s'. good s' \<Longrightarrow> keeps_good (m s')"
  shows "keeps_good (seq_op (timeline_updated R pid cid) m s)"
  unfolding timeline_updated_def by (rule keeps_broadcast [OF assms])

lemma keeps_last_timeline_updated [keeps]: "good s \<Longrightarrow> keeps_good (timeline_updated R pid cid s)"
  unfolding timeline_updated_def by (rule keeps_last_broadcast)

lemma keeps_sum [keeps]:
  assumes "\<And>e. v = Inl e \<Longrightarrow> keeps_good (g e s)" "\<And>x. v = Inr x \<Longrightarrow> keeps_good (f x s)"
  shows "keeps_good ((case v of Inl e \<Rightarrow> g e | Inr x \<Rightarrow> f x) s)"
  using assms by (rule wp_sum)

lemma apply_effect_good: "good s \<Longrightarrow> keeps_good (apply_effect_to_clip R E P r max_s now pid cid b s)"
  unfolding apply_effect_to_clip_def
  by (intro wp keeps | erule goodD | assumption | (simp add: same_clip_def same_frames_def set_effects_def; fail))+

lemma update_effect_good: "good s \<Longrightarrow> keeps_good (update_clip_effect R E P r now pid cid i ps s)"
  unfolding update_clip_effect_def
  by (intro wp keeps | erule goodD | assumption | (simp add: same_clip_def same_frames_def set_effects_def; fail))+

lemma delete_effect_good: "good s \<Longrightarrow> keeps_good (delete_clip_effect R now pid cid i s)"
  unfolding delete_clip_effect_def
  by (intro wp keeps | erule goodD | assumption | (simp add: same_clip_def same_frames_def set_effects_def; fail))+

lemma apply_transition_good: "good s \<Longrightarrow> keeps_good (apply_transition R E P r new_id now pid b s)"
  unfolding apply_transition_def
  by (intro wp keeps | erule goodD | assumption | (simp; fail))+

lemma update_project_good: "good s \<Longrightarrow> keeps_good (update_project R pid now b s)"
  unfolding update_project_def
  by (intro wp keeps | erule goodD | assumption | (simp add: patch_project_def; fail))+

lemma add_timeline_clip_good: "good s \<Longrightarrow> keeps_good (add_timeline_clip R now pid cid tid start end s)"
  unfolding add_timeline_clip_def
  by (intro wp keeps | erule goodD | assumption | (simp add: same_clip_def same_frames_def; fail))+

lemma remove_timeline_clip_good: "good s \<Longrightarrow> keeps_good (remove_timeline_clip R now pid cid s)"
  unfolding remove_timeline_clip_def
  by (intro wp keeps | erule goodD | assumption | (simp add: same_clip_def same_frames_def; fail))+

lemma update_timeline_clip_good: "good s \<Longrightarrow> keeps_good (update_timeline_clip R now pid cid b s)"
  unfolding update_timeline_clip_def
  by (intro wp keeps | erule goodD | assumption | (simp add: same_clip_def same_frames_def; fail))+

lemma add_transition_good: "good s \<Longrightarrow> keeps_good (add_transition R graph new_id now pid b s)"
  unfolding add_transition_def
  by (intro wp keeps | erule goodD | assumption | (simp add: append_transition_def; fail))+

lemma delete_transition_good: "good s \<Longrightarrow> keeps_good (delete_transition R now pid tid s)"
  unfolding delete_transition_def
  by (intro wp keeps | erule goodD | assumption | (simp; fail))+

lemma good_add:
  assumes "good s" "ok s'" "view s' = (view s)\<lparr>mv_clips := (mv_clips (view s))(k \<mapsto> c)\<rparr>"
    and "clip_sound (view s) c"
  shows "good s'"
  using assms sources_ok_upd [of "view s" c k] by (simp add: good_def)

lemma keeps_add [keeps]:
  assumes "good s" "mv_clips (view s) (cl_id c) = None" "clip_anchored (view s) c"
    and "clip_sound (view s) c"
  shows "keeps_good (clr_add (mx_clips R) c s)"
  by (rule wp_clip_add [OF goodD [OF assms(1)] assms(2,3)]) (rule good_post, erule good_add [OF assms(1) _ _ assms(4)], assumption)

lemma add_clip_good:
  assumes "good s" "mv_clips (view s) new_id = None" "clip_create_fields b" "validate_clip_type_fields b = Inr ()"
  shows "keeps_good (add_clip R assets new_id now pid b s)"
proof -
  have type: "cc_clip_type b \<in> {''file'', ''generator'', ''image''}" using assms(3) by (simp add: clip_create_fields_def)
  show ?thesis
    unfolding add_clip_def using assms type
    by - (intro wp keeps | erule goodD | assumption | (simp add: new_clip_def clip_anchored_def clip_sound_def; fail)
      | (fastforce simp: new_clip_def clip_anchored_def clip_sound_def; fail))+
qed

text \<open>A clip that passed the check of its source may be stored.\<close>

lemma keeps_checked [keeps]:
  assumes "good s" "mv_clips (view s) (cl_id c) = Some b" "same_clip b c" "clip_sound (view s) c"
    and "\<And>s'. good s' \<Longrightarrow> keeps_good (m s')"
  shows "keeps_good (seq_op (clr_update (mx_clips R) c) m s)"
  by (rule wp_clip_update [OF goodD [OF assms(1)] assms(2,3)]) (rule assms(5), erule good_add [OF assms(1) _ _ assms(4)], assumption)

lemma patched_sound:
  assumes "good s" "mv_clips (view s) cid = Some c"
    and "cl_clip_type (patch_clip b now c) \<noteq> ''generator'' \<Longrightarrow> in_source (view s) (patch_clip b now c)"
  shows "clip_sound (view s) (patch_clip b now c)"
proof -
  have "clip_sound (view s) c" using assms(1,2) by (auto simp: good_def dest: sources_okD)
  then show ?thesis using assms(3) by (auto simp: clip_sound_def patch_clip_def in_source_def split: if_splits)
qed

lemma keeps_patched:
  assumes "good s" "mv_clips (view s) cid = Some c" "cl_id c = cid"
    and "cl_clip_type (patch_clip b now c) \<noteq> ''generator'' \<Longrightarrow> in_source (view s) (patch_clip b now c)"
  shows "keeps_good (seq_op (clr_update (mx_clips R) (patch_clip b now c)) (ret x) s)"
  by (rule keeps_checked [OF assms(1) _ _ patched_sound [OF assms(1,2,4)]])
    (use assms(2,3) in \<open>simp_all add: patch_clip_def same_clip_def wp\<close>)

lemma update_clip_good: "good s \<Longrightarrow> keeps_good (update_clip R now pid cid b s)"
  unfolding update_clip_def Let_def
  by (intro wp keeps_patched | erule goodD | assumption | blast)+

lemma keeps_delete [keeps]:
  assumes "good s" "\<And>s'. good s' \<Longrightarrow> keeps_good (m s')"
  shows "keeps_good (seq_op (clr_delete (mx_clips R) k) m s)"
  by (rule wp_clip_delete [OF goodD [OF assms(1)]]) (rule assms(2), erule good_view [OF assms(1)], auto simp: map_le_def)

lemma delete_clip_good: "good s \<Longrightarrow> keeps_good (delete_clip R pid cid s)"
  unfolding delete_clip_def
  by (intro wp keeps | erule goodD | assumption)+

lemma split_clip_good:
  assumes "good s" "mv_clips (view s) id_a = None" "mv_clips (view s) id_b = None" "id_a \<noteq> id_b"
  shows "keeps_good (split_clip R id_a id_b now pid cid frame s)"
proof -
  have "keeps_good (clr_split_atomic (mx_clips R) (split_first id_a now frame t c) (split_second id_b now frame t c) cid s)"
    if c: "mv_clips (view s) cid = Some c" "cl_project_id c = pid" and p: "mv_projects (view s) pid \<noteq> None"
      and cut: "cl_in_point c < frame" "frame < cl_out_point c" for c t
  proof (rule wp_clip_split [OF goodD [OF assms(1)] c(1)])
    have sound: "clip_sound (view s) c" using assms(1) c(1) by (auto simp: good_def dest: sources_okD)
    then show "clip_anchored (view s) (split_first id_a now frame t c)" "clip_anchored (view s) (split_second id_b now frame t c)"
      using c(2) p by (auto simp: clip_anchored_def clip_sound_def in_source_def split_first_def split_second_def split_half_def
          split: if_splits option.splits)
    have halves: "clip_sound (view s) (split_first id_a now frame t c)" "clip_sound (view s) (split_second id_b now frame t c)"
      using sound cut by (auto simp: clip_sound_def in_source_def split_first_def split_second_def split_half_def split: if_splits)
    show "keeps_good (x, s')"
      if "ok s'" "view s' = (view s)\<lparr>mv_clips := (mv_clips (view s))(cl_id (split_first id_a now frame t c) \<mapsto> split_first id_a now frame t c,
           cl_id (split_second id_b now frame t c) \<mapsto> split_second id_b now frame t c, cid := None)\<rparr>" for x s'
      using that assms(1) halves clip_sound_cong [of "view s'" "view s"]
      by (auto simp: post_def good_def sources_ok_def)
  qed (use assms in \<open>simp_all add: split_first_def split_second_def split_half_def\<close>)
  then show ?thesis
    unfolding split_clip_def using assms
    by - (intro wp keeps | erule goodD | assumption | (simp; fail) | (fastforce; fail))+
qed

lemma keeps_project_add [keeps]:
  assumes "good s" "mv_projects (view s) (pj_id p) = None" "\<And>s'. good s' \<Longrightarrow> keeps_good (m s')"
  shows "keeps_good (seq_op (pjr_add (mx_projects R) p) m s)"
  by (rule wp_project_add [OF goodD [OF assms(1)] assms(2)]) (rule assms(3), erule good_view [OF assms(1)], simp_all)

lemma create_project_good:
  "good s \<Longrightarrow> mv_projects (view s) new_id = None \<Longrightarrow> keeps_good (create_project R new_id now b s)"
  unfolding create_project_def
  by (intro wp keeps | assumption | (simp; fail))+

lemma delete_project_good: "good s \<Longrightarrow> keeps_good (delete_project R pid s)"
  unfolding delete_project_def
  by (rule wp_project_delete, erule goodD, erule good_post) (intro wp; erule good_view; assumption)

lemma put_timeline_good:
  assumes "good s" "\<And>j. mv_tracks (view s) (ids j) = None" "inj ids"
  shows "keeps_good (put_timeline R ids pid tds s)"
proof -
  have deleted: "keeps_good (seq_op (delete_tracks R ts) m s)" if "\<And>s'. good s' \<Longrightarrow>
      mv_projects (view s') = mv_projects (view s) \<Longrightarrow> mv_tracks (view s') \<subseteq>\<^sub>m mv_tracks (view s) \<Longrightarrow> keeps_good (m s')" for ts m
    by (rule wp_delete_tracks [OF goodD [OF assms(1)]], rule good_post, erule good_view [OF assms(1)], simp_all)
      (rule that, erule good_view [OF assms(1)], auto simp: map_le_def restrict_map_def split: if_splits)
  have created: "keeps_good (bind_op (create_tracks R pid ids 0 tds) f s')"
    if s': "good s'" "mv_projects (view s') = mv_projects (view s)" "mv_tracks (view s') \<subseteq>\<^sub>m mv_tracks (view s)"
      "mv_projects (view s) pid = Some p" and f: "\<And>ts t. good t \<Longrightarrow> keeps_good (f ts t)" for s' f p
  proof (rule wp_create_tracks)
    show "ok s'" "mv_projects (view s') pid \<noteq> None" "inj_on ids {0..<0 + length tds}"
      using s' assms(3) by (auto simp: good_def intro: inj_on_subset)
    show "mv_tracks (view s') (ids j) = None" for j
      using s'(3) assms(2) [of j] by (cases "mv_tracks (view s') (ids j)") (auto simp: map_le_def dom_def)
  qed (rule f, erule good_view [OF s'(1)], simp_all)
  show ?thesis
    unfolding put_timeline_def using assms(1)
    by - (intro wp keeps deleted created | erule goodD | assumption | (simp; fail))+
qed

lemmas request_good = create_project_good update_project_good delete_project_good add_clip_good update_clip_good
  split_clip_good delete_clip_good put_timeline_good add_timeline_clip_good update_timeline_clip_good
  remove_timeline_clip_good add_transition_good delete_transition_good apply_effect_good update_effect_good
  delete_effect_good apply_transition_good

lemma step_good: "media_step R view s s' \<Longrightarrow> good s \<Longrightarrow> good s'"
  by (induction rule: media_step.induct) (simp_all add: request_good [unfolded post_def])

lemma run_good: "media_run R view s s' \<Longrightarrow> good s \<Longrightarrow> good s'"
  by (induction rule: rtranclp_induct) (auto intro: step_good)

end

subsection \<open>File clips lie within their videos\<close>

text \<open>
  C20. Over either family of repositories, no sequence of requests on projects, clips, timelines and effects ever
  stores a file clip that does not lie within its video, or gives a generator or an image a video.
\<close>

theorem clips_within_videos:
  "(sqd_ok s \<longrightarrow> sources_ok (sqd_view s) \<longrightarrow> media_run sqd_repos sqd_view s s' \<longrightarrow> sources_ok (sqd_view s')) \<and>
   (mmd_ok m \<longrightarrow> sources_ok (mmd_view m) \<longrightarrow> media_run mmd_repos mmd_view m m' \<longrightarrow> sources_ok (mmd_view m'))"
  using sqd.run_good [of s s'] mmd.run_good [of m m'] by (auto simp: sqd.good_def mmd.good_def)

definition demo_project :: project where
  "demo_project = \<lparr>pj_id = ''p'', pj_name = ''P'', pj_output_width = 640, pj_output_height = 360, pj_output_fps = 30,
     pj_created_at = 0, pj_updated_at = 0, pj_transitions = None, pj_audio_mix = None, pj_sample_rate = 48000,
     pj_bit_depth = 24\<rparr>"

definition demo_source :: video where
  "demo_source = \<lparr>vd_id = ''v'', vd_path = ''v.mp4'', vd_filename = ''v.mp4'', vd_duration_frames = 300, vd_rate_numerator = 30,
     vd_rate_denominator = 1, vd_width = 640, vd_height = 360, vd_video_codec = ''h264'', vd_file_size = 1, vd_created_at = 0,
     vd_updated_at = 0, vd_audio_codec = Some ''aac'', vd_thumbnail_path = None, vd_subtitle_count = 0, vd_data_count = 0,
     vd_subtitle_streams = []\<rparr>"

definition demo_db :: media_db where
  "demo_db = \<lparr>md_projects = [demo_project], md_clips = [], md_tracks = [], md_videos = [demo_source], md_refs = [], md_log = []\<rparr>"

definition demo_clip_request :: clip_create where
  "demo_clip_request = \<lparr>cc_clip_type = ''file'', cc_source_video_id = Some ''v'', cc_source_asset_id = None,
     cc_generator_params = None, cc_in_point = 30, cc_out_point = 120, cc_timeline_position = 0, cc_timeline_start = None,
     cc_timeline_end = None\<rparr>"

definition demo_db_clip :: media_db where
  "demo_db_clip = snd (add_clip sqd_repos (\<lambda>_. None) ''c'' 1 ''p'' demo_clip_request demo_db)"

lemma demo_db_clip: "md_clips demo_db_clip = [(new_clip ''c'' 1 ''p'' demo_clip_request)\<lparr>cl_source_video_id := Some ''v''\<rparr>]"
  by code_simp

theorem clips_within_videos_witness:
  "sources_ok (sqd_view demo_db_clip) \<and> length (md_clips demo_db_clip) = 1"
proof -
  have "media_step sqd_repos sqd_view demo_db demo_db_clip"
    unfolding demo_db_clip_def
    by (rule media_step.add_clip) (simp_all add: demo_db_def sqd_view_def tbl_get_def demo_clip_request_def clip_create_fields_def
      validate_clip_type_fields_def validate_file_clip_def)
  moreover have "sqd_ok demo_db" "sources_ok (sqd_view demo_db)"
    by (simp_all add: demo_db_def sqd_ok_def sources_ok_def sqd_view_def tbl_get_def)
  ultimately have "sources_ok (sqd_view demo_db_clip)"
    using clips_within_videos [of demo_db demo_db_clip] by blast
  then show ?thesis by (simp add: demo_db_clip)
qed

end
