(* ===== verification/Effect_Soundness.thy ===== *)
theory Effect_Soundness
  imports Effect_Registry
begin

text \<open>
  What the schema of an effect accepts, against what its build function can build. For each built-in
  effect either every accepted dictionary of parameters gives a filter, or some accepted one is
  refused by the builder; \<open>sound_types\<close> are the former. The rules of the first part follow a build
  function call by call, each taking what the schema says of the key it reads.
\<close>

subsection \<open>Rules\<close>

definition accepts :: "effect_definition \<Rightarrow> params \<Rightarrow> bool" where
  "accepts d ps \<longleftrightarrow> conforms (ef_parameter_schema d) (JObj ps)"

text \<open>The integers of the parameters are within the range of a float.\<close>

fun ints_fit :: "json_value \<Rightarrow> bool" where
  "ints_fit (JInt i) = fits_double i"
| "ints_fit (JList xs) = list_all ints_fit xs"
| "ints_fit (JObj d) = list_all (\<lambda>p. ints_fit (snd p)) d"
| "ints_fit _ = True"

definition fits :: "params \<Rightarrow> bool" where
  "fits ps \<longleftrightarrow> ints_fit (JObj ps)"

lemma fits_get: "fits ps \<Longrightarrow> map_of ps k = Some v \<Longrightarrow> ints_fit v"
  using map_of_SomeD [of ps k v] by (force simp: fits_def list_all_iff)

text \<open>The keywords after the type; only on a value of a known shape do they say more.\<close>

definition all_met :: "schema_key list \<Rightarrow> json_value \<Rightarrow> bool" where
  "all_met ks v \<longleftrightarrow> list_all (\<lambda>m. meets m [] v) ks"

lemma all_met_shape [simp]:
  "all_met ks (JNum r) \<longleftrightarrow> list_all (\<lambda>m. meets m [] (JNum r)) ks"
  "all_met ks (JStr s) \<longleftrightarrow> list_all (\<lambda>m. meets m [] (JStr s)) ks"
  "all_met ks (JList xs) \<longleftrightarrow> list_all (\<lambda>m. meets m [] (JList xs)) ks"
  by (simp_all add: all_met_def)

named_theorems sound_intros \<open>a step of a build function, on parameters that conform\<close>

lemma succeeds_bindI: "succeeds m \<Longrightarrow> (\<And>x. succeeds (f x)) \<Longrightarrow> succeeds (sum_bind m f)"
  by (auto simp: succeeds_bind succeeds_def)

fun number_key :: "schema_key \<Rightarrow> bool" where
  "number_key (SMinimum r) = True"
| "number_key (SMaximum r) = True"
| "number_key (SExclusiveMinimum r) = True"
| "number_key (SExclusiveMaximum r) = True"
| "number_key (SDefault v) = True"
| "number_key _ = False"

lemma all_met_number:
  assumes "list_all number_key ks" and "number_of v r" and "all_met ks v"
  shows "all_met ks (JNum r)"
  unfolding all_met_def list_all_iff
proof
  fix m assume m: "m \<in> set ks"
  then have "number_key m" "meets m [] v" using assms(1,3) by (auto simp: list_all_iff all_met_def)
  then show "meets m [] (JNum r)" using assms(2) by (cases m) simp_all
qed

lemma declared_number [simp]: "list_all number_key ks \<Longrightarrow> declared ks = []"
  by (induction ks rule: declared.induct) simp_all

lemma prop_typed:
  "prop_ok ps k (Schema (SType t # ks)) \<Longrightarrow> declared ks = [] \<Longrightarrow> map_of ps k = Some v \<Longrightarrow> has_type t v \<and> all_met ks v"
  by (simp add: prop_ok_def conforms_all all_met_def)

lemma get_number:
  assumes "prop_ok ps k (Schema (SType T_NUMBER # ks))" and "list_all number_key ks"
    and "number_of dflt r0" and "all_met ks (JNum r0)" and "fits ps" "ints_fit dflt"
  obtains r where "number_of (dict_get k dflt ps) r" and "all_met ks (JNum r)" and "ints_fit (dict_get k dflt ps)"
proof (cases "map_of ps k")
  case None
  with that assms(3,4,6) show thesis by (simp add: dict_get_def)
next
  case (Some v)
  from prop_typed [OF assms(1) declared_number [OF assms(2)] Some] obtain r where "number_of v r" "all_met ks v"
    by (auto simp: has_type_number)
  with Some that all_met_number [OF assms(2)] fits_get [OF assms(5) Some] show thesis by (auto simp: dict_get_def)
qed

lemma get_string:
  assumes "prop_ok ps k (Schema (SType T_STRING # ks))" and "declared ks = []" and "all_met ks (JStr d)"
  obtains s where "dict_get k (JStr d) ps = JStr s" and "all_met ks (JStr s)"
proof (cases "map_of ps k")
  case None
  with that assms(3) show thesis by (simp add: dict_get_def)
next
  case (Some v)
  from prop_typed [OF assms(1,2) Some] obtain s where "v = JStr s" "all_met ks v"
    by (auto simp: has_type_eq)
  with Some that show thesis by (auto simp: dict_get_def)
qed

lemma get_number_ex:
  "prop_ok ps k (Schema (SType T_NUMBER # ks)) \<Longrightarrow> list_all number_key ks \<Longrightarrow> number_of dflt r0 \<Longrightarrow> all_met ks (JNum r0) \<Longrightarrow>
   fits ps \<Longrightarrow> ints_fit dflt \<Longrightarrow> \<exists>r. number_of (dict_get k dflt ps) r \<and> all_met ks (JNum r) \<and> ints_fit (dict_get k dflt ps)"
  by (rule get_number [of ps k ks dflt r0]) blast+

lemma get_string_ex:
  "prop_ok ps k (Schema (SType T_STRING # ks)) \<Longrightarrow> declared ks = [] \<Longrightarrow> all_met ks (JStr d) \<Longrightarrow>
   \<exists>s. dict_get k (JStr d) ps = JStr s \<and> all_met ks (JStr s)"
  by (rule get_string [of ps k ks d]) blast+

lemma number_conv [simp]:
  "number_of v r \<Longrightarrow> ints_fit v \<Longrightarrow> py_float E v = Inr r" "number_of v r \<Longrightarrow> ints_fit v \<Longrightarrow> ext_f64 v = Inr r"
  by (auto simp: number_of_def)

lemma number_of_lit [simp]: "number_of (JNum r) s \<longleftrightarrow> s = r" "number_of (JInt i) s \<longleftrightarrow> s = of_int i"
  by (auto simp: number_of_def)

lemma sound_float [sound_intros]:
  "prop_ok ps k (Schema (SType T_NUMBER # ks)) \<Longrightarrow> list_all number_key ks \<Longrightarrow> all_met ks (JNum r0) \<Longrightarrow> fits ps \<Longrightarrow>
   (\<And>x. all_met ks (JNum x) \<Longrightarrow> succeeds (f x)) \<Longrightarrow> succeeds (sum_bind (py_float E (dict_get k (JNum r0) ps)) f)"
  by (rule get_number [of ps k ks "JNum r0" r0]) auto

lemma sound_f64 [sound_intros]:
  "prop_ok ps k (Schema (SType T_NUMBER # ks)) \<Longrightarrow> list_all number_key ks \<Longrightarrow> all_met ks (JNum r0) \<Longrightarrow> fits ps \<Longrightarrow>
   (\<And>x. all_met ks (JNum x) \<Longrightarrow> succeeds (f x)) \<Longrightarrow> succeeds (sum_bind (ext_f64 (dict_get k (JNum r0) ps)) f)"
  by (rule get_number [of ps k ks "JNum r0" r0]) auto

lemma sound_str [sound_intros]:
  "prop_ok ps k (Schema (SType T_STRING # ks)) \<Longrightarrow> declared ks = [] \<Longrightarrow> all_met ks (JStr d) \<Longrightarrow>
   (\<And>s. all_met ks (JStr s) \<Longrightarrow> succeeds (f s)) \<Longrightarrow> succeeds (sum_bind (ext_str (dict_get k (JStr d) ps)) f)"
  by (rule get_string [of ps k ks d]) auto

lemma sound_if_given:
  assumes "prop_ok ps k (Schema (SType t # ks))" and "declared ks = []"
    and "fits ps"
    and "\<And>v. has_type t v \<Longrightarrow> all_met ks v \<Longrightarrow> ints_fit v \<Longrightarrow> succeeds (f v)"
  shows "succeeds (if_given k f ps)"
  using prop_typed [OF assms(1,2)] fits_get [OF assms(3)] assms(4)
  by (auto simp: if_given_def succeeds_bind split: option.split) (auto simp: succeeds_def)

lemma sound_given [sound_intros]:
  assumes "prop_ok ps k (Schema (SType t # ks))" and "declared ks = []"
    and "fits ps" and "\<And>v. has_type t v \<Longrightarrow> all_met ks v \<Longrightarrow> ints_fit v \<Longrightarrow> succeeds (f v)" and "\<And>x. succeeds (g x)"
  shows "succeeds (sum_bind (if_given k f ps) g)"
  using sound_if_given [OF assms(1-4)] assms(5) by (rule succeeds_bindI)

lemma sound_require [sound_intros]: "b \<Longrightarrow> succeeds (f ()) \<Longrightarrow> succeeds (sum_bind (require b) f)"
  by (simp add: require_def)

lemma ranged_number: "number_of v r \<Longrightarrow> ints_fit v \<Longrightarrow> lo \<le> r \<Longrightarrow> r \<le> hi \<Longrightarrow> ranged ext_f64 lo hi v = Inr r \<and> ranged (py_float E) lo hi v = Inr r"
  by (simp add: ranged_def)

lemma sound_ranged [sound_intros]:
  "prop_ok ps k (Schema (SType T_NUMBER # ks)) \<Longrightarrow> list_all number_key ks \<Longrightarrow> all_met ks (JNum r0) \<Longrightarrow> fits ps \<Longrightarrow>
   (\<And>x. all_met ks (JNum x) \<Longrightarrow> lo \<le> x \<and> x \<le> hi) \<Longrightarrow> (\<And>x. succeeds (f x)) \<Longrightarrow>
   succeeds (sum_bind (ranged (py_float E) lo hi (dict_get k (JNum r0) ps)) f)"
  by (rule get_number [of ps k ks "JNum r0" r0]) (auto simp: ranged_def)

lemma succeeds_typed [sound_intros]:
  "has_type T_NUMBER v \<Longrightarrow> ints_fit v \<Longrightarrow> succeeds (ext_f64 v)"
  "has_type T_STRING v \<Longrightarrow> succeeds (ext_str v)"
  "has_type T_BOOLEAN v \<Longrightarrow> succeeds (ext_bool v)"
  by (cases v; simp)+

lemma succeeds_ranged [sound_intros]:
  assumes "has_type T_NUMBER v" and "all_met ks v" and "ints_fit v" and "list_all number_key ks" and "\<And>x. all_met ks (JNum x) \<Longrightarrow> lo \<le> x \<and> x \<le> hi"
  shows "succeeds (ranged ext_f64 lo hi v)" and "succeeds (ranged (py_float E) lo hi v)"
proof -
  obtain r where "number_of v r" using assms(1) by (auto simp: has_type_number)
  with assms(2,3,5) all_met_number [OF assms(4)] ranged_number show "succeeds (ranged ext_f64 lo hi v)" "succeeds (ranged (py_float E) lo hi v)"
    by (metis succeeds_simps(1))+
qed

lemma succeeds_enum [sound_intros]:
  "has_type T_STRING v \<Longrightarrow> all_met ks v \<Longrightarrow> (\<And>s. all_met ks (JStr s) \<Longrightarrow> succeeds (f s)) \<Longrightarrow> succeeds (sum_bind (ext_str v) f)"
  by (auto simp: has_type_eq)

lemma sound_let_str [sound_intros]:
  "prop_ok ps k (Schema (SType T_STRING # ks)) \<Longrightarrow> declared ks = [] \<Longrightarrow> all_met ks (JStr d) \<Longrightarrow>
   (\<And>s. all_met ks (JStr s) \<Longrightarrow> succeeds (f s)) \<Longrightarrow> succeeds (let s = py_str E (dict_get k (JStr d) ps) in f s)"
  by (rule get_string [of ps k ks d]) (auto simp: Let_def)

text \<open>Where no other property is allowed, the others are absent.\<close>

lemma accepts_closed:
  assumes "accepts d ps" and "ef_parameter_schema d = Schema ks" and "SNoAdditional \<in> set ks" and "k \<notin> set (declared ks)"
  shows "map_of ps k = None"
proof -
  have "meets SNoAdditional (declared ks) (JObj ps)"
    using assms(1-3) by (simp add: accepts_def conforms_all list_all_iff)
  then show ?thesis using assms(4) by (auto simp: meets_object list_all_iff map_of_eq_None_iff)
qed

lemma absent_key [simp]:
  "map_of ps k = None \<Longrightarrow> if_given k f ps = Inr None" "map_of ps k = None \<Longrightarrow> dict_get k v ps = v"
  by (simp_all add: if_given_def dict_get_def)

subsection \<open>Effects whose builders take all the schema accepts\<close>

lemma speed_control_sound: "accepts SPEED_CONTROL ps \<Longrightarrow> fits ps \<Longrightarrow> succeeds (ef_build_fn SPEED_CONTROL E ps)"
  by (auto simp: accepts_def SPEED_CONTROL_def schema_simps build_speed_control_def intro!: sound_intros)

lemma audio_ducking_sound: "accepts AUDIO_DUCKING ps \<Longrightarrow> fits ps \<Longrightarrow> succeeds (ef_build_fn AUDIO_DUCKING E ps)"
  by (auto simp: accepts_def AUDIO_DUCKING_def schema_simps build_audio_ducking_def intro!: sound_intros)

lemma acrossfade_sound: "accepts ACROSSFADE ps \<Longrightarrow> fits ps \<Longrightarrow> succeeds (ef_build_fn ACROSSFADE E ps)"
  by (auto simp: accepts_def ACROSSFADE_def schema_simps build_acrossfade_def ext_curve_def fade_curves_def intro!: sound_intros)

lemma deesser_sound: "accepts DEESSER ps \<Longrightarrow> fits ps \<Longrightarrow> succeeds (ef_build_fn DEESSER E ps)"
  by (auto simp: accepts_def DEESSER_def schema_simps build_deesser_def intro!: sound_intros)

lemma deplosive_sound: "accepts DEPLOSIVE ps \<Longrightarrow> fits ps \<Longrightarrow> succeeds (ef_build_fn DEPLOSIVE E ps)"
  by (auto simp: accepts_def DEPLOSIVE_def schema_simps build_deplosive_def intro!: sound_intros)

lemma time_stretch_sound: "accepts TIME_STRETCH ps \<Longrightarrow> fits ps \<Longrightarrow> succeeds (ef_build_fn TIME_STRETCH E ps)"
  by (auto simp: accepts_def TIME_STRETCH_def schema_simps build_time_stretch_def intro!: sound_intros)

lemma mastering_limiter_sound: "accepts MASTERING_LIMITER ps \<Longrightarrow> fits ps \<Longrightarrow> succeeds (ef_build_fn MASTERING_LIMITER E ps)"
  by (auto simp: accepts_def MASTERING_LIMITER_def schema_simps build_mastering_limiter_def intro!: sound_intros)

lemma convolution_reverb_sound: "accepts CONVOLUTION_REVERB ps \<Longrightarrow> fits ps \<Longrightarrow> succeeds (ef_build_fn CONVOLUTION_REVERB E ps)"
  by (auto simp: accepts_def CONVOLUTION_REVERB_def schema_simps build_convolution_reverb_def intro!: sound_intros)

lemma reverse_sound: "accepts REVERSE ps \<Longrightarrow> fits ps \<Longrightarrow> succeeds (ef_build_fn REVERSE E ps)"
  by (auto simp: accepts_def REVERSE_def schema_simps build_reverse_def intro!: sound_intros)

lemma framerate_convert_sound: "accepts FRAMERATE_CONVERT ps \<Longrightarrow> fits ps \<Longrightarrow> succeeds (ef_build_fn FRAMERATE_CONVERT E ps)"
  by (auto simp: accepts_def FRAMERATE_CONVERT_def schema_simps build_framerate_convert_def intro!: sound_intros)

lemma sharpen_sound: "accepts SHARPEN ps \<Longrightarrow> fits ps \<Longrightarrow> succeeds (ef_build_fn SHARPEN E ps)"
  by (auto simp: accepts_def SHARPEN_def schema_simps build_sharpen_def intro!: sound_intros)

lemma lens_distort_sound: "accepts LENS_DISTORT_EFFECT ps \<Longrightarrow> fits ps \<Longrightarrow> succeeds (ef_build_fn LENS_DISTORT_EFFECT E ps)"
  by (auto simp: accepts_def LENS_DISTORT_EFFECT_def schema_simps build_lens_distort_def intro!: sound_intros)

lemma fade_new_sound:
  assumes "prop_ok ps ''fade_type'' (Schema [SType T_STRING, SEnum [''in'', ''out'']])"
    and "prop_ok ps ''duration'' (Schema [SType T_NUMBER, SMinimum (1 / 100), SDefault (JNum 1)])" and "fits ps"
  obtains t d where "fade_new (dict_get ''fade_type'' (JStr ''in'') ps) (dict_get ''duration'' (JNum 1) ps) = Inr (t, d)"
proof -
  have "\<exists>t. dict_get ''fade_type'' (JStr ''in'') ps = JStr t \<and> t \<in> {''in'', ''out''}"
    using get_string_ex [OF assms(1), of "''in''"] by simp
  moreover have "\<exists>d. number_of (dict_get ''duration'' (JNum 1) ps) d \<and> 1 / 100 \<le> d \<and> ints_fit (dict_get ''duration'' (JNum 1) ps)"
    using get_number_ex [OF assms(2), of "JNum 1" 1] assms(3) by simp
  ultimately obtain t d where t: "dict_get ''fade_type'' (JStr ''in'') ps = JStr t" "t \<in> {''in'', ''out''}"
    and d: "number_of (dict_get ''duration'' (JNum 1) ps) d" "1 / 100 \<le> d" "ints_fit (dict_get ''duration'' (JNum 1) ps)" by blast
  show thesis using that [of t d] t d by (auto simp: fade_new_def)
qed

lemma audio_fade_sound: assumes "accepts AUDIO_FADE ps" "fits ps" shows "succeeds (ef_build_fn AUDIO_FADE E ps)"
proof -
  from assms obtain t d
    where "fade_new (dict_get ''fade_type'' (JStr ''in'') ps) (dict_get ''duration'' (JNum 1) ps) = Inr (t, d)"
    unfolding accepts_def AUDIO_FADE_def by (simp add: schema_simps) (elim conjE fade_new_sound)
  with assms show ?thesis
    by (auto simp: accepts_def AUDIO_FADE_def schema_simps build_audio_fade_def ext_curve_def fade_curves_def
        intro!: sound_intros)
qed

lemma video_fade_sound: assumes "accepts VIDEO_FADE ps" "fits ps" shows "succeeds (ef_build_fn VIDEO_FADE E ps)"
proof -
  from assms obtain t d
    where "fade_new (dict_get ''fade_type'' (JStr ''in'') ps) (dict_get ''duration'' (JNum 1) ps) = Inr (t, d)"
    unfolding accepts_def VIDEO_FADE_def by (simp add: schema_simps) (elim conjE fade_new_sound)
  with assms show ?thesis
    by (auto simp: accepts_def VIDEO_FADE_def schema_simps build_video_fade_def intro!: sound_intros)
qed

lemma opacity_sound: assumes "accepts OPACITY_EFFECT ps" "fits ps" shows "succeeds (ef_build_fn OPACITY_EFFECT E ps)"
proof -
  have "map_of ps ''automation'' = None" by (rule accepts_closed [OF assms(1)], simp add: OPACITY_EFFECT_def) simp_all
  with assms show ?thesis
    by (auto simp: accepts_def OPACITY_EFFECT_def schema_simps build_opacity_def intro!: sound_intros)
qed

lemma blur_sound: assumes "accepts BLUR ps" "fits ps" shows "succeeds (ef_build_fn BLUR E ps)"
proof -
  have "map_of ps ''automation'' = None" by (rule accepts_closed [OF assms(1)], simp add: BLUR_def) simp_all
  with assms show ?thesis
    by (auto simp: accepts_def BLUR_def schema_simps build_blur_def intro!: sound_intros)
qed

lemma loudness_normalize_sound:
  assumes "accepts LOUDNESS_NORMALIZE ps" "fits ps"
  shows "succeeds (ef_build_fn LOUDNESS_NORMALIZE E ps)"
proof -
  have "map_of ps ''measured_i'' = None" "map_of ps ''delivery_profile_target_lufs'' = None"
    by ((rule accepts_closed [OF assms(1)], simp add: LOUDNESS_NORMALIZE_def, simp_all)[])+
  with assms show ?thesis
    by (auto simp: accepts_def LOUDNESS_NORMALIZE_def schema_simps build_loudness_normalize_def intro!: sound_intros)
qed

lemma noise_reduction_sound:
  assumes "accepts NOISE_REDUCTION ps" "fits ps"
  shows "succeeds (ef_build_fn NOISE_REDUCTION E ps)"
proof -
  have "prop_ok ps ''mode'' (Schema [SType T_STRING, SEnum [''broadband'', ''adeclick''], SDefault (JStr ''broadband'')])"
    using assms by (simp add: accepts_def NOISE_REDUCTION_def schema_simps)
  from get_string_ex [OF this, of "''broadband''"]
  have "\<exists>m. dict_get ''mode'' (JStr ''broadband'') ps = JStr m \<and> (m = ''broadband'' \<or> m = ''adeclick'')" by simp
  then obtain m where "dict_get ''mode'' (JStr ''broadband'') ps = JStr m" "m = ''broadband'' \<or> m = ''adeclick''" by blast
  with assms show ?thesis
    by (auto simp: accepts_def NOISE_REDUCTION_def schema_simps build_noise_reduction_def intro!: sound_intros)
qed

lemma volume_sound: assumes "accepts VOLUME ps" "fits ps" shows "succeeds (ef_build_fn VOLUME E ps)"
proof -
  have "prop_ok ps ''volume'' (Schema [SType T_NUMBER, SMinimum 0, SMaximum 10, SDefault (JNum 1)])"
    using assms by (simp add: accepts_def VOLUME_def schema_simps)
  from get_number_ex [OF this, of "JNum 1" 1] assms(2)
  have "\<exists>r. number_of (dict_get ''volume'' (JNum 1) ps) r \<and> 0 \<le> r \<and> r \<le> 10 \<and> ints_fit (dict_get ''volume'' (JNum 1) ps)" by simp
  then obtain r where "number_of (dict_get ''volume'' (JNum 1) ps) r" "0 \<le> r" "r \<le> 10"
    "ints_fit (dict_get ''volume'' (JNum 1) ps)" by blast
  then have "(case dict_get ''volume'' (JNum 1) ps of
       JStr s \<Rightarrow> if ends_with s ''dB'' then volume_from_db E s
                 else sum_bind (py_float E (dict_get ''volume'' (JNum 1) ps)) volume_new
     | _ \<Rightarrow> sum_bind (py_float E (dict_get ''volume'' (JNum 1) ps)) volume_new) = Inr (format_value r)"
    by (auto simp: number_of_def volume_new_def require_def)
  with assms show ?thesis
    by (auto simp: accepts_def VOLUME_def schema_simps build_volume_def Let_def intro!: sound_intros)
qed

text \<open>Bands: a list of objects, each with its numbers.\<close>

lemma list_prop:
  assumes "prop_ok ps k (Schema (SType T_ARRAY # ks))" and "declared ks = []" and "map_of ps k \<noteq> None"
  shows "\<exists>xs. dict_get k d ps = JList xs \<and> all_met ks (JList xs)"
  using assms(3) prop_typed [OF assms(1,2)] by (auto simp: has_type_eq dict_get_def)

definition band_schema :: "(string \<times> schema_key list) list \<Rightarrow> schema" where
  "band_schema ns = Schema [SType T_OBJECT, SRequired (map fst ns),
     SProperties (map (\<lambda>(n, ks). (n, Schema (SType T_NUMBER # ks))) ns), SNoAdditional]"

definition band_fits :: "(string \<times> schema_key list) list \<Rightarrow> (string, rat) dict \<Rightarrow> bool" where
  "band_fits ns b \<longleftrightarrow> (\<forall>(n, ks) \<in> set ns. \<exists>r. map_of b n = Some r \<and> all_met ks (JNum r))"

lemma declared_band: "declared [SType T_OBJECT, SRequired (map fst ns),
     SProperties (map (\<lambda>(n, ks). (n, Schema (SType T_NUMBER # ks))) ns), SNoAdditional] = map fst ns"
  by (simp add: case_prod_unfold comp_def)

lemma ext_dict_get:
  assumes "\<And>n v. (n, v) \<in> set d \<Longrightarrow> f v = Inr (g v)"
  shows "ext_dict f (JObj d) = Inr (map (\<lambda>(n, v). (n, g v)) d)"
proof -
  have "map_ok (\<lambda>(k, v). sum_bind (f v) (\<lambda>x. Inr (k, x))) d = Inr (map (\<lambda>(n, v). (n, g v)) d)"
    by (rule map_ok_Inr) (auto simp: assms)
  then show ?thesis by simp
qed

fun number_val :: "json_value \<Rightarrow> rat" where
  "number_val (JInt i) = of_int i"
| "number_val (JNum r) = r"
| "number_val _ = 0"

lemma number_val [simp]: "number_of v r \<Longrightarrow> number_val v = r"
  by (auto simp: number_of_def)

lemma ext_band:
  assumes v: "conforms (band_schema ns) v" and keys: "list_all (\<lambda>p. list_all number_key (snd p)) ns"
    and once: "keys_once v" and fit: "ints_fit v"
  shows "\<exists>b. ext_dict ext_f64 v = Inr b \<and> band_fits ns b"
proof -
  have num: "list_all number_key ks" if "(n, ks) \<in> set ns" for n ks
    using keys that by (auto simp: list_all_iff)
  from v obtain d where d: "v = JObj d" and req: "\<And>n ks. (n, ks) \<in> set ns \<Longrightarrow> map_of d n \<noteq> None"
    and ok: "\<And>n ks. (n, ks) \<in> set ns \<Longrightarrow> prop_ok d n (Schema (SType T_NUMBER # ks))"
    and only: "\<And>n w. (n, w) \<in> set d \<Longrightarrow> n \<in> set (map fst ns)"
    unfolding band_schema_def conforms_all declared_band
    by (fastforce simp: has_type_eq meets_properties meets_object list_all_iff)
  have typed: "number_of w (number_val w) \<and> all_met ks (JNum (number_val w))"
    if n: "(n, ks) \<in> set ns" "map_of d n = Some w" for n ks w
  proof -
    from prop_typed [OF ok [OF n(1)] declared_number [OF num [OF n(1)]] n(2)] obtain r
      where r: "number_of w r" "all_met ks w" by (auto simp: has_type_number)
    with all_met_number [OF num [OF n(1)]] show ?thesis by simp
  qed
  have "ext_f64 w = Inr (number_val w)" if nw: "(n, w) \<in> set d" for n w
  proof -
    have "map_of d n = Some w" using once d nw by simp
    moreover obtain ks where "(n, ks) \<in> set ns" using only [OF nw] by auto
    moreover have "ints_fit w" using fit nw by (force simp: d list_all_iff)
    ultimately show ?thesis using typed number_conv(2) by blast
  qed
  then have b: "ext_dict ext_f64 v = Inr (map (\<lambda>(n, w). (n, number_val w)) d)"
    unfolding d by (rule ext_dict_get)
  have "band_fits ns (map (\<lambda>(n, w). (n, number_val w)) d)"
    unfolding band_fits_def
  proof clarify
    fix n ks assume n: "(n, ks) \<in> set ns"
    obtain w where w: "map_of d n = Some w" using req [OF n] by auto
    then have "map_of (map (\<lambda>(n, w). (n, number_val w)) d) n = Some (number_val w)"
      by (simp add: map_of_map)
    then show "\<exists>r. map_of (map (\<lambda>(n, w). (n, number_val w)) d) n = Some r \<and> all_met ks (JNum r)"
      using typed [OF n w] by simp
  qed
  with b show ?thesis by blast
qed

lemma ext_bands:
  assumes "list_all (conforms (band_schema ns)) xs" and "list_all (\<lambda>p. list_all number_key (snd p)) ns"
    and "list_all keys_once xs" and "list_all ints_fit xs"
  shows "\<exists>bs. ext_list (ext_dict ext_f64) (JList xs) = Inr bs \<and> length bs = length xs \<and> list_all (band_fits ns) bs"
  using assms(1,3,4)
proof (induction xs)
  case (Cons v vs)
  then obtain bs where "map_ok (ext_dict ext_f64) vs = Inr bs" "length bs = length vs" "list_all (band_fits ns) bs"
    by auto
  moreover have "\<exists>b. ext_dict ext_f64 v = Inr b \<and> band_fits ns b"
    by (rule ext_band [OF _ assms(2)]) (use Cons.prems in simp_all)
  ultimately show ?case by auto
qed simp

lemma keys_once_get: "keys_once (JObj ps) \<Longrightarrow> map_of ps k = Some v \<Longrightarrow> keys_once v"
  by (auto simp: list_all_iff dest: map_of_SomeD)

abbreviation eq_keys :: "(string \<times> schema_key list) list" where
  "eq_keys \<equiv> [(''frequency'', [SMinimum 20, SMaximum 20000]), (''gain'', [SMinimum (-24), SMaximum 24]),
     (''width'', [SExclusiveMinimum 0])]"

abbreviation comp_keys :: "(string \<times> schema_key list) list" where
  "comp_keys \<equiv> [(''threshold'', [SExclusiveMaximum 0]), (''ratio'', [SExclusiveMinimum 1]),
     (''attack'', [SExclusiveMinimum 0]), (''release'', [SExclusiveMinimum 0])]"

lemma band_number_keys:
  "list_all (\<lambda>p. list_all number_key (snd p)) eq_keys" "list_all (\<lambda>p. list_all number_key (snd p)) comp_keys"
  by simp_all

lemma parametric_eq_sound:
  assumes "accepts PARAMETRIC_EQ ps" and "fits ps" and "keys_once (JObj ps)"
  shows "succeeds (ef_build_fn PARAMETRIC_EQ E ps)"
proof -
  from assms(1) have "prop_ok ps ''bands'' (Schema [SType T_ARRAY, SMinItems 1, SItems (band_schema eq_keys)])"
    and given: "map_of ps ''bands'' \<noteq> None"
    by (simp_all add: accepts_def PARAMETRIC_EQ_def schema_simps band_schema_def)
  from list_prop [OF this(1) _ this(2), of "JList []"] obtain xs
    where xs: "dict_get ''bands'' (JList []) ps = JList xs" "xs \<noteq> []" "list_all (conforms (band_schema eq_keys)) xs"
    by (force simp: meets_items)
  have "list_all keys_once xs"
    using keys_once_get [OF assms(3), of "''bands''" "JList xs"] given xs(1) by (auto simp: dict_get_def)
  moreover have "list_all ints_fit xs"
    using fits_get [OF assms(2), of "''bands''" "JList xs"] given xs(1) by (auto simp: dict_get_def)
  moreover note ext_bands [OF xs(3) band_number_keys(1)]
  ultimately obtain bs where bs: "ext_list (ext_dict ext_f64) (JList xs) = Inr bs"
    "length bs = length xs" "list_all (band_fits eq_keys) bs"
    by blast
  have "eq_band b = Inr (the (map_of b ''frequency''), the (map_of b ''gain''), the (map_of b ''width'')) \<and>
      eq_band_ok (the (map_of b ''frequency''), the (map_of b ''gain''), the (map_of b ''width''))"
    if "b \<in> set bs" for b
    using bs(3) that by (auto simp: list_all_iff band_fits_def eq_band_def band_key_def eq_band_ok_def)
  then have "map_ok eq_band bs = Inr (map (\<lambda>b. (the (map_of b ''frequency''), the (map_of b ''gain''), the (map_of b ''width''))) bs)"
    "list_all eq_band_ok (map (\<lambda>b. (the (map_of b ''frequency''), the (map_of b ''gain''), the (map_of b ''width''))) bs)"
    by (auto simp: list_all_iff intro!: map_ok_Inr)
  moreover have "bs \<noteq> []" using bs(2) xs(2) by auto
  ultimately show ?thesis using xs(1) bs(1)
    by (simp add: PARAMETRIC_EQ_def build_parametric_eq_def require_def)
qed

lemma multiband_compressor_sound:
  assumes "accepts MULTIBAND_COMPRESSOR ps" and "fits ps" and "keys_once (JObj ps)"
  shows "succeeds (ef_build_fn MULTIBAND_COMPRESSOR E ps)"
proof -
  from assms(1) have "prop_ok ps ''bands'' (Schema [SType T_ARRAY, SMinItems 2, SItems (band_schema comp_keys)])"
    and given: "map_of ps ''bands'' \<noteq> None"
    by (simp_all add: accepts_def MULTIBAND_COMPRESSOR_def schema_simps band_schema_def)
  from list_prop [OF this(1) _ this(2), of "JList []"] obtain xs
    where xs: "dict_get ''bands'' (JList []) ps = JList xs" "2 \<le> length xs" "list_all (conforms (band_schema comp_keys)) xs"
    by (force simp: meets_items)
  have "list_all keys_once xs"
    using keys_once_get [OF assms(3), of "''bands''" "JList xs"] given xs(1) by (auto simp: dict_get_def)
  moreover have "list_all ints_fit xs"
    using fits_get [OF assms(2), of "''bands''" "JList xs"] given xs(1) by (auto simp: dict_get_def)
  moreover note ext_bands [OF xs(3) band_number_keys(2)]
  ultimately obtain bs where bs: "ext_list (ext_dict ext_f64) (JList xs) = Inr bs"
    "length bs = length xs" "list_all (band_fits comp_keys) bs"
    by blast
  define g where "g = (\<lambda>b. (the (map_of b ''threshold''), the (map_of b ''ratio''), the (map_of b ''attack''),
     the (map_of b ''release'')) :: rat \<times> rat \<times> rat \<times> rat)"
  have "comp_band b = Inr (g b) \<and> (case g b of (t, r, a, l) \<Rightarrow> t < 0 \<and> 1 < r)" if "b \<in> set bs" for b
    using bs(3) that by (auto simp: list_all_iff band_fits_def comp_band_def band_key_def g_def)
  then have "map_ok comp_band bs = Inr (map g bs)" "list_all (\<lambda>(t, r, a, l). t < 0 \<and> 1 < r) (map g bs)"
    by (auto simp: list_all_iff intro!: map_ok_Inr)
  moreover have "bs \<noteq> []" "\<not> length bs < 2" using bs(2) xs(2) by auto
  ultimately show ?thesis using xs(1) bs(1)
    by (simp add: MULTIBAND_COMPRESSOR_def build_multiband_compressor_def require_def)
qed


lemma integer_value: "has_type T_INTEGER v \<Longrightarrow> \<exists>i. number_of v (of_int i) \<and> py_int_of E v = Inr i"
  using has_type_integer [of v] by (auto simp: number_of_def py_int_def)

lemma shift_value:
  assumes "prop_ok ps k (Schema [SType T_INTEGER, SMinimum (-255), SMaximum 255, SDefault (JInt d)])" and "- 255 \<le> d \<and> d \<le> 255"
  shows "\<exists>i. py_int_of E (dict_get k (JInt d) ps) = Inr i \<and> - 255 \<le> i \<and> i \<le> 255"
proof (cases "map_of ps k")
  case None
  with assms(2) show ?thesis by simp
next
  case (Some v)
  from prop_typed [OF assms(1) _ Some] have v: "has_type T_INTEGER v" "all_met [SMinimum (-255), SMaximum 255] v"
    by (auto simp: all_met_def)
  from integer_value [OF v(1), of E] obtain i where i: "number_of v (of_int i)" "py_int_of E v = Inr i" by blast
  have "- 255 \<le> (of_int i :: rat)" "(of_int i :: rat) \<le> 255" using v(2) i(1) by (auto simp: all_met_def)
  then show ?thesis using i(2) Some by (simp add: dict_get_def)
qed

lemma chromatic_aberration_sound:
  assumes "accepts CHROMATIC_ABERRATION_EFFECT ps" "fits ps"
  shows "succeeds (ef_build_fn CHROMATIC_ABERRATION_EFFECT E ps)"
proof -
  have ok: "\<exists>i. py_int_of E (dict_get k (JInt d) ps) = Inr i \<and> - 255 \<le> i \<and> i \<le> 255" if "(k, d, opt) \<in> set shift_keys" for k d opt
    by (rule shift_value)
      (use assms that in \<open>auto simp: accepts_def CHROMATIC_ABERRATION_EFFECT_def schema_simps shift_keys_def\<close>)
  define g where "g = (\<lambda>(k, d, opt :: string). projr (py_int_of E (dict_get k (JInt d) ps)))"
  have "map_ok (\<lambda>(k, d, _). py_int_of E (dict_get k (JInt d) ps)) shift_keys = Inr (map g shift_keys)"
    by (rule map_ok_Inr) (auto simp: g_def dest!: ok)
  moreover have "\<forall>p \<in> set shift_keys. - 255 \<le> g p \<and> g p \<le> 255"
    by (auto simp: g_def dest!: ok)
  moreover from this have "map_ok (signed_int 32) (map g shift_keys) = Inr (map id (map g shift_keys))"
    by (intro map_ok_Inr) (auto simp: signed_int_def)
  ultimately show ?thesis
    by (simp add: CHROMATIC_ABERRATION_EFFECT_def build_chromatic_aberration_def require_def list_all_iff)
qed

definition env_ok :: "effect_env \<Rightarrow> bool" where
  "env_ok E \<longleftrightarrow> CHR 0x27 \<notin> set (ee_lut_dir E)"

lemma color_lut_sound:
  assumes "accepts COLOR_LUT ps" and "env_ok E"
  shows "succeeds (ef_build_fn COLOR_LUT E ps)"
proof -
  have "prop_ok ps ''preset'' (Schema [SType T_STRING, SEnum [''calming_teal'', ''warm_fade'', ''identity'']])"
    using assms(1) by (simp add: accepts_def COLOR_LUT_def schema_simps)
  from get_string_ex [OF this, of "''identity''"]
  have "\<exists>p. dict_get ''preset'' (JStr ''identity'') ps = JStr p \<and> p \<in> set lut_presets" by (simp add: lut_presets_def)
  then obtain p where p: "dict_get ''preset'' (JStr ''identity'') ps = JStr p" "p \<in> set lut_presets" by blast
  then have "CHR 0x27 \<notin> set (resolve_lut_path E p)"
    using assms(2) by (auto simp: env_ok_def resolve_lut_path_def lut_presets_def)
  with p show ?thesis
    by (simp add: COLOR_LUT_def build_color_lut_def require_def escape_filter_option_path_def Let_def)
qed

subsection \<open>Effects whose builders refuse something the schema accepts\<close>

definition refused_by :: "effect_env \<Rightarrow> effect_definition \<Rightarrow> params \<Rightarrow> bool" where
  "refused_by E d ps \<longleftrightarrow> keys_once (JObj ps) \<and> fits ps \<and> accepts d ps \<and> \<not> succeeds (ef_build_fn d E ps)"

lemmas refusal_simps = refused_by_def fits_def accepts_def schema_simps prop_ok_def dict_get_def if_given_def unsigned_def

lemma refused_numbers:
  "refused_by E TEXT_OVERLAY [(''text'', JStr ''a''), (''position'', JStr ''center''), (''margin'', JInt (-1))]"
  "refused_by E AUDIO_MIX [(''inputs'', JNum 2)]"
  "refused_by E VARIABLE_SPEED [(''segments'', JList [JObj [(''start_frame'', JInt 0), (''end_frame'', JInt (2 ^ 64)),
     (''speed_factor'', JInt 1)]])]"
  "refused_by E FREEZE_FRAME [(''frame_number'', JInt (2 ^ 64)), (''duration_s'', JInt 1)]"
  "refused_by E SCALE_EFFECT [(''scale'', JInt 0)]"
  "refused_by E NOISE_GENERATOR [(''duration'', JInt 1), (''width'', JInt (2 ^ 32))]"
  "refused_by E VIGNETTE [(''position'', JStr ''centre''), (''angle'', JInt 2)]"
  "refused_by E CROP_EFFECT [(''width'', JInt (2 ^ 32)), (''height'', JInt 1)]"
  by (simp_all add: refusal_simps effect_constants build_text_overlay_def build_audio_mix_def build_variable_speed_def
      speed_segment_def build_freeze_frame_def build_scale_def build_noise_generator_def opt_u32_def u32_or_def
      build_vignette_def vignette_bases_def frac_pi_2_def signed_int_def build_crop_def require_def succeeds_bind Let_def)

lemma refused_strings:
  "refused_by E XFADE [(''transition'', JStr ''nope''), (''duration'', JInt 1), (''offset'', JInt 0)]"
  "refused_by E PAN [(''position'', JInt 0), (''automation'', JNull)]"
  "refused_by E CHROMA_KEY_EFFECT [(''color'', JStr [])]"
  "refused_by E COLOR_KEY_EFFECT [(''color'', JStr [])]"
  "refused_by E GRADIENT_GENERATOR [(''color1'', JStr []), (''color2'', JStr ''white''), (''duration'', JInt 1)]"
  "refused_by E ZOOMPAN [(''z_expr'', JStr []), (''x_expr'', JStr ''0''), (''y_expr'', JStr ''0''), (''d'', JInt 1),
     (''width'', JInt 1), (''height'', JInt 1), (''fps'', JInt 1)]"
  "refused_by E CURVES []"
  "refused_by E HUE_ROTATION [(''h_expr'', JStr [])]"
  "refused_by E SUBTITLE_SCRIPT [(''entries'', JList [JObj [(''start_s'', JInt 1), (''end_s'', JInt 1), (''text'', JStr ''a'')]])]"
  "refused_by E BURNED_SUBTITLE_BUILDER [(''source_path'', JStr [])]"
  by (simp_all add: refusal_simps effect_constants build_xfade_def transition_names_def build_pan_def ext_automation_def
      build_chroma_key_def build_color_key_def key_builder_def parse_color_to_hex_def trim_def build_gradient_generator_def
      opt_u32_def u32_or_def build_zoompan_def zoompan_expr_ok_def build_curves_def opt_py_str_def build_hue_rotation_def
      build_subtitle_script_def script_entry_def build_burned_subtitle_def or_none_def require_def succeeds_bind Let_def
      signed_int_def)

subsection \<open>Which effects are sound\<close>

definition all_built :: "effect_env \<Rightarrow> effect_definition \<Rightarrow> bool" where
  "all_built E d \<longleftrightarrow> (\<forall>ps. keys_once (JObj ps) \<and> fits ps \<and> accepts d ps \<longrightarrow> succeeds (ef_build_fn d E ps))"

lemma refused_not_built: "refused_by E d ps \<Longrightarrow> \<not> all_built E d"
  by (auto simp: refused_by_def all_built_def)

lemmas not_built = refused_numbers [THEN refused_not_built] refused_strings [THEN refused_not_built]

lemma built:
  "all_built E SPEED_CONTROL" "all_built E VOLUME" "all_built E AUDIO_FADE" "all_built E AUDIO_DUCKING"
  "all_built E VIDEO_FADE" "all_built E ACROSSFADE" "all_built E NOISE_REDUCTION" "all_built E DEESSER"
  "all_built E DEPLOSIVE" "all_built E TIME_STRETCH" "all_built E MASTERING_LIMITER" "all_built E LOUDNESS_NORMALIZE"
  "all_built E PARAMETRIC_EQ" "all_built E MULTIBAND_COMPRESSOR" "all_built E CONVOLUTION_REVERB" "all_built E REVERSE"
  "all_built E FRAMERATE_CONVERT" "all_built E BLUR" "all_built E SHARPEN" "all_built E OPACITY_EFFECT"
  "all_built E LENS_DISTORT_EFFECT" "all_built E CHROMATIC_ABERRATION_EFFECT"
  by (simp_all only: all_built_def) (blast intro: speed_control_sound volume_sound audio_fade_sound audio_ducking_sound
      video_fade_sound acrossfade_sound noise_reduction_sound deesser_sound deplosive_sound time_stretch_sound
      mastering_limiter_sound loudness_normalize_sound parametric_eq_sound multiband_compressor_sound
      convolution_reverb_sound reverse_sound framerate_convert_sound blur_sound sharpen_sound opacity_sound
      lens_distort_sound chromatic_aberration_sound)+

lemma color_lut_built: "env_ok E \<Longrightarrow> all_built E COLOR_LUT"
  by (simp add: all_built_def color_lut_sound)

definition sound_types :: "string list" where
  "sound_types = [''speed_control'', ''volume'', ''audio_fade'', ''audio_ducking'', ''video_fade'', ''acrossfade'',
     ''noise_reduction'', ''deesser'', ''deplosive'', ''time_stretch'', ''mastering_limiter'', ''loudness_normalize'',
     ''parametric_eq'', ''multiband_compressor'', ''convolution_reverb'', ''reverse'', ''framerate_convert'', ''blur'',
     ''sharpen'', ''opacity'', ''color_lut'', ''lens_distort'', ''chromatic_aberration'']"

lemma default_registry_sound:
  assumes "env_ok E"
  shows "list_all (\<lambda>(t, d). all_built E d = (t \<in> set sound_types)) create_default_registry"
  unfolding default_registry
  by (simp add: built_in_def sound_types_def not_built built color_lut_built [OF assms])

text \<open>An integer beyond the floats passes a schema without a maximum, and the builder raises.\<close>

lemma huge_duration_overflows:
  "accepts VIDEO_FADE [(''fade_type'', JStr ''in''), (''duration'', JInt (10 ^ 400))] \<and>
   ef_build_fn VIDEO_FADE E [(''fade_type'', JStr ''in''), (''duration'', JInt (10 ^ 400))] = Inl OverflowError"
  by (simp add: accepts_def schema_simps prop_ok_def VIDEO_FADE_def build_video_fade_def fade_new_def dict_get_def
      int_to_float_def fits_double_def)

text \<open>
  C25. Take the dictionaries of parameters whose integers are within the range of a float. Of the 41 built-in effects,
  exactly the 23 of \<open>sound_types\<close> can build a filter for every such dictionary their schema accepts; for each of the
  other 18 the schema accepts one that the builder refuses. (The bundled tables lie in a directory without an
  apostrophe in its path.)
\<close>

theorem schema_sound_types:
  assumes "env_ok E"
  shows "length create_default_registry = 41 \<and> length sound_types = 23 \<and>
     list_all (\<lambda>(t, d). all_built E d = (t \<in> set sound_types)) create_default_registry"
  using default_registry_sound [OF assms] by (simp add: default_registry built_in_def sound_types_def)

definition demo_env :: effect_env where
  "demo_env = \<lparr>ee_show_f64 = (\<lambda>r. py_str_int \<lfloor>r\<rfloor>), ee_show_f32 = (\<lambda>r. py_str_int \<lfloor>r\<rfloor>), ee_debug_f64 = (\<lambda>r. py_str_int \<lfloor>r\<rfloor>),
     ee_parse = (\<lambda>_. None), ee_parse_f64 = (\<lambda>_. None), ee_parse_int = (\<lambda>_. None), ee_str = (\<lambda>_. []),
     ee_exp10 = (\<lambda>r. r), ee_label_counter = 0, ee_lut_dir = ''luts'', ee_rubberband = False\<rparr>"

theorem schema_sound_types_witness:
  "all_built demo_env VOLUME \<and> \<not> all_built demo_env SCALE_EFFECT"
proof -
  have "env_ok demo_env" by (simp add: env_ok_def demo_env_def)
  from schema_sound_types [OF this] have
    all: "list_all (\<lambda>(t, d). all_built demo_env d = (t \<in> set sound_types)) create_default_registry" by blast
  have "(''volume'', VOLUME) \<in> set create_default_registry" "(''scale'', SCALE_EFFECT) \<in> set create_default_registry"
    unfolding default_registry by (simp_all add: built_in_def)
  with all show ?thesis by (fastforce simp: list_all_iff sound_types_def)
qed

end
