(* ===== verification/Effect_Properties.thy ===== *)
theory Effect_Properties
  imports Effect_Soundness
begin

text \<open>
  What holds of automation and of tempo chains, over the definitions of \<open>Effect_Registry\<close> and
  \<open>Effect_Audio\<close>.
\<close>

subsection \<open>Tempo chains\<close>

lemma tempo_halves_invariant:
  "1 < r \<Longrightarrow> set vs \<subseteq> {1 / 2..2} \<Longrightarrow> tempo_halves r vs = (ws, q) \<Longrightarrow>
   set ws \<subseteq> {1 / 2..2} \<and> prod_list ws * q = prod_list vs * r \<and> 1 / 2 \<le> q \<and> q \<le> 2"
proof (induction r vs rule: tempo_halves.induct)
  case (1 r vs)
  show ?case
  proof (cases "2 < r")
    case True
    with 1 have "set ws \<subseteq> {1 / 2..2} \<and> prod_list ws * q = prod_list (vs @ [2]) * (r / 2) \<and> 1 / 2 \<le> q \<and> q \<le> 2"
      by (simp add: tempo_halves.simps [of r])
    then show ?thesis by simp
  next
    case False
    with 1(2-) show ?thesis by (auto simp: tempo_halves.simps [of r])
  qed
qed

lemma tempo_doubles_invariant:
  "0 < r \<Longrightarrow> r \<le> 2 \<Longrightarrow> set vs \<subseteq> {1 / 2..2} \<Longrightarrow> tempo_doubles r vs = (ws, q) \<Longrightarrow>
   set ws \<subseteq> {1 / 2..2} \<and> prod_list ws * q = prod_list vs * r \<and> 1 / 2 \<le> q \<and> q \<le> 2"
proof (induction r vs rule: tempo_doubles.induct)
  case (1 r vs)
  show ?case
  proof (cases "r < 1 / 2")
    case True
    with 1 have "set ws \<subseteq> {1 / 2..2} \<and> prod_list ws * q = prod_list (vs @ [1 / 2]) * (r / (1 / 2)) \<and> 1 / 2 \<le> q \<and> q \<le> 2"
      by (simp add: tempo_doubles.simps [of r])
    then show ?thesis by simp
  next
    case False
    with 1(2-) show ?thesis by (auto simp: tempo_doubles.simps [of r])
  qed
qed

text \<open>
  A tempo chain is made of tempos FFmpeg's filter takes, between a half and two, and multiplies out
  to the speed asked for, up to a factor that differs from one by at most the precision of a float.
\<close>

theorem atempo_chain_exact:
  assumes "0 < speed"
  shows "set (atempo_chain speed) \<subseteq> {1 / 2..2} \<and> (\<exists>q. prod_list (atempo_chain speed) * q = speed \<and> \<bar>q - 1\<bar> \<le> epsilon)"
proof -
  have eps: "0 < epsilon" by (simp add: epsilon_def)
  show ?thesis
  proof (cases "\<bar>speed - 1\<bar> < epsilon \<or> (1 / 2 \<le> speed \<and> speed \<le> 2)")
    case True
    then consider "atempo_chain speed = []" "\<bar>speed - 1\<bar> < epsilon" | "atempo_chain speed = [speed]" "1 / 2 \<le> speed" "speed \<le> 2"
      unfolding atempo_chain_def by (cases "\<bar>speed - 1\<bar> < epsilon") auto
    then show ?thesis
    proof cases
      case 1
      then show ?thesis by simp
    next
      case 2
      have "speed * 1 = speed \<and> \<bar>(1 :: rat) - 1\<bar> \<le> epsilon" using eps by simp
      with 2 show ?thesis by auto
    qed
  next
    case False
    define p where "p = (if 2 < speed then tempo_halves speed [] else tempo_doubles speed [])"
    obtain vs q where p: "p = (vs, q)" by (cases p)
    have "set vs \<subseteq> {1 / 2..2} \<and> prod_list vs * q = speed \<and> 1 / 2 \<le> q \<and> q \<le> 2"
      using tempo_halves_invariant [of speed "[]" vs q] tempo_doubles_invariant [of speed "[]" vs q] assms p
      by (auto simp: p_def split: if_splits)
    moreover have "atempo_chain speed = (if epsilon < \<bar>q - 1\<bar> then vs @ [q] else vs)"
      using False p by (auto simp: atempo_chain_def p_def [symmetric])
    moreover have "\<exists>x. q * x = q \<and> \<bar>x - 1\<bar> \<le> epsilon" using eps by (intro exI [of _ 1]) simp
    ultimately show ?thesis by (auto simp: mult.assoc)
  qed
qed

theorem atempo_chain_exact_witness:
  "set (atempo_chain 3) \<subseteq> {1 / 2..2} \<and> (\<exists>q. prod_list (atempo_chain 3) * q = 3 \<and> \<bar>q - 1\<bar> \<le> epsilon)"
  by (rule atempo_chain_exact) simp

subsection \<open>Automation\<close>

lemma compile_tail_bounds_ok:
  "set (map kf_curve (k0 # ks)) \<subseteq> {''Hold'', ''Linear'', ''Exponential'', ''EaseInOut''} \<Longrightarrow> succeeds (compile_tail k0 ks)"
  by (induction k0 ks rule: compile_tail.induct) (auto simp: succeeds_bind succeeds_def build_segment_def Let_def)

lemma increasing_take: "increasing (map kf_t (k # ks)) \<Longrightarrow> increasing (map kf_t ks)"
  by (simp add: increasing_def)

text \<open>
  C26. The expression an envelope is compiled to has, at every time, the value of the envelope: the first
  keyframe's before it, the last one's after it, and between two keyframes the blend of their values by
  the curve of the earlier one. That value never leaves the range of the keyframes' values.
\<close>

theorem automation_curve_exact:
  assumes compiled: "compile_automation a = Inr e" and kfs: "en_keyframes a \<noteq> []"
    and range: "\<forall>k \<in> set (en_keyframes a). lo \<le> kf_value k \<and> kf_value k \<le> hi"
  shows "eval_expr e t = curve_value a t \<and> lo \<le> eval_expr e t \<and> eval_expr e t \<le> hi"
proof -
  obtain k ks where a: "en_keyframes a = k # ks" using kfs by (cases "en_keyframes a") auto
  show ?thesis
  proof (cases ks)
    case Nil
    then show ?thesis using compiled range a by (auto simp: compile_automation_def)
  next
    case (Cons k1 ks')
    from compiled have inc: "increasing (map kf_t (k # ks))" and tail: "\<exists>rest. compile_tail k ks = Inr rest \<and>
        e = EIf (ELt EVarT (EConst (kf_t k))) (EConst (kf_value k)) rest"
      unfolding compile_automation_def a Cons by (auto simp: sum_bind_Inr require_def split: if_splits)
    then obtain rest where rest: "compile_tail k ks = Inr rest"
      "e = EIf (ELt EVarT (EConst (kf_t k))) (EConst (kf_value k)) rest" by blast
    have "eval_expr e t = curve_value a t" using compile_tail_value [OF rest(1), of t] rest(2) a by simp
    moreover have "lo \<le> curve_value a t \<and> curve_value a t \<le> hi"
      using value_after_bounds [OF inc, of t lo hi] range a by (cases "t < kf_t k") auto
    ultimately show ?thesis by simp
  qed
qed

definition demo_envelope :: envelope where
  "demo_envelope = \<lparr>en_default = 1, en_keyframes = [\<lparr>kf_t = 0, kf_value = 0, kf_curve = ''EaseInOut''\<rparr>,
     \<lparr>kf_t = 2, kf_value = 1, kf_curve = ''Linear''\<rparr>]\<rparr>"

theorem automation_curve_exact_witness:
  "(case compile_automation demo_envelope of Inl _ \<Rightarrow> False | Inr e \<Rightarrow> eval_expr e 1 = curve_value demo_envelope 1 \<and>
      eval_expr e 1 \<le> 1)"
proof -
  have "succeeds (compile_automation demo_envelope)"
    by (simp add: compile_automation_def demo_envelope_def increasing_def build_segment_def Let_def)
  then obtain e where e: "compile_automation demo_envelope = Inr e" by (auto simp: succeeds_def)
  have "eval_expr e 1 = curve_value demo_envelope 1 \<and> 0 \<le> eval_expr e 1 \<and> eval_expr e 1 \<le> 1"
    by (rule automation_curve_exact [OF e]) (simp_all add: demo_envelope_def)
  with e show ?thesis by simp
qed

subsection \<open>Requests with envelopes\<close>

text \<open>An expression comes only out of a parameter its effect declares automatable, and every built-in effect
  that declares one has a template for it.\<close>

lemma unautomatable_not_compiled:
  "nm \<notin> ef_automatable d \<Longrightarrow> process_automation_parameter E P d nm v = Inr (errs, out) \<Longrightarrow> out = None"
  unfolding process_automation_parameter_def sum_bind_Inr by (elim exE conjE) (auto split: sum.splits)

lemma split_compiles_automatable:
  "split_parameters E P d ps acc = Inr res \<Longrightarrow> sp_compiled acc = None \<or> ef_automatable d \<noteq> {} \<Longrightarrow>
   sp_compiled res = None \<or> ef_automatable d \<noteq> {}"
proof (induction ps arbitrary: acc)
  case Nil
  then show ?case by auto
next
  case (Cons p ps)
  obtain nm v where p: "p = (nm, v)" by (cases p)
  show ?case
  proof (cases "is_envelope v")
    case True
    with Cons.prems obtain errs out where step: "process_automation_parameter E P d nm v = Inr (errs, out)"
      and rest: "split_parameters E P d ps (case out of None \<Rightarrow> acc\<lparr>sp_errors := sp_errors acc @ errs\<rparr>
         | Some (compiled, dflt) \<Rightarrow> acc\<lparr>sp_errors := sp_errors acc @ errs, sp_compiled := Some compiled,
             sp_scalars := AList.update nm (JNum dflt) (sp_scalars acc)\<rparr>) = Inr res"
      by (auto simp: p sum_bind_Inr)
    show ?thesis
    proof (cases out)
      case None
      then show ?thesis using Cons.IH [OF rest] Cons.prems(2) by simp
    next
      case (Some x)
      with step unautomatable_not_compiled have "nm \<in> ef_automatable d" by blast
      then show ?thesis by blast
    qed
  next
    case False
    then show ?thesis using Cons.IH [of "acc\<lparr>sp_scalars := AList.update nm v (sp_scalars acc)\<rparr>"] Cons.prems by (simp add: p)
  qed
qed

abbreviation escape_commas :: "string \<Rightarrow> string" where
  "escape_commas s \<equiv> replace_char CHR '','' [CHR 0x5C, CHR '',''] s"

text \<open>Every comma follows a backslash; \<open>prev\<close> tells whether one comes before the text.\<close>

fun commas_escaped :: "bool \<Rightarrow> string \<Rightarrow> bool" where
  "commas_escaped prev [] = True"
| "commas_escaped prev (c # cs) = ((c = CHR '','' \<longrightarrow> prev) \<and> commas_escaped (c = CHR 0x5C) cs)"

lemma escape_commas_escaped: "commas_escaped prev (escape_commas s)"
  by (induction s arbitrary: prev) (auto simp: replace_char_def)

lemma upper_commas_escaped: "commas_escaped prev (upper_bare_t w s) = commas_escaped prev s"
  by (induction s arbitrary: prev w) auto

lemma automatable_built_in:
  "map_of built_in t = Some d \<Longrightarrow> ef_automatable d \<noteq> {} \<Longrightarrow>
   t = ''volume'' \<or> t = ''pan'' \<or> t = ''blur'' \<or> t = ''opacity'' \<or> t = ''scale''"
  by (auto simp: built_in_def effect_constants split: if_splits)

lemma replace_all_contains:
  "pat \<noteq> [] \<Longrightarrow> contains pat s \<Longrightarrow> \<exists>pre post. replace_all pat w s = pre @ w @ post"
proof (induction s)
  case Nil
  then show ?case by simp
next
  case (Cons c cs)
  show ?case
  proof (cases "take (length pat) (c # cs) = pat")
    case True
    with Cons.prems have "replace_all pat w (c # cs) = [] @ w @ replace_all pat w (drop (length pat) (c # cs))"
      by (simp add: replace_all.simps [of pat w "c # cs"])
    then show ?thesis by blast
  next
    case False
    with Cons obtain pre post where "replace_all pat w cs = pre @ w @ post" by auto
    with False have "replace_all pat w (c # cs) = (c # pre) @ w @ post"
      by (simp add: replace_all.simps [of pat w "c # cs"])
    then show ?thesis by blast
  qed
qed

lemma rendered_if_template:
  assumes "map_of r t = Some d" "ef_automation_filter_template d = Some tpl" "contains ''{expr_T}'' tpl \<or> contains ''{expr}'' tpl"
  shows "\<exists>pre e post. build_automation_filter_string t c r = Inr (pre @ e @ post) \<and>
     commas_escaped False e \<and> (e = escape_commas c \<or> e = upper_bare_t False (escape_commas c))"
proof (cases "contains ''{expr_T}'' tpl")
  case True
  then obtain pre post where "replace_all ''{expr_T}'' (upper_bare_t False (escape_commas c)) tpl =
      pre @ upper_bare_t False (escape_commas c) @ post"
    using replace_all_contains [of "''{expr_T}''" tpl] by blast
  with assms True show ?thesis
    by (intro exI [of _ pre] exI [of _ "upper_bare_t False (escape_commas c)"] exI [of _ post])
      (simp add: build_automation_filter_string_def get_effect_def Let_def escape_commas_escaped upper_commas_escaped)
next
  case False
  with assms obtain pre post where "replace_all ''{expr}'' (escape_commas c) tpl = pre @ escape_commas c @ post"
    using replace_all_contains [of "''{expr}''" tpl] by blast
  with assms False show ?thesis
    by (intro exI [of _ pre] exI [of _ "escape_commas c"] exI [of _ post])
      (simp add: build_automation_filter_string_def get_effect_def Let_def escape_commas_escaped)
qed

lemma automatable_template:
  "map_of built_in t = Some d \<Longrightarrow> ef_automatable d \<noteq> {} \<Longrightarrow>
   \<exists>tpl. ef_automation_filter_template d = Some tpl \<and> (contains ''{expr_T}'' tpl \<or> contains ''{expr}'' tpl)"
  by (frule (1) automatable_built_in) (auto simp: built_in_def effect_constants)

text \<open>
  Whenever validation of a request for a built-in effect yields a compiled expression, that effect has a
  filter for it, in which the expression stands with every comma escaped, so that none can end the filter.
\<close>

theorem automation_rendered:
  assumes "validate_with_automation E P t ps create_default_registry = Inr (errs, Some c)"
  shows "\<exists>pre e post. build_automation_filter_string t c create_default_registry = Inr (pre @ e @ post) \<and>
     commas_escaped False e \<and> (e = escape_commas c \<or> e = upper_bare_t False (escape_commas c))"
proof -
  from assms obtain d acc where d: "map_of built_in t = Some d"
    and acc: "split_parameters E P d ps \<lparr>sp_errors = [], sp_compiled = None, sp_scalars = []\<rparr> = Inr acc" "sp_compiled acc = Some c"
    by (auto simp: validate_with_automation_def get_effect_def default_registry sum_bind_Inr split: option.splits)
  from split_compiles_automatable [OF acc(1)] acc(2) have "ef_automatable d \<noteq> {}" by simp
  from automatable_template [OF d this] obtain tpl where
    "ef_automation_filter_template d = Some tpl" "contains ''{expr_T}'' tpl \<or> contains ''{expr}'' tpl" by blast
  with d show ?thesis unfolding default_registry by (rule rendered_if_template)
qed

definition demo_packages :: packages where
  "demo_packages = \<lparr>pk_iter_errors = (\<lambda>s v. if conforms s v then [] else [[]]),
     pk_envelope = (\<lambda>_. Inr (demo_envelope\<lparr>en_keyframes := [\<lparr>kf_t = 0, kf_value = 0, kf_curve = ''ease_in_out''\<rparr>,
       \<lparr>kf_t = 2, kf_value = 1, kf_curve = ''linear''\<rparr>]\<rparr>))\<rparr>"

definition demo_keyframes :: json_value where
  "demo_keyframes = JObj [(''default'', JInt 1), (''keyframes'', JList
     [JObj [(''t'', JInt 0), (''value'', JInt 0), (''curve'', JStr ''ease_in_out'')],
      JObj [(''t'', JInt 2), (''value'', JInt 1)]])]"

lemma demo_automation_compiles:
  "\<exists>c. validate_with_automation demo_env demo_packages ''opacity'' [(''opacity'', demo_keyframes)] create_default_registry =
     Inr ([], Some c)"
proof -
  have "get_effect ''opacity'' built_in = Some OPACITY_EFFECT" by (simp add: get_effect_def built_in_def)
  then show ?thesis unfolding default_registry
    by (simp add: validate_with_automation_def process_automation_parameter_def is_envelope_def envelope_validate_def
      validate_keyframes_def demo_keyframes_def demo_packages_def build_rust_keyframes_def)
     (simp add: OPACITY_EFFECT_def validate_scalar_parameters_def schema_simps prop_ok_def demo_envelope_def rust_keyframe_def
      curve_name_map_def compile_automation_def increasing_def build_segment_def Let_def demo_packages_def)
qed

theorem automation_rendered_witness:
  "\<exists>c. validate_with_automation demo_env demo_packages ''opacity'' [(''opacity'', demo_keyframes)] create_default_registry =
     Inr ([], Some c) \<and> succeeds (build_automation_filter_string ''opacity'' c create_default_registry)"
proof -
  from demo_automation_compiles obtain c where
    c: "validate_with_automation demo_env demo_packages ''opacity'' [(''opacity'', demo_keyframes)] create_default_registry =
      Inr ([], Some c)" by blast
  from automation_rendered [OF c] have "succeeds (build_automation_filter_string ''opacity'' c create_default_registry)"
    by (auto simp: succeeds_def)
  with c show ?thesis by blast
qed

lemma split_before:
  "list_all (\<lambda>(nm, v). \<not> is_envelope v) before \<Longrightarrow>
   \<exists>acc'. split_parameters E P d (before @ ps) acc = split_parameters E P d ps acc'"
proof (induction before arbitrary: acc)
  case Nil
  then show ?case by auto
next
  case (Cons p before)
  then show ?case by (cases p) simp
qed

text \<open>
  A keyframe without a time among the first two of an envelope is not reported as a validation error: the
  check of the envelope raises \<open>KeyError\<close>, whatever pydantic and the other parameters are, also when the
  parameter is not automatable.
\<close>

theorem malformed_keyframes_escape:
  assumes "get_effect t r = Some d" "map_of kv ''keyframes'' = Some (JList (JObj a # JObj b # ks))"
    and "map_of a ''t'' = None \<or> map_of b ''t'' = None"
    and "list_all (\<lambda>(nm, v). \<not> is_envelope v) before"
  shows "validate_with_automation E P t (before @ (nm, JObj kv) # ps) r = Inl KeyError"
proof -
  have "validate_keyframes (JObj kv) = Inl KeyError"
    using assms(2,3) by (auto simp: validate_keyframes_def split: option.splits)
  then have "split_parameters E P d ((nm, JObj kv) # ps) acc = Inl KeyError" for acc
    using assms(2) by (simp add: is_envelope_def process_automation_parameter_def envelope_validate_def)
  moreover obtain acc where "split_parameters E P d (before @ (nm, JObj kv) # ps) \<lparr>sp_errors = [], sp_compiled = None, sp_scalars = []\<rparr> =
      split_parameters E P d ((nm, JObj kv) # ps) acc"
    using split_before [OF assms(4)] by blast
  ultimately show ?thesis using assms(1) by (simp add: validate_with_automation_def del: split_parameters.simps)
qed

theorem malformed_keyframes_escape_witness:
  "validate_with_automation demo_env demo_packages ''blur'' [(''type'', JStr ''box''),
     (''amount'', JObj [(''keyframes'', JList [JObj [(''value'', JInt 1)], JObj [(''t'', JInt 1)]])])] create_default_registry = Inl KeyError"
proof -
  have "get_effect ''blur'' create_default_registry = Some BLUR"
    unfolding get_effect_def default_registry by (simp add: built_in_def)
  from malformed_keyframes_escape [OF this, of "[(''keyframes'', JList [JObj [(''value'', JInt 1)], JObj [(''t'', JInt 1)]])]"
      "[(''value'', JInt 1)]" "[(''t'', JInt 1)]" "[]" "[(''type'', JStr ''box'')]" demo_env demo_packages "''amount''" "[]"]
  show ?thesis by (simp add: is_envelope_def)
qed
end
