(* ===== verification/Media_Properties.thy ===== *)
theory Media_Properties
  imports Media_Invariants Effect_Properties
begin

text \<open>
  What single requests on clips, timelines and effects do: proved over any repositories that meet \<open>media_store\<close>,
  and stated for the SQLite ones.
\<close>

subsection \<open>Outcomes\<close>

definition new_entry :: "string \<Rightarrow> params \<Rightarrow> string \<Rightarrow> (rat \<times> rat) option \<Rightarrow> effect_data" where
  "new_entry t ps f window = \<lparr>ed_effect_type = t, ed_parameters = JObj ps, ed_filter_string = f, ed_window = window\<rparr>"

abbreviation store_clip :: "string \<Rightarrow> clip \<Rightarrow> media_view \<Rightarrow> media_view" where
  "store_clip k c w \<equiv> w\<lparr>mv_clips := (mv_clips w)(k \<mapsto> c)\<rparr>"

definition tiles :: "clip \<Rightarrow> clip \<Rightarrow> clip \<Rightarrow> bool" where
  "tiles c a b \<longleftrightarrow> cl_in_point a = cl_in_point c \<and> cl_in_point c < cl_out_point a \<and> cl_in_point b = cl_out_point a \<and>
     cl_out_point a < cl_out_point c \<and> cl_out_point b = cl_out_point c \<and>
     cl_timeline_position a = cl_timeline_position c \<and>
     cl_timeline_position b = cl_timeline_position a + (cl_out_point a - cl_in_point a) \<and>
     cl_source_video_id a = cl_source_video_id c \<and> cl_source_video_id b = cl_source_video_id c \<and>
     cl_project_id a = cl_project_id c \<and> cl_project_id b = cl_project_id c \<and>
     cl_timeline_start a = cl_timeline_start c \<and> cl_timeline_end a = cl_timeline_start b \<and> cl_timeline_end b = cl_timeline_end c"

lemma effect_filter_def_found: "resolve_effect r t = Inr d \<longleftrightarrow> get_effect t r = Some d"
  by (auto simp: resolve_effect_def split: option.splits)

context media_store begin

lemma apply_effect_outcome:
  assumes "ok s"
  shows "post (\<lambda>(res, s'). case res of Inl e \<Rightarrow> s' = s | Inr resp \<Rightarrow>
      \<exists>c d compiled f. mv_clips (view s) cid = Some c \<and> cl_project_id c = pid \<and> get_effect (ea_effect_type b) r = Some d \<and>
        effect_filter E P r d (ea_effect_type b) (ea_parameters b) = Inr (compiled, f) \<and>
        gate_window E (ea_window b) f = Inr (er_filter_string resp) \<and> ok s' \<and>
        view s' = store_clip cid (set_effects (get_or [] (cl_effects c) @
          [new_entry (ea_effect_type b) (ea_parameters b) (er_filter_string resp) (ea_window b)]) now c) (view s))
    (apply_effect_to_clip R E P r max_s now pid cid b s)"
  unfolding apply_effect_to_clip_def using assms
  by - (intro wp wp_change | assumption | (simp add: set_effects_def same_clip_def; fail)
    | (auto simp: post_def new_entry_def sum_bind_Inr effect_filter_def_found set_effects_def; fail))+

lemma update_effect_outcome:
  assumes "ok s"
  shows "post (\<lambda>(res, s'). case res of Inl e \<Rightarrow> s' = s | Inr resp \<Rightarrow>
      \<exists>c es d. mv_clips (view s) cid = Some c \<and> cl_project_id c = pid \<and> cl_effects c = Some es \<and> 0 \<le> i \<and> nat i < length es \<and>
        get_effect (ed_effect_type (es ! nat i)) r = Some d \<and>
        effect_filter E P r d (ed_effect_type (es ! nat i)) ps = Inr (er_filter_preview resp, er_filter_string resp) \<and> ok s' \<and>
        view s' = store_clip cid (set_effects (es[nat i := new_entry (ed_effect_type (es ! nat i)) ps (er_filter_string resp) None]) now c) (view s))
    (update_clip_effect R E P r now pid cid i ps s)"
  unfolding update_clip_effect_def using assms
  by - (intro wp wp_change | assumption | (simp add: set_effects_def same_clip_def; fail)
    | (auto simp: post_def new_entry_def sum_bind_Inr effect_filter_def_found set_effects_def effect_at_def get_or_def
        split: if_splits option.splits; fail))+

text \<open>The halves of a clip tile its frames and follow each other on the timeline.\<close>

lemma split_outcome:
  assumes "ok s" "sources_ok (view s)"
    and "mv_clips (view s) id_a = None" "mv_clips (view s) id_b = None" "id_a \<noteq> id_b"
  shows "post (\<lambda>(res, s'). case res of Inl e \<Rightarrow> s' = s | Inr (a, b) \<Rightarrow>
      \<exists>c. mv_clips (view s) cid = Some c \<and> cl_project_id c = pid \<and> tiles c a b \<and> cl_id a = id_a \<and> cl_id b = id_b \<and>
        cl_track_id a = None \<and> cl_track_id b = None \<and> cl_effects a = Some [] \<and> cl_effects b = Some [] \<and> ok s' \<and>
        view s' = (view s)\<lparr>mv_clips := (mv_clips (view s))(id_a \<mapsto> a, id_b \<mapsto> b, cid := None)\<rparr>)
    (split_clip R id_a id_b now pid cid frame s)"
proof -
  have "clip_anchored (view s) (split_first id_a now frame t c) \<and> clip_anchored (view s) (split_second id_b now frame t c)"
    if "mv_clips (view s) cid = Some c" "cl_project_id c = pid" "mv_projects (view s) pid = Some p" for c t p
    using sources_okD [OF assms(2) that(1)] that(2,3)
    by (auto simp: clip_anchored_def clip_sound_def in_source_def split_first_def split_second_def split_half_def
        split: if_splits option.splits)
  then show ?thesis
    unfolding split_clip_def using assms
    by - (intro wp wp_change | assumption | (simp add: split_first_def split_second_def split_half_def; fail) | blast
      | (auto simp: post_def tiles_def split_first_def split_second_def split_half_def; fail))+
qed

lemma image_update_outcome:
  assumes "ok s" "sources_ok (view s)" "mv_clips (view s) cid = Some c" "cl_clip_type c = ''image''"
  shows "update_clip R now pid cid b s = (Inl (HTTPError 404 ''NOT_FOUND''), s)"
proof -
  have "cl_source_video_id c = None" using sources_okD [OF assms(2,3)] assms(4) by (simp add: clip_sound_def)
  then have "check_source R (patch_clip b now c) s = (Inl (HTTPError 404 ''NOT_FOUND''), s)"
    by (simp add: check_source_def patch_clip_def bind_op_run)
  then show ?thesis
    using assms(1,3,4) clip_key [OF assms(1,3)]
    by (auto simp: update_clip_def get_project_def get_clip_def bind_op_run seq_op_run project_get clip_get Let_def patch_clip_def
        split: option.splits)
qed

lemma put_timeline_outcome:
  assumes "ok s" "\<And>j. mv_tracks (view s) (ids j) = None" "inj ids"
    and fresh: "\<And>j k c. mv_clips (view s) k = Some c \<Longrightarrow> cl_track_id c \<noteq> Some (ids j)"
  shows "post (\<lambda>(res, s'). case res of Inl e \<Rightarrow> True | Inr resp \<Rightarrow>
      tp_tracks resp = map (\<lambda>j. (new_track (ids j) pid j (tds ! j), [])) [0..<length tds] \<and> tp_duration resp = 0 \<and> ok s' \<and>
      mv_projects (view s) pid \<noteq> None \<and> mv_projects (view s') = mv_projects (view s) \<and> mv_clips (view s') = mv_clips (view s) \<and>
      (\<forall>j < length tds. mv_tracks (view s') (ids j) = Some (stored (new_track (ids j) pid j (tds ! j)))))
    (put_timeline R ids pid tds s)"
proof -
  have gone: "(mv_tracks (view s) |` A) (ids j) = None" for A j using assms(2) [of j] by (simp add: restrict_map_def)
  have none: "track_clips d t = []"
    if "mv_clips w = mv_clips (view s)" "\<exists>j. tk_id t = ids j"
      "\<And>t cs c. map_of d t = Some cs \<Longrightarrow> c \<in> set cs \<Longrightarrow> mv_clips w (cl_id c) = Some c \<and> cl_project_id c = pid \<and> cl_track_id c = Some t"
    for d w t
  proof (cases "map_of d (tk_id t)")
    case (Some cs)
    with that fresh have "c \<notin> set cs" for c by metis
    with Some show ?thesis by (simp add: track_clips_def get_or_def) (metis list.set_intros(1) neq_Nil_conv)
  qed (simp add: track_clips_def get_or_def)
  let ?new = "\<lambda>j. new_track (ids j) pid j (tds ! j)"
  have max: "max_end (concat (map (track_clips d) ts)) = 0" if "\<And>t. t \<in> set ts \<Longrightarrow> track_clips d t = []" for d ts
    using that by (induction ts) (simp_all add: max_end_def)
  show ?thesis
    unfolding put_timeline_def
  proof (rule wp_seq_get_project [OF assms(1)], goal_cases)
    case 1
    then show ?case by (simp add: post_def)
  next
    case (2 p)
    note project = 2
    show ?case
    proof (rule wp_track_list [OF assms(1)], rule wp_delete_tracks [OF assms(1)], goal_cases)
      case 1
      then show ?case by (simp add: post_def)
    next
      case (2 ts s1)
      show ?case
      proof (rule wp_create_tracks [OF \<open>ok s1\<close>], goal_cases)
        case 1
        then show ?case using project \<open>view s1 = _\<close> by simp
      next
        case (2 j)
        then show ?case using gone \<open>view s1 = _\<close> by simp
      next
        case 3
        then show ?case using assms(3) by (auto intro: inj_on_subset)
      next
        case (4 s2 T)
        have clips: "mv_clips (view s2) = mv_clips (view s)" and projects: "mv_projects (view s2) = mv_projects (view s)"
          and tracks: "mv_tracks (view s2) = T" using \<open>view s1 = _\<close> \<open>view s2 = _\<close> by simp_all
        show ?case
        proof (rule wp_clips_by_track [OF \<open>ok s2\<close>], rule wp_broadcast [OF \<open>ok s2\<close>], goal_cases)
          case (1 d s3)
          have "track_clips d (?new j) = []" for j
            by (rule none [OF clips _ 1(1)]) (auto simp: new_track_def)
          then show ?case
            using project 1 2 4 clips projects tracks max [of "map ?new [0..<length tds]" d]
            by (auto simp: post_def build_timeline_response_def)
        qed
      qed
    qed
  qed
qed

lemma placed_clip_refused:
  assumes "ok s" "mv_projects (view s) pid \<noteq> None" "mv_clips (view s) cid = Some c" "cl_project_id c = pid" "cl_track_id c \<noteq> None"
    and "mv_tracks (view s) tid = Some t" "tk_project_id t = pid"
  shows "add_timeline_clip R now pid cid tid start end s = (Inl (HTTPError 409 ''CLIP_ALREADY_PLACED''), s)"
  using assms
  by (auto simp: add_timeline_clip_def get_project_def get_clip_def get_project_track_def bind_op_run seq_op_run
      project_get clip_get track_get split: option.splits)

end

text \<open>Parameters without envelopes are validated and built as they are.\<close>

lemma update_new_key: "k \<notin> fst ` set d \<Longrightarrow> AList.update k v d = d @ [(k, v)]"
  by (induction d) auto

lemma split_scalars:
  "list_all (\<lambda>(nm, v). \<not> is_envelope v) ps \<Longrightarrow> distinct (map fst ps) \<Longrightarrow> fst ` set ps \<inter> fst ` set (sp_scalars acc) = {} \<Longrightarrow>
   split_parameters E P d ps acc = Inr (acc\<lparr>sp_scalars := sp_scalars acc @ ps\<rparr>)"
proof (induction ps arbitrary: acc)
  case Nil
  then show ?case by simp
next
  case (Cons p ps)
  obtain nm v where p: "p = (nm, v)" by (cases p)
  let ?acc = "acc\<lparr>sp_scalars := sp_scalars acc @ [(nm, v)]\<rparr>"
  have "AList.update nm v (sp_scalars acc) = sp_scalars acc @ [(nm, v)]" using Cons.prems(3) p by (intro update_new_key) auto
  moreover have "split_parameters E P d ps ?acc = Inr (?acc\<lparr>sp_scalars := sp_scalars ?acc @ ps\<rparr>)"
    using Cons.prems p by (intro Cons.IH) auto
  ultimately show ?case using Cons.prems(1) p by simp
qed

lemma flatten_scalars: "list_all (\<lambda>(nm, v). \<not> is_envelope v) ps \<Longrightarrow> flatten_automation ps = ps"
  by (induction ps) (auto simp: flatten_automation_def flatten_value_def is_envelope_def split: json_value.splits)

lemma effect_filter_accepted:
  assumes "draft7 (pk_iter_errors P)" "get_effect t r = Some d" "all_built E d"
    and "list_all (\<lambda>(nm, v). \<not> is_envelope v) ps" "keys_once (JObj ps)" "fits ps" "accepts d ps"
  shows "\<exists>f. effect_filter E P r d t ps = Inr (None, f)"
proof -
  have keys: "distinct (map fst ps)" using assms(5) by simp
  have "validate_scalar_parameters P d ps = []" using assms(1,7) by (simp add: validate_scalar_parameters_def draft7_def accepts_def)
  then have "validate_with_automation E P t ps r = Inr ([], None)"
    using assms(2) split_scalars [OF assms(4) keys, of "\<lparr>sp_errors = [], sp_compiled = None, sp_scalars = []\<rparr>" E P d]
    by (simp add: validate_with_automation_def)
  moreover obtain f where "ef_build_fn d E ps = Inr f"
    using assms(3,5-7) by (auto simp: all_built_def succeeds_def)
  ultimately show ?thesis
    by (auto simp: effect_filter_def validate_params_def build_filter_def flatten_scalars [OF assms(4)])
qed

context media_store begin

lemma effect_accepted:
  assumes "ok s" "draft7 (pk_iter_errors P)" "get_effect (ea_effect_type b) r = Some d" "all_built E d"
    and "mv_projects (view s) pid = Some p" "mv_clips (view s) cid = Some c" "cl_project_id c = pid" "ea_window b = None"
    and "clip_guards E max_s p c (ea_effect_type b) (ea_parameters b) = Inr ()"
    and "list_all (\<lambda>(nm, v). \<not> is_envelope v) (ea_parameters b)" "keys_once (JObj (ea_parameters b))" "fits (ea_parameters b)" "accepts d (ea_parameters b)"
  shows "\<exists>resp s'. apply_effect_to_clip R E P r max_s now pid cid b s = (Inr resp, s')"
proof -
  from effect_filter_accepted [OF assms(2-4,10-13)] obtain f where
    f: "effect_filter E P r d (ea_effect_type b) (ea_parameters b) = Inr (None, f)" by blast
  let ?es = "get_or [] (cl_effects c) @ [\<lparr>ed_effect_type = ea_effect_type b, ed_parameters = JObj (ea_parameters b),
       ed_filter_string = f, ed_window = ea_window b\<rparr>]"
  have "cl_id c = cid" using clip_key [OF assms(1,6)] .
  then obtain s' where "clr_update (mx_clips R) (set_effects ?es now c) s = (Inr (set_effects ?es now c), s')"
    using clip_update [OF assms(1), of "set_effects ?es now c" c] assms(6) by (auto simp: set_effects_def same_clip_def)
  then show ?thesis
    using assms(3,5-9) f
    by (simp add: apply_effect_to_clip_def get_project_def get_clip_def project_get [OF assms(1)] clip_get [OF assms(1)]
        resolve_effect_def gate_window_def Let_def seq_op_run bind_op_run)
qed

end

lemma volume_built: "all_built E VOLUME"
  by (rule built(2))

subsection \<open>Effects\<close>

text \<open>
  C21. Applying an effect either raises and changes nothing, or appends exactly one entry to the effects of the
  clip: the type and parameters asked for, the filter that the builder or the automation made of them, gated
  to the window asked for.
\<close>

theorem apply_effect_exact:
  assumes "sqd_ok s" "apply_effect_to_clip sqd_repos E P r max_s now pid cid b s = (res, s')"
  shows "case res of Inl e \<Rightarrow> s' = s | Inr resp \<Rightarrow>
    \<exists>c d compiled f. mv_clips (sqd_view s) cid = Some c \<and> cl_project_id c = pid \<and> get_effect (ea_effect_type b) r = Some d \<and>
      effect_filter E P r d (ea_effect_type b) (ea_parameters b) = Inr (compiled, f) \<and>
      gate_window E (ea_window b) f = Inr (er_filter_string resp) \<and> sqd_ok s' \<and>
      sqd_view s' = store_clip cid (set_effects (get_or [] (cl_effects c) @
        [new_entry (ea_effect_type b) (ea_parameters b) (er_filter_string resp) (ea_window b)]) now c) (sqd_view s)"
  using sqd.apply_effect_outcome [OF assms(1), where E = E and P = P and r = r and max_s = max_s and now = now and pid = pid
      and cid = cid and b = b] assms(2) by (simp add: post_def)

text \<open>A database with one clip, frames 30 to 120 of a video of 300, and a request for an effect on it.\<close>

abbreviation demo_clip :: clip where
  "demo_clip \<equiv> (new_clip ''c'' 1 ''p'' demo_clip_request)\<lparr>cl_source_video_id := Some ''v''\<rparr>"

lemma demo_db_clip_eq: "demo_db_clip = demo_db\<lparr>md_clips := [demo_clip]\<rparr>"
  by code_simp

lemma demo_db_clip_ok: "sqd_ok demo_db_clip"
  by (simp add: demo_db_clip_eq sqd_ok_def demo_db_def)

lemma demo_db_clip_view:
  "mv_projects (sqd_view demo_db_clip) = [''p'' \<mapsto> demo_project]" "mv_clips (sqd_view demo_db_clip) = [''c'' \<mapsto> demo_clip]"
  "mv_tracks (sqd_view demo_db_clip) = Map.empty" "mv_videos (sqd_view demo_db_clip) = [''v'' \<mapsto> demo_source]"
  by (auto simp: demo_db_clip_eq demo_db_def sqd_view_def tbl_get_def demo_project_def demo_source_def new_clip_def fun_eq_iff)

definition demo_apply :: effect_apply where
  "demo_apply = \<lparr>ea_effect_type = ''volume'', ea_parameters = [(''volume'', JInt 2)], ea_window = None\<rparr>"

text \<open>
  A request for one of the sound types other than reverse is accepted whenever its parameters conform to
  the schema of the type: on an existing clip of an existing project, without envelopes and window, it is
  answered and stored, whatever the parameters are.
\<close>

theorem valid_effect_accepted:
  assumes "sqd_ok s" "draft7 (pk_iter_errors P)" "env_ok E"
    and "mv_projects (sqd_view s) pid = Some p" "mv_clips (sqd_view s) cid = Some c" "cl_project_id c = pid"
    and "ea_effect_type b \<in> set sound_types" "ea_effect_type b \<noteq> ''reverse''" "ea_window b = None"
    and "get_effect (ea_effect_type b) create_default_registry = Some d"
    and "list_all (\<lambda>(nm, v). \<not> is_envelope v) (ea_parameters b)" "keys_once (JObj (ea_parameters b))" "fits (ea_parameters b)" "accepts d (ea_parameters b)"
  shows "\<exists>resp s'. apply_effect_to_clip sqd_repos E P create_default_registry max_s now pid cid b s = (Inr resp, s')"
proof -
  from assms(10) have "(ea_effect_type b, d) \<in> set create_default_registry" by (auto simp: get_effect_def dest: map_of_SomeD)
  with default_registry_sound [OF assms(3)] assms(7) have "all_built E d" by (auto simp: list_all_iff)
  moreover have "clip_guards E max_s p c (ea_effect_type b) (ea_parameters b) = Inr ()"
    using assms(7,8) by (auto simp: clip_guards_def sound_types_def)
  ultimately show ?thesis by (rule sqd.effect_accepted [OF assms(1,2,10) _ assms(4-6,9) _ assms(11-14)])
qed

lemma demo_apply_accepted:
  "get_effect ''volume'' create_default_registry = Some VOLUME" "accepts VOLUME (ea_parameters demo_apply)" "env_ok demo_env"
  "draft7 (pk_iter_errors demo_packages)" "ea_effect_type demo_apply = ''volume''" "ea_window demo_apply = None"
  "list_all (\<lambda>(nm, v). \<not> is_envelope v) (ea_parameters demo_apply)" "keys_once (JObj (ea_parameters demo_apply))"
  "cl_project_id demo_clip = ''p''" "fits (ea_parameters demo_apply)"
  by (simp_all add: get_effect_def default_registry built_in_def demo_apply_def env_ok_def demo_env_def draft7_def demo_packages_def
      is_envelope_def new_clip_def fits_def)
    (simp add: accepts_def VOLUME_def schema_simps prop_ok_def)

theorem valid_effect_accepted_witness:
  "\<exists>resp s'. apply_effect_to_clip sqd_repos demo_env demo_packages create_default_registry 30 2 ''p'' ''c'' demo_apply demo_db_clip
     = (Inr resp, s')"
  by (rule valid_effect_accepted [OF demo_db_clip_ok demo_apply_accepted(4,3), of "''p''" demo_project "''c''" demo_clip demo_apply VOLUME])
    (rule demo_apply_accepted | simp add: demo_db_clip_view demo_apply_accepted sound_types_def)+

theorem apply_effect_exact_witness:
  "\<exists>s' f. mv_clips (sqd_view s') ''c'' = Some (set_effects [new_entry ''volume'' [(''volume'', JInt 2)] f None] 2 demo_clip)"
proof -
  have "\<exists>resp s'. apply_effect_to_clip sqd_repos demo_env demo_packages create_default_registry 30 2 ''p'' ''c'' demo_apply demo_db_clip
     = (Inr resp, s')"
    by (rule sqd.effect_accepted [OF demo_db_clip_ok demo_apply_accepted(4), where d = VOLUME and p = demo_project and c = demo_clip])
      (rule demo_apply_accepted | simp add: demo_db_clip_view demo_apply_accepted volume_built clip_guards_def)+
  then obtain resp s' where run: "apply_effect_to_clip sqd_repos demo_env demo_packages create_default_registry 30 2 ''p'' ''c''
     demo_apply demo_db_clip = (Inr resp, s')" by blast
  from apply_effect_exact [OF demo_db_clip_ok run] have
    "mv_clips (sqd_view s') ''c'' = Some (set_effects [new_entry ''volume'' [(''volume'', JInt 2)] (er_filter_string resp) None] 2 demo_clip)"
    by (auto simp: demo_db_clip_view demo_apply_def new_clip_def get_or_def)
  then show ?thesis by blast
qed


text \<open>
  Updating an effect either raises and changes nothing, or replaces exactly the entry of that index: the type
  is kept, the filter is built anew from the new parameters, and the window of the entry is dropped.
\<close>

theorem update_effect_exact:
  assumes "sqd_ok s" "update_clip_effect sqd_repos E P r now pid cid i ps s = (res, s')"
  shows "case res of Inl e \<Rightarrow> s' = s | Inr resp \<Rightarrow>
    \<exists>c es d. mv_clips (sqd_view s) cid = Some c \<and> cl_project_id c = pid \<and> cl_effects c = Some es \<and> 0 \<le> i \<and> nat i < length es \<and>
      get_effect (ed_effect_type (es ! nat i)) r = Some d \<and>
      effect_filter E P r d (ed_effect_type (es ! nat i)) ps = Inr (er_filter_preview resp, er_filter_string resp) \<and> sqd_ok s' \<and>
      sqd_view s' = store_clip cid (set_effects (es[nat i := new_entry (ed_effect_type (es ! nat i)) ps (er_filter_string resp) None])
        now c) (sqd_view s)"
  using sqd.update_effect_outcome [OF assms(1), where E = E and P = P and r = r and now = now and pid = pid
      and cid = cid and i = i and ps = ps] assms(2) by (simp add: post_def)

definition demo_gated :: effect_data where
  "demo_gated = new_entry ''volume'' [(''volume'', JInt 1)] ''volume=1:enable=1'' (Some (0, 1))"

definition demo_db_gated :: media_db where
  "demo_db_gated = demo_db\<lparr>md_clips := [set_effects [demo_gated] 2 demo_clip]\<rparr>"

lemma demo_db_gated_view:
  "sqd_ok demo_db_gated" "mv_clips (sqd_view demo_db_gated) = [''c'' \<mapsto> set_effects [demo_gated] 2 demo_clip]"
  "mv_projects (sqd_view demo_db_gated) = [''p'' \<mapsto> demo_project]"
  by (auto simp: demo_db_gated_def sqd_ok_def demo_db_def sqd_view_def tbl_get_def demo_project_def new_clip_def set_effects_def fun_eq_iff)

theorem update_effect_exact_witness:
  "\<exists>s' f. mv_clips (sqd_view s') ''c'' = Some (set_effects [new_entry ''volume'' [(''volume'', JInt 2)] f None] 3 demo_clip)"
proof -
  have "\<exists>f. effect_filter demo_env demo_packages create_default_registry VOLUME ''volume'' (ea_parameters demo_apply) = Inr (None, f)"
    by (rule effect_filter_accepted [OF demo_apply_accepted(4,1) volume_built demo_apply_accepted(7,8,10,2)])
  then obtain f where
    f: "effect_filter demo_env demo_packages create_default_registry VOLUME ''volume'' [(''volume'', JInt 2)] = Inr (None, f)"
    by (auto simp: demo_apply_def)
  let ?c = "set_effects [new_entry ''volume'' [(''volume'', JInt 2)] f None] 3 demo_clip"
  have found: "mv_clips (sqd_view demo_db_gated) (cl_id ?c) = Some (set_effects [demo_gated] 2 demo_clip)"
    "same_clip (set_effects [demo_gated] 2 demo_clip) ?c"
    by (simp_all add: demo_db_gated_view set_effects_def new_clip_def same_clip_def)
  obtain s' where stored: "clr_update (mx_clips sqd_repos) ?c demo_db_gated = (Inr ?c, s')"
    using sqd.clip_update [OF demo_db_gated_view(1) found] by blast
  have "update_clip_effect sqd_repos demo_env demo_packages create_default_registry 3 ''p'' ''c'' 0 [(''volume'', JInt 2)] demo_db_gated =
      (Inr \<lparr>er_effect_type = ''volume'', er_parameters = [(''volume'', JInt 2)], er_filter_string = f, er_filter_preview = None\<rparr>, s')"
    using f stored demo_apply_accepted(1,9)
    by (simp add: update_clip_effect_def get_project_def get_clip_def sqd.project_get [OF demo_db_gated_view(1)]
        sqd.clip_get [OF demo_db_gated_view(1)] demo_db_gated_view bind_op_run seq_op_run Let_def effect_at_def set_effects_def
        get_or_def demo_gated_def new_entry_def resolve_effect_def)
  from update_effect_exact [OF demo_db_gated_view(1) this] have "mv_clips (sqd_view s') ''c'' = Some ?c"
    by (auto simp: demo_db_gated_view demo_gated_def new_entry_def set_effects_def)
  then show ?thesis by blast
qed

subsection \<open>Cutting clips and replacing tracks\<close>

text \<open>
  C22. Splitting a clip either raises and changes nothing, or replaces the clip by two that together hold its
  frames, in order and without gap, and follow each other on the timeline. The halves are on no track and
  have no effects.
\<close>

theorem split_tiles:
  assumes "sqd_ok s" "sources_ok (sqd_view s)"
    and "mv_clips (sqd_view s) id_a = None" "mv_clips (sqd_view s) id_b = None" "id_a \<noteq> id_b"
    and "split_clip sqd_repos id_a id_b now pid cid frame s = (res, s')"
  shows "case res of Inl e \<Rightarrow> s' = s | Inr (a, b) \<Rightarrow>
    \<exists>c. mv_clips (sqd_view s) cid = Some c \<and> cl_project_id c = pid \<and> tiles c a b \<and> cl_id a = id_a \<and> cl_id b = id_b \<and>
      cl_track_id a = None \<and> cl_track_id b = None \<and> cl_effects a = Some [] \<and> cl_effects b = Some [] \<and> sqd_ok s' \<and>
      sqd_view s' = (sqd_view s)\<lparr>mv_clips := (mv_clips (sqd_view s))(id_a \<mapsto> a, id_b \<mapsto> b, cid := None)\<rparr>"
  using sqd.split_outcome [OF assms(1-5), where now = now and pid = pid and cid = cid and frame = frame] assms(6)
  by (simp add: post_def split: prod.splits)

lemma demo_sources_ok: "sources_ok (sqd_view demo_db_clip)"
  by (simp add: sources_ok_def demo_db_clip_view clip_sound_def in_source_def new_clip_def demo_clip_request_def demo_source_def)

theorem split_tiles_witness:
  "case split_clip sqd_repos ''a'' ''b'' 3 ''p'' ''c'' 60 demo_db_clip of (Inr (a, b), s') \<Rightarrow>
     tiles demo_clip a b \<and> cl_out_point a = 60 \<and> cl_timeline_position b = 30 | _ \<Rightarrow> False"
proof -
  obtain res s' where run: "split_clip sqd_repos ''a'' ''b'' 3 ''p'' ''c'' 60 demo_db_clip = (res, s')" by force
  have "case split_clip sqd_repos ''a'' ''b'' 3 ''p'' ''c'' 60 demo_db_clip of (Inr (a, b), s') \<Rightarrow>
     cl_out_point a = 60 \<and> cl_timeline_position b = 30 | _ \<Rightarrow> False" by code_simp
  with run split_tiles [OF demo_db_clip_ok demo_sources_ok _ _ _ run] show ?thesis
    by (auto simp: demo_db_clip_view split: sum.splits)
qed

text \<open>
  Replacing the tracks of a project strands its clips: the answer lists every new track without clips and
  a duration of 0, while the clips keep the ids of the deleted tracks, so that placing one of them on a new
  track is answered 409.
\<close>

theorem put_timeline_strands_clips:
  assumes "sqd_ok s" "\<And>j. mv_tracks (sqd_view s) (ids j) = None" "inj ids"
    and "\<And>j k c. mv_clips (sqd_view s) k = Some c \<Longrightarrow> cl_track_id c \<noteq> Some (ids j)"
    and "put_timeline sqd_repos ids pid tds s = (Inr resp, s')"
  shows "map snd (tp_tracks resp) = replicate (length tds) [] \<and> tp_duration resp = 0 \<and>
    mv_clips (sqd_view s') = mv_clips (sqd_view s) \<and>
    (\<forall>j cid c. j < length tds \<longrightarrow> mv_clips (sqd_view s) cid = Some c \<longrightarrow> cl_project_id c = pid \<longrightarrow> cl_track_id c \<noteq> None \<longrightarrow>
      add_timeline_clip sqd_repos now pid cid (ids j) a b s' = (Inl (HTTPError 409 ''CLIP_ALREADY_PLACED''), s'))"
proof -
  have tracks: "tp_tracks resp = map (\<lambda>j. (new_track (ids j) pid j (tds ! j), [])) [0..<length tds]"
    and duration: "tp_duration resp = 0" and ok: "sqd_ok s'" and project: "mv_projects (sqd_view s') pid \<noteq> None"
    and clips: "mv_clips (sqd_view s') = mv_clips (sqd_view s)"
    and stored: "\<And>j. j < length tds \<Longrightarrow> mv_tracks (sqd_view s') (ids j) = Some (row_to_track (new_track (ids j) pid j (tds ! j)))"
    using sqd.put_timeline_outcome [OF assms(1-4), where pid = pid and tds = tds] assms(5) by (simp_all add: post_def)
  have "add_timeline_clip sqd_repos now pid cid (ids j) a b s' = (Inl (HTTPError 409 ''CLIP_ALREADY_PLACED''), s')"
    if "j < length tds" "mv_clips (sqd_view s) cid = Some c" "cl_project_id c = pid" "cl_track_id c \<noteq> None" for j cid c
    by (rule sqd.placed_clip_refused [OF ok project _ that(3,4) stored [OF that(1)]]) (simp_all add: clips that new_track_def)
  moreover have "map snd (tp_tracks resp) = replicate (length tds) []" by (simp add: tracks comp_def map_replicate_const)
  ultimately show ?thesis using duration clips by blast
qed

definition demo_track :: track where
  "demo_track = \<lparr>tk_id = ''t'', tk_project_id = ''p'', tk_track_type = ''video'', tk_label = ''V1'', tk_z_index = 0, tk_muted = False,
     tk_locked = False, tk_kind = None, tk_volume_envelope = None, tk_weight = 1\<rparr>"

definition demo_track_request :: track_create where
  "demo_track_request = \<lparr>tc_track_type = ''video'', tc_label = ''V1'', tc_z_index = None, tc_muted = False, tc_locked = False,
     tc_kind = None, tc_volume_envelope = None, tc_weight = 1\<rparr>"

text \<open>The clip lies on the track, and the project has a transition.\<close>

definition demo_db_placed :: media_db where
  "demo_db_placed = demo_db\<lparr>md_projects := [demo_project\<lparr>pj_transitions := Some [[(''id'', JStr ''x'')]]\<rparr>],
     md_clips := [demo_clip\<lparr>cl_track_id := Some ''t'', cl_timeline_start := Some 0, cl_timeline_end := Some 3\<rparr>],
     md_tracks := [demo_track]\<rparr>"

lemma demo_db_placed_view:
  "sqd_ok demo_db_placed" "mv_tracks (sqd_view demo_db_placed) k = (if k = ''t'' then Some (row_to_track demo_track) else None)"
  "mv_clips (sqd_view demo_db_placed) =
    [''c'' \<mapsto> demo_clip\<lparr>cl_track_id := Some ''t'', cl_timeline_start := Some 0, cl_timeline_end := Some 3\<rparr>]"
  by (auto simp: demo_db_placed_def sqd_ok_def demo_db_def sqd_view_def tbl_get_def demo_track_def new_clip_def fun_eq_iff)

theorem put_timeline_strands_clips_witness:
  "fst (add_timeline_clip sqd_repos 9 ''p'' ''c'' ''n'' 0 1
     (snd (put_timeline sqd_repos (\<lambda>j. CHR ''n'' # replicate j CHR ''x'') ''p'' [demo_track_request] demo_db_placed))) =
   Inl (HTTPError 409 ''CLIP_ALREADY_PLACED'')"
proof -
  let ?ids = "\<lambda>j. CHR ''n'' # replicate j CHR ''x''"
  have "case put_timeline sqd_repos ?ids ''p'' [demo_track_request] demo_db_placed of (Inl e, s') \<Rightarrow> False | (Inr resp, s') \<Rightarrow> True"
    by code_simp
  then obtain resp s' where run: "put_timeline sqd_repos ?ids ''p'' [demo_track_request] demo_db_placed = (Inr resp, s')"
    by (auto split: prod.splits sum.splits)
  have "inj ?ids" by (auto simp: inj_def dest: arg_cong [where f = length])
  moreover have "cl_track_id c \<noteq> Some (?ids j)" if "mv_clips (sqd_view demo_db_placed) k = Some c" for j k c
    using that by (auto simp: demo_db_placed_view split: if_splits)
  moreover have "mv_tracks (sqd_view demo_db_placed) (?ids j) = None" for j by (simp add: demo_db_placed_view)
  ultimately have "add_timeline_clip sqd_repos 9 ''p'' ''c'' (?ids 0) 0 1 s' = (Inl (HTTPError 409 ''CLIP_ALREADY_PLACED''), s')"
    using put_timeline_strands_clips [OF demo_db_placed_view(1) _ _ _ run, where now = 9 and a = 0 and b = 1]
    by (simp add: demo_db_placed_view new_clip_def)
  with run show ?thesis by simp
qed

text \<open>
  A pair or a cue that names a project keeps it: the request to delete the project ends in the \<open>IntegrityError\<close>, which
  nothing handles. One that names the second track of a project stops the replacement of its tracks after the
  first is gone.
\<close>

lemma referenced_project_stays:
  assumes "tbl_get pj_id pid (md_projects s) \<noteq> None" "(pid, ts) \<in> set (md_refs s)"
  shows "delete_project sqd_repos pid s = (Inl IntegrityError, s)"
  using assms by (force simp: delete_project_def sqd_defs sqd_project_delete_def project_named_def list_ex_iff bind_op_run)

lemma put_timeline_stops_halfway:
  "(case put_timeline sqd_repos (\<lambda>j. ''n'') ''p'' []
      (demo_db_placed\<lparr>md_tracks := [demo_track, demo_track\<lparr>tk_id := ''u'', tk_z_index := 1\<rparr>], md_refs := [(''p'', [''u''])]\<rparr>) of
    (r, s') \<Rightarrow> r = Inl IntegrityError \<and> map tk_id (md_tracks s') = [''u''])"
  by code_simp

subsection \<open>Transitions\<close>

text \<open>A transition stored without its duration makes a listing of the transitions raise.\<close>

lemma sum_bind_Inl: "sum_bind m f = Inl e \<longleftrightarrow> m = Inl e \<or> (\<exists>x. m = Inr x \<and> f x = Inl e)"
  by (cases m) simp_all

lemma stored_transition_errors: "stored_transition t = Inl e \<Longrightarrow> e \<in> {KeyError, TypeError, ValueError, OverflowError}"
  by (auto simp: stored_transition_def sum_bind_Inl transition_type_def int_to_float_def split: option.splits if_splits
      elim!: ext_str.elims ext_f64.elims)

lemma stored_transition_short: "map_of t ''duration'' = None \<Longrightarrow> \<exists>e. stored_transition t = Inl e"
  by (cases "stored_transition t") (auto simp: stored_transition_def sum_bind_Inr)

lemma map_ok_first_error: "t \<in> set ts \<Longrightarrow> f t = Inl e \<Longrightarrow> \<exists>e t. t \<in> set ts \<and> f t = Inl e \<and> map_ok f ts = Inl e"
proof (induction ts)
  case (Cons u us)
  then show ?case by (cases "f u") (auto, blast)
qed simp


context media_store begin

lemma delete_stops:
  assumes "ok s" "mv_projects (view s) pid = Some p" "pj_transitions p = Some ts"
    and "t \<in> set ts" "has_id k t" "u \<in> set ts" "\<not> has_id k u" "map_of u ''duration'' = None"
  shows "\<exists>e s'. delete_transition R now pid k s = (Inl e, s') \<and> e \<in> {KeyError, TypeError, ValueError, OverflowError} \<and> ok s' \<and>
    mv_projects (view s') pid = Some (p\<lparr>pj_transitions := Some (filter (\<lambda>t. \<not> has_id k t) ts), pj_updated_at := now\<rparr>)"
proof -
  let ?kept = "filter (\<lambda>t. \<not> has_id k t) ts" and ?p = "p\<lparr>pj_transitions := Some (filter (\<lambda>t. \<not> has_id k t) ts), pj_updated_at := now\<rparr>"
  have key: "pj_id ?p = pid" using project_key [OF assms(1,2)] by simp
  then obtain s1 where s1: "pjr_update (mx_projects R) ?p s = (Inr ?p, s1)" "ok s1"
      "view s1 = (view s)\<lparr>mv_projects := (mv_projects (view s))(pid \<mapsto> ?p)\<rparr>"
    using project_update [OF assms(1), of ?p p] assms(2) by auto
  obtain tracks where tracks: "tlr_get_tracks_by_project (mx_timeline R) pid s1 = (Inr tracks, s1)" using track_list [OF s1(2)] by blast
  obtain cs where cs: "clr_list_by_project (mx_clips R) pid s1 = (Inr cs, s1)" using clip_list [OF s1(2)] by blast
  from stored_transition_short [OF assms(8)] obtain d where "stored_transition u = Inl d" by blast
  with assms(6,7) obtain e t' where e: "stored_transition t' = Inl e" "map_ok stored_transition ?kept = Inl e"
    using map_ok_first_error [of u ?kept stored_transition d] by auto
  have "length ?kept < length ts" using assms(4,5) by (intro length_filter_less) auto
  then have "delete_transition R now pid k s = (Inl e, s1)"
    using e(2) assms(2,3)
    by (simp add: delete_transition_def get_project_def get_clips_by_track_def project_get [OF assms(1)] bind_op_run seq_op_run
        s1(1) tracks cs Let_def)
  then show ?thesis using s1(2,3) stored_transition_errors [OF e(1)] by auto
qed

lemma apply_transition_outcome:
  assumes "ok s"
  shows "post (\<lambda>(res, s'). case res of Inl e \<Rightarrow> s' = s | Inr resp \<Rightarrow>
      \<exists>p f. mv_projects (view s) pid = Some p \<and> ok s' \<and> mv_projects (view s') pid = Some (p\<lparr>pj_transitions := Some (get_or [] (pj_transitions p) @
        [[(''id'', JStr new_id), (''source_clip_id'', JStr (tx_source_clip_id b)),
          (''target_clip_id'', JStr (tx_target_clip_id b)), (''transition_type'', JStr (tx_transition_type b)),
          (''parameters'', JObj (tx_parameters b)), (''filter_string'', JStr f)]]), pj_updated_at := now\<rparr>))
    (apply_transition R E P r new_id now pid b s)"
  unfolding apply_transition_def using assms
  by - (intro wp wp_change | assumption | (simp; fail) | (auto simp: post_def; fail))+

end

text \<open>
  The two routers that store transitions do not agree on their fields: once an effect transition has been
  applied, deleting another transition of the project raises an error that no handler answers, although the
  transition is already gone from the store.
\<close>

theorem effect_transition_breaks_deletion:
  assumes "sqd_ok s" "mv_projects (sqd_view s) pid = Some p" "pj_transitions p = Some ts" "t \<in> set ts" "has_id k t"
    and "k \<noteq> new_id" "apply_transition sqd_repos E P r new_id now pid b s = (Inr resp, s1)"
  shows "\<exists>e q s2. delete_transition sqd_repos later pid k s1 = (Inl e, s2) \<and> e \<in> {KeyError, TypeError, ValueError, OverflowError} \<and>
    mv_projects (sqd_view s2) pid = Some q \<and> list_all (\<lambda>t. \<not> has_id k t) (get_or [] (pj_transitions q))"
proof -
  obtain f where ok: "sqd_ok s1" and p: "mv_projects (sqd_view s1) pid = Some (p\<lparr>pj_transitions := Some (ts @
      [[(''id'', JStr new_id), (''source_clip_id'', JStr (tx_source_clip_id b)),
        (''target_clip_id'', JStr (tx_target_clip_id b)), (''transition_type'', JStr (tx_transition_type b)),
        (''parameters'', JObj (tx_parameters b)), (''filter_string'', JStr f)]]), pj_updated_at := now\<rparr>)"
    using sqd.apply_transition_outcome [OF assms(1), where pid = pid and new_id = new_id and b = b and now = now and E = E and P = P and r = r] assms(2,3,7) by (auto simp: post_def get_or_def)
  from sqd.delete_stops [OF ok p, where k = k and now = later and t = t] assms(4-6) show ?thesis
    by (fastforce simp: has_id_def list_all_iff get_or_def)
qed

definition demo_db_pair :: media_db where
  "demo_db_pair = demo_db\<lparr>md_projects := [demo_project\<lparr>pj_transitions := Some [[(''id'', JStr ''x'')]]\<rparr>],
     md_clips := [demo_clip, demo_clip\<lparr>cl_id := ''d'', cl_timeline_position := 90\<rparr>]\<rparr>"

definition demo_crossfade :: transition_request where
  "demo_crossfade = \<lparr>tx_source_clip_id = ''c'', tx_target_clip_id = ''d'', tx_transition_type = ''acrossfade'',
     tx_parameters = [(''duration'', JInt 1)]\<rparr>"

lemma demo_crossfade_filter:
  "\<exists>f. transition_filter demo_env demo_packages create_default_registry ''acrossfade'' [(''duration'', JInt 1)] = Inr f"
proof -
  have d: "get_effect ''acrossfade'' create_default_registry = Some ACROSSFADE"
    by (simp add: get_effect_def default_registry built_in_def)
  have ok: "accepts ACROSSFADE [(''duration'', JInt 1)]" by (simp add: accepts_def ACROSSFADE_def schema_simps prop_ok_def)
  then have "conforms (ef_parameter_schema ACROSSFADE) (JObj [(''duration'', JInt 1)])" by (simp add: accepts_def)
  then have "validate_scalar_parameters demo_packages ACROSSFADE [(''duration'', JInt 1)] = []"
    by (simp add: validate_scalar_parameters_def demo_packages_def)
  moreover have "fits [(''duration'', JInt 1)]" by (simp add: fits_def)
  moreover note d acrossfade_sound [OF ok, of demo_env]
  ultimately show ?thesis
    by (auto simp: transition_filter_def resolve_effect_def validate_effect_def succeeds_def)
qed

lemma demo_transition_applied:
  "\<exists>f s1. apply_transition sqd_repos demo_env demo_packages create_default_registry ''n'' 5 ''p'' demo_crossfade demo_db_pair =
     (Inr (''n'', f), s1) \<and> md_clips s1 = md_clips demo_db_pair"
proof -
  have ok: "sqd_ok demo_db_pair" by (simp add: sqd_ok_def demo_db_pair_def demo_db_def new_clip_def)
  have p: "mv_projects (sqd_view demo_db_pair) ''p'' = Some (demo_project\<lparr>pj_transitions := Some [[(''id'', JStr ''x'')]]\<rparr>)"
    by (simp add: sqd_view_def demo_db_pair_def demo_db_def tbl_get_def demo_project_def)
  obtain f where f: "transition_filter demo_env demo_packages create_default_registry ''acrossfade'' [(''duration'', JInt 1)] = Inr f"
    using demo_crossfade_filter by blast
  have cs: "clr_list_by_project (mx_clips sqd_repos) ''p'' demo_db_pair = (Inr (md_clips demo_db_pair), demo_db_pair)" by code_simp
  have adj: "check_adjacent (md_clips demo_db_pair) ''c'' ''d'' = Inr ()" by code_simp
  let ?q = "demo_project\<lparr>pj_transitions := Some [[(''id'', JStr ''x'')],
      [(''id'', JStr ''n''), (''source_clip_id'', JStr ''c''), (''target_clip_id'', JStr ''d''), (''transition_type'', JStr ''acrossfade''),
       (''parameters'', JObj [(''duration'', JInt 1)]), (''filter_string'', JStr f)]], pj_updated_at := 5\<rparr>"
  obtain s1 where "pjr_update (mx_projects sqd_repos) ?q demo_db_pair = (Inr ?q, s1)" "md_clips s1 = md_clips demo_db_pair"
    by (simp add: sqd_repos_def sqd_project_repo_def sqd_project_update_def demo_db_pair_def demo_db_def tbl_get_def demo_project_def)
  then show ?thesis
    using f p cs adj
    by (simp add: apply_transition_def get_project_def sqd.project_get [OF ok] bind_op_run seq_op_run demo_crossfade_def get_or_def)
qed

theorem effect_transition_breaks_deletion_witness:
  "\<exists>resp s1 e s2. apply_transition sqd_repos demo_env demo_packages create_default_registry ''n'' 5 ''p'' demo_crossfade demo_db_pair =
     (Inr resp, s1) \<and> delete_transition sqd_repos 6 ''p'' ''x'' s1 = (Inl e, s2)"
proof -
  have ok: "sqd_ok demo_db_pair" by (simp add: sqd_ok_def demo_db_pair_def demo_db_def new_clip_def)
  have p: "mv_projects (sqd_view demo_db_pair) ''p'' = Some (demo_project\<lparr>pj_transitions := Some [[(''id'', JStr ''x'')]]\<rparr>)"
    by (simp add: sqd_view_def demo_db_pair_def demo_db_def tbl_get_def demo_project_def)
  obtain f s1 where run: "apply_transition sqd_repos demo_env demo_packages create_default_registry ''n'' 5 ''p'' demo_crossfade demo_db_pair =
      (Inr (''n'', f), s1)" using demo_transition_applied by blast
  from effect_transition_breaks_deletion [OF ok p _ _ _ _ run, of "[[(''id'', JStr ''x'')]]" "[(''id'', JStr ''x'')]" "''x''" 6] run
  show ?thesis by (auto simp: has_id_def)
qed
end
