(* ===== verification/Proxy_Store.thy ===== *)
theory Proxy_Store
  imports Tables
begin

text \<open>
  Proxy files of videos: \<open>ProxyStatus\<close>, \<open>ProxyQuality\<close> and \<open>ProxyFile\<close> of \<open>src/stoat_ferret/db/models.py\<close>, and
  the two repositories of \<open>db/proxy_repository.py\<close>. They meet one contract: a map from ids to proxies with at
  most one for a video and a quality, whose statuses change along the table only.
\<close>

subsection \<open>Statuses and files\<close>

datatype proxy_status = X_PENDING | X_GENERATING | X_READY | X_FAILED | X_STALE

fun xs_value :: "proxy_status \<Rightarrow> string" where
  "xs_value X_PENDING = ''pending''"
| "xs_value X_GENERATING = ''generating''"
| "xs_value X_READY = ''ready''"
| "xs_value X_FAILED = ''failed''"
| "xs_value X_STALE = ''stale''"

datatype proxy_quality = XQ_LOW | XQ_MEDIUM | XQ_HIGH

fun xq_value :: "proxy_quality \<Rightarrow> string" where
  "xq_value XQ_LOW = ''low''"
| "xq_value XQ_MEDIUM = ''medium''"
| "xq_value XQ_HIGH = ''high''"

definition proxy_transitions :: "(string, string list) dict" where
  "proxy_transitions = [(''pending'', [''generating'']), (''generating'', [''ready'', ''failed'']), (''ready'', [''stale''])]"

definition validate_proxy_transition :: "string \<Rightarrow> string \<Rightarrow> exn + unit" where
  "validate_proxy_transition current new =
     (if new \<in> set (get_or [] (map_of proxy_transitions current)) then Inr () else Inl ValueError)"

definition proxy_may :: "proxy_status \<Rightarrow> proxy_status \<Rightarrow> bool" where
  "proxy_may a b \<longleftrightarrow> validate_proxy_transition (xs_value a) (xs_value b) = Inr ()"

lemma proxy_may_simps [simp]:
  "proxy_may X_PENDING b \<longleftrightarrow> b = X_GENERATING"
  "proxy_may X_GENERATING b \<longleftrightarrow> b \<in> {X_READY, X_FAILED}"
  "proxy_may X_READY b \<longleftrightarrow> b = X_STALE"
  "\<not> proxy_may X_FAILED b" "\<not> proxy_may X_STALE b"
  by (cases b; simp add: proxy_may_def validate_proxy_transition_def proxy_transitions_def get_or_def)+

lemma validate_proxy_iff:
  "validate_proxy_transition (xs_value a) (xs_value b) = (if proxy_may a b then Inr () else Inl ValueError)"
  by (simp add: proxy_may_def validate_proxy_transition_def)

record proxy_file =
  pf_id :: string
  pf_video_id :: string
  pf_quality :: proxy_quality
  pf_path :: string
  pf_size :: int
  pf_status :: proxy_status
  pf_checksum :: string
  pf_generated_at :: "time option"
  pf_accessed_at :: time

record 's proxy_repo =
  prx_add :: "proxy_file \<Rightarrow> ('s, proxy_file) op"
  prx_get :: "string \<Rightarrow> ('s, proxy_file option) op"
  prx_by_video_and_quality :: "string \<Rightarrow> proxy_quality \<Rightarrow> ('s, proxy_file option) op"
  prx_list_by_video :: "string \<Rightarrow> ('s, proxy_file list) op"
  prx_update_status :: "time \<Rightarrow> string \<Rightarrow> proxy_status \<Rightarrow> int option \<Rightarrow> ('s, unit) op"
  prx_delete :: "string \<Rightarrow> ('s, bool) op"
  prx_count :: "('s, nat) op"
  prx_total_size :: "('s, int) op"
  prx_count_by_status :: "proxy_status \<Rightarrow> ('s, nat) op"
  prx_oldest_accessed :: "('s, proxy_file option) op"

text \<open>The columns \<open>update_status\<close> writes, and what makes two proxies collide.\<close>

definition with_proxy_status :: "time \<Rightarrow> proxy_status \<Rightarrow> int option \<Rightarrow> proxy_file \<Rightarrow> proxy_file" where
  "with_proxy_status now st bytes p = p\<lparr>pf_status := st, pf_size := get_or (pf_size p) bytes,
     pf_generated_at := (if st = X_READY then Some now else pf_generated_at p), pf_accessed_at := now\<rparr>"

definition same_target :: "proxy_file \<Rightarrow> proxy_file \<Rightarrow> bool" where
  "same_target p q \<longleftrightarrow> pf_video_id p = pf_video_id q \<and> pf_quality p = pf_quality q"

definition total_bytes :: "proxy_file list \<Rightarrow> int" where
  "total_bytes ps = sum_list (map pf_size ps)"

subsection \<open>SQLite\<close>

type_synonym sql_proxies = "proxy_file list"

text \<open>\<open>videos\<close> are the ids of the table the rows refer to.\<close>

definition sqx_add :: "string set \<Rightarrow> proxy_file \<Rightarrow> (sql_proxies, proxy_file) op" where
  "sqx_add videos p = (\<lambda>rows.
     case (if pf_video_id p \<notin> videos \<or> list_ex (same_target p) rows then Inl IntegrityError else tbl_insert pf_id p rows) of
       Inl e \<Rightarrow> (Inl ValueError, rows)
     | Inr rows' \<Rightarrow> (Inr p, rows'))"

definition sqx_get :: "string \<Rightarrow> (sql_proxies, proxy_file option) op" where
  "sqx_get k = read_op (tbl_get pf_id k)"

definition sqx_by_video_and_quality :: "string \<Rightarrow> proxy_quality \<Rightarrow> (sql_proxies, proxy_file option) op" where
  "sqx_by_video_and_quality v q = read_op (tbl_get (\<lambda>p. (pf_video_id p, pf_quality p)) (v, q))"

definition sqx_list_by_video :: "string \<Rightarrow> (sql_proxies, proxy_file list) op" where
  "sqx_list_by_video v = read_op (tbl_select (\<lambda>p. pf_video_id p = v) (\<lambda>p. xq_value (pf_quality p)))"

definition sqx_update_status :: "time \<Rightarrow> string \<Rightarrow> proxy_status \<Rightarrow> int option \<Rightarrow> (sql_proxies, unit) op" where
  "sqx_update_status now k st bytes = (\<lambda>rows. case tbl_get pf_id k rows of
     None \<Rightarrow> (Inl ValueError, rows)
   | Some current \<Rightarrow> (case validate_proxy_transition (xs_value (pf_status current)) (xs_value st) of
       Inl e \<Rightarrow> (Inl e, rows)
     | Inr _ \<Rightarrow> (Inr (), tbl_update pf_id k (\<lambda>r. r\<lparr>pf_status := st, pf_size := get_or (pf_size current) bytes,
         pf_generated_at := (if st = X_READY then Some now else pf_generated_at current), pf_accessed_at := now\<rparr>) rows)))"

definition sqx_delete :: "string \<Rightarrow> (sql_proxies, bool) op" where
  "sqx_delete k = (\<lambda>rows. (Inr (tbl_get pf_id k rows \<noteq> None), tbl_delete pf_id k rows))"

definition sqx_count :: "(sql_proxies, nat) op" where
  "sqx_count = read_op length"

definition sqx_total_size :: "(sql_proxies, int) op" where
  "sqx_total_size = read_op total_bytes"

definition sqx_count_by_status :: "proxy_status \<Rightarrow> (sql_proxies, nat) op" where
  "sqx_count_by_status st = read_op (\<lambda>rows. length (filter (\<lambda>p. pf_status p = st) rows))"

definition sqx_oldest_accessed :: "(sql_proxies, proxy_file option) op" where
  "sqx_oldest_accessed = read_op (\<lambda>rows. case sql_limit 1 0 (tbl_select (\<lambda>p. pf_status p = X_READY) pf_accessed_at rows) of
     [] \<Rightarrow> None | p # _ \<Rightarrow> Some p)"

definition sqx_repo :: "string set \<Rightarrow> sql_proxies proxy_repo" where
  "sqx_repo videos = \<lparr>prx_add = sqx_add videos, prx_get = sqx_get, prx_by_video_and_quality = sqx_by_video_and_quality,
     prx_list_by_video = sqx_list_by_video, prx_update_status = sqx_update_status, prx_delete = sqx_delete,
     prx_count = sqx_count, prx_total_size = sqx_total_size, prx_count_by_status = sqx_count_by_status,
     prx_oldest_accessed = sqx_oldest_accessed\<rparr>"

subsection \<open>In memory\<close>

type_synonym mem_proxies = "(string, proxy_file) dict"

text \<open>Only the pair is checked, not the id.\<close>

definition mmx_add :: "proxy_file \<Rightarrow> (mem_proxies, proxy_file) op" where
  "mmx_add p = (\<lambda>d. if list_ex (same_target p) (dict_values d) then (Inl ValueError, d)
     else (Inr p, AList.update (pf_id p) p d))"

definition mmx_get :: "string \<Rightarrow> (mem_proxies, proxy_file option) op" where
  "mmx_get k = read_op (\<lambda>d. map_of d k)"

definition mmx_by_video_and_quality :: "string \<Rightarrow> proxy_quality \<Rightarrow> (mem_proxies, proxy_file option) op" where
  "mmx_by_video_and_quality v q = read_op (\<lambda>d. List.find (\<lambda>p. pf_video_id p = v \<and> pf_quality p = q) (dict_values d))"

definition mmx_list_by_video :: "string \<Rightarrow> (mem_proxies, proxy_file list) op" where
  "mmx_list_by_video v = read_op (\<lambda>d. sort_key (\<lambda>p. xq_value (pf_quality p)) (filter (\<lambda>p. pf_video_id p = v) (dict_values d)))"

definition mmx_update_status :: "time \<Rightarrow> string \<Rightarrow> proxy_status \<Rightarrow> int option \<Rightarrow> (mem_proxies, unit) op" where
  "mmx_update_status now k st bytes = (\<lambda>d. case map_of d k of
     None \<Rightarrow> (Inl ValueError, d)
   | Some p \<Rightarrow> (case validate_proxy_transition (xs_value (pf_status p)) (xs_value st) of
       Inl e \<Rightarrow> (Inl e, d)
     | Inr _ \<Rightarrow> (Inr (), AList.update k (with_proxy_status now st bytes p) d)))"

definition mmx_delete :: "string \<Rightarrow> (mem_proxies, bool) op" where
  "mmx_delete k = (\<lambda>d. if map_of d k \<noteq> None then (Inr True, AList.delete k d) else (Inr False, d))"

definition mmx_count :: "(mem_proxies, nat) op" where
  "mmx_count = read_op length"

definition mmx_total_size :: "(mem_proxies, int) op" where
  "mmx_total_size = read_op (\<lambda>d. total_bytes (dict_values d))"

definition mmx_count_by_status :: "proxy_status \<Rightarrow> (mem_proxies, nat) op" where
  "mmx_count_by_status st = read_op (\<lambda>d. length (filter (\<lambda>p. pf_status p = st) (dict_values d)))"

definition mmx_oldest_accessed :: "(mem_proxies, proxy_file option) op" where
  "mmx_oldest_accessed = read_op (\<lambda>d. case filter (\<lambda>p. pf_status p = X_READY) (dict_values d) of
     [] \<Rightarrow> None | p # ps \<Rightarrow> Some (arg_min_list pf_accessed_at (p # ps)))"

definition mmx_repo :: "mem_proxies proxy_repo" where
  "mmx_repo = \<lparr>prx_add = mmx_add, prx_get = mmx_get, prx_by_video_and_quality = mmx_by_video_and_quality,
     prx_list_by_video = mmx_list_by_video, prx_update_status = mmx_update_status, prx_delete = mmx_delete,
     prx_count = mmx_count, prx_total_size = mmx_total_size, prx_count_by_status = mmx_count_by_status,
     prx_oldest_accessed = mmx_oldest_accessed\<rparr>"

subsection \<open>The contract\<close>

locale proxy_store =
  fixes R :: "'s proxy_repo" and m :: "'s \<Rightarrow> string \<Rightarrow> proxy_file option" and ok :: "'s \<Rightarrow> bool" and videos :: "string set"
  assumes keyed: "ok s \<Longrightarrow> m s k = Some p \<Longrightarrow> pf_id p = k"
    and finite_law: "ok s \<Longrightarrow> finite (dom (m s))"
    and one_per_target: "ok s \<Longrightarrow> m s j = Some p \<Longrightarrow> m s k = Some q \<Longrightarrow> same_target p q \<Longrightarrow> j = k"
    and add_law: "ok s \<Longrightarrow> m s (pf_id new) = None \<Longrightarrow> pf_video_id new \<in> videos \<Longrightarrow>
      (\<And>k q. m s k = Some q \<Longrightarrow> \<not> same_target new q) \<Longrightarrow>
      \<exists>s'. prx_add R new s = (Inr new, s') \<and> ok s' \<and> m s' = (m s)(pf_id new \<mapsto> new)"
    and add_refused: "ok s \<Longrightarrow> m s k = Some q \<Longrightarrow> same_target new q \<Longrightarrow> prx_add R new s = (Inl ValueError, s)"
    and get_law: "ok s \<Longrightarrow> prx_get R k s = (Inr (m s k), s)"
    and list_law: "ok s \<Longrightarrow> \<exists>ps. prx_list_by_video R v s = (Inr ps, s) \<and> distinct (map pf_id ps) \<and>
      (\<forall>p. p \<in> set ps \<longleftrightarrow> m s (pf_id p) = Some p \<and> pf_video_id p = v)"
    and status_law: "ok s \<Longrightarrow> m s k = Some p \<Longrightarrow> proxy_may (pf_status p) st \<Longrightarrow>
      \<exists>s'. prx_update_status R now k st bytes s = (Inr (), s') \<and> ok s' \<and> m s' = (m s)(k \<mapsto> with_proxy_status now st bytes p)"
    and status_refused: "ok s \<Longrightarrow> (\<And>p. m s k = Some p \<Longrightarrow> \<not> proxy_may (pf_status p) st) \<Longrightarrow>
      prx_update_status R now k st bytes s = (Inl ValueError, s)"
    and delete_law: "ok s \<Longrightarrow> \<exists>s'. prx_delete R k s = (Inr (m s k \<noteq> None), s') \<and> ok s' \<and> m s' = (m s)(k := None)"
    and total_law: "ok s \<Longrightarrow> prx_total_size R s = (Inr (\<Sum>k \<in> dom (m s). pf_size (the (m s k))), s)"
    and oldest_law: "ok s \<Longrightarrow> \<exists>r. prx_oldest_accessed R s = (Inr r, s) \<and>
      (case r of None \<Rightarrow> \<forall>k p. m s k = Some p \<longrightarrow> pf_status p \<noteq> X_READY
       | Some p \<Rightarrow> m s (pf_id p) = Some p \<and> pf_status p = X_READY \<and>
           (\<forall>k q. m s k = Some q \<longrightarrow> pf_status q = X_READY \<longrightarrow> pf_accessed_at p \<le> pf_accessed_at q))"

lemma same_target_refl [simp]: "same_target p p"
  by (simp add: same_target_def)

lemma same_target_sym: "same_target p q \<Longrightarrow> same_target q p"
  by (simp add: same_target_def)

lemma with_status_simps [simp]:
  "pf_id (with_proxy_status now st bytes p) = pf_id p" "pf_status (with_proxy_status now st bytes p) = st"
  "pf_video_id (with_proxy_status now st bytes p) = pf_video_id p" "pf_quality (with_proxy_status now st bytes p) = pf_quality p"
  "same_target (with_proxy_status now st bytes p) q = same_target p q"
  "same_target q (with_proxy_status now st bytes p) = same_target q p"
  by (simp_all add: with_proxy_status_def same_target_def)

text \<open>At most one proxy for a target, in the map a state stands for.\<close>

definition targets_ok :: "(string \<Rightarrow> proxy_file option) \<Rightarrow> bool" where
  "targets_ok M \<longleftrightarrow> (\<forall>j k p q. M j = Some p \<longrightarrow> M k = Some q \<longrightarrow> same_target p q \<longrightarrow> j = k)"

lemma targets_okD: "targets_ok M \<Longrightarrow> M j = Some p \<Longrightarrow> M k = Some q \<Longrightarrow> same_target p q \<Longrightarrow> j = k"
  unfolding targets_ok_def by blast

lemma targets_ok_new: "targets_ok M \<Longrightarrow> (\<And>k q. M k = Some q \<Longrightarrow> \<not> same_target new q) \<Longrightarrow> targets_ok (M(i \<mapsto> new))"
  unfolding targets_ok_def by (metis fun_upd_apply option.inject same_target_sym)

lemma targets_ok_status:
  assumes "targets_ok M" "M i = Some p"
  shows "targets_ok (M(i \<mapsto> with_proxy_status now st bytes p))"
  unfolding targets_ok_def
proof (intro allI impI)
  fix j k a b
  assume "(M(i \<mapsto> with_proxy_status now st bytes p)) j = Some a" "(M(i \<mapsto> with_proxy_status now st bytes p)) k = Some b"
    "same_target a b"
  with assms(2) obtain a' b' where "M j = Some a'" "M k = Some b'" "same_target a' b'" by (fastforce split: if_splits)
  then show "j = k" by (rule targets_okD [OF assms(1)])
qed

lemma targets_ok_delete: "targets_ok M \<Longrightarrow> targets_ok (M(i := None))"
  by (auto simp: targets_ok_def)

lemma total_bytes_sum: "tbl_keys pf_id rows \<Longrightarrow> total_bytes rows = (\<Sum>k \<in> pf_id ` set rows. pf_size (the (tbl_get pf_id k rows)))"
proof -
  assume keys: "tbl_keys pf_id rows"
  have "tbl_get pf_id (pf_id p) rows = Some p" if "p \<in> set rows" for p using keys that by (simp add: tbl_get_iff)
  then have "(\<Sum>k \<in> pf_id ` set rows. pf_size (the (tbl_get pf_id k rows))) = (\<Sum>p \<in> set rows. pf_size p)"
    using keys by (subst sum.reindex) (auto simp: distinct_map intro!: sum.cong)
  also have "\<dots> = total_bytes rows"
    using keys by (simp add: total_bytes_def distinct_map sum_list_distinct_conv_sum_set)
  finally show ?thesis by simp
qed

lemma hd_sorted_least:
  assumes "sort_key f xs = p # ps"
  shows "p \<in> set xs \<and> (\<forall>q \<in> set xs. f p \<le> f q)"
proof -
  have "set xs = set (p # ps)" and "sorted (map f (p # ps))" using assms by (metis set_sort, metis sorted_sort_key)
  then show ?thesis by auto
qed


lemma list_ex_target: "tbl_keys pf_id rows \<Longrightarrow> list_ex (same_target p) rows \<longleftrightarrow> (\<exists>k q. tbl_get pf_id k rows = Some q \<and> same_target p q)"
  by (auto simp: list_ex_iff tbl_get_iff)

definition sqx_ok :: "sql_proxies \<Rightarrow> bool" where
  "sqx_ok rows \<longleftrightarrow> tbl_keys pf_id rows \<and> targets_ok (\<lambda>k. tbl_get pf_id k rows)"

interpretation sqx: proxy_store "sqx_repo videos" "\<lambda>rows k. tbl_get pf_id k rows" sqx_ok videos for videos
proof (unfold_locales, goal_cases)
  case (1 s k p) then show ?case by (simp add: sqx_ok_def tbl_get_iff)
next
  case (2 s) then show ?case by (auto simp: sqx_ok_def dom_def tbl_get_iff image_Collect [symmetric])
next
  case (3 s j p k q) then show ?case by (auto simp: sqx_ok_def dest: targets_okD)
next
  case (4 s new)
  have "prx_add (sqx_repo videos) new s = (Inr new, s @ [new])"
    using 4 by (auto simp: sqx_repo_def sqx_add_def sqx_ok_def list_ex_target tbl_insert_def tbl_get_None)
  moreover have m: "(\<lambda>k. tbl_get pf_id k (s @ [new])) = (\<lambda>k. tbl_get pf_id k s)(pf_id new \<mapsto> new)"
    using 4 by (auto simp: tbl_get_append split: option.splits)
  moreover have "sqx_ok (s @ [new])"
    using 4 by (simp add: sqx_ok_def m targets_ok_new del: fun_upd_apply) (simp add: tbl_get_None)
  ultimately show ?case by blast
next
  case (5 s k q new)
  then show ?case by (auto simp: sqx_repo_def sqx_add_def sqx_ok_def list_ex_target)
next
  case (6 s k) then show ?case by (simp add: sqx_repo_def sqx_get_def)
next
  case (7 s v)
  then show ?case
    by (auto simp: sqx_repo_def sqx_list_by_video_def sqx_ok_def tbl_get_iff intro: tbl_select_keys)
next
  case (8 s k p st now bytes)
  let ?f = "\<lambda>r. r\<lparr>pf_status := st, pf_size := get_or (pf_size p) bytes,
         pf_generated_at := (if st = X_READY then Some now else pf_generated_at p), pf_accessed_at := now\<rparr>"
  have m: "(\<lambda>j. tbl_get pf_id j (tbl_update pf_id k ?f s)) = (\<lambda>j. tbl_get pf_id j s)(k \<mapsto> with_proxy_status now st bytes p)"
    using 8(2) by (auto simp: tbl_get_update with_proxy_status_def)
  have "sqx_ok (tbl_update pf_id k ?f s)"
    using 8(1,2) by (simp add: sqx_ok_def m tbl_keys_update targets_ok_status del: fun_upd_apply)
  with m 8 show ?case by (auto simp: sqx_repo_def sqx_update_status_def validate_proxy_iff)
next
  case (9 s k st now bytes)
  then show ?case by (auto simp: sqx_repo_def sqx_update_status_def validate_proxy_iff split: option.splits)
next
  case (10 s k)
  have m: "(\<lambda>j. tbl_get pf_id j (tbl_delete pf_id k s)) = (\<lambda>j. tbl_get pf_id j s)(k := None)"
    by (auto simp: tbl_get_delete)
  with 10 show ?case
    by (auto simp: sqx_repo_def sqx_delete_def sqx_ok_def m tbl_keys_delete targets_ok_delete simp del: fun_upd_apply)
next
  case (11 s)
  have "dom (\<lambda>k. tbl_get pf_id k s) = pf_id ` set s" using tbl_get_None [of pf_id _ s] by (auto simp: dom_def)
  with 11 show ?case by (simp add: sqx_repo_def sqx_total_size_def sqx_ok_def total_bytes_sum)
next
  case (12 s)
  show ?case
  proof (cases "tbl_select (\<lambda>p. pf_status p = X_READY) pf_accessed_at s")
    case Nil
    then have "\<forall>p \<in> set s. pf_status p \<noteq> X_READY"
      using set_tbl_select [of "\<lambda>p. pf_status p = X_READY" pf_accessed_at s] by auto
    with 12 Nil show ?thesis by (simp add: sqx_repo_def sqx_oldest_accessed_def sql_limit_def sqx_ok_def tbl_get_iff)
  next
    case (Cons p ps)
    then have "p \<in> set (filter (\<lambda>p. pf_status p = X_READY) s) \<and> (\<forall>q \<in> set (filter (\<lambda>p. pf_status p = X_READY) s). pf_accessed_at p \<le> pf_accessed_at q)"
      unfolding tbl_select_def by (rule hd_sorted_least)
    with 12 Cons show ?thesis by (simp add: sqx_repo_def sqx_oldest_accessed_def sql_limit_def sqx_ok_def tbl_get_iff)
  qed
qed

definition mmx_ok :: "mem_proxies \<Rightarrow> bool" where
  "mmx_ok d \<longleftrightarrow> dict_all (\<lambda>k p. pf_id p = k) d \<and> targets_ok (map_of d)"

lemma mmx_values: "mmx_ok d \<Longrightarrow> p \<in> set (dict_values d) \<longleftrightarrow> map_of d (pf_id p) = Some p"
  by (rule dict_all_values) (auto simp: mmx_ok_def)

lemma mmx_keys: "mmx_ok d \<Longrightarrow> tbl_keys pf_id (dict_values d)"
  by (rule dict_keyed_distinct) (auto simp: mmx_ok_def dict_all_def)

lemma mmx_get_values: "mmx_ok d \<Longrightarrow> tbl_get pf_id k (dict_values d) = map_of d k"
proof (cases "map_of d k")
  case None
  assume ok: "mmx_ok d"
  have "k \<notin> pf_id ` set (dict_values d)" using None mmx_values [OF ok] by (metis imageE option.distinct(1))
  with None show ?thesis by (simp add: tbl_get_None)
next
  case (Some p)
  assume ok: "mmx_ok d"
  then have "pf_id p = k" using Some by (auto simp: mmx_ok_def dest: dict_all_get)
  with Some show ?thesis using mmx_values [OF ok, of p] mmx_keys [OF ok] by (simp add: tbl_get_iff)
qed

lemma mmx_ex_target: "mmx_ok d \<Longrightarrow> list_ex (same_target p) (dict_values d) \<longleftrightarrow> (\<exists>k q. map_of d k = Some q \<and> same_target p q)"
  using list_ex_target [OF mmx_keys, of d p] by (simp add: mmx_get_values)

interpretation mmx: proxy_store mmx_repo map_of mmx_ok videos for videos
proof (unfold_locales, goal_cases)
  case (1 s k p) then show ?case by (auto simp: mmx_ok_def dest: dict_all_get)
next
  case (2 s) show ?case by (rule finite_dom_map_of)
next
  case (3 s j p k q) then show ?case by (auto simp: mmx_ok_def dest: targets_okD)
next
  case (4 s new)
  then have "\<not> list_ex (same_target new) (dict_values s)" by (simp add: mmx_ex_target)
  with 4 show ?case
    by (auto simp: mmx_repo_def mmx_add_def mmx_ok_def dict_set_map_of intro: dict_all_set targets_ok_new)
next
  case (5 s k q new)
  then have "list_ex (same_target new) (dict_values s)" by (auto simp: mmx_ex_target)
  then show ?case by (simp add: mmx_repo_def mmx_add_def)
next
  case (6 s k) then show ?case by (simp add: mmx_repo_def mmx_get_def)
next
  case (7 s v)
  have "distinct (map pf_id (sort_key (\<lambda>p. xq_value (pf_quality p)) (filter (\<lambda>p. pf_video_id p = v) (dict_values s))))"
    by (rule tbl_select_keys [OF mmx_keys [OF 7], unfolded tbl_select_def])
  with 7 show ?case by (auto simp: mmx_repo_def mmx_list_by_video_def mmx_values simp flip: set_map)
next
  case (8 s k p st now bytes)
  then have "pf_id p = k" by (auto simp: mmx_ok_def dest: dict_all_get)
  with 8 show ?case
    by (auto simp: mmx_repo_def mmx_update_status_def validate_proxy_iff mmx_ok_def dict_set_map_of
        intro: dict_all_set targets_ok_status)
next
  case (9 s k st now bytes)
  then show ?case by (auto simp: mmx_repo_def mmx_update_status_def validate_proxy_iff split: option.splits)
next
  case (10 s k)
  then show ?case
    by (auto simp: mmx_repo_def mmx_delete_def mmx_ok_def delete_conv' fun_eq_iff intro: dict_all_pop targets_ok_delete)
next
  case (11 s)
  have "dom (map_of s) = pf_id ` set (dict_values s)"
    using mmx_get_values [OF 11] tbl_get_None [of pf_id _ "dict_values s"] by (force simp: dom_def)
  then show ?case
    using total_bytes_sum [OF mmx_keys [OF 11]] by (simp add: mmx_repo_def mmx_total_size_def mmx_get_values [OF 11])
next
  case (12 s)
  show ?case
  proof (cases "filter (\<lambda>p. pf_status p = X_READY) (dict_values s)")
    case Nil
    then have "pf_status p \<noteq> X_READY" if "map_of s k = Some p" for k p
      using that 12 mmx_values [OF 12, of p] by (auto simp: filter_empty_conv mmx_ok_def dest: dict_all_get)
    with Nil show ?thesis by (auto simp: mmx_repo_def mmx_oldest_accessed_def)
  next
    case (Cons p ps)
    let ?a = "arg_min_list pf_accessed_at (p # ps)"
    have "?a \<in> set (filter (\<lambda>p. pf_status p = X_READY) (dict_values s))" unfolding Cons by (rule arg_min_list_in) simp
    then have "?a \<in> set (dict_values s)" "pf_status ?a = X_READY" by (simp_all del: arg_min_list.simps set_map)
    then have "map_of s (pf_id ?a) = Some ?a \<and> pf_status ?a = X_READY" unfolding mmx_values [OF 12] by simp
    moreover have "pf_accessed_at ?a \<le> pf_accessed_at q" if "map_of s k = Some q" "pf_status q = X_READY" for k q
    proof -
      have "q \<in> set (filter (\<lambda>p. pf_status p = X_READY) (dict_values s))"
        using that 12 mmx_values [OF 12, of q] by (auto simp: mmx_ok_def dest: dict_all_get)
      then show ?thesis unfolding Cons using f_arg_min_list_f [of "p # ps" pf_accessed_at]
        by (auto simp del: arg_min_list.simps intro!: Min_le)
    qed
    ultimately show ?thesis using Cons by (auto simp: mmx_repo_def mmx_oldest_accessed_def simp del: arg_min_list.simps)
  qed
qed

end
