(* ===== verification/Proxy_Service.thy ===== *)
theory Proxy_Service
  imports Proxy_Store Media_Models Ws_Events "HOL-Library.While_Combinator"
begin

text \<open>
  Generation of proxy files, \<open>src/stoat_ferret/api/services/proxy_service.py\<close>, and the requests of
  \<open>api/routers/proxy.py\<close>, over any repository of \<open>Proxy_Store\<close>. The world adds the files on disk with their
  sizes, the events broadcast, the progress of jobs and the jobs submitted. How the run of FFmpeg ends is an
  argument: \<open>exec\<close> gives it from the command line, and \<open>mid\<close> is what other tasks do meanwhile. A job that is
  cancelled during the run, at its timeout or when the worker stops, ends with \<open>CancelledError\<close>, which
  no \<open>except\<close> of the code catches: this is \<open>Run_Cancelled\<close>, and the task is \<open>Gen_Cancelled\<close>.
\<close>

subsection \<open>Quality and command line\<close>

definition quality_map :: "(int \<times> proxy_quality \<times> int \<times> int) list" where
  "quality_map = [(1080, XQ_HIGH, 1280, 720), (720, XQ_MEDIUM, 960, 540)]"

definition select_proxy_quality :: "int \<Rightarrow> int \<Rightarrow> proxy_quality \<times> int \<times> int" where
  "select_proxy_quality source_width source_height =
     (case List.find (\<lambda>e. fst e < source_height) quality_map of
        Some (_, r) \<Rightarrow> r | None \<Rightarrow> (XQ_LOW, source_width, source_height))"

definition even_down :: "int \<Rightarrow> int" where
  "even_down i = (if i mod 2 = 0 then i else i - 1)"

definition build_ffmpeg_args :: "string \<Rightarrow> string \<Rightarrow> int \<Rightarrow> int \<Rightarrow> string list" where
  "build_ffmpeg_args source_path output_path w h = [''-i'', source_path, ''-vf'', ''scale='' @ py_str_int w @ '':'' @ py_str_int h,
     ''-c:v'', ''libx264'', ''-preset'', ''fast'', ''-crf'', ''23'', ''-c:a'', ''aac'', ''-b:a'', ''128k'', ''-progress'', ''pipe:2'',
     ''-y'', output_path]"

subsection \<open>The world\<close>

record proxy_env =
  pe_dir :: string
  pe_max_storage :: int
  pe_threshold :: rat
  pe_locked :: "string \<Rightarrow> bool"
  pe_ws :: bool
  pe_queue :: bool

record 's proxy_world =
  px_store :: 's
  px_files :: "(string, nat) dict"
  px_events :: "(event_type \<times> message) list"
  px_progress :: "(string, rat) dict"
  px_submitted :: "message list"

definition on_proxies :: "('s, 'a) op \<Rightarrow> ('s proxy_world, 'a) op" where
  "on_proxies f s = (case f (px_store s) of (r, t) \<Rightarrow> (r, s\<lparr>px_store := t\<rparr>))"

text \<open>An error of the removal is ignored: the file stays.\<close>

definition remove_file_if_exists :: "(string \<Rightarrow> bool) \<Rightarrow> string \<Rightarrow> 's proxy_world \<Rightarrow> 's proxy_world" where
  "remove_file_if_exists locked path s = (if locked path then s else s\<lparr>px_files := AList.delete path (px_files s)\<rparr>)"

definition announce_proxy :: "proxy_env \<Rightarrow> event_type \<Rightarrow> message \<Rightarrow> ('s proxy_world, unit) op" where
  "announce_proxy en e msg = when_op (pe_ws en) (modify_op (\<lambda>s. s\<lparr>px_events := px_events s @ [(e, msg)]\<rparr>))"

definition send_progress :: "proxy_env \<Rightarrow> string option \<Rightarrow> rat \<Rightarrow> string \<Rightarrow> proxy_quality \<Rightarrow> string \<Rightarrow> ('s proxy_world, unit) op" where
  "send_progress en job_id progress st q resolution = (case job_id of None \<Rightarrow> ret ()
     | Some j \<Rightarrow> seq_op (when_op (pe_queue en) (modify_op (\<lambda>s. s\<lparr>px_progress := AList.update j progress (px_progress s)\<rparr>)))
         (announce_proxy en JOB_PROGRESS [(''job_id'', JStr j), (''progress'', JNum progress), (''status'', JStr st),
           (''proxy_quality'', JStr (xq_value q)), (''target_resolution'', JStr resolution)]))"

text \<open>The callback of the executor: the report that is sent, if any, and the prev progress and time.\<close>

definition on_progress :: "int \<Rightarrow> int \<Rightarrow> rat \<Rightarrow> rat \<times> rat \<Rightarrow> rat option \<times> rat \<times> rat" where
  "on_progress duration_us out_time_us now prev =
     (if duration_us \<le> 0 then (None, prev)
      else let progress = min (of_int out_time_us / of_int duration_us) 1 in
        if now - snd prev < 1 / 2 \<and> progress - fst prev < 5 / 100 then (None, prev)
        else (Some progress, progress, now))"

subsection \<open>The quota\<close>

definition cleanup_bytes :: "proxy_env \<Rightarrow> int" where
  "cleanup_bytes en = py_int (of_int (pe_max_storage en) * pe_threshold en)"

definition over_quota :: "'s proxy_repo \<Rightarrow> proxy_env \<Rightarrow> 's proxy_world \<Rightarrow> bool" where
  "over_quota R en s \<longleftrightarrow> (case fst (prx_total_size R (px_store s)) of Inr used \<Rightarrow> cleanup_bytes en < used | Inl _ \<Rightarrow> False)"

definition oldest_proxy :: "'s proxy_repo \<Rightarrow> 's proxy_world \<Rightarrow> proxy_file option" where
  "oldest_proxy R s = (case fst (prx_oldest_accessed R (px_store s)) of Inr p \<Rightarrow> p | Inl _ \<Rightarrow> None)"

definition evict_proxy :: "'s proxy_repo \<Rightarrow> proxy_env \<Rightarrow> 's proxy_world \<Rightarrow> 's proxy_world" where
  "evict_proxy R en s = (case oldest_proxy R s of None \<Rightarrow> s
     | Some p \<Rightarrow> snd (on_proxies (prx_delete R (pf_id p)) (remove_file_if_exists (pe_locked en) (pf_path p) s)))"

text \<open>The loop with its \<open>break\<close>; \<open>None\<close> if it does not end.\<close>

definition check_quota_and_evict :: "'s proxy_repo \<Rightarrow> proxy_env \<Rightarrow> 's proxy_world \<Rightarrow> 's proxy_world option" where
  "check_quota_and_evict R en = while_option (\<lambda>s. over_quota R en s \<and> oldest_proxy R s \<noteq> None) (evict_proxy R en)"

subsection \<open>Generation\<close>

datatype run_end = Ran int string bool "nat option" | Run_Raised exn "nat option" | Run_Cancelled "nat option"

text \<open>
  FFmpeg ended, with its exit code, the end of its error output and whether the job was asked to stop; the
  executor raised; or the task was cancelled while it awaited the executor. Each with the file left behind.
\<close>

datatype gen_end = Gen_Ended "exn + proxy_file" | Gen_Cancelled

fun file_left :: "run_end \<Rightarrow> nat option" where
  "file_left (Ran rc err cancelled f) = f"
| "file_left (Run_Raised e f) = f"
| "file_left (Run_Cancelled f) = f"

record proxy_job =
  pg_video_id :: string
  pg_source_path :: string
  pg_width :: int
  pg_height :: int
  pg_job_id :: "string option"

definition job_quality :: "proxy_job \<Rightarrow> proxy_quality" where
  "job_quality g = fst (select_proxy_quality (pg_width g) (pg_height g))"

definition target_size :: "proxy_job \<Rightarrow> int \<times> int" where
  "target_size g = (case select_proxy_quality (pg_width g) (pg_height g) of (q, w, h) \<Rightarrow> (even_down w, even_down h))"

definition resolution_text :: "proxy_job \<Rightarrow> string" where
  "resolution_text g = (case target_size g of (w, h) \<Rightarrow> py_str_int w @ ''x'' @ py_str_int h)"

definition output_path :: "proxy_env \<Rightarrow> proxy_job \<Rightarrow> string" where
  "output_path en g = pe_dir en @ ''/'' @ pg_video_id g @ ''_'' @ xq_value (job_quality g) @ ''.mp4''"

definition new_proxy :: "proxy_env \<Rightarrow> string \<Rightarrow> time \<Rightarrow> string \<Rightarrow> proxy_job \<Rightarrow> proxy_file" where
  "new_proxy en new_id now checksum g = \<lparr>pf_id = new_id, pf_video_id = pg_video_id g, pf_quality = job_quality g,
     pf_path = output_path en g, pf_size = 0, pf_status = X_PENDING, pf_checksum = checksum, pf_generated_at = None,
     pf_accessed_at = now\<rparr>"

text \<open>Up to the start of FFmpeg. \<open>cksum\<close> is the checksum of the source, or why it cannot be read.\<close>

definition begin_generation ::
  "'s proxy_repo \<Rightarrow> proxy_env \<Rightarrow> (nat \<Rightarrow> time) \<Rightarrow> string \<Rightarrow> exn + string \<Rightarrow> proxy_job \<Rightarrow> 's proxy_world \<Rightarrow>
   ((exn + proxy_file) \<times> 's proxy_world) option" where
  "begin_generation R en clk new_id cksum g s = map_option
     (case cksum of Inl e \<Rightarrow> throw e
      | Inr checksum \<Rightarrow> (let p = new_proxy en new_id (clk 0) checksum g in
          seq_op (on_proxies (prx_add R p))
            (seq_op (on_proxies (prx_update_status R (clk 1) new_id X_GENERATING None)) (ret p))))
     (check_quota_and_evict R en s)"

definition fail_proxy :: "'s proxy_repo \<Rightarrow> proxy_env \<Rightarrow> time \<Rightarrow> proxy_file \<Rightarrow> ('s proxy_world, unit) op" where
  "fail_proxy R en now p = seq_op (modify_op (remove_file_if_exists (pe_locked en) (pf_path p)))
     (on_proxies (prx_update_status R now (pf_id p) X_FAILED None))"

definition leave_file :: "string \<Rightarrow> nat option \<Rightarrow> 's proxy_world \<Rightarrow> 's proxy_world" where
  "leave_file path f s = s\<lparr>px_files := (case f of None \<Rightarrow> AList.delete path (px_files s) | Some n \<Rightarrow> AList.update path n (px_files s))\<rparr>"

definition proxy_ready ::
  "'s proxy_repo \<Rightarrow> proxy_env \<Rightarrow> time \<Rightarrow> proxy_job \<Rightarrow> proxy_file \<Rightarrow> ('s proxy_world, proxy_file) op" where
  "proxy_ready R en now g p = bind_op (read_op (\<lambda>s. get_or 0 (map_of (px_files s) (pf_path p)))) (\<lambda>file_size.
     seq_op (on_proxies (prx_update_status R now (pf_id p) X_READY (Some (int file_size))))
    (seq_op (announce_proxy en PROXY_READY [(''video_id'', JStr (pg_video_id g)), (''quality'', JStr (xq_value (pf_quality p)))])
    (seq_op (send_progress en (pg_job_id g) 1 ''completed'' (pf_quality p) (resolution_text g))
    (bind_op (on_proxies (prx_get R (pf_id p))) (\<lambda>updated. ret (get_or p updated))))))"

text \<open>The \<open>except\<close> clauses, and the body of the \<open>try\<close> after FFmpeg ended.\<close>

definition generation_error :: "'s proxy_repo \<Rightarrow> proxy_env \<Rightarrow> time \<Rightarrow> proxy_file \<Rightarrow> exn \<Rightarrow> ('s proxy_world, proxy_file) op" where
  "generation_error R en now p e = (if e = RuntimeError then throw e else seq_op (fail_proxy R en now p) (throw e))"

definition after_run ::
  "'s proxy_repo \<Rightarrow> proxy_env \<Rightarrow> time \<Rightarrow> proxy_job \<Rightarrow> int \<Rightarrow> string \<Rightarrow> bool \<Rightarrow> proxy_file \<Rightarrow> ('s proxy_world, proxy_file) op" where
  "after_run R en now g rc err cancelled p =
     (if cancelled then seq_op (fail_proxy R en now p) (throw RuntimeError)
      else if rc \<noteq> 0 then
        seq_op (fail_proxy R en now p)
          (seq_op (announce_proxy en PROXY_FAILED
              [(''job_id'', case pg_job_id g of None \<Rightarrow> JNull | Some j \<Rightarrow> JStr j), (''error'', JStr err)])
            (throw RuntimeError))
      else proxy_ready R en now g p)"

definition gen_ended :: "(exn + proxy_file) \<times> 's proxy_world \<Rightarrow> gen_end \<times> 's proxy_world" where
  "gen_ended x = (Gen_Ended (fst x), snd x)"

definition finish_generation ::
  "'s proxy_repo \<Rightarrow> proxy_env \<Rightarrow> (nat \<Rightarrow> time) \<Rightarrow> proxy_job \<Rightarrow> ('s proxy_world \<Rightarrow> 's proxy_world) \<Rightarrow> run_end \<Rightarrow> proxy_file \<Rightarrow>
   's proxy_world \<Rightarrow> gen_end \<times> 's proxy_world" where
  "finish_generation R en clk g mid out p s = (let s1 = leave_file (pf_path p) (file_left out) (mid s) in
     case out of
       Run_Cancelled f \<Rightarrow> (Gen_Cancelled, s1)
     | Run_Raised e f \<Rightarrow> gen_ended (catch_op (throw e) (generation_error R en (clk 3) p) s1)
     | Ran rc err cancelled f \<Rightarrow>
         gen_ended (catch_op (after_run R en (clk 2) g rc err cancelled p) (generation_error R en (clk 3) p) s1))"

definition generate_proxy ::
  "'s proxy_repo \<Rightarrow> proxy_env \<Rightarrow> (nat \<Rightarrow> time) \<Rightarrow> string \<Rightarrow> exn + string \<Rightarrow> (string list \<Rightarrow> run_end) \<Rightarrow>
   ('s proxy_world \<Rightarrow> 's proxy_world) \<Rightarrow> proxy_job \<Rightarrow> 's proxy_world \<Rightarrow> (gen_end \<times> 's proxy_world) option" where
  "generate_proxy R en clk new_id cksum exec mid g s = map_option (\<lambda>(r, s'). case r of Inl e \<Rightarrow> (Gen_Ended (Inl e), s')
       | Inr p \<Rightarrow> finish_generation R en clk g mid
           (exec (build_ffmpeg_args (pg_source_path g) (pf_path p) (fst (target_size g)) (snd (target_size g)))) p s')
     (begin_generation R en clk new_id cksum g s)"

text \<open>The job handler: it reads the payload that \<open>proxy_payload\<close> made, and answers with the proxy.\<close>

definition handler_job :: "string option \<Rightarrow> message \<Rightarrow> exn + proxy_job" where
  "handler_job job_id payload =
     (case (map_of payload ''video_id'', map_of payload ''source_path'', map_of payload ''source_width'', map_of payload ''source_height'') of
        (Some (JStr v), Some (JStr path), Some (JInt w), Some (JInt h)) \<Rightarrow>
          Inr \<lparr>pg_video_id = v, pg_source_path = path, pg_width = w, pg_height = h, pg_job_id = job_id\<rparr>
      | _ \<Rightarrow> Inl KeyError)"

definition proxy_result :: "proxy_file \<Rightarrow> message" where
  "proxy_result p = [(''proxy_id'', JStr (pf_id p)), (''quality'', JStr (xq_value (pf_quality p))), (''file_path'', JStr (pf_path p))]"

definition check_stale :: "'s proxy_repo \<Rightarrow> time \<Rightarrow> exn + string \<Rightarrow> string \<Rightarrow> ('s proxy_world, bool) op" where
  "check_stale R now cksum k = bind_op (on_proxies (prx_get R k)) (\<lambda>p. case p of None \<Rightarrow> throw ValueError
     | Some p \<Rightarrow> (case cksum of Inl e \<Rightarrow> throw e
       | Inr current_checksum \<Rightarrow>
           if current_checksum \<noteq> pf_checksum p then seq_op (on_proxies (prx_update_status R now (pf_id p) X_STALE None)) (ret True)
           else ret False))"

subsection \<open>Requests\<close>

definition active_proxy :: "proxy_file \<Rightarrow> bool" where
  "active_proxy p \<longleftrightarrow> pf_status p \<notin> {X_FAILED, X_STALE}"

definition proxy_payload :: "video \<Rightarrow> exn + message" where
  "proxy_payload v = sum_bind (duration_seconds v) (\<lambda>d. Inr [(''video_id'', JStr (vd_id v)), (''source_path'', JStr (vd_path v)),
     (''source_width'', JInt (vd_width v)), (''source_height'', JInt (vd_height v)), (''duration_us'', JInt (py_int (d * 1000000)))])"

definition submit_proxy_job :: "video \<Rightarrow> ('s proxy_world, unit) op" where
  "submit_proxy_job v = (\<lambda>s. case proxy_payload v of Inl e \<Rightarrow> (Inl e, s)
     | Inr payload \<Rightarrow> (Inr (), s\<lparr>px_submitted := px_submitted s @ [payload]\<rparr>))"

definition request_proxy :: "'s proxy_repo \<Rightarrow> (string \<Rightarrow> video option) \<Rightarrow> string \<Rightarrow> ('s proxy_world, unit) op" where
  "request_proxy R lookup vid = (case lookup vid of None \<Rightarrow> throw (HTTPError 404 ''NOT_FOUND'')
     | Some v \<Rightarrow> bind_op (on_proxies (prx_list_by_video R vid)) (\<lambda>existing.
         if filter active_proxy existing \<noteq> [] then throw (HTTPError 409 ''PROXY_ALREADY_EXISTS'') else submit_proxy_job v))"

definition get_proxy_status :: "'s proxy_repo \<Rightarrow> string \<Rightarrow> ('s proxy_world, proxy_file) op" where
  "get_proxy_status R vid = bind_op (on_proxies (prx_list_by_video R vid)) (\<lambda>ps. case ps of
     [] \<Rightarrow> throw (HTTPError 404 ''NOT_FOUND'')
   | p # _ \<Rightarrow> ret (get_or p (List.find (\<lambda>p. pf_status p = X_READY) ps)))"

definition delete_proxy :: "'s proxy_repo \<Rightarrow> proxy_env \<Rightarrow> string \<Rightarrow> ('s proxy_world, int) op" where
  "delete_proxy R en vid = bind_op (on_proxies (prx_list_by_video R vid)) (\<lambda>ps.
     if ps = [] then throw (HTTPError 404 ''NOT_FOUND'')
     else seq_op (for_each ps (\<lambda>p. seq_op (modify_op (remove_file_if_exists (pe_locked en) (pf_path p)))
            (seq_op (on_proxies (prx_delete R (pf_id p))) (ret ()))))
          (ret (total_bytes ps)))"

fun batch_generate_proxies ::
  "'s proxy_repo \<Rightarrow> (string \<Rightarrow> video option) \<Rightarrow> string list \<Rightarrow> ('s proxy_world, string list \<times> string list) op" where
  "batch_generate_proxies R lookup [] = ret ([], [])"
| "batch_generate_proxies R lookup (vid # vids) = (case lookup vid of
     None \<Rightarrow> bind_op (batch_generate_proxies R lookup vids) (\<lambda>(queued, skipped). ret (queued, vid # skipped))
   | Some v \<Rightarrow> bind_op (on_proxies (prx_list_by_video R vid)) (\<lambda>existing.
       if filter active_proxy existing \<noteq> []
       then bind_op (batch_generate_proxies R lookup vids) (\<lambda>(queued, skipped). ret (queued, vid # skipped))
       else seq_op (submit_proxy_job v)
         (bind_op (batch_generate_proxies R lookup vids) (\<lambda>(queued, skipped). ret (vid # queued, skipped)))))"

end
