(* ===== verification/Proxy_Properties.thy ===== *)
theory Proxy_Properties
  imports Proxy_Service
begin

text \<open>
  What holds of proxies: the eviction that makes room ends and drops the proxies generated longest ago, as few
  as it can; how a generation ends; and the two ways in which a video is left without a proxy for good.
\<close>

subsection \<open>The quota\<close>

definition map_bytes :: "(string \<Rightarrow> proxy_file option) \<Rightarrow> int" where
  "map_bytes M = (\<Sum>k \<in> dom M. pf_size (the (M k)))"

definition ready :: "proxy_file \<Rightarrow> bool" where
  "ready p \<longleftrightarrow> pf_status p = X_READY"

text \<open>
  What is left of \<open>A\<close> when room has been made: \<open>B\<close>. Finished proxies went, none generated later than a finished
  one that stays, and with the last of them put back the limit is exceeded.
\<close>

definition evicted :: "int \<Rightarrow> (string \<Rightarrow> proxy_file option) \<Rightarrow> (string \<Rightarrow> proxy_file option) \<Rightarrow> bool" where
  "evicted limit A B \<longleftrightarrow> B \<subseteq>\<^sub>m A \<and>
     (\<forall>k p. A k = Some p \<longrightarrow> B k = None \<longrightarrow> ready p \<and> (\<forall>j q. B j = Some q \<longrightarrow> ready q \<longrightarrow> pf_accessed_at p \<le> pf_accessed_at q)) \<and>
     (B \<noteq> A \<longrightarrow> (\<exists>k p. A k = Some p \<and> B k = None \<and> limit < map_bytes B + pf_size p \<and>
       (\<forall>j q. A j = Some q \<longrightarrow> B j = None \<longrightarrow> pf_accessed_at q \<le> pf_accessed_at p)))"

lemma evicted_refl: "evicted limit A A"
  by (simp add: evicted_def)

lemma map_bytes_delete: "finite (dom B) \<Longrightarrow> B k = Some p \<Longrightarrow> map_bytes B = map_bytes (B(k := None)) + pf_size p"
  unfolding map_bytes_def by (subst sum.remove [of _ k]) (auto intro!: sum.cong)

lemma evicted_step:
  assumes "evicted limit A B" "finite (dom B)" "B k = Some p" "ready p"
    and "\<And>j q. B j = Some q \<Longrightarrow> ready q \<Longrightarrow> pf_accessed_at p \<le> pf_accessed_at q" and "limit < map_bytes B"
  shows "evicted limit A (B(k := None))"
proof -
  have A: "A k = Some p" using assms(1,3) by (auto simp: evicted_def map_le_def dom_def)
  have "B(k := None) \<subseteq>\<^sub>m A" using assms(1) by (auto simp: evicted_def map_le_def)
  moreover have "\<exists>k' p'. A k' = Some p' \<and> (B(k := None)) k' = None \<and> limit < map_bytes (B(k := None)) + pf_size p' \<and>
      (\<forall>j q. A j = Some q \<longrightarrow> (B(k := None)) j = None \<longrightarrow> pf_accessed_at q \<le> pf_accessed_at p')"
  proof (intro exI [of _ k] exI [of _ p] conjI allI impI)
    fix j q assume j: "A j = Some q" "(B(k := None)) j = None"
    show "pf_accessed_at q \<le> pf_accessed_at p"
      using j A assms(1,3,4) by (cases "j = k") (auto simp: evicted_def)
  qed (use A assms(6) map_bytes_delete [OF assms(2,3)] in auto)
  moreover have "ready p' \<and> (\<forall>j q. (B(k := None)) j = Some q \<longrightarrow> ready q \<longrightarrow> pf_accessed_at p' \<le> pf_accessed_at q)"
    if "A i = Some p'" "(B(k := None)) i = None" for i p'
  proof (cases "i = k")
    case True
    with that A assms(4,5) show ?thesis by auto
  next
    case False
    with that assms(1) show ?thesis by (auto simp: evicted_def)
  qed
  ultimately show ?thesis unfolding evicted_def by blast
qed

text \<open>How the end of FFmpeg is recorded, for a proxy \<open>q\<close> that is being generated.\<close>

definition recorded :: "proxy_env \<Rightarrow> (nat \<Rightarrow> time) \<Rightarrow> run_end \<Rightarrow> proxy_file \<Rightarrow> proxy_file" where
  "recorded en clk out q = (case out of
     Ran rc err cancelled f \<Rightarrow>
       if \<not> cancelled \<and> rc = 0 then with_proxy_status (clk 2) X_READY (Some (int (get_or 0 f))) q
       else with_proxy_status (clk 2) X_FAILED None q
   | Run_Raised e f \<Rightarrow> if e = RuntimeError then q else with_proxy_status (clk 3) X_FAILED None q
   | Run_Cancelled f \<Rightarrow> q)"

text \<open>The end of the task, and the file at the path of the proxy, which \<open>locked\<close> keeps from being removed.\<close>

definition settled_run :: "bool \<Rightarrow> run_end \<Rightarrow> proxy_file \<Rightarrow> gen_end \<times> nat option" where
  "settled_run locked out q = (case out of
     Ran rc err cancelled f \<Rightarrow>
       if \<not> cancelled \<and> rc = 0 then (Gen_Ended (Inr q), f) else (Gen_Ended (Inl RuntimeError), if locked then f else None)
   | Run_Raised e f \<Rightarrow> (Gen_Ended (Inl e), if locked \<or> e = RuntimeError then f else None)
   | Run_Cancelled f \<Rightarrow> (Gen_Cancelled, f))"

context proxy_store begin

abbreviation M :: "'s proxy_world \<Rightarrow> string \<Rightarrow> proxy_file option" where
  "M s \<equiv> m (px_store s)"

abbreviation okw :: "'s proxy_world \<Rightarrow> bool" where
  "okw s \<equiv> ok (px_store s)"

lemma over_quota_iff: "okw s \<Longrightarrow> over_quota R en s \<longleftrightarrow> cleanup_bytes en < map_bytes (M s)"
  by (simp add: over_quota_def total_law map_bytes_def)

lemma oldest_None: "okw s \<Longrightarrow> oldest_proxy R s = None \<longleftrightarrow> (\<forall>k p. M s k = Some p \<longrightarrow> \<not> ready p)"
proof -
  assume "okw s"
  then obtain r where r: "prx_oldest_accessed R (px_store s) = (Inr r, px_store s)"
    "case r of None \<Rightarrow> \<forall>k p. M s k = Some p \<longrightarrow> pf_status p \<noteq> X_READY
       | Some p \<Rightarrow> M s (pf_id p) = Some p \<and> pf_status p = X_READY \<and>
           (\<forall>k q. M s k = Some q \<longrightarrow> pf_status q = X_READY \<longrightarrow> pf_accessed_at p \<le> pf_accessed_at q)"
    using oldest_law by blast
  then show ?thesis by (cases r) (auto simp: oldest_proxy_def ready_def)
qed

lemma oldest_Some:
  "okw s \<Longrightarrow> oldest_proxy R s = Some p \<Longrightarrow> M s (pf_id p) = Some p \<and> ready p \<and>
     (\<forall>k q. M s k = Some q \<longrightarrow> ready q \<longrightarrow> pf_accessed_at p \<le> pf_accessed_at q)"
proof -
  assume "okw s" and oldest: "oldest_proxy R s = Some p"
  then obtain r where r: "prx_oldest_accessed R (px_store s) = (Inr r, px_store s)"
    "case r of None \<Rightarrow> \<forall>k p. M s k = Some p \<longrightarrow> pf_status p \<noteq> X_READY
       | Some p \<Rightarrow> M s (pf_id p) = Some p \<and> pf_status p = X_READY \<and>
           (\<forall>k q. M s k = Some q \<longrightarrow> pf_status q = X_READY \<longrightarrow> pf_accessed_at p \<le> pf_accessed_at q)"
    using oldest_law by blast
  with oldest show ?thesis by (cases r) (auto simp: oldest_proxy_def ready_def)
qed

lemma remove_file_store [simp]: "px_store (remove_file_if_exists locked path s) = px_store s"
  by (simp add: remove_file_if_exists_def)

lemma evict_proxy_run:
  assumes "okw s" "oldest_proxy R s = Some p"
  shows "okw (evict_proxy R en s) \<and> M (evict_proxy R en s) = (M s)(pf_id p := None)"
  using delete_law [OF assms(1), of "pf_id p"] assms(2) by (auto simp: evict_proxy_def on_proxies_def)

lemma quota_evicts:
  assumes "okw s"
  shows "\<exists>s'. check_quota_and_evict R en s = Some s' \<and> okw s' \<and> evicted (cleanup_bytes en) (M s) (M s') \<and>
    (map_bytes (M s') \<le> cleanup_bytes en \<or> (\<forall>k p. M s' k = Some p \<longrightarrow> \<not> ready p))"
proof -
  let ?b = "\<lambda>t. over_quota R en t \<and> oldest_proxy R t \<noteq> None"
  let ?P = "\<lambda>t. okw t \<and> evicted (cleanup_bytes en) (M s) (M t)"
  have step: "?P (evict_proxy R en t) \<and> card (dom (M (evict_proxy R en t))) < card (dom (M t))" if t: "?P t" "?b t" for t
  proof -
    from t(2) obtain p where p: "oldest_proxy R t = Some p" by blast
    have "M t (pf_id p) = Some p" using oldest_Some [OF _ p] t(1) by blast
    then have "card (dom (M t) - {pf_id p}) < card (dom (M t))" using finite_law t(1) by (intro card_Diff1_less) auto
    moreover have "evicted (cleanup_bytes en) (M s) ((M t)(pf_id p := None))"
      using t oldest_Some [OF _ p] finite_law by (intro evicted_step) (auto simp: over_quota_iff)
    ultimately show ?thesis using evict_proxy_run [OF _ p, of en] t(1) by auto
  qed
  have "\<exists>s'. while_option ?b (evict_proxy R en) s = Some s'"
    by (rule measure_while_option_Some [where P = ?P and f = "\<lambda>t. card (dom (M t))"])
      (use step assms evicted_refl in auto)
  then obtain s' where run: "check_quota_and_evict R en s = Some s'" by (auto simp: check_quota_and_evict_def)
  have "?P s'"
    by (rule while_option_rule [OF _ run [unfolded check_quota_and_evict_def], where P = ?P])
      (use step assms evicted_refl in blast)+
  moreover have "\<not> ?b s'" using while_option_stop [OF run [unfolded check_quota_and_evict_def]] .
  ultimately show ?thesis using run over_quota_iff [of s' en] oldest_None [of s'] by auto
qed


subsection \<open>Generation\<close>

lemma on_proxies_run: "f (px_store s) = (r, t) \<Longrightarrow> on_proxies f s = (r, s\<lparr>px_store := t\<rparr>)"
  by (simp add: on_proxies_def)

lemma begin_starts:
  assumes "okw s" "M s new_id = None" "pg_video_id g \<in> videos" "p = new_proxy en new_id (clk 0) c g"
    and "\<And>k q. M s k = Some q \<Longrightarrow> \<not> same_target p q"
  shows "\<exists>B s'. begin_generation R en clk new_id (Inr c) g s = Some (Inr p, s') \<and> evicted (cleanup_bytes en) (M s) B \<and> okw s' \<and>
    M s' = B(new_id \<mapsto> with_proxy_status (clk 1) X_GENERATING None p)"
proof -
  obtain t where t: "check_quota_and_evict R en s = Some t" "okw t" "evicted (cleanup_bytes en) (M s) (M t)"
    using quota_evicts [OF assms(1)] by blast
  have sub: "M s k = Some q" if "M t k = Some q" for k q using that t(3) by (auto simp: evicted_def map_le_def dom_def)
  have p: "pf_id p = new_id" "pf_video_id p \<in> videos" "pf_status p = X_PENDING" using assms(3,4) by (simp_all add: new_proxy_def)
  have "M t (pf_id p) = None" using assms(2) sub p(1) by (metis not_None_eq)
  then obtain u where u: "prx_add R p (px_store t) = (Inr p, u)" "ok u" "m u = (M t)(new_id \<mapsto> p)"
    using add_law [OF t(2) _ p(2)] assms(5) sub p(1) by metis
  then obtain v where "prx_update_status R (clk 1) new_id X_GENERATING None u = (Inr (), v)" "ok v"
      "m v = (m u)(new_id \<mapsto> with_proxy_status (clk 1) X_GENERATING None p)"
    using status_law [OF u(2), of new_id p X_GENERATING "clk 1" None] p(3) by auto
  then show ?thesis using t u assms(4) by (auto simp: begin_generation_def seq_op_run on_proxies_def Let_def)
qed

lemma begin_blocked:
  assumes "okw s" "M s k = Some q" "\<not> ready q" "pf_video_id q = pg_video_id g" "pf_quality q = job_quality g"
  shows "\<exists>s'. begin_generation R en clk new_id (Inr c) g s = Some (Inl ValueError, s') \<and> okw s' \<and> M s' k = Some q"
proof -
  obtain t where t: "check_quota_and_evict R en s = Some t" "okw t" "evicted (cleanup_bytes en) (M s) (M t)"
    using quota_evicts [OF assms(1)] by blast
  have q: "M t k = Some q" using t(3) assms(2,3) by (cases "M t k") (auto simp: evicted_def map_le_def dom_def)
  have "same_target (new_proxy en new_id (clk 0) c g) q" using assms(4,5) by (simp add: new_proxy_def same_target_def)
  from add_refused [OF t(2) q this] show ?thesis
    using t q by (auto simp: begin_generation_def seq_op_run on_proxies_def Let_def)
qed

lemma leave_file_store [simp]: "px_store (leave_file path f s) = px_store s"
  by (simp add: leave_file_def)

lemma announce_proxy_run: "\<exists>s'. announce_proxy en e msg s = (Inr (), s') \<and> px_store s' = px_store s \<and> px_files s' = px_files s"
  by (simp add: announce_proxy_def)

lemma send_progress_run: "\<exists>s'. send_progress en j r st q res s = (Inr (), s') \<and> px_store s' = px_store s \<and> px_files s' = px_files s"
  by (auto simp: send_progress_def announce_proxy_def seq_op_run split: option.splits)

lemma fail_proxy_run:
  assumes "okw s" "M s (pf_id p) = Some q" "pf_status q = X_GENERATING"
  shows "\<exists>s'. fail_proxy R en now p s = (Inr (), s') \<and> okw s' \<and> M s' = (M s)(pf_id p \<mapsto> with_proxy_status now X_FAILED None q) \<and>
    px_files s' = px_files (remove_file_if_exists (pe_locked en) (pf_path p) s)"
  using status_law [OF assms(1,2), of X_FAILED now None] assms(3)
  by (auto simp: fail_proxy_def seq_op_run on_proxies_def)

lemma proxy_ready_run:
  assumes "okw s" "M s (pf_id p) = Some q" "pf_status q = X_GENERATING"
  shows "\<exists>s'. proxy_ready R en now g p s = (Inr (with_proxy_status now X_READY (Some (int (get_or 0 (map_of (px_files s) (pf_path p))))) q), s') \<and>
    okw s' \<and> M s' = (M s)(pf_id p \<mapsto> with_proxy_status now X_READY (Some (int (get_or 0 (map_of (px_files s) (pf_path p))))) q) \<and>
    px_files s' = px_files s"
proof -
  let ?q = "with_proxy_status now X_READY (Some (int (get_or 0 (map_of (px_files s) (pf_path p))))) q"
  obtain u where u: "prx_update_status R now (pf_id p) X_READY (Some (int (get_or 0 (map_of (px_files s) (pf_path p))))) (px_store s) = (Inr (), u)"
      "ok u" "m u = (M s)(pf_id p \<mapsto> ?q)"
    using status_law [OF assms(1,2), of X_READY] assms(3) by fastforce
  let ?a = "announce_proxy en PROXY_READY [(''video_id'', JStr (pg_video_id g)), (''quality'', JStr (xq_value (pf_quality p)))]"
  let ?b = "send_progress en (pg_job_id g) 1 ''completed'' (pf_quality p) (resolution_text g)"
  obtain s2 where s2: "?a (s\<lparr>px_store := u\<rparr>) = (Inr (), s2)" "px_store s2 = u" "px_files s2 = px_files s"
    using announce_proxy_run [where s = "s\<lparr>px_store := u\<rparr>"] by fastforce
  obtain s3 where s3: "?b s2 = (Inr (), s3)" "px_store s3 = u" "px_files s3 = px_files s"
    using send_progress_run [where s = s2] s2(2,3) by metis
  show ?thesis
    using u s2 s3 get_law [OF u(2), of "pf_id p"]
    by (auto simp: proxy_ready_def seq_op_run bind_op_run on_proxies_def get_or_def)
qed

lemma finish_outcome:
  assumes "okw (mid s)" "M (mid s) (pf_id p) = Some q" "pf_status q = X_GENERATING"
  shows "\<exists>s'. finish_generation R en clk g mid out p s = (fst (settled_run (pe_locked en (pf_path p)) out (recorded en clk out q)), s') \<and>
    okw s' \<and> M s' = (M (mid s))(pf_id p \<mapsto> recorded en clk out q) \<and>
    map_of (px_files s') (pf_path p) = snd (settled_run (pe_locked en (pf_path p)) out (recorded en clk out q))"
proof -
  let ?s = "leave_file (pf_path p) (file_left out) (mid s)"
  have s: "okw ?s" "M ?s (pf_id p) = Some q" using assms by simp_all
  have files: "map_of (px_files ?s) (pf_path p) = file_left out"
    by (auto simp: leave_file_def delete_conv' update_conv' split: option.splits)
  have gone: "map_of (px_files (remove_file_if_exists (pe_locked en) (pf_path p) ?s)) (pf_path p) =
      (if pe_locked en (pf_path p) then file_left out else None)"
    using files by (simp add: remove_file_if_exists_def delete_conv')
  have fail: "\<exists>f. fail_proxy R en now p ?s = (Inr (), f) \<and> okw f \<and> M f = (M (mid s))(pf_id p \<mapsto> with_proxy_status now X_FAILED None q) \<and>
      map_of (px_files f) (pf_path p) = (if pe_locked en (pf_path p) then file_left out else None)" for now
    using fail_proxy_run [OF s assms(3), of en now] gone by auto
  show ?thesis
  proof (cases out)
    case (Run_Cancelled f)
    then show ?thesis using s files by (simp add: finish_generation_def recorded_def settled_run_def fun_upd_idem)
  next
    case (Run_Raised e f)
    then show ?thesis
      using fail [of "clk 3"] s files by (cases "e = RuntimeError")
        (auto simp: finish_generation_def seq_op_run catch_op_run recorded_def settled_run_def generation_error_def gen_ended_def fun_upd_idem)
  next
    case (Ran rc err cancelled f)
    obtain f2 where f2: "fail_proxy R en (clk 2) p ?s = (Inr (), f2)" "okw f2"
        "M f2 = (M (mid s))(pf_id p \<mapsto> with_proxy_status (clk 2) X_FAILED None q)"
        "map_of (px_files f2) (pf_path p) = (if pe_locked en (pf_path p) then file_left out else None)"
      using fail by blast
    let ?a = "announce_proxy en PROXY_FAILED [(''job_id'', case pg_job_id g of None \<Rightarrow> JNull | Some j \<Rightarrow> JStr j), (''error'', JStr err)]"
    obtain f4 where f4: "?a f2 = (Inr (), f4)" "px_store f4 = px_store f2" "px_files f4 = px_files f2"
      using announce_proxy_run [where s = f2] by metis
    show ?thesis
    proof (cases "\<not> cancelled \<and> rc = 0")
      case True
      then show ?thesis
        using proxy_ready_run [OF s assms(3), of en "clk 2" g] files Ran
        by (auto simp: finish_generation_def catch_op_run recorded_def settled_run_def after_run_def gen_ended_def)
    next
      case False
      then show ?thesis
        using f2 f4 Ran by (auto simp: finish_generation_def seq_op_run catch_op_run recorded_def settled_run_def after_run_def
            generation_error_def gen_ended_def)
    qed
  qed
qed

end

text \<open>The handler reads the payload of the request.\<close>

lemma payload_job: "proxy_payload v = Inr payload \<Longrightarrow> handler_job j payload =
    Inr \<lparr>pg_video_id = vd_id v, pg_source_path = vd_path v, pg_width = vd_width v, pg_height = vd_height v, pg_job_id = j\<rparr>"
  by (auto simp: proxy_payload_def handler_job_def sum_bind_def split: sum.splits)

subsection \<open>A concrete service\<close>

definition demo_proxies :: proxy_env where
  "demo_proxies = \<lparr>pe_dir = ''proxies'', pe_max_storage = 100, pe_threshold = 4 / 5, pe_locked = (\<lambda>_. False), pe_ws = True, pe_queue = True\<rparr>"

definition demo_proxy :: "string \<Rightarrow> string \<Rightarrow> proxy_status \<Rightarrow> int \<Rightarrow> proxy_file" where
  "demo_proxy k v st bytes = \<lparr>pf_id = k, pf_video_id = v, pf_quality = XQ_LOW, pf_path = k @ ''.mp4'', pf_size = bytes, pf_status = st,
     pf_checksum = ''c'', pf_generated_at = None, pf_accessed_at = bytes\<rparr>"

definition demo_px :: "proxy_file list \<Rightarrow> sql_proxies proxy_world" where
  "demo_px rows = \<lparr>px_store = rows, px_files = [], px_events = [], px_progress = [], px_submitted = []\<rparr>"

definition sample_job :: proxy_job where
  "sample_job = \<lparr>pg_video_id = ''v'', pg_source_path = ''a.mov'', pg_width = 1920, pg_height = 1080, pg_job_id = Some ''j''\<rparr>"

definition sample_video :: video where
  "sample_video = \<lparr>vd_id = ''v'', vd_path = ''a.mov'', vd_filename = ''a.mov'', vd_duration_frames = 50, vd_rate_numerator = 25,
     vd_rate_denominator = 1, vd_width = 640, vd_height = 360, vd_video_codec = ''h264'', vd_file_size = 1, vd_created_at = 0,
     vd_updated_at = 0, vd_audio_codec = None, vd_thumbnail_path = None, vd_subtitle_count = 0, vd_data_count = 0,
     vd_subtitle_streams = []\<rparr>"

lemmas sample_defs = demo_proxies_def demo_proxy_def demo_px_def sample_job_def sample_video_def

lemma demo_px_store [simp]: "px_store (demo_px rows) = rows"
  by (simp add: demo_px_def)

lemma demo_two_ok: "sqx_ok [demo_proxy ''a'' ''u'' X_READY 60, demo_proxy ''b'' ''w'' X_READY 70]"
  by (auto simp: sqx_ok_def targets_ok_def demo_proxy_def tbl_get_def same_target_def split: if_splits)

lemma demo_one_ok: "sqx_ok [demo_proxy ''a'' ''v'' st 0]"
  by (auto simp: sqx_ok_def targets_ok_def demo_proxy_def tbl_get_def split: if_splits)

subsection \<open>Properties\<close>

text \<open>
  C27. Making room for a proxy always ends. It removes only finished proxies, those generated longest ago
  first, until the rest fits the limit or no finished proxy is left. It removes no more than it has to: with the last
  one removed put back, the limit would be exceeded.
\<close>

theorem proxy_quota_exact:
  assumes "sqx_ok (px_store s)"
  shows "\<exists>s'. check_quota_and_evict (sqx_repo videos) en s = Some s' \<and> sqx_ok (px_store s') \<and>
    evicted (cleanup_bytes en) (\<lambda>k. tbl_get pf_id k (px_store s)) (\<lambda>k. tbl_get pf_id k (px_store s')) \<and>
    (total_bytes (px_store s') \<le> cleanup_bytes en \<or> list_all (\<lambda>p. \<not> ready p) (px_store s'))"
proof -
  obtain s' where s': "check_quota_and_evict (sqx_repo videos) en s = Some s'" "sqx_ok (px_store s')"
    "evicted (cleanup_bytes en) (\<lambda>k. tbl_get pf_id k (px_store s)) (\<lambda>k. tbl_get pf_id k (px_store s'))"
    "map_bytes (\<lambda>k. tbl_get pf_id k (px_store s')) \<le> cleanup_bytes en \<or>
       (\<forall>k p. tbl_get pf_id k (px_store s') = Some p \<longrightarrow> \<not> ready p)"
    using sqx.quota_evicts [OF assms] by blast
  have "map_bytes (\<lambda>k. tbl_get pf_id k (px_store s')) = total_bytes (px_store s')"
    using sqx.total_law [OF s'(2), where videos = videos] by (simp add: map_bytes_def sqx_repo_def sqx_total_size_def)
  then show ?thesis using s' by (auto simp: list_all_iff sqx_ok_def tbl_get_iff)
qed

theorem proxy_quota_exact_witness:
  "\<exists>s'. check_quota_and_evict (sqx_repo {}) demo_proxies (demo_px [demo_proxy ''a'' ''u'' X_READY 60, demo_proxy ''b'' ''w'' X_READY 70]) = Some s' \<and>
    (total_bytes (px_store s') \<le> 80 \<or> list_all (\<lambda>p. \<not> ready p) (px_store s'))"
  using proxy_quota_exact [of "demo_px [demo_proxy ''a'' ''u'' X_READY 60, demo_proxy ''b'' ''w'' X_READY 70]" "{}" demo_proxies] demo_two_ok
  by (auto simp: cleanup_bytes_def demo_proxies_def py_int_def)



text \<open>
  A failed or stale proxy keeps its place: a request for a new one is accepted and the job submitted, but
  the job ends with an error before FFmpeg is run, and the old proxy stays.
\<close>

theorem failed_proxy_blocks_regeneration:
  assumes "sqx_ok (px_store s)" "q \<in> set (px_store s)" "lookup (pf_video_id q) = Some v" "vd_id v = pf_video_id q"
    and "list_all (\<lambda>p. pf_video_id p = pf_video_id q \<longrightarrow> pf_status p \<in> {X_FAILED, X_STALE}) (px_store s)"
    and "proxy_payload v = Inr payload" and "fst (select_proxy_quality (vd_width v) (vd_height v)) = pf_quality q"
  shows "\<exists>g s1 s2. handler_job j payload = Inr g \<and> request_proxy (sqx_repo videos) lookup (pf_video_id q) s = (Inr (), s1) \<and>
    px_submitted s1 = px_submitted s @ [payload] \<and>
    generate_proxy (sqx_repo videos) en clk new_id (Inr c) exec mid g s1 = Some (Gen_Ended (Inl ValueError), s2) \<and> q \<in> set (px_store s2)"
proof -
  obtain g where g: "handler_job j payload = Inr g" "pg_video_id g = pf_video_id q" "job_quality g = pf_quality q"
    using payload_job [OF assms(6), of j] assms(4,7) by (auto simp: job_quality_def)
  let ?s = "s\<lparr>px_submitted := px_submitted s @ [payload]\<rparr>"
  obtain ps where ps: "prx_list_by_video (sqx_repo videos) (pf_video_id q) (px_store s) = (Inr ps, px_store s)"
    "\<forall>p. p \<in> set ps \<longleftrightarrow> tbl_get pf_id (pf_id p) (px_store s) = Some p \<and> pf_video_id p = pf_video_id q"
    using sqx.list_law [OF assms(1)] by blast
  have "filter active_proxy ps = []"
    using assms(5) ps(2) by (auto simp: filter_empty_conv active_proxy_def list_all_iff dest: tbl_get_Some)
  then have "request_proxy (sqx_repo videos) lookup (pf_video_id q) s = (Inr (), ?s)"
    using ps(1) assms(3,6) by (simp add: request_proxy_def bind_op_run on_proxies_def submit_proxy_job_def)
  moreover have "tbl_get pf_id (pf_id q) (px_store ?s) = Some q" "\<not> ready q" "pf_video_id q = pg_video_id g"
    using assms(1,2,5) g(2) by (auto simp: sqx_ok_def tbl_get_iff ready_def list_all_iff)
  moreover obtain s2 where "begin_generation (sqx_repo videos) en clk new_id (Inr c) g ?s = Some (Inl ValueError, s2)"
      "sqx_ok (px_store s2)" "tbl_get pf_id (pf_id q) (px_store s2) = Some q"
    using sqx.begin_blocked [where s = ?s and k = "pf_id q" and q = q and g = g and videos = videos and en = en and clk = clk and new_id = new_id and c = c]
      calculation assms(1) g(3) by auto
  ultimately show ?thesis
    using g(1) by (intro exI [of _ g] exI [of _ ?s] exI [of _ s2]) (auto simp: generate_proxy_def dest: tbl_get_Some)
qed

theorem failed_proxy_blocks_regeneration_witness:
  "\<exists>g s1 s2. handler_job (Some ''j'') (case proxy_payload sample_video of Inr payload \<Rightarrow> payload | Inl _ \<Rightarrow> []) = Inr g \<and>
    request_proxy (sqx_repo {''v''}) [''v'' \<mapsto> sample_video] ''v'' (demo_px [demo_proxy ''a'' ''v'' X_FAILED 0]) = (Inr (), s1) \<and>
    generate_proxy (sqx_repo {''v''}) demo_proxies int ''p'' (Inr ''c'') (\<lambda>_. Ran 0 [] False None) id g s1 = Some (Gen_Ended (Inl ValueError), s2) \<and>
    demo_proxy ''a'' ''v'' X_FAILED 0 \<in> set (px_store s2)"
proof -
  obtain payload where payload: "proxy_payload sample_video = Inr payload"
    by (simp add: proxy_payload_def duration_seconds_def frame_rate_def sample_video_def sum_bind_def py_div_def)
  let ?q = "demo_proxy ''a'' ''v'' X_FAILED 0"
  have q: "sqx_ok (px_store (demo_px [?q]))" "?q \<in> set (px_store (demo_px [?q]))" "[''v'' \<mapsto> sample_video] (pf_video_id ?q) = Some sample_video"
    "vd_id sample_video = pf_video_id ?q" "pf_video_id ?q = ''v''"
    "list_all (\<lambda>p. pf_video_id p = pf_video_id ?q \<longrightarrow> pf_status p \<in> {X_FAILED, X_STALE}) (px_store (demo_px [?q]))"
    "fst (select_proxy_quality (vd_width sample_video) (vd_height sample_video)) = pf_quality ?q"
    using demo_one_ok by (simp_all add: demo_proxy_def sample_video_def select_proxy_quality_def quality_map_def)
  show ?thesis
    using failed_proxy_blocks_regeneration [where lookup = "[''v'' \<mapsto> sample_video]", OF q(1-4) q(6) payload q(7),
        where j = "Some ''j''" and videos = "{''v''}" and en = demo_proxies and clk = int and new_id = "''p''" and c = "''c''"
        and exec = "\<lambda>_. Ran 0 [] False None" and mid = id]
    unfolding q(5) payload by force
qed

text \<open>
  A generation that has begun blocks new requests for its video: if the job is cut off there, for good.
\<close>

theorem interrupted_generation_blocks:
  assumes "sqx_ok (px_store s)" "tbl_get pf_id new_id (px_store s) = None" "pg_video_id g \<in> videos"
    and "list_all (\<lambda>p. pf_video_id p \<noteq> pg_video_id g) (px_store s)" "lookup (pg_video_id g) = Some v"
  shows "\<exists>p s'. begin_generation (sqx_repo videos) en clk new_id (Inr c) g s = Some (Inr p, s') \<and>
    request_proxy (sqx_repo videos) lookup (pg_video_id g) s' = (Inl (HTTPError 409 ''PROXY_ALREADY_EXISTS''), s')"
proof -
  define p where "p = new_proxy en new_id (clk 0) c g"
  have new: "\<not> same_target p q" if "tbl_get pf_id k (px_store s) = Some q" for k q
    using that assms(4) tbl_get_Some [OF that] by (auto simp: p_def new_proxy_def same_target_def list_all_iff)
  have "\<exists>B s1. begin_generation (sqx_repo videos) en clk new_id (Inr c) g s = Some (Inr p, s1) \<and>
      evicted (cleanup_bytes en) (\<lambda>k. tbl_get pf_id k (px_store s)) B \<and> sqx_ok (px_store s1) \<and>
      (\<lambda>k. tbl_get pf_id k (px_store s1)) = B(new_id \<mapsto> with_proxy_status (clk 1) X_GENERATING None p)"
    by (rule sqx.begin_starts) (fact assms(1) assms(2) assms(3) p_def new)+
  then obtain B s1 where s1: "begin_generation (sqx_repo videos) en clk new_id (Inr c) g s = Some (Inr p, s1)" "sqx_ok (px_store s1)"
      "(\<lambda>k. tbl_get pf_id k (px_store s1)) = B(new_id \<mapsto> with_proxy_status (clk 1) X_GENERATING None p)" by blast
  let ?q = "with_proxy_status (clk 1) X_GENERATING None p"
  obtain ps where ps: "prx_list_by_video (sqx_repo videos) (pg_video_id g) (px_store s1) = (Inr ps, px_store s1)"
    "\<forall>p. p \<in> set ps \<longleftrightarrow> tbl_get pf_id (pf_id p) (px_store s1) = Some p \<and> pf_video_id p = pg_video_id g"
    using sqx.list_law [OF s1(2)] by blast
  have "?q \<in> set ps" unfolding ps(2) [rule_format] using fun_cong [OF s1(3), of new_id] by (simp add: p_def new_proxy_def)
  moreover have "active_proxy ?q" by (simp add: active_proxy_def)
  ultimately have "filter active_proxy ps \<noteq> []" by (metis filter_empty_conv)
  with s1 ps(1) assms(5) show ?thesis
    by (intro exI [of _ p] exI [of _ s1]) (simp add: request_proxy_def bind_op_run on_proxies_def)
qed

end
