(* ===== verification/Encoder_Cache.thy ===== *)
theory Encoder_Cache
  imports Tables
begin

text \<open>
  The list of encoders FFmpeg offers: both repositories of \<open>src/stoat_ferret/render/encoder_cache.py\<close> and the
  requests of \<open>api/routers/render.py\<close> that fill it. What the detection yields is an argument, a list of
  encoders without ids. The requests are cut at their awaits, as a step relation \<open>en_step\<close>: several run at
  once, and a lock keeps two detections apart.
\<close>

subsection \<open>Entries and repositories\<close>

record encoder_entry =
  ec_id :: "nat option"
  ec_name :: string
  ec_codec :: string
  ec_is_hardware :: bool
  ec_type :: string
  ec_description :: string
  ec_detected_at :: time

record 's encoder_repo =
  ecr_get_all :: "('s, encoder_entry list) op"
  ecr_create_many :: "encoder_entry list \<Rightarrow> ('s, encoder_entry list) op"
  ecr_clear :: "('s, unit) op"

text \<open>The table has unique names, and its ids are never used again.\<close>

record sql_encoders =
  se_rows :: "encoder_entry list"
  se_sequence :: nat

definition sqe_get_all :: "(sql_encoders, encoder_entry list) op" where
  "sqe_get_all = read_op (\<lambda>s. sort_key ec_name (se_rows s))"

definition sqe_insert :: "encoder_entry \<Rightarrow> (sql_encoders, encoder_entry) op" where
  "sqe_insert e = (\<lambda>s. if ec_name e \<in> ec_name ` set (se_rows s) then (Inl IntegrityError, s)
     else let r = e\<lparr>ec_id := Some (se_sequence s + 1)\<rparr>
          in (Inr r, s\<lparr>se_rows := se_rows s @ [r], se_sequence := se_sequence s + 1\<rparr>))"

fun sqe_create_many :: "encoder_entry list \<Rightarrow> (sql_encoders, encoder_entry list) op" where
  "sqe_create_many [] = ret []"
| "sqe_create_many (e # es) = bind_op (sqe_insert e) (\<lambda>r. bind_op (sqe_create_many es) (\<lambda>rs. ret (r # rs)))"

definition sqe_clear :: "(sql_encoders, unit) op" where
  "sqe_clear = modify_op (\<lambda>s. s\<lparr>se_rows := []\<rparr>)"

definition sqe_repo :: "sql_encoders encoder_repo" where
  "sqe_repo = \<lparr>ecr_get_all = sqe_get_all, ecr_create_many = sqe_create_many, ecr_clear = sqe_clear\<rparr>"

record mem_encoders =
  me_entries :: "encoder_entry list"
  me_next_id :: nat

definition mme_get_all :: "(mem_encoders, encoder_entry list) op" where
  "mme_get_all = read_op (\<lambda>s. sort_key ec_name (me_entries s))"

fun mme_create_many :: "encoder_entry list \<Rightarrow> (mem_encoders, encoder_entry list) op" where
  "mme_create_many [] = ret []"
| "mme_create_many (e # es) = bind_op (\<lambda>s. let stored = e\<lparr>ec_id := Some (me_next_id s)\<rparr>
       in (Inr stored, s\<lparr>me_entries := me_entries s @ [stored], me_next_id := me_next_id s + 1\<rparr>))
     (\<lambda>r. bind_op (mme_create_many es) (\<lambda>rs. ret (r # rs)))"

definition mme_clear :: "(mem_encoders, unit) op" where
  "mme_clear = modify_op (\<lambda>s. s\<lparr>me_entries := []\<rparr>)"

definition mme_repo :: "mem_encoders encoder_repo" where
  "mme_repo = \<lparr>ecr_get_all = mme_get_all, ecr_create_many = mme_create_many, ecr_clear = mme_clear\<rparr>"

subsection \<open>The contract\<close>

text \<open>An entry without its id, and the contract: a cleared cache filled with encoders of different names lists
  exactly them, by name.\<close>

definition bare :: "encoder_entry \<Rightarrow> encoder_entry" where
  "bare e = e\<lparr>ec_id := None\<rparr>"

locale encoder_store =
  fixes R :: "'s encoder_repo" and listed :: "'s \<Rightarrow> encoder_entry list" and ok :: "'s \<Rightarrow> bool"
  assumes distinct_ids: "ok s \<Longrightarrow> distinct (map ec_id (listed s))"
    and get_all_law: "ok s \<Longrightarrow> ecr_get_all R s = (Inr (sort_key ec_name (listed s)), s)"
    and clear_law: "ok s \<Longrightarrow> \<exists>s'. ecr_clear R s = (Inr (), s') \<and> ok s' \<and> listed s' = []"
    and create_law: "ok s \<Longrightarrow> distinct (map ec_name (listed s @ es)) \<Longrightarrow>
      \<exists>rs s'. ecr_create_many R es s = (Inr rs, s') \<and> ok s' \<and> listed s' = listed s @ rs \<and> map bare rs = map bare es"

definition ids_below :: "nat \<Rightarrow> encoder_entry list \<Rightarrow> bool" where
  "ids_below n es \<longleftrightarrow> distinct (map ec_id es) \<and> list_all (\<lambda>e. \<exists>i \<le> n. ec_id e = Some i) es"

lemma ids_below_snoc: "ids_below n es \<Longrightarrow> ids_below (Suc n) (es @ [e\<lparr>ec_id := Some (Suc n)\<rparr>])"
  by (fastforce simp: ids_below_def list_all_iff)

lemma bare_id [simp]: "bare (e\<lparr>ec_id := i\<rparr>) = bare e"
  by (simp add: bare_def)

lemma sqe_create_run:
  assumes "ids_below (se_sequence s) (se_rows s)" "distinct (map ec_name (se_rows s @ es))"
  shows "\<exists>rs s'. sqe_create_many es s = (Inr rs, s') \<and> ids_below (se_sequence s') (se_rows s') \<and>
    se_rows s' = se_rows s @ rs \<and> map bare rs = map bare es"
  using assms
proof (induction es arbitrary: s)
  case Nil
  then show ?case by simp
next
  case (Cons e es)
  let ?r = "e\<lparr>ec_id := Some (Suc (se_sequence s))\<rparr>"
  let ?s = "s\<lparr>se_rows := se_rows s @ [?r], se_sequence := Suc (se_sequence s)\<rparr>"
  have "sqe_insert e s = (Inr ?r, ?s)" using Cons.prems(2) by (auto simp: sqe_insert_def Let_def)
  moreover obtain rs s' where "sqe_create_many es ?s = (Inr rs, s')" "ids_below (se_sequence s') (se_rows s')"
      "se_rows s' = se_rows ?s @ rs" "map bare rs = map bare es"
    using Cons.IH [of ?s] Cons.prems ids_below_snoc by auto
  ultimately show ?case by (auto simp: bind_op_run)
qed

interpretation sqe: encoder_store sqe_repo se_rows "\<lambda>s. ids_below (se_sequence s) (se_rows s)"
proof (unfold_locales, goal_cases)
  case (4 s es) then show ?case using sqe_create_run [of s es] by (auto simp: sqe_repo_def)
qed (auto simp: sqe_repo_def sqe_get_all_def sqe_clear_def ids_below_def)

lemma mme_create_run:
  assumes "ids_below (me_next_id s - 1) (me_entries s)" "0 < me_next_id s"
  shows "\<exists>rs s'. mme_create_many es s = (Inr rs, s') \<and> ids_below (me_next_id s' - 1) (me_entries s') \<and> 0 < me_next_id s' \<and>
    me_entries s' = me_entries s @ rs \<and> map bare rs = map bare es"
  using assms
proof (induction es arbitrary: s)
  case Nil
  then show ?case by simp
next
  case (Cons e es)
  let ?r = "e\<lparr>ec_id := Some (me_next_id s)\<rparr>"
  let ?s = "s\<lparr>me_entries := me_entries s @ [?r], me_next_id := me_next_id s + 1\<rparr>"
  have "ids_below (me_next_id ?s - 1) (me_entries ?s)"
    using ids_below_snoc [OF Cons.prems(1), of e] Cons.prems(2) by simp
  from Cons.IH [OF this] show ?case by (auto simp: bind_op_run Let_def)
qed

interpretation mme: encoder_store mme_repo me_entries "\<lambda>s. ids_below (me_next_id s - 1) (me_entries s) \<and> 0 < me_next_id s"
proof (unfold_locales, goal_cases)
  case (4 s es) then show ?case using mme_create_run [of s es] by (auto simp: mme_repo_def)
qed (auto simp: mme_repo_def mme_get_all_def mme_clear_def ids_below_def)

subsection \<open>Requests\<close>

text \<open>
  \<open>GET /render/encoders\<close> and \<open>POST /render/encoders/refresh\<close>. A step ends at an await, or at the end of the
  request; only the detection runs elsewhere, and \<open>d\<close> is how it ends.
\<close>

datatype encoder_request = EN_Get | EN_Refresh

datatype detect_end = FFmpeg_Missing | Detect_Error | Detected "encoder_entry list"

datatype encoder_reply = EN_List "encoder_entry list" bool | EN_Error exn

datatype encoder_task =
    EN_Start encoder_request
  | EN_Read "encoder_entry list"
  | EN_Locked
  | EN_Again "encoder_entry list"
  | EN_Detect
  | EN_Clear "encoder_entry list"
  | EN_Insert "encoder_entry list" "encoder_entry list"
  | EN_Done encoder_reply

definition cached_rows :: "sql_encoders \<Rightarrow> encoder_entry list" where
  "cached_rows db = sort_key ec_name (se_rows db)"

fun en_act :: "detect_end \<Rightarrow> encoder_task \<Rightarrow> bool \<Rightarrow> sql_encoders \<Rightarrow> encoder_task \<times> bool \<times> sql_encoders" where
  "en_act d (EN_Start EN_Get) locked db = (EN_Read (cached_rows db), locked, db)"
| "en_act d (EN_Start EN_Refresh) locked db =
     (if locked then (EN_Done (EN_Error (HTTPError 409 ''REFRESH_IN_PROGRESS'')), locked, db) else (EN_Detect, True, db))"
| "en_act d (EN_Read rows) locked db =
     (if rows \<noteq> [] then (EN_Done (EN_List rows True), locked, db)
      else if locked then (EN_Done (EN_List [] False), locked, db) else (EN_Locked, True, db))"
| "en_act d EN_Locked locked db = (EN_Again (cached_rows db), locked, db)"
| "en_act d (EN_Again rows) locked db =
     (if rows \<noteq> [] then (EN_Done (EN_List rows True), False, db) else (EN_Detect, locked, db))"
| "en_act FFmpeg_Missing EN_Detect locked db = (EN_Done (EN_Error (HTTPError 503 ''FFMPEG_UNAVAILABLE'')), False, db)"
| "en_act Detect_Error EN_Detect locked db = (EN_Done (EN_Error (HTTPError 503 ''DETECTION_FAILED'')), False, db)"
| "en_act (Detected es) EN_Detect locked db = (EN_Clear es, locked, db)"
| "en_act d (EN_Clear es) locked db = (EN_Insert es [], locked, snd (sqe_clear db))"
| "en_act d (EN_Insert [] rs) locked db = (EN_Done (EN_List rs False), False, db)"
| "en_act d (EN_Insert (e # es) rs) locked db = (case sqe_insert e db of
       (Inl x, db') \<Rightarrow> (EN_Done (EN_Error x), False, db')
     | (Inr r, db') \<Rightarrow> (EN_Insert es (rs @ [r]), locked, db'))"
| "en_act d (EN_Done r) locked db = (EN_Done r, locked, db)"

record encoder_sys =
  es_tasks :: "nat \<Rightarrow> encoder_task"
  es_locked :: bool
  es_db :: sql_encoders

inductive en_step :: "detect_end set \<Rightarrow> encoder_sys \<Rightarrow> encoder_sys \<Rightarrow> bool" for D where
  "d \<in> D \<Longrightarrow> en_act d (es_tasks s i) (es_locked s) (es_db s) = (t, locked, db) \<Longrightarrow>
   en_step D s \<lparr>es_tasks = (es_tasks s)(i := t), es_locked = locked, es_db = db\<rparr>"

inductive_cases en_stepE: "en_step D s s'"

definition en_init :: "(nat \<Rightarrow> encoder_request) \<Rightarrow> encoder_sys" where
  "en_init kind = \<lparr>es_tasks = (\<lambda>i. EN_Start (kind i)), es_locked = False, es_db = \<lparr>se_rows = [], se_sequence = 0\<rparr>\<rparr>"

subsection \<open>One detection at a time\<close>

fun holds_lock :: "encoder_task \<Rightarrow> bool" where
  "holds_lock (EN_Start r) = False"
| "holds_lock (EN_Read rows) = False"
| "holds_lock (EN_Done r) = False"
| "holds_lock _ = True"

text \<open>A list a detection of \<open>D\<close> gave, up to the ids.\<close>

definition whole :: "detect_end set \<Rightarrow> encoder_entry list \<Rightarrow> bool" where
  "whole D rows \<longleftrightarrow> (\<exists>es. Detected es \<in> D \<and> map bare rows = map bare es)"

fun task_fits :: "detect_end set \<Rightarrow> sql_encoders \<Rightarrow> encoder_task \<Rightarrow> bool" where
  "task_fits D db (EN_Clear es) \<longleftrightarrow> Detected es \<in> D"
| "task_fits D db (EN_Insert es rs) \<longleftrightarrow> se_rows db = rs \<and> whole D (rs @ es)"
| "task_fits D db (EN_Done (EN_List rows False)) \<longleftrightarrow> rows = [] \<or> whole D rows"
| "task_fits D db (EN_Done (EN_Error e)) \<longleftrightarrow>
     e \<in> {HTTPError 409 ''REFRESH_IN_PROGRESS'', HTTPError 503 ''FFMPEG_UNAVAILABLE'', HTTPError 503 ''DETECTION_FAILED''}"
| "task_fits D db _ \<longleftrightarrow> True"

fun filling :: "encoder_task \<Rightarrow> bool" where
  "filling (EN_Insert es rs) = True"
| "filling _ = False"

definition en_ok :: "detect_end set \<Rightarrow> encoder_sys \<Rightarrow> bool" where
  "en_ok D s \<longleftrightarrow> (\<forall>i j. holds_lock (es_tasks s i) \<longrightarrow> holds_lock (es_tasks s j) \<longrightarrow> i = j) \<and>
     (es_locked s \<longleftrightarrow> (\<exists>i. holds_lock (es_tasks s i))) \<and>
     (\<forall>i. task_fits D (es_db s) (es_tasks s i)) \<and>
     ((\<exists>i. filling (es_tasks s i)) \<or> se_rows (es_db s) = [] \<or> whole D (se_rows (es_db s)))"

definition detections_ok :: "detect_end set \<Rightarrow> bool" where
  "detections_ok D \<longleftrightarrow> (\<forall>es. Detected es \<in> D \<longrightarrow> distinct (map ec_name es))"

lemma act_lock:
  assumes "en_act d t0 l db = (t, l', db')" "holds_lock t0 \<Longrightarrow> l"
  shows "holds_lock t = holds_lock t0 \<and> l' = l \<or> \<not> holds_lock t0 \<and> holds_lock t \<and> \<not> l \<and> l' \<or> holds_lock t0 \<and> \<not> holds_lock t \<and> \<not> l'"
  using assms by (induction d t0 l db rule: en_act.induct) (auto split: if_splits prod.splits sum.splits)

lemma act_db: "en_act d t0 l db = (t, l', db') \<Longrightarrow> \<not> holds_lock t0 \<Longrightarrow> db' = db"
  by (induction d t0 l db rule: en_act.induct) (auto split: if_splits)

lemma fits_db: "\<not> holds_lock t \<Longrightarrow> task_fits D db t = task_fits D db' t"
  by (induction D db t rule: task_fits.induct) auto

lemma whole_names: "whole D rows \<Longrightarrow> detections_ok D \<Longrightarrow> distinct (map ec_name rows)"
proof -
  have names: "map ec_name es = map ec_name (map bare es)" for es by (induction es) (auto simp: bare_def)
  show "whole D rows \<Longrightarrow> detections_ok D \<Longrightarrow> distinct (map ec_name rows)"
    unfolding whole_def detections_ok_def by (metis names)
qed

lemma insert_fits:
  assumes "se_rows db = rs" "whole D (rs @ e # es)" "detections_ok D"
  shows "\<exists>r db'. sqe_insert e db = (Inr r, db') \<and> se_rows db' = rs @ [r] \<and> whole D (rs @ r # es)"
proof -
  have "ec_name e \<notin> ec_name ` set rs" using whole_names [OF assms(2,3)] by auto
  moreover have "whole D (rs @ e\<lparr>ec_id := i\<rparr> # es)" for i using assms(2) by (simp add: whole_def)
  ultimately show ?thesis using assms(1) by (simp add: sqe_insert_def Let_def)
qed

lemma act_fits:
  assumes "en_act d t0 l db = (t, l', db')" "task_fits D db t0" "d \<in> D" "detections_ok D"
  shows "task_fits D db' t"
  using assms
proof (induction d t0 l db rule: en_act.induct)
  case (11 d e es rs l db)
  then show ?case using insert_fits [of db rs D e es] by auto
qed (auto simp: sqe_clear_def modify_op_def whole_def split: if_splits)

lemma act_rows:
  assumes "en_act d t0 l db = (t, l', db')" "task_fits D db t0" "detections_ok D"
    and "\<not> filling t0 \<Longrightarrow> se_rows db = [] \<or> whole D (se_rows db)"
  shows "filling t \<or> se_rows db' = [] \<or> whole D (se_rows db')"
  using assms
proof (induction d t0 l db rule: en_act.induct)
  case (11 d e es rs l db)
  then show ?case using insert_fits [of db rs D e es] by auto
qed (auto split: if_splits)

lemma lock_update:
  assumes "\<forall>j k. h j \<longrightarrow> h k \<longrightarrow> j = k" "l \<longleftrightarrow> (\<exists>j. h j)"
    and "b = h i \<and> l' = l \<or> \<not> h i \<and> b \<and> \<not> l \<and> l' \<or> h i \<and> \<not> b \<and> \<not> l'"
  shows "(\<forall>j k. (h(i := b)) j \<longrightarrow> (h(i := b)) k \<longrightarrow> j = k) \<and> (l' \<longleftrightarrow> (\<exists>j. (h(i := b)) j))"
  using assms(3)
proof (elim disjE)
  assume "b = h i \<and> l' = l"
  then show ?thesis using assms(1,2) by (simp add: fun_upd_idem)
next
  assume "\<not> h i \<and> b \<and> \<not> l \<and> l'"
  then show ?thesis using assms(2) by auto
next
  assume "h i \<and> \<not> b \<and> \<not> l'"
  then show ?thesis using assms(1) by auto
qed

lemma en_ok_init: "en_ok D (en_init kind)"
  by (simp add: en_ok_def en_init_def)

lemma en_ok_step:
  assumes "en_step D s s'" "en_ok D s" "detections_ok D"
  shows "en_ok D s'"
proof -
  obtain d i t l db where step: "d \<in> D" "en_act d (es_tasks s i) (es_locked s) (es_db s) = (t, l, db)"
    "s' = \<lparr>es_tasks = (es_tasks s)(i := t), es_locked = l, es_db = db\<rparr>"
    using assms(1) by (auto elim: en_stepE)
  define h where "h = (\<lambda>j. holds_lock (es_tasks s j))"
  have ok: "\<forall>j k. h j \<longrightarrow> h k \<longrightarrow> j = k" "es_locked s \<longleftrightarrow> (\<exists>j. h j)" "\<forall>j. task_fits D (es_db s) (es_tasks s j)"
    "(\<exists>j. filling (es_tasks s j)) \<or> se_rows (es_db s) = [] \<or> whole D (se_rows (es_db s))"
    using assms(2) unfolding en_ok_def h_def by simp_all
  have others: "task_fits D db (es_tasks s j)" if "j \<noteq> i" for j
  proof (cases "holds_lock (es_tasks s i)")
    case True
    then have "\<not> holds_lock (es_tasks s j)" using ok(1) that by (auto simp: h_def)
    then show ?thesis using ok(3) fits_db by blast
  next
    case False
    then show ?thesis using ok(3) act_db [OF step(2)] by simp
  qed
  have fits: "task_fits D db t" using act_fits [OF step(2) _ step(1) assms(3)] ok(3) by blast
  have rows: "(\<exists>j. filling (((es_tasks s)(i := t)) j)) \<or> se_rows db = [] \<or> whole D (se_rows db)"
  proof (cases "\<exists>j. j \<noteq> i \<and> filling (es_tasks s j)")
    case True
    then show ?thesis by auto
  next
    case False
    then have "filling (es_tasks s i) \<or> se_rows (es_db s) = [] \<or> whole D (se_rows (es_db s))" using ok(4) by metis
    then have "filling t \<or> se_rows db = [] \<or> whole D (se_rows db)"
      using act_rows [OF step(2) _ assms(3)] ok(3) by blast
    then show ?thesis by (metis fun_upd_same)
  qed
  have eq: "(h(i := holds_lock t)) j = holds_lock (((es_tasks s)(i := t)) j)" for j by (simp add: h_def)
  have "holds_lock (es_tasks s i) \<Longrightarrow> es_locked s" using ok(2) by (auto simp: h_def)
  from act_lock [OF step(2) this]
  have "holds_lock t = h i \<and> l = es_locked s \<or> \<not> h i \<and> holds_lock t \<and> \<not> es_locked s \<and> l \<or> h i \<and> \<not> holds_lock t \<and> \<not> l"
    unfolding h_def .
  from lock_update [OF ok(1,2) this]
  have lock: "(\<forall>j k. holds_lock (((es_tasks s)(i := t)) j) \<longrightarrow> holds_lock (((es_tasks s)(i := t)) k) \<longrightarrow> j = k) \<and>
      (l \<longleftrightarrow> (\<exists>j. holds_lock (((es_tasks s)(i := t)) j)))" unfolding eq .
  have "\<forall>j. task_fits D db (((es_tasks s)(i := t)) j)" using fits others by simp
  with rows lock show ?thesis unfolding en_ok_def step(3) encoder_sys.simps by (intro conjI) (elim conjE; assumption)+
qed

lemma en_ok_reachable: "(en_step D)\<^sup>*\<^sup>* (en_init kind) s \<Longrightarrow> detections_ok D \<Longrightarrow> en_ok D s"
  by (induction rule: rtranclp_induct) (auto intro: en_ok_init en_ok_step)

lemma filling_holds: "filling t \<Longrightarrow> holds_lock t"
  by (cases t) auto

text \<open>A run by its schedule: which task moves, and how a detection ends.\<close>

definition en_move :: "nat \<times> detect_end \<Rightarrow> encoder_sys \<Rightarrow> encoder_sys" where
  "en_move m s = (case m of (i, d) \<Rightarrow> (case en_act d (es_tasks s i) (es_locked s) (es_db s) of
     (t, locked, db) \<Rightarrow> \<lparr>es_tasks = (es_tasks s)(i := t), es_locked = locked, es_db = db\<rparr>))"

lemma en_moves_reach:
  "list_all (\<lambda>m. snd m \<in> D) ms \<Longrightarrow> (en_step D)\<^sup>*\<^sup>* s (fold en_move ms s)"
proof (induction ms arbitrary: s)
  case (Cons m ms)
  have "en_step D s (en_move m s)"
    using Cons.prems en_step.intros [of "snd m" D s "fst m"] by (cases m) (simp add: en_move_def split: prod.splits)
  with Cons show ?case by (auto intro: converse_rtranclp_into_rtranclp)
qed simp

definition demo_encoder :: "string \<Rightarrow> encoder_entry" where
  "demo_encoder n = \<lparr>ec_id = None, ec_name = n, ec_codec = n, ec_is_hardware = False, ec_type = ''Software'', ec_description = n,
     ec_detected_at = 1\<rparr>"

definition demo_detection :: detect_end where
  "demo_detection = Detected [demo_encoder ''libx264'', demo_encoder ''libx265'']"

definition demo_kind :: "nat \<Rightarrow> encoder_request" where
  "demo_kind i = (if i = 0 \<or> i = 3 then EN_Refresh else EN_Get)"

lemmas demo_run_simps = en_move_def en_init_def demo_kind_def demo_detection_def demo_encoder_def sqe_insert_def
  sqe_clear_def modify_op_def cached_rows_def Let_def

text \<open>
  C31. However requests for the encoders and refreshes interleave, at most one of them is detecting or writing,
  and the lock is held exactly then. A request that is not answered from the cache gets nothing or one
  detection's whole list, or one of three documented errors; and when the lock is free, the cache is empty or
  holds the list of one detection.
\<close>

theorem encoder_detection_exclusive:
  assumes "(en_step D)\<^sup>*\<^sup>* (en_init kind) s" "detections_ok D"
  shows "(holds_lock (es_tasks s i) \<and> holds_lock (es_tasks s j) \<longrightarrow> i = j) \<and>
    (es_locked s \<longleftrightarrow> (\<exists>i. holds_lock (es_tasks s i))) \<and>
    (es_tasks s i = EN_Done (EN_List rows False) \<longrightarrow> rows = [] \<or> whole D rows) \<and>
    (es_tasks s i = EN_Done (EN_Error e) \<longrightarrow> e \<in> {HTTPError 409 ''REFRESH_IN_PROGRESS'',
       HTTPError 503 ''FFMPEG_UNAVAILABLE'', HTTPError 503 ''DETECTION_FAILED''}) \<and>
    (\<not> es_locked s \<longrightarrow> se_rows (es_db s) = [] \<or> whole D (se_rows (es_db s)))"
proof -
  note ok = en_ok_reachable [OF assms, unfolded en_ok_def]
  have "task_fits D (es_db s) (es_tasks s i)" using ok by blast
  moreover have "\<not> es_locked s \<longrightarrow> se_rows (es_db s) = [] \<or> whole D (se_rows (es_db s))"
    using ok filling_holds by blast
  ultimately have "(es_tasks s i = EN_Done (EN_List rows False) \<longrightarrow> rows = [] \<or> whole D rows) \<and>
      (es_tasks s i = EN_Done (EN_Error e) \<longrightarrow> e \<in> {HTTPError 409 ''REFRESH_IN_PROGRESS'',
         HTTPError 503 ''FFMPEG_UNAVAILABLE'', HTTPError 503 ''DETECTION_FAILED''}) \<and>
      (\<not> es_locked s \<longrightarrow> se_rows (es_db s) = [] \<or> whole D (se_rows (es_db s)))" by fastforce
  then show ?thesis using ok by blast
qed

theorem encoder_detection_exclusive_witness:
  "\<exists>s. (en_step {demo_detection})\<^sup>*\<^sup>* (en_init demo_kind) s \<and> \<not> es_locked s \<and> whole {demo_detection} (se_rows (es_db s))"
proof -
  let ?s = "fold en_move (map (\<lambda>i. (i, demo_detection)) [0, 0, 0, 0, 0, 0]) (en_init demo_kind)"
  have run: "(en_step {demo_detection})\<^sup>*\<^sup>* (en_init demo_kind) ?s" by (rule en_moves_reach) simp
  have ok: "detections_ok {demo_detection}" by (auto simp: detections_ok_def demo_detection_def demo_encoder_def)
  have "\<not> es_locked ?s" and "se_rows (es_db ?s) \<noteq> []" by (simp_all add: demo_run_simps)
  with encoder_detection_exclusive [OF run ok] run show ?thesis by blast
qed

text \<open>
  Requests read the cache while a refresh fills it. So after a first refresh has stored two encoders, a
  request during the second can be answered, as cached, with one of them only, and another with nothing.
\<close>

theorem refresh_serves_partial_list:
  "\<exists>s full r. (en_step {demo_detection})\<^sup>*\<^sup>* (en_init demo_kind) s \<and>
    es_tasks s 3 = EN_Done (EN_List full False) \<and> length full = 2 \<and>
    es_tasks s 1 = EN_Done (EN_List [r] True) \<and> es_tasks s 2 = EN_Done (EN_List [] False)"
proof -
  let ?s = "fold en_move (map (\<lambda>i. (i, demo_detection)) [3, 3, 3, 3, 3, 3, 0, 0, 0, 2, 2, 0, 1, 1]) (en_init demo_kind)"
  have run: "(en_step {demo_detection})\<^sup>*\<^sup>* (en_init demo_kind) ?s" by (rule en_moves_reach) simp
  have "\<exists>full r. es_tasks ?s 3 = EN_Done (EN_List full False) \<and> length full = 2 \<and>
      es_tasks ?s 1 = EN_Done (EN_List [r] True) \<and> es_tasks ?s 2 = EN_Done (EN_List [] False)"
    by (simp add: demo_run_simps)
  with run show ?thesis by blast
qed

end
