(* ===== verification/Delivery_Profiles.thy ===== *)
theory Delivery_Profiles
  imports Tables Json
begin

text \<open>
  Delivery profiles: \<open>src/stoat_ferret/db/delivery_profiles_repository.py\<close> and the requests of
  \<open>api/routers/delivery_profiles.py\<close>. A profile names the loudness and peak a render has to meet. The table
  has unique names; the dictionary in memory has not, and relies on the request to look first.
\<close>

subsection \<open>Profiles and repositories\<close>

record format_spec =
  fs_container :: string
  fs_codec :: string
  fs_bitrate_kbps :: int

record delivery_profile =
  dp_id :: string
  dp_name :: string
  dp_output_formats :: "format_spec list"
  dp_loudness :: rat
  dp_true_peak :: rat
  dp_metadata :: "(string, json_value) dict option"
  dp_created_at :: time

record 's profile_repo =
  dpr_add :: "delivery_profile \<Rightarrow> ('s, delivery_profile) op"
  dpr_list_all :: "('s, delivery_profile list) op"
  dpr_get_by_id :: "string \<Rightarrow> ('s, delivery_profile option) op"
  dpr_get_by_name :: "string \<Rightarrow> ('s, delivery_profile option) op"
  dpr_delete :: "string \<Rightarrow> ('s, bool) op"

type_synonym sql_profiles = "delivery_profile list"

text \<open>An empty template is stored as NULL.\<close>

definition profile_row :: "delivery_profile \<Rightarrow> delivery_profile" where
  "profile_row p = p\<lparr>dp_metadata := (if dp_metadata p = Some [] then None else dp_metadata p)\<rparr>"

definition sqf_add :: "delivery_profile \<Rightarrow> (sql_profiles, delivery_profile) op" where
  "sqf_add p = (\<lambda>rows. if dp_name p \<in> dp_name ` set rows then (Inl IntegrityError, rows)
     else case tbl_insert dp_id (profile_row p) rows of Inl e \<Rightarrow> (Inl e, rows) | Inr rows' \<Rightarrow> (Inr p, rows'))"

definition sqf_list_all :: "(sql_profiles, delivery_profile list) op" where
  "sqf_list_all = read_op (sort_key dp_created_at)"

definition sqf_get_by_id :: "string \<Rightarrow> (sql_profiles, delivery_profile option) op" where
  "sqf_get_by_id k = read_op (tbl_get dp_id k)"

definition sqf_get_by_name :: "string \<Rightarrow> (sql_profiles, delivery_profile option) op" where
  "sqf_get_by_name n = read_op (tbl_get dp_name n)"

definition sqf_delete :: "string \<Rightarrow> (sql_profiles, bool) op" where
  "sqf_delete k = (\<lambda>rows. (Inr (tbl_get dp_id k rows \<noteq> None), tbl_delete dp_id k rows))"

definition sqf_repo :: "sql_profiles profile_repo" where
  "sqf_repo = \<lparr>dpr_add = sqf_add, dpr_list_all = sqf_list_all, dpr_get_by_id = sqf_get_by_id,
     dpr_get_by_name = sqf_get_by_name, dpr_delete = sqf_delete\<rparr>"

type_synonym mem_profiles = "(string, delivery_profile) dict"

definition mmf_add :: "delivery_profile \<Rightarrow> (mem_profiles, delivery_profile) op" where
  "mmf_add p = (\<lambda>d. (Inr p, AList.update (dp_id p) p d))"

definition mmf_list_all :: "(mem_profiles, delivery_profile list) op" where
  "mmf_list_all = read_op (\<lambda>d. sort_key dp_created_at (dict_values d))"

definition mmf_get_by_id :: "string \<Rightarrow> (mem_profiles, delivery_profile option) op" where
  "mmf_get_by_id k = read_op (\<lambda>d. map_of d k)"

definition mmf_get_by_name :: "string \<Rightarrow> (mem_profiles, delivery_profile option) op" where
  "mmf_get_by_name n = read_op (\<lambda>d. List.find (\<lambda>p. dp_name p = n) (dict_values d))"

definition mmf_delete :: "string \<Rightarrow> (mem_profiles, bool) op" where
  "mmf_delete k = (\<lambda>d. if map_of d k = None then (Inr False, d) else (Inr True, AList.delete k d))"

definition mmf_repo :: "mem_profiles profile_repo" where
  "mmf_repo = \<lparr>dpr_add = mmf_add, dpr_list_all = mmf_list_all, dpr_get_by_id = mmf_get_by_id,
     dpr_get_by_name = mmf_get_by_name, dpr_delete = mmf_delete\<rparr>"

subsection \<open>Requests\<close>

record profile_create =
  pq_name :: string
  pq_output_formats :: "format_spec list"
  pq_loudness :: rat
  pq_true_peak :: rat
  pq_metadata :: "(string, json_value) dict option"

text \<open>The constraints of the request's fields, answered with 422 before the handler runs.\<close>

definition profile_create_ok :: "profile_create \<Rightarrow> bool" where
  "profile_create_ok b \<longleftrightarrow> pq_output_formats b \<noteq> [] \<and> pq_loudness b \<le> 0 \<and> pq_true_peak b \<le> 0"

definition create_delivery_profile :: "'s profile_repo \<Rightarrow> string \<Rightarrow> time \<Rightarrow> profile_create \<Rightarrow> ('s, delivery_profile) op" where
  "create_delivery_profile R new_id now b =
     (if \<not> profile_create_ok b then throw (HTTPError 422 ''VALIDATION'')
      else bind_op (dpr_get_by_name R (pq_name b)) (\<lambda>existing.
        if existing \<noteq> None then throw (HTTPError 409 ''DUPLICATE_PROFILE_NAME'')
        else dpr_add R \<lparr>dp_id = new_id, dp_name = pq_name b, dp_output_formats = pq_output_formats b,
          dp_loudness = pq_loudness b, dp_true_peak = pq_true_peak b, dp_metadata = pq_metadata b, dp_created_at = now\<rparr>))"

definition list_delivery_profiles :: "'s profile_repo \<Rightarrow> ('s, delivery_profile list \<times> nat) op" where
  "list_delivery_profiles R = bind_op (dpr_list_all R) (\<lambda>ps. ret (ps, length ps))"

definition get_delivery_profile :: "'s profile_repo \<Rightarrow> string \<Rightarrow> ('s, delivery_profile) op" where
  "get_delivery_profile R k = bind_op (dpr_get_by_id R k) (\<lambda>p. case p of
     None \<Rightarrow> throw (HTTPError 404 ''PROFILE_NOT_FOUND'') | Some p \<Rightarrow> ret p)"

definition delete_delivery_profile :: "'s profile_repo \<Rightarrow> string \<Rightarrow> ('s, unit) op" where
  "delete_delivery_profile R k = bind_op (dpr_delete R k) (\<lambda>deleted.
     if \<not> deleted then throw (HTTPError 404 ''PROFILE_NOT_FOUND'') else ret ())"

subsection \<open>The contract\<close>

text \<open>Both repositories, as long as names are looked up before an insertion: a map from ids to profiles of
  different names. \<open>kept\<close> is what a profile is read back as.\<close>

definition names_unique :: "(string \<Rightarrow> delivery_profile option) \<Rightarrow> bool" where
  "names_unique M \<longleftrightarrow> (\<forall>j k p q. M j = Some p \<longrightarrow> M k = Some q \<longrightarrow> dp_name p = dp_name q \<longrightarrow> j = k)"

locale profile_store =
  fixes R :: "'s profile_repo" and m :: "'s \<Rightarrow> string \<Rightarrow> delivery_profile option" and ok :: "'s \<Rightarrow> bool"
    and kept :: "delivery_profile \<Rightarrow> delivery_profile"
  assumes keyed: "ok s \<Longrightarrow> m s k = Some p \<Longrightarrow> dp_id p = k"
    and unique: "ok s \<Longrightarrow> names_unique (m s)"
    and kept_same: "dp_id (kept p) = dp_id p" "dp_name (kept p) = dp_name p" "dp_loudness (kept p) = dp_loudness p"
      "dp_true_peak (kept p) = dp_true_peak p" "dp_output_formats (kept p) = dp_output_formats p"
    and get_law: "ok s \<Longrightarrow> dpr_get_by_id R k s = (Inr (m s k), s)"
    and name_law: "ok s \<Longrightarrow> \<exists>r. dpr_get_by_name R n s = (Inr r, s) \<and>
      (case r of None \<Rightarrow> \<forall>k p. m s k = Some p \<longrightarrow> dp_name p \<noteq> n | Some p \<Rightarrow> m s (dp_id p) = Some p \<and> dp_name p = n)"
    and add_law: "ok s \<Longrightarrow> m s (dp_id p) = None \<Longrightarrow> (\<And>k q. m s k = Some q \<Longrightarrow> dp_name q \<noteq> dp_name p) \<Longrightarrow>
      \<exists>s'. dpr_add R p s = (Inr p, s') \<and> ok s' \<and> m s' = (m s)(dp_id p \<mapsto> kept p)"
    and delete_law: "ok s \<Longrightarrow> \<exists>s'. dpr_delete R k s = (Inr (m s k \<noteq> None), s') \<and> ok s' \<and> m s' = (m s)(k := None)"

lemma names_unique_new: "names_unique M \<Longrightarrow> (\<And>k q. M k = Some q \<Longrightarrow> dp_name q \<noteq> dp_name p) \<Longrightarrow> names_unique (M(i \<mapsto> p))"
  unfolding names_unique_def by (metis fun_upd_apply option.inject)

lemma names_unique_delete: "names_unique M \<Longrightarrow> names_unique (M(i := None))"
  by (auto simp: names_unique_def)

lemma profile_row_simps [simp]:
  "dp_id (profile_row p) = dp_id p" "dp_name (profile_row p) = dp_name p" "dp_loudness (profile_row p) = dp_loudness p"
  "dp_true_peak (profile_row p) = dp_true_peak p" "dp_output_formats (profile_row p) = dp_output_formats p"
  by (simp_all add: profile_row_def)

definition sqf_ok :: "sql_profiles \<Rightarrow> bool" where
  "sqf_ok rows \<longleftrightarrow> tbl_keys dp_id rows \<and> names_unique (\<lambda>k. tbl_get dp_id k rows)"

interpretation sqf: profile_store sqf_repo "\<lambda>rows k. tbl_get dp_id k rows" sqf_ok profile_row
proof (unfold_locales, goal_cases)
  case (9 s n)
  have "tbl_get dp_id (dp_id p) s = Some p" if "p \<in> set s" for p using 9 that by (simp add: sqf_ok_def tbl_get_iff)
  then show ?case
    using tbl_get_None [of dp_name n s] tbl_get_Some [of dp_id _ s]
    by (auto simp: sqf_repo_def sqf_get_by_name_def dest: tbl_get_Some split: option.splits)
next
  case (10 s p)
  have "\<forall>q \<in> set s. dp_name q \<noteq> dp_name p" using 10(1,3) by (simp add: sqf_ok_def tbl_get_iff)
  then have "dp_name p \<notin> dp_name ` set s" by force
  moreover have m: "(\<lambda>k. tbl_get dp_id k (s @ [profile_row p])) = (\<lambda>k. tbl_get dp_id k s)(dp_id p \<mapsto> profile_row p)"
    using 10(2) by (auto simp: tbl_get_append split: option.splits)
  moreover have "names_unique ((\<lambda>k. tbl_get dp_id k s)(dp_id p \<mapsto> profile_row p))"
    using 10 by (intro names_unique_new) (auto simp: sqf_ok_def)
  ultimately show ?case using 10(1,2)
    by (auto simp: sqf_repo_def sqf_add_def sqf_ok_def tbl_insert_def tbl_get_None simp del: fun_upd_apply)
next
  case (11 s k)
  have m: "(\<lambda>j. tbl_get dp_id j (tbl_delete dp_id k s)) = (\<lambda>j. tbl_get dp_id j s)(k := None)"
    by (auto simp: tbl_get_delete)
  with 11 show ?case
    by (auto simp: sqf_repo_def sqf_delete_def sqf_ok_def m tbl_keys_delete names_unique_delete simp del: fun_upd_apply)
qed (auto simp: sqf_ok_def tbl_get_iff sqf_repo_def sqf_get_by_id_def)

definition mmf_ok :: "mem_profiles \<Rightarrow> bool" where
  "mmf_ok d \<longleftrightarrow> dict_all (\<lambda>k p. dp_id p = k) d \<and> names_unique (map_of d)"

lemma find_found: "List.find P xs = Some x \<Longrightarrow> x \<in> set xs \<and> P x"
  by (induction xs) (auto split: if_splits)

lemma mmf_values: "mmf_ok d \<Longrightarrow> p \<in> set (dict_values d) \<longleftrightarrow> map_of d (dp_id p) = Some p"
  by (rule dict_all_values) (auto simp: mmf_ok_def)

interpretation mmf: profile_store mmf_repo map_of mmf_ok "\<lambda>p. p"
proof (unfold_locales, goal_cases)
  case (1 s k p) then show ?case by (auto simp: mmf_ok_def dest: dict_all_get)
next
  case (9 s n)
  show ?case
  proof (cases "List.find (\<lambda>p. dp_name p = n) (dict_values s)")
    case None
    then have "\<forall>p \<in> set (dict_values s). dp_name p \<noteq> n" unfolding find_None_iff by blast
    moreover have "p \<in> set (dict_values s)" if "map_of s k = Some p" for k p
      using that mmf_values [OF 9, of p] 9 by (auto simp: mmf_ok_def dest: dict_all_get)
    ultimately have "\<forall>k p. map_of s k = Some p \<longrightarrow> dp_name p \<noteq> n" by blast
    with None show ?thesis by (simp add: mmf_repo_def mmf_get_by_name_def)
  next
    case (Some p)
    then have "p \<in> set (dict_values s)" "dp_name p = n" using find_found [OF Some] by blast+
    with Some show ?thesis using mmf_values [OF 9, of p] by (simp add: mmf_repo_def mmf_get_by_name_def)
  qed
next
  case (10 s p)
  then show ?case
    by (auto simp: mmf_repo_def mmf_add_def mmf_ok_def dict_set_map_of intro: dict_all_set names_unique_new)
next
  case (11 s k)
  then show ?case
    by (auto simp: mmf_repo_def mmf_delete_def mmf_ok_def delete_conv' fun_eq_iff intro: dict_all_pop names_unique_delete)
qed (auto simp: mmf_ok_def mmf_repo_def mmf_get_by_id_def)

subsection \<open>What the requests do\<close>

context profile_store begin

lemma create_profile_outcome:
  assumes "ok s" "m s new_id = None"
  shows "\<exists>s'. ok s' \<and> (create_delivery_profile R new_id now b s = (Inl (HTTPError 422 ''VALIDATION''), s) \<or>
    create_delivery_profile R new_id now b s = (Inl (HTTPError 409 ''DUPLICATE_PROFILE_NAME''), s) \<and>
      (\<exists>k q. m s k = Some q \<and> dp_name q = pq_name b) \<or>
    (\<exists>p. create_delivery_profile R new_id now b s = (Inr p, s') \<and> dp_name p = pq_name b \<and> dp_loudness p \<le> 0 \<and>
      dp_true_peak p \<le> 0 \<and> m s' = (m s)(new_id \<mapsto> kept p)))"
proof -
  obtain r where r: "dpr_get_by_name R (pq_name b) s = (Inr r, s)"
    "case r of None \<Rightarrow> \<forall>k p. m s k = Some p \<longrightarrow> dp_name p \<noteq> pq_name b | Some p \<Rightarrow> m s (dp_id p) = Some p \<and> dp_name p = pq_name b"
    using name_law [OF assms(1)] by blast
  show ?thesis
  proof (cases r)
    case (Some q)
    then show ?thesis using r assms(1) by (auto simp: create_delivery_profile_def bind_op_run)
  next
    case None
    let ?p = "\<lparr>dp_id = new_id, dp_name = pq_name b, dp_output_formats = pq_output_formats b,
          dp_loudness = pq_loudness b, dp_true_peak = pq_true_peak b, dp_metadata = pq_metadata b, dp_created_at = now\<rparr>"
    obtain s' where "dpr_add R ?p s = (Inr ?p, s')" "ok s'" "m s' = (m s)(new_id \<mapsto> kept ?p)"
      using add_law [OF assms(1), of ?p] assms(2) r None by auto
    with None r assms(1) show ?thesis
      by (cases "profile_create_ok b") (auto simp: create_delivery_profile_def bind_op_run profile_create_ok_def)
  qed
qed

end

end
