(* ===== verification/QC_Service.thy ===== *)
theory QC_Service
  imports Delivery_Profiles Filter_Text Render_Service
begin

text \<open>
  Quality control of rendered files: \<open>src/stoat_ferret/api/services/qc_service.py\<close>, its repository
  \<open>db/qc_repository.py\<close> and the requests of \<open>api/routers/qc.py\<close>. What FFmpeg and ffprobe answer to a command
  line, the Rust parsers of their reports and the reading of numbers and JSON are an environment; a measured
  value is a finite number. A missing artifact raises \<open>FileNotFoundError\<close>, which is an \<open>OSError\<close> here.
\<close>

subsection \<open>Checks\<close>

definition ALL_CHECK_IDS :: "string list" where
  "ALL_CHECK_IDS = [''loudness_integrated'', ''true_peak'', ''clipping'', ''unintended_silence'', ''loop_seam'', ''tone_presence'',
     ''ducking'', ''section_arc'', ''av_sync'', ''decode_integrity'', ''chapters_present'', ''spatial_correlation'']"

record qc_check =
  qk_measured :: "rat option"
  qk_target :: "rat option"
  qk_pass :: "bool option"
  qk_units :: string
  qk_metadata :: "(string \<times> bool) list"

definition null_check :: qc_check where
  "null_check = \<lparr>qk_measured = None, qk_target = None, qk_pass = Some False, qk_units = [], qk_metadata = []\<rparr>"

definition make_check ::
  "rat option \<Rightarrow> rat option \<Rightarrow> string \<Rightarrow> bool option \<Rightarrow> (string \<times> bool) list \<Rightarrow> qc_check" where
  "make_check measured target units pass_override metadata = \<lparr>qk_measured = measured, qk_target = target,
     qk_pass = (case pass_override of Some b \<Rightarrow> Some b
       | None \<Rightarrow> if target = None then None else if measured = None then Some False else Some True),
     qk_units = units, qk_metadata = metadata\<rparr>"

record loudness_report =
  lr_integrated :: rat
  lr_lra :: rat
  lr_true_peak :: rat

record qc_env =
  qe_rust :: bool
  qe_exists :: "string \<Rightarrow> bool"
  qe_ffmpeg :: "string list \<Rightarrow> exn + string \<times> string \<times> int"
  qe_ffprobe :: "string list \<Rightarrow> exn + string \<times> string \<times> int"
  qe_loudness :: "string \<Rightarrow> exn + loudness_report"
  qe_peak :: "string \<Rightarrow> exn + rat \<times> int"
  qe_silence :: "string \<Rightarrow> exn + nat"
  qe_spectral :: "string \<Rightarrow> exn + rat list"
  qe_loads :: "string \<Rightarrow> json_value option"
  qe_float :: "string \<Rightarrow> rat option"
  qe_strip :: "string \<Rightarrow> string"
  qe_lines :: "string \<Rightarrow> string list"
  qe_dumps :: "(string \<times> qc_check) list \<Rightarrow> string"

definition loudnorm_measure_filter :: string where
  "loudnorm_measure_filter = ''loudnorm=I=-23:TP=-1:LRA=11:print_format=json''"

definition ffmpeg_null_sink :: "string list" where
  "ffmpeg_null_sink = [''-f'', ''null'', ''/dev/null'']"

definition loudness_tolerance :: rat where "loudness_tolerance = 1 / 2"

text \<open>A check that reads a number off FFmpeg's report: the filter, the parser with the errors the code expects of
  it, the unit, and when a value meets its target.\<close>

definition measured_check ::
  "qc_env \<Rightarrow> string \<Rightarrow> (string \<Rightarrow> exn + rat) \<Rightarrow> string \<Rightarrow> (rat \<Rightarrow> rat \<Rightarrow> bool) \<Rightarrow> string \<Rightarrow> rat option \<Rightarrow> exn + qc_check" where
  "measured_check en filt parse units meets_target path target =
     (if \<not> qe_rust en then Inr null_check
      else sum_bind (qe_ffmpeg en ([''-i'', path, ''-af'', filt] @ ffmpeg_null_sink)) (\<lambda>(_, stderr, rc).
        if rc \<noteq> 0 \<and> stderr = [] then Inr null_check
        else case parse stderr of
          Inl e \<Rightarrow> if e \<in> {ValueError, AttributeError} then Inr null_check else Inl e
        | Inr measured \<Rightarrow> (case target of None \<Rightarrow> Inr (make_check (Some measured) None units None [])
            | Some t \<Rightarrow> Inr (make_check (Some measured) target units (Some (meets_target measured t)) []))))"

definition check_loudness_integrated :: "qc_env \<Rightarrow> string \<Rightarrow> rat option \<Rightarrow> exn + qc_check" where
  "check_loudness_integrated en = measured_check en loudnorm_measure_filter
     (\<lambda>t. sum_bind (qe_loudness en t) (\<lambda>r. Inr (lr_integrated r))) ''LUFS'' (\<lambda>measured t. \<bar>measured - t\<bar> \<le> loudness_tolerance)"

definition check_true_peak :: "qc_env \<Rightarrow> string \<Rightarrow> rat option \<Rightarrow> exn + qc_check" where
  "check_true_peak en = measured_check en loudnorm_measure_filter
     (\<lambda>t. sum_bind (qe_loudness en t) (\<lambda>r. Inr (lr_true_peak r))) ''dBTP'' (\<lambda>measured t. measured \<le> t)"

definition check_clipping :: "qc_env \<Rightarrow> string \<Rightarrow> rat option \<Rightarrow> exn + qc_check" where
  "check_clipping en = measured_check en ''astats=metadata=1''
     (\<lambda>t. sum_bind (qe_peak en t) (\<lambda>r. Inr (of_int (snd r)))) ''samples'' (\<lambda>measured t. measured \<le> t)"

definition check_unintended_silence :: "qc_env \<Rightarrow> string \<Rightarrow> rat option \<Rightarrow> exn + qc_check" where
  "check_unintended_silence en = measured_check en ''silencedetect=noise=-50dB:duration=2''
     (\<lambda>t. sum_bind (qe_silence en t) (\<lambda>n. Inr (of_nat n))) ''regions'' (\<lambda>measured t. measured \<le> t)"

definition check_ducking :: "qc_env \<Rightarrow> string \<Rightarrow> rat option \<Rightarrow> exn + qc_check" where
  "check_ducking en = measured_check en ''astats=metadata=1''
     (\<lambda>t. sum_bind (qe_peak en t) (\<lambda>r. Inr (fst r))) ''dBFS'' (\<lambda>measured t. t \<le> measured)"

definition check_section_arc :: "qc_env \<Rightarrow> string \<Rightarrow> rat option \<Rightarrow> exn + qc_check" where
  "check_section_arc en = measured_check en loudnorm_measure_filter
     (\<lambda>t. sum_bind (qe_loudness en t) (\<lambda>r. Inr (lr_lra r))) ''LU'' (\<lambda>measured t. t \<le> measured)"

definition check_loop_seam :: "qc_env \<Rightarrow> string \<Rightarrow> rat option \<Rightarrow> exn + qc_check" where
  "check_loop_seam en path target =
     sum_bind (qe_ffmpeg en ([''-i'', path, ''-vframes'', ''1'', ''-aframes'', ''1''] @ ffmpeg_null_sink)) (\<lambda>(_, _, rc).
       let measured = (if rc = 0 then Some 0 else None)
       in Inr (if target = None then make_check measured None ''errors'' None []
               else make_check measured target ''errors'' (Some (measured = Some 0)) []))"

definition check_decode_integrity :: "qc_env \<Rightarrow> string \<Rightarrow> rat option \<Rightarrow> exn + qc_check" where
  "check_decode_integrity en path target =
     sum_bind (qe_ffmpeg en ([''-v'', ''error'', ''-i'', path] @ ffmpeg_null_sink)) (\<lambda>(_, _, rc).
       let measured = (if rc = 0 then 0 else 1)
       in Inr (if target = None then make_check (Some measured) None ''errors'' None []
               else make_check (Some measured) target ''errors'' (Some (measured = 0)) []))"

text \<open>The mean of the first channel; a parse error is a failed check only with a target.\<close>

definition check_tone_presence :: "qc_env \<Rightarrow> string \<Rightarrow> rat option \<Rightarrow> exn + qc_check" where
  "check_tone_presence en path target =
     (if \<not> qe_rust en then Inr null_check
      else sum_bind (qe_ffmpeg en ([''-i'', path, ''-af'', ''aspectralstats,ametadata=mode=print''] @ ffmpeg_null_sink))
        (\<lambda>(_, stderr, rc).
          if rc \<noteq> 0 \<and> stderr = [] then Inr (if target = None then make_check None None ''dB'' None [] else null_check)
          else case qe_spectral en stderr of
            Inl e \<Rightarrow> if e \<in> {ValueError, AttributeError} then Inr (make_check None target ''dB'' None []) else Inl e
          | Inr means \<Rightarrow> (let measured = (case means of [] \<Rightarrow> None | x # _ \<Rightarrow> Some x)
              in Inr (case target of None \<Rightarrow> make_check measured None ''dB'' None []
                 | Some t \<Rightarrow> make_check measured target ''dB''
                     (Some (case measured of None \<Rightarrow> False | Some x \<Rightarrow> t \<le> x)) []))))"

subsection \<open>Checks over ffprobe's JSON\<close>

text \<open>Iterating over a value, and \<open>float\<close> of one.\<close>

fun json_elements :: "json_value \<Rightarrow> exn + json_value list" where
  "json_elements (JList xs) = Inr xs"
| "json_elements (JStr s) = Inr (map (\<lambda>c. JStr [c]) s)"
| "json_elements (JObj d) = Inr (map (\<lambda>e. JStr (fst e)) d)"
| "json_elements _ = Inl TypeError"

fun json_float :: "qc_env \<Rightarrow> json_value \<Rightarrow> exn + rat" where
  "json_float en (JStr s) = (case qe_float en s of None \<Rightarrow> Inl ValueError | Some x \<Rightarrow> Inr x)"
| "json_float en (JInt i) = Inr (of_int i)"
| "json_float en (JNum r) = Inr r"
| "json_float en (JBool b) = Inr (if b then 1 else 0)"
| "json_float en _ = Inl TypeError"

definition start_time :: "qc_env \<Rightarrow> json_value \<Rightarrow> exn + rat" where
  "start_time en v = sum_bind (json_get_or ''start_time'' (JInt 0) v) (json_float en)"

definition of_codec_type :: "string \<Rightarrow> json_value list \<Rightarrow> exn + json_value list" where
  "of_codec_type t vs = sum_bind (map_ok (\<lambda>v. sum_bind (json_get ''codec_type'' v) (\<lambda>c. Inr (v, c = JStr t))) vs)
     (\<lambda>es. Inr (map fst (filter snd es)))"

text \<open>The expected errors make a failed check.\<close>

definition or_null_check :: "exn + qc_check \<Rightarrow> exn + qc_check" where
  "or_null_check r = (case r of Inl e \<Rightarrow> if e \<in> {ValueError, KeyError, JSONDecodeError} then Inr null_check else Inl e | Inr c \<Rightarrow> Inr c)"

definition check_av_sync :: "qc_env \<Rightarrow> string \<Rightarrow> rat option \<Rightarrow> exn + qc_check" where
  "check_av_sync en path target =
     sum_bind (qe_ffprobe en [''-v'', ''quiet'', ''-print_format'', ''json'', ''-show_streams'', path]) (\<lambda>(stdout, _, rc).
       if rc \<noteq> 0 then Inr null_check
       else or_null_check
        (sum_bind (json_loads (qe_loads en) stdout) (\<lambda>data.
         sum_bind (json_get_or ''streams'' (JList []) data) (\<lambda>v.
         sum_bind (json_elements v) (\<lambda>streams.
         sum_bind (of_codec_type ''audio'' streams) (\<lambda>audio_streams.
         sum_bind (of_codec_type ''video'' streams) (\<lambda>video_streams.
           case (audio_streams, video_streams) of
             (a # _, v # _) \<Rightarrow> sum_bind (start_time en a) (\<lambda>a_start. sum_bind (start_time en v) (\<lambda>v_start.
               let measured = \<bar>a_start - v_start\<bar> * 1000
               in Inr (case target of None \<Rightarrow> make_check (Some measured) None ''ms'' None []
                    | Some t \<Rightarrow> make_check (Some measured) target ''ms'' (Some (measured \<le> t)) [])))
           | _ \<Rightarrow> Inr null_check)))))))"

fun strictly_rising :: "rat list \<Rightarrow> bool" where
  "strictly_rising (x # y # xs) \<longleftrightarrow> x < y \<and> strictly_rising (y # xs)"
| "strictly_rising _ \<longleftrightarrow> True"

text \<open>Without a target, one chapter is demanded all the same.\<close>

definition check_chapters_present :: "qc_env \<Rightarrow> string \<Rightarrow> rat option \<Rightarrow> exn + qc_check" where
  "check_chapters_present en path target =
     sum_bind (qe_ffprobe en [''-v'', ''quiet'', ''-print_format'', ''json'', ''-show_chapters'', path]) (\<lambda>(stdout, _, rc).
       if rc \<noteq> 0 then Inr null_check
       else or_null_check
        (sum_bind (json_loads (qe_loads en) stdout) (\<lambda>data.
         sum_bind (json_get_or ''chapters'' (JList []) data) (\<lambda>v.
         sum_bind (json_elements v) (\<lambda>chapters.
         sum_bind (map_ok (start_time en) chapters) (\<lambda>timestamps.
           let count = of_nat (length chapters); chapters_ordered = strictly_rising timestamps; effective_target = get_or 1 target
           in Inr (make_check (Some count) (Some effective_target) ''chapters''
                (Some (effective_target \<le> count \<and> chapters_ordered)) [(''chapters_ordered'', chapters_ordered)])))))))"

subsection \<open>The correlation\<close>

fun contains :: "string \<Rightarrow> string \<Rightarrow> bool" where
  "contains pat [] \<longleftrightarrow> pat = []"
| "contains pat (c # cs) \<longleftrightarrow> take (length pat) (c # cs) = pat \<or> contains pat cs"

definition parse_colon_float :: "qc_env \<Rightarrow> string \<Rightarrow> rat option" where
  "parse_colon_float en stripped = (case str_split (CHR '':'') stripped of
     [] \<Rightarrow> None | [_] \<Rightarrow> None | parts \<Rightarrow> qe_float en (qe_strip en (last parts)))"

fun scan_correlation :: "qc_env \<Rightarrow> bool \<Rightarrow> string list \<Rightarrow> rat option" where
  "scan_correlation en in_overall [] = None"
| "scan_correlation en in_overall (l # ls) = (let stripped = qe_strip en l in
     if \<not> contains ''Overall'' stripped \<and> \<not> in_overall then scan_correlation en in_overall ls
     else if contains ''Overall'' stripped \<and> contains ''Correlation:'' stripped then parse_colon_float en stripped
     else if contains ''Overall'' stripped then scan_correlation en True ls
     else if contains ''Correlation:'' stripped then parse_colon_float en stripped
     else scan_correlation en in_overall ls)"

definition parse_overall_correlation :: "qc_env \<Rightarrow> string \<Rightarrow> rat option" where
  "parse_overall_correlation en stderr = scan_correlation en False (qe_lines en stderr)"

definition check_spatial_correlation :: "qc_env \<Rightarrow> string \<Rightarrow> rat option \<Rightarrow> exn + qc_check" where
  "check_spatial_correlation en path target =
     sum_bind (qe_ffmpeg en ([''-i'', path, ''-af'', ''astats''] @ ffmpeg_null_sink)) (\<lambda>(_, stderr, rc).
       if rc \<noteq> 0 \<and> stderr = [] then Inr null_check
       else Inr (case parse_overall_correlation en stderr of
          None \<Rightarrow> make_check None target ''ratio'' None []
        | Some measured \<Rightarrow> (case target of None \<Rightarrow> make_check (Some measured) None ''ratio'' None []
            | Some t \<Rightarrow> make_check (Some measured) target ''ratio'' (Some (measured \<le> t)) [])))"

subsection \<open>A run\<close>

definition qc_dispatch :: "qc_env \<Rightarrow> (string, string \<Rightarrow> rat option \<Rightarrow> exn + qc_check) dict" where
  "qc_dispatch en = [(''loudness_integrated'', check_loudness_integrated en), (''true_peak'', check_true_peak en),
     (''clipping'', check_clipping en), (''unintended_silence'', check_unintended_silence en), (''loop_seam'', check_loop_seam en),
     (''tone_presence'', check_tone_presence en), (''ducking'', check_ducking en), (''section_arc'', check_section_arc en),
     (''av_sync'', check_av_sync en), (''decode_integrity'', check_decode_integrity en),
     (''chapters_present'', check_chapters_present en), (''spatial_correlation'', check_spatial_correlation en)]"

definition run_check :: "qc_env \<Rightarrow> string \<Rightarrow> string \<Rightarrow> rat option \<Rightarrow> exn + qc_check" where
  "run_check en check_id path target = (case map_of (qc_dispatch en) check_id of
     None \<Rightarrow> Inl KeyError | Some fn \<Rightarrow> fn path target)"

text \<open>Any error of a check is a failed check that keeps its target.\<close>

definition settled_check :: "qc_env \<Rightarrow> string \<Rightarrow> string \<Rightarrow> rat option \<Rightarrow> qc_check" where
  "settled_check en check_id path target = (case run_check en check_id path target of
     Inl _ \<Rightarrow> null_check\<lparr>qk_target := target\<rparr> | Inr c \<Rightarrow> c)"

type_synonym qc_assertions = "(string, rat option) dict"

definition assertion_for :: "qc_assertions \<Rightarrow> string \<Rightarrow> rat option" where
  "assertion_for a check_id = get_or None (map_of a check_id)"

definition all_checks :: "qc_env \<Rightarrow> string \<Rightarrow> qc_assertions \<Rightarrow> (string \<times> qc_check) list" where
  "all_checks en path a = map (\<lambda>i. (i, settled_check en i path (assertion_for a i))) ALL_CHECK_IDS"

definition overall_verdict :: "(string \<times> qc_check) list \<Rightarrow> string" where
  "overall_verdict checks = (let asserted = filter (\<lambda>c. qk_pass c \<noteq> None) (map snd checks)
     in if asserted \<noteq> [] \<and> list_all (\<lambda>c. qk_pass c = Some True) asserted then ''pass'' else ''fail'')"

record qc_report =
  qr_id :: string
  qr_job_id :: "string option"
  qr_artifact_path :: string
  qr_profile_id :: "string option"
  qr_verdict :: string
  qr_checks :: string
  qr_created_at :: time

record 's report_repo =
  qrr_create :: "qc_report \<Rightarrow> ('s, qc_report) op"
  qrr_get_by_id :: "string \<Rightarrow> ('s, qc_report option) op"
  qrr_latest :: "string \<Rightarrow> ('s, qc_report option) op"

definition sqq_create :: "qc_report \<Rightarrow> (qc_report list, qc_report) op" where
  "sqq_create r = (\<lambda>rows. case tbl_insert qr_id r rows of Inl e \<Rightarrow> (Inl e, rows) | Inr rows' \<Rightarrow> (Inr r, rows'))"

definition sqq_get_by_id :: "string \<Rightarrow> (qc_report list, qc_report option) op" where
  "sqq_get_by_id k = read_op (tbl_get qr_id k)"

definition sqq_latest :: "string \<Rightarrow> (qc_report list, qc_report option) op" where
  "sqq_latest j = read_op (\<lambda>rows. case sorted_rev qr_created_at (filter (\<lambda>r. qr_job_id r = Some j) rows) of [] \<Rightarrow> None | r # _ \<Rightarrow> Some r)"

definition sqq_repo :: "qc_report list report_repo" where
  "sqq_repo = \<lparr>qrr_create = sqq_create, qrr_get_by_id = sqq_get_by_id, qrr_latest = sqq_latest\<rparr>"

definition mmq_create :: "qc_report \<Rightarrow> ((string, qc_report) dict, qc_report) op" where
  "mmq_create r = (\<lambda>d. (Inr r, AList.update (qr_id r) r d))"

definition mmq_get_by_id :: "string \<Rightarrow> ((string, qc_report) dict, qc_report option) op" where
  "mmq_get_by_id k = read_op (\<lambda>d. map_of d k)"

definition mmq_latest :: "string \<Rightarrow> ((string, qc_report) dict, qc_report option) op" where
  "mmq_latest j = read_op (\<lambda>d. case filter (\<lambda>r. qr_job_id r = Some j) (dict_values d) of
     [] \<Rightarrow> None | r # rs \<Rightarrow> Some (arg_min_list (\<lambda>r. - qr_created_at r) (r # rs)))"

definition mmq_repo :: "(string, qc_report) dict report_repo" where
  "mmq_repo = \<lparr>qrr_create = mmq_create, qrr_get_by_id = mmq_get_by_id, qrr_latest = mmq_latest\<rparr>"

record 's qc_world =
  qw_reports :: 's
  qw_events :: "(event_type \<times> message) list"

definition qc_emit :: "event_type \<Rightarrow> message \<Rightarrow> ('s qc_world, unit) op" where
  "qc_emit e msg = modify_op (\<lambda>s. s\<lparr>qw_events := qw_events s @ [(e, msg)]\<rparr>)"

definition on_reports :: "('s, 'a) op \<Rightarrow> ('s qc_world, 'a) op" where
  "on_reports f s = (case f (qw_reports s) of (r, t) \<Rightarrow> (r, s\<lparr>qw_reports := t\<rparr>))"

definition check_json :: "qc_check \<Rightarrow> json_value" where
  "check_json c = JObj ([(''measured'', json_opt JNum (qk_measured c)), (''target'', json_opt JNum (qk_target c)),
     (''pass'', json_opt JBool (qk_pass c)), (''units'', JStr (qk_units c))] @
     (if qk_metadata c = [] then [] else [(''metadata'', JObj (map (\<lambda>(k, b). (k, JBool b)) (qk_metadata c)))]))"

definition announce_check :: "string \<Rightarrow> string \<times> qc_check \<Rightarrow> ('s qc_world, unit) op" where
  "announce_check report_id e = (case e of (i, c) \<Rightarrow> qc_emit QC_CHECK_COMPLETED
     [(''report_id'', JStr report_id), (''check_id'', JStr i), (''measured'', json_opt JNum (qk_measured c)),
      (''target'', json_opt JNum (qk_target c)), (''pass'', json_opt JBool (qk_pass c))])"

definition run_checks ::
  "'s report_repo \<Rightarrow> qc_env \<Rightarrow> string \<Rightarrow> time \<Rightarrow> string \<Rightarrow> string option \<Rightarrow> string option \<Rightarrow> qc_assertions option \<Rightarrow>
   ('s qc_world, qc_report) op" where
  "run_checks R en report_id now path job_id profile_id assertions =
     (if \<not> qe_exists en path then throw OSError
      else
        let checks = all_checks en path (get_or [] assertions);
            r = \<lparr>qr_id = report_id, qr_job_id = job_id, qr_artifact_path = path, qr_profile_id = profile_id,
                 qr_verdict = overall_verdict checks, qr_checks = qe_dumps en checks, qr_created_at = now\<rparr>
        in seq_op (qc_emit QC_STARTED [(''report_id'', JStr report_id), (''artifact_path'', JStr path),
               (''delivery_profile_id'', json_opt JStr profile_id)])
          (seq_op (for_each checks (announce_check report_id))
          (seq_op (on_reports (qrr_create R r))
          (seq_op (qc_emit QC_COMPLETED [(''report_id'', JStr report_id), (''overall_verdict'', JStr (qr_verdict r)),
               (''checks'', JObj (map (\<lambda>(i, c). (i, check_json c)) checks))])
            (ret r)))))"

subsection \<open>Requests\<close>

record qc_request =
  qq_artifact_path :: string
  qq_job_id :: "string option"
  qq_profile_id :: "string option"
  qq_assertions :: "qc_assertions option"

text \<open>\<open>{**profile, **explicit}\<close>: the explicit ones win.\<close>

definition merge_assertions :: "qc_assertions \<Rightarrow> qc_assertions \<Rightarrow> qc_assertions" where
  "merge_assertions a b = fold (\<lambda>(k, v) d. AList.update k v d) b a"

definition run_qc ::
  "'s report_repo \<Rightarrow> (string \<Rightarrow> delivery_profile option) option \<Rightarrow> qc_env \<Rightarrow> string \<Rightarrow> time \<Rightarrow> qc_request \<Rightarrow> ('s qc_world, qc_report) op"
where
  "run_qc R profiles en report_id now b =
     bind_op (pure_op (case qq_profile_id b of None \<Rightarrow> Inr (qq_assertions b)
       | Some pid \<Rightarrow> (case profiles of None \<Rightarrow> Inl (HTTPError 503 ''DELIVERY_PROFILE_SERVICE_UNAVAILABLE'')
           | Some get_by_id \<Rightarrow> (case get_by_id pid of None \<Rightarrow> Inl (HTTPError 404 ''DELIVERY_PROFILE_NOT_FOUND'')
               | Some p \<Rightarrow> Inr (Some (merge_assertions (build_assertions_from_profile (Some (dp_loudness p), Some (dp_true_peak p)))
                   (get_or [] (qq_assertions b)))))))) (\<lambda>merged.
     catch_op (run_checks R en report_id now (qq_artifact_path b) (qq_job_id b) (qq_profile_id b) merged)
       (\<lambda>e. if e = OSError then throw (HTTPError 422 ''ARTIFACT_NOT_FOUND'') else throw e))"

definition get_qc_report :: "'s report_repo \<Rightarrow> string \<Rightarrow> ('s qc_world, qc_report) op" where
  "get_qc_report R k = bind_op (on_reports (qrr_get_by_id R k)) (\<lambda>r. case r of
     None \<Rightarrow> throw (HTTPError 404 ''QC_REPORT_NOT_FOUND'') | Some r \<Rightarrow> ret r)"

definition get_render_job_qc :: "'s report_repo \<Rightarrow> string \<Rightarrow> ('s qc_world, qc_report) op" where
  "get_render_job_qc R j = bind_op (on_reports (qrr_latest R j)) (\<lambda>r. case r of
     None \<Rightarrow> throw (HTTPError 404 ''QC_REPORT_NOT_FOUND'') | Some r \<Rightarrow> ret r)"

end
