(* ===== verification/QC_Properties.thy ===== *)
theory QC_Properties
  imports QC_Service
begin

text \<open>
  What a quality control run reports: the contract of its repositories, the verdict, the events, and that a
  file without chapters cannot pass.
\<close>

subsection \<open>Reports are kept\<close>

locale report_store =
  fixes R :: "'s report_repo" and m :: "'s \<Rightarrow> string \<Rightarrow> qc_report option" and ok :: "'s \<Rightarrow> bool"
  assumes create_law: "ok s \<Longrightarrow> m s (qr_id r) = None \<Longrightarrow>
      \<exists>s'. qrr_create R r s = (Inr r, s') \<and> ok s' \<and> m s' = (m s)(qr_id r \<mapsto> r)"
    and get_law: "ok s \<Longrightarrow> qrr_get_by_id R k s = (Inr (m s k), s)"
    and latest_law: "ok s \<Longrightarrow> \<exists>l. qrr_latest R j s = (Inr l, s) \<and>
      (case l of None \<Rightarrow> \<forall>k r. m s k = Some r \<longrightarrow> qr_job_id r \<noteq> Some j
       | Some r \<Rightarrow> m s (qr_id r) = Some r \<and> qr_job_id r = Some j \<and>
           (\<forall>k q. m s k = Some q \<longrightarrow> qr_job_id q = Some j \<longrightarrow> qr_created_at q \<le> qr_created_at r))"

lemma hd_sorted_rev_greatest:
  assumes "sorted_rev f xs = x # ys"
  shows "x \<in> set xs \<and> (\<forall>y \<in> set xs. f y \<le> f x)"
proof -
  have "set xs = set (x # ys)" using assms by (metis set_sorted_rev)
  moreover have "sorted_wrt (\<ge>) (map f (x # ys))" using sorted_rev_descending [of f xs] assms by simp
  ultimately show ?thesis by auto
qed

definition sqq_ok :: "qc_report list \<Rightarrow> bool" where
  "sqq_ok rows \<longleftrightarrow> tbl_keys qr_id rows"

interpretation sqq: report_store sqq_repo "\<lambda>rows k. tbl_get qr_id k rows" sqq_ok
proof (unfold_locales, goal_cases)
  case (1 s r)
  have "(\<lambda>k. tbl_get qr_id k (s @ [r])) = (\<lambda>k. tbl_get qr_id k s)(qr_id r \<mapsto> r)"
    using 1(2) by (auto simp: tbl_get_append split: option.splits)
  with 1 show ?case by (simp add: sqq_repo_def sqq_create_def sqq_ok_def tbl_insert_def tbl_get_None del: fun_upd_apply)
next
  case (2 s k) then show ?case by (simp add: sqq_repo_def sqq_get_by_id_def)
next
  case (3 s j)
  show ?case
  proof (cases "sorted_rev qr_created_at (filter (\<lambda>r. qr_job_id r = Some j) s)")
    case Nil
    then have "filter (\<lambda>r. qr_job_id r = Some j) s = []" by (metis length_0_conv length_sorted_rev)
    then have "\<forall>r \<in> set s. qr_job_id r \<noteq> Some j" by (simp add: filter_empty_conv)
    with 3 Nil show ?thesis by (simp add: sqq_repo_def sqq_latest_def sqq_ok_def tbl_get_iff)
  next
    case (Cons r rs)
    from hd_sorted_rev_greatest [OF this] Cons 3 show ?thesis
      by (simp add: sqq_repo_def sqq_latest_def sqq_ok_def tbl_get_iff)
  qed
qed

definition mmq_ok :: "(string, qc_report) dict \<Rightarrow> bool" where
  "mmq_ok d \<longleftrightarrow> dict_all (\<lambda>k r. qr_id r = k) d"

lemma mmq_values: "mmq_ok d \<Longrightarrow> r \<in> set (dict_values d) \<longleftrightarrow> map_of d (qr_id r) = Some r"
  by (rule dict_all_values) (auto simp: mmq_ok_def)

interpretation mmq: report_store mmq_repo map_of mmq_ok
proof (unfold_locales, goal_cases)
  case (1 s r)
  then show ?case by (auto simp: mmq_repo_def mmq_create_def mmq_ok_def dict_set_map_of intro: dict_all_set)
next
  case (2 s k) then show ?case by (simp add: mmq_repo_def mmq_get_by_id_def)
next
  case (3 s j)
  have mem: "r \<in> set (dict_values s)" if "map_of s k = Some r" for k r
    using that mmq_values [OF 3, of r] dict_all_get [of "\<lambda>k r. qr_id r = k" s k r] 3 by (simp add: mmq_ok_def)
  show ?case
  proof (cases "filter (\<lambda>r. qr_job_id r = Some j) (dict_values s)")
    case Nil
    then have "\<forall>r \<in> set (dict_values s). qr_job_id r \<noteq> Some j" unfolding filter_empty_conv by blast
    with mem Nil show ?thesis by (auto simp: mmq_repo_def mmq_latest_def simp del: set_map)
  next
    case (Cons r rs)
    let ?a = "arg_min_list (\<lambda>r. - qr_created_at r) (r # rs)"
    have "?a \<in> set (filter (\<lambda>r. qr_job_id r = Some j) (dict_values s))" unfolding Cons by (rule arg_min_list_in) simp
    then have a: "?a \<in> set (dict_values s)" "qr_job_id ?a = Some j" by (simp_all del: arg_min_list.simps set_map)
    have "qr_created_at q \<le> qr_created_at ?a" if "map_of s k = Some q" "qr_job_id q = Some j" for k q
    proof -
      have "q \<in> set (r # rs)" using mem [OF that(1)] that(2) unfolding Cons [symmetric] by simp
      then have "- qr_created_at ?a \<le> - qr_created_at q"
        unfolding f_arg_min_list_f [of "r # rs" "\<lambda>r. - qr_created_at r", simplified] by (intro Min_le) auto
      then show ?thesis by simp
    qed
    with a mmq_values [OF 3, of ?a] Cons show ?thesis
      by (simp add: mmq_repo_def mmq_latest_def del: arg_min_list.simps)
  qed
qed

subsection \<open>A run\<close>

context report_store begin

lemma for_each_checks:
  "\<exists>es. for_each cs (announce_check i) s = (Inr (), s\<lparr>qw_events := qw_events s @ es\<rparr>) \<and> map fst es = replicate (length cs) QC_CHECK_COMPLETED"
proof (induction cs arbitrary: s)
  case Nil
  then show ?case by (intro exI [of _ "[]"]) simp
next
  case (Cons c cs)
  obtain e where e: "announce_check i c s = (Inr (), s\<lparr>qw_events := qw_events s @ [(QC_CHECK_COMPLETED, e)]\<rparr>)"
    by (cases c) (auto simp: announce_check_def qc_emit_def)
  obtain es where "for_each cs (announce_check i) (s\<lparr>qw_events := qw_events s @ [(QC_CHECK_COMPLETED, e)]\<rparr>) =
      (Inr (), s\<lparr>qw_events := qw_events s @ (QC_CHECK_COMPLETED, e) # es\<rparr>)" "map fst es = replicate (length cs) QC_CHECK_COMPLETED"
    using Cons.IH [of "s\<lparr>qw_events := qw_events s @ [(QC_CHECK_COMPLETED, e)]\<rparr>"] by auto
  with e show ?case by (intro exI [of _ "(QC_CHECK_COMPLETED, e) # es"]) (simp add: seq_op_run)
qed

lemma run_stores:
  assumes "ok (qw_reports s)" "m (qw_reports s) report_id = None" "qe_exists en path"
  shows "\<exists>r s'. run_checks R en report_id now path j pid a s = (Inr r, s') \<and> ok (qw_reports s') \<and> qr_id r = report_id \<and>
    m (qw_reports s') = (m (qw_reports s))(report_id \<mapsto> r) \<and> qr_job_id r = j \<and> qr_artifact_path r = path \<and>
    qr_verdict r = overall_verdict (all_checks en path (get_or [] a)) \<and> qr_checks r = qe_dumps en (all_checks en path (get_or [] a)) \<and>
    map fst (qw_events s') = map fst (qw_events s) @ [QC_STARTED] @ replicate 12 QC_CHECK_COMPLETED @ [QC_COMPLETED]"
proof -
  let ?cs = "all_checks en path (get_or [] a)"
  let ?r = "\<lparr>qr_id = report_id, qr_job_id = j, qr_artifact_path = path, qr_profile_id = pid,
                 qr_verdict = overall_verdict ?cs, qr_checks = qe_dumps en ?cs, qr_created_at = now\<rparr>"
  obtain t where t: "qrr_create R ?r (qw_reports s) = (Inr ?r, t)" "ok t" "m t = (m (qw_reports s))(report_id \<mapsto> ?r)"
    using create_law [OF assms(1), of ?r] assms(2) by auto
  obtain e1 where e1: "qc_emit QC_STARTED [(''report_id'', JStr report_id), (''artifact_path'', JStr path),
      (''delivery_profile_id'', json_opt JStr pid)] s = (Inr (), s\<lparr>qw_events := qw_events s @ [(QC_STARTED, e1)]\<rparr>)"
    by (simp add: qc_emit_def)
  obtain es where es: "for_each ?cs (announce_check report_id) (s\<lparr>qw_events := qw_events s @ [(QC_STARTED, e1)]\<rparr>) =
      (Inr (), s\<lparr>qw_events := qw_events s @ (QC_STARTED, e1) # es\<rparr>)" "map fst es = replicate (length ?cs) QC_CHECK_COMPLETED"
    using for_each_checks [of ?cs report_id "s\<lparr>qw_events := qw_events s @ [(QC_STARTED, e1)]\<rparr>"] by auto
  have "length ?cs = 12" by (simp add: all_checks_def ALL_CHECK_IDS_def)
  then show ?thesis
    using t e1 es assms(3) by (auto simp: run_checks_def Let_def seq_op_run on_reports_def qc_emit_def)
qed

end

subsection \<open>Verdicts\<close>

abbreviation check_of :: "qc_env \<Rightarrow> string \<Rightarrow> qc_assertions option \<Rightarrow> string \<Rightarrow> qc_check" where
  "check_of en path a i \<equiv> settled_check en i path (assertion_for (get_or [] a) i)"

lemma verdict_iff:
  "overall_verdict (all_checks en path (get_or [] a)) = ''pass'' \<longleftrightarrow>
     (\<exists>i \<in> set ALL_CHECK_IDS. qk_pass (check_of en path a i) = Some True) \<and>
     (\<forall>i \<in> set ALL_CHECK_IDS. qk_pass (check_of en path a i) \<noteq> Some False)"
proof -
  have val: "x \<noteq> Some False \<longleftrightarrow> x \<noteq> None \<longrightarrow> x = Some True" for x by (cases x) auto
  have "overall_verdict cs = ''pass'' \<longleftrightarrow> (\<exists>c \<in> snd ` set cs. qk_pass c \<noteq> None) \<and>
      (\<forall>c \<in> snd ` set cs. qk_pass c \<noteq> None \<longrightarrow> qk_pass c = Some True)" for cs
    by (simp add: overall_verdict_def Let_def filter_empty_conv list_all_iff)
  then have eq: "overall_verdict cs = ''pass'' \<longleftrightarrow> (\<exists>c \<in> snd ` set cs. qk_pass c = Some True) \<and>
      (\<forall>c \<in> snd ` set cs. qk_pass c \<noteq> Some False)" for cs
    unfolding val by (metis option.distinct(1))
  show ?thesis unfolding eq by (simp add: all_checks_def image_image)
qed

text \<open>
  C30. A run over a file that exists always ends with a stored report and its events in order: one for the start,
  one for each of the twelve checks, one for the end. The verdict is a pass exactly when some check passed and
  none failed, a check that raised counting as failed.
\<close>

theorem qc_run_exact:
  assumes "sqq_ok (qw_reports s)" "tbl_get qr_id report_id (qw_reports s) = None" "qe_exists en path"
  shows "\<exists>r s'. run_checks sqq_repo en report_id now path j pid a s = (Inr r, s') \<and> sqq_ok (qw_reports s') \<and>
    (\<lambda>k. tbl_get qr_id k (qw_reports s')) = (\<lambda>k. tbl_get qr_id k (qw_reports s))(report_id \<mapsto> r) \<and>
    qr_checks r = qe_dumps en (map (\<lambda>i. (i, check_of en path a i)) ALL_CHECK_IDS) \<and>
    (qr_verdict r = ''pass'' \<longleftrightarrow> (\<exists>i \<in> set ALL_CHECK_IDS. qk_pass (check_of en path a i) = Some True) \<and>
       (\<forall>i \<in> set ALL_CHECK_IDS. qk_pass (check_of en path a i) \<noteq> Some False)) \<and>
    map fst (qw_events s') = map fst (qw_events s) @ [QC_STARTED] @ replicate 12 QC_CHECK_COMPLETED @ [QC_COMPLETED]"
  using sqq.run_stores [OF assms, where now = now and j = j and pid = pid and a = a] unfolding all_checks_def
  by (auto simp: verdict_iff [unfolded all_checks_def])

definition demo_qc :: "string \<Rightarrow> qc_env" where
  "demo_qc chapters = \<lparr>qe_rust = True, qe_exists = (\<lambda>p. p = ''/out/a.mp4''), qe_ffmpeg = (\<lambda>_. Inr ([], ''log'', 0)),
     qe_ffprobe = (\<lambda>args. Inr (if ''-show_chapters'' \<in> set args then chapters else ''s'', [], 0)),
     qe_loudness = (\<lambda>_. Inr \<lparr>lr_integrated = - 14, lr_lra = 5, lr_true_peak = - 2\<rparr>), qe_peak = (\<lambda>_. Inr (- 2, 0)),
     qe_silence = (\<lambda>_. Inr 0), qe_spectral = (\<lambda>_. Inr [1]),
     qe_loads = (\<lambda>t. if t = ''s'' then Some (JObj [(''streams'', JList [JObj [(''codec_type'', JStr ''audio'')], JObj [(''codec_type'', JStr ''video'')]])])
       else if t = ''one'' then Some (JObj [(''chapters'', JList [JObj [(''start_time'', JInt 0)]])])
       else Some (JObj [(''chapters'', JList [])])),
     qe_float = (\<lambda>_. None), qe_strip = (\<lambda>l. l), qe_lines = (\<lambda>t. [t]), qe_dumps = (\<lambda>_. ''{}'')\<rparr>"

definition demo_qw :: "qc_report list qc_world" where
  "demo_qw = \<lparr>qw_reports = [], qw_events = []\<rparr>"

definition demo_targets :: qc_assertions where
  "demo_targets = [(''loudness_integrated'', Some (- 14)), (''true_peak'', Some (- 1))]"

theorem qc_run_exact_witness:
  "\<exists>r s'. run_checks sqq_repo (demo_qc ''one'') ''r'' 1 ''/out/a.mp4'' None None (Some demo_targets) demo_qw = (Inr r, s') \<and> qr_verdict r = ''pass''"
proof -
  have "sqq_ok (qw_reports demo_qw)" "tbl_get qr_id ''r'' (qw_reports demo_qw) = None" "qe_exists (demo_qc ''one'') ''/out/a.mp4''"
    by (simp_all add: sqq_ok_def demo_qw_def tbl_get_def demo_qc_def)
  moreover have "list_ex (\<lambda>i. qk_pass (check_of (demo_qc ''one'') ''/out/a.mp4'' (Some demo_targets) i) = Some True) ALL_CHECK_IDS"
    "list_all (\<lambda>i. qk_pass (check_of (demo_qc ''one'') ''/out/a.mp4'' (Some demo_targets) i) \<noteq> Some False) ALL_CHECK_IDS"
    by code_simp+
  ultimately show ?thesis
    using qc_run_exact [of demo_qw "''r''" "demo_qc ''one''" "''/out/a.mp4''" 1 None None "Some demo_targets"]
    unfolding list_ex_iff list_all_iff by blast
qed

text \<open>ffprobe finds no chapter in a file.\<close>

definition no_chapters :: "qc_env \<Rightarrow> string \<Rightarrow> bool" where
  "no_chapters en path \<longleftrightarrow> (case qe_ffprobe en [''-v'', ''quiet'', ''-print_format'', ''json'', ''-show_chapters'', path] of
     Inl e \<Rightarrow> True
   | Inr (out, _, rc) \<Rightarrow> rc \<noteq> 0 \<or> (case qe_loads en out of None \<Rightarrow> True
       | Some v \<Rightarrow> json_get_or ''chapters'' (JList []) v \<in> {Inr (JList []), Inl AttributeError}))"

lemma chapters_fail:
  assumes "no_chapters en path"
  shows "qk_pass (settled_check en ''chapters_present'' path None) = Some False"
  using assms
  by (auto simp: no_chapters_def settled_check_def run_check_def qc_dispatch_def check_chapters_present_def json_loads_def
      or_null_check_def null_check_def make_check_def get_or_def Let_def split: sum.splits option.splits if_splits)

text \<open>
  A file without chapters never passes: the check for chapters demands one even when nothing asks for it, so a
  delivery profile, which only sets loudness and peak, fails every such file however it sounds.
\<close>

theorem profile_qc_demands_chapters:
  assumes "sqq_ok (qw_reports s)" "tbl_get qr_id report_id (qw_reports s) = None" "qe_exists en (qq_artifact_path b)"
    and "no_chapters en (qq_artifact_path b)" "qq_profile_id b = Some pid" "get_by_id pid = Some p" "qq_assertions b = None"
  shows "\<exists>r s'. run_qc sqq_repo (Some get_by_id) en report_id now b s = (Inr r, s') \<and> qr_verdict r = ''fail'' \<and>
    tbl_get qr_id report_id (qw_reports s') = Some r"
proof -
  let ?a = "Some (build_assertions_from_profile (Some (dp_loudness p), Some (dp_true_peak p)))"
  obtain r s' where run: "run_checks sqq_repo en report_id now (qq_artifact_path b) (qq_job_id b) (qq_profile_id b) ?a s = (Inr r, s')"
    "(\<lambda>k. tbl_get qr_id k (qw_reports s')) = (\<lambda>k. tbl_get qr_id k (qw_reports s))(report_id \<mapsto> r)"
    "qr_verdict r = overall_verdict (all_checks en (qq_artifact_path b) (get_or [] ?a))"
    using sqq.run_stores [OF assms(1-3), where now = now and j = "qq_job_id b" and pid = "qq_profile_id b" and a = ?a] by blast
  have "assertion_for (get_or [] ?a) ''chapters_present'' = None"
    by (simp add: assertion_for_def build_assertions_from_profile_def get_or_def)
  then have "qk_pass (check_of en (qq_artifact_path b) ?a ''chapters_present'') = Some False" using chapters_fail [OF assms(4)] by simp
  moreover have "''chapters_present'' \<in> set ALL_CHECK_IDS" by (simp add: ALL_CHECK_IDS_def)
  ultimately have "qr_verdict r \<noteq> ''pass''" unfolding run(3) verdict_iff by blast
  then have "qr_verdict r = ''fail''" unfolding run(3) by (simp add: overall_verdict_def Let_def split: if_splits)
  moreover have "run_qc sqq_repo (Some get_by_id) en report_id now b s = (Inr r, s')"
    using run(1) assms(5-7) by (simp add: run_qc_def bind_op_run catch_op_run merge_assertions_def get_or_def pure_op_def)
  ultimately show ?thesis using fun_cong [OF run(2), of report_id] by auto
qed

definition demo_profile :: delivery_profile where
  "demo_profile = \<lparr>dp_id = ''p'', dp_name = ''podcast'', dp_output_formats = [\<lparr>fs_container = ''mp4'', fs_codec = ''h264'', fs_bitrate_kbps = 1000\<rparr>],
     dp_loudness = - 14, dp_true_peak = - 1, dp_metadata = None, dp_created_at = 0\<rparr>"

definition demo_qc_request :: qc_request where
  "demo_qc_request = \<lparr>qq_artifact_path = ''/out/a.mp4'', qq_job_id = None, qq_profile_id = Some ''p'', qq_assertions = None\<rparr>"

theorem profile_qc_demands_chapters_witness:
  "\<exists>r s'. run_qc sqq_repo (Some [''p'' \<mapsto> demo_profile]) (demo_qc ''none'') ''r'' 1 demo_qc_request demo_qw = (Inr r, s') \<and> qr_verdict r = ''fail''"
proof -
  have "sqq_ok (qw_reports demo_qw)" "tbl_get qr_id ''r'' (qw_reports demo_qw) = None"
    "qe_exists (demo_qc ''none'') (qq_artifact_path demo_qc_request)" "no_chapters (demo_qc ''none'') (qq_artifact_path demo_qc_request)"
    "qq_profile_id demo_qc_request = Some ''p''" "[''p'' \<mapsto> demo_profile] ''p'' = Some demo_profile" "qq_assertions demo_qc_request = None"
    by (simp_all add: sqq_ok_def demo_qw_def tbl_get_def demo_qc_def demo_qc_request_def no_chapters_def)
  from profile_qc_demands_chapters [where get_by_id = "[''p'' \<mapsto> demo_profile]" and now = 1, OF this] show ?thesis by blast
qed

end
