(* ===== verification/Render_Requests.thy ===== *)
theory Render_Requests
  imports QC_Service Media_Store Render_Command
begin

text \<open>
  The requests on renders: \<open>src/stoat_ferret/api/routers/render.py\<close> with \<open>api/schemas/render.py\<close>, but for the
  encoders, which are \<open>Encoder_Cache\<close>. A request for a render works on the service and on the repositories
  of projects and clips; all others work on the service. What \<open>app.state\<close> may hold is an option of the
  environment. Clocks, ids and tokens are arguments; logging and the messages of errors are left out.
\<close>

record render_env =
  rv_sv :: sv_env
  rv_dumps :: "json_value \<Rightarrow> string"
  rv_output_dir :: string
  rv_mkdir :: "exn + unit"
  rv_profiles :: "(string \<Rightarrow> delivery_profile option) option"
  rv_qc :: "(string \<Rightarrow> string \<Rightarrow> (string, rat option) dict \<Rightarrow> exn + string \<times> string) option"
  rv_evidence_access :: bool
  rv_environ :: "(string \<times> string) list"

record 's render_world =
  wd_service :: service
  wd_media :: 's

definition on_service :: "(service, 'a) op \<Rightarrow> ('s render_world, 'a) op" where
  "on_service m w = (case m (wd_service w) of (r, s) \<Rightarrow> (r, w\<lparr>wd_service := s\<rparr>))"

definition on_media :: "('s, 'a) op \<Rightarrow> ('s render_world, 'a) op" where
  "on_media m w = (case m (wd_media w) of (r, s) \<Rightarrow> (r, w\<lparr>wd_media := s\<rparr>))"

subsection \<open>Formats, codecs and presets\<close>

definition QUALITY_PRESET_MAP :: "(string, string) dict" where
  "QUALITY_PRESET_MAP = [(''draft'', ''veryfast''), (''standard'', ''medium''), (''high'', ''slow'')]"

definition CODEC_ENCODER_MAP :: "(string, string) dict" where
  "CODEC_ENCODER_MAP = [(''h264'', ''libx264''), (''h265'', ''libx265''), (''vp8'', ''libvpx''), (''vp9'', ''libvpx-vp9''),
     (''prores'', ''prores_ks''), (''av1'', ''libaom-av1'')]"

definition QUALITY_PRESETS :: "(string, (string \<times> int) list) dict" where
  "QUALITY_PRESETS =
     [(''h264'', [(''draft'', 1500), (''standard'', 5000), (''high'', 15000)]),
      (''h265'', [(''draft'', 1000), (''standard'', 3500), (''high'', 10000)]),
      (''vp8'', [(''draft'', 1500), (''standard'', 5000), (''high'', 12000)]),
      (''vp9'', [(''draft'', 1000), (''standard'', 3500), (''high'', 10000)]),
      (''prores'', [(''draft'', 30000), (''standard'', 60000), (''high'', 120000)]),
      (''av1'', [(''draft'', 2000), (''standard'', 4000), (''high'', 8000)])]"

record codec_info =
  cdi_name :: string
  cdi_encoder :: string
  cdi_quality_presets :: "(string \<times> int) list"

record format_info =
  fi_format :: string
  fi_extension :: string
  fi_mime_type :: string
  fi_codecs :: "codec_info list"
  fi_supports_hw_accel :: bool
  fi_supports_two_pass :: bool
  fi_supports_alpha :: bool

definition codec_info_of :: "string \<Rightarrow> codec_info" where
  "codec_info_of name = \<lparr>cdi_name = name, cdi_encoder = the (map_of CODEC_ENCODER_MAP name),
     cdi_quality_presets = the (map_of QUALITY_PRESETS name)\<rparr>"

definition FORMAT_DATA :: "format_info list" where
  "FORMAT_DATA =
     [\<lparr>fi_format = ''mp4'', fi_extension = ''.mp4'', fi_mime_type = ''video/mp4'', fi_codecs = map codec_info_of [''h264'', ''h265''],
        fi_supports_hw_accel = True, fi_supports_two_pass = True, fi_supports_alpha = False\<rparr>,
      \<lparr>fi_format = ''webm'', fi_extension = ''.webm'', fi_mime_type = ''video/webm'', fi_codecs = map codec_info_of [''vp8'', ''vp9''],
        fi_supports_hw_accel = False, fi_supports_two_pass = True, fi_supports_alpha = True\<rparr>,
      \<lparr>fi_format = ''mov'', fi_extension = ''.mov'', fi_mime_type = ''video/quicktime'', fi_codecs = map codec_info_of [''h264'', ''prores''],
        fi_supports_hw_accel = True, fi_supports_two_pass = True, fi_supports_alpha = True\<rparr>,
      \<lparr>fi_format = ''mkv'', fi_extension = ''.mkv'', fi_mime_type = ''video/x-matroska'',
        fi_codecs = map codec_info_of [''h264'', ''h265'', ''vp9'', ''av1''],
        fi_supports_hw_accel = True, fi_supports_two_pass = True, fi_supports_alpha = True\<rparr>]"

definition get_output_formats :: "format_info list" where
  "get_output_formats = FORMAT_DATA"

definition starts_with :: "string \<Rightarrow> string \<Rightarrow> bool" where
  "starts_with p s \<longleftrightarrow> take (length p) s = p"

definition encoder_codec_family :: "string \<Rightarrow> string option" where
  "encoder_codec_family encoder =
     (case map_of [(''libx264'', ''h264''), (''libx265'', ''h265''), (''libvpx'', ''vp8''), (''libvpx-vp9'', ''vp9''),
         (''prores_ks'', ''prores''), (''libaom-av1'', ''av1'')] encoder of
        Some family \<Rightarrow> Some family
      | None \<Rightarrow> if starts_with ''h264_'' encoder then Some ''h264''
                else if starts_with ''hevc_'' encoder then Some ''h265'' else None)"

definition incompatible :: "string \<Rightarrow> string \<Rightarrow> bool" where
  "incompatible fmt encoder \<longleftrightarrow> (case List.find (\<lambda>f. fi_format f = fmt) FORMAT_DATA of
     None \<Rightarrow> False
   | Some info \<Rightarrow> (case encoder_codec_family encoder of
       None \<Rightarrow> False | Some family \<Rightarrow> family \<notin> set (map cdi_name (fi_codecs info))))"

definition validate_encoder_compatibility :: "string \<Rightarrow> string option \<Rightarrow> exn + unit" where
  "validate_encoder_compatibility fmt encoder = (case encoder of
     None \<Rightarrow> Inr ()
   | Some e \<Rightarrow> if incompatible fmt e then Inl (HTTPError 422 ''INCOMPATIBLE_FORMAT_ENCODER'') else Inr ())"

subsection \<open>The plan of a request\<close>

record render_create =
  rc_project_id :: string
  rc_output_format :: string
  rc_quality_preset :: string
  rc_encoder :: "string option"
  rc_render_plan :: string
  rc_delivery_profile :: "string option"

text \<open>\<open>"settings" in plan\<close>, \<open>plan.setdefault("settings", {})\<close> and \<open>plan["settings"][k] = v\<close> for any parsed value.\<close>

fun has_settings :: "json_value \<Rightarrow> exn + bool" where
  "has_settings (JObj d) = Inr (map_of d ''settings'' \<noteq> None)"
| "has_settings (JList xs) = Inr (JStr ''settings'' \<in> set xs)"
| "has_settings (JStr t) = Inr (contains ''settings'' t)"
| "has_settings (JIso t) = Inr False"
| "has_settings (JIsoNaive t) = Inr False"
| "has_settings _ = Inl TypeError"

fun default_settings :: "json_value \<Rightarrow> exn + json_value" where
  "default_settings (JObj d) = Inr (case map_of d ''settings'' of None \<Rightarrow> JObj (AList.update ''settings'' (JObj []) d) | Some _ \<Rightarrow> JObj d)"
| "default_settings _ = Inl AttributeError"

fun set_setting :: "string \<times> json_value \<Rightarrow> json_value \<Rightarrow> exn + json_value" where
  "set_setting (k, v) (JObj d) = (case map_of d ''settings'' of
     None \<Rightarrow> Inl KeyError
   | Some (JObj st) \<Rightarrow> Inr (JObj (AList.update ''settings'' (JObj (AList.update k v st)) d))
   | Some _ \<Rightarrow> Inl TypeError)"
| "set_setting _ _ = Inl TypeError"

fun set_settings :: "(string \<times> json_value) list \<Rightarrow> json_value \<Rightarrow> exn + json_value" where
  "set_settings [] plan = Inr plan"
| "set_settings (kv # kvs) plan = sum_bind (set_setting kv plan) (set_settings kvs)"

definition validate_and_translate_plan ::
  "render_env \<Rightarrow> render_create \<Rightarrow> exn + output_format \<times> quality_preset \<times> json_value \<times> string" where
  "validate_and_translate_plan rv b = (case of_of_value (rc_output_format b) of
     Inl _ \<Rightarrow> Inl (HTTPError 400 ''INVALID_FORMAT'')
   | Inr fmt \<Rightarrow> (case qp_of_value (rc_quality_preset b) of
     Inl _ \<Rightarrow> Inl (HTTPError 400 ''INVALID_PRESET'')
   | Inr preset \<Rightarrow> (case map_of QUALITY_PRESET_MAP (qp_value preset) of
     None \<Rightarrow> Inl KeyError
   | Some ffmpeg_preset \<Rightarrow> (case en_loads (rv_sv rv) (rc_render_plan b) of
     None \<Rightarrow> Inl (HTTPError 400 ''INVALID_RENDER_PLAN'')
   | Some plan \<Rightarrow> sum_bind (has_settings plan) (\<lambda>present.
       if \<not> present then Inl (HTTPError 422 ''PREFLIGHT_FAILED'')
       else sum_bind (default_settings plan) (\<lambda>plan.
            sum_bind (set_setting (''quality_preset'', JStr ffmpeg_preset) plan) (\<lambda>plan.
              Inr (fmt, preset, plan, rv_dumps rv plan))))))))"

definition resolve_delivery_profile :: "render_env \<Rightarrow> string option \<Rightarrow> exn + delivery_profile option" where
  "resolve_delivery_profile rv name = (case name of
     None \<Rightarrow> Inr None
   | Some n \<Rightarrow> (case rv_profiles rv of
       None \<Rightarrow> Inl (HTTPError 422 ''DELIVERY_PROFILE_NOT_FOUND'')
     | Some get_by_name \<Rightarrow> (case get_by_name n of
         None \<Rightarrow> Inl (HTTPError 422 ''DELIVERY_PROFILE_NOT_FOUND'')
       | Some p \<Rightarrow> Inr (Some p))))"

text \<open>What a request adds to the settings: the size and audio of the project, the title of the profile's template,
  the profile and the transitions.\<close>

definition int_or :: "int \<Rightarrow> int \<Rightarrow> int" where
  "int_or dflt i = (if i = 0 then dflt else i)"

definition template_title :: "delivery_profile option \<Rightarrow> (string \<times> json_value) list" where
  "template_title profile = (case profile of None \<Rightarrow> [] | Some p \<Rightarrow> (case dp_metadata p of None \<Rightarrow> [] | Some template \<Rightarrow>
     (case map_of template ''title'' of None \<Rightarrow> []
      | Some t \<Rightarrow> if json_truthy t then [(''metadata_title'', t)] else [])))"

definition injected :: "project \<Rightarrow> delivery_profile option \<Rightarrow> (string \<times> json_value) list" where
  "injected p profile =
     [(''width'', JInt (int_or 1920 (pj_output_width p))), (''height'', JInt (int_or 1080 (pj_output_height p))),
      (''fps'', JInt (int_or 30 (pj_output_fps p))),
      (''audio_sample_rate'', JInt (pj_sample_rate p)), (''audio_bit_depth'', JInt (pj_bit_depth p))]
     @ template_title profile
     @ (case profile of None \<Rightarrow> [] | Some d \<Rightarrow> [(''delivery_profile_id'', JStr (dp_id d))])
     @ [(''transitions'', JList (map JObj (get_or [] (pj_transitions p))))]"

definition render_output_path :: "render_env \<Rightarrow> string \<Rightarrow> string \<Rightarrow> output_format \<Rightarrow> string" where
  "render_output_path rv project_id token fmt =
     rv_output_dir rv @ ''/'' @ project_id @ ''_'' @ token @ ''.'' @ of_value fmt"

subsection \<open>Starting a render\<close>

record job_response =
  jrs_id :: string
  jrs_project_id :: string
  jrs_status :: string
  jrs_output_path :: string
  jrs_output_format :: string
  jrs_quality_preset :: string
  jrs_progress :: rat
  jrs_error_message :: "string option"
  jrs_retry_count :: int
  jrs_created_at :: time
  jrs_updated_at :: time
  jrs_completed_at :: "time option"
  jrs_partial_file_detected :: bool

definition job_to_response :: "render_job \<Rightarrow> job_response" where
  "job_to_response j = \<lparr>jrs_id = rj_id j, jrs_project_id = rj_project_id j, jrs_status = rs_value (rj_status j),
     jrs_output_path = rj_output_path j, jrs_output_format = of_value (rj_output_format j),
     jrs_quality_preset = qp_value (rj_quality_preset j), jrs_progress = rj_progress j,
     jrs_error_message = rj_error_message j, jrs_retry_count = rj_retry_count j, jrs_created_at = rj_created_at j,
     jrs_updated_at = rj_updated_at j, jrs_completed_at = rj_completed_at j,
     jrs_partial_file_detected = rj_partial_file_detected j\<rparr>"

text \<open>A missing artifact, the case of a run without FFmpeg, skips the gate.\<close>

definition apply_qc_gate :: "render_env \<Rightarrow> time \<Rightarrow> delivery_profile option \<Rightarrow> render_job \<Rightarrow> (service, render_job) op" where
  "apply_qc_gate rv now profile job = (case profile of
     None \<Rightarrow> ret job
   | Some p \<Rightarrow> if rj_status job \<noteq> R_COMPLETED then ret job
     else (case rv_qc rv of
       None \<Rightarrow> ret job
     | Some checker \<Rightarrow> catch_op
         (bind_op (pure_op (checker (rj_output_path job) (rj_id job)
                    (build_assertions_from_profile (Some (dp_loudness p), Some (dp_true_peak p)))))
           (\<lambda>(verdict, checks).
              if verdict = ''pass'' then ret job
              else bind_op (pure_op (sum_bind (json_loads (en_loads (rv_sv rv)) checks) (\<lambda>v. sum_bind (json_items v) failed_ids)))
                (\<lambda>ids. seq_op (on_jobs (sql_update_status now (rj_id job) R_QC_FAILED (Some (qc_error_message ids))))
                   (bind_op (on_jobs (sql_get (rj_id job))) (\<lambda>refreshed. ret (get_or job refreshed))))))
         (\<lambda>e. if e = OSError then ret job else throw e)))"

text \<open>Errors of the service that the request translates.\<close>

definition submit_error :: "exn \<Rightarrow> exn" where
  "submit_error e = (if e = RenderUnavailableError then HTTPError 503 ''RENDER_UNAVAILABLE''
     else if e = PreflightError then HTTPError 422 ''PREFLIGHT_FAILED'' else e)"

definition create_render_job ::
  "render_env \<Rightarrow> 's media_repos \<Rightarrow> (nat \<Rightarrow> time) \<Rightarrow> string \<Rightarrow> string \<Rightarrow> render_create \<Rightarrow> ('s render_world, job_response) op" where
  "create_render_job rv R clk new_id token b =
     bind_op (pure_op (validate_and_translate_plan rv b)) (\<lambda>(fmt, preset, plan, _).
     seq_op (pure_op (validate_encoder_compatibility (rc_output_format b) (rc_encoder b)))
    (bind_op (pure_op (resolve_delivery_profile rv (rc_delivery_profile b))) (\<lambda>profile.
     bind_op (on_media (pjr_get (mx_projects R) (rc_project_id b))) (\<lambda>found. case found of
       None \<Rightarrow> throw (HTTPError 404 ''PROJECT_NOT_FOUND'')
     | Some p \<Rightarrow>
         bind_op (pure_op (set_settings (injected p profile) plan)) (\<lambda>plan.
         bind_op (on_media (clr_list_by_project (mx_clips R) (rc_project_id b))) (\<lambda>clips.
           if clips = [] then throw (HTTPError 422 ''EMPTY_TIMELINE'')
           else seq_op (pure_op (rv_mkdir rv))
            (bind_op (catch_op (on_service (submit_job (rv_sv rv) clk new_id (rc_project_id b)
                  (render_output_path rv (rc_project_id b) token fmt) fmt preset (rv_dumps rv plan)))
                (\<lambda>e. throw (submit_error e)))
              (\<lambda>job. bind_op (on_service (apply_qc_gate rv (clk 4) profile job)) (\<lambda>job. ret (job_to_response job))))))))))"

subsection \<open>Reading\<close>

definition get_render_job :: "string \<Rightarrow> (service, job_response) op" where
  "get_render_job job_id = bind_op (on_jobs (sql_get job_id)) (\<lambda>found. case found of
     None \<Rightarrow> throw (HTTPError 404 ''NOT_FOUND'') | Some j \<Rightarrow> ret (job_to_response j))"

definition list_render_jobs ::
  "int \<Rightarrow> int \<Rightarrow> string option \<Rightarrow> (service, job_response list \<times> nat \<times> int \<times> int) op" where
  "list_render_jobs lmt off status_filter =
     (if \<not> (1 \<le> lmt \<and> lmt \<le> 100 \<and> 0 \<le> off) then throw (HTTPError 422 ''VALIDATION'')
      else bind_op (pure_op (case status_filter of
          None \<Rightarrow> Inr None
        | Some v \<Rightarrow> (case rs_of_value v of Inl _ \<Rightarrow> Inl (HTTPError 400 ''INVALID_STATUS'') | Inr st \<Rightarrow> Inr (Some st))))
        (\<lambda>st. bind_op (on_jobs (sql_list_jobs st lmt off)) (\<lambda>(js, n). ret (map job_to_response js, n, lmt, off))))"

text \<open>\<open>usage\<close> is the disk usage of the output directory: total and free bytes.\<close>

record queue_status =
  qs_active_count :: nat
  qs_pending_count :: nat
  qs_max_concurrent :: int
  qs_max_queue_depth :: int
  qs_disk_available :: int
  qs_disk_total :: int
  qs_completed_today :: nat
  qs_failed_today :: nat

definition day_us :: int where "day_us = 86400000000"

definition ended_since :: "time \<Rightarrow> render_job list \<Rightarrow> nat" where
  "ended_since midnight js = length (filter (\<lambda>j. case rj_completed_at j of None \<Rightarrow> False | Some t \<Rightarrow> midnight \<le> t) js)"

definition get_queue_status :: "render_env \<Rightarrow> exn + int \<times> int \<Rightarrow> time \<Rightarrow> (service, queue_status) op" where
  "get_queue_status rv usage now =
     bind_op (on_jobs (rq_active_count sql_repo)) (\<lambda>active_count.
     bind_op (on_jobs (rq_queue_depth sql_repo)) (\<lambda>pending_count.
     seq_op (pure_op (rv_mkdir rv))
    (bind_op (pure_op usage) (\<lambda>(disk_total, disk_free).
     let midnight = now - now mod day_us in
     bind_op (on_jobs (sql_list_by_status R_COMPLETED)) (\<lambda>completed.
     bind_op (on_jobs (sql_list_by_status R_FAILED)) (\<lambda>failed.
       ret \<lparr>qs_active_count = active_count, qs_pending_count = pending_count,
         qs_max_concurrent = en_max_concurrent (rv_sv rv), qs_max_queue_depth = en_max_depth (rv_sv rv),
         qs_disk_available = disk_free, qs_disk_total = disk_total,
         qs_completed_today = ended_since midnight completed, qs_failed_today = ended_since midnight failed\<rparr>))))))"

definition get_render_frame_preview :: "string \<Rightarrow> (service, string) op" where
  "get_render_frame_preview job_id = bind_op (read_op (get_frame_bytes job_id)) (\<lambda>frame. case frame of
     None \<Rightarrow> throw (HTTPError 404 ''FRAME_UNAVAILABLE'') | Some bytes \<Rightarrow> ret bytes)"

subsection \<open>Evidence\<close>

definition stoat_values :: "(string \<times> string) list \<Rightarrow> string list" where
  "stoat_values environ = map snd (filter (\<lambda>(k, v). starts_with ''STOAT_'' k \<and> v \<noteq> []) environ)"

definition redact_command_args :: "(string \<times> string) list \<Rightarrow> string list \<Rightarrow> string list" where
  "redact_command_args environ args =
     map (\<lambda>arg. if starts_with ''sk-or-v1-'' arg \<or> arg \<noteq> [] \<and> arg \<in> set (stoat_values environ) then ''[REDACTED]'' else arg) args"

fun json_strings :: "json_value list \<Rightarrow> exn + string list" where
  "json_strings [] = Inr []"
| "json_strings (JStr t # xs) = sum_bind (json_strings xs) (\<lambda>ts. Inr (t # ts))"
| "json_strings (_ # xs) = Inl TypeError"

record evidence_response =
  evr_job_id :: string
  evr_command_args :: "string list"
  evr_exit_code :: json_value
  evr_stderr_tail :: json_value
  evr_output_path :: json_value
  evr_output_size_bytes :: json_value
  evr_filter_script_path :: json_value

definition json_or :: "json_value \<Rightarrow> json_value \<Rightarrow> json_value" where
  "json_or dflt v = (if json_truthy v then v else dflt)"

definition read_evidence :: "render_env \<Rightarrow> string \<Rightarrow> string \<Rightarrow> exn + evidence_response" where
  "read_evidence rv job_id text =
     sum_bind (json_loads (en_loads (rv_sv rv)) text) (\<lambda>evidence.
     sum_bind (json_get ''command_args'' evidence) (\<lambda>raw.
     sum_bind (json_elements (json_or (JList []) raw)) (\<lambda>elements.
     sum_bind (json_strings elements) (\<lambda>raw_args.
     sum_bind (json_get ''exit_code'' evidence) (\<lambda>exit_code.
     sum_bind (json_get ''stderr_tail'' evidence) (\<lambda>stderr_tail.
     sum_bind (json_get ''output_path'' evidence) (\<lambda>output_path.
     sum_bind (json_get ''output_size_bytes'' evidence) (\<lambda>output_size.
     sum_bind (json_get ''filter_script_path'' evidence) (\<lambda>script.
       Inr \<lparr>evr_job_id = job_id, evr_command_args = redact_command_args (rv_environ rv) raw_args,
         evr_exit_code = exit_code, evr_stderr_tail = json_or (JStr []) stderr_tail,
         evr_output_path = json_or (JStr []) output_path, evr_output_size_bytes = output_size,
         evr_filter_script_path = script\<rparr>)))))))))"

definition get_render_job_evidence :: "render_env \<Rightarrow> string \<Rightarrow> (service, evidence_response) op" where
  "get_render_job_evidence rv job_id =
     (if \<not> rv_evidence_access rv then throw (HTTPError 403 ''EVIDENCE_ACCESS_DISABLED'')
      else bind_op (on_jobs (sql_get job_id)) (\<lambda>found. case found of
        None \<Rightarrow> throw (HTTPError 404 ''NOT_FOUND'')
      | Some j \<Rightarrow> (case rj_evidence_json j of
          None \<Rightarrow> throw (HTTPError 404 ''EVIDENCE_NOT_FOUND'')
        | Some text \<Rightarrow> pure_op (read_evidence rv job_id text))))"

subsection \<open>Cancelling, retrying, deleting\<close>

text \<open>\<open>mid\<close> is what other tasks do while the process is stopped, as for \<open>cancel_job\<close>. The response is made from
  what is read again afterwards; a job gone meanwhile has no attributes.\<close>

definition respond_again :: "string \<Rightarrow> (service, job_response) op" where
  "respond_again job_id = bind_op (on_jobs (sql_get job_id)) (\<lambda>updated. case updated of
     None \<Rightarrow> throw AttributeError | Some j \<Rightarrow> ret (job_to_response j))"

definition cancel_render_job ::
  "render_env \<Rightarrow> (nat \<Rightarrow> time) \<Rightarrow> (service \<Rightarrow> service) \<Rightarrow> string \<Rightarrow> (service, job_response) op" where
  "cancel_render_job rv clk mid job_id =
     bind_op (on_jobs (sql_get job_id)) (\<lambda>found. case found of
       None \<Rightarrow> throw (HTTPError 404 ''NOT_FOUND'')
     | Some j \<Rightarrow>
         if rj_status j \<notin> {R_QUEUED, R_RUNNING} then throw (HTTPError 409 ''NOT_CANCELLABLE'')
         else bind_op (catch_op (cancel_job (rv_sv rv) clk mid job_id)
                (\<lambda>e. case e of CancelPreemptedError v \<Rightarrow> throw (HTTPError 409 ''NOT_CANCELLABLE'') | _ \<Rightarrow> throw e))
           (\<lambda>cancelled. if \<not> cancelled then throw (HTTPError 409 ''CANCEL_FAILED'') else respond_again job_id))"

definition retry_render_job :: "render_env \<Rightarrow> time \<Rightarrow> string \<Rightarrow> (service, job_response) op" where
  "retry_render_job rv now job_id =
     bind_op (on_jobs (sql_get job_id)) (\<lambda>found. case found of
       None \<Rightarrow> throw (HTTPError 404 ''NOT_FOUND'')
     | Some j \<Rightarrow>
         if rj_status j \<noteq> R_FAILED then throw (HTTPError 409 ''NOT_RETRYABLE'')
         else if en_max_retries (rv_sv rv) \<le> rj_retry_count j then throw (HTTPError 409 ''PERMANENT_FAILURE'')
         else seq_op (on_jobs (sql_update_status now job_id R_QUEUED None)) (respond_again job_id))"

definition delete_render_job :: "string \<Rightarrow> (service, job_response) op" where
  "delete_render_job job_id =
     bind_op (on_jobs (sql_get job_id)) (\<lambda>found. case found of
       None \<Rightarrow> throw (HTTPError 404 ''NOT_FOUND'')
     | Some j \<Rightarrow> bind_op (on_jobs (sql_delete job_id)) (\<lambda>deleted.
         if \<not> deleted then throw (HTTPError 404 ''NOT_FOUND'') else ret (job_to_response j)))"

subsection \<open>The command preview\<close>

text \<open>The settings the Rust core accepts, and the command it builds (\<open>render/plan.rs\<close>, \<open>render/command.rs\<close>,
  \<open>render/encoder.rs\<close>), here for software encoders, the only ones the request makes. \<open>fixed6\<close> and \<open>shown\<close> are
  the text of a float with six decimals and in its shortest form.\<close>

record render_settings =
  rst_output_format :: string
  rst_width :: int
  rst_height :: int
  rst_codec :: string
  rst_quality_preset :: string
  rst_fps :: rat

definition core_settings_ok :: "render_settings \<Rightarrow> bool" where
  "core_settings_ok st \<longleftrightarrow> rst_output_format st \<noteq> [] \<and>
     rst_output_format st \<in> {''mp4'', ''mkv'', ''webm'', ''mov'', ''avi''} \<and> rst_width st \<noteq> 0 \<and> rst_height st \<noteq> 0 \<and>
     rst_codec st \<in> {''libx264'', ''libx265'', ''libvpx'', ''libvpx-vp9'', ''libaom-av1'', ''prores_ks''} \<and>
     rst_quality_preset st \<in> {''ultrafast'', ''superfast'', ''veryfast'', ''faster'', ''fast'', ''medium'', ''slow'', ''slower'',
       ''veryslow'', ''placebo''} \<and> 0 < rst_fps st"

fun software_quality :: "quality_preset \<Rightarrow> string \<times> string" where
  "software_quality DRAFT = (''veryfast'', ''28'')"
| "software_quality STANDARD = (''medium'', ''23'')"
| "software_quality HIGH = (''slow'', ''18'')"

definition software_encoding_args :: "string \<Rightarrow> quality_preset \<Rightarrow> string list" where
  "software_encoding_args name quality = (case software_quality quality of
     (preset, crf) \<Rightarrow> [''-c:v'', name, ''-preset'', preset, ''-crf'', crf])"

definition core_render_command ::
  "(rat \<Rightarrow> string) \<Rightarrow> (rat \<Rightarrow> string) \<Rightarrow> rat \<times> rat \<Rightarrow> string \<Rightarrow> quality_preset \<Rightarrow> render_settings \<Rightarrow> string \<Rightarrow> string \<Rightarrow>
   string option \<Rightarrow> string list" where
  "core_render_command fixed6 shown segment encoder quality st input output ffmetadata =
     [''-i'', input] @
     (case ffmetadata of None \<Rightarrow> [] | Some m \<Rightarrow> [''-i'', m, ''-map_metadata'', ''1'', ''-map_chapters'', ''1'']) @
     [''-ss'', fixed6 (fst segment), ''-t'', fixed6 (snd segment - fst segment)] @
     software_encoding_args encoder quality @
     [''-f'', rst_output_format st, ''-s'', py_str_int (rst_width st) @ ''x'' @ py_str_int (rst_height st),
      ''-r'', shown (rst_fps st), ''-progress'', ''pipe:1'', ''-y'', output]"

record preview_request =
  rpr_output_format :: string
  rpr_quality_preset :: string
  rpr_encoder :: string

definition render_preview :: "(rat \<Rightarrow> string) \<Rightarrow> (rat \<Rightarrow> string) \<Rightarrow> preview_request \<Rightarrow> exn + string" where
  "render_preview fixed6 shown b =
     (if rpr_quality_preset b \<notin> {''draft'', ''standard'', ''high''} then Inl (HTTPError 422 ''INVALID_QUALITY_PRESET'')
      else if map_of CODEC_ENCODER_MAP (rpr_encoder b) \<noteq> None then Inl (HTTPError 422 ''INVALID_ENCODER_NAME'')
      else if incompatible (rpr_output_format b) (rpr_encoder b) then Inl (HTTPError 422 ''INCOMPATIBLE_FORMAT_ENCODER'')
      else let st = \<lparr>rst_output_format = rpr_output_format b, rst_width = 1920, rst_height = 1080, rst_codec = rpr_encoder b,
                      rst_quality_preset = ''medium'', rst_fps = 30\<rparr>
        in if \<not> core_settings_ok st then Inl (HTTPError 422 ''INVALID_RENDER_SETTINGS'')
        else sum_bind (qp_of_value (rpr_quality_preset b)) (\<lambda>quality.
          Inr (''ffmpeg '' @ str_join '' '' (core_render_command fixed6 shown (0, 10) (rpr_encoder b) quality st
            ''/tmp/input.mp4'' (''/tmp/output.'' @ rpr_output_format b) None))))"

subsection \<open>What the worker reads of the settings\<close>

text \<open>\<open>{t["clip_a_id"]: t for t in transitions}\<close> over the list of the plan, and the preset, which is \<open>standard\<close> when
  the settings have none. \<open>Render_Command\<close> starts from a plan that is already decoded.\<close>

fun json_index :: "string \<Rightarrow> json_value \<Rightarrow> exn + json_value" where
  "json_index k (JObj d) = (case map_of d k of None \<Rightarrow> Inl KeyError | Some v \<Rightarrow> Inr v)"
| "json_index k _ = Inl TypeError"

fun unhashable :: "json_value \<Rightarrow> bool" where
  "unhashable (JList xs) = True"
| "unhashable (JObj d) = True"
| "unhashable _ = False"

fun index_transitions :: "(json_value, json_value) dict \<Rightarrow> json_value list \<Rightarrow> exn + (json_value, json_value) dict" where
  "index_transitions d [] = Inr d"
| "index_transitions d (t # ts) = sum_bind (json_index ''clip_a_id'' t) (\<lambda>k.
     if unhashable k then Inl TypeError else index_transitions (AList.update k t d) ts)"

fun plan_setting :: "string \<Rightarrow> json_value \<Rightarrow> json_value option" where
  "plan_setting k (JObj d) = (case map_of d ''settings'' of Some (JObj st) \<Rightarrow> map_of st k | _ \<Rightarrow> None)"
| "plan_setting k _ = None"

end
