(* ===== verification/Render_Request_Properties.thy ===== *)
theory Render_Request_Properties
  imports Render_Requests Service_Submit Media_Properties
begin

text \<open>
  What the requests on renders do: the plan of the job a request creates, and what becomes of its quality preset
  in the command; retries; the evidence; the command preview.
\<close>

subsection \<open>Plans\<close>

definition put_all :: "('k \<times> 'v) list \<Rightarrow> ('k, 'v) dict \<Rightarrow> ('k, 'v) dict" where
  "put_all kvs st = fold (\<lambda>(k, v). AList.update k v) kvs st"

definition with_settings :: "(string, json_value) dict \<Rightarrow> (string, json_value) dict \<Rightarrow> json_value" where
  "with_settings st d = JObj (AList.update ''settings'' (JObj st) d)"

lemma put_all_simps [simp]: "put_all [] st = st" "put_all ((k, v) # kvs) st = put_all kvs (AList.update k v st)"
  by (simp_all add: put_all_def)

lemma map_of_put_all: "distinct (map fst kvs) \<Longrightarrow> map_of (put_all kvs st) = map_of st ++ map_of kvs"
proof (induction kvs arbitrary: st)
  case (Cons kv kvs)
  obtain k v where kv: "kv = (k, v)" by force
  have "map_of kvs k = None" using Cons.prems kv by (simp add: map_of_eq_None_iff)
  moreover have "map_of (put_all kvs (AList.update k v st)) = (map_of st)(k \<mapsto> v) ++ map_of kvs"
    using Cons by (simp add: dict_set_map_of)
  ultimately show ?case using kv by (auto simp: map_add_def fun_eq_iff split: option.splits)
qed simp

lemma set_setting_with: "set_setting (k, v) (with_settings st d) = Inr (with_settings (AList.update k v st) d)"
  by (simp add: with_settings_def dict_set_get)

lemma set_settings_with: "set_settings kvs (with_settings st d) = Inr (with_settings (put_all kvs st) d)"
  by (induction kvs arbitrary: st) (auto simp: set_setting_with)

lemma injected_distinct: "distinct (map fst (injected p profile))"
  by (auto simp: injected_def template_title_def split: option.splits)

lemma injected_preset: "map_of (injected p profile) ''quality_preset'' = None"
  by (auto simp: injected_def template_title_def split: option.splits)

lemma enum_value: "enum_of_value f ms v = Inr m \<Longrightarrow> f m = v"
  by (auto simp: enum_of_value_def dest: find_found split: option.splits)

lemma translated_plan:
  assumes "validate_and_translate_plan rv b = Inr (fmt, preset, plan, t)"
  shows "\<exists>d st q. en_loads (rv_sv rv) (rc_render_plan b) = Some (JObj d) \<and> map_of d ''settings'' = Some (JObj st) \<and>
    map_of QUALITY_PRESET_MAP (rc_quality_preset b) = Some q \<and> rc_quality_preset b = qp_value preset \<and>
    rc_output_format b = of_value fmt \<and> plan = with_settings (AList.update ''quality_preset'' (JStr q) st) d"
proof -
  obtain q v v' where q: "of_of_value (rc_output_format b) = Inr fmt" "qp_of_value (rc_quality_preset b) = Inr preset"
    "map_of QUALITY_PRESET_MAP (qp_value preset) = Some q" "en_loads (rv_sv rv) (rc_render_plan b) = Some v"
    "has_settings v = Inr True" "default_settings v = Inr v'" "set_setting (''quality_preset'', JStr q) v' = Inr plan"
    using assms by (auto simp: validate_and_translate_plan_def sum_bind_Inr split: sum.splits option.splits if_splits)
  have vals: "of_value fmt = rc_output_format b" "qp_value preset = rc_quality_preset b"
    using q(1,2) by (simp_all add: of_of_value_def qp_of_value_def enum_value)
  obtain d where d: "v = JObj d" "map_of d ''settings'' \<noteq> None" using q(5,6) by (cases v) auto
  then have "v' = JObj d" using q(6) by (auto split: option.splits)
  then obtain st where "map_of d ''settings'' = Some (JObj st)" "plan = with_settings (AList.update ''quality_preset'' (JStr q) st) d"
    using q(7) d(2) by (auto simp: with_settings_def split: option.splits json_value.splits)
  with q vals d(1) show ?thesis by auto
qed

subsection \<open>Starting a render\<close>

lemma submit_cases:
  assumes "sv_ok s" "sv_map s u = None" "\<not> en_noop en"
  shows "(\<exists>e. submit_job en clk u p out fmt preset plan s = (Inl e, s)) \<or>
    (\<exists>s'. submit_job en clk u p out fmt preset plan s = (Inr (rj_create u (clk 0) p out fmt preset plan), s') \<and> sv_ok s' \<and>
      sv_map s' = (sv_map s)(u \<mapsto> rj_create u (clk 0) p out fmt preset plan))"
  using submit_refused [OF assms(1), of en out preset plan clk u p fmt] submit_real [OF assms(1) _ assms(2,3), of out preset plan clk p fmt]
  by (cases "submit_gate en s out preset plan") (blast+)

lemma media_reads:
  "on_media (pjr_get (mx_projects sqd_repos) k) w = (Inr (tbl_get pj_id k (md_projects (wd_media w))), w)"
  "on_media (clr_list_by_project (mx_clips sqd_repos) k) w =
     (Inr (tbl_select (\<lambda>c. cl_project_id c = k) cl_timeline_position (md_clips (wd_media w))), w)"
  by (simp_all add: on_media_def sqd_repos_def sqd_project_repo_def sqd_project_get_def sqd_clip_repo_def sqd_clips_by_project_def)

lemma gate_queued: "rj_status j \<noteq> R_COMPLETED \<Longrightarrow> apply_qc_gate rv now profile j s = (Inr j, s)"
  by (simp add: apply_qc_gate_def split: option.splits)

definition created_settings :: "string \<Rightarrow> project \<Rightarrow> delivery_profile option \<Rightarrow> (string, json_value) dict \<Rightarrow> (string, json_value) dict" where
  "created_settings q p profile st = put_all (injected p profile) (AList.update ''quality_preset'' (JStr q) st)"

lemma created_settings_map:
  "map_of (created_settings q p profile st) = (map_of st)(''quality_preset'' \<mapsto> JStr q) ++ map_of (injected p profile)"
  by (simp add: created_settings_def map_of_put_all injected_distinct dict_set_map_of)

lemma created_preset: "map_of (created_settings q p profile st) ''quality_preset'' = Some (JStr q)"
  by (simp add: created_settings_map map_add_def injected_preset)

lemma create_run:
  assumes "sv_ok (wd_service w)" "sv_map (wd_service w) new_id = None" "\<not> en_noop (rv_sv rv)"
  shows "(\<exists>e. create_render_job rv sqd_repos clk new_id token b w = (Inl e, w)) \<or>
    (\<exists>fmt preset profile p d st q j s'.
       en_loads (rv_sv rv) (rc_render_plan b) = Some (JObj d) \<and> map_of d ''settings'' = Some (JObj st) \<and>
       map_of QUALITY_PRESET_MAP (rc_quality_preset b) = Some q \<and> rc_quality_preset b = qp_value preset \<and>
       rc_output_format b = of_value fmt \<and> resolve_delivery_profile rv (rc_delivery_profile b) = Inr profile \<and>
       tbl_get pj_id (rc_project_id b) (md_projects (wd_media w)) = Some p \<and>
       (\<exists>c \<in> set (md_clips (wd_media w)). cl_project_id c = rc_project_id b) \<and>
       j = rj_create new_id (clk 0) (rc_project_id b) (render_output_path rv (rc_project_id b) token fmt) fmt preset
             (rv_dumps rv (with_settings (created_settings q p profile st) d)) \<and>
       create_render_job rv sqd_repos clk new_id token b w = (Inr (job_to_response j), w\<lparr>wd_service := s'\<rparr>) \<and>
       sv_ok s' \<and> sv_map s' = (sv_map (wd_service w))(new_id \<mapsto> j))"
proof (cases "validate_and_translate_plan rv b")
  case (Inl e)
  then show ?thesis by (simp add: create_render_job_def bind_op_run)
next
  case (Inr r)
  then obtain fmt preset plan t where v: "validate_and_translate_plan rv b = Inr (fmt, preset, plan, t)" by (cases r) auto
  obtain d st q where plan: "en_loads (rv_sv rv) (rc_render_plan b) = Some (JObj d)" "map_of d ''settings'' = Some (JObj st)"
    "map_of QUALITY_PRESET_MAP (rc_quality_preset b) = Some q" "rc_quality_preset b = qp_value preset"
    "rc_output_format b = of_value fmt" "plan = with_settings (AList.update ''quality_preset'' (JStr q) st) d"
    using translated_plan [OF v] by blast
  note run = create_render_job_def bind_op_run seq_op_run catch_op_run media_reads
  show ?thesis
  proof (cases "\<exists>profile p. validate_encoder_compatibility (rc_output_format b) (rc_encoder b) = Inr () \<and>
      resolve_delivery_profile rv (rc_delivery_profile b) = Inr profile \<and>
      tbl_get pj_id (rc_project_id b) (md_projects (wd_media w)) = Some p \<and>
      tbl_select (\<lambda>c. cl_project_id c = rc_project_id b) cl_timeline_position (md_clips (wd_media w)) \<noteq> [] \<and> rv_mkdir rv = Inr ()")
    case False
    then have "\<exists>e. create_render_job rv sqd_repos clk new_id token b w = (Inl e, w)"
      using v plan(6)
      by (cases "validate_encoder_compatibility (rc_output_format b) (rc_encoder b)"; cases "resolve_delivery_profile rv (rc_delivery_profile b)";
          cases "tbl_get pj_id (rc_project_id b) (md_projects (wd_media w))"; cases "rv_mkdir rv")
        (simp_all add: run set_settings_with)
    then show ?thesis by blast
  next
    case True
    then obtain profile p where ok: "validate_encoder_compatibility (rc_output_format b) (rc_encoder b) = Inr ()"
      "resolve_delivery_profile rv (rc_delivery_profile b) = Inr profile"
      "tbl_get pj_id (rc_project_id b) (md_projects (wd_media w)) = Some p"
      "tbl_select (\<lambda>c. cl_project_id c = rc_project_id b) cl_timeline_position (md_clips (wd_media w)) \<noteq> []" "rv_mkdir rv = Inr ()"
      by blast
    let ?plan = "rv_dumps rv (with_settings (created_settings q p profile st) d)"
    let ?out = "render_output_path rv (rc_project_id b) token fmt"
    let ?j = "rj_create new_id (clk 0) (rc_project_id b) ?out fmt preset ?plan"
    have clip: "\<exists>c \<in> set (md_clips (wd_media w)). cl_project_id c = rc_project_id b"
      using list.set_sel(1) [OF ok(4)] by (auto simp: tbl_select_def)
    have sets: "set_settings (injected p profile) plan = Inr (with_settings (created_settings q p profile st) d)"
      by (simp add: plan(6) set_settings_with created_settings_def)
    consider (refused) e where "submit_job (rv_sv rv) clk new_id (rc_project_id b) ?out fmt preset ?plan (wd_service w) = (Inl e, wd_service w)"
      | (accepted) s' where "submit_job (rv_sv rv) clk new_id (rc_project_id b) ?out fmt preset ?plan (wd_service w) = (Inr ?j, s')"
          "sv_ok s'" "sv_map s' = (sv_map (wd_service w))(new_id \<mapsto> ?j)"
      using submit_cases [OF assms, of clk "rc_project_id b" ?out fmt preset ?plan] by blast
    then show ?thesis
    proof cases
      case refused
      then have "create_render_job rv sqd_repos clk new_id token b w = (Inl (submit_error e), w)"
        using v ok sets by (simp add: run on_service_def)
      then show ?thesis by blast
    next
      case accepted
      have "apply_qc_gate rv (clk 4) profile ?j s' = (Inr ?j, s')" by (rule gate_queued) simp
      then have "create_render_job rv sqd_repos clk new_id token b w = (Inr (job_to_response ?j), w\<lparr>wd_service := s'\<rparr>)"
        using v ok sets accepted(1) by (simp add: run on_service_def)
      with accepted(2,3) plan ok clip show ?thesis by blast
    qed
  qed
qed

text \<open>A world for the witnesses: one project with one clip, and an empty queue.\<close>

definition demo_rv :: render_env where
  "demo_rv = \<lparr>rv_sv = Service_Outcomes.demo_env\<lparr>en_loads := (\<lambda>_. Some (JObj [(''total_duration'', JInt 2), (''settings'', JObj [])]))\<rparr>,
     rv_dumps = (\<lambda>v. case plan_setting ''quality_preset'' v of Some (JStr q) \<Rightarrow> q | _ \<Rightarrow> []), rv_output_dir = ''/out'', rv_mkdir = Inr (), rv_profiles = None, rv_qc = None,
     rv_evidence_access = True, rv_environ = []\<rparr>"

definition demo_world :: "media_db render_world" where
  "demo_world = \<lparr>wd_service = demo_sv, wd_media = demo_db_clip\<rparr>"

definition demo_create :: render_create where
  "demo_create = \<lparr>rc_project_id = ''p'', rc_output_format = ''mp4'', rc_quality_preset = ''high'', rc_encoder = None,
     rc_render_plan = ''{}'', rc_delivery_profile = None\<rparr>"

lemma demo_world_facts:
  "sv_ok (wd_service demo_world)" "sv_map (wd_service demo_world) ''b'' = None" "\<not> en_noop (rv_sv demo_rv)"
  by (simp_all add: demo_world_def demo_sv_facts demo_rv_def Service_Outcomes.demo_env_def)

lemma demo_submit_gate: "submit_gate (rv_sv demo_rv) demo_sv out HIGH t"
proof -
  have "sv_count demo_sv R_QUEUED = 1" by (simp add: demo_sv_facts count_jobs_fresh)
  then show ?thesis
    by (simp add: submit_gate_def demo_rv_def Service_Outcomes.demo_env_def demo_sv_def sv_init_def ffmpeg_available_def
        validate_settings_def json_loads_def settings_fields_def check_disk_space_def plan_complete_def)
qed

lemma demo_created_over:
  assumes p: "tbl_get pj_id ''p'' (md_projects m) = Some p0"
    and c: "tbl_select (\<lambda>c. cl_project_id c = ''p'') cl_timeline_position (md_clips m) \<noteq> []"
  shows "\<exists>r s'. create_render_job demo_rv sqd_repos (\<lambda>_. 9) ''b'' ''t'' demo_create (demo_world\<lparr>wd_media := m\<rparr>) =
    (Inr r, demo_world\<lparr>wd_media := m, wd_service := s'\<rparr>)"
proof -
  let ?plan = "with_settings (put_all (injected p0 None) [(''quality_preset'', JStr ''slow'')])
      [(''total_duration'', JInt 2), (''settings'', JObj [])]"
  let ?j = "rj_create ''b'' 9 ''p'' ''/out/p_t.mp4'' MP4 HIGH (rv_dumps demo_rv ?plan)"
  obtain s' where run: "submit_job (rv_sv demo_rv) (\<lambda>_. 9) ''b'' ''p'' ''/out/p_t.mp4'' MP4 HIGH (rv_dumps demo_rv ?plan) demo_sv = (Inr ?j, s')"
    using submit_real [OF _ demo_submit_gate [of "''/out/p_t.mp4''" "rv_dumps demo_rv ?plan"], of "''b''" "\<lambda>_. 9" "''p''" MP4]
      demo_world_facts by (auto simp: demo_world_def)
  have v: "\<exists>t. validate_and_translate_plan demo_rv demo_create = Inr (MP4, HIGH,
      with_settings [(''quality_preset'', JStr ''slow'')] [(''total_duration'', JInt 2), (''settings'', JObj [])], t)"
    by (simp add: validate_and_translate_plan_def demo_create_def demo_rv_def of_of_value_def qp_of_value_def enum_of_value_def
        QUALITY_PRESET_MAP_def with_settings_def)
  have "apply_qc_gate demo_rv 9 None ?j s' = (Inr ?j, s')" by (rule gate_queued) simp
  moreover have "rv_mkdir demo_rv = Inr ()" "render_output_path demo_rv ''p'' ''t'' MP4 = ''/out/p_t.mp4''"
    by (simp_all add: demo_rv_def render_output_path_def)
  moreover have "rc_project_id demo_create = ''p''" "rc_encoder demo_create = None" "rc_delivery_profile demo_create = None"
    by (simp_all add: demo_create_def)
  ultimately show ?thesis using v run p c
    by (auto simp: create_render_job_def bind_op_run seq_op_run catch_op_run media_reads on_service_def set_settings_with
        validate_encoder_compatibility_def resolve_delivery_profile_def demo_world_def)
qed

lemma demo_created: "\<exists>r s'. create_render_job demo_rv sqd_repos (\<lambda>_. 9) ''b'' ''t'' demo_create demo_world = (Inr r, demo_world\<lparr>wd_service := s'\<rparr>)"
  using demo_created_over [of demo_db_clip demo_project]
  by (simp add: demo_world_def demo_db_clip_eq demo_db_def tbl_get_def demo_project_def tbl_select_def new_clip_def)

text \<open>
  C6. A request for a render, when FFmpeg is really used, either raises and changes nothing, or answers with the one
  job it has added: queued, with the path, format and preset of the request, and with the plan of the request whose
  settings hold FFmpeg's name of the preset and, above all the client sent, the size, rate, audio and transitions of
  the project, which exists and has a clip, and the delivery profile of that name.
\<close>

theorem created_job_exact:
  assumes "sv_ok (wd_service w)" "sv_map (wd_service w) new_id = None" "\<not> en_noop (rv_sv rv)"
  shows "case create_render_job rv sqd_repos clk new_id token b w of
      (Inl e, w') \<Rightarrow> w' = w
    | (Inr r, w') \<Rightarrow> \<exists>fmt preset profile p d st st' q j.
        en_loads (rv_sv rv) (rc_render_plan b) = Some (JObj d) \<and> map_of d ''settings'' = Some (JObj st) \<and>
        map_of QUALITY_PRESET_MAP (rc_quality_preset b) = Some q \<and> rc_quality_preset b = qp_value preset \<and>
        rc_output_format b = of_value fmt \<and> resolve_delivery_profile rv (rc_delivery_profile b) = Inr profile \<and>
        tbl_get pj_id (rc_project_id b) (md_projects (wd_media w)) = Some p \<and>
        (\<exists>c \<in> set (md_clips (wd_media w)). cl_project_id c = rc_project_id b) \<and>
        map_of st' = (map_of st)(''quality_preset'' \<mapsto> JStr q) ++ map_of (injected p profile) \<and>
        j = rj_create new_id (clk 0) (rc_project_id b) (render_output_path rv (rc_project_id b) token fmt) fmt preset
              (rv_dumps rv (JObj (AList.update ''settings'' (JObj st') d))) \<and>
        r = job_to_response j \<and> wd_media w' = wd_media w \<and> sv_ok (wd_service w') \<and>
        sv_map (wd_service w') = (sv_map (wd_service w))(new_id \<mapsto> j)"
  using create_run [OF assms, of clk token b]
proof (elim disjE exE conjE)
  fix fmt preset profile p d st q j s'
  assume a: "en_loads (rv_sv rv) (rc_render_plan b) = Some (JObj d)" "map_of d ''settings'' = Some (JObj st)"
    "map_of QUALITY_PRESET_MAP (rc_quality_preset b) = Some q" "rc_quality_preset b = qp_value preset"
    "rc_output_format b = of_value fmt" "resolve_delivery_profile rv (rc_delivery_profile b) = Inr profile"
    "tbl_get pj_id (rc_project_id b) (md_projects (wd_media w)) = Some p"
    "\<exists>c \<in> set (md_clips (wd_media w)). cl_project_id c = rc_project_id b"
    "j = rj_create new_id (clk 0) (rc_project_id b) (render_output_path rv (rc_project_id b) token fmt) fmt preset
       (rv_dumps rv (with_settings (created_settings q p profile st) d))"
    "create_render_job rv sqd_repos clk new_id token b w = (Inr (job_to_response j), w\<lparr>wd_service := s'\<rparr>)"
    "sv_ok s'" "sv_map s' = (sv_map (wd_service w))(new_id \<mapsto> j)"
  have "wd_media (w\<lparr>wd_service := s'\<rparr>) = wd_media w" "wd_service (w\<lparr>wd_service := s'\<rparr>) = s'" by simp_all
  then show ?thesis
    unfolding a(10) prod.case sum.case
    using a created_settings_map [of q p profile st] unfolding with_settings_def by (intro exI conjI) (assumption | simp)+
qed simp

theorem created_job_exact_witness:
  "\<exists>r w' j. create_render_job demo_rv sqd_repos (\<lambda>_. 9) ''b'' ''t'' demo_create demo_world = (Inr r, w') \<and>
     sv_map (wd_service w') ''b'' = Some j \<and> rj_output_path j = ''/out/p_t.mp4''"
proof -
  obtain r s' where run: "create_render_job demo_rv sqd_repos (\<lambda>_. 9) ''b'' ''t'' demo_create demo_world = (Inr r, demo_world\<lparr>wd_service := s'\<rparr>)"
    using demo_created by blast
  have out: "rc_output_format demo_create = of_value fmt \<Longrightarrow> render_output_path demo_rv (rc_project_id demo_create) ''t'' fmt = ''/out/p_t.mp4''" for fmt
    by (cases fmt) (simp_all add: demo_create_def render_output_path_def demo_rv_def)
  show ?thesis
    using created_job_exact [OF demo_world_facts, where clk = "\<lambda>_. 9" and token = "''t''" and b = demo_create] run out by (auto simp: rj_create_def)
qed

definition reads_presets :: "render_env \<Rightarrow> command_env \<Rightarrow> bool" where
  "reads_presets rv en \<longleftrightarrow> (\<forall>v plan st q. ce_loads en (rv_dumps rv v) = Some plan \<longrightarrow> pl_settings plan = Some st \<longrightarrow>
     plan_setting ''quality_preset'' v = Some (JStr q) \<longrightarrow> ps_quality_preset st = Some q)"

lemma ffmpeg_names: "map_of QUALITY_PRESET_MAP v = Some q \<Longrightarrow> map_of quality_crf q = None \<and> map_of quality_crf v \<noteq> None"
  by (auto simp: QUALITY_PRESET_MAP_def quality_crf_def split: if_splits)

text \<open>
  C7. The quality a client asks for never reaches FFmpeg: the request stores FFmpeg's own name of the preset in the
  settings, but the worker looks the preset up among the public names, so a command for a created job carries no
  \<open>-crf\<close> whatever the preset, though the table has one for it. The hypothesis is that the worker reads the preset
  that was written.
\<close>

theorem quality_preset_ignored:
  assumes "sv_ok (wd_service w)" "sv_map (wd_service w) new_id = None" "\<not> en_noop (rv_sv rv)"
    and "create_render_job rv sqd_repos clk new_id token b w = (Inr r, w')"
    and "sv_map (wd_service w') new_id = Some j" "reads_presets rv en"
    and "ce_loads en (rj_render_plan j) = Some plan" "pl_settings plan = Some st"
  shows "encoder_args en st = [''-c:v'', plan_codec st, ''-r'', num_text en (plan_fps st), ''-progress'', ''pipe:1''] \<and>
    map_of quality_crf (rc_quality_preset b) \<noteq> None"
proof -
  obtain p profile d st0 q where q: "map_of QUALITY_PRESET_MAP (rc_quality_preset b) = Some q"
    "rj_render_plan j = rv_dumps rv (with_settings (created_settings q p profile st0) d)"
    using create_run [OF assms(1-3), of clk token b] assms(4,5) by (auto simp: rj_create_def)
  have "plan_setting ''quality_preset'' (with_settings (created_settings q p profile st0) d) = Some (JStr q)"
    by (simp add: with_settings_def dict_set_get created_preset)
  then have "ps_quality_preset st = Some q" using assms(6-8) unfolding reads_presets_def q(2) by blast
  with ffmpeg_names [OF q(1)] show ?thesis by (simp add: encoder_args_def get_or_def)
qed

definition demo_reader :: command_env where
  "demo_reader = \<lparr>ce_loads = (\<lambda>t. Some \<lparr>pl_settings = Some \<lparr>ps_codec = None, ps_fps = None, ps_width = None, ps_height = None,
       ps_quality_preset = Some t, ps_filter_graph = None, ps_transitions = [], ps_soft_subtitles = []\<rparr>,
       pl_total_duration = Some (NInt 2), pl_segments = []\<rparr>),
     ce_float_str = (\<lambda>_. ''30''), ce_clips = (\<lambda>_. []), ce_videos = (\<lambda>_. None), ce_assets = None, ce_registry = None,
     ce_transition_error = (\<lambda>_ _. None), ce_window_error = (\<lambda>_ _. None), ce_clip_error = (\<lambda>_. None),
     ce_translate = (\<lambda>_ _. Inl ValueError)\<rparr>"

theorem quality_preset_ignored_witness:
  "\<exists>r w' j plan st. create_render_job demo_rv sqd_repos (\<lambda>_. 9) ''b'' ''t'' demo_create demo_world = (Inr r, w') \<and>
     sv_map (wd_service w') ''b'' = Some j \<and> ce_loads demo_reader (rj_render_plan j) = Some plan \<and> pl_settings plan = Some st \<and>
     encoder_args demo_reader st = [''-c:v'', ''libx264'', ''-r'', ''30'', ''-progress'', ''pipe:1'']"
proof -
  obtain r s' where run: "create_render_job demo_rv sqd_repos (\<lambda>_. 9) ''b'' ''t'' demo_create demo_world = (Inr r, demo_world\<lparr>wd_service := s'\<rparr>)"
    using demo_created by blast
  obtain j where j: "sv_map (wd_service (demo_world\<lparr>wd_service := s'\<rparr>)) ''b'' = Some j"
    using create_run [OF demo_world_facts, of "\<lambda>_. 9" "''t''" demo_create] run by (auto simp: demo_world_def)
  have reads: "reads_presets demo_rv demo_reader" by (auto simp: reads_presets_def demo_reader_def demo_rv_def)
  obtain plan st where p: "ce_loads demo_reader (rj_render_plan j) = Some plan" "pl_settings plan = Some st"
    "plan_codec st = ''libx264''" "num_text demo_reader (plan_fps st) = ''30''"
    by (auto simp: demo_reader_def get_or_def)
  from quality_preset_ignored [OF demo_world_facts run j reads p(1,2)] p run j show ?thesis by force
qed

subsection \<open>Retries\<close>

text \<open>
  C8. A request to retry a job is refused and changes nothing whenever an attempt of the job has just failed: either
  the service has already put it back into the queue, or its retries are used up. So the request serves only jobs that
  were failed otherwise, by the sweeper or after a restart, and puts those back with one more retry counted.
\<close>

theorem retry_render_outcome:
  assumes "sv_ok s" "sv_map s (rj_id job) = Some cur"
  shows "(rj_status cur = R_RUNNING \<longrightarrow>
      (let s1 = snd (handle_failure (rv_sv rv) clk job msg s)
       in \<exists>code. retry_render_job rv now (rj_id job) s1 = (Inl (HTTPError 409 code), s1) \<and>
         code = (if rj_retry_count cur < en_max_retries (rv_sv rv) then ''NOT_RETRYABLE'' else ''PERMANENT_FAILURE''))) \<and>
    (rj_status cur = R_FAILED \<and> rj_retry_count cur < en_max_retries (rv_sv rv) \<longrightarrow>
      (\<exists>r s'. retry_render_job rv now (rj_id job) s = (Inr r, s') \<and> sv_ok s' \<and> jrs_status r = ''queued'' \<and>
         jrs_retry_count r = rj_retry_count cur + 1 \<and>
         sv_map s' = (sv_map s)(rj_id job \<mapsto> set_status_spec now R_QUEUED None cur)))"
proof (intro conjI impI)
  assume run: "rj_status cur = R_RUNNING"
  show "let s1 = snd (handle_failure (rv_sv rv) clk job msg s)
       in \<exists>code. retry_render_job rv now (rj_id job) s1 = (Inl (HTTPError 409 code), s1) \<and>
         code = (if rj_retry_count cur < en_max_retries (rv_sv rv) then ''NOT_RETRYABLE'' else ''PERMANENT_FAILURE'')"
  proof (cases "rj_retry_count cur < en_max_retries (rv_sv rv)")
    case True
    from handle_failure_retry [OF assms run True, of clk msg] True show ?thesis
      by (auto simp: retry_render_job_def bind_op_run sv_runs)
  next
    case False
    obtain s' where s': "handle_failure (rv_sv rv) clk job msg s = (Inr (), s')" "sv_ok s'"
      "sv_map s' = (sv_map s)(rj_id job \<mapsto> set_status_spec (clk 0) R_FAILED (Some msg) cur)"
      using handle_failure_final [OF assms run False, of clk msg] by blast
    have "rj_retry_count (set_status_spec (clk 0) R_FAILED (Some msg) cur) = rj_retry_count cur" by (simp add: set_status_spec_def)
    with s' False show ?thesis by (simp add: retry_render_job_def bind_op_run sv_runs)
  qed
next
  assume f: "rj_status cur = R_FAILED \<and> rj_retry_count cur < en_max_retries (rv_sv rv)"
  then have "render_step (rj_status cur) R_QUEUED" by simp
  from on_jobs_step [OF assms this, of None now] obtain J where J:
    "on_jobs (sql_update_status now (rj_id job) R_QUEUED None) s = (Inr (), s\<lparr>sv_jobs := J\<rparr>)" "sql_invar J"
    "sql_map J = (sv_map s)(rj_id job \<mapsto> set_status_spec now R_QUEUED None cur)" by (auto simp: em_ok_def)
  then have "retry_render_job rv now (rj_id job) s = (Inr (job_to_response (set_status_spec now R_QUEUED None cur)), s\<lparr>sv_jobs := J\<rparr>)"
    using f assms by (simp add: retry_render_job_def respond_again_def bind_op_run seq_op_run sv_runs)
  with J show "\<exists>r s'. retry_render_job rv now (rj_id job) s = (Inr r, s') \<and> sv_ok s' \<and> jrs_status r = ''queued'' \<and>
         jrs_retry_count r = rj_retry_count cur + 1 \<and>
         sv_map s' = (sv_map s)(rj_id job \<mapsto> set_status_spec now R_QUEUED None cur)"
    by (auto simp: job_to_response_def set_status_spec_def)
qed

theorem retry_render_outcome_witness:
  "\<exists>s1. s1 = snd (handle_failure (rv_sv demo_rv) (\<lambda>_. 9) (demo_job ''a'' 1) ''boom'' running_sv) \<and>
     retry_render_job demo_rv 10 ''a'' s1 = (Inl (HTTPError 409 ''NOT_RETRYABLE''), s1)"
proof -
  let ?cur = "set_status_spec 5 R_RUNNING None (demo_job ''a'' 1)"
  have cur: "sv_map running_sv (rj_id (demo_job ''a'' 1)) = Some ?cur" by (simp add: demo_sv_facts)
  have "rj_retry_count ?cur = 0" by code_simp
  moreover have "en_max_retries (rv_sv demo_rv) = 2" by (simp add: demo_rv_def Service_Outcomes.demo_env_def)
  ultimately show ?thesis
    using retry_render_outcome [OF demo_sv_facts(3) cur, where rv = demo_rv and clk = "\<lambda>_. 9" and msg = "''boom''" and now = 10]
    by (auto simp: Let_def)
qed

subsection \<open>Evidence and previews\<close>

lemma stoat_values_iff: "a \<in> set (stoat_values env) \<longleftrightarrow> (\<exists>name. starts_with ''STOAT_'' name \<and> a \<noteq> [] \<and> (name, a) \<in> set env)"
  by (force simp: stoat_values_def image_iff)

text \<open>
  The evidence of a run is given out only where that is switched on, and of the command's arguments none that
  starts like an API key or is the value of a \<open>STOAT_\<close> variable is shown; all others are, in their places.
\<close>

theorem evidence_redacted:
  assumes "get_render_job_evidence rv k s = (Inr r, s')"
  shows "rv_evidence_access rv \<and> evr_job_id r = k \<and> (\<exists>args.
    length (evr_command_args r) = length args \<and>
    (\<forall>i < length args. (let secret = starts_with ''sk-or-v1-'' (args ! i) \<or> (\<exists>name. starts_with ''STOAT_'' name \<and>
           args ! i \<noteq> [] \<and> (name, args ! i) \<in> set (rv_environ rv))
       in evr_command_args r ! i = (if secret then ''[REDACTED]'' else args ! i))))"
proof -
  obtain t where "rv_evidence_access rv" "read_evidence rv k t = Inr r"
    using assms by (auto simp: get_render_job_evidence_def bind_op_run pure_op_def split: if_splits option.splits prod.splits sum.splits)
  moreover from this obtain args where "evr_job_id r = k" "evr_command_args r = redact_command_args (rv_environ rv) args"
    by (auto simp: read_evidence_def sum_bind_Inr)
  ultimately show ?thesis
    by (intro conjI exI [of _ args]) (auto simp: redact_command_args_def stoat_values_iff Let_def)
qed

theorem evidence_redacted_witness:
  "\<exists>r s'. get_render_job_evidence (demo_rv\<lparr>rv_sv := (rv_sv demo_rv)\<lparr>en_loads := (\<lambda>_. Some (JObj [(''command_args'', JList [JStr ''sk-or-v1-9''])]))\<rparr>\<rparr>)
       ''a'' (snd (on_jobs (sql_update_evidence ''a'' ''text'') demo_sv)) = (Inr r, s') \<and> evr_command_args r = [''[REDACTED]'']"
proof -
  let ?rv = "demo_rv\<lparr>rv_sv := (rv_sv demo_rv)\<lparr>en_loads := (\<lambda>_. Some (JObj [(''command_args'', JList [JStr ''sk-or-v1-9''])]))\<rparr>\<rparr>"
  let ?s = "snd (on_jobs (sql_update_evidence ''a'' ''text'') demo_sv)"
  obtain j where "sv_ok ?s" "sv_map ?s ''a'' = Some j" "rj_evidence_json j = Some ''text''"
    using sql.update_evidence_law [of "sv_jobs demo_sv" "''a''" "demo_job ''a'' 1" "''text''"] demo_sv_facts(1,2)
    by (auto simp: on_jobs_def split: prod.splits)
  then obtain r where run: "get_render_job_evidence ?rv ''a'' ?s = (Inr r, ?s)" "evr_command_args r = [''[REDACTED]'']"
    by (auto simp: get_render_job_evidence_def bind_op_run sv_runs read_evidence_def json_loads_def demo_rv_def json_or_def
        redact_command_args_def starts_with_def)
  from evidence_redacted [OF run(1)] run show ?thesis by blast
qed

text \<open>A key within an argument, as in a header, is shown.\<close>

theorem embedded_key_shown:
  "redact_command_args [(''STOAT_KEY'', ''secret'')] [''-headers'', ''Authorization: Bearer sk-or-v1-1'', ''key=secret'', ''secret''] =
     [''-headers'', ''Authorization: Bearer sk-or-v1-1'', ''key=secret'', ''[REDACTED]'']"
  by code_simp

definition previewable :: "string \<Rightarrow> string \<Rightarrow> bool" where
  "previewable fmt encoder \<longleftrightarrow> encoder \<in> {''libx264'', ''libx265'', ''libvpx'', ''libvpx-vp9'', ''libaom-av1'', ''prores_ks''} \<and>
     (fmt = ''avi'' \<or> fmt = ''mp4'' \<and> encoder \<in> {''libx264'', ''libx265''} \<or> fmt = ''webm'' \<and> encoder \<in> {''libvpx'', ''libvpx-vp9''} \<or>
      fmt = ''mov'' \<and> encoder \<in> {''libx264'', ''prores_ks''} \<or>
      fmt = ''mkv'' \<and> encoder \<in> {''libx264'', ''libx265'', ''libvpx-vp9'', ''libaom-av1''})"

lemma preview_settings:
  "encoder \<in> {''libx264'', ''libx265'', ''libvpx'', ''libvpx-vp9'', ''libaom-av1'', ''prores_ks''} \<Longrightarrow>
   fmt \<in> {''mp4'', ''mkv'', ''webm'', ''mov'', ''avi''} \<Longrightarrow> incompatible fmt encoder \<longleftrightarrow> \<not> previewable fmt encoder"
  by (elim insertE emptyE; hypsubst; code_simp)

text \<open>
  The command preview answers exactly for a public preset together with a software encoder of the six codecs and a
  format that has the codec, or with the format \<open>avi\<close> and any of them, although no render to \<open>avi\<close> is accepted.
\<close>

theorem render_preview_exact:
  "((\<exists>c. render_preview fixed6 shown b = Inr c) \<longleftrightarrow>
      rpr_quality_preset b \<in> {''draft'', ''standard'', ''high''} \<and> previewable (rpr_output_format b) (rpr_encoder b)) \<and>
   (\<exists>e. validate_and_translate_plan rv (c\<lparr>rc_output_format := ''avi''\<rparr>) = Inl e)"
proof (intro conjI)
  show "\<exists>e. validate_and_translate_plan rv (c\<lparr>rc_output_format := ''avi''\<rparr>) = Inl e"
    by (simp add: validate_and_translate_plan_def of_of_value_def enum_of_value_def)
  let ?e = "rpr_encoder b" and ?f = "rpr_output_format b"
  have codec: "?e \<in> {''libx264'', ''libx265'', ''libvpx'', ''libvpx-vp9'', ''libaom-av1'', ''prores_ks''} \<Longrightarrow> map_of CODEC_ENCODER_MAP ?e = None"
    by (auto simp: CODEC_ENCODER_MAP_def)
  have qp: "rpr_quality_preset b \<in> {''draft'', ''standard'', ''high''} \<Longrightarrow> \<exists>q. qp_of_value (rpr_quality_preset b) = Inr q"
    by (auto simp: qp_of_value_def enum_of_value_def)
  have known: "previewable ?f ?e \<Longrightarrow> ?e \<in> {''libx264'', ''libx265'', ''libvpx'', ''libvpx-vp9'', ''libaom-av1'', ''prores_ks''} \<and>
      ?f \<in> {''mp4'', ''mkv'', ''webm'', ''mov'', ''avi''}"
    unfolding previewable_def by blast
  show "(\<exists>c. render_preview fixed6 shown b = Inr c) \<longleftrightarrow>
      rpr_quality_preset b \<in> {''draft'', ''standard'', ''high''} \<and> previewable ?f ?e" (is "?L \<longleftrightarrow> ?R")
  proof
    assume ?L
    then have "rpr_quality_preset b \<in> {''draft'', ''standard'', ''high''}" "\<not> incompatible ?f ?e"
      "?e \<in> {''libx264'', ''libx265'', ''libvpx'', ''libvpx-vp9'', ''libaom-av1'', ''prores_ks''}" "?f \<in> {''mp4'', ''mkv'', ''webm'', ''mov'', ''avi''}"
      unfolding render_preview_def core_settings_ok_def Let_def render_settings.simps by (metis Inl_Inr_False)+
    then show ?R using preview_settings by blast
  next
    assume R: ?R
    then have e: "?e \<in> {''libx264'', ''libx265'', ''libvpx'', ''libvpx-vp9'', ''libaom-av1'', ''prores_ks''}"
      and f: "?f \<in> {''mp4'', ''mkv'', ''webm'', ''mov'', ''avi''}" using known by blast+
    have compatible: "\<not> incompatible ?f ?e" using preview_settings [OF e f] R by blast
    have "?f \<noteq> []" using f by auto
    then have ok: "core_settings_ok \<lparr>rst_output_format = ?f, rst_width = 1920, rst_height = 1080, rst_codec = ?e,
        rst_quality_preset = ''medium'', rst_fps = 30\<rparr>"
      unfolding core_settings_ok_def render_settings.simps using e f by simp
    obtain quality where q: "qp_of_value (rpr_quality_preset b) = Inr quality" using qp R by blast
    have "rpr_quality_preset b \<in> {''draft'', ''standard'', ''high''}" using R by blast
    with compatible ok q codec [OF e] show ?L by (simp add: render_preview_def Let_def)
  qed
qed

subsection \<open>Transitions of the effect router\<close>

lemma index_fails:
  "map_of t ''clip_a_id'' = None \<Longrightarrow> \<exists>e. index_transitions d (ts @ [JObj t]) = Inl e \<and> e \<in> {KeyError, TypeError}"
proof (induction ts arbitrary: d)
  case (Cons u ts)
  have "json_index ''clip_a_id'' u = Inl e \<Longrightarrow> e \<in> {KeyError, TypeError}" for e
    by (cases u) (auto split: option.splits)
  with Cons show ?case by (cases "json_index ''clip_a_id'' u") auto
qed simp

lemma transitions_setting: "map_of (injected p profile) ''transitions'' = Some (JList (map JObj (get_or [] (pj_transitions p))))"
  by (auto simp: injected_def template_title_def split: option.splits)

text \<open>
  C9. Once a transition has been added by the effect router, which does not call its clips as the timeline router
  does, every render of the project is accepted, but its plan cannot be turned into a command for several clips:
  indexing its transitions raises.
\<close>

theorem effect_transition_fails_render:
  assumes "sqd_ok m" "apply_transition sqd_repos E P r tid now pid tb m = (Inr resp, wd_media w)"
    and "sv_ok (wd_service w)" "sv_map (wd_service w) new_id = None" "\<not> en_noop (rv_sv rv)"
    and "rc_project_id b = pid" "create_render_job rv sqd_repos clk new_id token b w = (Inr a, w')"
  shows "\<exists>j v ts e. sv_map (wd_service w') new_id = Some j \<and> rj_render_plan j = rv_dumps rv v \<and>
    plan_setting ''transitions'' v = Some (JList ts) \<and> index_transitions [] ts = Inl e \<and> e \<in> {KeyError, TypeError}"
proof -
  obtain p us t where p: "mv_projects (sqd_view (wd_media w)) pid = Some p" "get_or [] (pj_transitions p) = us @ [t]" "map_of t ''clip_a_id'' = None"
    using sqd.apply_transition_outcome [OF assms(1), where pid = pid and new_id = tid and b = tb and now = now and E = E and P = P and r = r] assms(2)
    by (auto simp: post_def get_or_def)
  obtain p' profile d st q j where j: "tbl_get pj_id pid (md_projects (wd_media w)) = Some p'" "sv_map (wd_service w') new_id = Some j"
    "rj_render_plan j = rv_dumps rv (with_settings (created_settings q p' profile st) d)"
    using create_run [OF assms(3-5), of clk token b] assms(6,7) by (auto simp: rj_create_def)
  have "p' = p" using p(1) j(1) by (simp add: sqd_view_def)
  then have "plan_setting ''transitions'' (with_settings (created_settings q p' profile st) d) = Some (JList (map JObj us @ [JObj t]))"
    using p(2) by (simp add: with_settings_def dict_set_get created_settings_map map_add_def transitions_setting)
  with index_fails [OF p(3), of "[]" "map JObj us"] j show ?thesis by blast
qed

theorem effect_transition_fails_render_witness:
  "\<exists>resp m r w' j v ts e. apply_transition sqd_repos Effect_Soundness.demo_env demo_packages create_default_registry ''n'' 5 ''p''
       demo_crossfade demo_db_pair = (Inr resp, m) \<and>
     create_render_job demo_rv sqd_repos (\<lambda>_. 9) ''b'' ''t'' demo_create (demo_world\<lparr>wd_media := m\<rparr>) = (Inr r, w') \<and>
     sv_map (wd_service w') ''b'' = Some j \<and> plan_setting ''transitions'' v = Some (JList ts) \<and> index_transitions [] ts = Inl e"
proof -
  obtain f m where run: "apply_transition sqd_repos Effect_Soundness.demo_env demo_packages create_default_registry ''n'' 5 ''p''
      demo_crossfade demo_db_pair = (Inr (''n'', f), m)" and m: "md_clips m = md_clips demo_db_pair"
    using demo_transition_applied by blast
  have ok: "sqd_ok demo_db_pair" by (simp add: sqd_ok_def demo_db_pair_def demo_db_def new_clip_def)
  obtain p where "tbl_get pj_id ''p'' (md_projects m) = Some p"
    using sqd.apply_transition_outcome [OF ok, where new_id = "''n''" and now = 5 and pid = "''p''" and b = demo_crossfade
        and E = Effect_Soundness.demo_env and P = demo_packages and r = create_default_registry] run
    by (auto simp: post_def sqd_view_def)
  moreover have "tbl_select (\<lambda>c. cl_project_id c = ''p'') cl_timeline_position (md_clips m) \<noteq> []"
    unfolding m by (simp add: demo_db_pair_def demo_db_def tbl_select_def new_clip_def)
  ultimately obtain r s' where create: "create_render_job demo_rv sqd_repos (\<lambda>_. 9) ''b'' ''t'' demo_create (demo_world\<lparr>wd_media := m\<rparr>) =
      (Inr r, demo_world\<lparr>wd_media := m, wd_service := s'\<rparr>)" using demo_created_over by blast
  have "apply_transition sqd_repos Effect_Soundness.demo_env demo_packages create_default_registry ''n'' 5 ''p''
      demo_crossfade demo_db_pair = (Inr (''n'', f), wd_media (demo_world\<lparr>wd_media := m\<rparr>))" using run by simp
  from effect_transition_fails_render [OF ok this _ _ _ _ create] demo_world_facts run create show ?thesis
    by (fastforce simp: demo_create_def)
qed

end
