(* ===== verification/Version_Requests.thy ===== *)
theory Version_Requests
  imports Version_History Timeline_Requests Media_Contract
begin

text \<open>
  The requests on the versions of a project, \<open>src/stoat_ferret/api/routers/versions.py\<close>, over the repositories of
  its timeline and a version repository: the state is the pair of their states. \<open>dumps\<close> is the text of a timeline,
  \<open>retention\<close> the configured number of versions to keep.
\<close>

definition in_media :: "('s, 'a) op \<Rightarrow> ('s \<times> 'v, 'a) op" where
  "in_media m s = (case m (fst s) of (r, t) \<Rightarrow> (r, (t, snd s)))"

definition in_versions :: "('v, 'a) op \<Rightarrow> ('s \<times> 'v, 'a) op" where
  "in_versions m s = (case m (snd s) of (r, v) \<Rightarrow> (r, (fst s, v)))"

subsection \<open>Requests\<close>

record version_response =
  vsr_number :: int
  vsr_created_at :: time
  vsr_checksum :: string

definition version_to_response :: "version_record \<Rightarrow> version_response" where
  "version_to_response r = \<lparr>vsr_number = vr_number r, vsr_created_at = vr_created_at r, vsr_checksum = vr_checksum r\<rparr>"

definition list_versions ::
  "'s media_repos \<Rightarrow> 'v version_repo \<Rightarrow> string \<Rightarrow> int \<Rightarrow> int \<Rightarrow> ('s \<times> 'v, nat \<times> int \<times> int \<times> version_response list) op" where
  "list_versions R V pid lmt off =
     (if \<not> (1 \<le> lmt \<and> lmt \<le> 100 \<and> 0 \<le> off) then throw (HTTPError 422 ''VALIDATION'')
      else seq_op (in_media (get_project R pid)) (bind_op (in_versions (ve_list V pid)) (\<lambda>all_versions.
        ret (length all_versions, lmt, off, map version_to_response (py_slice off (off + lmt) all_versions)))))"

definition snapshot :: "'s media_repos \<Rightarrow> (timeline_response \<Rightarrow> string) \<Rightarrow> string \<Rightarrow> ('s, string) op" where
  "snapshot R dumps pid = bind_op (tlr_get_tracks_by_project (mx_timeline R) pid) (\<lambda>tracks.
     bind_op (get_clips_by_track R pid) (\<lambda>d. ret (dumps (build_timeline_response pid tracks d))))"

definition apply_retention :: "'v version_repo \<Rightarrow> int option \<Rightarrow> string \<Rightarrow> ('s \<times> 'v, unit) op" where
  "apply_retention V retention pid = (case retention of
     None \<Rightarrow> ret () | Some k \<Rightarrow> bind_op (in_versions (ve_delete_old V pid k)) (\<lambda>_. ret ()))"

definition create_version ::
  "'s media_repos \<Rightarrow> 'v version_repo \<Rightarrow> (timeline_response \<Rightarrow> string) \<Rightarrow> int option \<Rightarrow> time \<Rightarrow> string \<Rightarrow> string option \<Rightarrow>
   ('s \<times> 'v, version_response) op" where
  "create_version R V dumps retention now pid timeline_json =
     seq_op (in_media (get_project R pid))
    (bind_op (case timeline_json of None \<Rightarrow> in_media (snapshot R dumps pid) | Some j \<Rightarrow> ret j) (\<lambda>j.
     bind_op (in_versions (ve_save V now pid j)) (\<lambda>r.
     seq_op (apply_retention V retention pid)
            (ret (version_to_response r)))))"

definition restore_version ::
  "'s media_repos \<Rightarrow> 'v version_repo \<Rightarrow> time \<Rightarrow> string \<Rightarrow> int \<Rightarrow> ('s \<times> 'v, int \<times> int) op" where
  "restore_version R V now pid n =
     seq_op (in_media (get_project R pid))
    (bind_op (catch_op (in_versions (ve_restore V now pid n))
        (\<lambda>e. if e = ValueError then throw (HTTPError 404 ''PROJECT_VERSION_NOT_FOUND'') else throw e))
      (\<lambda>r. ret (n, vr_number r)))"

subsection \<open>A timeline and its versions\<close>

locale version_api = media: media_store R view mok stored + versions: version_store V hist vok sha projects
  for R :: "'s media_repos" and view :: "'s \<Rightarrow> media_view" and mok :: "'s \<Rightarrow> bool" and stored :: "track \<Rightarrow> track"
    and V :: "'v version_repo" and hist :: "'v \<Rightarrow> history" and vok :: "'v \<Rightarrow> bool" and sha :: "string \<Rightarrow> string"
    and projects :: "string set"
begin

lemma project_run:
  "mok m \<Longrightarrow> in_media (get_project R pid) (m, v) =
     (case mv_projects (view m) pid of None \<Rightarrow> (Inl (HTTPError 404 ''NOT_FOUND''), (m, v)) | Some p \<Rightarrow> (Inr p, (m, v)))"
  by (simp add: in_media_def get_project_def bind_op_run media.project_get split: option.splits)

lemma snapshot_run: "mok m \<Longrightarrow> mv_projects (view m) pid = Some p \<Longrightarrow>
  \<exists>t. get_timeline R pid m = (Inr t, m) \<and> snapshot R dumps pid m = (Inr (dumps t), m)"
proof -
  assume ok: "mok m" and p: "mv_projects (view m) pid = Some p"
  obtain ts where ts: "tlr_get_tracks_by_project (mx_timeline R) pid m = (Inr ts, m)" using media.track_list [OF ok] by blast
  obtain cs where cs: "clr_list_by_project (mx_clips R) pid m = (Inr cs, m)" using media.clip_list [OF ok] by blast
  show ?thesis
    using ts cs p by (simp add: get_timeline_def snapshot_def get_project_def get_clips_by_track_def bind_op_run seq_op_run media.project_get ok)
qed

definition kept :: "int option \<Rightarrow> version_record list \<Rightarrow> version_record list" where
  "kept retention vs = (case retention of None \<Rightarrow> vs | Some k \<Rightarrow> drop (length vs - nat k) vs)"

lemma pruned_run:
  assumes ok: "vok v" and k: "\<And>k. retention = Some k \<Longrightarrow> 1 \<le> k"
  shows "\<exists>v'. apply_retention V retention pid (m, v) =
      (Inr (), (m, v')) \<and> vok v' \<and> hs_versions (hist v') = (hs_versions (hist v))(pid := kept retention (hs_versions (hist v) pid))"
proof (cases retention)
  case None
  then show ?thesis using ok by (auto simp: kept_def apply_retention_def)
next
  case (Some n)
  obtain v' where "ve_delete_old V pid n v = (Inr (int (length (hs_versions (hist v) pid) - nat n)), v')" "vok v'"
    "hist v' = hs_prune pid (nat n) (hist v)"
    using versions.delete_law [OF ok k [OF Some]] by blast
  with Some show ?thesis by (auto simp: in_versions_def bind_op_run kept_def hs_prune_def apply_retention_def)
qed

lemma create_version_run:
  assumes mok: "mok m" and vok: "vok v" and p: "mv_projects (view m) pid = Some p" "pid \<in> projects"
    and k: "\<And>k. retention = Some k \<Longrightarrow> 1 \<le> k"
  shows "\<exists>t r v'. get_timeline R pid m = (Inr t, m) \<and>
    r = hs_record sha now pid (case timeline_json of None \<Rightarrow> dumps t | Some j \<Rightarrow> j) (hist v) \<and>
    create_version R V dumps retention now pid timeline_json (m, v) = (Inr (version_to_response r), (m, v')) \<and> vok v' \<and>
    hs_versions (hist v') = (hs_versions (hist v))(pid := kept retention (hs_versions (hist v) pid @ [r]))"
proof -
  obtain t where t: "get_timeline R pid m = (Inr t, m)" "snapshot R dumps pid m = (Inr (dumps t), m)"
    using snapshot_run [OF mok p(1)] by blast
  define j where "j = (case timeline_json of None \<Rightarrow> dumps t | Some j \<Rightarrow> j)"
  have written: "(case timeline_json of None \<Rightarrow> in_media (snapshot R dumps pid) | Some j \<Rightarrow> ret j) (m, v) = (Inr j, (m, v))"
    using t(2) by (auto simp: j_def in_media_def split: option.splits)
  let ?r = "hs_record sha now pid j (hist v)"
  obtain v1 where v1: "ve_save V now pid j v = (Inr ?r, v1)" "vok v1" "hist v1 = hs_add ?r (hist v)"
    using versions.save_law [OF vok p(2)] by blast
  obtain v' where v': "apply_retention V retention pid (m, v1) =
      (Inr (), (m, v'))" "vok v'" "hs_versions (hist v') = (hs_versions (hist v1))(pid := kept retention (hs_versions (hist v1) pid))"
    using pruned_run [OF v1(2) k, where pid = pid and m = m] by blast
  have "create_version R V dumps retention now pid timeline_json (m, v) = (Inr (version_to_response ?r), (m, v'))"
    unfolding create_version_def seq_op_run bind_op_run project_run [OF mok] p(1) option.case prod.case sum.case written
    using v1(1) v'(1) by (simp add: in_versions_def)
  moreover have "hs_versions (hist v') = (hs_versions (hist v))(pid := kept retention (hs_versions (hist v) pid @ [?r]))"
    unfolding v'(3) v1(3) by (simp add: hs_add_def hs_record_def)
  ultimately show ?thesis using t(1) v'(2) unfolding j_def by blast
qed

lemma restore_version_run:
  assumes mok: "mok m" and vok: "vok v" and p: "pid \<in> projects"
  shows "case mv_projects (view m) pid of
      None \<Rightarrow> restore_version R V now pid n (m, v) = (Inl (HTTPError 404 ''NOT_FOUND''), (m, v))
    | Some _ \<Rightarrow> (case hs_find pid n (hist v) of
        None \<Rightarrow> restore_version R V now pid n (m, v) = (Inl (HTTPError 404 ''PROJECT_VERSION_NOT_FOUND''), (m, v))
      | Some old \<Rightarrow> \<exists>v'. restore_version R V now pid n (m, v) =
            (Inr (n, next_number (hs_versions (hist v) pid)), (m, v')) \<and> vok v' \<and>
          hs_versions (hist v') = (hs_versions (hist v))(pid := hs_versions (hist v) pid @ [hs_record sha now pid (vr_json old) (hist v)]))"
proof (cases "mv_projects (view m) pid")
  case None
  then show ?thesis by (simp add: restore_version_def seq_op_run project_run [OF mok])
next
  case found: (Some pr)
  show ?thesis
  proof (cases "hs_find pid n (hist v)")
    case None
    then show ?thesis using found versions.restore_missing [OF vok None]
      by (simp add: restore_version_def seq_op_run bind_op_run catch_op_run project_run [OF mok] in_versions_def)
  next
    case (Some old)
    obtain v' where "ve_restore V now pid n v = (Inr (hs_record sha now pid (vr_json old) (hist v)), v')" "vok v'"
      "hist v' = hs_add (hs_record sha now pid (vr_json old) (hist v)) (hist v)"
      using versions.restore_found [OF vok p Some] by blast
    with found Some show ?thesis
      by (simp add: restore_version_def seq_op_run bind_op_run catch_op_run project_run [OF mok] in_versions_def)
        (simp add: hs_add_def hs_record_def)
  qed
qed

end

interpretation sql_api: version_api sqd_repos sqd_view sqd_ok row_to_track "sqv_repo sha projects" sqv_hist "sqv_ok sha" sha projects
  for sha projects by unfold_locales

interpretation mem_api: version_api mmd_repos mmd_view mmd_ok "\<lambda>t. t" "mv_repo sha" mv_hist "mv_ok sha" sha UNIV
  for sha by unfold_locales

subsection \<open>What the requests do\<close>

text \<open>
  C38. A new version of an existing project holds the text sent with the request or, without one, that of the timeline
  a request for it would answer with now; it has the next number and the checksum of its text. With a retention count
  the newest so many versions of the project stay, the new one among them, and otherwise all; the timeline and other
  projects' versions are not touched.
\<close>

theorem created_version_exact:
  assumes "sqd_ok m" "sqv_ok sha v" "mv_projects (sqd_view m) pid = Some p" "pid \<in> projects"
    and "case retention of None \<Rightarrow> True | Some k \<Rightarrow> 1 \<le> k"
  shows "\<exists>t r v'. get_timeline sqd_repos pid m = (Inr t, m) \<and>
    create_version sqd_repos (sqv_repo sha projects) dumps retention now pid timeline_json (m, v) = (Inr (version_to_response r), (m, v')) \<and>
    vr_json r = (case timeline_json of None \<Rightarrow> dumps t | Some j \<Rightarrow> j) \<and> vr_checksum r = compute_checksum sha (vr_json r) \<and>
    vr_number r = next_number (hs_versions (sqv_hist v) pid) \<and>
    hs_versions (sqv_hist v') pid = (let all = hs_versions (sqv_hist v) pid @ [r]
      in case retention of None \<Rightarrow> all | Some k \<Rightarrow> drop (length all - nat k) all) \<and> r \<in> set (hs_versions (sqv_hist v') pid) \<and>
    (\<forall>q. q \<noteq> pid \<longrightarrow> hs_versions (sqv_hist v') q = hs_versions (sqv_hist v) q)"
proof -
  have k: "retention = Some k' \<Longrightarrow> 1 \<le> k'" for k' using assms(5) by auto
  obtain t r v' where run: "get_timeline sqd_repos pid m = (Inr t, m)"
    "r = hs_record sha now pid (case timeline_json of None \<Rightarrow> dumps t | Some j \<Rightarrow> j) (sqv_hist v)"
    "create_version sqd_repos (sqv_repo sha projects) dumps retention now pid timeline_json (m, v) = (Inr (version_to_response r), (m, v'))"
    "hs_versions (sqv_hist v') = (hs_versions (sqv_hist v))(pid := sql_api.kept retention (hs_versions (sqv_hist v) pid @ [r]))"
    using sql_api.create_version_run [OF assms(1-4) k, where dumps = dumps and now = now and timeline_json = timeline_json] by blast
  have "r \<in> set (sql_api.kept retention (hs_versions (sqv_hist v) pid @ [r]))"
    using k by (cases retention) (auto simp: sql_api.kept_def Suc_le_eq)
  with run show ?thesis by (auto simp: sql_api.kept_def hs_record_def Let_def)
qed

definition demo_dumps :: "timeline_response \<Rightarrow> string" where
  "demo_dumps t = (if tp_tracks t = [] then ''none'' else ''some'')"

definition demo_media :: media_db where
  "demo_media = \<lparr>md_projects = [\<lparr>pj_id = ''p'', pj_name = ''P'', pj_output_width = 640, pj_output_height = 360, pj_output_fps = 30,
     pj_created_at = 0, pj_updated_at = 0, pj_transitions = None, pj_audio_mix = None, pj_sample_rate = 48000, pj_bit_depth = 24\<rparr>],
     md_clips = [], md_tracks = [], md_videos = [], md_refs = [], md_log = []\<rparr>"

theorem created_version_exact_witness:
  "\<exists>r v'. create_version sqd_repos (sqv_repo id {''p''}) demo_dumps (Some 1) 7 ''p'' None (demo_media, []) =
     (Inr (version_to_response r), (demo_media, v')) \<and> vr_number r = 1 \<and> hs_versions (sqv_hist v') ''p'' = [r]"
proof -
  have "sqd_ok demo_media" by (simp add: demo_media_def sqd_ok_def)
  moreover have "sqv_ok id []" by (simp add: sqv_ok_def sqv_hist_def history_ok_def)
  moreover obtain p where "mv_projects (sqd_view demo_media) ''p'' = Some p"
    by (simp add: demo_media_def sqd_view_def tbl_get_def)
  moreover have "''p'' \<in> {''p''}" "case Some (1 :: int) of None \<Rightarrow> True | Some k \<Rightarrow> 1 \<le> k" by simp_all
  ultimately show ?thesis
    using created_version_exact [of demo_media id "[]" "''p''" p "{''p''}" "Some 1" demo_dumps 7 None]
    by (auto simp: sqv_hist_def next_number_def Let_def)
qed

text \<open>
  Restoring a version adds it anew and keeps all others, whatever the retention count; the timeline stays as it is, so
  what a client sees of the project does not go back to the version.
\<close>

theorem restore_changes_no_timeline:
  assumes "sqd_ok m" "sqv_ok sha v" "mv_projects (sqd_view m) pid = Some p" "pid \<in> projects" "hs_find pid n (sqv_hist v) = Some old"
  shows "\<exists>v'. restore_version sqd_repos (sqv_repo sha projects) now pid n (m, v) =
      (Inr (n, next_number (hs_versions (sqv_hist v) pid)), (m, v')) \<and>
    length (hs_versions (sqv_hist v') pid) = length (hs_versions (sqv_hist v) pid) + 1"
  using sql_api.restore_version_run [OF assms(1,2,4), where n = n and now = now] assms(3,5) by auto

end
