(* ===== verification/Tts_Cues.thy ===== *)
theory Tts_Cues
  imports Tables Json
begin

text \<open>
  Narration cues: the repositories of \<open>src/stoat_ferret/db/tts_cue_repository.py\<close> and the requests of
  \<open>api/routers/tts.py\<close> with \<open>api/schemas/tts.py\<close>, but for the synthesis, which is \<open>Tts_Synthesis\<close>. SHA-256 is an
  argument, as are the projects and tracks that rows refer to, the kind of a track, and whether a text is blank.
\<close>

subsection \<open>Cues and their key\<close>

record cue_record =
  cu_id :: string
  cu_project_id :: string
  cu_track_id :: string
  cu_start_s :: rat
  cu_text :: string
  cu_voice :: string
  cu_cache_key :: string
  cu_created_at :: time
  cu_updated_at :: time
  cu_backend :: string
  cu_gain_db :: rat
  cu_pan :: rat
  cu_asset :: "string option"
  cu_status :: string
  cu_error :: "string option"

definition compute_cache_key :: "(string \<Rightarrow> string) \<Rightarrow> string \<Rightarrow> string \<Rightarrow> string \<Rightarrow> string" where
  "compute_cache_key sha t voice backend = sha (t @ ''::'' @ voice @ ''::'' @ backend)"

subsection \<open>Repositories\<close>

record 's cue_repo =
  cur_create :: "cue_record \<Rightarrow> ('s, cue_record) op"
  cur_get :: "string \<Rightarrow> ('s, cue_record option) op"
  cur_list_by_project :: "string \<Rightarrow> ('s, cue_record list) op"
  cur_update :: "cue_record \<Rightarrow> ('s, cue_record) op"
  cur_delete :: "string \<Rightarrow> ('s, bool) op"
  cur_update_status :: "time \<Rightarrow> string \<Rightarrow> string \<Rightarrow> string option \<Rightarrow> string option \<Rightarrow> ('s, cue_record option) op"

definition with_cue_status :: "time \<Rightarrow> string \<Rightarrow> string option \<Rightarrow> string option \<Rightarrow> cue_record \<Rightarrow> cue_record" where
  "with_cue_status now status asset err c = c\<lparr>cu_status := status, cu_asset := asset, cu_error := err, cu_updated_at := now\<rparr>"

type_synonym sql_cues = "cue_record list"

text \<open>A row needs its project and its track.\<close>

definition sqc_create :: "string set \<Rightarrow> string set \<Rightarrow> cue_record \<Rightarrow> (sql_cues, cue_record) op" where
  "sqc_create projects tracks c = (\<lambda>rows. if cu_project_id c \<notin> projects \<or> cu_track_id c \<notin> tracks then (Inl ValueError, rows)
     else case tbl_insert cu_id c rows of Inl e \<Rightarrow> (Inl ValueError, rows) | Inr rows' \<Rightarrow> (Inr c, rows'))"

definition sqc_get :: "string \<Rightarrow> (sql_cues, cue_record option) op" where
  "sqc_get k = read_op (tbl_get cu_id k)"

definition sqc_list_by_project :: "string \<Rightarrow> (sql_cues, cue_record list) op" where
  "sqc_list_by_project p = read_op (tbl_select (\<lambda>c. cu_project_id c = p) (\<lambda>c. (cu_start_s c, cu_created_at c)))"

text \<open>The columns an update writes; the track of a row that is there is checked.\<close>

definition cue_columns :: "cue_record \<Rightarrow> cue_record \<Rightarrow> cue_record" where
  "cue_columns c r = c\<lparr>cu_id := cu_id r, cu_project_id := cu_project_id r, cu_created_at := cu_created_at r\<rparr>"

definition sqc_update :: "string set \<Rightarrow> cue_record \<Rightarrow> (sql_cues, cue_record) op" where
  "sqc_update tracks c = (\<lambda>rows. if tbl_get cu_id (cu_id c) rows = None then (Inl ValueError, rows)
     else if cu_track_id c \<notin> tracks then (Inl IntegrityError, rows)
     else (Inr c, tbl_update cu_id (cu_id c) (cue_columns c) rows))"

definition sqc_delete :: "string \<Rightarrow> (sql_cues, bool) op" where
  "sqc_delete k = (\<lambda>rows. (Inr (tbl_get cu_id k rows \<noteq> None), tbl_delete cu_id k rows))"

definition sqc_update_status ::
  "time \<Rightarrow> string \<Rightarrow> string \<Rightarrow> string option \<Rightarrow> string option \<Rightarrow> (sql_cues, cue_record option) op" where
  "sqc_update_status now k status asset err = (\<lambda>rows. if tbl_get cu_id k rows = None then (Inr None, rows)
     else sqc_get k (tbl_update cu_id k (with_cue_status now status asset err) rows))"

definition sqc_repo :: "string set \<Rightarrow> string set \<Rightarrow> sql_cues cue_repo" where
  "sqc_repo projects tracks = \<lparr>cur_create = sqc_create projects tracks, cur_get = sqc_get, cur_list_by_project = sqc_list_by_project,
     cur_update = sqc_update tracks, cur_delete = sqc_delete, cur_update_status = sqc_update_status\<rparr>"

type_synonym mem_cues = "(string, cue_record) dict"

definition mmc_create :: "cue_record \<Rightarrow> (mem_cues, cue_record) op" where
  "mmc_create c = (\<lambda>d. if map_of d (cu_id c) \<noteq> None then (Inl ValueError, d) else (Inr c, AList.update (cu_id c) c d))"

definition mmc_get :: "string \<Rightarrow> (mem_cues, cue_record option) op" where
  "mmc_get k = read_op (\<lambda>d. map_of d k)"

definition mmc_list_by_project :: "string \<Rightarrow> (mem_cues, cue_record list) op" where
  "mmc_list_by_project p = read_op (\<lambda>d. filter (\<lambda>c. cu_project_id c = p) (sort_key (\<lambda>c. (cu_start_s c, cu_created_at c)) (dict_values d)))"

definition mmc_update :: "cue_record \<Rightarrow> (mem_cues, cue_record) op" where
  "mmc_update c = (\<lambda>d. if map_of d (cu_id c) = None then (Inl ValueError, d) else (Inr c, AList.update (cu_id c) c d))"

definition mmc_delete :: "string \<Rightarrow> (mem_cues, bool) op" where
  "mmc_delete k = (\<lambda>d. if map_of d k = None then (Inr False, d) else (Inr True, AList.delete k d))"

definition mmc_update_status ::
  "time \<Rightarrow> string \<Rightarrow> string \<Rightarrow> string option \<Rightarrow> string option \<Rightarrow> (mem_cues, cue_record option) op" where
  "mmc_update_status now k status asset err = (\<lambda>d. case map_of d k of
     None \<Rightarrow> (Inr None, d)
   | Some c \<Rightarrow> (let c' = with_cue_status now status asset err c in (Inr (Some c'), AList.update k c' d)))"

definition mmc_repo :: "mem_cues cue_repo" where
  "mmc_repo = \<lparr>cur_create = mmc_create, cur_get = mmc_get, cur_list_by_project = mmc_list_by_project,
     cur_update = mmc_update, cur_delete = mmc_delete, cur_update_status = mmc_update_status\<rparr>"

subsection \<open>Requests\<close>

record cue_create =
  cq_track_id :: string
  cq_start_s :: rat
  cq_text :: string
  cq_voice :: string
  cq_backend :: string
  cq_gain_db :: rat
  cq_pan :: rat

definition tts_backends :: "string list" where
  "tts_backends = [''piper_local'', ''openrouter_kokoro'', ''openrouter_commercial'']"

text \<open>The constraints of the fields of a request, answered with 422 before it is served.\<close>

definition cue_create_ok :: "(string \<Rightarrow> bool) \<Rightarrow> cue_create \<Rightarrow> bool" where
  "cue_create_ok blank b \<longleftrightarrow> 0 \<le> cq_start_s b \<and> cq_start_s b \<le> 86400 \<and> \<not> blank (cq_text b) \<and> \<not> blank (cq_voice b) \<and>
     cq_backend b \<in> set tts_backends \<and> - 60 \<le> cq_gain_db b \<and> cq_gain_db b \<le> 6 \<and> - 1 \<le> cq_pan b \<and> cq_pan b \<le> 1"

record cue_patch =
  cx_track_id :: "string option"
  cx_start_s :: "rat option"
  cx_text :: "string option"
  cx_voice :: "string option"
  cx_backend :: "string option"
  cx_gain_db :: "rat option"
  cx_pan :: "rat option"

definition given_ok :: "('a \<Rightarrow> bool) \<Rightarrow> 'a option \<Rightarrow> bool" where
  "given_ok P x = (case x of None \<Rightarrow> True | Some v \<Rightarrow> P v)"

definition cue_patch_ok :: "(string \<Rightarrow> bool) \<Rightarrow> cue_patch \<Rightarrow> bool" where
  "cue_patch_ok blank b \<longleftrightarrow> given_ok (\<lambda>s. 0 \<le> s \<and> s \<le> 86400) (cx_start_s b) \<and> given_ok (\<lambda>t. \<not> blank t) (cx_text b) \<and>
     given_ok (\<lambda>t. \<not> blank t) (cx_voice b) \<and> given_ok (\<lambda>k. k \<in> set tts_backends) (cx_backend b) \<and>
     given_ok (\<lambda>g. - 60 \<le> g \<and> g \<le> 6) (cx_gain_db b) \<and> given_ok (\<lambda>p. - 1 \<le> p \<and> p \<le> 1) (cx_pan b) \<and>
     \<not> (cx_track_id b = None \<and> cx_start_s b = None \<and> cx_text b = None \<and> cx_voice b = None \<and> cx_backend b = None \<and>
        cx_gain_db b = None \<and> cx_pan b = None)"

text \<open>\<open>kind_of\<close> reads the row of a track: \<open>None\<close> when there is none, otherwise its kind.\<close>

definition validate_voice_track :: "(string \<Rightarrow> string option option) \<Rightarrow> string \<Rightarrow> exn + unit" where
  "validate_voice_track kind_of t = (case kind_of t of
     None \<Rightarrow> Inl (HTTPError 422 ''TRACK_NOT_FOUND'')
   | Some k \<Rightarrow> if k \<noteq> Some ''voice'' then Inl (HTTPError 422 ''INVALID_TRACK_KIND'') else Inr ())"

definition new_cue :: "(string \<Rightarrow> string) \<Rightarrow> string \<Rightarrow> time \<Rightarrow> string \<Rightarrow> cue_create \<Rightarrow> cue_record" where
  "new_cue sha new_id now pid b = \<lparr>cu_id = new_id, cu_project_id = pid, cu_track_id = cq_track_id b, cu_start_s = cq_start_s b,
     cu_text = cq_text b, cu_voice = cq_voice b, cu_cache_key = compute_cache_key sha (cq_text b) (cq_voice b) (cq_backend b),
     cu_created_at = now, cu_updated_at = now, cu_backend = cq_backend b, cu_gain_db = cq_gain_db b, cu_pan = cq_pan b,
     cu_asset = None, cu_status = ''pending'', cu_error = None\<rparr>"

definition lift_sum :: "exn + 'a \<Rightarrow> ('s, 'a) op" where
  "lift_sum r = (\<lambda>s. (r, s))"

definition create_tts_cue ::
  "(string \<Rightarrow> bool) \<Rightarrow> (string \<Rightarrow> string) \<Rightarrow> (string \<Rightarrow> string option option) \<Rightarrow> 's cue_repo \<Rightarrow> string \<Rightarrow> time \<Rightarrow> string \<Rightarrow> cue_create \<Rightarrow>
   ('s, cue_record) op" where
  "create_tts_cue blank sha kind_of R new_id now pid b =
     (if \<not> cue_create_ok blank b then throw (HTTPError 422 ''VALIDATION'')
      else seq_op (lift_sum (validate_voice_track kind_of (cq_track_id b))) (cur_create R (new_cue sha new_id now pid b)))"

definition list_tts_cues :: "'s cue_repo \<Rightarrow> string \<Rightarrow> ('s, cue_record list \<times> nat) op" where
  "list_tts_cues R pid = bind_op (cur_list_by_project R pid) (\<lambda>cs. ret (cs, length cs))"

text \<open>The check every request on one cue makes of what it has read.\<close>

definition own_cue :: "string \<Rightarrow> cue_record option \<Rightarrow> exn + cue_record" where
  "own_cue pid c = (case c of
     None \<Rightarrow> Inl (HTTPError 404 ''TTS_CUE_NOT_FOUND'')
   | Some c \<Rightarrow> if cu_project_id c \<noteq> pid then Inl (HTTPError 404 ''TTS_CUE_NOT_FOUND'') else Inr c)"

definition get_tts_cue :: "'s cue_repo \<Rightarrow> string \<Rightarrow> string \<Rightarrow> ('s, cue_record) op" where
  "get_tts_cue R pid k = bind_op (cur_get R k) (\<lambda>c. lift_sum (own_cue pid c))"

definition given_cue :: "'a option \<Rightarrow> 'a \<Rightarrow> 'a" where
  "given_cue x v = (case x of None \<Rightarrow> v | Some y \<Rightarrow> y)"

definition synthesis_changed :: "cue_patch \<Rightarrow> bool" where
  "synthesis_changed b \<longleftrightarrow> cx_text b \<noteq> None \<or> cx_voice b \<noteq> None \<or> cx_backend b \<noteq> None"

definition patch_cue :: "(string \<Rightarrow> string) \<Rightarrow> time \<Rightarrow> cue_patch \<Rightarrow> cue_record \<Rightarrow> cue_record" where
  "patch_cue sha now b c = (let
     c = c\<lparr>cu_track_id := given_cue (cx_track_id b) (cu_track_id c)\<rparr>;
     c = c\<lparr>cu_text := given_cue (cx_text b) (cu_text c), cu_voice := given_cue (cx_voice b) (cu_voice c),
           cu_backend := given_cue (cx_backend b) (cu_backend c)\<rparr>;
     c = (if synthesis_changed b
          then c\<lparr>cu_cache_key := compute_cache_key sha (cu_text c) (cu_voice c) (cu_backend c), cu_status := ''pending'',
                cu_asset := None, cu_error := None\<rparr>
          else c)
     in c\<lparr>cu_start_s := given_cue (cx_start_s b) (cu_start_s c), cu_gain_db := given_cue (cx_gain_db b) (cu_gain_db c),
          cu_pan := given_cue (cx_pan b) (cu_pan c), cu_updated_at := now\<rparr>)"

definition update_tts_cue ::
  "(string \<Rightarrow> bool) \<Rightarrow> (string \<Rightarrow> string) \<Rightarrow> (string \<Rightarrow> string option option) \<Rightarrow> 's cue_repo \<Rightarrow> time \<Rightarrow> string \<Rightarrow> string \<Rightarrow> cue_patch \<Rightarrow>
   ('s, cue_record) op" where
  "update_tts_cue blank sha kind_of R now pid k b =
     (if \<not> cue_patch_ok blank b then throw (HTTPError 422 ''VALIDATION'')
      else bind_op (get_tts_cue R pid k) (\<lambda>c.
        seq_op (case cx_track_id b of None \<Rightarrow> ret () | Some t \<Rightarrow> lift_sum (validate_voice_track kind_of t))
          (cur_update R (patch_cue sha now b c))))"

definition delete_tts_cue :: "'s cue_repo \<Rightarrow> string \<Rightarrow> string \<Rightarrow> ('s, unit) op" where
  "delete_tts_cue R pid k = seq_op (get_tts_cue R pid k) (seq_op (cur_delete R k) (ret ()))"

subsection \<open>Voices\<close>

record voice_info =
  vi_voice_id :: string
  vi_backend :: string
  vi_language :: "string option"
  vi_description :: "string option"

text \<open>\<open>entries\<close> is the directory of models, \<open>None\<close> when it is no directory: names, and whether each is a file.\<close>

definition onnx_suffix :: string where "onnx_suffix = ''.onnx''"

definition has_suffix :: "string \<Rightarrow> string \<Rightarrow> bool" where
  "has_suffix suffix s \<longleftrightarrow> length suffix \<le> length s \<and> drop (length s - length suffix) s = suffix"

definition scan_piper_models_dir :: "(string \<times> bool) list option \<Rightarrow> voice_info list" where
  "scan_piper_models_dir entries = (case entries of
     None \<Rightarrow> []
   | Some es \<Rightarrow> sort_key vi_voice_id (map (\<lambda>(name, is_file). let voice_id = take (length name - 5) name in
        \<lparr>vi_voice_id = voice_id, vi_backend = ''piper_local'', vi_language = None, vi_description = Some (''Piper local voice: '' @ voice_id)\<rparr>)
      (filter (\<lambda>(name, is_file). is_file \<and> has_suffix onnx_suffix name) es)))"

definition kokoro_voices_static :: "voice_info list" where
  "kokoro_voices_static =
     [\<lparr>vi_voice_id = ''af_heart'', vi_backend = ''openrouter_kokoro'', vi_language = Some ''en'', vi_description = Some ''Kokoro af_heart''\<rparr>,
      \<lparr>vi_voice_id = ''af_bella'', vi_backend = ''openrouter_kokoro'', vi_language = Some ''en'', vi_description = Some ''Kokoro af_bella''\<rparr>]"

definition list_tts_voices :: "(string \<times> bool) list option \<Rightarrow> string option \<Rightarrow> voice_info list" where
  "list_tts_voices entries api_key =
     scan_piper_models_dir entries @ (case api_key of None \<Rightarrow> [] | Some k \<Rightarrow> if k \<noteq> [] then kokoro_voices_static else [])"

subsection \<open>The contract\<close>

text \<open>A map from ids to cues.\<close>

locale cue_store =
  fixes R :: "'s cue_repo" and m :: "'s \<Rightarrow> string \<Rightarrow> cue_record option" and ok :: "'s \<Rightarrow> bool"
    and projects :: "string set" and tracks :: "string set"
  assumes keyed: "ok s \<Longrightarrow> m s k = Some c \<Longrightarrow> cu_id c = k"
    and get_law: "ok s \<Longrightarrow> cur_get R k s = (Inr (m s k), s)"
    and create_law: "ok s \<Longrightarrow> m s (cu_id c) = None \<Longrightarrow> cu_project_id c \<in> projects \<Longrightarrow> cu_track_id c \<in> tracks \<Longrightarrow>
      \<exists>s'. cur_create R c s = (Inr c, s') \<and> ok s' \<and> m s' = (m s)(cu_id c \<mapsto> c)"
    and list_law: "ok s \<Longrightarrow> \<exists>cs. cur_list_by_project R p s = (Inr cs, s) \<and> sorted (map (\<lambda>c. (cu_start_s c, cu_created_at c)) cs) \<and>
      (\<forall>c. c \<in> set cs \<longleftrightarrow> m s (cu_id c) = Some c \<and> cu_project_id c = p)"
    and update_law: "ok s \<Longrightarrow> m s (cu_id c) = Some old \<Longrightarrow> cu_project_id c = cu_project_id old \<Longrightarrow> cu_created_at c = cu_created_at old \<Longrightarrow>
      cu_track_id c \<in> tracks \<Longrightarrow> \<exists>s'. cur_update R c s = (Inr c, s') \<and> ok s' \<and> m s' = (m s)(cu_id c \<mapsto> c)"
    and delete_law: "ok s \<Longrightarrow> \<exists>s'. cur_delete R k s = (Inr (m s k \<noteq> None), s') \<and> ok s' \<and> m s' = (m s)(k := None)"
    and status_law: "ok s \<Longrightarrow> \<exists>s'. cur_update_status R now k status asset err s =
        (Inr (map_option (with_cue_status now status asset err) (m s k)), s') \<and> ok s' \<and>
      m s' = (m s)(k := map_option (with_cue_status now status asset err) (m s k))"

lemma with_cue_status_simps [simp]:
  "cu_id (with_cue_status now st a e c) = cu_id c" "cu_project_id (with_cue_status now st a e c) = cu_project_id c"
  "cu_text (with_cue_status now st a e c) = cu_text c" "cu_voice (with_cue_status now st a e c) = cu_voice c"
  "cu_backend (with_cue_status now st a e c) = cu_backend c" "cu_cache_key (with_cue_status now st a e c) = cu_cache_key c"
  "cu_status (with_cue_status now st a e c) = st" "cu_asset (with_cue_status now st a e c) = a"
  "cu_error (with_cue_status now st a e c) = e" "cu_track_id (with_cue_status now st a e c) = cu_track_id c"
  "cu_created_at (with_cue_status now st a e c) = cu_created_at c"
  by (simp_all add: with_cue_status_def)

lemma cue_columns_same: "cu_id c = cu_id r \<Longrightarrow> cu_project_id c = cu_project_id r \<Longrightarrow> cu_created_at c = cu_created_at r \<Longrightarrow> cue_columns c r = c"
  by (cases c) (simp add: cue_columns_def)

abbreviation sqc_map :: "sql_cues \<Rightarrow> string \<Rightarrow> cue_record option" where
  "sqc_map rows \<equiv> (\<lambda>k. tbl_get cu_id k rows)"

abbreviation sqc_ok :: "sql_cues \<Rightarrow> bool" where
  "sqc_ok \<equiv> tbl_keys cu_id"

interpretation sqc: cue_store "sqc_repo projects tracks" sqc_map sqc_ok projects tracks for projects tracks
proof (unfold_locales, goal_cases)
  case (1 s k c) then show ?case by (simp add: tbl_get_iff)
next
  case (2 s k) then show ?case by (simp add: sqc_repo_def sqc_get_def)
next
  case (3 s c)
  then have "tbl_insert cu_id c s = Inr (s @ [c])" by (simp add: tbl_insert_Inr)
  moreover have "sqc_map (s @ [c]) = (sqc_map s)(cu_id c \<mapsto> c)" using 3(2) by (auto simp: tbl_get_append split: option.splits)
  ultimately show ?case using 3 by (simp add: sqc_repo_def sqc_create_def tbl_get_None del: fun_upd_apply)
next
  case (4 s p) then show ?case by (auto simp: sqc_repo_def sqc_list_by_project_def tbl_get_iff)
next
  case (5 s c old)
  have id: "cu_id (cue_columns c r) = cu_id r" for r by (simp add: cue_columns_def)
  have "cue_columns c old = c" using 5 tbl_get_Some [OF 5(2)] by (intro cue_columns_same) auto
  then have "sqc_map (tbl_update cu_id (cu_id c) (cue_columns c) s) = (sqc_map s)(cu_id c \<mapsto> c)"
    using 5(2) by (simp add: tbl_get_update [where key = cu_id and f = "cue_columns c", OF id] fun_eq_iff)
  moreover have "sqc_ok (tbl_update cu_id (cu_id c) (cue_columns c) s)" using 5(1) id by (rule tbl_keys_update [rotated])
  ultimately show ?case using 5 by (auto simp: sqc_repo_def sqc_update_def simp del: fun_upd_apply)
next
  case (6 s k)
  have "sqc_map (tbl_delete cu_id k s) = (sqc_map s)(k := None)" by (auto simp: tbl_get_delete)
  with 6 show ?case by (auto simp: sqc_repo_def sqc_delete_def tbl_keys_delete simp del: fun_upd_apply)
next
  case (7 s now k st a e)
  let ?f = "with_cue_status now st a e"
  have upd: "sqc_map (tbl_update cu_id k ?f s) = (sqc_map s)(k := map_option ?f (sqc_map s k))"
    by (auto simp: tbl_get_update)
  have keys: "sqc_ok (tbl_update cu_id k ?f s)" using 7 by (rule tbl_keys_update [rotated]) simp
  show ?case
  proof (cases "sqc_map s k")
    case None
    then show ?thesis using 7 by (auto simp: sqc_repo_def sqc_update_status_def fun_upd_idem)
  next
    case (Some c)
    then show ?thesis using upd keys
      by (intro exI [of _ "tbl_update cu_id k ?f s"]) (simp add: sqc_repo_def sqc_update_status_def sqc_get_def tbl_get_update)
  qed
qed

definition mmc_ok :: "mem_cues \<Rightarrow> bool" where
  "mmc_ok d \<longleftrightarrow> dict_all (\<lambda>k c. cu_id c = k) d"

lemma mmc_values: "mmc_ok d \<Longrightarrow> c \<in> set (dict_values d) \<longleftrightarrow> map_of d (cu_id c) = Some c"
  by (rule dict_all_values) (auto simp: mmc_ok_def)

interpretation mmc: cue_store mmc_repo map_of mmc_ok UNIV UNIV
proof (unfold_locales, goal_cases)
  case (1 s k c) then show ?case by (auto simp: mmc_ok_def dest: dict_all_get)
next
  case (2 s k) then show ?case by (simp add: mmc_repo_def mmc_get_def)
next
  case (3 s c)
  then show ?case by (auto simp: mmc_repo_def mmc_create_def mmc_ok_def dict_set_map_of intro: dict_all_set)
next
  case (4 s p)
  have "sorted (map f (filter P (sort_key f xs)))" for f :: "cue_record \<Rightarrow> rat \<times> time" and P xs
    by (rule sorted_filter) simp
  with 4 show ?case by (auto simp: mmc_repo_def mmc_list_by_project_def mmc_values simp del: set_map)
next
  case (5 s c old)
  then show ?case by (auto simp: mmc_repo_def mmc_update_def mmc_ok_def dict_set_map_of intro: dict_all_set)
next
  case (6 s k)
  then show ?case by (auto simp: mmc_repo_def mmc_delete_def mmc_ok_def delete_conv' fun_eq_iff intro: dict_all_pop)
next
  case (7 s now k st a e)
  show ?case
  proof (cases "map_of s k")
    case None
    then show ?thesis using 7 by (simp add: mmc_repo_def mmc_update_status_def fun_upd_idem)
  next
    case (Some c)
    then have "cu_id c = k" using 7 by (auto simp: mmc_ok_def dest: dict_all_get)
    with 7 have "mmc_ok (AList.update k (with_cue_status now st a e c) s)" by (auto simp: mmc_ok_def intro: dict_all_set)
    with Some show ?thesis by (simp add: mmc_repo_def mmc_update_status_def dict_set_map_of Let_def)
  qed
qed

end
