(* ===== verification/Tts_Synthesis.thy ===== *)
theory Tts_Synthesis
  imports Tts_Cues
begin

text \<open>
  The synthesis of cues: \<open>src/stoat_ferret/api/services/tts_service.py\<close>. A request and the task it starts run
  concurrently with the other requests on cues, each cut at its awaits: \<open>tts_task\<close> says where a task stands, and
  \<open>tts_step\<close> runs it to its next await. The cues are the rows of the SQLite table, the cache is the directory of the
  audio files. What FFmpeg, ffprobe, Piper and OpenRouter answer is an argument; one run of a backend is one answer of it.
\<close>

subsection \<open>The backends\<close>

type_synonym bytes = string

text \<open>FFmpeg and ffprobe each leave a return code; the audio streams ffprobe lists are pairs of channels and sample rate,
  or the message with which reading them fails.\<close>

record ffmpeg_answers =
  fa_convert_rc :: int
  fa_convert_stderr :: string
  fa_probe_rc :: int
  fa_streams :: "string + (int \<times> int) list"
  fa_output :: bytes

definition format_mismatch :: string where
  "format_mismatch = ''TTS output format mismatch: expected channels=2 sample_rate=48000''"

definition reconcile_to_48k_stereo :: "ffmpeg_answers \<Rightarrow> string + bytes" where
  "reconcile_to_48k_stereo a =
     (if fa_convert_rc a \<noteq> 0 then Inl (''FFmpeg format reconciliation failed: '' @ fa_convert_stderr a)
      else if fa_probe_rc a \<noteq> 0 then Inl format_mismatch
      else case fa_streams a of
        Inl e \<Rightarrow> Inl e
      | Inr [] \<Rightarrow> Inl format_mismatch
      | Inr ((channels, rate) # _) \<Rightarrow> if channels \<noteq> 2 \<or> rate \<noteq> 48000 then Inl format_mismatch else Inr (fa_output a))"

text \<open>\<open>pa_model\<close> and \<open>pa_model_after\<close>: whether the model's file is there, and whether it is after the download.\<close>

record piper_answers =
  pa_model :: bool
  pa_model_after :: bool
  pa_rc :: int
  pa_stderr :: string
  pa_ffmpeg :: ffmpeg_answers

definition piper_model_file :: "string \<Rightarrow> string" where
  "piper_model_file voice = (if has_suffix onnx_suffix voice then voice else voice @ onnx_suffix)"

definition piper_synthesise :: "(string \<Rightarrow> string) \<Rightarrow> piper_answers \<Rightarrow> string \<Rightarrow> string + bytes" where
  "piper_synthesise resolve a voice =
     (if \<not> pa_model a \<and> \<not> pa_model_after a
      then Inl (''Piper model not found and download failed: '' @ resolve (piper_model_file voice))
      else if pa_rc a \<noteq> 0 then Inl (''Piper synthesis failed: '' @ pa_stderr a)
      else reconcile_to_48k_stereo (pa_ffmpeg a))"

text \<open>\<open>ka_error\<close>: the message of an exception of the transport or of \<open>raise_for_status\<close>.\<close>

record kokoro_answers =
  ka_transport :: "string option"
  ka_status :: nat
  ka_text :: string
  ka_status_error :: string
  ka_ffmpeg :: ffmpeg_answers

definition kokoro_synthesise :: "string option \<Rightarrow> kokoro_answers \<Rightarrow> string + bytes" where
  "kokoro_synthesise api_key a =
     (if api_key = None then Inl ''openrouter_kokoro requires STOAT_OPENROUTER_API_KEY''
      else case ka_transport a of
        Some e \<Rightarrow> Inl e
      | None \<Rightarrow>
        if ka_status a = 429 then Inl ''TTS rate limited (429): Kokoro quota exceeded''
        else if ka_status a = 400 then Inl (''TTS bad request (400): '' @ ka_text a)
        else if ka_status a \<ge> 500 then Inl (''TTS backend error ('' @ py_str_int (int (ka_status a)) @ ''): '' @ ka_text a)
        else if ka_status a < 200 \<or> 300 \<le> ka_status a then Inl (ka_status_error a)
        else reconcile_to_48k_stereo (ka_ffmpeg a))"

text \<open>\<open>tw_piper\<close> and \<open>tw_kokoro\<close> answer a call for a text and a voice; the number tells one call from another.\<close>

record tts_world =
  tw_sha :: "string \<Rightarrow> string"
  tw_blank :: "string \<Rightarrow> bool"
  tw_kind_of :: "string \<Rightarrow> string option option"
  tw_projects :: "string set"
  tw_tracks :: "string set"
  tw_service :: bool
  tw_api_key :: "string option"
  tw_cache_dir :: string
  tw_resolve :: "string \<Rightarrow> string"
  tw_piper :: "nat \<Rightarrow> string \<Rightarrow> string \<Rightarrow> piper_answers"
  tw_kokoro :: "nat \<Rightarrow> string \<Rightarrow> string \<Rightarrow> kokoro_answers"

definition run_backend :: "tts_world \<Rightarrow> nat \<Rightarrow> string \<Rightarrow> string \<Rightarrow> string \<Rightarrow> string + bytes" where
  "run_backend w n t voice backend =
     (if backend = ''piper_local'' then piper_synthesise (tw_resolve w) (tw_piper w n t voice) voice
      else if backend \<in> set [''openrouter_kokoro'', ''openrouter_commercial''] then kokoro_synthesise (tw_api_key w) (tw_kokoro w n t voice)
      else Inl (''Unknown TTS backend: '' @ backend))"

subsection \<open>The cache and the tasks\<close>

type_synonym tts_cache = "(string, bytes) dict"

definition cache_path :: "tts_world \<Rightarrow> string \<Rightarrow> string" where
  "cache_path w key = tw_cache_dir w @ ''/'' @ key @ ''.wav''"

definition cache_hit :: "tts_cache \<Rightarrow> string \<Rightarrow> bool" where
  "cache_hit cache key \<longleftrightarrow> map_of cache key \<noteq> None"

definition cache_store :: "string \<Rightarrow> bytes \<Rightarrow> tts_cache \<Rightarrow> tts_cache" where
  "cache_store key audio cache = AList.update key audio cache"

text \<open>A request to synthesise stands before a read, before a write of the status, or before it starts its task; the task
  \<open>Bg\<close> before its read, its look into the cache, its run of the backend, its write, or its callback. \<open>Edit\<close>, \<open>Add\<close> and
  \<open>Drop\<close> are the other requests that write.\<close>

datatype tts_task =
    Route string string
  | Ask string
  | Reset string
  | Mark string
  | Start string
  | Bg string
  | Bg_read cue_record
  | Bg_run cue_record
  | Bg_ready string string
  | Bg_failed string string
  | Bg_done string
  | Add string string cue_create
  | Edit string string cue_patch
  | Edit_write cue_record
  | Drop string string
  | Drop_write string
  | Replied "exn + bool"
  | Finished

record tts_state =
  tq_cues :: sql_cues
  tq_cache :: tts_cache
  tq_tasks :: "tts_task list"
  tq_active :: "(string, nat) dict"

definition dispatch_status :: "bool \<Rightarrow> string" where
  "dispatch_status dispatched = (if dispatched then ''dispatched'' else ''already_synthesising'')"

text \<open>An operation of the repository between two awaits: its exception ends the request, its result goes on.\<close>

definition on_cues :: "(sql_cues, 'a) op \<Rightarrow> ('a \<Rightarrow> tts_task) \<Rightarrow> tts_state \<Rightarrow> tts_task \<times> tts_state" where
  "on_cues f go s = (case f (tq_cues s) of
     (Inl e, cs) \<Rightarrow> (Replied (Inl e), s\<lparr>tq_cues := cs\<rparr>)
   | (Inr x, cs) \<Rightarrow> (go x, s\<lparr>tq_cues := cs\<rparr>))"

text \<open>\<open>synthesise_cue\<close> once it has read the cue.\<close>

definition ask_next :: "string \<Rightarrow> cue_record option \<Rightarrow> tts_task" where
  "ask_next k c = (case c of
     None \<Rightarrow> Replied (Inl ValueError)
   | Some c \<Rightarrow> if cu_status c = ''synthesising'' then Replied (Inr False)
       else if cu_status c = ''failed'' then Reset k else Mark k)"

definition start_bg :: "string \<Rightarrow> tts_state \<Rightarrow> tts_task \<times> tts_state" where
  "start_bg k s = (Replied (Inr True),
     s\<lparr>tq_tasks := tq_tasks s @ [Bg k], tq_active := AList.update k (length (tq_tasks s)) (tq_active s)\<rparr>)"

text \<open>\<open>_do_synthesise\<close>: after its read, after its look into the cache, after its backend.\<close>

definition bg_read :: "string \<Rightarrow> cue_record option \<Rightarrow> tts_task" where
  "bg_read k c = (case c of None \<Rightarrow> Bg_done k | Some c \<Rightarrow> Bg_read c)"

definition bg_look :: "cue_record \<Rightarrow> tts_state \<Rightarrow> tts_task" where
  "bg_look c s = (if cache_hit (tq_cache s) (cu_cache_key c) then Bg_ready (cu_id c) (cu_cache_key c) else Bg_run c)"

definition bg_finish :: "cue_record \<Rightarrow> string + bytes \<Rightarrow> tts_state \<Rightarrow> tts_task \<times> tts_state" where
  "bg_finish c answer s = (case answer of
     Inl e \<Rightarrow> (Bg_failed (cu_id c) e, s)
   | Inr audio \<Rightarrow> (Bg_ready (cu_id c) (cu_cache_key c), s\<lparr>tq_cache := cache_store (cu_cache_key c) audio (tq_cache s)\<rparr>))"

definition edit_next ::
  "tts_world \<Rightarrow> time \<Rightarrow> string \<Rightarrow> cue_patch \<Rightarrow> cue_record \<Rightarrow> tts_task" where
  "edit_next w now k b c = (case cx_track_id b of
     None \<Rightarrow> Edit_write (patch_cue (tw_sha w) now b c)
   | Some t \<Rightarrow> (case validate_voice_track (tw_kind_of w) t of
       Inl e \<Rightarrow> Replied (Inl e)
     | Inr _ \<Rightarrow> Edit_write (patch_cue (tw_sha w) now b c)))"

fun tts_step :: "tts_world \<Rightarrow> time \<Rightarrow> nat \<Rightarrow> tts_task \<Rightarrow> tts_state \<Rightarrow> tts_task \<times> tts_state" where
  "tts_step w now n (Route pid k) s = on_cues (get_tts_cue (sqc_repo (tw_projects w) (tw_tracks w)) pid k)
     (\<lambda>_. if tw_service w then Ask k else Replied (Inl (HTTPError 503 ''TTS_SERVICE_UNAVAILABLE''))) s"
| "tts_step w now n (Ask k) s = on_cues (sqc_get k) (ask_next k) s"
| "tts_step w now n (Reset k) s = on_cues (sqc_update_status now k ''pending'' None None) (\<lambda>_. Mark k) s"
| "tts_step w now n (Mark k) s = on_cues (sqc_update_status now k ''synthesising'' None None) (\<lambda>_. Start k) s"
| "tts_step w now n (Start k) s = start_bg k s"
| "tts_step w now n (Bg k) s = on_cues (sqc_get k) (bg_read k) s"
| "tts_step w now n (Bg_read c) s = (bg_look c s, s)"
| "tts_step w now n (Bg_run c) s = bg_finish c (run_backend w n (cu_text c) (cu_voice c) (cu_backend c)) s"
| "tts_step w now n (Bg_ready k key) s =
     on_cues (sqc_update_status now k ''ready'' (Some (cache_path w key)) None) (\<lambda>_. Bg_done k) s"
| "tts_step w now n (Bg_failed k e) s = on_cues (sqc_update_status now k ''failed'' None (Some e)) (\<lambda>_. Bg_done k) s"
| "tts_step w now n (Bg_done k) s = (Finished, s\<lparr>tq_active := AList.delete k (tq_active s)\<rparr>)"
| "tts_step w now n (Add new_id pid b) s = on_cues
     (create_tts_cue (tw_blank w) (tw_sha w) (tw_kind_of w) (sqc_repo (tw_projects w) (tw_tracks w)) new_id now pid b)
     (\<lambda>_. Replied (Inr True)) s"
| "tts_step w now n (Edit pid k b) s = (if \<not> cue_patch_ok (tw_blank w) b then (Replied (Inl (HTTPError 422 ''VALIDATION'')), s)
     else on_cues (get_tts_cue (sqc_repo (tw_projects w) (tw_tracks w)) pid k) (edit_next w now k b) s)"
| "tts_step w now n (Edit_write c) s = on_cues (sqc_update (tw_tracks w) c) (\<lambda>_. Replied (Inr True)) s"
| "tts_step w now n (Drop pid k) s = on_cues (get_tts_cue (sqc_repo (tw_projects w) (tw_tracks w)) pid k) (\<lambda>_. Drop_write k) s"
| "tts_step w now n (Drop_write k) s = on_cues (sqc_delete k) (\<lambda>_. Replied (Inr True)) s"
| "tts_step w now n (Replied r) s = (Replied r, s)"
| "tts_step w now n Finished s = (Finished, s)"

text \<open>A request arrives, a task runs to its next await, or the service is shut down, which cancels the active tasks: a
  cancelled task writes nothing, for \<open>CancelledError\<close> is no \<open>Exception\<close>.\<close>

datatype tts_act =
    Arrive tts_task
  | Resume nat time nat
  | Shutdown

fun is_request :: "tts_task \<Rightarrow> bool" where
  "is_request (Route pid k) = True"
| "is_request (Ask k) = True"
| "is_request (Add new_id pid b) = True"
| "is_request (Edit pid k b) = True"
| "is_request (Drop pid k) = True"
| "is_request _ = False"

definition tts_shutdown :: "tts_state \<Rightarrow> tts_state" where
  "tts_shutdown s = s\<lparr>tq_tasks := fold (\<lambda>(k, i) ts. ts[i := Finished]) (tq_active s) (tq_tasks s), tq_active := []\<rparr>"

fun tts_exec :: "tts_world \<Rightarrow> tts_act \<Rightarrow> tts_state \<Rightarrow> tts_state" where
  "tts_exec w (Arrive t) s = (if is_request t then s\<lparr>tq_tasks := tq_tasks s @ [t]\<rparr> else s)"
| "tts_exec w (Resume i now n) s = (if i < length (tq_tasks s)
     then (case tts_step w now n (tq_tasks s ! i) s of (t, s') \<Rightarrow> s'\<lparr>tq_tasks := (tq_tasks s')[i := t]\<rparr>) else s)"
| "tts_exec w Shutdown s = tts_shutdown s"

definition tts_run :: "tts_world \<Rightarrow> tts_act list \<Rightarrow> tts_state \<Rightarrow> tts_state" where
  "tts_run w acts s = fold (tts_exec w) acts s"

end
