(* ===== verification/Tts_Properties.thy ===== *)
theory Tts_Properties
  imports Tts_Synthesis Service_Lemmas
begin

text \<open>
  What the synthesis keeps: every cue's key is the key of its texts, every file of the cache was produced for texts with
  its name as key, a cue that is ready has its file, and, while no request changes what a cue says, the file of its own
  key. What one request does from start to end, and how a request that edits a cue meanwhile spoils it.
\<close>

subsection \<open>Runs\<close>

lemma tts_run_simps [simp]: "tts_run w [] s = s" "tts_run w (a # acts) s = tts_run w acts (tts_exec w a s)"
  by (simp_all add: tts_run_def)

lemma tts_run_append: "tts_run w (acts @ acts') s = tts_run w acts' (tts_run w acts s)"
  by (simp add: tts_run_def)

lemma tts_run_induct:
  assumes "I s" and "\<And>a s. a \<in> set acts \<Longrightarrow> I s \<Longrightarrow> I (tts_exec w a s)"
  shows "I (tts_run w acts s)"
  using assms by (induction acts arbitrary: s) simp_all

subsection \<open>The invariant\<close>

definition cue_key :: "tts_world \<Rightarrow> cue_record \<Rightarrow> string" where
  "cue_key w c = compute_cache_key (tw_sha w) (cu_text c) (cu_voice c) (cu_backend c)"

text \<open>A cue that is as the service may leave it, given the files of the cache; \<open>own\<close> says for which cues the file of a
  ready cue has to be the one of its own key.\<close>

definition cue_sound :: "bool \<Rightarrow> tts_world \<Rightarrow> tts_cache \<Rightarrow> cue_record \<Rightarrow> bool" where
  "cue_sound own w cache c \<longleftrightarrow> cu_cache_key c = cue_key w c \<and>
     (cu_status c = ''ready'' \<longrightarrow> (\<exists>key. cu_asset c = Some (cache_path w key) \<and> cache_hit cache key \<and> (own \<longrightarrow> key = cu_cache_key c)))"

definition cache_sound :: "tts_world \<Rightarrow> tts_cache \<Rightarrow> bool" where
  "cache_sound w cache \<longleftrightarrow> (\<forall>key audio. map_of cache key = Some audio \<longrightarrow> (\<exists>n t v b.
     key = compute_cache_key (tw_sha w) t v b \<and> run_backend w n t v b = Inr audio))"

definition created_key :: "tts_world \<Rightarrow> cue_create \<Rightarrow> string" where
  "created_key w b = compute_cache_key (tw_sha w) (cq_text b) (cq_voice b) (cq_backend b)"

text \<open>What a task carries: \<open>K\<close> is the key of a cue, in runs that edit no text.\<close>

definition key_stays :: "(string \<Rightarrow> string) option \<Rightarrow> string \<Rightarrow> string \<Rightarrow> bool" where
  "key_stays K k key \<longleftrightarrow> (case K of None \<Rightarrow> True | Some K \<Rightarrow> key = K k)"

definition cue_ok :: "(string \<Rightarrow> string) option \<Rightarrow> tts_world \<Rightarrow> tts_cache \<Rightarrow> cue_record \<Rightarrow> bool" where
  "cue_ok K w cache c \<longleftrightarrow> cue_sound (K \<noteq> None) w cache c \<and> key_stays K (cu_id c) (cu_cache_key c)"

fun tts_task_ok :: "(string \<Rightarrow> string) option \<Rightarrow> tts_world \<Rightarrow> tts_cache \<Rightarrow> tts_task \<Rightarrow> bool" where
  "tts_task_ok K w cache (Bg_read c) = (cu_cache_key c = cue_key w c \<and> key_stays K (cu_id c) (cu_cache_key c))"
| "tts_task_ok K w cache (Bg_run c) = (cu_cache_key c = cue_key w c \<and> key_stays K (cu_id c) (cu_cache_key c))"
| "tts_task_ok K w cache (Bg_ready k key) = (cache_hit cache key \<and> key_stays K k key)"
| "tts_task_ok K w cache (Edit_write c) = cue_ok K w cache c"
| "tts_task_ok K w cache (Edit pid k b) = (K = None \<or> \<not> synthesis_changed b)"
| "tts_task_ok K w cache (Add k pid b) = key_stays K k (created_key w b)"
| "tts_task_ok K w cache _ = True"

definition tts_ok :: "(string \<Rightarrow> string) option \<Rightarrow> tts_world \<Rightarrow> tts_state \<Rightarrow> bool" where
  "tts_ok K w s \<longleftrightarrow> sqc_ok (tq_cues s) \<and> cache_sound w (tq_cache s) \<and> (\<forall>c \<in> set (tq_cues s). cue_ok K w (tq_cache s) c) \<and>
     (\<forall>t \<in> set (tq_tasks s). tts_task_ok K w (tq_cache s) t)"

text \<open>The cache only grows.\<close>

lemma cache_store_hit: "cache_hit (cache_store key a cache) k \<longleftrightarrow> k = key \<or> cache_hit cache k"
  by (simp add: cache_hit_def cache_store_def dict_set_map_of)

lemma cue_ok_grows: "cue_ok K w cache c \<Longrightarrow> cue_ok K w (cache_store key a cache) c"
  by (auto simp: cue_ok_def cue_sound_def cache_store_hit)

lemma tts_task_ok_grows: "tts_task_ok K w cache t \<Longrightarrow> tts_task_ok K w (cache_store key a cache) t"
  by (cases t) (auto simp: cue_ok_grows cache_store_hit)

lemma cache_sound_store:
  "cache_sound w cache \<Longrightarrow> run_backend w n t v b = Inr a \<Longrightarrow> key = compute_cache_key (tw_sha w) t v b \<Longrightarrow>
   cache_sound w (cache_store key a cache)"
  by (auto simp: cache_sound_def cache_store_def dict_set_map_of)

text \<open>A step of a task: the table stays sound, and so does the task.\<close>

definition step_ok :: "(string \<Rightarrow> string) option \<Rightarrow> tts_world \<Rightarrow> tts_state \<Rightarrow> tts_task \<times> tts_state \<Rightarrow> bool" where
  "step_ok K w s r \<longleftrightarrow> (case r of (t, s') \<Rightarrow> sqc_ok (tq_cues s') \<and> cache_sound w (tq_cache s') \<and>
     (\<forall>c \<in> set (tq_cues s'). cue_ok K w (tq_cache s') c) \<and> tts_task_ok K w (tq_cache s') t \<and>
     (\<forall>t \<in> set (tq_tasks s'). tts_task_ok K w (tq_cache s') t))"

lemma on_cues_ok:
  assumes "tts_ok K w s"
    and "sqc_ok (snd (f (tq_cues s)))" and "\<And>c. c \<in> set (snd (f (tq_cues s))) \<Longrightarrow> cue_ok K w (tq_cache s) c"
    and "\<And>x. fst (f (tq_cues s)) = Inr x \<Longrightarrow> tts_task_ok K w (tq_cache s) (go x)"
  shows "step_ok K w s (on_cues f go s)"
  using assms by (auto simp: step_ok_def on_cues_def tts_ok_def split: prod.splits sum.splits)

lemma status_cues:
  "snd (sqc_update_status now k st a e rows) = tbl_update cu_id k (with_cue_status now st a e) rows"
  by (auto simp: sqc_update_status_def sqc_get_def read_op_def tbl_update_def tbl_get_None map_idI intro!: sym [OF map_idI])

lemma status_ok:
  assumes "tts_ok K w s" and "st = ''ready'' \<Longrightarrow> \<exists>key. a = Some (cache_path w key) \<and> cache_hit (tq_cache s) key \<and> key_stays K k key"
    and "\<And>x. tts_task_ok K w (tq_cache s) (go x)"
  shows "step_ok K w s (on_cues (sqc_update_status now k st a e) go s)"
proof (rule on_cues_ok [OF assms(1)])
  show "sqc_ok (snd (sqc_update_status now k st a e (tq_cues s)))"
    using assms(1) unfolding status_cues by (intro tbl_keys_update) (simp_all add: tts_ok_def)
  fix c assume "c \<in> set (snd (sqc_update_status now k st a e (tq_cues s)))"
  then show "cue_ok K w (tq_cache s) c"
    using assms(1,2) unfolding status_cues set_tbl_update
    by (fastforce simp: tts_ok_def cue_ok_def cue_sound_def cue_key_def key_stays_def split: option.splits)
qed (rule assms(3))

lemma read_ok:
  assumes "tts_ok K w s" and "snd (f (tq_cues s)) = tq_cues s"
    and "\<And>x. fst (f (tq_cues s)) = Inr x \<Longrightarrow> tts_task_ok K w (tq_cache s) (go x)"
  shows "step_ok K w s (on_cues f go s)"
  using assms by (intro on_cues_ok) (auto simp: tts_ok_def)

lemma get_cue_cases:
  "get_tts_cue (sqc_repo projects tracks) pid k rows =
     (case tbl_get cu_id k rows of
        None \<Rightarrow> (Inl (HTTPError 404 ''TTS_CUE_NOT_FOUND''), rows)
      | Some c \<Rightarrow> if cu_project_id c \<noteq> pid then (Inl (HTTPError 404 ''TTS_CUE_NOT_FOUND''), rows) else (Inr c, rows))"
  by (simp add: get_tts_cue_def sqc_repo_def sqc_get_def lift_sum_def own_cue_def op_simps split: option.splits)

lemma get_cue_read: "snd (get_tts_cue (sqc_repo projects tracks) pid k rows) = rows"
  by (simp add: get_cue_cases split: option.splits)

lemma get_cue_mem:
  "fst (get_tts_cue (sqc_repo projects tracks) pid k rows) = Inr c \<Longrightarrow> c \<in> set rows \<and> cu_id c = k"
  by (auto simp: get_cue_cases dest!: tbl_get_Some split: option.splits if_splits)

lemma sqc_get_read [simp]: "snd (sqc_get k rows) = rows" "fst (sqc_get k rows) = Inr (tbl_get cu_id k rows)"
  by (simp_all add: sqc_get_def read_op_def)

lemma sqc_get_run: "sqc_get k rows = (Inr (tbl_get cu_id k rows), rows)"
  by (simp add: sqc_get_def read_op_def)

lemma patched_ok:
  assumes "cue_ok K w cache c" and "K = None \<or> \<not> synthesis_changed b"
  shows "cue_ok K w cache (patch_cue (tw_sha w) now b c)"
  using assms by (cases "synthesis_changed b")
    (auto simp: cue_ok_def cue_sound_def cue_key_def key_stays_def patch_cue_def Let_def synthesis_changed_def given_cue_def
      split: option.splits)

lemma edit_next_ok:
  assumes "cue_ok K w cache c" and "K = None \<or> \<not> synthesis_changed b"
  shows "tts_task_ok K w cache (edit_next w now k b c)"
  using patched_ok [OF assms] by (simp add: edit_next_def split: option.splits sum.splits)

lemma new_cue_ok: "key_stays K new_id (created_key w b) \<Longrightarrow> cue_ok K w cache (new_cue (tw_sha w) new_id now pid b)"
  by (simp add: cue_ok_def cue_sound_def cue_key_def created_key_def new_cue_def)

lemma create_cue_rows:
  "snd (create_tts_cue blank sha kind_of (sqc_repo projects tracks) new_id now pid b rows) = rows \<or>
   tbl_get cu_id new_id rows = None \<and>
   snd (create_tts_cue blank sha kind_of (sqc_repo projects tracks) new_id now pid b rows) = rows @ [new_cue sha new_id now pid b]"
  by (auto simp: create_tts_cue_def sqc_repo_def sqc_create_def lift_sum_def op_simps new_cue_def
      dest: tbl_insert_Inr [THEN iffD1] split: sum.splits)

lemma update_cue_rows:
  "snd (sqc_update tracks c rows) = rows \<or> snd (sqc_update tracks c rows) = tbl_update cu_id (cu_id c) (cue_columns c) rows"
  by (simp add: sqc_update_def)

lemma cue_columns_ok: "cue_ok K w cache c \<Longrightarrow> cu_id r = cu_id c \<Longrightarrow> cue_ok K w cache (cue_columns c r)"
  by (auto simp: cue_ok_def cue_sound_def cue_key_def cue_columns_def)

lemma cue_columns_id [simp]: "cu_id (cue_columns c r) = cu_id r"
  by (simp add: cue_columns_def)

lemma bg_read_ok:
  assumes "tts_ok K w s" shows "tts_task_ok K w (tq_cache s) (bg_read k (tbl_get cu_id k (tq_cues s)))"
proof (cases "tbl_get cu_id k (tq_cues s)")
  case None then show ?thesis by (simp add: bg_read_def)
next
  case (Some c)
  with assms have "cue_ok K w (tq_cache s) c" by (auto simp: tts_ok_def dest!: tbl_get_Some)
  then have "cu_cache_key c = cue_key w c \<and> key_stays K (cu_id c) (cu_cache_key c)" by (auto simp: cue_ok_def cue_sound_def)
  with Some show ?thesis by (auto simp: bg_read_def)
qed

lemma tts_step_ok:
  assumes s: "tts_ok K w s" and t: "tts_task_ok K w (tq_cache s) t"
  shows "step_ok K w s (tts_step w now n t s)"
proof (cases t)
  case (Route pid k)
  then show ?thesis using s by (auto intro!: read_ok simp: get_cue_read)
next
  case (Ask k)
  then show ?thesis using s by (auto intro!: read_ok simp: ask_next_def split: option.splits)
next
  case (Reset k) then show ?thesis using s by (auto intro!: status_ok)
next
  case (Mark k) then show ?thesis using s by (auto intro!: status_ok)
next
  case (Start k) then show ?thesis using s by (auto simp: step_ok_def start_bg_def tts_ok_def)
next
  case (Bg k)
  then show ?thesis using s bg_read_ok [OF s, of k] by (auto intro!: read_ok)
next
  case (Bg_read c) then show ?thesis using s t by (auto simp: step_ok_def bg_look_def tts_ok_def)
next
  case (Bg_run c)
  show ?thesis
  proof (cases "run_backend w n (cu_text c) (cu_voice c) (cu_backend c)")
    case (Inl e) then show ?thesis using Bg_run s by (auto simp: step_ok_def bg_finish_def tts_ok_def)
  next
    case (Inr a)
    with Bg_run s t show ?thesis
      by (auto simp: step_ok_def bg_finish_def tts_ok_def cue_ok_grows tts_task_ok_grows cache_store_hit cue_key_def
          intro: cache_sound_store)
  qed
next
  case (Bg_ready k key) then show ?thesis using s t by (auto intro!: status_ok)
next
  case (Bg_failed k e) then show ?thesis using s by (auto intro!: status_ok)
next
  case (Bg_done k) then show ?thesis using s by (auto simp: step_ok_def tts_ok_def)
next
  case (Add k pid b)
  with t have "key_stays K k (created_key w b)" by simp
  with Add s show ?thesis
    using create_cue_rows [of "tw_blank w" "tw_sha w" "tw_kind_of w" "tw_projects w" "tw_tracks w" k now pid b "tq_cues s"]
    by (auto intro!: on_cues_ok simp: tts_ok_def new_cue_ok tbl_get_None new_cue_def [THEN arg_cong [of _ _ cu_id]])
next
  case (Edit pid k b)
  show ?thesis
  proof (cases "cue_patch_ok (tw_blank w) b")
    case True
    with Edit s t show ?thesis
      by (auto intro!: read_ok edit_next_ok simp: get_cue_read tts_ok_def dest!: get_cue_mem)
  next
    case False with Edit s show ?thesis by (auto simp: step_ok_def tts_ok_def)
  qed
next
  case (Edit_write c)
  then show ?thesis using s t update_cue_rows [of "tw_tracks w" c "tq_cues s"]
    by (auto intro!: on_cues_ok cue_columns_ok simp: tts_ok_def set_tbl_update map_key_update)
next
  case (Drop pid k) then show ?thesis using s by (auto intro!: read_ok simp: get_cue_read)
next
  case (Drop_write k)
  then show ?thesis using s by (auto intro!: on_cues_ok simp: sqc_delete_def tts_ok_def set_tbl_delete tbl_keys_delete)
next
  case (Replied r) then show ?thesis using s t by (simp add: step_ok_def tts_ok_def)
next
  case Finished then show ?thesis using s t by (simp add: step_ok_def tts_ok_def)
qed

lemma shutdown_tasks: "t \<in> set (fold (\<lambda>(k, i) ts. ts[i := Finished]) active ts) \<Longrightarrow> t \<in> set ts \<or> t = Finished"
proof (induction active arbitrary: ts)
  case (Cons a active)
  then show ?case using set_update_subset_insert [of ts "snd a" Finished] by (cases a) fastforce
qed simp

fun act_ok :: "(string \<Rightarrow> string) option \<Rightarrow> tts_world \<Rightarrow> tts_act \<Rightarrow> bool" where
  "act_ok K w (Arrive (Edit pid k b)) = (K = None \<or> \<not> synthesis_changed b)"
| "act_ok K w (Arrive (Add k pid b)) = key_stays K k (created_key w b)"
| "act_ok K w _ = True"

lemma tts_exec_ok:
  assumes "tts_ok K w s" and "act_ok K w a"
  shows "tts_ok K w (tts_exec w a s)"
proof (cases a)
  case (Arrive t)
  then have "is_request t \<Longrightarrow> tts_task_ok K w (tq_cache s) t" using assms(2) by (cases t) auto
  with Arrive assms show ?thesis by (auto simp: tts_ok_def)
next
  case (Resume i now n)
  show ?thesis
  proof (cases "i < length (tq_tasks s)")
    case True
    obtain t s' where step: "tts_step w now n (tq_tasks s ! i) s = (t, s')" by (cases "tts_step w now n (tq_tasks s ! i) s")
    have "step_ok K w s (t, s')"
      using tts_step_ok [OF assms(1), of "tq_tasks s ! i" now n] assms(1) True by (simp add: step tts_ok_def)
    then show ?thesis using Resume True step set_update_subset_insert [of "tq_tasks s'" i t]
      by (auto simp: step_ok_def tts_ok_def)
  qed (use Resume assms in simp)
next
  case Shutdown
  then show ?thesis using assms by (auto simp: tts_shutdown_def tts_ok_def dest!: shutdown_tasks)
qed

lemma tts_run_ok: "tts_ok K w s \<Longrightarrow> (\<And>a. a \<in> set acts \<Longrightarrow> act_ok K w a) \<Longrightarrow> tts_ok K w (tts_run w acts s)"
  by (rule tts_run_induct) (auto intro: tts_exec_ok)

subsection \<open>Properties\<close>

text \<open>The service at its start, on the cues and the files an earlier run has left.\<close>

definition tts_start :: "tts_world \<Rightarrow> tts_state \<Rightarrow> bool" where
  "tts_start w s \<longleftrightarrow> tq_tasks s = [] \<and> tq_active s = [] \<and> sqc_ok (tq_cues s) \<and> cache_sound w (tq_cache s) \<and>
     (\<forall>c \<in> set (tq_cues s). cue_sound True w (tq_cache s) c)"

lemma tts_start_ok: "tts_start w s \<Longrightarrow> tts_ok None w s"
  by (fastforce simp: tts_start_def tts_ok_def cue_ok_def cue_sound_def key_stays_def)


text \<open>In every run of the service, whatever requests arrive and however they interleave with the synthesis, every cue
  carries the cache key of its own text, voice and backend, every audio file of the cache is one a backend has answered for
  texts with that key, and every cue that is ready names a file that is there.\<close>

theorem cue_keys_and_files:
  assumes "tts_start w s"
  shows "(\<forall>c \<in> set (tq_cues (tts_run w acts s)).
      cu_cache_key c = compute_cache_key (tw_sha w) (cu_text c) (cu_voice c) (cu_backend c) \<and>
      (cu_status c = ''ready'' \<longrightarrow> (\<exists>key. cu_asset c = Some (cache_path w key) \<and> cache_hit (tq_cache (tts_run w acts s)) key))) \<and>
    (\<forall>key audio. map_of (tq_cache (tts_run w acts s)) key = Some audio \<longrightarrow>
      (\<exists>n t v b. key = compute_cache_key (tw_sha w) t v b \<and> run_backend w n t v b = Inr audio))"
proof -
  have act: "act_ok None w a" for a
    by (cases "(None :: (string \<Rightarrow> string) option, w, a)" rule: act_ok.cases) (simp_all add: key_stays_def)
  have ok: "tts_ok None w (tts_run w acts s)" by (rule tts_run_ok [OF tts_start_ok [OF assms] act])
  then have "cache_sound w (tq_cache (tts_run w acts s))" by (simp add: tts_ok_def)
  moreover have "cue_sound False w (tq_cache (tts_run w acts s)) c" if "c \<in> set (tq_cues (tts_run w acts s))" for c
    using ok that by (simp add: tts_ok_def cue_ok_def)
  ultimately show ?thesis by (auto simp: cue_sound_def cue_key_def cache_sound_def)
qed

text \<open>A request to synthesise, with its task, run alone from start to end.\<close>

abbreviation one_synthesis :: "string \<Rightarrow> time \<Rightarrow> nat \<Rightarrow> tts_act list" where
  "one_synthesis k now n \<equiv> Arrive (Ask k) # replicate 4 (Resume 0 now n) @ replicate 5 (Resume 1 now n)"

text \<open>A service with one cue, before and after its synthesis.\<close>

definition demo_ffmpeg :: ffmpeg_answers where
  "demo_ffmpeg = \<lparr>fa_convert_rc = 0, fa_convert_stderr = [], fa_probe_rc = 0, fa_streams = Inr [(2, 48000)], fa_output = ''wav''\<rparr>"

definition demo_tts :: tts_world where
  "demo_tts = \<lparr>tw_sha = (\<lambda>t. t), tw_blank = (\<lambda>t. t = []), tw_kind_of = (\<lambda>_. Some (Some ''voice'')), tw_projects = {''p''},
     tw_tracks = {''v''}, tw_service = True, tw_api_key = None, tw_cache_dir = ''/c'', tw_resolve = (\<lambda>p. p),
     tw_piper = (\<lambda>_ _ _. \<lparr>pa_model = True, pa_model_after = True, pa_rc = 0, pa_stderr = [], pa_ffmpeg = demo_ffmpeg\<rparr>),
     tw_kokoro = (\<lambda>_ _ _. \<lparr>ka_transport = None, ka_status = 200, ka_text = [], ka_status_error = [], ka_ffmpeg = demo_ffmpeg\<rparr>)\<rparr>"

definition demo_cue :: cue_record where
  "demo_cue = new_cue (\<lambda>t. t) ''q'' 0 ''p'' \<lparr>cq_track_id = ''v'', cq_start_s = 0, cq_text = ''hi'', cq_voice = ''amy'',
     cq_backend = ''piper_local'', cq_gain_db = 0, cq_pan = 0\<rparr>"

definition demo_tts_state :: tts_state where
  "demo_tts_state = \<lparr>tq_cues = [demo_cue], tq_cache = [], tq_tasks = [], tq_active = []\<rparr>"

definition demo_patch :: cue_patch where
  "demo_patch = \<lparr>cx_track_id = None, cx_start_s = Some 1, cx_text = None, cx_voice = None, cx_backend = None, cx_gain_db = None, cx_pan = None\<rparr>"

lemma demo_tts_start: "tts_start demo_tts demo_tts_state"
  by (simp add: tts_start_def demo_tts_state_def cache_sound_def cue_sound_def demo_cue_def new_cue_def cue_key_def demo_tts_def)

lemma demo_backend: "run_backend demo_tts 0 ''hi'' ''amy'' ''piper_local'' = Inr ''wav''"
  by (simp add: run_backend_def piper_synthesise_def demo_tts_def reconcile_to_48k_stereo_def demo_ffmpeg_def)

abbreviation demo_key :: string where "demo_key \<equiv> ''hi::amy::piper_local''"

lemma demo_key: "compute_cache_key (tw_sha demo_tts) ''hi'' ''amy'' ''piper_local'' = demo_key"
  by (simp add: compute_cache_key_def demo_tts_def)

definition demo_ready :: cue_record where
  "demo_ready = with_cue_status 5 ''ready'' (Some (cache_path demo_tts demo_key)) None demo_cue"

lemma demo_tts_run:
  "tts_run demo_tts (one_synthesis ''q'' 5 0) demo_tts_state =
     \<lparr>tq_cues = [demo_ready], tq_cache = [(demo_key, ''wav'')], tq_tasks = [Replied (Inr True), Finished], tq_active = []\<rparr>"
  by code_simp

theorem cue_keys_and_files_witness:
  "cu_cache_key demo_ready = compute_cache_key (tw_sha demo_tts) (cu_text demo_ready) (cu_voice demo_ready) (cu_backend demo_ready) \<and>
   (\<exists>n t v b. demo_key = compute_cache_key (tw_sha demo_tts) t v b \<and> run_backend demo_tts n t v b = Inr ''wav'')"
  using cue_keys_and_files [OF demo_tts_start, of "one_synthesis ''q'' 5 0"] unfolding demo_tts_run by simp







subsection \<open>One synthesis\<close>

lemma status_twice:
  "tbl_update cu_id k (with_cue_status now st a e) (tbl_update cu_id k (with_cue_status now' st' a' e') rows) =
   tbl_update cu_id k (with_cue_status now st a e) rows"
  by (auto simp: tbl_update_def with_cue_status_def)

lemma cue_status_run:
  "tbl_get cu_id k rows = Some c \<Longrightarrow> sqc_update_status now k st a e rows =
     (Inr (Some (with_cue_status now st a e c)), tbl_update cu_id k (with_cue_status now st a e) rows)"
  by (simp add: sqc_update_status_def sqc_get_def read_op_def tbl_get_update)

text \<open>How the cue ends, and the cache.\<close>

definition settled_cue :: "tts_world \<Rightarrow> nat \<Rightarrow> tts_cache \<Rightarrow> cue_record \<Rightarrow> (string \<times> string option \<times> string option) \<times> tts_cache" where
  "settled_cue w n cache c =
     (if cache_hit cache (cu_cache_key c) then ((''ready'', Some (cache_path w (cu_cache_key c)), None), cache)
      else case run_backend w n (cu_text c) (cu_voice c) (cu_backend c) of
        Inl e \<Rightarrow> ((''failed'', None, Some e), cache)
      | Inr audio \<Rightarrow> ((''ready'', Some (cache_path w (cu_cache_key c)), None), AList.update (cu_cache_key c) audio cache))"

text \<open>C36. A request to synthesise a cue, served alone by a service without tasks, settles the cue unless it is marked as
  being synthesised: it ends ready with the file of its key, from the cache without a call of the backend if it is there
  and from the backend otherwise, or failed with the backend's message; a cue that had failed is tried again; the task is
  taken off the active ones and nothing else changes. A cue that is marked as being synthesised, which a shutdown or an
  edit may have left so, is not touched, and the request is told that it already is.\<close>

theorem synthesis_outcome:
  assumes "tbl_get cu_id k (tq_cues s) = Some c" and "tq_tasks s = []" "tq_active s = []"
    and "settled_cue w n (tq_cache s) c = ((st, asset, err), cache)"
  shows "tts_run w (one_synthesis k now n) s =
     (if cu_status c = ''synthesising'' then s\<lparr>tq_tasks := [Replied (Inr False)]\<rparr>
      else s\<lparr>tq_cues := tbl_update cu_id k (with_cue_status now st asset err) (tq_cues s), tq_cache := cache,
        tq_tasks := [Replied (Inr True), Finished]\<rparr>)"
proof (cases "cu_status c = ''synthesising''")
  case True
  then show ?thesis using assms(1-3) by (simp add: eval_nat_numeral on_cues_def sqc_get_run ask_next_def)
next
  case False
  have k: "cu_id c = k" using assms(1) by (auto dest: tbl_get_Some)
  let ?s = "s\<lparr>tq_cues := tbl_update cu_id k (with_cue_status now ''synthesising'' None None) (tq_cues s),
    tq_tasks := [Replied (Inr True), Bg k], tq_active := [(k, 1)]\<rparr>"
  have start: "tts_run w (Arrive (Ask k) # replicate 4 (Resume 0 now n)) s = ?s"
    using assms(1-3) False by (cases "cu_status c = ''failed''")
      (simp_all add: eval_nat_numeral on_cues_def sqc_get_run cue_status_run tbl_get_update ask_next_def start_bg_def status_twice)
  have "tts_run w (replicate 5 (Resume 1 now n)) ?s =
     s\<lparr>tq_cues := tbl_update cu_id k (with_cue_status now st asset err) (tq_cues s), tq_cache := cache,
       tq_tasks := [Replied (Inr True), Finished]\<rparr>"
    using assms(1,3,4) k
    by (cases "run_backend w n (cu_text c) (cu_voice c) (cu_backend c)"; cases "cache_hit (tq_cache s) (cu_cache_key c)")
      (auto simp: eval_nat_numeral on_cues_def sqc_get_run cue_status_run tbl_get_update bg_read_def bg_look_def bg_finish_def settled_cue_def
        cache_store_def status_twice)
  with start False show ?thesis unfolding append_Cons [symmetric] tts_run_append by simp
qed

lemma demo_tts_cue: "tbl_get cu_id ''q'' (tq_cues demo_tts_state) = Some demo_cue"
  by (simp add: demo_tts_state_def tbl_get_def demo_cue_def new_cue_def)

lemma demo_tts_facts:
  "cu_status demo_cue = ''pending''" "cu_project_id demo_cue = ''p''" "cu_track_id demo_cue \<in> tw_tracks demo_tts"
  "tq_tasks demo_tts_state = []" "tq_active demo_tts_state = []" "\<not> cache_hit (tq_cache demo_tts_state) (cu_cache_key demo_cue)"
  "run_backend demo_tts 0 (cu_text demo_cue) (cu_voice demo_cue) (cu_backend demo_cue) = Inr ''wav''"
  "cu_cache_key demo_cue = demo_key"
  using demo_backend by (simp_all add: demo_cue_def new_cue_def demo_tts_state_def cache_hit_def demo_tts_def compute_cache_key_def)

theorem synthesis_outcome_witness:
  "tq_cues (tts_run demo_tts (one_synthesis ''q'' 5 0) demo_tts_state) =
     tbl_update cu_id ''q'' (with_cue_status 5 ''ready'' (Some (cache_path demo_tts demo_key)) None) (tq_cues demo_tts_state)"
proof -
  have "settled_cue demo_tts 0 (tq_cache demo_tts_state) demo_cue =
      ((''ready'', Some (cache_path demo_tts demo_key), None), AList.update demo_key ''wav'' [])"
    using demo_tts_facts by (simp add: settled_cue_def demo_tts_state_def)
  then show ?thesis using synthesis_outcome [OF demo_tts_cue, of demo_tts 0] demo_tts_facts by simp
qed

subsection \<open>Requests that meet\<close>

lemma patch_cue_id: "cu_id (patch_cue sha now b c) = cu_id c"
  by (simp add: patch_cue_def Let_def)

lemmas synthesis_run_simps = eval_nat_numeral on_cues_def sqc_get_run cue_status_run tbl_get_update ask_next_def start_bg_def
  bg_read_def bg_look_def bg_finish_def get_cue_cases edit_next_def sqc_update_def patch_cue_id

text \<open>A request that gives a cue another text while the backend speaks the old one is undone in part: its text stays,
  but the cue ends ready with the audio file of the old text.\<close>

theorem edit_during_synthesis_keeps_old_audio:
  assumes "tbl_get cu_id k (tq_cues s) = Some c" and "cu_status c = ''pending''" "cu_project_id c = pid" "cu_track_id c \<in> tw_tracks w"
    and "tq_tasks s = []" "tq_active s = []"
    and "\<not> cache_hit (tq_cache s) (cu_cache_key c)" and "run_backend w n (cu_text c) (cu_voice c) (cu_backend c) = Inr audio"
    and "cx_text b = Some new_text" "cx_track_id b = None" "cue_patch_ok (tw_blank w) b"
  shows "\<exists>c'. tbl_get cu_id k (tq_cues (tts_run w ([Arrive (Ask k)] @ replicate 3 (Resume 0 now n) @ replicate 2 (Resume 1 now n) @
        [Arrive (Edit pid k b), Resume 2 now n, Resume 2 now n] @ replicate 3 (Resume 1 now n)) s)) = Some c' \<and>
      cu_text c' = new_text \<and> cu_status c' = ''ready'' \<and> cu_asset c' = Some (cache_path w (cu_cache_key c)) \<and>
      cu_cache_key c' = compute_cache_key (tw_sha w) new_text (cu_voice c') (cu_backend c')"
proof -
  have k: "cu_id c = k" using assms(1) by (auto dest: tbl_get_Some)
  show ?thesis
    using assms k
    by (simp add: synthesis_run_simps patch_cue_def Let_def given_cue_def cue_columns_def synthesis_changed_def)
qed

theorem edit_during_synthesis_keeps_old_audio_witness:
  "\<exists>c' (s' :: tts_state). tbl_get cu_id ''q'' (tq_cues s') = Some c' \<and> cu_text c' = ''ho'' \<and> cu_status c' = ''ready'' \<and>
     cu_asset c' = Some (cache_path demo_tts demo_key) \<and> cu_cache_key c' \<noteq> demo_key"
proof -
  have ok: "cue_patch_ok (tw_blank demo_tts) (demo_patch\<lparr>cx_text := Some ''ho''\<rparr>)"
    by (simp add: cue_patch_ok_def demo_patch_def demo_tts_def given_ok_def)
  have given: "cx_text (demo_patch\<lparr>cx_text := Some ''ho''\<rparr>) = Some ''ho''" "cx_track_id (demo_patch\<lparr>cx_text := Some ''ho''\<rparr>) = None"
    by (simp_all add: demo_patch_def)
  have "compute_cache_key (tw_sha demo_tts) ''ho'' v b \<noteq> demo_key" for v b by (simp add: compute_cache_key_def demo_tts_def)
  moreover obtain c' and s' :: tts_state where "tbl_get cu_id ''q'' (tq_cues s') = Some c'" "cu_text c' = ''ho''" "cu_status c' = ''ready''"
      "cu_asset c' = Some (cache_path demo_tts demo_key)"
      "cu_cache_key c' = compute_cache_key (tw_sha demo_tts) ''ho'' (cu_voice c') (cu_backend c')"
    using edit_during_synthesis_keeps_old_audio [OF demo_tts_cue demo_tts_facts(1-7) given ok, of 5]
    unfolding demo_tts_facts(8) by (elim exE conjE) (erule (4) that)
  ultimately have "tbl_get cu_id ''q'' (tq_cues s') = Some c' \<and> cu_text c' = ''ho'' \<and> cu_status c' = ''ready'' \<and>
     cu_asset c' = Some (cache_path demo_tts demo_key) \<and> cu_cache_key c' \<noteq> demo_key" by presburger
  then show ?thesis by blast
qed

text \<open>C37. A request that changes no text but reads the cue before its synthesis ends and writes it afterwards leaves the cue
  as being synthesised although no task is left, and every later request to synthesise it is told that it already is.\<close>

theorem edit_across_completion_strands_cue:
  assumes "tbl_get cu_id k (tq_cues s) = Some c" and "cu_status c = ''pending''" "cu_project_id c = pid" "cu_track_id c \<in> tw_tracks w"
    and "tq_tasks s = []" "tq_active s = []" and "\<not> synthesis_changed b" "cx_track_id b = None" "cue_patch_ok (tw_blank w) b"
    and "s' = tts_run w ([Arrive (Ask k)] @ replicate 3 (Resume 0 now n) @ [Arrive (Edit pid k b), Resume 2 now n] @
        replicate 5 (Resume 1 now n) @ [Resume 2 now n]) s"
  shows "map_option cu_status (tbl_get cu_id k (tq_cues s')) = Some ''synthesising'' \<and>
    tq_tasks s' = [Replied (Inr True), Finished, Replied (Inr True)] \<and> tq_active s' = [] \<and>
    tq_tasks (tts_run w [Arrive (Ask k), Resume 3 now n] s') = tq_tasks s' @ [Replied (Inr False)]"
proof -
  have k: "cu_id c = k" using assms(1) by (auto dest: tbl_get_Some)
  show ?thesis
    unfolding assms(10) using assms(1-9) k
    by (cases "cache_hit (tq_cache s) (cu_cache_key c)"; cases "run_backend w n (cu_text c) (cu_voice c) (cu_backend c)";
        simp add: synthesis_run_simps patch_cue_def Let_def given_cue_def cue_columns_def cache_store_def)
qed

theorem edit_across_completion_strands_cue_witness:
  "\<exists>s'. map_option cu_status (tbl_get cu_id ''q'' (tq_cues s')) = Some ''synthesising'' \<and> tq_active s' = [] \<and>
     tq_tasks (tts_run demo_tts [Arrive (Ask ''q''), Resume 3 5 0] s') = tq_tasks s' @ [Replied (Inr False)]"
proof -
  have b: "\<not> synthesis_changed demo_patch" "cx_track_id demo_patch = None" "cue_patch_ok (tw_blank demo_tts) demo_patch"
    by (simp_all add: synthesis_changed_def demo_patch_def cue_patch_ok_def given_ok_def)
  show ?thesis using edit_across_completion_strands_cue [OF demo_tts_cue demo_tts_facts(1-5) b refl, of 5 0] by blast
qed

text \<open>Two requests that both read the cue before either writes start a synthesis each; a shutdown leaves a cue as being
  synthesised, and nothing at the next start puts it back.\<close>

lemma two_requests_both_dispatch:
  assumes "tbl_get cu_id k (tq_cues s) = Some c" "cu_status c = ''pending''" "tq_tasks s = []" "tq_active s = []"
  shows "tq_tasks (tts_run w ([Arrive (Ask k), Arrive (Ask k), Resume 0 now n] @ replicate 3 (Resume 1 now n) @ replicate 2 (Resume 0 now n)) s) =
    [Replied (Inr True), Replied (Inr True), Bg k, Bg k]"
  using assms by (simp add: synthesis_run_simps)

lemma shutdown_strands_cue:
  assumes "tbl_get cu_id k (tq_cues s) = Some c" "cu_status c = ''pending''" "tq_tasks s = []" "tq_active s = []"
    and "s' = tts_run w ([Arrive (Ask k)] @ replicate 3 (Resume 0 now n) @ [Resume 1 now n, Shutdown]) s"
  shows "map_option cu_status (tbl_get cu_id k (tq_cues s')) = Some ''synthesising'' \<and> tq_tasks s' = [Replied (Inr True), Finished]"
  using assms by (simp add: synthesis_run_simps tts_shutdown_def)

lemma cache_key_ambiguous: "compute_cache_key sha (t @ ''::'' @ u) v b = compute_cache_key sha t (u @ ''::'' @ v) b"
  by (simp add: compute_cache_key_def)

end
