(* ===== verification/Audio_Mixing.thy ===== *)
theory Audio_Mixing
  imports Version_Requests Effect_Requests
begin

text \<open>
  The audio mix of a project and its ducking pairs: the requests of \<open>src/stoat_ferret/api/routers/audio.py\<close> with
  \<open>api/schemas/audio.py\<close>, the service \<open>api/services/audio_service.py\<close>, the repositories
  \<open>db/ducking_pair_repository.py\<close>, and the builders of the Rust core they call, \<open>AudioMixSpec\<close> and
  \<open>MultiTrackAudioMixer\<close> of \<open>ffmpeg/audio.rs\<close>. Before them, a reader for the text of filter graphs.
\<close>

subsection \<open>The text of a filter graph\<close>

text \<open>
  Reading the text of a filter graph back, as FFmpeg documents its syntax: parts separated by semicolons, each the
  labels it reads, its filter and the labels it writes, where text within single quotes is taken as it is; the mixer writes
  no backslash outside quotes. What a graph connects is a fact about the text, not about how it was built.
\<close>

type_synonym graph_part = "string list \<times> string \<times> string list"

definition bracketed :: "string \<Rightarrow> string" where
  "bracketed l = ''['' @ l @ '']''"

fun part_text :: "graph_part \<Rightarrow> string" where
  "part_text (ins, body, outs) = concat (map bracketed ins) @ body @ concat (map bracketed outs)"


abbreviation quote :: char where "quote \<equiv> CHR 0x27"

text \<open>The argument \<open>q\<close> says whether the text so far is within quotes.\<close>

fun graph_pieces :: "bool \<Rightarrow> string \<Rightarrow> string list" where
  "graph_pieces q [] = [[]]"
| "graph_pieces q (c # s) =
     (if c = CHR '';'' \<and> \<not> q then [] # graph_pieces False s
      else case graph_pieces (if c = quote then \<not> q else q) s of
        [] \<Rightarrow> [[c]] | p # ps \<Rightarrow> (c # p) # ps)"

function read_labels :: "string \<Rightarrow> string list \<times> string" where
  "read_labels s =
     (if s \<noteq> [] \<and> hd s = CHR ''['' then
        (let l = takeWhile (\<lambda>c. c \<noteq> CHR '']'') (tl s); (ls, r) = read_labels (drop (length l + 2) s) in (l # ls, r))
      else ([], s))"
  by pat_completeness auto
termination by (relation "measure length") auto

declare read_labels.simps [simp del]

fun read_body :: "bool \<Rightarrow> string \<Rightarrow> string \<times> string" where
  "read_body q [] = ([], [])"
| "read_body q (c # s) =
     (if c = CHR ''['' \<and> \<not> q then ([], c # s)
      else (let (b, r) = read_body (if c = quote then \<not> q else q) s in (c # b, r)))"

definition read_part :: "string \<Rightarrow> graph_part option" where
  "read_part s = (let (ins, r) = read_labels s; (body, r') = read_body False r; (outs, rest) = read_labels r' in
     if body \<noteq> [] \<and> rest = [] then Some (ins, body, outs) else None)"

definition read_graph :: "string \<Rightarrow> graph_part list option" where
  "read_graph g = those (map read_part (graph_pieces False g))"

subsection \<open>Parts that read back\<close>

text \<open>Text that ends outside quotes, and holds the characters of \<open>X\<close> within quotes only.\<close>

fun calm :: "char set \<Rightarrow> bool \<Rightarrow> string \<Rightarrow> bool" where
  "calm X q [] \<longleftrightarrow> \<not> q"
| "calm X q (c # s) \<longleftrightarrow> (q \<or> c \<notin> X) \<and> calm X (if c = quote then \<not> q else q) s"

definition plain :: "string \<Rightarrow> bool" where
  "plain s \<longleftrightarrow> set s \<inter> {CHR ''['', CHR '']'', CHR '';'', quote} = {}"

definition good_body :: "string \<Rightarrow> bool" where
  "good_body b \<longleftrightarrow> b \<noteq> [] \<and> calm {CHR ''['', CHR '';''} False b"

definition good_part :: "graph_part \<Rightarrow> bool" where
  "good_part p \<longleftrightarrow> list_all plain (fst p) \<and> good_body (fst (snd p)) \<and> list_all plain (snd (snd p))"

lemma plain_simps [simp]:
  "plain []" "plain (c # s) \<longleftrightarrow> c \<notin> {CHR ''['', CHR '']'', CHR '';'', quote} \<and> plain s" "plain (s @ t) \<longleftrightarrow> plain s \<and> plain t"
  "plain (rev s) \<longleftrightarrow> plain s"
  by (auto simp: plain_def)

lemma plain_subset: "plain s \<Longrightarrow> set t \<subseteq> set s \<Longrightarrow> plain t"
  by (auto simp: plain_def)

lemma plain_replicate: "plain [c] \<Longrightarrow> plain (replicate n c)"
  by (simp add: plain_def set_replicate_conv_if)

lemma plain_dec [simp]: "plain (dec n)"
  using dec_chars [of _ n] by (fastforce simp: plain_def)

lemma plain_join: "plain sep \<Longrightarrow> list_all plain xs \<Longrightarrow> plain (str_join sep xs)"
  by (induction sep xs rule: str_join.induct) simp_all

lemma calm_append: "calm X q s \<Longrightarrow> calm X q (s @ t) \<longleftrightarrow> calm X False t"
  by (induction X q s rule: calm.induct) auto

lemma calm_plain: "plain s \<Longrightarrow> X \<subseteq> {CHR ''['', CHR '';''} \<Longrightarrow> calm X False s"
  by (induction s) auto

lemma calm_mono: "calm X q s \<Longrightarrow> Y \<subseteq> X \<Longrightarrow> calm Y q s"
  by (induction X q s rule: calm.induct) auto

lemma calm_quoted: "quote \<notin> set e \<Longrightarrow> calm X True (e @ quote # s) \<longleftrightarrow> calm X False s"
  by (induction e) auto

lemma calm_bracketed: "list_all plain ls \<Longrightarrow> calm {CHR '';''} False (concat (map bracketed ls))"
  by (induction ls) (simp_all add: bracketed_def calm_append calm_plain)

lemma calm_part:
  assumes "good_part p" shows "calm {CHR '';''} False (part_text p)"
proof -
  obtain ins b outs where p: "p = (ins, b, outs)" by (cases p)
  have "calm {CHR '';''} False b" using assms calm_mono [of _ False b "{CHR '';''}"] by (auto simp: p good_part_def good_body_def)
  then show ?thesis using assms calm_bracketed by (simp add: p good_part_def calm_append)
qed

lemma pieces_calm:
  "calm {CHR '';''} q s \<Longrightarrow> graph_pieces q s = [s] \<and> graph_pieces q (s @ CHR '';'' # t) = s # graph_pieces False t"
  by (induction "{CHR '';''}" q s rule: calm.induct) auto

lemma pieces_join:
  "ss \<noteq> [] \<Longrightarrow> list_all (calm {CHR '';''} False) ss \<Longrightarrow> graph_pieces False (str_join '';'' ss) = ss"
  by (induction "'';''" ss rule: str_join.induct) (simp_all add: pieces_calm)

lemma read_labels_run:
  "list_all plain ls \<Longrightarrow> r = [] \<or> hd r \<noteq> CHR ''['' \<Longrightarrow> read_labels (concat (map bracketed ls) @ r) = (ls, r)"
proof (induction ls)
  case Nil
  then show ?case by (subst read_labels.simps) auto
next
  case (Cons l ls)
  let ?rest = "concat (map bracketed ls) @ r"
  have l: "CHR '']'' \<notin> set l" using Cons.prems by (auto simp: plain_def)
  then have "takeWhile (\<lambda>c. c \<noteq> CHR '']'') (l @ CHR '']'' # ?rest) = l" by (subst takeWhile_append2) auto
  then have "read_labels (CHR ''['' # l @ CHR '']'' # ?rest) = (let (ls, r) = read_labels ?rest in (l # ls, r))"
    by (subst read_labels.simps) (simp add: Let_def)
  moreover have "read_labels ?rest = (ls, r)" using Cons by simp
  ultimately show ?case by (simp add: bracketed_def [of l])
qed

lemma read_body_run:
  "calm X q b \<Longrightarrow> CHR ''['' \<in> X \<Longrightarrow> r = [] \<or> hd r = CHR ''['' \<Longrightarrow> read_body q (b @ r) = (b, r)"
proof (induction X q b rule: calm.induct)
  case (1 X q)
  then show ?case by (cases r) auto
next
  case (2 X q c s)
  then have "read_body (if c = quote then \<not> q else q) (s @ r) = (s, r)" by simp
  then show ?case using 2 by auto
qed

lemma read_part_text:
  assumes "good_part p" shows "read_part (part_text p) = Some p"
proof -
  obtain ins b outs where p: "p = (ins, b, outs)" by (cases p)
  have b: "b \<noteq> []" "calm {CHR ''['', CHR '';''} False b" using assms by (auto simp: p good_part_def good_body_def)
  then have hd: "hd b \<noteq> CHR ''[''" by (cases b) auto
  let ?o = "concat (map bracketed outs)"
  have "read_labels (concat (map bracketed ins) @ b @ ?o) = (ins, b @ ?o)"
    using assms b hd by (intro read_labels_run) (auto simp: p good_part_def)
  moreover have "read_body False (b @ ?o) = (b, ?o)"
    using b by (intro read_body_run [where X = "{CHR ''['', CHR '';''}"]) (auto, cases outs, auto simp: bracketed_def)
  moreover have "read_labels ?o = (outs, [])"
    using assms read_labels_run [of outs "[]"] by (simp add: p good_part_def)
  ultimately show ?thesis using b(1) by (simp add: p read_part_def)
qed

lemma those_Some: "those (map f xs) = Some xs' \<longleftrightarrow> map f xs = map Some xs'"
  by (induction xs arbitrary: xs') (auto simp: map_eq_Cons_conv split: option.splits)

text \<open>The parts of a graph are read back from its text.\<close>

lemma read_graph_text:
  assumes "ps \<noteq> []" and "list_all good_part ps"
  shows "read_graph (str_join '';'' (map part_text ps)) = Some ps"
proof -
  have "graph_pieces False (str_join '';'' (map part_text ps)) = map part_text ps"
    using assms by (intro pieces_join) (auto simp: list_all_iff calm_part)
  moreover have "map (read_part \<circ> part_text) ps = map Some ps"
    using assms(2) by (auto simp: list_all_iff read_part_text)
  ultimately show ?thesis by (simp add: read_graph_def those_Some)
qed

subsection \<open>The mix of a project\<close>

record track_config =
  tc_volume :: rat
  tc_fade_in :: rat
  tc_fade_out :: rat

record audio_mix_request =
  am_tracks :: "track_config list"
  am_master_volume :: rat
  am_normalize :: bool

definition validate_volumes :: "track_config list \<Rightarrow> rat \<Rightarrow> exn + unit" where
  "validate_volumes ts master =
     (if list_ex (\<lambda>t. \<not> (0 \<le> tc_volume t \<and> tc_volume t \<le> 2)) ts \<or> \<not> (0 \<le> master \<and> master \<le> 2)
      then Inl (HTTPError 422 ''INVALID_AUDIO_VOLUME'') else Inr ())"

definition validate_track_count :: "track_config list \<Rightarrow> exn + unit" where
  "validate_track_count ts = (if length ts < 2 \<or> 8 < length ts then Inl (HTTPError 422 ''INVALID_TRACK_COUNT'') else Inr ())"

text \<open>\<open>AudioMixSpec.build_filter_chain\<close>.\<close>

definition track_filters :: "track_config \<Rightarrow> string list" where
  "track_filters t =
     (if 1 / 10 ^ 9 < \<bar>tc_volume t - 1\<bar> then [filter_text ''volume'' [(''volume'', format_value (tc_volume t))]] else []) @
     (if 0 < tc_fade_in t then [filter_text ''afade'' [(''t'', ''in''), (''d'', format_value (tc_fade_in t))]] else []) @
     (if 0 < tc_fade_out t then [filter_text ''afade'' [(''t'', ''out''), (''d'', format_value (tc_fade_out t))]] else [])"

definition build_filter_chain :: "track_config list \<Rightarrow> string" where
  "build_filter_chain ts = (let
     parts = concat (map (\<lambda>(i, t). if track_filters t = [] then []
       else [''['' @ dec i @ '':a]'' @ str_join '','' (track_filters t) @ ''[a'' @ dec i @ '']'']) (enumerate 0 ts));
     inputs = map (\<lambda>(i, t). if track_filters t \<noteq> [] then ''[a'' @ dec i @ '']'' else ''['' @ dec i @ '':a]'') (enumerate 0 ts);
     amix = concat inputs @ filter_text ''amix'' [(''inputs'', dec (length ts))]
     in str_join '';'' (parts @ [amix]))"

text \<open>The constructors of the core's values check their arguments again.\<close>

definition track_config_ok :: "track_config \<Rightarrow> bool" where
  "track_config_ok t \<longleftrightarrow> 0 \<le> tc_volume t \<and> tc_volume t \<le> 2 \<and> 0 \<le> tc_fade_in t \<and> 0 \<le> tc_fade_out t"

definition build_filter_preview :: "audio_mix_request \<Rightarrow> exn + string" where
  "build_filter_preview b =
     sum_bind (require (list_all track_config_ok (am_tracks b))) (\<lambda>_.
     sum_bind (require (2 \<le> length (am_tracks b) \<and> length (am_tracks b) \<le> 8)) (\<lambda>_.
       (let chain = build_filter_chain (am_tracks b) in
        if am_master_volume b \<noteq> 1
        then sum_bind (volume_new (am_master_volume b)) (\<lambda>t. Inr (chain @ '';'' @ filter_text ''volume'' [(''volume'', t)]))
        else Inr chain)))"

text \<open>Fades that are negative are refused before a request is served.\<close>

definition mix_request_ok :: "audio_mix_request \<Rightarrow> exn + unit" where
  "mix_request_ok b = (if list_all (\<lambda>t. 0 \<le> tc_fade_in t \<and> 0 \<le> tc_fade_out t) (am_tracks b) then Inr ()
     else Inl (HTTPError 422 ''VALIDATION''))"

definition checked_preview :: "audio_mix_request \<Rightarrow> exn + string \<times> nat" where
  "checked_preview b =
     sum_bind (validate_track_count (am_tracks b)) (\<lambda>_.
     sum_bind (validate_volumes (am_tracks b) (am_master_volume b)) (\<lambda>_.
     sum_bind (build_filter_preview b) (\<lambda>f. Inr (f, length (am_tracks b)))))"

definition preview_audio_mix :: "audio_mix_request \<Rightarrow> exn + string \<times> nat" where
  "preview_audio_mix b = sum_bind (mix_request_ok b) (\<lambda>_. checked_preview b)"

definition audio_mix_entry :: "audio_mix_request \<Rightarrow> string \<Rightarrow> json_value" where
  "audio_mix_entry b preview = JObj [
     (''tracks'', JList (map (\<lambda>t. JObj [(''volume'', JNum (tc_volume t)), (''fade_in'', JNum (tc_fade_in t)),
       (''fade_out'', JNum (tc_fade_out t))]) (am_tracks b))),
     (''master_volume'', JNum (am_master_volume b)), (''normalize'', JBool (am_normalize b)), (''filter_preview'', JStr preview)]"

definition configure_audio_mix :: "'s media_repos \<Rightarrow> time \<Rightarrow> string \<Rightarrow> audio_mix_request \<Rightarrow> ('s, string \<times> nat) op" where
  "configure_audio_mix R now pid b =
     seq_op (lift_op (mix_request_ok b))
    (bind_op (get_project R pid) (\<lambda>p.
     bind_op (lift_op (checked_preview b)) (\<lambda>(preview, n).
     seq_op (pjr_update (mx_projects R) (p\<lparr>pj_audio_mix := Some (audio_mix_entry b preview), pj_updated_at := now\<rparr>))
    (seq_op (mx_broadcast R AUDIO_MIX_CHANGED [(''project_id'', JStr pid), (''tracks_configured'', JInt (int n))])
     (ret (preview, n))))))"

subsection \<open>Ducking pairs\<close>

record ducking_pair =
  du_id :: string
  du_project_id :: string
  du_ducked_track_id :: string
  du_sidechain_track_id :: string
  du_threshold :: rat
  du_ratio :: rat
  du_attack_ms :: rat
  du_release_ms :: rat
  du_apply_pre_volume :: bool
  du_created_at :: time
  du_updated_at :: time

record 's pair_repo =
  dpr_create :: "ducking_pair \<Rightarrow> ('s, ducking_pair) op"
  dpr_get :: "string \<Rightarrow> ('s, ducking_pair option) op"
  dpr_list_by_project :: "string \<Rightarrow> ('s, ducking_pair list) op"
  dpr_update :: "ducking_pair \<Rightarrow> ('s, ducking_pair) op"
  dpr_delete :: "string \<Rightarrow> ('s, bool) op"

type_synonym sql_pairs = "ducking_pair list"

text \<open>A row needs its project and its tracks, which differ.\<close>

definition sqg_create :: "string set \<Rightarrow> string set \<Rightarrow> ducking_pair \<Rightarrow> (sql_pairs, ducking_pair) op" where
  "sqg_create projects tracks p = (\<lambda>rows.
     if du_project_id p \<notin> projects \<or> du_ducked_track_id p \<notin> tracks \<or> du_sidechain_track_id p \<notin> tracks \<or>
        du_ducked_track_id p = du_sidechain_track_id p
     then (Inl ValueError, rows)
     else case tbl_insert du_id p rows of Inl e \<Rightarrow> (Inl ValueError, rows) | Inr rows' \<Rightarrow> (Inr p, rows'))"

definition sqg_get :: "string \<Rightarrow> (sql_pairs, ducking_pair option) op" where
  "sqg_get k = read_op (tbl_get du_id k)"

definition sqg_list_by_project :: "string \<Rightarrow> (sql_pairs, ducking_pair list) op" where
  "sqg_list_by_project pid = read_op (tbl_select (\<lambda>p. du_project_id p = pid) du_created_at)"

definition pair_columns :: "ducking_pair \<Rightarrow> ducking_pair \<Rightarrow> ducking_pair" where
  "pair_columns p r = r\<lparr>du_threshold := du_threshold p, du_ratio := du_ratio p, du_attack_ms := du_attack_ms p,
     du_release_ms := du_release_ms p, du_apply_pre_volume := du_apply_pre_volume p, du_updated_at := du_updated_at p\<rparr>"

definition sqg_update :: "ducking_pair \<Rightarrow> (sql_pairs, ducking_pair) op" where
  "sqg_update p = (\<lambda>rows. if tbl_get du_id (du_id p) rows = None then (Inl ValueError, rows)
     else (Inr p, tbl_update du_id (du_id p) (pair_columns p) rows))"

definition sqg_delete :: "string \<Rightarrow> (sql_pairs, bool) op" where
  "sqg_delete k = (\<lambda>rows. (Inr (tbl_get du_id k rows \<noteq> None), tbl_delete du_id k rows))"

definition sqg_repo :: "string set \<Rightarrow> string set \<Rightarrow> sql_pairs pair_repo" where
  "sqg_repo projects tracks = \<lparr>dpr_create = sqg_create projects tracks, dpr_get = sqg_get,
     dpr_list_by_project = sqg_list_by_project, dpr_update = sqg_update, dpr_delete = sqg_delete\<rparr>"

type_synonym mem_pairs = "(string, ducking_pair) dict"

definition mmg_create :: "ducking_pair \<Rightarrow> (mem_pairs, ducking_pair) op" where
  "mmg_create p = (\<lambda>d. if map_of d (du_id p) \<noteq> None then (Inl ValueError, d)
     else if du_ducked_track_id p = du_sidechain_track_id p then (Inl ValueError, d)
     else (Inr p, AList.update (du_id p) p d))"

definition mmg_get :: "string \<Rightarrow> (mem_pairs, ducking_pair option) op" where
  "mmg_get k = read_op (\<lambda>d. map_of d k)"

definition mmg_list_by_project :: "string \<Rightarrow> (mem_pairs, ducking_pair list) op" where
  "mmg_list_by_project pid = read_op (\<lambda>d. filter (\<lambda>p. du_project_id p = pid) (sort_key du_created_at (dict_values d)))"

definition mmg_update :: "ducking_pair \<Rightarrow> (mem_pairs, ducking_pair) op" where
  "mmg_update p = (\<lambda>d. if map_of d (du_id p) = None then (Inl ValueError, d) else (Inr p, AList.update (du_id p) p d))"

definition mmg_delete :: "string \<Rightarrow> (mem_pairs, bool) op" where
  "mmg_delete k = (\<lambda>d. if map_of d k = None then (Inr False, d) else (Inr True, AList.delete k d))"

definition mmg_repo :: "mem_pairs pair_repo" where
  "mmg_repo = \<lparr>dpr_create = mmg_create, dpr_get = mmg_get, dpr_list_by_project = mmg_list_by_project,
     dpr_update = mmg_update, dpr_delete = mmg_delete\<rparr>"

subsection \<open>Requests on pairs\<close>

record pair_create =
  dc_ducked_track_id :: string
  dc_sidechain_track_id :: string
  dc_threshold :: rat
  dc_ratio :: rat
  dc_attack_ms :: rat
  dc_release_ms :: rat
  dc_apply_pre_volume :: bool

definition threshold_ok :: "rat \<Rightarrow> bool" where "threshold_ok t \<longleftrightarrow> 97563 / 100000000 \<le> t \<and> t \<le> 1"
definition ratio_ok :: "rat \<Rightarrow> bool" where "ratio_ok r \<longleftrightarrow> 1 \<le> r \<and> r \<le> 20"
definition attack_ok :: "rat \<Rightarrow> bool" where "attack_ok a \<longleftrightarrow> 1 / 100 \<le> a \<and> a \<le> 2000"
definition release_ok :: "rat \<Rightarrow> bool" where "release_ok r \<longleftrightarrow> 1 / 100 \<le> r \<and> r \<le> 9000"

definition pair_create_ok :: "pair_create \<Rightarrow> bool" where
  "pair_create_ok b \<longleftrightarrow> dc_ducked_track_id b \<noteq> dc_sidechain_track_id b \<and> threshold_ok (dc_threshold b) \<and>
     ratio_ok (dc_ratio b) \<and> attack_ok (dc_attack_ms b) \<and> release_ok (dc_release_ms b)"

record pair_patch =
  dx_threshold :: "rat option"
  dx_ratio :: "rat option"
  dx_attack_ms :: "rat option"
  dx_release_ms :: "rat option"
  dx_apply_pre_volume :: "bool option"

definition pair_patch_ok :: "pair_patch \<Rightarrow> bool" where
  "pair_patch_ok b \<longleftrightarrow> pred_option threshold_ok (dx_threshold b) \<and> pred_option ratio_ok (dx_ratio b) \<and>
     pred_option attack_ok (dx_attack_ms b) \<and> pred_option release_ok (dx_release_ms b)"

definition new_pair :: "string \<Rightarrow> time \<Rightarrow> string \<Rightarrow> pair_create \<Rightarrow> ducking_pair" where
  "new_pair new_id now pid b = \<lparr>du_id = new_id, du_project_id = pid, du_ducked_track_id = dc_ducked_track_id b,
     du_sidechain_track_id = dc_sidechain_track_id b, du_threshold = dc_threshold b, du_ratio = dc_ratio b,
     du_attack_ms = dc_attack_ms b, du_release_ms = dc_release_ms b, du_apply_pre_volume = dc_apply_pre_volume b,
     du_created_at = now, du_updated_at = now\<rparr>"

text \<open>\<open>DuckingPairService\<close>.\<close>

definition service_create :: "'p pair_repo \<Rightarrow> string \<Rightarrow> time \<Rightarrow> string \<Rightarrow> pair_create \<Rightarrow> ('p, ducking_pair) op" where
  "service_create D new_id now pid b =
     (if dc_ducked_track_id b = dc_sidechain_track_id b then throw ValueError else dpr_create D (new_pair new_id now pid b))"

definition patch_pair :: "time \<Rightarrow> pair_patch \<Rightarrow> ducking_pair \<Rightarrow> ducking_pair" where
  "patch_pair now b p = p\<lparr>du_threshold := get_or (du_threshold p) (dx_threshold b), du_ratio := get_or (du_ratio p) (dx_ratio b),
     du_attack_ms := get_or (du_attack_ms p) (dx_attack_ms b), du_release_ms := get_or (du_release_ms p) (dx_release_ms b),
     du_apply_pre_volume := get_or (du_apply_pre_volume p) (dx_apply_pre_volume b), du_updated_at := now\<rparr>"

definition service_update :: "'p pair_repo \<Rightarrow> time \<Rightarrow> string \<Rightarrow> pair_patch \<Rightarrow> ('p, ducking_pair option) op" where
  "service_update D now k b = bind_op (dpr_get D k) (\<lambda>p. case p of
     None \<Rightarrow> ret None
   | Some p \<Rightarrow> bind_op (dpr_update D (patch_pair now b p)) (\<lambda>p. ret (Some p)))"

definition in_pairs :: "('p, 'a) op \<Rightarrow> ('s \<times> 'p, 'a) op" where
  "in_pairs m s = (case m (snd s) of (r, v) \<Rightarrow> (r, (fst s, v)))"

definition create_ducking_pair ::
  "'s media_repos \<Rightarrow> 'p pair_repo \<Rightarrow> string \<Rightarrow> time \<Rightarrow> string \<Rightarrow> pair_create \<Rightarrow> ('s \<times> 'p, ducking_pair) op" where
  "create_ducking_pair R D new_id now pid b =
     (if \<not> pair_create_ok b then throw (HTTPError 422 ''VALIDATION'')
      else seq_op (in_media (get_project R pid)) (in_pairs (service_create D new_id now pid b)))"

definition list_ducking_pairs :: "'s media_repos \<Rightarrow> 'p pair_repo \<Rightarrow> string \<Rightarrow> ('s \<times> 'p, ducking_pair list) op" where
  "list_ducking_pairs R D pid = seq_op (in_media (get_project R pid)) (in_pairs (dpr_list_by_project D pid))"

text \<open>What a request for one pair makes of what the service answered.\<close>

definition own_pair :: "string \<Rightarrow> ducking_pair option \<Rightarrow> exn + ducking_pair" where
  "own_pair pid p = (case p of
     None \<Rightarrow> Inl (HTTPError 404 ''NOT_FOUND'')
   | Some p \<Rightarrow> if du_project_id p \<noteq> pid then Inl (HTTPError 404 ''NOT_FOUND'') else Inr p)"

definition get_ducking_pair :: "'s media_repos \<Rightarrow> 'p pair_repo \<Rightarrow> string \<Rightarrow> string \<Rightarrow> ('s \<times> 'p, ducking_pair) op" where
  "get_ducking_pair R D pid k =
     seq_op (in_media (get_project R pid)) (bind_op (in_pairs (dpr_get D k)) (\<lambda>p. lift_op (own_pair pid p)))"

definition update_ducking_pair ::
  "'s media_repos \<Rightarrow> 'p pair_repo \<Rightarrow> time \<Rightarrow> string \<Rightarrow> string \<Rightarrow> pair_patch \<Rightarrow> ('s \<times> 'p, ducking_pair) op" where
  "update_ducking_pair R D now pid k b =
     (if \<not> pair_patch_ok b then throw (HTTPError 422 ''VALIDATION'')
      else seq_op (in_media (get_project R pid)) (bind_op (in_pairs (service_update D now k b)) (\<lambda>p. lift_op (own_pair pid p))))"

definition delete_ducking_pair :: "'s media_repos \<Rightarrow> 'p pair_repo \<Rightarrow> string \<Rightarrow> string \<Rightarrow> ('s \<times> 'p, unit) op" where
  "delete_ducking_pair R D pid k =
     seq_op (in_media (get_project R pid))
    (bind_op (in_pairs (dpr_get D k)) (\<lambda>p.
     seq_op (lift_op (own_pair pid p)) (seq_op (in_pairs (dpr_delete D k)) (ret ()))))"

subsection \<open>The multi-track mixer\<close>

record mixer_track =
  mt_stream_idx :: nat
  mt_volume_envelope :: "string option"
  mt_weight :: rat

record mixer_pair =
  mp_ducked_idx :: nat
  mp_sidechain_idx :: nat
  mp_threshold :: rat
  mp_ratio :: rat
  mp_attack_ms :: rat
  mp_release_ms :: rat
  mp_apply_pre_volume :: bool

definition add_track :: "nat \<Rightarrow> string option \<Rightarrow> rat \<Rightarrow> mixer_track list \<Rightarrow> exn + mixer_track list" where
  "add_track idx env weight ins =
     (if 4 \<le> length ins \<or> weight < 0 \<or> list_ex (\<lambda>t. mt_stream_idx t = idx) ins then Inl ValueError
      else Inr (ins @ [\<lparr>mt_stream_idx = idx, mt_volume_envelope = env, mt_weight = weight\<rparr>]))"

definition add_ducking_pair :: "mixer_pair \<Rightarrow> mixer_pair list \<Rightarrow> exn + mixer_pair list" where
  "add_ducking_pair p ps =
     (if mp_ducked_idx p = mp_sidechain_idx p \<or> \<not> threshold_ok (mp_threshold p) \<or> \<not> ratio_ok (mp_ratio p) \<or>
         \<not> attack_ok (mp_attack_ms p) \<or> \<not> release_ok (mp_release_ms p) then Inl ValueError else Inr (ps @ [p]))"

text \<open>The parts of the graph; \<open>labels\<close> holds the current label of each track.\<close>

definition track_label :: "nat \<Rightarrow> string" where "track_label i = ''track'' @ dec i"
definition vol_label :: "nat \<Rightarrow> string" where "vol_label i = ''track'' @ dec i @ ''_vol''"
definition clean_label :: "nat \<Rightarrow> string" where "clean_label k = ''sc'' @ dec k @ ''_clean''"
definition trigger_label :: "nat \<Rightarrow> string" where "trigger_label k = ''sc'' @ dec k @ ''_trigger''"
definition ducked_label :: "nat \<Rightarrow> string" where "ducked_label k = ''sc'' @ dec k @ ''_ducked''"

definition format_part :: "nat \<times> mixer_track \<Rightarrow> graph_part" where
  "format_part = (\<lambda>(i, t). ([dec (mt_stream_idx t) @ '':a''], ''aformat=channel_layouts=stereo'', [track_label i]))"

definition deferred :: "mixer_pair list \<Rightarrow> nat \<Rightarrow> bool" where
  "deferred ps i \<longleftrightarrow> list_ex (\<lambda>p. mp_ducked_idx p = i \<and> \<not> mp_apply_pre_volume p) ps"

definition volume_step :: "(nat \<Rightarrow> bool) \<Rightarrow> nat \<times> mixer_track \<Rightarrow> graph_part list \<times> string list \<Rightarrow> graph_part list \<times> string list" where
  "volume_step here = (\<lambda>(i, t) (parts, labels). case mt_volume_envelope t of
     None \<Rightarrow> (parts, labels)
   | Some e \<Rightarrow> if here i
       then (parts @ [([labels ! i], ''volume='' @ [CHR 0x27] @ e @ [CHR 0x27] @ '':eval=frame'', [vol_label i])], labels[i := vol_label i])
       else (parts, labels))"

definition compressor_text :: "mixer_pair \<Rightarrow> string" where
  "compressor_text p = ''sidechaincompress=threshold='' @ format_value (mp_threshold p) @ '':ratio='' @ format_value (mp_ratio p) @
     '':attack='' @ format_value (mp_attack_ms p) @ '':release='' @ format_value (mp_release_ms p)"

definition ducking_step :: "nat \<times> mixer_pair \<Rightarrow> graph_part list \<times> string list \<Rightarrow> graph_part list \<times> string list" where
  "ducking_step = (\<lambda>(k, p) (parts, labels). let
     sc = labels ! mp_sidechain_idx p;
     du = labels ! mp_ducked_idx p
     in (parts @ [([sc], ''asplit=2'', [clean_label k, trigger_label k]), ([du, trigger_label k], compressor_text p, [ducked_label k])],
         labels[mp_sidechain_idx p := clean_label k, mp_ducked_idx p := ducked_label k]))"

definition mix_part :: "mixer_track list \<Rightarrow> string list \<Rightarrow> graph_part" where
  "mix_part ins labels = (labels, ''amix=inputs='' @ dec (length ins) @ '':weights='' @
     str_join '' '' (map (\<lambda>t. format_value (mt_weight t)) ins) @ '':duration=longest'', [])"

definition mixer_parts :: "mixer_track list \<Rightarrow> mixer_pair list \<Rightarrow> graph_part list" where
  "mixer_parts ins ps = (let
     start = (map format_part (enumerate 0 ins), map track_label [0..<length ins]);
     before = fold (volume_step (\<lambda>i. \<not> deferred ps i)) (enumerate 0 ins) start;
     ducked = fold ducking_step (enumerate 0 ps) before;
     (parts, labels) = fold (volume_step (deferred ps)) (enumerate 0 ins) ducked
     in parts @ [mix_part ins labels])"

definition mixer_build :: "mixer_track list \<Rightarrow> mixer_pair list \<Rightarrow> exn + string" where
  "mixer_build ins ps =
     (if ins = [] \<or> list_ex (\<lambda>p. length ins \<le> mp_ducked_idx p \<or> length ins \<le> mp_sidechain_idx p) ps then Inl ValueError
      else Inr (str_join '';'' (map part_text (mixer_parts ins ps))))"

subsection \<open>\<open>assemble_multi_track_mixer\<close>\<close>

fun add_tracks :: "(nat \<times> track) list \<Rightarrow> mixer_track list \<Rightarrow> exn + mixer_track list" where
  "add_tracks [] ins = Inr ins"
| "add_tracks ((i, t) # ts) ins = sum_bind (add_track i (tk_volume_envelope t) (tk_weight t) ins) (add_tracks ts)"

text \<open>The index of a track is its last place in the list of audio tracks, whose ids are distinct by then.\<close>

definition id_to_idx :: "track list \<Rightarrow> string \<rightharpoonup> nat" where
  "id_to_idx ts = map_of (rev (map (\<lambda>(i, t). (tk_id t, i)) (enumerate 0 ts)))"

definition to_mixer_pair :: "(string \<rightharpoonup> nat) \<Rightarrow> ducking_pair \<Rightarrow> exn + mixer_pair" where
  "to_mixer_pair idx p = (case idx (du_ducked_track_id p) of
     None \<Rightarrow> Inl ValueError
   | Some d \<Rightarrow> (case idx (du_sidechain_track_id p) of
       None \<Rightarrow> Inl ValueError
     | Some s \<Rightarrow> Inr \<lparr>mp_ducked_idx = d, mp_sidechain_idx = s, mp_threshold = du_threshold p, mp_ratio = du_ratio p,
         mp_attack_ms = du_attack_ms p, mp_release_ms = du_release_ms p, mp_apply_pre_volume = du_apply_pre_volume p\<rparr>))"

fun add_pairs :: "(string \<rightharpoonup> nat) \<Rightarrow> ducking_pair list \<Rightarrow> mixer_pair list \<Rightarrow> exn + mixer_pair list" where
  "add_pairs idx [] ps = Inr ps"
| "add_pairs idx (d # ds) ps = sum_bind (to_mixer_pair idx d) (\<lambda>p. sum_bind (add_ducking_pair p ps) (add_pairs idx ds))"

definition assemble_multi_track_mixer :: "track list \<Rightarrow> ducking_pair list \<Rightarrow> exn + string" where
  "assemble_multi_track_mixer tracks ds = (let audio = filter (\<lambda>t. tk_track_type t = ''audio'') tracks in
     if audio = [] then Inl ValueError
     else if \<not> distinct (map tk_id audio) then Inl ValueError
     else sum_bind (add_tracks (enumerate 0 audio) []) (\<lambda>ins.
          sum_bind (add_pairs (id_to_idx audio) ds []) (\<lambda>ps. mixer_build ins ps)))"

end
