(* ===== verification/Audio_Properties.thy ===== *)
theory Audio_Properties
  imports Audio_Mixing "HOL-Library.Multiset"
begin

text \<open>
  The contract of the repositories of ducking pairs, the requests on pairs over any repositories, and the graph of the
  multi-track mixer: a pipeline in which every label is written once and read once, after it was written.
\<close>

subsection \<open>The graph of the mixer\<close>

abbreviation part_ins :: "graph_part \<Rightarrow> string list" where "part_ins p \<equiv> fst p"
abbreviation part_outs :: "graph_part \<Rightarrow> string list" where "part_outs p \<equiv> snd (snd p)"
abbreviation all_ins :: "graph_part list \<Rightarrow> string list" where "all_ins ps \<equiv> concat (map part_ins ps)"
abbreviation all_outs :: "graph_part list \<Rightarrow> string list" where "all_outs ps \<equiv> concat (map part_outs ps)"

text \<open>Every label is read after it was written, or is there from the start.\<close>

fun reads_written :: "string set \<Rightarrow> graph_part list \<Rightarrow> bool" where
  "reads_written avail [] = True"
| "reads_written avail (p # ps) = (set (part_ins p) \<subseteq> avail \<and> reads_written (avail \<union> set (part_outs p)) ps)"

lemma reads_written_append:
  "reads_written avail (ps @ qs) \<longleftrightarrow> reads_written avail ps \<and> reads_written (avail \<union> set (all_outs ps)) qs"
  by (induction ps arbitrary: avail) (auto simp: Un_assoc)

definition mixer_pipeline :: "string list \<Rightarrow> graph_part list \<Rightarrow> bool" where
  "mixer_pipeline streams parts \<longleftrightarrow> distinct (all_outs parts) \<and> mset (all_ins parts) = mset (streams @ all_outs parts) \<and>
     reads_written (set streams) parts"

text \<open>While the graph grows, what is not yet read is the current labels.\<close>

definition growing :: "string list \<Rightarrow> nat \<Rightarrow> graph_part list \<times> string list \<Rightarrow> bool" where
  "growing streams n st \<longleftrightarrow> length (snd st) = n \<and>
     mset (all_ins (fst st)) + mset (snd st) = mset streams + mset (all_outs (fst st)) \<and> reads_written (set streams) (fst st)"

lemma growing_labels:
  assumes "growing streams n st" shows "set (snd st) \<subseteq> set streams \<union> set (all_outs (fst st))"
proof -
  have "set_mset (mset (snd st)) \<subseteq> set_mset (mset (all_ins (fst st)) + mset (snd st))" by simp
  also have "\<dots> = set_mset (mset streams + mset (all_outs (fst st)))" using assms by (simp add: growing_def)
  finally show ?thesis by simp
qed

lemma relabel: "i < length ls \<Longrightarrow> add_mset (ls ! i) (mset (ls[i := v])) = add_mset v (mset ls)"
  by (simp add: mset_update add_mset_commute [of "ls ! i" v])

lemma growing_volume:
  assumes "growing streams n st" and "fst it < n"
  shows "growing streams n (volume_step here it st)"
proof -
  obtain i t parts labels where st: "it = (i, t)" "st = (parts, labels)" by (cases it, cases st)
  then have i: "i < length labels" "length labels = n" "labels ! i \<in> set labels" using assms by (auto simp: growing_def)
  have flow: "mset (all_ins parts) + mset labels = mset streams + mset (all_outs parts)" using assms st by (simp add: growing_def)
  have "mset (all_ins parts) + add_mset (labels ! i) (mset (labels[i := vol_label i])) =
      add_mset (vol_label i) (mset streams + mset (all_outs parts))"
    unfolding relabel [OF i(1)] flow [symmetric] by simp
  with assms(1) growing_labels [OF assms(1)] st i show ?thesis
    by (auto simp: growing_def volume_step_def reads_written_append subset_iff split: option.splits)
qed

lemma growing_ducking:
  assumes "growing streams n st" and "mp_sidechain_idx (snd it) < n" "mp_ducked_idx (snd it) < n"
    and "mp_sidechain_idx (snd it) \<noteq> mp_ducked_idx (snd it)"
  shows "growing streams n (ducking_step it st)"
proof -
  obtain k p parts labels where st: "it = (k, p)" "st = (parts, labels)" by (cases it, cases st)
  let ?s = "mp_sidechain_idx p" and ?d = "mp_ducked_idx p"
  let ?l = "labels[?s := clean_label k]" and ?c = "clean_label k" and ?x = "ducked_label k"
  have len: "?s < length labels" "?d < length labels" "length labels = n" and neq: "?s \<noteq> ?d" using assms st by (auto simp: growing_def)
  then have in_labels: "labels ! ?s \<in> set labels" "labels ! ?d \<in> set labels" by auto
  have flow: "mset (all_ins parts) + mset labels = mset streams + mset (all_outs parts)" using assms st by (simp add: growing_def)
  have d: "add_mset (labels ! ?d) (mset (?l[?d := ?x])) = add_mset ?x (mset ?l)" using relabel [of ?d ?l ?x] len neq by simp
  have "add_mset (labels ! ?s) (add_mset (labels ! ?d) (mset (?l[?d := ?x]))) = add_mset ?x (add_mset ?c (mset labels))"
    unfolding d add_mset_commute [of "labels ! ?s" ?x] relabel [OF len(1)] ..
  then have "mset (all_ins parts) + add_mset (labels ! ?s) (add_mset (labels ! ?d) (mset (?l[?d := ?x]))) =
      add_mset ?x (add_mset ?c (mset streams + mset (all_outs parts)))"
    unfolding flow [symmetric] by simp
  with assms(1) growing_labels [OF assms(1)] st in_labels show ?thesis
    by (auto simp: growing_def ducking_step_def Let_def reads_written_append subset_iff add_mset_commute)
qed

lemma growing_fold:
  assumes "growing streams n st" and "\<And>it st. it \<in> set its \<Longrightarrow> growing streams n st \<Longrightarrow> growing streams n (f it st)"
  shows "growing streams n (fold f its st)"
  using assms by (induction its arbitrary: st) auto

text \<open>The labels that are written.\<close>

lemma volume_outs:
  "all_outs (fst (fold (volume_step here) its st)) =
     all_outs (fst st) @ map (vol_label \<circ> fst) (filter (\<lambda>(i, t). mt_volume_envelope t \<noteq> None \<and> here i) its)"
  by (induction its arbitrary: st) (auto simp: volume_step_def split: option.splits prod.splits)

lemma ducking_outs:
  "all_outs (fst (fold ducking_step its st)) =
     all_outs (fst st) @ concat (map (\<lambda>(k, p). [clean_label k, trigger_label k, ducked_label k]) its)"
  by (induction its arbitrary: st) (auto simp: ducking_step_def Let_def split: prod.splits)

lemma reads_available: "(\<And>p. p \<in> set ps \<Longrightarrow> set (part_ins p) \<subseteq> avail) \<Longrightarrow> reads_written avail ps"
proof (induction ps arbitrary: avail)
  case (Cons p ps)
  have "reads_written (avail \<union> set (part_outs p)) ps" by (rule Cons.IH) (use Cons.prems in \<open>simp add: le_supI1\<close>)
  with Cons.prems show ?case by simp
qed simp

lemma label_simps [simp]:
  "track_label i = track_label j \<longleftrightarrow> i = j" "vol_label i = vol_label j \<longleftrightarrow> i = j" "clean_label i = clean_label j \<longleftrightarrow> i = j"
  "trigger_label i = trigger_label j \<longleftrightarrow> i = j" "ducked_label i = ducked_label j \<longleftrightarrow> i = j"
  by (simp_all add: track_label_def vol_label_def clean_label_def trigger_label_def ducked_label_def)

lemma dec_suffix: "dec i \<noteq> dec j @ CHR ''_'' # s"
proof
  assume "dec i = dec j @ CHR ''_'' # s"
  then have "CHR ''_'' \<in> set (dec i)" by simp
  from dec_chars [OF this] show False by simp
qed

lemma dec_then: "dec i @ CHR ''_'' # s = dec j @ CHR ''_'' # t \<longleftrightarrow> i = j \<and> s = t"
proof
  assume "dec i @ CHR ''_'' # s = dec j @ CHR ''_'' # t"
  then have "takeWhile (\<lambda>c. c \<noteq> CHR ''_'') (dec i @ CHR ''_'' # s) = takeWhile (\<lambda>c. c \<noteq> CHR ''_'') (dec j @ CHR ''_'' # t)" by simp
  moreover have "takeWhile (\<lambda>c. c \<noteq> CHR ''_'') (dec n @ CHR ''_'' # u) = dec n" for n u
    using dec_chars [of "CHR ''_''" n] by (subst takeWhile_append2) auto
  ultimately have "dec i = dec j" by simp
  with \<open>dec i @ CHR ''_'' # s = dec j @ CHR ''_'' # t\<close> show "i = j \<and> s = t" by simp
qed simp

lemma label_kinds [simp]:
  "track_label i \<noteq> vol_label j" "track_label i \<noteq> clean_label j" "track_label i \<noteq> trigger_label j" "track_label i \<noteq> ducked_label j"
  "vol_label i \<noteq> clean_label j" "vol_label i \<noteq> trigger_label j" "vol_label i \<noteq> ducked_label j"
  "clean_label i \<noteq> trigger_label j" "clean_label i \<noteq> ducked_label j" "trigger_label i \<noteq> ducked_label j"
  using dec_suffix by (simp_all add: track_label_def vol_label_def clean_label_def trigger_label_def ducked_label_def dec_then)

lemmas label_kinds_sym [simp] = label_kinds [symmetric]

text \<open>What \<open>add_ducking_pair\<close> and \<open>build\<close> check of a pair.\<close>

definition pair_fits :: "nat \<Rightarrow> mixer_pair \<Rightarrow> bool" where
  "pair_fits n p \<longleftrightarrow> mp_ducked_idx p < n \<and> mp_sidechain_idx p < n \<and> mp_sidechain_idx p \<noteq> mp_ducked_idx p"

abbreviation streams_of :: "mixer_track list \<Rightarrow> string list" where
  "streams_of ins \<equiv> map (\<lambda>t. dec (mt_stream_idx t) @ '':a'') ins"

lemma fst_enumerate: "it \<in> set (enumerate 0 xs) \<Longrightarrow> fst it < length xs"
  by (auto simp: enumerate_eq_zip set_zip)

lemma snd_enumerate: "it \<in> set (enumerate 0 xs) \<Longrightarrow> snd it \<in> set xs"
  by (auto simp: enumerate_eq_zip set_zip)

lemma mixer_pipeline_parts:
  assumes "list_all (pair_fits (length ins)) ps"
  shows "mixer_pipeline (streams_of ins) (mixer_parts ins ps) \<and> part_outs (last (mixer_parts ins ps)) = []"
proof -
  let ?n = "length ins" and ?streams = "streams_of ins"
  define start where "start = (map format_part (enumerate 0 ins), map track_label [0..<?n])"
  define vol where "vol = fold (volume_step (\<lambda>i. \<not> deferred ps i)) (enumerate 0 ins) start"
  define duck where "duck = fold ducking_step (enumerate 0 ps) vol"
  define final where "final = fold (volume_step (deferred ps)) (enumerate 0 ins) duck"
  have parts: "mixer_parts ins ps = fst final @ [mix_part ins (snd final)]"
    by (simp add: mixer_parts_def Let_def start_def vol_def duck_def final_def case_prod_beta)
  have outs: "all_outs (map format_part (enumerate 0 ins)) = map track_label [0..<?n]"
    unfolding enumerate_eq_zip by (induction ins rule: rev_induct) (simp_all add: format_part_def)
  have ins: "all_ins (map format_part (enumerate 0 ins)) = ?streams"
    unfolding enumerate_eq_zip by (induction ins rule: rev_induct) (simp_all add: format_part_def)
  have "reads_written (set ?streams) (map format_part (enumerate 0 ins))"
    by (rule reads_available) (use snd_enumerate in \<open>fastforce simp: format_part_def\<close>)
  then have g0: "growing ?streams ?n start" unfolding growing_def start_def fst_conv snd_conv ins outs by simp
  then have "growing ?streams ?n vol" unfolding vol_def by (rule growing_fold) (simp add: growing_volume fst_enumerate)
  then have "growing ?streams ?n duck"
    unfolding duck_def using assms
    by (rule_tac growing_fold) (auto intro!: growing_ducking dest: snd_enumerate simp: list_all_iff pair_fits_def)
  then have g: "growing ?streams ?n final" unfolding final_def by (rule growing_fold) (simp add: growing_volume fst_enumerate)
  have all: "all_outs (fst final) = map track_label [0..<?n] @
      map (vol_label \<circ> fst) (filter (\<lambda>(i, t). mt_volume_envelope t \<noteq> None \<and> \<not> deferred ps i) (enumerate 0 ins)) @
      concat (map (\<lambda>(k, p). [clean_label k, trigger_label k, ducked_label k]) (enumerate 0 ps)) @
      map (vol_label \<circ> fst) (filter (\<lambda>(i, t). mt_volume_envelope t \<noteq> None \<and> deferred ps i) (enumerate 0 ins))"
    unfolding final_def volume_outs duck_def ducking_outs vol_def using outs by (simp add: start_def)
  have dist: "distinct (map (vol_label \<circ> fst) (filter P (enumerate 0 ins)))" for P
    by (rule distinct_map_filter) (simp add: distinct_map inj_on_def flip: map_map)
  have "distinct (concat (map (\<lambda>(k, p). [clean_label k, trigger_label k, ducked_label k]) (enumerate 0 ps)))"
    unfolding enumerate_eq_zip by (induction ps rule: rev_induct) (auto simp: set_zip)
  then have "distinct (all_outs (fst final))"
    unfolding all using dist by (auto simp: distinct_map inj_on_def)
  with g show ?thesis
    using growing_labels [OF g] unfolding parts
    by (auto simp: mixer_pipeline_def growing_def mix_part_def reads_written_append)
qed

subsection \<open>The text of the graph\<close>

text \<open>A volume envelope is put between single quotes as it is.\<close>

definition quotable :: "string option \<Rightarrow> bool" where
  "quotable e \<longleftrightarrow> (case e of None \<Rightarrow> True | Some e \<Rightarrow> quote \<notin> set e)"

lemma plain_int [simp]: "plain (py_str_int i)"
  by (simp add: py_str_int_def)

lemma plain_trim: "plain s \<Longrightarrow> plain (trim_end c s)"
  unfolding trim_end_def by (erule plain_subset) (use set_dropWhileD in fastforce)

lemma plain_value [simp]: "plain (format_value r)"
  by (auto simp: format_value_def trim_decimal_def show_fixed_def Let_def plain_replicate intro!: plain_trim)

lemma plain_labels [simp]:
  "plain (track_label i)" "plain (vol_label i)" "plain (clean_label i)" "plain (trigger_label i)" "plain (ducked_label i)"
  by (simp_all add: track_label_def vol_label_def clean_label_def trigger_label_def ducked_label_def)

lemma good_plain: "b \<noteq> [] \<Longrightarrow> plain b \<Longrightarrow> good_body b"
  by (simp add: good_body_def calm_plain)

lemma good_volume: "quotable (Some e) \<Longrightarrow> good_body (''volume='' @ [quote] @ e @ [quote] @ '':eval=frame'')"
  by (simp add: good_body_def quotable_def calm_quoted)

lemma good_labels: "list_all plain ls \<Longrightarrow> i < length ls \<Longrightarrow> plain (ls ! i)"
  by (simp add: list_all_length)

lemma good_labels_update: "list_all plain ls \<Longrightarrow> plain l \<Longrightarrow> list_all plain (ls[i := l])"
  by (auto simp: list_all_iff dest: set_update_subset_insert [THEN subsetD])

text \<open>While the graph grows, its parts and the current labels are good.\<close>

definition readable :: "nat \<Rightarrow> graph_part list \<times> string list \<Rightarrow> bool" where
  "readable n st \<longleftrightarrow> length (snd st) = n \<and> list_all good_part (fst st) \<and> list_all plain (snd st)"

lemma readable_fold:
  assumes "readable n st" and "\<And>it st. it \<in> set its \<Longrightarrow> readable n st \<Longrightarrow> readable n (f it st)"
  shows "readable n (fold f its st)"
  using assms by (induction its arbitrary: st) auto

lemma readable_volume:
  assumes "readable n st" "fst it < n" "quotable (mt_volume_envelope (snd it))"
  shows "readable n (volume_step here it st)"
  using assms by (cases it, cases st)
    (auto simp: readable_def volume_step_def good_part_def good_labels good_labels_update good_volume [simplified] split: option.splits)

lemma readable_ducking:
  assumes "readable n st" "mp_sidechain_idx (snd it) < n" "mp_ducked_idx (snd it) < n"
  shows "readable n (ducking_step it st)"
  using assms by (cases it, cases st)
    (auto simp: readable_def ducking_step_def Let_def good_part_def good_labels good_labels_update compressor_text_def intro!: good_plain)

lemma mixer_parts_readable:
  assumes "list_all (pair_fits (length ins)) ps" and "list_all (\<lambda>t. quotable (mt_volume_envelope t)) ins"
  shows "read_graph (str_join '';'' (map part_text (mixer_parts ins ps))) = Some (mixer_parts ins ps)"
proof -
  let ?n = "length ins"
  define start where "start = (map format_part (enumerate 0 ins), map track_label [0..<?n])"
  define vol where "vol = fold (volume_step (\<lambda>i. \<not> deferred ps i)) (enumerate 0 ins) start"
  define duck where "duck = fold ducking_step (enumerate 0 ps) vol"
  define final where "final = fold (volume_step (deferred ps)) (enumerate 0 ins) duck"
  have parts: "mixer_parts ins ps = fst final @ [mix_part ins (snd final)]"
    by (simp add: mixer_parts_def Let_def start_def vol_def duck_def final_def case_prod_beta)
  have env: "quotable (mt_volume_envelope (snd it))" if "it \<in> set (enumerate 0 ins)" for it
    using assms(2) snd_enumerate [OF that] by (simp add: list_all_iff)
  have "readable ?n start"
    by (auto simp: readable_def start_def list_all_iff format_part_def good_part_def intro!: good_plain)
  then have "readable ?n vol" unfolding vol_def by (rule readable_fold) (simp add: readable_volume fst_enumerate env)
  then have "readable ?n duck" unfolding duck_def using assms(1)
    by (rule_tac readable_fold) (auto intro!: readable_ducking dest: snd_enumerate simp: list_all_iff pair_fits_def)
  then have final: "readable ?n final" unfolding final_def by (rule readable_fold) (simp add: readable_volume fst_enumerate env)
  have "list_all plain (map (\<lambda>t. format_value (mt_weight t)) ins)" by (simp add: list_all_iff)
  then have "good_part (mix_part ins (snd final))"
    using final by (simp add: readable_def good_part_def mix_part_def good_plain plain_join)
  with final show ?thesis unfolding parts by (intro read_graph_text) (auto simp: readable_def)
qed

subsection \<open>The mixer of a project\<close>

lemma add_tracks_run:
  assumes "\<And>x. x \<in> set ins \<Longrightarrow> mt_stream_idx x < n" and "length ins \<le> 4"
  shows "add_tracks (enumerate n ts) ins =
    (if length ins + length ts \<le> 4 \<and> list_all (\<lambda>t. 0 \<le> tk_weight t) ts
     then Inr (ins @ map (\<lambda>(i, t). \<lparr>mt_stream_idx = i, mt_volume_envelope = tk_volume_envelope t, mt_weight = tk_weight t\<rparr>) (enumerate n ts))
     else Inl ValueError)"
  using assms
proof (induction ts arbitrary: n ins)
  case (Cons t ts)
  let ?x = "\<lparr>mt_stream_idx = n, mt_volume_envelope = tk_volume_envelope t, mt_weight = tk_weight t\<rparr>"
  show ?case
  proof (cases "length ins < 4 \<and> 0 \<le> tk_weight t")
    case True
    then have "add_track n (tk_volume_envelope t) (tk_weight t) ins = Inr (ins @ [?x])"
      using Cons.prems by (auto simp: add_track_def list_ex_iff)
    moreover have "add_tracks (enumerate (Suc n) ts) (ins @ [?x]) =
      (if length (ins @ [?x]) + length ts \<le> 4 \<and> list_all (\<lambda>t. 0 \<le> tk_weight t) ts
       then Inr ((ins @ [?x]) @ map (\<lambda>(i, t). \<lparr>mt_stream_idx = i, mt_volume_envelope = tk_volume_envelope t, mt_weight = tk_weight t\<rparr>)
         (enumerate (Suc n) ts)) else Inl ValueError)"
      using Cons.prems True by (intro Cons.IH) (auto simp: less_Suc_eq)
    ultimately show ?thesis using True by simp
  next
    case False
    then have "add_track n (tk_volume_envelope t) (tk_weight t) ins = Inl ValueError" by (auto simp: add_track_def)
    with False Cons.prems show ?thesis by auto
  qed
qed simp

lemma id_to_idx_Some:
  assumes "distinct (map tk_id ts)"
  shows "id_to_idx ts k = Some i \<longleftrightarrow> i < length ts \<and> tk_id (ts ! i) = k"
proof -
  have fst: "map fst (map (\<lambda>(i, t). (tk_id t, i)) (enumerate 0 ts)) = map tk_id ts"
    by (rule nth_equalityI) (simp_all add: enumerate_eq_zip)
  then have "distinct (map fst (rev (map (\<lambda>(i, t). (tk_id t, i)) (enumerate 0 ts))))"
    using assms by (simp flip: rev_map)
  then have "id_to_idx ts k = Some i \<longleftrightarrow> (k, i) \<in> set (map (\<lambda>(i, t). (tk_id t, i)) (enumerate 0 ts))"
    unfolding id_to_idx_def by (subst map_of_eq_Some_iff) auto
  also have "\<dots> \<longleftrightarrow> (i, ts ! i) \<in> set (enumerate 0 ts) \<and> tk_id (ts ! i) = k"
    by (auto simp: in_set_enumerate_eq intro!: image_eqI [of _ _ "(i, ts ! i)"])
  finally show ?thesis by (simp add: in_set_enumerate_eq)
qed

text \<open>Pairs that can be mixed: two different audio tracks, and parameters within their ranges.\<close>

definition pair_mixable :: "track list \<Rightarrow> ducking_pair \<Rightarrow> bool" where
  "pair_mixable audio d \<longleftrightarrow> du_ducked_track_id d \<in> set (map tk_id audio) \<and> du_sidechain_track_id d \<in> set (map tk_id audio) \<and>
     du_ducked_track_id d \<noteq> du_sidechain_track_id d \<and> threshold_ok (du_threshold d) \<and> ratio_ok (du_ratio d) \<and>
     attack_ok (du_attack_ms d) \<and> release_ok (du_release_ms d)"

definition mixable :: "track list \<Rightarrow> ducking_pair list \<Rightarrow> bool" where
  "mixable audio ds \<longleftrightarrow> 1 \<le> length audio \<and> length audio \<le> 4 \<and> distinct (map tk_id audio) \<and>
     list_all (\<lambda>t. 0 \<le> tk_weight t) audio \<and> list_all (pair_mixable audio) ds"

lemma one_pair:
  assumes "distinct (map tk_id ts)"
  shows "case sum_bind (to_mixer_pair (id_to_idx ts) d) (\<lambda>p. add_ducking_pair p ps) of
      Inl e \<Rightarrow> e = ValueError \<and> \<not> pair_mixable ts d
    | Inr ps' \<Rightarrow> pair_mixable ts d \<and> (\<exists>p. ps' = ps @ [p] \<and> pair_fits (length ts) p)"
proof -
  have known: "id_to_idx ts k = None \<longleftrightarrow> k \<notin> set (map tk_id ts)" for k
  proof -
    have "id_to_idx ts k \<noteq> None \<longleftrightarrow> (\<exists>i. i < length ts \<and> tk_id (ts ! i) = k)" using id_to_idx_Some [OF assms, of k] by auto
    also have "\<dots> \<longleftrightarrow> k \<in> set (map tk_id ts)" unfolding in_set_conv_nth by auto
    finally show ?thesis by blast
  qed
  have same: "a = b \<longleftrightarrow> i = j" if "id_to_idx ts a = Some i" "id_to_idx ts b = Some j" for a b i j
    using that id_to_idx_Some [OF assms] nth_eq_iff_index_eq [OF assms, of i j] by auto
  let ?a = "du_ducked_track_id d" and ?b = "du_sidechain_track_id d"
  show ?thesis
  proof (cases "id_to_idx ts ?a = None \<or> id_to_idx ts ?b = None")
    case True
    then have "\<not> pair_mixable ts d" using known by (auto simp: pair_mixable_def)
    moreover have "to_mixer_pair (id_to_idx ts) d = Inl ValueError" using True by (auto simp: to_mixer_pair_def split: option.splits)
    ultimately show ?thesis by simp
  next
    case False
    then obtain i j where ij: "id_to_idx ts ?a = Some i" "id_to_idx ts ?b = Some j" by auto
    then have "?a \<in> set (map tk_id ts)" "?b \<in> set (map tk_id ts)" "i < length ts" "j < length ts" "?a = ?b \<longleftrightarrow> i = j"
      using known [of ?a] known [of ?b] id_to_idx_Some [OF assms] same [OF ij] by (fastforce, fastforce, blast, blast, blast)
    then show ?thesis using ij by (auto simp: to_mixer_pair_def add_ducking_pair_def pair_mixable_def pair_fits_def)
  qed
qed

lemma add_pairs_run:
  assumes "distinct (map tk_id ts)" and "list_all (pair_fits (length ts)) ps"
  shows "case add_pairs (id_to_idx ts) ds ps of
      Inl e \<Rightarrow> e = ValueError \<and> \<not> list_all (pair_mixable ts) ds
    | Inr ps' \<Rightarrow> list_all (pair_mixable ts) ds \<and> list_all (pair_fits (length ts)) ps'"
  using assms(2)
proof (induction ds arbitrary: ps)
  case (Cons d ds)
  show ?case
  proof (cases "sum_bind (to_mixer_pair (id_to_idx ts) d) (\<lambda>p. add_ducking_pair p ps)")
    case (Inl e)
    then show ?thesis using one_pair [OF assms(1), of d ps] by (cases "to_mixer_pair (id_to_idx ts) d") auto
  next
    case (Inr ps')
    then have d: "pair_mixable ts d" and "list_all (pair_fits (length ts)) ps'"
      using one_pair [OF assms(1), of d ps] Cons.prems by auto
    moreover have "add_pairs (id_to_idx ts) (d # ds) ps = add_pairs (id_to_idx ts) ds ps'"
      using Inr by (cases "to_mixer_pair (id_to_idx ts) d") auto
    ultimately show ?thesis using Cons.IH [of ps'] by (auto split: sum.splits)
  qed
qed simp

text \<open>C39. The audio of a project is mixed exactly when it has one to four audio tracks of different ids and no negative
  weight, and every ducking pair names two of them and keeps within the ranges of the compressor; everything else is a
  \<open>ValueError\<close>. If no volume envelope holds a single quote, the text of the graph reads back as a pipeline: every label
  is written once and read once, after it was written, every track's stream is read once, and the last filter has no
  output label.\<close>

theorem mixer_graph_is_pipeline:
  "let audio = filter (\<lambda>t. tk_track_type t = ''audio'') tracks
   in case assemble_multi_track_mixer tracks ds of
      Inl e \<Rightarrow> e = ValueError \<and> \<not> mixable audio ds
    | Inr g \<Rightarrow> mixable audio ds \<and> (list_all (\<lambda>t. quotable (tk_volume_envelope t)) audio \<longrightarrow> (\<exists>parts. read_graph g = Some parts \<and>
        mixer_pipeline (map (\<lambda>i. dec i @ '':a'') [0..<length audio]) parts \<and> part_outs (last parts) = []))"
proof -
  define audio where "audio = filter (\<lambda>t. tk_track_type t = ''audio'') tracks"
  let ?ins = "map (\<lambda>(i, t). \<lparr>mt_stream_idx = i, mt_volume_envelope = tk_volume_envelope t, mt_weight = tk_weight t\<rparr>) (enumerate 0 audio)"
  have env: "list_all (\<lambda>t. quotable (mt_volume_envelope t)) ?ins \<longleftrightarrow> list_all (\<lambda>t. quotable (tk_volume_envelope t)) audio"
    unfolding enumerate_eq_zip by (induction audio rule: rev_induct) auto
  have streams: "streams_of ?ins = map (\<lambda>i. dec i @ '':a'') [0..<length audio]"
    by (rule nth_equalityI) (simp_all add: enumerate_eq_zip)
  have tracks: "add_tracks (enumerate 0 audio) [] =
      (if length audio \<le> 4 \<and> list_all (\<lambda>t. 0 \<le> tk_weight t) audio then Inr ?ins else Inl ValueError)"
    using add_tracks_run [of "[]" 0 audio] by simp
  show ?thesis
  proof (cases "audio \<noteq> [] \<and> distinct (map tk_id audio) \<and> length audio \<le> 4 \<and> list_all (\<lambda>t. 0 \<le> tk_weight t) audio")
    case False
    then have "assemble_multi_track_mixer tracks ds = Inl ValueError"
      by (auto simp: assemble_multi_track_mixer_def tracks Let_def simp flip: audio_def)
    moreover have "\<not> mixable audio ds" using False by (auto simp: mixable_def Suc_le_eq)
    ultimately show ?thesis by (simp add: Let_def flip: audio_def)
  next
    case True
    then have run: "assemble_multi_track_mixer tracks ds = sum_bind (add_pairs (id_to_idx audio) ds []) (mixer_build ?ins)"
      by (simp add: assemble_multi_track_mixer_def tracks Let_def flip: audio_def)
    have mix: "mixable audio ds \<longleftrightarrow> list_all (pair_mixable audio) ds" using True by (simp add: mixable_def Suc_le_eq)
    show ?thesis
    proof (cases "add_pairs (id_to_idx audio) ds []")
      case (Inl e)
      then show ?thesis using add_pairs_run [of audio "[]" ds] True mix run by (simp add: Let_def flip: audio_def)
    next
      case (Inr ps)
      then have fits: "list_all (pair_fits (length ?ins)) ps" "list_all (pair_mixable audio) ds"
        using add_pairs_run [of audio "[]" ds] True by auto
      have ne: "enumerate 0 audio \<noteq> []" using True by (cases audio) simp_all
      from fits have "assemble_multi_track_mixer tracks ds = Inr (str_join '';'' (map part_text (mixer_parts ?ins ps)))"
        using ne unfolding run Inr by (auto simp: mixer_build_def list_ex_iff list_all_iff pair_fits_def not_le)
      then show ?thesis
        using mixer_pipeline_parts [OF fits(1)] mixer_parts_readable [OF fits(1)] fits(2) mix unfolding streams env by (auto simp: Let_def simp flip: audio_def)
    qed
  qed
qed

definition mix_track :: "string \<Rightarrow> string option \<Rightarrow> track" where
  "mix_track k env = \<lparr>tk_id = k, tk_project_id = ''p'', tk_track_type = ''audio'', tk_label = k, tk_z_index = 0, tk_muted = False,
     tk_locked = False, tk_kind = None, tk_volume_envelope = env, tk_weight = 1\<rparr>"

definition mix_duck :: ducking_pair where
  "mix_duck = \<lparr>du_id = ''d'', du_project_id = ''p'', du_ducked_track_id = ''a'', du_sidechain_track_id = ''b'', du_threshold = 1 / 2,
     du_ratio = 4, du_attack_ms = 20, du_release_ms = 250, du_apply_pre_volume = False, du_created_at = 0, du_updated_at = 0\<rparr>"

theorem mixer_graph_is_pipeline_witness:
  "\<exists>g parts. assemble_multi_track_mixer [mix_track ''a'' (Some ''1-t/9''), mix_track ''b'' None] [mix_duck] = Inr g \<and>
     read_graph g = Some parts \<and> mixer_pipeline [''0:a'', ''1:a''] parts"
proof -
  let ?ts = "[mix_track ''a'' (Some ''1-t/9''), mix_track ''b'' None]"
  have audio: "filter (\<lambda>t. tk_track_type t = ''audio'') ?ts = ?ts" by (simp add: mix_track_def)
  have "mixable ?ts [mix_duck]"
    by (simp add: mixable_def pair_mixable_def mix_track_def mix_duck_def threshold_ok_def ratio_ok_def attack_ok_def release_ok_def)
  moreover have "list_all (\<lambda>t. quotable (tk_volume_envelope t)) ?ts" by (simp add: mix_track_def quotable_def)
  moreover have "map (\<lambda>i. dec i @ '':a'') [0..<length ?ts] = [''0:a'', ''1:a'']" by code_simp
  ultimately show ?thesis
    using mixer_graph_is_pipeline [of ?ts "[mix_duck]"] unfolding Let_def audio by (auto split: sum.splits)
qed

text \<open>Nothing keeps single quotes out of an envelope: this one, of a single track, adds a filter of its own and has a label
  read twice.\<close>

lemma envelope_adds_filter:
  "(case assemble_multi_track_mixer [mix_track ''a'' (Some (''0'' @ [quote] @ '';[1:a]anullsink;[track0]volume='' @ [quote] @ ''1''))] [] of
     Inl e \<Rightarrow> None | Inr g \<Rightarrow> map_option (map fst) (read_graph g)) =
   Some [[''0:a''], [''track0''], [''1:a''], [''track0''], [''track0_vol'']]"
  by code_simp

subsection \<open>Pairs of a project\<close>

text \<open>A repository of pairs is a map from ids to pairs.\<close>

locale pair_store =
  fixes D :: "'p pair_repo" and pairs :: "'p \<Rightarrow> string \<Rightarrow> ducking_pair option" and pok :: "'p \<Rightarrow> bool"
    and projects :: "string set" and tracks :: "string set"
  assumes pair_keyed: "pok s \<Longrightarrow> pairs s k = Some p \<Longrightarrow> du_id p = k"
    and pair_get: "pok s \<Longrightarrow> dpr_get D k s = (Inr (pairs s k), s)"
    and pair_create: "pok s \<Longrightarrow> pairs s (du_id p) = None \<Longrightarrow> du_project_id p \<in> projects \<Longrightarrow> du_ducked_track_id p \<in> tracks \<Longrightarrow>
      du_sidechain_track_id p \<in> tracks \<Longrightarrow> du_ducked_track_id p \<noteq> du_sidechain_track_id p \<Longrightarrow>
      \<exists>s'. dpr_create D p s = (Inr p, s') \<and> pok s' \<and> pairs s' = (pairs s)(du_id p \<mapsto> p)"
    and pair_list: "pok s \<Longrightarrow> \<exists>ps. dpr_list_by_project D pid s = (Inr ps, s) \<and> sorted (map du_created_at ps) \<and>
      (\<forall>p. p \<in> set ps \<longleftrightarrow> pairs s (du_id p) = Some p \<and> du_project_id p = pid)"
    and pair_update: "pok s \<Longrightarrow> pairs s (du_id p) = Some q \<Longrightarrow> pair_columns p q = p \<Longrightarrow>
      \<exists>s'. dpr_update D p s = (Inr p, s') \<and> pok s' \<and> pairs s' = (pairs s)(du_id p \<mapsto> p)"
    and pair_delete: "pok s \<Longrightarrow> \<exists>s'. dpr_delete D k s = (Inr (pairs s k \<noteq> None), s') \<and> pok s' \<and> pairs s' = (pairs s)(k := None)"

locale pair_api = media_store R view mok stored + pair_store D pairs pok projects tracks
  for R :: "'s media_repos" and view :: "'s \<Rightarrow> media_view" and mok :: "'s \<Rightarrow> bool" and stored :: "track \<Rightarrow> track"
    and D :: "'p pair_repo" and pairs :: "'p \<Rightarrow> string \<Rightarrow> ducking_pair option" and pok :: "'p \<Rightarrow> bool"
    and projects :: "string set" and tracks :: "string set"
begin

lemma found_project: "mok m \<Longrightarrow> mv_projects (view m) pid = Some p \<Longrightarrow> in_media (get_project R pid) (m, v) = (Inr p, (m, v))"
  by (simp add: in_media_def get_project_def bind_op_run project_get)

lemma patched_run:
  assumes "mok m" "pok v" "mv_projects (view m) pid = Some pr" "pairs v k = Some p" "pair_patch_ok b"
  shows "\<exists>v'. update_ducking_pair R D now pid k b (m, v) =
      (if du_project_id p = pid then Inr (patch_pair now b p) else Inl (HTTPError 404 ''NOT_FOUND''), (m, v')) \<and> pok v' \<and>
    pairs v' = (pairs v)(k \<mapsto> patch_pair now b p)"
proof -
  have "du_id p = k" using pair_keyed assms by blast
  then have "du_id (patch_pair now b p) = k" "pair_columns (patch_pair now b p) p = patch_pair now b p"
    by (simp_all add: patch_pair_def pair_columns_def)
  then obtain v' where "dpr_update D (patch_pair now b p) v = (Inr (patch_pair now b p), v')" "pok v'"
      "pairs v' = (pairs v)(k \<mapsto> patch_pair now b p)"
    using pair_update [of v "patch_pair now b p" p] assms by auto
  moreover have "du_project_id (patch_pair now b p) = du_project_id p" by (simp add: patch_pair_def)
  ultimately show ?thesis using assms
    by (simp add: update_ducking_pair_def seq_op_run bind_op_run found_project in_pairs_def service_update_def pair_get own_pair_def)
qed

lemma created_run:
  assumes "mok m" "pok v" "mv_projects (view m) pid = Some pr" "pid \<in> projects" "pairs v new_id = None" "pair_create_ok b"
    and "dc_ducked_track_id b \<in> tracks" "dc_sidechain_track_id b \<in> tracks"
  shows "\<exists>v'. create_ducking_pair R D new_id now pid b (m, v) = (Inr (new_pair new_id now pid b), (m, v')) \<and> pok v' \<and>
    pairs v' = (pairs v)(new_id \<mapsto> new_pair new_id now pid b)"
proof -
  obtain v' where "dpr_create D (new_pair new_id now pid b) v = (Inr (new_pair new_id now pid b), v')" "pok v'"
      "pairs v' = (pairs v)(new_id \<mapsto> new_pair new_id now pid b)"
    using pair_create [of v "new_pair new_id now pid b"] assms by (auto simp: new_pair_def pair_create_ok_def)
  with assms show ?thesis
    by (simp add: create_ducking_pair_def seq_op_run found_project in_pairs_def service_create_def pair_create_ok_def)
qed

lemma deleted_run:
  assumes "mok m" "pok v" "mv_projects (view m) pid = Some pr"
  shows "\<exists>v' r. delete_ducking_pair R D pid k (m, v) = (r, (m, v')) \<and> pok v' \<and>
    (case pairs v k of
       Some p \<Rightarrow> if du_project_id p = pid then r = Inr () \<and> pairs v' = (pairs v)(k := None) else r = Inl (HTTPError 404 ''NOT_FOUND'') \<and> v' = v
     | None \<Rightarrow> r = Inl (HTTPError 404 ''NOT_FOUND'') \<and> v' = v)"
proof -
  obtain v' where v': "dpr_delete D k v = (Inr (pairs v k \<noteq> None), v')" "pok v'" "pairs v' = (pairs v)(k := None)"
    using pair_delete [OF assms(2)] by blast
  show ?thesis
  proof (cases "pairs v k")
    case None
    then show ?thesis using assms
      by (simp add: delete_ducking_pair_def seq_op_run bind_op_run found_project in_pairs_def pair_get own_pair_def)
  next
    case (Some p)
    then show ?thesis using assms v'
      by (cases "du_project_id p = pid")
        (simp_all add: delete_ducking_pair_def seq_op_run bind_op_run found_project in_pairs_def pair_get own_pair_def)
  qed
qed

end

interpretation sqg: pair_store "sqg_repo projects tracks" "\<lambda>s k. tbl_get du_id k s" "tbl_keys du_id" projects tracks for projects tracks
proof (unfold_locales, goal_cases)
  case (1 s k p) then show ?case by (simp add: tbl_get_iff)
next
  case (2 s k) then show ?case by (simp add: sqg_repo_def sqg_get_def)
next
  case (3 s p)
  then have "tbl_insert du_id p s = Inr (s @ [p])" by (simp add: tbl_insert_Inr)
  moreover have "(\<lambda>k. tbl_get du_id k (s @ [p])) = (\<lambda>k. tbl_get du_id k s)(du_id p \<mapsto> p)"
    using 3(2) by (auto simp: tbl_get_append split: option.splits)
  ultimately show ?case using 3 by (simp add: sqg_repo_def sqg_create_def tbl_get_None del: fun_upd_apply)
next
  case (4 s pid) then show ?case by (auto simp: sqg_repo_def sqg_list_by_project_def tbl_get_iff)
next
  case (5 s p q)
  have id: "du_id (pair_columns p r) = du_id r" for r by (simp add: pair_columns_def)
  have "(\<lambda>k. tbl_get du_id k (tbl_update du_id (du_id p) (pair_columns p) s)) = (\<lambda>k. tbl_get du_id k s)(du_id p \<mapsto> p)"
    using 5(2,3) by (simp add: tbl_get_update [where key = du_id and f = "pair_columns p", OF id] fun_eq_iff)
  moreover have "tbl_keys du_id (tbl_update du_id (du_id p) (pair_columns p) s)" using 5(1) id by (rule tbl_keys_update [rotated])
  ultimately show ?case using 5 by (auto simp: sqg_repo_def sqg_update_def simp del: fun_upd_apply)
next
  case (6 s k)
  have "(\<lambda>j. tbl_get du_id j (tbl_delete du_id k s)) = (\<lambda>j. tbl_get du_id j s)(k := None)" by (auto simp: tbl_get_delete)
  with 6 show ?case by (auto simp: sqg_repo_def sqg_delete_def tbl_keys_delete simp del: fun_upd_apply)
qed

definition mmg_ok :: "mem_pairs \<Rightarrow> bool" where
  "mmg_ok d \<longleftrightarrow> dict_all (\<lambda>k p. du_id p = k) d"

lemma mmg_values: "mmg_ok d \<Longrightarrow> p \<in> set (dict_values d) \<longleftrightarrow> map_of d (du_id p) = Some p"
  by (rule dict_all_values) (auto simp: mmg_ok_def)

interpretation mmg: pair_store mmg_repo map_of mmg_ok UNIV UNIV
proof (unfold_locales, goal_cases)
  case (1 s k p) then show ?case by (auto simp: mmg_ok_def dest: dict_all_get)
next
  case (2 s k) then show ?case by (simp add: mmg_repo_def mmg_get_def)
next
  case (3 s p)
  then show ?case by (auto simp: mmg_repo_def mmg_create_def mmg_ok_def dict_set_map_of intro: dict_all_set)
next
  case (4 s pid)
  have "sorted (map f (filter P (sort_key f xs)))" for f :: "ducking_pair \<Rightarrow> time" and P xs by (rule sorted_filter) simp
  with 4 show ?case by (auto simp: mmg_repo_def mmg_list_by_project_def mmg_values simp del: set_map)
next
  case (5 s p q)
  then show ?case by (auto simp: mmg_repo_def mmg_update_def mmg_ok_def dict_set_map_of intro: dict_all_set)
next
  case (6 s k)
  then show ?case by (auto simp: mmg_repo_def mmg_delete_def mmg_ok_def delete_conv' fun_eq_iff intro: dict_all_pop)
qed

interpretation sql_pairs: pair_api sqd_repos sqd_view sqd_ok row_to_track "sqg_repo projects tracks" "\<lambda>s k. tbl_get du_id k s"
    "tbl_keys du_id" projects tracks for projects tracks
  by unfold_locales

interpretation mem_pairs: pair_api mmd_repos mmd_view mmd_ok "\<lambda>t. t" mmg_repo map_of mmg_ok UNIV UNIV
  by unfold_locales

subsection \<open>The mix of a project\<close>

text \<open>A mix is accepted exactly when it has two to eight tracks and everything is in range; the builders, which check
  the same again, then never refuse it.\<close>

definition mix_ok :: "audio_mix_request \<Rightarrow> bool" where
  "mix_ok b \<longleftrightarrow> 2 \<le> length (am_tracks b) \<and> length (am_tracks b) \<le> 8 \<and> list_all track_config_ok (am_tracks b) \<and>
     0 \<le> am_master_volume b \<and> am_master_volume b \<le> 2"

lemma checked_mix:
  "case sum_bind (mix_request_ok b) (\<lambda>_. checked_preview b) of
     Inl e \<Rightarrow> \<not> mix_ok b
   | Inr (preview, n) \<Rightarrow> mix_ok b \<and> build_filter_preview b = Inr preview \<and> n = length (am_tracks b)"
  by (auto simp: mix_request_ok_def checked_preview_def validate_track_count_def validate_volumes_def build_filter_preview_def
      mix_ok_def require_def track_config_ok_def list_all_iff list_ex_iff volume_new_def Let_def not_le not_less)

text \<open>Configuring the mix of a project raises and changes nothing, or stores it with the filter that a preview of it shows
  and nothing else.\<close>

theorem configured_mix_exact:
  assumes "sqd_ok m"
  shows "case configure_audio_mix sqd_repos now pid b m of
      (Inl e, m') \<Rightarrow> m' = m \<and> (mix_ok b \<longrightarrow> mv_projects (sqd_view m) pid = None)
    | (Inr (preview, n), m') \<Rightarrow> mix_ok b \<and> preview_audio_mix b = Inr (preview, n) \<and> sqd_ok m' \<and>
        (\<exists>p. mv_projects (sqd_view m) pid = Some p \<and> sqd_view m' = (sqd_view m)\<lparr>mv_projects := (mv_projects (sqd_view m))
          (pid \<mapsto> p\<lparr>pj_audio_mix := Some (audio_mix_entry b preview), pj_updated_at := now\<rparr>)\<rparr>)"
proof (cases "mix_request_ok b")
  case (Inl e)
  then show ?thesis using checked_mix [of b] by (simp add: configure_audio_mix_def seq_op_run)
next
  case (Inr u)
  show ?thesis
  proof (cases "mv_projects (sqd_view m) pid")
    case None
    then show ?thesis using Inr
      by (simp add: configure_audio_mix_def seq_op_run bind_op_run get_project_def sqd.project_get [OF assms])
  next
    case (Some p)
    show ?thesis
    proof (cases "checked_preview b")
      case (Inl e)
      then show ?thesis using checked_mix [of b] Inr Some
        by (simp add: configure_audio_mix_def seq_op_run bind_op_run get_project_def sqd.project_get [OF assms])
    next
      case ok: (Inr x)
      obtain preview n where x: "x = (preview, n)" by (cases x)
      let ?p = "p\<lparr>pj_audio_mix := Some (audio_mix_entry b preview), pj_updated_at := now\<rparr>"
      have key: "pj_id p = pid" using sqd.project_key [OF assms Some] .
      obtain m1 where m1: "pjr_update (mx_projects sqd_repos) ?p m = (Inr ?p, m1)" "sqd_ok m1"
        "sqd_view m1 = (sqd_view m)\<lparr>mv_projects := (mv_projects (sqd_view m))(pid \<mapsto> ?p)\<rparr>"
        using sqd.project_update [of m ?p p] assms Some key by auto
      obtain m2 where m2: "mx_broadcast sqd_repos AUDIO_MIX_CHANGED [(''project_id'', JStr pid), (''tracks_configured'', JInt (int n))] m1 = (Inr (), m2)"
        "sqd_ok m2" "sqd_view m2 = sqd_view m1"
        using sqd.broadcast [OF m1(2)] by blast
      have "configure_audio_mix sqd_repos now pid b m = (Inr (preview, n), m2)"
        using Inr Some ok m1(1) m2(1) unfolding x
        by (simp add: configure_audio_mix_def seq_op_run bind_op_run get_project_def sqd.project_get [OF assms])
      with checked_mix [of b] Inr ok Some m1 m2 show ?thesis by (auto simp: x preview_audio_mix_def)
    qed
  qed
qed

text \<open>C40. A request to change a ducking pair that names another, existing project is answered with 404, but the pair has
  been changed: the service writes before the request compares the projects.\<close>

theorem foreign_patch_changes_pair:
  assumes "sqd_ok m" "tbl_keys du_id v" "mv_projects (sqd_view m) pid = Some pr" "tbl_get du_id k v = Some p" "du_project_id p \<noteq> pid"
    and "pair_patch_ok b" "dx_ratio b = Some r"
  shows "\<exists>v'. update_ducking_pair sqd_repos (sqg_repo projects tracks) now pid k b (m, v) = (Inl (HTTPError 404 ''NOT_FOUND''), (m, v')) \<and>
    map_option du_ratio (tbl_get du_id k v') = Some r \<and> map_option du_project_id (tbl_get du_id k v') = Some (du_project_id p)"
proof -
  obtain v' where "update_ducking_pair sqd_repos (sqg_repo projects tracks) now pid k b (m, v) = (Inl (HTTPError 404 ''NOT_FOUND''), (m, v'))"
      "(\<lambda>k. tbl_get du_id k v') = (\<lambda>k. tbl_get du_id k v)(k \<mapsto> patch_pair now b p)"
    using sql_pairs.patched_run [OF assms(1-4,6), where now = now] assms(5) by auto
  moreover from this(2) have "tbl_get du_id k v' = Some (patch_pair now b p)" by (simp add: fun_eq_iff)
  ultimately show ?thesis using assms(7) by (auto simp: patch_pair_def get_or_def)
qed

definition demo_pair :: ducking_pair where
  "demo_pair = \<lparr>du_id = ''d'', du_project_id = ''q'', du_ducked_track_id = ''t'', du_sidechain_track_id = ''u'', du_threshold = 1 / 50,
     du_ratio = 8, du_attack_ms = 20, du_release_ms = 300, du_apply_pre_volume = False, du_created_at = 0, du_updated_at = 0\<rparr>"

theorem foreign_patch_changes_pair_witness:
  "\<exists>v'. update_ducking_pair sqd_repos (sqg_repo {''p'', ''q''} {''t'', ''u''}) 5 ''p'' ''d''
      \<lparr>dx_threshold = None, dx_ratio = Some 3, dx_attack_ms = None, dx_release_ms = None, dx_apply_pre_volume = None\<rparr>
      (demo_media, [demo_pair]) = (Inl (HTTPError 404 ''NOT_FOUND''), (demo_media, v')) \<and> map_option du_ratio (tbl_get du_id ''d'' v') = Some 3"
proof -
  let ?b = "\<lparr>dx_threshold = None, dx_ratio = Some 3, dx_attack_ms = None, dx_release_ms = None, dx_apply_pre_volume = None\<rparr>"
  obtain pr where pr: "mv_projects (sqd_view demo_media) ''p'' = Some pr" and ok: "sqd_ok demo_media"
    by (simp add: sqd_view_def sqd_ok_def demo_media_def tbl_get_def)
  have p: "tbl_get du_id ''d'' [demo_pair] = Some demo_pair" "du_project_id demo_pair \<noteq> ''p''" "tbl_keys du_id [demo_pair]"
    by (simp_all add: tbl_get_def demo_pair_def)
  have b: "pair_patch_ok ?b" "dx_ratio ?b = Some 3" by (simp_all add: pair_patch_ok_def ratio_ok_def)
  show ?thesis
    using foreign_patch_changes_pair [OF ok p(3) pr p(1,2) b, of "{''p'', ''q''}" "{''t'', ''u''}" 5] by blast
qed

end
