(* ===== verification/Thumbnails.thy ===== *)
theory Thumbnails
  imports Media_Contract Ws_Events
begin

text \<open>
  Thumbnails of videos: the repositories of strips \<open>src/stoat_ferret/db/thumbnail_strip_repository.py\<close>, the service
  \<open>api/services/thumbnail.py\<close> and the requests \<open>api/routers/thumbnails.py\<close>. How FFmpeg ends, what it reports on the way
  and what other tasks do meanwhile are arguments, as is the text of a float. The dictionary the service falls back to
  without a repository is left out: the application always gives it one.
\<close>

subsection \<open>Strips and their status\<close>

record strip =
  sp_id :: string
  sp_video_id :: string
  sp_status :: string
  sp_created_at :: time
  sp_file_path :: "string option"
  sp_frame_count :: int
  sp_frame_width :: int
  sp_frame_height :: int
  sp_interval :: rat
  sp_columns :: int
  sp_rows :: int

definition strip_transitions :: "(string \<times> string list) list" where
  "strip_transitions = [(''pending'', [''generating'']), (''generating'', [''ready'', ''error''])]"

definition validate_strip_transition :: "string \<Rightarrow> string \<Rightarrow> exn + unit" where
  "validate_strip_transition current new =
     (if new \<in> set (get_or [] (map_of strip_transitions current)) then Inr () else Inl ValueError)"

text \<open>What an update may set besides the status.\<close>

record strip_update =
  su_file_path :: "string option"
  su_frame_count :: "int option"
  su_rows :: "int option"

definition no_update :: strip_update where
  "no_update = \<lparr>su_file_path = None, su_frame_count = None, su_rows = None\<rparr>"

definition strip_updated :: "string \<Rightarrow> strip_update \<Rightarrow> strip \<Rightarrow> strip" where
  "strip_updated st u s = s\<lparr>sp_status := st,
     sp_file_path := (case su_file_path u of None \<Rightarrow> sp_file_path s | Some f \<Rightarrow> Some f),
     sp_frame_count := get_or (sp_frame_count s) (su_frame_count u), sp_rows := get_or (sp_rows s) (su_rows u)\<rparr>"

subsection \<open>Repositories\<close>

record 's strip_repo =
  srp_add :: "strip \<Rightarrow> ('s, strip) op"
  srp_get :: "string \<Rightarrow> ('s, strip option) op"
  srp_get_by_video :: "string \<Rightarrow> ('s, strip option) op"
  srp_update_status :: "string \<Rightarrow> string \<Rightarrow> strip_update \<Rightarrow> ('s, unit) op"
  srp_delete :: "string \<Rightarrow> ('s, bool) op"

text \<open>The first of the latest elements.\<close>

definition latest :: "('a \<Rightarrow> time) \<Rightarrow> 'a list \<Rightarrow> 'a option" where
  "latest created xs = (case sorted_rev created xs of [] \<Rightarrow> None | x # _ \<Rightarrow> Some x)"

type_synonym sql_strips = "strip list"

definition sqt_add :: "string set \<Rightarrow> strip \<Rightarrow> (sql_strips, strip) op" where
  "sqt_add videos s = (\<lambda>rows. if sp_video_id s \<notin> videos then (Inl ValueError, rows)
     else case tbl_insert sp_id s rows of Inl e \<Rightarrow> (Inl ValueError, rows) | Inr rows' \<Rightarrow> (Inr s, rows'))"

definition sqt_get :: "string \<Rightarrow> (sql_strips, strip option) op" where
  "sqt_get k = read_op (tbl_get sp_id k)"

definition sqt_get_by_video :: "string \<Rightarrow> (sql_strips, strip option) op" where
  "sqt_get_by_video v = read_op (\<lambda>rows. latest sp_created_at (filter (\<lambda>s. sp_video_id s = v) rows))"

definition strip_columns :: "strip \<Rightarrow> strip \<Rightarrow> strip" where
  "strip_columns c r = r\<lparr>sp_status := sp_status c, sp_file_path := sp_file_path c, sp_frame_count := sp_frame_count c, sp_rows := sp_rows c\<rparr>"

definition sqt_update_status :: "string \<Rightarrow> string \<Rightarrow> strip_update \<Rightarrow> (sql_strips, unit) op" where
  "sqt_update_status k st u = bind_op (sqt_get k) (\<lambda>current. case current of
     None \<Rightarrow> throw ValueError
   | Some c \<Rightarrow> (case validate_strip_transition (sp_status c) st of
       Inl e \<Rightarrow> throw e
     | Inr _ \<Rightarrow> modify_op (tbl_update sp_id k (strip_columns (strip_updated st u c)))))"

definition sqt_delete :: "string \<Rightarrow> (sql_strips, bool) op" where
  "sqt_delete k = (\<lambda>rows. (Inr (tbl_get sp_id k rows \<noteq> None), tbl_delete sp_id k rows))"

definition sqt_repo :: "string set \<Rightarrow> sql_strips strip_repo" where
  "sqt_repo videos = \<lparr>srp_add = sqt_add videos, srp_get = sqt_get, srp_get_by_video = sqt_get_by_video,
     srp_update_status = sqt_update_status, srp_delete = sqt_delete\<rparr>"

type_synonym mem_strips = "(string, strip) dict"

definition mmt_add :: "strip \<Rightarrow> (mem_strips, strip) op" where
  "mmt_add s = (\<lambda>d. if map_of d (sp_id s) \<noteq> None then (Inl ValueError, d) else (Inr s, AList.update (sp_id s) s d))"

definition mmt_get :: "string \<Rightarrow> (mem_strips, strip option) op" where
  "mmt_get k = read_op (\<lambda>d. map_of d k)"

definition mmt_get_by_video :: "string \<Rightarrow> (mem_strips, strip option) op" where
  "mmt_get_by_video v = read_op (\<lambda>d. latest sp_created_at (filter (\<lambda>s. sp_video_id s = v) (dict_values d)))"

definition mmt_update_status :: "string \<Rightarrow> string \<Rightarrow> strip_update \<Rightarrow> (mem_strips, unit) op" where
  "mmt_update_status k st u = (\<lambda>d. case map_of d k of
     None \<Rightarrow> (Inl ValueError, d)
   | Some s \<Rightarrow> (case validate_strip_transition (sp_status s) st of
       Inl e \<Rightarrow> (Inl e, d)
     | Inr _ \<Rightarrow> (Inr (), AList.update k (strip_updated st u s) d)))"

definition mmt_delete :: "string \<Rightarrow> (mem_strips, bool) op" where
  "mmt_delete k = (\<lambda>d. if map_of d k \<noteq> None then (Inr True, AList.delete k d) else (Inr False, d))"

definition mmt_repo :: "mem_strips strip_repo" where
  "mmt_repo = \<lparr>srp_add = mmt_add, srp_get = mmt_get, srp_get_by_video = mmt_get_by_video,
     srp_update_status = mmt_update_status, srp_delete = mmt_delete\<rparr>"

subsection \<open>Command lines\<close>

definition max_columns :: int where "max_columns = 400"

definition calculate_strip_dimensions :: "rat \<Rightarrow> rat \<Rightarrow> int \<Rightarrow> exn + int \<times> int" where
  "calculate_strip_dimensions dur interval columns =
     sum_bind (py_div dur interval) (\<lambda>q.
       (let frame_count = max 1 \<lceil>q\<rceil> in
        sum_bind (py_div (of_int frame_count) (of_int columns)) (\<lambda>r. Inr (frame_count, \<lceil>r\<rceil>))))"

definition build_strip_ffmpeg_args :: "(rat \<Rightarrow> string) \<Rightarrow> string \<Rightarrow> string \<Rightarrow> rat \<Rightarrow> int \<Rightarrow> int \<Rightarrow> int \<Rightarrow> int \<Rightarrow> string list" where
  "build_strip_ffmpeg_args show_float video_path output_path interval w h columns rows =
     [''-i'', video_path, ''-vf'', ''fps=1/'' @ show_float interval @ '',scale='' @ py_str_int w @ '':'' @ py_str_int h @
        '',tile='' @ py_str_int columns @ ''x'' @ py_str_int rows,
      ''-frames:v'', ''1'', ''-q:v'', ''5'', ''-y'', output_path]"

definition extract_frame_args :: "string \<Rightarrow> string \<Rightarrow> string \<Rightarrow> int \<Rightarrow> int \<Rightarrow> int \<Rightarrow> string list" where
  "extract_frame_args video_path output_path timestamp w h quality =
     [''-ss'', timestamp, ''-i'', video_path, ''-frames:v'', ''1'', ''-vf'', ''scale='' @ py_str_int w @ '':'' @ py_str_int h,
      ''-q:v'', py_str_int quality, ''-y'', output_path]"

text \<open>How a run of FFmpeg ends: it raises, or it exits with a code and its standard output.\<close>

datatype media_end = ME_Raised | ME_Exit int string

definition thumbnail_path :: "string \<Rightarrow> string \<Rightarrow> string" where
  "thumbnail_path dir video_id = dir @ ''/'' @ video_id @ ''.jpg''"

definition generate :: "string \<Rightarrow> int \<Rightarrow> (string list \<Rightarrow> media_end) \<Rightarrow> string \<Rightarrow> string \<Rightarrow> string option" where
  "generate dir width run video_path video_id = (let output_path = thumbnail_path dir video_id in
     case run (extract_frame_args video_path output_path ''5'' width (-1) 5) of
       ME_Raised \<Rightarrow> None
     | ME_Exit rc _ \<Rightarrow> if rc \<noteq> 0 then None else Some output_path)"

definition generate_effect_preview ::
  "string \<Rightarrow> (string list \<Rightarrow> media_end) \<Rightarrow> string \<Rightarrow> string \<Rightarrow> string \<Rightarrow> string \<Rightarrow> int \<Rightarrow> int \<Rightarrow> string option" where
  "generate_effect_preview dir run preview_id video_path effect_filter timestamp width quality =
     (let output_path = dir @ ''/effect_preview_'' @ preview_id @ ''.jpg'';
          vf = effect_filter @ '',scale='' @ py_str_int width @ '':-1''
      in case run [''-ss'', timestamp, ''-i'', video_path, ''-vf'', vf, ''-frames:v'', ''1'', ''-q:v'', py_str_int quality, ''-y'', output_path] of
        ME_Raised \<Rightarrow> None
      | ME_Exit rc _ \<Rightarrow> if rc \<noteq> 0 then None else Some output_path)"

definition get_thumbnail_path :: "string \<Rightarrow> (string \<Rightarrow> bool) \<Rightarrow> string \<Rightarrow> string option" where
  "get_thumbnail_path dir is_file video_id = (let p = thumbnail_path dir video_id in if is_file p then Some p else None)"

subsection \<open>Progress\<close>

text \<open>A report is sent unless it comes within half a second of the last one sent and is less than a twentieth further on;
  times are seconds of the monotonic clock.\<close>

definition progress_due :: "rat \<times> rat \<Rightarrow> rat \<Rightarrow> rat \<Rightarrow> bool" where
  "progress_due prev progress now \<longleftrightarrow> \<not> (now - snd prev < 1 / 2 \<and> progress - fst prev < 1 / 20)"

fun strip_on_progress :: "int \<Rightarrow> rat \<times> rat \<Rightarrow> (int \<times> rat) list \<Rightarrow> rat list" where
  "strip_on_progress duration_us last_sent [] = []"
| "strip_on_progress duration_us last_sent ((out_time_us, now) # infos) =
     (if duration_us \<le> 0 then []
      else let progress = min (of_int out_time_us / of_int duration_us) 1 in
        if progress_due last_sent progress now then progress # strip_on_progress duration_us (progress, now) infos
        else strip_on_progress duration_us last_sent infos)"

subsection \<open>The service\<close>

record thumb_env =
  te_executor :: bool
  te_ws :: bool
  te_dir :: string
  te_interval :: rat
  te_show_float :: "rat \<Rightarrow> string"

record strip_task =
  st_video_id :: string
  st_video_path :: string
  st_duration :: rat
  st_strip_id :: string
  st_interval :: "rat option"
  st_frame_width :: int
  st_frame_height :: int
  st_columns :: int

record ('s, 'm) thumb_world =
  th_store :: 's
  th_media :: 'm
  th_events :: "(event_type \<times> message) list"
  th_queued :: "strip_task list"

definition on_strips :: "('s, 'a) op \<Rightarrow> (('s, 'm) thumb_world, 'a) op" where
  "on_strips f w = (case f (th_store w) of (r, s) \<Rightarrow> (r, w\<lparr>th_store := s\<rparr>))"

definition on_videos :: "('m, 'a) op \<Rightarrow> (('s, 'm) thumb_world, 'a) op" where
  "on_videos f w = (case f (th_media w) of (r, m) \<Rightarrow> (r, w\<lparr>th_media := m\<rparr>))"

definition strip_message :: "strip_task \<Rightarrow> rat \<Rightarrow> string \<Rightarrow> message" where
  "strip_message t progress st = [(''job_type'', JStr ''thumbnail_strip''), (''strip_id'', JStr (st_strip_id t)),
     (''video_id'', JStr (st_video_id t)), (''progress'', JNum progress), (''status'', JStr st)]"

definition send_strip_progress :: "thumb_env \<Rightarrow> strip_task \<Rightarrow> rat \<Rightarrow> string \<Rightarrow> (('s, 'm) thumb_world, unit) op" where
  "send_strip_progress en t progress st = when_op (te_ws en)
     (modify_op (\<lambda>w. w\<lparr>th_events := th_events w @ [(JOB_PROGRESS, strip_message t progress st)]\<rparr>))"

fun send_reports :: "thumb_env \<Rightarrow> strip_task \<Rightarrow> rat list \<Rightarrow> (('s, 'm) thumb_world, unit) op" where
  "send_reports en t [] = ret ()"
| "send_reports en t (p # ps) = seq_op (send_strip_progress en t p ''generating'') (send_reports en t ps)"

definition persist_strip_status :: "'s strip_repo \<Rightarrow> strip \<Rightarrow> string \<Rightarrow> strip_update \<Rightarrow> (('s, 'm) thumb_world, strip) op" where
  "persist_strip_status R s st u = seq_op (on_strips (srp_update_status R (sp_id s) st u)) (ret (strip_updated st u s))"

definition existing_ready_strip :: "strip option \<Rightarrow> strip option" where
  "existing_ready_strip existing = (case existing of
     None \<Rightarrow> None | Some s \<Rightarrow> if sp_status s \<in> {''ready'', ''generating''} then Some s else None)"

definition new_strip :: "thumb_env \<Rightarrow> time \<Rightarrow> strip_task \<Rightarrow> strip" where
  "new_strip en now t = \<lparr>sp_id = st_strip_id t, sp_video_id = st_video_id t, sp_status = ''pending'', sp_created_at = now,
     sp_file_path = None, sp_frame_count = 0, sp_frame_width = st_frame_width t, sp_frame_height = st_frame_height t,
     sp_interval = get_or (te_interval en) (st_interval t), sp_columns = min (st_columns t) max_columns, sp_rows = 0\<rparr>"

definition strip_path :: "thumb_env \<Rightarrow> strip_task \<Rightarrow> string" where
  "strip_path en t = te_dir en @ ''/strips/'' @ st_strip_id t @ ''.jpg''"

text \<open>Up to the run of FFmpeg: the strip that is there, or the new one with its frames and rows.\<close>

definition begin_strip :: "thumb_env \<Rightarrow> 's strip_repo \<Rightarrow> time \<Rightarrow> strip_task \<Rightarrow> (('s, 'm) thumb_world, strip + strip \<times> int \<times> int) op" where
  "begin_strip en R now t =
     (if \<not> te_executor en then throw RuntimeError
      else bind_op (on_strips (srp_get_by_video R (st_video_id t))) (\<lambda>existing. case existing_ready_strip existing of
        Some s \<Rightarrow> ret (Inl s)
      | None \<Rightarrow> (case calculate_strip_dimensions (st_duration t) (get_or (te_interval en) (st_interval t)) (min (st_columns t) max_columns) of
          Inl e \<Rightarrow> throw e
        | Inr (frame_count, rows) \<Rightarrow>
            seq_op (on_strips (srp_add R (new_strip en now t)))
           (bind_op (persist_strip_status R (new_strip en now t) ''generating'' no_update) (\<lambda>s. ret (Inr (s, frame_count, rows)))))))"

definition strip_args :: "thumb_env \<Rightarrow> strip_task \<Rightarrow> strip \<Rightarrow> int \<Rightarrow> string list" where
  "strip_args en t s rows = build_strip_ffmpeg_args (te_show_float en) (st_video_path t) (strip_path en t) (sp_interval s)
     (sp_frame_width s) (sp_frame_height s) (sp_columns s) rows"

definition finish_strip :: "thumb_env \<Rightarrow> 's strip_repo \<Rightarrow> strip_task \<Rightarrow> strip \<Rightarrow> int \<Rightarrow> int \<Rightarrow> media_end \<Rightarrow> (('s, 'm) thumb_world, strip) op" where
  "finish_strip en R t s frame_count rows fin = (case fin of
     ME_Raised \<Rightarrow> seq_op (persist_strip_status R s ''error'' no_update) (throw RuntimeError)
   | ME_Exit rc _ \<Rightarrow>
       if rc \<noteq> 0 then seq_op (persist_strip_status R s ''error'' no_update) (throw RuntimeError)
       else bind_op (persist_strip_status R s ''ready''
              \<lparr>su_file_path = Some (strip_path en t), su_frame_count = Some frame_count, su_rows = Some rows\<rparr>) (\<lambda>s.
            seq_op (send_strip_progress en t 1 ''completed'') (ret s)))"

text \<open>\<open>infos\<close> is what FFmpeg reports while it runs, \<open>mid\<close> what other tasks do meanwhile.\<close>

definition generate_strip ::
  "thumb_env \<Rightarrow> 's strip_repo \<Rightarrow> time \<Rightarrow> (int \<times> rat) list \<Rightarrow> ('s \<Rightarrow> 's) \<Rightarrow> (string list \<Rightarrow> media_end) \<Rightarrow> strip_task \<Rightarrow> (('s, 'm) thumb_world, strip) op" where
  "generate_strip en R now infos mid exec t = bind_op (begin_strip en R now t) (\<lambda>r. case r of
     Inl s \<Rightarrow> ret s
   | Inr (s, frame_count, rows) \<Rightarrow>
       seq_op (send_reports en t (strip_on_progress (py_int (st_duration t * 1000000)) (0, 0) infos))
      (seq_op (on_strips (modify_op mid)) (finish_strip en R t s frame_count rows (exec (strip_args en t s rows)))))"

subsection \<open>Requests\<close>

record strip_request =
  sq_interval :: "rat option"
  sq_frame_width :: "int option"
  sq_frame_height :: "int option"

definition strip_request_ok :: "strip_request \<Rightarrow> bool" where
  "strip_request_ok b \<longleftrightarrow> pred_option (\<lambda>w. 0 < w) (sq_frame_width b) \<and> pred_option (\<lambda>h. 0 < h) (sq_frame_height b)"

definition request_strip :: "'m media_repos \<Rightarrow> string \<Rightarrow> string \<Rightarrow> strip_request \<Rightarrow> (('s, 'm) thumb_world, string \<times> string) op" where
  "request_strip M strip_id video_id b =
     (if \<not> strip_request_ok b then throw (HTTPError 422 ''VALIDATION'')
      else bind_op (on_videos (vdr_get (mx_videos M) video_id)) (\<lambda>v. case v of
        None \<Rightarrow> throw (HTTPError 404 ''NOT_FOUND'')
      | Some v \<Rightarrow> (case duration_seconds v of
          Inl e \<Rightarrow> throw e
        | Inr dur \<Rightarrow> seq_op (modify_op (\<lambda>w. w\<lparr>th_queued := th_queued w @ [\<lparr>st_video_id = video_id, st_video_path = vd_path v,
              st_duration = dur, st_strip_id = strip_id, st_interval = sq_interval b, st_frame_width = get_or 160 (sq_frame_width b),
              st_frame_height = get_or 90 (sq_frame_height b), st_columns = 10\<rparr>]\<rparr>))
            (ret (strip_id, ''pending'')))))"

definition get_strip_metadata :: "'s strip_repo \<Rightarrow> string \<Rightarrow> (('s, 'm) thumb_world, strip) op" where
  "get_strip_metadata R video_id = bind_op (on_strips (srp_get_by_video R video_id)) (\<lambda>s. case s of
     None \<Rightarrow> throw (HTTPError 404 ''STRIP_NOT_FOUND'') | Some s \<Rightarrow> ret s)"

definition get_strip_image :: "'s strip_repo \<Rightarrow> (string \<Rightarrow> bool) \<Rightarrow> string \<Rightarrow> (('s, 'm) thumb_world, string) op" where
  "get_strip_image R is_file video_id = bind_op (on_strips (srp_get_by_video R video_id)) (\<lambda>s. case s of
     None \<Rightarrow> throw (HTTPError 404 ''STRIP_NOT_FOUND'')
   | Some s \<Rightarrow> (case sp_file_path s of
       None \<Rightarrow> throw (HTTPError 404 ''STRIP_NOT_FOUND'')
     | Some p \<Rightarrow> if \<not> is_file p then throw (HTTPError 404 ''STRIP_NOT_FOUND'') else ret p))"

end
