(* ===== verification/Waveforms.thy ===== *)
theory Waveforms
  imports Thumbnails Filter_Text
begin

text \<open>
  Waveforms of videos: the repositories \<open>src/stoat_ferret/db/waveform_repository.py\<close>, the service
  \<open>api/services/waveform.py\<close>, which draws a picture or has ffprobe measure samples, and the requests
  \<open>api/routers/waveform.py\<close>. \<open>loads\<close> and \<open>dumps\<close> are \<open>json.loads\<close> and \<open>json.dumps\<close>, \<open>show\<close> is \<open>str\<close> of a JSON value.
\<close>

subsection \<open>Waveforms and their repositories\<close>

datatype waveform_format = WF_PNG | WF_JSON

fun wf_value :: "waveform_format \<Rightarrow> string" where
  "wf_value WF_PNG = ''png''"
| "wf_value WF_JSON = ''json''"

definition wf_of_value :: "string \<Rightarrow> exn + waveform_format" where
  "wf_of_value v = (if v = ''png'' then Inr WF_PNG else if v = ''json'' then Inr WF_JSON else Inl ValueError)"

record waveform =
  wv_id :: string
  wv_video_id :: string
  wv_format :: waveform_format
  wv_status :: string
  wv_created_at :: time
  wv_file_path :: "string option"
  wv_duration :: rat
  wv_channels :: int

definition wave_transitions :: "(string \<times> string list) list" where
  "wave_transitions = [(''pending'', [''generating'']), (''generating'', [''ready'', ''error''])]"

definition validate_wave_transition :: "string \<Rightarrow> string \<Rightarrow> exn + unit" where
  "validate_wave_transition current new =
     (if new \<in> set (get_or [] (map_of wave_transitions current)) then Inr () else Inl ValueError)"

definition wave_updated :: "string \<Rightarrow> string option \<Rightarrow> waveform \<Rightarrow> waveform" where
  "wave_updated st f v = v\<lparr>wv_status := st, wv_file_path := (case f of None \<Rightarrow> wv_file_path v | Some f \<Rightarrow> Some f)\<rparr>"

record 's wave_repo =
  wvr_add :: "waveform \<Rightarrow> ('s, waveform) op"
  wvr_get :: "string \<Rightarrow> ('s, waveform option) op"
  wvr_get_by :: "string \<Rightarrow> waveform_format \<Rightarrow> ('s, waveform option) op"
  wvr_update_status :: "string \<Rightarrow> string \<Rightarrow> string option \<Rightarrow> ('s, unit) op"
  wvr_delete :: "string \<Rightarrow> ('s, bool) op"

type_synonym sql_waves = "waveform list"

definition sqw_add :: "string set \<Rightarrow> waveform \<Rightarrow> (sql_waves, waveform) op" where
  "sqw_add videos v = (\<lambda>rows. if wv_video_id v \<notin> videos then (Inl ValueError, rows)
     else case tbl_insert wv_id v rows of Inl e \<Rightarrow> (Inl ValueError, rows) | Inr rows' \<Rightarrow> (Inr v, rows'))"

definition sqw_get :: "string \<Rightarrow> (sql_waves, waveform option) op" where
  "sqw_get k = read_op (tbl_get wv_id k)"

definition sqw_get_by :: "string \<Rightarrow> waveform_format \<Rightarrow> (sql_waves, waveform option) op" where
  "sqw_get_by vid fmt = read_op (\<lambda>rows. latest wv_created_at (filter (\<lambda>v. wv_video_id v = vid \<and> wv_format v = fmt) rows))"

definition wave_columns :: "waveform \<Rightarrow> waveform \<Rightarrow> waveform" where
  "wave_columns c r = r\<lparr>wv_status := wv_status c, wv_file_path := wv_file_path c\<rparr>"

definition sqw_update_status :: "string \<Rightarrow> string \<Rightarrow> string option \<Rightarrow> (sql_waves, unit) op" where
  "sqw_update_status k st f = bind_op (sqw_get k) (\<lambda>current. case current of
     None \<Rightarrow> throw ValueError
   | Some c \<Rightarrow> (case validate_wave_transition (wv_status c) st of
       Inl e \<Rightarrow> throw e
     | Inr _ \<Rightarrow> modify_op (tbl_update wv_id k (wave_columns (wave_updated st f c)))))"

definition sqw_delete :: "string \<Rightarrow> (sql_waves, bool) op" where
  "sqw_delete k = (\<lambda>rows. (Inr (tbl_get wv_id k rows \<noteq> None), tbl_delete wv_id k rows))"

definition sqw_repo :: "string set \<Rightarrow> sql_waves wave_repo" where
  "sqw_repo videos = \<lparr>wvr_add = sqw_add videos, wvr_get = sqw_get, wvr_get_by = sqw_get_by,
     wvr_update_status = sqw_update_status, wvr_delete = sqw_delete\<rparr>"

type_synonym mem_waves = "(string, waveform) dict"

definition mmw_add :: "waveform \<Rightarrow> (mem_waves, waveform) op" where
  "mmw_add v = (\<lambda>d. if map_of d (wv_id v) \<noteq> None then (Inl ValueError, d) else (Inr v, AList.update (wv_id v) v d))"

definition mmw_get :: "string \<Rightarrow> (mem_waves, waveform option) op" where
  "mmw_get k = read_op (\<lambda>d. map_of d k)"

definition mmw_get_by :: "string \<Rightarrow> waveform_format \<Rightarrow> (mem_waves, waveform option) op" where
  "mmw_get_by vid fmt = read_op (\<lambda>d. latest wv_created_at (filter (\<lambda>v. wv_video_id v = vid \<and> wv_format v = fmt) (dict_values d)))"

definition mmw_update_status :: "string \<Rightarrow> string \<Rightarrow> string option \<Rightarrow> (mem_waves, unit) op" where
  "mmw_update_status k st f = (\<lambda>d. case map_of d k of
     None \<Rightarrow> (Inl ValueError, d)
   | Some v \<Rightarrow> (case validate_wave_transition (wv_status v) st of
       Inl e \<Rightarrow> (Inl e, d)
     | Inr _ \<Rightarrow> (Inr (), AList.update k (wave_updated st f v) d)))"

definition mmw_delete :: "string \<Rightarrow> (mem_waves, bool) op" where
  "mmw_delete k = (\<lambda>d. if map_of d k \<noteq> None then (Inr True, AList.delete k d) else (Inr False, d))"

definition mmw_repo :: "mem_waves wave_repo" where
  "mmw_repo = \<lparr>wvr_add = mmw_add, wvr_get = mmw_get, wvr_get_by = mmw_get_by,
     wvr_update_status = mmw_update_status, wvr_delete = mmw_delete\<rparr>"

subsection \<open>Command lines and samples\<close>

definition escape_path_for_amovie :: "string \<Rightarrow> string" where
  "escape_path_for_amovie p = map (\<lambda>c. if c = CHR 0x5C then CHR ''/'' else c) p"

definition build_png_ffmpeg_args :: "string \<Rightarrow> string \<Rightarrow> int \<Rightarrow> int \<Rightarrow> int \<Rightarrow> string list" where
  "build_png_ffmpeg_args video_path output_path width height channels =
     [''-i'', video_path, ''-filter_complex'', ''aformat=channel_layouts='' @ (if 2 \<le> channels then ''stereo'' else ''mono'') @
        '',showwavespic=s='' @ py_str_int width @ ''x'' @ py_str_int height @ '':colors='' @ (if 2 \<le> channels then ''blue|red'' else ''blue''),
      ''-frames:v'', ''1'', ''-y'', output_path]"

definition astats_sections :: "(string \<times> string) list" where
  "astats_sections = [(''Overall'', ''''), (''1'', ''ch1_''), (''2'', ''ch2_'')]"

definition astats_metric_names :: "string list" where
  "astats_metric_names = [''Peak_level'', ''RMS_level'']"

definition build_json_ffmpeg_args :: "string \<Rightarrow> string list" where
  "build_json_ffmpeg_args video_path =
     [''-f'', ''lavfi'', ''-i'', ''amovie='' @ escape_path_for_amovie video_path @ '',asetnsamples=4410,astats=metadata=1:reset=1'',
      ''-show_entries'', ''frame_tags=lavfi.astats.Overall.Peak_level,lavfi.astats.Overall.RMS_level,'' @
        ''lavfi.astats.1.Peak_level,lavfi.astats.1.RMS_level,lavfi.astats.2.Peak_level,lavfi.astats.2.RMS_level'',
      ''-of'', ''json'', ''-v'', ''quiet'']"

text \<open>\<open>tags.get\<close> on a value that is no object raises.\<close>

definition parse_astats_metrics :: "(json_value \<Rightarrow> string) \<Rightarrow> json_value \<Rightarrow> exn + (string \<times> string) list" where
  "parse_astats_metrics show tags =
     sum_bind (map_ok (\<lambda>((section, prefix), metric).
         sum_bind (json_get_or (''lavfi.astats.'' @ section @ ''.'' @ metric) JNull tags) (\<lambda>v. Inr (prefix @ metric, v)))
       (List.product astats_sections astats_metric_names))
     (\<lambda>found. Inr (map (\<lambda>(k, v). (k, show v)) (filter (\<lambda>(k, v). v \<noteq> JNull) found)))"

definition parse_astats_output ::
  "(string \<Rightarrow> json_value option) \<Rightarrow> (json_value \<Rightarrow> string) \<Rightarrow> string \<Rightarrow> exn + (string \<times> string) list list" where
  "parse_astats_output loads show raw = (case loads raw of
     None \<Rightarrow> Inr []
   | Some data \<Rightarrow> sum_bind (json_get_or ''frames'' (JList []) data) (\<lambda>fs. sum_bind (py_iter fs) (\<lambda>frames.
       sum_bind (map_ok (\<lambda>f. sum_bind (json_get_or ''tags'' (JObj []) f) (parse_astats_metrics show)) frames)
         (\<lambda>samples. Inr (filter (\<lambda>s. s \<noteq> []) samples)))))"

subsection \<open>The service\<close>

record wave_env =
  we_ffprobe :: bool
  we_ws :: bool
  we_dir :: string
  we_loads :: "string \<Rightarrow> json_value option"
  we_dumps :: "json_value \<Rightarrow> string"
  we_show :: "json_value \<Rightarrow> string"

record wave_task =
  wt_video_id :: string
  wt_video_path :: string
  wt_duration :: rat
  wt_channels :: int
  wt_width :: int
  wt_height :: int
  wt_waveform_id :: string
  wt_format :: waveform_format

record ('s, 'm) wave_world =
  wd_waves :: 's
  wd_videos :: 'm
  wd_files :: "(string, string) dict"
  wd_events :: "(event_type \<times> message) list"
  wd_queued :: "wave_task list"

definition on_waves :: "('s, 'a) op \<Rightarrow> (('s, 'm) wave_world, 'a) op" where
  "on_waves f w = (case f (wd_waves w) of (r, s) \<Rightarrow> (r, w\<lparr>wd_waves := s\<rparr>))"

definition in_videos :: "('m, 'a) op \<Rightarrow> (('s, 'm) wave_world, 'a) op" where
  "in_videos f w = (case f (wd_videos w) of (r, m) \<Rightarrow> (r, w\<lparr>wd_videos := m\<rparr>))"

definition wave_message :: "wave_task \<Rightarrow> rat \<Rightarrow> string \<Rightarrow> message" where
  "wave_message t progress st = [(''job_type'', JStr ''waveform''), (''waveform_id'', JStr (wt_waveform_id t)),
     (''video_id'', JStr (wt_video_id t)), (''progress'', JNum progress), (''status'', JStr st)]"

definition send_wave_progress :: "wave_env \<Rightarrow> wave_task \<Rightarrow> rat \<Rightarrow> string \<Rightarrow> (('s, 'm) wave_world, unit) op" where
  "send_wave_progress en t progress st = when_op (we_ws en)
     (modify_op (\<lambda>w. w\<lparr>wd_events := wd_events w @ [(JOB_PROGRESS, wave_message t progress st)]\<rparr>))"

text \<open>The same throttle as for strips.\<close>

fun wave_on_progress :: "int \<Rightarrow> rat \<times> rat \<Rightarrow> (int \<times> rat) list \<Rightarrow> rat list" where
  "wave_on_progress duration_us last_sent [] = []"
| "wave_on_progress duration_us last_sent ((out_time_us, now) # infos) =
     (if duration_us \<le> 0 then []
      else let progress = min (of_int out_time_us / of_int duration_us) 1 in
        if now - snd last_sent < 1 / 2 \<and> progress - fst last_sent < 1 / 20 then wave_on_progress duration_us last_sent infos
        else progress # wave_on_progress duration_us (progress, now) infos)"

fun send_wave_reports :: "wave_env \<Rightarrow> wave_task \<Rightarrow> rat list \<Rightarrow> (('s, 'm) wave_world, unit) op" where
  "send_wave_reports en t [] = ret ()"
| "send_wave_reports en t (p # ps) = seq_op (send_wave_progress en t p ''generating'') (send_wave_reports en t ps)"

definition new_waveform :: "time \<Rightarrow> wave_task \<Rightarrow> waveform" where
  "new_waveform now t = \<lparr>wv_id = wt_waveform_id t, wv_video_id = wt_video_id t, wv_format = wt_format t, wv_status = ''pending'',
     wv_created_at = now, wv_file_path = None, wv_duration = wt_duration t, wv_channels = wt_channels t\<rparr>"

text \<open>The waveform, and whether it is a new one.\<close>

definition get_or_create_pending :: "'s wave_repo \<Rightarrow> time \<Rightarrow> wave_task \<Rightarrow> (('s, 'm) wave_world, waveform \<times> bool) op" where
  "get_or_create_pending R now t =
     bind_op (on_waves (wvr_get_by R (wt_video_id t) (wt_format t))) (\<lambda>existing.
       if \<exists>v. existing = Some v \<and> wv_status v \<in> {''ready'', ''generating''} then ret (the existing, False)
       else seq_op (on_waves (wvr_add R (new_waveform now t)))
           (seq_op (on_waves (wvr_update_status R (wt_waveform_id t) ''generating'' None))
             (ret (wave_updated ''generating'' None (new_waveform now t), True))))"

definition wave_path :: "wave_env \<Rightarrow> wave_task \<Rightarrow> string" where
  "wave_path en t = we_dir en @ ''/'' @ wt_waveform_id t @ ''.'' @ wf_value (wt_format t)"

definition fail_waveform :: "'s wave_repo \<Rightarrow> waveform \<Rightarrow> (('s, 'm) wave_world, 'a) op" where
  "fail_waveform R v = seq_op (on_waves (wvr_update_status R (wv_id v) ''error'' None)) (throw RuntimeError)"

definition finalize_result :: "wave_env \<Rightarrow> 's wave_repo \<Rightarrow> wave_task \<Rightarrow> waveform \<Rightarrow> (('s, 'm) wave_world, waveform) op" where
  "finalize_result en R t v = seq_op (on_waves (wvr_update_status R (wv_id v) ''ready'' (Some (wave_path en t))))
     (seq_op (send_wave_progress en t 1 ''completed'') (ret (wave_updated ''ready'' (Some (wave_path en t)) v)))"

definition finish_png :: "wave_env \<Rightarrow> 's wave_repo \<Rightarrow> wave_task \<Rightarrow> waveform \<Rightarrow> media_end \<Rightarrow> (('s, 'm) wave_world, waveform) op" where
  "finish_png en R t v fin = (case fin of
     ME_Raised \<Rightarrow> fail_waveform R v
   | ME_Exit rc _ \<Rightarrow> if rc \<noteq> 0 then fail_waveform R v else finalize_result en R t v)"

definition wave_reports :: "wave_env \<Rightarrow> wave_task \<Rightarrow> (int \<times> rat) list \<Rightarrow> (('s, 'm) wave_world, unit) op" where
  "wave_reports en t infos = send_wave_reports en t (wave_on_progress (py_int (wt_duration t * 1000000)) (0, 0) infos)"

definition generate_png ::
  "wave_env \<Rightarrow> 's wave_repo \<Rightarrow> time \<Rightarrow> (int \<times> rat) list \<Rightarrow> ('s \<Rightarrow> 's) \<Rightarrow> (string list \<Rightarrow> media_end) \<Rightarrow> wave_task \<Rightarrow> (('s, 'm) wave_world, waveform) op" where
  "generate_png en R now infos mid exec t = bind_op (get_or_create_pending R now t) (\<lambda>(v, created).
     if \<not> created then ret v
     else seq_op (wave_reports en t infos) (seq_op (on_waves (modify_op mid))
       (finish_png en R t v
         (exec (build_png_ffmpeg_args (wt_video_path t) (wave_path en t) (wt_width t) (wt_height t) (wt_channels t))))))"

definition samples_json :: "(string \<times> string) list list \<Rightarrow> json_value" where
  "samples_json ss = JList (map (\<lambda>s. JObj (map (\<lambda>(k, v). (k, JStr v)) s)) ss)"

definition output_data :: "wave_task \<Rightarrow> (string \<times> string) list list \<Rightarrow> json_value" where
  "output_data t ss = JObj [(''video_id'', JStr (wt_video_id t)), (''channels'', JInt (wt_channels t)), (''samples_per_second'', JInt 10),
     (''frames'', samples_json ss)]"

text \<open>Reading ffprobe's output happens after the handlers of errors: what it raises leaves the waveform as it is.\<close>

definition finish_json :: "wave_env \<Rightarrow> 's wave_repo \<Rightarrow> wave_task \<Rightarrow> waveform \<Rightarrow> media_end \<Rightarrow> (('s, 'm) wave_world, waveform) op" where
  "finish_json en R t v fin = (case fin of
     ME_Raised \<Rightarrow> fail_waveform R v
   | ME_Exit rc out \<Rightarrow> if rc \<noteq> 0 then fail_waveform R v
       else (case parse_astats_output (we_loads en) (we_show en) out of
         Inl e \<Rightarrow> throw e
       | Inr samples \<Rightarrow>
           seq_op (modify_op (\<lambda>w. w\<lparr>wd_files := AList.update (wave_path en t) (we_dumps en (output_data t samples)) (wd_files w)\<rparr>))
             (finalize_result en R t v)))"

definition begin_json :: "wave_env \<Rightarrow> 's wave_repo \<Rightarrow> time \<Rightarrow> wave_task \<Rightarrow> (('s, 'm) wave_world, waveform \<times> bool) op" where
  "begin_json en R now t = (if \<not> we_ffprobe en then throw RuntimeError else get_or_create_pending R now t)"

definition generate_json ::
  "wave_env \<Rightarrow> 's wave_repo \<Rightarrow> time \<Rightarrow> (int \<times> rat) list \<Rightarrow> ('s \<Rightarrow> 's) \<Rightarrow> (string list \<Rightarrow> media_end) \<Rightarrow> wave_task \<Rightarrow> (('s, 'm) wave_world, waveform) op" where
  "generate_json en R now infos mid exec t = bind_op (begin_json en R now t) (\<lambda>(v, created).
     if \<not> created then ret v
     else seq_op (wave_reports en t infos) (seq_op (on_waves (modify_op mid))
       (finish_json en R t v (exec (build_json_ffmpeg_args (wt_video_path t))))))"

definition run_wave_task ::
  "wave_env \<Rightarrow> 's wave_repo \<Rightarrow> time \<Rightarrow> (int \<times> rat) list \<Rightarrow> ('s \<Rightarrow> 's) \<Rightarrow> (string list \<Rightarrow> media_end) \<Rightarrow> wave_task \<Rightarrow> (('s, 'm) wave_world, waveform) op" where
  "run_wave_task en R now infos mid exec t = (case wt_format t of
     WF_PNG \<Rightarrow> generate_png en R now infos mid exec t | WF_JSON \<Rightarrow> generate_json en R now infos mid exec t)"

subsection \<open>Requests\<close>

definition generate_waveform :: "'m media_repos \<Rightarrow> string \<Rightarrow> string \<Rightarrow> string \<Rightarrow> (('s, 'm) wave_world, string \<times> string) op" where
  "generate_waveform M waveform_id video_id fmt_value =
     (if fmt_value \<notin> {''png'', ''json''} then throw (HTTPError 422 ''VALIDATION'')
      else bind_op (in_videos (vdr_get (mx_videos M) video_id)) (\<lambda>v. case v of
        None \<Rightarrow> throw (HTTPError 404 ''NOT_FOUND'')
      | Some v \<Rightarrow> (case wf_of_value fmt_value of Inl e \<Rightarrow> throw e | Inr fmt \<Rightarrow> (case duration_seconds v of
          Inl e \<Rightarrow> throw e
        | Inr dur \<Rightarrow> seq_op (modify_op (\<lambda>w. w\<lparr>wd_queued := wd_queued w @ [\<lparr>wt_video_id = video_id, wt_video_path = vd_path v,
              wt_duration = dur, wt_channels = 1, wt_width = 1800, wt_height = 140, wt_waveform_id = waveform_id, wt_format = fmt\<rparr>]\<rparr>))
            (ret (waveform_id, ''pending''))))))"

definition get_waveform_metadata :: "'s wave_repo \<Rightarrow> string \<Rightarrow> string \<Rightarrow> (('s, 'm) wave_world, waveform \<times> nat option) op" where
  "get_waveform_metadata R video_id fmt_value = (case wf_of_value fmt_value of
     Inl e \<Rightarrow> throw e
   | Inr fmt \<Rightarrow> bind_op (on_waves (wvr_get_by R video_id fmt)) (\<lambda>v. case v of
       None \<Rightarrow> throw (HTTPError 404 ''WAVEFORM_NOT_FOUND'')
     | Some v \<Rightarrow> ret (v, if fmt = WF_JSON then Some 10 else None)))"

definition get_waveform_file :: "'s wave_repo \<Rightarrow> (string \<Rightarrow> bool) \<Rightarrow> waveform_format \<Rightarrow> string \<Rightarrow> (('s, 'm) wave_world, waveform \<times> string) op" where
  "get_waveform_file R is_file fmt video_id = bind_op (on_waves (wvr_get_by R video_id fmt)) (\<lambda>v. case v of
     None \<Rightarrow> throw (HTTPError 404 ''WAVEFORM_NOT_FOUND'')
   | Some v \<Rightarrow> (case wv_file_path v of
       None \<Rightarrow> throw (HTTPError 404 ''WAVEFORM_NOT_FOUND'')
     | Some p \<Rightarrow> if \<not> is_file p then throw (HTTPError 404 ''WAVEFORM_NOT_FOUND'') else ret (v, p)))"

definition get_waveform_image :: "'s wave_repo \<Rightarrow> (string \<Rightarrow> bool) \<Rightarrow> string \<Rightarrow> (('s, 'm) wave_world, string) op" where
  "get_waveform_image R is_file video_id =
     bind_op (get_waveform_file R is_file WF_PNG video_id) (\<lambda>(v, p). ret p)"

text \<open>\<open>WaveformSample(**s)\<close> and its dump: the six levels, each a string or null, whatever else \<open>s\<close> has.\<close>

definition sample_fields :: "string list" where
  "sample_fields = map (\<lambda>((section, prefix), metric). prefix @ metric) (List.product astats_sections astats_metric_names)"

definition waveform_sample :: "json_value \<Rightarrow> exn + json_value" where
  "waveform_sample s = (case s of
     JObj d \<Rightarrow> if \<forall>f \<in> set sample_fields. (case map_of d f of None \<Rightarrow> True | Some JNull \<Rightarrow> True | Some (JStr _) \<Rightarrow> True | _ \<Rightarrow> False)
       then Inr (JObj (map (\<lambda>f. (f, get_or JNull (map_of d f))) sample_fields)) else Inl ValueError
   | _ \<Rightarrow> Inl TypeError)"

text \<open>How pydantic reads a string and an integer, \<open>as_str\<close> and \<open>as_int\<close>, is its own.\<close>

definition get_waveform_json ::
  "wave_env \<Rightarrow> (json_value \<Rightarrow> exn + string) \<Rightarrow> (json_value \<Rightarrow> exn + int) \<Rightarrow> 's wave_repo \<Rightarrow> string \<Rightarrow> (('s, 'm) wave_world, json_value) op" where
  "get_waveform_json en as_str as_int R video_id = (\<lambda>w.
     bind_op (get_waveform_file R (\<lambda>p. map_of (wd_files w) p \<noteq> None) WF_JSON video_id) (\<lambda>(v, p) w.
       (case we_loads en (get_or [] (map_of (wd_files w) p)) of
          None \<Rightarrow> Inl JSONDecodeError
        | Some raw_data \<Rightarrow>
            sum_bind (json_get_or ''frames'' (JList []) raw_data) (\<lambda>fs. sum_bind (py_iter fs) (\<lambda>fs. sum_bind (map_ok waveform_sample fs) (\<lambda>samples.
            sum_bind (sum_bind (json_get_or ''video_id'' (JStr video_id) raw_data) as_str) (\<lambda>vid.
            sum_bind (sum_bind (json_get_or ''channels'' (JInt (wv_channels v)) raw_data) as_int) (\<lambda>ch.
            sum_bind (sum_bind (json_get_or ''samples_per_second'' (JInt 10) raw_data) as_int) (\<lambda>sps.
              Inr (JObj [(''video_id'', JStr vid), (''channels'', JInt ch), (''samples_per_second'', JInt sps), (''samples'', JList samples)]))))))),
        w)) w)"

end
