(* ===== verification/Thumbnail_Properties.thy ===== *)
theory Thumbnail_Properties
  imports Thumbnails
begin

text \<open>
  The contract of the repositories of strips, the grid of a strip, its progress reports, and what a generation does from
  its request to its end, over any repository that meets the contract.
\<close>

subsection \<open>The contract\<close>

locale strip_store =
  fixes R :: "'s strip_repo" and m :: "'s \<Rightarrow> string \<Rightarrow> strip option" and ok :: "'s \<Rightarrow> bool" and videos :: "string set"
  assumes strip_keyed: "ok s \<Longrightarrow> m s k = Some x \<Longrightarrow> sp_id x = k"
    and strip_get: "ok s \<Longrightarrow> srp_get R k s = (Inr (m s k), s)"
    and strip_add: "ok s \<Longrightarrow> m s (sp_id x) = None \<Longrightarrow> sp_video_id x \<in> videos \<Longrightarrow>
      \<exists>s'. srp_add R x s = (Inr x, s') \<and> ok s' \<and> m s' = (m s)(sp_id x \<mapsto> x)"
    and strip_current: "ok s \<Longrightarrow> \<exists>r. srp_get_by_video R v s = (Inr r, s) \<and> (case r of
        None \<Rightarrow> (\<forall>k x. m s k = Some x \<longrightarrow> sp_video_id x \<noteq> v)
      | Some x \<Rightarrow> m s (sp_id x) = Some x \<and> sp_video_id x = v \<and>
          (\<forall>k y. m s k = Some y \<and> sp_video_id y = v \<longrightarrow> sp_created_at y \<le> sp_created_at x))"
    and strip_update: "ok s \<Longrightarrow> m s k = Some x \<Longrightarrow> validate_strip_transition (sp_status x) st = Inr () \<Longrightarrow>
      \<exists>s'. srp_update_status R k st u s = (Inr (), s') \<and> ok s' \<and> m s' = (m s)(k \<mapsto> strip_updated st u x)"
    and strip_delete: "ok s \<Longrightarrow> \<exists>s'. srp_delete R k s = (Inr (m s k \<noteq> None), s') \<and> ok s' \<and> m s' = (m s)(k := None)"

lemma latest_cases:
  "case latest created xs of None \<Rightarrow> xs = [] | Some x \<Rightarrow> x \<in> set xs \<and> (\<forall>y \<in> set xs. created y \<le> created x)"
proof (cases "sorted_rev created xs")
  case Nil
  then have "xs = []" using length_sorted_rev [of created xs] by simp
  with Nil show ?thesis by (simp add: latest_def)
next
  case (Cons x ys)
  have "set (x # ys) = set xs" using set_sorted_rev [of created xs] Cons by simp
  moreover have "\<forall>y \<in> set ys. created y \<le> created x" using sorted_rev_descending [of created xs] Cons by simp
  ultimately show ?thesis using Cons by (auto simp: latest_def)
qed

lemma latest_filter:
  assumes "\<And>x. x \<in> set xs \<longleftrightarrow> f (key x) = Some x" and "\<And>k x. f k = Some x \<Longrightarrow> key x = k"
  shows "case latest created (filter P xs) of
      None \<Rightarrow> (\<forall>k x. f k = Some x \<longrightarrow> \<not> P x)
    | Some x \<Rightarrow> f (key x) = Some x \<and> P x \<and> (\<forall>k y. f k = Some y \<and> P y \<longrightarrow> created y \<le> created x)"
proof -
  have stored: "x \<in> set xs" if "f k = Some x" for k x
  proof -
    have "key x = k" by (rule assms(2) [OF that])
    with that have "f (key x) = Some x" by simp
    then show ?thesis unfolding assms(1) .
  qed
  show ?thesis
  proof (cases "latest created (filter P xs)")
    case None
    then have "filter P xs = []" using latest_cases [where created = created and xs = "filter P xs"] by simp
    then have "\<not> P x" if "f k = Some x" for k x using stored [OF that] by (simp add: filter_empty_conv)
    with None show ?thesis by simp
  next
    case (Some x)
    then have x: "x \<in> set xs" "P x" and upper: "\<And>y. y \<in> set xs \<Longrightarrow> P y \<Longrightarrow> created y \<le> created x"
      using latest_cases [where created = created and xs = "filter P xs"] by auto
    have "f (key x) = Some x" using x(1) unfolding assms(1) .
    with Some x(2) show ?thesis using upper [OF stored] by auto
  qed
qed

abbreviation sqt_map :: "sql_strips \<Rightarrow> string \<Rightarrow> strip option" where
  "sqt_map rows \<equiv> (\<lambda>k. tbl_get sp_id k rows)"

lemma strip_updated_simps [simp]:
  "sp_id (strip_updated st u s) = sp_id s" "sp_status (strip_updated st u s) = st" "sp_video_id (strip_updated st u s) = sp_video_id s"
  "sp_created_at (strip_updated st u s) = sp_created_at s" "sp_columns (strip_updated st u s) = sp_columns s"
  "sp_interval (strip_updated st u s) = sp_interval s"
  by (simp_all add: strip_updated_def)

interpretation sqt: strip_store "sqt_repo videos" sqt_map "tbl_keys sp_id" videos for videos
proof (unfold_locales, goal_cases)
  case (1 s k x) then show ?case by (simp add: tbl_get_iff)
next
  case (2 s k) then show ?case by (simp add: sqt_repo_def sqt_get_def)
next
  case (3 s x)
  then have "tbl_insert sp_id x s = Inr (s @ [x])" by (simp add: tbl_insert_Inr)
  moreover have "sqt_map (s @ [x]) = (sqt_map s)(sp_id x \<mapsto> x)" using 3(2) by (auto simp: tbl_get_append split: option.splits)
  ultimately show ?case using 3 by (simp add: sqt_repo_def sqt_add_def tbl_get_None del: fun_upd_apply)
next
  case (4 s v)
  have A: "\<And>x. x \<in> set s \<longleftrightarrow> sqt_map s (sp_id x) = Some x" and B: "\<And>k x. sqt_map s k = Some x \<Longrightarrow> sp_id x = k"
    using 4 by (simp_all add: tbl_get_iff)
  show ?case using latest_filter [where f = "sqt_map s" and key = sp_id and created = sp_created_at and P = "\<lambda>x. sp_video_id x = v", OF A B]
    by (simp add: sqt_repo_def sqt_get_by_video_def)
next
  case (5 s k x st u)
  let ?f = "strip_columns (strip_updated st u x)"
  have id: "sp_id (strip_columns c r) = sp_id r" for c r by (simp add: strip_columns_def)
  have x: "?f x = strip_updated st u x" by (cases x) (simp add: strip_updated_def strip_columns_def)
  have "sqt_map (tbl_update sp_id k ?f s) = (sqt_map s)(k \<mapsto> strip_updated st u x)"
    using 5(2) x by (simp add: tbl_get_update [where key = sp_id and f = ?f, OF id] fun_eq_iff)
  moreover have "tbl_keys sp_id (tbl_update sp_id k ?f s)" using 5(1) id by (rule tbl_keys_update [rotated])
  moreover have "sqt_update_status k st u s = (Inr (), tbl_update sp_id k ?f s)"
    using 5 by (simp add: sqt_update_status_def sqt_get_def bind_op_run)
  ultimately show ?case by (simp add: sqt_repo_def)
next
  case (6 s k)
  have "sqt_map (tbl_delete sp_id k s) = (sqt_map s)(k := None)" by (auto simp: tbl_get_delete)
  with 6 show ?case by (auto simp: sqt_repo_def sqt_delete_def tbl_keys_delete simp del: fun_upd_apply)
qed

definition mmt_ok :: "mem_strips \<Rightarrow> bool" where
  "mmt_ok d \<longleftrightarrow> dict_all (\<lambda>k x. sp_id x = k) d"

lemma mmt_values: "mmt_ok d \<Longrightarrow> x \<in> set (dict_values d) \<longleftrightarrow> map_of d (sp_id x) = Some x"
  by (rule dict_all_values) (auto simp: mmt_ok_def)

interpretation mmt: strip_store mmt_repo map_of mmt_ok UNIV
proof (unfold_locales, goal_cases)
  case (1 s k x) then show ?case by (auto simp: mmt_ok_def dest: dict_all_get)
next
  case (2 s k) then show ?case by (simp add: mmt_repo_def mmt_get_def)
next
  case (3 s x)
  then show ?case by (auto simp: mmt_repo_def mmt_add_def mmt_ok_def dict_set_map_of intro: dict_all_set)
next
  case (4 s v)
  have "map_of s k = Some x \<Longrightarrow> sp_id x = k" for k x using 4 by (auto simp: mmt_ok_def dest: dict_all_get)
  then show ?case
    using latest_filter [where f = "map_of s" and key = sp_id and created = sp_created_at and P = "\<lambda>x. sp_video_id x = v", OF mmt_values [OF 4]]
    by (simp add: mmt_repo_def mmt_get_by_video_def)
next
  case (5 s k x st u)
  then have "sp_id x = k" by (auto simp: mmt_ok_def dest: dict_all_get)
  with 5 have "mmt_ok (AList.update k (strip_updated st u x) s)" by (auto simp: mmt_ok_def intro: dict_all_set)
  with 5 show ?case by (simp add: mmt_repo_def mmt_update_status_def dict_set_map_of)
next
  case (6 s k)
  then show ?case by (auto simp: mmt_repo_def mmt_delete_def mmt_ok_def delete_conv' fun_eq_iff intro: dict_all_pop)
qed

subsection \<open>The grid and the reports\<close>

lemma strip_grid_run:
  assumes "0 < interval" "0 < columns"
  shows "\<exists>n rows. calculate_strip_dimensions dur interval (min columns max_columns) = Inr (n, rows)"
proof -
  have "min columns max_columns \<noteq> 0" "interval \<noteq> 0" using assms by (auto simp: max_columns_def)
  then show ?thesis by (simp add: calculate_strip_dimensions_def py_div_def Let_def)
qed

text \<open>The frames of a strip, one every interval, reach to the end of the video with none to spare, and its grid holds
  them with no row to spare; a grid never has more than 400 columns.\<close>

theorem strip_grid_exact:
  assumes "0 < interval" "0 < columns"
  shows "\<exists>n rows. calculate_strip_dimensions dur interval (min columns max_columns) = Inr (n, rows) \<and> 1 \<le> n \<and> dur \<le> of_int n * interval \<and>
     (1 < n \<longrightarrow> of_int (n - 1) * interval < dur) \<and> 1 \<le> rows \<and> n \<le> rows * min columns max_columns \<and>
     (rows - 1) * min columns max_columns < n \<and> min columns max_columns \<le> 400"
proof -
  define c where "c = min columns max_columns"
  have c: "0 < c" "c \<le> 400" using assms(2) by (auto simp: c_def max_columns_def)
  define n where "n = max 1 \<lceil>dur / interval\<rceil>"
  define rows where "rows = \<lceil>of_int n / (of_int c :: rat)\<rceil>"
  have run: "calculate_strip_dimensions dur interval c = Inr (n, rows)"
    using assms c by (simp add: calculate_strip_dimensions_def py_div_def n_def rows_def Let_def)
  have n: "1 \<le> n" by (simp add: n_def)
  have "dur / interval \<le> of_int n" by (simp add: n_def le_max_iff_disj) linarith
  then have dur: "dur \<le> of_int n * interval" using assms by (simp add: divide_le_eq)
  have spare: "of_int (n - 1) * interval < dur" if "1 < n"
  proof -
    have "n = \<lceil>dur / interval\<rceil>" using that by (auto simp: n_def)
    then have "of_int (n - 1) < dur / interval" by linarith
    then show ?thesis using assms by (simp add: less_divide_eq)
  qed
  have "of_int n / (of_int c :: rat) \<le> of_int rows" unfolding rows_def by linarith
  then have "(of_int n :: rat) \<le> of_int rows * of_int c" using c by (simp add: divide_le_eq)
  then have fit: "n \<le> rows * c" using of_int_le_iff [of n "rows * c", where ?'a = rat] by simp
  have "of_int (rows - 1) < of_int n / (of_int c :: rat)" unfolding rows_def by linarith
  then have "of_int (rows - 1) * (of_int c :: rat) < of_int n" using c by (simp add: less_divide_eq)
  then have tight: "(rows - 1) * c < n" using of_int_less_iff [of "(rows - 1) * c" n, where ?'a = rat] by simp
  have "1 \<le> rows"
  proof (rule ccontr)
    assume "\<not> 1 \<le> rows"
    then have "rows * c \<le> 0" using c by (intro mult_nonpos_nonneg) auto
    with fit n show False by simp
  qed
  with run n dur spare fit tight c show ?thesis unfolding c_def [symmetric] by blast
qed

theorem strip_grid_exact_witness:
  "\<exists>n rows. calculate_strip_dimensions 61 5 (min 10 max_columns) = Inr (n, rows) \<and> 61 \<le> of_int n * (5 :: rat) \<and> n \<le> rows * 10 \<and> (rows - 1) * 10 < n"
  using strip_grid_exact [of 5 10 61] by (auto simp: max_columns_def)

text \<open>What is sent is at least half a second after the last report sent, or a twentieth further on, and never more than 1.\<close>

lemma reports_bounded: "p \<in> set (strip_on_progress duration_us prev infos) \<Longrightarrow> p \<le> 1"
  by (induction duration_us prev infos rule: strip_on_progress.induct) (auto simp: Let_def split: if_splits)

lemma first_report: "p \<in> set (strip_on_progress duration_us prev infos) \<Longrightarrow> strip_on_progress duration_us prev infos = q # ps \<Longrightarrow>
  \<exists>now. progress_due prev q now"
  by (induction duration_us prev infos rule: strip_on_progress.induct) (auto simp: Let_def split: if_splits)

subsection \<open>A generation\<close>

context strip_store begin

lemma on_strips_run: "f (th_store w) = (r, s) \<Longrightarrow> on_strips f w = (r, w\<lparr>th_store := s\<rparr>)"
  by (simp add: on_strips_def)

lemma generation_returns_existing:
  assumes "te_executor en" and "srp_get_by_video R (st_video_id t) (th_store w) = (Inr r, th_store w)" and "existing_ready_strip r = Some x"
  shows "generate_strip en R now infos mid exec t w = (Inr x, w)"
  using assms by (simp add: generate_strip_def begin_strip_def bind_op_run on_strips_def)

lemma reports_run: "\<exists>es. send_reports en t ps w = (Inr (), w\<lparr>th_events := th_events w @ es\<rparr>)"
proof (induction ps arbitrary: w)
  case (Cons p ps)
  let ?w = "if te_ws en then w\<lparr>th_events := th_events w @ [(JOB_PROGRESS, strip_message t p ''generating'')]\<rparr> else w"
  have "send_strip_progress en t p ''generating'' w = (Inr (), ?w)" by (simp add: send_strip_progress_def when_op_run)
  moreover obtain es where "send_reports en t ps ?w = (Inr (), ?w\<lparr>th_events := th_events ?w @ es\<rparr>)" using Cons.IH by blast
  ultimately have "send_reports en t (p # ps) w = (Inr (), ?w\<lparr>th_events := th_events ?w @ es\<rparr>)" by (simp add: seq_op_run)
  then show ?case by (auto split: if_splits)
qed (auto intro: exI [of _ "[]"])

lemma generation_run:
  assumes ok: "ok (th_store w)" and ex: "te_executor en" and fresh: "m (th_store w) (st_strip_id t) = None" and video: "st_video_id t \<in> videos"
    and none: "srp_get_by_video R (st_video_id t) (th_store w) = (Inr r, th_store w)" "existing_ready_strip r = None"
    and dims: "calculate_strip_dimensions (st_duration t) (get_or (te_interval en) (st_interval t)) (min (st_columns t) max_columns) = Inr (n, rows)"
    and mid: "\<And>s. ok s \<Longrightarrow> ok (mid s) \<and> m (mid s) (st_strip_id t) = m s (st_strip_id t)"
    and g: "g = strip_updated ''generating'' no_update (new_strip en now t)"
    and fin: "success = (case exec (strip_args en t g rows) of ME_Raised \<Rightarrow> False | ME_Exit rc _ \<Rightarrow> rc = 0)"
    and x: "x = (if success then strip_updated ''ready'' \<lparr>su_file_path = Some (strip_path en t), su_frame_count = Some n, su_rows = Some rows\<rparr> g
        else strip_updated ''error'' no_update g)"
  shows "\<exists>s1 w'. generate_strip en R now infos mid exec t w = (if success then Inr x else Inl RuntimeError, w') \<and> ok s1 \<and>
    m s1 = (m (th_store w))(st_strip_id t \<mapsto> g) \<and> ok (th_store w') \<and> m (th_store w') = (m (mid s1))(st_strip_id t \<mapsto> x)"
proof -
  let ?k = "st_strip_id t"
  have ids: "sp_id (new_strip en now t) = ?k" "sp_video_id (new_strip en now t) = st_video_id t" "sp_status (new_strip en now t) = ''pending''"
    "sp_id g = ?k" by (simp_all add: new_strip_def g)
  obtain s0 where s0: "srp_add R (new_strip en now t) (th_store w) = (Inr (new_strip en now t), s0)" "ok s0"
      "m s0 = (m (th_store w))(?k \<mapsto> new_strip en now t)"
    using strip_add [of "th_store w" "new_strip en now t"] ok fresh video ids by auto
  have legal: "validate_strip_transition ''pending'' ''generating'' = Inr ()" "validate_strip_transition ''generating'' ''ready'' = Inr ()"
      "validate_strip_transition ''generating'' ''error'' = Inr ()"
    by (simp_all add: validate_strip_transition_def strip_transitions_def get_or_def)
  obtain s1 where s1: "srp_update_status R ?k ''generating'' no_update s0 = (Inr (), s1)" "ok s1" "m s1 = (m (th_store w))(?k \<mapsto> g)"
    using strip_update [OF s0(2), of ?k "new_strip en now t" "''generating''" no_update] s0(3) ids legal by (auto simp: g)
  have begun: "begin_strip en R now t w = (Inr (Inr (g, n, rows)), w\<lparr>th_store := s1\<rparr>)"
    using none s0(1) s1(1) ids ex by (simp add: begin_strip_def bind_op_run seq_op_run on_strips_def dims persist_strip_status_def g)
  obtain es where es: "send_reports en t (strip_on_progress (py_int (st_duration t * 1000000)) (0, 0) infos) (w\<lparr>th_store := s1\<rparr>) =
      (Inr (), w\<lparr>th_store := s1, th_events := th_events w @ es\<rparr>)"
    using reports_run [of en t _ "w\<lparr>th_store := s1\<rparr>"] by force
  have m2: "ok (mid s1)" "m (mid s1) ?k = Some g" using mid [OF s1(2)] s1(3) by auto
  let ?w2 = "w\<lparr>th_events := th_events w @ es, th_store := mid s1\<rparr>"
  have step: "generate_strip en R now infos mid exec t w = finish_strip en R t g n rows (exec (strip_args en t g rows)) ?w2"
    by (simp add: generate_strip_def bind_op_run begun seq_op_run es on_strips_def)
  have g_status: "sp_status g = ''generating''" by (simp add: g)
  show ?thesis
  proof (cases "success")
    case True
    then obtain out where exit: "exec (strip_args en t g rows) = ME_Exit 0 out" using fin by (auto split: media_end.splits)
    obtain s3 where s3: "srp_update_status R ?k ''ready'' \<lparr>su_file_path = Some (strip_path en t), su_frame_count = Some n, su_rows = Some rows\<rparr> (mid s1) = (Inr (), s3)"
        "ok s3" "m s3 = (m (mid s1))(?k \<mapsto> x)"
      using strip_update [OF m2, of "''ready''"] legal True by (auto simp: g_status x)
    show ?thesis unfolding step exit using s3 s1 True ids
      by (auto simp: finish_strip_def bind_op_run seq_op_run persist_strip_status_def on_strips_def send_strip_progress_def when_op_run x
          intro!: exI [of _ s1])
  next
    case False
    obtain s3 where s3: "srp_update_status R ?k ''error'' no_update (mid s1) = (Inr (), s3)" "ok s3" "m s3 = (m (mid s1))(?k \<mapsto> x)"
      using strip_update [OF m2, of "''error''"] legal False by (auto simp: g_status x)
    show ?thesis unfolding step using s3 s1 False ids fin
      by (cases "exec (strip_args en t g rows)")
        (auto simp: finish_strip_def bind_op_run seq_op_run persist_strip_status_def on_strips_def x intro!: exI [of _ s1])
  qed
qed

end

text \<open>C13. A generation returns the strip of a video unchanged if it is ready or still being generated, whatever grid is asked
  for; otherwise it stores a new strip before FFmpeg runs and settles it afterwards: ready with its file, frames and rows
  if FFmpeg exits with 0, and otherwise in error, with a \<open>RuntimeError\<close>. Whatever other tasks do to other strips
  meanwhile is kept.\<close>

theorem strip_generation_outcome:
  assumes "tbl_keys sp_id (th_store w)" "te_executor en" "sqt_map (th_store w) (st_strip_id t) = None" "st_video_id t \<in> videos"
    and "0 < get_or (te_interval en) (st_interval t)" "0 < st_columns t"
    and "\<And>s. tbl_keys sp_id s \<Longrightarrow> tbl_keys sp_id (mid s) \<and> sqt_map (mid s) (st_strip_id t) = sqt_map s (st_strip_id t)"
  shows "let current = latest sp_created_at (filter (\<lambda>x. sp_video_id x = st_video_id t) (th_store w)) in
    if \<exists>x. current = Some x \<and> sp_status x \<in> {''ready'', ''generating''}
    then generate_strip en (sqt_repo videos) now infos mid exec t w = (Inr (the current), w)
    else (\<exists>n rows s1 x w'. let g = strip_updated ''generating'' no_update (new_strip en now t);
          success = (case exec (strip_args en t g rows) of ME_Raised \<Rightarrow> False | ME_Exit rc _ \<Rightarrow> rc = 0)
        in calculate_strip_dimensions (st_duration t) (get_or (te_interval en) (st_interval t)) (min (st_columns t) max_columns) = Inr (n, rows) \<and>
           generate_strip en (sqt_repo videos) now infos mid exec t w = (if success then Inr x else Inl RuntimeError, w') \<and>
           sqt_map s1 = (sqt_map (th_store w))(st_strip_id t \<mapsto> g) \<and> sqt_map (th_store w') = (sqt_map (mid s1))(st_strip_id t \<mapsto> x) \<and>
           sp_status x = (if success then ''ready'' else ''error'') \<and>
           (success \<longrightarrow> sp_file_path x = Some (strip_path en t) \<and> sp_frame_count x = n \<and> sp_rows x = rows))"
proof -
  let ?r = "latest sp_created_at (filter (\<lambda>x. sp_video_id x = st_video_id t) (th_store w))"
  have read: "srp_get_by_video (sqt_repo videos) (st_video_id t) (th_store w) = (Inr ?r, th_store w)"
    by (simp add: sqt_repo_def sqt_get_by_video_def)
  show ?thesis
  proof (cases "\<exists>x. ?r = Some x \<and> sp_status x \<in> {''ready'', ''generating''}")
    case True
    then obtain x where x: "?r = Some x" and ready: "sp_status x \<in> {''ready'', ''generating''}" by blast
    have "existing_ready_strip ?r = Some x" using ready unfolding x by (simp add: existing_ready_strip_def)
    then show ?thesis using sqt.generation_returns_existing [OF assms(2) read] True x by simp
  next
    case False
    then have None: "existing_ready_strip ?r = None" by (auto simp: existing_ready_strip_def split: option.splits)
    obtain n rows where dims: "calculate_strip_dimensions (st_duration t) (get_or (te_interval en) (st_interval t))
        (min (st_columns t) max_columns) = Inr (n, rows)"
      using strip_grid_run [OF assms(5,6), of "st_duration t"] by blast
    define g where "g = strip_updated ''generating'' no_update (new_strip en now t)"
    define success where "success = (case exec (strip_args en t g rows) of ME_Raised \<Rightarrow> False | ME_Exit rc _ \<Rightarrow> rc = 0)"
    define x where "x = (if success then strip_updated ''ready''
        \<lparr>su_file_path = Some (strip_path en t), su_frame_count = Some n, su_rows = Some rows\<rparr> g else strip_updated ''error'' no_update g)"
    obtain s1 w' where run: "generate_strip en (sqt_repo videos) now infos mid exec t w = (if success then Inr x else Inl RuntimeError, w')"
        "sqt_map s1 = (sqt_map (th_store w))(st_strip_id t \<mapsto> g)" "sqt_map (th_store w') = (sqt_map (mid s1))(st_strip_id t \<mapsto> x)"
      using sqt.generation_run [where w = w and en = en and t = t and videos = videos and mid = mid and exec = exec and g = g and
          success = success and x = x and now = now and infos = infos, OF assms(1-4) read None dims assms(7) g_def success_def x_def]
      by blast
    have "sp_status x = (if success then ''ready'' else ''error'')"
      "success \<longrightarrow> sp_file_path x = Some (strip_path en t) \<and> sp_frame_count x = n \<and> sp_rows x = rows"
      by (simp_all add: x_def strip_updated_def get_or_def)
    with dims run show ?thesis
      unfolding Let_def if_not_P [OF False]
      by (intro exI [of _ n] exI [of _ rows] exI [of _ s1] exI [of _ x] exI [of _ w']) (simp flip: g_def success_def)
  qed
qed

definition demo_strip_task :: strip_task where
  "demo_strip_task = \<lparr>st_video_id = ''v'', st_video_path = ''/v.mp4'', st_duration = 61, st_strip_id = ''s'', st_interval = None,
     st_frame_width = 160, st_frame_height = 90, st_columns = 10\<rparr>"

definition demo_thumb_env :: thumb_env where
  "demo_thumb_env = \<lparr>te_executor = True, te_ws = True, te_dir = ''/t'', te_interval = 5, te_show_float = (\<lambda>_. ''5.0'')\<rparr>"

definition demo_thumb_world :: "(sql_strips, unit) thumb_world" where
  "demo_thumb_world = \<lparr>th_store = [], th_media = (), th_events = [], th_queued = []\<rparr>"

theorem strip_generation_outcome_witness:
  "\<exists>x w'. generate_strip demo_thumb_env (sqt_repo {''v''}) 7 [] (\<lambda>s. s) (\<lambda>_. ME_Exit 0 []) demo_strip_task demo_thumb_world = (Inr x, w') \<and>
     sqt_map (th_store w') ''s'' = Some x \<and> sp_status x = ''ready''"
proof -
  have facts: "tbl_keys sp_id (th_store demo_thumb_world)" "te_executor demo_thumb_env"
    "sqt_map (th_store demo_thumb_world) (st_strip_id demo_strip_task) = None" "st_video_id demo_strip_task \<in> {''v''}"
    "0 < get_or (te_interval demo_thumb_env) (st_interval demo_strip_task)" "0 < st_columns demo_strip_task"
    by (simp_all add: demo_thumb_world_def demo_thumb_env_def demo_strip_task_def tbl_get_def get_or_def)
  have none: "latest sp_created_at (filter (\<lambda>x. sp_video_id x = st_video_id demo_strip_task) (th_store demo_thumb_world)) = None"
    by (simp add: demo_thumb_world_def latest_def sorted_rev_def)
  have id: "st_strip_id demo_strip_task = ''s''" by (simp add: demo_strip_task_def)
  have mid: "\<And>s. tbl_keys sp_id s \<Longrightarrow> tbl_keys sp_id s \<and> sqt_map s (st_strip_id demo_strip_task) = sqt_map s (st_strip_id demo_strip_task)"
    by simp
  obtain x w' s1 where "generate_strip demo_thumb_env (sqt_repo {''v''}) 7 [] (\<lambda>s. s) (\<lambda>_. ME_Exit 0 []) demo_strip_task demo_thumb_world = (Inr x, w')"
      "sqt_map (th_store w') = (sqt_map s1)(''s'' \<mapsto> x)" "sp_status x = ''ready''"
    using strip_generation_outcome [where mid = "\<lambda>s. s" and now = 7 and infos = "[]" and exec = "\<lambda>_. ME_Exit 0 []", OF facts mid]
    unfolding none Let_def media_end.case id by auto
  moreover from this(2) have "sqt_map (th_store w') ''s'' = Some x" by (simp add: fun_eq_iff)
  ultimately show ?thesis by blast
qed

text \<open>The strip of a process that died while it was being generated is returned for ever, as if it were on its way.\<close>

lemma interrupted_strip_returned:
  assumes "te_executor en" "existing_ready_strip (latest sp_created_at (filter (\<lambda>x. sp_video_id x = st_video_id t) (th_store w))) = Some x"
    and "sp_status x = ''generating''"
  shows "generate_strip en (sqt_repo videos) now infos mid exec t w = (Inr x, w)"
proof -
  have "srp_get_by_video (sqt_repo videos) (st_video_id t) (th_store w) =
      (Inr (latest sp_created_at (filter (\<lambda>x. sp_video_id x = st_video_id t) (th_store w))), th_store w)"
    by (simp add: sqt_repo_def sqt_get_by_video_def)
  then show ?thesis using sqt.generation_returns_existing assms(1,2) by blast
qed

end
