(* ===== verification/Waveform_Properties.thy ===== *)
theory Waveform_Properties
  imports Waveforms Thumbnail_Properties
begin

text \<open>
  The contract of the repositories of waveforms, what the application's service, which has no ffprobe, makes of requests
  for samples, and the samples that are served where there is one.
\<close>

subsection \<open>The contract\<close>

locale wave_store =
  fixes R :: "'s wave_repo" and m :: "'s \<Rightarrow> string \<Rightarrow> waveform option" and ok :: "'s \<Rightarrow> bool" and videos :: "string set"
  assumes wave_keyed: "ok s \<Longrightarrow> m s k = Some x \<Longrightarrow> wv_id x = k"
    and wave_get: "ok s \<Longrightarrow> wvr_get R k s = (Inr (m s k), s)"
    and wave_add: "ok s \<Longrightarrow> wv_video_id x \<in> videos \<Longrightarrow> if m s (wv_id x) = None
      then \<exists>s'. wvr_add R x s = (Inr x, s') \<and> ok s' \<and> m s' = (m s)(wv_id x \<mapsto> x) else wvr_add R x s = (Inl ValueError, s)"
    and wave_orphan: "ok s \<Longrightarrow> wv_video_id x \<notin> videos \<Longrightarrow> wvr_add R x s = (Inl ValueError, s)"
    and wave_current: "ok s \<Longrightarrow> \<exists>r. wvr_get_by R v fmt s = (Inr r, s) \<and> (case r of
        None \<Rightarrow> (\<forall>k x. m s k = Some x \<longrightarrow> \<not> (wv_video_id x = v \<and> wv_format x = fmt))
      | Some x \<Rightarrow> m s (wv_id x) = Some x \<and> (wv_video_id x = v \<and> wv_format x = fmt) \<and>
          (\<forall>k y. m s k = Some y \<and> (wv_video_id y = v \<and> wv_format y = fmt) \<longrightarrow> wv_created_at y \<le> wv_created_at x))"
    and wave_missing: "ok s \<Longrightarrow> m s k = None \<Longrightarrow> wvr_update_status R k st f s = (Inl ValueError, s)"
    and wave_update: "ok s \<Longrightarrow> m s k = Some x \<Longrightarrow> case validate_wave_transition (wv_status x) st of
        Inl e \<Rightarrow> wvr_update_status R k st f s = (Inl e, s)
      | Inr _ \<Rightarrow> \<exists>s'. wvr_update_status R k st f s = (Inr (), s') \<and> ok s' \<and> m s' = (m s)(k \<mapsto> wave_updated st f x)"
    and wave_delete: "ok s \<Longrightarrow> \<exists>s'. wvr_delete R k s = (Inr (m s k \<noteq> None), s') \<and> ok s' \<and> m s' = (m s)(k := None)"

abbreviation sqw_map :: "sql_waves \<Rightarrow> string \<Rightarrow> waveform option" where
  "sqw_map rows \<equiv> (\<lambda>k. tbl_get wv_id k rows)"

lemma wave_updated_simps [simp]:
  "wv_id (wave_updated st f v) = wv_id v" "wv_status (wave_updated st f v) = st" "wv_video_id (wave_updated st f v) = wv_video_id v"
  "wv_created_at (wave_updated st f v) = wv_created_at v" "wv_format (wave_updated st f v) = wv_format v"
  "wv_channels (wave_updated st f v) = wv_channels v"
  by (simp_all add: wave_updated_def)

interpretation sqw: wave_store "sqw_repo videos" sqw_map "tbl_keys wv_id" videos for videos
proof (unfold_locales, goal_cases)
  case (1 s k x) then show ?case by (simp add: tbl_get_iff)
next
  case (2 s k) then show ?case by (simp add: sqw_repo_def sqw_get_def)
next
  case (3 s x)
  show ?case
  proof (cases "sqw_map s (wv_id x) = None")
    case True
    then have "tbl_insert wv_id x s = Inr (s @ [x])" by (simp add: tbl_insert_Inr)
    moreover have "sqw_map (s @ [x]) = (sqw_map s)(wv_id x \<mapsto> x)" using True by (auto simp: tbl_get_append split: option.splits)
    ultimately show ?thesis using 3 True by (simp add: sqw_repo_def sqw_add_def tbl_get_None del: fun_upd_apply)
  next
    case False
    then show ?thesis using 3 by (auto simp: sqw_repo_def sqw_add_def tbl_insert_def tbl_get_None split: sum.splits if_splits)
  qed
next
  case (4 s x) then show ?case by (simp add: sqw_repo_def sqw_add_def)
next
  case (5 s v fmt)
  have A: "\<And>x. x \<in> set s \<longleftrightarrow> sqw_map s (wv_id x) = Some x" and B: "\<And>k x. sqw_map s k = Some x \<Longrightarrow> wv_id x = k"
    using 5 by (simp_all add: tbl_get_iff)
  show ?case using latest_filter [where f = "sqw_map s" and key = wv_id and created = wv_created_at and
      P = "\<lambda>x. wv_video_id x = v \<and> wv_format x = fmt", OF A B]
    by (simp add: sqw_repo_def sqw_get_by_def)
next
  case (6 s k st f) then show ?case by (simp add: sqw_repo_def sqw_update_status_def sqw_get_def bind_op_run)
next
  case (7 s k x st f)
  let ?f = "wave_columns (wave_updated st f x)"
  have id: "wv_id (wave_columns c r) = wv_id r" for c r by (simp add: wave_columns_def)
  have x: "?f x = wave_updated st f x" by (cases x) (simp add: wave_updated_def wave_columns_def)
  have "sqw_map (tbl_update wv_id k ?f s) = (sqw_map s)(k \<mapsto> wave_updated st f x)"
    using 7(2) x by (simp add: tbl_get_update [where key = wv_id and f = ?f, OF id] fun_eq_iff)
  moreover have "tbl_keys wv_id (tbl_update wv_id k ?f s)" using 7(1) id by (rule tbl_keys_update [rotated])
  ultimately show ?case using 7
    by (auto simp: sqw_repo_def sqw_update_status_def sqw_get_def bind_op_run split: sum.splits simp del: fun_upd_apply)
next
  case (8 s k)
  have "sqw_map (tbl_delete wv_id k s) = (sqw_map s)(k := None)" by (auto simp: tbl_get_delete)
  with 8 show ?case by (auto simp: sqw_repo_def sqw_delete_def tbl_keys_delete simp del: fun_upd_apply)
qed

definition mmw_ok :: "mem_waves \<Rightarrow> bool" where
  "mmw_ok d \<longleftrightarrow> dict_all (\<lambda>k x. wv_id x = k) d"

lemma mmw_values: "mmw_ok d \<Longrightarrow> x \<in> set (dict_values d) \<longleftrightarrow> map_of d (wv_id x) = Some x"
  by (rule dict_all_values) (auto simp: mmw_ok_def)

interpretation mmw: wave_store mmw_repo map_of mmw_ok UNIV
proof (unfold_locales, goal_cases)
  case (1 s k x) then show ?case by (auto simp: mmw_ok_def dest: dict_all_get)
next
  case (2 s k) then show ?case by (simp add: mmw_repo_def mmw_get_def)
next
  case (3 s x)
  then show ?case by (auto simp: mmw_repo_def mmw_add_def mmw_ok_def dict_set_map_of intro: dict_all_set)
next
  case (4 s x) then show ?case by simp
next
  case (5 s v fmt)
  have "map_of s k = Some x \<Longrightarrow> wv_id x = k" for k x using 5 by (auto simp: mmw_ok_def dest: dict_all_get)
  then show ?case
    using latest_filter [where f = "map_of s" and key = wv_id and created = wv_created_at and
        P = "\<lambda>x. wv_video_id x = v \<and> wv_format x = fmt", OF mmw_values [OF 5]]
    by (simp add: mmw_repo_def mmw_get_by_def)
next
  case (6 s k st f) then show ?case by (simp add: mmw_repo_def mmw_update_status_def)
next
  case (7 s k x st f)
  then have "wv_id x = k" by (auto simp: mmw_ok_def dest: dict_all_get)
  with 7 have "mmw_ok (AList.update k (wave_updated st f x) s)" by (auto simp: mmw_ok_def intro: dict_all_set)
  with 7 show ?case by (auto simp: mmw_repo_def mmw_update_status_def dict_set_map_of split: sum.splits)
next
  case (8 s k)
  then show ?case by (auto simp: mmw_repo_def mmw_delete_def mmw_ok_def delete_conv' fun_eq_iff intro: dict_all_pop)
qed

subsection \<open>Requests for samples\<close>

text \<open>Requests and the parts of background tasks, in any order: a task that begins, and one that ends.\<close>

datatype wave_event =
    WE_Request string string string
  | WE_Begin time wave_task
  | WE_End "(int \<times> rat) list" waveform wave_task media_end

fun wave_step :: "wave_env \<Rightarrow> 's wave_repo \<Rightarrow> 'm media_repos \<Rightarrow> wave_event \<Rightarrow> (('s, 'm) wave_world, unit) op" where
  "wave_step en R M (WE_Request wid vid fmt) = bind_op (generate_waveform M wid vid fmt) (\<lambda>_. ret ())"
| "wave_step en R M (WE_Begin now t) = bind_op (case wt_format t of WF_PNG \<Rightarrow> get_or_create_pending R now t | WF_JSON \<Rightarrow> begin_json en R now t) (\<lambda>_. ret ())"
| "wave_step en R M (WE_End infos v t fin) = seq_op (wave_reports en t infos)
     (bind_op (case wt_format t of WF_PNG \<Rightarrow> finish_png en R t v fin | WF_JSON \<Rightarrow> finish_json en R t v fin) (\<lambda>_. ret ()))"

definition wave_steps :: "wave_env \<Rightarrow> 's wave_repo \<Rightarrow> 'm media_repos \<Rightarrow> wave_event list \<Rightarrow> ('s, 'm) wave_world \<Rightarrow> ('s, 'm) wave_world" where
  "wave_steps en R M es w = foldl (\<lambda>w e. snd (wave_step en R M e w)) w es"

text \<open>An operation keeps a predicate of the state, however it ends.\<close>

definition keeps :: "('s \<Rightarrow> bool) \<Rightarrow> ('s, 'a) op \<Rightarrow> bool" where
  "keeps P f \<longleftrightarrow> (\<forall>s. P s \<longrightarrow> P (snd (f s)))"

lemma keeps_ret [intro]: "keeps P (ret x)" and keeps_throw [intro]: "keeps P (throw e)"
  by (simp_all add: keeps_def)

lemma keeps_bind [intro]: "keeps P f \<Longrightarrow> (\<And>x. keeps P (g x)) \<Longrightarrow> keeps P (bind_op f g)"
  by (auto simp: keeps_def bind_op_run split: prod.splits sum.splits)

lemma keeps_seq [intro]: "keeps P f \<Longrightarrow> keeps P g \<Longrightarrow> keeps P (seq_op f g)"
  unfolding seq_op_def by (rule keeps_bind)

context wave_store begin

definition only_pictures :: "('s, 'm) wave_world \<Rightarrow> bool" where
  "only_pictures w \<longleftrightarrow> ok (wd_waves w) \<and> (\<forall>k x. m (wd_waves w) k = Some x \<longrightarrow> wv_format x = WF_PNG)"

lemma keeps_update [intro]: "keeps only_pictures (on_waves (wvr_update_status R k st f))"
  unfolding keeps_def
proof (intro allI impI)
  fix w :: "('s, 'm) wave_world"
  assume w: "only_pictures w"
  show "only_pictures (snd (on_waves (wvr_update_status R k st f) w))"
  proof (cases "m (wd_waves w) k")
    case None
    with w show ?thesis using wave_missing [of "wd_waves w" k st f] by (auto simp: only_pictures_def on_waves_def)
  next
    case (Some x)
    with w show ?thesis using wave_update [of "wd_waves w" k x st f]
      by (auto simp: only_pictures_def on_waves_def split: sum.splits if_splits)
  qed
qed

lemma keeps_add [intro]: "wv_format x = WF_PNG \<Longrightarrow> keeps only_pictures (on_waves (wvr_add R x))"
  unfolding keeps_def
proof (intro allI impI)
  fix w :: "('s, 'm) wave_world"
  assume "only_pictures w" "wv_format x = WF_PNG"
  then show "only_pictures (snd (on_waves (wvr_add R x) w))"
    using wave_add [of "wd_waves w" x] wave_orphan [of "wd_waves w" x]
    by (cases "wv_video_id x \<in> videos") (auto simp: only_pictures_def on_waves_def split: if_splits)
qed

lemma keeps_read [intro]: "keeps only_pictures (on_waves (wvr_get_by R v fmt))"
  unfolding keeps_def
proof (intro allI impI)
  fix w :: "('s, 'm) wave_world"
  assume "only_pictures w"
  then show "only_pictures (snd (on_waves (wvr_get_by R v fmt) w))"
    using wave_current [of "wd_waves w" v fmt] by (auto simp: only_pictures_def on_waves_def)
qed

lemma keeps_rest [intro]:
  "keeps only_pictures (in_videos f)" "keeps only_pictures (modify_op (\<lambda>w. w\<lparr>wd_queued := q w\<rparr>))"
  "keeps only_pictures (modify_op (\<lambda>w. w\<lparr>wd_files := fs w\<rparr>))" "keeps only_pictures (send_wave_progress en t p st)"
  by (auto simp: keeps_def only_pictures_def in_videos_def send_wave_progress_def when_op_run split: prod.splits)

lemma keeps_reports [intro]: "keeps only_pictures (send_wave_reports en t ps)"
proof (induction ps)
  case (Cons p ps) then show ?case by auto
qed (simp add: keeps_def)

lemma keeps_fail [intro]: "keeps only_pictures (fail_waveform R v)"
  and keeps_finalize [intro]: "keeps only_pictures (finalize_result en R t v)"
  unfolding fail_waveform_def finalize_result_def by blast+

lemma keeps_begin [intro]: "wt_format t = WF_PNG \<Longrightarrow> keeps only_pictures (get_or_create_pending R now t)"
proof -
  assume "wt_format t = WF_PNG"
  then have "wv_format (new_waveform now t) = WF_PNG" by (simp add: new_waveform_def)
  then show ?thesis unfolding get_or_create_pending_def by (intro keeps_bind keeps_read) auto
qed

lemma keeps_step: "\<not> we_ffprobe en \<Longrightarrow> keeps only_pictures (wave_step en R M e)"
proof (cases e)
  case (WE_Request wid vid fmt)
  then show ?thesis by (auto simp: generate_waveform_def split: sum.splits option.splits intro!: keeps_bind keeps_seq)
next
  case (WE_Begin now t)
  moreover assume "\<not> we_ffprobe en"
  ultimately show ?thesis by (auto simp: begin_json_def split: waveform_format.splits intro!: keeps_bind keeps_begin)
next
  case (WE_End infos v t fin)
  then show ?thesis
    by (auto simp: wave_reports_def finish_png_def finish_json_def split: waveform_format.splits media_end.splits sum.splits intro!: keeps_bind keeps_seq)
qed

lemma pictures_steps: "\<not> we_ffprobe en \<Longrightarrow> only_pictures w \<Longrightarrow> only_pictures (wave_steps en R M es w)"
proof (induction es arbitrary: w)
  case (Cons e es)
  then have "only_pictures (snd (wave_step en R M e w))" using keeps_step [of en M e] by (simp add: keeps_def)
  with Cons show ?case by (simp add: wave_steps_def)
qed (simp add: wave_steps_def)

lemma no_samples: "only_pictures w \<Longrightarrow> wvr_get_by R v WF_JSON (wd_waves w) = (Inr None, wd_waves w)"
  using wave_current [of "wd_waves w" v WF_JSON] by (fastforce simp: only_pictures_def split: option.splits)

end

text \<open>C29. In the application, whose service of waveforms is given no ffprobe, samples are never made: from a store without
  any, after whatever requests and tasks in whatever order, a task for samples raises \<open>RuntimeError\<close> and changes nothing,
  and both the metadata of the samples and the samples of every video are not found.\<close>

theorem json_waveforms_unavailable:
  assumes "\<not> we_ffprobe en" "tbl_keys wv_id (wd_waves w)" "\<forall>x \<in> set (wd_waves w). wv_format x = WF_PNG" "wt_format t = WF_JSON"
    and "w' = wave_steps en (sqw_repo videos) M es w"
  shows "run_wave_task en (sqw_repo videos) now infos mid exec t w' = (Inl RuntimeError, w') \<and>
    get_waveform_metadata (sqw_repo videos) v ''json'' w' = (Inl (HTTPError 404 ''WAVEFORM_NOT_FOUND''), w') \<and>
    get_waveform_json en as_str as_int (sqw_repo videos) v w' = (Inl (HTTPError 404 ''WAVEFORM_NOT_FOUND''), w')"
proof -
  have "sqw.only_pictures w" using assms(2,3) by (auto simp: sqw.only_pictures_def tbl_get_iff)
  then have "sqw.only_pictures w'" using sqw.pictures_steps assms(1,5) by blast
  then have none: "wvr_get_by (sqw_repo videos) v WF_JSON (wd_waves w') = (Inr None, wd_waves w')" by (rule sqw.no_samples)
  have "run_wave_task en (sqw_repo videos) now infos mid exec t w' = (Inl RuntimeError, w')"
    using assms(1,4) by (simp add: run_wave_task_def generate_json_def begin_json_def bind_op_run)
  moreover have "get_waveform_metadata (sqw_repo videos) v ''json'' w' = (Inl (HTTPError 404 ''WAVEFORM_NOT_FOUND''), w')"
    using none by (simp add: get_waveform_metadata_def wf_of_value_def bind_op_run on_waves_def)
  moreover have "get_waveform_json en as_str as_int (sqw_repo videos) v w' = (Inl (HTTPError 404 ''WAVEFORM_NOT_FOUND''), w')"
    using none by (simp add: get_waveform_json_def get_waveform_file_def bind_op_run on_waves_def)
  ultimately show ?thesis by blast
qed

definition demo_wave_task :: "waveform_format \<Rightarrow> wave_task" where
  "demo_wave_task fmt = \<lparr>wt_video_id = ''v'', wt_video_path = ''/v.mp4'', wt_duration = 61, wt_channels = 1, wt_width = 1800,
     wt_height = 140, wt_waveform_id = ''w'', wt_format = fmt\<rparr>"

definition demo_wave_env :: "bool \<Rightarrow> wave_env" where
  "demo_wave_env ffprobe = \<lparr>we_ffprobe = ffprobe, we_ws = True, we_dir = ''/w'', we_loads = (\<lambda>_. None), we_dumps = (\<lambda>_. []), we_show = (\<lambda>_. [])\<rparr>"

definition demo_wave_world :: "'m \<Rightarrow> (sql_waves, 'm) wave_world" where
  "demo_wave_world db = \<lparr>wd_waves = [], wd_videos = db, wd_files = [], wd_events = [], wd_queued = []\<rparr>"

definition demo_wave_db :: media_db where
  "demo_wave_db = \<lparr>md_projects = [], md_clips = [], md_tracks = [], md_videos = [], md_refs = [], md_log = []\<rparr>"

theorem json_waveforms_unavailable_witness:
  "\<exists>w' :: (sql_waves, media_db) wave_world. wd_waves w' \<noteq> [] \<and>
     run_wave_task (demo_wave_env False) (sqw_repo {''v''}) 2 [] (\<lambda>s. s) (\<lambda>_. ME_Exit 0 []) (demo_wave_task WF_JSON) w' = (Inl RuntimeError, w') \<and>
     get_waveform_metadata (sqw_repo {''v''}) ''v'' ''json'' w' = (Inl (HTTPError 404 ''WAVEFORM_NOT_FOUND''), w')"
proof -
  let ?w = "wave_steps (demo_wave_env False) (sqw_repo {''v''}) sqd_repos [WE_Begin 1 (demo_wave_task WF_PNG)]
      (demo_wave_world demo_wave_db)"
  have "wd_waves ?w \<noteq> []"
    by (simp add: wave_steps_def demo_wave_world_def demo_wave_task_def get_or_create_pending_def bind_op_run seq_op_run on_waves_def
        sqw_repo_def sqw_get_by_def latest_def sorted_rev_def sqw_add_def sqw_update_status_def sqw_get_def new_waveform_def
        tbl_insert_def tbl_get_def tbl_update_def validate_wave_transition_def wave_transitions_def get_or_def)
  moreover have "\<not> we_ffprobe (demo_wave_env False)" "tbl_keys wv_id (wd_waves (demo_wave_world demo_wave_db))"
      "\<forall>x \<in> set (wd_waves (demo_wave_world demo_wave_db)). wv_format x = WF_PNG"
      "wt_format (demo_wave_task WF_JSON) = WF_JSON"
    by (simp_all add: demo_wave_env_def demo_wave_world_def demo_wave_task_def)
  ultimately show ?thesis
    using json_waveforms_unavailable [where w = "demo_wave_world demo_wave_db" and t = "demo_wave_task WF_JSON" and en = "demo_wave_env False" and
        es = "[WE_Begin 1 (demo_wave_task WF_PNG)]" and w' = ?w and videos = "{''v''}" and M = sqd_repos and now = 2 and infos = "[]" and
        mid = "\<lambda>s. s" and exec = "\<lambda>_. ME_Exit 0 []" and v = "''v''" and as_str = "\<lambda>_. Inl ValueError" and as_int = "\<lambda>_. Inl ValueError"]
    by blast
qed

end
