(* ===== verification/Spec2Isabelle.thy ===== *)
theory Spec2Isabelle
  imports Queue_Interleaving Repo_Equivalence Ws_Manager Render_Worker Service_Submit Service_Throttle
    Render_Sweeper Job_Queue_Runs Version_Runs Command_Audio Ffmetadata
    Batch_Properties Preview_Cache Preview_Sessions Media_Properties Proxy_Properties Encoder_Cache QC_Properties Render_Request_Properties
    Version_Requests Tts_Properties Audio_Properties Waveform_Properties
begin

text \<open>
  A verification development for stoat-and-ferret, a video editing server: Python under
  \<open>src/src/stoat_ferret\<close> (FastAPI, asyncio, SQLite), around a Rust core and FFmpeg processes. Paths
  below are relative to that directory.

  \<^bold>\<open>The part of the program that is modelled.\<close> It is the part that keeps state and coordinates tasks:
  the render pipeline with its command builder and its batches, the previews, the clips, tracks,
  effects, versions and markers of a project, the WebSocket notifications, and the generic job queue;
  and the catalogue of effects, from the JSON schema of their parameters to the text of their filters.

  \<^item> A client submits a render plan; \<open>RenderService\<close> checks it and puts a \<open>RenderJob\<close> into the
    \<open>RenderQueue\<close>, which keeps no jobs of its own but reads and writes a render repository (a SQLite
    table in production, a dictionary in tests).
  \<^item> \<open>render_worker_loop\<close> takes jobs off the queue, builds the command and has the service run it. The
    service drives \<open>RenderExecutor\<close>, which owns the FFmpeg process, its temporary files and the
    evidence of the run; then it completes, retries or fails the job, with quality control between
    completion and success.
  \<^item> \<open>stale_render_sweeper\<close> fails running jobs nobody updates any more; recovery at start fails or
    requeues what a dead process left behind; checkpoints record finished segments.
  \<^item> The worker builds FFmpeg's command line from the plan, the clips and the chapters of the project;
    a batch starts one task per job, a semaphore bounding how many render at once.
  \<^item> A project has clips of videos, generators or images; the timeline puts them on tracks and joins
    them by transitions, and every clip has a list of effects. An effect of the registry checks its
    parameters against its schema, compiles keyframes to an FFmpeg expression, and has the Rust core
    build the filter that is stored with the clip.
  \<^item> A project keeps numbered versions of its timeline, pruned by count, and markers, whose chapters
    are written to a metadata file that FFmpeg reads.
  \<^item> \<open>PreviewManager\<close> runs at most so many preview sessions, each with a task that generates its HLS
    segments; \<open>PreviewCache\<close> bounds the bytes they take on disk.
  \<^item> Every change is announced as an event by \<open>ConnectionManager\<close>, which numbers events, buffers them
    for replay and fans them out to sockets, whose clients are remembered by token.
  \<^item> \<open>AsyncioJobQueue\<close> runs all other background jobs, and a registry of events wakes long-poll
    requests when a job ends.

  \<^bold>\<open>The theories, and the files they model.\<close>

  \<^item> \<open>Prelude\<close>: exceptions (\<open>exn\<close>), operations (\<open>('s, 'a) op\<close>, a result or an exception together with
    the state left behind), dictionaries as association lists in insertion order, stable sorting in
    both directions, slices and decimals. \<open>Tables\<close>: SQL statements over a list of rows with a key.
    \<open>Json\<close>: JSON values and the accesses the code makes.
  \<^item> \<open>Render_Models\<close> (\<open>render/models.py\<close>): the statuses, the table of transitions and the methods of
    \<open>RenderJob\<close>.
  \<^item> \<open>Render_Repository\<close> (\<open>render/render_repository.py\<close>): the protocol as a record of operations
    \<open>render_repo\<close>, its contract as the locale \<open>render_repository\<close> against a map from ids to jobs, and
    both implementations, \<open>mem_repo\<close> and \<open>sql_repo\<close>, interpreted as \<open>mem\<close> and \<open>sql\<close>.
    \<open>Repo_Equivalence\<close>: both refine one abstract repository (\<open>spec_call\<close>), call by call.
  \<^item> \<open>Render_Queue\<close> (\<open>render/queue.py\<close>): \<open>enqueue\<close>, \<open>dequeue\<close>, the counts and recovery, over any
    repository. \<open>Queue_Interleaving\<close>: the same code cut at its awaits, as a step relation over tasks.
  \<^item> \<open>Render_Checkpoints\<close> (\<open>render/checkpoints.py\<close>, on the table of \<open>db/schema.py\<close>).
  \<^item> \<open>Render_Executor\<close> (\<open>render/executor.py\<close>): the bookkeeping around a process.
  \<^item> \<open>Render_Service\<close> (\<open>render/service.py\<close>): the record \<open>service\<close> and every operation of the service.
    \<open>Service_Lemmas\<close> runs them when nobody interferes; \<open>Service_Outcomes\<close>, \<open>Service_Submit\<close> and
    \<open>Service_Throttle\<close> hold their properties.
  \<^item> \<open>Render_Worker\<close> (\<open>render/worker.py\<close>) and \<open>Render_Sweeper\<close> (\<open>render/sweeper.py\<close>): one round of
    each loop.
  \<^item> \<open>Json_Schema\<close> (the keywords of JSON Schema that the effects use), \<open>Filter_Text\<close> (argument conversion
    and filter text of the Rust core), \<open>Effect_Audio\<close>, \<open>Effect_Video\<close>, \<open>Effect_Colour\<close> (the build functions of
    \<open>effects/definitions.py\<close> with the builders of \<open>src/rust/stoat_ferret_core/src/ffmpeg\<close> they call),
    \<open>Effect_Definitions\<close> (the 41 effects and the registry made of them), \<open>Automation\<close> (keyframes and
    expressions), \<open>Effect_Registry\<close> (\<open>effects/registry.py\<close>). \<open>Effect_Soundness\<close>: which effects build a
    filter from everything their schema accepts; \<open>Effect_Properties\<close>: tempo chains and automation.
  \<^item> \<open>Media_Store\<close> (\<open>db/project_repository.py\<close>, \<open>clip_repository.py\<close>, \<open>timeline_repository.py\<close>,
    \<open>async_repository.py\<close>): eight repositories over one SQLite database and over dictionaries. Of the pairs and cues the
    database keeps what their foreign keys (\<open>db/schema.py\<close>) name, as that can refuse a deletion.
    \<open>Media_Contract\<close>: the locale \<open>media_store\<close>, four maps from ids to rows, interpreted on both.
    \<open>Project_Requests\<close>, \<open>Timeline_Requests\<close>, \<open>Effect_Requests\<close> (\<open>api/routers/projects.py\<close>, \<open>timeline.py\<close>,
    \<open>effects.py\<close>, with \<open>api/schemas\<close>): every request. \<open>Composition\<close>: the positions of clips under
    transitions in the Rust core. \<open>Media_Runs\<close> runs requests by rules for each call of a repository,
    \<open>Media_Invariants\<close> holds what all sequences of them keep, \<open>Media_Properties\<close> what single ones do.
  \<^item> \<open>Media_Models\<close> (clips, videos, projects, tracks and effects of \<open>db/models.py\<close>), \<open>Render_Command\<close>, \<open>Command_Streams\<close>
    and \<open>Command_Audio\<close> (the command builder of \<open>render/worker.py\<close>: inputs, the graph of video filters,
    the audio of the timeline), \<open>Ffmetadata\<close> (the chapter file of the worker).
  \<^item> \<open>Version_Store\<close>, \<open>Version_History\<close>, \<open>Version_Runs\<close> (\<open>db/version_repository.py\<close>): both
    repositories against the locale of the first, and histories of calls. \<open>Markers\<close> and
    \<open>Marker_Requests\<close> (\<open>db/markers_repository.py\<close>, \<open>api/routers/markers.py\<close>).
  \<^item> \<open>Batch_Store\<close> (\<open>db/batch_repository.py\<close>), \<open>Batch_Runs\<close> (\<open>api/routers/batch.py\<close>: requests, tasks
    and the semaphore as a transition system), \<open>Batch_Safety\<close> (its invariants and measure),
    \<open>Batch_Properties\<close>.
  \<^item> \<open>Preview_Cache\<close> (\<open>preview/cache.py\<close>), \<open>Preview_Store\<close> (\<open>db/preview_repository.py\<close>),
    \<open>Preview_Manager\<close> (\<open>preview/manager.py\<close>), \<open>Preview_Lifecycle\<close> (its invariant, over any store that
    meets the contract) and \<open>Preview_Sessions\<close>.
  \<^item> \<open>Proxy_Store\<close> (\<open>db/proxy_repository.py\<close>), \<open>Proxy_Service\<close> (\<open>api/services/proxy_service.py\<close>,
    \<open>api/routers/proxy.py\<close>) and \<open>Proxy_Properties\<close>: lower-resolution copies of videos, whose bytes are bounded.
  \<^item> \<open>Encoder_Cache\<close> (\<open>render/encoder_cache.py\<close> and the two requests for encoders in \<open>api/routers/render.py\<close>, as a
    transition system), \<open>Delivery_Profiles\<close> (\<open>db/delivery_profiles_repository.py\<close>, \<open>api/routers/delivery_profiles.py\<close>),
    \<open>QC_Service\<close> (\<open>api/services/qc_service.py\<close>, \<open>db/qc_repository.py\<close>, \<open>api/routers/qc.py\<close>) and \<open>QC_Properties\<close>.
  \<^item> \<open>Render_Requests\<close> (\<open>api/routers/render.py\<close>, \<open>api/schemas/render.py\<close>): every other request on renders, over the
    service and the repositories of a project; \<open>Render_Request_Properties\<close>: the job a request creates, from the
    router to the command the worker builds from its plan.
  \<^item> \<open>Version_Requests\<close> (\<open>api/routers/versions.py\<close>): the requests on versions, proved in the locale \<open>version_api\<close> for
    every repository of timelines and every repository of versions.
  \<^item> \<open>Tts_Cues\<close> (\<open>db/tts_cue_repository.py\<close>, \<open>api/routers/tts.py\<close>), \<open>Tts_Synthesis\<close> (\<open>api/services/tts_service.py\<close>, as
    a transition system of requests and tasks) and \<open>Tts_Properties\<close>: narration cues and their speech.
  \<^item> \<open>Audio_Mixing\<close> (\<open>api/routers/audio.py\<close>, \<open>api/services/audio_service.py\<close>, \<open>db/ducking_pair_repository.py\<close> and the
    mixers of \<open>src/rust/stoat_ferret_core/src/ffmpeg/audio.rs\<close>) and \<open>Audio_Properties\<close>. The former also reads the text of a
    filter graph back, by the syntax FFmpeg documents, so that what a graph connects is stated of its text.
  \<^item> \<open>Thumbnails\<close> (\<open>db/thumbnail_strip_repository.py\<close>, \<open>api/services/thumbnail.py\<close>, \<open>api/routers/thumbnails.py\<close>),
    \<open>Waveforms\<close> (\<open>db/waveform_repository.py\<close>, \<open>api/services/waveform.py\<close>, \<open>api/routers/waveform.py\<close>) and their properties:
    sprite sheets and drawings or samples of the sound of a video, each generated by one background task.
  \<^item> \<open>Ws_Events\<close> (\<open>api/websocket/events.py\<close>), \<open>Ws_Identity\<close> (\<open>api/websocket/identity.py\<close>), \<open>Ws_Manager\<close>
    (\<open>api/websocket/manager.py\<close> and the endpoint \<open>api/routers/ws.py\<close>).
  \<^item> \<open>Job_Queue\<close> (\<open>jobs/queue.py\<close>, \<open>api/services/job_completion.py\<close>): the in-memory queue, the asyncio
    queue and the waiters. \<open>Job_Queue_Runs\<close>: the asyncio queue with its clients and worker as a step
    relation \<open>aq_step\<close>, and the contract \<open>job_registry\<close> both queues meet.

  \<^bold>\<open>How state corresponds.\<close> A data class is a record with the fields of the class, an object with
  mutable attributes a record its methods take and return, a module-level counter a field of the
  state of who uses it. A \<open>dict\<close> is an association list in insertion order, a table the list of its
  rows in rowid order, an \<open>asyncio.Event\<close> a number with a set of those that are set. A raise is \<open>Inl\<close>
  of an exception and keeps what was written before it. Enum members that the code stores or compares
  by value keep their strings. Clocks and random identifiers are arguments: \<open>clk i\<close> is the \<open>i\<close>-th
  reading an operation makes. Times are integers in microseconds, and a float that is only compared,
  added or multiplied is a \<open>rat\<close>, so rounding is not modelled (\<open>Service_Throttle\<close> takes the thresholds
  0.5 and 0.05 as exact fractions).

  \<^bold>\<open>Concurrency.\<close> asyncio switches tasks only at an await. Where an operation suspends and the code has
  to cope with what happens meanwhile, the model lets it happen: an argument \<open>during\<close> or a schedule
  gives the effect of the others (the executor's run, cancellation, a broadcast), or the operation is
  cut into steps of a transition system (\<open>Queue_Interleaving\<close>, \<open>Job_Queue_Runs\<close>, \<open>Batch_Runs\<close>, \<open>Encoder_Cache\<close>, \<open>Tts_Synthesis\<close>). A
  single awaited repository call is one atomic step. The methods of \<open>PreviewManager\<close> are one step each,
  and so is the end of a generation. A request on a project runs alone. A task may be cancelled where it is
  suspended: the worker of the job queue inside a handler, a generation of a proxy during the run of FFmpeg, a task of a batch or
  of a synthesis, and every preview by \<open>cancel_all\<close>; what is left behind then is part of the properties.

  \<^bold>\<open>What the lemmas show.\<close> Preservation of the invariants of repositories, executor, identity store and
  connection manager by every operation; the reply and the effect of every operation on every branch;
  the equivalence of the two repositories; the invariants of the transition systems by rule
  induction (no overcommitted queue, no lost wake-up, queued ids are the pending jobs, no more batch
  jobs rendering than permits); and, over
  those, the properties the program is meant to have: a round of the worker settles its job, attempts
  are bounded, submission is all or nothing, cancellation never overwrites a finished job, replay
  resumes exactly where a client stopped, a clip never leaves its video, an accepted effect has a
  filter, a compiled envelope takes the values of its keyframes. Some properties state a limit of the code instead: two
  enqueues can overshoot the depth, a connecting client aborts a broadcast in progress, recovery finds
  no resume points because the jobs were failed first.

  \<^bold>\<open>Bounds.\<close> The loops of the modelled code run over finite lists, so the definitions are structural
  and there is no fuel, except for the eviction of the preview cache: a \<open>while_option\<close>, of which it is
  proved that it returns; the tempo chains halve or double a tempo and end by a measure. That the tasks of a batch end is proved by a measure on the transition system. Python integers are unbounded, hence \<open>int\<close> and \<open>nat\<close>; where a
  value enters the Rust core its conversion to an unsigned or signed width raises outside the range.

  \<^bold>\<open>Packages.\<close> \<open>jsonschema\<close> and the fields pydantic builds are arguments (\<open>packages\<close>); where a property
  relies on validation it assumes \<open>draft7\<close>, that the validator reports no error exactly on values that
  conform to the schema. The text Rust and Python give a float, parsing of numbers and powers of ten are
  arguments as well (\<open>effect_env\<close>), and so is the text of a composition graph. An integer beyond the range of a float raises
  \<open>OverflowError\<close> where it is converted.

  \<^bold>\<open>What is not modelled.\<close> FFmpeg and its pipes, the file system beyond the paths and
  sizes the code asks for, the parsers of FFmpeg's reports and \<open>json.loads\<close> are arguments (\<open>sv_env\<close>, \<open>proc_end\<close>, \<open>qc_env\<close>):
  their code is not part of the repository's Python, and the results hold for any behaviour of them.
  The HLS generator and the filter graphs of the render translator are arguments too. Of the Rust core
  the builders of effects and automation, the aggregation of a batch's progress, the validation of a
  clip and the positions of a composition are modelled. Removing a directory succeeds. Prometheus
  metrics, logging and request parsing are left out; so are the repository of assets,
  the schema migrations, the scan of a library and the other routers.
\<close>

end
